(* ===== verification/Vnvme_Prelude.thy ===== *)
theory Vnvme_Prelude
  imports Main "HOL-Library.Word" "HOL-Library.Monad_Syntax"
begin

text \<open>
  Shared vocabulary of the development: the C integer types as machine words, a
  byte-addressed little-endian memory (the contiguous blocks the driver allocates:
  the shared memory, BAR0, and the host's physical memory), checked array access,
  and the arithmetic of ring indices.

  An operation of the driver that can leave defined behaviour (an access past the
  end of a block, a remainder by zero, a loop that does not end) has an \<open>option\<close>
  result: \<open>None\<close> is the execution that does not return normally.
\<close>

unbundle bit_operations_syntax

named_theorems mem_read_write \<open>reading back what a write to the same place stored\<close>
named_theorems mem_frame \<open>reads that a write elsewhere does not change\<close>

section \<open>Machine integers\<close>

type_synonym u8 = "8 word"
type_synonym u16 = "16 word"
type_synonym u32 = "32 word"
type_synonym u64 = "64 word"

lemma unat_u8_bound: "unat (x :: u8) < 256"
  using unsigned_less [of x] by simp

lemma unat_u16_bound: "unat (x :: u16) < 65536"
  using unsigned_less [of x] by simp

lemma unat_u32_bound: "unat (x :: u32) < 4294967296"
  using unsigned_less [of x] by simp

lemma unat_ucast_up [simp]:
  fixes x :: "'a::len word"
  assumes "LENGTH('a) \<le> LENGTH('b::len)"
  shows "unat (ucast x :: 'b word) = unat x"
proof -
  have "unat x < 2 ^ LENGTH('b)"
    using unsigned_less [of x] assms by (meson less_le_trans one_le_numeral power_increasing)
  then show ?thesis
    by (simp add: unsigned_ucast_eq take_bit_nat_eq_self)
qed

lemma sint_small:
  fixes w :: u64
  assumes "unat w < 2 ^ 63"
  shows "sint w = int (unat w)"
proof -
  have "int (unat w) < int (2 ^ 63)"
    using assms by (simp only: of_nat_less_iff)
  then have "uint w < 2 ^ 63" by simp
  then have "signed_take_bit 63 (uint w) = uint w"
    by (intro signed_take_bit_int_eq_self) (simp_all add: order_trans [OF _ uint_ge_0])
  then show ?thesis by (simp add: sint_uint)
qed

text \<open>Masking with \<open>2 ^ k - 1\<close> keeps the low bits; a value below \<open>2 ^ k\<close> has no others.\<close>

lemma and_low_mask [simp]:
  fixes x :: "'a::len word"
  shows "x AND 0x3 = take_bit 2 x" and "x AND 0x7 = take_bit 3 x" and "x AND 0xF = take_bit 4 x"
    and "x AND 0xFF = take_bit 8 x" and "x AND 0xFFF = take_bit 12 x"
    and "x AND 0xFFFF = take_bit 16 x"
  by (simp_all add: take_bit_eq_mask mask_eq_exp_minus_1)

lemma bit_below:
  fixes x :: "'a::len word"
  assumes "x < 2 ^ k" "bit x n"
  shows "n < k"
proof -
  have "unat x < unat ((2 :: 'a word) ^ k)"
    using assms(1) by (simp add: word_less_nat_alt)
  also have "\<dots> = 2 ^ k mod 2 ^ LENGTH('a)"
    using unat_of_nat [of "2 ^ k", where 'a = 'a] by simp
  also have "\<dots> \<le> 2 ^ k" by (rule mod_less_eq_dividend)
  finally have upper: "unat x < 2 ^ k" .
  have "odd (unat x div 2 ^ n)"
    using assms(2) by (simp add: bit_iff_odd [symmetric] bit_unsigned_iff)
  then have "2 ^ n \<le> unat x"
    by (metis div_less even_zero not_le)
  with upper show ?thesis
    by (metis le_less_trans nat_power_less_imp_less zero_less_numeral)
qed

lemma bit_times_two: "bit (x * 2 :: 'a::len word) n \<longleftrightarrow> n \<noteq> 0 \<and> n < LENGTH('a) \<and> bit x (n - 1)"
  using bit_double_iff [of x n] by (auto simp: mult.commute)

lemma bit_odd_word: "bit (1 :: 'a::len word) n \<longleftrightarrow> n = 0"
  by (simp add: bit_1_iff)

lemma unat_u64_bound: "unat (x :: u64) < 18446744073709551616"
  using unsigned_less [of x] by simp

section \<open>Byte-addressed memory\<close>

type_synonym mem = "nat \<Rightarrow> u8"

definition rd16 :: "mem \<Rightarrow> nat \<Rightarrow> u16" where
  "rd16 m a = ucast (m a) OR push_bit 8 (ucast (m (a + 1)))"

definition rd32 :: "mem \<Rightarrow> nat \<Rightarrow> u32" where
  "rd32 m a = ucast (rd16 m a) OR push_bit 16 (ucast (rd16 m (a + 2)))"

definition rd64 :: "mem \<Rightarrow> nat \<Rightarrow> u64" where
  "rd64 m a = ucast (rd32 m a) OR push_bit 32 (ucast (rd32 m (a + 4)))"

definition wr8 :: "nat \<Rightarrow> u8 \<Rightarrow> mem \<Rightarrow> mem" where
  "wr8 a v m = m(a := v)"

definition wr16 :: "nat \<Rightarrow> u16 \<Rightarrow> mem \<Rightarrow> mem" where
  "wr16 a v m = m(a := ucast v, a + 1 := ucast (drop_bit 8 v))"

definition wr32 :: "nat \<Rightarrow> u32 \<Rightarrow> mem \<Rightarrow> mem" where
  "wr32 a v m = wr16 (a + 2) (ucast (drop_bit 16 v)) (wr16 a (ucast v) m)"

definition wr64 :: "nat \<Rightarrow> u64 \<Rightarrow> mem \<Rightarrow> mem" where
  "wr64 a v m = wr32 (a + 4) (ucast (drop_bit 32 v)) (wr32 a (ucast v) m)"

text \<open>\<open>RtlZeroMemory\<close> and \<open>RtlCopyMemory\<close> on a block.\<close>

definition zero_range :: "nat \<Rightarrow> nat \<Rightarrow> mem \<Rightarrow> mem" where
  "zero_range a n m = (\<lambda>x. if a \<le> x \<and> x < a + n then 0 else m x)"

definition rd_bytes :: "mem \<Rightarrow> nat \<Rightarrow> nat \<Rightarrow> u8 list" where
  "rd_bytes m a n = map m [a..<a + n]"

definition wr_bytes :: "nat \<Rightarrow> u8 list \<Rightarrow> mem \<Rightarrow> mem" where
  "wr_bytes a bs m = (\<lambda>x. if a \<le> x \<and> x < a + length bs then bs ! (x - a) else m x)"

text \<open>The bytes a write may change: two memories agree outside \<open>S\<close>.\<close>

definition same_outside :: "nat set \<Rightarrow> mem \<Rightarrow> mem \<Rightarrow> bool" where
  "same_outside S m m' \<longleftrightarrow> (\<forall>x. x \<notin> S \<longrightarrow> m' x = m x)"

lemma same_outside_refl [simp, intro]: "same_outside S m m"
  by (simp add: same_outside_def)

lemma same_outside_trans:
  "same_outside S m m' \<Longrightarrow> same_outside S m' m'' \<Longrightarrow> same_outside S m m''"
  by (simp add: same_outside_def)

lemma same_outside_mono: "same_outside S m m' \<Longrightarrow> S \<subseteq> T \<Longrightarrow> same_outside T m m'"
  by (auto simp: same_outside_def)

lemma same_outsideD: "same_outside S m m' \<Longrightarrow> x \<notin> S \<Longrightarrow> m' x = m x"
  by (simp add: same_outside_def)

subsection \<open>What each write changes\<close>

lemma wr8_at: "wr8 a v m x = (if x = a then v else m x)"
  by (simp add: wr8_def)

lemma wr16_at:
  "wr16 a v m x = (if x = a then ucast v else if x = a + 1 then ucast (drop_bit 8 v) else m x)"
  by (simp add: wr16_def)

lemma wr16_outside: "x < a \<or> a + 2 \<le> x \<Longrightarrow> wr16 a v m x = m x"
  by (auto simp: wr16_def)

lemma wr32_outside: "x < a \<or> a + 4 \<le> x \<Longrightarrow> wr32 a v m x = m x"
  by (auto simp: wr32_def wr16_outside)

lemma wr64_outside: "x < a \<or> a + 8 \<le> x \<Longrightarrow> wr64 a v m x = m x"
  by (auto simp: wr64_def wr32_outside)

lemma same_outside_wr8: "a \<in> S \<Longrightarrow> same_outside S m (wr8 a v m)"
  by (auto simp: same_outside_def wr8_at)

lemma same_outside_wr16: "{a..<a + 2} \<subseteq> S \<Longrightarrow> same_outside S m (wr16 a v m)"
  unfolding same_outside_def
  by (metis atLeastLessThan_iff not_le subsetD wr16_outside)

lemma same_outside_wr32: "{a..<a + 4} \<subseteq> S \<Longrightarrow> same_outside S m (wr32 a v m)"
  unfolding same_outside_def
  by (metis atLeastLessThan_iff not_le subsetD wr32_outside)

lemma same_outside_wr64: "{a..<a + 8} \<subseteq> S \<Longrightarrow> same_outside S m (wr64 a v m)"
  unfolding same_outside_def
  by (metis atLeastLessThan_iff not_le subsetD wr64_outside)

lemma same_outside_zero_range: "{a..<a + n} \<subseteq> S \<Longrightarrow> same_outside S m (zero_range a n m)"
  by (auto simp: same_outside_def zero_range_def)

lemma same_outside_wr_bytes: "{a..<a + length bs} \<subseteq> S \<Longrightarrow> same_outside S m (wr_bytes a bs m)"
  by (auto simp: same_outside_def wr_bytes_def)

subsection \<open>Reads depend only on their own bytes\<close>

lemma rd16_cong: "m' a = m a \<Longrightarrow> m' (a + 1) = m (a + 1) \<Longrightarrow> rd16 m' a = rd16 m a"
  by (simp add: rd16_def)

lemma rd16_eqI: "(\<And>x. a \<le> x \<Longrightarrow> x < a + 2 \<Longrightarrow> m' x = m x) \<Longrightarrow> rd16 m' a = rd16 m a"
  by (simp add: rd16_def)

lemma rd32_eqI: "(\<And>x. a \<le> x \<Longrightarrow> x < a + 4 \<Longrightarrow> m' x = m x) \<Longrightarrow> rd32 m' a = rd32 m a"
  unfolding rd32_def by (intro arg_cong2 [where f = "(OR)"] arg_cong [where f = ucast]
    arg_cong [where f = "push_bit 16"] rd16_eqI) auto

lemma rd64_eqI: "(\<And>x. a \<le> x \<Longrightarrow> x < a + 8 \<Longrightarrow> m' x = m x) \<Longrightarrow> rd64 m' a = rd64 m a"
  unfolding rd64_def by (intro arg_cong2 [where f = "(OR)"] arg_cong [where f = ucast]
    arg_cong [where f = "push_bit 32"] rd32_eqI) auto

lemma rd32_same_outside:
  "same_outside S m m' \<Longrightarrow> {a..<a + 4} \<inter> S = {} \<Longrightarrow> rd32 m' a = rd32 m a"
  by (rule rd32_eqI) (meson atLeastLessThan_iff disjoint_iff same_outsideD)

lemma rd64_same_outside:
  "same_outside S m m' \<Longrightarrow> {a..<a + 8} \<inter> S = {} \<Longrightarrow> rd64 m' a = rd64 m a"
  by (rule rd64_eqI) (meson atLeastLessThan_iff disjoint_iff same_outsideD)

subsection \<open>Reading what was written\<close>

lemma rd16_wr16 [mem_read_write]: "rd16 (wr16 a v m) a = v"
  by (rule bit_word_eqI) (auto simp: rd16_def wr16_at bit_simps)

lemma rd16_wr16_apart [mem_frame]: "b + 2 \<le> a \<or> a + 2 \<le> b \<Longrightarrow> rd16 (wr16 a v m) b = rd16 m b"
  by (rule rd16_eqI) (auto simp: wr16_outside)

lemma rd32_wr32 [mem_read_write]: "rd32 (wr32 a v m) a = v"
proof -
  have "rd16 (wr32 a v m) a = ucast v"
    by (simp add: wr32_def rd16_wr16_apart rd16_wr16)
  moreover have "rd16 (wr32 a v m) (a + 2) = ucast (drop_bit 16 v)"
    by (simp only: wr32_def rd16_wr16)
  ultimately show ?thesis
    unfolding rd32_def by (intro bit_word_eqI) (auto simp: bit_simps)
qed

lemma rd32_wr32_apart [mem_frame]: "b + 4 \<le> a \<or> a + 4 \<le> b \<Longrightarrow> rd32 (wr32 a v m) b = rd32 m b"
  by (rule rd32_eqI) (auto simp: wr32_outside)

lemma rd64_wr64 [mem_read_write]: "rd64 (wr64 a v m) a = v"
proof -
  have "rd32 (wr64 a v m) a = ucast v"
    by (simp add: wr64_def rd32_wr32_apart rd32_wr32)
  moreover have "rd32 (wr64 a v m) (a + 4) = ucast (drop_bit 32 v)"
    by (simp only: wr64_def rd32_wr32)
  ultimately show ?thesis
    unfolding rd64_def by (intro bit_word_eqI) (auto simp: bit_simps)
qed

lemma rd64_wr64_apart [mem_frame]: "b + 8 \<le> a \<or> a + 8 \<le> b \<Longrightarrow> rd64 (wr64 a v m) b = rd64 m b"
  by (rule rd64_eqI) (auto simp: wr64_outside)

lemma rd16_wr32_apart [mem_frame]: "b + 2 \<le> a \<or> a + 4 \<le> b \<Longrightarrow> rd16 (wr32 a v m) b = rd16 m b"
  by (rule rd16_eqI) (auto simp: wr32_outside)

lemma rd32_wr16_apart [mem_frame]: "b + 4 \<le> a \<or> a + 2 \<le> b \<Longrightarrow> rd32 (wr16 a v m) b = rd32 m b"
  by (rule rd32_eqI) (auto simp: wr16_outside)

lemma rd16_wr64_apart [mem_frame]: "b + 2 \<le> a \<or> a + 8 \<le> b \<Longrightarrow> rd16 (wr64 a v m) b = rd16 m b"
  by (rule rd16_eqI) (auto simp: wr64_outside)

lemma rd32_wr64_apart [mem_frame]: "b + 4 \<le> a \<or> a + 8 \<le> b \<Longrightarrow> rd32 (wr64 a v m) b = rd32 m b"
  by (rule rd32_eqI) (auto simp: wr64_outside)

lemma rd64_wr32_apart [mem_frame]: "b + 8 \<le> a \<or> a + 4 \<le> b \<Longrightarrow> rd64 (wr32 a v m) b = rd64 m b"
  by (rule rd64_eqI) (auto simp: wr32_outside)

lemma rd32_zero_range_apart [mem_frame]:
  "b + 4 \<le> a \<or> a + n \<le> b \<Longrightarrow> rd32 (zero_range a n m) b = rd32 m b"
  by (rule rd32_eqI) (auto simp: zero_range_def)

lemma rd64_zero_range_apart [mem_frame]:
  "b + 8 \<le> a \<or> a + n \<le> b \<Longrightarrow> rd64 (zero_range a n m) b = rd64 m b"
  by (rule rd64_eqI) (auto simp: zero_range_def)

lemma rd_wr8_apart [mem_frame]:
  "a < b \<or> b + 2 \<le> a \<Longrightarrow> rd16 (wr8 a v m) b = rd16 m b"
  "a < b \<or> b + 4 \<le> a \<Longrightarrow> rd32 (wr8 a v m) b = rd32 m b"
  "a < b \<or> b + 8 \<le> a \<Longrightarrow> rd64 (wr8 a v m) b = rd64 m b"
  by (auto intro!: rd16_eqI rd32_eqI rd64_eqI simp: wr8_at)

lemma rd_wr_bytes_apart [mem_frame]:
  "b + 2 \<le> a \<or> a + length bs \<le> b \<Longrightarrow> rd16 (wr_bytes a bs m) b = rd16 m b"
  "b + 4 \<le> a \<or> a + length bs \<le> b \<Longrightarrow> rd32 (wr_bytes a bs m) b = rd32 m b"
  "b + 8 \<le> a \<or> a + length bs \<le> b \<Longrightarrow> rd64 (wr_bytes a bs m) b = rd64 m b"
  by (auto intro!: rd16_eqI rd32_eqI rd64_eqI simp: wr_bytes_def)

text \<open>Reading at a distance from a base is reading the memory seen from that base.\<close>

lemma rd16_shift: "rd16 m (a + b) = rd16 (\<lambda>x. m (a + x)) b"
  by (simp add: rd16_def)

lemma rd32_shift: "rd32 m (a + b) = rd32 (\<lambda>x. m (a + x)) b"
  by (simp only: rd32_def rd16_shift [symmetric] add.assoc)

lemma rd64_shift: "rd64 m (a + b) = rd64 (\<lambda>x. m (a + x)) b"
  by (simp only: rd64_def rd32_shift [symmetric] add.assoc)

lemmas rd_shift = rd16_shift rd32_shift rd64_shift

lemma rd16_zero [simp]: "rd16 (\<lambda>_. 0) a = 0"
  by (simp add: rd16_def)

lemma rd32_zero [simp]: "rd32 (\<lambda>_. 0) a = 0"
  by (simp add: rd32_def)

lemma rd64_zero [simp]: "rd64 (\<lambda>_. 0) a = 0"
  by (simp add: rd64_def)

lemmas mem_simps = mem_read_write mem_frame

lemma length_rd_bytes [simp]: "length (rd_bytes m a n) = n"
  by (simp add: rd_bytes_def)

lemma nth_rd_bytes [simp]: "i < n \<Longrightarrow> rd_bytes m a n ! i = m (a + i)"
  by (simp add: rd_bytes_def)

lemma rd_bytes_wr_bytes: "rd_bytes (wr_bytes a bs m) a (length bs) = bs"
  by (rule nth_equalityI) (auto simp: wr_bytes_def)

lemma rd_bytes_wr_bytes_apart:
  "b + n \<le> a \<or> a + length bs \<le> b \<Longrightarrow> rd_bytes (wr_bytes a bs m) b n = rd_bytes m b n"
  by (rule nth_equalityI) (auto simp: wr_bytes_def)

lemma rd_bytes_append: "rd_bytes m a (n + k) = rd_bytes m a n @ rd_bytes m (a + n) k"
  unfolding rd_bytes_def map_append [symmetric]
  by (metis add.assoc le_add1 upt_add_eq_append)

lemma wr_bytes_Nil [simp]: "wr_bytes a [] m = m"
  by (rule ext) (auto simp: wr_bytes_def)

subsection \<open>Writes as local updates\<close>

text \<open>\<open>local_write S f\<close>: \<open>f\<close> stores fixed bytes into \<open>S\<close> and touches nothing else. Local writes to disjoint places
  commute, and a write hides an earlier one inside its place.\<close>

definition local_write :: "nat set \<Rightarrow> (mem \<Rightarrow> mem) \<Rightarrow> bool" where
  "local_write S f \<longleftrightarrow> (\<forall>m x. x \<notin> S \<longrightarrow> f m x = m x) \<and> (\<forall>m m' x. x \<in> S \<longrightarrow> f m x = f m' x)"

lemma local_write_same_outside: "local_write S f \<Longrightarrow> same_outside S m (f m)"
  by (simp add: local_write_def same_outside_def)

lemma local_write_commute:
  assumes "local_write S f" "local_write T g" "S \<inter> T = {}"
  shows "f (g m) = g (f m)"
proof
  fix x
  show "f (g m) x = g (f m) x"
    using assms unfolding local_write_def by (metis disjoint_iff)
qed

lemma local_write_hides:
  assumes "local_write S f" "local_write T g" "T \<subseteq> S"
  shows "f (g m) = f m"
proof
  fix x
  show "f (g m) x = f m x"
    using assms unfolding local_write_def by (metis subsetD)
qed

lemma local_write_comp:
  assumes "local_write S f" "local_write T g"
  shows "local_write (S \<union> T) (\<lambda>m. f (g m))"
  using assms unfolding local_write_def by (metis UnI1 UnI2 UnE)

lemma local_write_wr16: "local_write {a..<a + 2} (wr16 a v)"
  unfolding local_write_def by (auto simp: wr16_at)

lemma local_write_wr32: "local_write {a..<a + 4} (wr32 a v)"
proof -
  have "local_write ({a + 2..<a + 2 + 2} \<union> {a..<a + 2}) (\<lambda>m. wr16 (a + 2) (ucast (drop_bit 16 v)) (wr16 a (ucast v) m))"
    by (intro local_write_comp local_write_wr16)
  moreover have "{a + 2..<a + 2 + 2} \<union> {a..<a + 2} = {a..<a + 4}" by auto
  ultimately show ?thesis by (simp add: wr32_def [abs_def])
qed

lemma local_write_wr64: "local_write {a..<a + 8} (wr64 a v)"
proof -
  have "local_write ({a + 4..<a + 4 + 4} \<union> {a..<a + 4}) (\<lambda>m. wr32 (a + 4) (ucast (drop_bit 32 v)) (wr32 a (ucast v) m))"
    by (intro local_write_comp local_write_wr32)
  moreover have "{a + 4..<a + 4 + 4} \<union> {a..<a + 4} = {a..<a + 8}" by auto
  ultimately show ?thesis by (simp add: wr64_def [abs_def])
qed

section \<open>Faults and checked access\<close>

text \<open>\<open>check P\<close> is the access that is defined only where \<open>P\<close> holds.\<close>

definition check :: "bool \<Rightarrow> unit option" where
  "check P = (if P then Some () else None)"

lemma check_True [simp]: "check True = Some ()"
  by (simp add: check_def)

lemma check_False [simp]: "check False = None"
  by (simp add: check_def)

lemma check_bind: "(check P \<bind> f) = (if P then f () else None)"
  by (simp add: check_def)

lemma check_bind_Some [simp]: "(check P \<bind> f) = Some y \<longleftrightarrow> P \<and> f () = Some y"
  by (simp add: check_def)

text \<open>Indexing a fixed-size C array.\<close>

definition arr_get :: "'a list \<Rightarrow> nat \<Rightarrow> 'a option" where
  "arr_get xs i = (if i < length xs then Some (xs ! i) else None)"

lemma arr_get_in [simp]: "i < length xs \<Longrightarrow> arr_get xs i = Some (xs ! i)"
  by (simp add: arr_get_def)

lemma arr_get_Some: "arr_get xs i = Some x \<longleftrightarrow> i < length xs \<and> x = xs ! i"
  by (auto simp: arr_get_def)

lemma bind_Some_iff: "(x \<bind> f) = Some y \<longleftrightarrow> (\<exists>z. x = Some z \<and> f z = Some y)"
  by (cases x) auto

section \<open>Ring indices\<close>

text \<open>\<open>ring_dist h t n\<close> is the number of entries from \<open>h\<close> up to \<open>t\<close> in a ring of size \<open>n\<close>.\<close>

definition ring_dist :: "nat \<Rightarrow> nat \<Rightarrow> nat \<Rightarrow> nat" where
  "ring_dist h t n = (if h \<le> t then t - h else n - h + t)"

lemma ring_dist_zero_iff: "h < n \<Longrightarrow> t < n \<Longrightarrow> ring_dist h t n = 0 \<longleftrightarrow> h = t"
  by (auto simp: ring_dist_def)

lemma ring_dist_less: "h < n \<Longrightarrow> t < n \<Longrightarrow> ring_dist h t n < n"
  by (auto simp: ring_dist_def)

lemma ring_dist_step:
  "h < n \<Longrightarrow> t < n \<Longrightarrow> h \<noteq> t \<Longrightarrow> ring_dist h t n = Suc (ring_dist (Suc h mod n) t n)"
  by (auto simp: ring_dist_def mod_Suc)

lemma ring_dist_tail:
  "h < n \<Longrightarrow> t < n \<Longrightarrow> Suc t mod n \<noteq> h \<Longrightarrow> ring_dist h (Suc t mod n) n = Suc (ring_dist h t n)"
  by (auto simp: ring_dist_def mod_Suc)

lemma ring_dist_mod: "h < n \<Longrightarrow> t < n \<Longrightarrow> (h + ring_dist h t n) mod n = t"
  by (auto simp: ring_dist_def)

lemma ring_full_iff: "h < n \<Longrightarrow> t < n \<Longrightarrow> Suc t mod n = h \<longleftrightarrow> ring_dist h t n = n - 1"
  by (auto simp: ring_dist_def mod_Suc)

text \<open>The entries of a ring, oldest first.\<close>

definition ring_list :: "(nat \<Rightarrow> 'a) \<Rightarrow> nat \<Rightarrow> nat \<Rightarrow> nat \<Rightarrow> 'a list" where
  "ring_list e h t n = map (\<lambda>i. e ((h + i) mod n)) [0..<ring_dist h t n]"

lemma ring_list_Nil_iff: "h < n \<Longrightarrow> t < n \<Longrightarrow> ring_list e h t n = [] \<longleftrightarrow> h = t"
  by (simp add: ring_list_def ring_dist_zero_iff)

lemma length_ring_list [simp]: "length (ring_list e h t n) = ring_dist h t n"
  by (simp add: ring_list_def)

lemma ring_list_pop:
  assumes "h < n" "t < n" "h \<noteq> t"
  shows "ring_list e h t n = e h # ring_list e (Suc h mod n) t n"
proof -
  have "[0..<Suc k] = 0 # map Suc [0..<k]" for k
    by (simp add: map_Suc_upt upt_conv_Cons del: upt_Suc)
  then have "ring_list e h t n = map (\<lambda>i. e ((h + i) mod n)) (0 # map Suc [0..<ring_dist (Suc h mod n) t n])"
    using ring_dist_step [OF assms] by (simp only: ring_list_def)
  also have "\<dots> = e h # ring_list e (Suc h mod n) t n"
    using assms by (simp add: ring_list_def mod_add_left_eq)
  finally show ?thesis .
qed

lemma ring_list_push:
  assumes "h < n" "t < n" "Suc t mod n \<noteq> h"
  shows "ring_list e h (Suc t mod n) n = ring_list e h t n @ [e t]"
  using assms by (simp add: ring_list_def ring_dist_tail ring_dist_mod)

lemma ring_list_cong:
  "(\<And>i. i < n \<Longrightarrow> e i = e' i) \<Longrightarrow> 0 < n \<Longrightarrow> ring_list e h t n = ring_list e' h t n"
  by (simp add: ring_list_def)

lemma ring_list_upd_tail:
  assumes "h < n" "t < n"
  shows "ring_list (e(t := x)) h t n = ring_list e h t n"
proof -
  have "(h + i) mod n \<noteq> t" if i: "i < ring_dist h t n" for i
  proof (cases "h + i < n")
    case True
    with i assms show ?thesis by (auto simp: ring_dist_def split: if_splits)
  next
    case False
    with i assms have less: "h + i - n < t"
      by (auto simp: ring_dist_def split: if_splits)
    with False assms have "(h + i) mod n = h + i - n"
      by (simp add: le_mod_geq)
    with less show ?thesis by simp
  qed
  then show ?thesis by (simp add: ring_list_def)
qed

lemma unat_word_suc_mod:
  fixes t n :: u32
  assumes "t < n"
  shows "unat ((t + 1) mod n) = Suc (unat t) mod unat n"
proof -
  have "unat t < unat n" using assms by (simp add: word_less_nat_alt)
  then have "unat (t + 1) = Suc (unat t)"
    using unat_u32_bound [of n] by (simp add: unat_word_ariths)
  then show ?thesis by (simp add: unat_mod)
qed

lemma word_suc_mod_less:
  fixes t n :: u32
  assumes "0 < n"
  shows "(t + 1) mod n < n"
  using assms by (simp add: word_less_nat_alt unat_mod)

end
