(* ===== verification/Vnvme_Spec.thy ===== *)
theory Vnvme_Spec
  imports Vnvme_Prelude
begin

text \<open>
  The data the driver exchanges with the host: \<^verbatim>\<open>include/nvme_spec.h\<close> (register bit
  fields, submission and completion queue entries), the constants of
  \<^verbatim>\<open>include/vnvme_common.h\<close> and \<^verbatim>\<open>vnvme/vnvme.h\<close>, and the inline helpers of
  \<^verbatim>\<open>vnvme/vnvme_utils.h\<close>. A queue entry is a record here and a run of bytes in memory;
  \<open>rd_NVME_COMMAND\<close>, \<open>rd_NVME_COMPLETION\<close> and their writers translate.
\<close>

section \<open>Status codes of the kernel\<close>

text \<open>
  The \<open>NTSTATUS\<close> codes the driver names; \<open>STATUS_OTHER c\<close> is a code an operating-system
  call returned. \<open>NT_SUCCESS\<close> is true of the codes whose top bit is clear: of the named
  ones \<open>STATUS_SUCCESS\<close> alone (\<open>STATUS_NO_MORE_ENTRIES\<close> is a warning code, 0x8000001A).
\<close>

datatype NTSTATUS =
    STATUS_SUCCESS
  | STATUS_UNSUCCESSFUL
  | STATUS_INVALID_PARAMETER
  | STATUS_INVALID_DEVICE_STATE
  | STATUS_DEVICE_NOT_READY
  | STATUS_DEVICE_BUSY
  | STATUS_OBJECT_NAME_COLLISION
  | STATUS_NOT_FOUND
  | STATUS_NO_MORE_ENTRIES
  | STATUS_INSUFFICIENT_RESOURCES
  | STATUS_NOT_SUPPORTED
  | STATUS_MEDIA_WRITE_PROTECTED
  | STATUS_ACCESS_VIOLATION
  | STATUS_BUFFER_TOO_SMALL
  | STATUS_REVISION_MISMATCH
  | STATUS_INTEGER_OVERFLOW
  | STATUS_QUOTA_EXCEEDED
  | STATUS_ACCESS_DENIED
  | STATUS_INVALID_DEVICE_REQUEST
  | STATUS_DEVICE_ALREADY_ATTACHED
  | STATUS_OTHER u32

fun NT_SUCCESS :: "NTSTATUS \<Rightarrow> bool" where
  "NT_SUCCESS STATUS_SUCCESS = True"
| "NT_SUCCESS (STATUS_OTHER c) = (\<not> bit c 31)"
| "NT_SUCCESS _ = False"

section \<open>Constants\<close>

abbreviation (input) VNVME_SHM_SIZE :: nat where "VNVME_SHM_SIZE \<equiv> 67108864"
abbreviation (input) VNVME_CONTROL_BLOCK_SIZE :: nat where "VNVME_CONTROL_BLOCK_SIZE \<equiv> 4096"
abbreviation (input) VNVME_ADMIN_QUEUE_DEPTH :: nat where "VNVME_ADMIN_QUEUE_DEPTH \<equiv> 64"
abbreviation (input) VNVME_IO_QUEUE_DEPTH :: nat where "VNVME_IO_QUEUE_DEPTH \<equiv> 256"
abbreviation (input) VNVME_MAX_IO_QUEUES :: nat where "VNVME_MAX_IO_QUEUES \<equiv> 16"
abbreviation (input) VNVME_MAX_NAMESPACES :: nat where "VNVME_MAX_NAMESPACES \<equiv> 16"
abbreviation (input) NVME_SQ_ENTRY_SIZE :: nat where "NVME_SQ_ENTRY_SIZE \<equiv> 64"
abbreviation (input) NVME_CQ_ENTRY_SIZE :: nat where "NVME_CQ_ENTRY_SIZE \<equiv> 16"
abbreviation (input) VNVME_NOTIFY_RING_SIZE :: nat where "VNVME_NOTIFY_RING_SIZE \<equiv> 256"
abbreviation (input) VNVME_MAX_AER_COMMANDS :: nat where "VNVME_MAX_AER_COMMANDS \<equiv> 4"
abbreviation (input) VNVME_BAR0_SIZE :: nat where "VNVME_BAR0_SIZE \<equiv> 65536"
abbreviation (input) VNVME_NVME_PAGE_SIZE :: nat where "VNVME_NVME_PAGE_SIZE \<equiv> 4096"

section \<open>Register bit fields\<close>

text \<open>The bit fields of \<open>NVME_CAP\<close>.\<close>

definition CAP_MQES :: "u64 \<Rightarrow> u64" where "CAP_MQES c = c AND 0xFFFF"
definition CAP_CQR :: "u64 \<Rightarrow> u64" where "CAP_CQR c = drop_bit 16 c AND 0x1"
definition CAP_TO :: "u64 \<Rightarrow> u64" where "CAP_TO c = drop_bit 24 c AND 0xFF"
definition CAP_DSTRD :: "u64 \<Rightarrow> u64" where "CAP_DSTRD c = drop_bit 32 c AND 0xF"
definition CAP_CSS :: "u64 \<Rightarrow> u64" where "CAP_CSS c = drop_bit 37 c AND 0xFF"
definition CAP_MPSMIN :: "u64 \<Rightarrow> u64" where "CAP_MPSMIN c = drop_bit 48 c AND 0xF"
definition CAP_MPSMAX :: "u64 \<Rightarrow> u64" where "CAP_MPSMAX c = drop_bit 52 c AND 0xF"

text \<open>\<open>CC.EN\<close> and \<open>CSTS.RDY\<close>.\<close>

definition CC_EN :: "u32 \<Rightarrow> bool" where "CC_EN c \<longleftrightarrow> c AND 0x1 \<noteq> 0"
definition CSTS_RDY :: "u32 \<Rightarrow> bool" where "CSTS_RDY c \<longleftrightarrow> c AND 0x1 \<noteq> 0"

section \<open>Submission queue entries\<close>

record NVME_COMMAND =
  OPC :: u8
  FUSE :: u8
  Reserved1 :: u8
  PSDT :: u8
  CID :: u16
  NSID :: u32
  Reserved2 :: u32
  Reserved3 :: u32
  MPTR :: u64
  PRP1 :: u64
  PRP2 :: u64
  CDW10 :: u32
  CDW11 :: u32
  CDW12 :: u32
  CDW13 :: u32
  CDW14 :: u32
  CDW15 :: u32

definition zero_COMMAND :: NVME_COMMAND where
  "zero_COMMAND = \<lparr>OPC = 0, FUSE = 0, Reserved1 = 0, PSDT = 0, CID = 0, NSID = 0, Reserved2 = 0,
     Reserved3 = 0, MPTR = 0, PRP1 = 0, PRP2 = 0, CDW10 = 0, CDW11 = 0, CDW12 = 0, CDW13 = 0,
     CDW14 = 0, CDW15 = 0\<rparr>"

definition rd_NVME_COMMAND :: "mem \<Rightarrow> nat \<Rightarrow> NVME_COMMAND" where
  "rd_NVME_COMMAND m a =
     \<lparr>OPC = m a,
      FUSE = m (a + 1) AND 0x3, Reserved1 = drop_bit 2 (m (a + 1)) AND 0xF, PSDT = drop_bit 6 (m (a + 1)),
      CID = rd16 m (a + 2), NSID = rd32 m (a + 4), Reserved2 = rd32 m (a + 8), Reserved3 = rd32 m (a + 12),
      MPTR = rd64 m (a + 16), PRP1 = rd64 m (a + 24), PRP2 = rd64 m (a + 32),
      CDW10 = rd32 m (a + 40), CDW11 = rd32 m (a + 44), CDW12 = rd32 m (a + 48),
      CDW13 = rd32 m (a + 52), CDW14 = rd32 m (a + 56), CDW15 = rd32 m (a + 60)\<rparr>"

lemma rd_NVME_COMMAND_eqI:
  "(\<And>x. a \<le> x \<Longrightarrow> x < a + 64 \<Longrightarrow> m' x = m x) \<Longrightarrow> rd_NVME_COMMAND m' a = rd_NVME_COMMAND m a"
  unfolding rd_NVME_COMMAND_def
  by (intro NVME_COMMAND.fold_congs NVME_COMMAND.equality)
    (simp_all add: rd16_eqI [of "Suc (Suc a)" m' m] rd32_eqI [of _ m' m] rd64_eqI [of _ m' m])

lemma rd_NVME_COMMAND_same_outside:
  "same_outside S m m' \<Longrightarrow> {a..<a + 64} \<inter> S = {} \<Longrightarrow> rd_NVME_COMMAND m' a = rd_NVME_COMMAND m a"
  by (rule rd_NVME_COMMAND_eqI) (meson atLeastLessThan_iff disjoint_iff same_outsideD)

section \<open>Completion queue entries\<close>

record NVME_COMPLETION =
  cqe_DW0 :: u32
  cqe_DW1 :: u32
  cqe_SQHD :: u16
  cqe_SQID :: u16
  cqe_CID :: u16
  cqe_Status :: u16

definition rd_NVME_COMPLETION :: "mem \<Rightarrow> nat \<Rightarrow> NVME_COMPLETION" where
  "rd_NVME_COMPLETION m a =
     \<lparr>cqe_DW0 = rd32 m a, cqe_DW1 = rd32 m (a + 4), cqe_SQHD = rd16 m (a + 8),
      cqe_SQID = rd16 m (a + 10), cqe_CID = rd16 m (a + 12), cqe_Status = rd16 m (a + 14)\<rparr>"

definition wr_NVME_COMPLETION :: "nat \<Rightarrow> NVME_COMPLETION \<Rightarrow> mem \<Rightarrow> mem" where
  "wr_NVME_COMPLETION a c m =
     wr16 (a + 14) (cqe_Status c) (wr16 (a + 12) (cqe_CID c) (wr16 (a + 10) (cqe_SQID c)
       (wr16 (a + 8) (cqe_SQHD c) (wr32 (a + 4) (cqe_DW1 c) (wr32 a (cqe_DW0 c) m)))))"

lemma rd_wr_NVME_COMPLETION [mem_read_write]: "rd_NVME_COMPLETION (wr_NVME_COMPLETION a c m) a = c"
  by (simp add: rd_NVME_COMPLETION_def wr_NVME_COMPLETION_def mem_simps)

lemma wr_NVME_COMPLETION_outside:
  "x < a \<or> a + 16 \<le> x \<Longrightarrow> wr_NVME_COMPLETION a c m x = m x"
  by (auto simp: wr_NVME_COMPLETION_def wr16_outside wr32_outside)

lemma same_outside_wr_NVME_COMPLETION:
  "{a..<a + 16} \<subseteq> S \<Longrightarrow> same_outside S m (wr_NVME_COMPLETION a c m)"
  unfolding same_outside_def
  by (metis atLeastLessThan_iff not_le subsetD wr_NVME_COMPLETION_outside)

lemma rd32_wr_NVME_COMPLETION_apart [mem_frame]:
  "b + 4 \<le> a \<or> a + 16 \<le> b \<Longrightarrow> rd32 (wr_NVME_COMPLETION a c m) b = rd32 m b"
  by (rule rd32_eqI) (auto simp: wr_NVME_COMPLETION_outside)

lemma rd64_wr_NVME_COMPLETION_apart [mem_frame]:
  "b + 8 \<le> a \<or> a + 16 \<le> b \<Longrightarrow> rd64 (wr_NVME_COMPLETION a c m) b = rd64 m b"
  by (rule rd64_eqI) (auto simp: wr_NVME_COMPLETION_outside)

lemma rd_NVME_COMPLETION_eqI:
  "(\<And>x. a \<le> x \<Longrightarrow> x < a + 16 \<Longrightarrow> m' x = m x) \<Longrightarrow> rd_NVME_COMPLETION m' a = rd_NVME_COMPLETION m a"
  unfolding rd_NVME_COMPLETION_def
  by (simp add: rd16_eqI [of _ m' m] rd32_eqI [of _ m' m])

lemma rd_NVME_COMPLETION_same_outside [mem_frame]:
  "same_outside S m m' \<Longrightarrow> {a..<a + 16} \<inter> S = {} \<Longrightarrow> rd_NVME_COMPLETION m' a = rd_NVME_COMPLETION m a"
  by (rule rd_NVME_COMPLETION_eqI) (meson atLeastLessThan_iff disjoint_iff same_outsideD)

lemma local_write_NVME_COMPLETION: "local_write {a..<a + 16} (wr_NVME_COMPLETION a c)"
proof -
  have "local_write ({a + 14..<a + 14 + 2} \<union> ({a + 12..<a + 12 + 2} \<union> ({a + 10..<a + 10 + 2}
      \<union> ({a + 8..<a + 8 + 2} \<union> ({a + 4..<a + 4 + 4} \<union> {a..<a + 4}))))) (wr_NVME_COMPLETION a c)"
    unfolding wr_NVME_COMPLETION_def [abs_def]
    by (rule local_write_comp [OF local_write_wr16 local_write_comp [OF local_write_wr16 local_write_comp
          [OF local_write_wr16 local_write_comp [OF local_write_wr16 local_write_comp
            [OF local_write_wr32 local_write_wr32]]]]])
  moreover have "{a + 14..<a + 14 + 2} \<union> ({a + 12..<a + 12 + 2} \<union> ({a + 10..<a + 10 + 2}
      \<union> ({a + 8..<a + 8 + 2} \<union> ({a + 4..<a + 4 + 4} \<union> {a..<a + 4})))) = {a..<a + 16}" by auto
  ultimately show ?thesis by simp
qed

subsection \<open>The status field\<close>

text \<open>The accessor macros \<open>NVME_STATUS_P\<close>, \<open>NVME_STATUS_SC\<close>, \<open>NVME_STATUS_SCT\<close>, \<open>NVME_STATUS_M\<close>
  and \<open>NVME_STATUS_DNR\<close>.\<close>

definition NVME_STATUS_P :: "u16 \<Rightarrow> u16" where "NVME_STATUS_P s = s AND 0x0001"
definition NVME_STATUS_SC :: "u16 \<Rightarrow> u16" where "NVME_STATUS_SC s = drop_bit 1 s AND 0xFF"
definition NVME_STATUS_SCT :: "u16 \<Rightarrow> u16" where "NVME_STATUS_SCT s = drop_bit 9 s AND 0x07"
definition NVME_STATUS_M :: "u16 \<Rightarrow> u16" where "NVME_STATUS_M s = drop_bit 14 s AND 0x01"
definition NVME_STATUS_DNR :: "u16 \<Rightarrow> u16" where "NVME_STATUS_DNR s = drop_bit 15 s AND 0x01"

text \<open>
  \<open>NvmeMakeStatus\<close> computes \<open>phase | (sc << 1) | (sct << 9)\<close> on \<open>int\<close> and truncates to 16 bits.
\<close>

definition NvmeMakeStatus :: "u8 \<Rightarrow> u8 \<Rightarrow> u8 \<Rightarrow> u16" where
  "NvmeMakeStatus sct sc phase =
     ucast ((ucast phase :: u32) OR push_bit 1 (ucast sc) OR push_bit 9 (ucast sct))"

definition NvmeMakeSuccessStatus :: "u8 \<Rightarrow> u16" where
  "NvmeMakeSuccessStatus phase = NvmeMakeStatus 0 0 phase"

text \<open>The status codes and types the handlers use.\<close>

abbreviation (input) NVME_SCT_GENERIC :: u8 where "NVME_SCT_GENERIC \<equiv> 0"
abbreviation (input) NVME_SCT_COMMAND :: u8 where "NVME_SCT_COMMAND \<equiv> 1"
abbreviation (input) NVME_SCT_MEDIA_ERROR :: u8 where "NVME_SCT_MEDIA_ERROR \<equiv> 2"
abbreviation (input) NVME_SC_SUCCESS :: u8 where "NVME_SC_SUCCESS \<equiv> 0"
abbreviation (input) NVME_SC_INVALID_OPCODE :: u8 where "NVME_SC_INVALID_OPCODE \<equiv> 0x01"
abbreviation (input) NVME_SC_INVALID_FIELD :: u8 where "NVME_SC_INVALID_FIELD \<equiv> 0x02"
abbreviation (input) NVME_SC_DATA_TRANSFER_ERROR :: u8 where "NVME_SC_DATA_TRANSFER_ERROR \<equiv> 0x04"
abbreviation (input) NVME_SC_INTERNAL_ERROR :: u8 where "NVME_SC_INTERNAL_ERROR \<equiv> 0x06"
abbreviation (input) NVME_SC_INVALID_NAMESPACE :: u8 where "NVME_SC_INVALID_NAMESPACE \<equiv> 0x0B"
abbreviation (input) NVME_SC_LBA_OUT_OF_RANGE :: u8 where "NVME_SC_LBA_OUT_OF_RANGE \<equiv> 0x80"
abbreviation (input) NVME_SC_INVALID_QUEUE_ID :: u8 where "NVME_SC_INVALID_QUEUE_ID \<equiv> 0x01"
abbreviation (input) NVME_SC_INVALID_QUEUE_SIZE :: u8 where "NVME_SC_INVALID_QUEUE_SIZE \<equiv> 0x02"
abbreviation (input) NVME_SC_ASYNC_EVENT_LIMIT_EXCEEDED :: u8 where "NVME_SC_ASYNC_EVENT_LIMIT_EXCEEDED \<equiv> 0x05"
abbreviation (input) NVME_SC_INVALID_LOG_PAGE :: u8 where "NVME_SC_INVALID_LOG_PAGE \<equiv> 0x09"
abbreviation (input) NVME_SC_INVALID_QUEUE_DELETION :: u8 where "NVME_SC_INVALID_QUEUE_DELETION \<equiv> 0x0C"
abbreviation (input) NVME_SC_CQ_INVALID :: u8 where "NVME_SC_CQ_INVALID \<equiv> 0x18"
abbreviation (input) NVME_SC_WRITE_FAULT :: u8 where "NVME_SC_WRITE_FAULT \<equiv> 0x80"
abbreviation (input) NVME_SC_UNRECOVERED_READ_ERROR :: u8 where "NVME_SC_UNRECOVERED_READ_ERROR \<equiv> 0x81"
abbreviation (input) NVME_SC_COMPARE_FAILURE :: u8 where "NVME_SC_COMPARE_FAILURE \<equiv> 0x85"

text \<open>The phase tag can be replaced without touching the rest of the field, as \<open>VnvmePostCompletion\<close> does.\<close>

definition with_phase :: "u16 \<Rightarrow> bool \<Rightarrow> u16" where
  "with_phase s phase = (s AND 0xFFFE) OR (if phase then 1 else 0)"

lemma with_phase_alt: "with_phase s phase = (s AND NOT 1) OR (if phase then 1 else 0)"
proof -
  have "(0xFFFE :: u16) = NOT 1" by simp
  then show ?thesis by (simp only: with_phase_def)
qed

lemma with_phase_P: "NVME_STATUS_P (with_phase s phase) = (if phase then 1 else 0)"
  by (rule bit_word_eqI) (auto simp: NVME_STATUS_P_def with_phase_alt bit_simps bit_odd_word)

lemma with_phase_bit: "bit (with_phase s phase) (Suc n) = bit s (Suc n)"
  unfolding with_phase_alt bit_or_iff bit_and_iff bit_not_iff
  by (auto simp: bit_odd_word dest: bit_imp_le_length)

lemma with_phase_rest: "drop_bit 1 (with_phase s phase) = drop_bit 1 s"
  by (rule bit_word_eqI) (simp add: bit_drop_bit_eq with_phase_bit)

section \<open>Inline helpers of vnvme\_utils.h\<close>

definition NvmeValidateNsid :: "u32 \<Rightarrow> bool" where
  "NvmeValidateNsid nsid \<longleftrightarrow> nsid > 0 \<and> nsid \<le> of_nat VNVME_MAX_NAMESPACES"

definition NvmeValidateIoQueueId :: "u16 \<Rightarrow> bool" where
  "NvmeValidateIoQueueId qid \<longleftrightarrow> qid > 0 \<and> qid \<le> of_nat VNVME_MAX_IO_QUEUES"

definition VNVME_NSID_VALID :: "u32 \<Rightarrow> bool" where
  "VNVME_NSID_VALID nsid \<longleftrightarrow> nsid > 0 \<and> nsid \<le> of_nat VNVME_MAX_NAMESPACES"

definition VNVME_NSID_TO_INDEX :: "u32 \<Rightarrow> u32" where
  "VNVME_NSID_TO_INDEX nsid = nsid - 1"

definition VNVME_IO_QUEUE_ID_VALID :: "u16 \<Rightarrow> bool" where
  "VNVME_IO_QUEUE_ID_VALID qid \<longleftrightarrow> qid > 0 \<and> qid \<le> of_nat VNVME_MAX_IO_QUEUES"

text \<open>\<open>slba + nlb <= total\<close>: the 16-bit count is converted to 64 bits and the sum wraps.\<close>

definition NvmeValidateLbaRange :: "u64 \<Rightarrow> u16 \<Rightarrow> u64 \<Rightarrow> bool" where
  "NvmeValidateLbaRange slba nlb totalBlocks \<longleftrightarrow> slba + ucast nlb \<le> totalBlocks"

definition VNVME_LBA_RANGE_VALID :: "u64 \<Rightarrow> u16 \<Rightarrow> u64 \<Rightarrow> bool" where
  "VNVME_LBA_RANGE_VALID slba nlb tot \<longleftrightarrow> slba + ucast nlb \<le> tot"

definition VNVME_LBA_TO_BYTES :: "u64 \<Rightarrow> u32 \<Rightarrow> u64" where
  "VNVME_LBA_TO_BYTES lba blockSize = lba * ucast blockSize"

definition VNVME_BLOCKS_TO_BYTES :: "u16 \<Rightarrow> u32 \<Rightarrow> u64" where
  "VNVME_BLOCKS_TO_BYTES nlb blockSize = ucast nlb * ucast blockSize"

definition NvmeSafeRangeCheck :: "u64 \<Rightarrow> u32 \<Rightarrow> u64 \<Rightarrow> bool" where
  "NvmeSafeRangeCheck offset len totalSize =
     (if offset > totalSize then False
      else if ucast len > totalSize - offset then False
      else True)"

subsection \<open>Their properties\<close>

text \<open>The status accessors recover what \<open>NvmeMakeStatus\<close> packed, for every type of three bits and
  every phase bit, and the reserved, More and Do-Not-Retry bits are clear.\<close>

theorem NvmeMakeStatus_fields:
  assumes "sct < 8" "phase < 2"
  shows "NVME_STATUS_SC (NvmeMakeStatus sct sc phase) = ucast sc
    \<and> NVME_STATUS_SCT (NvmeMakeStatus sct sc phase) = ucast sct
    \<and> NVME_STATUS_P (NvmeMakeStatus sct sc phase) = ucast phase
    \<and> NVME_STATUS_M (NvmeMakeStatus sct sc phase) = 0
    \<and> NVME_STATUS_DNR (NvmeMakeStatus sct sc phase) = 0"
proof -
  have sct: "n < 3" if "bit sct n" for n
    using bit_below [of sct 3 n] assms(1) that by simp
  have phase: "n = 0" if "bit phase n" for n
    using bit_below [of phase 1 n] assms(2) that by simp
  have sc: "n < 8" if "bit sc n" for n
    using bit_imp_le_length [OF that] by simp
  note fields = NvmeMakeStatus_def NVME_STATUS_SC_def NVME_STATUS_SCT_def NVME_STATUS_P_def
    NVME_STATUS_M_def NVME_STATUS_DNR_def
  show ?thesis
    by (intro conjI bit_word_eqI) (auto simp: fields bit_simps bit_odd_word bit_times_two dest: sct phase sc)
qed

text \<open>The property at the status of a read error with phase 1.\<close>

theorem NvmeMakeStatus_fields_witness:
  "NVME_STATUS_SC (NvmeMakeStatus 2 0x81 1) = 0x81 \<and> NVME_STATUS_SCT (NvmeMakeStatus 2 0x81 1) = 2
    \<and> NVME_STATUS_P (NvmeMakeStatus 2 0x81 1) = 1"
  using NvmeMakeStatus_fields [of 2 1 "0x81"] by simp

text \<open>The overflow-safe range check accepts exactly the ranges that lie inside the store, read as
  mathematical integers.\<close>

theorem NvmeSafeRangeCheck_iff:
  "NvmeSafeRangeCheck offset len totalSize \<longleftrightarrow> unat offset + unat len \<le> unat totalSize"
proof -
  have len: "unat (ucast len :: u64) = unat len"
    by simp
  show ?thesis
    by (auto simp: NvmeSafeRangeCheck_def word_less_nat_alt word_le_nat_alt unat_sub_if' len not_less)
qed

text \<open>\<open>NvmeValidateLbaRange\<close> decides containment only where the 64-bit sum does not wrap; where it
  wraps, the check accepts a range that starts far past the end. The block macro has the same
  definition.\<close>

theorem NvmeValidateLbaRange_wraps:
  "NvmeValidateLbaRange slba nlb totalBlocks \<longleftrightarrow>
     (if unat slba + unat nlb < 2 ^ 64 then unat slba + unat nlb \<le> unat totalBlocks
      else unat slba + unat nlb - 2 ^ 64 \<le> unat totalBlocks)"
proof -
  have nlb: "unat (ucast nlb :: u64) = unat nlb"
    by simp
  have sum: "unat (slba + ucast nlb) = (unat slba + unat nlb) mod 2 ^ 64"
    by (simp add: unat_word_ariths nlb)
  have "unat slba + unat nlb - 2 ^ 64 < 2 ^ 64"
    using unat_u64_bound [of slba] unat_u16_bound [of nlb] by simp
  then have "(unat slba + unat nlb) mod 2 ^ 64 =
      (if unat slba + unat nlb < 2 ^ 64 then unat slba + unat nlb else unat slba + unat nlb - 2 ^ 64)"
    by (simp add: le_mod_geq)
  then show ?thesis
    unfolding NvmeValidateLbaRange_def word_le_nat_alt sum by simp
qed

end
