(* ===== verification/Vnvme_Config.thy ===== *)
theory Vnvme_Config
  imports Vnvme_Spec
begin

text \<open>
  \<^verbatim>\<open>vnvme/config.h\<close> and \<^verbatim>\<open>vnvme/config.c\<close>: the global configuration \<open>g_Config\<close>, loaded from the
  registry with range clamping (\<open>VnvmeConfigInit\<close>) and changed at run time by \<open>VnvmeConfigUpdate\<close>.

  The registry is code outside the driver. Its answers are arguments: the path formatting and
  \<open>ZwOpenKey\<close> succeed or not, and \<open>reg_dword name\<close> is what \<open>ZwQueryValueKey\<close> finds under a name:
  nothing, a \<open>REG_DWORD\<close> of four bytes, or a value of another kind. A string value is given as the
  list of its 16-bit units. Each value is read once in the model where the source may read it twice
  (the heartbeat), which is the same function of the registry's contents.
\<close>

datatype VNVME_STORAGE_TYPE =
    VNVME_STORAGE_TYPE_NONE
  | VNVME_STORAGE_TYPE_MEMORY
  | VNVME_STORAGE_TYPE_FILE
  | VNVME_STORAGE_TYPE_SPARSE

record VNVME_CONFIG =
  DebugLevel :: u32
  DebugFlags :: u32
  HeartbeatTimeout100ns :: u64
  StorageType :: VNVME_STORAGE_TYPE
  StoragePath :: "u16 list"
  StorageSizeGB :: u32
  MaxIOQueues :: u32
  AdminQueueDepth :: u32
  IOQueueDepth :: u32
  DoorbellPollIntervalUs :: u32
  BatchSize :: u32
  AllowUserModeAccess :: bool
  RequireAdminPrivilege :: bool

section \<open>Limits and defaults\<close>

abbreviation (input) VNVME_MIN_HEARTBEAT_MS :: u32 where "VNVME_MIN_HEARTBEAT_MS \<equiv> 1000"
abbreviation (input) VNVME_MAX_HEARTBEAT_MS :: u32 where "VNVME_MAX_HEARTBEAT_MS \<equiv> 60000"
abbreviation (input) VNVME_MIN_STORAGE_SIZE_GB :: u32 where "VNVME_MIN_STORAGE_SIZE_GB \<equiv> 1"
abbreviation (input) VNVME_MAX_STORAGE_SIZE_GB :: u32 where "VNVME_MAX_STORAGE_SIZE_GB \<equiv> 1024"
abbreviation (input) VNVME_CFG_MIN_IO_QUEUES :: u32 where "VNVME_CFG_MIN_IO_QUEUES \<equiv> 1"
abbreviation (input) VNVME_CFG_MAX_IO_QUEUES :: u32 where "VNVME_CFG_MAX_IO_QUEUES \<equiv> 16"
abbreviation (input) VNVME_MIN_QUEUE_DEPTH :: u32 where "VNVME_MIN_QUEUE_DEPTH \<equiv> 16"
abbreviation (input) VNVME_CFG_MAX_ADMIN_QUEUE_DEPTH :: u32 where "VNVME_CFG_MAX_ADMIN_QUEUE_DEPTH \<equiv> 64"
abbreviation (input) VNVME_CFG_MAX_IO_QUEUE_DEPTH :: u32 where "VNVME_CFG_MAX_IO_QUEUE_DEPTH \<equiv> 256"
abbreviation (input) VNVME_MIN_POLL_INTERVAL_US :: u32 where "VNVME_MIN_POLL_INTERVAL_US \<equiv> 1"
abbreviation (input) VNVME_MAX_POLL_INTERVAL_US :: u32 where "VNVME_MAX_POLL_INTERVAL_US \<equiv> 10000"
abbreviation (input) VNVME_MIN_BATCH_SIZE :: u32 where "VNVME_MIN_BATCH_SIZE \<equiv> 1"
abbreviation (input) VNVME_MAX_BATCH_SIZE :: u32 where "VNVME_MAX_BATCH_SIZE \<equiv> 256"

text \<open>The static initialiser of \<open>g_Config\<close>.\<close>

definition g_Config_init :: VNVME_CONFIG where
  "g_Config_init =
     \<lparr>DebugLevel = 4, DebugFlags = 0xFFFFFFFF, HeartbeatTimeout100ns = 10000 * 10000,
      StorageType = VNVME_STORAGE_TYPE_MEMORY, StoragePath = replicate 260 0, StorageSizeGB = 1,
      MaxIOQueues = 16, AdminQueueDepth = 64, IOQueueDepth = 256,
      DoorbellPollIntervalUs = 100, BatchSize = 32,
      AllowUserModeAccess = True, RequireAdminPrivilege = True\<rparr>"

section \<open>Reading the registry\<close>

datatype reg_value = RegDword u32 | RegString "u16 list" | RegOther

datatype reg_name =
    REG_DEBUG_LEVEL | REG_DEBUG_FLAGS | REG_HEARTBEAT_TIMEOUT | REG_STORAGE_TYPE | REG_STORAGE_PATH
  | REG_STORAGE_SIZE | REG_MAX_IO_QUEUES | REG_ADMIN_QUEUE_DEPTH | REG_IO_QUEUE_DEPTH
  | REG_POLL_INTERVAL | REG_BATCH_SIZE

type_synonym registry = "reg_name \<Rightarrow> reg_value option"

text \<open>\<open>ConfigReadDword\<close>: the value, or \<open>None\<close> for any failing status.\<close>

definition ConfigReadDword :: "registry \<Rightarrow> reg_name \<Rightarrow> u32 option" where
  "ConfigReadDword reg name =
     (case reg name of Some (RegDword v) \<Rightarrow> Some v | _ \<Rightarrow> None)"

text \<open>
  \<open>ConfigReadString\<close>: the value's units are copied up to one less than the buffer's length, and
  the unit after them is set to zero. The information buffer of the query holds 520 bytes of data:
  a longer value makes \<open>ZwQueryValueKey\<close> fail and the buffer is left as it was.
\<close>

definition ConfigReadString :: "registry \<Rightarrow> reg_name \<Rightarrow> u16 list \<Rightarrow> u16 list" where
  "ConfigReadString reg name buf =
     (case reg name of
        Some (RegString us) \<Rightarrow>
          if 2 * length us > 520 then buf
          else let n = min (length us) (length buf - 1)
               in (take n us @ drop n buf)[n := 0]
      | _ \<Rightarrow> buf)"

text \<open>\<open>ConfigReadDwordClamped\<close>: the new value of \<open>*Value\<close>.\<close>

definition ConfigReadDwordClamped :: "registry \<Rightarrow> reg_name \<Rightarrow> u32 \<Rightarrow> u32 \<Rightarrow> u32 \<Rightarrow> u32" where
  "ConfigReadDwordClamped reg name v lo hi =
     (case ConfigReadDword reg name of
        Some r \<Rightarrow> (if r < lo then lo else if r > hi then hi else r)
      | None \<Rightarrow> v)"

definition storage_type_of :: "u32 \<Rightarrow> VNVME_STORAGE_TYPE" where
  "storage_type_of v =
     (if v = 0 then VNVME_STORAGE_TYPE_NONE else if v = 1 then VNVME_STORAGE_TYPE_MEMORY
      else if v = 2 then VNVME_STORAGE_TYPE_FILE else VNVME_STORAGE_TYPE_SPARSE)"

section \<open>Loading and updating\<close>

definition VnvmeConfigInit :: "bool \<Rightarrow> bool \<Rightarrow> registry \<Rightarrow> VNVME_CONFIG \<Rightarrow> NTSTATUS \<times> VNVME_CONFIG" where
  "VnvmeConfigInit path_ok open_ok reg g =
     (if \<not> path_ok then (STATUS_SUCCESS, g)
      else if \<not> open_ok then (STATUS_SUCCESS, g)
      else
        let g = (case ConfigReadDword reg REG_DEBUG_LEVEL of
                   Some v \<Rightarrow> g\<lparr>DebugLevel := v\<rparr> | None \<Rightarrow> g);
            g = (case ConfigReadDword reg REG_DEBUG_FLAGS of
                   Some v \<Rightarrow> g\<lparr>DebugFlags := v\<rparr> | None \<Rightarrow> g);
            g = (case ConfigReadDword reg REG_HEARTBEAT_TIMEOUT of
                   Some v \<Rightarrow>
                     let v = (if v < VNVME_MIN_HEARTBEAT_MS then VNVME_MIN_HEARTBEAT_MS else v);
                         v = (if v > VNVME_MAX_HEARTBEAT_MS then VNVME_MAX_HEARTBEAT_MS else v)
                     in g\<lparr>HeartbeatTimeout100ns := ucast v * 10000\<rparr>
                 | None \<Rightarrow> g);
            g = (case ConfigReadDword reg REG_STORAGE_TYPE of
                   Some v \<Rightarrow> (if v \<le> 3 then g\<lparr>StorageType := storage_type_of v\<rparr> else g)
                 | None \<Rightarrow> g);
            g = g\<lparr>StoragePath := ConfigReadString reg REG_STORAGE_PATH (StoragePath g)\<rparr>;
            g = g\<lparr>StorageSizeGB := ConfigReadDwordClamped reg REG_STORAGE_SIZE (StorageSizeGB g)
                                     VNVME_MIN_STORAGE_SIZE_GB VNVME_MAX_STORAGE_SIZE_GB\<rparr>;
            g = g\<lparr>MaxIOQueues := ConfigReadDwordClamped reg REG_MAX_IO_QUEUES (MaxIOQueues g)
                                   VNVME_CFG_MIN_IO_QUEUES VNVME_CFG_MAX_IO_QUEUES\<rparr>;
            g = g\<lparr>AdminQueueDepth := ConfigReadDwordClamped reg REG_ADMIN_QUEUE_DEPTH (AdminQueueDepth g)
                                       VNVME_MIN_QUEUE_DEPTH VNVME_CFG_MAX_ADMIN_QUEUE_DEPTH\<rparr>;
            g = g\<lparr>IOQueueDepth := ConfigReadDwordClamped reg REG_IO_QUEUE_DEPTH (IOQueueDepth g)
                                    VNVME_MIN_QUEUE_DEPTH VNVME_CFG_MAX_IO_QUEUE_DEPTH\<rparr>;
            g = g\<lparr>DoorbellPollIntervalUs :=
                    ConfigReadDwordClamped reg REG_POLL_INTERVAL (DoorbellPollIntervalUs g)
                      VNVME_MIN_POLL_INTERVAL_US VNVME_MAX_POLL_INTERVAL_US\<rparr>;
            g = g\<lparr>BatchSize := ConfigReadDwordClamped reg REG_BATCH_SIZE (BatchSize g)
                                 VNVME_MIN_BATCH_SIZE VNVME_MAX_BATCH_SIZE\<rparr>
        in (STATUS_SUCCESS, g))"

text \<open>\<open>VnvmeConfigGet\<close> copies the global; a null destination is \<open>None\<close>.\<close>

definition VnvmeConfigGet :: "VNVME_CONFIG option \<Rightarrow> VNVME_CONFIG \<Rightarrow> VNVME_CONFIG option" where
  "VnvmeConfigGet dest g = (case dest of None \<Rightarrow> None | Some _ \<Rightarrow> Some g)"

definition VnvmeConfigUpdate :: "VNVME_CONFIG option \<Rightarrow> VNVME_CONFIG \<Rightarrow> NTSTATUS \<times> VNVME_CONFIG" where
  "VnvmeConfigUpdate cfg g =
     (case cfg of
        None \<Rightarrow> (STATUS_INVALID_PARAMETER, g)
      | Some c \<Rightarrow>
          let g = g\<lparr>DebugLevel := DebugLevel c, DebugFlags := DebugFlags c\<rparr>;
              g = (if sint (HeartbeatTimeout100ns c) \<ge> 1000 * 10000
                      \<and> sint (HeartbeatTimeout100ns c) \<le> 60000 * 10000
                   then g\<lparr>HeartbeatTimeout100ns := HeartbeatTimeout100ns c\<rparr> else g);
              g = (if DoorbellPollIntervalUs c \<ge> VNVME_MIN_POLL_INTERVAL_US
                      \<and> DoorbellPollIntervalUs c \<le> VNVME_MAX_POLL_INTERVAL_US
                   then g\<lparr>DoorbellPollIntervalUs := DoorbellPollIntervalUs c\<rparr> else g);
              g = (if BatchSize c \<ge> VNVME_MIN_BATCH_SIZE \<and> BatchSize c \<le> VNVME_MAX_BATCH_SIZE
                   then g\<lparr>BatchSize := BatchSize c\<rparr> else g)
          in (STATUS_SUCCESS, g))"

section \<open>The range invariant\<close>

definition config_ok :: "VNVME_CONFIG \<Rightarrow> bool" where
  "config_ok g \<longleftrightarrow>
     1000 * 10000 \<le> sint (HeartbeatTimeout100ns g) \<and> sint (HeartbeatTimeout100ns g) \<le> 60000 * 10000
     \<and> length (StoragePath g) = 260
     \<and> 1 \<le> StorageSizeGB g \<and> StorageSizeGB g \<le> 1024
     \<and> 1 \<le> MaxIOQueues g \<and> MaxIOQueues g \<le> 16
     \<and> 16 \<le> AdminQueueDepth g \<and> AdminQueueDepth g \<le> 64
     \<and> 16 \<le> IOQueueDepth g \<and> IOQueueDepth g \<le> 256
     \<and> 1 \<le> DoorbellPollIntervalUs g \<and> DoorbellPollIntervalUs g \<le> 10000
     \<and> 1 \<le> BatchSize g \<and> BatchSize g \<le> 256"

text \<open>The settings that are fixed at start-up.\<close>

definition config_fixed_part :: "VNVME_CONFIG \<Rightarrow> VNVME_STORAGE_TYPE \<times> u16 list \<times> u32 \<times> u32 \<times> u32 \<times> u32 \<times> bool \<times> bool" where
  "config_fixed_part g = (StorageType g, StoragePath g, StorageSizeGB g, MaxIOQueues g, AdminQueueDepth g,
     IOQueueDepth g, AllowUserModeAccess g, RequireAdminPrivilege g)"

lemma config_ok_init: "config_ok g_Config_init"
  by (simp add: config_ok_def g_Config_init_def)

lemma ConfigReadDwordClamped_range:
  assumes "lo \<le> v" "v \<le> hi" "lo \<le> hi"
  shows "lo \<le> ConfigReadDwordClamped reg name v lo hi \<and> ConfigReadDwordClamped reg name v lo hi \<le> hi"
  using assms by (auto simp: ConfigReadDwordClamped_def not_less split: option.splits)

lemma length_ConfigReadString [simp]:
  "0 < length buf \<Longrightarrow> length (ConfigReadString reg name buf) = length buf"
  by (auto simp: ConfigReadString_def Let_def split: option.splits reg_value.splits)

lemma heartbeat_clamp_range:
  fixes v :: u32
  assumes "1000 \<le> v" "v \<le> 60000"
  shows "10000000 \<le> sint (ucast v * 10000 :: u64) \<and> sint (ucast v * 10000 :: u64) \<le> 600000000"
proof -
  have v: "1000 \<le> unat v" "unat v \<le> 60000"
    using assms by (simp_all add: word_le_nat_alt)
  have "unat (ucast v * 10000 :: u64) = unat v * 10000"
    using v by (simp add: unat_word_ariths)
  then have "sint (ucast v * 10000 :: u64) = int (unat v * 10000)"
    using v sint_small [of "ucast v * 10000"] by simp
  with v show ?thesis by linarith
qed

lemma config_ok_VnvmeConfigInit:
  assumes "config_ok g"
  shows "config_ok (snd (VnvmeConfigInit path_ok open_ok reg g))"
proof -
  define hb where "hb g = (case ConfigReadDword reg REG_HEARTBEAT_TIMEOUT of
      Some v \<Rightarrow> let v = (if v < 1000 then 1000 else v); v = (if v > 60000 then 60000 else v)
                in (ucast v * 10000 :: u64)
    | None \<Rightarrow> HeartbeatTimeout100ns g)" for g :: VNVME_CONFIG
  have "1000 * 10000 \<le> sint (hb g) \<and> sint (hb g) \<le> 60000 * 10000"
    using assms unfolding hb_def config_ok_def
    by (auto simp: Let_def heartbeat_clamp_range not_less split: option.splits)
  with assms show ?thesis
    unfolding config_ok_def hb_def VnvmeConfigInit_def
    by (auto simp: Let_def ConfigReadDwordClamped_range split: option.splits)
qed

end
