(* ===== verification/Vnvme_Context.thy ===== *)
theory Vnvme_Context
  imports Vnvme_Config
begin

text \<open>
  The structures of \<^verbatim>\<open>vnvme/vnvme.h\<close> and \<^verbatim>\<open>vnvme/storage_priv.h\<close>: the bus context (FDO), the controller
  context (PDO), queue states, namespaces and storage back ends. A field that the modelled code neither
  reads nor writes (framework handles, list links, padding) is left out. A pointer to a block the driver
  owns is an \<open>option\<close>: \<open>None\<close> is the null pointer, \<open>Some\<close> holds the block. A field name that several C
  structures share carries a prefix (\<open>qs_\<close> queue state, \<open>ns_\<close> namespace, \<open>st_\<close> storage, \<open>fdo_\<close>, \<open>pdo_\<close>).
\<close>

section \<open>Storage back end\<close>

record VNVME_STORAGE_CONTEXT =
  st_Type :: VNVME_STORAGE_TYPE
  st_TotalBytes :: u64
  st_BlockSize :: u32
  st_ReadOnly :: bool
  st_MemoryBuffer :: "mem option"
  st_MemorySize :: u64
  st_FileHandle :: bool \<comment> \<open>non-null\<close>
  st_FilePath :: "u16 list option"
  st_FileData :: mem \<comment> \<open>contents of the opened file\<close>
  st_IsSparse :: bool
  st_ReadCount :: u64
  st_WriteCount :: u64
  st_BytesRead :: u64
  st_BytesWritten :: u64

text \<open>\<open>RtlZeroMemory\<close> of a fresh context. The file contents are no field of the C structure; they stand
  for the file behind \<open>FileHandle\<close>.\<close>

definition zero_STORAGE_CONTEXT :: VNVME_STORAGE_CONTEXT where
  "zero_STORAGE_CONTEXT =
     \<lparr>st_Type = VNVME_STORAGE_TYPE_NONE, st_TotalBytes = 0, st_BlockSize = 0, st_ReadOnly = False,
      st_MemoryBuffer = None, st_MemorySize = 0, st_FileHandle = False, st_FilePath = None,
      st_FileData = (\<lambda>_. 0), st_IsSparse = False,
      st_ReadCount = 0, st_WriteCount = 0, st_BytesRead = 0, st_BytesWritten = 0\<rparr>"

section \<open>Namespaces and queues\<close>

record NVME_LBAF =
  MS :: u16
  LBADS :: u8
  RP :: u8

record VNVME_NAMESPACE =
  ns_NsId :: u32
  ns_Active :: bool
  ns_ReadOnly :: bool
  ns_ThinProvisioned :: bool
  ns_Nguid :: "u8 list"
  ns_Eui64 :: "u8 list"
  ns_BlockSize :: u32
  ns_TotalBlocks :: u64
  ns_TotalBytes :: u64
  ns_Storage :: "VNVME_STORAGE_CONTEXT option"
  ns_FormattedLbaSize :: u8
  ns_NumberOfLbaFormats :: u8
  ns_NsFeatures :: u8
  ns_LbaFormats :: "NVME_LBAF list"
  ns_ReadCommands :: u64
  ns_WriteCommands :: u64
  ns_ReadBytes :: u64
  ns_WriteBytes :: u64
  ns_FlushCommands :: u64

definition zero_NAMESPACE :: VNVME_NAMESPACE where
  "zero_NAMESPACE =
     \<lparr>ns_NsId = 0, ns_Active = False, ns_ReadOnly = False, ns_ThinProvisioned = False,
      ns_Nguid = replicate 16 0, ns_Eui64 = replicate 8 0, ns_BlockSize = 0, ns_TotalBlocks = 0,
      ns_TotalBytes = 0, ns_Storage = None, ns_FormattedLbaSize = 0, ns_NumberOfLbaFormats = 0,
      ns_NsFeatures = 0, ns_LbaFormats = replicate 16 \<lparr>MS = 0, LBADS = 0, RP = 0\<rparr>,
      ns_ReadCommands = 0, ns_WriteCommands = 0, ns_ReadBytes = 0, ns_WriteBytes = 0,
      ns_FlushCommands = 0\<rparr>"

record VNVME_QUEUE_STATE =
  qs_BaseAddress :: u64
  qs_Size :: u32
  qs_Head :: u32
  qs_Tail :: u32
  qs_PhaseTag :: bool
  qs_Created :: bool
  qs_CqId :: u16

definition zero_QUEUE_STATE :: VNVME_QUEUE_STATE where
  "zero_QUEUE_STATE =
     \<lparr>qs_BaseAddress = 0, qs_Size = 0, qs_Head = 0, qs_Tail = 0, qs_PhaseTag = False,
      qs_Created = False, qs_CqId = 0\<rparr>"

section \<open>The bus context\<close>

datatype VNVME_COMMAND_MODE = VNVME_CMD_MODE_USER | VNVME_CMD_MODE_KERNEL

record VNVME_FDO_CONTEXT =
  fdo_CommandMode :: VNVME_COMMAND_MODE
  fdo_ShmKernelVirtAddr :: "mem option"
  fdo_ShmPhysAddr :: u64
  fdo_ShmSize :: u64
  fdo_ShmMdl :: bool
  fdo_ShmUserVirtAddr :: "u64 option"
  fdo_CommandReadyEvent :: bool
  fdo_UserReady :: bool
  fdo_ShutdownRequested :: bool
  fdo_UserCrashed :: bool
  fdo_LastHeartbeat :: u64
  fdo_EventNotificationEnabled :: bool
  fdo_CommandsProcessed :: u64
  fdo_ErrorCount :: u64

section \<open>The controller context\<close>

text \<open>
  \<open>pdo_Bar0\<close> is the block behind \<open>Bar0VirtAddr\<close>; \<open>Registers\<close> and \<open>Doorbells\<close> are pointers into it
  (offsets 0 and 0x1000), so only whether they are null is kept.
\<close>

record VNVME_PDO_CONTEXT =
  pdo_ControllerId :: u32
  pdo_Bar0 :: "mem option"
  pdo_Bar0PhysAddr :: u64
  pdo_Bar0Size :: u64
  pdo_Registers :: bool
  pdo_Doorbells :: bool
  pdo_CachedCC :: u32
  pdo_PcieConfig :: "mem option"
  pdo_PcieConfigSize :: u64
  pdo_AdminSq :: VNVME_QUEUE_STATE
  pdo_AdminCq :: VNVME_QUEUE_STATE
  pdo_AdminSqBase :: u64
  pdo_AdminSqSize :: u32
  pdo_AdminCqBase :: u64
  pdo_AdminCqSize :: u32
  pdo_LastAdminSqTail :: u32
  pdo_LastAdminCqHead :: u32
  pdo_AdminCqPhase :: u32
  pdo_IoSq :: "VNVME_QUEUE_STATE list"
  pdo_IoCq :: "VNVME_QUEUE_STATE list"
  pdo_IoQueueCount :: u16
  pdo_MaxIoQueues :: u16
  pdo_PollingTimer :: bool
  pdo_PollingIntervalUs :: u32
  pdo_PollingEnabled :: bool
  pdo_PollingActive :: bool
  pdo_AerCids :: "u16 list"
  pdo_AerCount :: u16
  pdo_NamespaceCount :: u16
  pdo_Namespaces :: "VNVME_NAMESPACE list"
  pdo_AdminCommandsProcessed :: u64
  pdo_IoCommandsProcessed :: u64
  pdo_BytesRead :: u64
  pdo_BytesWritten :: u64

definition zero_PDO_CONTEXT :: VNVME_PDO_CONTEXT where
  "zero_PDO_CONTEXT =
     \<lparr>pdo_ControllerId = 0, pdo_Bar0 = None, pdo_Bar0PhysAddr = 0, pdo_Bar0Size = 0,
      pdo_Registers = False, pdo_Doorbells = False, pdo_CachedCC = 0, pdo_PcieConfig = None, pdo_PcieConfigSize = 0,
      pdo_AdminSq = zero_QUEUE_STATE, pdo_AdminCq = zero_QUEUE_STATE, pdo_AdminSqBase = 0,
      pdo_AdminSqSize = 0, pdo_AdminCqBase = 0, pdo_AdminCqSize = 0, pdo_LastAdminSqTail = 0,
      pdo_LastAdminCqHead = 0, pdo_AdminCqPhase = 0,
      pdo_IoSq = replicate 16 zero_QUEUE_STATE, pdo_IoCq = replicate 16 zero_QUEUE_STATE,
      pdo_IoQueueCount = 0, pdo_MaxIoQueues = 0, pdo_PollingTimer = False, pdo_PollingIntervalUs = 0,
      pdo_PollingEnabled = False, pdo_PollingActive = False, pdo_AerCids = replicate 4 0,
      pdo_AerCount = 0, pdo_NamespaceCount = 0, pdo_Namespaces = replicate 16 zero_NAMESPACE,
      pdo_AdminCommandsProcessed = 0, pdo_IoCommandsProcessed = 0, pdo_BytesRead = 0,
      pdo_BytesWritten = 0\<rparr>"

section \<open>What an operation can see\<close>

text \<open>
  The state an operation of one controller works on: the configuration \<open>g_Config\<close>, the global
  \<open>g_FdoContext\<close> (null before the bus device exists), the controller, and the physical memory of the
  host.
\<close>

record vnvme_ctx =
  g_Config :: VNVME_CONFIG
  g_FdoContext :: "VNVME_FDO_CONTEXT option"
  pdo :: VNVME_PDO_CONTEXT
  host :: mem

text \<open>
  What the operating system answers during one command. The number tells calls apart: whether the
  \<open>n\<close>-th pool allocation of that many bytes succeeds, whether the \<open>n\<close>-th mapping of that physical range
  succeeds; \<open>ExAllocatePool2\<close> returns zeroed memory. The file services work on the contents of the open
  file: \<open>ZwReadFile\<close> at an offset with a length, \<open>ZwWriteFile\<close> at an offset with the bytes, and
  \<open>ZwFsControlFile\<close> with \<open>FSCTL_SET_ZERO_DATA\<close> from a start up to an end.
\<close>

record os_env =
  os_alloc :: "nat \<Rightarrow> nat \<Rightarrow> bool"
  os_map :: "nat \<Rightarrow> u64 \<Rightarrow> nat \<Rightarrow> bool"
  os_ZwReadFile :: "mem \<Rightarrow> u64 \<Rightarrow> u32 \<Rightarrow> NTSTATUS \<times> u8 list"
  os_ZwWriteFile :: "mem \<Rightarrow> u64 \<Rightarrow> u8 list \<Rightarrow> NTSTATUS \<times> mem"
  os_ZwSetZeroData :: "mem \<Rightarrow> u64 \<Rightarrow> u64 \<Rightarrow> NTSTATUS \<times> mem"

text \<open>Documented behaviour of the file services: a call that reports success did what was asked, and no call
  changes the file outside the range it was given.\<close>

definition file_os_ok :: "os_env \<Rightarrow> bool" where
  "file_os_ok os \<longleftrightarrow>
     (\<forall>f offset len. NT_SUCCESS (fst (os_ZwReadFile os f offset len))
        \<longrightarrow> snd (os_ZwReadFile os f offset len) = rd_bytes f (unat offset) (unat len))
     \<and> (\<forall>f offset bs. NT_SUCCESS (fst (os_ZwWriteFile os f offset bs))
        \<longrightarrow> snd (os_ZwWriteFile os f offset bs) = wr_bytes (unat offset) bs f)
     \<and> (\<forall>f offset bs. same_outside {unat offset..<unat offset + length bs} f (snd (os_ZwWriteFile os f offset bs)))
     \<and> (\<forall>f start beyond. NT_SUCCESS (fst (os_ZwSetZeroData os f start beyond))
        \<longrightarrow> snd (os_ZwSetZeroData os f start beyond) = zero_range (unat start) (unat beyond - unat start) f)
     \<and> (\<forall>f start beyond. same_outside {unat start..<unat beyond} f (snd (os_ZwSetZeroData os f start beyond)))"

text \<open>The services when nothing fails.\<close>

definition os_all_ok :: os_env where
  "os_all_ok =
     \<lparr>os_alloc = (\<lambda>_ _. True), os_map = (\<lambda>_ _ _. True),
      os_ZwReadFile = (\<lambda>f offset len. (STATUS_SUCCESS, rd_bytes f (unat offset) (unat len))),
      os_ZwWriteFile = (\<lambda>f offset bs. (STATUS_SUCCESS, wr_bytes (unat offset) bs f)),
      os_ZwSetZeroData = (\<lambda>f start beyond.
        (STATUS_SUCCESS, zero_range (unat start) (unat beyond - unat start) f))\<rparr>"

lemma file_os_ok_all_ok: "file_os_ok os_all_ok"
  by (auto simp: file_os_ok_def os_all_ok_def intro!: same_outside_wr_bytes same_outside_zero_range)

text \<open>Updating one element of the controller's queue arrays and namespace array.\<close>

definition upd_IoSq :: "nat \<Rightarrow> (VNVME_QUEUE_STATE \<Rightarrow> VNVME_QUEUE_STATE) \<Rightarrow> VNVME_PDO_CONTEXT \<Rightarrow> VNVME_PDO_CONTEXT" where
  "upd_IoSq i f p = p\<lparr>pdo_IoSq := (pdo_IoSq p)[i := f (pdo_IoSq p ! i)]\<rparr>"

definition upd_IoCq :: "nat \<Rightarrow> (VNVME_QUEUE_STATE \<Rightarrow> VNVME_QUEUE_STATE) \<Rightarrow> VNVME_PDO_CONTEXT \<Rightarrow> VNVME_PDO_CONTEXT" where
  "upd_IoCq i f p = p\<lparr>pdo_IoCq := (pdo_IoCq p)[i := f (pdo_IoCq p ! i)]\<rparr>"

definition upd_Namespace :: "nat \<Rightarrow> (VNVME_NAMESPACE \<Rightarrow> VNVME_NAMESPACE) \<Rightarrow> VNVME_PDO_CONTEXT \<Rightarrow> VNVME_PDO_CONTEXT" where
  "upd_Namespace i f p = p\<lparr>pdo_Namespaces := (pdo_Namespaces p)[i := f (pdo_Namespaces p ! i)]\<rparr>"

definition upd_pdo :: "(VNVME_PDO_CONTEXT \<Rightarrow> VNVME_PDO_CONTEXT) \<Rightarrow> vnvme_ctx \<Rightarrow> vnvme_ctx" where
  "upd_pdo f c = c\<lparr>pdo := f (pdo c)\<rparr>"

text \<open>Replacing the shared memory's contents (a no-op before it is allocated).\<close>

definition upd_shm :: "(mem \<Rightarrow> mem) \<Rightarrow> vnvme_ctx \<Rightarrow> vnvme_ctx" where
  "upd_shm f c = c\<lparr>g_FdoContext := map_option (\<lambda>d. d\<lparr>fdo_ShmKernelVirtAddr :=
     map_option f (fdo_ShmKernelVirtAddr d)\<rparr>) (g_FdoContext c)\<rparr>"

lemmas ctx_upd_defs = upd_IoSq_def upd_IoCq_def upd_Namespace_def upd_pdo_def upd_shm_def

text \<open>The array lengths of the C structure.\<close>

definition pdo_wf :: "VNVME_PDO_CONTEXT \<Rightarrow> bool" where
  "pdo_wf p \<longleftrightarrow> length (pdo_IoSq p) = VNVME_MAX_IO_QUEUES \<and> length (pdo_IoCq p) = VNVME_MAX_IO_QUEUES
     \<and> length (pdo_AerCids p) = VNVME_MAX_AER_COMMANDS
     \<and> length (pdo_Namespaces p) = VNVME_MAX_NAMESPACES"

lemma pdo_wf_zero: "pdo_wf zero_PDO_CONTEXT"
  by (simp add: pdo_wf_def zero_PDO_CONTEXT_def)

lemma pdo_wf_upd [simp]:
  "pdo_wf (upd_IoSq i f p) = pdo_wf p" "pdo_wf (upd_IoCq i f p) = pdo_wf p"
  "pdo_wf (upd_Namespace i g p) = pdo_wf p"
  by (simp_all add: pdo_wf_def upd_IoSq_def upd_IoCq_def upd_Namespace_def)

lemma upd_pdo_simps [simp]:
  "pdo (upd_pdo f c) = f (pdo c)" "g_Config (upd_pdo f c) = g_Config c"
  "g_FdoContext (upd_pdo f c) = g_FdoContext c" "host (upd_pdo f c) = host c"
  by (simp_all add: upd_pdo_def)

lemma upd_shm_simps [simp]:
  "pdo (upd_shm f c) = pdo c" "g_Config (upd_shm f c) = g_Config c" "host (upd_shm f c) = host c"
  by (simp_all add: upd_shm_def)

end
