(* ===== verification/Vnvme_Shm.thy ===== *)
theory Vnvme_Shm
  imports Vnvme_Context
begin

text \<open>
  The shared memory: its layout (\<^verbatim>\<open>include/vnvme_common.h\<close>), its allocation, mapping and accessors
  (\<^verbatim>\<open>vnvme/shm.c\<close>). The block is a byte memory of \<open>VNVME_SHM_SIZE\<close> bytes; the packed C structures are
  fields at fixed byte offsets in it, so that two queues whose regions overlap really alias.
\<close>

section \<open>Layout\<close>

text \<open>\<open>VNVME_ALIGN_PAGE\<close> computes \<open>(x + 4095) & ~4095\<close> on 64 bits.\<close>

definition VNVME_ALIGN_PAGE :: "u64 \<Rightarrow> u64" where
  "VNVME_ALIGN_PAGE x = (x + 4095) AND NOT 4095"

abbreviation (input) sizeof_QUEUE_DESCRIPTOR :: nat where "sizeof_QUEUE_DESCRIPTOR \<equiv> 32"
abbreviation (input) sizeof_NOTIFY_RING :: nat where "sizeof_NOTIFY_RING \<equiv> 2176"

definition VNVME_ADMIN_SQ_SIZE :: u64 where "VNVME_ADMIN_SQ_SIZE = VNVME_ALIGN_PAGE (64 * 64)"
definition VNVME_ADMIN_CQ_SIZE :: u64 where "VNVME_ADMIN_CQ_SIZE = VNVME_ALIGN_PAGE (64 * 16)"
definition VNVME_IO_SQ_SIZE :: u64 where "VNVME_IO_SQ_SIZE = VNVME_ALIGN_PAGE (256 * 64)"
definition VNVME_IO_CQ_SIZE :: u64 where "VNVME_IO_CQ_SIZE = VNVME_ALIGN_PAGE (256 * 16)"

definition VNVME_OFFSET_NOTIFY_RING :: u64 where "VNVME_OFFSET_NOTIFY_RING = 4096"
definition VNVME_OFFSET_ADMIN_SQ :: u64 where
  "VNVME_OFFSET_ADMIN_SQ = VNVME_OFFSET_NOTIFY_RING + VNVME_ALIGN_PAGE (of_nat sizeof_NOTIFY_RING)"
definition VNVME_OFFSET_ADMIN_CQ :: u64 where
  "VNVME_OFFSET_ADMIN_CQ = VNVME_OFFSET_ADMIN_SQ + VNVME_ADMIN_SQ_SIZE"
definition VNVME_OFFSET_IO_QUEUE_DESC :: u64 where
  "VNVME_OFFSET_IO_QUEUE_DESC = VNVME_OFFSET_ADMIN_CQ + VNVME_ADMIN_CQ_SIZE"
definition VNVME_IO_QUEUE_DESC_SIZE :: u64 where
  "VNVME_IO_QUEUE_DESC_SIZE = VNVME_ALIGN_PAGE (16 * 2 * of_nat sizeof_QUEUE_DESCRIPTOR)"
definition VNVME_OFFSET_IO_QUEUES :: u64 where
  "VNVME_OFFSET_IO_QUEUES = VNVME_OFFSET_IO_QUEUE_DESC + VNVME_IO_QUEUE_DESC_SIZE"
definition VNVME_IO_QUEUE_PAIR_SIZE :: u64 where
  "VNVME_IO_QUEUE_PAIR_SIZE = VNVME_IO_SQ_SIZE + VNVME_IO_CQ_SIZE"
definition VNVME_IO_SQ_OFFSET :: "u64 \<Rightarrow> u64" where
  "VNVME_IO_SQ_OFFSET n = VNVME_OFFSET_IO_QUEUES + n * VNVME_IO_QUEUE_PAIR_SIZE"
definition VNVME_IO_CQ_OFFSET :: "u64 \<Rightarrow> u64" where
  "VNVME_IO_CQ_OFFSET n = VNVME_IO_SQ_OFFSET n + VNVME_IO_SQ_SIZE"
definition VNVME_OFFSET_DATA_BUFFER :: u64 where
  "VNVME_OFFSET_DATA_BUFFER = VNVME_OFFSET_IO_QUEUES + 16 * VNVME_IO_QUEUE_PAIR_SIZE"

lemma VNVME_ALIGN_PAGE_values:
  "VNVME_ALIGN_PAGE 4096 = 4096" "VNVME_ALIGN_PAGE 1024 = 4096" "VNVME_ALIGN_PAGE 16384 = 16384"
  "VNVME_ALIGN_PAGE 2176 = 4096"
  by (simp_all add: VNVME_ALIGN_PAGE_def)

lemma layout_values:
  "VNVME_OFFSET_NOTIFY_RING = 0x1000" "VNVME_OFFSET_ADMIN_SQ = 0x2000" "VNVME_OFFSET_ADMIN_CQ = 0x3000"
  "VNVME_OFFSET_IO_QUEUE_DESC = 0x4000" "VNVME_OFFSET_IO_QUEUES = 0x5000"
  "VNVME_IO_QUEUE_PAIR_SIZE = 20480" "VNVME_OFFSET_DATA_BUFFER = 348160"
  "VNVME_IO_SQ_SIZE = 16384"
  by (simp_all add: VNVME_OFFSET_NOTIFY_RING_def VNVME_OFFSET_ADMIN_SQ_def VNVME_OFFSET_ADMIN_CQ_def
      VNVME_OFFSET_IO_QUEUE_DESC_def VNVME_OFFSET_IO_QUEUES_def VNVME_OFFSET_DATA_BUFFER_def
      VNVME_IO_QUEUE_PAIR_SIZE_def VNVME_IO_QUEUE_DESC_SIZE_def VNVME_ADMIN_SQ_SIZE_def
      VNVME_ADMIN_CQ_SIZE_def VNVME_IO_SQ_SIZE_def VNVME_IO_CQ_SIZE_def VNVME_ALIGN_PAGE_values)

section \<open>Fields of the shared structures\<close>

text \<open>The fields of a \<open>VNVME_QUEUE_DESCRIPTOR\<close> at byte offset \<open>d\<close>.\<close>

definition qd_Offset :: "mem \<Rightarrow> nat \<Rightarrow> u32" where "qd_Offset m d = rd32 m d"
definition qd_EntrySize :: "mem \<Rightarrow> nat \<Rightarrow> u32" where "qd_EntrySize m d = rd32 m (d + 4)"
definition qd_Capacity :: "mem \<Rightarrow> nat \<Rightarrow> u32" where "qd_Capacity m d = rd32 m (d + 8)"
definition qd_Valid :: "mem \<Rightarrow> nat \<Rightarrow> u32" where "qd_Valid m d = rd32 m (d + 12)"
definition qd_Head :: "mem \<Rightarrow> nat \<Rightarrow> u32" where "qd_Head m d = rd32 m (d + 16)"
definition qd_Tail :: "mem \<Rightarrow> nat \<Rightarrow> u32" where "qd_Tail m d = rd32 m (d + 20)"
definition qd_Phase :: "mem \<Rightarrow> nat \<Rightarrow> u32" where "qd_Phase m d = rd32 m (d + 24)"

definition qd_set_Offset :: "nat \<Rightarrow> u32 \<Rightarrow> mem \<Rightarrow> mem" where "qd_set_Offset d = wr32 d"
definition qd_set_EntrySize :: "nat \<Rightarrow> u32 \<Rightarrow> mem \<Rightarrow> mem" where "qd_set_EntrySize d = wr32 (d + 4)"
definition qd_set_Capacity :: "nat \<Rightarrow> u32 \<Rightarrow> mem \<Rightarrow> mem" where "qd_set_Capacity d = wr32 (d + 8)"
definition qd_set_Valid :: "nat \<Rightarrow> u32 \<Rightarrow> mem \<Rightarrow> mem" where "qd_set_Valid d = wr32 (d + 12)"
definition qd_set_Head :: "nat \<Rightarrow> u32 \<Rightarrow> mem \<Rightarrow> mem" where "qd_set_Head d = wr32 (d + 16)"
definition qd_set_Tail :: "nat \<Rightarrow> u32 \<Rightarrow> mem \<Rightarrow> mem" where "qd_set_Tail d = wr32 (d + 20)"
definition qd_set_Phase :: "nat \<Rightarrow> u32 \<Rightarrow> mem \<Rightarrow> mem" where "qd_set_Phase d = wr32 (d + 24)"

lemmas qd_get_defs = qd_Offset_def qd_EntrySize_def qd_Capacity_def qd_Valid_def qd_Head_def
  qd_Tail_def qd_Phase_def
lemmas qd_set_defs = qd_set_Offset_def qd_set_EntrySize_def qd_set_Capacity_def qd_set_Valid_def
  qd_set_Head_def qd_set_Tail_def qd_set_Phase_def
lemmas qd_defs = qd_get_defs qd_set_defs

text \<open>Offsets inside \<open>VNVME_SHM_CONTROL_BLOCK\<close>.\<close>

abbreviation (input) cb_AdminSQ :: nat where "cb_AdminSQ \<equiv> 0x20"
abbreviation (input) cb_AdminCQ :: nat where "cb_AdminCQ \<equiv> 0x40"
abbreviation (input) cb_IoQueueCount :: nat where "cb_IoQueueCount \<equiv> 0x60"
abbreviation (input) cb_IoQueueDescriptorOffset :: nat where "cb_IoQueueDescriptorOffset \<equiv> 0x68"
abbreviation (input) cb_NotifyRingOffset :: nat where "cb_NotifyRingOffset \<equiv> 0x70"
abbreviation (input) cb_CommandsProcessed :: nat where "cb_CommandsProcessed \<equiv> 0xB0"
abbreviation (input) cb_CompletionsPosted :: nat where "cb_CompletionsPosted \<equiv> 0xB8"

section \<open>Allocation\<close>

text \<open>
  The writes of \<open>VnvmeAllocateShm\<close> to the zeroed block, in the order of the source: header, the two admin
  descriptors, the I/O queue fields, the notify ring, the data buffer, the state and the statistics.
\<close>

definition shm_initial :: "mem \<Rightarrow> mem" where
  "shm_initial m =
    (let m = zero_range 0 VNVME_SHM_SIZE m;
         m = wr32 0x00 0x454D564E m;
         m = wr32 0x04 2 m;
         m = wr32 0x08 (of_nat VNVME_SHM_SIZE) m;
         m = wr32 0x0C 4096 m;
         m = wr32 0x10 0 m;
         m = qd_set_Offset cb_AdminSQ (ucast VNVME_OFFSET_ADMIN_SQ) m;
         m = qd_set_EntrySize cb_AdminSQ 64 m;
         m = qd_set_Capacity cb_AdminSQ 64 m;
         m = qd_set_Valid cb_AdminSQ 0 m;
         m = qd_set_Head cb_AdminSQ 0 m;
         m = qd_set_Tail cb_AdminSQ 0 m;
         m = qd_set_Phase cb_AdminSQ 0 m;
         m = qd_set_Offset cb_AdminCQ (ucast VNVME_OFFSET_ADMIN_CQ) m;
         m = qd_set_EntrySize cb_AdminCQ 16 m;
         m = qd_set_Capacity cb_AdminCQ 64 m;
         m = qd_set_Valid cb_AdminCQ 0 m;
         m = qd_set_Head cb_AdminCQ 0 m;
         m = qd_set_Tail cb_AdminCQ 0 m;
         m = qd_set_Phase cb_AdminCQ 1 m;
         m = wr32 cb_IoQueueCount 0 m;
         m = wr32 0x64 16 m;
         m = wr32 cb_IoQueueDescriptorOffset (ucast VNVME_OFFSET_IO_QUEUE_DESC) m;
         m = wr32 cb_NotifyRingOffset (ucast VNVME_OFFSET_NOTIFY_RING) m;
         m = wr32 0x74 (of_nat sizeof_NOTIFY_RING) m;
         m = wr32 (0x1000 + 0) 0 m;
         m = wr32 (0x1000 + 64) 0 m;
         m = wr32 (0x1000 + 124) 256 m;
         m = wr32 0x80 (ucast VNVME_OFFSET_DATA_BUFFER) m;
         m = wr32 0x84 (ucast (of_nat VNVME_SHM_SIZE - VNVME_OFFSET_DATA_BUFFER)) m;
         m = wr32 0x90 1 m;
         m = wr32 0x94 0 m;
         m = wr32 0x98 0 m;
         m = wr32 0x9C 0 m;
         m = wr64 cb_CommandsProcessed 0 m;
         m = wr64 cb_CompletionsPosted 0 m;
         m = wr64 0xC0 0 m;
         m = wr64 0xC8 0 m
     in m)"

text \<open>The allocator's answer is an argument: the fresh block with its physical address, or nothing.\<close>

definition VnvmeAllocateShm :: "(mem \<times> u64) option \<Rightarrow> VNVME_FDO_CONTEXT \<Rightarrow> NTSTATUS \<times> VNVME_FDO_CONTEXT" where
  "VnvmeAllocateShm block d =
     (case block of
        None \<Rightarrow> (STATUS_INSUFFICIENT_RESOURCES, d)
      | Some (m, phys) \<Rightarrow>
          (STATUS_SUCCESS, d\<lparr>fdo_ShmKernelVirtAddr := Some (shm_initial m), fdo_ShmPhysAddr := phys,
             fdo_ShmSize := of_nat VNVME_SHM_SIZE\<rparr>))"

definition VnvmeUnmapShmFromUser :: "VNVME_FDO_CONTEXT \<Rightarrow> VNVME_FDO_CONTEXT" where
  "VnvmeUnmapShmFromUser d =
     (if fdo_ShmUserVirtAddr d \<noteq> None \<and> fdo_ShmMdl d then d\<lparr>fdo_ShmUserVirtAddr := None\<rparr> else d)"

definition VnvmeFreeShm :: "VNVME_FDO_CONTEXT \<Rightarrow> VNVME_FDO_CONTEXT" where
  "VnvmeFreeShm d =
     (let d = VnvmeUnmapShmFromUser d;
          d = (if fdo_ShmMdl d then d\<lparr>fdo_ShmMdl := False\<rparr> else d)
      in if fdo_ShmKernelVirtAddr d \<noteq> None
         then d\<lparr>fdo_ShmKernelVirtAddr := None, fdo_ShmSize := 0\<rparr> else d)"

text \<open>
  \<open>VnvmeMapShmToUser\<close>: \<open>mdl_ok\<close> is whether \<open>IoAllocateMdl\<close> succeeds, \<open>mapped\<close> what
  \<open>MmMapLockedPagesSpecifyCache\<close> does: raise an exception, return null, or return an address.
\<close>

datatype map_result = MapException | MapNull | MapAddr u64

definition VnvmeMapShmToUser ::
  "bool \<Rightarrow> map_result \<Rightarrow> VNVME_FDO_CONTEXT \<Rightarrow> NTSTATUS \<times> u64 option \<times> VNVME_FDO_CONTEXT" where
  "VnvmeMapShmToUser mdl_ok mapped d =
     (if fdo_ShmKernelVirtAddr d = None then (STATUS_INVALID_DEVICE_STATE, None, d)
      else if \<not> fdo_ShmMdl d \<and> \<not> mdl_ok then (STATUS_INSUFFICIENT_RESOURCES, None, d)
      else
        let d = d\<lparr>fdo_ShmMdl := True\<rparr>
        in case mapped of
             MapException \<Rightarrow> (STATUS_ACCESS_VIOLATION, None, d)
           | MapNull \<Rightarrow> (STATUS_INSUFFICIENT_RESOURCES, None, d)
           | MapAddr a \<Rightarrow> (STATUS_SUCCESS, Some a, d\<lparr>fdo_ShmUserVirtAddr := Some a\<rparr>))"

section \<open>Accessors\<close>

text \<open>The driver calls these with a null context, that is, on \<open>g_FdoContext\<close>. A pointer into the block is
  its byte offset.\<close>

definition VnvmeShmGetControlBlock :: "vnvme_ctx \<Rightarrow> mem option" where
  "VnvmeShmGetControlBlock c =
     (case g_FdoContext c of None \<Rightarrow> None | Some d \<Rightarrow> fdo_ShmKernelVirtAddr d)"

definition VnvmeShmGetNotifyRing :: "vnvme_ctx \<Rightarrow> nat option" where
  "VnvmeShmGetNotifyRing c =
     (case VnvmeShmGetControlBlock c of None \<Rightarrow> None
      | Some m \<Rightarrow> (if rd32 m cb_NotifyRingOffset = 0 then None
                   else Some (unat (rd32 m cb_NotifyRingOffset))))"

definition VnvmeShmGetIoQueueDescriptors :: "vnvme_ctx \<Rightarrow> nat option" where
  "VnvmeShmGetIoQueueDescriptors c =
     (case VnvmeShmGetControlBlock c of None \<Rightarrow> None
      | Some m \<Rightarrow> (if rd32 m cb_IoQueueDescriptorOffset = 0 then None
                   else Some (unat (rd32 m cb_IoQueueDescriptorOffset))))"

lemma VnvmeShmGetControlBlock_upd_pdo [simp]:
  "VnvmeShmGetControlBlock (upd_pdo f c) = VnvmeShmGetControlBlock c"
  by (simp add: VnvmeShmGetControlBlock_def)

lemma VnvmeShmGetControlBlock_upd_shm [simp]:
  "VnvmeShmGetControlBlock (upd_shm f c) = map_option f (VnvmeShmGetControlBlock c)"
  by (simp add: VnvmeShmGetControlBlock_def upd_shm_def split: option.splits)

text \<open>\<open>shm_at c m\<close>: the shared memory is allocated and holds \<open>m\<close>.\<close>

definition shm_at :: "vnvme_ctx \<Rightarrow> mem \<Rightarrow> bool" where
  "shm_at c m \<longleftrightarrow> VnvmeShmGetControlBlock c = Some m"

lemma shm_at_upd_pdo [simp]: "shm_at (upd_pdo f c) m = shm_at c m"
  by (simp add: shm_at_def)

lemma shm_at_upd_shm [simp]: "shm_at c m \<Longrightarrow> shm_at (upd_shm f c) (f m)"
  by (simp add: shm_at_def)

end
