(* ===== verification/Vnvme_Fifo.thy ===== *)
theory Vnvme_Fifo
  imports Vnvme_Prelude
begin

text \<open>
  Interfaces of the queues of the driver. \<open>fifo_source\<close> is what a consumer of commands relies on,
  \<open>bounded_fifo\<close> adds a producer with a capacity. The submission queues in shared memory and the
  asynchronous event requests of a controller are instances.
\<close>

text \<open>Taking up to \<open>n\<close> elements, and adding a list of elements.\<close>

fun drain :: "('s \<Rightarrow> ('x \<times> 's) option) \<Rightarrow> nat \<Rightarrow> 's \<Rightarrow> 'x list \<times> 's" where
  "drain pop 0 s = ([], s)"
| "drain pop (Suc n) s =
     (case pop s of None \<Rightarrow> ([], s)
      | Some (x, s') \<Rightarrow> (let (xs, t) = drain pop n s' in (x # xs, t)))"

fun push_all :: "('x \<Rightarrow> 's \<Rightarrow> 's option) \<Rightarrow> 'x list \<Rightarrow> 's \<Rightarrow> 's option" where
  "push_all push [] s = Some s"
| "push_all push (x # xs) s = (case push x s of None \<Rightarrow> None | Some t \<Rightarrow> push_all push xs t)"

locale fifo_source =
  fixes pop :: "'s \<Rightarrow> ('x \<times> 's) option"
    and items :: "'s \<Rightarrow> 'x list"
    and inv :: "'s \<Rightarrow> bool"
  assumes pop_empty: "inv s \<Longrightarrow> items s = [] \<Longrightarrow> pop s = None"
    and pop_cons: "inv s \<Longrightarrow> items s = x # xs \<Longrightarrow> \<exists>s'. pop s = Some (x, s') \<and> items s' = xs \<and> inv s'"
begin

lemma drain_take:
  assumes "inv s"
  shows "fst (drain pop n s) = take n (items s)
    \<and> items (snd (drain pop n s)) = drop n (items s) \<and> inv (snd (drain pop n s))"
  using assms
proof (induction n arbitrary: s)
  case 0
  then show ?case by simp
next
  case (Suc n)
  show ?case
  proof (cases "items s")
    case Nil
    with Suc.prems show ?thesis by (simp add: pop_empty)
  next
    case (Cons x xs)
    from pop_cons [OF Suc.prems Cons] obtain s' where
      s': "pop s = Some (x, s')" "items s' = xs" "inv s'" by blast
    with Suc.IH [OF s'(3)] Cons show ?thesis by (simp add: case_prod_beta Let_def)
  qed
qed

lemma drain_all: "inv s \<Longrightarrow> length (items s) \<le> n \<Longrightarrow> fst (drain pop n s) = items s"
  using drain_take [of s n] by simp

end

locale bounded_fifo = fifo_source pop items inv
  for pop :: "'s \<Rightarrow> ('x \<times> 's) option" and items :: "'s \<Rightarrow> 'x list" and inv :: "'s \<Rightarrow> bool" +
  fixes push :: "'x \<Rightarrow> 's \<Rightarrow> 's option"
    and room :: nat
  assumes push_full: "inv s \<Longrightarrow> room \<le> length (items s) \<Longrightarrow> push x s = None"
    and push_room: "inv s \<Longrightarrow> length (items s) < room \<Longrightarrow>
      \<exists>s'. push x s = Some s' \<and> items s' = items s @ [x] \<and> inv s'"
begin

lemma push_all_items:
  assumes "inv s" "length (items s) + length xs \<le> room"
  shows "\<exists>t. push_all push xs s = Some t \<and> items t = items s @ xs \<and> inv t"
  using assms
proof (induction xs arbitrary: s)
  case Nil
  then show ?case by simp
next
  case (Cons x xs)
  from push_room [of s x] Cons.prems obtain s' where
    s': "push x s = Some s'" "items s' = items s @ [x]" "inv s'" by auto
  with Cons.prems Cons.IH [OF s'(3)] show ?case by simp
qed

text \<open>First in, first out: what is pushed into an empty queue is drained in the same order.\<close>

lemma push_all_drain:
  assumes "inv s" "items s = []" "length xs \<le> room"
  shows "\<exists>t. push_all push xs s = Some t \<and> fst (drain pop (length xs) t) = xs"
proof -
  from push_all_items [of s xs] assms obtain t where
    t: "push_all push xs s = Some t" "items t = xs" "inv t" by auto
  with drain_all [OF t(3), of "length xs"] show ?thesis by simp
qed

end

end
