(* ===== verification/Vnvme_Queue.thy ===== *)
theory Vnvme_Queue
  imports Vnvme_Shm Vnvme_Fifo
begin

text \<open>
  \<^verbatim>\<open>vnvme/queue.c\<close>: creating and deleting queues, fetching commands from a submission queue and posting
  completions to a completion queue, one at a time and in batches. Queue entries and descriptors live in
  the shared memory; the controller context keeps a copy of the indices.
\<close>

section \<open>Admin queues\<close>

definition VnvmeInitializeAdminQueues :: "VNVME_PDO_CONTEXT \<Rightarrow> NTSTATUS \<times> VNVME_PDO_CONTEXT" where
  "VnvmeInitializeAdminQueues p =
     (case pdo_Bar0 p of
        None \<Rightarrow> (STATUS_INVALID_DEVICE_STATE, p)
      | Some regs \<Rightarrow>
          let aqa = rd32 regs 0x24;
              asqs = (aqa AND 0xFFF) + 1;
              acqs = (drop_bit 16 aqa AND 0xFFF) + 1;
              asq = rd64 regs 0x28;
              acq = rd64 regs 0x30
          in (STATUS_SUCCESS,
              p\<lparr>pdo_AdminSqBase := asq, pdo_AdminSqSize := asqs,
                pdo_AdminCqBase := acq, pdo_AdminCqSize := acqs,
                pdo_LastAdminSqTail := 0, pdo_LastAdminCqHead := 0, pdo_AdminCqPhase := 1\<rparr>))"

section \<open>Creating and deleting I/O queues\<close>

text \<open>The \<open>ULONG\<close> offsets computed from the descriptor array's offset.\<close>

definition create_sqOffset :: "mem \<Rightarrow> u32 \<Rightarrow> u32" where
  "create_sqOffset m queueIndex =
     rd32 m cb_IoQueueDescriptorOffset + (16 * 2 * 32) + queueIndex * (256 * 64 + 256 * 16)"

definition create_cqOffset :: "mem \<Rightarrow> u32 \<Rightarrow> u32" where
  "create_cqOffset m queueIndex =
     rd32 m cb_IoQueueDescriptorOffset + (16 * 2 * 32) + queueIndex * (256 * 64 + 256 * 16) + (256 * 64)"

definition VnvmeCreateIoSubmissionQueue ::
  "u16 \<Rightarrow> u16 \<Rightarrow> u64 \<Rightarrow> u16 \<Rightarrow> vnvme_ctx \<Rightarrow> (NTSTATUS \<times> vnvme_ctx) option" where
  "VnvmeCreateIoSubmissionQueue QueueId QueueSize PrpAddress CqId c =
     (if QueueId = 0 \<or> ucast QueueId > MaxIOQueues (g_Config c) then Some (STATUS_INVALID_PARAMETER, c)
      else if CqId = 0 \<or> ucast CqId > MaxIOQueues (g_Config c) then Some (STATUS_INVALID_PARAMETER, c)
      else do {
        cq \<leftarrow> arr_get (pdo_IoCq (pdo c)) (unat CqId - 1);
        if \<not> qs_Created cq then Some (STATUS_INVALID_PARAMETER, c)
        else do {
          let queueIndex = unat QueueId - 1;
          sq \<leftarrow> arr_get (pdo_IoSq (pdo c)) queueIndex;
          if qs_Created sq then Some (STATUS_OBJECT_NAME_COLLISION, c)
          else (case (VnvmeShmGetControlBlock c, VnvmeShmGetIoQueueDescriptors c) of
            (Some m, Some ioDescs) \<Rightarrow> do {
              let sqOffset = create_sqOffset m (of_nat queueIndex);
              let sqDesc = ioDescs + 2 * queueIndex * 32;
              check (sqDesc + 32 \<le> VNVME_SHM_SIZE);
              check (unat sqOffset + unat QueueSize * 64 \<le> VNVME_SHM_SIZE);
              let c = upd_pdo (upd_IoSq queueIndex (\<lambda>q. q\<lparr>qs_BaseAddress := PrpAddress,
                        qs_Size := ucast QueueSize, qs_Head := 0, qs_Tail := 0, qs_Created := True\<rparr>)) c;
              let c = upd_shm (\<lambda>m.
                        zero_range (unat sqOffset) (unat QueueSize * 64)
                          (qd_set_Valid sqDesc 1 (qd_set_Tail sqDesc 0 (qd_set_Head sqDesc 0
                            (qd_set_Capacity sqDesc (ucast QueueSize) (qd_set_EntrySize sqDesc 64
                              (qd_set_Offset sqDesc sqOffset m))))))) c;
              Some (STATUS_SUCCESS,
                    upd_pdo (\<lambda>p. p\<lparr>pdo_IoQueueCount := pdo_IoQueueCount p + 1\<rparr>) c)
            }
          | _ \<Rightarrow> Some (STATUS_DEVICE_NOT_READY, c))
        }
      })"

definition VnvmeCreateIoCompletionQueue ::
  "u16 \<Rightarrow> u16 \<Rightarrow> u64 \<Rightarrow> u16 \<Rightarrow> vnvme_ctx \<Rightarrow> (NTSTATUS \<times> vnvme_ctx) option" where
  "VnvmeCreateIoCompletionQueue QueueId QueueSize PrpAddress IrqVector c =
     (if QueueId = 0 \<or> ucast QueueId > MaxIOQueues (g_Config c) then Some (STATUS_INVALID_PARAMETER, c)
      else do {
        let queueIndex = unat QueueId - 1;
        cq \<leftarrow> arr_get (pdo_IoCq (pdo c)) queueIndex;
        if qs_Created cq then Some (STATUS_OBJECT_NAME_COLLISION, c)
        else (case (VnvmeShmGetControlBlock c, VnvmeShmGetIoQueueDescriptors c) of
          (Some m, Some ioDescs) \<Rightarrow> do {
            let cqOffset = create_cqOffset m (of_nat queueIndex);
            let cqDesc = ioDescs + (2 * queueIndex + 1) * 32;
            check (cqDesc + 32 \<le> VNVME_SHM_SIZE);
            check (unat cqOffset + unat QueueSize * 16 \<le> VNVME_SHM_SIZE);
            let c = upd_pdo (upd_IoCq queueIndex (\<lambda>q. q\<lparr>qs_BaseAddress := PrpAddress,
                      qs_Size := ucast QueueSize, qs_Head := 0, qs_Tail := 0, qs_PhaseTag := True,
                      qs_Created := True\<rparr>)) c;
            let c = upd_shm (\<lambda>m.
                      zero_range (unat cqOffset) (unat QueueSize * 16)
                        (qd_set_Valid cqDesc 1 (qd_set_Phase cqDesc 1 (qd_set_Tail cqDesc 0
                          (qd_set_Head cqDesc 0 (qd_set_Capacity cqDesc (ucast QueueSize)
                            (qd_set_EntrySize cqDesc 16 (qd_set_Offset cqDesc cqOffset m)))))))) c;
            Some (STATUS_SUCCESS, c)
          }
        | _ \<Rightarrow> Some (STATUS_DEVICE_NOT_READY, c))
      })"

definition VnvmeDeleteIoSubmissionQueue :: "u16 \<Rightarrow> vnvme_ctx \<Rightarrow> (NTSTATUS \<times> vnvme_ctx) option" where
  "VnvmeDeleteIoSubmissionQueue QueueId c =
     (if QueueId = 0 \<or> ucast QueueId > MaxIOQueues (g_Config c) then Some (STATUS_INVALID_PARAMETER, c)
      else do {
        let queueIndex = unat QueueId - 1;
        sq \<leftarrow> arr_get (pdo_IoSq (pdo c)) queueIndex;
        if \<not> qs_Created sq then Some (STATUS_NOT_FOUND, c)
        else do {
          let c = upd_pdo (upd_IoSq queueIndex (\<lambda>_. zero_QUEUE_STATE)) c;
          c \<leftarrow> (case VnvmeShmGetIoQueueDescriptors c of
                 None \<Rightarrow> Some c
               | Some ioDescs \<Rightarrow> do {
                   let sqDesc = ioDescs + 2 * queueIndex * 32;
                   check (sqDesc + 32 \<le> VNVME_SHM_SIZE);
                   Some (upd_shm (\<lambda>m. qd_set_Tail sqDesc 0 (qd_set_Head sqDesc 0
                                        (qd_set_Valid sqDesc 0 m))) c)
                 });
          Some (STATUS_SUCCESS,
                upd_pdo (\<lambda>p. if pdo_IoQueueCount p > 0
                             then p\<lparr>pdo_IoQueueCount := pdo_IoQueueCount p - 1\<rparr> else p) c)
        }
      })"

text \<open>The scan of all submission queues before a completion queue is deleted.\<close>

definition same_index_sq_created :: "VNVME_PDO_CONTEXT \<Rightarrow> nat \<Rightarrow> bool" where
  "same_index_sq_created p queueIndex \<longleftrightarrow>
     list_ex (\<lambda>i. qs_Created (pdo_IoSq p ! i) \<and> i = queueIndex) [0..<VNVME_MAX_IO_QUEUES]"

definition VnvmeDeleteIoCompletionQueue :: "u16 \<Rightarrow> vnvme_ctx \<Rightarrow> (NTSTATUS \<times> vnvme_ctx) option" where
  "VnvmeDeleteIoCompletionQueue QueueId c =
     (if QueueId = 0 \<or> ucast QueueId > MaxIOQueues (g_Config c) then Some (STATUS_INVALID_PARAMETER, c)
      else do {
        let queueIndex = unat QueueId - 1;
        cq \<leftarrow> arr_get (pdo_IoCq (pdo c)) queueIndex;
        if \<not> qs_Created cq then Some (STATUS_NOT_FOUND, c)
        else if same_index_sq_created (pdo c) queueIndex then Some (STATUS_DEVICE_BUSY, c)
        else do {
          let c = upd_pdo (upd_IoCq queueIndex (\<lambda>_. zero_QUEUE_STATE)) c;
          c \<leftarrow> (case VnvmeShmGetIoQueueDescriptors c of
                 None \<Rightarrow> Some c
               | Some ioDescs \<Rightarrow> do {
                   let cqDesc = ioDescs + (2 * queueIndex + 1) * 32;
                   check (cqDesc + 32 \<le> VNVME_SHM_SIZE);
                   Some (upd_shm (\<lambda>m. qd_set_Phase cqDesc 1 (qd_set_Tail cqDesc 0
                                        (qd_set_Head cqDesc 0 (qd_set_Valid cqDesc 0 m)))) c)
                 });
          Some (STATUS_SUCCESS, c)
        }
      })"

section \<open>Fetching a command\<close>

text \<open>Where the descriptor of submission queue \<open>QueueId\<close> is, or the status returned instead.\<close>

definition fetch_sqDesc :: "u16 \<Rightarrow> vnvme_ctx \<Rightarrow> (NTSTATUS + nat) option" where
  "fetch_sqDesc QueueId c =
     (if QueueId = 0 then Some (Inr cb_AdminSQ)
      else if ucast QueueId > MaxIOQueues (g_Config c) then Some (Inl STATUS_INVALID_PARAMETER)
      else do {
        sq \<leftarrow> arr_get (pdo_IoSq (pdo c)) (unat QueueId - 1);
        if \<not> qs_Created sq then Some (Inl STATUS_INVALID_PARAMETER)
        else (case VnvmeShmGetIoQueueDescriptors c of
                None \<Rightarrow> Some (Inl STATUS_DEVICE_NOT_READY)
              | Some ioDescs \<Rightarrow> do {
                  let d = ioDescs + 2 * (unat QueueId - 1) * 32;
                  check (d + 32 \<le> VNVME_SHM_SIZE);
                  Some (Inr d)
                })
      })"

text \<open>Copying the new head to the controller context.\<close>

definition sync_sq_Head :: "u16 \<Rightarrow> u32 \<Rightarrow> vnvme_ctx \<Rightarrow> vnvme_ctx" where
  "sync_sq_Head QueueId head =
     upd_pdo (if QueueId = 0 then (\<lambda>p. p\<lparr>pdo_AdminSq := (pdo_AdminSq p)\<lparr>qs_Head := head\<rparr>\<rparr>)
              else upd_IoSq (unat QueueId - 1) (\<lambda>q. q\<lparr>qs_Head := head\<rparr>))"

text \<open>\<open>Command\<close> is whether the output pointer is non-null; the command is part of the result.\<close>

definition VnvmeFetchCommand ::
  "u16 \<Rightarrow> bool \<Rightarrow> vnvme_ctx \<Rightarrow> (NTSTATUS \<times> NVME_COMMAND \<times> vnvme_ctx) option" where
  "VnvmeFetchCommand QueueId Command c =
     (if \<not> Command then Some (STATUS_INVALID_PARAMETER, zero_COMMAND, c)
      else (case VnvmeShmGetControlBlock c of
        None \<Rightarrow> Some (STATUS_DEVICE_NOT_READY, zero_COMMAND, c)
      | Some m \<Rightarrow> do {
          r \<leftarrow> fetch_sqDesc QueueId c;
          (case r of
             Inl status \<Rightarrow> Some (status, zero_COMMAND, c)
           | Inr sqDesc \<Rightarrow>
               if qd_Valid m sqDesc = 0 then Some (STATUS_INVALID_DEVICE_STATE, zero_COMMAND, c)
               else do {
                 let head = qd_Head m sqDesc;
                 let tail = qd_Tail m sqDesc;
                 if head = tail then Some (STATUS_NO_MORE_ENTRIES, zero_COMMAND, c)
                 else do {
                   let entry = unat (qd_Offset m sqDesc) + 64 * unat head;
                   check (entry + 64 \<le> VNVME_SHM_SIZE);
                   check (qd_Capacity m sqDesc \<noteq> 0);
                   let head' = (head + 1) mod qd_Capacity m sqDesc;
                   Some (STATUS_SUCCESS, rd_NVME_COMMAND m entry,
                         sync_sq_Head QueueId head' (upd_shm (qd_set_Head sqDesc head') c))
                 }
               })
        }))"

section \<open>Posting a completion\<close>

definition post_cqDesc :: "u16 \<Rightarrow> vnvme_ctx \<Rightarrow> (NTSTATUS + nat \<times> bool) option" where
  "post_cqDesc QueueId c =
     (if QueueId = 0 then Some (Inr (cb_AdminCQ, qs_PhaseTag (pdo_AdminCq (pdo c))))
      else if ucast QueueId > MaxIOQueues (g_Config c) then Some (Inl STATUS_INVALID_PARAMETER)
      else do {
        cq \<leftarrow> arr_get (pdo_IoCq (pdo c)) (unat QueueId - 1);
        if \<not> qs_Created cq then Some (Inl STATUS_INVALID_PARAMETER)
        else (case VnvmeShmGetIoQueueDescriptors c of
                None \<Rightarrow> Some (Inl STATUS_DEVICE_NOT_READY)
              | Some ioDescs \<Rightarrow> do {
                  let d = ioDescs + (2 * (unat QueueId - 1) + 1) * 32;
                  check (d + 32 \<le> VNVME_SHM_SIZE);
                  Some (Inr (d, qs_PhaseTag cq))
                })
      })"

text \<open>The entry that is stored: the completion's fields, with the queue's phase bit.\<close>

definition cqe_with_phase :: "NVME_COMPLETION \<Rightarrow> bool \<Rightarrow> NVME_COMPLETION" where
  "cqe_with_phase cpl phase = cpl\<lparr>cqe_Status := with_phase (cqe_Status cpl) phase\<rparr>"

definition sync_cq :: "u16 \<Rightarrow> (VNVME_QUEUE_STATE \<Rightarrow> VNVME_QUEUE_STATE) \<Rightarrow> vnvme_ctx \<Rightarrow> vnvme_ctx" where
  "sync_cq QueueId f =
     upd_pdo (if QueueId = 0 then (\<lambda>p. p\<lparr>pdo_AdminCq := f (pdo_AdminCq p)\<rparr>)
              else upd_IoCq (unat QueueId - 1) f)"

definition VnvmePostCompletion ::
  "u16 \<Rightarrow> NVME_COMPLETION option \<Rightarrow> vnvme_ctx \<Rightarrow> (NTSTATUS \<times> vnvme_ctx) option" where
  "VnvmePostCompletion QueueId Completion c =
     (case Completion of
        None \<Rightarrow> Some (STATUS_INVALID_PARAMETER, c)
      | Some cpl \<Rightarrow>
        (case VnvmeShmGetControlBlock c of
           None \<Rightarrow> Some (STATUS_DEVICE_NOT_READY, c)
         | Some m \<Rightarrow> do {
             r \<leftarrow> post_cqDesc QueueId c;
             (case r of
                Inl status \<Rightarrow> Some (status, c)
              | Inr (cqDesc, phase) \<Rightarrow>
                  if qd_Valid m cqDesc = 0 then Some (STATUS_INVALID_DEVICE_STATE, c)
                  else do {
                    let tail = qd_Tail m cqDesc;
                    let entry = unat (qd_Offset m cqDesc) + 16 * unat tail;
                    check (entry + 16 \<le> VNVME_SHM_SIZE);
                    let c = upd_shm (wr_NVME_COMPLETION entry (cqe_with_phase cpl phase)) c;
                    let capacity = qd_Capacity (wr_NVME_COMPLETION entry (cqe_with_phase cpl phase) m) cqDesc;
                    check (capacity \<noteq> 0);
                    let tail' = (tail + 1) mod capacity;
                    let c = (if tail' = 0
                             then sync_cq QueueId (\<lambda>q. q\<lparr>qs_PhaseTag := \<not> phase\<rparr>)
                                    (upd_shm (qd_set_Phase cqDesc (if \<not> phase then 1 else 0)) c)
                             else c);
                    let c = upd_shm (qd_set_Tail cqDesc tail') c;
                    let c = sync_cq QueueId (\<lambda>q. q\<lparr>qs_Tail := tail'\<rparr>) c;
                    let c = upd_shm (\<lambda>m. wr64 cb_CompletionsPosted (rd64 m cb_CompletionsPosted + 1) m) c;
                    Some (STATUS_SUCCESS, c)
                  })
           }))"

section \<open>Batches\<close>

fun fetch_batch_loop ::
  "mem \<Rightarrow> nat \<Rightarrow> u32 \<Rightarrow> u32 \<Rightarrow> nat \<Rightarrow> u32 \<Rightarrow> (NVME_COMMAND list \<times> u32) option" where
  "fetch_batch_loop m sqBase depth tail 0 head = Some ([], head)"
| "fetch_batch_loop m sqBase depth tail (Suc n) head =
     (if head = tail then Some ([], head)
      else do {
        check (sqBase + 64 * unat head + 64 \<le> VNVME_SHM_SIZE);
        check (depth \<noteq> 0);
        (cmds, head') \<leftarrow> fetch_batch_loop m sqBase depth tail n ((head + 1) mod depth);
        Some (rd_NVME_COMMAND m (sqBase + 64 * unat head) # cmds, head')
      })"

definition VnvmeFetchCommandBatch ::
  "u16 \<Rightarrow> u32 \<Rightarrow> vnvme_ctx \<Rightarrow> (NTSTATUS \<times> NVME_COMMAND list \<times> vnvme_ctx) option" where
  "VnvmeFetchCommandBatch QueueId MaxCommands c =
     (if MaxCommands = 0 then Some (STATUS_SUCCESS, [], c)
      else (case VnvmeShmGetControlBlock c of
        None \<Rightarrow> Some (STATUS_DEVICE_NOT_READY, [], c)
      | Some m \<Rightarrow> do {
          r \<leftarrow> (if QueueId = 0 then Some (Inr cb_AdminSQ)
                else (case VnvmeShmGetIoQueueDescriptors c of
                        None \<Rightarrow> Some (Inl STATUS_INVALID_PARAMETER)
                      | Some ioDescs \<Rightarrow>
                          if ucast QueueId > rd32 m cb_IoQueueCount
                             \<or> unat (QueueId - 1) \<ge> VNVME_MAX_IO_QUEUES
                          then Some (Inl STATUS_INVALID_PARAMETER)
                          else do {
                            let d = ioDescs + 2 * unat (QueueId - 1) * 32;
                            check (d + 32 \<le> VNVME_SHM_SIZE);
                            Some (Inr d)
                          }));
          (case r of
             Inl status \<Rightarrow> Some (status, [], c)
           | Inr sqDesc \<Rightarrow>
               if qd_Head m sqDesc = qd_Tail m sqDesc then Some (STATUS_SUCCESS, [], c)
               else do {
                 (cmds, head) \<leftarrow> fetch_batch_loop m (unat (qd_Offset m sqDesc)) (qd_Capacity m sqDesc)
                                  (qd_Tail m sqDesc) (unat MaxCommands) (qd_Head m sqDesc);
                 let c = upd_shm (qd_set_Head sqDesc head) c;
                 let c = upd_shm (\<lambda>m. wr64 cb_CommandsProcessed
                           (rd64 m cb_CommandsProcessed + of_nat (length cmds)) m) c;
                 Some (STATUS_SUCCESS, cmds, c)
               })
        }))"

fun post_batch_loop ::
  "nat \<Rightarrow> nat \<Rightarrow> u32 \<Rightarrow> NVME_COMPLETION list \<Rightarrow> mem \<times> u32 \<times> bool \<Rightarrow> (mem \<times> u32 \<times> bool) option" where
  "post_batch_loop cqDesc cqBase depth [] (m, tail, phase) = Some (m, tail, phase)"
| "post_batch_loop cqDesc cqBase depth (src # srcs) (m, tail, phase) = do {
     check (cqBase + 16 * unat tail + 16 \<le> VNVME_SHM_SIZE);
     let m = wr_NVME_COMPLETION (cqBase + 16 * unat tail) (cqe_with_phase src phase) m;
     check (depth \<noteq> 0);
     let tail = (tail + 1) mod depth;
     let (m, phase) = (if tail = 0 then (qd_set_Phase cqDesc (if \<not> phase then 1 else 0) m, \<not> phase)
                       else (m, phase));
     post_batch_loop cqDesc cqBase depth srcs (m, tail, phase)
   }"

definition VnvmePostCompletionBatch ::
  "u16 \<Rightarrow> NVME_COMPLETION list \<Rightarrow> vnvme_ctx \<Rightarrow> (NTSTATUS \<times> vnvme_ctx) option" where
  "VnvmePostCompletionBatch QueueId Completions c =
     (if Completions = [] then Some (STATUS_SUCCESS, c)
      else (case VnvmeShmGetControlBlock c of
        None \<Rightarrow> Some (STATUS_DEVICE_NOT_READY, c)
      | Some m \<Rightarrow> do {
          r \<leftarrow> (if QueueId = 0 then Some (Inr (cb_AdminCQ, qs_PhaseTag (pdo_AdminCq (pdo c))))
                else (case VnvmeShmGetIoQueueDescriptors c of
                        None \<Rightarrow> Some (Inl STATUS_INVALID_PARAMETER)
                      | Some ioDescs \<Rightarrow>
                          if ucast QueueId > rd32 m cb_IoQueueCount
                             \<or> unat (QueueId - 1) \<ge> VNVME_MAX_IO_QUEUES
                          then Some (Inl STATUS_INVALID_PARAMETER)
                          else do {
                            let d = ioDescs + (2 * unat (QueueId - 1) + 1) * 32;
                            check (d + 32 \<le> VNVME_SHM_SIZE);
                            cq \<leftarrow> arr_get (pdo_IoCq (pdo c)) (unat (QueueId - 1));
                            Some (Inr (d, qs_PhaseTag cq))
                          }));
          (case r of
             Inl status \<Rightarrow> Some (status, c)
           | Inr (cqDesc, phase) \<Rightarrow> do {
               (m', tail, phase') \<leftarrow> post_batch_loop cqDesc (unat (qd_Offset m cqDesc))
                 (qd_Capacity m cqDesc) Completions (m, qd_Tail m cqDesc, phase);
               let c = upd_shm (\<lambda>_. qd_set_Tail cqDesc tail m') c;
               let c = sync_cq QueueId (\<lambda>q. q\<lparr>qs_Tail := tail, qs_PhaseTag := phase'\<rparr>) c;
               let c = upd_shm (\<lambda>m. wr64 cb_CompletionsPosted
                         (rd64 m cb_CompletionsPosted + of_nat (length Completions)) m) c;
               Some (STATUS_SUCCESS, c)
             })
        }))"

section \<open>The submission queues as a source of commands\<close>

text \<open>
  \<open>sq_ring_ok\<close>: queue \<open>QueueId\<close> is usable. Its descriptor is inside the block, valid, with its indices
  below a non-zero capacity, and its entries lie inside the block and do not overlap the head field of the
  descriptor, nor the control block's queue fields.
\<close>

definition sq_entries_ok :: "mem \<Rightarrow> nat \<Rightarrow> bool" where
  "sq_entries_ok m d \<longleftrightarrow>
     d + 32 \<le> VNVME_SHM_SIZE \<and> qd_Valid m d \<noteq> 0
     \<and> qd_Head m d < qd_Capacity m d \<and> qd_Tail m d < qd_Capacity m d
     \<and> d + 32 \<le> unat (qd_Offset m d) \<and> 0x100 \<le> unat (qd_Offset m d)
     \<and> unat (qd_Offset m d) + 64 * unat (qd_Capacity m d) \<le> VNVME_SHM_SIZE"

definition sq_ring_ok :: "u16 \<Rightarrow> vnvme_ctx \<Rightarrow> bool" where
  "sq_ring_ok QueueId c \<longleftrightarrow>
     (case VnvmeShmGetControlBlock c of
        None \<Rightarrow> False
      | Some m \<Rightarrow>
          (\<exists>d. fetch_sqDesc QueueId c = Some (Inr d) \<and> sq_entries_ok m d \<and> (QueueId = 0 \<or> 0x100 \<le> d))
          \<and> pdo_wf (pdo c))"

text \<open>The pending commands of the queue whose descriptor is at \<open>d\<close>, oldest first.\<close>

definition sq_items :: "mem \<Rightarrow> nat \<Rightarrow> NVME_COMMAND list" where
  "sq_items m d = ring_list (\<lambda>i. rd_NVME_COMMAND m (unat (qd_Offset m d) + 64 * i))
     (unat (qd_Head m d)) (unat (qd_Tail m d)) (unat (qd_Capacity m d))"

definition pending_commands :: "u16 \<Rightarrow> vnvme_ctx \<Rightarrow> NVME_COMMAND list" where
  "pending_commands QueueId c =
     (case (VnvmeShmGetControlBlock c, fetch_sqDesc QueueId c) of
        (Some m, Some (Inr d)) \<Rightarrow> sq_items m d | _ \<Rightarrow> [])"

lemma qd_set_Head_frame [simp]:
  "qd_Offset (qd_set_Head d h m) d = qd_Offset m d" "qd_Capacity (qd_set_Head d h m) d = qd_Capacity m d"
  "qd_Valid (qd_set_Head d h m) d = qd_Valid m d" "qd_Tail (qd_set_Head d h m) d = qd_Tail m d"
  "qd_Head (qd_set_Head d h m) d = h"
  by (simp_all add: qd_defs mem_simps)

lemma sq_entry_frame:
  assumes "d + 32 \<le> a"
  shows "rd_NVME_COMMAND (qd_set_Head d h m) a = rd_NVME_COMMAND m a"
  using assms by (intro rd_NVME_COMMAND_eqI) (auto simp: qd_set_Head_def wr32_outside)

lemma sq_items_pop:
  assumes ok: "sq_entries_ok m d" and ne: "qd_Head m d \<noteq> qd_Tail m d"
  defines "h' \<equiv> (qd_Head m d + 1) mod qd_Capacity m d"
  shows "sq_items m d = rd_NVME_COMMAND m (unat (qd_Offset m d) + 64 * unat (qd_Head m d))
      # sq_items (qd_set_Head d h' m) d"
    and "sq_entries_ok (qd_set_Head d h' m) d"
proof -
  have lt: "unat (qd_Head m d) < unat (qd_Capacity m d)" "unat (qd_Tail m d) < unat (qd_Capacity m d)"
    and far: "d + 32 \<le> unat (qd_Offset m d)"
    using ok by (simp_all add: sq_entries_ok_def word_less_nat_alt)
  have h': "unat h' = Suc (unat (qd_Head m d)) mod unat (qd_Capacity m d)"
    using ok by (simp add: h'_def unat_word_suc_mod sq_entries_ok_def)
  have ne': "unat (qd_Head m d) \<noteq> unat (qd_Tail m d)"
    using ne by (simp add: word_unat_eq_iff)
  have frame: "rd_NVME_COMMAND (qd_set_Head d h' m) (unat (qd_Offset m d) + 64 * i)
      = rd_NVME_COMMAND m (unat (qd_Offset m d) + 64 * i)" for i
    using far by (intro sq_entry_frame) simp
  show "sq_items m d = rd_NVME_COMMAND m (unat (qd_Offset m d) + 64 * unat (qd_Head m d))
      # sq_items (qd_set_Head d h' m) d"
    unfolding sq_items_def ring_list_pop [OF lt ne'] by (simp add: h' frame)
  have "h' < qd_Capacity m d"
    unfolding h'_def using ok by (intro word_suc_mod_less) (auto simp: sq_entries_ok_def word_gt_0)
  with ok show "sq_entries_ok (qd_set_Head d h' m) d"
    by (simp add: sq_entries_ok_def)
qed

lemma sq_items_Nil_iff: "sq_entries_ok m d \<Longrightarrow> sq_items m d = [] \<longleftrightarrow> qd_Head m d = qd_Tail m d"
  unfolding sq_items_def sq_entries_ok_def
  by (simp add: ring_list_Nil_iff word_less_nat_alt word_unat_eq_iff)

text \<open>Fetching does not move the descriptor.\<close>

lemma fetch_sqDesc_after:
  assumes "fetch_sqDesc QueueId c = Some (Inr d)" "VnvmeShmGetControlBlock c = Some m"
    and "QueueId = 0 \<or> 0x100 \<le> d" "pdo_wf (pdo c)"
  shows "fetch_sqDesc QueueId (sync_sq_Head QueueId h (upd_shm (qd_set_Head d h) c)) = Some (Inr d)"
proof (cases "QueueId = 0")
  case True
  with assms show ?thesis by (simp add: fetch_sqDesc_def)
next
  case False
  with assms(3) have "rd32 (qd_set_Head d h m) 0x68 = rd32 m 0x68"
    by (simp add: qd_set_Head_def mem_simps)
  with False assms show ?thesis
    by (auto simp: fetch_sqDesc_def sync_sq_Head_def VnvmeShmGetIoQueueDescriptors_def arr_get_def
        upd_IoSq_def nth_list_update Let_def check_bind split: if_splits option.splits)
qed

lemma VnvmeFetchCommand_step:
  assumes "VnvmeShmGetControlBlock c = Some m" "fetch_sqDesc QueueId c = Some (Inr d)"
    and ok: "sq_entries_ok m d" and ne: "qd_Head m d \<noteq> qd_Tail m d"
  defines "h' \<equiv> (qd_Head m d + 1) mod qd_Capacity m d"
  shows "VnvmeFetchCommand QueueId True c = Some (STATUS_SUCCESS,
      rd_NVME_COMMAND m (unat (qd_Offset m d) + 64 * unat (qd_Head m d)),
      sync_sq_Head QueueId h' (upd_shm (qd_set_Head d h') c))"
proof -
  have "unat (qd_Head m d) < unat (qd_Capacity m d)" "qd_Capacity m d \<noteq> 0"
    "unat (qd_Offset m d) + 64 * unat (qd_Capacity m d) \<le> VNVME_SHM_SIZE"
    using ok by (auto simp: sq_entries_ok_def word_less_nat_alt)
  moreover from this have "unat (qd_Offset m d) + 64 * unat (qd_Head m d) + 64 \<le> VNVME_SHM_SIZE"
    by linarith
  ultimately show ?thesis
    using assms by (simp add: VnvmeFetchCommand_def Let_def sq_entries_ok_def h'_def)
qed

text \<open>A fetch as an operation on the pending commands.\<close>

definition fetch_pop :: "u16 \<Rightarrow> vnvme_ctx \<Rightarrow> (NVME_COMMAND \<times> vnvme_ctx) option" where
  "fetch_pop QueueId c =
     (case VnvmeFetchCommand QueueId True c of
        Some (STATUS_SUCCESS, cmd, c') \<Rightarrow> Some (cmd, c') | _ \<Rightarrow> None)"

lemma fetch_pop_empty:
  assumes "sq_ring_ok QueueId c" "pending_commands QueueId c = []"
  shows "VnvmeFetchCommand QueueId True c = Some (STATUS_NO_MORE_ENTRIES, zero_COMMAND, c)"
  using assms
  by (auto simp: sq_ring_ok_def pending_commands_def VnvmeFetchCommand_def Let_def sq_items_Nil_iff
      sq_entries_ok_def split: option.splits)

lemma fetch_pop_cons:
  assumes "sq_ring_ok QueueId c" "pending_commands QueueId c = cmd # cmds"
  shows "\<exists>c'. VnvmeFetchCommand QueueId True c = Some (STATUS_SUCCESS, cmd, c')
    \<and> pending_commands QueueId c' = cmds \<and> sq_ring_ok QueueId c'"
proof -
  from assms(1) obtain m d where m: "VnvmeShmGetControlBlock c = Some m"
    and d: "fetch_sqDesc QueueId c = Some (Inr d)" "sq_entries_ok m d" "QueueId = 0 \<or> 0x100 \<le> d"
    and wf: "pdo_wf (pdo c)"
    by (auto simp: sq_ring_ok_def split: option.splits)
  define h' where "h' = (qd_Head m d + 1) mod qd_Capacity m d"
  define c' where "c' = sync_sq_Head QueueId h' (upd_shm (qd_set_Head d h') c)"
  from assms(2) m d have items: "sq_items m d = cmd # cmds"
    by (simp add: pending_commands_def)
  then have ne: "qd_Head m d \<noteq> qd_Tail m d"
    using sq_items_Nil_iff [OF d(2)] by auto
  note step = sq_items_pop [OF d(2) ne, folded h'_def]
  have m': "VnvmeShmGetControlBlock c' = Some (qd_set_Head d h' m)"
    using m by (simp add: c'_def sync_sq_Head_def)
  have d': "fetch_sqDesc QueueId c' = Some (Inr d)"
    using fetch_sqDesc_after [OF d(1) m d(3) wf] by (simp add: c'_def)
  have wf': "pdo_wf (pdo c')"
    using wf by (simp add: c'_def sync_sq_Head_def pdo_wf_def upd_IoSq_def)
  show ?thesis
    using VnvmeFetchCommand_step [OF m d(1,2) ne] step items m' d' wf' d(3)
    by (auto simp: h'_def [symmetric] c'_def [symmetric] pending_commands_def sq_ring_ok_def)
qed

interpretation sq: fifo_source "fetch_pop QueueId" "pending_commands QueueId" "sq_ring_ok QueueId"
  for QueueId
proof
  fix c assume "sq_ring_ok QueueId c" "pending_commands QueueId c = []"
  from fetch_pop_empty [OF this] show "fetch_pop QueueId c = None"
    by (simp add: fetch_pop_def)
next
  fix c cmd cmds assume "sq_ring_ok QueueId c" "pending_commands QueueId c = cmd # cmds"
  from fetch_pop_cons [OF this]
  show "\<exists>c'. fetch_pop QueueId c = Some (cmd, c') \<and> pending_commands QueueId c' = cmds \<and> sq_ring_ok QueueId c'"
    by (auto simp: fetch_pop_def)
qed

section \<open>Properties of fetching\<close>

text \<open>On a usable submission queue a fetch is a pop of the pending commands: an empty queue answers
  \<open>STATUS_NO_MORE_ENTRIES\<close> and changes nothing; otherwise the oldest command is returned, the others stay
  pending in order, and the queue stays usable.\<close>

theorem VnvmeFetchCommand_pops:
  assumes "sq_ring_ok QueueId c"
  shows "case pending_commands QueueId c of
      [] \<Rightarrow> VnvmeFetchCommand QueueId True c = Some (STATUS_NO_MORE_ENTRIES, zero_COMMAND, c)
    | cmd # cmds \<Rightarrow> \<exists>c'. VnvmeFetchCommand QueueId True c = Some (STATUS_SUCCESS, cmd, c')
        \<and> pending_commands QueueId c' = cmds \<and> sq_ring_ok QueueId c'"
  using fetch_pop_empty [OF assms] fetch_pop_cons [OF assms] by (cases "pending_commands QueueId c") auto

text \<open>A shared memory with two commands pending on a valid admin queue, as a concrete state.\<close>

definition example_shm :: mem where
  "example_shm = wr32 0x2044 7 (wr16 0x2042 0x1234 (wr8 0x2040 2
     (wr32 0x34 2 (wr32 0x2C 1 (wr32 0x28 64 (wr32 0x20 0x2000 (\<lambda>_. 0)))))))"

definition example_fdo :: "mem \<Rightarrow> VNVME_FDO_CONTEXT" where
  "example_fdo m =
     \<lparr>fdo_CommandMode = VNVME_CMD_MODE_USER, fdo_ShmKernelVirtAddr = Some m, fdo_ShmPhysAddr = 0,
      fdo_ShmSize = of_nat VNVME_SHM_SIZE, fdo_ShmMdl = False, fdo_ShmUserVirtAddr = None,
      fdo_CommandReadyEvent = False, fdo_UserReady = True, fdo_ShutdownRequested = False,
      fdo_UserCrashed = False, fdo_LastHeartbeat = 0, fdo_EventNotificationEnabled = False,
      fdo_CommandsProcessed = 0, fdo_ErrorCount = 0\<rparr>"

definition example_ctx :: "mem \<Rightarrow> vnvme_ctx" where
  "example_ctx m = \<lparr>g_Config = g_Config_init, g_FdoContext = Some (example_fdo m),
     pdo = zero_PDO_CONTEXT, host = (\<lambda>_. 0)\<rparr>"

lemma example_ctx_simps [simp]:
  "VnvmeShmGetControlBlock (example_ctx m) = Some m" "pdo (example_ctx m) = zero_PDO_CONTEXT"
  "g_Config (example_ctx m) = g_Config_init" "fetch_sqDesc 0 (example_ctx m) = Some (Inr 0x20)"
  by (simp_all add: example_ctx_def example_fdo_def VnvmeShmGetControlBlock_def fetch_sqDesc_def)

lemma example_ring_ok: "sq_ring_ok 0 (example_ctx example_shm)"
  by (simp add: sq_ring_ok_def sq_entries_ok_def qd_get_defs example_shm_def pdo_wf_zero wr8_def
      mem_simps rd32_eqI [of _ "fun_upd _ _ _"])

text \<open>The property on the concrete state.\<close>

lemma example_items: "length (pending_commands 0 (example_ctx example_shm)) = 2"
  by (simp add: pending_commands_def sq_items_def ring_dist_def qd_get_defs example_shm_def wr8_def
      mem_simps rd32_eqI [of _ "fun_upd _ _ _"])

theorem VnvmeFetchCommand_pops_witness:
  "\<exists>cmd c'. VnvmeFetchCommand 0 True (example_ctx example_shm) = Some (STATUS_SUCCESS, cmd, c')
    \<and> length (pending_commands 0 c') = 1 \<and> sq_ring_ok 0 c'"
  using VnvmeFetchCommand_pops [OF example_ring_ok] example_items
  by (cases "pending_commands 0 (example_ctx example_shm)") auto

text \<open>C5: fetching \<open>n\<close> times in a row returns the first \<open>n\<close> pending commands in the order they were submitted,
  each once, and leaves the rest pending.\<close>

theorem VnvmeFetchCommand_drains_in_order:
  assumes "sq_ring_ok QueueId c"
  shows "fst (drain (fetch_pop QueueId) n c) = take n (pending_commands QueueId c)
    \<and> pending_commands QueueId (snd (drain (fetch_pop QueueId) n c)) = drop n (pending_commands QueueId c)
    \<and> sq_ring_ok QueueId (snd (drain (fetch_pop QueueId) n c))"
  using sq.drain_take [OF assms] .

text \<open>The property on the concrete state.\<close>

theorem VnvmeFetchCommand_drains_in_order_witness:
  "length (fst (drain (fetch_pop 0) 5 (example_ctx example_shm))) = 2"
  using VnvmeFetchCommand_drains_in_order [OF example_ring_ok, of 5] example_items by simp

section \<open>Batch fetching\<close>

lemma fetch_batch_loop_take:
  fixes m :: mem and sqBase :: nat and depth tail :: u32
  assumes "head < depth" "tail < depth" "sqBase + 64 * unat depth \<le> VNVME_SHM_SIZE"
  defines "items \<equiv> \<lambda>h. ring_list (\<lambda>i. rd_NVME_COMMAND m (sqBase + 64 * i)) (unat h) (unat tail) (unat depth)"
  shows "\<exists>head'. fetch_batch_loop m sqBase depth tail n head = Some (take n (items head), head')
    \<and> head' < depth \<and> items head' = drop n (items head)"
  using assms(1)
proof (induction n arbitrary: head)
  case 0
  then show ?case by simp
next
  case (Suc n)
  have lt: "unat head < unat depth" "unat tail < unat depth" "depth \<noteq> 0"
    using Suc.prems assms(2) by (auto simp: word_less_nat_alt)
  show ?case
  proof (cases "head = tail")
    case True
    with Suc.prems show ?thesis by (simp add: items_def ring_list_def ring_dist_def)
  next
    case False
    then have "items head = rd_NVME_COMMAND m (sqBase + 64 * unat head) # items ((head + 1) mod depth)"
      using ring_list_pop [OF lt(1,2)] by (simp add: items_def word_unat_eq_iff unat_word_suc_mod [OF Suc.prems])
    moreover from Suc.IH [of "(head + 1) mod depth"] lt(3) obtain head' where
      "fetch_batch_loop m sqBase depth tail n ((head + 1) mod depth) = Some (take n (items ((head + 1) mod depth)), head')"
      "head' < depth" "items head' = drop n (items ((head + 1) mod depth))"
      using word_suc_mod_less by (auto simp: word_gt_0)
    ultimately show ?thesis
      using False lt assms(3) by (simp add: check_bind)
  qed
qed

text \<open>The descriptor the batch functions use is that of the single-command function, where the control block
  counts the queue.\<close>

definition batch_counts :: "u16 \<Rightarrow> mem \<Rightarrow> bool" where
  "batch_counts QueueId m \<longleftrightarrow>
     QueueId = 0 \<or> unat QueueId \<le> VNVME_MAX_IO_QUEUES \<and> ucast QueueId \<le> rd32 m cb_IoQueueCount"

lemma batch_queue_index:
  assumes "batch_counts QueueId m" "QueueId \<noteq> 0"
  shows "unat (QueueId - 1) = unat QueueId - 1" "unat QueueId - 1 < VNVME_MAX_IO_QUEUES"
    "\<not> ucast QueueId > rd32 m cb_IoQueueCount"
proof -
  have "0 < unat QueueId" using assms(2) by (simp add: unat_gt_0)
  with assms show "unat (QueueId - 1) = unat QueueId - 1" "unat QueueId - 1 < VNVME_MAX_IO_QUEUES"
    "\<not> ucast QueueId > rd32 m cb_IoQueueCount"
    by (auto simp: batch_counts_def unat_sub_if')
qed

lemma VnvmeFetchCommandBatch_run:
  assumes "VnvmeShmGetControlBlock c = Some m" "fetch_sqDesc QueueId c = Some (Inr d)" "batch_counts QueueId m"
    and "MaxCommands \<noteq> 0" "qd_Head m d \<noteq> qd_Tail m d"
    and "fetch_batch_loop m (unat (qd_Offset m d)) (qd_Capacity m d) (qd_Tail m d) (unat MaxCommands) (qd_Head m d)
      = Some (cmds, head)"
  shows "VnvmeFetchCommandBatch QueueId MaxCommands c = Some (STATUS_SUCCESS, cmds,
    upd_shm (\<lambda>m. wr64 cb_CommandsProcessed (rd64 m cb_CommandsProcessed + of_nat (length cmds)) m)
      (upd_shm (qd_set_Head d head) c))"
  using assms batch_queue_index [OF assms(3)]
  by (cases "QueueId = 0")
    (auto simp: VnvmeFetchCommandBatch_def fetch_sqDesc_def Let_def check_bind arr_get_def
      split: if_splits option.splits)

lemma VnvmeFetchCommandBatch_none:
  assumes "VnvmeShmGetControlBlock c = Some m" "fetch_sqDesc QueueId c = Some (Inr d)" "batch_counts QueueId m"
    and "MaxCommands = 0 \<or> qd_Head m d = qd_Tail m d"
  shows "VnvmeFetchCommandBatch QueueId MaxCommands c = Some (STATUS_SUCCESS, [], c)"
  using assms batch_queue_index [OF assms(3)]
  by (cases "QueueId = 0")
    (auto simp: VnvmeFetchCommandBatch_def fetch_sqDesc_def Let_def check_bind arr_get_def
      split: if_splits option.splits)

text \<open>The memory after a batch fetch, seen through the queue's descriptor.\<close>

definition batch_fetch_mem :: "nat \<Rightarrow> u32 \<Rightarrow> u64 \<Rightarrow> mem \<Rightarrow> mem" where
  "batch_fetch_mem d head n m = wr64 cb_CommandsProcessed n (qd_set_Head d head m)"

lemma batch_fetch_mem_view:
  assumes "sq_entries_ok m d" "d = cb_AdminSQ \<or> 0x100 \<le> d" "head < qd_Capacity m d"
  shows "sq_entries_ok (batch_fetch_mem d head n m) d"
    and "sq_items (batch_fetch_mem d head n m) d = ring_list (\<lambda>i. rd_NVME_COMMAND m (unat (qd_Offset m d) + 64 * i))
      (unat head) (unat (qd_Tail m d)) (unat (qd_Capacity m d))"
    and "rd32 (batch_fetch_mem d head n m) cb_IoQueueDescriptorOffset = rd32 m cb_IoQueueDescriptorOffset"
proof -
  have far: "d + 32 \<le> unat (qd_Offset m d)" "0x100 \<le> unat (qd_Offset m d)"
    using assms(1) by (auto simp: sq_entries_ok_def)
  have fields: "qd_Offset (batch_fetch_mem d head n m) d = qd_Offset m d"
    "qd_Capacity (batch_fetch_mem d head n m) d = qd_Capacity m d"
    "qd_Valid (batch_fetch_mem d head n m) d = qd_Valid m d" "qd_Tail (batch_fetch_mem d head n m) d = qd_Tail m d"
    "qd_Head (batch_fetch_mem d head n m) d = head"
    using assms(2) by (auto simp: batch_fetch_mem_def qd_defs mem_simps)
  with assms(1,3) show "sq_entries_ok (batch_fetch_mem d head n m) d"
    by (simp add: sq_entries_ok_def)
  have "rd_NVME_COMMAND (batch_fetch_mem d head n m) (unat (qd_Offset m d) + x)
      = rd_NVME_COMMAND m (unat (qd_Offset m d) + x)" for x
    using far by (intro rd_NVME_COMMAND_eqI) (auto simp: batch_fetch_mem_def qd_set_Head_def wr64_outside wr32_outside)
  with fields show "sq_items (batch_fetch_mem d head n m) d = ring_list (\<lambda>i. rd_NVME_COMMAND m (unat (qd_Offset m d) + 64 * i))
      (unat head) (unat (qd_Tail m d)) (unat (qd_Capacity m d))"
    by (simp add: sq_items_def)
  show "rd32 (batch_fetch_mem d head n m) cb_IoQueueDescriptorOffset = rd32 m cb_IoQueueDescriptorOffset"
    using assms(2) by (auto simp: batch_fetch_mem_def qd_defs mem_simps)
qed

text \<open>A batch fetch takes exactly the commands the same number of single fetches would take: the first
  \<open>MaxCommands\<close> pending commands, in order. The controller context keeps its old copy of the head.\<close>

theorem VnvmeFetchCommandBatch_takes:
  assumes ring: "sq_ring_ok QueueId c"
    and counts: "\<forall>m. VnvmeShmGetControlBlock c = Some m \<longrightarrow> batch_counts QueueId m"
  shows "\<exists>c'. VnvmeFetchCommandBatch QueueId MaxCommands c
      = Some (STATUS_SUCCESS, take (unat MaxCommands) (pending_commands QueueId c), c')
    \<and> pending_commands QueueId c' = drop (unat MaxCommands) (pending_commands QueueId c)
    \<and> sq_ring_ok QueueId c' \<and> pdo c' = pdo c"
proof -
  from ring obtain m d where m: "VnvmeShmGetControlBlock c = Some m"
    and d: "fetch_sqDesc QueueId c = Some (Inr d)" "sq_entries_ok m d" "QueueId = 0 \<or> 0x100 \<le> d"
    and wf: "pdo_wf (pdo c)"
    by (auto simp: sq_ring_ok_def split: option.splits)
  have pending: "pending_commands QueueId c = sq_items m d"
    using m d by (simp add: pending_commands_def)
  have d': "d = cb_AdminSQ \<or> 0x100 \<le> d"
    using d(1,3) by (auto simp: fetch_sqDesc_def)
  from counts m have count: "batch_counts QueueId m" by blast
  show ?thesis
  proof (cases "MaxCommands = 0 \<or> qd_Head m d = qd_Tail m d")
    case True
    then have "take (unat MaxCommands) (sq_items m d) = []" "drop (unat MaxCommands) (sq_items m d) = sq_items m d"
      using sq_items_Nil_iff [OF d(2)] by auto
    with VnvmeFetchCommandBatch_none [OF m d(1) count True] ring pending show ?thesis by simp
  next
    case False
    from fetch_batch_loop_take [of "qd_Head m d" "qd_Capacity m d" "qd_Tail m d" "unat (qd_Offset m d)" m
        "unat MaxCommands"] d(2)
    obtain head where
      loop: "fetch_batch_loop m (unat (qd_Offset m d)) (qd_Capacity m d) (qd_Tail m d) (unat MaxCommands) (qd_Head m d)
        = Some (take (unat MaxCommands) (sq_items m d), head)" and head: "head < qd_Capacity m d"
      and rest: "ring_list (\<lambda>i. rd_NVME_COMMAND m (unat (qd_Offset m d) + 64 * i)) (unat head)
        (unat (qd_Tail m d)) (unat (qd_Capacity m d)) = drop (unat MaxCommands) (sq_items m d)"
      by (auto simp: sq_entries_ok_def sq_items_def)
    define c' where "c' = upd_shm (\<lambda>x. wr64 cb_CommandsProcessed (rd64 x cb_CommandsProcessed
        + of_nat (length (take (unat MaxCommands) (sq_items m d)))) x) (upd_shm (qd_set_Head d head) c)"
    obtain n where m': "VnvmeShmGetControlBlock c' = Some (batch_fetch_mem d head n m)"
      using m by (simp add: c'_def batch_fetch_mem_def)
    note view = batch_fetch_mem_view [OF d(2) d' head, of n]
    have "VnvmeShmGetIoQueueDescriptors c' = VnvmeShmGetIoQueueDescriptors c" "pdo c' = pdo c" "g_Config c' = g_Config c"
      using m m' view(3) by (simp_all add: VnvmeShmGetIoQueueDescriptors_def c'_def)
    then have desc: "fetch_sqDesc QueueId c' = Some (Inr d)"
      using d(1) by (simp only: fetch_sqDesc_def)
    have "VnvmeFetchCommandBatch QueueId MaxCommands c = Some (STATUS_SUCCESS, take (unat MaxCommands) (sq_items m d), c')"
      using VnvmeFetchCommandBatch_run [OF m d(1) count _ _ loop] False by (simp add: c'_def)
    moreover have "pdo c' = pdo c" by (simp add: c'_def)
    ultimately show ?thesis
      using view rest pending desc m' wf d(3) by (simp add: pending_commands_def sq_ring_ok_def)
  qed
qed

text \<open>The property on the concrete state.\<close>

theorem VnvmeFetchCommandBatch_takes_witness:
  "\<exists>cmds c'. VnvmeFetchCommandBatch 0 8 (example_ctx example_shm) = Some (STATUS_SUCCESS, cmds, c')
    \<and> length cmds = 2 \<and> pending_commands 0 c' = []"
  using VnvmeFetchCommandBatch_takes [OF example_ring_ok, of 8] example_items by (auto simp: batch_counts_def)

end
