(* ===== verification/Vnvme_Prp.thy ===== *)
theory Vnvme_Prp
  imports Vnvme_Context
begin

text \<open>
  \<^verbatim>\<open>vnvme/prp.c\<close>: translating the two PRP fields of a command into a list of physical ranges, and copying
  to and from the host's physical memory.
\<close>

record VNVME_PRP_ENTRY =
  prp_PhysicalAddress :: u64
  prp_Offset :: u32
  prp_Length :: u32

abbreviation (input) VNVME_LOW_MEMORY_LIMIT :: u64 where "VNVME_LOW_MEMORY_LIMIT \<equiv> 0x100000"
abbreviation (input) VNVME_MAX_PHYSICAL_ADDRESS :: u64 where "VNVME_MAX_PHYSICAL_ADDRESS \<equiv> 0x100000000000"

definition VnvmeIsValidPhysicalAddress :: "u64 \<Rightarrow> u64 \<Rightarrow> bool" where
  "VnvmeIsValidPhysicalAddress PhysicalAddress Length =
     (if PhysicalAddress = 0 then False
      else if PhysicalAddress < VNVME_LOW_MEMORY_LIMIT then False
      else if PhysicalAddress + Length < PhysicalAddress then False
      else if PhysicalAddress > VNVME_MAX_PHYSICAL_ADDRESS then False
      else True)"

section \<open>Parsing\<close>

text \<open>\<open>a & ~(pageSize - 1)\<close> and \<open>(ULONG)(a & (pageSize - 1))\<close>.\<close>

definition page_base :: "u64 \<Rightarrow> u64" where "page_base a = a AND NOT (4096 - 1)"
definition page_offset :: "u64 \<Rightarrow> u32" where "page_offset a = ucast (a AND (4096 - 1))"

text \<open>
  The loop over the PRP list, mapped at physical address \<open>prpList\<close> with \<open>prpListSize\<close> bytes: \<open>k\<close> iterations are left,
  \<open>i\<close> is the index of the next list entry. The test \<open>entryIndex >= numPages\<close> at the end of the body holds
  exactly when no iteration is left. An index past the mapped bytes is a fault.
\<close>

fun prp_list_loop ::
  "mem \<Rightarrow> u64 \<Rightarrow> u32 \<Rightarrow> nat \<Rightarrow> nat \<Rightarrow> u32 \<Rightarrow> (NTSTATUS + VNVME_PRP_ENTRY list) option" where
  "prp_list_loop h prpList prpListSize 0 i remainingBytes = Some (Inr [])"
| "prp_list_loop h prpList prpListSize (Suc k) i remainingBytes =
     (if remainingBytes = 0 then Some (Inr [])
      else do {
        check (8 * i + 8 \<le> unat prpListSize);
        let prpEntry = rd64 h (unat prpList + 8 * i);
        if \<not> VnvmeIsValidPhysicalAddress prpEntry 4096 then Some (Inl STATUS_INVALID_PARAMETER)
        else do {
          let offset = page_offset prpEntry;
          let entryLength = 4096 - offset;
          let entryLength = (if entryLength > remainingBytes then remainingBytes else entryLength);
          rest \<leftarrow> prp_list_loop h prpList prpListSize k (i + 1) (remainingBytes - entryLength);
          Some (map_sum id (Cons \<lparr>prp_PhysicalAddress = page_base prpEntry, prp_Offset = offset,
                                  prp_Length = entryLength\<rparr>) rest)
        }
      })"

lemma prp_list_loop_numeral [simp]:
  "prp_list_loop h prpList prpListSize (numeral n) i remainingBytes
    = prp_list_loop h prpList prpListSize (Suc (pred_numeral n)) i remainingBytes"
  by (simp only: numeral_eq_Suc)

text \<open>The number of pages; all operands are \<open>ULONG\<close>.\<close>

definition prp_numPages :: "u32 \<Rightarrow> u32 \<Rightarrow> u32" where
  "prp_numPages firstPageBytes DataLength =
     (if firstPageBytes \<ge> DataLength then 1
      else 1 + (DataLength - firstPageBytes + 4096 - 1) div 4096)"

text \<open>The bytes of the PRP list that are mapped: at most one page.\<close>

definition prp_listSize :: "u32 \<Rightarrow> u32" where
  "prp_listSize numPages = (let sz = (numPages - 1) * 8 in if sz > 4096 then 4096 else sz)"

text \<open>\<open>alloc_ok\<close> answers the allocation of the entry array, \<open>map_ok\<close> the mapping of the PRP list. On failure the
  output array is null, here the empty list.\<close>

definition VnvmeParsePrpList ::
  "(nat \<Rightarrow> bool) \<Rightarrow> (u64 \<Rightarrow> nat \<Rightarrow> bool) \<Rightarrow> mem \<Rightarrow> u64 \<Rightarrow> u64 \<Rightarrow> u32
    \<Rightarrow> (NTSTATUS \<times> VNVME_PRP_ENTRY list) option" where
  "VnvmeParsePrpList alloc_ok map_ok h Prp1 Prp2 DataLength =
     (if DataLength = 0 then Some (STATUS_SUCCESS, [])
      else if \<not> VnvmeIsValidPhysicalAddress Prp1 4096 then Some (STATUS_INVALID_PARAMETER, [])
      else do {
        let firstPageOffset = page_offset Prp1;
        let firstPageBytes = 4096 - firstPageOffset;
        let numPages = prp_numPages firstPageBytes DataLength;
        if \<not> alloc_ok (unat numPages * 16) then Some (STATUS_INSUFFICIENT_RESOURCES, [])
        else do {
          let entry0 = \<lparr>prp_PhysicalAddress = page_base Prp1, prp_Offset = firstPageOffset,
                        prp_Length = (if firstPageBytes \<ge> DataLength then DataLength else firstPageBytes)\<rparr>;
          if numPages = 1 then Some (STATUS_SUCCESS, [entry0])
          else if numPages = 2 then
            (if \<not> VnvmeIsValidPhysicalAddress Prp2 4096 then Some (STATUS_INVALID_PARAMETER, [])
             else Some (STATUS_SUCCESS, [entry0, \<lparr>prp_PhysicalAddress = page_base Prp2,
                                                  prp_Offset = 0, prp_Length = DataLength - firstPageBytes\<rparr>]))
          else if \<not> VnvmeIsValidPhysicalAddress Prp2 4096 then Some (STATUS_INVALID_PARAMETER, [])
          else do {
            let remainingBytes = DataLength - firstPageBytes;
            let prpListSize = prp_listSize numPages;
            if \<not> map_ok Prp2 (unat prpListSize) then Some (STATUS_INSUFFICIENT_RESOURCES, [])
            else do {
              r \<leftarrow> prp_list_loop h Prp2 prpListSize (unat (numPages - 1)) 0 remainingBytes;
              (case r of
                 Inl status \<Rightarrow> Some (status, [])
               | Inr entries \<Rightarrow> Some (STATUS_SUCCESS, entry0 # entries))
            }
          }
        }
      })"

section \<open>Copying\<close>

text \<open>
  \<open>Buffer\<close> is the block behind the pointer (\<open>None\<close> is null). Copying more than it holds is a fault.
\<close>

definition VnvmeReadFromHostMemory ::
  "(u64 \<Rightarrow> nat \<Rightarrow> bool) \<Rightarrow> mem \<Rightarrow> u64 \<Rightarrow> u8 list option \<Rightarrow> u32 \<Rightarrow> (NTSTATUS \<times> u8 list option) option" where
  "VnvmeReadFromHostMemory map_ok h PhysicalAddress Buffer Length =
     (case Buffer of
        None \<Rightarrow> Some (STATUS_INVALID_PARAMETER, None)
      | Some buf \<Rightarrow>
          if Length = 0 then Some (STATUS_INVALID_PARAMETER, Buffer)
          else if \<not> VnvmeIsValidPhysicalAddress PhysicalAddress (ucast Length)
          then Some (STATUS_INVALID_PARAMETER, Buffer)
          else if \<not> map_ok PhysicalAddress (unat Length) then Some (STATUS_INSUFFICIENT_RESOURCES, Buffer)
          else do {
            check (unat Length \<le> length buf);
            Some (STATUS_SUCCESS,
                  Some (rd_bytes h (unat PhysicalAddress) (unat Length) @ drop (unat Length) buf))
          })"

definition VnvmeWriteToHostMemory ::
  "(u64 \<Rightarrow> nat \<Rightarrow> bool) \<Rightarrow> u64 \<Rightarrow> u8 list option \<Rightarrow> u32 \<Rightarrow> mem \<Rightarrow> (NTSTATUS \<times> mem) option" where
  "VnvmeWriteToHostMemory map_ok PhysicalAddress Buffer Length h =
     (case Buffer of
        None \<Rightarrow> Some (STATUS_INVALID_PARAMETER, h)
      | Some buf \<Rightarrow>
          if Length = 0 then Some (STATUS_INVALID_PARAMETER, h)
          else if \<not> VnvmeIsValidPhysicalAddress PhysicalAddress (ucast Length)
          then Some (STATUS_INVALID_PARAMETER, h)
          else if \<not> map_ok PhysicalAddress (unat Length) then Some (STATUS_INSUFFICIENT_RESOURCES, h)
          else do {
            check (unat Length \<le> length buf);
            Some (STATUS_SUCCESS, wr_bytes (unat PhysicalAddress) (take (unat Length) buf) h)
          })"

section \<open>What the entries cover\<close>

definition prp_total :: "VNVME_PRP_ENTRY list \<Rightarrow> nat" where
  "prp_total es = (\<Sum>e\<leftarrow>es. unat (prp_Length e))"

text \<open>An entry is a non-empty range inside one page.\<close>

definition prp_entry_ok :: "VNVME_PRP_ENTRY \<Rightarrow> bool" where
  "prp_entry_ok e \<longleftrightarrow> page_offset (prp_PhysicalAddress e) = 0 \<and> prp_Length e \<noteq> 0
     \<and> unat (prp_Offset e) + unat (prp_Length e) \<le> 4096"

lemma prp_total_simps [simp]:
  "prp_total [] = 0" "prp_total (e # es) = unat (prp_Length e) + prp_total es"
  by (simp_all add: prp_total_def)

lemma page_offset_less: "unat (page_offset a) < 4096"
proof -
  have "unat (page_offset a) = take_bit 12 (unat a)"
    by (simp add: page_offset_def unsigned_ucast_eq unsigned_take_bit_eq)
  also have "\<dots> < 2 ^ 12" by (rule take_bit_nat_less_exp)
  finally show ?thesis by simp
qed

lemma page_base_aligned [simp]: "page_offset (page_base a) = 0"
proof -
  have "(4096 - 1 :: u64) = mask 12" by (simp add: mask_eq_exp_minus_1)
  then show ?thesis
    unfolding page_offset_def page_base_def by (intro bit_word_eqI) (auto simp: bit_simps)
qed

lemma page_rest:
  fixes offset :: u32
  assumes "unat offset < 4096"
  shows "unat (4096 - offset) = 4096 - unat offset"
  using assms by (simp add: unat_sub_if')

text \<open>One step of the loop takes the rest of a page, or what is left.\<close>

lemma entry_length_min:
  fixes offset remainingBytes :: u32
  assumes "unat offset < 4096"
  shows "unat (if 4096 - offset > remainingBytes then remainingBytes else 4096 - offset)
    = min (4096 - unat offset) (unat remainingBytes)"
  using page_rest [OF assms] by (auto simp: word_less_nat_alt)

definition prp_list_aligned :: "mem \<Rightarrow> u64 \<Rightarrow> nat \<Rightarrow> bool" where
  "prp_list_aligned h prpList n \<longleftrightarrow> (\<forall>j<n. page_offset (rd64 h (unat prpList + 8 * j)) = 0)"

lemma prp_list_loop_returns:
  assumes "8 * (i + k) \<le> unat prpListSize"
  shows "\<exists>r. prp_list_loop h prpList prpListSize k i remainingBytes = Some r
    \<and> (\<forall>status. r = Inl status \<longrightarrow> status = STATUS_INVALID_PARAMETER)
    \<and> (\<forall>es. r = Inr es \<longrightarrow> (\<forall>e\<in>set es. prp_entry_ok e) \<and> length es \<le> k
          \<and> prp_total es \<le> unat remainingBytes
          \<and> (prp_list_aligned h prpList (i + k) \<longrightarrow> unat remainingBytes \<le> 4096 * k
               \<longrightarrow> prp_total es = unat remainingBytes))"
  using assms
proof (induction k arbitrary: i remainingBytes)
  case 0
  then show ?case by simp
next
  case (Suc k)
  show ?case
  proof (cases "remainingBytes = 0 \<or> \<not> VnvmeIsValidPhysicalAddress (rd64 h (unat prpList + 8 * i)) 4096")
    case True
    with Suc.prems show ?thesis by (auto simp: check_bind)
  next
    case False
    define e where "e = rd64 h (unat prpList + 8 * i)"
    define offset where "offset = page_offset e"
    define len where "len = (if 4096 - offset > remainingBytes then remainingBytes else 4096 - offset)"
    have offset: "unat offset < 4096"
      unfolding offset_def by (rule page_offset_less)
    have len: "unat len = min (4096 - unat offset) (unat remainingBytes)"
      unfolding len_def by (rule entry_length_min [OF offset])
    have rest: "unat (remainingBytes - len) = unat remainingBytes - unat len"
      using len by (simp add: unat_sub_if')
    have pos: "len \<noteq> 0"
      using False len offset by (auto simp: unat_eq_0 [symmetric] min_def split: if_splits)
    from Suc.IH [of "i + 1" "remainingBytes - len"] Suc.prems obtain r where
      r: "prp_list_loop h prpList prpListSize k (i + 1) (remainingBytes - len) = Some r"
        "\<forall>status. r = Inl status \<longrightarrow> status = STATUS_INVALID_PARAMETER"
        "\<forall>es. r = Inr es \<longrightarrow> (\<forall>e\<in>set es. prp_entry_ok e) \<and> length es \<le> k
          \<and> prp_total es \<le> unat (remainingBytes - len)
          \<and> (prp_list_aligned h prpList (i + 1 + k) \<longrightarrow> unat (remainingBytes - len) \<le> 4096 * k
               \<longrightarrow> prp_total es = unat (remainingBytes - len))"
      by auto
    have step: "prp_list_loop h prpList prpListSize (Suc k) i remainingBytes
        = Some (map_sum id (Cons \<lparr>prp_PhysicalAddress = page_base e, prp_Offset = offset,
            prp_Length = len\<rparr>) r)"
      using False Suc.prems r(1)
      by (simp add: check_bind Let_def e_def [symmetric] offset_def [symmetric] len_def [symmetric])
    have ok: "prp_entry_ok \<lparr>prp_PhysicalAddress = page_base e, prp_Offset = offset, prp_Length = len\<rparr>"
      using pos len offset by (simp add: prp_entry_ok_def)
    have full: "unat offset = 0" if "prp_list_aligned h prpList (i + Suc k)"
      using that by (auto simp: prp_list_aligned_def offset_def e_def)
    show ?thesis
      using step r(2,3) ok len rest full by (cases r) (auto simp: min_def split: if_splits)
  qed
qed

lemma pages_for_bytes:
  fixes x :: nat
  shows "x \<le> 4096 * ((x + 4095) div 4096)" "x \<le> 2097152 \<Longrightarrow> (x + 4095) div 4096 \<le> 512"
    "0 < x \<Longrightarrow> 1 \<le> (x + 4095) div 4096"
  using div_mult_mod_eq [of "x + 4095" 4096] mod_less_divisor [of 4096 "x + 4095"] by linarith+

lemma prp_numPages_nat:
  assumes "unat firstPageBytes < unat DataLength" "unat DataLength \<le> 0x7FFFFFFF"
  shows "unat (prp_numPages firstPageBytes DataLength)
    = 1 + (unat DataLength - unat firstPageBytes + 4095) div 4096"
proof -
  define x where "x = DataLength - firstPageBytes"
  have x: "unat x = unat DataLength - unat firstPageBytes"
    unfolding x_def using assms(1) by (simp add: unat_sub_if')
  have "unat (x + 4095) = unat x + 4095"
    using x assms(2) by (simp add: unat_word_ariths)
  then have q: "unat ((x + 4095) div 4096) = (unat x + 4095) div 4096"
    by (simp add: unat_div)
  also have "\<dots> < 4294967295"
    using x assms(2) by simp
  finally have "unat (1 + (x + 4095) div 4096) = 1 + (unat x + 4095) div 4096"
    using q by (simp add: unat_word_ariths)
  moreover have "DataLength - firstPageBytes + 4096 - 1 = x + 4095"
    by (simp add: x_def)
  moreover have "\<not> firstPageBytes \<ge> DataLength"
    using assms(1) by (simp add: word_le_nat_alt)
  ultimately show ?thesis
    by (simp only: prp_numPages_def if_False x)
qed

lemma prp_numPages_one: "unat DataLength \<le> unat firstPageBytes \<Longrightarrow> prp_numPages firstPageBytes DataLength = 1"
  by (simp add: prp_numPages_def word_le_nat_alt)

text \<open>A list of more entries than were mapped is read past its end, whatever the entries say.\<close>

lemma prp_list_loop_faults:
  assumes "unat prpListSize = 8 * n" "i \<le> n" "n - i < k" "4096 * (n - i) < unat remainingBytes"
    and "\<forall>j<n. VnvmeIsValidPhysicalAddress (rd64 h (unat prpList + 8 * j)) 4096"
  shows "prp_list_loop h prpList prpListSize k i remainingBytes = None"
  using assms
proof (induction k arbitrary: i remainingBytes)
  case 0
  then show ?case by simp
next
  case (Suc k)
  show ?case
  proof (cases "i = n")
    case True
    with Suc.prems show ?thesis by (auto simp: check_bind)
  next
    case False
    define offset where "offset = page_offset (rd64 h (unat prpList + 8 * i))"
    define len where "len = (if 4096 - offset > remainingBytes then remainingBytes else 4096 - offset)"
    have "unat len = min (4096 - unat offset) (unat remainingBytes)"
      unfolding len_def by (rule entry_length_min) (simp add: offset_def page_offset_less)
    then have "unat len \<le> 4096" and rest: "unat (remainingBytes - len) = unat remainingBytes - unat len"
      by (auto simp: unat_sub_if')
    then have "4096 * (n - (i + 1)) < unat (remainingBytes - len)"
      using Suc.prems False by simp
    with Suc.IH [of "i + 1" "remainingBytes - len"] Suc.prems False
    have "prp_list_loop h prpList prpListSize k (i + 1) (remainingBytes - len) = None" by simp
    with Suc.prems False show ?thesis
      by (auto simp: check_bind Let_def offset_def [symmetric] len_def [symmetric])
  qed
qed

section \<open>Properties\<close>

text \<open>The parser on a command that needs a PRP list.\<close>

lemma VnvmeParsePrpList_list:
  fixes DataLength :: u32 and Prp1 :: u64
  defines "f \<equiv> 4096 - page_offset Prp1"
  defines "numPages \<equiv> prp_numPages f DataLength"
  assumes "VnvmeIsValidPhysicalAddress Prp1 4096" "f < DataLength" "numPages > 2" "alloc_ok (unat numPages * 16)"
  shows "VnvmeParsePrpList alloc_ok map_ok h Prp1 Prp2 DataLength =
    (if \<not> VnvmeIsValidPhysicalAddress Prp2 4096 then Some (STATUS_INVALID_PARAMETER, [])
     else if \<not> map_ok Prp2 (unat (prp_listSize numPages)) then Some (STATUS_INSUFFICIENT_RESOURCES, [])
     else do { r \<leftarrow> prp_list_loop h Prp2 (prp_listSize numPages) (unat (numPages - 1)) 0 (DataLength - f);
         (case r of Inl status \<Rightarrow> Some (status, [])
          | Inr entries \<Rightarrow> Some (STATUS_SUCCESS, \<lparr>prp_PhysicalAddress = page_base Prp1,
              prp_Offset = page_offset Prp1, prp_Length = f\<rparr> # entries)) })"
proof -
  have "DataLength \<noteq> 0" "\<not> f \<ge> DataLength" "numPages \<noteq> 1" "numPages \<noteq> 2"
    using assms(4,5) by auto
  with assms(3-) show ?thesis
    by (simp add: VnvmeParsePrpList_def Let_def f_def [symmetric] numPages_def [symmetric])
qed

lemma prp_listSize_nat:
  assumes "1 \<le> unat N" "unat N \<le> 0x100000"
  shows "unat (prp_listSize N) = min 4096 (8 * (unat N - 1))"
proof -
  define M where "M = N - 1"
  have M: "unat M = unat N - 1"
    unfolding M_def using assms(1) by (simp add: unat_sub_if')
  have "unat (M * 8) = 8 * unat M"
    using M assms(2) by (simp add: unat_word_ariths)
  then show ?thesis
    by (simp add: prp_listSize_def Let_def M_def [symmetric] M word_less_nat_alt min_def)
qed

text \<open>Where the data runs over the first page, up to 2 MiB.\<close>

lemma prp_pages_bounds:
  fixes DataLength :: u32 and Prp1 :: u64
  defines "f \<equiv> 4096 - page_offset Prp1"
  defines "N \<equiv> prp_numPages f DataLength"
  assumes len: "unat DataLength \<le> 2 * 1024 * 1024" and more: "f < DataLength"
  shows "2 \<le> unat N" "unat N \<le> 513" "unat (DataLength - f) \<le> 4096 * (unat N - 1)"
    and "unat (DataLength - f) = unat DataLength - unat f" "unat f < unat DataLength"
proof -
  show less: "unat f < unat DataLength"
    using more by (simp add: word_less_nat_alt)
  have N: "unat N = 1 + (unat DataLength - unat f + 4095) div 4096"
    unfolding N_def using less len by (intro prp_numPages_nat) auto
  show rest: "unat (DataLength - f) = unat DataLength - unat f"
    using less by (simp add: unat_sub_if')
  show "2 \<le> unat N" "unat N \<le> 513" "unat (DataLength - f) \<le> 4096 * (unat N - 1)"
    using N pages_for_bytes [of "unat DataLength - unat f"] less len rest by linarith+
qed

lemma first_page_ok:
  assumes "0 < unat len" "unat len \<le> unat (4096 - page_offset Prp1)"
  shows "prp_entry_ok \<lparr>prp_PhysicalAddress = page_base Prp1, prp_Offset = page_offset Prp1, prp_Length = len\<rparr>"
  using assms page_rest [OF page_offset_less, of Prp1] page_offset_less [of Prp1]
  by (auto simp: prp_entry_ok_def unat_gt_0)

lemma VnvmeParsePrpList_list_covers:
  fixes DataLength :: u32 and Prp1 :: u64
  defines "f \<equiv> 4096 - page_offset Prp1"
  defines "N \<equiv> prp_numPages f DataLength"
  assumes "unat DataLength \<le> 2 * 1024 * 1024"
    and valid: "VnvmeIsValidPhysicalAddress Prp1 4096" "alloc_ok (unat N * 16)"
    and more: "f < DataLength" "N > 2"
  shows "\<exists>status es. VnvmeParsePrpList alloc_ok map_ok h Prp1 Prp2 DataLength = Some (status, es)
    \<and> (\<forall>e\<in>set es. prp_entry_ok e)
    \<and> (if status = STATUS_SUCCESS
       then prp_total es \<le> unat DataLength \<and> (prp_list_aligned h Prp2 512 \<longrightarrow> prp_total es = unat DataLength)
       else es = [])"
proof -
  note bounds = prp_pages_bounds [of DataLength Prp1, folded f_def, folded N_def, OF assms(3) more(1)]
  have N1: "unat (N - 1) = unat N - 1"
    using bounds(1) by (simp add: unat_sub_if')
  have "8 * (0 + unat (N - 1)) \<le> unat (prp_listSize N)"
    using bounds N1 by (simp add: prp_listSize_nat)
  from prp_list_loop_returns [OF this, of h Prp2 "DataLength - f"] obtain r where
    r: "prp_list_loop h Prp2 (prp_listSize N) (unat (N - 1)) 0 (DataLength - f) = Some r"
      "\<forall>status. r = Inl status \<longrightarrow> status = STATUS_INVALID_PARAMETER"
      "\<forall>es. r = Inr es \<longrightarrow> (\<forall>e\<in>set es. prp_entry_ok e) \<and> prp_total es \<le> unat (DataLength - f)
         \<and> (prp_list_aligned h Prp2 512 \<longrightarrow> prp_total es = unat (DataLength - f))"
    using bounds N1 by (auto simp: prp_list_aligned_def)
  have "0 < unat f" "unat f + (unat DataLength - unat f) = unat DataLength"
    using page_rest [OF page_offset_less, of Prp1] page_offset_less [of Prp1] bounds(5) by (auto simp: f_def)
  with first_page_ok [of f Prp1] r bounds(4) show ?thesis
    unfolding VnvmeParsePrpList_list [of Prp1 DataLength alloc_ok map_ok h Prp2, folded f_def,
        folded N_def, OF valid(1) more valid(2)]
    by (cases r) (auto simp: f_def)
qed

lemma parse_covers:
  assumes len: "unat DataLength \<le> 2 * 1024 * 1024"
  shows "\<exists>status es. VnvmeParsePrpList alloc_ok map_ok h Prp1 Prp2 DataLength = Some (status, es)
    \<and> (\<forall>e\<in>set es. prp_entry_ok e)
    \<and> (if status = STATUS_SUCCESS
       then prp_total es \<le> unat DataLength \<and> (prp_list_aligned h Prp2 512 \<longrightarrow> prp_total es = unat DataLength)
       else es = [])"
proof -
  define f where "f = 4096 - page_offset Prp1"
  define N where "N = prp_numPages f DataLength"
  note defs = VnvmeParsePrpList_def Let_def f_def [symmetric] N_def [symmetric]
  have f: "0 < unat f"
    using page_rest [OF page_offset_less, of Prp1] page_offset_less [of Prp1] by (simp add: f_def)
  note first = first_page_ok [of _ Prp1, folded f_def]
  consider (early) "DataLength = 0 \<or> \<not> VnvmeIsValidPhysicalAddress Prp1 4096 \<or> \<not> alloc_ok (unat N * 16)"
    | (ok) "DataLength \<noteq> 0" "VnvmeIsValidPhysicalAddress Prp1 4096" "alloc_ok (unat N * 16)"
    by blast
  then show ?thesis
  proof cases
    case early
    then show ?thesis by (auto simp: defs)
  next
    case ok
    consider (one) "DataLength \<le> f" | (two) "f < DataLength" "unat N = 2" | (more) "f < DataLength" "N > 2"
      using prp_pages_bounds(1) [of DataLength Prp1, folded f_def, folded N_def, OF len]
      by (force simp: word_less_nat_alt word_le_nat_alt)
    then show ?thesis
    proof cases
      case one
      then have "N = 1" by (simp add: N_def prp_numPages_def)
      with one ok first [of DataLength] show ?thesis by (auto simp: defs unat_gt_0 word_le_nat_alt)
    next
      case two
      note bounds = prp_pages_bounds [of DataLength Prp1, folded f_def, folded N_def, OF len two(1)]
      from two have "N = 2" "\<not> DataLength \<le> f" by (auto simp: word_unat_eq_iff)
      with two ok bounds f first [of f] show ?thesis
        by (auto simp: defs prp_entry_ok_def word_unat_eq_iff)
    next
      case more
      from VnvmeParsePrpList_list_covers [of DataLength Prp1 alloc_ok, folded f_def, folded N_def,
          OF len ok(2) ok(3) more]
      show ?thesis .
    qed
  qed
qed

text \<open>C18: for transfers of up to 2 MiB the parser always returns; its entries are non-empty ranges
  inside one page and never cover more than the requested number of bytes. If it succeeds and the PRP list
  holds page-aligned addresses, the entries cover exactly the requested number.\<close>

theorem VnvmeParsePrpList_covers:
  assumes len: "unat DataLength \<le> 2 * 1024 * 1024"
  shows "\<exists>status es. VnvmeParsePrpList alloc_ok map_ok h Prp1 Prp2 DataLength = Some (status, es)
    \<and> (\<forall>e\<in>set es. prp_entry_ok e)
    \<and> (if status = STATUS_SUCCESS
       then prp_total es \<le> unat DataLength \<and> (prp_list_aligned h Prp2 512 \<longrightarrow> prp_total es = unat DataLength)
       else es = [])"
  using assms by (rule parse_covers)

text \<open>The property at a transfer of three pages whose list holds two pages.\<close>

definition example_prp_list :: mem where
  "example_prp_list = wr64 0x300008 0x500000 (wr64 0x300000 0x400000 (\<lambda>_. 0))"

lemma example_prp_list_aligned: "prp_list_aligned example_prp_list 0x300000 512"
  unfolding prp_list_aligned_def
proof (intro allI impI)
  fix j :: nat
  consider "j = 0" | "j = 1" | "2 \<le> j" by linarith
  then show "page_offset (rd64 example_prp_list (unat (0x300000 :: u64) + 8 * j)) = 0"
    by cases (simp_all add: example_prp_list_def page_offset_def mem_simps)
qed

theorem VnvmeParsePrpList_covers_witness:
  "\<exists>es. VnvmeParsePrpList (\<lambda>_. True) (\<lambda>_ _. True) example_prp_list 0x200000 0x300000 0x3000
      = Some (STATUS_SUCCESS, es) \<and> prp_total es = 0x3000"
proof -
  have run: "\<exists>es. VnvmeParsePrpList (\<lambda>_. True) (\<lambda>_ _. True) example_prp_list 0x200000 0x300000 0x3000
      = Some (STATUS_SUCCESS, es)"
    by (simp add: VnvmeParsePrpList_def VnvmeIsValidPhysicalAddress_def Let_def page_offset_def
        prp_numPages_def prp_listSize_def example_prp_list_def mem_simps)
  show ?thesis
    using run VnvmeParsePrpList_covers [of "0x3000" "\<lambda>_. True" "\<lambda>_ _. True" example_prp_list "0x200000"
        "0x300000"] example_prp_list_aligned
    by auto
qed

text \<open>A transfer that needs more than 512 list entries makes the parser read past the page it mapped:
  with valid addresses and no failure of the system, it does not return normally.\<close>

theorem VnvmeParsePrpList_long_faults:
  assumes "VnvmeIsValidPhysicalAddress Prp1 4096" "VnvmeIsValidPhysicalAddress Prp2 4096"
    and "2 * 1024 * 1024 + 4096 < unat DataLength" "unat DataLength \<le> 0x7FFFFFFF"
    and "\<forall>j<512. VnvmeIsValidPhysicalAddress (rd64 h (unat Prp2 + 8 * j)) 4096"
  shows "VnvmeParsePrpList (\<lambda>_. True) (\<lambda>_ _. True) h Prp1 Prp2 DataLength = None"
proof -
  define f where "f = 4096 - page_offset Prp1"
  define N where "N = prp_numPages f DataLength"
  have f: "unat f \<le> 4096"
    using page_rest [OF page_offset_less, of Prp1] by (simp add: f_def)
  have fD: "unat f < unat DataLength"
    using f assms(3) by linarith
  have N: "unat N = 1 + (unat DataLength - unat f + 4095) div 4096"
    unfolding N_def using fD assms(4) by (rule prp_numPages_nat)
  have "4096 * 513 \<le> unat DataLength - unat f + 4095"
    using f assms(3) by linarith
  then have N_low: "513 < unat N"
    using N div_le_mono [of "4096 * 513" "unat DataLength - unat f + 4095" 4096] by simp
  have N_high: "unat N \<le> 0x100000"
    using N assms(4) by (simp add: div_le_mono order.trans [OF div_le_mono [of _ "0x7FFFFFFF + 4095" 4096]])
  have N1: "unat (N - 1) = unat N - 1"
    using N_low by (simp add: unat_sub_if')
  have rest: "unat (DataLength - f) = unat DataLength - unat f"
    using fD by (simp add: unat_sub_if')
  have "prp_list_loop h Prp2 (prp_listSize N) (unat (N - 1)) 0 (DataLength - f) = None"
    using assms(3,5) f N_low N_high N1 rest
    by (intro prp_list_loop_faults [where n = 512]) (auto simp: prp_listSize_nat)
  then show ?thesis
    using VnvmeParsePrpList_list [of Prp1 DataLength "\<lambda>_. True" "\<lambda>_ _. True" h Prp2, folded f_def,
        folded N_def] assms(1,2) fD N_low
    by (simp add: word_less_nat_alt)
qed

text \<open>The property at 4 MiB, with a list of valid page addresses.\<close>

theorem VnvmeParsePrpList_long_faults_witness:
  "VnvmeParsePrpList (\<lambda>_. True) (\<lambda>_ _. True) (\<lambda>a. if a mod 8 = 4 then 1 else 0) 0x200000 0x300000 0x400000
    = None"
proof -
  have entry: "rd64 (\<lambda>a. if a mod 8 = 4 then 1 else 0) (3145728 + 8 * j) = 0x100000000" for j
  proof -
    have "(3145728 + 8 * j + k) mod 8 = k mod 8" for k :: nat
      using mod_mult_self2 [of k 8 "393216 + j"] by (simp add: algebra_simps)
    note this [of 0] this [of 1] this [of 2] this [of 3] this [of 4] this [of 5] this [of 6] this [of 7]
    then show ?thesis
      by (simp add: rd64_def rd32_def rd16_def add.assoc)
  qed
  show ?thesis
    by (rule VnvmeParsePrpList_long_faults) (simp_all add: VnvmeIsValidPhysicalAddress_def entry)
qed

text \<open>Page offsets in a PRP list are accepted and silently shorten the transfer. For three pages of
  data, a page-aligned first page and two list entries with the same offset \<open>k\<close> into their pages, the
  parser reports success with \<open>2 * k\<close> bytes missing.\<close>

theorem VnvmeParsePrpList_offsets_shorten:
  assumes "VnvmeIsValidPhysicalAddress Prp1 4096" "page_offset Prp1 = 0"
    and "VnvmeIsValidPhysicalAddress Prp2 4096"
    and "\<forall>j<2. VnvmeIsValidPhysicalAddress (rd64 h (unat Prp2 + 8 * j)) 4096
           \<and> unat (page_offset (rd64 h (unat Prp2 + 8 * j))) = k"
  shows "\<exists>es. VnvmeParsePrpList (\<lambda>_. True) (\<lambda>_ _. True) h Prp1 Prp2 0x3000 = Some (STATUS_SUCCESS, es)
    \<and> prp_total es + 2 * k = 0x3000"
proof -
  define o1 where "o1 = page_offset (rd64 h (unat Prp2))"
  define o2 where "o2 = page_offset (rd64 h (unat Prp2 + 8))"
  have e: "VnvmeIsValidPhysicalAddress (rd64 h (unat Prp2)) 4096"
    "VnvmeIsValidPhysicalAddress (rd64 h (unat Prp2 + 8)) 4096" "unat o1 = k" "unat o2 = k" "k < 4096"
    using assms(4) [rule_format, of 0] assms(4) [rule_format, of 1] page_offset_less [of "rd64 h (unat Prp2)"]
    by (simp_all add: o1_def o2_def)
  have len: "unat (4096 - o1) = 4096 - k" "unat (4096 - o2) = 4096 - k"
    using e by (simp_all add: page_rest)
  have sum: "unat (4096 + o1) = 4096 + k"
    using e by (simp add: unat_word_ariths)
  have fit: "\<not> 4096 - o1 > 8192" "\<not> 4096 - o2 > 4096 + o1" "4096 + o1 \<noteq> 0"
    using e len sum by (auto simp: word_less_nat_alt word_unat_eq_iff)
  then have neg: "- o1 \<noteq> 4096"
    by (metis add.left_inverse)
  have "prp_list_loop h Prp2 16 2 0 8192 =
      Some (Inr [\<lparr>prp_PhysicalAddress = page_base (rd64 h (unat Prp2)), prp_Offset = o1, prp_Length = 4096 - o1\<rparr>,
        \<lparr>prp_PhysicalAddress = page_base (rd64 h (unat Prp2 + 8)), prp_Offset = o2, prp_Length = 4096 - o2\<rparr>])"
    using e(1,2) fit neg
    by (simp add: Let_def o1_def [symmetric] o2_def [symmetric])
  then show ?thesis
    using assms(1-3) len e(5)
    by (simp add: VnvmeParsePrpList_def Let_def prp_numPages_def prp_listSize_def)
qed

text \<open>The property at two entries that start in the last byte of their page.\<close>

theorem VnvmeParsePrpList_offsets_shorten_witness:
  "\<exists>es. VnvmeParsePrpList (\<lambda>_. True) (\<lambda>_ _. True)
      (wr64 0x300008 0x500FFF (wr64 0x300000 0x400FFF (\<lambda>_. 0))) 0x200000 0x300000 0x3000
      = Some (STATUS_SUCCESS, es) \<and> prp_total es = 4098"
  using VnvmeParsePrpList_offsets_shorten [of "0x200000" "0x300000"
      "wr64 0x300008 0x500FFF (wr64 0x300000 0x400FFF (\<lambda>_. 0))" 4095]
  by (simp add: VnvmeIsValidPhysicalAddress_def page_offset_def less_2_cases_iff mem_simps)

end
