(* ===== verification/Vnvme_Admin.thy ===== *)
theory Vnvme_Admin
  imports Vnvme_Queue Vnvme_Prp
begin

text \<open>
  \<^verbatim>\<open>vnvme/admin_cmd.c\<close>: the admin commands of the kernel-mode path. A handler takes the answers of the
  system, the command and the state, and returns the status of posting the completion with the new
  state. Host memory written by a handler is part of the state.
\<close>

section \<open>Completions\<close>

definition PostSuccessCompletion :: "u16 \<Rightarrow> u32 \<Rightarrow> vnvme_ctx \<Rightarrow> (NTSTATUS \<times> vnvme_ctx) option" where
  "PostSuccessCompletion Cid Dw0 c =
     VnvmePostCompletion 0 (Some \<lparr>cqe_DW0 = Dw0, cqe_DW1 = 0, cqe_SQHD = ucast (pdo_LastAdminSqTail (pdo c)),
       cqe_SQID = 0, cqe_CID = Cid,
       cqe_Status = NvmeMakeStatus 0 0 (ucast (pdo_AdminCqPhase (pdo c)))\<rparr>) c"

definition PostErrorCompletion :: "u16 \<Rightarrow> u8 \<Rightarrow> u8 \<Rightarrow> vnvme_ctx \<Rightarrow> (NTSTATUS \<times> vnvme_ctx) option" where
  "PostErrorCompletion Cid Sct Sc c =
     VnvmePostCompletion 0 (Some \<lparr>cqe_DW0 = 0, cqe_DW1 = 0, cqe_SQHD = ucast (pdo_LastAdminSqTail (pdo c)),
       cqe_SQID = 0, cqe_CID = Cid,
       cqe_Status = NvmeMakeStatus Sct Sc (ucast (pdo_AdminCqPhase (pdo c)))\<rparr>) c"

text \<open>Sending a page of data to the host and completing the command, as the identify and log page handlers
  end.\<close>

definition send_data :: "os_env \<Rightarrow> NVME_COMMAND \<Rightarrow> u8 list \<Rightarrow> u32 \<Rightarrow> vnvme_ctx \<Rightarrow> (NTSTATUS \<times> vnvme_ctx) option" where
  "send_data os cmd buf len c = do {
     (status, h) \<leftarrow> VnvmeWriteToHostMemory (os_map os 0) (PRP1 cmd) (Some buf) len (host c);
     let c = c\<lparr>host := h\<rparr>;
     if \<not> NT_SUCCESS status then PostErrorCompletion (CID cmd) NVME_SCT_GENERIC NVME_SC_DATA_TRANSFER_ERROR c
     else PostSuccessCompletion (CID cmd) 0 c
   }"

section \<open>Identify\<close>

definition ascii :: "string \<Rightarrow> u8 list" where "ascii s = map of_char s"

text \<open>The 4096 bytes of \<open>NVME_IDENTIFY_CONTROLLER_DATA\<close>, written field by field at the offsets of the packed
  structure.\<close>

definition identify_controller_data :: "VNVME_PDO_CONTEXT \<Rightarrow> mem" where
  "identify_controller_data p =
     (let m = (\<lambda>_. 0);
          m = wr16 0x00 0x1B36 m;
          m = wr16 0x02 0x1B36 m;
          m = wr_bytes 0x04 (ascii ''VNVME00000000001    '') m;
          m = wr_bytes 0x18 (ascii ''Virtual NVMe Controller                 '') m;
          m = wr_bytes 0x40 (ascii ''1.0.0   '') m;
          m = wr8 0x48 6 m;
          m = wr8 0x4D 5 m;
          m = wr16 0x4E (ucast (pdo_ControllerId p)) m;
          m = wr32 0x50 0x00010400 m;
          m = wr16 0x100 0x0006 m;
          m = wr8 0x102 3 m;
          m = wr8 0x103 3 m;
          m = wr8 0x104 0x02 m;
          m = wr8 0x105 0 m;
          m = wr8 0x106 63 m;
          m = wr8 0x107 0 m;
          m = wr8 0x200 0x66 m;
          m = wr8 0x201 0x44 m;
          m = wr32 0x204 (if pdo_NamespaceCount p > 0 then ucast (pdo_NamespaceCount p) else 1) m;
          m = wr16 0x208 0x001F m;
          m = wr8 0x20D 0x01 m;
          m = wr16 0x20E 0 m;
          m = wr16 0x210 0 m
      in m)"

definition HandleIdentifyController ::
  "os_env \<Rightarrow> NVME_COMMAND \<Rightarrow> vnvme_ctx \<Rightarrow> (NTSTATUS \<times> vnvme_ctx) option" where
  "HandleIdentifyController os cmd c =
     (if \<not> os_alloc os 0 4096 then PostErrorCompletion (CID cmd) NVME_SCT_GENERIC NVME_SC_INTERNAL_ERROR c
      else send_data os cmd (rd_bytes (identify_controller_data (pdo c)) 0 4096) 4096 c)"

text \<open>The 4096 bytes of \<open>NVME_IDENTIFY_NAMESPACE_DATA\<close>. The first LBA format is one 32-bit word: metadata size in
  bits 15:0, data size exponent in 23:16, relative performance in 25:24.\<close>

definition identify_namespace_data :: "VNVME_NAMESPACE \<Rightarrow> mem" where
  "identify_namespace_data ns =
     (let m = (\<lambda>_. 0);
          m = wr64 0x00 (ns_TotalBlocks ns) m;
          m = wr64 0x08 (ns_TotalBlocks ns) m;
          m = wr64 0x10 (ns_TotalBlocks ns) m;
          m = wr8 0x18 (if ns_ThinProvisioned ns then ns_NsFeatures ns OR 0x01 else ns_NsFeatures ns) m;
          m = wr8 0x19 (ns_NumberOfLbaFormats ns) m;
          m = wr8 0x1A (ns_FormattedLbaSize ns) m;
          m = wr8 0x1B 0 m;
          m = wr8 0x1C 0 m;
          m = wr8 0x1D 0 m;
          m = wr_bytes 0x68 (ns_Nguid ns) m;
          m = wr_bytes 0x78 (ns_Eui64 ns) m;
          m = wr32 0x80 (push_bit 16 (if ns_BlockSize ns = 4096 then 12 else 9)) m
      in m)"

definition HandleIdentifyNamespace ::
  "os_env \<Rightarrow> NVME_COMMAND \<Rightarrow> vnvme_ctx \<Rightarrow> (NTSTATUS \<times> vnvme_ctx) option" where
  "HandleIdentifyNamespace os cmd c =
     (if \<not> VNVME_NSID_VALID (NSID cmd)
      then PostErrorCompletion (CID cmd) NVME_SCT_GENERIC NVME_SC_INVALID_NAMESPACE c
      else do {
        ns \<leftarrow> arr_get (pdo_Namespaces (pdo c)) (unat (VNVME_NSID_TO_INDEX (NSID cmd)));
        if \<not> ns_Active ns then PostErrorCompletion (CID cmd) NVME_SCT_GENERIC NVME_SC_INVALID_NAMESPACE c
        else if \<not> os_alloc os 0 4096 then PostErrorCompletion (CID cmd) NVME_SCT_GENERIC NVME_SC_INTERNAL_ERROR c
        else send_data os cmd (rd_bytes (identify_namespace_data ns) 0 4096) 4096 c
      })"

text \<open>
  The identifiers of the active namespaces from index \<open>startNsid\<close> on. At most 16 of the 1024 entries can be
  filled, so the bound on \<open>index\<close> never stops the loop.
\<close>

definition active_nsids :: "VNVME_PDO_CONTEXT \<Rightarrow> u32 \<Rightarrow> u32 list" where
  "active_nsids p startNsid =
     map (\<lambda>i. of_nat i + 1) (filter (\<lambda>i. ns_Active (pdo_Namespaces p ! i)) [unat startNsid..<VNVME_MAX_NAMESPACES])"

definition ns_list_data :: "u32 list \<Rightarrow> mem" where
  "ns_list_data nsids = fold (\<lambda>(index, nsid). wr32 (4 * index) nsid) (enumerate 0 nsids) (\<lambda>_. 0)"

definition HandleIdentifyActiveNsList ::
  "os_env \<Rightarrow> NVME_COMMAND \<Rightarrow> vnvme_ctx \<Rightarrow> (NTSTATUS \<times> vnvme_ctx) option" where
  "HandleIdentifyActiveNsList os cmd c =
     (if \<not> os_alloc os 0 4096 then PostErrorCompletion (CID cmd) NVME_SCT_GENERIC NVME_SC_INTERNAL_ERROR c
      else send_data os cmd (rd_bytes (ns_list_data (active_nsids (pdo c) (NSID cmd))) 0 4096) 4096 c)"

definition HandleIdentify :: "os_env \<Rightarrow> NVME_COMMAND \<Rightarrow> vnvme_ctx \<Rightarrow> (NTSTATUS \<times> vnvme_ctx) option" where
  "HandleIdentify os cmd c =
     (let cns = (ucast (CDW10 cmd AND 0xFF) :: u8) in
      if cns = 0x00 then HandleIdentifyNamespace os cmd c
      else if cns = 0x01 then HandleIdentifyController os cmd c
      else if cns = 0x02 then HandleIdentifyActiveNsList os cmd c
      else PostErrorCompletion (CID cmd) NVME_SCT_GENERIC NVME_SC_INVALID_FIELD c)"

section \<open>Queue management\<close>

text \<open>The queue identifier and size fields; the size is a 16-bit sum and wraps.\<close>

definition cmd_qid :: "NVME_COMMAND \<Rightarrow> u16" where "cmd_qid cmd = ucast (CDW10 cmd AND 0xFFFF)"
definition cmd_qsize :: "NVME_COMMAND \<Rightarrow> u16" where "cmd_qsize cmd = ucast (drop_bit 16 (CDW10 cmd) AND 0xFFFF) + 1"

definition cmd_cqid :: "NVME_COMMAND \<Rightarrow> u16" where "cmd_cqid cmd = ucast (drop_bit 16 (CDW11 cmd) AND 0xFFFF)"

definition HandleCreateIoCq :: "NVME_COMMAND \<Rightarrow> vnvme_ctx \<Rightarrow> (NTSTATUS \<times> vnvme_ctx) option" where
  "HandleCreateIoCq cmd c =
     (let qid = cmd_qid cmd; qsize = cmd_qsize cmd in
      if \<not> VNVME_IO_QUEUE_ID_VALID qid then PostErrorCompletion (CID cmd) NVME_SCT_COMMAND NVME_SC_INVALID_QUEUE_ID c
      else if qsize < 2 then PostErrorCompletion (CID cmd) NVME_SCT_COMMAND NVME_SC_INVALID_QUEUE_SIZE c
      else do {
        cq \<leftarrow> arr_get (pdo_IoCq (pdo c)) (unat qid - 1);
        if qs_Created cq then PostErrorCompletion (CID cmd) NVME_SCT_COMMAND NVME_SC_INVALID_QUEUE_ID c
        else do {
          let c = upd_pdo (upd_IoCq (unat qid - 1) (\<lambda>q. q\<lparr>qs_BaseAddress := PRP1 cmd, qs_Size := ucast qsize,
                     qs_Head := 0, qs_Tail := 0, qs_PhaseTag := True, qs_Created := True\<rparr>)) c;
          PostSuccessCompletion (CID cmd) 0 c
        }
      })"

definition HandleCreateIoSq :: "NVME_COMMAND \<Rightarrow> vnvme_ctx \<Rightarrow> (NTSTATUS \<times> vnvme_ctx) option" where
  "HandleCreateIoSq cmd c =
     (let qid = cmd_qid cmd; qsize = cmd_qsize cmd; cqid = cmd_cqid cmd in
      if \<not> VNVME_IO_QUEUE_ID_VALID qid then PostErrorCompletion (CID cmd) NVME_SCT_COMMAND NVME_SC_INVALID_QUEUE_ID c
      else if qsize < 2 then PostErrorCompletion (CID cmd) NVME_SCT_COMMAND NVME_SC_INVALID_QUEUE_SIZE c
      else if \<not> VNVME_IO_QUEUE_ID_VALID cqid then PostErrorCompletion (CID cmd) NVME_SCT_COMMAND NVME_SC_CQ_INVALID c
      else do {
        cq \<leftarrow> arr_get (pdo_IoCq (pdo c)) (unat cqid - 1);
        if \<not> qs_Created cq then PostErrorCompletion (CID cmd) NVME_SCT_COMMAND NVME_SC_CQ_INVALID c
        else do {
          sq \<leftarrow> arr_get (pdo_IoSq (pdo c)) (unat qid - 1);
          if qs_Created sq then PostErrorCompletion (CID cmd) NVME_SCT_COMMAND NVME_SC_INVALID_QUEUE_ID c
          else do {
            let c = upd_pdo (upd_IoSq (unat qid - 1) (\<lambda>q. q\<lparr>qs_BaseAddress := PRP1 cmd, qs_Size := ucast qsize,
                       qs_Head := 0, qs_Tail := 0, qs_CqId := cqid, qs_Created := True\<rparr>)) c;
            let c = upd_pdo (\<lambda>p. if pdo_IoQueueCount p < qid then p\<lparr>pdo_IoQueueCount := qid\<rparr> else p) c;
            PostSuccessCompletion (CID cmd) 0 c
          }
        }
      })"

definition HandleDeleteIoCq :: "NVME_COMMAND \<Rightarrow> vnvme_ctx \<Rightarrow> (NTSTATUS \<times> vnvme_ctx) option" where
  "HandleDeleteIoCq cmd c =
     (let qid = cmd_qid cmd in
      if \<not> VNVME_IO_QUEUE_ID_VALID qid then PostErrorCompletion (CID cmd) NVME_SCT_COMMAND NVME_SC_INVALID_QUEUE_ID c
      else do {
        cq \<leftarrow> arr_get (pdo_IoCq (pdo c)) (unat qid - 1);
        if \<not> qs_Created cq then PostErrorCompletion (CID cmd) NVME_SCT_COMMAND NVME_SC_INVALID_QUEUE_ID c
        else if list_ex (\<lambda>i. qs_Created (pdo_IoSq (pdo c) ! i) \<and> qs_CqId (pdo_IoSq (pdo c) ! i) = qid)
                  [0..<VNVME_MAX_IO_QUEUES]
        then PostErrorCompletion (CID cmd) NVME_SCT_COMMAND NVME_SC_INVALID_QUEUE_DELETION c
        else PostSuccessCompletion (CID cmd) 0 (upd_pdo (upd_IoCq (unat qid - 1) (\<lambda>_. zero_QUEUE_STATE)) c)
      })"

definition HandleDeleteIoSq :: "NVME_COMMAND \<Rightarrow> vnvme_ctx \<Rightarrow> (NTSTATUS \<times> vnvme_ctx) option" where
  "HandleDeleteIoSq cmd c =
     (let qid = cmd_qid cmd in
      if \<not> VNVME_IO_QUEUE_ID_VALID qid then PostErrorCompletion (CID cmd) NVME_SCT_COMMAND NVME_SC_INVALID_QUEUE_ID c
      else do {
        sq \<leftarrow> arr_get (pdo_IoSq (pdo c)) (unat qid - 1);
        if \<not> qs_Created sq then PostErrorCompletion (CID cmd) NVME_SCT_COMMAND NVME_SC_INVALID_QUEUE_ID c
        else PostSuccessCompletion (CID cmd) 0 (upd_pdo (upd_IoSq (unat qid - 1) (\<lambda>_. zero_QUEUE_STATE)) c)
      })"

section \<open>Features\<close>

definition HandleSetFeatures :: "NVME_COMMAND \<Rightarrow> vnvme_ctx \<Rightarrow> (NTSTATUS \<times> vnvme_ctx) option" where
  "HandleSetFeatures cmd c =
     (let fid = (ucast (CDW10 cmd AND 0xFF) :: u8) in
      if fid \<in> {0x01, 0x02, 0x04, 0x05, 0x06} then PostSuccessCompletion (CID cmd) 0 c
      else if fid = 0x07 then
        (let ncqr = (ucast (CDW11 cmd AND 0xFFFF) :: u16);
             nsqr = (ucast (drop_bit 16 (CDW11 cmd) AND 0xFFFF) :: u16);
             maxQueues = (ucast (MaxIOQueues (g_Config c)) :: u16);
             ncqa = (if ncqr > maxQueues then maxQueues else ncqr);
             nsqa = (if nsqr > maxQueues then maxQueues else nsqr);
             dw0 = ucast ncqa OR push_bit 16 (ucast nsqa :: u32)
         in PostSuccessCompletion (CID cmd) dw0
              (upd_pdo (\<lambda>p. p\<lparr>pdo_MaxIoQueues := (if ncqa < nsqa then ncqa else nsqa)\<rparr>) c))
      else if fid \<in> {0x0B, 0x0C} then PostSuccessCompletion (CID cmd) 0 c
      else PostErrorCompletion (CID cmd) NVME_SCT_GENERIC NVME_SC_INVALID_FIELD c)"

definition HandleGetFeatures :: "NVME_COMMAND \<Rightarrow> vnvme_ctx \<Rightarrow> (NTSTATUS \<times> vnvme_ctx) option" where
  "HandleGetFeatures cmd c =
     (let fid = (ucast (CDW10 cmd AND 0xFF) :: u8); n = pdo_MaxIoQueues (pdo c) in
      if fid \<in> {0x01, 0x02, 0x05, 0x0B} then PostSuccessCompletion (CID cmd) 0 c
      else if fid = 0x04 then PostSuccessCompletion (CID cmd) 0x0157 c
      else if fid = 0x06 then PostSuccessCompletion (CID cmd) 1 c
      else if fid = 0x07 then PostSuccessCompletion (CID cmd) (ucast n OR push_bit 16 (ucast n :: u32)) c
      else PostErrorCompletion (CID cmd) NVME_SCT_GENERIC NVME_SC_INVALID_FIELD c)"

section \<open>Other commands\<close>

definition HandleAbort :: "NVME_COMMAND \<Rightarrow> vnvme_ctx \<Rightarrow> (NTSTATUS \<times> vnvme_ctx) option" where
  "HandleAbort cmd c = PostSuccessCompletion (CID cmd) 1 c"

text \<open>Storing the identifier of an asynchronous event request; \<open>None\<close> when the limit is reached.\<close>

definition aer_store :: "u16 \<Rightarrow> VNVME_PDO_CONTEXT \<Rightarrow> VNVME_PDO_CONTEXT option" where
  "aer_store cid p =
     (if pdo_AerCount p \<ge> of_nat VNVME_MAX_AER_COMMANDS then None
      else Some (p\<lparr>pdo_AerCids := (pdo_AerCids p)[unat (pdo_AerCount p) := cid],
                   pdo_AerCount := pdo_AerCount p + 1\<rparr>))"

definition HandleAsyncEventRequest :: "NVME_COMMAND \<Rightarrow> vnvme_ctx \<Rightarrow> (NTSTATUS \<times> vnvme_ctx) option" where
  "HandleAsyncEventRequest cmd c =
     (case aer_store (CID cmd) (pdo c) of
        None \<Rightarrow> PostErrorCompletion (CID cmd) NVME_SCT_COMMAND NVME_SC_ASYNC_EVENT_LIMIT_EXCEEDED c
      | Some p \<Rightarrow> Some (STATUS_SUCCESS, upd_pdo (\<lambda>_. p) c))"

text \<open>The contents of a log page; \<open>None\<close> for an unsupported identifier.\<close>

definition log_page_data :: "u8 \<Rightarrow> u32 \<Rightarrow> mem option" where
  "log_page_data lid dataLength =
     (if lid = 0x01 then Some (\<lambda>_. 0)
      else if lid = 0x02 then
        Some (if dataLength \<ge> 512
              then ((\<lambda>_. 0) :: mem)(0 := 0, 1 := 0x2A, 2 := 0x01, 3 := 100, 4 := 10, 5 := 0, 128 := 1, 144 := 1)
              else (\<lambda>_. 0))
      else if lid = 0x03 then
        Some (if dataLength \<ge> 512 then wr_bytes 8 (ascii ''1.0.0   '') (((\<lambda>_. 0) :: mem)(0 := 0x01))
              else (\<lambda>_. 0))
      else None)"

definition HandleGetLogPage :: "os_env \<Rightarrow> NVME_COMMAND \<Rightarrow> vnvme_ctx \<Rightarrow> (NTSTATUS \<times> vnvme_ctx) option" where
  "HandleGetLogPage os cmd c =
     (let lid = (ucast (CDW10 cmd AND 0xFF) :: u8);
          numdl = drop_bit 16 (CDW10 cmd) AND 0xFFFF;
          numdu = CDW11 cmd AND 0xFFFF;
          numDwords = push_bit 16 numdu OR numdl;
          dataLength = (numDwords + 1) * 4;
          dataLength = (if dataLength > 4096 then 4096 else dataLength)
      in if \<not> os_alloc os 0 (unat dataLength)
         then PostErrorCompletion (CID cmd) NVME_SCT_GENERIC NVME_SC_INTERNAL_ERROR c
         else (case log_page_data lid dataLength of
                 None \<Rightarrow> PostErrorCompletion (CID cmd) NVME_SCT_GENERIC NVME_SC_INVALID_LOG_PAGE c
               | Some m \<Rightarrow> send_data os cmd (rd_bytes m 0 (unat dataLength)) dataLength c))"

definition HandleKeepAlive :: "NVME_COMMAND \<Rightarrow> vnvme_ctx \<Rightarrow> (NTSTATUS \<times> vnvme_ctx) option" where
  "HandleKeepAlive cmd c = PostSuccessCompletion (CID cmd) 0 c"

section \<open>Dispatch\<close>

definition admin_dispatch :: "os_env \<Rightarrow> NVME_COMMAND \<Rightarrow> vnvme_ctx \<Rightarrow> (NTSTATUS \<times> vnvme_ctx) option" where
  "admin_dispatch os cmd c =
     (if OPC cmd = 0x06 then HandleIdentify os cmd c
      else if OPC cmd = 0x05 then HandleCreateIoCq cmd c
      else if OPC cmd = 0x01 then HandleCreateIoSq cmd c
      else if OPC cmd = 0x04 then HandleDeleteIoCq cmd c
      else if OPC cmd = 0x00 then HandleDeleteIoSq cmd c
      else if OPC cmd = 0x09 then HandleSetFeatures cmd c
      else if OPC cmd = 0x0A then HandleGetFeatures cmd c
      else if OPC cmd = 0x08 then HandleAbort cmd c
      else if OPC cmd = 0x0C then HandleAsyncEventRequest cmd c
      else if OPC cmd = 0x18 then HandleKeepAlive cmd c
      else if OPC cmd = 0x02 then HandleGetLogPage os cmd c
      else PostErrorCompletion (CID cmd) NVME_SCT_GENERIC NVME_SC_INVALID_OPCODE c)"

definition VnvmeProcessAdminCommand :: "os_env \<Rightarrow> NVME_COMMAND \<Rightarrow> vnvme_ctx \<Rightarrow> (NTSTATUS \<times> vnvme_ctx) option" where
  "VnvmeProcessAdminCommand os cmd c = do {
     (status, c) \<leftarrow> admin_dispatch os cmd c;
     Some (status, upd_pdo (\<lambda>p. p\<lparr>pdo_AdminCommandsProcessed := pdo_AdminCommandsProcessed p + 1\<rparr>) c)
   }"

text \<open>The loop over the pending commands; command number \<open>k\<close> gets the answers \<open>os k\<close>.\<close>

partial_function (option) admin_loop ::
  "(nat \<Rightarrow> os_env) \<Rightarrow> nat \<Rightarrow> u32 \<Rightarrow> u32 \<Rightarrow> u32 \<Rightarrow> vnvme_ctx \<Rightarrow> vnvme_ctx option" where
  "admin_loop os k tail queueSize head c =
     (if head = tail then Some c
      else VnvmeFetchCommand 0 True c \<bind> (\<lambda>r.
        if \<not> NT_SUCCESS (fst r) then Some (snd (snd r))
        else VnvmeProcessAdminCommand (os k) (fst (snd r)) (snd (snd r)) \<bind> (\<lambda>r'.
          admin_loop os (Suc k) tail queueSize ((head + 1) mod queueSize)
            (upd_pdo (\<lambda>p. p\<lparr>pdo_AdminSq := (pdo_AdminSq p)\<lparr>qs_Head := (head + 1) mod queueSize\<rparr>\<rparr>) (snd r')))))"

definition VnvmeProcessAdminCommands :: "(nat \<Rightarrow> os_env) \<Rightarrow> u32 \<Rightarrow> vnvme_ctx \<Rightarrow> vnvme_ctx option" where
  "VnvmeProcessAdminCommands os NewTail c =
     (if pdo_AdminSqSize (pdo c) = 0 then Some c
      else admin_loop os 0 NewTail (pdo_AdminSqSize (pdo c)) (qs_Head (pdo_AdminSq (pdo c))) c)"

section \<open>Completing an asynchronous event request\<close>

text \<open>Taking the oldest identifier and shifting the others down.\<close>

definition aer_shift :: "nat \<Rightarrow> u16 list \<Rightarrow> u16 list" where
  "aer_shift n cids = fold (\<lambda>i a. a[i := a ! (i + 1)]) [0..<n - 1] cids"

definition aer_take :: "VNVME_PDO_CONTEXT \<Rightarrow> (u16 \<times> VNVME_PDO_CONTEXT) option" where
  "aer_take p =
     (if pdo_AerCount p = 0 then None
      else Some (pdo_AerCids p ! 0,
                 p\<lparr>pdo_AerCids := aer_shift (unat (pdo_AerCount p)) (pdo_AerCids p),
                   pdo_AerCount := pdo_AerCount p - 1\<rparr>))"

definition VnvmeCompleteAer :: "u8 \<Rightarrow> u8 \<Rightarrow> u8 \<Rightarrow> vnvme_ctx \<Rightarrow> (NTSTATUS \<times> vnvme_ctx) option" where
  "VnvmeCompleteAer EventType EventInfo LogPage c = do {
     check (unat (pdo_AerCount (pdo c)) \<le> length (pdo_AerCids (pdo c)));
     (case aer_take (pdo c) of
        None \<Rightarrow> Some (STATUS_UNSUCCESSFUL, c)
      | Some (cid, p) \<Rightarrow>
          PostSuccessCompletion cid
            (((ucast EventType :: u32) AND 0x7) OR push_bit 8 (ucast EventInfo AND 0xFF)
               OR push_bit 16 (ucast LogPage AND 0xFF))
            (upd_pdo (\<lambda>_. p) c))
   }"

end
