(* ===== verification/Vnvme_Storage.thy ===== *)
theory Vnvme_Storage
  imports Vnvme_Context
begin

text \<open>
  \<^verbatim>\<open>vnvme/storage.c\<close>, \<^verbatim>\<open>vnvme/storage_memory.c\<close> and \<^verbatim>\<open>vnvme/storage_file.c\<close>: the storage behind a namespace.
  The memory back end owns a block of \<open>MemorySize\<close> bytes; a copy that leaves it is a fault. The two file
  back ends call the file services of the system, which are arguments (\<open>os_env\<close>, \<open>file_open_os\<close>). A buffer
  that a function fills is part of its result.
\<close>

section \<open>The memory back end\<close>

abbreviation (input) VNVME_MAX_MEMORY_BACKEND_SIZE :: u64 where "VNVME_MAX_MEMORY_BACKEND_SIZE \<equiv> 268435456"

definition StorageMemoryInit :: "(nat \<Rightarrow> bool) \<Rightarrow> u64 \<Rightarrow> VNVME_STORAGE_CONTEXT \<Rightarrow> NTSTATUS \<times> VNVME_STORAGE_CONTEXT" where
  "StorageMemoryInit alloc_ok TotalBytes s =
     (if TotalBytes > VNVME_MAX_MEMORY_BACKEND_SIZE then (STATUS_INSUFFICIENT_RESOURCES, s)
      else if \<not> alloc_ok (unat TotalBytes) then (STATUS_INSUFFICIENT_RESOURCES, s\<lparr>st_MemoryBuffer := None\<rparr>)
      else (STATUS_SUCCESS,
            s\<lparr>st_MemoryBuffer := Some (\<lambda>_. 0), st_MemorySize := TotalBytes, st_TotalBytes := TotalBytes,
              st_Type := VNVME_STORAGE_TYPE_MEMORY\<rparr>))"

definition StorageMemoryCleanup :: "VNVME_STORAGE_CONTEXT \<Rightarrow> VNVME_STORAGE_CONTEXT" where
  "StorageMemoryCleanup s =
     (if st_MemoryBuffer s \<noteq> None then s\<lparr>st_MemoryBuffer := None, st_MemorySize := 0\<rparr> else s)"

text \<open>The counters of a successful read or write.\<close>

definition st_count_read :: "u32 \<Rightarrow> VNVME_STORAGE_CONTEXT \<Rightarrow> VNVME_STORAGE_CONTEXT" where
  "st_count_read Length s = s\<lparr>st_ReadCount := st_ReadCount s + 1, st_BytesRead := st_BytesRead s + ucast Length\<rparr>"

definition st_count_write :: "u32 \<Rightarrow> VNVME_STORAGE_CONTEXT \<Rightarrow> VNVME_STORAGE_CONTEXT" where
  "st_count_write Length s =
     s\<lparr>st_WriteCount := st_WriteCount s + 1, st_BytesWritten := st_BytesWritten s + ucast Length\<rparr>"

text \<open>\<open>Offset + Length\<close> is a 64-bit sum and wraps.\<close>

definition StorageMemoryRead ::
  "VNVME_STORAGE_CONTEXT \<Rightarrow> u64 \<Rightarrow> u32 \<Rightarrow> (NTSTATUS \<times> u8 list \<times> VNVME_STORAGE_CONTEXT) option" where
  "StorageMemoryRead s Offset Length =
     (case st_MemoryBuffer s of
        None \<Rightarrow> Some (STATUS_DEVICE_NOT_READY, [], s)
      | Some m \<Rightarrow>
          if Offset + ucast Length > st_TotalBytes s then Some (STATUS_INVALID_PARAMETER, [], s)
          else do {
            check (unat Offset + unat Length \<le> unat (st_MemorySize s));
            Some (STATUS_SUCCESS, rd_bytes m (unat Offset) (unat Length), st_count_read Length s)
          })"

definition StorageMemoryWrite ::
  "VNVME_STORAGE_CONTEXT \<Rightarrow> u64 \<Rightarrow> u8 list \<Rightarrow> u32 \<Rightarrow> (NTSTATUS \<times> VNVME_STORAGE_CONTEXT) option" where
  "StorageMemoryWrite s Offset Buffer Length =
     (case st_MemoryBuffer s of
        None \<Rightarrow> Some (STATUS_DEVICE_NOT_READY, s)
      | Some m \<Rightarrow>
          if st_ReadOnly s then Some (STATUS_MEDIA_WRITE_PROTECTED, s)
          else if Offset + ucast Length > st_TotalBytes s then Some (STATUS_INVALID_PARAMETER, s)
          else do {
            check (unat Length \<le> length Buffer);
            check (unat Offset + unat Length \<le> unat (st_MemorySize s));
            Some (STATUS_SUCCESS, st_count_write Length
              (s\<lparr>st_MemoryBuffer := Some (wr_bytes (unat Offset) (take (unat Length) Buffer) m)\<rparr>))
          })"

definition StorageMemoryWriteZeroes ::
  "VNVME_STORAGE_CONTEXT \<Rightarrow> u64 \<Rightarrow> u32 \<Rightarrow> (NTSTATUS \<times> VNVME_STORAGE_CONTEXT) option" where
  "StorageMemoryWriteZeroes s Offset Length =
     (case st_MemoryBuffer s of
        None \<Rightarrow> Some (STATUS_DEVICE_NOT_READY, s)
      | Some m \<Rightarrow>
          if st_ReadOnly s then Some (STATUS_MEDIA_WRITE_PROTECTED, s)
          else if Offset + ucast Length > st_TotalBytes s then Some (STATUS_INVALID_PARAMETER, s)
          else do {
            check (unat Offset + unat Length \<le> unat (st_MemorySize s));
            Some (STATUS_SUCCESS, st_count_write Length
              (s\<lparr>st_MemoryBuffer := Some (zero_range (unat Offset) (unat Length) m)\<rparr>))
          })"

text \<open>The direct pointer is its offset into the block; computing it accesses nothing.\<close>

definition StorageMemoryGetDirect :: "VNVME_STORAGE_CONTEXT \<Rightarrow> u64 \<Rightarrow> u32 \<Rightarrow> NTSTATUS \<times> u64 option" where
  "StorageMemoryGetDirect s Offset Length =
     (if st_MemoryBuffer s = None then (STATUS_DEVICE_NOT_READY, None)
      else if Offset + ucast Length > st_TotalBytes s then (STATUS_INVALID_PARAMETER, None)
      else (STATUS_SUCCESS, Some Offset))"

section \<open>The file back ends\<close>

text \<open>
  What the system answers while a file is opened: \<open>ZwCreateFile\<close> (status and contents of the opened file,
  and whether \<open>Information\<close> reads \<open>FILE_CREATED\<close> after the last call before the size is set), the status
  of \<open>FSCTL_SET_SPARSE\<close>, and \<open>ZwSetInformationFile\<close> with the new end of file.
\<close>

record file_open_os =
  fo_create :: "NTSTATUS \<times> mem"
  fo_created :: bool
  fo_sparse :: NTSTATUS
  fo_set_eof :: "mem \<Rightarrow> u64 \<Rightarrow> NTSTATUS \<times> mem"

text \<open>
  Copying the path: the buffer has \<open>MaximumLength\<close> bytes, a \<open>USHORT\<close>, and \<open>Length\<close> bytes and a terminator are
  stored in it.
\<close>

definition copy_FilePath :: "(nat \<Rightarrow> bool) \<Rightarrow> u16 list \<Rightarrow> VNVME_STORAGE_CONTEXT \<Rightarrow> (NTSTATUS \<times> VNVME_STORAGE_CONTEXT) option" where
  "copy_FilePath alloc_ok FilePath s =
     (let MaximumLength = (of_nat (2 * length FilePath) + 2 :: u16) in
      if \<not> alloc_ok (unat MaximumLength) then Some (STATUS_INSUFFICIENT_RESOURCES, s\<lparr>st_FilePath := None\<rparr>)
      else do {
        check (2 * length FilePath + 2 \<le> unat MaximumLength);
        Some (STATUS_SUCCESS, s\<lparr>st_FilePath := Some (FilePath @ [0])\<rparr>)
      })"

definition StorageFileInit ::
  "(nat \<Rightarrow> bool) \<Rightarrow> file_open_os \<Rightarrow> u16 list \<Rightarrow> u64 \<Rightarrow> bool \<Rightarrow> VNVME_STORAGE_CONTEXT
    \<Rightarrow> (NTSTATUS \<times> VNVME_STORAGE_CONTEXT) option" where
  "StorageFileInit alloc_ok fo FilePath TotalBytes CreateNew s = do {
     (status, s) \<leftarrow> copy_FilePath alloc_ok FilePath s;
     if \<not> NT_SUCCESS status then Some (status, s)
     else do {
       let (status, f) = fo_create fo;
       if \<not> NT_SUCCESS status then Some (status, s\<lparr>st_FilePath := None\<rparr>)
       else do {
         let s = s\<lparr>st_FileHandle := True\<rparr>;
         let (status, f) = (if CreateNew \<or> fo_created fo then fo_set_eof fo f TotalBytes else (STATUS_SUCCESS, f));
         if \<not> NT_SUCCESS status then Some (status, s\<lparr>st_FileHandle := False, st_FilePath := None\<rparr>)
         else Some (STATUS_SUCCESS, s\<lparr>st_FileData := f, st_TotalBytes := TotalBytes,
                                      st_Type := VNVME_STORAGE_TYPE_FILE\<rparr>)
       }
     }
   }"

definition StorageFileCleanup :: "VNVME_STORAGE_CONTEXT \<Rightarrow> VNVME_STORAGE_CONTEXT" where
  "StorageFileCleanup s =
     (let s = (if st_FileHandle s then s\<lparr>st_FileHandle := False\<rparr> else s)
      in if st_FilePath s \<noteq> None then s\<lparr>st_FilePath := None\<rparr> else s)"

definition StorageFileRead ::
  "os_env \<Rightarrow> VNVME_STORAGE_CONTEXT \<Rightarrow> u64 \<Rightarrow> u32 \<Rightarrow> (NTSTATUS \<times> u8 list \<times> VNVME_STORAGE_CONTEXT) option" where
  "StorageFileRead os s Offset Length =
     (if \<not> st_FileHandle s then Some (STATUS_DEVICE_NOT_READY, [], s)
      else if Offset + ucast Length > st_TotalBytes s then Some (STATUS_INVALID_PARAMETER, [], s)
      else
        let (status, bs) = os_ZwReadFile os (st_FileData s) Offset Length
        in Some (status, bs, if NT_SUCCESS status then st_count_read Length s else s))"

definition StorageFileWrite ::
  "os_env \<Rightarrow> VNVME_STORAGE_CONTEXT \<Rightarrow> u64 \<Rightarrow> u8 list \<Rightarrow> u32 \<Rightarrow> (NTSTATUS \<times> VNVME_STORAGE_CONTEXT) option" where
  "StorageFileWrite os s Offset Buffer Length =
     (if \<not> st_FileHandle s then Some (STATUS_DEVICE_NOT_READY, s)
      else if st_ReadOnly s then Some (STATUS_MEDIA_WRITE_PROTECTED, s)
      else if Offset + ucast Length > st_TotalBytes s then Some (STATUS_INVALID_PARAMETER, s)
      else do {
        check (unat Length \<le> length Buffer);
        let (status, f) = os_ZwWriteFile os (st_FileData s) Offset (take (unat Length) Buffer);
        let s = s\<lparr>st_FileData := f\<rparr>;
        Some (status, if NT_SUCCESS status then st_count_write Length s else s)
      })"

text \<open>The calls of \<open>StorageFileFlush\<close> set a time stamp of the file; their statuses are not used.\<close>

definition StorageFileFlush :: "VNVME_STORAGE_CONTEXT \<Rightarrow> NTSTATUS" where
  "StorageFileFlush s = (if \<not> st_FileHandle s then STATUS_DEVICE_NOT_READY else STATUS_SUCCESS)"

definition StorageSparseInit ::
  "(nat \<Rightarrow> bool) \<Rightarrow> file_open_os \<Rightarrow> u16 list \<Rightarrow> u64 \<Rightarrow> bool \<Rightarrow> VNVME_STORAGE_CONTEXT
    \<Rightarrow> (NTSTATUS \<times> VNVME_STORAGE_CONTEXT) option" where
  "StorageSparseInit alloc_ok fo FilePath TotalBytes CreateNew s = do {
     (status, s) \<leftarrow> copy_FilePath alloc_ok FilePath s;
     if \<not> NT_SUCCESS status then Some (status, s)
     else do {
       let (status, f) = fo_create fo;
       if \<not> NT_SUCCESS status then Some (status, s\<lparr>st_FilePath := None\<rparr>)
       else do {
         let s = s\<lparr>st_FileHandle := True, st_IsSparse := NT_SUCCESS (fo_sparse fo)\<rparr>;
         let (status, f) = (if CreateNew \<or> fo_created fo then fo_set_eof fo f TotalBytes else (STATUS_SUCCESS, f));
         if \<not> NT_SUCCESS status then Some (status, s\<lparr>st_FileHandle := False, st_FilePath := None\<rparr>)
         else Some (STATUS_SUCCESS, s\<lparr>st_FileData := f, st_TotalBytes := TotalBytes,
                                      st_Type := VNVME_STORAGE_TYPE_SPARSE\<rparr>)
       }
     }
   }"

definition StorageSparseRead ::
  "os_env \<Rightarrow> VNVME_STORAGE_CONTEXT \<Rightarrow> u64 \<Rightarrow> u32 \<Rightarrow> (NTSTATUS \<times> u8 list \<times> VNVME_STORAGE_CONTEXT) option" where
  "StorageSparseRead os s Offset Length =
     (if \<not> st_FileHandle s then Some (STATUS_DEVICE_NOT_READY, [], s)
      else if Offset + ucast Length > st_TotalBytes s then Some (STATUS_INVALID_PARAMETER, [], s)
      else
        let (status, bs) = os_ZwReadFile os (st_FileData s) Offset Length
        in Some (status, bs, if NT_SUCCESS status then st_count_read Length s else s))"

definition StorageSparseWrite ::
  "os_env \<Rightarrow> VNVME_STORAGE_CONTEXT \<Rightarrow> u64 \<Rightarrow> u8 list \<Rightarrow> u32 \<Rightarrow> (NTSTATUS \<times> VNVME_STORAGE_CONTEXT) option" where
  "StorageSparseWrite os s Offset Buffer Length =
     (if \<not> st_FileHandle s then Some (STATUS_DEVICE_NOT_READY, s)
      else if st_ReadOnly s then Some (STATUS_MEDIA_WRITE_PROTECTED, s)
      else if Offset + ucast Length > st_TotalBytes s then Some (STATUS_INVALID_PARAMETER, s)
      else do {
        check (unat Length \<le> length Buffer);
        let (status, f) = os_ZwWriteFile os (st_FileData s) Offset (take (unat Length) Buffer);
        let s = s\<lparr>st_FileData := f\<rparr>;
        Some (status, if NT_SUCCESS status then st_count_write Length s else s)
      })"

text \<open>
  The loop that writes a zeroed buffer of 64 KiB chunk by chunk, in \<open>VnvmeStorageWriteZeroes\<close> (file) and
  \<open>StorageSparseWriteZeroes\<close> (fallback); \<open>write\<close> is the back end's write.
\<close>

function zero_chunks ::
  "(VNVME_STORAGE_CONTEXT \<Rightarrow> u64 \<Rightarrow> u8 list \<Rightarrow> u32 \<Rightarrow> (NTSTATUS \<times> VNVME_STORAGE_CONTEXT) option)
    \<Rightarrow> NTSTATUS \<Rightarrow> VNVME_STORAGE_CONTEXT \<Rightarrow> u64 \<Rightarrow> u32 \<Rightarrow> (NTSTATUS \<times> VNVME_STORAGE_CONTEXT) option" where
  "zero_chunks write status s currentOffset remainingLength =
     (if remainingLength > 0 \<and> NT_SUCCESS status then do {
        let chunkSize = (if remainingLength > 65536 then 65536 else remainingLength);
        (status, s) \<leftarrow> write s currentOffset (replicate 65536 0) chunkSize;
        zero_chunks write status s (currentOffset + ucast chunkSize) (remainingLength - chunkSize)
      } else Some (status, s))"
  by pat_completeness auto

termination zero_chunks
proof (relation "measure (\<lambda>(_, _, _, _, remainingLength). unat remainingLength)")
  show "wf (measure (\<lambda>(_ :: VNVME_STORAGE_CONTEXT \<Rightarrow> u64 \<Rightarrow> u8 list \<Rightarrow> u32
      \<Rightarrow> (NTSTATUS \<times> VNVME_STORAGE_CONTEXT) option, _ :: NTSTATUS, _ :: VNVME_STORAGE_CONTEXT,
      _ :: u64, remainingLength :: u32). unat remainingLength))" by simp
qed (auto simp: word_less_nat_alt unat_sub_if')

declare zero_chunks.simps [simp del]

definition StorageSparseWriteZeroes ::
  "os_env \<Rightarrow> nat \<Rightarrow> VNVME_STORAGE_CONTEXT \<Rightarrow> u64 \<Rightarrow> u32 \<Rightarrow> (NTSTATUS \<times> VNVME_STORAGE_CONTEXT) option" where
  "StorageSparseWriteZeroes os n s Offset Length =
     (if \<not> st_FileHandle s then Some (STATUS_DEVICE_NOT_READY, s)
      else if st_ReadOnly s then Some (STATUS_MEDIA_WRITE_PROTECTED, s)
      else if Offset + ucast Length > st_TotalBytes s then Some (STATUS_INVALID_PARAMETER, s)
      else do {
        let (status, f) = os_ZwSetZeroData os (st_FileData s) Offset (Offset + ucast Length);
        let s = s\<lparr>st_FileData := f\<rparr>;
        if NT_SUCCESS status then Some (status, st_count_write Length s)
        else if \<not> os_alloc os n 65536 then Some (STATUS_INSUFFICIENT_RESOURCES, s)
        else zero_chunks (StorageSparseWrite os) STATUS_SUCCESS s Offset Length
      })"

section \<open>The common interface\<close>

text \<open>\<open>sizeof(VNVME_STORAGE_CONTEXT)\<close> is 104; a null storage context is \<open>None\<close>.\<close>

definition VnvmeStorageCreate ::
  "(nat \<Rightarrow> nat \<Rightarrow> bool) \<Rightarrow> file_open_os \<Rightarrow> VNVME_STORAGE_TYPE \<Rightarrow> u64 \<Rightarrow> u32 \<Rightarrow> u16 list option
    \<Rightarrow> (NTSTATUS \<times> VNVME_STORAGE_CONTEXT option) option" where
  "VnvmeStorageCreate alloc fo Type TotalBytes BlockSize FilePath =
     (if \<not> alloc 0 104 then Some (STATUS_INSUFFICIENT_RESOURCES, None)
      else do {
        let context = zero_STORAGE_CONTEXT\<lparr>st_BlockSize := BlockSize\<rparr>;
        (status, context) \<leftarrow>
          (case Type of
             VNVME_STORAGE_TYPE_MEMORY \<Rightarrow> Some (StorageMemoryInit (alloc 1) TotalBytes context)
           | VNVME_STORAGE_TYPE_FILE \<Rightarrow>
               (case FilePath of None \<Rightarrow> Some (STATUS_INVALID_PARAMETER, context)
                | Some path \<Rightarrow> StorageFileInit (alloc 1) fo path TotalBytes True context)
           | VNVME_STORAGE_TYPE_SPARSE \<Rightarrow>
               (case FilePath of None \<Rightarrow> Some (STATUS_INVALID_PARAMETER, context)
                | Some path \<Rightarrow> StorageSparseInit (alloc 1) fo path TotalBytes True context)
           | VNVME_STORAGE_TYPE_NONE \<Rightarrow> Some (STATUS_NOT_SUPPORTED, context));
        if \<not> NT_SUCCESS status then Some (status, None) else Some (STATUS_SUCCESS, Some context)
      })"

text \<open>Destroying a context: what the back end's cleanup leaves before the context itself is freed.\<close>

definition VnvmeStorageDestroy :: "VNVME_STORAGE_CONTEXT option \<Rightarrow> VNVME_STORAGE_CONTEXT option" where
  "VnvmeStorageDestroy StorageContext =
     (case StorageContext of
        None \<Rightarrow> None
      | Some s \<Rightarrow>
          (case st_Type s of
             VNVME_STORAGE_TYPE_MEMORY \<Rightarrow> Some (StorageMemoryCleanup s)
           | VNVME_STORAGE_TYPE_FILE \<Rightarrow> Some (StorageFileCleanup s)
           | VNVME_STORAGE_TYPE_SPARSE \<Rightarrow> Some (StorageFileCleanup s)
           | VNVME_STORAGE_TYPE_NONE \<Rightarrow> Some s))"

definition VnvmeStorageRead ::
  "os_env \<Rightarrow> VNVME_STORAGE_CONTEXT option \<Rightarrow> u64 \<Rightarrow> u32
    \<Rightarrow> (NTSTATUS \<times> u8 list \<times> VNVME_STORAGE_CONTEXT option) option" where
  "VnvmeStorageRead os StorageContext Offset Length =
     (case StorageContext of
        None \<Rightarrow> Some (STATUS_INVALID_PARAMETER, [], None)
      | Some s \<Rightarrow>
          map_option (\<lambda>(status, bs, s'). (status, bs, Some s'))
            (case st_Type s of
               VNVME_STORAGE_TYPE_MEMORY \<Rightarrow> StorageMemoryRead s Offset Length
             | VNVME_STORAGE_TYPE_FILE \<Rightarrow> StorageFileRead os s Offset Length
             | VNVME_STORAGE_TYPE_SPARSE \<Rightarrow> StorageSparseRead os s Offset Length
             | VNVME_STORAGE_TYPE_NONE \<Rightarrow> Some (STATUS_NOT_SUPPORTED, [], s)))"

definition VnvmeStorageWrite ::
  "os_env \<Rightarrow> VNVME_STORAGE_CONTEXT option \<Rightarrow> u64 \<Rightarrow> u8 list \<Rightarrow> u32
    \<Rightarrow> (NTSTATUS \<times> VNVME_STORAGE_CONTEXT option) option" where
  "VnvmeStorageWrite os StorageContext Offset Buffer Length =
     (case StorageContext of
        None \<Rightarrow> Some (STATUS_INVALID_PARAMETER, None)
      | Some s \<Rightarrow>
          map_option (map_prod id Some)
            (case st_Type s of
               VNVME_STORAGE_TYPE_MEMORY \<Rightarrow> StorageMemoryWrite s Offset Buffer Length
             | VNVME_STORAGE_TYPE_FILE \<Rightarrow> StorageFileWrite os s Offset Buffer Length
             | VNVME_STORAGE_TYPE_SPARSE \<Rightarrow> StorageSparseWrite os s Offset Buffer Length
             | VNVME_STORAGE_TYPE_NONE \<Rightarrow> Some (STATUS_NOT_SUPPORTED, s)))"

definition VnvmeStorageWriteZeroes ::
  "os_env \<Rightarrow> nat \<Rightarrow> VNVME_STORAGE_CONTEXT option \<Rightarrow> u64 \<Rightarrow> u32
    \<Rightarrow> (NTSTATUS \<times> VNVME_STORAGE_CONTEXT option) option" where
  "VnvmeStorageWriteZeroes os n StorageContext Offset Length =
     (case StorageContext of
        None \<Rightarrow> Some (STATUS_INVALID_PARAMETER, None)
      | Some s \<Rightarrow>
          map_option (map_prod id Some)
            (case st_Type s of
               VNVME_STORAGE_TYPE_MEMORY \<Rightarrow> StorageMemoryWriteZeroes s Offset Length
             | VNVME_STORAGE_TYPE_FILE \<Rightarrow>
                 if \<not> os_alloc os n 65536 then Some (STATUS_INSUFFICIENT_RESOURCES, s)
                 else zero_chunks (StorageFileWrite os) STATUS_SUCCESS s Offset Length
             | VNVME_STORAGE_TYPE_SPARSE \<Rightarrow> StorageSparseWriteZeroes os n s Offset Length
             | VNVME_STORAGE_TYPE_NONE \<Rightarrow> Some (STATUS_NOT_SUPPORTED, s)))"

definition VnvmeStorageFlush :: "VNVME_STORAGE_CONTEXT option \<Rightarrow> NTSTATUS" where
  "VnvmeStorageFlush StorageContext =
     (case StorageContext of
        None \<Rightarrow> STATUS_INVALID_PARAMETER
      | Some s \<Rightarrow>
          (case st_Type s of
             VNVME_STORAGE_TYPE_MEMORY \<Rightarrow> STATUS_SUCCESS
           | VNVME_STORAGE_TYPE_FILE \<Rightarrow> StorageFileFlush s
           | VNVME_STORAGE_TYPE_SPARSE \<Rightarrow> StorageFileFlush s
           | VNVME_STORAGE_TYPE_NONE \<Rightarrow> STATUS_NOT_SUPPORTED))"

definition VnvmeStorageDeallocate ::
  "os_env \<Rightarrow> nat \<Rightarrow> VNVME_STORAGE_CONTEXT option \<Rightarrow> u64 \<Rightarrow> u64
    \<Rightarrow> (NTSTATUS \<times> VNVME_STORAGE_CONTEXT option) option" where
  "VnvmeStorageDeallocate os n StorageContext Offset Length =
     (case StorageContext of
        None \<Rightarrow> Some (STATUS_INVALID_PARAMETER, None)
      | Some s \<Rightarrow>
          if st_Type s \<noteq> VNVME_STORAGE_TYPE_SPARSE
          then VnvmeStorageWriteZeroes os n StorageContext Offset (ucast Length)
          else if \<not> st_FileHandle s then Some (STATUS_DEVICE_NOT_READY, Some s)
          else if st_ReadOnly s then Some (STATUS_MEDIA_WRITE_PROTECTED, Some s)
          else
            let (status, f) = os_ZwSetZeroData os (st_FileData s) Offset (Offset + Length)
            in Some (status, Some (s\<lparr>st_FileData := f\<rparr>)))"

definition VnvmeStorageGetDirect :: "VNVME_STORAGE_CONTEXT option \<Rightarrow> u64 \<Rightarrow> u32 \<Rightarrow> NTSTATUS \<times> u64 option" where
  "VnvmeStorageGetDirect StorageContext Offset Length =
     (case StorageContext of
        None \<Rightarrow> (STATUS_INVALID_PARAMETER, None)
      | Some s \<Rightarrow>
          if st_Type s = VNVME_STORAGE_TYPE_MEMORY then StorageMemoryGetDirect s Offset Length
          else (STATUS_NOT_SUPPORTED, None))"

definition VnvmeStorageGetStats :: "VNVME_STORAGE_CONTEXT option \<Rightarrow> u64 \<times> u64 \<times> u64 \<times> u64" where
  "VnvmeStorageGetStats StorageContext =
     (case StorageContext of
        None \<Rightarrow> (0, 0, 0, 0)
      | Some s \<Rightarrow> (st_ReadCount s, st_WriteCount s, st_BytesRead s, st_BytesWritten s))"

section \<open>The contract of a block store\<close>

text \<open>
  \<open>block_store\<close> is what the command handlers rely on: inside the capacity every operation returns; one that
  reports success read, stored or cleared exactly the range it was given, and a failed one changed
  nothing outside that range. \<open>contents\<close> is the byte array
  the store stands for.
\<close>

locale block_store =
  fixes get :: "'s \<Rightarrow> u64 \<Rightarrow> u32 \<Rightarrow> (NTSTATUS \<times> u8 list \<times> 's) option"
    and put :: "'s \<Rightarrow> u64 \<Rightarrow> u8 list \<Rightarrow> u32 \<Rightarrow> (NTSTATUS \<times> 's) option"
    and clear :: "'s \<Rightarrow> u64 \<Rightarrow> u32 \<Rightarrow> (NTSTATUS \<times> 's) option"
    and contents :: "'s \<Rightarrow> mem"
    and capacity :: "'s \<Rightarrow> nat"
    and inv :: "'s \<Rightarrow> bool"
  assumes get_law: "inv s \<Longrightarrow> unat off + unat len \<le> capacity s \<Longrightarrow>
      \<exists>status bs s'. get s off len = Some (status, bs, s') \<and> inv s' \<and> capacity s' = capacity s
        \<and> contents s' = contents s
        \<and> (NT_SUCCESS status \<longrightarrow> bs = rd_bytes (contents s) (unat off) (unat len))"
    and put_law: "inv s \<Longrightarrow> unat off + unat len \<le> capacity s \<Longrightarrow> length bs = unat len \<Longrightarrow>
      \<exists>status s'. put s off bs len = Some (status, s') \<and> inv s' \<and> capacity s' = capacity s
        \<and> same_outside {unat off..<unat off + unat len} (contents s) (contents s')
        \<and> (NT_SUCCESS status \<longrightarrow> contents s' = wr_bytes (unat off) bs (contents s))"
    and clear_law: "inv s \<Longrightarrow> unat off + unat len \<le> capacity s \<Longrightarrow>
      \<exists>status s'. clear s off len = Some (status, s') \<and> inv s' \<and> capacity s' = capacity s
        \<and> same_outside {unat off..<unat off + unat len} (contents s) (contents s')
        \<and> (NT_SUCCESS status \<longrightarrow> contents s' = zero_range (unat off) (unat len) (contents s))"
begin

lemma read_after_write:
  assumes "inv s" "unat off + unat len \<le> capacity s" "length bs = unat len"
    and w: "put s off bs len = Some (wstatus, s')" "NT_SUCCESS wstatus"
    and r: "get s' off len = Some (rstatus, bs', s'')" "NT_SUCCESS rstatus"
  shows "bs' = bs"
proof -
  from put_law [OF assms(1-3)] w have s': "inv s'" "capacity s' = capacity s"
    "contents s' = wr_bytes (unat off) bs (contents s)" by auto
  with get_law [of s' off len] assms(2) r have "bs' = rd_bytes (contents s') (unat off) (unat len)" by auto
  with s' assms(3) show ?thesis using rd_bytes_wr_bytes [of "unat off" bs] by simp
qed

lemma read_elsewhere:
  assumes "inv s" "unat off + unat len \<le> capacity s" "length bs = unat len"
    and w: "put s off bs len = Some (wstatus, s')" "NT_SUCCESS wstatus"
    and r: "get s' off' len' = Some (rstatus, bs', s'')" "NT_SUCCESS rstatus"
    and apart: "unat off' + unat len' \<le> capacity s"
      "unat off' + unat len' \<le> unat off \<or> unat off + unat len \<le> unat off'"
  shows "bs' = rd_bytes (contents s) (unat off') (unat len')"
proof -
  from put_law [OF assms(1-3)] w have s': "inv s'" "capacity s' = capacity s"
    "contents s' = wr_bytes (unat off) bs (contents s)" by auto
  with get_law [of s' off' len'] apart(1) r have "bs' = rd_bytes (contents s') (unat off') (unat len')" by auto
  with s' assms(3) apart(2) show ?thesis by (simp add: rd_bytes_wr_bytes_apart)
qed

lemma read_after_zeroes:
  assumes "inv s" "unat off + unat len \<le> capacity s"
    and z: "clear s off len = Some (zstatus, s')" "NT_SUCCESS zstatus"
    and r: "get s' off len = Some (rstatus, bs', s'')" "NT_SUCCESS rstatus"
  shows "bs' = replicate (unat len) 0"
proof -
  from clear_law [OF assms(1-2)] z have s': "inv s'" "capacity s' = capacity s"
    "contents s' = zero_range (unat off) (unat len) (contents s)" by auto
  with get_law [of s' off len] assms(2) r have "bs' = rd_bytes (contents s') (unat off) (unat len)" by auto
  with s' show ?thesis by (auto intro!: nth_equalityI simp: zero_range_def)
qed

end

section \<open>The back ends keep the contract\<close>

definition storage_contents :: "VNVME_STORAGE_CONTEXT option \<Rightarrow> mem" where
  "storage_contents StorageContext =
     (case StorageContext of
        None \<Rightarrow> (\<lambda>_. 0)
      | Some s \<Rightarrow> (if st_Type s = VNVME_STORAGE_TYPE_MEMORY
                   then (case st_MemoryBuffer s of None \<Rightarrow> (\<lambda>_. 0) | Some m \<Rightarrow> m) else st_FileData s))"

definition storage_capacity :: "VNVME_STORAGE_CONTEXT option \<Rightarrow> nat" where
  "storage_capacity StorageContext = (case StorageContext of None \<Rightarrow> 0 | Some s \<Rightarrow> unat (st_TotalBytes s))"

text \<open>A context as \<open>VnvmeStorageCreate\<close> leaves it.\<close>

definition storage_ok :: "VNVME_STORAGE_CONTEXT option \<Rightarrow> bool" where
  "storage_ok StorageContext =
     (case StorageContext of
        None \<Rightarrow> False
      | Some s \<Rightarrow>
          (case st_Type s of
             VNVME_STORAGE_TYPE_MEMORY \<Rightarrow>
               st_MemoryBuffer s \<noteq> None \<and> st_MemorySize s = st_TotalBytes s
           | VNVME_STORAGE_TYPE_FILE \<Rightarrow> st_FileHandle s
           | VNVME_STORAGE_TYPE_SPARSE \<Rightarrow> st_FileHandle s
           | VNVME_STORAGE_TYPE_NONE \<Rightarrow> False))"

lemma sparse_is_file:
  "StorageSparseRead = StorageFileRead" "StorageSparseWrite = StorageFileWrite"
  by (simp_all add: fun_eq_iff StorageSparseRead_def StorageFileRead_def StorageSparseWrite_def
      StorageFileWrite_def)

lemma st_count_simps [simp]:
  "st_Type (st_count_read n s) = st_Type s" "st_Type (st_count_write n s) = st_Type s"
  "st_TotalBytes (st_count_read n s) = st_TotalBytes s" "st_TotalBytes (st_count_write n s) = st_TotalBytes s"
  "st_MemoryBuffer (st_count_read n s) = st_MemoryBuffer s"
  "st_MemoryBuffer (st_count_write n s) = st_MemoryBuffer s"
  "st_MemorySize (st_count_read n s) = st_MemorySize s" "st_MemorySize (st_count_write n s) = st_MemorySize s"
  "st_FileHandle (st_count_read n s) = st_FileHandle s" "st_FileHandle (st_count_write n s) = st_FileHandle s"
  "st_FileData (st_count_read n s) = st_FileData s" "st_FileData (st_count_write n s) = st_FileData s"
  "st_ReadOnly (st_count_read n s) = st_ReadOnly s" "st_ReadOnly (st_count_write n s) = st_ReadOnly s"
  by (simp_all add: st_count_read_def st_count_write_def)

text \<open>Inside the capacity the 64-bit sum does not wrap, so the range test passes.\<close>

lemma range_test_passes:
  fixes off :: u64 and len :: u32
  assumes "unat off + unat len \<le> unat tot"
  shows "\<not> off + ucast len > tot"
proof -
  have "unat (off + ucast len) = unat off + unat len"
    using assms unat_u64_bound [of tot] by (simp add: unat_word_ariths)
  then show ?thesis using assms by (simp add: word_less_nat_alt)
qed

lemma zero_range_zero_range: "zero_range (a + n) k (zero_range a n m) = zero_range a (n + k) m"
  by (rule ext) (auto simp: zero_range_def)

lemma wr_bytes_replicate_zero: "wr_bytes a (replicate n 0) m = zero_range a n m"
  by (rule ext) (auto simp: wr_bytes_def zero_range_def)

lemma zero_range_0 [simp]: "zero_range a 0 m = m"
  by (rule ext) (auto simp: zero_range_def)

lemma StorageFileWrite_law:
  assumes "file_os_ok os" "st_FileHandle s" "unat off + unat len \<le> unat (st_TotalBytes s)" "unat len \<le> length bs"
  shows "\<exists>status s'. StorageFileWrite os s off bs len = Some (status, s') \<and> st_FileHandle s'
    \<and> st_Type s' = st_Type s \<and> st_TotalBytes s' = st_TotalBytes s
    \<and> same_outside {unat off..<unat off + unat len} (st_FileData s) (st_FileData s')
    \<and> (NT_SUCCESS status \<longrightarrow> st_FileData s' = wr_bytes (unat off) (take (unat len) bs) (st_FileData s))"
proof -
  obtain status f where w: "os_ZwWriteFile os (st_FileData s) off (take (unat len) bs) = (status, f)"
    by fastforce
  have "same_outside {unat off..<unat off + length (take (unat len) bs)} (st_FileData s) f"
    "NT_SUCCESS status \<longrightarrow> f = wr_bytes (unat off) (take (unat len) bs) (st_FileData s)"
    using assms(1) w unfolding file_os_ok_def by (metis fst_conv snd_conv)+
  with assms w range_test_passes [OF assms(3)] show ?thesis
    by (auto simp: StorageFileWrite_def Let_def min_absorb2)
qed

lemma zero_chunks_law:
  assumes "file_os_ok os" "st_FileHandle s" "unat off + unat len \<le> unat (st_TotalBytes s)"
  shows "\<exists>status' s'. zero_chunks (StorageFileWrite os) status s off len = Some (status', s') \<and> st_FileHandle s'
    \<and> st_Type s' = st_Type s \<and> st_TotalBytes s' = st_TotalBytes s
    \<and> same_outside {unat off..<unat off + unat len} (st_FileData s) (st_FileData s')
    \<and> (NT_SUCCESS status' \<longrightarrow> st_FileData s' = zero_range (unat off) (unat len) (st_FileData s))"
  using assms
proof (induction "unat len" arbitrary: status s off len rule: less_induct)
  case less
  show ?case
  proof (cases "len > 0 \<and> NT_SUCCESS status")
    case False
    with less.prems show ?thesis
      by (subst zero_chunks.simps) (auto simp: word_gt_0)
  next
    case True
    define n where "n = (if len > 65536 then 65536 else len)"
    have n: "unat n \<le> 65536" "unat n \<le> unat len" "0 < unat n"
      using True by (auto simp: n_def word_less_nat_alt not_less)
    have sum: "unat (off + ucast n) = unat off + unat n"
      using less.prems(3) n unat_u64_bound [of "st_TotalBytes s"] by (simp add: unat_word_ariths)
    have rest: "unat (len - n) = unat len - unat n"
      using n by (simp add: unat_sub_if')
    from StorageFileWrite_law [OF less.prems(1,2), of off n "replicate 65536 0"] less.prems(3) n
    obtain status' s' where w: "StorageFileWrite os s off (replicate 65536 0) n = Some (status', s')"
      "st_FileHandle s'" "st_Type s' = st_Type s" "st_TotalBytes s' = st_TotalBytes s"
      "same_outside {unat off..<unat off + unat n} (st_FileData s) (st_FileData s')"
      "NT_SUCCESS status' \<longrightarrow> st_FileData s' = zero_range (unat off) (unat n) (st_FileData s)"
      by (auto simp: take_replicate min_def wr_bytes_replicate_zero)
    from less.hyps [of "len - n" s' "off + ucast n" status'] less.prems w(2,4) sum rest n
    obtain status'' s'' where
      z: "zero_chunks (StorageFileWrite os) status' s' (off + ucast n) (len - n) = Some (status'', s'')"
      "st_FileHandle s''" "st_Type s'' = st_Type s'" "st_TotalBytes s'' = st_TotalBytes s'"
      "same_outside {unat off + unat n..<unat off + unat len} (st_FileData s') (st_FileData s'')"
      "NT_SUCCESS status'' \<longrightarrow> st_FileData s'' = zero_range (unat off + unat n) (unat len - unat n) (st_FileData s')"
      by auto
    have success: "NT_SUCCESS status'" if "NT_SUCCESS status''"
      using z(1) that by (subst (asm) zero_chunks.simps) (auto split: if_splits)
    have "zero_chunks (StorageFileWrite os) status s off len = Some (status'', s'')"
      using True w(1) z(1) by (subst zero_chunks.simps) (simp add: Let_def n_def [symmetric])
    moreover have "same_outside {unat off..<unat off + unat len} (st_FileData s) (st_FileData s'')"
      using w(5) z(5) n by (auto simp: same_outside_def)
    ultimately show ?thesis using w z success n by (auto simp: zero_range_zero_range)
  qed
qed

lemma storage_cases:
  assumes "storage_ok S"
  obtains (memory) s m where "S = Some s" "st_Type s = VNVME_STORAGE_TYPE_MEMORY" "st_MemoryBuffer s = Some m"
      "st_MemorySize s = st_TotalBytes s"
    | (plain) s where "S = Some s" "st_Type s = VNVME_STORAGE_TYPE_FILE" "st_FileHandle s"
    | (sparse) s where "S = Some s" "st_Type s = VNVME_STORAGE_TYPE_SPARSE" "st_FileHandle s"
  using assms unfolding storage_ok_def
  by (cases S; cases "st_Type (the S)") auto

lemmas storage_defs = VnvmeStorageRead_def VnvmeStorageWrite_def VnvmeStorageWriteZeroes_def
  storage_contents_def storage_capacity_def storage_ok_def

lemma StorageFileRead_law:
  assumes "file_os_ok os" "st_FileHandle s" "unat off + unat len \<le> unat (st_TotalBytes s)"
  shows "\<exists>status bs s'. StorageFileRead os s off len = Some (status, bs, s') \<and> st_FileHandle s'
    \<and> st_Type s' = st_Type s \<and> st_TotalBytes s' = st_TotalBytes s \<and> st_FileData s' = st_FileData s
    \<and> (NT_SUCCESS status \<longrightarrow> bs = rd_bytes (st_FileData s) (unat off) (unat len))"
  using assms range_test_passes [OF assms(3)]
  by (auto simp: StorageFileRead_def file_os_ok_def Let_def split: prod.splits) (metis fst_conv snd_conv)

lemma StorageSparseWriteZeroes_law:
  assumes "file_os_ok os" "st_FileHandle s" "unat off + unat len \<le> unat (st_TotalBytes s)"
  shows "\<exists>status s'. StorageSparseWriteZeroes os n s off len = Some (status, s') \<and> st_FileHandle s'
    \<and> st_Type s' = st_Type s \<and> st_TotalBytes s' = st_TotalBytes s
    \<and> same_outside {unat off..<unat off + unat len} (st_FileData s) (st_FileData s')
    \<and> (NT_SUCCESS status \<longrightarrow> st_FileData s' = zero_range (unat off) (unat len) (st_FileData s))"
proof -
  have sum: "unat (off + ucast len) = unat off + unat len"
    using assms(3) unat_u64_bound [of "st_TotalBytes s"] by (simp add: unat_word_ariths)
  obtain zstatus f where z: "os_ZwSetZeroData os (st_FileData s) off (off + ucast len) = (zstatus, f)"
    by fastforce
  have frame: "same_outside {unat off..<unat off + unat len} (st_FileData s) f"
    using assms(1) z sum unfolding file_os_ok_def by (metis snd_conv)
  then have zero: "zero_range (unat off) (unat len) f = zero_range (unat off) (unat len) (st_FileData s)"
    by (auto simp: fun_eq_iff zero_range_def same_outside_def)
  show ?thesis
  proof (cases "st_ReadOnly s \<or> NT_SUCCESS zstatus \<or> \<not> os_alloc os n 65536")
    case True
    have "f = zero_range (unat off) (unat len) (st_FileData s)" if "NT_SUCCESS zstatus"
      using assms(1) z that sum unfolding file_os_ok_def by (metis add_diff_cancel_left' fst_conv snd_conv)
    with True frame z assms range_test_passes [OF assms(3)] show ?thesis
      by (auto simp: StorageSparseWriteZeroes_def Let_def)
  next
    case False
    define s1 where "s1 = s\<lparr>st_FileData := f\<rparr>"
    have "StorageSparseWriteZeroes os n s off len = zero_chunks (StorageFileWrite os) STATUS_SUCCESS s1 off len"
      using False z assms range_test_passes [OF assms(3)]
      by (simp add: StorageSparseWriteZeroes_def s1_def sparse_is_file)
    with zero_chunks_law [of os s1 off len STATUS_SUCCESS] assms zero same_outside_trans [OF frame] show ?thesis
      by (auto simp: s1_def)
  qed
qed

interpretation storage: block_store "VnvmeStorageRead os" "VnvmeStorageWrite os" "VnvmeStorageWriteZeroes os n"
  storage_contents storage_capacity "\<lambda>S. file_os_ok os \<and> storage_ok S"
  for os n
proof
  fix S and off :: u64 and len :: u32
  assume ok: "file_os_ok os \<and> storage_ok S" and fit: "unat off + unat len \<le> storage_capacity S"
  from ok have "storage_ok S" by simp
  then show "\<exists>status bs S'. VnvmeStorageRead os S off len = Some (status, bs, S') \<and> (file_os_ok os \<and> storage_ok S')
      \<and> storage_capacity S' = storage_capacity S \<and> storage_contents S' = storage_contents S
      \<and> (NT_SUCCESS status \<longrightarrow> bs = rd_bytes (storage_contents S) (unat off) (unat len))"
  proof (cases rule: storage_cases)
    case (memory s m)
    with fit ok range_test_passes [of off len "st_TotalBytes s"] show ?thesis
      by (auto simp: storage_defs StorageMemoryRead_def)
  next
    case (plain s)
    with fit ok StorageFileRead_law [of os s off len] show ?thesis by (auto simp: storage_defs)
  next
    case (sparse s)
    with fit ok StorageFileRead_law [of os s off len] show ?thesis
      by (auto simp: storage_defs sparse_is_file)
  qed
next
  fix S and off :: u64 and len :: u32 and bs :: "u8 list"
  assume ok: "file_os_ok os \<and> storage_ok S" and fit: "unat off + unat len \<le> storage_capacity S"
    and bs: "length bs = unat len"
  from ok have "storage_ok S" by simp
  then show "\<exists>status S'. VnvmeStorageWrite os S off bs len = Some (status, S') \<and> (file_os_ok os \<and> storage_ok S')
      \<and> storage_capacity S' = storage_capacity S
      \<and> same_outside {unat off..<unat off + unat len} (storage_contents S) (storage_contents S')
      \<and> (NT_SUCCESS status \<longrightarrow> storage_contents S' = wr_bytes (unat off) bs (storage_contents S))"
  proof (cases rule: storage_cases)
    case (memory s m)
    with fit ok bs range_test_passes [of off len "st_TotalBytes s"] show ?thesis
      by (auto simp: storage_defs StorageMemoryWrite_def intro: same_outside_wr_bytes)
  next
    case (plain s)
    with fit ok bs StorageFileWrite_law [of os s off len bs] show ?thesis by (auto simp: storage_defs)
  next
    case (sparse s)
    with fit ok bs StorageFileWrite_law [of os s off len bs] show ?thesis
      by (auto simp: storage_defs sparse_is_file)
  qed
next
  fix S and off :: u64 and len :: u32
  assume ok: "file_os_ok os \<and> storage_ok S" and fit: "unat off + unat len \<le> storage_capacity S"
  from ok have "storage_ok S" by simp
  then show "\<exists>status S'. VnvmeStorageWriteZeroes os n S off len = Some (status, S') \<and> (file_os_ok os \<and> storage_ok S')
      \<and> storage_capacity S' = storage_capacity S
      \<and> same_outside {unat off..<unat off + unat len} (storage_contents S) (storage_contents S')
      \<and> (NT_SUCCESS status \<longrightarrow> storage_contents S' = zero_range (unat off) (unat len) (storage_contents S))"
  proof (cases rule: storage_cases)
    case (memory s m)
    with fit ok range_test_passes [of off len "st_TotalBytes s"] show ?thesis
      by (auto simp: storage_defs StorageMemoryWriteZeroes_def intro: same_outside_zero_range)
  next
    case (plain s)
    with fit ok zero_chunks_law [of os s off len STATUS_SUCCESS] show ?thesis by (auto simp: storage_defs)
  next
    case (sparse s)
    with fit ok StorageSparseWriteZeroes_law [of os s off len n] show ?thesis by (auto simp: storage_defs)
  qed
qed

section \<open>Properties\<close>

text \<open>C19: storage is a byte array. On any back end, data written inside the capacity is what a later read of
  the same range returns, and a read of a range apart from it returns what was there before; that both
  the write and the read reported success is assumed.\<close>

theorem VnvmeStorage_read_after_write:
  assumes "file_os_ok os" "storage_ok S" "unat off + unat len \<le> storage_capacity S" "length bs = unat len"
    and "VnvmeStorageWrite os S off bs len = Some (wstatus, S')" "NT_SUCCESS wstatus"
    and "VnvmeStorageRead os S' off' len' = Some (rstatus, bs', S'')" "NT_SUCCESS rstatus"
    and "unat off' + unat len' \<le> storage_capacity S"
  shows "(off' = off \<longrightarrow> len' = len \<longrightarrow> bs' = bs)
    \<and> (unat off' + unat len' \<le> unat off \<or> unat off + unat len \<le> unat off' \<longrightarrow>
        bs' = rd_bytes (storage_contents S) (unat off') (unat len'))"
  using storage.read_after_write [of os S off len bs wstatus S' rstatus bs' S''] 
    storage.read_elsewhere [of os S off len bs wstatus S' off' len' rstatus bs' S''] assms
  by blast

text \<open>A memory store of four bytes, and the property at a write of two of them.\<close>

definition example_store :: "VNVME_STORAGE_CONTEXT option" where
  "example_store = Some (zero_STORAGE_CONTEXT\<lparr>st_Type := VNVME_STORAGE_TYPE_MEMORY, st_TotalBytes := 4,
     st_MemoryBuffer := Some (\<lambda>a. of_nat (a + 10)), st_MemorySize := 4\<rparr>)"

theorem VnvmeStorage_read_after_write_witness:
  "\<exists>S' S''. VnvmeStorageWrite os_all_ok example_store 1 [7, 8] 2 = Some (STATUS_SUCCESS, S')
    \<and> VnvmeStorageRead os_all_ok S' 1 2 = Some (STATUS_SUCCESS, [7, 8], S'')"
proof -
  have ok: "storage_ok example_store" "storage_capacity example_store = 4"
    by (simp_all add: example_store_def storage_defs)
  have w: "\<exists>S'. VnvmeStorageWrite os_all_ok example_store 1 [7, 8] 2 = Some (STATUS_SUCCESS, S')"
    by (simp add: example_store_def storage_defs StorageMemoryWrite_def zero_STORAGE_CONTEXT_def)
  then obtain S' where S': "VnvmeStorageWrite os_all_ok example_store 1 [7, 8] 2 = Some (STATUS_SUCCESS, S')"
    by blast
  then have "\<exists>bs S''. VnvmeStorageRead os_all_ok S' 1 2 = Some (STATUS_SUCCESS, bs, S'')"
    by (auto simp: example_store_def storage_defs StorageMemoryWrite_def StorageMemoryRead_def
        zero_STORAGE_CONTEXT_def)
  then obtain bs S'' where "VnvmeStorageRead os_all_ok S' 1 2 = Some (STATUS_SUCCESS, bs, S'')"
    by blast
  with VnvmeStorage_read_after_write [OF file_os_ok_all_ok ok(1), of 1 2 "[7, 8]" STATUS_SUCCESS S' 1 2
      STATUS_SUCCESS bs S''] S' ok show ?thesis
    by auto
qed

text \<open>Clearing a range succeeds only by making it read as zeroes, whichever way the back end does it:
  one call for memory, 64 KiB chunks for a file, \<open>FSCTL_SET_ZERO_DATA\<close> or the chunked fallback for a
  sparse file. It always returns, and even a failed attempt leaves the rest of the store alone.\<close>

theorem VnvmeStorageWriteZeroes_clears:
  assumes "file_os_ok os" "storage_ok S" "unat off + unat len \<le> storage_capacity S"
  shows "\<exists>status S'. VnvmeStorageWriteZeroes os n S off len = Some (status, S')
    \<and> same_outside {unat off..<unat off + unat len} (storage_contents S) (storage_contents S')
    \<and> (NT_SUCCESS status \<longrightarrow> (\<forall>rstatus bs S''. VnvmeStorageRead os S' off len = Some (rstatus, bs, S'')
          \<longrightarrow> NT_SUCCESS rstatus \<longrightarrow> bs = replicate (unat len) 0))"
proof -
  from storage.clear_law [of os S off len n] assms obtain status S' where
    "VnvmeStorageWriteZeroes os n S off len = Some (status, S')"
    "same_outside {unat off..<unat off + unat len} (storage_contents S) (storage_contents S')" by auto
  with storage.read_after_zeroes [of os S off len n status S'] assms show ?thesis by blast
qed

text \<open>The property at a range of the example store.\<close>

theorem VnvmeStorageWriteZeroes_clears_witness:
  "\<exists>S'. VnvmeStorageWriteZeroes os_all_ok 0 example_store 1 2 = Some (STATUS_SUCCESS, S')
    \<and> same_outside {1..<3} (storage_contents example_store) (storage_contents S')"
proof -
  have "storage_ok example_store" "unat (1 :: u64) + unat (2 :: u32) \<le> storage_capacity example_store"
    by (simp_all add: example_store_def storage_defs)
  note clears = VnvmeStorageWriteZeroes_clears [OF file_os_ok_all_ok this, of 0]
  have "\<exists>S'. VnvmeStorageWriteZeroes os_all_ok 0 example_store 1 2 = Some (STATUS_SUCCESS, S')"
    by (simp add: example_store_def storage_defs StorageMemoryWriteZeroes_def zero_STORAGE_CONTEXT_def)
  with clears show ?thesis by (auto simp: numeral_3_eq_3)
qed

text \<open>Creating a memory store yields a consistent store of the requested capacity that reads as zeroes,
  for sizes up to 256 MiB; larger sizes and failed allocations are refused and leave no store.\<close>

theorem VnvmeStorageCreate_memory:
  "\<exists>status S. VnvmeStorageCreate alloc fo VNVME_STORAGE_TYPE_MEMORY TotalBytes BlockSize FilePath = Some (status, S)
    \<and> (if unat TotalBytes \<le> 256 * 1024 * 1024 \<and> alloc 0 104 \<and> alloc 1 (unat TotalBytes)
       then status = STATUS_SUCCESS \<and> storage_ok S \<and> storage_capacity S = unat TotalBytes
         \<and> storage_contents S = (\<lambda>_. 0) \<and> VnvmeStorageGetStats S = (0, 0, 0, 0)
       else status = STATUS_INSUFFICIENT_RESOURCES \<and> S = None)"
proof (cases "unat TotalBytes \<le> 256 * 1024 * 1024 \<and> alloc 0 104 \<and> alloc 1 (unat TotalBytes)")
  case True
  then show ?thesis
    by (simp add: VnvmeStorageCreate_def StorageMemoryInit_def storage_defs VnvmeStorageGetStats_def
        zero_STORAGE_CONTEXT_def word_less_nat_alt Let_def)
next
  case False
  then show ?thesis
    unfolding if_not_P [OF False]
    by (auto simp: VnvmeStorageCreate_def StorageMemoryInit_def word_less_nat_alt Let_def)
qed

text \<open>Where a memory store faults. The range test uses a 64-bit sum, so a read whose end wraps past
  \<open>2 ^ 64\<close> and lands inside the store passes it and copies from outside the buffer; every other read
  returns.\<close>

theorem StorageMemoryRead_fault_iff:
  assumes "storage_ok (Some s)" "st_Type s = VNVME_STORAGE_TYPE_MEMORY"
  shows "StorageMemoryRead s Offset Length = None \<longleftrightarrow>
    2 ^ 64 \<le> unat Offset + unat Length \<and> unat Offset + unat Length - 2 ^ 64 \<le> unat (st_TotalBytes s)"
proof -
  from assms obtain m where m: "st_MemoryBuffer s = Some m" "st_MemorySize s = st_TotalBytes s"
    by (auto simp: storage_ok_def)
  define x where "x = unat Offset + unat Length"
  have "unat (Offset + ucast Length) = x mod 2 ^ 64"
    by (simp add: unat_word_ariths x_def)
  moreover have "x mod 2 ^ 64 = (if x < 2 ^ 64 then x else x - 2 ^ 64)"
    using unat_u64_bound [of Offset] unat_u32_bound [of Length] by (simp add: x_def le_mod_geq)
  ultimately have sum: "unat (Offset + ucast Length) = (if x < 2 ^ 64 then x else x - 2 ^ 64)"
    by simp
  show ?thesis
    using m unat_u64_bound [of "st_TotalBytes s"]
    by (auto simp: StorageMemoryRead_def check_def word_less_nat_alt sum x_def [symmetric])
qed

text \<open>The property at the last byte of the 64-bit range.\<close>

theorem StorageMemoryRead_fault_iff_witness:
  "StorageMemoryRead (the example_store) 0xFFFFFFFFFFFFFFFF 1 = None"
  using StorageMemoryRead_fault_iff [of "the example_store" "0xFFFFFFFFFFFFFFFF" 1]
  by (simp add: example_store_def storage_ok_def zero_STORAGE_CONTEXT_def)

end
