(* ===== verification/Vnvme_Io.thy ===== *)
theory Vnvme_Io
  imports Vnvme_Queue Vnvme_Prp Vnvme_Storage
begin

text \<open>
  \<^verbatim>\<open>vnvme/io_cmd.c\<close>: the handlers of the I/O commands in kernel mode and the loop over an I/O submission queue.
  The answers of the system during one command are an \<open>os_env\<close>: allocation 0 is the data buffer, 1 the second
  buffer of Compare, 2 the PRP entry array, 3 and up the zero buffers of the file back ends; mapping 0 is
  the PRP list (or the range list of Dataset Management), mapping \<open>1 + i\<close> the page of PRP entry \<open>i\<close>.
  Pool memory and the physical pages of the host are disjoint.
\<close>

section \<open>Completions\<close>

definition PostIoCompletion :: "u16 \<Rightarrow> u16 \<Rightarrow> u8 \<Rightarrow> u8 \<Rightarrow> vnvme_ctx \<Rightarrow> (NTSTATUS \<times> vnvme_ctx) option" where
  "PostIoCompletion QueueId Cid Sct Sc c = do {
     let p = pdo c;
     src \<leftarrow> (if QueueId = 0 then Some (Some (ucast (pdo_AdminCqPhase p) :: u8, ucast (qs_Head (pdo_AdminSq p)) :: u16))
            else if QueueId \<le> of_nat VNVME_MAX_IO_QUEUES then do {
              cq \<leftarrow> arr_get (pdo_IoCq p) (unat QueueId - 1);
              sq \<leftarrow> arr_get (pdo_IoSq p) (unat QueueId - 1);
              Some (if qs_Created cq then Some (if qs_PhaseTag cq then 1 else 0, ucast (qs_Head sq)) else None)
            }
            else Some None);
     (case src of
        None \<Rightarrow> Some (STATUS_INVALID_PARAMETER, c)
      | Some (phase, sqHead) \<Rightarrow>
          VnvmePostCompletion QueueId
            (Some \<lparr>cqe_DW0 = 0, cqe_DW1 = 0, cqe_SQHD = sqHead, cqe_SQID = QueueId, cqe_CID = Cid,
                   cqe_Status = NvmeMakeStatus Sct Sc phase\<rparr>) c)
   }"

section \<open>Fields of a command\<close>

text \<open>The starting block and the number of blocks of Read, Write, Write Zeroes and Compare. The count is a 16-bit sum
  and wraps to zero for the largest request.\<close>

definition cmd_slba :: "NVME_COMMAND \<Rightarrow> u64" where
  "cmd_slba cmd = push_bit 32 (ucast (CDW11 cmd)) OR ucast (CDW10 cmd)"

definition cmd_nlb :: "NVME_COMMAND \<Rightarrow> u16" where
  "cmd_nlb cmd = ucast (CDW12 cmd AND 0xFFFF) + 1"

text \<open>\<open>with_namespace\<close>: the checks on the namespace with which every handler but Flush begins; \<open>body\<close> gets
  the index and the namespace.\<close>

definition with_namespace ::
  "u16 \<Rightarrow> NVME_COMMAND \<Rightarrow> vnvme_ctx \<Rightarrow> (nat \<Rightarrow> VNVME_NAMESPACE \<Rightarrow> (NTSTATUS \<times> vnvme_ctx) option)
    \<Rightarrow> (NTSTATUS \<times> vnvme_ctx) option" where
  "with_namespace QueueId cmd c body =
     (if \<not> VNVME_NSID_VALID (NSID cmd)
      then PostIoCompletion QueueId (CID cmd) NVME_SCT_GENERIC NVME_SC_INVALID_NAMESPACE c
      else do {
        ns \<leftarrow> arr_get (pdo_Namespaces (pdo c)) (unat (VNVME_NSID_TO_INDEX (NSID cmd)));
        if \<not> ns_Active ns then PostIoCompletion QueueId (CID cmd) NVME_SCT_GENERIC NVME_SC_INVALID_NAMESPACE c
        else body (unat (VNVME_NSID_TO_INDEX (NSID cmd))) ns
      })"

text \<open>\<open>with_blocks\<close>: the checks on the block range shared by Read, Write, Write Zeroes and Compare; \<open>body\<close> gets the byte
  offset and the byte count besides.\<close>

definition with_blocks ::
  "u16 \<Rightarrow> NVME_COMMAND \<Rightarrow> vnvme_ctx
    \<Rightarrow> (nat \<Rightarrow> VNVME_NAMESPACE \<Rightarrow> u64 \<Rightarrow> u64 \<Rightarrow> (NTSTATUS \<times> vnvme_ctx) option) \<Rightarrow> (NTSTATUS \<times> vnvme_ctx) option" where
  "with_blocks QueueId cmd c body =
     with_namespace QueueId cmd c (\<lambda>i ns.
       if \<not> VNVME_LBA_RANGE_VALID (cmd_slba cmd) (cmd_nlb cmd) (ns_TotalBlocks ns)
       then PostIoCompletion QueueId (CID cmd) NVME_SCT_GENERIC NVME_SC_LBA_OUT_OF_RANGE c
       else body i ns (VNVME_LBA_TO_BYTES (cmd_slba cmd) (ns_BlockSize ns))
                      (VNVME_BLOCKS_TO_BYTES (cmd_nlb cmd) (ns_BlockSize ns)))"

text \<open>Updates of the handlers: the storage behind namespace \<open>i\<close>, and the statistics.\<close>

definition set_storage :: "nat \<Rightarrow> VNVME_STORAGE_CONTEXT option \<Rightarrow> vnvme_ctx \<Rightarrow> vnvme_ctx" where
  "set_storage i s = upd_pdo (upd_Namespace i (\<lambda>ns. ns\<lparr>ns_Storage := s\<rparr>))"

definition count_io :: "vnvme_ctx \<Rightarrow> vnvme_ctx" where
  "count_io = upd_pdo (\<lambda>p. p\<lparr>pdo_IoCommandsProcessed := pdo_IoCommandsProcessed p + 1\<rparr>)"

definition count_read :: "nat \<Rightarrow> u64 \<Rightarrow> vnvme_ctx \<Rightarrow> vnvme_ctx" where
  "count_read i totalBytes c =
     upd_pdo (upd_Namespace i (\<lambda>ns. ns\<lparr>ns_ReadBytes := ns_ReadBytes ns + totalBytes,
                                        ns_ReadCommands := ns_ReadCommands ns + 1\<rparr>))
       (count_io (upd_pdo (\<lambda>p. p\<lparr>pdo_BytesRead := pdo_BytesRead p + totalBytes\<rparr>) c))"

definition count_write :: "nat \<Rightarrow> u64 \<Rightarrow> vnvme_ctx \<Rightarrow> vnvme_ctx" where
  "count_write i totalBytes c =
     upd_pdo (upd_Namespace i (\<lambda>ns. ns\<lparr>ns_WriteBytes := ns_WriteBytes ns + totalBytes,
                                        ns_WriteCommands := ns_WriteCommands ns + 1\<rparr>))
       (count_io (upd_pdo (\<lambda>p. p\<lparr>pdo_BytesWritten := pdo_BytesWritten p + totalBytes\<rparr>) c))"

section \<open>Copying between a buffer and the pages of the host\<close>

text \<open>
  The loops over the PRP entries. The buffer is the block \<open>buf\<close> of \<open>cap\<close> bytes, addressed from \<open>base\<close> (the offset
  of \<open>directPtr\<close> in it); leaving the block is a fault. \<open>i\<close> numbers the entries. An entry that cannot be mapped is
  passed over and \<open>bufferOffset\<close> stays.
\<close>

definition prp_phys :: "VNVME_PRP_ENTRY \<Rightarrow> u64" where
  "prp_phys e = prp_PhysicalAddress e + ucast (prp_Offset e)"

definition prp_mapSize :: "u64 \<Rightarrow> u64 \<Rightarrow> VNVME_PRP_ENTRY \<Rightarrow> u64" where
  "prp_mapSize totalBytes bufferOffset e =
     (if ucast (prp_Length e) > totalBytes - bufferOffset then totalBytes - bufferOffset else ucast (prp_Length e))"

fun buffer_to_host ::
  "(nat \<Rightarrow> u64 \<Rightarrow> nat \<Rightarrow> bool) \<Rightarrow> mem \<Rightarrow> nat \<Rightarrow> nat \<Rightarrow> u64 \<Rightarrow> VNVME_PRP_ENTRY list \<Rightarrow> nat \<Rightarrow> u64 \<Rightarrow> mem \<Rightarrow> mem option" where
  "buffer_to_host map_ok buf base cap totalBytes [] i bufferOffset h = Some h"
| "buffer_to_host map_ok buf base cap totalBytes (e # es) i bufferOffset h =
     (if bufferOffset < totalBytes then do {
        let prpPhys = prp_phys e;
        let mapSize = prp_mapSize totalBytes bufferOffset e;
        if map_ok i prpPhys (unat mapSize) then do {
          check (base + unat bufferOffset + unat mapSize \<le> cap);
          buffer_to_host map_ok buf base cap totalBytes es (i + 1) (bufferOffset + mapSize)
            (wr_bytes (unat prpPhys) (rd_bytes buf (base + unat bufferOffset) (unat mapSize)) h)
        }
        else buffer_to_host map_ok buf base cap totalBytes es (i + 1) bufferOffset h
      } else Some h)"

fun host_to_buffer ::
  "(nat \<Rightarrow> u64 \<Rightarrow> nat \<Rightarrow> bool) \<Rightarrow> mem \<Rightarrow> nat \<Rightarrow> nat \<Rightarrow> u64 \<Rightarrow> VNVME_PRP_ENTRY list \<Rightarrow> nat \<Rightarrow> u64 \<Rightarrow> mem \<Rightarrow> mem option" where
  "host_to_buffer map_ok h base cap totalBytes [] i bufferOffset buf = Some buf"
| "host_to_buffer map_ok h base cap totalBytes (e # es) i bufferOffset buf =
     (if bufferOffset < totalBytes then do {
        let prpPhys = prp_phys e;
        let mapSize = prp_mapSize totalBytes bufferOffset e;
        if map_ok i prpPhys (unat mapSize) then do {
          check (base + unat bufferOffset + unat mapSize \<le> cap);
          host_to_buffer map_ok h base cap totalBytes es (i + 1) (bufferOffset + mapSize)
            (wr_bytes (base + unat bufferOffset) (rd_bytes h (unat prpPhys) (unat mapSize)) buf)
        }
        else host_to_buffer map_ok h base cap totalBytes es (i + 1) bufferOffset buf
      } else Some buf)"

section \<open>Read\<close>

text \<open>
  Where the data of a Read comes from: the block of the memory back end itself, or a temporary buffer filled
  from the storage (zeroes when there is none). The result is the error to post, or the buffer with the
  base of \<open>directPtr\<close> and its capacity; and the storage context.
\<close>

definition io_direct :: "VNVME_STORAGE_CONTEXT \<Rightarrow> u64 \<Rightarrow> u64 \<Rightarrow> u64 option" where
  "io_direct s byteOffset totalBytes =
     (let (status, directPtr) = VnvmeStorageGetDirect (Some s) byteOffset (ucast totalBytes)
      in if NT_SUCCESS status then directPtr else None)"

definition read_source ::
  "os_env \<Rightarrow> VNVME_STORAGE_CONTEXT option \<Rightarrow> u64 \<Rightarrow> u64
    \<Rightarrow> ((u8 \<times> u8 + mem \<times> nat \<times> nat) \<times> VNVME_STORAGE_CONTEXT option) option" where
  "read_source os Storage byteOffset totalBytes =
     (case Storage of
        Some s \<Rightarrow>
          (case io_direct s byteOffset totalBytes of
             Some directPtr \<Rightarrow> do {
               m \<leftarrow> st_MemoryBuffer s;
               Some (Inr (m, unat directPtr, unat (st_MemorySize s)), Storage)
             }
           | None \<Rightarrow>
               if totalBytes > 2 * 1024 * 1024 then Some (Inl (NVME_SCT_GENERIC, NVME_SC_INVALID_FIELD), Storage)
               else if \<not> os_alloc os 0 (unat totalBytes)
               then Some (Inl (NVME_SCT_GENERIC, NVME_SC_INTERNAL_ERROR), Storage)
               else do {
                 (status, bs, Storage) \<leftarrow> VnvmeStorageRead os Storage byteOffset (ucast totalBytes);
                 if \<not> NT_SUCCESS status
                 then Some (Inl (NVME_SCT_MEDIA_ERROR, NVME_SC_UNRECOVERED_READ_ERROR), Storage)
                 else Some (Inr (wr_bytes 0 bs (\<lambda>_. 0), 0, unat totalBytes), Storage)
               })
      | None \<Rightarrow>
          if \<not> os_alloc os 0 (unat totalBytes) then Some (Inl (NVME_SCT_GENERIC, NVME_SC_INTERNAL_ERROR), Storage)
          else Some (Inr (\<lambda>_. 0, 0, unat totalBytes), Storage))"

definition HandleRead :: "os_env \<Rightarrow> u16 \<Rightarrow> NVME_COMMAND \<Rightarrow> vnvme_ctx \<Rightarrow> (NTSTATUS \<times> vnvme_ctx) option" where
  "HandleRead os QueueId cmd c =
     with_blocks QueueId cmd c (\<lambda>i ns byteOffset totalBytes. do {
       (r, Storage) \<leftarrow> read_source os (ns_Storage ns) byteOffset totalBytes;
       let c = set_storage i Storage c;
       (case r of
          Inl (sct, sc) \<Rightarrow> PostIoCompletion QueueId (CID cmd) sct sc c
        | Inr (buf, base, cap) \<Rightarrow> do {
            (status, prpEntries) \<leftarrow>
              VnvmeParsePrpList (os_alloc os 2) (os_map os 0) (host c) (PRP1 cmd) (PRP2 cmd) (ucast totalBytes);
            if \<not> NT_SUCCESS status
            then PostIoCompletion QueueId (CID cmd) NVME_SCT_GENERIC NVME_SC_INTERNAL_ERROR c
            else do {
              h \<leftarrow> buffer_to_host (\<lambda>j. os_map os (j + 1)) buf base cap totalBytes prpEntries 0 0 (host c);
              PostIoCompletion QueueId (CID cmd) NVME_SCT_GENERIC NVME_SC_SUCCESS
                (count_read i totalBytes (c\<lparr>host := h\<rparr>))
            }
          })
     })"

section \<open>Write\<close>

text \<open>Where the data of a Write goes: nowhere after an error or for a namespace without storage when no
  buffer can be allocated, into the block of the memory back end, or into a temporary buffer.\<close>

datatype write_target = Write_error u8 u8 | Write_discard | Write_direct mem nat nat | Write_buffer

definition write_destination :: "os_env \<Rightarrow> VNVME_STORAGE_CONTEXT option \<Rightarrow> u64 \<Rightarrow> u64 \<Rightarrow> write_target option" where
  "write_destination os Storage byteOffset totalBytes =
     (case Storage of
        Some s \<Rightarrow>
          (case io_direct s byteOffset totalBytes of
             Some directPtr \<Rightarrow> do {
               m \<leftarrow> st_MemoryBuffer s;
               Some (Write_direct m (unat directPtr) (unat (st_MemorySize s)))
             }
           | None \<Rightarrow>
               if totalBytes > 2 * 1024 * 1024 then Some (Write_error NVME_SCT_GENERIC NVME_SC_INVALID_FIELD)
               else if \<not> os_alloc os 0 (unat totalBytes)
               then Some (Write_error NVME_SCT_GENERIC NVME_SC_INTERNAL_ERROR)
               else Some Write_buffer)
      | None \<Rightarrow>
          if totalBytes > 2 * 1024 * 1024 then Some (Write_error NVME_SCT_GENERIC NVME_SC_INVALID_FIELD)
          else if \<not> os_alloc os 0 (unat totalBytes) then Some Write_discard
          else Some Write_buffer)"

text \<open>After the copy, a temporary buffer is written to the storage; the block of the memory back end already
  holds the data.\<close>

definition HandleWrite :: "os_env \<Rightarrow> u16 \<Rightarrow> NVME_COMMAND \<Rightarrow> vnvme_ctx \<Rightarrow> (NTSTATUS \<times> vnvme_ctx) option" where
  "HandleWrite os QueueId cmd c =
     with_blocks QueueId cmd c (\<lambda>i ns byteOffset totalBytes. do {
       target \<leftarrow> write_destination os (ns_Storage ns) byteOffset totalBytes;
       (case target of
          Write_error sct sc \<Rightarrow> PostIoCompletion QueueId (CID cmd) sct sc c
        | Write_discard \<Rightarrow>
            PostIoCompletion QueueId (CID cmd) NVME_SCT_GENERIC NVME_SC_SUCCESS (count_write i totalBytes c)
        | _ \<Rightarrow> do {
            let (buf, base, cap) = (case target of Write_direct m b n \<Rightarrow> (m, b, n) | _ \<Rightarrow> (\<lambda>_. 0, 0, unat totalBytes));
            (status, prpEntries) \<leftarrow>
              VnvmeParsePrpList (os_alloc os 2) (os_map os 0) (host c) (PRP1 cmd) (PRP2 cmd) (ucast totalBytes);
            if \<not> NT_SUCCESS status
            then PostIoCompletion QueueId (CID cmd) NVME_SCT_GENERIC NVME_SC_INTERNAL_ERROR c
            else do {
              buf \<leftarrow> host_to_buffer (\<lambda>j. os_map os (j + 1)) (host c) base cap totalBytes prpEntries 0 0 buf;
              (status, Storage) \<leftarrow>
                (case (target, ns_Storage ns) of
                   (Write_direct _ _ _, Some s) \<Rightarrow> Some (STATUS_SUCCESS, Some (s\<lparr>st_MemoryBuffer := Some buf\<rparr>))
                 | (Write_buffer, Some s) \<Rightarrow>
                     VnvmeStorageWrite os (Some s) byteOffset (rd_bytes buf 0 (unat totalBytes)) (ucast totalBytes)
                 | (_, Storage) \<Rightarrow> Some (STATUS_SUCCESS, Storage));
              let c = set_storage i Storage c;
              if \<not> NT_SUCCESS status
              then PostIoCompletion QueueId (CID cmd) NVME_SCT_MEDIA_ERROR NVME_SC_WRITE_FAULT c
              else PostIoCompletion QueueId (CID cmd) NVME_SCT_GENERIC NVME_SC_SUCCESS (count_write i totalBytes c)
            }
          })
     })"

section \<open>Flush\<close>

text \<open>The status of \<open>VnvmeStorageFlush\<close> is not used, and flushing changes no storage context.\<close>

definition count_flush :: "nat \<Rightarrow> VNVME_PDO_CONTEXT \<Rightarrow> VNVME_PDO_CONTEXT" where
  "count_flush i = upd_Namespace i (\<lambda>ns. ns\<lparr>ns_FlushCommands := ns_FlushCommands ns + 1\<rparr>)"

definition HandleFlush :: "u16 \<Rightarrow> NVME_COMMAND \<Rightarrow> vnvme_ctx \<Rightarrow> (NTSTATUS \<times> vnvme_ctx) option" where
  "HandleFlush QueueId cmd c =
     (if NSID cmd = 0xFFFFFFFF then do {
        check (VNVME_MAX_NAMESPACES \<le> length (pdo_Namespaces (pdo c)));
        let c = upd_pdo (fold (\<lambda>i p. if ns_Active (pdo_Namespaces p ! i) \<and> ns_Storage (pdo_Namespaces p ! i) \<noteq> None
                                     then count_flush i p else p) [0..<VNVME_MAX_NAMESPACES]) c;
        PostIoCompletion QueueId (CID cmd) NVME_SCT_GENERIC NVME_SC_SUCCESS (count_io c)
      }
      else with_namespace QueueId cmd c (\<lambda>i ns.
        PostIoCompletion QueueId (CID cmd) NVME_SCT_GENERIC NVME_SC_SUCCESS
          (count_io (upd_pdo (count_flush i) c))))"

section \<open>Write Zeroes\<close>

text \<open>The loop in chunks of one MiB; \<open>n\<close> numbers the allocations of the back end.\<close>

function write_zeroes_loop ::
  "os_env \<Rightarrow> nat \<Rightarrow> VNVME_STORAGE_CONTEXT option \<Rightarrow> u64 \<Rightarrow> u64 \<Rightarrow> (NTSTATUS \<times> VNVME_STORAGE_CONTEXT option) option" where
  "write_zeroes_loop os n Storage offset remaining =
     (if remaining > 0 then do {
        let chunkSize = (if remaining > 1048576 then 1048576 else ucast remaining :: u32);
        (status, Storage) \<leftarrow> VnvmeStorageWriteZeroes os n Storage offset chunkSize;
        if \<not> NT_SUCCESS status then Some (status, Storage)
        else write_zeroes_loop os (n + 1) Storage (offset + ucast chunkSize) (remaining - ucast chunkSize)
      } else Some (STATUS_SUCCESS, Storage))"
  by pat_completeness auto

lemma write_zeroes_chunk:
  fixes remaining :: u64
  assumes "\<not> 1048576 < unat remaining"
  shows "unat (ucast remaining :: u32) = unat remaining"
  using assms by (simp add: unsigned_ucast_eq unsigned_take_bit_eq take_bit_nat_eq_self)

termination write_zeroes_loop
proof (relation "measure (\<lambda>(_, _, _, _, remaining). unat remaining)")
  show "wf (measure (\<lambda>(_ :: os_env, _ :: nat, _ :: VNVME_STORAGE_CONTEXT option, _ :: u64, remaining :: u64). unat remaining))"
    by simp
qed (auto simp: write_zeroes_chunk word_less_nat_alt unat_sub_if')

declare write_zeroes_loop.simps [simp del]

definition HandleWriteZeroes :: "os_env \<Rightarrow> u16 \<Rightarrow> NVME_COMMAND \<Rightarrow> vnvme_ctx \<Rightarrow> (NTSTATUS \<times> vnvme_ctx) option" where
  "HandleWriteZeroes os QueueId cmd c =
     with_blocks QueueId cmd c (\<lambda>i ns byteOffset totalBytes. do {
       (status, Storage) \<leftarrow>
         (if ns_Storage ns \<noteq> None then write_zeroes_loop os 3 (ns_Storage ns) byteOffset totalBytes
          else Some (STATUS_SUCCESS, None));
       let c = set_storage i Storage c;
       if \<not> NT_SUCCESS status then PostIoCompletion QueueId (CID cmd) NVME_SCT_MEDIA_ERROR NVME_SC_WRITE_FAULT c
       else PostIoCompletion QueueId (CID cmd) NVME_SCT_GENERIC NVME_SC_SUCCESS (count_io c)
     })"

section \<open>Dataset Management\<close>

text \<open>A range descriptor in host memory.\<close>

record NVME_DSM_RANGE =
  dsm_ContextAttributes :: u32
  dsm_LengthInLogicalBlocks :: u32
  dsm_StartingLBA :: u64

definition rd_NVME_DSM_RANGE :: "mem \<Rightarrow> nat \<Rightarrow> NVME_DSM_RANGE" where
  "rd_NVME_DSM_RANGE m a =
     \<lparr>dsm_ContextAttributes = rd32 m a, dsm_LengthInLogicalBlocks = rd32 m (a + 4), dsm_StartingLBA = rd64 m (a + 8)\<rparr>"

text \<open>The loop over the ranges. A range of length zero, or one whose end (a 64-bit sum) lies past the namespace,
  is passed over; the byte length is truncated to 32 bits; a failed write of zeroes is ignored.\<close>

fun dsm_loop ::
  "os_env \<Rightarrow> VNVME_NAMESPACE \<Rightarrow> nat \<Rightarrow> NVME_DSM_RANGE list \<Rightarrow> VNVME_STORAGE_CONTEXT option
    \<Rightarrow> VNVME_STORAGE_CONTEXT option option" where
  "dsm_loop os ns n [] Storage = Some Storage"
| "dsm_loop os ns n (r # rs) Storage =
     (if dsm_LengthInLogicalBlocks r = 0 then dsm_loop os ns (n + 1) rs Storage
      else if dsm_StartingLBA r + ucast (dsm_LengthInLogicalBlocks r) > ns_TotalBlocks ns
      then dsm_loop os ns (n + 1) rs Storage
      else do {
        let byteOffset = dsm_StartingLBA r * ucast (ns_BlockSize ns);
        let byteLength = (ucast (dsm_LengthInLogicalBlocks r) * ucast (ns_BlockSize ns) :: u64);
        if Storage \<noteq> None then do {
          (status, Storage) \<leftarrow> VnvmeStorageWriteZeroes os n Storage byteOffset (ucast byteLength);
          dsm_loop os ns (n + 1) rs Storage
        }
        else dsm_loop os ns (n + 1) rs Storage
      })"

definition HandleDatasetManagement :: "os_env \<Rightarrow> u16 \<Rightarrow> NVME_COMMAND \<Rightarrow> vnvme_ctx \<Rightarrow> (NTSTATUS \<times> vnvme_ctx) option" where
  "HandleDatasetManagement os QueueId cmd c =
     with_namespace QueueId cmd c (\<lambda>i ns.
       let nr = (CDW10 cmd AND 0xFF) + 1;
           deallocate = (CDW11 cmd AND 0x04 \<noteq> 0);
           nr = (if nr > 256 then 256 else nr)
       in if \<not> deallocate then PostIoCompletion QueueId (CID cmd) NVME_SCT_GENERIC NVME_SC_SUCCESS (count_io c)
          else if \<not> os_map os 0 (PRP1 cmd) (unat nr * 16)
          then PostIoCompletion QueueId (CID cmd) NVME_SCT_GENERIC NVME_SC_SUCCESS (count_io c)
          else do {
            let ranges = map (\<lambda>k. rd_NVME_DSM_RANGE (host c) (unat (PRP1 cmd) + 16 * k)) [0..<unat nr];
            Storage \<leftarrow> dsm_loop os ns 3 ranges (ns_Storage ns);
            PostIoCompletion QueueId (CID cmd) NVME_SCT_GENERIC NVME_SC_SUCCESS (count_io (set_storage i Storage c))
          })"

section \<open>Compare\<close>

text \<open>The bytes of the storage that a Compare looks at; zeroes without a storage.\<close>

definition compare_storage ::
  "os_env \<Rightarrow> VNVME_STORAGE_CONTEXT option \<Rightarrow> u64 \<Rightarrow> u64 \<Rightarrow> (NTSTATUS \<times> mem \<times> VNVME_STORAGE_CONTEXT option) option" where
  "compare_storage os Storage byteOffset totalBytes =
     (if Storage \<noteq> None then do {
        (status, bs, Storage) \<leftarrow> VnvmeStorageRead os Storage byteOffset (ucast totalBytes);
        Some (status, wr_bytes 0 bs (\<lambda>_. 0), Storage)
      } else Some (STATUS_SUCCESS, \<lambda>_. 0, None))"

definition HandleCompare :: "os_env \<Rightarrow> u16 \<Rightarrow> NVME_COMMAND \<Rightarrow> vnvme_ctx \<Rightarrow> (NTSTATUS \<times> vnvme_ctx) option" where
  "HandleCompare os QueueId cmd c =
     with_blocks QueueId cmd c (\<lambda>i ns byteOffset totalBytes.
       if totalBytes > 2 * 1024 * 1024
       then PostIoCompletion QueueId (CID cmd) NVME_SCT_GENERIC NVME_SC_INVALID_FIELD c
       else if \<not> os_alloc os 0 (unat totalBytes) \<or> \<not> os_alloc os 1 (unat totalBytes)
       then PostIoCompletion QueueId (CID cmd) NVME_SCT_GENERIC NVME_SC_INTERNAL_ERROR c
       else do {
         (status, prpEntries) \<leftarrow>
           VnvmeParsePrpList (os_alloc os 2) (os_map os 0) (host c) (PRP1 cmd) (PRP2 cmd) (ucast totalBytes);
         if \<not> NT_SUCCESS status
         then PostIoCompletion QueueId (CID cmd) NVME_SCT_GENERIC NVME_SC_INTERNAL_ERROR c
         else do {
           compareBuffer \<leftarrow> host_to_buffer (\<lambda>j. os_map os (j + 1)) (host c) 0 (unat totalBytes) totalBytes prpEntries
             0 0 (\<lambda>_. 0);
           (status, storageBuffer, Storage) \<leftarrow> compare_storage os (ns_Storage ns) byteOffset totalBytes;
           let c = set_storage i Storage c;
           if \<not> NT_SUCCESS status
           then PostIoCompletion QueueId (CID cmd) NVME_SCT_MEDIA_ERROR NVME_SC_UNRECOVERED_READ_ERROR c
           else if rd_bytes compareBuffer 0 (unat totalBytes) \<noteq> rd_bytes storageBuffer 0 (unat totalBytes)
           then PostIoCompletion QueueId (CID cmd) NVME_SCT_MEDIA_ERROR NVME_SC_COMPARE_FAILURE (count_io c)
           else PostIoCompletion QueueId (CID cmd) NVME_SCT_GENERIC NVME_SC_SUCCESS (count_io c)
         }
       })"

section \<open>Dispatch\<close>

definition VnvmeProcessIoCommand :: "os_env \<Rightarrow> u16 \<Rightarrow> NVME_COMMAND \<Rightarrow> vnvme_ctx \<Rightarrow> (NTSTATUS \<times> vnvme_ctx) option" where
  "VnvmeProcessIoCommand os QueueId cmd c =
     (if OPC cmd = 0x02 then HandleRead os QueueId cmd c
      else if OPC cmd = 0x01 then HandleWrite os QueueId cmd c
      else if OPC cmd = 0x00 then HandleFlush QueueId cmd c
      else if OPC cmd = 0x08 then HandleWriteZeroes os QueueId cmd c
      else if OPC cmd = 0x09 then HandleDatasetManagement os QueueId cmd c
      else if OPC cmd = 0x05 then HandleCompare os QueueId cmd c
      else PostIoCompletion QueueId (CID cmd) NVME_SCT_GENERIC NVME_SC_INVALID_OPCODE c)"

text \<open>The loop over the pending commands of queue \<open>QueueId\<close>; command number \<open>k\<close> gets the answers \<open>os k\<close>.\<close>

partial_function (option) io_loop ::
  "(nat \<Rightarrow> os_env) \<Rightarrow> u16 \<Rightarrow> nat \<Rightarrow> u32 \<Rightarrow> u32 \<Rightarrow> u32 \<Rightarrow> vnvme_ctx \<Rightarrow> vnvme_ctx option" where
  "io_loop os QueueId k tail queueSize head c =
     (if head = tail then Some c
      else VnvmeFetchCommand QueueId True c \<bind> (\<lambda>r.
        if \<not> NT_SUCCESS (fst r) then Some (snd (snd r))
        else VnvmeProcessIoCommand (os k) QueueId (fst (snd r)) (snd (snd r)) \<bind> (\<lambda>r'.
          io_loop os QueueId (Suc k) tail queueSize ((head + 1) mod queueSize)
            (count_io (upd_pdo (upd_IoSq (unat QueueId - 1) (\<lambda>q. q\<lparr>qs_Head := (head + 1) mod queueSize\<rparr>)) (snd r'))))))"

definition VnvmeProcessIoCommands :: "(nat \<Rightarrow> os_env) \<Rightarrow> u16 \<Rightarrow> u32 \<Rightarrow> vnvme_ctx \<Rightarrow> vnvme_ctx option" where
  "VnvmeProcessIoCommands os QueueId NewTail c =
     (if QueueId = 0 \<or> QueueId > pdo_IoQueueCount (pdo c) then Some c
      else do {
        q \<leftarrow> arr_get (pdo_IoSq (pdo c)) (unat QueueId - 1);
        if qs_Size q = 0 \<or> \<not> qs_Created q then Some c
        else io_loop os QueueId 0 NewTail (qs_Size q) (qs_Head q) c
      })"

end
