(* ===== verification/Vnvme_Forward.thy ===== *)
theory Vnvme_Forward
  imports Vnvme_Queue
begin

text \<open>
  \<^verbatim>\<open>vnvme/user_forward.c\<close>: handing commands to the user-mode service through the shared memory and the notify ring,
  taking over its completions, and completing the commands it left behind when it is gone.
\<close>

section \<open>The notify ring\<close>

text \<open>Byte offsets inside \<open>VNVME_NOTIFY_RING\<close>, and its 256 entries of 8 bytes.\<close>

abbreviation (input) nr_Head :: nat where "nr_Head \<equiv> 0"
abbreviation (input) nr_Tail :: nat where "nr_Tail \<equiv> 64"
abbreviation (input) nr_Size :: nat where "nr_Size \<equiv> 124"

definition nr_Entry :: "nat \<Rightarrow> u32 \<Rightarrow> nat" where
  "nr_Entry ring i = ring + 128 + 8 * unat i"

record VNVME_NOTIFY_ENTRY =
  ne_QueueId :: u16
  ne_Type :: u16
  ne_Index :: u32

definition rd_NOTIFY_ENTRY :: "mem \<Rightarrow> nat \<Rightarrow> VNVME_NOTIFY_ENTRY" where
  "rd_NOTIFY_ENTRY m a = \<lparr>ne_QueueId = rd16 m a, ne_Type = rd16 m (a + 2), ne_Index = rd32 m (a + 4)\<rparr>"

definition wr_NOTIFY_ENTRY :: "nat \<Rightarrow> VNVME_NOTIFY_ENTRY \<Rightarrow> mem \<Rightarrow> mem" where
  "wr_NOTIFY_ENTRY a e m = wr32 (a + 4) (ne_Index e) (wr16 (a + 2) (ne_Type e) (wr16 a (ne_QueueId e) m))"

text \<open>\<open>NotifyRingPush\<close>: a remainder by a zero size and an index past the entry array are faults.\<close>

definition NotifyRingPush :: "u16 \<Rightarrow> u16 \<Rightarrow> u32 \<Rightarrow> vnvme_ctx \<Rightarrow> (bool \<times> vnvme_ctx) option" where
  "NotifyRingPush QueueId Type Index c =
     (case (VnvmeShmGetControlBlock c, VnvmeShmGetNotifyRing c) of
        (Some m, Some ring) \<Rightarrow> do {
          check (ring + 2176 \<le> VNVME_SHM_SIZE);
          let tail = rd32 m (ring + nr_Tail);
          check (rd32 m (ring + nr_Size) \<noteq> 0);
          let nextTail = (tail + 1) mod rd32 m (ring + nr_Size);
          if nextTail = rd32 m (ring + nr_Head) then Some (False, c)
          else do {
            check (unat tail < VNVME_NOTIFY_RING_SIZE);
            Some (True, upd_shm (\<lambda>m. wr32 (ring + nr_Tail) nextTail
              (wr_NOTIFY_ENTRY (nr_Entry ring tail) \<lparr>ne_QueueId = QueueId, ne_Type = Type, ne_Index = Index\<rparr> m)) c)
          }
        }
      | _ \<Rightarrow> Some (False, c))"

text \<open>Setting an event is recorded in \<open>CommandReadyEvent\<close>.\<close>

definition upd_fdo :: "(VNVME_FDO_CONTEXT \<Rightarrow> VNVME_FDO_CONTEXT) \<Rightarrow> vnvme_ctx \<Rightarrow> vnvme_ctx" where
  "upd_fdo f c = c\<lparr>g_FdoContext := map_option f (g_FdoContext c)\<rparr>"

definition SignalUserMode :: "vnvme_ctx \<Rightarrow> vnvme_ctx" where
  "SignalUserMode = upd_fdo (\<lambda>d. if fdo_UserReady d then d\<lparr>fdo_CommandReadyEvent := True\<rparr> else d)"

text \<open>The null context stands for \<open>g_FdoContext\<close>, the only one there is.\<close>

definition VnvmeNotifyUserMode :: "vnvme_ctx \<Rightarrow> vnvme_ctx" where
  "VnvmeNotifyUserMode = upd_fdo (\<lambda>d. if fdo_EventNotificationEnabled d then d\<lparr>fdo_CommandReadyEvent := True\<rparr> else d)"

section \<open>Forwarding\<close>

definition VnvmeForwardAdminCommandsToUser :: "u32 \<Rightarrow> vnvme_ctx \<Rightarrow> vnvme_ctx option" where
  "VnvmeForwardAdminCommandsToUser NewTail c =
     (case (VnvmeShmGetControlBlock c, g_FdoContext c) of
        (Some m, Some d) \<Rightarrow>
          if \<not> fdo_UserReady d then Some c
          else do {
            let c = upd_shm (qd_set_Tail cb_AdminSQ NewTail) c;
            (pushed, c) \<leftarrow> NotifyRingPush 0 0 NewTail c;
            Some (SignalUserMode c)
          }
      | _ \<Rightarrow> Some c)"

definition VnvmeForwardIoCommandsToUser :: "u16 \<Rightarrow> u32 \<Rightarrow> vnvme_ctx \<Rightarrow> vnvme_ctx option" where
  "VnvmeForwardIoCommandsToUser QueueId NewTail c =
     (case (VnvmeShmGetControlBlock c, g_FdoContext c) of
        (Some m, Some d) \<Rightarrow>
          if \<not> fdo_UserReady d then Some c
          else if QueueId = 0 \<or> QueueId > of_nat VNVME_MAX_IO_QUEUES then Some c
          else if rd32 m cb_IoQueueDescriptorOffset = 0 then Some c
          else do {
            let sqDesc = unat (rd32 m cb_IoQueueDescriptorOffset) + 2 * (unat QueueId - 1) * 32;
            check (sqDesc + 32 \<le> VNVME_SHM_SIZE);
            let c = upd_shm (qd_set_Tail sqDesc NewTail) c;
            (pushed, c) \<leftarrow> NotifyRingPush QueueId 0 NewTail c;
            Some (SignalUserMode c)
          }
      | _ \<Rightarrow> Some c)"

section \<open>Completions from user mode\<close>

text \<open>How many entries a tail advanced; the differences are \<open>ULONG\<close>, widened afterwards.\<close>

definition cq_delta :: "u32 \<Rightarrow> u32 \<Rightarrow> u32 \<Rightarrow> u64" where
  "cq_delta newTail oldTail capacity =
     (if newTail \<ge> oldTail then ucast (newTail - oldTail) else ucast (capacity - oldTail + newTail))"

text \<open>One iteration of the loop over the I/O queues, and the loop.\<close>

definition user_completion_io :: "mem \<Rightarrow> nat \<Rightarrow> nat \<Rightarrow> VNVME_PDO_CONTEXT \<Rightarrow> VNVME_PDO_CONTEXT option" where
  "user_completion_io m ioDescs i p = do {
     let cqDesc = ioDescs + (2 * i + 1) * 32;
     cq \<leftarrow> arr_get (pdo_IoCq p) i;
     if \<not> qs_Created cq then Some p
     else do {
       check (cqDesc + 32 \<le> VNVME_SHM_SIZE);
       let ioCqTail = qd_Tail m cqDesc;
       if ioCqTail \<noteq> qs_Tail cq
       then Some (upd_IoCq i (\<lambda>q. q\<lparr>qs_Tail := ioCqTail\<rparr>)
              (p\<lparr>pdo_IoCommandsProcessed := pdo_IoCommandsProcessed p + cq_delta ioCqTail (qs_Tail cq) (qd_Capacity m cqDesc)\<rparr>))
       else Some p
     }
   }"

fun user_completion_loop :: "mem \<Rightarrow> nat \<Rightarrow> nat list \<Rightarrow> VNVME_PDO_CONTEXT \<Rightarrow> VNVME_PDO_CONTEXT option" where
  "user_completion_loop m ioDescs [] p = Some p"
| "user_completion_loop m ioDescs (i # is) p = do {
     p \<leftarrow> user_completion_io m ioDescs i p;
     user_completion_loop m ioDescs is p
   }"

definition user_completion_admin :: "mem \<Rightarrow> VNVME_PDO_CONTEXT \<Rightarrow> VNVME_PDO_CONTEXT" where
  "user_completion_admin m p =
     (let adminCqTail = qd_Tail m cb_AdminCQ; oldTail = qs_Tail (pdo_AdminCq p) in
      if adminCqTail \<noteq> oldTail
      then p\<lparr>pdo_AdminCommandsProcessed :=
               pdo_AdminCommandsProcessed p + cq_delta adminCqTail oldTail (qd_Capacity m cb_AdminCQ),
             pdo_AdminCq := (pdo_AdminCq p)\<lparr>qs_Tail := adminCqTail\<rparr>\<rparr>
      else p)"

definition VnvmeProcessUserCompletions :: "vnvme_ctx \<Rightarrow> (NTSTATUS \<times> vnvme_ctx) option" where
  "VnvmeProcessUserCompletions c =
     (case VnvmeShmGetControlBlock c of
        None \<Rightarrow> Some (STATUS_DEVICE_NOT_READY, c)
      | Some m \<Rightarrow> do {
          let p = user_completion_admin m (pdo c);
          p \<leftarrow> (if rd32 m cb_IoQueueDescriptorOffset \<noteq> 0
                then user_completion_loop m (unat (rd32 m cb_IoQueueDescriptorOffset)) [0..<unat (pdo_IoQueueCount p)] p
                else Some p);
          Some (STATUS_SUCCESS, c\<lparr>pdo := p\<rparr>)
        })"

section \<open>Aborting what the service left behind\<close>

definition MakeAbortStatus :: "u8 \<Rightarrow> u16" where
  "MakeAbortStatus phase = ucast ((ucast phase :: u32) OR push_bit 1 0x06 OR push_bit 9 0x00)"

text \<open>Filling one completion entry at \<open>a\<close>, in the order of the source: the command identifier is read after the first
  four fields are stored.\<close>

definition abort_entry :: "nat \<Rightarrow> nat \<Rightarrow> u32 \<Rightarrow> u16 \<Rightarrow> u8 \<Rightarrow> mem \<Rightarrow> mem" where
  "abort_entry cmd a head sqid phase m =
     (let m = wr32 a 0 m;
          m = wr32 (a + 4) 0 m;
          m = wr16 (a + 8) (ucast head) m;
          m = wr16 (a + 10) sqid m;
          m = wr16 (a + 12) (CID (rd_NVME_COMMAND m cmd)) m
      in wr16 (a + 14) (MakeAbortStatus phase) m)"

text \<open>
  The loops over the pending commands of one queue pair, with the completion queue's capacity as a function of the shared
  memory: the admin loop uses the submission queue's capacity, the I/O loop reads \<open>cqDesc->Capacity\<close>
  each time and reduces the index first. The loop does not end when \<open>head\<close> never reaches \<open>tail\<close>.
\<close>

partial_function (option) abort_loop ::
  "nat \<Rightarrow> nat \<Rightarrow> u16 \<Rightarrow> u32 \<Rightarrow> (mem \<Rightarrow> u32) \<Rightarrow> bool \<Rightarrow> u32 \<Rightarrow> u32 \<Rightarrow> u32 \<Rightarrow> u8 \<Rightarrow> u32 \<Rightarrow> mem
    \<Rightarrow> (u32 \<times> u8 \<times> u32 \<times> mem) option" where
  "abort_loop sq cq sqid capacity cqCap reduce tail head cqTail phase abortedCount m =
     (if head = tail then Some (cqTail, phase, abortedCount, m)
      else check (\<not> reduce \<or> cqCap m \<noteq> 0) \<bind> (\<lambda>_.
        let slot = cq + 16 * unat (if reduce then cqTail mod cqCap m else cqTail) in
        check (sq + 64 * unat head + 64 \<le> VNVME_SHM_SIZE \<and> slot + 16 \<le> VNVME_SHM_SIZE) \<bind> (\<lambda>_.
          let m = abort_entry (sq + 64 * unat head) slot head sqid phase m in
          check (cqCap m \<noteq> 0) \<bind> (\<lambda>_.
            let cqTail = (cqTail + 1) mod cqCap m;
                phase = (if cqTail = 0 then (if phase = 0 then 1 else 0) else phase)
            in abort_loop sq cq sqid capacity cqCap reduce tail ((head + 1) mod capacity) cqTail phase
                 (abortedCount + 1) m))))"

definition abort_admin :: "u32 \<Rightarrow> vnvme_ctx \<Rightarrow> (u32 \<times> vnvme_ctx) option" where
  "abort_admin abortedCount c = do {
     m \<leftarrow> VnvmeShmGetControlBlock c;
     let head = qd_Head m cb_AdminSQ;
     let tail = qd_Tail m cb_AdminSQ;
     let capacity = qd_Capacity m cb_AdminSQ;
     if head \<noteq> tail \<and> capacity > 0 then do {
       (cqTail, phase, abortedCount, m') \<leftarrow>
         abort_loop (unat (qd_Offset m cb_AdminSQ)) (unat (qd_Offset m cb_AdminCQ)) 0 capacity (\<lambda>_. capacity) False tail
           head (qd_Tail m cb_AdminCQ) (ucast (qd_Phase m cb_AdminCQ)) abortedCount m;
       let m' = qd_set_Phase cb_AdminCQ (ucast phase) (qd_set_Tail cb_AdminCQ cqTail (qd_set_Head cb_AdminSQ tail m'));
       Some (abortedCount, upd_pdo (\<lambda>p. p\<lparr>pdo_AdminCq := (pdo_AdminCq p)\<lparr>qs_Tail := cqTail\<rparr>,
                                          pdo_AdminCqPhase := ucast phase\<rparr>) (upd_shm (\<lambda>_. m') c))
     }
     else Some (abortedCount, c)
   }"

definition abort_io_queue :: "nat \<Rightarrow> nat \<Rightarrow> u32 \<Rightarrow> vnvme_ctx \<Rightarrow> (u32 \<times> vnvme_ctx) option" where
  "abort_io_queue ioDescs i abortedCount c = do {
     m \<leftarrow> VnvmeShmGetControlBlock c;
     let sqDesc = ioDescs + 2 * i * 32;
     let cqDesc = ioDescs + (2 * i + 1) * 32;
     sq \<leftarrow> arr_get (pdo_IoSq (pdo c)) i;
     check (\<not> qs_Created sq \<or> cqDesc + 32 \<le> VNVME_SHM_SIZE);
     if \<not> qs_Created sq \<or> qd_Valid m sqDesc = 0 then Some (abortedCount, c)
     else do {
       let head = qd_Head m sqDesc;
       let tail = qd_Tail m sqDesc;
       let capacity = qd_Capacity m sqDesc;
       if head = tail \<or> capacity = 0 then Some (abortedCount, c)
       else do {
         (cqTail, phase, abortedCount, m') \<leftarrow>
           abort_loop (unat (qd_Offset m sqDesc)) (unat (qd_Offset m cqDesc)) (of_nat (i + 1)) capacity
             (\<lambda>m. qd_Capacity m cqDesc) True tail head (qd_Tail m cqDesc) (ucast (qd_Phase m cqDesc)) abortedCount m;
         let m' = qd_set_Phase cqDesc (ucast phase) (qd_set_Tail cqDesc cqTail (qd_set_Head sqDesc tail m'));
         Some (abortedCount, upd_pdo (upd_IoCq i (\<lambda>q. q\<lparr>qs_Tail := cqTail, qs_PhaseTag := (phase \<noteq> 0)\<rparr>))
                               (upd_shm (\<lambda>_. m') c))
       }
     }
   }"

fun abort_io_loop :: "nat \<Rightarrow> nat list \<Rightarrow> u32 \<Rightarrow> vnvme_ctx \<Rightarrow> (u32 \<times> vnvme_ctx) option" where
  "abort_io_loop ioDescs [] abortedCount c = Some (abortedCount, c)"
| "abort_io_loop ioDescs (i # is) abortedCount c = do {
     (abortedCount, c) \<leftarrow> abort_io_queue ioDescs i abortedCount c;
     abort_io_loop ioDescs is abortedCount c
   }"

definition VnvmeAbortPendingUserCommands :: "vnvme_ctx \<Rightarrow> (u32 \<times> vnvme_ctx) option" where
  "VnvmeAbortPendingUserCommands c =
     (case VnvmeShmGetControlBlock c of
        None \<Rightarrow> Some (0, c)
      | Some _ \<Rightarrow> do {
          (abortedCount, c) \<leftarrow> abort_admin 0 c;
          m \<leftarrow> VnvmeShmGetControlBlock c;
          (abortedCount, c) \<leftarrow>
            (if rd32 m cb_IoQueueDescriptorOffset \<noteq> 0
             then abort_io_loop (unat (rd32 m cb_IoQueueDescriptorOffset)) [0..<unat (pdo_IoQueueCount (pdo c))] abortedCount c
             else Some (abortedCount, c));
          Some (abortedCount,
                if abortedCount > 0 then upd_fdo (\<lambda>d. d\<lparr>fdo_ErrorCount := fdo_ErrorCount d + ucast abortedCount\<rparr>) c else c)
        })"

section \<open>Properties of the notify ring\<close>

text \<open>An initialised ring at \<open>ring\<close>, and its entries from the consumer's index to the producer's.\<close>

definition notify_ok :: "vnvme_ctx \<Rightarrow> mem \<Rightarrow> nat \<Rightarrow> bool" where
  "notify_ok c m ring \<longleftrightarrow> VnvmeShmGetControlBlock c = Some m \<and> VnvmeShmGetNotifyRing c = Some ring
     \<and> 0x100 \<le> ring \<and> ring + 2176 \<le> VNVME_SHM_SIZE
     \<and> rd32 m (ring + nr_Size) = of_nat VNVME_NOTIFY_RING_SIZE
     \<and> rd32 m (ring + nr_Head) < 256 \<and> rd32 m (ring + nr_Tail) < 256"

definition notify_items :: "mem \<Rightarrow> nat \<Rightarrow> VNVME_NOTIFY_ENTRY list" where
  "notify_items m ring = ring_list (\<lambda>i. rd_NOTIFY_ENTRY m (ring + 128 + 8 * i)) (unat (rd32 m (ring + nr_Head)))
     (unat (rd32 m (ring + nr_Tail))) VNVME_NOTIFY_RING_SIZE"

lemma wr_NOTIFY_ENTRY_outside: "x < a \<or> a + 8 \<le> x \<Longrightarrow> wr_NOTIFY_ENTRY a e m x = m x"
  by (auto simp: wr_NOTIFY_ENTRY_def wr32_outside wr16_outside)

lemma rd_NOTIFY_ENTRY_eqI:
  "(\<And>x. a \<le> x \<Longrightarrow> x < a + 8 \<Longrightarrow> m' x = m x) \<Longrightarrow> rd_NOTIFY_ENTRY m' a = rd_NOTIFY_ENTRY m a"
  unfolding rd_NOTIFY_ENTRY_def by (simp add: rd16_eqI [of _ m' m] rd32_eqI [of _ m' m])

lemma rd_wr_NOTIFY_ENTRY: "rd_NOTIFY_ENTRY (wr_NOTIFY_ENTRY a e m) a = e"
  by (simp add: rd_NOTIFY_ENTRY_def wr_NOTIFY_ENTRY_def mem_simps)

definition notify_push_mem :: "nat \<Rightarrow> VNVME_NOTIFY_ENTRY \<Rightarrow> mem \<Rightarrow> mem" where
  "notify_push_mem ring e m =
     wr32 (ring + nr_Tail) ((rd32 m (ring + nr_Tail) + 1) mod 256) (wr_NOTIFY_ENTRY (nr_Entry ring (rd32 m (ring + nr_Tail))) e m)"

lemma notify_push_mem_outside: "x \<notin> {ring..<ring + 2176} \<Longrightarrow> rd32 m (ring + nr_Tail) < 256 \<Longrightarrow> notify_push_mem ring e m x = m x"
  by (auto simp: notify_push_mem_def nr_Entry_def wr32_outside wr_NOTIFY_ENTRY_outside word_less_nat_alt)

lemma notify_push_mem_fields:
  assumes "rd32 m (ring + nr_Tail) < 256"
  shows "rd32 (notify_push_mem ring e m) (ring + nr_Head) = rd32 m (ring + nr_Head)"
    "rd32 (notify_push_mem ring e m) (ring + nr_Size) = rd32 m (ring + nr_Size)"
    "rd32 (notify_push_mem ring e m) (ring + nr_Tail) = (rd32 m (ring + nr_Tail) + 1) mod 256"
    "b + 4 \<le> ring \<Longrightarrow> rd32 (notify_push_mem ring e m) b = rd32 m b"
    "i < 256 \<Longrightarrow> rd_NOTIFY_ENTRY (notify_push_mem ring e m) (ring + 128 + 8 * i)
      = (if i = unat (rd32 m (ring + nr_Tail)) then e else rd_NOTIFY_ENTRY m (ring + 128 + 8 * i))"
proof -
  let ?t = "rd32 m (ring + nr_Tail)"
  note defs = notify_push_mem_def nr_Entry_def
  have outside: "rd32 (wr_NOTIFY_ENTRY a e m) b = rd32 m b" if "b + 4 \<le> a" for a b
    using that by (intro rd32_eqI) (simp add: wr_NOTIFY_ENTRY_outside)
  show "rd32 (notify_push_mem ring e m) (ring + nr_Head) = rd32 m (ring + nr_Head)"
    "rd32 (notify_push_mem ring e m) (ring + nr_Size) = rd32 m (ring + nr_Size)"
    "rd32 (notify_push_mem ring e m) (ring + nr_Tail) = (?t + 1) mod 256"
    by (simp_all add: defs mem_simps outside)
  show "b + 4 \<le> ring \<Longrightarrow> rd32 (notify_push_mem ring e m) b = rd32 m b"
    by (simp add: defs mem_simps outside)
  assume "i < 256"
  have "rd_NOTIFY_ENTRY (notify_push_mem ring e m) (ring + 128 + 8 * i)
      = rd_NOTIFY_ENTRY (wr_NOTIFY_ENTRY (ring + 128 + 8 * unat ?t) e m) (ring + 128 + 8 * i)"
    unfolding defs by (intro rd_NOTIFY_ENTRY_eqI) (simp add: wr32_outside)
  also have "\<dots> = (if i = unat ?t then e else rd_NOTIFY_ENTRY m (ring + 128 + 8 * i))"
    by (auto simp: rd_wr_NOTIFY_ENTRY intro!: rd_NOTIFY_ENTRY_eqI wr_NOTIFY_ENTRY_outside)
  finally show "rd_NOTIFY_ENTRY (notify_push_mem ring e m) (ring + 128 + 8 * i)
      = (if i = unat ?t then e else rd_NOTIFY_ENTRY m (ring + 128 + 8 * i))" .
qed

lemma notify_items_push:
  assumes "rd32 m (ring + nr_Head) < 256" "rd32 m (ring + nr_Tail) < 256" "length (notify_items m ring) < 255"
  shows "notify_items (notify_push_mem ring e m) ring = notify_items m ring @ [e]"
proof -
  let ?h = "unat (rd32 m (ring + nr_Head))" and ?t = "unat (rd32 m (ring + nr_Tail))"
  let ?f = "\<lambda>i. rd_NOTIFY_ENTRY m (ring + 128 + 8 * i)"
  have less: "?h < 256" "?t < 256" using assms(1,2) by (simp_all add: word_less_nat_alt)
  have next_tail: "unat ((rd32 m (ring + nr_Tail) + 1) mod 256) = Suc ?t mod 256"
    using unat_word_suc_mod [OF assms(2)] by simp
  have room: "Suc ?t mod 256 \<noteq> ?h"
    using assms(3) ring_full_iff [OF less] by (simp add: notify_items_def)
  have "notify_items (notify_push_mem ring e m) ring = ring_list (?f(?t := e)) ?h (Suc ?t mod 256) 256"
    unfolding notify_items_def notify_push_mem_fields(1,3) [OF assms(2)] next_tail
    by (rule ring_list_cong) (simp_all add: notify_push_mem_fields(5) [OF assms(2)])
  also have "\<dots> = ring_list (?f(?t := e)) ?h ?t 256 @ [(?f(?t := e)) ?t]"
    by (rule ring_list_push [OF less room])
  also have "\<dots> = notify_items m ring @ [e]"
    unfolding ring_list_upd_tail [OF less] notify_items_def by simp
  finally show ?thesis .
qed

lemma NotifyRingPush_step:
  assumes "notify_ok c m ring"
  shows "NotifyRingPush q t x c =
    (if length (notify_items m ring) < 255
     then Some (True, upd_shm (\<lambda>_. notify_push_mem ring \<lparr>ne_QueueId = q, ne_Type = t, ne_Index = x\<rparr> m) c)
     else Some (False, c))"
proof -
  from assms have m: "VnvmeShmGetControlBlock c = Some m" "VnvmeShmGetNotifyRing c = Some ring" "ring + 2176 \<le> VNVME_SHM_SIZE"
    "rd32 m (ring + nr_Size) = 256" "rd32 m (ring + nr_Head) < 256" "rd32 m (ring + nr_Tail) < 256"
    by (simp_all add: notify_ok_def)
  let ?h = "unat (rd32 m (ring + nr_Head))" and ?t = "unat (rd32 m (ring + nr_Tail))"
  have less: "?h < 256" "?t < 256" using m(5,6) by (simp_all add: word_less_nat_alt)
  have full: "(rd32 m (ring + nr_Tail) + 1) mod 256 = rd32 m (ring + nr_Head) \<longleftrightarrow> \<not> length (notify_items m ring) < 255"
  proof -
    have "(rd32 m (ring + nr_Tail) + 1) mod 256 = rd32 m (ring + nr_Head) \<longleftrightarrow> Suc ?t mod 256 = ?h"
      using unat_word_suc_mod [OF m(6)] by (simp add: word_unat_eq_iff)
    also have "\<dots> \<longleftrightarrow> ring_dist ?h ?t 256 = 255" using ring_full_iff [OF less] by simp
    also have "\<dots> \<longleftrightarrow> \<not> length (notify_items m ring) < 255"
      unfolding notify_items_def length_ring_list using ring_dist_less [OF less] by linarith
    finally show ?thesis .
  qed
  show ?thesis
    using m full less
    by (simp add: NotifyRingPush_def Let_def notify_push_mem_def)
      (auto simp: upd_shm_def VnvmeShmGetControlBlock_def split: option.splits)
qed

lemma push_appends:
  assumes "notify_ok c m ring"
  shows "\<exists>c' m'. NotifyRingPush q t x c = Some (length (notify_items m ring) < 255, c') \<and> notify_ok c' m' ring
    \<and> notify_items m' ring = (if length (notify_items m ring) < 255
        then notify_items m ring @ [\<lparr>ne_QueueId = q, ne_Type = t, ne_Index = x\<rparr>] else notify_items m ring)
    \<and> same_outside {ring..<ring + 2176} m m' \<and> pdo c' = pdo c"
proof (cases "length (notify_items m ring) < 255")
  case False
  then show ?thesis using NotifyRingPush_step [OF assms, of q t x] assms by auto
next
  case True
  let ?e = "\<lparr>ne_QueueId = q, ne_Type = t, ne_Index = x\<rparr>"
  let ?m = "notify_push_mem ring ?e m"
  have f: "rd32 m (ring + nr_Head) < 256" "rd32 m (ring + nr_Tail) < 256" "0x100 \<le> ring"
    using assms by (simp_all add: notify_ok_def)
  note fields = notify_push_mem_fields [OF f(2), where e = ?e]
  have "rd32 ?m cb_NotifyRingOffset = rd32 m cb_NotifyRingOffset"
    using f(3) by (intro fields(4)) simp
  then have "notify_ok (upd_shm (\<lambda>_. ?m) c) ?m ring"
    using assms word_suc_mod_less [of 256 "rd32 m (ring + nr_Tail)"] fields(1-3)
    by (auto simp: notify_ok_def VnvmeShmGetNotifyRing_def split: if_splits)
  moreover have "same_outside {ring..<ring + 2176} m ?m"
    unfolding same_outside_def using notify_push_mem_outside f(2) by blast
  ultimately show ?thesis
    using NotifyRingPush_step [OF assms, of q t x] notify_items_push [OF f(1,2) True, of ?e] True by auto
qed

text \<open>The notify ring is a queue of 255 entries. A push appends the entry behind those the consumer has not taken, or,
  when 255 are waiting, reports failure and changes nothing; it touches no byte outside the ring, and
  the ring stays well-formed.\<close>

theorem NotifyRingPush_appends:
  assumes "notify_ok c m ring"
  shows "\<exists>c' m'. NotifyRingPush q t x c = Some (length (notify_items m ring) < 255, c') \<and> notify_ok c' m' ring
    \<and> notify_items m' ring = (if length (notify_items m ring) < 255
        then notify_items m ring @ [\<lparr>ne_QueueId = q, ne_Type = t, ne_Index = x\<rparr>] else notify_items m ring)
    \<and> same_outside {ring..<ring + 2176} m m' \<and> pdo c' = pdo c"
  using assms by (rule push_appends)

text \<open>A shared memory with an empty notify ring at its usual place, and a push.\<close>

definition example_ring_shm :: mem where
  "example_ring_shm = wr32 0x107C 256 (wr32 cb_NotifyRingOffset 0x1000 (\<lambda>_. 0))"

lemma example_notify_ok: "notify_ok (example_ctx example_ring_shm) example_ring_shm 0x1000" "notify_items example_ring_shm 0x1000 = []"
  by (simp_all add: notify_ok_def notify_items_def VnvmeShmGetNotifyRing_def example_ring_shm_def mem_simps ring_list_def ring_dist_def)

theorem NotifyRingPush_appends_witness:
  "\<exists>c' m'. NotifyRingPush 0 0 5 (example_ctx example_ring_shm) = Some (True, c')
    \<and> notify_items m' 0x1000 = [\<lparr>ne_QueueId = 0, ne_Type = 0, ne_Index = 5\<rparr>]"
  using NotifyRingPush_appends [OF example_notify_ok(1), of 0 0 5] example_notify_ok(2) by auto

section \<open>What forwarding delivers\<close>

lemma upd_fdo_shm [simp]:
  assumes "\<And>d. fdo_ShmKernelVirtAddr (f d) = fdo_ShmKernelVirtAddr d"
  shows "VnvmeShmGetControlBlock (upd_fdo f c) = VnvmeShmGetControlBlock c"
  using assms by (simp add: upd_fdo_def VnvmeShmGetControlBlock_def split: option.splits)

lemma SignalUserMode_view:
  "VnvmeShmGetControlBlock (SignalUserMode c) = VnvmeShmGetControlBlock c" "pdo (SignalUserMode c) = pdo c"
  by (simp_all add: SignalUserMode_def upd_fdo_def VnvmeShmGetControlBlock_def split: option.splits)

text \<open>A queue descriptor apart from the ring and from the ring's offset in the control block.\<close>

definition desc_apart :: "nat \<Rightarrow> nat \<Rightarrow> bool" where
  "desc_apart ring d \<longleftrightarrow> d = cb_AdminSQ \<or> 0x100 \<le> d \<and> (d + 32 \<le> ring \<or> ring + 2176 \<le> d)"

lemma notify_ok_set_Tail:
  assumes "notify_ok c m ring" "desc_apart ring d"
  shows "notify_ok (upd_shm (qd_set_Tail d t) c) (qd_set_Tail d t m) ring"
    "notify_items (qd_set_Tail d t m) ring = notify_items m ring"
proof -
  have frame: "rd32 (qd_set_Tail d t m) cb_NotifyRingOffset = rd32 m cb_NotifyRingOffset"
    "a < 256 \<Longrightarrow> rd32 (qd_set_Tail d t m) (ring + a) = rd32 m (ring + a)" for a
    using assms by (auto simp: desc_apart_def notify_ok_def qd_set_Tail_def mem_simps)
  have entries: "rd_NOTIFY_ENTRY (qd_set_Tail d t m) (ring + 128 + 8 * i) = rd_NOTIFY_ENTRY m (ring + 128 + 8 * i)" if "i < 256" for i
    using assms that by (intro rd_NOTIFY_ENTRY_eqI) (auto simp: desc_apart_def notify_ok_def qd_set_Tail_def wr32_outside)
  have "ring_list (\<lambda>i. rd_NOTIFY_ENTRY (qd_set_Tail d t m) (ring + 128 + 8 * i)) h k 256
      = ring_list (\<lambda>i. rd_NOTIFY_ENTRY m (ring + 128 + 8 * i)) h k 256" for h k
    by (rule ring_list_cong) (erule entries, simp)
  then show "notify_items (qd_set_Tail d t m) ring = notify_items m ring"
    using frame(2) [of 0] frame(2) [of 64] by (simp add: notify_items_def)
  show "notify_ok (upd_shm (qd_set_Tail d t) c) (qd_set_Tail d t m) ring"
    using assms(1) frame(1) frame(2) [of 0] frame(2) [of 64] frame(2) [of 124]
    by (auto simp: notify_ok_def VnvmeShmGetNotifyRing_def split: if_splits)
qed

lemma forward_delivers:
  assumes "notify_ok c m ring" "desc_apart ring d" "g_FdoContext c = Some f" "fdo_UserReady f"
  shows "\<exists>pushed c2 m'. NotifyRingPush q 0 NewTail (upd_shm (qd_set_Tail d NewTail) c) = Some (pushed, c2)
    \<and> notify_ok (SignalUserMode c2) m' ring \<and> qd_Tail m' d = NewTail
    \<and> (\<exists>f'. g_FdoContext (SignalUserMode c2) = Some f' \<and> fdo_CommandReadyEvent f')
    \<and> notify_items m' ring = (if length (notify_items m ring) < 255
        then notify_items m ring @ [\<lparr>ne_QueueId = q, ne_Type = 0, ne_Index = NewTail\<rparr>] else notify_items m ring)"
proof -
  let ?m = "qd_set_Tail d NewTail m" and ?c = "upd_shm (qd_set_Tail d NewTail) c"
  note ok = notify_ok_set_Tail [OF assms(1,2), of NewTail]
  from push_appends [OF ok(1), of q 0 NewTail] obtain c2 m' where
    p: "NotifyRingPush q 0 NewTail ?c = Some (length (notify_items ?m ring) < 255, c2)" "notify_ok c2 m' ring"
      "notify_items m' ring = (if length (notify_items ?m ring) < 255
        then notify_items ?m ring @ [\<lparr>ne_QueueId = q, ne_Type = 0, ne_Index = NewTail\<rparr>] else notify_items ?m ring)"
      "same_outside {ring..<ring + 2176} ?m m'"
    by blast
  have "qd_Tail m' d = qd_Tail ?m d"
    unfolding qd_Tail_def using assms(1,2)
    by (intro rd32_same_outside [OF p(4)]) (auto simp: desc_apart_def notify_ok_def)
  then have tail: "qd_Tail m' d = NewTail" by (simp add: qd_defs mem_simps)
  have "\<exists>f'. g_FdoContext c2 = Some f' \<and> fdo_UserReady f'"
    using p(1) NotifyRingPush_step [OF ok(1), of q 0 NewTail] assms(3,4) by (auto simp: upd_shm_def split: if_splits)
  then have event: "\<exists>f'. g_FdoContext (SignalUserMode c2) = Some f' \<and> fdo_CommandReadyEvent f'"
    by (auto simp: SignalUserMode_def upd_fdo_def)
  have "notify_ok (SignalUserMode c2) m' ring"
    using p(2) by (auto simp: notify_ok_def VnvmeShmGetNotifyRing_def SignalUserMode_view split: if_splits)
  with p(1,3) tail event ok(2) show ?thesis by auto
qed

text \<open>C22: forwarding to a ready service publishes the new tail in the queue's descriptor and sets the command event, for the
  admin queue and every I/O queue, and appends a notification with the queue and the tail. When the
  notify ring is full only the notification is lost: the tail and the event still arrive.\<close>

theorem forwarding_delivers:
  assumes "notify_ok c m ring" "g_FdoContext c = Some f" "fdo_UserReady f" "QueueId \<le> 16"
    and "desc = (if QueueId = 0 then cb_AdminSQ else unat (rd32 m cb_IoQueueDescriptorOffset) + 2 * (unat QueueId - 1) * 32)"
    and "desc_apart ring desc" "desc + 32 \<le> VNVME_SHM_SIZE" "rd32 m cb_IoQueueDescriptorOffset \<noteq> 0"
  shows "\<exists>c' m'. (if QueueId = 0 then VnvmeForwardAdminCommandsToUser NewTail c
        else VnvmeForwardIoCommandsToUser QueueId NewTail c) = Some c'
    \<and> notify_ok c' m' ring \<and> qd_Tail m' desc = NewTail
    \<and> (\<exists>f'. g_FdoContext c' = Some f' \<and> fdo_CommandReadyEvent f')
    \<and> notify_items m' ring = (if length (notify_items m ring) < 255
        then notify_items m ring @ [\<lparr>ne_QueueId = QueueId, ne_Type = 0, ne_Index = NewTail\<rparr>] else notify_items m ring)"
proof -
  have m: "VnvmeShmGetControlBlock c = Some m" using assms(1) by (simp add: notify_ok_def)
  obtain pushed c2 m' where r: "NotifyRingPush QueueId 0 NewTail (upd_shm (qd_set_Tail desc NewTail) c) = Some (pushed, c2)"
    "notify_ok (SignalUserMode c2) m' ring" "qd_Tail m' desc = NewTail"
    "\<exists>f'. g_FdoContext (SignalUserMode c2) = Some f' \<and> fdo_CommandReadyEvent f'"
    "notify_items m' ring = (if length (notify_items m ring) < 255
        then notify_items m ring @ [\<lparr>ne_QueueId = QueueId, ne_Type = 0, ne_Index = NewTail\<rparr>] else notify_items m ring)"
    using forward_delivers [OF assms(1,6,2,3), of QueueId NewTail] by blast
  have "(if QueueId = 0 then VnvmeForwardAdminCommandsToUser NewTail c else VnvmeForwardIoCommandsToUser QueueId NewTail c)
      = Some (SignalUserMode c2)"
    using m assms(2-5,7,8) r(1)
    by (auto simp: VnvmeForwardAdminCommandsToUser_def VnvmeForwardIoCommandsToUser_def Let_def not_less)
  with r show ?thesis by blast
qed

text \<open>The property at the admin queue of the example.\<close>

theorem forwarding_delivers_witness:
  "\<exists>c' m'. VnvmeForwardAdminCommandsToUser 5 (example_ctx (wr32 cb_IoQueueDescriptorOffset 0x4000 example_ring_shm)) = Some c'
    \<and> qd_Tail m' cb_AdminSQ = 5 \<and> notify_items m' 0x1000 = [\<lparr>ne_QueueId = 0, ne_Type = 0, ne_Index = 5\<rparr>]"
proof -
  let ?m = "wr32 cb_IoQueueDescriptorOffset 0x4000 example_ring_shm"
  have ok: "notify_ok (example_ctx ?m) ?m 0x1000" "notify_items ?m 0x1000 = []"
    by (simp_all add: notify_ok_def notify_items_def VnvmeShmGetNotifyRing_def example_ring_shm_def mem_simps ring_list_def ring_dist_def)
  have f: "g_FdoContext (example_ctx ?m) = Some (example_fdo ?m)" "fdo_UserReady (example_fdo ?m)"
    by (simp_all add: example_ctx_def example_fdo_def)
  show ?thesis
    using forwarding_delivers [OF ok(1) f, of 0 cb_AdminSQ 5] ok(2) by (auto simp: desc_apart_def mem_simps)
qed

section \<open>Taking over completions\<close>

lemma cq_delta_ring_dist:
  assumes "oldTail < capacity" "newTail < capacity"
  shows "cq_delta newTail oldTail capacity = of_nat (ring_dist (unat oldTail) (unat newTail) (unat capacity))"
proof -
  have less: "unat oldTail < unat capacity" "unat newTail < unat capacity"
    using assms by (simp_all add: word_less_nat_alt)
  have "unat (cq_delta newTail oldTail capacity) = ring_dist (unat oldTail) (unat newTail) (unat capacity)"
  proof (cases "oldTail \<le> newTail")
    case True
    then show ?thesis
      by (simp add: cq_delta_def ring_dist_def word_le_nat_alt unat_sub_if')
  next
    case False
    then have wrap: "unat newTail < unat oldTail" by (simp add: word_le_nat_alt)
    have "unat (capacity - oldTail) = unat capacity - unat oldTail"
      using less by (simp add: unat_sub_if')
    then have "unat (capacity - oldTail + newTail) = unat capacity - unat oldTail + unat newTail"
      using wrap less unat_u32_bound [of capacity] by (simp add: unat_word_ariths)
    with wrap show ?thesis
      by (simp add: cq_delta_def ring_dist_def word_le_nat_alt)
  qed
  moreover have "cq_delta newTail oldTail capacity = of_nat (unat (cq_delta newTail oldTail capacity))" by simp
  ultimately show ?thesis by (simp only:)
qed

text \<open>The completions that arrived in I/O completion queue \<open>i\<close>; where its tail stands afterwards.\<close>

definition io_cq_arrived :: "mem \<Rightarrow> nat \<Rightarrow> VNVME_PDO_CONTEXT \<Rightarrow> nat \<Rightarrow> nat" where
  "io_cq_arrived m ioDescs p i =
     (let q = pdo_IoCq p ! i; d = ioDescs + (2 * i + 1) * 32 in
      if qs_Created q then ring_dist (unat (qs_Tail q)) (unat (qd_Tail m d)) (unat (qd_Capacity m d)) else 0)"

definition io_cq_ok :: "mem \<Rightarrow> nat \<Rightarrow> VNVME_PDO_CONTEXT \<Rightarrow> nat \<Rightarrow> bool" where
  "io_cq_ok m ioDescs p i \<longleftrightarrow>
     (let q = pdo_IoCq p ! i; d = ioDescs + (2 * i + 1) * 32 in
      i < length (pdo_IoCq p) \<and> d + 32 \<le> VNVME_SHM_SIZE
      \<and> (qs_Created q \<longrightarrow> qs_Tail q < qd_Capacity m d \<and> qd_Tail m d < qd_Capacity m d))"

lemma user_completion_io_step:
  assumes "io_cq_ok m ioDescs p i"
  shows "user_completion_io m ioDescs i p = Some
    (if qs_Created (pdo_IoCq p ! i)
     then upd_IoCq i (\<lambda>q. q\<lparr>qs_Tail := qd_Tail m (ioDescs + (2 * i + 1) * 32)\<rparr>)
       (p\<lparr>pdo_IoCommandsProcessed := pdo_IoCommandsProcessed p + of_nat (io_cq_arrived m ioDescs p i)\<rparr>)
     else p)"
proof (cases "qs_Created (pdo_IoCq p ! i) \<and> qd_Tail m (ioDescs + (2 * i + 1) * 32) = qs_Tail (pdo_IoCq p ! i)")
  case True
  then have "io_cq_arrived m ioDescs p i = 0"
    by (simp add: io_cq_arrived_def Let_def ring_dist_def)
  with True assms show ?thesis
    by (simp add: user_completion_io_def io_cq_ok_def Let_def upd_IoCq_def)
next
  case False
  with assms cq_delta_ring_dist show ?thesis
    by (auto simp: user_completion_io_def io_cq_ok_def io_cq_arrived_def Let_def)
qed

lemma user_completion_loop_sync:
  assumes "distinct is" "\<forall>i\<in>set is. io_cq_ok m ioDescs p i"
  shows "\<exists>p'. user_completion_loop m ioDescs is p = Some p'
    \<and> length (pdo_IoCq p') = length (pdo_IoCq p) \<and> pdo_AdminCq p' = pdo_AdminCq p \<and> pdo_IoQueueCount p' = pdo_IoQueueCount p
    \<and> pdo_AdminCommandsProcessed p' = pdo_AdminCommandsProcessed p
    \<and> (\<forall>i<length (pdo_IoCq p). pdo_IoCq p' ! i = (if i \<in> set is \<and> qs_Created (pdo_IoCq p ! i)
        then (pdo_IoCq p ! i)\<lparr>qs_Tail := qd_Tail m (ioDescs + (2 * i + 1) * 32)\<rparr> else pdo_IoCq p ! i))
    \<and> pdo_IoCommandsProcessed p' = pdo_IoCommandsProcessed p + of_nat (\<Sum>i\<leftarrow>is. io_cq_arrived m ioDescs p i)"
  using assms
proof (induction "is" arbitrary: p)
  case Nil
  then show ?case by simp
next
  case (Cons i rest)
  have i: "io_cq_ok m ioDescs p i" "i < length (pdo_IoCq p)" using Cons.prems by (simp_all add: io_cq_ok_def Let_def)
  define p1 where "p1 = (if qs_Created (pdo_IoCq p ! i)
     then upd_IoCq i (\<lambda>q. q\<lparr>qs_Tail := qd_Tail m (ioDescs + (2 * i + 1) * 32)\<rparr>)
       (p\<lparr>pdo_IoCommandsProcessed := pdo_IoCommandsProcessed p + of_nat (io_cq_arrived m ioDescs p i)\<rparr>) else p)"
  have step: "user_completion_io m ioDescs i p = Some p1"
    unfolding p1_def by (rule user_completion_io_step [OF i(1)])
  have same: "pdo_IoCq p1 ! j = pdo_IoCq p ! j" if "j \<noteq> i" for j
    using that by (simp add: p1_def upd_IoCq_def)
  have len: "length (pdo_IoCq p1) = length (pdo_IoCq p)" "pdo_AdminCq p1 = pdo_AdminCq p" "pdo_IoQueueCount p1 = pdo_IoQueueCount p"
    "pdo_AdminCommandsProcessed p1 = pdo_AdminCommandsProcessed p"
    by (simp_all add: p1_def upd_IoCq_def)
  have at: "pdo_IoCq p1 ! i = (if qs_Created (pdo_IoCq p ! i)
      then (pdo_IoCq p ! i)\<lparr>qs_Tail := qd_Tail m (ioDescs + (2 * i + 1) * 32)\<rparr> else pdo_IoCq p ! i)"
    using i(2) by (simp add: p1_def upd_IoCq_def)
  have count: "pdo_IoCommandsProcessed p1 = pdo_IoCommandsProcessed p + of_nat (io_cq_arrived m ioDescs p i)"
    by (simp add: p1_def upd_IoCq_def io_cq_arrived_def Let_def)
  have notin: "i \<notin> set rest" using Cons.prems(1) by simp
  then have eq: "pdo_IoCq p1 ! j = pdo_IoCq p ! j" if "j \<in> set rest" for j
    using that by (intro same) auto
  have "\<forall>j\<in>set rest. io_cq_ok m ioDescs p1 j" "\<forall>j\<in>set rest. io_cq_arrived m ioDescs p1 j = io_cq_arrived m ioDescs p j"
    using Cons.prems(2) len(1) by (simp_all add: io_cq_ok_def io_cq_arrived_def Let_def eq)
  moreover from this(2) have "(\<Sum>j\<leftarrow>rest. io_cq_arrived m ioDescs p1 j) = (\<Sum>j\<leftarrow>rest. io_cq_arrived m ioDescs p j)"
    by (simp cong: map_cong)
  ultimately obtain p' where p': "user_completion_loop m ioDescs rest p1 = Some p'"
    "length (pdo_IoCq p') = length (pdo_IoCq p1)" "pdo_AdminCq p' = pdo_AdminCq p1" "pdo_IoQueueCount p' = pdo_IoQueueCount p1"
    "pdo_AdminCommandsProcessed p' = pdo_AdminCommandsProcessed p1"
    "\<forall>j<length (pdo_IoCq p1). pdo_IoCq p' ! j = (if j \<in> set rest \<and> qs_Created (pdo_IoCq p1 ! j)
        then (pdo_IoCq p1 ! j)\<lparr>qs_Tail := qd_Tail m (ioDescs + (2 * j + 1) * 32)\<rparr> else pdo_IoCq p1 ! j)"
    "pdo_IoCommandsProcessed p' = pdo_IoCommandsProcessed p1 + of_nat (\<Sum>j\<leftarrow>rest. io_cq_arrived m ioDescs p j)"
    using Cons.IH [of p1] Cons.prems(1) by auto
  have "pdo_IoCq p' ! j = (if j \<in> set (i # rest) \<and> qs_Created (pdo_IoCq p ! j)
        then (pdo_IoCq p ! j)\<lparr>qs_Tail := qd_Tail m (ioDescs + (2 * j + 1) * 32)\<rparr> else pdo_IoCq p ! j)"
    if "j < length (pdo_IoCq p)" for j
    using p'(6) that len(1) same [of j] at notin by (cases "j = i") auto
  with p' step len count show ?case by (simp add: add.assoc)
qed

lemma user_completion_loop_idle:
  assumes "\<forall>i\<in>set is. io_cq_ok m ioDescs p i
    \<and> (qs_Created (pdo_IoCq p ! i) \<longrightarrow> qs_Tail (pdo_IoCq p ! i) = qd_Tail m (ioDescs + (2 * i + 1) * 32))"
  shows "user_completion_loop m ioDescs is p = Some p"
  using assms
proof (induction "is")
  case (Cons i rest)
  then have "user_completion_io m ioDescs i p = Some p"
    by (auto simp: user_completion_io_def io_cq_ok_def Let_def)
  with Cons show ?case by simp
qed simp

lemma user_completion_admin_sync:
  assumes "qs_Tail (pdo_AdminCq p) < qd_Capacity m cb_AdminCQ" "qd_Tail m cb_AdminCQ < qd_Capacity m cb_AdminCQ"
  shows "user_completion_admin m p = p\<lparr>pdo_AdminCommandsProcessed := pdo_AdminCommandsProcessed p
      + of_nat (ring_dist (unat (qs_Tail (pdo_AdminCq p))) (unat (qd_Tail m cb_AdminCQ)) (unat (qd_Capacity m cb_AdminCQ))),
    pdo_AdminCq := (pdo_AdminCq p)\<lparr>qs_Tail := qd_Tail m cb_AdminCQ\<rparr>\<rparr>"
proof (cases "qd_Tail m cb_AdminCQ = qs_Tail (pdo_AdminCq p)")
  case True
  then show ?thesis by (simp add: user_completion_admin_def Let_def ring_dist_def)
next
  case False
  then show ?thesis by (simp add: user_completion_admin_def Let_def cq_delta_ring_dist [OF assms])
qed

text \<open>C37: taking over the service's completions. The statistics grow by exactly the number of entries each created completion
  queue advanced, around the end of the ring too, the controller's copies of the tails catch up with the
  shared memory, and doing it again changes nothing.\<close>

theorem VnvmeProcessUserCompletions_synchronises:
  assumes "VnvmeShmGetControlBlock c = Some m" "rd32 m cb_IoQueueDescriptorOffset \<noteq> 0"
    and "qs_Tail (pdo_AdminCq (pdo c)) < qd_Capacity m cb_AdminCQ" "qd_Tail m cb_AdminCQ < qd_Capacity m cb_AdminCQ"
    and "\<forall>i<unat (pdo_IoQueueCount (pdo c)). io_cq_ok m (unat (rd32 m cb_IoQueueDescriptorOffset)) (pdo c) i"
  shows "\<exists>c'. VnvmeProcessUserCompletions c = Some (STATUS_SUCCESS, c')
    \<and> pdo_AdminCommandsProcessed (pdo c') = pdo_AdminCommandsProcessed (pdo c)
        + of_nat (ring_dist (unat (qs_Tail (pdo_AdminCq (pdo c)))) (unat (qd_Tail m cb_AdminCQ)) (unat (qd_Capacity m cb_AdminCQ)))
    \<and> pdo_IoCommandsProcessed (pdo c') = pdo_IoCommandsProcessed (pdo c)
        + of_nat (\<Sum>i<unat (pdo_IoQueueCount (pdo c)). io_cq_arrived m (unat (rd32 m cb_IoQueueDescriptorOffset)) (pdo c) i)
    \<and> qs_Tail (pdo_AdminCq (pdo c')) = qd_Tail m cb_AdminCQ
    \<and> VnvmeProcessUserCompletions c' = Some (STATUS_SUCCESS, c')"
proof -
  let ?d = "unat (rd32 m cb_IoQueueDescriptorOffset)" and ?n = "unat (pdo_IoQueueCount (pdo c))"
  define p where "p = user_completion_admin m (pdo c)"
  note p_def' = p_def [unfolded user_completion_admin_sync [OF assms(3,4)]]
  have io: "pdo_IoCq p = pdo_IoCq (pdo c)" "pdo_IoQueueCount p = pdo_IoQueueCount (pdo c)"
    "pdo_IoCommandsProcessed p = pdo_IoCommandsProcessed (pdo c)"
    by (simp_all add: p_def')
  have ok: "\<forall>i\<in>set [0..<?n]. io_cq_ok m ?d p i"
    using assms(5) by (simp add: io_cq_ok_def io)
  obtain p' where p': "user_completion_loop m ?d [0..<?n] p = Some p'" "length (pdo_IoCq p') = length (pdo_IoCq p)"
    "pdo_AdminCq p' = pdo_AdminCq p" "pdo_IoQueueCount p' = pdo_IoQueueCount p"
    "pdo_AdminCommandsProcessed p' = pdo_AdminCommandsProcessed p"
    "\<forall>i<length (pdo_IoCq p). pdo_IoCq p' ! i = (if i \<in> set [0..<?n] \<and> qs_Created (pdo_IoCq p ! i)
        then (pdo_IoCq p ! i)\<lparr>qs_Tail := qd_Tail m (?d + (2 * i + 1) * 32)\<rparr> else pdo_IoCq p ! i)"
    "pdo_IoCommandsProcessed p' = pdo_IoCommandsProcessed p + of_nat (\<Sum>i\<leftarrow>[0..<?n]. io_cq_arrived m ?d p i)"
    using user_completion_loop_sync [OF distinct_upt ok] by blast
  have run: "VnvmeProcessUserCompletions c = Some (STATUS_SUCCESS, c\<lparr>pdo := p'\<rparr>)"
    using assms(1,2) p'(1) by (simp add: VnvmeProcessUserCompletions_def p_def [symmetric] io)
  have "io_cq_ok m ?d p' i \<and> (qs_Created (pdo_IoCq p' ! i) \<longrightarrow> qs_Tail (pdo_IoCq p' ! i) = qd_Tail m (?d + (2 * i + 1) * 32))"
    if "i < ?n" for i
  proof -
    have "io_cq_ok m ?d p i" "i < length (pdo_IoCq p)" using ok that by (auto simp: io_cq_ok_def Let_def)
    with p'(2,6) that show ?thesis by (auto simp: io_cq_ok_def Let_def)
  qed
  then have "user_completion_loop m ?d [0..<?n] p' = Some p'"
    by (intro user_completion_loop_idle) simp
  moreover have tail: "qs_Tail (pdo_AdminCq p') = qd_Tail m cb_AdminCQ" by (simp add: p'(3) p_def')
  moreover have "VnvmeShmGetControlBlock (c\<lparr>pdo := p'\<rparr>) = Some m"
    using assms(1) by (simp add: VnvmeShmGetControlBlock_def)
  ultimately have again: "VnvmeProcessUserCompletions (c\<lparr>pdo := p'\<rparr>) = Some (STATUS_SUCCESS, c\<lparr>pdo := p'\<rparr>)"
    using assms(2) p'(4) io by (simp add: VnvmeProcessUserCompletions_def user_completion_admin_def)
  have "io_cq_arrived m ?d p = io_cq_arrived m ?d (pdo c)"
    by (simp add: io_cq_arrived_def io fun_eq_iff)
  then have "pdo_IoCommandsProcessed p' = pdo_IoCommandsProcessed (pdo c) + of_nat (\<Sum>i<?n. io_cq_arrived m ?d (pdo c) i)"
    using p'(7) io by (simp add: interv_sum_list_conv_sum_set_nat atLeast0LessThan)
  with run again tail p'(5) show ?thesis
    by (intro exI [of _ "c\<lparr>pdo := p'\<rparr>"]) (simp add: p_def')
qed

text \<open>The property at an admin completion queue of 64 entries whose tail moved to 3.\<close>

theorem VnvmeProcessUserCompletions_synchronises_witness:
  "\<exists>c'. VnvmeProcessUserCompletions (example_ctx (qd_set_Tail cb_AdminCQ 3 (qd_set_Capacity cb_AdminCQ 64
      (wr32 cb_IoQueueDescriptorOffset 0x4000 (\<lambda>_. 0))))) = Some (STATUS_SUCCESS, c')
    \<and> pdo_AdminCommandsProcessed (pdo c') = 3"
proof -
  let ?m = "qd_set_Tail cb_AdminCQ 3 (qd_set_Capacity cb_AdminCQ 64 (wr32 cb_IoQueueDescriptorOffset 0x4000 (\<lambda>_. 0)))"
  have m: "rd32 ?m cb_IoQueueDescriptorOffset \<noteq> 0" "qd_Tail ?m cb_AdminCQ = 3" "qd_Capacity ?m cb_AdminCQ = 64"
    by (simp_all add: qd_defs mem_simps)
  have p: "qs_Tail (pdo_AdminCq (pdo (example_ctx ?m))) = 0" "pdo_IoQueueCount (pdo (example_ctx ?m)) = 0"
    "pdo_AdminCommandsProcessed (pdo (example_ctx ?m)) = 0"
    by (simp_all add: zero_PDO_CONTEXT_def zero_QUEUE_STATE_def)
  have arrived: "ring_dist (unat (0 :: u32)) (unat (3 :: u32)) (unat (64 :: u32)) = 3"
    by (simp add: ring_dist_def)
  show ?thesis
    using VnvmeProcessUserCompletions_synchronises [OF example_ctx_simps(1) m(1), unfolded m p arrived] by auto
qed

end
