(* ===== verification/Vnvme_Doorbell.thy ===== *)
theory Vnvme_Doorbell
  imports Vnvme_Admin Vnvme_Io Vnvme_Forward
begin

text \<open>
  \<^verbatim>\<open>vnvme/doorbell.c\<close>: the polling timer, the adaptive interval, the heartbeat of the user-mode service, and the
  reaction to changes of the CC register and of the doorbells. The doorbell values and registers are read
  from BAR0 as the host left them when the timer fires. What the system answers is an argument: the time,
  whether the timer could be created, and the services for each command.
\<close>

section \<open>The timer\<close>

definition VnvmeInitializePollingTimer :: "NTSTATUS \<Rightarrow> vnvme_ctx \<Rightarrow> NTSTATUS \<times> vnvme_ctx" where
  "VnvmeInitializePollingTimer created c =
     (if \<not> NT_SUCCESS created then (created, c)
      else (STATUS_SUCCESS, upd_pdo (\<lambda>p. p\<lparr>pdo_PollingTimer := True,
                                           pdo_PollingIntervalUs := DoorbellPollIntervalUs (g_Config c)\<rparr>) c))"

text \<open>Starting the timer yields the due time in microseconds; \<open>None\<close> when it is not started.\<close>

definition VnvmeStartPollingTimer :: "VNVME_PDO_CONTEXT \<Rightarrow> u32 option \<times> VNVME_PDO_CONTEXT" where
  "VnvmeStartPollingTimer p =
     (if pdo_PollingTimer p then (Some (pdo_PollingIntervalUs p), p\<lparr>pdo_PollingActive := True\<rparr>) else (None, p))"

definition VnvmeStopPollingTimer :: "VNVME_PDO_CONTEXT \<Rightarrow> VNVME_PDO_CONTEXT" where
  "VnvmeStopPollingTimer p =
     (if pdo_PollingTimer p \<and> pdo_PollingActive p then p\<lparr>pdo_PollingActive := False\<rparr> else p)"

section \<open>The adaptive interval\<close>


definition poll_minInterval :: "VNVME_CONFIG \<Rightarrow> u32" where
  "poll_minInterval g =
     (let minInterval = DoorbellPollIntervalUs g div 10
      in if minInterval < VNVME_MIN_POLL_INTERVAL_US then VNVME_MIN_POLL_INTERVAL_US else minInterval)"

definition poll_maxInterval :: "VNVME_CONFIG \<Rightarrow> u32" where
  "poll_maxInterval g =
     (let maxInterval = DoorbellPollIntervalUs g * 100
      in if maxInterval > VNVME_MAX_POLL_INTERVAL_US then VNVME_MAX_POLL_INTERVAL_US else maxInterval)"

definition AdjustPollingInterval :: "bool \<Rightarrow> vnvme_ctx \<Rightarrow> vnvme_ctx" where
  "AdjustPollingInterval HadWork c =
     (let interval = pdo_PollingIntervalUs (pdo c);
          minInterval = poll_minInterval (g_Config c);
          maxInterval = poll_maxInterval (g_Config c);
          newInterval =
            (if HadWork then (let n = interval div 2 in if n < minInterval then minInterval else n)
             else (let n = interval + interval div 4 in if n > maxInterval then maxInterval else n))
      in upd_pdo (\<lambda>p. p\<lparr>pdo_PollingIntervalUs := newInterval\<rparr>) c)"

section \<open>The heartbeat\<close>

text \<open>
  The child device list of the bus: the controller of the context, with the others before and after it.
  Aborting runs over all of them in that order, on the one shared memory.
\<close>

fun abort_children :: "VNVME_PDO_CONTEXT list \<Rightarrow> vnvme_ctx \<Rightarrow> (VNVME_PDO_CONTEXT list \<times> vnvme_ctx) option" where
  "abort_children [] c = Some ([], c)"
| "abort_children (p # ps) c = do {
     (count, c') \<leftarrow> VnvmeAbortPendingUserCommands (c\<lparr>pdo := p\<rparr>);
     (ps', c'') \<leftarrow> abort_children ps (c'\<lparr>pdo := pdo c\<rparr>);
     Some (pdo c' # ps', c'')
   }"

type_synonym children = "VNVME_PDO_CONTEXT list \<times> VNVME_PDO_CONTEXT list"

definition CheckUserModeHeartbeat :: "u64 \<Rightarrow> children \<Rightarrow> vnvme_ctx \<Rightarrow> (children \<times> vnvme_ctx) option" where
  "CheckUserModeHeartbeat currentTime others c =
     (case g_FdoContext c of
        None \<Rightarrow> Some (others, c)
      | Some d \<Rightarrow>
          if \<not> fdo_UserReady d \<or> fdo_UserCrashed d then Some (others, c)
          else if sint (currentTime - fdo_LastHeartbeat d) > sint (HeartbeatTimeout100ns (g_Config c)) then do {
            let c = upd_fdo (\<lambda>d. d\<lparr>fdo_UserCrashed := True, fdo_UserReady := False\<rparr>) c;
            (before, c) \<leftarrow> abort_children (fst others) c;
            (count, c) \<leftarrow> VnvmeAbortPendingUserCommands c;
            (after, c) \<leftarrow> abort_children (snd others) c;
            Some ((before, after), upd_fdo (\<lambda>d. d\<lparr>fdo_CommandMode := VNVME_CMD_MODE_KERNEL\<rparr>) c)
          }
          else Some (others, c))"

section \<open>Doorbells\<close>

text \<open>BAR0 as the doorbell code sees it; \<open>Doorbells[i]\<close> is the word at \<open>0x1000 + 4 * i\<close>.\<close>

definition bar_rd32 :: "VNVME_PDO_CONTEXT \<Rightarrow> nat \<Rightarrow> u32 option" where
  "bar_rd32 p a = do {
     bar \<leftarrow> pdo_Bar0 p;
     check (a + 4 \<le> unat (pdo_Bar0Size p));
     Some (rd32 bar a)
   }"

definition bar_wr32 :: "nat \<Rightarrow> u32 \<Rightarrow> VNVME_PDO_CONTEXT \<Rightarrow> VNVME_PDO_CONTEXT" where
  "bar_wr32 a v p = p\<lparr>pdo_Bar0 := map_option (wr32 a v) (pdo_Bar0 p)\<rparr>"

definition doorbell :: "VNVME_PDO_CONTEXT \<Rightarrow> nat \<Rightarrow> u32 option" where
  "doorbell p i = map_option (\<lambda>v. v AND 0xFFFF) (bar_rd32 p (0x1000 + 4 * i))"

text \<open>Step 1: a change of CC enables or disables the controller.\<close>

definition doorbell_cc :: "vnvme_ctx \<Rightarrow> (bool \<times> vnvme_ctx) option" where
  "doorbell_cc c = do {
     currentCC \<leftarrow> bar_rd32 (pdo c) 0x14;
     let cachedCC = pdo_CachedCC (pdo c);
     if currentCC \<noteq> cachedCC then do {
       check (0x1C + 4 \<le> unat (pdo_Bar0Size (pdo c)));
       let c = (if bit currentCC 0 \<and> \<not> bit cachedCC 0
                then upd_pdo (\<lambda>p. bar_wr32 0x1C 1 (snd (VnvmeInitializeAdminQueues p))) c
                else if \<not> bit currentCC 0 \<and> bit cachedCC 0 then upd_pdo (bar_wr32 0x1C 0) c
                else c);
       Some (True, upd_pdo (\<lambda>p. p\<lparr>pdo_CachedCC := currentCC\<rparr>) c)
     }
     else Some (False, c)
   }"

text \<open>Step 3: the admin queue; \<open>os\<close> answers the commands that kernel mode processes.\<close>

definition doorbell_admin :: "(nat \<Rightarrow> os_env) \<Rightarrow> VNVME_COMMAND_MODE \<Rightarrow> vnvme_ctx \<Rightarrow> (bool \<times> vnvme_ctx) option" where
  "doorbell_admin os cmdMode c = do {
     sqTail \<leftarrow> doorbell (pdo c) 0;
     (hadWork, c) \<leftarrow>
       (if sqTail \<noteq> pdo_LastAdminSqTail (pdo c) then do {
          c \<leftarrow> (case cmdMode of
                  VNVME_CMD_MODE_KERNEL \<Rightarrow> VnvmeProcessAdminCommands os sqTail c
                | VNVME_CMD_MODE_USER \<Rightarrow> VnvmeForwardAdminCommandsToUser sqTail c);
          Some (True, upd_pdo (\<lambda>p. p\<lparr>pdo_LastAdminSqTail := sqTail\<rparr>) c)
        } else Some (False, c));
     cqHead \<leftarrow> doorbell (pdo c) 1;
     Some (hadWork, if cqHead \<noteq> pdo_LastAdminCqHead (pdo c)
                    then upd_pdo (\<lambda>p. p\<lparr>pdo_LastAdminCqHead := cqHead\<rparr>) c else c)
   }"

text \<open>Step 4: one I/O queue, and the loop over the queue identifiers, which reads \<open>IoQueueCount\<close> each time.\<close>

definition doorbell_io ::
  "(nat \<Rightarrow> os_env) \<Rightarrow> VNVME_COMMAND_MODE \<Rightarrow> u16 \<Rightarrow> vnvme_ctx \<Rightarrow> (bool \<times> vnvme_ctx) option" where
  "doorbell_io os cmdMode qid c = do {
     let queueIndex = unat qid - 1;
     sq \<leftarrow> arr_get (pdo_IoSq (pdo c)) queueIndex;
     if \<not> qs_Created sq then Some (False, c)
     else do {
       sqTail \<leftarrow> doorbell (pdo c) (unat qid * 2);
       (hadWork, c) \<leftarrow>
         (if sqTail \<noteq> qs_Tail sq then do {
            c \<leftarrow> (case cmdMode of
                    VNVME_CMD_MODE_KERNEL \<Rightarrow> VnvmeProcessIoCommands os qid sqTail c
                  | VNVME_CMD_MODE_USER \<Rightarrow> VnvmeForwardIoCommandsToUser qid sqTail c);
            Some (True, upd_pdo (upd_IoSq queueIndex (\<lambda>q. q\<lparr>qs_Tail := sqTail\<rparr>)) c)
          } else Some (False, c));
       cqHead \<leftarrow> doorbell (pdo c) (unat qid * 2 + 1);
       cq \<leftarrow> arr_get (pdo_IoCq (pdo c)) queueIndex;
       Some (hadWork, if cqHead \<noteq> qs_Head cq
                      then upd_pdo (upd_IoCq queueIndex (\<lambda>q. q\<lparr>qs_Head := cqHead\<rparr>)) c else c)
     }
   }"

partial_function (option) doorbell_io_loop ::
  "(nat \<Rightarrow> nat \<Rightarrow> os_env) \<Rightarrow> VNVME_COMMAND_MODE \<Rightarrow> u16 \<Rightarrow> bool \<Rightarrow> vnvme_ctx \<Rightarrow> (bool \<times> vnvme_ctx) option" where
  "doorbell_io_loop os cmdMode qid hadWork c =
     (if qid \<le> pdo_IoQueueCount (pdo c)
      then doorbell_io (os (unat qid)) cmdMode qid c \<bind> (\<lambda>r.
        doorbell_io_loop os cmdMode (qid + 1) (hadWork \<or> fst r) (snd r))
      else Some (hadWork, c))"

definition VnvmeProcessDoorbells :: "(nat \<Rightarrow> nat \<Rightarrow> os_env) \<Rightarrow> vnvme_ctx \<Rightarrow> (bool \<times> vnvme_ctx) option" where
  "VnvmeProcessDoorbells os c =
     (if \<not> pdo_Doorbells (pdo c) \<or> \<not> pdo_Registers (pdo c) then Some (False, c)
      else do {
        let cmdMode = (case g_FdoContext c of None \<Rightarrow> VNVME_CMD_MODE_USER | Some d \<Rightarrow> fdo_CommandMode d);
        (hadWork, c) \<leftarrow> doorbell_cc c;
        cc \<leftarrow> bar_rd32 (pdo c) 0x14;
        csts \<leftarrow> (if bit cc 0 then bar_rd32 (pdo c) 0x1C else Some 0);
        if \<not> (bit cc 0 \<and> bit csts 0) then Some (hadWork, c)
        else do {
          (adminWork, c) \<leftarrow> doorbell_admin (os 0) cmdMode c;
          doorbell_io_loop os cmdMode 1 (hadWork \<or> adminWork) c
        }
      })"

text \<open>The timer callback; its last component is the new due time, if the timer is started again.\<close>

definition VnvmeEvtPollingTimer ::
  "(nat \<Rightarrow> nat \<Rightarrow> os_env) \<Rightarrow> u64 \<Rightarrow> children \<Rightarrow> vnvme_ctx \<Rightarrow> (children \<times> vnvme_ctx \<times> u32 option) option" where
  "VnvmeEvtPollingTimer os currentTime others c = do {
     (others, c) \<leftarrow>
       (case g_FdoContext c of
          None \<Rightarrow> Some (others, c)
        | Some d \<Rightarrow> (if fdo_CommandMode d = VNVME_CMD_MODE_USER then CheckUserModeHeartbeat currentTime others c
                     else Some (others, c)));
     (hadWork, c) \<leftarrow> VnvmeProcessDoorbells os c;
     let c = AdjustPollingInterval hadWork c;
     Some (others, c, if pdo_PollingActive (pdo c) \<and> pdo_PollingEnabled (pdo c)
                      then Some (pdo_PollingIntervalUs (pdo c)) else None)
   }"

end
