(* ===== verification/Vnvme_Bar0.thy ===== *)
theory Vnvme_Bar0
  imports Vnvme_Context
begin

text \<open>
  \<^verbatim>\<open>vnvme/bar0.c\<close>: the register space of the controller. The block behind \<open>Bar0VirtAddr\<close> is a byte memory of
  \<open>VNVME_BAR0_SIZE\<close> bytes; an access that leaves it has no result.
\<close>

section \<open>Registers\<close>

abbreviation (input) REG_CAP :: nat where "REG_CAP \<equiv> 0x00"
abbreviation (input) REG_VS :: nat where "REG_VS \<equiv> 0x08"
abbreviation (input) REG_INTMS :: nat where "REG_INTMS \<equiv> 0x0C"
abbreviation (input) REG_INTMC :: nat where "REG_INTMC \<equiv> 0x10"
abbreviation (input) REG_CC :: nat where "REG_CC \<equiv> 0x14"
abbreviation (input) REG_CSTS :: nat where "REG_CSTS \<equiv> 0x1C"
abbreviation (input) REG_AQA :: nat where "REG_AQA \<equiv> 0x24"
abbreviation (input) REG_ASQ :: nat where "REG_ASQ \<equiv> 0x28"
abbreviation (input) REG_ACQ :: nat where "REG_ACQ \<equiv> 0x30"

definition VnvmeInitializeBar0Registers :: "VNVME_PDO_CONTEXT \<Rightarrow> VNVME_PDO_CONTEXT" where
  "VnvmeInitializeBar0Registers p =
     (case pdo_Bar0 p of
        None \<Rightarrow> p
      | Some m \<Rightarrow>
          let m = wr64 REG_CAP 0x0028000000010FFF m;
              m = wr32 REG_VS 0x00010400 m;
              m = wr32 REG_INTMS 0 m;
              m = wr32 REG_INTMC 0 m;
              m = wr32 REG_CC 0 m;
              m = wr32 REG_CSTS 0 m;
              m = wr32 REG_AQA 0 m;
              m = wr64 REG_ASQ 0 m;
              m = wr64 REG_ACQ 0 m
          in p\<lparr>pdo_Bar0 := Some m, pdo_Registers := True, pdo_Doorbells := True, pdo_CachedCC := 0\<rparr>)"

text \<open>The allocator's answer is an argument: the block and its physical address, or nothing.\<close>

definition VnvmeAllocateBar0 ::
  "(mem \<times> u64) option \<Rightarrow> VNVME_PDO_CONTEXT \<Rightarrow> NTSTATUS \<times> VNVME_PDO_CONTEXT" where
  "VnvmeAllocateBar0 bar0 p =
     (case bar0 of
        None \<Rightarrow> (STATUS_INSUFFICIENT_RESOURCES, p)
      | Some (m, phys) \<Rightarrow>
          (STATUS_SUCCESS,
           VnvmeInitializeBar0Registers
             (p\<lparr>pdo_Bar0 := Some (zero_range 0 VNVME_BAR0_SIZE m), pdo_Bar0PhysAddr := phys,
               pdo_Bar0Size := of_nat VNVME_BAR0_SIZE\<rparr>)))"

definition VnvmeFreeBar0 :: "VNVME_PDO_CONTEXT \<Rightarrow> VNVME_PDO_CONTEXT" where
  "VnvmeFreeBar0 p =
     (if pdo_Bar0 p \<noteq> None
      then p\<lparr>pdo_Bar0 := None, pdo_Bar0PhysAddr := 0, pdo_Bar0Size := 0, pdo_Registers := False,
             pdo_Doorbells := False\<rparr>
      else p)"

section \<open>Register access\<close>

definition VnvmeReadBar0Register :: "VNVME_PDO_CONTEXT \<Rightarrow> u32 \<Rightarrow> u32 option" where
  "VnvmeReadBar0Register p Offset =
     (case pdo_Bar0 p of
        None \<Rightarrow> Some 0xFFFFFFFF
      | Some m \<Rightarrow>
          if ucast Offset \<ge> pdo_Bar0Size p then Some 0xFFFFFFFF
          else do {
            check (unat Offset + 4 \<le> VNVME_BAR0_SIZE);
            Some (rd32 m (unat Offset))
          })"

text \<open>What a write to an offset that passed the range check does to the block; \<open>regs\<close> is whether the
  \<open>Registers\<close> pointer is set.\<close>

definition bar0_write :: "bool \<Rightarrow> u32 \<Rightarrow> u32 \<Rightarrow> mem \<Rightarrow> mem option" where
  "bar0_write regs Offset Value m =
     (if Offset \<in> {0x00, 0x04, 0x08, 0x1C, 0x38, 0x3C} then Some m
      else if Offset = 0x0C then Some (wr32 0x0C (rd32 m 0x0C OR Value) m)
      else if Offset = 0x10 then Some (wr32 0x0C (rd32 m 0x0C AND NOT Value) m)
      else if Offset = 0x14 then Some (wr32 0x14 Value m)
      else if Offset = 0x20 then
        Some (if Value = 0x4E564D65 \<and> regs then wr32 REG_CC 0 (wr32 REG_CSTS 0 m) else m)
      else if Offset = 0x24 then Some (wr32 0x24 Value m)
      else do {
        check (unat Offset + 4 \<le> VNVME_BAR0_SIZE);
        Some (wr32 (unat Offset) Value m)
      })"

definition VnvmeWriteBar0Register :: "VNVME_PDO_CONTEXT \<Rightarrow> u32 \<Rightarrow> u32 \<Rightarrow> VNVME_PDO_CONTEXT option" where
  "VnvmeWriteBar0Register p Offset Value =
     (case pdo_Bar0 p of
        None \<Rightarrow> Some p
      | Some m \<Rightarrow>
          if ucast Offset \<ge> pdo_Bar0Size p then Some p
          else do {
            m' \<leftarrow> bar0_write (pdo_Registers p) Offset Value m;
            Some (p\<lparr>pdo_Bar0 := Some m'\<rparr>)
          })"

text \<open>The sum \<open>Offset + 8\<close> is computed on 32 bits.\<close>

definition VnvmeReadBar0Register64 :: "VNVME_PDO_CONTEXT \<Rightarrow> u32 \<Rightarrow> u64 option" where
  "VnvmeReadBar0Register64 p Offset =
     (case pdo_Bar0 p of
        None \<Rightarrow> Some 0xFFFFFFFFFFFFFFFF
      | Some m \<Rightarrow>
          if ucast (Offset + 8) > pdo_Bar0Size p then Some 0xFFFFFFFFFFFFFFFF
          else do {
            check (unat Offset + 8 \<le> VNVME_BAR0_SIZE);
            Some (rd64 m (unat Offset))
          })"

definition VnvmeWriteBar0Register64 :: "VNVME_PDO_CONTEXT \<Rightarrow> u32 \<Rightarrow> u64 \<Rightarrow> VNVME_PDO_CONTEXT option" where
  "VnvmeWriteBar0Register64 p Offset Value =
     (case pdo_Bar0 p of
        None \<Rightarrow> Some p
      | Some m \<Rightarrow>
          if ucast (Offset + 8) > pdo_Bar0Size p then Some p
          else do {
            check (unat Offset + 8 \<le> VNVME_BAR0_SIZE);
            Some (p\<lparr>pdo_Bar0 := Some (wr64 (unat Offset) Value m)\<rparr>)
          })"

section \<open>Invariant of the register space\<close>

text \<open>Either the block is allocated with its size recorded and the pointers set, or none of it is.\<close>

definition bar0_wf :: "VNVME_PDO_CONTEXT \<Rightarrow> bool" where
  "bar0_wf p \<longleftrightarrow>
     (case pdo_Bar0 p of
        None \<Rightarrow> pdo_Bar0Size p = 0 \<and> \<not> pdo_Registers p \<and> \<not> pdo_Doorbells p
      | Some _ \<Rightarrow> pdo_Bar0Size p = of_nat VNVME_BAR0_SIZE \<and> pdo_Registers p \<and> pdo_Doorbells p)"

text \<open>The registers the host must not be able to change: \<open>CAP\<close>, \<open>VS\<close>, \<open>CMBLOC\<close> and \<open>CMBSZ\<close>.\<close>

definition bar0_constants :: "mem \<Rightarrow> u64 \<times> u32 \<times> u32 \<times> u32" where
  "bar0_constants m = (rd64 m REG_CAP, rd32 m REG_VS, rd32 m 0x38, rd32 m 0x3C)"

text \<open>A run of 32-bit register writes.\<close>

fun bar0_writes :: "(u32 \<times> u32) list \<Rightarrow> VNVME_PDO_CONTEXT \<Rightarrow> VNVME_PDO_CONTEXT option" where
  "bar0_writes [] p = Some p"
| "bar0_writes ((Offset, Value) # ws) p = do { p' \<leftarrow> VnvmeWriteBar0Register p Offset Value; bar0_writes ws p' }"

lemma bar0_write_constants:
  assumes "unat Offset mod 4 = 0" "unat Offset < VNVME_BAR0_SIZE"
  shows "\<exists>m'. bar0_write regs Offset Value m = Some m' \<and> bar0_constants m' = bar0_constants m"
proof -
  have fits: "unat Offset + 4 \<le> 65536"
    using assms by presburger
  have ne: "Offset \<noteq> of_nat k \<Longrightarrow> k < 65536 \<Longrightarrow> unat Offset \<noteq> k" for k
    by (auto simp: word_unat_eq_iff)
  show ?thesis
  proof (cases "Offset \<in> {0x00, 0x04, 0x08, 0x1C, 0x38, 0x3C}")
    case True
    then show ?thesis by (simp add: bar0_write_def)
  next
    case False
    then have apart: "8 \<le> unat Offset" "12 \<le> unat Offset" "unat Offset + 4 \<le> 0x38 \<or> 0x40 \<le> unat Offset"
      using ne [of 0] ne [of 4] ne [of 8] ne [of "0x38"] ne [of "0x3C"] assms(1) by auto
    with False fits show ?thesis
      by (auto simp: bar0_write_def bar0_constants_def mem_simps)
  qed
qed

lemma VnvmeWriteBar0Register_wf:
  assumes "bar0_wf p" "unat Offset mod 4 = 0"
  shows "\<exists>p'. VnvmeWriteBar0Register p Offset Value = Some p' \<and> bar0_wf p'
    \<and> map_option bar0_constants (pdo_Bar0 p') = map_option bar0_constants (pdo_Bar0 p)"
proof (cases "pdo_Bar0 p")
  case None
  with assms show ?thesis by (simp add: VnvmeWriteBar0Register_def)
next
  case (Some m)
  then have size: "pdo_Bar0Size p = 65536"
    using assms(1) by (simp add: bar0_wf_def)
  show ?thesis
  proof (cases "(65536 :: u64) \<le> ucast Offset")
    case True
    with Some size assms(1) show ?thesis by (simp add: VnvmeWriteBar0Register_def)
  next
    case False
    then have "unat Offset < 65536"
      by (simp add: word_le_nat_alt)
    from bar0_write_constants [OF assms(2), of "pdo_Registers p" Value m] this obtain m' where
      "bar0_write (pdo_Registers p) Offset Value m = Some m'" "bar0_constants m' = bar0_constants m"
      by auto
    with Some size False assms(1) show ?thesis
      by (simp add: VnvmeWriteBar0Register_def bar0_wf_def)
  qed
qed

lemma bar0_wf_life:
  "bar0_wf p \<Longrightarrow> bar0_wf (VnvmeInitializeBar0Registers p)"
  "bar0_wf p \<Longrightarrow> bar0_wf (snd (VnvmeAllocateBar0 blk p))"
  "bar0_wf p \<Longrightarrow> bar0_wf (VnvmeFreeBar0 p)"
  by (auto simp: bar0_wf_def VnvmeInitializeBar0Registers_def VnvmeAllocateBar0_def VnvmeFreeBar0_def
      Let_def split: option.splits)

section \<open>Properties\<close>

text \<open>After any number of aligned 32-bit register writes the controller still has the capabilities,
  version and memory-buffer registers it started with, every write returned normally, and the
  register block is still consistent.\<close>

theorem bar0_writes_keep_constants:
  assumes "bar0_wf p" "\<forall>(Offset, Value)\<in>set ws. unat Offset mod 4 = 0"
  shows "\<exists>p'. bar0_writes ws p = Some p' \<and> bar0_wf p'
    \<and> map_option bar0_constants (pdo_Bar0 p') = map_option bar0_constants (pdo_Bar0 p)"
  using assms
proof (induction ws arbitrary: p)
  case Nil
  then show ?case by simp
next
  case (Cons w ws)
  obtain Offset Value where w: "w = (Offset, Value)" by (cases w)
  from Cons.prems w have "unat Offset mod 4 = 0" by simp
  from VnvmeWriteBar0Register_wf [OF Cons.prems(1) this, of Value] obtain p' where
    p': "VnvmeWriteBar0Register p Offset Value = Some p'" "bar0_wf p'"
      "map_option bar0_constants (pdo_Bar0 p') = map_option bar0_constants (pdo_Bar0 p)" by blast
  from Cons.IH [OF p'(2)] Cons.prems(2) p' w show ?case by auto
qed

text \<open>The property on a fresh controller and three writes, two of them to read-only registers.\<close>

theorem bar0_writes_keep_constants_witness:
  "\<exists>p'. bar0_writes [(0, 0xFFFFFFFF), (0x08, 7), (0x28, 0x1000)]
      (snd (VnvmeAllocateBar0 (Some (\<lambda>_. 0, 0)) zero_PDO_CONTEXT)) = Some p' \<and> bar0_wf p'"
proof -
  have "bar0_wf (snd (VnvmeAllocateBar0 (Some (\<lambda>_. 0, 0)) zero_PDO_CONTEXT))"
    by (rule bar0_wf_life) (simp add: bar0_wf_def zero_PDO_CONTEXT_def)
  from bar0_writes_keep_constants [OF this, of "[(0, 0xFFFFFFFF), (0x08, 7), (0x28, 0x1000)]"]
  show ?thesis by auto
qed

text \<open>What the host reads from a freshly allocated controller. The version and the queue size are
  those the comments give; the bits the comments call time-out (40) and command sets (1) are zero, and
  the value 0x28 sits in the page-size fields, which announce a minimum page size above the maximum.\<close>

theorem VnvmeAllocateBar0_registers:
  "\<exists>p cap. VnvmeAllocateBar0 (Some (blk, phys)) q = (STATUS_SUCCESS, p) \<and> bar0_wf p
    \<and> VnvmeReadBar0Register64 p 0 = Some cap
    \<and> CAP_MQES cap = 0xFFF \<and> CAP_CQR cap = 1 \<and> CAP_DSTRD cap = 0
    \<and> CAP_TO cap = 0 \<and> CAP_CSS cap = 0 \<and> CAP_MPSMIN cap = 8 \<and> CAP_MPSMAX cap = 2
    \<and> VnvmeReadBar0Register p 0x08 = Some 0x00010400
    \<and> VnvmeReadBar0Register p 0x14 = Some 0 \<and> VnvmeReadBar0Register p 0x1C = Some 0"
  by (simp add: VnvmeAllocateBar0_def VnvmeInitializeBar0Registers_def Let_def bar0_wf_def
      VnvmeReadBar0Register64_def VnvmeReadBar0Register_def mem_simps CAP_MQES_def CAP_CQR_def
      CAP_DSTRD_def CAP_TO_def CAP_CSS_def CAP_MPSMIN_def CAP_MPSMAX_def)

text \<open>The interrupt mask. A write of \<open>s\<close> to \<open>INTMS\<close> and then of \<open>k\<close> to \<open>INTMC\<close> leaves the mask with the
  bits of \<open>s\<close> added and those of \<open>k\<close> removed, read back through \<open>INTMS\<close>.\<close>

theorem bar0_interrupt_mask:
  assumes "bar0_wf p" "pdo_Bar0 p = Some m"
  shows "\<exists>p'. bar0_writes [(0x0C, s), (0x10, k)] p = Some p'
    \<and> VnvmeReadBar0Register p' 0x0C = Some ((rd32 m 0x0C OR s) AND NOT k)"
  using assms
  by (simp add: bar0_wf_def VnvmeWriteBar0Register_def VnvmeReadBar0Register_def bar0_write_def mem_simps)

text \<open>The property on a fresh controller.\<close>

theorem bar0_interrupt_mask_witness:
  "\<exists>p'. bar0_writes [(0x0C, 0xF), (0x10, 0x3)]
      (snd (VnvmeAllocateBar0 (Some (\<lambda>_. 0, 0)) zero_PDO_CONTEXT)) = Some p'
    \<and> VnvmeReadBar0Register p' 0x0C = Some 0xC"
proof -
  let ?p = "snd (VnvmeAllocateBar0 (Some (\<lambda>_. 0, 0)) zero_PDO_CONTEXT)"
  have "bar0_wf ?p"
    by (rule bar0_wf_life) (simp add: bar0_wf_def zero_PDO_CONTEXT_def)
  moreover obtain m where "pdo_Bar0 ?p = Some m" "rd32 m 0x0C = 0"
    by (simp add: VnvmeAllocateBar0_def VnvmeInitializeBar0Registers_def Let_def mem_simps)
  ultimately show ?thesis
    using bar0_interrupt_mask [of ?p m "0xF" "0x3"] by simp
qed

text \<open>The range checks of the register accessors are not exact. A 32-bit read at one of the last three
  offsets, and a 64-bit read at an offset whose 32-bit sum with 8 wraps, pass the check and leave the
  block.\<close>

theorem bar0_range_check_gaps:
  assumes "bar0_wf p" "pdo_Bar0 p = Some m"
  shows "(VnvmeReadBar0Register p Offset = None \<longleftrightarrow> 65532 < unat Offset \<and> unat Offset < 65536)
    \<and> (VnvmeReadBar0Register64 p Offset = None \<longleftrightarrow> 2 ^ 32 - 8 \<le> unat Offset)"
proof
  have size: "pdo_Bar0Size p = 65536"
    using assms by (simp add: bar0_wf_def)
  show "VnvmeReadBar0Register p Offset = None \<longleftrightarrow> 65532 < unat Offset \<and> unat Offset < 65536"
    using assms size by (auto simp: VnvmeReadBar0Register_def word_le_nat_alt check_def)
  have "unat (Offset + 8) = (if unat Offset < 2 ^ 32 - 8 then unat Offset + 8 else unat Offset + 8 - 2 ^ 32)"
    using unat_u32_bound [of Offset] by (simp add: unat_word_ariths le_mod_geq)
  then show "VnvmeReadBar0Register64 p Offset = None \<longleftrightarrow> 2 ^ 32 - 8 \<le> unat Offset"
    using assms size unat_u32_bound [of Offset]
    by (auto simp: VnvmeReadBar0Register64_def word_less_nat_alt check_def)
qed

text \<open>The property at the last byte of a fresh controller's register space.\<close>

theorem bar0_range_check_gaps_witness:
  "VnvmeReadBar0Register (snd (VnvmeAllocateBar0 (Some (\<lambda>_. 0, 0)) zero_PDO_CONTEXT)) 65535 = None"
proof -
  let ?p = "snd (VnvmeAllocateBar0 (Some (\<lambda>_. 0, 0)) zero_PDO_CONTEXT)"
  have "bar0_wf ?p"
    by (rule bar0_wf_life) (simp add: bar0_wf_def zero_PDO_CONTEXT_def)
  moreover obtain m where "pdo_Bar0 ?p = Some m"
    by (simp add: VnvmeAllocateBar0_def VnvmeInitializeBar0Registers_def Let_def)
  ultimately show ?thesis
    using bar0_range_check_gaps [of ?p m 65535] by simp
qed

end
