(* ===== verification/Vnvme_Registers.thy ===== *)
theory Vnvme_Registers
  imports Vnvme_Doorbell Vnvme_Bar0
begin

text \<open>
  The command handlers and the register file: no handler, whatever its command and however it ends, changes
  BAR0, the cached CC register, the configuration space or the polling switch; and what follows for the enable handshake of the controller.
\<close>

section \<open>What the handlers leave alone\<close>

definition ctl :: "VNVME_PDO_CONTEXT \<Rightarrow> mem option \<times> u64 \<times> bool \<times> bool \<times> u32 \<times> u32 \<times> mem option \<times> bool" where
  "ctl p = (pdo_Bar0 p, pdo_Bar0Size p, pdo_Registers p, pdo_Doorbells p, pdo_CachedCC p, pdo_ControllerId p,
     pdo_PcieConfig p, pdo_PollingEnabled p)"

named_theorems ctl_frame

lemma ctl_upd [simp]:
  "ctl (upd_IoSq i f p) = ctl p" "ctl (upd_IoCq i f p) = ctl p" "ctl (upd_Namespace i g p) = ctl p"
  "ctl (p\<lparr>pdo_AdminSq := q\<rparr>) = ctl p" "ctl (p\<lparr>pdo_AdminCq := q\<rparr>) = ctl p" "ctl (p\<lparr>pdo_AdminCqPhase := x\<rparr>) = ctl p"
  "ctl (p\<lparr>pdo_IoQueueCount := n\<rparr>) = ctl p" "ctl (p\<lparr>pdo_MaxIoQueues := n\<rparr>) = ctl p"
  "ctl (p\<lparr>pdo_AerCids := cs\<rparr>) = ctl p" "ctl (p\<lparr>pdo_AerCount := k\<rparr>) = ctl p"
  "ctl (p\<lparr>pdo_AdminCommandsProcessed := s\<rparr>) = ctl p" "ctl (p\<lparr>pdo_IoCommandsProcessed := s\<rparr>) = ctl p"
  "ctl (p\<lparr>pdo_BytesRead := s\<rparr>) = ctl p" "ctl (p\<lparr>pdo_BytesWritten := s\<rparr>) = ctl p"
  "ctl (p\<lparr>pdo_LastAdminSqTail := t\<rparr>) = ctl p" "ctl (p\<lparr>pdo_LastAdminCqHead := t\<rparr>) = ctl p"
  "ctl (p\<lparr>pdo_PollingIntervalUs := t\<rparr>) = ctl p"
  by (simp_all add: ctl_def upd_IoSq_def upd_IoCq_def upd_Namespace_def)

lemma ctl_VnvmePostCompletion [ctl_frame]:
  "VnvmePostCompletion q cpl c = Some (s, c') \<Longrightarrow> ctl (pdo c') = ctl (pdo c)"
  by (auto simp: VnvmePostCompletion_def Let_def sync_cq_def split: option.split_asm sum.split_asm if_split_asm Option.bind_split_asm)

lemma ctl_VnvmeFetchCommand [ctl_frame]:
  "VnvmeFetchCommand q b c = Some (s, cmd, c') \<Longrightarrow> ctl (pdo c') = ctl (pdo c)"
  by (auto simp: VnvmeFetchCommand_def Let_def sync_sq_Head_def split: option.split_asm sum.split_asm if_split_asm Option.bind_split_asm)

section \<open>Admin commands\<close>

lemma ctl_Post [ctl_frame]:
  "PostSuccessCompletion cid dw0 c = Some (s, c') \<Longrightarrow> ctl (pdo c') = ctl (pdo c)"
  "PostErrorCompletion cid sct sc c = Some (s, c') \<Longrightarrow> ctl (pdo c') = ctl (pdo c)"
  unfolding PostSuccessCompletion_def PostErrorCompletion_def by (rule ctl_frame, assumption)+

lemma ctl_send_data [ctl_frame]: "send_data os cmd buf len c = Some (s, c') \<Longrightarrow> ctl (pdo c') = ctl (pdo c)"
  by (auto simp: send_data_def Let_def bind_eq_Some_conv split: if_splits dest!: ctl_frame)

lemma ctl_HandleIdentify [ctl_frame]: "HandleIdentify os cmd c = Some (s, c') \<Longrightarrow> ctl (pdo c') = ctl (pdo c)"
  by (auto simp: HandleIdentify_def HandleIdentifyNamespace_def HandleIdentifyController_def HandleIdentifyActiveNsList_def
      Let_def bind_eq_Some_conv split: if_splits dest!: ctl_frame)

lemma ctl_queue_management [ctl_frame]:
  "HandleCreateIoCq cmd c = Some (s, c') \<Longrightarrow> ctl (pdo c') = ctl (pdo c)"
  "HandleCreateIoSq cmd c = Some (s, c') \<Longrightarrow> ctl (pdo c') = ctl (pdo c)"
  "HandleDeleteIoCq cmd c = Some (s, c') \<Longrightarrow> ctl (pdo c') = ctl (pdo c)"
  "HandleDeleteIoSq cmd c = Some (s, c') \<Longrightarrow> ctl (pdo c') = ctl (pdo c)"
  unfolding HandleCreateIoCq_def HandleCreateIoSq_def HandleDeleteIoCq_def HandleDeleteIoSq_def
  by (auto simp: Let_def bind_eq_Some_conv split: if_splits dest!: ctl_frame)

lemma ctl_features [ctl_frame]:
  "HandleSetFeatures cmd c = Some (s, c') \<Longrightarrow> ctl (pdo c') = ctl (pdo c)"
  "HandleGetFeatures cmd c = Some (s, c') \<Longrightarrow> ctl (pdo c') = ctl (pdo c)"
  unfolding HandleSetFeatures_def HandleGetFeatures_def
  by (auto simp: Let_def split: if_splits dest!: ctl_frame)

lemma ctl_admin_others [ctl_frame]:
  "HandleAsyncEventRequest cmd c = Some (s, c') \<Longrightarrow> ctl (pdo c') = ctl (pdo c)"
  "HandleGetLogPage os cmd c = Some (s, c') \<Longrightarrow> ctl (pdo c') = ctl (pdo c)"
  "HandleAbort cmd c = Some (s, c') \<Longrightarrow> ctl (pdo c') = ctl (pdo c)"
  "HandleKeepAlive cmd c = Some (s, c') \<Longrightarrow> ctl (pdo c') = ctl (pdo c)"
  unfolding HandleAsyncEventRequest_def HandleGetLogPage_def HandleAbort_def HandleKeepAlive_def
  by (auto simp: Let_def aer_store_def split: if_splits option.splits dest!: ctl_frame)

lemma ctl_VnvmeProcessAdminCommand [ctl_frame]:
  "VnvmeProcessAdminCommand os cmd c = Some (s, c') \<Longrightarrow> ctl (pdo c') = ctl (pdo c)"
  by (auto simp: VnvmeProcessAdminCommand_def admin_dispatch_def bind_eq_Some_conv split: if_splits dest!: ctl_frame)

section \<open>I/O commands\<close>

lemma ctl_counts [simp]:
  "ctl (pdo (set_storage i st c)) = ctl (pdo c)" "ctl (pdo (count_io c)) = ctl (pdo c)"
  "ctl (pdo (count_read i n c)) = ctl (pdo c)" "ctl (pdo (count_write i n c)) = ctl (pdo c)" "ctl (count_flush i p) = ctl p"
  by (simp_all add: set_storage_def count_io_def count_read_def count_write_def count_flush_def)

lemma ctl_PostIoCompletion [ctl_frame]:
  "PostIoCompletion q cid sct sc c = Some (s, c') \<Longrightarrow> ctl (pdo c') = ctl (pdo c)"
  by (auto simp: PostIoCompletion_def Let_def bind_eq_Some_conv split: option.splits if_splits dest!: ctl_frame)

lemma ctl_with_namespace:
  assumes "with_namespace q cmd c body = Some (s, c')" "\<And>i ns. body i ns = Some (s, c') \<Longrightarrow> ctl (pdo c') = ctl (pdo c)"
  shows "ctl (pdo c') = ctl (pdo c)"
  using assms by (auto simp: with_namespace_def bind_eq_Some_conv split: if_splits dest!: ctl_frame)

lemma ctl_with_blocks:
  assumes "with_blocks q cmd c body = Some (s, c')" "\<And>i ns off n. body i ns off n = Some (s, c') \<Longrightarrow> ctl (pdo c') = ctl (pdo c)"
  shows "ctl (pdo c') = ctl (pdo c)"
  using assms(1) unfolding with_blocks_def
  by (rule ctl_with_namespace) (auto split: if_splits dest!: ctl_frame dest: assms(2))

lemma ctl_HandleRead [ctl_frame]: "HandleRead os q cmd c = Some (s, c') \<Longrightarrow> ctl (pdo c') = ctl (pdo c)"
  unfolding HandleRead_def
  by (erule ctl_with_blocks) (auto simp: Let_def split: sum.split_asm if_split_asm Option.bind_split_asm dest!: ctl_frame)

lemma ctl_HandleWrite [ctl_frame]: "HandleWrite os q cmd c = Some (s, c') \<Longrightarrow> ctl (pdo c') = ctl (pdo c)"
  unfolding HandleWrite_def
  by (erule ctl_with_blocks) (auto simp: Let_def bind_eq_Some_conv split: write_target.splits if_splits dest!: ctl_frame)

lemma ctl_HandleFlush [ctl_frame]: "HandleFlush q cmd c = Some (s, c') \<Longrightarrow> ctl (pdo c') = ctl (pdo c)"
proof -
  have fold: "ctl (fold (\<lambda>i p. if P i p then count_flush i p else p) is p) = ctl p" for P "is" p
    by (induction "is" arbitrary: p) auto
  assume "HandleFlush q cmd c = Some (s, c')"
  then show ?thesis unfolding HandleFlush_def
    by (auto simp: Let_def fold split: if_splits dest!: ctl_frame elim!: ctl_with_namespace)
qed

lemma ctl_HandleWriteZeroes [ctl_frame]: "HandleWriteZeroes os q cmd c = Some (s, c') \<Longrightarrow> ctl (pdo c') = ctl (pdo c)"
  unfolding HandleWriteZeroes_def
  by (erule ctl_with_blocks) (auto simp: Let_def bind_eq_Some_conv split: if_splits dest!: ctl_frame)

lemma ctl_HandleDatasetManagement [ctl_frame]:
  "HandleDatasetManagement os q cmd c = Some (s, c') \<Longrightarrow> ctl (pdo c') = ctl (pdo c)"
  unfolding HandleDatasetManagement_def
  by (erule ctl_with_namespace) (auto simp: Let_def bind_eq_Some_conv split: if_splits dest!: ctl_frame)

lemma ctl_HandleCompare [ctl_frame]: "HandleCompare os q cmd c = Some (s, c') \<Longrightarrow> ctl (pdo c') = ctl (pdo c)"
  unfolding HandleCompare_def
  by (erule ctl_with_blocks) (auto simp: Let_def bind_eq_Some_conv split: if_splits dest!: ctl_frame)

lemma ctl_VnvmeProcessIoCommand [ctl_frame]:
  "VnvmeProcessIoCommand os q cmd c = Some (s, c') \<Longrightarrow> ctl (pdo c') = ctl (pdo c)"
  by (auto simp: VnvmeProcessIoCommand_def split: if_splits dest!: ctl_frame)

section \<open>The loops over the queues\<close>

lemma ctl_admin_loop [ctl_frame]:
  assumes "admin_loop os k tail n head c = Some c'"
  shows "ctl (pdo c') = ctl (pdo c)"
proof (rule admin_loop.raw_induct [where P = "\<lambda>os k tail n head c c'. ctl (pdo c') = ctl (pdo c)", OF _ assms], goal_cases)
  case (1 loop os k tail n head c c')
  from 1(2) show ?case
    by (auto split: if_split_asm Option.bind_split_asm dest!: 1(1) ctl_frame)
qed

lemma ctl_io_loop [ctl_frame]:
  assumes "io_loop os q k tail n head c = Some c'"
  shows "ctl (pdo c') = ctl (pdo c)"
proof (rule io_loop.raw_induct [where P = "\<lambda>os q k tail n head c c'. ctl (pdo c') = ctl (pdo c)", OF _ assms], goal_cases)
  case (1 loop os q k tail n head c c')
  from 1(2) show ?case
    by (auto split: if_split_asm Option.bind_split_asm dest!: 1(1) ctl_frame)
qed

lemma ctl_process [ctl_frame]:
  "VnvmeProcessAdminCommands os' t c = Some c' \<Longrightarrow> ctl (pdo c') = ctl (pdo c)"
  "VnvmeProcessIoCommands os' q t c = Some c' \<Longrightarrow> ctl (pdo c') = ctl (pdo c)"
  unfolding VnvmeProcessAdminCommands_def VnvmeProcessIoCommands_def
  by (auto split: if_split_asm Option.bind_split_asm dest!: ctl_frame)

lemma pdo_upd_fdo [simp]: "pdo (upd_fdo f c) = pdo c" "pdo (SignalUserMode c) = pdo c"
  by (simp_all add: upd_fdo_def SignalUserMode_def)

lemma ctl_NotifyRingPush [ctl_frame]: "NotifyRingPush q t x c = Some (b, c') \<Longrightarrow> ctl (pdo c') = ctl (pdo c)"
  by (auto simp: NotifyRingPush_def Let_def split: option.split_asm if_split_asm Option.bind_split_asm)

lemma ctl_forward [ctl_frame]:
  "VnvmeForwardAdminCommandsToUser t c = Some c' \<Longrightarrow> ctl (pdo c') = ctl (pdo c)"
  "VnvmeForwardIoCommandsToUser q t c = Some c' \<Longrightarrow> ctl (pdo c') = ctl (pdo c)"
  unfolding VnvmeForwardAdminCommandsToUser_def VnvmeForwardIoCommandsToUser_def
  by (auto simp: Let_def split: option.split_asm if_split_asm Option.bind_split_asm dest!: ctl_frame)

lemma ctl_abort_admin [ctl_frame]: "abort_admin n c = Some (k, c') \<Longrightarrow> ctl (pdo c') = ctl (pdo c)"
  by (auto simp: abort_admin_def Let_def split: if_split_asm Option.bind_split_asm)

lemma ctl_abort_io_queue [ctl_frame]: "abort_io_queue d i n c = Some (k, c') \<Longrightarrow> ctl (pdo c') = ctl (pdo c)"
  by (auto simp: abort_io_queue_def Let_def split: if_split_asm Option.bind_split_asm)

lemma ctl_abort_io_loop [ctl_frame]: "abort_io_loop d is n c = Some (k, c') \<Longrightarrow> ctl (pdo c') = ctl (pdo c)"
  by (induction "is" arbitrary: n c) (auto split: Option.bind_split_asm dest!: ctl_frame)

lemma ctl_VnvmeAbortPendingUserCommands [ctl_frame]:
  "VnvmeAbortPendingUserCommands c = Some (k, c') \<Longrightarrow> ctl (pdo c') = ctl (pdo c)"
  by (auto simp: VnvmeAbortPendingUserCommands_def split: option.split_asm if_split_asm Option.bind_split_asm dest!: ctl_frame)

lemma pdo_abort_children: "abort_children ps c = Some (ps', c') \<Longrightarrow> pdo c' = pdo c"
  by (induction ps arbitrary: ps' c) (auto split: Option.bind_split_asm)

lemma ctl_CheckUserModeHeartbeat [ctl_frame]:
  "CheckUserModeHeartbeat now others c = Some (others', c') \<Longrightarrow> ctl (pdo c') = ctl (pdo c)"
  by (auto simp: CheckUserModeHeartbeat_def Let_def split: option.split_asm if_split_asm Option.bind_split_asm
      dest!: ctl_frame pdo_abort_children)

lemma ctl_doorbell_admin [ctl_frame]: "doorbell_admin os' mode c = Some (w, c') \<Longrightarrow> ctl (pdo c') = ctl (pdo c)"
  by (auto simp: doorbell_admin_def split: if_split_asm Option.bind_split_asm VNVME_COMMAND_MODE.split_asm dest!: ctl_frame)

lemma ctl_doorbell_io [ctl_frame]: "doorbell_io os' mode q c = Some (w, c') \<Longrightarrow> ctl (pdo c') = ctl (pdo c)"
  by (auto simp: doorbell_io_def Let_def split: if_split_asm Option.bind_split_asm VNVME_COMMAND_MODE.split_asm dest!: ctl_frame)

lemma ctl_doorbell_io_loop [ctl_frame]:
  assumes "doorbell_io_loop os mode q w c = Some r"
  shows "ctl (pdo (snd r)) = ctl (pdo c)"
proof (rule doorbell_io_loop.raw_induct [where P = "\<lambda>os mode q w c r. ctl (pdo (snd r)) = ctl (pdo c)", OF _ assms], goal_cases)
  case (1 loop os mode q w c r)
  from 1(2) show ?case
    by (auto split: if_split_asm Option.bind_split_asm dest!: 1(1) ctl_frame)
qed

section \<open>The enable handshake\<close>

text \<open>An invariant of a transition system holds wherever its steps lead.\<close>

locale step_invariant =
  fixes step :: "'s \<Rightarrow> 's \<Rightarrow> bool" and inv :: "'s \<Rightarrow> bool"
  assumes preserved: "inv s \<Longrightarrow> step s s' \<Longrightarrow> inv s'"
begin

lemma reachable: "step\<^sup>*\<^sup>* s s' \<Longrightarrow> inv s \<Longrightarrow> inv s'"
  by (induction rule: rtranclp_induct) (auto intro: preserved)

end

text \<open>The CSTS value that goes with a value of CC.\<close>

definition csts_of :: "u32 \<Rightarrow> u32" where
  "csts_of cc = (if bit cc 0 then 1 else 0)"

text \<open>A write that resets the subsystem: the signature in NSSR.\<close>

abbreviation subsystem_reset :: "u32 \<Rightarrow> u32 \<Rightarrow> bool" where
  "subsystem_reset Offset Value \<equiv> Offset = 0x20 \<and> Value = 0x4E564D65"

text \<open>A controller with its registers, and the host and the timer taking turns: aligned register writes, with subsystem
  resets among them or not, and runs of the timer callback with whatever the system answers.\<close>

inductive ctrl_step :: "bool \<Rightarrow> children \<times> vnvme_ctx \<Rightarrow> children \<times> vnvme_ctx \<Rightarrow> bool" for resets :: bool where
  host_write: "VnvmeWriteBar0Register (pdo c) Offset Value = Some p \<Longrightarrow> unat Offset mod 4 = 0
    \<Longrightarrow> resets \<or> \<not> subsystem_reset Offset Value \<Longrightarrow> ctrl_step resets (others, c) (others, c\<lparr>pdo := p\<rparr>)"
| timer: "VnvmeEvtPollingTimer os now others c = Some (others', c', due) \<Longrightarrow> ctrl_step resets (others, c) (others', c')"

inductive_cases ctrl_stepE: "ctrl_step resets s s'"

text \<open>CSTS goes with CC; after a subsystem reset it may also be zero.\<close>

definition csts_ok :: "bool \<Rightarrow> u32 \<Rightarrow> u32 \<Rightarrow> bool" where
  "csts_ok resets csts cc \<longleftrightarrow> csts = csts_of cc \<or> resets \<and> csts = 0"

definition handshake :: "bool \<Rightarrow> VNVME_PDO_CONTEXT \<Rightarrow> bool" where
  "handshake resets p \<longleftrightarrow> bar0_wf p \<and> (\<exists>bar. pdo_Bar0 p = Some bar \<and> csts_ok resets (rd32 bar REG_CSTS) (pdo_CachedCC p))"

lemma handshake_ctl: "ctl p' = ctl p \<Longrightarrow> handshake resets p' = handshake resets p"
  by (auto simp: handshake_def ctl_def bar0_wf_def split: option.splits)

lemma bar0_write_CSTS:
  assumes "unat Offset mod 4 = 0" "bar0_write regs Offset Value m = Some m'"
  shows "rd32 m' REG_CSTS = rd32 m REG_CSTS \<or> subsystem_reset Offset Value \<and> rd32 m' REG_CSTS = 0"
proof (cases "Offset \<in> {0x00, 0x04, 0x08, 0x1C, 0x38, 0x3C}")
  case True
  with assms(2) show ?thesis by (simp add: bar0_write_def)
next
  case False
  then have "unat Offset \<noteq> 0x1C" by (auto simp: word_unat_eq_iff)
  with assms(1) have "unat Offset + 4 \<le> 0x1C \<or> 0x20 \<le> unat Offset" by presburger
  with False assms(2) show ?thesis
    by (auto simp: bar0_write_def mem_simps split: if_splits)
qed

lemma handshake_host_write:
  assumes "handshake resets p" "VnvmeWriteBar0Register p Offset Value = Some p'" "unat Offset mod 4 = 0"
    "resets \<or> \<not> subsystem_reset Offset Value"
  shows "handshake resets p'"
proof -
  have "bar0_wf p'"
    using VnvmeWriteBar0Register_wf [OF _ assms(3), of p Value] assms(1,2) by (auto simp: handshake_def)
  with assms(1,2,4) show ?thesis
    by (auto simp: handshake_def csts_ok_def VnvmeWriteBar0Register_def split: if_splits Option.bind_split_asm
        dest!: bar0_write_CSTS [OF assms(3)])
qed

text \<open>Looking at CC brings CSTS and the cached value in line with it and touches no other register.\<close>

lemma ctl_VnvmeInitializeAdminQueues: "ctl (snd (VnvmeInitializeAdminQueues p)) = ctl p"
  by (simp add: VnvmeInitializeAdminQueues_def ctl_def Let_def split: option.split)

definition cc_seen :: "bool \<Rightarrow> VNVME_PDO_CONTEXT \<Rightarrow> VNVME_PDO_CONTEXT \<Rightarrow> bool" where
  "cc_seen resets p p' \<longleftrightarrow> bar0_wf p' \<and> (\<exists>bar bar'. pdo_Bar0 p = Some bar \<and> pdo_Bar0 p' = Some bar'
     \<and> same_outside {REG_CSTS..<REG_CSTS + 4} bar bar'
     \<and> pdo_CachedCC p' = rd32 bar' REG_CC \<and> csts_ok resets (rd32 bar' REG_CSTS) (rd32 bar' REG_CC))"

lemma doorbell_cc_seen:
  assumes "handshake resets (pdo c)"
  shows "\<exists>w c'. doorbell_cc c = Some (w, c') \<and> cc_seen resets (pdo c) (pdo c')"
proof -
  from assms obtain bar where b: "pdo_Bar0 (pdo c) = Some bar" "pdo_Bar0Size (pdo c) = 65536" "bar0_wf (pdo c)"
    "csts_ok resets (rd32 bar REG_CSTS) (pdo_CachedCC (pdo c))"
    by (auto simp: handshake_def bar0_wf_def)
  let ?cc = "rd32 bar REG_CC" and ?i = "snd (VnvmeInitializeAdminQueues (pdo c))"
  have i: "pdo_Bar0 ?i = Some bar" "pdo_Bar0Size ?i = 65536" "bar0_wf ?i"
    using ctl_VnvmeInitializeAdminQueues [of "pdo c"] b by (simp_all add: ctl_def bar0_wf_def)
  have frame: "same_outside {REG_CSTS..<REG_CSTS + 4} bar (wr32 REG_CSTS v bar)" for v
    by (auto simp: same_outside_def wr32_outside)
  have same: "same_outside {REG_CSTS..<REG_CSTS + 4} bar bar" by (simp add: same_outside_def)
  have run: "doorbell_cc c = Some (?cc \<noteq> pdo_CachedCC (pdo c), if ?cc \<noteq> pdo_CachedCC (pdo c)
      then upd_pdo (\<lambda>p. p\<lparr>pdo_CachedCC := ?cc\<rparr>)
        (if bit ?cc 0 \<and> \<not> bit (pdo_CachedCC (pdo c)) 0
         then upd_pdo (\<lambda>p. bar_wr32 REG_CSTS 1 (snd (VnvmeInitializeAdminQueues p))) c
         else if \<not> bit ?cc 0 \<and> bit (pdo_CachedCC (pdo c)) 0 then upd_pdo (bar_wr32 REG_CSTS 0) c else c)
      else c)"
    using b(1,2) by (simp add: doorbell_cc_def bar_rd32_def Let_def check_bind)
  show ?thesis
    unfolding run using b i frame same
    by (auto simp: cc_seen_def bar_wr32_def csts_ok_def csts_of_def bar0_wf_def mem_simps)
qed

lemma cc_seen_ctl: "ctl p1' = ctl p1 \<Longrightarrow> ctl p2' = ctl p2 \<Longrightarrow> cc_seen resets p1' p2' = cc_seen resets p1 p2"
  by (auto simp: cc_seen_def ctl_def bar0_wf_def split: option.splits)

lemma cc_seen_handshake: "cc_seen resets p p' \<Longrightarrow> handshake resets p'"
  by (auto simp: cc_seen_def handshake_def)

lemma VnvmeProcessDoorbells_seen:
  assumes "handshake resets (pdo c)" "VnvmeProcessDoorbells os c = Some (w, c')"
  shows "cc_seen resets (pdo c) (pdo c')"
proof -
  obtain w1 c1 where cc: "doorbell_cc c = Some (w1, c1)" "cc_seen resets (pdo c) (pdo c1)"
    using doorbell_cc_seen [OF assms(1)] by blast
  have "pdo_Doorbells (pdo c)" "pdo_Registers (pdo c)"
    using assms(1) by (auto simp: handshake_def bar0_wf_def)
  with assms(2) cc(1) have "ctl (pdo c') = ctl (pdo c1)"
    by (auto simp: VnvmeProcessDoorbells_def Let_def split: if_split_asm Option.bind_split_asm dest!: ctl_frame)
  with cc(2) show ?thesis using cc_seen_ctl [OF refl] by blast
qed

lemma VnvmeEvtPollingTimer_seen:
  assumes "handshake resets (pdo c)" "VnvmeEvtPollingTimer os now others c = Some (others', c', due)"
  shows "cc_seen resets (pdo c) (pdo c')"
proof -
  from assms(2) obtain c1 w c2 where r: "ctl (pdo c1) = ctl (pdo c)" "VnvmeProcessDoorbells os c1 = Some (w, c2)"
    "c' = AdjustPollingInterval w c2"
    by (auto simp: VnvmeEvtPollingTimer_def Let_def split: option.split_asm if_split_asm Option.bind_split_asm dest!: ctl_frame)
  have "cc_seen resets (pdo c1) (pdo c2)"
    using VnvmeProcessDoorbells_seen [OF _ r(2)] assms(1) handshake_ctl [OF r(1)] by simp
  moreover have "ctl (pdo c') = ctl (pdo c2)" by (simp add: r(3) AdjustPollingInterval_def Let_def)
  ultimately show ?thesis using cc_seen_ctl [OF r(1) [symmetric]] by blast
qed

interpretation ctrl: step_invariant "ctrl_step resets" "\<lambda>s. handshake resets (pdo (snd s))" for resets
proof
  fix s s' :: "children \<times> vnvme_ctx"
  assume "handshake resets (pdo (snd s))" "ctrl_step resets s s'"
  then show "handshake resets (pdo (snd s'))"
    by (auto elim!: ctrl_stepE intro: handshake_host_write cc_seen_handshake [OF VnvmeEvtPollingTimer_seen])
qed

lemma handshake_allocated: "handshake resets (snd (VnvmeAllocateBar0 (Some (m, phys)) p))"
  by (simp add: handshake_def csts_ok_def VnvmeAllocateBar0_def VnvmeInitializeBar0Registers_def Let_def bar0_wf_def csts_of_def mem_simps)


text \<open>A fresh controller, the host setting CC.EN, and one run of the timer.\<close>

definition example_bar :: mem where
  "example_bar = wr64 REG_ACQ 0 (wr64 REG_ASQ 0 (wr32 REG_AQA 0 (wr32 REG_CSTS 0 (wr32 REG_CC 0 (wr32 REG_INTMC 0
     (wr32 REG_INTMS 0 (wr32 REG_VS 0x00010400 (wr64 REG_CAP 0x0028000000010FFF (zero_range 0 VNVME_BAR0_SIZE (\<lambda>_. 0))))))))))"

definition example_ctl_pdo :: "VNVME_PDO_CONTEXT" where
  "example_ctl_pdo = snd (VnvmeAllocateBar0 (Some (\<lambda>_. 0, 0x1000)) zero_PDO_CONTEXT)"

definition example_ctl_ctx :: vnvme_ctx where
  "example_ctl_ctx = \<lparr>g_Config = g_Config_init, g_FdoContext = None, pdo = example_ctl_pdo, host = (\<lambda>_. 0)\<rparr>"

definition example_enabled_ctx :: vnvme_ctx where
  "example_enabled_ctx = example_ctl_ctx\<lparr>pdo := example_ctl_pdo\<lparr>pdo_Bar0 := Some (wr32 REG_CC 1 example_bar)\<rparr>\<rparr>"

lemma example_enable_step: "ctrl_step False (others, example_ctl_ctx) (others, example_enabled_ctx)"
  unfolding example_enabled_ctx_def
  by (rule ctrl_step.host_write [where Offset = "0x14" and Value = 1])
    (simp_all add: example_ctl_ctx_def example_ctl_pdo_def VnvmeAllocateBar0_def VnvmeInitializeBar0Registers_def
      VnvmeWriteBar0Register_def bar0_write_def example_bar_def)

lemma example_timer_returns:
  "\<exists>c' due. VnvmeEvtPollingTimer (\<lambda>_ _. os_all_ok) 0 ([], []) example_enabled_ctx = Some (([], []), c', due)"
proof -
  have pdo: "pdo example_enabled_ctx = example_ctl_pdo\<lparr>pdo_Bar0 := Some (wr32 REG_CC 1 example_bar)\<rparr>"
    "g_FdoContext example_enabled_ctx = None"
    by (simp_all add: example_enabled_ctx_def example_ctl_ctx_def)
  have fields: "pdo_CachedCC example_ctl_pdo = 0" "pdo_Bar0Size example_ctl_pdo = 65536" "pdo_Registers example_ctl_pdo"
    "pdo_Doorbells example_ctl_pdo" "pdo_IoQueueCount example_ctl_pdo = 0" "pdo_LastAdminSqTail example_ctl_pdo = 0"
    "pdo_LastAdminCqHead example_ctl_pdo = 0"
    by (simp_all add: example_ctl_pdo_def VnvmeAllocateBar0_def VnvmeInitializeBar0Registers_def zero_PDO_CONTEXT_def)
  have zero: "zero_range 0 VNVME_BAR0_SIZE (\<lambda>_. 0) = (\<lambda>_. 0)" by (simp add: zero_range_def fun_eq_iff)
  show ?thesis
    unfolding VnvmeEvtPollingTimer_def VnvmeProcessDoorbells_def Let_def
    by (simp add: pdo fields doorbell_cc_def bar_rd32_def bar_wr32_def VnvmeInitializeAdminQueues_def doorbell_admin_def
        doorbell_def check_bind doorbell_io_loop.simps [of _ _ 1] example_bar_def zero mem_simps)
qed


text \<open>C39: a subsystem reset can be missed (a defect of the driver). When the driver has taken over a CC value with CC.EN set, and the host
  resets the controller through NSSR and sets the same CC value again before the timer runs, the driver sees no change of CC:
  CC.EN is set, CSTS stays zero, so the controller is not ready, and the doorbell processing finds no work and changes nothing,
  however often it runs from there.\<close>

theorem subsystem_reset_missed:
  assumes "handshake False (pdo c)" "bit (pdo_CachedCC (pdo c)) 0"
  shows "\<exists>p bar. bar0_writes [(0x20, 0x4E564D65), (0x14, pdo_CachedCC (pdo c))] (pdo c) = Some p
    \<and> pdo_Bar0 p = Some bar \<and> bit (rd32 bar REG_CC) 0 \<and> rd32 bar REG_CSTS = 0
    \<and> VnvmeProcessDoorbells os (c\<lparr>pdo := p\<rparr>) = Some (False, c\<lparr>pdo := p\<rparr>)"
proof -
  from assms(1) obtain bar where b: "pdo_Bar0 (pdo c) = Some bar" "pdo_Bar0Size (pdo c) = 65536" "pdo_Registers (pdo c)" "pdo_Doorbells (pdo c)"
    by (auto simp: handshake_def bar0_wf_def)
  let ?bar = "wr32 REG_CC (pdo_CachedCC (pdo c)) (wr32 REG_CC 0 (wr32 REG_CSTS 0 bar))"
  have run: "bar0_writes [(0x20, 0x4E564D65), (0x14, pdo_CachedCC (pdo c))] (pdo c) = Some ((pdo c)\<lparr>pdo_Bar0 := Some ?bar\<rparr>)"
    using b by (simp add: VnvmeWriteBar0Register_def bar0_write_def)
  show ?thesis
    unfolding run using b assms(2)
    by (auto simp: VnvmeProcessDoorbells_def doorbell_cc_def bar_rd32_def Let_def mem_simps)
qed

text \<open>The property at the enabled controller of the example.\<close>

theorem subsystem_reset_missed_witness:
  "\<exists>p bar. bar0_writes [(0x20, 0x4E564D65), (0x14, 1)]
      (example_ctl_pdo\<lparr>pdo_CachedCC := 1, pdo_Bar0 := Some (wr32 REG_CSTS 1 (wr32 REG_CC 1 example_bar))\<rparr>) = Some p
    \<and> pdo_Bar0 p = Some bar \<and> bit (rd32 bar REG_CC) 0 \<and> rd32 bar REG_CSTS = 0"
proof -
  let ?p = "example_ctl_pdo\<lparr>pdo_CachedCC := 1, pdo_Bar0 := Some (wr32 REG_CSTS 1 (wr32 REG_CC 1 example_bar))\<rparr>"
  let ?c = "example_ctl_ctx\<lparr>pdo := ?p\<rparr>"
  have "handshake False (pdo ?c)" "bit (pdo_CachedCC (pdo ?c)) 0"
    by (simp_all add: handshake_def csts_ok_def bar0_wf_def csts_of_def mem_simps example_ctl_pdo_def VnvmeAllocateBar0_def
        VnvmeInitializeBar0Registers_def)
  from subsystem_reset_missed [OF this, of "\<lambda>_ _. os_all_ok"] show ?thesis by auto
qed

end
