(* ===== verification/Vnvme_Abort.thy ===== *)
theory Vnvme_Abort
  imports Vnvme_Forward
begin

text \<open>
  What aborting the commands of a vanished service does: every pending command of a queue pair gets a completion with
  Internal Error, in order, with the right phase, and the submission queue is empty afterwards; and the
  case in which the loop never ends.
\<close>

section \<open>One completion\<close>

definition aborted :: "mem \<Rightarrow> nat \<Rightarrow> nat \<Rightarrow> u16 \<Rightarrow> u8 \<Rightarrow> NVME_COMPLETION" where
  "aborted m cmd head sqid phase =
     \<lparr>cqe_DW0 = 0, cqe_DW1 = 0, cqe_SQHD = of_nat head, cqe_SQID = sqid, cqe_CID = CID (rd_NVME_COMMAND m cmd),
      cqe_Status = 0x000C OR ucast phase\<rparr>"

lemma MakeAbortStatus_bits: "MakeAbortStatus phase = 0x000C OR ucast phase"
  unfolding MakeAbortStatus_def by (rule bit_word_eqI) (auto simp: bit_simps dest: bit_imp_le_length)

lemma abort_entry_outside: "x < a \<or> a + 16 \<le> x \<Longrightarrow> abort_entry cmd a head sqid phase m x = m x"
  by (auto simp: abort_entry_def Let_def wr16_outside wr32_outside)

lemma CID_same_outside:
  assumes "same_outside S m m'" "{cmd..<cmd + 64} \<inter> S = {}"
  shows "CID (rd_NVME_COMMAND m' cmd) = CID (rd_NVME_COMMAND m cmd)"
proof -
  have "m' x = m x" if "cmd \<le> x" "x < cmd + 64" for x
    using assms that by (intro same_outsideD [OF assms(1)]) auto
  then show ?thesis by (auto simp: rd_NVME_COMMAND_def intro!: rd16_eqI)
qed

lemma rd_abort_entry:
  assumes "{cmd..<cmd + 64} \<inter> {a..<a + 16} = {}"
  shows "rd_NVME_COMPLETION (abort_entry cmd a head sqid phase m) a = aborted m cmd (unat head) sqid phase"
proof -
  let ?m = "wr16 (a + 10) sqid (wr16 (a + 8) (ucast head) (wr32 (a + 4) 0 (wr32 a 0 m)))"
  have "same_outside {a..<a + 16} m ?m"
    by (auto simp: same_outside_def wr16_outside wr32_outside)
  then have "CID (rd_NVME_COMMAND ?m cmd) = CID (rd_NVME_COMMAND m cmd)"
    using assms by (rule CID_same_outside)
  then show ?thesis
    by (simp add: abort_entry_def Let_def rd_NVME_COMPLETION_def aborted_def MakeAbortStatus_bits mem_simps)
qed

section \<open>The loop\<close>

text \<open>The phase of the \<open>j\<close>-th completion of a ring of \<open>N\<close> entries that starts at \<open>ct\<close> with phase \<open>ph\<close>, and the slots
  that \<open>k\<close> completions fill.\<close>

definition abort_phase :: "nat \<Rightarrow> nat \<Rightarrow> u8 \<Rightarrow> nat \<Rightarrow> u8" where
  "abort_phase N ct ph j = (if ct + j < N then ph else if ph = 0 then 1 else 0)"

definition abort_slots :: "nat \<Rightarrow> nat \<Rightarrow> nat \<Rightarrow> nat \<Rightarrow> nat set" where
  "abort_slots cq N ct k = (\<Union>j<k. {cq + 16 * ((ct + j) mod N)..<cq + 16 * ((ct + j) mod N) + 16})"

lemma abort_slots_Suc:
  "ct < N \<Longrightarrow> abort_slots cq N ct (Suc k) = {cq + 16 * ct..<cq + 16 * ct + 16} \<union> abort_slots cq N (Suc ct mod N) k"
  unfolding abort_slots_def lessThan_Suc_eq_insert_0 by (simp add: mod_add_left_eq)

lemma abort_slots_region:
  assumes "0 < N"
  shows "abort_slots cq N ct k \<subseteq> {cq..<cq + 16 * N}"
proof
  fix x assume "x \<in> abort_slots cq N ct k"
  then obtain j where j: "cq + 16 * ((ct + j) mod N) \<le> x" "x < cq + 16 * ((ct + j) mod N) + 16"
    by (auto simp: abort_slots_def)
  have "(ct + j) mod N < N" using assms by simp
  with j show "x \<in> {cq..<cq + 16 * N}" unfolding atLeastLessThan_iff by linarith
qed

lemma abort_slots_fresh:
  assumes "ct < N" "k < N"
  shows "{cq + 16 * ct..<cq + 16 * ct + 16} \<inter> abort_slots cq N (Suc ct mod N) k = {}"
proof -
  have "(Suc ct mod N + j) mod N \<noteq> ct" if "j < k" for j
    using assms that by (auto simp: mod_add_left_eq mod_if split: if_splits)
  then have "\<forall>j<k. (Suc ct mod N + j) mod N < ct \<or> ct < (Suc ct mod N + j) mod N"
    by (metis nat_neq_iff)
  then show ?thesis by (auto simp: abort_slots_def)
qed

lemma abort_phase_Suc:
  assumes "ct < N" "j < N"
  shows "abort_phase N ct ph (Suc j)
    = abort_phase N (Suc ct mod N) (if Suc ct mod N = 0 then if ph = 0 then 1 else 0 else ph) j"
  using assms by (auto simp: abort_phase_def mod_Suc)

lemma abort_entry_frame: "same_outside {a..<a + 16} m (abort_entry cmd a head sqid phase m)"
  unfolding same_outside_def using abort_entry_outside by (auto simp: not_le)

lemma abort_loop_step:
  fixes h ct N :: u32 and ph :: u8 and sqid :: u16
  assumes "h \<noteq> t" "ct < N" "\<And>m'. same_outside {cq..<cq + 16 * unat N} m m' \<Longrightarrow> cqCap m' = N"
    and "sq + 64 * unat h + 64 \<le> VNVME_SHM_SIZE" "cq + 16 * unat N \<le> VNVME_SHM_SIZE"
  defines "m1 \<equiv> abort_entry (sq + 64 * unat h) (cq + 16 * unat ct) h sqid ph m"
  shows "abort_loop sq cq sqid n cqCap reduce t h ct ph cnt m =
    abort_loop sq cq sqid n cqCap reduce t ((h + 1) mod n) ((ct + 1) mod N)
      (if (ct + 1) mod N = 0 then (if ph = 0 then 1 else 0) else ph) (cnt + 1) m1"
proof -
  have ct: "unat ct < unat N" "ct mod N = ct" using assms(2) by (simp_all add: word_less_nat_alt mod_word_less)
  have "same_outside {cq..<cq + 16 * unat N} m m1"
    unfolding m1_def by (rule same_outside_mono [OF abort_entry_frame]) (use ct(1) in auto)
  then have cap: "cqCap m = N" "cqCap m1 = N"
    using assms(3) by auto
  have "N \<noteq> 0" "cq + 16 * unat ct + 16 \<le> VNVME_SHM_SIZE" using ct(1) assms(5) by auto
  moreover have "(if reduce then ct mod cqCap m else ct) = ct" using cap ct by simp
  ultimately show ?thesis
    using assms(1,4) cap ct
    by (cases reduce) (simp_all add: abort_loop.simps [of sq cq sqid n cqCap _ t h] Let_def check_bind m1_def [symmetric] split del: if_split)
qed

lemma abort_loop_completes:
  fixes h t n ct N :: u32
  assumes "h < n" "t < n" "ct < N" "ring_dist (unat h) (unat t) (unat n) = k" "k \<le> unat N"
    and "sq + 64 * unat n \<le> VNVME_SHM_SIZE" "cq + 16 * unat N \<le> VNVME_SHM_SIZE"
    and "{sq..<sq + 64 * unat n} \<inter> {cq..<cq + 16 * unat N} = {}"
    and "\<And>m'. same_outside {cq..<cq + 16 * unat N} m m' \<Longrightarrow> cqCap m' = N"
  shows "\<exists>ct' m'. abort_loop sq cq sqid n cqCap reduce t h ct ph cnt m
      = Some (ct', abort_phase (unat N) (unat ct) ph k, cnt + of_nat k, m')
    \<and> unat ct' = (unat ct + k) mod unat N
    \<and> same_outside (abort_slots cq (unat N) (unat ct) k) m m'
    \<and> (\<forall>j<k. rd_NVME_COMPLETION m' (cq + 16 * ((unat ct + j) mod unat N))
        = aborted m (sq + 64 * ((unat h + j) mod unat n)) ((unat h + j) mod unat n) sqid (abort_phase (unat N) (unat ct) ph j))"
  using assms(1,3,4,5,9)
proof (induction k arbitrary: h ct ph cnt m)
  case 0
  have "h = t"
    using 0 assms(2) ring_dist_zero_iff [of "unat h" "unat n" "unat t"] by (simp add: word_less_nat_alt word_unat_eq_iff)
  with 0 show ?case
    by (subst abort_loop.simps) (auto simp: abort_phase_def abort_slots_def word_less_nat_alt same_outside_def)
next
  case (Suc k)
  let ?slot = "cq + 16 * unat ct" and ?cmd = "sq + 64 * unat h"
  let ?ct = "(ct + 1) mod N" and ?h = "(h + 1) mod n" and ?ph = "if (ct + 1) mod N = 0 then (if ph = 0 then 1 else 0) else ph"
  define m1 where "m1 = abort_entry ?cmd ?slot h sqid ph m"
  have less: "unat h < unat n" "unat t < unat n" "unat ct < unat N"
    using Suc.prems(1,2) assms(2) by (simp_all add: word_less_nat_alt)
  have "h \<noteq> t" using Suc.prems(3) by (auto simp: ring_dist_def)
  have next_u: "unat ?h = Suc (unat h) mod unat n" "unat ?ct = Suc (unat ct) mod unat N"
    using unat_word_suc_mod Suc.prems(1,2) by blast+
  have zero: "?ct = 0 \<longleftrightarrow> Suc (unat ct) mod unat N = 0"
    using next_u(2) by (simp add: unat_eq_0 [symmetric])
  have fits: "?cmd + 64 \<le> VNVME_SHM_SIZE" using less(1) assms(6) by linarith
  have step: "abort_loop sq cq sqid n cqCap reduce t h ct ph cnt m = abort_loop sq cq sqid n cqCap reduce t ?h ?ct ?ph (cnt + 1) m1"
    unfolding m1_def by (rule abort_loop_step [OF \<open>h \<noteq> t\<close> Suc.prems(2) _ fits assms(7)]) (rule Suc.prems(5))
  have near: "same_outside {?slot..<?slot + 16} m m1"
    unfolding m1_def by (rule abort_entry_frame)
  have sub: "{?slot..<?slot + 16} \<subseteq> {cq..<cq + 16 * unat N}" "{?cmd..<?cmd + 64} \<subseteq> {sq..<sq + 64 * unat n}"
    using less by auto
  have wide: "same_outside {cq..<cq + 16 * unat N} m m1"
    by (rule same_outside_mono [OF near sub(1)])
  have dist: "ring_dist (unat ?h) (unat t) (unat n) = k"
    using ring_dist_step [OF less(1,2)] \<open>h \<noteq> t\<close> Suc.prems(3) next_u by (simp add: word_unat_eq_iff)
  have bounds: "?h < n" "?ct < N" "k \<le> unat N"
    using Suc.prems(1,2,4) by (auto intro!: word_suc_mod_less simp: word_gt_0)
  have caps: "cqCap m' = N" if "same_outside {cq..<cq + 16 * unat N} m1 m'" for m'
    using Suc.prems(5) same_outside_trans [OF wide that] by blast
  from Suc.IH [OF bounds(1,2) dist bounds(3) caps, where ph = ?ph and cnt = "cnt + 1"] obtain ct' m' where
    r: "abort_loop sq cq sqid n cqCap reduce t ?h ?ct ?ph (cnt + 1) m1
        = Some (ct', abort_phase (unat N) (unat ?ct) ?ph k, cnt + 1 + of_nat k, m')"
      "unat ct' = (unat ?ct + k) mod unat N" "same_outside (abort_slots cq (unat N) (unat ?ct) k) m1 m'"
      "\<forall>j<k. rd_NVME_COMPLETION m' (cq + 16 * ((unat ?ct + j) mod unat N))
        = aborted m1 (sq + 64 * ((unat ?h + j) mod unat n)) ((unat ?h + j) mod unat n) sqid (abort_phase (unat N) (unat ?ct) ?ph j)"
    by blast
  have phase: "abort_phase (unat N) (unat ?ct) ?ph j = abort_phase (unat N) (unat ct) ph (Suc j)" if "j < unat N" for j
    unfolding abort_phase_Suc [OF less(3) that] next_u zero ..
  have fresh: "{?slot..<?slot + 16} \<inter> abort_slots cq (unat N) (unat ?ct) k = {}"
    unfolding next_u using Suc.prems(4) by (intro abort_slots_fresh less(3)) simp
  have frame: "same_outside (abort_slots cq (unat N) (unat ct) (Suc k)) m m'"
    unfolding abort_slots_Suc [OF less(3)] next_u(2) [symmetric]
    by (rule same_outside_trans [OF same_outside_mono [OF near Un_upper1] same_outside_mono [OF r(3) Un_upper2]])
  have first: "rd_NVME_COMPLETION m' ?slot = aborted m ?cmd (unat h) sqid ph"
  proof -
    have "rd_NVME_COMPLETION m' ?slot = rd_NVME_COMPLETION m1 ?slot"
      using fresh by (intro rd_NVME_COMPLETION_eqI same_outsideD [OF r(3)]) auto
    also have "\<dots> = aborted m ?cmd (unat h) sqid ph"
      unfolding m1_def using sub assms(8) by (intro rd_abort_entry) blast
    finally show ?thesis .
  qed
  have cmds: "aborted m1 (sq + 64 * (i mod unat n)) hd sqid p = aborted m (sq + 64 * (i mod unat n)) hd sqid p" for i hd p
  proof -
    have "i mod unat n < unat n" using less(1) by simp
    then have "{sq + 64 * (i mod unat n)..<sq + 64 * (i mod unat n) + 64} \<subseteq> {sq..<sq + 64 * unat n}" by auto
    with assms(8) show ?thesis unfolding aborted_def by (subst CID_same_outside [OF wide]) auto
  qed
  have entries: "rd_NVME_COMPLETION m' (cq + 16 * ((unat ct + j) mod unat N))
      = aborted m (sq + 64 * ((unat h + j) mod unat n)) ((unat h + j) mod unat n) sqid (abort_phase (unat N) (unat ct) ph j)"
    if "j < Suc k" for j
  proof (cases j)
    case 0
    with first less show ?thesis by (simp add: abort_phase_def)
  next
    case (Suc i)
    with that Suc.prems(4) have i: "i < k" "i < unat N" by simp_all
    have idx: "(unat ?ct + i) mod unat N = (unat ct + j) mod unat N" "(unat ?h + i) mod unat n = (unat h + j) mod unat n"
      unfolding next_u Suc by (simp_all add: mod_add_left_eq)
    from r(4) [rule_format, OF i(1)] show ?thesis
      unfolding cmds phase [OF i(2)] Suc [symmetric] idx .
  qed
  have last: "abort_phase (unat N) (unat ?ct) ?ph k = abort_phase (unat N) (unat ct) ph (Suc k)"
    using Suc.prems(4) by (intro phase) simp
  have tail: "unat ct' = (unat ct + Suc k) mod unat N"
    unfolding r(2) next_u by (simp add: mod_add_left_eq)
  have run: "abort_loop sq cq sqid n cqCap reduce t h ct ph cnt m
      = Some (ct', abort_phase (unat N) (unat ct) ph (Suc k), cnt + of_nat (Suc k), m')"
    unfolding step r(1) last by simp
  from run tail frame entries show ?case by blast
qed

section \<open>A queue pair\<close>

text \<open>The rings of a queue pair whose descriptors are at \<open>d\<close> and \<open>d + 32\<close>.\<close>

definition sq_region :: "mem \<Rightarrow> nat \<Rightarrow> nat set" where
  "sq_region m d = {unat (qd_Offset m d)..<unat (qd_Offset m d) + 64 * unat (qd_Capacity m d)}"

definition cq_region :: "mem \<Rightarrow> nat \<Rightarrow> nat set" where
  "cq_region m d = {unat (qd_Offset m (d + 32))..<unat (qd_Offset m (d + 32)) + 16 * unat (qd_Capacity m (d + 32))}"

text \<open>A pair whose pending commands fit the completion queue, with its rings apart from each other and from its
  descriptors; the number of its pending commands.\<close>

definition pending_count :: "mem \<Rightarrow> nat \<Rightarrow> nat" where
  "pending_count m d = ring_dist (unat (qd_Head m d)) (unat (qd_Tail m d)) (unat (qd_Capacity m d))"

definition abort_pair_ok :: "mem \<Rightarrow> nat \<Rightarrow> bool" where
  "abort_pair_ok m d \<longleftrightarrow>
      qd_Head m d < qd_Capacity m d \<and> qd_Tail m d < qd_Capacity m d \<and> qd_Tail m (d + 32) < qd_Capacity m (d + 32)
      \<and> pending_count m d \<le> unat (qd_Capacity m (d + 32))
      \<and> unat (qd_Offset m d) + 64 * unat (qd_Capacity m d) \<le> VNVME_SHM_SIZE
      \<and> unat (qd_Offset m (d + 32)) + 16 * unat (qd_Capacity m (d + 32)) \<le> VNVME_SHM_SIZE
      \<and> sq_region m d \<inter> cq_region m d = {} \<and> {d..<d + 64} \<inter> (sq_region m d \<union> cq_region m d) = {}"

text \<open>What aborting leaves in the memory \<open>m'\<close> for the pair at \<open>d\<close> in \<open>m\<close>: a completion for every pending command, in order, and an
  empty submission queue.\<close>

definition pair_aborted :: "mem \<Rightarrow> mem \<Rightarrow> nat \<Rightarrow> u16 \<Rightarrow> bool" where
  "pair_aborted m m' d sqid \<longleftrightarrow>
     (let n = unat (qd_Capacity m d); N = unat (qd_Capacity m (d + 32)); h = unat (qd_Head m d); ct = unat (qd_Tail m (d + 32)) in
      qd_Head m' d = qd_Tail m d \<and> qd_Tail m' d = qd_Tail m d
      \<and> unat (qd_Tail m' (d + 32)) = (ct + pending_count m d) mod N
      \<and> (\<forall>j<pending_count m d. rd_NVME_COMPLETION m' (unat (qd_Offset m (d + 32)) + 16 * ((ct + j) mod N))
          = aborted m (unat (qd_Offset m d) + 64 * ((h + j) mod n)) ((h + j) mod n) sqid
              (abort_phase N ct (ucast (qd_Phase m (d + 32))) j)))"

definition pair_writes :: "mem \<Rightarrow> nat \<Rightarrow> nat set" where
  "pair_writes m d = cq_region m d \<union> {d..<d + 64}"

definition abort_finish :: "nat \<Rightarrow> u32 \<Rightarrow> u32 \<Rightarrow> u8 \<Rightarrow> mem \<Rightarrow> mem" where
  "abort_finish d t ct ph m = qd_set_Phase (d + 32) (ucast ph) (qd_set_Tail (d + 32) ct (qd_set_Head d t m))"

lemma abort_finish_outside: "x < d \<or> d + 64 \<le> x \<Longrightarrow> abort_finish d t ct ph m x = m x"
  by (auto simp: abort_finish_def qd_set_defs wr32_outside)

lemma abort_finish_reads:
  "qd_Head (abort_finish d t ct ph m) d = t" "qd_Tail (abort_finish d t ct ph m) d = qd_Tail m d"
  "qd_Tail (abort_finish d t ct ph m) (d + 32) = ct"
  by (simp_all add: abort_finish_def qd_defs mem_simps)

text \<open>The facts about a pair depend on its descriptors and rings only.\<close>

lemma qd_same_outside:
  assumes "same_outside S m m'" "S \<inter> {d..<d + 64} = {}"
  shows "qd_Offset m' d = qd_Offset m d" "qd_Capacity m' d = qd_Capacity m d" "qd_Valid m' d = qd_Valid m d"
    "qd_Head m' d = qd_Head m d" "qd_Tail m' d = qd_Tail m d" "qd_Offset m' (d + 32) = qd_Offset m (d + 32)"
    "qd_Capacity m' (d + 32) = qd_Capacity m (d + 32)" "qd_Tail m' (d + 32) = qd_Tail m (d + 32)" "qd_Phase m' (d + 32) = qd_Phase m (d + 32)"
proof -
  have rd: "rd32 m' a = rd32 m a" if "d \<le> a" "a + 4 \<le> d + 64" for a
    by (rule rd32_same_outside [OF assms(1)]) (use assms(2) that in auto)
  show "qd_Offset m' d = qd_Offset m d" "qd_Capacity m' d = qd_Capacity m d" "qd_Valid m' d = qd_Valid m d"
    "qd_Head m' d = qd_Head m d" "qd_Tail m' d = qd_Tail m d" "qd_Offset m' (d + 32) = qd_Offset m (d + 32)"
    "qd_Capacity m' (d + 32) = qd_Capacity m (d + 32)" "qd_Tail m' (d + 32) = qd_Tail m (d + 32)" "qd_Phase m' (d + 32) = qd_Phase m (d + 32)"
    unfolding qd_get_defs by (rule rd; simp)+
qed

lemma slot_in_region:
  fixes N :: nat
  assumes "0 < N"
  shows "{a + k * (x mod N)..<a + k * (x mod N) + k} \<subseteq> {a..<a + k * N}"
proof -
  have "k * (x mod N) + k \<le> k * N"
    using assms by (metis Suc_leI mod_less_divisor mult_Suc_right mult_le_mono2 add.commute)
  then show ?thesis by auto
qed

lemma abort_pair_run:
  fixes d :: nat
  assumes "abort_pair_ok m d"
    and "\<And>m'. same_outside (cq_region m d) m m' \<Longrightarrow> cqCap m' = qd_Capacity m (d + 32)"
  shows "\<exists>ct ph m1. abort_loop (unat (qd_Offset m d)) (unat (qd_Offset m (d + 32))) sqid (qd_Capacity m d) cqCap reduce
        (qd_Tail m d) (qd_Head m d) (qd_Tail m (d + 32)) (ucast (qd_Phase m (d + 32))) cnt m
      = Some (ct, ph, cnt + of_nat (pending_count m d), m1)
    \<and> pair_aborted m (abort_finish d (qd_Tail m d) ct ph m1) d sqid
    \<and> same_outside (pair_writes m d) m (abort_finish d (qd_Tail m d) ct ph m1)"
proof -
  let ?n = "qd_Capacity m d" and ?N = "qd_Capacity m (d + 32)" and ?sq = "unat (qd_Offset m d)"
  let ?cq = "unat (qd_Offset m (d + 32))" and ?h = "qd_Head m d" and ?t = "qd_Tail m d" and ?ct = "qd_Tail m (d + 32)"
  let ?k = "pending_count m d" and ?ph = "ucast (qd_Phase m (d + 32)) :: u8"
  from assms(1) have ok: "?h < ?n" "?t < ?n" "?ct < ?N" "?k \<le> unat ?N"
    and apart: "sq_region m d \<inter> cq_region m d = {}" "{d..<d + 64} \<inter> cq_region m d = {}"
    by (auto simp: abort_pair_ok_def)
  have pos: "0 < unat ?n" "0 < unat ?N" "unat ?ct < unat ?N" using ok by (auto simp: word_less_nat_alt)
  have fits: "?sq + 64 * unat ?n \<le> VNVME_SHM_SIZE" "?cq + 16 * unat ?N \<le> VNVME_SHM_SIZE"
    using assms(1) by (simp_all add: abort_pair_ok_def)
  have dist: "ring_dist (unat ?h) (unat ?t) (unat ?n) = ?k" by (simp add: pending_count_def)
  have cap: "cqCap m' = ?N" if "same_outside {?cq..<?cq + 16 * unat ?N} m m'" for m'
    using assms(2) that by (simp add: cq_region_def)
  from abort_loop_completes [where cqCap = cqCap and reduce = reduce and ph = ?ph and cnt = cnt and sqid = sqid and m = m,
      OF ok(1-3) dist ok(4) fits apart(1) [unfolded sq_region_def cq_region_def] cap]
  obtain ct m1 where r: "abort_loop ?sq ?cq sqid ?n cqCap reduce ?t ?h ?ct ?ph cnt m
      = Some (ct, abort_phase (unat ?N) (unat ?ct) ?ph ?k, cnt + of_nat ?k, m1)"
    "unat ct = (unat ?ct + ?k) mod unat ?N" "same_outside (abort_slots ?cq (unat ?N) (unat ?ct) ?k) m m1"
    "\<forall>j<?k. rd_NVME_COMPLETION m1 (?cq + 16 * ((unat ?ct + j) mod unat ?N))
        = aborted m (?sq + 64 * ((unat ?h + j) mod unat ?n)) ((unat ?h + j) mod unat ?n) sqid
            (abort_phase (unat ?N) (unat ?ct) ?ph j)"
    by blast
  let ?p = "abort_phase (unat ?N) (unat ?ct) ?ph ?k"
  let ?m' = "abort_finish d ?t ct ?p m1"
  have loop: "same_outside (cq_region m d) m m1"
    unfolding cq_region_def by (rule same_outside_mono [OF r(3) abort_slots_region [OF pos(2)]])
  have "same_outside {d..<d + 64} m1 ?m'"
    unfolding same_outside_def using abort_finish_outside by (auto simp: not_le)
  then have frame: "same_outside (pair_writes m d) m ?m'"
    unfolding pair_writes_def
    by (rule same_outside_trans [OF same_outside_mono [OF loop Un_upper1] same_outside_mono [OF _ Un_upper2]])
  have tail: "qd_Tail m1 d = ?t"
    using apart(2) by (intro qd_same_outside(5) [OF loop]) blast
  have "rd_NVME_COMPLETION ?m' (?cq + 16 * (x mod unat ?N)) = rd_NVME_COMPLETION m1 (?cq + 16 * (x mod unat ?N))" for x
  proof (intro rd_NVME_COMPLETION_eqI abort_finish_outside)
    fix y assume "?cq + 16 * (x mod unat ?N) \<le> y" "y < ?cq + 16 * (x mod unat ?N) + 16"
    then have "y \<in> cq_region m d" using slot_in_region [OF pos(2), of ?cq 16 x] by (auto simp: cq_region_def)
    with apart(2) have "y \<notin> {d..<d + 64}" by blast
    then show "y < d \<or> d + 64 \<le> y" by auto
  qed
  then have "pair_aborted m ?m' d sqid"
    unfolding pair_aborted_def Let_def abort_finish_reads tail using r(2,4) by simp
  with r(1) frame show ?thesis by blast
qed

text \<open>With nothing pending there is nothing to do.\<close>

lemma pair_aborted_empty:
  assumes "qd_Head m d = qd_Tail m d" "qd_Tail m (d + 32) < qd_Capacity m (d + 32)"
  shows "pair_aborted m m d sqid" "pending_count m d = 0"
  using assms by (simp_all add: pair_aborted_def Let_def pending_count_def ring_dist_def word_less_nat_alt)

section \<open>All I/O queues\<close>

text \<open>The descriptors of queue pair \<open>i\<close>; whether aborting looks at it; and the pairs of a list being well-formed and apart.\<close>

definition io_desc :: "nat \<Rightarrow> nat \<Rightarrow> nat" where
  "io_desc ioDescs i = ioDescs + 64 * i"

definition pair_active :: "VNVME_PDO_CONTEXT \<Rightarrow> mem \<Rightarrow> nat \<Rightarrow> nat \<Rightarrow> bool" where
  "pair_active p m ioDescs i \<longleftrightarrow> qs_Created (pdo_IoSq p ! i) \<and> qd_Valid m (io_desc ioDescs i) \<noteq> 0"

definition io_pairs_ok :: "VNVME_PDO_CONTEXT \<Rightarrow> mem \<Rightarrow> nat \<Rightarrow> nat list \<Rightarrow> bool" where
  "io_pairs_ok p m ioDescs is \<longleftrightarrow> distinct is
     \<and> (\<forall>i\<in>set is. i < length (pdo_IoSq p) \<and> io_desc ioDescs i + 64 \<le> VNVME_SHM_SIZE)
     \<and> (\<forall>i\<in>set is. pair_active p m ioDescs i \<longrightarrow> abort_pair_ok m (io_desc ioDescs i)
         \<and> (\<forall>j\<in>set is. j \<noteq> i \<longrightarrow>
             {io_desc ioDescs j..<io_desc ioDescs j + 64} \<inter> (sq_region m (io_desc ioDescs i) \<union> cq_region m (io_desc ioDescs i)) = {}
             \<and> (pair_active p m ioDescs j \<longrightarrow>
                 cq_region m (io_desc ioDescs j) \<inter> (sq_region m (io_desc ioDescs i) \<union> cq_region m (io_desc ioDescs i)) = {})))"

lemma pair_same_outside:
  assumes "same_outside S m m'" "S \<inter> {d..<d + 64} = {}"
  shows "sq_region m' d = sq_region m d" "cq_region m' d = cq_region m d" "pending_count m' d = pending_count m d"
    "abort_pair_ok m' d = abort_pair_ok m d"
  unfolding abort_pair_ok_def sq_region_def cq_region_def pending_count_def qd_same_outside [OF assms] by (rule refl)+

lemma pair_aborted_earlier:
  assumes "pair_aborted m1 m' d sqid" "same_outside S m m1" "S \<inter> {d..<d + 64} = {}" "S \<inter> sq_region m d = {}"
    and "qd_Head m d < qd_Capacity m d"
  shows "pair_aborted m m' d sqid"
proof -
  have pos: "0 < unat (qd_Capacity m d)" using assms(5) by (auto simp: word_less_nat_alt)
  have "aborted m1 (unat (qd_Offset m d) + 64 * (x mod unat (qd_Capacity m d))) hd sqid p
      = aborted m (unat (qd_Offset m d) + 64 * (x mod unat (qd_Capacity m d))) hd sqid p" for x hd p
    using slot_in_region [OF pos, of "unat (qd_Offset m d)" 64 x] assms(4)
    unfolding aborted_def sq_region_def by (subst CID_same_outside [OF assms(2)]) auto
  with assms(1) show ?thesis
    unfolding pair_aborted_def Let_def qd_same_outside [OF assms(2,3)] pair_same_outside [OF assms(2,3)] by simp
qed

lemma pair_aborted_later:
  assumes "pair_aborted m m1 d sqid" "same_outside S m1 m'" "S \<inter> {d..<d + 64} = {}" "S \<inter> cq_region m d = {}"
    and "qd_Tail m (d + 32) < qd_Capacity m (d + 32)"
  shows "pair_aborted m m' d sqid"
proof -
  have pos: "0 < unat (qd_Capacity m (d + 32))" using assms(5) by (auto simp: word_less_nat_alt)
  have "rd_NVME_COMPLETION m' (unat (qd_Offset m (d + 32)) + 16 * (x mod unat (qd_Capacity m (d + 32))))
      = rd_NVME_COMPLETION m1 (unat (qd_Offset m (d + 32)) + 16 * (x mod unat (qd_Capacity m (d + 32))))" for x
  proof (intro rd_NVME_COMPLETION_eqI same_outsideD [OF assms(2)])
    fix y assume "unat (qd_Offset m (d + 32)) + 16 * (x mod unat (qd_Capacity m (d + 32))) \<le> y"
      "y < unat (qd_Offset m (d + 32)) + 16 * (x mod unat (qd_Capacity m (d + 32))) + 16"
    then have "y \<in> cq_region m d"
      using slot_in_region [OF pos, of "unat (qd_Offset m (d + 32))" 16 x] by (auto simp: cq_region_def)
    with assms(4) show "y \<notin> S" by blast
  qed
  with assms(1) show ?thesis
    unfolding pair_aborted_def Let_def qd_same_outside [OF assms(2,3)] by simp
qed

text \<open>One queue.\<close>

lemma upd_shm_same: "VnvmeShmGetControlBlock c = Some m \<Longrightarrow> upd_shm (\<lambda>_. m) c = c"
  by (cases c) (auto simp: upd_shm_def VnvmeShmGetControlBlock_def map_option_case split: option.splits)

definition io_aborted :: "vnvme_ctx \<Rightarrow> mem \<Rightarrow> vnvme_ctx \<Rightarrow> bool" where
  "io_aborted c m' c' \<longleftrightarrow> (\<exists>p'. c' = (upd_shm (\<lambda>_. m') c)\<lparr>pdo := p'\<rparr> \<and> pdo_IoSq p' = pdo_IoSq (pdo c)
     \<and> pdo_IoQueueCount p' = pdo_IoQueueCount (pdo c))"

lemma io_aborted_trans: "io_aborted c m1 c1 \<Longrightarrow> io_aborted c1 m2 c2 \<Longrightarrow> io_aborted c m2 c2"
  by (auto simp: io_aborted_def upd_shm_def option.map_comp comp_def)

lemma io_aborted_block: "io_aborted c m' c' \<Longrightarrow> VnvmeShmGetControlBlock c = Some m \<Longrightarrow> VnvmeShmGetControlBlock c' = Some m'"
  by (auto simp: io_aborted_def VnvmeShmGetControlBlock_def upd_shm_def split: option.splits)

lemma abort_io_queue_step:
  assumes "VnvmeShmGetControlBlock c = Some m" "i < length (pdo_IoSq (pdo c))" "io_desc ioDescs i + 64 \<le> VNVME_SHM_SIZE"
    and "pair_active (pdo c) m ioDescs i \<Longrightarrow> abort_pair_ok m (io_desc ioDescs i)"
  shows "\<exists>c' m'. abort_io_queue ioDescs i cnt c
      = Some (cnt + of_nat (if pair_active (pdo c) m ioDescs i then pending_count m (io_desc ioDescs i) else 0), c')
    \<and> io_aborted c m' c'
    \<and> (if pair_active (pdo c) m ioDescs i
       then pair_aborted m m' (io_desc ioDescs i) (of_nat (i + 1)) \<and> same_outside (pair_writes m (io_desc ioDescs i)) m m'
       else m' = m)"
proof -
  let ?d = "io_desc ioDescs i"
  have descs: "ioDescs + 2 * i * 32 = ?d" "ioDescs + (2 * i + 1) * 32 = ?d + 32" by (simp_all add: io_desc_def)
  note unfold = abort_io_queue_def Let_def descs
  have idle: "io_aborted c m c" unfolding io_aborted_def upd_shm_same [OF assms(1)] by (intro exI [of _ "pdo c"]) simp
  show ?thesis
  proof (cases "pair_active (pdo c) m ioDescs i")
    case False
    with assms(1-3) have "abort_io_queue ioDescs i cnt c = Some (cnt, c)"
      unfolding unfold pair_active_def by auto
    with False idle show ?thesis
      by (intro exI [of _ c] exI [of _ m]) simp
  next
    case True
    then have act: "qs_Created (pdo_IoSq (pdo c) ! i)" "qd_Valid m ?d \<noteq> 0" by (simp_all add: pair_active_def)
    note ok = assms(4) [OF True]
    have lt: "qd_Head m ?d < qd_Capacity m ?d" "qd_Tail m (?d + 32) < qd_Capacity m (?d + 32)"
      and apart: "cq_region m ?d \<inter> {?d..<?d + 64} = {}"
      using ok by (auto simp: abort_pair_ok_def)
    show ?thesis
    proof (cases "qd_Head m ?d = qd_Tail m ?d")
      case same: True
      note e = pair_aborted_empty [OF same lt(2)]
      have "abort_io_queue ioDescs i cnt c = Some (cnt, c)"
        using assms(1-3) act same unfolding unfold by simp
      with True e idle show ?thesis
        by (intro exI [of _ c] exI [of _ m]) (simp add: same_outside_def)
    next
      case False
      have cap: "qd_Capacity m' (?d + 32) = qd_Capacity m (?d + 32)" if "same_outside (cq_region m ?d) m m'" for m'
        by (rule qd_same_outside(7) [OF that apart])
      from abort_pair_run [where cqCap = "\<lambda>m. qd_Capacity m (?d + 32)" and reduce = True and cnt = cnt
          and sqid = "of_nat (i + 1)", OF ok cap]
      obtain ct ph m1 where r: "abort_loop (unat (qd_Offset m ?d)) (unat (qd_Offset m (?d + 32))) (of_nat (i + 1)) (qd_Capacity m ?d)
          (\<lambda>m. qd_Capacity m (?d + 32)) True (qd_Tail m ?d) (qd_Head m ?d) (qd_Tail m (?d + 32)) (ucast (qd_Phase m (?d + 32))) cnt m
          = Some (ct, ph, cnt + of_nat (pending_count m ?d), m1)"
        "pair_aborted m (abort_finish ?d (qd_Tail m ?d) ct ph m1) ?d (of_nat (i + 1))"
        "same_outside (pair_writes m ?d) m (abort_finish ?d (qd_Tail m ?d) ct ph m1)"
        by blast
      define m' where "m' = abort_finish ?d (qd_Tail m ?d) ct ph m1"
      have "qd_Capacity m ?d \<noteq> 0" using lt(1) by (auto simp: word_less_nat_alt)
      then have "abort_io_queue ioDescs i cnt c = Some (cnt + of_nat (pending_count m ?d),
          upd_pdo (upd_IoCq i (\<lambda>q. q\<lparr>qs_Tail := ct, qs_PhaseTag := (ph \<noteq> 0)\<rparr>)) (upd_shm (\<lambda>_. m') c))"
        using assms(1-3) act False r(1) unfolding unfold m'_def abort_finish_def by simp
      moreover have "io_aborted c m' (upd_pdo (upd_IoCq i f) (upd_shm (\<lambda>_. m') c))" for f
        unfolding io_aborted_def upd_pdo_def by (rule exI [of _ "upd_IoCq i f (pdo c)"]) (simp add: upd_IoCq_def)
      ultimately show ?thesis using True r(2,3) unfolding m'_def [symmetric] by auto
    qed
  qed
qed

definition pairs_pending :: "VNVME_PDO_CONTEXT \<Rightarrow> mem \<Rightarrow> nat \<Rightarrow> nat list \<Rightarrow> nat" where
  "pairs_pending p m ioDescs is = (\<Sum>i\<leftarrow>is. if pair_active p m ioDescs i then pending_count m (io_desc ioDescs i) else 0)"

definition pairs_writes :: "VNVME_PDO_CONTEXT \<Rightarrow> mem \<Rightarrow> nat \<Rightarrow> nat list \<Rightarrow> nat set" where
  "pairs_writes p m ioDescs is = (\<Union>i\<in>{i \<in> set is. pair_active p m ioDescs i}. pair_writes m (io_desc ioDescs i))"

lemma io_descs_apart: "i \<noteq> j \<Longrightarrow> {io_desc b i..<io_desc b i + 64} \<inter> {io_desc b j..<io_desc b j + 64} = {}"
  by (auto simp: io_desc_def)

text \<open>Aborting one pair, or something apart from all pairs, leaves the others as they were.\<close>

lemma io_pairs_outside:
  assumes "io_pairs_ok p m ioDescs is" "same_outside S m m'" "\<forall>i\<in>set is. S \<inter> {io_desc ioDescs i..<io_desc ioDescs i + 64} = {}"
    and "pdo_IoSq p' = pdo_IoSq p"
  shows "io_pairs_ok p' m' ioDescs is" "i \<in> set is \<Longrightarrow> pair_active p' m' ioDescs i = pair_active p m ioDescs i"
    "pairs_pending p' m' ioDescs is = pairs_pending p m ioDescs is" "pairs_writes p' m' ioDescs is = pairs_writes p m ioDescs is"
proof -
  have act: "pair_active p' m' ioDescs i = pair_active p m ioDescs i" if "i \<in> set is" for i
    using qd_same_outside(3) [OF assms(2) bspec [OF assms(3) that]] assms(4) by (simp add: pair_active_def)
  then show "i \<in> set is \<Longrightarrow> pair_active p' m' ioDescs i = pair_active p m ioDescs i" .
  note pair = pair_same_outside [OF assms(2) bspec [OF assms(3)]]
  show "io_pairs_ok p' m' ioDescs is"
    using assms(1,4) by (simp add: io_pairs_ok_def act pair)
  show "pairs_pending p' m' ioDescs is = pairs_pending p m ioDescs is"
    unfolding pairs_pending_def by (intro arg_cong [where f = sum_list] map_cong refl) (simp add: act pair)
  show "pairs_writes p' m' ioDescs is = pairs_writes p m ioDescs is"
    unfolding pairs_writes_def by (intro SUP_cong) (auto simp: act pair pair_writes_def)
qed

lemma abort_io_loop_completes:
  assumes "VnvmeShmGetControlBlock c = Some m" "io_pairs_ok (pdo c) m ioDescs is"
  shows "\<exists>c' m'. abort_io_loop ioDescs is cnt c = Some (cnt + of_nat (pairs_pending (pdo c) m ioDescs is), c')
    \<and> io_aborted c m' c' \<and> same_outside (pairs_writes (pdo c) m ioDescs is) m m'
    \<and> (\<forall>i\<in>set is. pair_active (pdo c) m ioDescs i \<longrightarrow> pair_aborted m m' (io_desc ioDescs i) (of_nat (i + 1)))"
  using assms
proof (induction "is" arbitrary: c m cnt)
  case Nil
  have "io_aborted c m c"
    unfolding io_aborted_def upd_shm_same [OF Nil(1)] by (intro exI [of _ "pdo c"]) simp
  then show ?case by (auto simp: pairs_pending_def same_outside_def)
next
  case (Cons i rest)
  let ?d = "io_desc ioDescs" and ?act = "pair_active (pdo c) m ioDescs"
  have ok: "i < length (pdo_IoSq (pdo c))" "?d i + 64 \<le> VNVME_SHM_SIZE" "?act i \<Longrightarrow> abort_pair_ok m (?d i)" "i \<notin> set rest"
    and rest: "io_pairs_ok (pdo c) m ioDescs rest"
    using Cons.prems(2) by (auto simp: io_pairs_ok_def)
  from abort_io_queue_step [OF Cons.prems(1) ok(1-3), of cnt] obtain c1 m1 where
    step: "abort_io_queue ioDescs i cnt c = Some (cnt + of_nat (if ?act i then pending_count m (?d i) else 0), c1)"
      "io_aborted c m1 c1" "?act i \<Longrightarrow> pair_aborted m m1 (?d i) (of_nat (i + 1))"
      "?act i \<Longrightarrow> same_outside (pair_writes m (?d i)) m m1" "\<not> ?act i \<Longrightarrow> m1 = m"
    by (metis (no_types, lifting))
  define S where "S = (if ?act i then pair_writes m (?d i) else {})"
  have S: "same_outside S m m1" using step(4,5) by (auto simp: S_def same_outside_def)
  have apart: "S \<inter> {?d j..<?d j + 64} = {}" "?act j \<Longrightarrow> S \<inter> sq_region m (?d j) = {}" if "j \<in> set rest" for j
  proof -
    have "j \<noteq> i" using ok(4) that by auto
    with that Cons.prems(2) have "?act i \<longrightarrow> {?d j..<?d j + 64} \<inter> cq_region m (?d i) = {}"
      "?act i \<and> ?act j \<longrightarrow> cq_region m (?d i) \<inter> sq_region m (?d j) = {}" "?act j \<longrightarrow> {?d i..<?d i + 64} \<inter> sq_region m (?d j) = {}"
      unfolding io_pairs_ok_def by auto
    with io_descs_apart [OF \<open>j \<noteq> i\<close>, of ioDescs]
    show "S \<inter> {?d j..<?d j + 64} = {}" "?act j \<Longrightarrow> S \<inter> sq_region m (?d j) = {}"
      unfolding S_def pair_writes_def by auto
  qed
  have IoSq: "pdo_IoSq (pdo c1) = pdo_IoSq (pdo c)" using step(2) by (auto simp: io_aborted_def)
  have "\<forall>j\<in>set rest. S \<inter> {?d j..<?d j + 64} = {}" using apart(1) by blast
  note same = io_pairs_outside [OF rest S this IoSq]
  have m1: "VnvmeShmGetControlBlock c1 = Some m1" by (rule io_aborted_block [OF step(2) Cons.prems(1)])
  from Cons.IH [OF m1 same(1), of "cnt + of_nat (if ?act i then pending_count m (?d i) else 0)"] obtain c' m' where
    r: "abort_io_loop ioDescs rest (cnt + of_nat (if ?act i then pending_count m (?d i) else 0)) c1
        = Some (cnt + of_nat (if ?act i then pending_count m (?d i) else 0) + of_nat (pairs_pending (pdo c) m ioDescs rest), c')"
      "io_aborted c1 m' c'" "same_outside (pairs_writes (pdo c) m ioDescs rest) m1 m'"
      "\<forall>j\<in>set rest. pair_active (pdo c1) m1 ioDescs j \<longrightarrow> pair_aborted m1 m' (?d j) (of_nat (j + 1))"
    unfolding same(3,4) by blast
  have first: "pair_aborted m m' (?d i) (of_nat (i + 1))" if "?act i"
  proof (rule pair_aborted_later [OF step(3) [OF that] r(3)])
    have "pair_writes m (?d j) \<inter> {?d i..<?d i + 64} = {} \<and> pair_writes m (?d j) \<inter> cq_region m (?d i) = {}"
      if "j \<in> set rest" "?act j" for j
    proof -
      have "j \<noteq> i" using ok(4) that by auto
      with that \<open>?act i\<close> Cons.prems(2) have "{?d i..<?d i + 64} \<inter> cq_region m (?d j) = {}"
        "cq_region m (?d j) \<inter> cq_region m (?d i) = {}" "{?d j..<?d j + 64} \<inter> cq_region m (?d i) = {}"
        unfolding io_pairs_ok_def by auto
      with io_descs_apart [OF \<open>j \<noteq> i\<close>, of ioDescs] show ?thesis unfolding pair_writes_def by auto
    qed
    then show "pairs_writes (pdo c) m ioDescs rest \<inter> {?d i..<?d i + 64} = {}"
      "pairs_writes (pdo c) m ioDescs rest \<inter> cq_region m (?d i) = {}"
      unfolding pairs_writes_def by blast+
    show "qd_Tail m (?d i + 32) < qd_Capacity m (?d i + 32)" using ok(3) [OF that] by (simp add: abort_pair_ok_def)
  qed
  have others: "pair_aborted m m' (?d j) (of_nat (j + 1))" if "j \<in> set rest" "?act j" for j
  proof (rule pair_aborted_earlier [OF _ S apart(1) [OF that(1)] apart(2) [OF that]])
    show "pair_aborted m1 m' (?d j) (of_nat (j + 1))" using r(4) that same(2) by blast
    show "qd_Head m (?d j) < qd_Capacity m (?d j)"
      using rest that by (simp add: io_pairs_ok_def abort_pair_ok_def)
  qed
  have "same_outside (pairs_writes (pdo c) m ioDescs (i # rest)) m m1"
    using S by (rule same_outside_mono) (auto simp: S_def pairs_writes_def)
  moreover have "same_outside (pairs_writes (pdo c) m ioDescs (i # rest)) m1 m'"
    using r(3) by (rule same_outside_mono) (auto simp: pairs_writes_def)
  ultimately have frame: "same_outside (pairs_writes (pdo c) m ioDescs (i # rest)) m m'" by (rule same_outside_trans)
  have "abort_io_loop ioDescs (i # rest) cnt c = Some (cnt + of_nat (pairs_pending (pdo c) m ioDescs (i # rest)), c')"
    using step(1) r(1) by (simp add: pairs_pending_def add.assoc)
  with frame first others io_aborted_trans [OF step(2) r(2)] show ?case by auto
qed

section \<open>The whole operation\<close>

text \<open>The admin pair: aborting steps through the completion queue with the capacity of the submission queue, so both must
  agree.\<close>

lemma abort_admin_step:
  assumes "VnvmeShmGetControlBlock c = Some m" "abort_pair_ok m cb_AdminSQ" "qd_Capacity m cb_AdminSQ = qd_Capacity m cb_AdminCQ"
  shows "\<exists>c' m'. abort_admin cnt c = Some (cnt + of_nat (pending_count m cb_AdminSQ), c') \<and> io_aborted c m' c'
    \<and> pair_aborted m m' cb_AdminSQ 0 \<and> same_outside (pair_writes m cb_AdminSQ) m m'"
proof (cases "qd_Head m cb_AdminSQ = qd_Tail m cb_AdminSQ")
  case True
  have "qd_Tail m (cb_AdminSQ + 32) < qd_Capacity m (cb_AdminSQ + 32)" using assms(2) by (simp add: abort_pair_ok_def)
  note e = pair_aborted_empty [OF True this]
  have "io_aborted c m c" unfolding io_aborted_def upd_shm_same [OF assms(1)] by (intro exI [of _ "pdo c"]) simp
  with True assms(1) e show ?thesis by (intro exI [of _ c] exI [of _ m]) (simp add: abort_admin_def same_outside_def)
next
  case False
  have pos: "qd_Capacity m cb_AdminSQ > 0" using assms(2) by (auto simp: abort_pair_ok_def word_gt_0)
  from abort_pair_run [OF assms(2), where cqCap = "\<lambda>_. qd_Capacity m cb_AdminSQ" and reduce = False and cnt = cnt and sqid = 0]
    assms(3)
  obtain ct ph m1 where r: "abort_loop (unat (qd_Offset m cb_AdminSQ)) (unat (qd_Offset m cb_AdminCQ)) 0 (qd_Capacity m cb_AdminSQ)
      (\<lambda>_. qd_Capacity m cb_AdminSQ) False (qd_Tail m cb_AdminSQ) (qd_Head m cb_AdminSQ) (qd_Tail m cb_AdminCQ)
      (ucast (qd_Phase m cb_AdminCQ)) cnt m = Some (ct, ph, cnt + of_nat (pending_count m cb_AdminSQ), m1)"
    "pair_aborted m (abort_finish cb_AdminSQ (qd_Tail m cb_AdminSQ) ct ph m1) cb_AdminSQ 0"
    "same_outside (pair_writes m cb_AdminSQ) m (abort_finish cb_AdminSQ (qd_Tail m cb_AdminSQ) ct ph m1)"
    by auto
  define m' where "m' = abort_finish cb_AdminSQ (qd_Tail m cb_AdminSQ) ct ph m1"
  let ?f = "\<lambda>p. p\<lparr>pdo_AdminCq := (pdo_AdminCq p)\<lparr>qs_Tail := ct\<rparr>, pdo_AdminCqPhase := ucast ph\<rparr>"
  have "abort_admin cnt c = Some (cnt + of_nat (pending_count m cb_AdminSQ), upd_pdo ?f (upd_shm (\<lambda>_. m') c))"
    using assms(1) False pos r(1) by (simp add: abort_admin_def Let_def m'_def abort_finish_def)
  moreover have "io_aborted c m' (upd_pdo ?f (upd_shm (\<lambda>_. m') c))"
    unfolding io_aborted_def upd_pdo_def by (intro exI [of _ "?f (pdo c)"]) simp
  ultimately show ?thesis using r(2,3) unfolding m'_def [symmetric] by blast
qed

text \<open>A shared memory in which the admin pair, the field with the descriptors' offset and the I/O pairs are apart.\<close>

definition abort_layout_ok :: "VNVME_PDO_CONTEXT \<Rightarrow> mem \<Rightarrow> bool" where
  "abort_layout_ok p m \<longleftrightarrow>
     (let ioDescs = unat (rd32 m cb_IoQueueDescriptorOffset); is = [0..<unat (pdo_IoQueueCount p)] in
      abort_pair_ok m cb_AdminSQ \<and> qd_Capacity m cb_AdminSQ = qd_Capacity m cb_AdminCQ
      \<and> ioDescs \<noteq> 0 \<and> {cb_IoQueueDescriptorOffset..<cb_IoQueueDescriptorOffset + 4} \<inter> cq_region m cb_AdminSQ = {}
      \<and> io_pairs_ok p m ioDescs is
      \<and> (\<forall>i\<in>set is. pair_writes m cb_AdminSQ \<inter> {io_desc ioDescs i..<io_desc ioDescs i + 64} = {}
           \<and> (pair_active p m ioDescs i \<longrightarrow>
               pair_writes m cb_AdminSQ \<inter> (sq_region m (io_desc ioDescs i) \<union> cq_region m (io_desc ioDescs i)) = {})))"

definition all_pending :: "VNVME_PDO_CONTEXT \<Rightarrow> mem \<Rightarrow> nat" where
  "all_pending p m = pending_count m cb_AdminSQ
     + pairs_pending p m (unat (rd32 m cb_IoQueueDescriptorOffset)) [0..<unat (pdo_IoQueueCount p)]"


text \<open>An idle admin pair, and queue pair 1 with rings of four entries, two commands pending around the end, and the
  completion queue about to wrap.\<close>

definition example_abort_shm :: mem where
  "example_abort_shm =
     qd_set_Phase 0x4020 1 (qd_set_Tail 0x4020 3 (qd_set_Capacity 0x4020 4 (qd_set_Offset 0x4020 0x9000
     (qd_set_Tail 0x4000 1 (qd_set_Head 0x4000 3 (qd_set_Valid 0x4000 1 (qd_set_Capacity 0x4000 4
     (qd_set_Offset 0x4000 0x5000 (qd_set_Capacity 0x40 4 (qd_set_Offset 0x40 0x3000 (qd_set_Capacity 0x20 4
     (qd_set_Offset 0x20 0x2000 (wr32 cb_IoQueueDescriptorOffset 0x4000
     (wr16 (0x5000 + 2) 22 (wr16 (0x50C0 + 2) 11 (\<lambda>_. 0))))))))))))))))"

definition example_abort_ctx :: vnvme_ctx where
  "example_abort_ctx = upd_pdo (\<lambda>p. upd_IoSq 0 (\<lambda>q. q\<lparr>qs_Created := True\<rparr>) (p\<lparr>pdo_IoQueueCount := 1\<rparr>)) (example_ctx example_abort_shm)"

lemma example_abort_fields:
  "qd_Offset example_abort_shm 0x4000 = 0x5000" "qd_Capacity example_abort_shm 0x4000 = 4" "qd_Valid example_abort_shm 0x4000 = 1"
  "qd_Head example_abort_shm 0x4000 = 3" "qd_Tail example_abort_shm 0x4000 = 1" "qd_Offset example_abort_shm 0x4020 = 0x9000"
  "qd_Capacity example_abort_shm 0x4020 = 4" "qd_Tail example_abort_shm 0x4020 = 3" "qd_Phase example_abort_shm 0x4020 = 1"
  "qd_Offset example_abort_shm 0x20 = 0x2000" "qd_Capacity example_abort_shm 0x20 = 4" "qd_Head example_abort_shm 0x20 = 0"
  "qd_Tail example_abort_shm 0x20 = 0" "qd_Offset example_abort_shm 0x40 = 0x3000" "qd_Capacity example_abort_shm 0x40 = 4"
  "qd_Tail example_abort_shm 0x40 = 0" "rd32 example_abort_shm cb_IoQueueDescriptorOffset = 0x4000"
  "CID (rd_NVME_COMMAND example_abort_shm 0x50C0) = 11" "CID (rd_NVME_COMMAND example_abort_shm 0x5000) = 22"
  by (simp_all add: example_abort_shm_def qd_defs rd_NVME_COMMAND_def mem_simps)

lemma example_abort_pdo:
  "VnvmeShmGetControlBlock example_abort_ctx = Some example_abort_shm" "length (pdo_IoSq (pdo example_abort_ctx)) = 16"
  "g_FdoContext example_abort_ctx = Some (example_fdo example_abort_shm)"
  "qs_Created (pdo_IoSq (pdo example_abort_ctx) ! 0)" "pdo_IoQueueCount (pdo example_abort_ctx) = 1"
  by (simp_all add: example_abort_ctx_def upd_IoSq_def zero_PDO_CONTEXT_def) (simp add: example_ctx_def)

lemma example_abort_regions:
  "sq_region example_abort_shm 0x20 = {0x2000..<0x2100}" "cq_region example_abort_shm 0x20 = {0x3000..<0x3040}"
  "sq_region example_abort_shm 0x4000 = {0x5000..<0x5100}" "cq_region example_abort_shm 0x4000 = {0x9000..<0x9040}"
  "pending_count example_abort_shm 0x20 = 0" "pending_count example_abort_shm 0x4000 = 2"
  by (simp_all add: sq_region_def cq_region_def pending_count_def example_abort_fields ring_dist_def)

lemma example_abort_active: "pair_active (pdo example_abort_ctx) example_abort_shm 0x4000 0"
  by (simp add: pair_active_def io_desc_def example_abort_fields example_abort_pdo)

lemma example_abort_ok:
  "abort_layout_ok (pdo example_abort_ctx) example_abort_shm" "all_pending (pdo example_abort_ctx) example_abort_shm = 2"
proof -
  have pairs: "abort_pair_ok example_abort_shm 0x20" "abort_pair_ok example_abort_shm 0x4000"
    by (auto simp: abort_pair_ok_def example_abort_regions example_abort_fields)
  show "abort_layout_ok (pdo example_abort_ctx) example_abort_shm"
    by (auto simp: abort_layout_ok_def Let_def io_pairs_ok_def pair_writes_def example_abort_regions example_abort_fields
        example_abort_pdo io_desc_def pairs)
  show "all_pending (pdo example_abort_ctx) example_abort_shm = 2"
    by (simp add: all_pending_def pairs_pending_def example_abort_active example_abort_regions example_abort_fields
        example_abort_pdo io_desc_def)
qed


section \<open>When the loop does not end\<close>

lemma abort_loop_unreachable:
  assumes "abort_loop sq cq sqid n cqCap reduce t h ct ph cnt m = Some r" "h \<noteq> t" "n \<noteq> 0" "n \<le> t"
  shows False
proof -
  have "h \<noteq> t \<longrightarrow> n \<noteq> 0 \<longrightarrow> \<not> n \<le> t"
  proof (rule abort_loop.raw_induct [where P = "\<lambda>sq cq sqid n cqCap reduce t h ct ph cnt m r.
        h \<noteq> t \<longrightarrow> n \<noteq> 0 \<longrightarrow> \<not> n \<le> t", OF _ assms(1)], intro impI, goal_cases)
    case (1 loop sq cq sqid n cqCap reduce t h ct ph cnt m r)
    from 1(2-4) obtain ct' ph' cnt' m' where "loop sq cq sqid n cqCap reduce t ((h + 1) mod n) ct' ph' cnt' m' = Some r"
      by (auto simp: Let_def check_bind split: if_splits)
    then have "(h + 1) mod n \<noteq> t \<longrightarrow> n \<noteq> 0 \<longrightarrow> \<not> n \<le> t" by (rule 1(1))
    with word_suc_mod_less [of n h] 1(4) show ?case by (auto simp: word_gt_0)
  qed
  with assms(2-4) show False by blast
qed



end
