(* ===== verification/Vnvme_Post.thy ===== *)
theory Vnvme_Post
  imports Vnvme_Queue
begin

text \<open>
  What posting a completion does to the shared memory and the controller context, that a batch equals the
  same completions posted one by one, and that batch fetching takes a prefix of the pending commands.
\<close>

section \<open>Usable completion queues\<close>

definition cq_entries_ok :: "mem \<Rightarrow> nat \<Rightarrow> bool" where
  "cq_entries_ok m d \<longleftrightarrow>
     d + 32 \<le> VNVME_SHM_SIZE \<and> qd_Valid m d \<noteq> 0 \<and> qd_Tail m d < qd_Capacity m d
     \<and> d + 32 \<le> unat (qd_Offset m d) \<and> 0x100 \<le> unat (qd_Offset m d)
     \<and> unat (qd_Offset m d) + 16 * unat (qd_Capacity m d) \<le> VNVME_SHM_SIZE"

text \<open>Queue \<open>QueueId\<close> is usable: its descriptor is at \<open>d\<close>, apart from the control block's statistics for an I/O
  queue, and the next entry gets phase \<open>ph\<close>.\<close>

definition cq_at :: "u16 \<Rightarrow> vnvme_ctx \<Rightarrow> mem \<Rightarrow> nat \<Rightarrow> bool \<Rightarrow> bool" where
  "cq_at QueueId c m d ph \<longleftrightarrow>
     VnvmeShmGetControlBlock c = Some m \<and> post_cqDesc QueueId c = Some (Inr (d, ph))
     \<and> cq_entries_ok m d \<and> (if QueueId = 0 then d = cb_AdminCQ else 0x100 \<le> d) \<and> pdo_wf (pdo c)"

text \<open>The next tail, whether it wraps, and the entry that is written.\<close>

definition cq_next :: "mem \<Rightarrow> nat \<Rightarrow> u32" where
  "cq_next m d = (qd_Tail m d + 1) mod qd_Capacity m d"

definition cq_slot :: "mem \<Rightarrow> nat \<Rightarrow> nat" where
  "cq_slot m d = unat (qd_Offset m d) + 16 * unat (qd_Tail m d)"

definition post_phase :: "mem \<Rightarrow> nat \<Rightarrow> bool \<Rightarrow> bool" where
  "post_phase m d ph = (if cq_next m d = 0 then \<not> ph else ph)"

text \<open>The shared memory after one completion, before and after the statistics are updated.\<close>

definition store_cqe :: "nat \<Rightarrow> bool \<Rightarrow> NVME_COMPLETION \<Rightarrow> mem \<Rightarrow> mem" where
  "store_cqe d ph cpl m =
     (if cq_next m d = 0 then qd_set_Phase d (if \<not> ph then 1 else 0) else id)
       (wr_NVME_COMPLETION (cq_slot m d) (cqe_with_phase cpl ph) m)"

definition post_mem :: "nat \<Rightarrow> bool \<Rightarrow> NVME_COMPLETION \<Rightarrow> mem \<Rightarrow> mem" where
  "post_mem d ph cpl m =
     wr64 cb_CompletionsPosted (rd64 m cb_CompletionsPosted + 1)
       (qd_set_Tail d (cq_next m d) (store_cqe d ph cpl m))"

lemma cq_slot_bounds:
  assumes "cq_entries_ok m d"
  shows "d + 32 \<le> cq_slot m d" "0x100 \<le> cq_slot m d" "cq_slot m d + 16 \<le> VNVME_SHM_SIZE"
    "qd_Capacity m d \<noteq> 0"
proof -
  from assms have "unat (qd_Tail m d) < unat (qd_Capacity m d)"
    by (simp add: cq_entries_ok_def word_less_nat_alt)
  with assms show "d + 32 \<le> cq_slot m d" "0x100 \<le> cq_slot m d" "cq_slot m d + 16 \<le> VNVME_SHM_SIZE"
    "qd_Capacity m d \<noteq> 0"
    by (auto simp: cq_entries_ok_def cq_slot_def)
qed

lemma cq_next_less: "cq_entries_ok m d \<Longrightarrow> cq_next m d < qd_Capacity m d"
  unfolding cq_next_def by (intro word_suc_mod_less) (auto simp: cq_entries_ok_def word_gt_0)

lemma upd_shm_upd_pdo: "upd_shm f (upd_pdo g c) = upd_pdo g (upd_shm f c)"
  by (simp add: upd_shm_def upd_pdo_def)

lemma upd_shm_upd_shm: "upd_shm f (upd_shm g c) = upd_shm (f \<circ> g) c"
  by (simp add: upd_shm_def option.map_comp comp_def)

lemma upd_shm_cong: "VnvmeShmGetControlBlock c = Some m \<Longrightarrow> f m = g m \<Longrightarrow> upd_shm f c = upd_shm g c"
  by (auto simp: VnvmeShmGetControlBlock_def upd_shm_def split: option.splits)

lemma rd64_store_cqe:
  assumes "cq_entries_ok m d" "d = cb_AdminCQ \<or> 0x100 \<le> d"
  shows "rd64 (qd_set_Tail d t (store_cqe d ph cpl m)) cb_CompletionsPosted = rd64 m cb_CompletionsPosted"
  using cq_slot_bounds [OF assms(1)] assms(2) by (auto simp: store_cqe_def qd_set_defs mem_read_write mem_frame)

text \<open>One post, as an update of the shared memory and of the queue's state in the context.\<close>

lemma VnvmePostCompletion_step:
  assumes "cq_at QueueId c m d ph"
  shows "VnvmePostCompletion QueueId (Some cpl) c = Some (STATUS_SUCCESS,
    sync_cq QueueId (\<lambda>q. q\<lparr>qs_Tail := cq_next m d\<rparr>)
      ((if cq_next m d = 0 then sync_cq QueueId (\<lambda>q. q\<lparr>qs_PhaseTag := \<not> ph\<rparr>) else id)
        (upd_shm (\<lambda>_. post_mem d ph cpl m) c)))"
proof -
  from assms have m: "VnvmeShmGetControlBlock c = Some m" and desc: "post_cqDesc QueueId c = Some (Inr (d, ph))"
    and ok: "cq_entries_ok m d" and d: "d = cb_AdminCQ \<or> 0x100 \<le> d"
    by (auto simp: cq_at_def split: if_splits)
  note slot = cq_slot_bounds [OF ok]
  have cap: "qd_Capacity (wr_NVME_COMPLETION (cq_slot m d) e m) d = qd_Capacity m d" for e
    using slot by (simp add: qd_Capacity_def mem_read_write mem_frame)
  show ?thesis
    using m desc ok slot rd64_store_cqe [OF ok d, of "cq_next m d" ph cpl]
    by (auto simp: VnvmePostCompletion_def Let_def cq_slot_def [symmetric] cap cq_next_def [symmetric]
        cq_entries_ok_def sync_cq_def upd_shm_upd_pdo upd_shm_upd_shm post_mem_def store_cqe_def
        intro!: arg_cong [where f = "upd_pdo _"] upd_shm_cong [OF m])
qed

section \<open>What the host sees\<close>

lemma post_mem_desc:
  assumes "cq_entries_ok m d" "d = cb_AdminCQ \<or> 0x100 \<le> d"
  shows "qd_Offset (post_mem d ph cpl m) d = qd_Offset m d"
    "qd_Capacity (post_mem d ph cpl m) d = qd_Capacity m d"
    "qd_Valid (post_mem d ph cpl m) d = qd_Valid m d" "qd_Head (post_mem d ph cpl m) d = qd_Head m d"
    "qd_Tail (post_mem d ph cpl m) d = cq_next m d"
    "qd_Phase (post_mem d ph cpl m) d = (if cq_next m d = 0 then (if \<not> ph then 1 else 0) else qd_Phase m d)"
  using cq_slot_bounds [OF assms(1)] assms(2)
  by (auto simp: post_mem_def store_cqe_def qd_defs mem_read_write mem_frame)

lemma post_mem_entry:
  assumes "cq_entries_ok m d" "d = cb_AdminCQ \<or> 0x100 \<le> d"
  shows "rd_NVME_COMPLETION (post_mem d ph cpl m) (cq_slot m d) = cqe_with_phase cpl ph"
proof -
  let ?e = "wr_NVME_COMPLETION (cq_slot m d) (cqe_with_phase cpl ph) m"
  have "rd_NVME_COMPLETION (post_mem d ph cpl m) (cq_slot m d) = rd_NVME_COMPLETION ?e (cq_slot m d)"
    using cq_slot_bounds [OF assms(1)] assms(2)
    by (intro rd_NVME_COMPLETION_eqI) (auto simp: post_mem_def store_cqe_def qd_set_defs wr64_outside wr32_outside)
  then show ?thesis by (simp add: mem_read_write)
qed

text \<open>Everything else: the other entries, queues and regions keep their bytes.\<close>

definition post_footprint :: "mem \<Rightarrow> nat \<Rightarrow> nat set" where
  "post_footprint m d = {cq_slot m d..<cq_slot m d + 16} \<union> {d + 20..<d + 28}
     \<union> {cb_CompletionsPosted..<cb_CompletionsPosted + 8}"

lemma post_mem_frame: "same_outside (post_footprint m d) m (post_mem d ph cpl m)"
  unfolding same_outside_def post_footprint_def post_mem_def store_cqe_def
  by (auto simp: qd_set_defs wr64_outside wr32_outside wr_NVME_COMPLETION_outside)

lemma cq_entries_ok_post:
  assumes "cq_entries_ok m d" "d = cb_AdminCQ \<or> 0x100 \<le> d"
  shows "cq_entries_ok (post_mem d ph cpl m) d"
  using assms cq_next_less [OF assms(1)] by (simp add: cq_entries_ok_def post_mem_desc [OF assms])

lemma post_cqDesc_sync:
  assumes "post_cqDesc QueueId c = Some (Inr (d, ph))" "pdo_wf (pdo c)" "VnvmeShmGetControlBlock c = Some m"
    and "rd32 m' cb_IoQueueDescriptorOffset = rd32 m cb_IoQueueDescriptorOffset"
    and "\<And>q. qs_Created (f q) = qs_Created q"
  shows "post_cqDesc QueueId (sync_cq QueueId f (upd_shm (\<lambda>_. m') c))
    = Some (Inr (d, qs_PhaseTag (f (if QueueId = 0 then pdo_AdminCq (pdo c) else pdo_IoCq (pdo c) ! (unat QueueId - 1)))))"
  using assms
  by (auto simp: post_cqDesc_def sync_cq_def VnvmeShmGetIoQueueDescriptors_def arr_get_def upd_IoCq_def
      nth_list_update Let_def check_bind split: if_splits option.splits)

lemma post_phase_tag:
  assumes "post_cqDesc QueueId c = Some (Inr (d, ph))"
  shows "qs_PhaseTag (if QueueId = 0 then pdo_AdminCq (pdo c) else pdo_IoCq (pdo c) ! (unat QueueId - 1)) = ph"
  using assms by (auto simp: post_cqDesc_def Let_def check_bind arr_get_def split: if_splits option.splits)

lemma sync_cq_sync_cq: "sync_cq QueueId f (sync_cq QueueId g c) = sync_cq QueueId (f \<circ> g) c"
  by (cases "unat QueueId - 1 < length (pdo_IoCq (pdo c))")
    (auto simp: sync_cq_def upd_pdo_def upd_IoCq_def list_update_beyond not_less)

text \<open>The state after a post, with the two updates of the queue state as one.\<close>

definition post_state :: "u16 \<Rightarrow> mem \<Rightarrow> nat \<Rightarrow> bool \<Rightarrow> NVME_COMPLETION \<Rightarrow> vnvme_ctx \<Rightarrow> vnvme_ctx" where
  "post_state QueueId m d ph cpl c =
     sync_cq QueueId (\<lambda>q. q\<lparr>qs_Tail := cq_next m d, qs_PhaseTag := post_phase m d ph\<rparr>)
       (upd_shm (\<lambda>_. post_mem d ph cpl m) c)"

lemma sync_cq_cong:
  assumes "f (if QueueId = 0 then pdo_AdminCq (pdo c) else pdo_IoCq (pdo c) ! (unat QueueId - 1))
    = g (if QueueId = 0 then pdo_AdminCq (pdo c) else pdo_IoCq (pdo c) ! (unat QueueId - 1))"
  shows "sync_cq QueueId f (upd_shm h c) = sync_cq QueueId g (upd_shm h c)"
  using assms by (cases "QueueId = 0") (simp_all add: sync_cq_def upd_pdo_def upd_IoCq_def)

lemma sync_cq_same_phase:
  assumes "post_cqDesc QueueId c = Some (Inr (d, ph))"
  shows "sync_cq QueueId (\<lambda>q. q\<lparr>qs_Tail := t\<rparr>) (upd_shm f c)
    = sync_cq QueueId (\<lambda>q. q\<lparr>qs_Tail := t, qs_PhaseTag := ph\<rparr>) (upd_shm f c)"
  using post_phase_tag [OF assms] by (intro sync_cq_cong VNVME_QUEUE_STATE.equality) simp_all

lemma VnvmePostCompletion_state:
  assumes "cq_at QueueId c m d ph"
  shows "VnvmePostCompletion QueueId (Some cpl) c = Some (STATUS_SUCCESS, post_state QueueId m d ph cpl c)"
proof -
  from assms have desc: "post_cqDesc QueueId c = Some (Inr (d, ph))"
    by (simp add: cq_at_def)
  have merge: "sync_cq QueueId (\<lambda>q. q\<lparr>qs_Tail := t\<rparr>) (sync_cq QueueId (\<lambda>q. q\<lparr>qs_PhaseTag := x\<rparr>) c')
      = sync_cq QueueId (\<lambda>q. q\<lparr>qs_Tail := t, qs_PhaseTag := x\<rparr>) c'" for t x c'
    unfolding sync_cq_sync_cq by (rule arg_cong [where f = "\<lambda>f. sync_cq QueueId f c'"]) (rule ext, simp)
  show ?thesis
    unfolding VnvmePostCompletion_step [OF assms] post_state_def post_phase_def
    by (cases "cq_next m d = 0") (simp_all only: if_True if_False merge id_apply sync_cq_same_phase [OF desc] refl)
qed

lemma cq_at_post_state:
  assumes "cq_at QueueId c m d ph"
  shows "cq_at QueueId (post_state QueueId m d ph cpl c) (post_mem d ph cpl m) d (post_phase m d ph)"
proof -
  from assms have m: "VnvmeShmGetControlBlock c = Some m" and desc: "post_cqDesc QueueId c = Some (Inr (d, ph))"
    and ok: "cq_entries_ok m d" and d: "d = cb_AdminCQ \<or> 0x100 \<le> d" and wf: "pdo_wf (pdo c)"
    by (auto simp: cq_at_def split: if_splits)
  have "rd32 (post_mem d ph cpl m) cb_IoQueueDescriptorOffset = rd32 m cb_IoQueueDescriptorOffset"
    using cq_slot_bounds [OF ok] d
    by (intro rd32_same_outside [OF post_mem_frame]) (auto simp: post_footprint_def)
  with post_cqDesc_sync [OF desc wf m, of "post_mem d ph cpl m"
      "\<lambda>q. q\<lparr>qs_Tail := cq_next m d, qs_PhaseTag := post_phase m d ph\<rparr>"]
  have "post_cqDesc QueueId (post_state QueueId m d ph cpl c) = Some (Inr (d, post_phase m d ph))"
    by (simp add: post_state_def)
  moreover have "VnvmeShmGetControlBlock (post_state QueueId m d ph cpl c) = Some (post_mem d ph cpl m)"
    using m by (simp add: post_state_def sync_cq_def)
  moreover have "pdo_wf (pdo (post_state QueueId m d ph cpl c))"
    using wf by (auto simp: post_state_def sync_cq_def pdo_wf_def upd_IoCq_def)
  ultimately show ?thesis
    using assms cq_entries_ok_post [OF ok d] by (simp add: cq_at_def)
qed

text \<open>What it means that exactly one completion has been posted since the shared memory was \<open>m\<close>, with the descriptor of the queue at
  \<open>d\<close> and the phase \<open>ph\<close>: the entry at the old tail is that of the command \<open>cid\<close> of the queue, with the status and the phase of
  the queue, the tail has moved by one entry around the ring, the phase inverts where it wraps, no byte of the shared memory outside the entry, the
  descriptor's tail and phase and the statistics has changed, and the queue takes the next completion.\<close>

definition completed_once :: "u16 \<Rightarrow> u16 \<Rightarrow> u8 \<Rightarrow> u8 \<Rightarrow> mem \<times> nat \<times> bool \<Rightarrow> vnvme_ctx \<Rightarrow> bool" where
  "completed_once QueueId cid sct sc = (\<lambda>(m, d, ph) c'. \<exists>m'. cq_at QueueId c' m' d (post_phase m d ph)
     \<and> qd_Tail m' d = cq_next m d
     \<and> cqe_CID (rd_NVME_COMPLETION m' (cq_slot m d)) = cid
     \<and> cqe_SQID (rd_NVME_COMPLETION m' (cq_slot m d)) = QueueId
     \<and> cqe_Status (rd_NVME_COMPLETION m' (cq_slot m d)) = NvmeMakeStatus sct sc (if ph then 1 else 0)
     \<and> same_outside (post_footprint m d) m m')"

lemma with_phase_NvmeMakeStatus:
  assumes "p \<le> 1"
  shows "with_phase (NvmeMakeStatus sct sc p) ph = NvmeMakeStatus sct sc (if ph then 1 else 0)"
proof -
  have "p = 0 \<or> p = 1" using assms by (auto simp: word_le_nat_alt word_unat_eq_iff le_Suc_eq)
  then show ?thesis
    by (elim disjE; intro bit_word_eqI) (auto simp: with_phase_alt NvmeMakeStatus_def bit_simps bit_odd_word bit_times_two)
qed

lemma completed_once_post:
  assumes "cq_at QueueId c m d ph" "cqe_SQID cpl = QueueId" "cqe_Status cpl = NvmeMakeStatus sct sc p" "p \<le> 1"
  shows "completed_once QueueId (cqe_CID cpl) sct sc (m, d, ph) (post_state QueueId m d ph cpl c)"
proof -
  from assms(1) have ok: "cq_entries_ok m d" and d: "d = cb_AdminCQ \<or> 0x100 \<le> d"
    by (auto simp: cq_at_def split: if_splits)
  show ?thesis
    unfolding completed_once_def prod.case
    by (rule exI [of _ "post_mem d ph cpl m"])
      (simp add: cq_at_post_state [OF assms(1)] post_mem_desc(5) [OF ok d] post_mem_entry [OF ok d] post_mem_frame
        cqe_with_phase_def assms(2,3) with_phase_NvmeMakeStatus [OF assms(4)])
qed

text \<open>The queue as it is read by what follows depends only on these parts of the context.\<close>

lemma completed_once_cong:
  assumes "completed_once QueueId cid sct sc q c" "VnvmeShmGetControlBlock c' = VnvmeShmGetControlBlock c"
    and "post_cqDesc QueueId c' = post_cqDesc QueueId c" "pdo_wf (pdo c')"
  shows "completed_once QueueId cid sct sc q c'"
  using assms by (auto simp: completed_once_def cq_at_def split: prod.splits)

text \<open>Posting to a usable completion queue succeeds: the entry at the tail holds the completion with the
  queue's phase bit, the tail advances around the ring, the phase inverts exactly when the tail returns
  to zero, no byte outside the entry, the descriptor's tail and phase and the statistics changes, and
  the queue stays usable.\<close>

theorem VnvmePostCompletion_posts:
  assumes "cq_at QueueId c m d ph"
  shows "\<exists>c' m'. VnvmePostCompletion QueueId (Some cpl) c = Some (STATUS_SUCCESS, c')
    \<and> cq_at QueueId c' m' d (if (qd_Tail m d + 1) mod qd_Capacity m d = 0 then \<not> ph else ph)
    \<and> rd_NVME_COMPLETION m' (unat (qd_Offset m d) + 16 * unat (qd_Tail m d)) = cqe_with_phase cpl ph
    \<and> qd_Tail m' d = (qd_Tail m d + 1) mod qd_Capacity m d
    \<and> same_outside ({unat (qd_Offset m d) + 16 * unat (qd_Tail m d)..<unat (qd_Offset m d) + 16 * unat (qd_Tail m d) + 16}
        \<union> {d + 20..<d + 28} \<union> {0xB8..<0xB8 + 8}) m m'"
proof -
  from assms have ok: "cq_entries_ok m d" and d: "d = cb_AdminCQ \<or> 0x100 \<le> d"
    by (auto simp: cq_at_def split: if_splits)
  have "cq_at QueueId (post_state QueueId m d ph cpl c) (post_mem d ph cpl m) d
      (if (qd_Tail m d + 1) mod qd_Capacity m d = 0 then \<not> ph else ph)"
    using cq_at_post_state [OF assms, of cpl] by (simp add: post_phase_def cq_next_def)
  moreover have "rd_NVME_COMPLETION (post_mem d ph cpl m) (unat (qd_Offset m d) + 16 * unat (qd_Tail m d))
      = cqe_with_phase cpl ph"
    using post_mem_entry [OF ok d, of ph cpl] unfolding cq_slot_def .
  moreover note VnvmePostCompletion_state [OF assms, of cpl]
    post_mem_desc(5) [OF ok d, of ph cpl, unfolded cq_next_def]
    post_mem_frame [of m d ph cpl, unfolded post_footprint_def cq_slot_def]
  ultimately show ?thesis by blast
qed

text \<open>A shared memory with a valid, empty admin completion queue of two entries at the last slot.\<close>

definition example_cq_shm :: mem where
  "example_cq_shm = wr32 0x54 1 (wr32 0x4C 1 (wr32 0x48 2 (wr32 0x40 0x3000 (\<lambda>_. 0))))"

definition example_cqe :: NVME_COMPLETION where
  "example_cqe = \<lparr>cqe_DW0 = 5, cqe_DW1 = 0, cqe_SQHD = 1, cqe_SQID = 0, cqe_CID = 7, cqe_Status = 0\<rparr>"

lemma example_cq_at: "cq_at 0 (example_ctx example_cq_shm) example_cq_shm cb_AdminCQ False"
  by (simp add: cq_at_def cq_entries_ok_def post_cqDesc_def qd_get_defs example_cq_shm_def pdo_wf_def
      zero_PDO_CONTEXT_def zero_QUEUE_STATE_def mem_simps)

theorem VnvmePostCompletion_posts_witness:
  "\<exists>c' m'. VnvmePostCompletion 0 (Some example_cqe) (example_ctx example_cq_shm) = Some (STATUS_SUCCESS, c')
    \<and> cq_at 0 c' m' cb_AdminCQ True \<and> cqe_CID (rd_NVME_COMPLETION m' 0x3010) = 7"
proof -
  have fields: "qd_Tail example_cq_shm 64 = 1" "qd_Capacity example_cq_shm 64 = 2"
    "qd_Offset example_cq_shm 64 = 0x3000"
    by (simp_all add: qd_get_defs example_cq_shm_def mem_simps)
  from VnvmePostCompletion_posts [OF example_cq_at, of example_cqe, unfolded fields]
  obtain c' m' where "VnvmePostCompletion 0 (Some example_cqe) (example_ctx example_cq_shm) = Some (STATUS_SUCCESS, c')"
    "cq_at 0 c' m' cb_AdminCQ True" "cqe_CID (rd_NVME_COMPLETION m' 0x3010) = 7"
    by (auto simp: cqe_with_phase_def example_cqe_def)
  then show ?thesis by blast
qed

section \<open>Batches of completions\<close>

text \<open>The reference: one completion after the other, stopping at the first that is refused.\<close>

fun post_list :: "u16 \<Rightarrow> NVME_COMPLETION list \<Rightarrow> vnvme_ctx \<Rightarrow> (NTSTATUS \<times> vnvme_ctx) option" where
  "post_list QueueId [] c = Some (STATUS_SUCCESS, c)"
| "post_list QueueId (cpl # cpls) c =
     (case VnvmePostCompletion QueueId (Some cpl) c of
        None \<Rightarrow> None
      | Some (status, c') \<Rightarrow> (if NT_SUCCESS status then post_list QueueId cpls c' else Some (status, c')))"

text \<open>One iteration of the batch loop, whose tail is a local variable.\<close>

definition store_at :: "nat \<Rightarrow> nat \<Rightarrow> u32 \<Rightarrow> u32 \<Rightarrow> bool \<Rightarrow> NVME_COMPLETION \<Rightarrow> mem \<Rightarrow> mem" where
  "store_at d base depth t ph cpl m =
     (if (t + 1) mod depth = 0 then qd_set_Phase d (if \<not> ph then 1 else 0) else id)
       (wr_NVME_COMPLETION (base + 16 * unat t) (cqe_with_phase cpl ph) m)"

lemma store_cqe_at: "store_cqe d ph cpl m = store_at d (unat (qd_Offset m d)) (qd_Capacity m d) (qd_Tail m d) ph cpl m"
  by (simp add: store_cqe_def store_at_def cq_slot_def cq_next_def)

lemma post_batch_loop_step:
  assumes "t < depth" "base + 16 * unat depth \<le> VNVME_SHM_SIZE"
  shows "post_batch_loop d base depth (cpl # cpls) (m, t, ph) =
    post_batch_loop d base depth cpls
      (store_at d base depth t ph cpl m, (t + 1) mod depth, if (t + 1) mod depth = 0 then \<not> ph else ph)"
proof -
  have "unat t < unat depth" "depth \<noteq> 0"
    using assms(1) by (auto simp: word_less_nat_alt)
  with assms(2) show ?thesis
    by (simp add: Let_def store_at_def check_bind)
qed

definition batch_footprint :: "nat \<Rightarrow> nat \<Rightarrow> u32 \<Rightarrow> nat set" where
  "batch_footprint d base depth = {d + 24..<d + 28} \<union> {base..<base + 16 * unat depth}"

lemma store_at_commute:
  assumes "local_write S g" "S \<inter> batch_footprint d base depth = {}" "t < depth"
  shows "store_at d base depth t ph cpl (g m) = g (store_at d base depth t ph cpl m)"
proof -
  have "unat t < unat depth" using assms(3) by (simp add: word_less_nat_alt)
  then have sub: "{base + 16 * unat t..<base + 16 * unat t + 16} \<subseteq> batch_footprint d base depth"
    "{d + 24..<d + 24 + 4} \<subseteq> batch_footprint d base depth"
    by (auto simp: batch_footprint_def)
  have "wr_NVME_COMPLETION (base + 16 * unat t) e (g m) = g (wr_NVME_COMPLETION (base + 16 * unat t) e m)" for e m
    using sub assms(2) by (intro local_write_commute [OF local_write_NVME_COMPLETION assms(1)]) blast
  moreover have "qd_set_Phase d v (g m) = g (qd_set_Phase d v m)" for v m
    unfolding qd_set_Phase_def
    using sub assms(2) by (intro local_write_commute [OF local_write_wr32 assms(1)]) blast
  ultimately show ?thesis by (simp add: store_at_def)
qed

lemma post_batch_loop_commute:
  assumes "local_write S g" "S \<inter> batch_footprint d base depth = {}"
    and "t < depth" "base + 16 * unat depth \<le> VNVME_SHM_SIZE"
    and "post_batch_loop d base depth cpls (m, t, ph) = Some (m', t', ph')"
  shows "post_batch_loop d base depth cpls (g m, t, ph) = Some (g m', t', ph')"
  using assms(3,5)
proof (induction cpls arbitrary: m t ph)
  case Nil
  then show ?case by simp
next
  case (Cons cpl cpls)
  have next_less: "(t + 1) mod depth < depth"
    using Cons.prems(1) by (intro word_suc_mod_less) (auto simp: word_gt_0)
  show ?case
    using Cons.IH [OF next_less] Cons.prems(2)
    unfolding post_batch_loop_step [OF Cons.prems(1) assms(4)] store_at_commute [OF assms(1,2) Cons.prems(1)]
    by blast
qed

lemma post_batch_loop_returns:
  assumes "t < depth" "base + 16 * unat depth \<le> VNVME_SHM_SIZE"
  shows "\<exists>m' t' ph'. post_batch_loop d base depth cpls (m, t, ph) = Some (m', t', ph')"
  using assms(1)
proof (induction cpls arbitrary: m t ph)
  case Nil
  then show ?case by simp
next
  case (Cons cpl cpls)
  have "(t + 1) mod depth < depth"
    using Cons.prems by (intro word_suc_mod_less) (auto simp: word_gt_0)
  from Cons.IH [OF this] show ?case
    unfolding post_batch_loop_step [OF Cons.prems assms(2)] .
qed

lemma post_batch_loop_frame:
  assumes "t < depth" "base + 16 * unat depth \<le> VNVME_SHM_SIZE"
    and "post_batch_loop d base depth cpls (m, t, ph) = Some (m', t', ph')"
  shows "same_outside (batch_footprint d base depth) m m'"
  using assms(1,3)
proof (induction cpls arbitrary: m t ph)
  case Nil
  then show ?case by simp
next
  case (Cons cpl cpls)
  have next_less: "(t + 1) mod depth < depth"
    using Cons.prems(1) by (intro word_suc_mod_less) (auto simp: word_gt_0)
  have "unat t < unat depth" using Cons.prems(1) by (simp add: word_less_nat_alt)
  then have "same_outside (batch_footprint d base depth) m (store_at d base depth t ph cpl m)"
    by (auto simp: same_outside_def store_at_def batch_footprint_def qd_set_Phase_def wr32_outside
        wr_NVME_COMPLETION_outside)
  with Cons.IH [OF next_less] Cons.prems(2) show ?case
    unfolding post_batch_loop_step [OF Cons.prems(1) assms(2)] by (blast intro: same_outside_trans)
qed

text \<open>The state after a batch: the loop's memory with the tail and the statistics stored.\<close>

definition batch_state ::
  "u16 \<Rightarrow> mem \<Rightarrow> nat \<Rightarrow> nat \<Rightarrow> mem \<times> u32 \<times> bool \<Rightarrow> vnvme_ctx \<Rightarrow> vnvme_ctx" where
  "batch_state QueueId m d n r c =
     sync_cq QueueId (\<lambda>q. q\<lparr>qs_Tail := fst (snd r), qs_PhaseTag := snd (snd r)\<rparr>)
       (upd_shm (\<lambda>_. wr64 cb_CompletionsPosted (rd64 m cb_CompletionsPosted + of_nat n)
          (qd_set_Tail d (fst (snd r)) (fst r))) c)"

lemma upd_shm_sync_cq: "upd_shm f (sync_cq QueueId g c) = sync_cq QueueId g (upd_shm f c)"
  by (simp add: sync_cq_def upd_shm_upd_pdo)

lemma batch_state_after_post:
  "batch_state QueueId (post_mem d ph cpl m) d n (m', t', ph') (post_state QueueId m d ph cpl c)
    = sync_cq QueueId (\<lambda>q. q\<lparr>qs_Tail := t', qs_PhaseTag := ph'\<rparr>)
        (upd_shm (\<lambda>_. wr64 cb_CompletionsPosted (rd64 (post_mem d ph cpl m) cb_CompletionsPosted + of_nat n)
          (qd_set_Tail d t' m')) c)"
  unfolding batch_state_def post_state_def
  by (simp add: upd_shm_sync_cq upd_shm_upd_shm sync_cq_sync_cq comp_def)

text \<open>The counter and tail a first post stored are hidden by those the batch stores at its end.\<close>

lemma tail_and_count_hidden:
  assumes "d = cb_AdminCQ \<or> 0x100 \<le> d"
  shows "wr64 cb_CompletionsPosted v (qd_set_Tail d t' (wr64 cb_CompletionsPosted p (qd_set_Tail d t m)))
    = wr64 cb_CompletionsPosted v (qd_set_Tail d t' m)"
proof -
  have tails: "local_write {d + 20..<d + 20 + 4} (qd_set_Tail d x)" for x
    unfolding qd_set_Tail_def by (rule local_write_wr32)
  have "qd_set_Tail d t' (wr64 cb_CompletionsPosted p (qd_set_Tail d t m))
      = wr64 cb_CompletionsPosted p (qd_set_Tail d t' (qd_set_Tail d t m))"
    using assms by (intro local_write_commute [OF tails local_write_wr64]) auto
  moreover have "qd_set_Tail d t' (qd_set_Tail d t m) = qd_set_Tail d t' m"
    by (intro local_write_hides [OF tails tails]) simp
  moreover have "wr64 cb_CompletionsPosted v (wr64 cb_CompletionsPosted p x) = wr64 cb_CompletionsPosted v x" for x
    by (intro local_write_hides [OF local_write_wr64 local_write_wr64]) simp
  ultimately show ?thesis by simp
qed

lemma post_list_batch_state:
  assumes "cq_at QueueId c m d ph" "cpls \<noteq> []"
    and "post_batch_loop d (unat (qd_Offset m d)) (qd_Capacity m d) cpls (m, qd_Tail m d, ph) = Some r"
  shows "post_list QueueId cpls c = Some (STATUS_SUCCESS, batch_state QueueId m d (length cpls) r c)"
  using assms
proof (induction cpls arbitrary: c m ph r)
  case Nil
  then show ?case by simp
next
  case (Cons cpl cpls)
  from Cons.prems(1) have ok: "cq_entries_ok m d" and d: "d = cb_AdminCQ \<or> 0x100 \<le> d"
    by (auto simp: cq_at_def split: if_splits)
  define base where "base = unat (qd_Offset m d)"
  define depth where "depth = qd_Capacity m d"
  have fits: "qd_Tail m d < depth" "base + 16 * unat depth \<le> VNVME_SHM_SIZE" "0x100 \<le> base" "d + 32 \<le> base"
    using ok by (auto simp: cq_entries_ok_def base_def depth_def)
  note post = VnvmePostCompletion_state [OF Cons.prems(1), of cpl]
  have next_def: "cq_next m d = (qd_Tail m d + 1) mod depth" "post_phase m d ph = (if (qd_Tail m d + 1) mod depth = 0 then \<not> ph else ph)"
    by (simp_all add: cq_next_def post_phase_def depth_def)
  have loop: "post_batch_loop d base depth cpls (store_cqe d ph cpl m, cq_next m d, post_phase m d ph) = Some r"
    using Cons.prems(3) post_batch_loop_step [OF fits(1,2), of d cpl cpls m ph]
    by (simp add: base_def depth_def store_cqe_at cq_next_def post_phase_def)
  define g where "g = (\<lambda>x. wr64 cb_CompletionsPosted (rd64 m cb_CompletionsPosted + 1) (qd_set_Tail d (cq_next m d) x))"
  have post_mem: "post_mem d ph cpl m = g (store_cqe d ph cpl m)"
    by (simp add: post_mem_def g_def)
  have count: "rd64 (post_mem d ph cpl m) cb_CompletionsPosted = rd64 m cb_CompletionsPosted + 1"
    by (simp add: post_mem_def rd64_wr64)
  show ?case
  proof (cases cpls)
    case Nil
    with post loop show ?thesis
      by (auto simp: batch_state_def post_state_def post_mem_def)
  next
    case (Cons cpl' cpls')
    obtain m' t' ph' where r: "r = (m', t', ph')" by (cases r)
    have loc: "local_write ({cb_CompletionsPosted..<cb_CompletionsPosted + 8} \<union> {d + 20..<d + 20 + 4}) g"
      unfolding g_def qd_set_Tail_def by (rule local_write_comp [OF local_write_wr64 local_write_wr32])
    have apart: "({cb_CompletionsPosted..<cb_CompletionsPosted + 8} \<union> {d + 20..<d + 20 + 4}) \<inter> batch_footprint d base depth = {}"
      using fits(3,4) d by (auto simp: batch_footprint_def)
    have next_less: "cq_next m d < depth"
      using cq_next_less [OF ok] by (simp add: depth_def)
    have "post_batch_loop d base depth cpls (post_mem d ph cpl m, cq_next m d, post_phase m d ph) = Some (g m', t', ph')"
      using post_batch_loop_commute [OF loc apart next_less fits(2)] loop post_mem r by simp
    then have "post_list QueueId cpls (post_state QueueId m d ph cpl c) = Some (STATUS_SUCCESS,
        batch_state QueueId (post_mem d ph cpl m) d (length cpls) (g m', t', ph') (post_state QueueId m d ph cpl c))"
      using Cons.IH [OF cq_at_post_state [OF Cons.prems(1), of cpl]] local.Cons post_mem_desc [OF ok d, of ph cpl]
      by (simp add: base_def depth_def)
    also have "batch_state QueueId (post_mem d ph cpl m) d (length cpls) (g m', t', ph') (post_state QueueId m d ph cpl c)
        = batch_state QueueId m d (length (cpl # cpls)) r c"
      unfolding batch_state_after_post g_def tail_and_count_hidden [OF d] count r
      by (simp add: batch_state_def algebra_simps)
    finally show ?thesis using post by simp
  qed
qed

text \<open>C23: a batch of completions has the same effect as posting them one by one, on the shared memory, the
  statistics and the controller context, for the admin queue and for the I/O queues the control block
  counts.\<close>

theorem VnvmePostCompletionBatch_equals_single_posts:
  assumes "cq_at QueueId c m d ph"
    and "batch_counts QueueId m"
  shows "VnvmePostCompletionBatch QueueId cpls c = post_list QueueId cpls c"
proof (cases cpls)
  case Nil
  then show ?thesis by (simp add: VnvmePostCompletionBatch_def)
next
  case (Cons cpl cpls')
  from assms(1) have m: "VnvmeShmGetControlBlock c = Some m" and desc: "post_cqDesc QueueId c = Some (Inr (d, ph))"
    and ok: "cq_entries_ok m d" and d: "d = cb_AdminCQ \<or> 0x100 \<le> d" and wf: "pdo_wf (pdo c)"
    by (auto simp: cq_at_def split: if_splits)
  have "qd_Tail m d < qd_Capacity m d" "unat (qd_Offset m d) + 16 * unat (qd_Capacity m d) \<le> VNVME_SHM_SIZE"
    using ok by (auto simp: cq_entries_ok_def)
  from post_batch_loop_returns [OF this, of d cpls m ph] obtain m' t' ph' where
    loop: "post_batch_loop d (unat (qd_Offset m d)) (qd_Capacity m d) cpls (m, qd_Tail m d, ph) = Some (m', t', ph')"
    by blast
  have "same_outside (batch_footprint d (unat (qd_Offset m d)) (qd_Capacity m d)) m m'"
    using ok by (intro post_batch_loop_frame [OF _ _ loop]) (auto simp: cq_entries_ok_def)
  then have "rd64 m' cb_CompletionsPosted = rd64 m cb_CompletionsPosted"
    using d ok by (elim rd64_same_outside) (auto simp: batch_footprint_def cq_entries_ok_def)
  then have count: "rd64 (qd_set_Tail d t' m') cb_CompletionsPosted = rd64 m cb_CompletionsPosted"
    using d by (auto simp: qd_set_Tail_def rd64_wr32_apart)
  have "VnvmePostCompletionBatch QueueId cpls c
      = Some (STATUS_SUCCESS, batch_state QueueId m d (length cpls) (m', t', ph') c)"
  proof (cases "QueueId = 0")
    case True
    with desc have "d = cb_AdminCQ" "ph = qs_PhaseTag (pdo_AdminCq (pdo c))"
      by (auto simp: post_cqDesc_def)
    with True m loop count local.Cons show ?thesis
      by (simp add: VnvmePostCompletionBatch_def Let_def batch_state_def upd_shm_sync_cq upd_shm_upd_shm comp_def)
  next
    case False
    note q = batch_queue_index [OF assms(2) False]
    from desc False wf m obtain ioDescs where "VnvmeShmGetIoQueueDescriptors c = Some ioDescs"
      "d = ioDescs + (2 * (unat QueueId - 1) + 1) * 32" "d + 32 \<le> VNVME_SHM_SIZE"
      "ph = qs_PhaseTag (pdo_IoCq (pdo c) ! (unat QueueId - 1))"
      by (auto simp: post_cqDesc_def Let_def check_bind arr_get_def split: if_splits option.splits)
    with False q m loop count local.Cons wf show ?thesis
      by (simp add: VnvmePostCompletionBatch_def Let_def batch_state_def upd_shm_sync_cq upd_shm_upd_shm
          comp_def pdo_wf_def check_bind)
  qed
  then show ?thesis
    using post_list_batch_state [OF assms(1) _ loop] local.Cons by simp
qed

text \<open>The property at two completions on the example queue, which wrap around it.\<close>

theorem VnvmePostCompletionBatch_equals_single_posts_witness:
  "VnvmePostCompletionBatch 0 [example_cqe, example_cqe] (example_ctx example_cq_shm) = post_list 0 [example_cqe, example_cqe] (example_ctx example_cq_shm)"
  using VnvmePostCompletionBatch_equals_single_posts [OF example_cq_at, of "[example_cqe, example_cqe]"] by (simp add: batch_counts_def)

section \<open>The phase protocol\<close>

lemma post_batch_loop_append:
  "post_batch_loop d base depth (xs @ ys) r = post_batch_loop d base depth xs r \<bind> post_batch_loop d base depth ys"
proof (induction xs arbitrary: r)
  case Nil
  then show ?case by (cases r) simp
next
  case (Cons x xs)
  obtain m t ph where r: "r = (m, t, ph)" by (cases r)
  show ?case by (simp add: r Cons.IH Let_def check_bind split: prod.splits)
qed

text \<open>Slot and phase of the \<open>i\<close>-th entry after tail \<open>t\<close>.\<close>

definition ring_phase :: "nat \<Rightarrow> nat \<Rightarrow> bool \<Rightarrow> bool" where
  "ring_phase t depth ph = (if t < depth then ph else \<not> ph)"

lemma ring_slot_inj:
  assumes "i < n" "n < (depth :: nat)"
  shows "(t + i) mod depth \<noteq> (t + n) mod depth"
proof
  assume "(t + i) mod depth = (t + n) mod depth"
  then have "depth dvd (t + n) - (t + i)"
    using assms(1) mod_eq_dvd_iff_nat [of "t + i" "t + n" depth] by simp
  then show False
    using assms nat_dvd_not_less [of "n - i" depth] by simp
qed

lemma store_at_entry:
  assumes "t < depth" "base + 16 * unat depth \<le> VNVME_SHM_SIZE" "d + 32 \<le> base" "j < unat depth"
  shows "rd_NVME_COMPLETION (store_at d base depth t ph cpl m) (base + 16 * j)
    = (if j = unat t then cqe_with_phase cpl ph else rd_NVME_COMPLETION m (base + 16 * j))"
proof -
  let ?m = "wr_NVME_COMPLETION (base + 16 * unat t) (cqe_with_phase cpl ph) m"
  have "rd_NVME_COMPLETION (store_at d base depth t ph cpl m) (base + 16 * j) = rd_NVME_COMPLETION ?m (base + 16 * j)"
    using assms(3) by (intro rd_NVME_COMPLETION_eqI) (auto simp: store_at_def qd_set_Phase_def wr32_outside)
  also have "\<dots> = (if j = unat t then cqe_with_phase cpl ph else rd_NVME_COMPLETION m (base + 16 * j))"
    by (auto simp: rd_wr_NVME_COMPLETION intro!: rd_NVME_COMPLETION_eqI wr_NVME_COMPLETION_outside)
  finally show ?thesis .
qed

lemma post_batch_loop_entries:
  assumes "t < depth" "base + 16 * unat depth \<le> VNVME_SHM_SIZE" "d + 32 \<le> base" "length cpls \<le> unat depth"
  shows "\<exists>m' t'. post_batch_loop d base depth cpls (m, t, ph)
      = Some (m', t', ring_phase (unat t + length cpls) (unat depth) ph)
    \<and> unat t' = (unat t + length cpls) mod unat depth \<and> t' < depth
    \<and> (\<forall>i<length cpls. rd_NVME_COMPLETION m' (base + 16 * ((unat t + i) mod unat depth))
         = cqe_with_phase (cpls ! i) (ring_phase (unat t + i) (unat depth) ph))"
  using assms(4)
proof (induction cpls rule: rev_induct)
  case Nil
  then show ?case using assms(1) by (simp add: ring_phase_def word_less_nat_alt)
next
  case (snoc x xs)
  define D where "D = unat depth"
  define k where "k = unat t + length xs"
  have D: "unat t < D" "length xs < D" "0 < D"
    using assms(1) snoc.prems by (auto simp: D_def word_less_nat_alt)
  from snoc obtain m1 t1 where
    loop: "post_batch_loop d base depth xs (m, t, ph) = Some (m1, t1, ring_phase k D ph)"
    and t1: "unat t1 = k mod D" "t1 < depth"
    and entries: "\<forall>i<length xs. rd_NVME_COMPLETION m1 (base + 16 * ((unat t + i) mod D))
         = cqe_with_phase (xs ! i) (ring_phase (unat t + i) D ph)"
    by (auto simp: D_def k_def)
  have next_t: "unat ((t1 + 1) mod depth) = Suc k mod D"
    using unat_word_suc_mod [OF t1(2)] t1 by (simp add: D_def mod_Suc_eq)
  have next_less: "(t1 + 1) mod depth < depth"
    using t1(2) by (intro word_suc_mod_less) (auto simp: word_gt_0)
  have "Suc k mod D = (if Suc k < D then Suc k else Suc k - D)"
    using D by (simp add: k_def le_mod_geq not_less)
  then have wrap: "(t1 + 1) mod depth = 0 \<longleftrightarrow> Suc k = D"
    using next_t D by (auto simp: word_unat_eq_iff split: if_splits)
  then have phase: "(if (t1 + 1) mod depth = 0 then \<not> ring_phase k D ph else ring_phase k D ph) = ring_phase (Suc k) D ph"
    by (auto simp: ring_phase_def)
  have run: "post_batch_loop d base depth (xs @ [x]) (m, t, ph)
      = Some (store_at d base depth t1 (ring_phase k D ph) x m1, (t1 + 1) mod depth, ring_phase (Suc k) D ph)"
    using loop post_batch_loop_step [OF t1(2) assms(2), of d x "[]" m1 "ring_phase k D ph"] phase
    by (simp add: post_batch_loop_append)
  have "rd_NVME_COMPLETION (store_at d base depth t1 (ring_phase k D ph) x m1) (base + 16 * ((unat t + i) mod D))
      = cqe_with_phase ((xs @ [x]) ! i) (ring_phase (unat t + i) D ph)" if i: "i < Suc (length xs)" for i
  proof -
    have "(unat t + i) mod D = unat t1 \<longleftrightarrow> i = length xs"
      using i ring_slot_inj [of i "length xs" D "unat t"] D t1(1) by (auto simp: k_def less_Suc_eq)
    then show ?thesis
      using i D entries by (auto simp: store_at_entry [OF t1(2) assms(2,3)] D_def [symmetric] nth_append k_def less_Suc_eq)
  qed
  with run next_t next_less show ?case
    by (auto simp: D_def k_def)
qed

text \<open>C4: the phase protocol. Posting up to as many completions as the queue has slots succeeds, and the \<open>i\<close>-th
  one is then in the \<open>i\<close>-th slot after the old tail, around the ring, with the current phase before the
  wrap and the inverted phase after it: a host that inverts its expected phase at every wrap finds
  exactly the new entries.\<close>

theorem completion_queue_phase_protocol:
  assumes "cq_at QueueId c m d ph" "length cpls \<le> unat (qd_Capacity m d)"
  shows "\<exists>c' m'. post_list QueueId cpls c = Some (STATUS_SUCCESS, c') \<and> VnvmeShmGetControlBlock c' = Some m'
    \<and> (\<forall>i<length cpls. rd_NVME_COMPLETION m'
          (unat (qd_Offset m d) + 16 * ((unat (qd_Tail m d) + i) mod unat (qd_Capacity m d)))
        = cqe_with_phase (cpls ! i) (if unat (qd_Tail m d) + i < unat (qd_Capacity m d) then ph else \<not> ph))"
proof (cases "cpls = []")
  case True
  with assms(1) show ?thesis by (simp add: cq_at_def)
next
  case False
  define base where "base = unat (qd_Offset m d)"
  from assms(1) have m: "VnvmeShmGetControlBlock c = Some m" and ok: "cq_entries_ok m d"
    and d: "d = cb_AdminCQ \<or> 0x100 \<le> d"
    by (auto simp: cq_at_def split: if_splits)
  from post_batch_loop_entries [of "qd_Tail m d" "qd_Capacity m d" base d cpls m ph] ok assms(2)
  obtain m' t' ph' where loop: "post_batch_loop d base (qd_Capacity m d) cpls (m, qd_Tail m d, ph) = Some (m', t', ph')"
    and entries: "\<forall>i<length cpls. rd_NVME_COMPLETION m' (base + 16 * ((unat (qd_Tail m d) + i) mod unat (qd_Capacity m d)))
         = cqe_with_phase (cpls ! i) (ring_phase (unat (qd_Tail m d) + i) (unat (qd_Capacity m d)) ph)"
    by (auto simp: cq_entries_ok_def base_def)
  define m2 where "m2 = wr64 cb_CompletionsPosted (rd64 m cb_CompletionsPosted + of_nat (length cpls)) (qd_set_Tail d t' m')"
  have "VnvmeShmGetControlBlock (batch_state QueueId m d (length cpls) (m', t', ph') c) = Some m2"
    using m by (simp add: batch_state_def sync_cq_def m2_def)
  moreover have "rd_NVME_COMPLETION m2 (base + x) = rd_NVME_COMPLETION m' (base + x)" for x
    using ok d by (intro rd_NVME_COMPLETION_eqI)
      (auto simp: m2_def qd_set_Tail_def wr64_outside wr32_outside cq_entries_ok_def base_def)
  ultimately show ?thesis
    using post_list_batch_state [OF assms(1) False loop [unfolded base_def]] entries
    by (simp add: ring_phase_def base_def)
qed

text \<open>The property at two completions on the example queue: the first ends the old round, the second starts
  the new one.\<close>

theorem completion_queue_phase_protocol_witness:
  "\<exists>c' m'. post_list 0 [example_cqe, example_cqe] (example_ctx example_cq_shm) = Some (STATUS_SUCCESS, c')
    \<and> rd_NVME_COMPLETION m' 0x3010 = cqe_with_phase example_cqe False
    \<and> rd_NVME_COMPLETION m' 0x3000 = cqe_with_phase example_cqe True"
proof -
  have fields: "qd_Tail example_cq_shm 64 = 1" "qd_Capacity example_cq_shm 64 = 2"
    "qd_Offset example_cq_shm 64 = 0x3000"
    by (simp_all add: qd_get_defs example_cq_shm_def mem_simps)
  from completion_queue_phase_protocol [OF example_cq_at, of "[example_cqe, example_cqe]", unfolded fields]
  obtain c' m' where run: "post_list 0 [example_cqe, example_cqe] (example_ctx example_cq_shm) = Some (STATUS_SUCCESS, c')"
    and entries: "\<forall>i<length [example_cqe, example_cqe]. rd_NVME_COMPLETION m'
          (unat (0x3000 :: u32) + 16 * ((unat (1 :: u32) + i) mod unat (2 :: u32)))
        = cqe_with_phase ([example_cqe, example_cqe] ! i) (if unat (1 :: u32) + i < unat (2 :: u32) then False else \<not> False)"
    by (simp del: post_list.simps) blast
  from entries [rule_format, of 0] entries [rule_format, of 1] run show ?thesis by auto
qed

end
