(* ===== verification/Vnvme_Admin_Props.thy ===== *)
theory Vnvme_Admin_Props
  imports Vnvme_Admin Vnvme_Post
begin

text \<open>
  The admin commands keep the controller's queue table consistent and answer every command, the
  asynchronous event requests are a bounded queue, and the identify data round-trips through host memory.
\<close>

section \<open>The queue table\<close>

text \<open>
  Every created submission queue has at least two entries, is counted, and is bound to a created
  completion queue; every created completion queue has at least two entries; no more than four event
  requests are stored, and the phase that completions are built with is a bit.
\<close>

definition sq_bound :: "VNVME_PDO_CONTEXT \<Rightarrow> nat \<Rightarrow> bool" where
  "sq_bound p i \<longleftrightarrow>
     (qs_Created (pdo_IoSq p ! i) \<longrightarrow>
        VNVME_IO_QUEUE_ID_VALID (qs_CqId (pdo_IoSq p ! i))
        \<and> qs_Created (pdo_IoCq p ! (unat (qs_CqId (pdo_IoSq p ! i)) - 1))
        \<and> 2 \<le> qs_Size (pdo_IoSq p ! i) \<and> i < unat (pdo_IoQueueCount p))"

definition admin_inv :: "VNVME_PDO_CONTEXT \<Rightarrow> bool" where
  "admin_inv p \<longleftrightarrow> pdo_wf p \<and> unat (pdo_AerCount p) \<le> VNVME_MAX_AER_COMMANDS
     \<and> unat (pdo_IoQueueCount p) \<le> VNVME_MAX_IO_QUEUES \<and> pdo_AdminCqPhase p \<le> 1
     \<and> (\<forall>i<VNVME_MAX_IO_QUEUES. sq_bound p i)
     \<and> (\<forall>i<VNVME_MAX_IO_QUEUES. qs_Created (pdo_IoCq p ! i) \<longrightarrow> 2 \<le> qs_Size (pdo_IoCq p ! i))"

lemma admin_inv_zero: "admin_inv zero_PDO_CONTEXT"
  by (simp add: admin_inv_def pdo_wf_def sq_bound_def zero_PDO_CONTEXT_def zero_QUEUE_STATE_def)

lemma admin_inv_other [simp]:
  "admin_inv (p\<lparr>pdo_AdminCq := q\<rparr>) = admin_inv p"
  "admin_inv (p\<lparr>pdo_AdminSq := q\<rparr>) = admin_inv p"
  "admin_inv (p\<lparr>pdo_AdminCommandsProcessed := n\<rparr>) = admin_inv p"
  "admin_inv (p\<lparr>pdo_MaxIoQueues := k\<rparr>) = admin_inv p"
  by (simp_all add: admin_inv_def sq_bound_def pdo_wf_def)

lemma qid_valid_index:
  assumes "VNVME_IO_QUEUE_ID_VALID qid"
  shows "unat qid - 1 < 16" "0 < unat qid" "unat qid \<le> 16"
  using assms by (auto simp: VNVME_IO_QUEUE_ID_VALID_def word_le_nat_alt word_less_nat_alt)

lemma admin_inv_create_cq:
  fixes qid qsize :: u16
  assumes "admin_inv p" "VNVME_IO_QUEUE_ID_VALID qid" "2 \<le> qsize"
  shows "admin_inv (upd_IoCq (unat qid - 1) (\<lambda>q. q\<lparr>qs_BaseAddress := a, qs_Size := ucast qsize, qs_Head := 0,
    qs_Tail := 0, qs_PhaseTag := True, qs_Created := True\<rparr>) p)"
proof -
  have "2 \<le> (ucast qsize :: u32)"
    using assms(3) by (simp add: word_le_nat_alt)
  with assms(1,2) qid_valid_index [OF assms(2)] show ?thesis
    by (auto simp: admin_inv_def pdo_wf_def upd_IoCq_def sq_bound_def nth_list_update)
qed

lemma admin_inv_create_sq:
  fixes a :: u64 and p :: VNVME_PDO_CONTEXT and qid qsize cqid :: u16
  assumes "admin_inv p" "VNVME_IO_QUEUE_ID_VALID qid" "2 \<le> qsize"
    and "VNVME_IO_QUEUE_ID_VALID cqid" "qs_Created (pdo_IoCq p ! (unat cqid - 1))"
  defines "p' \<equiv> upd_IoSq (unat qid - 1) (\<lambda>q. q\<lparr>qs_BaseAddress := a, qs_Size := ucast qsize, qs_Head := 0,
    qs_Tail := 0, qs_CqId := cqid, qs_Created := True\<rparr>) p"
  shows "admin_inv (if pdo_IoQueueCount p' < qid then p'\<lparr>pdo_IoQueueCount := qid\<rparr> else p')"
proof -
  have size: "2 \<le> (ucast qsize :: u32)"
    using assms(3) by (simp add: word_le_nat_alt)
  have count: "pdo_IoQueueCount p' = pdo_IoQueueCount p" "pdo_IoCq p' = pdo_IoCq p" "length (pdo_IoSq p') = length (pdo_IoSq p)"
    "pdo_AerCount p' = pdo_AerCount p" "pdo_AerCids p' = pdo_AerCids p" "pdo_Namespaces p' = pdo_Namespaces p"
    "pdo_AdminCqPhase p' = pdo_AdminCqPhase p"
    by (simp_all add: p'_def upd_IoSq_def)
  note q = qid_valid_index [OF assms(2)]
  have sq: "pdo_IoSq p' ! i = (if i = unat qid - 1 then (pdo_IoSq p ! i)\<lparr>qs_BaseAddress := a, qs_Size := ucast qsize,
      qs_Head := 0, qs_Tail := 0, qs_CqId := cqid, qs_Created := True\<rparr> else pdo_IoSq p ! i)" if "i < 16" for i
    using assms(1) that q by (auto simp: p'_def upd_IoSq_def admin_inv_def pdo_wf_def nth_list_update)
  show ?thesis
    using assms(1,4,5) size q sq
    by (auto simp: admin_inv_def pdo_wf_def sq_bound_def count word_less_nat_alt not_less)
qed

lemma admin_inv_delete_sq:
  "admin_inv p \<Longrightarrow> i < 16 \<Longrightarrow> admin_inv (upd_IoSq i (\<lambda>_. zero_QUEUE_STATE) p)"
  by (auto simp: admin_inv_def pdo_wf_def upd_IoSq_def sq_bound_def nth_list_update zero_QUEUE_STATE_def)

lemma admin_inv_delete_cq:
  assumes "admin_inv p" "VNVME_IO_QUEUE_ID_VALID qid"
    and "\<not> list_ex (\<lambda>i. qs_Created (pdo_IoSq p ! i) \<and> qs_CqId (pdo_IoSq p ! i) = qid) [0..<16]"
  shows "admin_inv (upd_IoCq (unat qid - 1) (\<lambda>_. zero_QUEUE_STATE) p)"
proof -
  let ?p = "upd_IoCq (unat qid - 1) (\<lambda>_. zero_QUEUE_STATE) p"
  have len: "length (pdo_IoCq p) = 16"
    using assms(1) by (simp add: admin_inv_def pdo_wf_def)
  have cq: "pdo_IoCq ?p ! j = (if j = unat qid - 1 then zero_QUEUE_STATE else pdo_IoCq p ! j)" if "j < 16" for j
    using len that by (auto simp: upd_IoCq_def nth_list_update)
  have "sq_bound ?p i" if i: "i < 16" for i
  proof (cases "qs_Created (pdo_IoSq p ! i)")
    case True
    then have valid: "VNVME_IO_QUEUE_ID_VALID (qs_CqId (pdo_IoSq p ! i))" and ne: "qs_CqId (pdo_IoSq p ! i) \<noteq> qid"
      using assms(1,3) i by (auto simp: admin_inv_def sq_bound_def list_ex_iff)
    have "unat (qs_CqId (pdo_IoSq p ! i)) - 1 \<noteq> unat qid - 1"
      using ne qid_valid_index [OF valid] qid_valid_index [OF assms(2)] by (auto simp: word_unat_eq_iff)
    with assms(1) i cq qid_valid_index(1) [OF valid] show ?thesis
      by (auto simp: admin_inv_def sq_bound_def upd_IoCq_def)
  qed (simp add: sq_bound_def upd_IoCq_def)
  moreover have "qs_Created (pdo_IoCq ?p ! i) \<longrightarrow> 2 \<le> qs_Size (pdo_IoCq ?p ! i)" if "i < 16" for i
    unfolding cq [OF that] using assms(1) that by (simp add: admin_inv_def zero_QUEUE_STATE_def)
  ultimately show ?thesis
    using assms(1) by (simp add: admin_inv_def pdo_wf_def) (simp add: upd_IoCq_def)
qed

section \<open>Answering commands\<close>

text \<open>The admin completion queue with this memory, descriptor and phase accepts entries.\<close>

definition admin_queue :: "mem \<times> nat \<times> bool \<Rightarrow> vnvme_ctx \<Rightarrow> bool" where
  "admin_queue = (\<lambda>(m, d, ph) c. cq_at 0 c m d ph)"

lemma admin_queue_cong:
  assumes "VnvmeShmGetControlBlock c' = VnvmeShmGetControlBlock c" "pdo_AdminCq (pdo c') = pdo_AdminCq (pdo c)"
    and "pdo_wf (pdo c')" "admin_queue q c"
  shows "admin_queue q c'"
  using assms by (auto simp: admin_queue_def cq_at_def post_cqDesc_def)

text \<open>What a handler does when it answers: it has posted one completion of the command, and the state it leaves satisfies the
  invariant again. The one exception is an asynchronous event request that is stored: it waits for its event, so nothing
  is posted.\<close>

definition answered :: "u16 \<Rightarrow> mem \<times> nat \<times> bool \<Rightarrow> vnvme_ctx \<Rightarrow> (NTSTATUS \<times> vnvme_ctx) option \<Rightarrow> bool" where
  "answered cid q c r \<longleftrightarrow> (\<exists>sct sc c'. r = Some (STATUS_SUCCESS, c') \<and> admin_inv (pdo c') \<and> completed_once 0 cid sct sc q c'
     \<and> pdo_AdminCommandsProcessed (pdo c') = pdo_AdminCommandsProcessed (pdo c))"

lemma post_completes:
  fixes sct sc :: u8 and h cid :: u16 and dw0 :: u32
  assumes "admin_inv (pdo c)" "admin_queue q c"
  defines "cpl \<equiv> \<lparr>cqe_DW0 = dw0, cqe_DW1 = 0, cqe_SQHD = h, cqe_SQID = 0, cqe_CID = cid,
    cqe_Status = NvmeMakeStatus sct sc (ucast (pdo_AdminCqPhase (pdo c)))\<rparr>"
  shows "\<exists>c'. VnvmePostCompletion 0 (Some cpl) c = Some (STATUS_SUCCESS, c') \<and> admin_inv (pdo c')
    \<and> completed_once 0 cid sct sc q c' \<and> pdo_AdminCommandsProcessed (pdo c') = pdo_AdminCommandsProcessed (pdo c)"
proof -
  obtain m d ph where q: "q = (m, d, ph)" by (cases q)
  with assms(2) have at: "cq_at 0 c m d ph" by (simp add: admin_queue_def)
  have "pdo_AdminCqPhase (pdo c) = 0 \<or> pdo_AdminCqPhase (pdo c) = 1"
    using assms(1) by (auto simp: admin_inv_def word_le_nat_alt word_unat_eq_iff le_Suc_eq)
  then have "(ucast (pdo_AdminCqPhase (pdo c)) :: u8) \<le> 1" by auto
  from completed_once_post [OF at _ _ this, of cpl sct sc] VnvmePostCompletion_state [OF at, of cpl] assms(1) show ?thesis
    by (intro exI [of _ "post_state 0 m d ph cpl c"]) (simp add: q cpl_def post_state_def sync_cq_def)
qed

lemma PostSuccessCompletion_answers:
  "admin_inv (pdo c) \<Longrightarrow> admin_queue q c \<Longrightarrow> answered cid q c (PostSuccessCompletion cid dw0 c)"
  unfolding PostSuccessCompletion_def answered_def using post_completes by fast

lemma PostErrorCompletion_answers:
  "admin_inv (pdo c) \<Longrightarrow> admin_queue q c \<Longrightarrow> answered cid q c (PostErrorCompletion cid sct sc c)"
  unfolding PostErrorCompletion_def answered_def using post_completes by fast

lemmas answers = PostSuccessCompletion_answers PostErrorCompletion_answers

lemma upd_pdo_upd_pdo: "upd_pdo g (upd_pdo f c) = upd_pdo (\<lambda>p. g (f p)) c"
  by (simp add: upd_pdo_def)

text \<open>A handler that changed the controller before it answered.\<close>

lemma success_after_update:
  assumes "admin_inv (f (pdo c))" "admin_queue q c" "pdo_AdminCq (f (pdo c)) = pdo_AdminCq (pdo c)"
    and "pdo_AdminCommandsProcessed (f (pdo c)) = pdo_AdminCommandsProcessed (pdo c)"
  shows "answered cid q c (PostSuccessCompletion cid dw0 (upd_pdo f c))"
proof -
  have "admin_queue q (upd_pdo f c)"
    using assms by (intro admin_queue_cong [OF _ _ _ assms(2)]) (auto simp: admin_inv_def)
  with PostSuccessCompletion_answers [of "upd_pdo f c" q cid dw0] assms(1,4) show ?thesis
    by (simp add: answered_def)
qed

lemma send_data_answers:
  assumes "admin_inv (pdo c)" "admin_queue q c" "unat len \<le> length buf"
  shows "answered (CID cmd) q c (send_data os cmd buf len c)"
proof -
  from assms(3) have "VnvmeWriteToHostMemory (os_map os 0) (PRP1 cmd) (Some buf) len (host c) \<noteq> None"
    by (simp add: VnvmeWriteToHostMemory_def check_bind)
  then obtain status h where
    w: "VnvmeWriteToHostMemory (os_map os 0) (PRP1 cmd) (Some buf) len (host c) = Some (status, h)"
    by auto
  have "admin_queue q (c\<lparr>host := h\<rparr>)"
    using assms(1) by (intro admin_queue_cong [OF _ _ _ assms(2)]) (auto simp: admin_inv_def VnvmeShmGetControlBlock_def)
  then have "answered cid q (c\<lparr>host := h\<rparr>) (PostSuccessCompletion cid dw0 (c\<lparr>host := h\<rparr>))"
    "answered cid q (c\<lparr>host := h\<rparr>) (PostErrorCompletion cid sct sc (c\<lparr>host := h\<rparr>))" for cid dw0 sct sc
    using assms(1) by (auto intro: answers)
  with w show ?thesis by (simp add: send_data_def answered_def Let_def)
qed

lemma nsid_valid_index: "VNVME_NSID_VALID nsid \<Longrightarrow> unat (VNVME_NSID_TO_INDEX nsid) < 16"
  by (auto simp: VNVME_NSID_VALID_def VNVME_NSID_TO_INDEX_def word_le_nat_alt word_less_nat_alt unat_sub_if')

lemma HandleIdentify_answers:
  assumes "admin_inv (pdo c)" "admin_queue q c"
  shows "answered (CID cmd) q c (HandleIdentify os cmd c)"
proof -
  note send = send_data_answers [OF assms] and post = answers [OF assms]
  have "answered (CID cmd) q c (HandleIdentifyNamespace os cmd c)"
    using assms(1) nsid_valid_index [of "NSID cmd"] send post
    by (auto simp: HandleIdentifyNamespace_def admin_inv_def pdo_wf_def)
  moreover have "answered (CID cmd) q c (HandleIdentifyController os cmd c)" "answered (CID cmd) q c (HandleIdentifyActiveNsList os cmd c)"
    using send post by (auto simp: HandleIdentifyController_def HandleIdentifyActiveNsList_def)
  ultimately show ?thesis
    using post by (auto simp: HandleIdentify_def Let_def)
qed

lemma queue_commands_answer:
  assumes "admin_inv (pdo c)" "admin_queue q c"
  shows "answered (CID cmd) q c (HandleCreateIoCq cmd c)" "answered (CID cmd) q c (HandleCreateIoSq cmd c)"
    "answered (CID cmd) q c (HandleDeleteIoCq cmd c)" "answered (CID cmd) q c (HandleDeleteIoSq cmd c)"
proof -
  note post = answers [OF assms]
  have len: "length (pdo_IoCq (pdo c)) = 16" "length (pdo_IoSq (pdo c)) = 16"
    using assms(1) by (auto simp: admin_inv_def pdo_wf_def)
  note index = qid_valid_index(1)
  show "answered (CID cmd) q c (HandleCreateIoCq cmd c)"
    using post assms len index [of "cmd_qid cmd"] admin_inv_create_cq [OF assms(1), of "cmd_qid cmd" "cmd_qsize cmd"]
    by (auto simp: HandleCreateIoCq_def Let_def not_less intro!: success_after_update) (auto simp: upd_IoCq_def)
  show "answered (CID cmd) q c (HandleDeleteIoSq cmd c)"
    using post assms len index [of "cmd_qid cmd"] admin_inv_delete_sq [OF assms(1)]
    by (auto simp: HandleDeleteIoSq_def Let_def intro!: success_after_update) (auto simp: upd_IoSq_def)
  show "answered (CID cmd) q c (HandleDeleteIoCq cmd c)"
    using post assms len index [of "cmd_qid cmd"] admin_inv_delete_cq [OF assms(1), of "cmd_qid cmd"]
    by (auto simp: HandleDeleteIoCq_def Let_def intro!: success_after_update) (auto simp: upd_IoCq_def)
  show "answered (CID cmd) q c (HandleCreateIoSq cmd c)"
  proof (cases "VNVME_IO_QUEUE_ID_VALID (cmd_qid cmd) \<and> 2 \<le> cmd_qsize cmd \<and> VNVME_IO_QUEUE_ID_VALID (cmd_cqid cmd)
      \<and> qs_Created (pdo_IoCq (pdo c) ! (unat (cmd_cqid cmd) - 1)) \<and> \<not> qs_Created (pdo_IoSq (pdo c) ! (unat (cmd_qid cmd) - 1))")
    case True
    let ?f = "\<lambda>p. if pdo_IoQueueCount p < cmd_qid cmd then p\<lparr>pdo_IoQueueCount := cmd_qid cmd\<rparr> else p"
    let ?g = "upd_IoSq (unat (cmd_qid cmd) - 1) (\<lambda>q. q\<lparr>qs_BaseAddress := PRP1 cmd, qs_Size := ucast (cmd_qsize cmd),
      qs_Head := 0, qs_Tail := 0, qs_CqId := cmd_cqid cmd, qs_Created := True\<rparr>)"
    have "answered (CID cmd) q c (PostSuccessCompletion (CID cmd) 0 (upd_pdo (\<lambda>p. ?f (?g p)) c))"
      using True admin_inv_create_sq [OF assms(1), of "cmd_qid cmd" "cmd_qsize cmd" "cmd_cqid cmd" "PRP1 cmd"] assms(2)
      by (intro success_after_update) (auto simp: upd_IoSq_def)
    with True len index [of "cmd_qid cmd"] index [of "cmd_cqid cmd"] post show ?thesis
      by (simp add: HandleCreateIoSq_def Let_def upd_pdo_upd_pdo not_less del: One_nat_def)
  next
    case False
    with post len index [of "cmd_qid cmd"] index [of "cmd_cqid cmd"] show ?thesis
      by (auto simp: HandleCreateIoSq_def Let_def not_less)
  qed
qed

lemma other_commands_answer:
  assumes "admin_inv (pdo c)" "admin_queue q c"
  shows "answered (CID cmd) q c (HandleSetFeatures cmd c)" "answered (CID cmd) q c (HandleGetFeatures cmd c)" "answered (CID cmd) q c (HandleAbort cmd c)"
    "answered (CID cmd) q c (HandleKeepAlive cmd c)" "answered (CID cmd) q c (HandleGetLogPage os cmd c)"
proof -
  note post = answers [OF assms]
  show "answered (CID cmd) q c (HandleSetFeatures cmd c)"
    using post assms by (auto simp: HandleSetFeatures_def Let_def intro!: success_after_update)
  show "answered (CID cmd) q c (HandleGetFeatures cmd c)" "answered (CID cmd) q c (HandleAbort cmd c)" "answered (CID cmd) q c (HandleKeepAlive cmd c)"
    using post by (auto simp: HandleGetFeatures_def HandleAbort_def HandleKeepAlive_def Let_def)
  show "answered (CID cmd) q c (HandleGetLogPage os cmd c)"
    using post send_data_answers [OF assms] by (auto simp: HandleGetLogPage_def Let_def split: option.split)
qed

definition aer_items :: "VNVME_PDO_CONTEXT \<Rightarrow> u16 list" where
  "aer_items p = take (unat (pdo_AerCount p)) (pdo_AerCids p)"

lemma HandleAsyncEventRequest_full:
  assumes "admin_inv (pdo c)" "admin_queue q c" "\<not> pdo_AerCount (pdo c) < of_nat VNVME_MAX_AER_COMMANDS"
  shows "answered (CID cmd) q c (HandleAsyncEventRequest cmd c)"
  using answers [OF assms(1,2)] assms(3) by (simp add: HandleAsyncEventRequest_def aer_store_def not_less)

lemma HandleAsyncEventRequest_stores:
  assumes "admin_inv (pdo c)" "admin_queue q c" "pdo_AerCount (pdo c) < of_nat VNVME_MAX_AER_COMMANDS"
  shows "\<exists>c'. HandleAsyncEventRequest cmd c = Some (STATUS_SUCCESS, c') \<and> admin_inv (pdo c') \<and> admin_queue q c'
    \<and> aer_items (pdo c') = aer_items (pdo c) @ [CID cmd] \<and> pdo_AdminCommandsProcessed (pdo c') = pdo_AdminCommandsProcessed (pdo c)"
proof -
  obtain p where store: "aer_store (CID cmd) (pdo c) = Some p"
    using assms(3) by (simp add: aer_store_def not_le [symmetric])
  have n: "unat (pdo_AerCount (pdo c)) < 4" "length (pdo_AerCids (pdo c)) = 4"
    using assms(1,3) by (simp_all add: admin_inv_def pdo_wf_def word_less_nat_alt)
  then have "unat (pdo_AerCount (pdo c) + 1) = Suc (unat (pdo_AerCount (pdo c)))" by (simp add: unat_word_ariths)
  then have p: "admin_inv p" "pdo_AdminCq p = pdo_AdminCq (pdo c)" "aer_items p = aer_items (pdo c) @ [CID cmd]"
    "pdo_AdminCommandsProcessed p = pdo_AdminCommandsProcessed (pdo c)"
    using assms(1) store n
    by (auto simp: aer_store_def aer_items_def admin_inv_def sq_bound_def pdo_wf_def take_Suc_conv_app_nth split: if_splits)
  have "admin_queue q (upd_pdo (\<lambda>_. p) c)"
    using p by (intro admin_queue_cong [OF _ _ _ assms(2)]) (auto simp: admin_inv_def)
  with p store show ?thesis by (simp add: HandleAsyncEventRequest_def)
qed

lemma count_processed:
  assumes "admin_inv (pdo c)"
  defines "f \<equiv> \<lambda>p. p\<lparr>pdo_AdminCommandsProcessed := pdo_AdminCommandsProcessed p + 1\<rparr>"
  shows "admin_inv (pdo (upd_pdo f c))" "completed_once 0 cid sct sc q c \<Longrightarrow> completed_once 0 cid sct sc q (upd_pdo f c)"
    "admin_queue q c \<Longrightarrow> admin_queue q (upd_pdo f c)" "aer_items (pdo (upd_pdo f c)) = aer_items (pdo c)"
proof -
  have wf: "pdo_wf (pdo (upd_pdo f c))" using assms(1) by (simp add: admin_inv_def pdo_wf_def f_def)
  show "admin_inv (pdo (upd_pdo f c))" "aer_items (pdo (upd_pdo f c)) = aer_items (pdo c)"
    using assms(1) by (simp_all add: f_def aer_items_def)
  show "completed_once 0 cid sct sc q (upd_pdo f c)" if "completed_once 0 cid sct sc q c"
    by (rule completed_once_cong [OF that _ _ wf]) (simp_all add: f_def post_cqDesc_def)
  show "admin_queue q (upd_pdo f c)" if "admin_queue q c"
    by (rule admin_queue_cong [OF _ _ wf that]) (simp_all add: f_def)
qed

text \<open>The commands the controller knows.\<close>

abbreviation (input) admin_opcodes :: "u8 set" where
  "admin_opcodes \<equiv> {0x00, 0x01, 0x02, 0x04, 0x05, 0x06, 0x08, 0x09, 0x0A, 0x0C, 0x18}"

lemma admin_dispatch_answers:
  assumes "admin_inv (pdo c)" "admin_queue q c" "OPC cmd = 0x0C \<longrightarrow> \<not> pdo_AerCount (pdo c) < of_nat VNVME_MAX_AER_COMMANDS"
  shows "\<exists>sct sc c'. admin_dispatch os cmd c = Some (STATUS_SUCCESS, c') \<and> admin_inv (pdo c') \<and> completed_once 0 (CID cmd) sct sc q c'
    \<and> pdo_AdminCommandsProcessed (pdo c') = pdo_AdminCommandsProcessed (pdo c)
    \<and> (OPC cmd \<notin> admin_opcodes \<longrightarrow> sct = NVME_SCT_GENERIC \<and> sc = NVME_SC_INVALID_OPCODE)"
proof (cases "OPC cmd \<in> admin_opcodes")
  case True
  then have "answered (CID cmd) q c (admin_dispatch os cmd c)"
    using HandleIdentify_answers [OF assms(1,2)] queue_commands_answer [OF assms(1,2)] other_commands_answer [OF assms(1,2)]
      HandleAsyncEventRequest_full [OF assms(1,2)] assms(3)
    by (auto simp: admin_dispatch_def)
  with True show ?thesis by (auto simp: answered_def)
next
  case False
  have "\<exists>c'. PostErrorCompletion (CID cmd) NVME_SCT_GENERIC NVME_SC_INVALID_OPCODE c = Some (STATUS_SUCCESS, c') \<and> admin_inv (pdo c')
      \<and> completed_once 0 (CID cmd) NVME_SCT_GENERIC NVME_SC_INVALID_OPCODE q c'
      \<and> pdo_AdminCommandsProcessed (pdo c') = pdo_AdminCommandsProcessed (pdo c)"
    unfolding PostErrorCompletion_def by (rule post_completes [OF assms(1,2)])
  with False show ?thesis by (auto simp: admin_dispatch_def)
qed

text \<open>C3: every admin command is answered, with exactly one completion. While the admin completion queue, at descriptor \<open>d\<close> with phase \<open>ph\<close>, accepts
  entries, processing any command, with any answers of the system, returns \<open>STATUS_SUCCESS\<close> and counts the command. The entry at
  the old tail then carries the identifier of this command, queue 0, a status and the phase of the queue, the tail has moved
  by one, and no other byte of the shared memory but the tail, phase and statistics changed. The one exception is an asynchronous event request while fewer than
  four are stored: nothing is posted, and its identifier is stored behind the others. A command with an unknown opcode gets Invalid
  Opcode. The queue table stays consistent: no submission queue is ever left without its completion queue.\<close>

theorem VnvmeProcessAdminCommand_answers:
  assumes "admin_inv (pdo c)" "cq_at 0 c m d ph"
  shows "\<exists>c'. VnvmeProcessAdminCommand os cmd c = Some (STATUS_SUCCESS, c') \<and> admin_inv (pdo c')
    \<and> pdo_AdminCommandsProcessed (pdo c') = pdo_AdminCommandsProcessed (pdo c) + 1
    \<and> (if OPC cmd = 0x0C \<and> pdo_AerCount (pdo c) < 4
       then cq_at 0 c' m d ph \<and> aer_items (pdo c') = aer_items (pdo c) @ [CID cmd]
       else \<exists>sct sc. completed_once 0 (CID cmd) sct sc (m, d, ph) c'
         \<and> (OPC cmd \<notin> {0x00, 0x01, 0x02, 0x04, 0x05, 0x06, 0x08, 0x09, 0x0A, 0x0C, 0x18}
             \<longrightarrow> sct = NVME_SCT_GENERIC \<and> sc = NVME_SC_INVALID_OPCODE))"
proof -
  have q: "admin_queue (m, d, ph) c" using assms(2) by (simp add: admin_queue_def)
  show ?thesis
  proof (cases "OPC cmd = 0x0C \<and> pdo_AerCount (pdo c) < 4")
    case True
    then obtain c' where c': "admin_dispatch os cmd c = Some (STATUS_SUCCESS, c')" "admin_inv (pdo c')" "admin_queue (m, d, ph) c'"
      "aer_items (pdo c') = aer_items (pdo c) @ [CID cmd]" "pdo_AdminCommandsProcessed (pdo c') = pdo_AdminCommandsProcessed (pdo c)"
      using HandleAsyncEventRequest_stores [OF assms(1) q, of cmd] by (auto simp: admin_dispatch_def)
    with True count_processed [OF c'(2)] show ?thesis
      by (auto simp: VnvmeProcessAdminCommand_def admin_queue_def simp del: upd_pdo_simps) (simp add: c'(5))
  next
    case False
    then obtain sct sc c' where c': "admin_dispatch os cmd c = Some (STATUS_SUCCESS, c')" "admin_inv (pdo c')"
      "completed_once 0 (CID cmd) sct sc (m, d, ph) c'" "pdo_AdminCommandsProcessed (pdo c') = pdo_AdminCommandsProcessed (pdo c)"
      "OPC cmd \<notin> admin_opcodes \<longrightarrow> sct = NVME_SCT_GENERIC \<and> sc = NVME_SC_INVALID_OPCODE"
      using admin_dispatch_answers [OF assms(1) q, of cmd os] by auto
    let ?c = "upd_pdo (\<lambda>p. p\<lparr>pdo_AdminCommandsProcessed := pdo_AdminCommandsProcessed p + 1\<rparr>) c'"
    have "VnvmeProcessAdminCommand os cmd c = Some (STATUS_SUCCESS, ?c)" using c'(1) by (simp add: VnvmeProcessAdminCommand_def)
    moreover have "pdo_AdminCommandsProcessed (pdo ?c) = pdo_AdminCommandsProcessed (pdo c) + 1" by (simp add: c'(4))
    moreover have "admin_inv (pdo ?c)" "completed_once 0 (CID cmd) sct sc (m, d, ph) ?c"
      using count_processed(1,2) [OF c'(2)] c'(3) by blast+
    ultimately show ?thesis
      using c'(5) unfolding if_not_P [OF False] by blast
  qed
qed

text \<open>The property at a Create I/O Completion Queue command for queue 1 with 4 entries.\<close>

theorem VnvmeProcessAdminCommand_answers_witness:
  "\<exists>c' sct sc. VnvmeProcessAdminCommand os_all_ok (zero_COMMAND\<lparr>OPC := 0x05, CID := 9, CDW10 := 0x00030001\<rparr>) (example_ctx example_cq_shm)
      = Some (STATUS_SUCCESS, c') \<and> admin_inv (pdo c') \<and> completed_once 0 9 sct sc (example_cq_shm, cb_AdminCQ, False) c'"
proof -
  have "admin_inv (pdo (example_ctx example_cq_shm))" by (simp add: admin_inv_zero)
  from VnvmeProcessAdminCommand_answers [OF this example_cq_at, of os_all_ok "zero_COMMAND\<lparr>OPC := 0x05, CID := 9, CDW10 := 0x00030001\<rparr>"]
  show ?thesis by auto
qed

section \<open>Asynchronous event requests\<close>

definition aer_inv :: "VNVME_PDO_CONTEXT \<Rightarrow> bool" where
  "aer_inv p \<longleftrightarrow> length (pdo_AerCids p) = VNVME_MAX_AER_COMMANDS \<and> unat (pdo_AerCount p) \<le> VNVME_MAX_AER_COMMANDS"

lemma aer_shift_prefix:
  assumes "k < length xs"
  shows "fold (\<lambda>i a. a[i := a ! (i + 1)]) [0..<k] xs = take k (tl xs) @ drop k xs"
  using assms
proof (induction k)
  case 0
  then show ?case by simp
next
  case (Suc k)
  have len: "length (take k (tl xs)) = k"
    using Suc.prems by simp
  have drop: "drop k xs = xs ! k # drop (Suc k) xs"
    using Suc.prems by (simp add: Cons_nth_drop_Suc)
  have "take (Suc k) (tl xs) = take k (tl xs) @ [xs ! Suc k]"
    using Suc.prems by (simp add: take_Suc_conv_app_nth nth_tl)
  moreover have "(take k (tl xs) @ drop k xs) ! Suc k = xs ! Suc k"
    using Suc.prems len by (simp add: nth_append)
  ultimately show ?case
    using Suc len drop by (simp add: list_update_append)
qed

lemma aer_shift_list:
  assumes "length xs = 4" "n \<le> 4" "0 < n"
  shows "length (aer_shift n xs) = 4 \<and> take (n - 1) (aer_shift n xs) = tl (take n xs)"
proof -
  have "aer_shift n xs = take (n - 1) (tl xs) @ drop (n - 1) xs"
    unfolding aer_shift_def using assms by (intro aer_shift_prefix) auto
  with assms show ?thesis by (simp add: tl_take)
qed

interpretation aer: bounded_fifo aer_take aer_items aer_inv aer_store VNVME_MAX_AER_COMMANDS
proof
  fix p assume "aer_inv p" "aer_items p = []"
  then show "aer_take p = None"
    by (auto simp: aer_inv_def aer_items_def aer_take_def unat_eq_0)
next
  fix p x xs assume inv: "aer_inv p" and items: "aer_items p = x # xs"
  have n: "0 < unat (pdo_AerCount p)" "pdo_AerCount p \<noteq> 0"
    using items by (auto simp: aer_items_def unat_gt_0)
  have "unat (pdo_AerCount p - 1) = unat (pdo_AerCount p) - 1"
    using n by (simp add: unat_sub_if')
  moreover have "pdo_AerCids p ! 0 = x"
    using items n by (cases "pdo_AerCids p") (auto simp: aer_items_def take_Cons')
  ultimately show "\<exists>p'. aer_take p = Some (x, p') \<and> aer_items p' = xs \<and> aer_inv p'"
    using inv items n aer_shift_list [of "pdo_AerCids p" "unat (pdo_AerCount p)"]
    by (auto simp: aer_take_def aer_inv_def aer_items_def)
next
  fix p x assume "aer_inv p" "VNVME_MAX_AER_COMMANDS \<le> length (aer_items p)"
  then show "aer_store x p = None"
    by (simp add: aer_store_def aer_inv_def aer_items_def word_le_nat_alt)
next
  fix p x assume inv: "aer_inv p" and room: "length (aer_items p) < VNVME_MAX_AER_COMMANDS"
  then have n: "unat (pdo_AerCount p) < 4"
    by (simp add: aer_inv_def aer_items_def)
  then have "unat (pdo_AerCount p + 1) = Suc (unat (pdo_AerCount p))"
    by (simp add: unat_word_ariths)
  with inv n show "\<exists>p'. aer_store x p = Some p' \<and> aer_items p' = aer_items p @ [x] \<and> aer_inv p'"
    by (simp add: aer_store_def aer_inv_def aer_items_def word_le_nat_alt take_Suc_conv_app_nth)
qed

text \<open>Event requests are completed first come, first served: up to four identifiers stored into an empty
  queue are taken in the same order, and a fifth is refused.\<close>

theorem aer_first_in_first_out:
  assumes "aer_inv p" "aer_items p = []" "length cids \<le> VNVME_MAX_AER_COMMANDS"
  shows "\<exists>p'. push_all aer_store cids p = Some p' \<and> fst (drain aer_take (length cids) p') = cids
    \<and> (length cids = VNVME_MAX_AER_COMMANDS \<longrightarrow> aer_store cid p' = None)"
proof -
  from aer.push_all_items [of p cids] assms obtain p' where
    p': "push_all aer_store cids p = Some p'" "aer_items p' = cids" "aer_inv p'" by auto
  with aer.push_all_drain [OF assms(1,2,3)] aer.push_full [of p' cid] show ?thesis by auto
qed

text \<open>The property at three requests on a fresh controller.\<close>

theorem aer_first_in_first_out_witness:
  "\<exists>p'. push_all aer_store [3, 1, 2] zero_PDO_CONTEXT = Some p' \<and> fst (drain aer_take 3 p') = [3, 1, 2]"
proof -
  have inv: "aer_inv zero_PDO_CONTEXT" "aer_items zero_PDO_CONTEXT = []" and len: "length [3, 1, 2 :: u16] = 3"
    and fits: "(3 :: nat) \<le> 4"
    by (simp_all add: aer_inv_def aer_items_def zero_PDO_CONTEXT_def)
  show ?thesis
    using aer_first_in_first_out [OF inv, of "[3, 1, 2]", unfolded len, OF fits] by blast
qed

section \<open>Features and identify data\<close>

text \<open>Negotiating the number of queues. The controller grants no more than it was asked for and no more than
  its configured maximum, for both kinds of queues, and stores the smaller grant, which Get Features
  reports from then on for both.\<close>

theorem number_of_queues_negotiation:
  assumes "ucast (CDW10 cmd) = (0x07 :: u8)" "ucast (CDW10 cmd') = (0x07 :: u8)"
  shows "\<exists>ncqa nsqa :: u16.
      ncqa = min (ucast (CDW11 cmd)) (ucast (MaxIOQueues (g_Config c)))
    \<and> nsqa = min (ucast (drop_bit 16 (CDW11 cmd))) (ucast (MaxIOQueues (g_Config c)))
    \<and> HandleSetFeatures cmd c = PostSuccessCompletion (CID cmd) (ucast ncqa OR push_bit 16 (ucast nsqa))
        (upd_pdo (\<lambda>p. p\<lparr>pdo_MaxIoQueues := min ncqa nsqa\<rparr>) c)
    \<and> (\<forall>c'. pdo_MaxIoQueues (pdo c') = min ncqa nsqa \<longrightarrow>
        HandleGetFeatures cmd' c' = PostSuccessCompletion (CID cmd')
          (ucast (min ncqa nsqa) OR push_bit 16 (ucast (min ncqa nsqa))) c')"
proof -
  have low: "ucast (take_bit 8 x) = (ucast x :: u8)" "ucast (take_bit 16 x) = (ucast x :: u16)" for x :: u32
    by (rule bit_word_eqI; auto simp: bit_simps)+
  have pick: "(if a > b then b else a) = min a b" "(if a < b then a else b) = min a b" for a b :: u16
    by (auto simp: min_def)
  show ?thesis
    using assms by (simp add: HandleSetFeatures_def HandleGetFeatures_def Let_def low pick min.commute)
qed

text \<open>The property at a request for 64 queues of each kind on the default configuration.\<close>

theorem number_of_queues_negotiation_witness:
  "\<exists>ncqa nsqa :: u16.
    HandleSetFeatures (zero_COMMAND\<lparr>CDW10 := 0x07, CDW11 := 0x003F003F\<rparr>) (example_ctx example_cq_shm)
      = PostSuccessCompletion 0 (ucast ncqa OR push_bit 16 (ucast nsqa))
          (upd_pdo (\<lambda>p. p\<lparr>pdo_MaxIoQueues := min ncqa nsqa\<rparr>) (example_ctx example_cq_shm))"
proof -
  let ?cmd = "zero_COMMAND\<lparr>CDW10 := 0x07, CDW11 := 0x003F003F\<rparr>"
  have "ucast (CDW10 ?cmd) = (0x07 :: u8)" "CID ?cmd = 0"
    by (simp_all add: zero_COMMAND_def)
  with number_of_queues_negotiation [of ?cmd ?cmd "example_ctx example_cq_shm"] show ?thesis
    by metis
qed

text \<open>Identify Namespace. When the command succeeds, the host reads at \<open>PRP1\<close> the namespace's size in blocks
  (three times: size, capacity and use), its identifier and an LBA data size of 2 to the 12 or 2 to the 9,
  and no host byte outside that page changes.\<close>

theorem HandleIdentifyNamespace_roundtrip:
  assumes "VNVME_NSID_VALID (NSID cmd)" "arr_get (pdo_Namespaces (pdo c)) (unat (VNVME_NSID_TO_INDEX (NSID cmd))) = Some ns"
    and "ns_Active ns" "length (ns_Nguid ns) = 16" "length (ns_Eui64 ns) = 8" "os_alloc os 0 4096"
    and "VnvmeIsValidPhysicalAddress (PRP1 cmd) 4096" "os_map os 0 (PRP1 cmd) 4096"
  shows "\<exists>h. HandleIdentifyNamespace os cmd c = PostSuccessCompletion (CID cmd) 0 (c\<lparr>host := h\<rparr>)
    \<and> rd64 h (unat (PRP1 cmd)) = ns_TotalBlocks ns \<and> rd64 h (unat (PRP1 cmd) + 8) = ns_TotalBlocks ns
    \<and> rd64 h (unat (PRP1 cmd) + 16) = ns_TotalBlocks ns
    \<and> rd_bytes h (unat (PRP1 cmd) + 0x68) 16 = ns_Nguid ns
    \<and> h (unat (PRP1 cmd) + 0x82) = (if ns_BlockSize ns = 4096 then 12 else 9)
    \<and> same_outside {unat (PRP1 cmd)..<unat (PRP1 cmd) + 4096} (host c) h"
proof -
  define a where "a = unat (PRP1 cmd)"
  define m where "m = identify_namespace_data ns"
  define h where "h = wr_bytes a (rd_bytes m 0 4096) (host c)"
  have view: "h (a + x) = m x" if "x < 4096" for x
    using that by (simp add: h_def wr_bytes_def)
  have "take 4096 (rd_bytes m 0 4096) = rd_bytes m 0 4096" by simp
  then have run: "HandleIdentifyNamespace os cmd c = PostSuccessCompletion (CID cmd) 0 (c\<lparr>host := h\<rparr>)"
    using assms by (simp add: HandleIdentifyNamespace_def send_data_def VnvmeWriteToHostMemory_def h_def a_def m_def)
  have at: "rd64 h a = rd64 m 0" "rd64 h (a + 8) = rd64 m 8" "rd64 h (a + 16) = rd64 m 16"
    using rd64_shift [of h a 0] view by (auto simp: rd64_shift [of h a] intro!: rd64_eqI)
  have data: "rd64 m 0 = ns_TotalBlocks ns" "rd64 m 8 = ns_TotalBlocks ns" "rd64 m 16 = ns_TotalBlocks ns"
    using assms(4,5) by (simp_all add: m_def identify_namespace_data_def Let_def mem_read_write mem_frame)
  have nguid: "rd_bytes h (a + 0x68) 16 = ns_Nguid ns"
  proof (rule nth_equalityI)
    fix i assume "i < length (rd_bytes h (a + 0x68) 16)"
    then have i: "i < 16" by simp
    then have "rd_bytes h (a + 0x68) 16 ! i = m (0x68 + i)"
      using view [of "0x68 + i"] by (simp add: add.assoc)
    also have "\<dots> = ns_Nguid ns ! i"
      using i assms(4,5) by (simp add: m_def identify_namespace_data_def Let_def wr32_outside wr_bytes_def)
    finally show "rd_bytes h (a + 0x68) 16 ! i = ns_Nguid ns ! i" .
  qed (simp add: assms(4))
  have lbads: "h (a + 0x82) = (if ns_BlockSize ns = 4096 then 12 else 9)"
    using view [of "0x82"] by (simp add: m_def identify_namespace_data_def Let_def wr32_def wr16_at)
  have frame: "same_outside {a..<a + 4096} (host c) h"
    unfolding h_def by (rule same_outside_wr_bytes) simp
  show ?thesis
    unfolding a_def [symmetric] by (intro exI [of _ h] conjI run nguid lbads frame) (simp_all only: at data)
qed

text \<open>The property at an active namespace of 2048 blocks of 512 bytes and a data page at 2 MiB.\<close>

theorem HandleIdentifyNamespace_roundtrip_witness:
  "\<exists>h. HandleIdentifyNamespace os_all_ok (zero_COMMAND\<lparr>NSID := 1, PRP1 := 0x200000\<rparr>)
        ((example_ctx example_cq_shm)\<lparr>pdo := upd_Namespace 0 (\<lambda>ns. ns\<lparr>ns_Active := True, ns_TotalBlocks := 2048,
           ns_BlockSize := 512\<rparr>) zero_PDO_CONTEXT\<rparr>)
      = PostSuccessCompletion 0 0
        ((example_ctx example_cq_shm)\<lparr>pdo := upd_Namespace 0 (\<lambda>ns. ns\<lparr>ns_Active := True, ns_TotalBlocks := 2048,
           ns_BlockSize := 512\<rparr>) zero_PDO_CONTEXT, host := h\<rparr>)
    \<and> rd64 h 0x200000 = 2048 \<and> h 0x200082 = 9"
proof -
  let ?cmd = "zero_COMMAND\<lparr>NSID := 1, PRP1 := 0x200000\<rparr>"
  let ?ns = "zero_NAMESPACE\<lparr>ns_Active := True, ns_TotalBlocks := 2048, ns_BlockSize := 512\<rparr>"
  let ?c = "(example_ctx example_cq_shm)\<lparr>pdo := upd_Namespace 0 (\<lambda>ns. ns\<lparr>ns_Active := True, ns_TotalBlocks := 2048,
           ns_BlockSize := 512\<rparr>) zero_PDO_CONTEXT\<rparr>"
  have ns: "VNVME_NSID_VALID (NSID ?cmd)"
    "arr_get (pdo_Namespaces (pdo ?c)) (unat (VNVME_NSID_TO_INDEX (NSID ?cmd))) = Some ?ns"
    "ns_Active ?ns" "length (ns_Nguid ?ns) = 16" "length (ns_Eui64 ?ns) = 8"
    by (simp_all add: VNVME_NSID_VALID_def VNVME_NSID_TO_INDEX_def upd_Namespace_def zero_PDO_CONTEXT_def
        zero_NAMESPACE_def arr_get_def)
  have os: "os_alloc os_all_ok 0 4096" "VnvmeIsValidPhysicalAddress (PRP1 ?cmd) 4096"
    "os_map os_all_ok 0 (PRP1 ?cmd) 4096"
    by (simp_all add: os_all_ok_def VnvmeIsValidPhysicalAddress_def)
  have cmd: "unat (PRP1 ?cmd) = 0x200000" "CID ?cmd = 0" "ns_TotalBlocks ?ns = 2048" "ns_BlockSize ?ns \<noteq> 4096"
    by (simp_all add: zero_COMMAND_def)
  show ?thesis
    using HandleIdentifyNamespace_roundtrip [OF ns os] unfolding cmd by auto
qed

end
