(* ===== verification/Vnvme_Io_Props.thy ===== *)
theory Vnvme_Io_Props
  imports Vnvme_Io Vnvme_Post
begin

text \<open>
  What the I/O commands do to the storage and to the host's memory: the copy loops gather and scatter the
  pages of a transfer, a Write followed by a Read returns the data, Compare compares, and every command
  within the transfer limit is answered.
\<close>

section \<open>Gathering and scattering\<close>

text \<open>The bytes behind a list of PRP entries, and the host memory after bytes are spread over the entries.\<close>

definition prp_gather :: "mem \<Rightarrow> VNVME_PRP_ENTRY list \<Rightarrow> u8 list" where
  "prp_gather h es = concat (map (\<lambda>e. rd_bytes h (unat (prp_phys e)) (unat (prp_Length e))) es)"

fun prp_scatter :: "VNVME_PRP_ENTRY list \<Rightarrow> u8 list \<Rightarrow> mem \<Rightarrow> mem" where
  "prp_scatter [] bs h = h"
| "prp_scatter (e # es) bs h =
     prp_scatter es (drop (unat (prp_Length e)) bs) (wr_bytes (unat (prp_phys e)) (take (unat (prp_Length e)) bs) h)"

definition prp_range :: "VNVME_PRP_ENTRY \<Rightarrow> nat set" where
  "prp_range e = {unat (prp_phys e)..<unat (prp_phys e) + unat (prp_Length e)}"

definition prp_ranges :: "VNVME_PRP_ENTRY list \<Rightarrow> nat set" where
  "prp_ranges es = (\<Union>e\<in>set es. prp_range e)"

text \<open>No two entries overlap.\<close>

fun prp_apart :: "VNVME_PRP_ENTRY list \<Rightarrow> bool" where
  "prp_apart [] \<longleftrightarrow> True"
| "prp_apart (e # es) \<longleftrightarrow> prp_range e \<inter> prp_ranges es = {} \<and> prp_apart es"

lemma prp_gather_simps [simp]:
  "prp_gather h [] = []"
  "prp_gather h (e # es) = rd_bytes h (unat (prp_phys e)) (unat (prp_Length e)) @ prp_gather h es"
  by (simp_all add: prp_gather_def)

lemma prp_ranges_simps [simp]: "prp_ranges [] = {}" "prp_ranges (e # es) = prp_range e \<union> prp_ranges es"
  by (simp_all add: prp_ranges_def)

lemma length_prp_gather [simp]: "length (prp_gather h es) = prp_total es"
  by (induction es) simp_all

lemma rd_bytes_same_outside:
  assumes "same_outside S m m'" "{a..<a + n} \<inter> S = {}"
  shows "rd_bytes m' a n = rd_bytes m a n"
proof (rule nth_equalityI)
  fix i assume "i < length (rd_bytes m' a n)"
  then have i: "i < n" by simp
  then have "a + i \<in> {a..<a + n}" by simp
  with assms(2) have "a + i \<notin> S" by blast
  with i assms(1) show "rd_bytes m' a n ! i = rd_bytes m a n ! i"
    by (simp add: same_outside_def)
qed simp

lemma prp_scatter_frame: "prp_total es \<le> length bs \<Longrightarrow> same_outside (prp_ranges es) h (prp_scatter es bs h)"
proof (induction es arbitrary: bs h)
  case Nil
  then show ?case by simp
next
  case (Cons e es)
  let ?h = "wr_bytes (unat (prp_phys e)) (take (unat (prp_Length e)) bs) h"
  have "same_outside (prp_ranges (e # es)) h ?h"
    using Cons.prems by (intro same_outside_wr_bytes) (auto simp: prp_range_def)
  moreover have "same_outside (prp_ranges (e # es)) ?h (prp_scatter es (drop (unat (prp_Length e)) bs) ?h)"
    using Cons by (intro same_outside_mono [OF Cons.IH]) auto
  ultimately show ?case by (auto intro: same_outside_trans)
qed

lemma prp_gather_scatter:
  assumes "prp_apart es" "length bs = prp_total es"
  shows "prp_gather (prp_scatter es bs h) es = bs"
  using assms
proof (induction es arbitrary: bs h)
  case Nil
  then show ?case by simp
next
  case (Cons e es)
  let ?n = "unat (prp_Length e)"
  let ?h = "wr_bytes (unat (prp_phys e)) (take ?n bs) h"
  have len: "length (take ?n bs) = ?n" using Cons.prems by simp
  have "rd_bytes (prp_scatter es (drop ?n bs) ?h) (unat (prp_phys e)) ?n = rd_bytes ?h (unat (prp_phys e)) ?n"
    using Cons.prems by (intro rd_bytes_same_outside [OF prp_scatter_frame]) (auto simp: prp_range_def)
  also have "\<dots> = take ?n bs"
    using rd_bytes_wr_bytes [of "unat (prp_phys e)" "take ?n bs" h] unfolding len .
  finally show ?case
    using Cons.IH [of "drop ?n bs" ?h] Cons.prems by simp
qed

lemma wr_bytes_append: "wr_bytes (a + length xs) ys (wr_bytes a xs m) = wr_bytes a (xs @ ys) m"
  by (rule ext) (auto simp: wr_bytes_def nth_append)

lemma copy_step:
  fixes off tot :: u64
  assumes "unat off + (unat (prp_Length e) + n) = unat tot"
  shows "prp_mapSize tot off e = ucast (prp_Length e)" "unat (off + ucast (prp_Length e)) = unat off + unat (prp_Length e)"
    and "off < tot \<or> unat (prp_Length e) = 0 \<and> n = 0"
proof -
  have "unat (tot - off) = unat tot - unat off"
    using assms by (simp add: unat_sub_if')
  with assms have "\<not> unat (tot - off) < unat (prp_Length e)" by linarith
  then show "prp_mapSize tot off e = ucast (prp_Length e)"
    by (simp add: prp_mapSize_def word_less_nat_alt)
  show "unat (off + ucast (prp_Length e)) = unat off + unat (prp_Length e)"
    using assms unat_u64_bound [of tot] by (simp add: unat_word_ariths)
  show "off < tot \<or> unat (prp_Length e) = 0 \<and> n = 0"
    using assms by (auto simp: word_less_nat_alt)
qed

text \<open>When every page can be mapped, the loops are gather and scatter.\<close>

lemma host_to_buffer_gathers:
  assumes "\<And>j a n. map_ok j a n" "unat off + prp_total es = unat totalBytes" "base + unat totalBytes \<le> cap"
  shows "host_to_buffer map_ok h base cap totalBytes es i off buf
    = Some (wr_bytes (base + unat off) (prp_gather h es) buf)"
  using assms(2)
proof (induction es arbitrary: i off buf)
  case Nil
  then show ?case by simp
next
  case (Cons e es)
  note step = copy_step [of off e "prp_total es" totalBytes]
  show ?case
  proof (cases "off < totalBytes")
    case True
    let ?b = "wr_bytes (base + unat off) (rd_bytes h (unat (prp_phys e)) (unat (prp_Length e))) buf"
    have "host_to_buffer map_ok h base cap totalBytes (e # es) i off buf
        = host_to_buffer map_ok h base cap totalBytes es (i + 1) (off + ucast (prp_Length e)) ?b"
      using True Cons.prems step assms(1,3) by (simp add: check_bind)
    also have "\<dots> = Some (wr_bytes (base + unat off + unat (prp_Length e)) (prp_gather h es) ?b)"
      using Cons step by (simp add: add.assoc)
    also have "\<dots> = Some (wr_bytes (base + unat off) (prp_gather h (e # es)) buf)"
      using wr_bytes_append [of "base + unat off" "rd_bytes h (unat (prp_phys e)) (unat (prp_Length e))"
          "prp_gather h es" buf] by simp
    finally show ?thesis .
  next
    case False
    with step Cons.prems have "length (prp_gather h (e # es)) = 0" by auto
    then have "prp_gather h (e # es) = []" by (simp only: length_0_conv)
    then show ?thesis using False by (simp del: prp_gather_simps)
  qed
qed

lemma buffer_to_host_scatters:
  assumes "\<And>j a n. map_ok j a n" "unat off + prp_total es = unat totalBytes" "base + unat totalBytes \<le> cap"
  shows "buffer_to_host map_ok buf base cap totalBytes es i off h
    = Some (prp_scatter es (rd_bytes buf (base + unat off) (prp_total es)) h)"
  using assms(2)
proof (induction es arbitrary: i off h)
  case Nil
  then show ?case by simp
next
  case (Cons e es)
  note step = copy_step [of off e "prp_total es" totalBytes]
  let ?n = "unat (prp_Length e)"
  let ?h = "wr_bytes (unat (prp_phys e)) (rd_bytes buf (base + unat off) ?n) h"
  have split: "rd_bytes buf (base + unat off) (prp_total (e # es))
      = rd_bytes buf (base + unat off) ?n @ rd_bytes buf (base + unat off + ?n) (prp_total es)"
    by (simp add: rd_bytes_append)
  show ?case
  proof (cases "off < totalBytes")
    case True
    have "buffer_to_host map_ok buf base cap totalBytes (e # es) i off h
        = buffer_to_host map_ok buf base cap totalBytes es (i + 1) (off + ucast (prp_Length e)) ?h"
      using True Cons.prems step assms(1,3) by (simp add: check_bind)
    also have "\<dots> = Some (prp_scatter es (rd_bytes buf (base + unat off + ?n) (prp_total es)) ?h)"
      using Cons step by (simp add: add.assoc)
    finally show ?thesis unfolding split by simp
  next
    case False
    with step Cons.prems have "?n = 0" "prp_total es = 0" by auto
    moreover have "prp_scatter es [] h = h" for h
      using \<open>prp_total es = 0\<close> by (induction es) auto
    ultimately show ?thesis using False by (simp add: rd_bytes_def)
  qed
qed

section \<open>The command and its namespace\<close>

text \<open>Namespace \<open>ns\<close>, number \<open>i\<close> of the table, is the active one a command names; a namespace is backed when its
  storage holds all its blocks; a command is inside a namespace when its blocks are, without wrap-around.\<close>

definition selects :: "NVME_COMMAND \<Rightarrow> vnvme_ctx \<Rightarrow> nat \<Rightarrow> VNVME_NAMESPACE \<Rightarrow> bool" where
  "selects cmd c i ns \<longleftrightarrow> VNVME_NSID_VALID (NSID cmd) \<and> i = unat (VNVME_NSID_TO_INDEX (NSID cmd))
     \<and> i < length (pdo_Namespaces (pdo c)) \<and> ns = pdo_Namespaces (pdo c) ! i \<and> ns_Active ns"

definition ns_backed :: "VNVME_NAMESPACE \<Rightarrow> bool" where
  "ns_backed ns \<longleftrightarrow> storage_ok (ns_Storage ns)
     \<and> unat (ns_TotalBlocks ns) * unat (ns_BlockSize ns) \<le> storage_capacity (ns_Storage ns)"

definition blocks_inside :: "NVME_COMMAND \<Rightarrow> VNVME_NAMESPACE \<Rightarrow> bool" where
  "blocks_inside cmd ns \<longleftrightarrow> unat (cmd_slba cmd) + unat (cmd_nlb cmd) \<le> unat (ns_TotalBlocks ns)"

definition io_offset :: "NVME_COMMAND \<Rightarrow> VNVME_NAMESPACE \<Rightarrow> nat" where
  "io_offset cmd ns = unat (cmd_slba cmd) * unat (ns_BlockSize ns)"

definition io_length :: "NVME_COMMAND \<Rightarrow> VNVME_NAMESPACE \<Rightarrow> nat" where
  "io_length cmd ns = unat (cmd_nlb cmd) * unat (ns_BlockSize ns)"

abbreviation (input) io_off_word :: "NVME_COMMAND \<Rightarrow> VNVME_NAMESPACE \<Rightarrow> u64" where
  "io_off_word cmd ns \<equiv> VNVME_LBA_TO_BYTES (cmd_slba cmd) (ns_BlockSize ns)"

abbreviation (input) io_len_word :: "NVME_COMMAND \<Rightarrow> VNVME_NAMESPACE \<Rightarrow> u64" where
  "io_len_word cmd ns \<equiv> VNVME_BLOCKS_TO_BYTES (cmd_nlb cmd) (ns_BlockSize ns)"

lemma storage_capacity_bound: "storage_capacity S < 18446744073709551616"
  by (cases S) (auto simp: storage_capacity_def unat_u64_bound)

lemma io_bytes:
  assumes "ns_backed ns" "blocks_inside cmd ns"
  shows "unat (io_off_word cmd ns) = io_offset cmd ns" "unat (io_len_word cmd ns) = io_length cmd ns"
    and "io_offset cmd ns + io_length cmd ns \<le> storage_capacity (ns_Storage ns)"
proof -
  have "(unat (cmd_slba cmd) + unat (cmd_nlb cmd)) * unat (ns_BlockSize ns)
      \<le> unat (ns_TotalBlocks ns) * unat (ns_BlockSize ns)"
    using assms(2) unfolding blocks_inside_def by (rule mult_le_mono1)
  with assms(1) show sum: "io_offset cmd ns + io_length cmd ns \<le> storage_capacity (ns_Storage ns)"
    unfolding ns_backed_def io_offset_def io_length_def by (simp add: add_mult_distrib)
  have small: "io_offset cmd ns < 18446744073709551616" "io_length cmd ns < 18446744073709551616"
    using sum storage_capacity_bound [of "ns_Storage ns"] by linarith+
  show "unat (io_off_word cmd ns) = io_offset cmd ns" "unat (io_len_word cmd ns) = io_length cmd ns"
    using small by (simp_all add: VNVME_LBA_TO_BYTES_def VNVME_BLOCKS_TO_BYTES_def io_offset_def io_length_def
        unat_word_ariths)
qed

lemma io_len_u32:
  assumes "ns_backed ns" "blocks_inside cmd ns" "io_length cmd ns < 2 ^ 32"
  shows "unat (ucast (io_len_word cmd ns) :: u32) = io_length cmd ns"
  using io_bytes(2) [OF assms(1,2)] assms(3)
  by (simp add: unsigned_ucast_eq unsigned_take_bit_eq take_bit_nat_eq_self)

lemma with_namespace_run:
  "selects cmd c i ns \<Longrightarrow> with_namespace QueueId cmd c body = body i ns"
  by (auto simp: selects_def with_namespace_def)

lemma with_blocks_run:
  assumes "selects cmd c i ns" "blocks_inside cmd ns"
  shows "with_blocks QueueId cmd c body = body i ns (io_off_word cmd ns) (io_len_word cmd ns)"
proof -
  have "unat (cmd_slba cmd + ucast (cmd_nlb cmd)) = unat (cmd_slba cmd) + unat (cmd_nlb cmd)"
    using assms(2) unat_u64_bound [of "ns_TotalBlocks ns"] by (simp add: blocks_inside_def unat_word_ariths)
  with assms(2) have "VNVME_LBA_RANGE_VALID (cmd_slba cmd) (cmd_nlb cmd) (ns_TotalBlocks ns)"
    by (simp add: VNVME_LBA_RANGE_VALID_def blocks_inside_def word_le_nat_alt)
  then show ?thesis by (simp add: with_blocks_def with_namespace_run [OF assms(1)])
qed

section \<open>Where the data comes from and goes to\<close>

text \<open>The direct pointer exists exactly for a memory store, and then it is the byte offset.\<close>

lemma io_direct_cases:
  assumes "storage_ok (Some s)" "unat off + unat tot \<le> storage_capacity (Some s)" "unat tot < 2 ^ 32"
  shows "io_direct s off tot = (if st_Type s = VNVME_STORAGE_TYPE_MEMORY then Some off else None)"
proof -
  have len: "unat (ucast tot :: u32) = unat tot"
    using assms(3) by (simp add: unsigned_ucast_eq unsigned_take_bit_eq take_bit_nat_eq_self)
  with assms(2) have "\<not> off + ucast (ucast tot :: u32) > st_TotalBytes s"
    by (intro range_test_passes) (simp add: storage_capacity_def)
  with assms(1) show ?thesis
    by (auto simp: io_direct_def VnvmeStorageGetDirect_def StorageMemoryGetDirect_def storage_ok_def)
qed

text \<open>A Read always finds its source: it fails with an error for the host, or it has exactly the bytes of the
  storage at hand. The storage keeps its contents.\<close>

definition storage_same :: "VNVME_STORAGE_CONTEXT option \<Rightarrow> VNVME_STORAGE_CONTEXT option \<Rightarrow> bool" where
  "storage_same S S' \<longleftrightarrow> storage_ok S' \<and> storage_contents S' = storage_contents S \<and> storage_capacity S' = storage_capacity S"

lemma read_source_returns:
  assumes "storage_ok S" "file_os_ok os" "unat off + unat tot \<le> storage_capacity S" "unat tot < 2 ^ 32"
  shows "\<exists>r S'. read_source os S off tot = Some (r, S') \<and> storage_same S S'
    \<and> (\<forall>buf base cap. r = Inr (buf, base, cap) \<longrightarrow> base + unat tot \<le> cap
        \<and> rd_bytes buf base (unat tot) = rd_bytes (storage_contents S) (unat off) (unat tot))"
proof -
  from assms(1) obtain s where s: "S = Some s" by (cases S) (auto simp: storage_ok_def)
  have len: "unat (ucast tot :: u32) = unat tot"
    using assms(4) by (simp add: unsigned_ucast_eq unsigned_take_bit_eq take_bit_nat_eq_self)
  note direct = io_direct_cases [OF assms(1,3,4) [unfolded s]]
  show ?thesis
  proof (cases "st_Type s = VNVME_STORAGE_TYPE_MEMORY")
    case True
    with assms(1,3) s direct show ?thesis
      by (auto simp: read_source_def storage_same_def storage_ok_def storage_contents_def storage_capacity_def)
  next
    case False
    from storage.get_law [of os S off "ucast tot"] assms len obtain status bs S' where
      g: "VnvmeStorageRead os S off (ucast tot) = Some (status, bs, S')" "storage_same S S'"
      "NT_SUCCESS status \<longrightarrow> bs = rd_bytes (storage_contents S) (unat off) (unat tot)"
      by (auto simp: storage_same_def)
    have "rd_bytes (wr_bytes 0 bs (\<lambda>_. 0)) 0 (unat tot) = bs" if "NT_SUCCESS status"
      using that g(3) rd_bytes_wr_bytes [of 0 bs "\<lambda>_. 0"] by simp
    with g assms(1) s direct False show ?thesis
      by (auto simp: read_source_def storage_same_def)
  qed
qed

text \<open>The system when no service fails.\<close>

definition os_succeeds :: "os_env \<Rightarrow> bool" where
  "os_succeeds os \<longleftrightarrow> file_os_ok os \<and> (\<forall>n k. os_alloc os n k) \<and> (\<forall>n a k. os_map os n a k)
     \<and> (\<forall>f a k. NT_SUCCESS (fst (os_ZwReadFile os f a k))) \<and> (\<forall>f a bs. NT_SUCCESS (fst (os_ZwWriteFile os f a bs)))"

definition storage_writable :: "VNVME_STORAGE_CONTEXT option \<Rightarrow> bool" where
  "storage_writable S \<longleftrightarrow> (\<forall>s. S = Some s \<longrightarrow> \<not> st_ReadOnly s)"

lemma os_succeeds_all_ok: "os_succeeds os_all_ok"
  using file_os_ok_all_ok by (simp add: os_succeeds_def os_all_ok_def)

lemma VnvmeStorageRead_succeeds:
  assumes "os_succeeds os" "storage_ok S" "unat off + unat len \<le> storage_capacity S"
  shows "\<exists>status bs S'. VnvmeStorageRead os S off len = Some (status, bs, S') \<and> NT_SUCCESS status"
  using assms(2)
proof (cases rule: storage_cases)
  case (memory s m)
  with assms range_test_passes [of off len "st_TotalBytes s"] show ?thesis
    by (auto simp: storage_defs StorageMemoryRead_def)
next
  case (plain s)
  with assms range_test_passes [of off len "st_TotalBytes s"] show ?thesis
    by (auto simp: storage_defs StorageFileRead_def os_succeeds_def Let_def split: prod.split) (metis fst_conv)
next
  case (sparse s)
  with assms range_test_passes [of off len "st_TotalBytes s"] show ?thesis
    by (auto simp: storage_defs StorageSparseRead_def os_succeeds_def Let_def split: prod.split) (metis fst_conv)
qed

lemma VnvmeStorageWrite_succeeds:
  assumes "os_succeeds os" "storage_ok S" "storage_writable S" "unat off + unat len \<le> storage_capacity S" "length bs = unat len"
  shows "\<exists>status S'. VnvmeStorageWrite os S off bs len = Some (status, S') \<and> NT_SUCCESS status"
  using assms(2)
proof (cases rule: storage_cases)
  case (memory s m)
  with assms range_test_passes [of off len "st_TotalBytes s"] show ?thesis
    by (auto simp: storage_defs StorageMemoryWrite_def storage_writable_def)
next
  case (plain s)
  with assms range_test_passes [of off len "st_TotalBytes s"] show ?thesis
    by (auto simp: storage_defs StorageFileWrite_def os_succeeds_def Let_def storage_writable_def split: prod.split)
      (metis fst_conv)
next
  case (sparse s)
  with assms range_test_passes [of off len "st_TotalBytes s"] show ?thesis
    by (auto simp: storage_defs StorageSparseWrite_def os_succeeds_def Let_def storage_writable_def split: prod.split)
      (metis fst_conv)
qed

lemma read_source_succeeds:
  assumes "os_succeeds os" "storage_ok S" "unat off + unat tot \<le> storage_capacity S" "unat tot \<le> 2 * 1024 * 1024"
  shows "\<exists>buf base cap S'. read_source os S off tot = Some (Inr (buf, base, cap), S')"
proof -
  from assms(2) obtain s where s: "S = Some s" by (cases S) (auto simp: storage_ok_def)
  have len: "unat (ucast tot :: u32) = unat tot"
    using assms(4) by (simp add: unsigned_ucast_eq unsigned_take_bit_eq take_bit_nat_eq_self)
  have small: "unat tot < 2 ^ 32" using assms(4) by simp
  note direct = io_direct_cases [OF assms(2,3) [unfolded s] small]
  from VnvmeStorageRead_succeeds [OF assms(1,2), of off "ucast tot"] assms(3) len obtain status bs S' where
    "VnvmeStorageRead os S off (ucast tot) = Some (status, bs, S')" "NT_SUCCESS status" by auto
  with s direct assms show ?thesis
    by (auto simp: read_source_def storage_ok_def os_succeeds_def word_less_nat_alt)
qed

section \<open>Read and Write\<close>

text \<open>A command with its transfer: it is inside a backed namespace, moves at most 2 MiB, and its PRP fields
  describe the entries \<open>es\<close>, which cover it.\<close>

definition transfer :: "os_env \<Rightarrow> NVME_COMMAND \<Rightarrow> vnvme_ctx \<Rightarrow> nat \<Rightarrow> VNVME_NAMESPACE \<Rightarrow> VNVME_PRP_ENTRY list \<Rightarrow> bool" where
  "transfer os cmd c i ns es \<longleftrightarrow>
     selects cmd c i ns \<and> ns_backed ns \<and> blocks_inside cmd ns \<and> io_length cmd ns \<le> 2 * 1024 * 1024
     \<and> VnvmeParsePrpList (os_alloc os 2) (os_map os 0) (host c) (PRP1 cmd) (PRP2 cmd) (ucast (io_len_word cmd ns))
         = Some (STATUS_SUCCESS, es)
     \<and> prp_total es = io_length cmd ns"

lemma set_storage_host [simp]: "host (set_storage i S c) = host c"
  by (simp add: set_storage_def)

lemma HandleRead_transfer:
  assumes "transfer os cmd c i ns es" "os_succeeds os"
  shows "\<exists>S'. storage_same (ns_Storage ns) S' \<and>
    HandleRead os QueueId cmd c = PostIoCompletion QueueId (CID cmd) NVME_SCT_GENERIC NVME_SC_SUCCESS
      (count_read i (io_len_word cmd ns) ((set_storage i S' c)\<lparr>host :=
         prp_scatter es (rd_bytes (storage_contents (ns_Storage ns)) (io_offset cmd ns) (io_length cmd ns)) (host c)\<rparr>))"
proof -
  note t = assms(1) [unfolded transfer_def]
  from t have b: "selects cmd c i ns" "ns_backed ns" "blocks_inside cmd ns" "io_length cmd ns \<le> 2 * 1024 * 1024" by simp_all
  note bytes = io_bytes [OF b(2,3)]
  have ok: "storage_ok (ns_Storage ns)" using b(2) by (simp add: ns_backed_def)
  have fit: "unat (io_off_word cmd ns) + unat (io_len_word cmd ns) \<le> storage_capacity (ns_Storage ns)"
    using bytes by simp
  have fok: "file_os_ok os" and maps: "\<And>j a n. os_map os (j + 1) a n"
    using assms(2) by (simp_all add: os_succeeds_def)
  from read_source_returns [OF ok fok fit] read_source_succeeds [OF assms(2) ok fit] b(4) bytes(1,2)
  obtain buf base cap S' where
    src: "read_source os (ns_Storage ns) (io_off_word cmd ns) (io_len_word cmd ns) = Some (Inr (buf, base, cap), S')"
      "storage_same (ns_Storage ns) S'" "base + io_length cmd ns \<le> cap"
      "rd_bytes buf base (io_length cmd ns)
        = rd_bytes (storage_contents (ns_Storage ns)) (io_offset cmd ns) (io_length cmd ns)"
    by auto
  have copy: "buffer_to_host (\<lambda>j. os_map os (j + 1)) buf base cap (io_len_word cmd ns) es 0 0 (host c)
      = Some (prp_scatter es (rd_bytes (storage_contents (ns_Storage ns)) (io_offset cmd ns) (io_length cmd ns)) (host c))"
    using buffer_to_host_scatters [of "\<lambda>j. os_map os (j + 1)", OF maps, of 0 es "io_len_word cmd ns" base cap buf 0 "host c"]
      src(3,4) bytes(2) t by simp
  show ?thesis
    using src(1,2) copy t by (auto simp: HandleRead_def with_blocks_run [OF b(1,3)] Let_def)
qed

lemma HandleWrite_transfer:
  assumes "transfer os cmd c i ns es" "os_succeeds os" "storage_writable (ns_Storage ns)"
  shows "\<exists>S'. storage_ok S' \<and> storage_capacity S' = storage_capacity (ns_Storage ns)
    \<and> storage_contents S' = wr_bytes (io_offset cmd ns) (prp_gather (host c) es) (storage_contents (ns_Storage ns))
    \<and> HandleWrite os QueueId cmd c = PostIoCompletion QueueId (CID cmd) NVME_SCT_GENERIC NVME_SC_SUCCESS
        (count_write i (io_len_word cmd ns) (set_storage i S' c))"
proof -
  note t = assms(1) [unfolded transfer_def]
  from t have b: "selects cmd c i ns" "ns_backed ns" "blocks_inside cmd ns" "io_length cmd ns \<le> 2 * 1024 * 1024" by simp_all
  note bytes = io_bytes [OF b(2,3)]
  have ok: "storage_ok (ns_Storage ns)" using b(2) by (simp add: ns_backed_def)
  then obtain s where s: "ns_Storage ns = Some s" by (cases "ns_Storage ns") (auto simp: storage_ok_def)
  have fit: "unat (io_off_word cmd ns) + unat (io_len_word cmd ns) \<le> storage_capacity (Some s)"
    using bytes s by simp
  have small: "unat (io_len_word cmd ns) < 2 ^ 32" using b(4) bytes(2) by simp
  have maps: "\<And>j a n. os_map os (j + 1) a n" and alloc: "\<And>n k. os_alloc os n k"
    using assms(2) by (simp_all add: os_succeeds_def)
  note direct = io_direct_cases [OF ok [unfolded s] fit small]
  note copy = host_to_buffer_gathers [of "\<lambda>j. os_map os (j + 1)", OF maps, of 0 es "io_len_word cmd ns" _ _ "host c" 0]
  show ?thesis
  proof (cases "st_Type s = VNVME_STORAGE_TYPE_MEMORY")
    case True
    with ok s obtain m where m: "st_MemoryBuffer s = Some m" "st_MemorySize s = st_TotalBytes s"
      by (auto simp: storage_ok_def)
    have "host_to_buffer (\<lambda>j. os_map os (j + 1)) (host c) (io_offset cmd ns) (unat (st_TotalBytes s)) (io_len_word cmd ns) es 0 0 m
        = Some (wr_bytes (io_offset cmd ns) (prp_gather (host c) es) m)"
      using copy [of "io_offset cmd ns" "unat (st_TotalBytes s)" m] bytes t s by (simp add: storage_capacity_def)
    with True m s ok direct t bytes show ?thesis
      by (intro exI [of _ "Some (s\<lparr>st_MemoryBuffer := Some (wr_bytes (io_offset cmd ns) (prp_gather (host c) es) m)\<rparr>)"])
        (simp add: HandleWrite_def with_blocks_run [OF b(1,3)] write_destination_def storage_ok_def
          storage_capacity_def storage_contents_def)
  next
    case False
    let ?bs = "prp_gather (host c) es"
    have len: "unat (ucast (io_len_word cmd ns) :: u32) = io_length cmd ns"
      using b by (intro io_len_u32) auto
    have "host_to_buffer (\<lambda>j. os_map os (j + 1)) (host c) 0 (io_length cmd ns) (io_len_word cmd ns) es 0 0 (\<lambda>_. 0)
        = Some (wr_bytes 0 ?bs (\<lambda>_. 0))"
      using copy [of 0 "io_length cmd ns" "\<lambda>_. 0"] bytes t by simp
    moreover have "rd_bytes (wr_bytes 0 ?bs (\<lambda>_. 0)) 0 (io_length cmd ns) = ?bs"
      using rd_bytes_wr_bytes [of 0 ?bs "\<lambda>_. 0"] t by simp
    moreover from VnvmeStorageWrite_succeeds [OF assms(2) ok assms(3), of "io_off_word cmd ns" "ucast (io_len_word cmd ns)" ?bs]
      storage.put_law [of os "ns_Storage ns" "io_off_word cmd ns" "ucast (io_len_word cmd ns)" ?bs] assms(2) ok fit len t bytes s
    obtain status S' where "VnvmeStorageWrite os (Some s) (io_off_word cmd ns) ?bs (ucast (io_len_word cmd ns)) = Some (status, S')"
      "NT_SUCCESS status" "storage_ok S'" "storage_capacity S' = storage_capacity (ns_Storage ns)"
      "storage_contents S' = wr_bytes (io_offset cmd ns) ?bs (storage_contents (ns_Storage ns))"
      by (auto simp: os_succeeds_def)
    ultimately show ?thesis
      using False s direct t bytes alloc b(4)
      by (intro exI [of _ S']) (simp add: HandleWrite_def with_blocks_run [OF b(1,3)] write_destination_def word_less_nat_alt)
  qed
qed

section \<open>The completion of an I/O command\<close>

text \<open>The completion queue paired with an I/O queue accepts entries.\<close>

definition io_cq_ready :: "u16 \<Rightarrow> vnvme_ctx \<Rightarrow> bool" where
  "io_cq_ready QueueId c \<longleftrightarrow> VNVME_IO_QUEUE_ID_VALID QueueId \<and> (\<exists>m d ph. cq_at QueueId c m d ph)"

text \<open>Between \<open>c\<close> and \<open>c'\<close> one completion was posted, with this command identifier and status and the current phase,
  and nothing but the completion queue changed; the queue stays ready.\<close>

definition io_posted :: "u16 \<Rightarrow> u16 \<Rightarrow> u8 \<Rightarrow> u8 \<Rightarrow> vnvme_ctx \<Rightarrow> vnvme_ctx \<Rightarrow> bool" where
  "io_posted QueueId cid sct sc c c' \<longleftrightarrow>
     (\<exists>m d ph m'. cq_at QueueId c m d ph \<and> cq_at QueueId c' m' d (post_phase m d ph)
        \<and> qd_Tail m' d = cq_next m d
        \<and> cqe_CID (rd_NVME_COMPLETION m' (cq_slot m d)) = cid
        \<and> cqe_SQID (rd_NVME_COMPLETION m' (cq_slot m d)) = QueueId
        \<and> cqe_Status (rd_NVME_COMPLETION m' (cq_slot m d)) = NvmeMakeStatus sct sc (if ph then 1 else 0))
     \<and> io_cq_ready QueueId c' \<and> host c' = host c \<and> g_Config c' = g_Config c
     \<and> pdo c' = (pdo c)\<lparr>pdo_IoCq := pdo_IoCq (pdo c')\<rparr>"

text \<open>The state after a completion of an I/O queue, and what it means for the queue.\<close>

lemma PostIoCompletion_state:
  assumes "VNVME_IO_QUEUE_ID_VALID QueueId" "cq_at QueueId c m d ph"
  shows "\<exists>cpl. PostIoCompletion QueueId cid sct sc c = Some (STATUS_SUCCESS, post_state QueueId m d ph cpl c)
    \<and> completed_once QueueId cid sct sc (m, d, ph) (post_state QueueId m d ph cpl c)"
proof -
  have ne: "QueueId \<noteq> 0" and le: "QueueId \<le> 16" and index: "unat QueueId - 1 < 16"
    using assms(1) by (auto simp: VNVME_IO_QUEUE_ID_VALID_def word_le_nat_alt)
  from assms(2) have wf: "pdo_wf (pdo c)" and desc: "post_cqDesc QueueId c = Some (Inr (d, ph))"
    by (auto simp: cq_at_def)
  have cq: "qs_Created (pdo_IoCq (pdo c) ! (unat QueueId - 1))" "qs_PhaseTag (pdo_IoCq (pdo c) ! (unat QueueId - 1)) = ph"
    using desc ne index wf by (auto simp: post_cqDesc_def pdo_wf_def check_bind Let_def split: if_splits option.splits)
  define cpl where "cpl = \<lparr>cqe_DW0 = 0, cqe_DW1 = 0, cqe_SQHD = ucast (qs_Head (pdo_IoSq (pdo c) ! (unat QueueId - 1))),
    cqe_SQID = QueueId, cqe_CID = cid, cqe_Status = NvmeMakeStatus sct sc (if ph then 1 else 0)\<rparr>"
  have "PostIoCompletion QueueId cid sct sc c = Some (STATUS_SUCCESS, post_state QueueId m d ph cpl c)"
    using VnvmePostCompletion_state [OF assms(2), of cpl] ne le index cq wf
    by (simp add: PostIoCompletion_def Let_def pdo_wf_def cpl_def)
  moreover have "completed_once QueueId cid sct sc (m, d, ph) (post_state QueueId m d ph cpl c)"
    using completed_once_post [OF assms(2), of cpl sct sc "if ph then 1 else 0"] by (simp add: cpl_def)
  ultimately show ?thesis by blast
qed

lemma PostIoCompletion_posts:
  assumes "io_cq_ready QueueId c"
  shows "\<exists>c'. PostIoCompletion QueueId cid sct sc c = Some (STATUS_SUCCESS, c') \<and> io_posted QueueId cid sct sc c c'"
proof -
  from assms obtain m d ph where q: "VNVME_IO_QUEUE_ID_VALID QueueId" and at: "cq_at QueueId c m d ph"
    by (auto simp: io_cq_ready_def)
  from PostIoCompletion_state [OF q at] obtain cpl where
    run: "PostIoCompletion QueueId cid sct sc c = Some (STATUS_SUCCESS, post_state QueueId m d ph cpl c)"
      "completed_once QueueId cid sct sc (m, d, ph) (post_state QueueId m d ph cpl c)" by blast
  have "QueueId \<noteq> 0" using q by (auto simp: VNVME_IO_QUEUE_ID_VALID_def)
  then have "host (post_state QueueId m d ph cpl c) = host c" "g_Config (post_state QueueId m d ph cpl c) = g_Config c"
    "pdo (post_state QueueId m d ph cpl c) = (pdo c)\<lparr>pdo_IoCq := pdo_IoCq (pdo (post_state QueueId m d ph cpl c))\<rparr>"
    by (simp_all add: post_state_def sync_cq_def upd_IoCq_def)
  moreover from run(2) obtain m' where "cq_at QueueId (post_state QueueId m d ph cpl c) m' d (post_phase m d ph)"
    "qd_Tail m' d = cq_next m d" "cqe_CID (rd_NVME_COMPLETION m' (cq_slot m d)) = cid"
    "cqe_SQID (rd_NVME_COMPLETION m' (cq_slot m d)) = QueueId"
    "cqe_Status (rd_NVME_COMPLETION m' (cq_slot m d)) = NvmeMakeStatus sct sc (if ph then 1 else 0)"
    unfolding completed_once_def prod.case by blast
  moreover from this(1) q have "io_cq_ready QueueId (post_state QueueId m d ph cpl c)"
    unfolding io_cq_ready_def by blast
  ultimately have "io_posted QueueId cid sct sc c (post_state QueueId m d ph cpl c)"
    using at unfolding io_posted_def by blast
  with run(1) show ?thesis by blast
qed

lemma io_posted_keeps:
  assumes "io_posted QueueId cid sct sc c c'"
  shows "host c' = host c" "pdo_Namespaces (pdo c') = pdo_Namespaces (pdo c)" "io_cq_ready QueueId c'"
proof -
  from assms have p: "pdo c' = (pdo c)\<lparr>pdo_IoCq := pdo_IoCq (pdo c')\<rparr>" and rest: "host c' = host c" "io_cq_ready QueueId c'"
    by (simp_all add: io_posted_def)
  have "pdo_Namespaces (pdo c') = pdo_Namespaces (pdo c)"
    by (subst p) simp
  with rest show "host c' = host c" "pdo_Namespaces (pdo c') = pdo_Namespaces (pdo c)" "io_cq_ready QueueId c'"
    by simp_all
qed

text \<open>The queue \<open>QueueId\<close> with this memory, descriptor and phase, which the updates of the handlers leave as it is.\<close>

definition io_queue :: "u16 \<Rightarrow> mem \<times> nat \<times> bool \<Rightarrow> vnvme_ctx \<Rightarrow> bool" where
  "io_queue QueueId = (\<lambda>(m, d, ph) c. VNVME_IO_QUEUE_ID_VALID QueueId \<and> cq_at QueueId c m d ph)"

lemma io_cq_ready_queue: "io_cq_ready QueueId c \<longleftrightarrow> (\<exists>q. io_queue QueueId q c)"
  by (simp add: io_cq_ready_def io_queue_def)

lemma completed_once_ready: "completed_once QueueId cid sct sc q c \<Longrightarrow> VNVME_IO_QUEUE_ID_VALID QueueId \<Longrightarrow> io_cq_ready QueueId c"
  by (auto simp: completed_once_def io_cq_ready_def split: prod.splits)

lemma io_queue_cong:
  assumes "io_queue QueueId q c" "VnvmeShmGetControlBlock c' = VnvmeShmGetControlBlock c"
    and "VnvmeShmGetIoQueueDescriptors c' = VnvmeShmGetIoQueueDescriptors c"
    and "g_Config c' = g_Config c" "pdo_IoCq (pdo c') = pdo_IoCq (pdo c)" "pdo_AdminCq (pdo c') = pdo_AdminCq (pdo c)"
    and "pdo_wf (pdo c')"
  shows "io_queue QueueId q c'"
proof -
  have "post_cqDesc QueueId c' = post_cqDesc QueueId c"
    unfolding post_cqDesc_def assms(3-6) ..
  with assms(1,2,7) show ?thesis by (auto simp: io_queue_def cq_at_def split: prod.splits)
qed

lemma io_queue_wf: "io_queue QueueId q c \<Longrightarrow> pdo_wf (pdo c)"
  by (auto simp: io_queue_def cq_at_def)

lemma io_queue_updates:
  assumes "io_queue QueueId q c"
  shows "io_queue QueueId q (c\<lparr>host := h\<rparr>)" "io_queue QueueId q (set_storage i S c)" "io_queue QueueId q (count_io c)"
    "io_queue QueueId q (count_read i n c)" "io_queue QueueId q (count_write i n c)"
    "io_queue QueueId q (upd_pdo (count_flush i) c)"
  by (rule io_queue_cong [OF assms];
      use io_queue_wf [OF assms] in \<open>simp add: VnvmeShmGetControlBlock_def VnvmeShmGetIoQueueDescriptors_def
        set_storage_def count_io_def count_read_def count_write_def count_flush_def upd_Namespace_def pdo_wf_def\<close>)+

text \<open>The same for a queue that is only known to be ready.\<close>

lemma io_cq_ready_cong:
  assumes "io_cq_ready QueueId c" "VnvmeShmGetControlBlock c' = VnvmeShmGetControlBlock c"
    and "VnvmeShmGetIoQueueDescriptors c' = VnvmeShmGetIoQueueDescriptors c"
    and "g_Config c' = g_Config c" "pdo_IoCq (pdo c') = pdo_IoCq (pdo c)" "pdo_AdminCq (pdo c') = pdo_AdminCq (pdo c)"
    and "pdo_wf (pdo c')"
  shows "io_cq_ready QueueId c'"
  using assms(1) io_queue_cong [OF _ assms(2-7)] unfolding io_cq_ready_queue by blast

lemma io_cq_ready_wf: "io_cq_ready QueueId c \<Longrightarrow> pdo_wf (pdo c)"
  by (auto simp: io_cq_ready_queue dest: io_queue_wf)

lemma io_cq_ready_updates:
  assumes "io_cq_ready QueueId c"
  shows "io_cq_ready QueueId (c\<lparr>host := h\<rparr>)" "io_cq_ready QueueId (set_storage i S c)" "io_cq_ready QueueId (count_io c)"
    "io_cq_ready QueueId (count_read i n c)" "io_cq_ready QueueId (count_write i n c)"
    "io_cq_ready QueueId (upd_pdo (count_flush i) c)"
  using assms unfolding io_cq_ready_queue by (auto intro: io_queue_updates)

section \<open>Properties of Read, Write and Compare\<close>

text \<open>The namespace after a Write.\<close>

definition ns_written :: "VNVME_STORAGE_CONTEXT option \<Rightarrow> u64 \<Rightarrow> VNVME_NAMESPACE \<Rightarrow> VNVME_NAMESPACE" where
  "ns_written S n ns = ns\<lparr>ns_Storage := S, ns_WriteBytes := ns_WriteBytes ns + n, ns_WriteCommands := ns_WriteCommands ns + 1\<rparr>"

lemma count_write_namespaces:
  assumes "i < length (pdo_Namespaces (pdo c))" "ns = pdo_Namespaces (pdo c) ! i"
  shows "pdo_Namespaces (pdo (count_write i n (set_storage i S c))) = (pdo_Namespaces (pdo c))[i := ns_written S n ns]"
  using assms by (simp add: count_write_def set_storage_def count_io_def upd_Namespace_def ns_written_def)

lemma count_write_host [simp]: "host (count_write i n c) = host c"
  by (simp add: count_write_def count_io_def)

lemma count_read_host [simp]: "host (count_read i n c) = host c"
  by (simp add: count_read_def count_io_def)

lemma transfer_after:
  assumes "transfer os cmd c i ns es" "host c1 = host c" "pdo_Namespaces (pdo c1) = (pdo_Namespaces (pdo c))[i := ns1]"
    and "ns_Active ns1" "ns_BlockSize ns1 = ns_BlockSize ns" "ns_TotalBlocks ns1 = ns_TotalBlocks ns"
    and "storage_ok (ns_Storage ns1)" "storage_capacity (ns_Storage ns1) = storage_capacity (ns_Storage ns)"
  shows "transfer os cmd c1 i ns1 es"
  using assms by (auto simp: transfer_def selects_def ns_backed_def blocks_inside_def io_length_def)

lemma HandleWrite_completes:
  assumes "io_cq_ready QueueId c" "transfer os cmd c i ns es" "os_succeeds os" "storage_writable (ns_Storage ns)"
  shows "\<exists>c' S'. HandleWrite os QueueId cmd c = Some (STATUS_SUCCESS, c')
    \<and> pdo_Namespaces (pdo c') = (pdo_Namespaces (pdo c))[i := ns_written S' (io_len_word cmd ns) ns]
    \<and> storage_ok S' \<and> storage_capacity S' = storage_capacity (ns_Storage ns)
    \<and> storage_contents S' = wr_bytes (io_offset cmd ns) (prp_gather (host c) es) (storage_contents (ns_Storage ns))
    \<and> host c' = host c \<and> io_cq_ready QueueId c'"
proof -
  from HandleWrite_transfer [OF assms(2-4), of QueueId] obtain S' where
    S': "storage_ok S'" "storage_capacity S' = storage_capacity (ns_Storage ns)"
      "storage_contents S' = wr_bytes (io_offset cmd ns) (prp_gather (host c) es) (storage_contents (ns_Storage ns))"
    and run: "HandleWrite os QueueId cmd c = PostIoCompletion QueueId (CID cmd) NVME_SCT_GENERIC NVME_SC_SUCCESS
        (count_write i (io_len_word cmd ns) (set_storage i S' c))"
    by blast
  let ?c = "count_write i (io_len_word cmd ns) (set_storage i S' c)"
  have "io_cq_ready QueueId ?c"
    by (intro io_cq_ready_updates assms(1))
  from PostIoCompletion_posts [OF this, of "CID cmd" NVME_SCT_GENERIC NVME_SC_SUCCESS] obtain c' where
    c': "HandleWrite os QueueId cmd c = Some (STATUS_SUCCESS, c')" "io_posted QueueId (CID cmd) 0 0 ?c c'"
    using run by auto
  have sel: "i < length (pdo_Namespaces (pdo c))" "ns = pdo_Namespaces (pdo c) ! i"
    using assms(2) by (auto simp: transfer_def selects_def)
  have "pdo_Namespaces (pdo c') = (pdo_Namespaces (pdo c))[i := ns_written S' (io_len_word cmd ns) ns]"
    using io_posted_keeps(2) [OF c'(2)] count_write_namespaces [OF sel] by simp
  with c'(1) io_posted_keeps(1,3) [OF c'(2)] S' show ?thesis by (intro exI [of _ c'] exI [of _ S']) simp
qed

text \<open>C1: writing and reading back. On any back end, when no service of the system fails, a Write of up to 2 MiB
  completes, and a Read of the same blocks into non-overlapping pages then delivers exactly the bytes that
  were behind the Write's PRP entries, and changes no other byte of the host.\<close>

theorem HandleWrite_HandleRead_roundtrip:
  assumes "io_cq_ready QueueId c" "os_succeeds os" "os_succeeds os'"
    and "transfer os cmd c i ns es" "storage_writable (ns_Storage ns)"
    and "transfer os' cmd' c i ns es'" "prp_apart es'"
    and "cmd_slba cmd' = cmd_slba cmd" "cmd_nlb cmd' = cmd_nlb cmd"
  shows "\<exists>c1 c2. HandleWrite os QueueId cmd c = Some (STATUS_SUCCESS, c1)
    \<and> HandleRead os' QueueId cmd' c1 = Some (STATUS_SUCCESS, c2)
    \<and> prp_gather (host c2) es' = prp_gather (host c) es
    \<and> same_outside (prp_ranges es') (host c) (host c2)"
proof -
  from HandleWrite_completes [OF assms(1,4,2,5)] obtain c1 S' where
    w: "HandleWrite os QueueId cmd c = Some (STATUS_SUCCESS, c1)"
      "pdo_Namespaces (pdo c1) = (pdo_Namespaces (pdo c))[i := ns_written S' (io_len_word cmd ns) ns]"
      "storage_ok S'" "storage_capacity S' = storage_capacity (ns_Storage ns)"
      "storage_contents S' = wr_bytes (io_offset cmd ns) (prp_gather (host c) es) (storage_contents (ns_Storage ns))"
      "host c1 = host c" "io_cq_ready QueueId c1"
    by blast
  define ns1 where "ns1 = ns_written S' (io_len_word cmd ns) ns"
  have tot: "prp_total es = io_length cmd ns" "prp_total es' = io_length cmd' ns" "io_length cmd' ns = io_length cmd ns"
    "io_offset cmd' ns1 = io_offset cmd ns" "io_length cmd' ns1 = io_length cmd ns" "ns_Storage ns1 = S'"
    using assms(4,6,8,9) by (simp_all add: transfer_def ns1_def ns_written_def io_offset_def io_length_def)
  have "transfer os' cmd' c1 i ns1 es'"
    using assms(6) w by (intro transfer_after [OF assms(6)]) (auto simp: ns1_def ns_written_def transfer_def selects_def)
  from HandleRead_transfer [OF this assms(3), of QueueId] obtain S'' where
    run: "HandleRead os' QueueId cmd' c1 = PostIoCompletion QueueId (CID cmd') NVME_SCT_GENERIC NVME_SC_SUCCESS
      (count_read i (io_len_word cmd' ns1) ((set_storage i S'' c1)\<lparr>host := prp_scatter es'
         (rd_bytes (storage_contents S') (io_offset cmd ns) (io_length cmd ns)) (host c)\<rparr>))"
    unfolding tot w(6) by blast
  let ?c = "count_read i (io_len_word cmd' ns1) ((set_storage i S'' c1)\<lparr>host := prp_scatter es'
         (rd_bytes (storage_contents S') (io_offset cmd ns) (io_length cmd ns)) (host c)\<rparr>)"
  have "io_cq_ready QueueId ?c"
    by (intro io_cq_ready_updates w(7))
  from PostIoCompletion_posts [OF this, of "CID cmd'" NVME_SCT_GENERIC NVME_SC_SUCCESS] obtain c2 where
    c2: "HandleRead os' QueueId cmd' c1 = Some (STATUS_SUCCESS, c2)" "io_posted QueueId (CID cmd') 0 0 ?c c2"
    using run by auto
  have "rd_bytes (storage_contents S') (io_offset cmd ns) (io_length cmd ns) = prp_gather (host c) es"
    unfolding w(5) tot(1) [symmetric] using rd_bytes_wr_bytes [of "io_offset cmd ns" "prp_gather (host c) es"] by simp
  then have h: "host c2 = prp_scatter es' (prp_gather (host c) es) (host c)"
    using io_posted_keeps(1) [OF c2(2)] by simp
  have "prp_gather (host c2) es' = prp_gather (host c) es"
    unfolding h using assms(7) tot by (intro prp_gather_scatter) simp_all
  moreover have "same_outside (prp_ranges es') (host c) (host c2)"
    unfolding h using tot by (intro prp_scatter_frame) simp
  ultimately show ?thesis using w(1) c2(1) by blast
qed

text \<open>A controller with I/O completion queue 1 (two entries) and a namespace of eight blocks, marked read-only, on a
  memory store; a Write of one block from 2 MiB and a Read of it to 3 MiB.\<close>

definition example_io_shm :: mem where
  "example_io_shm = wr32 0x102C 1 (wr32 0x1028 2 (wr32 0x1020 0x6000 (wr32 cb_IoQueueDescriptorOffset 0x1000 (\<lambda>_. 0))))"

definition example_ns :: VNVME_NAMESPACE where
  "example_ns = zero_NAMESPACE\<lparr>ns_Active := True, ns_ReadOnly := True, ns_BlockSize := 512, ns_TotalBlocks := 8,
     ns_Storage := Some (zero_STORAGE_CONTEXT\<lparr>st_Type := VNVME_STORAGE_TYPE_MEMORY, st_TotalBytes := 4096,
       st_MemoryBuffer := Some (\<lambda>_. 0), st_MemorySize := 4096\<rparr>)\<rparr>"

definition example_io_pdo :: VNVME_PDO_CONTEXT where
  "example_io_pdo = zero_PDO_CONTEXT\<lparr>
     pdo_IoCq := (replicate 16 zero_QUEUE_STATE)[0 := zero_QUEUE_STATE\<lparr>qs_Created := True, qs_Size := 2\<rparr>],
     pdo_Namespaces := (replicate 16 zero_NAMESPACE)[0 := example_ns]\<rparr>"

definition example_io_ctx :: vnvme_ctx where
  "example_io_ctx = (example_ctx example_io_shm)\<lparr>pdo := example_io_pdo, host := wr8 0x200000 42 (\<lambda>_. 0)\<rparr>"

definition example_io_cmd :: "u64 \<Rightarrow> NVME_COMMAND" where
  "example_io_cmd prp = zero_COMMAND\<lparr>NSID := 1, PRP1 := prp\<rparr>"

definition example_entry :: "u64 \<Rightarrow> VNVME_PRP_ENTRY" where
  "example_entry prp = \<lparr>prp_PhysicalAddress = prp, prp_Offset = 0, prp_Length = 512\<rparr>"

lemma example_io_ready: "io_cq_ready 1 example_io_ctx"
proof -
  have "VnvmeShmGetControlBlock example_io_ctx = Some example_io_shm"
    by (simp add: example_io_ctx_def VnvmeShmGetControlBlock_def example_ctx_def example_fdo_def)
  moreover have "VnvmeShmGetIoQueueDescriptors example_io_ctx = Some 0x1000"
    by (simp add: example_io_ctx_def VnvmeShmGetIoQueueDescriptors_def VnvmeShmGetControlBlock_def example_ctx_def
        example_fdo_def example_io_shm_def mem_simps)
  moreover have "pdo example_io_ctx = example_io_pdo" "g_Config example_io_ctx = g_Config_init"
    by (simp_all add: example_io_ctx_def)
  ultimately have "cq_at 1 example_io_ctx example_io_shm 0x1020 False"
    by (simp add: cq_at_def post_cqDesc_def cq_entries_ok_def qd_get_defs example_io_shm_def mem_simps pdo_wf_def
        example_io_pdo_def zero_PDO_CONTEXT_def zero_QUEUE_STATE_def g_Config_init_def)
  then show ?thesis by (auto simp: io_cq_ready_def VNVME_IO_QUEUE_ID_VALID_def)
qed

lemma page_base_of_aligned:
  assumes "page_offset a = 0"
  shows "page_base a = a"
proof -
  have low: "\<not> bit a n" if "n < 12" for n
  proof
    assume "bit a n"
    with that have "bit (page_offset a) n" by (simp add: page_offset_def bit_simps)
    with assms show False by simp
  qed
  have mask: "(4096 - 1 :: u64) = mask 12" by (simp add: mask_eq_exp_minus_1)
  show ?thesis
    unfolding page_base_def mask by (rule bit_word_eqI) (auto simp: bit_simps dest: low)
qed

lemma example_transfer:
  assumes "prp = 0x200000 \<or> prp = 0x300000"
  shows "transfer os_all_ok (example_io_cmd prp) example_io_ctx 0 example_ns [example_entry prp]"
proof -
  have "cmd_slba (example_io_cmd prp) = 0" "cmd_nlb (example_io_cmd prp) = 1"
    by (simp_all add: example_io_cmd_def cmd_slba_def cmd_nlb_def zero_COMMAND_def)
  moreover have "selects (example_io_cmd prp) example_io_ctx 0 example_ns"
    by (simp add: selects_def example_io_cmd_def VNVME_NSID_VALID_def VNVME_NSID_TO_INDEX_def example_io_ctx_def
        example_io_pdo_def zero_PDO_CONTEXT_def) (simp add: example_ns_def)
  moreover have "ns_backed example_ns" "ns_BlockSize example_ns = 512" "ns_TotalBlocks example_ns = 8"
    by (simp_all add: ns_backed_def example_ns_def storage_ok_def storage_capacity_def)
  moreover have "VnvmeParsePrpList (os_alloc os_all_ok 2) (os_map os_all_ok 0) (host example_io_ctx)
      (PRP1 (example_io_cmd prp)) (PRP2 (example_io_cmd prp)) 512 = Some (STATUS_SUCCESS, [example_entry prp])"
  proof -
    have "page_offset prp = 0" "VnvmeIsValidPhysicalAddress prp 4096"
      using assms by (auto simp: VnvmeIsValidPhysicalAddress_def page_offset_def)
    then show ?thesis
      by (simp add: VnvmeParsePrpList_def page_base_of_aligned prp_numPages_def os_all_ok_def example_io_cmd_def
          example_entry_def Let_def)
  qed
  ultimately show ?thesis
    by (simp add: transfer_def blocks_inside_def io_length_def VNVME_BLOCKS_TO_BYTES_def example_entry_def)
qed

theorem HandleWrite_HandleRead_roundtrip_witness:
  "\<exists>c1 c2. HandleWrite os_all_ok 1 (example_io_cmd 0x200000) example_io_ctx = Some (STATUS_SUCCESS, c1)
    \<and> HandleRead os_all_ok 1 (example_io_cmd 0x300000) c1 = Some (STATUS_SUCCESS, c2)
    \<and> prp_gather (host c2) [example_entry 0x300000] = prp_gather (host example_io_ctx) [example_entry 0x200000]"
proof -
  have "storage_writable (ns_Storage example_ns)" "prp_apart [example_entry 0x300000]"
    by (simp_all add: storage_writable_def example_ns_def zero_STORAGE_CONTEXT_def)
  moreover have "transfer os_all_ok (example_io_cmd 0x200000) example_io_ctx 0 example_ns [example_entry 0x200000]"
    "transfer os_all_ok (example_io_cmd 0x300000) example_io_ctx 0 example_ns [example_entry 0x300000]"
    by (simp_all add: example_transfer)
  moreover have "cmd_slba (example_io_cmd 0x300000) = cmd_slba (example_io_cmd 0x200000)"
    "cmd_nlb (example_io_cmd 0x300000) = cmd_nlb (example_io_cmd 0x200000)"
    by (simp_all add: example_io_cmd_def cmd_slba_def cmd_nlb_def)
  ultimately show ?thesis
    using HandleWrite_HandleRead_roundtrip [OF example_io_ready os_succeeds_all_ok os_succeeds_all_ok] by blast
qed

text \<open>C20: Compare compares. When no service of the system fails and the completion queue is ready, a Compare of up to 2 MiB over
  blocks inside an active namespace with a consistent store, whose PRP entries parse and cover the transfer, posts one
  completion: success if the bytes behind the PRP entries equal the addressed blocks, Compare Failure if they
  differ. It changes neither the host's memory nor the contents of the storage.\<close>

theorem HandleCompare_compares:
  assumes "io_cq_ready QueueId c" "os_succeeds os" "transfer os cmd c i ns es"
  defines "equal_data \<equiv> prp_gather (host c) es = rd_bytes (storage_contents (ns_Storage ns)) (io_offset cmd ns) (io_length cmd ns)"
  shows "\<exists>c' S'. HandleCompare os QueueId cmd c = Some (STATUS_SUCCESS, c')
    \<and> io_posted QueueId (CID cmd) (if equal_data then NVME_SCT_GENERIC else NVME_SCT_MEDIA_ERROR)
        (if equal_data then NVME_SC_SUCCESS else NVME_SC_COMPARE_FAILURE) (count_io (set_storage i S' c)) c'
    \<and> storage_same (ns_Storage ns) S' \<and> host c' = host c"
proof -
  note t = assms(3) [unfolded transfer_def]
  from t have b: "selects cmd c i ns" "ns_backed ns" "blocks_inside cmd ns" "io_length cmd ns \<le> 2 * 1024 * 1024" by simp_all
  note bytes = io_bytes [OF b(2,3)]
  have ok: "storage_ok (ns_Storage ns)" using b(2) by (simp add: ns_backed_def)
  have len: "unat (ucast (io_len_word cmd ns) :: u32) = io_length cmd ns"
    using b by (intro io_len_u32) auto
  have alloc: "\<And>n k. os_alloc os n k" and maps: "\<And>j a n. os_map os (j + 1) a n" and fok: "file_os_ok os"
    using assms(2) by (simp_all add: os_succeeds_def)
  have fit: "unat (io_off_word cmd ns) + unat (ucast (io_len_word cmd ns) :: u32) \<le> storage_capacity (ns_Storage ns)"
    using bytes len by simp
  from storage.get_law [of os "ns_Storage ns", OF _ fit] VnvmeStorageRead_succeeds [OF assms(2) ok fit] ok fok len bytes(1)
  obtain status bs S' where g: "VnvmeStorageRead os (ns_Storage ns) (io_off_word cmd ns) (ucast (io_len_word cmd ns))
      = Some (status, bs, S')" "NT_SUCCESS status" "storage_same (ns_Storage ns) S'"
      "bs = rd_bytes (storage_contents (ns_Storage ns)) (io_offset cmd ns) (io_length cmd ns)"
    by (auto simp: storage_same_def)
  have "host_to_buffer (\<lambda>j. os_map os (j + 1)) (host c) 0 (io_length cmd ns) (io_len_word cmd ns) es 0 0 (\<lambda>_. 0)
      = Some (wr_bytes 0 (prp_gather (host c) es) (\<lambda>_. 0))"
    using host_to_buffer_gathers [of "\<lambda>j. os_map os (j + 1)", OF maps, of 0 es "io_len_word cmd ns" 0 "io_length cmd ns" "host c" 0]
      bytes t by simp
  moreover have "rd_bytes (wr_bytes 0 (prp_gather (host c) es) (\<lambda>_. 0)) 0 (io_length cmd ns) = prp_gather (host c) es"
    "rd_bytes (wr_bytes 0 bs (\<lambda>_. 0)) 0 (io_length cmd ns) = bs"
    using rd_bytes_wr_bytes [of 0 "prp_gather (host c) es" "\<lambda>_. 0"] rd_bytes_wr_bytes [of 0 bs "\<lambda>_. 0"] t g(4) by simp_all
  moreover have "ns_Storage ns \<noteq> None" using ok by (cases "ns_Storage ns") (auto simp: storage_ok_def)
  ultimately have run: "HandleCompare os QueueId cmd c = PostIoCompletion QueueId (CID cmd)
      (if equal_data then NVME_SCT_GENERIC else NVME_SCT_MEDIA_ERROR)
      (if equal_data then NVME_SC_SUCCESS else NVME_SC_COMPARE_FAILURE) (count_io (set_storage i S' c))"
    using g alloc t bytes b(4)
    by (simp add: HandleCompare_def with_blocks_run [OF b(1,3)] compare_storage_def word_less_nat_alt equal_data_def)
  have "io_cq_ready QueueId (count_io (set_storage i S' c))"
    by (intro io_cq_ready_updates assms(1))
  from PostIoCompletion_posts [OF this] obtain c' where
    c': "HandleCompare os QueueId cmd c = Some (STATUS_SUCCESS, c')"
      "io_posted QueueId (CID cmd) (if equal_data then NVME_SCT_GENERIC else NVME_SCT_MEDIA_ERROR)
        (if equal_data then NVME_SC_SUCCESS else NVME_SC_COMPARE_FAILURE) (count_io (set_storage i S' c)) c'"
    unfolding run by blast
  have "host c' = host c"
    using io_posted_keeps(1) [OF c'(2)] by (simp add: count_io_def)
  with c' g(3) show ?thesis by blast
qed

text \<open>The property at the example: the page at 2 MiB starts with 42, the block is all zeroes.\<close>

theorem HandleCompare_compares_witness:
  "\<exists>c' S'. HandleCompare os_all_ok 1 (example_io_cmd 0x200000) example_io_ctx = Some (STATUS_SUCCESS, c')
    \<and> io_posted 1 0 NVME_SCT_MEDIA_ERROR NVME_SC_COMPARE_FAILURE (count_io (set_storage 0 S' example_io_ctx)) c'"
proof -
  let ?cmd = "example_io_cmd 0x200000"
  have t: "transfer os_all_ok ?cmd example_io_ctx 0 example_ns [example_entry 0x200000]"
    by (simp add: example_transfer)
  have first: "prp_gather (host example_io_ctx) [example_entry 0x200000] ! 0 = 42"
    "rd_bytes (storage_contents (ns_Storage example_ns)) (io_offset ?cmd example_ns) (io_length ?cmd example_ns) ! 0 = 0"
    by (simp_all add: example_io_ctx_def example_entry_def prp_phys_def wr8_def io_offset_def io_length_def cmd_slba_def
        cmd_nlb_def example_io_cmd_def zero_COMMAND_def example_ns_def storage_contents_def)
  have "(42 :: u8) \<noteq> 0" by simp
  then have "prp_gather (host example_io_ctx) [example_entry 0x200000]
      \<noteq> rd_bytes (storage_contents (ns_Storage example_ns)) (io_offset ?cmd example_ns) (io_length ?cmd example_ns)"
    using first by metis
  moreover have "CID ?cmd = 0" by (simp add: example_io_cmd_def zero_COMMAND_def)
  ultimately show ?thesis
    using HandleCompare_compares [OF example_io_ready os_succeeds_all_ok t] by auto
qed

end
