(* ===== verification/Vnvme_Io_Answers.thy ===== *)
theory Vnvme_Io_Answers
  imports Vnvme_Io_Props
begin

text \<open>
  Every I/O command within the transfer limit is answered, whatever the system answers, and two ways in which
  a command reports success although data was not moved.
\<close>

section \<open>The copy loops return\<close>

lemma prp_mapSize_le:
  fixes off tot :: u64
  assumes "off < tot"
  shows "unat off + unat (prp_mapSize tot off e) \<le> unat tot"
    "unat (off + prp_mapSize tot off e) = unat off + unat (prp_mapSize tot off e)"
proof -
  have "unat (tot - off) = unat tot - unat off"
    using assms by (simp add: unat_sub_if' word_less_nat_alt)
  then show le: "unat off + unat (prp_mapSize tot off e) \<le> unat tot"
    using assms by (auto simp: prp_mapSize_def word_less_nat_alt)
  show "unat (off + prp_mapSize tot off e) = unat off + unat (prp_mapSize tot off e)"
    using le unat_u64_bound [of tot] by (simp add: unat_word_ariths)
qed

lemma host_to_buffer_returns:
  "base + unat tot \<le> cap \<Longrightarrow> \<exists>b. host_to_buffer map_ok h base cap tot es i off buf = Some b"
proof (induction es arbitrary: i off buf)
  case (Cons e es)
  then show ?case
    using prp_mapSize_le [of off tot e] by (auto simp: Let_def)
qed simp

lemma buffer_to_host_returns:
  "base + unat tot \<le> cap \<Longrightarrow> \<exists>h'. buffer_to_host map_ok buf base cap tot es i off h = Some h'"
proof (induction es arbitrary: i off h)
  case (Cons e es)
  then show ?case
    using prp_mapSize_le [of off tot e] by (auto simp: Let_def)
qed simp

section \<open>Answers\<close>

text \<open>Every active namespace has no storage or one that holds all its blocks.\<close>

definition ns_table_ok :: "vnvme_ctx \<Rightarrow> bool" where
  "ns_table_ok c \<longleftrightarrow> (\<forall>ns\<in>set (pdo_Namespaces (pdo c)). ns_Active ns \<longrightarrow> ns_Storage ns = None \<or> ns_backed ns)"

text \<open>A handler that answers: it returns success after one completion of the command, and the table of the namespaces is in order again.\<close>

definition io_answered :: "u16 \<Rightarrow> u16 \<Rightarrow> mem \<times> nat \<times> bool \<Rightarrow> (NTSTATUS \<times> vnvme_ctx) option \<Rightarrow> bool" where
  "io_answered QueueId cid q r \<longleftrightarrow>
     (\<exists>sct sc c'. r = Some (STATUS_SUCCESS, c') \<and> completed_once QueueId cid sct sc q c' \<and> ns_table_ok c')"

lemma ns_table_ok_cong: "pdo_Namespaces (pdo c') = pdo_Namespaces (pdo c) \<Longrightarrow> ns_table_ok c \<Longrightarrow> ns_table_ok c'"
  by (simp add: ns_table_ok_def)

lemma PostIoCompletion_completes:
  assumes "io_queue QueueId q c" "ns_table_ok c"
  shows "\<exists>c'. PostIoCompletion QueueId cid sct sc c = Some (STATUS_SUCCESS, c') \<and> completed_once QueueId cid sct sc q c' \<and> ns_table_ok c'"
proof -
  obtain m d ph where q: "q = (m, d, ph)" by (cases q)
  with assms(1) have at: "VNVME_IO_QUEUE_ID_VALID QueueId" "cq_at QueueId c m d ph" by (simp_all add: io_queue_def)
  have "pdo_Namespaces (pdo (post_state QueueId m d ph cpl c)) = pdo_Namespaces (pdo c)" for cpl
    by (simp add: post_state_def sync_cq_def upd_IoCq_def)
  with PostIoCompletion_state [OF at, of cid sct sc] ns_table_ok_cong [OF _ assms(2)] show ?thesis
    unfolding q by blast
qed

lemma PostIoCompletion_answers:
  "io_queue QueueId q c \<Longrightarrow> ns_table_ok c \<Longrightarrow> io_answered QueueId cid q (PostIoCompletion QueueId cid sct sc c)"
  using PostIoCompletion_completes unfolding io_answered_def by blast

text \<open>Replacing the storage of a namespace by one of the same capacity, and the counters, keep the table.\<close>

lemma ns_table_ok_update:
  assumes "ns_table_ok c" "i < length (pdo_Namespaces (pdo c))"
    and "\<And>ns. ns_Active (f ns) = ns_Active ns" "\<And>ns. ns_BlockSize (f ns) = ns_BlockSize ns"
    and "\<And>ns. ns_TotalBlocks (f ns) = ns_TotalBlocks ns"
    and "ns_Storage (f (pdo_Namespaces (pdo c) ! i)) = ns_Storage (pdo_Namespaces (pdo c) ! i)
      \<or> storage_ok (ns_Storage (f (pdo_Namespaces (pdo c) ! i)))
        \<and> storage_capacity (ns_Storage (f (pdo_Namespaces (pdo c) ! i))) = storage_capacity (ns_Storage (pdo_Namespaces (pdo c) ! i))
        \<and> ns_Storage (pdo_Namespaces (pdo c) ! i) \<noteq> None"
  shows "ns_table_ok (upd_pdo (upd_Namespace i f) c)"
proof -
  let ?ns = "pdo_Namespaces (pdo c) ! i"
  have old: "ns_Active ?ns \<longrightarrow> ns_Storage ?ns = None \<or> ns_backed ?ns"
    using assms(1,2) by (simp add: ns_table_ok_def)
  then have new: "ns_Active (f ?ns) \<longrightarrow> ns_Storage (f ?ns) = None \<or> ns_backed (f ?ns)"
    using assms(3-6) by (auto simp: ns_backed_def)
  have "set (pdo_Namespaces (upd_Namespace i f (pdo c))) \<subseteq> insert (f ?ns) (set (pdo_Namespaces (pdo c)))"
    by (simp add: upd_Namespace_def set_update_subset_insert)
  with new assms(1) show ?thesis by (auto simp: ns_table_ok_def)
qed

lemma ns_table_ok_pdo: "ns_table_ok (upd_pdo f c) = ns_table_ok c" if "pdo_Namespaces (f (pdo c)) = pdo_Namespaces (pdo c)"
  using that by (simp add: ns_table_ok_def)

lemma length_namespaces_update [simp]: "length (pdo_Namespaces (upd_Namespace i f p)) = length (pdo_Namespaces p)"
  by (simp add: upd_Namespace_def)

lemma ns_table_ok_count:
  assumes "ns_table_ok c" "i < length (pdo_Namespaces (pdo c))"
  shows "ns_table_ok (count_io c)" "ns_table_ok (count_read i n c)" "ns_table_ok (count_write i n c)"
    "ns_table_ok (upd_pdo (count_flush i) c)" "ns_table_ok (c\<lparr>host := h\<rparr>)"
proof -
  have c: "ns_table_ok (count_io (upd_pdo f c))" if "\<And>p. pdo_Namespaces (f p) = pdo_Namespaces p" for f
    using assms(1) that by (simp add: count_io_def ns_table_ok_def)
  from c [of id] show "ns_table_ok (count_io c)" by (simp add: upd_pdo_def)
  show "ns_table_ok (count_read i n c)" "ns_table_ok (count_write i n c)" "ns_table_ok (upd_pdo (count_flush i) c)"
    unfolding count_read_def count_write_def count_flush_def
    using assms by (auto intro!: ns_table_ok_update simp: count_io_def ns_table_ok_pdo)
  show "ns_table_ok (c\<lparr>host := h\<rparr>)" using assms(1) by (simp add: ns_table_ok_def)
qed

lemma ns_table_ok_set_storage:
  assumes "ns_table_ok c" "selects cmd c i ns"
    and "S' = ns_Storage ns \<or> storage_ok S' \<and> storage_capacity S' = storage_capacity (ns_Storage ns) \<and> ns_Storage ns \<noteq> None"
  shows "ns_table_ok (set_storage i S' c)"
  unfolding set_storage_def using assms by (intro ns_table_ok_update) (auto simp: selects_def)

lemma length_namespaces_set_storage [simp]: "length (pdo_Namespaces (pdo (set_storage i S c))) = length (pdo_Namespaces (pdo c))"
  by (simp add: set_storage_def)

lemma with_namespace_answers:
  assumes "io_queue QueueId q c" "ns_table_ok c" "\<And>i ns. selects cmd c i ns \<Longrightarrow> io_answered QueueId (CID cmd) q (body i ns)"
  shows "io_answered QueueId (CID cmd) q (with_namespace QueueId cmd c body)"
proof -
  have wf: "length (pdo_Namespaces (pdo c)) = 16"
    using io_queue_wf [OF assms(1)] by (simp add: pdo_wf_def)
  have index: "unat (VNVME_NSID_TO_INDEX (NSID cmd)) < 16" if "VNVME_NSID_VALID (NSID cmd)"
    using that by (auto simp: VNVME_NSID_VALID_def VNVME_NSID_TO_INDEX_def word_le_nat_alt word_less_nat_alt unat_sub_if')
  show ?thesis
    using PostIoCompletion_answers [OF assms(1,2)] assms(3) index wf
    by (auto simp: with_namespace_def selects_def)
qed

lemma with_blocks_answers:
  assumes "io_queue QueueId q c" "ns_table_ok c" "unat (cmd_slba cmd) + unat (cmd_nlb cmd) < 2 ^ 64"
    and "\<And>i ns. selects cmd c i ns \<Longrightarrow> blocks_inside cmd ns \<Longrightarrow>
      io_answered QueueId (CID cmd) q (body i ns (io_off_word cmd ns) (io_len_word cmd ns))"
  shows "io_answered QueueId (CID cmd) q (with_blocks QueueId cmd c body)"
  unfolding with_blocks_def
proof (rule with_namespace_answers [OF assms(1,2)])
  fix i ns
  assume sel: "selects cmd c i ns"
  have "unat (cmd_slba cmd + ucast (cmd_nlb cmd)) = unat (cmd_slba cmd) + unat (cmd_nlb cmd)"
    using assms(3) by (simp add: unat_word_ariths)
  then have "VNVME_LBA_RANGE_VALID (cmd_slba cmd) (cmd_nlb cmd) (ns_TotalBlocks ns) \<longleftrightarrow> blocks_inside cmd ns"
    by (simp add: VNVME_LBA_RANGE_VALID_def blocks_inside_def word_le_nat_alt)
  with sel assms(4) PostIoCompletion_answers [OF assms(1,2)]
  show "io_answered QueueId (CID cmd) q (if \<not> VNVME_LBA_RANGE_VALID (cmd_slba cmd) (cmd_nlb cmd) (ns_TotalBlocks ns)
      then PostIoCompletion QueueId (CID cmd) 0 0x80 c else body i ns (io_off_word cmd ns) (io_len_word cmd ns))"
    by simp
qed

section \<open>The handlers\<close>

lemma io_len_word_nat: "unat (io_len_word cmd ns) = io_length cmd ns"
proof -
  have "unat (cmd_nlb cmd) * unat (ns_BlockSize ns) \<le> 65536 * 4294967296"
    by (intro mult_le_mono less_imp_le unat_u16_bound unat_u32_bound)
  then show ?thesis by (simp add: VNVME_BLOCKS_TO_BYTES_def io_length_def unat_word_ariths)
qed

lemma selects_storage: "selects cmd c i ns \<Longrightarrow> ns_table_ok c \<Longrightarrow> ns_Storage ns = None \<or> ns_backed ns"
  by (auto simp: selects_def ns_table_ok_def)

lemma selects_index: "selects cmd c i ns \<Longrightarrow> i < length (pdo_Namespaces (pdo c))"
  by (simp add: selects_def)

text \<open>The storage context a handler puts back.\<close>

definition storage_kept :: "VNVME_STORAGE_CONTEXT option \<Rightarrow> VNVME_STORAGE_CONTEXT option \<Rightarrow> bool" where
  "storage_kept S S' \<longleftrightarrow> S' = S \<or> storage_ok S' \<and> storage_capacity S' = storage_capacity S \<and> S \<noteq> None"

lemma storage_ok_None [simp]: "\<not> storage_ok None"
  by (simp add: storage_ok_def)

lemma parse_limit:
  assumes "io_length cmd ns \<le> 2 * 1024 * 1024"
  shows "\<exists>status es. VnvmeParsePrpList a m h p1 p2 (ucast (io_len_word cmd ns)) = Some (status, es)"
proof -
  have "unat (ucast (io_len_word cmd ns) :: u32) \<le> 2 * 1024 * 1024"
    using assms io_len_word_nat [of cmd ns] by (simp add: unsigned_ucast_eq unsigned_take_bit_eq take_bit_nat_eq_self)
  from parse_covers [OF this] show ?thesis by blast
qed

lemma read_source_answers:
  assumes "file_os_ok os" "ns_Storage ns = None \<or> ns_backed ns" "blocks_inside cmd ns" "io_length cmd ns \<le> 2 * 1024 * 1024"
  shows "\<exists>r S'. read_source os (ns_Storage ns) (io_off_word cmd ns) (io_len_word cmd ns) = Some (r, S')
    \<and> storage_kept (ns_Storage ns) S'
    \<and> (\<forall>buf base cap. r = Inr (buf, base, cap) \<longrightarrow> base + unat (io_len_word cmd ns) \<le> cap)"
proof (cases "ns_Storage ns")
  case None
  then show ?thesis by (simp add: read_source_def storage_kept_def)
next
  case (Some s)
  with assms(2) have b: "ns_backed ns" by simp
  then have ok: "storage_ok (ns_Storage ns)" by (simp add: ns_backed_def)
  have "unat (io_off_word cmd ns) + unat (io_len_word cmd ns) \<le> storage_capacity (ns_Storage ns)"
    "unat (io_len_word cmd ns) < 2 ^ 32"
    using io_bytes [OF b assms(3)] assms(4) by simp_all
  from read_source_returns [OF ok assms(1) this] Some show ?thesis
    by (auto simp: storage_kept_def storage_same_def)
qed

lemma HandleRead_answers:
  assumes "io_queue QueueId q c" "ns_table_ok c" "file_os_ok os" "unat (cmd_slba cmd) + unat (cmd_nlb cmd) < 2 ^ 64"
    and limit: "\<And>i ns. selects cmd c i ns \<Longrightarrow> io_length cmd ns \<le> 2 * 1024 * 1024"
  shows "io_answered QueueId (CID cmd) q (HandleRead os QueueId cmd c)"
  unfolding HandleRead_def
proof (rule with_blocks_answers [OF assms(1,2,4)], goal_cases)
  case (1 i ns)
  from read_source_answers [OF assms(3) selects_storage [OF 1(1) assms(2)] 1(2) limit [OF 1(1)]] obtain r S' where
    r: "read_source os (ns_Storage ns) (io_off_word cmd ns) (io_len_word cmd ns) = Some (r, S')"
      "storage_kept (ns_Storage ns) S'" "\<forall>buf base cap. r = Inr (buf, base, cap) \<longrightarrow> base + unat (io_len_word cmd ns) \<le> cap"
    by blast
  have c': "io_queue QueueId q (set_storage i S' c)" "ns_table_ok (set_storage i S' c)"
    using r(2) by (auto intro!: io_queue_updates assms(1) ns_table_ok_set_storage [OF assms(2) 1(1)] simp: storage_kept_def)
  note post = PostIoCompletion_answers [OF c']
  show ?case
  proof (cases r)
    case (Inl e)
    with r(1) post show ?thesis by (cases e) simp
  next
    case (Inr d)
    obtain buf base cap where d: "d = (buf, base, cap)" by (cases d)
    obtain status es where p: "VnvmeParsePrpList (os_alloc os 2) (os_map os 0) (host c) (PRP1 cmd) (PRP2 cmd) (ucast (io_len_word cmd ns))
        = Some (status, es)"
      using parse_limit [OF limit [OF 1(1)]] by blast
    obtain h where h: "buffer_to_host (\<lambda>j. os_map os (j + 1)) buf base cap (io_len_word cmd ns) es 0 0 (host c) = Some h"
      using buffer_to_host_returns r(3) Inr d by blast
    have "io_answered QueueId cid q (PostIoCompletion QueueId cid sct sc (count_read i n ((set_storage i S' c)\<lparr>host := h\<rparr>)))" for cid sct sc n
      using selects_index [OF 1(1)] c' assms(1)
      by (intro PostIoCompletion_answers io_queue_updates ns_table_ok_count) simp_all
    with r(1) Inr d p h post show ?thesis by (simp add: Let_def)
  qed
qed

lemma write_destination_answers:
  assumes "ns_Storage ns = None \<or> ns_backed ns" "blocks_inside cmd ns" "io_length cmd ns \<le> 2 * 1024 * 1024"
  shows "\<exists>target. write_destination os (ns_Storage ns) (io_off_word cmd ns) (io_len_word cmd ns) = Some target
    \<and> (\<forall>m base cap. target = Write_direct m base cap \<longrightarrow> base + unat (io_len_word cmd ns) \<le> cap
        \<and> (\<exists>s. ns_Storage ns = Some s \<and> (\<forall>buf. storage_kept (ns_Storage ns) (Some (s\<lparr>st_MemoryBuffer := Some buf\<rparr>)))))"
proof (cases "ns_Storage ns")
  case None
  then show ?thesis by (simp add: write_destination_def)
next
  case (Some s)
  with assms(1) have b: "ns_backed ns" by simp
  then have ok: "storage_ok (Some s)" using Some by (simp add: ns_backed_def)
  have fit: "unat (io_off_word cmd ns) + unat (io_len_word cmd ns) \<le> storage_capacity (Some s)"
    "unat (io_len_word cmd ns) < 2 ^ 32"
    using io_bytes [OF b assms(2)] assms(3) Some by simp_all
  show ?thesis
    using Some ok io_direct_cases [OF ok fit] fit(1)
    by (auto simp: write_destination_def storage_ok_def storage_kept_def storage_capacity_def)
qed

lemma HandleWrite_answers:
  assumes "io_queue QueueId q c" "ns_table_ok c" "file_os_ok os" "unat (cmd_slba cmd) + unat (cmd_nlb cmd) < 2 ^ 64"
    and limit: "\<And>i ns. selects cmd c i ns \<Longrightarrow> io_length cmd ns \<le> 2 * 1024 * 1024"
  shows "io_answered QueueId (CID cmd) q (HandleWrite os QueueId cmd c)"
  unfolding HandleWrite_def
proof (rule with_blocks_answers [OF assms(1,2,4)], goal_cases)
  case (1 i ns)
  let ?off = "io_off_word cmd ns" and ?len = "io_len_word cmd ns"
  note storage = selects_storage [OF 1(1) assms(2)]
  have len: "unat (ucast ?len :: u32) = unat ?len"
    using limit [OF 1(1)] io_len_word_nat [of cmd ns]
    by (simp add: unsigned_ucast_eq unsigned_take_bit_eq take_bit_nat_eq_self)
  obtain target where target: "write_destination os (ns_Storage ns) ?off ?len = Some target"
    "\<forall>m base cap. target = Write_direct m base cap \<longrightarrow> base + unat ?len \<le> cap
        \<and> (\<exists>s. ns_Storage ns = Some s \<and> (\<forall>buf. storage_kept (ns_Storage ns) (Some (s\<lparr>st_MemoryBuffer := Some buf\<rparr>))))"
    using write_destination_answers [OF storage 1(2) limit [OF 1(1)]] by blast
  obtain status es where p: "VnvmeParsePrpList (os_alloc os 2) (os_map os 0) (host c) (PRP1 cmd) (PRP2 cmd) (ucast ?len) = Some (status, es)"
    using parse_limit [OF limit [OF 1(1)]] by blast
  have put: "\<exists>status S'. VnvmeStorageWrite os (ns_Storage ns) ?off (rd_bytes buf 0 (unat ?len)) (ucast ?len) = Some (status, S')
      \<and> storage_kept (ns_Storage ns) S'" if "ns_Storage ns \<noteq> None" for buf
    using storage that storage.put_law [of os "ns_Storage ns" ?off "ucast ?len" "rd_bytes buf 0 (unat ?len)"] len
      io_bytes [of ns cmd, OF _ 1(2)] assms(3) by (auto simp: storage_kept_def ns_backed_def)
  note post = PostIoCompletion_answers [OF assms(1,2)]
  have posted: "io_answered QueueId cid q (PostIoCompletion QueueId cid sct sc (count_write i n (set_storage i S' c)))"
    "io_answered QueueId cid q (PostIoCompletion QueueId cid sct sc (set_storage i S' c))"
    if "storage_kept (ns_Storage ns) S'" for cid sct sc n S'
    using selects_index [OF 1(1)] that
    by (auto intro!: PostIoCompletion_answers io_queue_updates assms(1) ns_table_ok_count
        ns_table_ok_set_storage [OF assms(2) 1(1)] simp: storage_kept_def)
  have same: "io_answered QueueId cid q (PostIoCompletion QueueId cid sct sc (count_write i n c))" for cid sct sc n
    using selects_index [OF 1(1)] by (intro PostIoCompletion_answers io_queue_updates assms(1) ns_table_ok_count assms(2))
  show ?case
  proof (cases target)
    case (Write_error sct sc)
    with target post show ?thesis by simp
  next
    case Write_discard
    with target same show ?thesis by simp
  next
    case (Write_direct m base cap)
    with target(2) host_to_buffer_returns obtain s buf where
      "host_to_buffer (\<lambda>j. os_map os (j + 1)) (host c) base cap ?len es 0 0 m = Some buf"
      "ns_Storage ns = Some s" "storage_kept (ns_Storage ns) (Some (s\<lparr>st_MemoryBuffer := Some buf\<rparr>))" by metis
    with Write_direct target(1) p post posted show ?thesis by (simp add: Let_def)
  next
    case Write_buffer
    obtain buf where "host_to_buffer (\<lambda>j. os_map os (j + 1)) (host c) 0 (unat ?len) ?len es 0 0 (\<lambda>_. 0) = Some buf"
      using host_to_buffer_returns [of 0 ?len "unat ?len" "\<lambda>j. os_map os (j + 1)" "host c" es 0 0 "\<lambda>_. 0"] by auto
    with Write_buffer target(1) p post posted put [of buf] show ?thesis
      by (cases "ns_Storage ns") (auto simp: Let_def storage_kept_def)
  qed
qed

section \<open>Write Zeroes\<close>

lemma write_zeroes_loop_law:
  assumes "file_os_ok os" "storage_ok S" "unat off + unat remaining \<le> storage_capacity S"
  shows "\<exists>status S'. write_zeroes_loop os n S off remaining = Some (status, S') \<and> storage_ok S'
    \<and> storage_capacity S' = storage_capacity S
    \<and> same_outside {unat off..<unat off + unat remaining} (storage_contents S) (storage_contents S')
    \<and> (NT_SUCCESS status \<longrightarrow> storage_contents S' = zero_range (unat off) (unat remaining) (storage_contents S))"
  using assms
proof (induction "unat remaining" arbitrary: n S off remaining rule: less_induct)
  case less
  show ?case
  proof (cases "remaining = 0")
    case True
    with less.prems show ?thesis by (subst write_zeroes_loop.simps) simp
  next
    case False
    define k where "k = (if remaining > 1048576 then 1048576 else ucast remaining :: u32)"
    have "0 < unat remaining" using False by (simp add: unat_gt_0)
    then have k: "unat k \<le> unat remaining" "0 < unat k"
      using write_zeroes_chunk [of remaining] by (auto simp: k_def word_less_nat_alt)
    have sum: "unat (off + ucast k) = unat off + unat k"
      using less.prems(3) k storage_capacity_bound [of S] by (simp add: unat_word_ariths)
    have rest: "unat (remaining - ucast k) = unat remaining - unat k"
      using k by (simp add: unat_sub_if')
    from storage.clear_law [of os S off k n] less.prems k obtain status S1 where
      z: "VnvmeStorageWriteZeroes os n S off k = Some (status, S1)" "storage_ok S1" "storage_capacity S1 = storage_capacity S"
        "same_outside {unat off..<unat off + unat k} (storage_contents S) (storage_contents S1)"
        "NT_SUCCESS status \<longrightarrow> storage_contents S1 = zero_range (unat off) (unat k) (storage_contents S)"
      by auto
    have step: "write_zeroes_loop os n S off remaining = (if \<not> NT_SUCCESS status then Some (status, S1)
        else write_zeroes_loop os (n + 1) S1 (off + ucast k) (remaining - ucast k))"
      using False z(1) by (subst write_zeroes_loop.simps) (simp add: Let_def k_def [symmetric] word_gt_0)
    have wide: "same_outside {unat off..<unat off + unat remaining} (storage_contents S) (storage_contents S1)"
      using k by (intro same_outside_mono [OF z(4)]) auto
    show ?thesis
    proof (cases "NT_SUCCESS status")
      case False
      with step z wide show ?thesis by auto
    next
      case True
      from less.hyps [of "remaining - ucast k" S1 "off + ucast k" "n + 1"] less.prems z(2,3) sum rest k
      obtain status' S2 where
        r: "write_zeroes_loop os (n + 1) S1 (off + ucast k) (remaining - ucast k) = Some (status', S2)" "storage_ok S2"
          "storage_capacity S2 = storage_capacity S"
          "same_outside {unat off + unat k..<unat off + unat remaining} (storage_contents S1) (storage_contents S2)"
          "NT_SUCCESS status' \<longrightarrow> storage_contents S2 = zero_range (unat off + unat k) (unat remaining - unat k) (storage_contents S1)"
        by auto
      have "same_outside {unat off..<unat off + unat remaining} (storage_contents S1) (storage_contents S2)"
        by (rule same_outside_mono [OF r(4)]) auto
      with wide have "same_outside {unat off..<unat off + unat remaining} (storage_contents S) (storage_contents S2)"
        by (rule same_outside_trans)
      with True step r z(5) k show ?thesis by (auto simp: zero_range_zero_range)
    qed
  qed
qed

lemma HandleWriteZeroes_answers:
  assumes "io_queue QueueId q c" "ns_table_ok c" "file_os_ok os" "unat (cmd_slba cmd) + unat (cmd_nlb cmd) < 2 ^ 64"
  shows "io_answered QueueId (CID cmd) q (HandleWriteZeroes os QueueId cmd c)"
  unfolding HandleWriteZeroes_def
proof (rule with_blocks_answers [OF assms(1,2,4)], goal_cases)
  case (1 i ns)
  let ?off = "io_off_word cmd ns" and ?len = "io_len_word cmd ns"
  have loop: "\<exists>status S'. (if ns_Storage ns \<noteq> None then write_zeroes_loop os 3 (ns_Storage ns) ?off ?len else Some (STATUS_SUCCESS, None))
      = Some (status, S') \<and> storage_kept (ns_Storage ns) S'"
    using selects_storage [OF 1(1) assms(2)] write_zeroes_loop_law [OF assms(3), of "ns_Storage ns" ?off ?len 3]
      io_bytes [of ns cmd, OF _ 1(2)] by (auto simp: storage_kept_def ns_backed_def)
  then obtain status S' where r: "(if ns_Storage ns \<noteq> None then write_zeroes_loop os 3 (ns_Storage ns) ?off ?len
      else Some (STATUS_SUCCESS, None)) = Some (status, S')" "storage_kept (ns_Storage ns) S'" by blast
  have c': "io_queue QueueId q (set_storage i S' c)" "ns_table_ok (set_storage i S' c)"
    using r(2) by (auto intro!: io_queue_updates assms(1) ns_table_ok_set_storage [OF assms(2) 1(1)] simp: storage_kept_def)
  moreover have "io_answered QueueId cid q (PostIoCompletion QueueId cid sct sc (count_io (set_storage i S' c)))" for cid sct sc
    using c' selects_index [OF 1(1)] by (intro PostIoCompletion_answers io_queue_updates(3) ns_table_ok_count(1)) simp_all
  ultimately show ?case
    unfolding r(1) using PostIoCompletion_answers [OF c'] by (simp add: Let_def)
qed

section \<open>The other commands\<close>

lemma fold_flush:
  assumes "ns_table_ok c" "io_queue QueueId q c" "\<forall>i\<in>set is. i < length (pdo_Namespaces (pdo c))"
  defines "flush \<equiv> \<lambda>i p. if ns_Active (pdo_Namespaces p ! i) \<and> ns_Storage (pdo_Namespaces p ! i) \<noteq> None then count_flush i p else p"
  shows "ns_table_ok (upd_pdo (fold flush is) c) \<and> io_queue QueueId q (upd_pdo (fold flush is) c)"
  using assms(1-3)
proof (induction "is" arbitrary: c)
  case Nil
  then show ?case by (simp add: upd_pdo_def)
next
  case (Cons i rest)
  let ?c = "upd_pdo (flush i) c"
  have cases: "?c = upd_pdo (count_flush i) c \<or> ?c = c"
    by (auto simp: flush_def upd_pdo_def)
  then have "ns_table_ok ?c" "io_queue QueueId q ?c" "length (pdo_Namespaces (pdo ?c)) = length (pdo_Namespaces (pdo c))"
    using Cons.prems ns_table_ok_count(4) [of c i] io_queue_updates(6) [of QueueId q c i]
    by (auto simp: count_flush_def simp del: upd_pdo_simps) (auto simp: count_flush_def)
  with Cons.IH [of ?c] Cons.prems show ?case
    by (simp add: upd_pdo_def)
qed

lemma HandleFlush_answers:
  assumes "io_queue QueueId q c" "ns_table_ok c"
  shows "io_answered QueueId (CID cmd) q (HandleFlush QueueId cmd c)"
proof -
  have wf: "length (pdo_Namespaces (pdo c)) = 16"
    using io_queue_wf [OF assms(1)] by (simp add: pdo_wf_def)
  have flush: "io_answered QueueId cid q (PostIoCompletion QueueId cid sct sc (count_io c'))"
    if "io_queue QueueId q c'" "ns_table_ok c'" for cid sct sc c'
    using that io_queue_wf [OF that(1)]
    by (intro PostIoCompletion_answers io_queue_updates(3) ns_table_ok_count(1) [where i = 0]) (simp_all add: pdo_wf_def)
  show ?thesis
  proof (cases "NSID cmd = 0xFFFFFFFF")
    case True
    then show ?thesis
      using wf fold_flush [OF assms(2,1), of "[0..<16]"] by (simp add: HandleFlush_def Let_def flush)
  next
    case False
    have "io_answered QueueId (CID cmd) q (with_namespace QueueId cmd c (\<lambda>i ns. PostIoCompletion QueueId (CID cmd) 0 0
        (count_io (upd_pdo (count_flush i) c))))"
      using io_queue_updates(6) [OF assms(1)] ns_table_ok_count(4) [OF assms(2)]
      by (intro with_namespace_answers flush assms) (auto simp: selects_def)
    with False show ?thesis by (simp add: HandleFlush_def)
  qed
qed

lemma ucast_u32_le: "unat (ucast (x :: u64) :: u32) \<le> unat x"
  by (simp add: unsigned_ucast_eq unsigned_take_bit_eq)

lemma dsm_loop_returns:
  assumes "file_os_ok os" "\<forall>r\<in>set rs. unat (dsm_StartingLBA r) + unat (dsm_LengthInLogicalBlocks r) < 2 ^ 64"
    and "S = None \<or> storage_ok S \<and> unat (ns_TotalBlocks ns) * unat (ns_BlockSize ns) \<le> storage_capacity S"
  shows "\<exists>S'. dsm_loop os ns n rs S = Some S' \<and> storage_kept S S'"
  using assms(2,3)
proof (induction rs arbitrary: n S)
  case Nil
  then show ?case by (simp add: storage_kept_def)
next
  case (Cons r rs)
  let ?slba = "dsm_StartingLBA r" and ?nlb = "dsm_LengthInLogicalBlocks r"
  let ?len = "ucast (ucast ?nlb * ucast (ns_BlockSize ns) :: u64) :: u32"
  show ?case
  proof (cases "?nlb = 0 \<or> ?slba + ucast ?nlb > ns_TotalBlocks ns \<or> S = None")
    case True
    with Cons show ?thesis by (auto simp: Let_def)
  next
    case False
    have "unat (?slba + ucast ?nlb) = unat ?slba + unat ?nlb"
      using Cons.prems(1) by (simp add: unat_word_ariths)
    with False have "(unat ?slba + unat ?nlb) * unat (ns_BlockSize ns) \<le> unat (ns_TotalBlocks ns) * unat (ns_BlockSize ns)"
      by (intro mult_le_mono1) (simp add: word_less_nat_alt not_less)
    with Cons.prems(2) False have cap: "unat ?slba * unat (ns_BlockSize ns) + unat ?nlb * unat (ns_BlockSize ns) \<le> storage_capacity S"
      by (auto simp: add_mult_distrib)
    have off: "unat (?slba * ucast (ns_BlockSize ns)) = unat ?slba * unat (ns_BlockSize ns)"
      using cap storage_capacity_bound [of S] by (simp add: unat_word_ariths)
    have "unat (ucast ?nlb * ucast (ns_BlockSize ns) :: u64) = unat ?nlb * unat (ns_BlockSize ns)"
      using cap storage_capacity_bound [of S] by (simp add: unat_word_ariths)
    then have "unat ?len \<le> unat ?nlb * unat (ns_BlockSize ns)"
      using ucast_u32_le [of "ucast ?nlb * ucast (ns_BlockSize ns)"] by simp
    with off cap have fit: "unat (?slba * ucast (ns_BlockSize ns)) + unat ?len \<le> storage_capacity S" by simp
    from storage.clear_law [of os S _ ?len n, OF _ fit] assms(1) Cons.prems(2) False obtain status S1 where
      z: "VnvmeStorageWriteZeroes os n S (?slba * ucast (ns_BlockSize ns)) ?len = Some (status, S1)" "storage_ok S1"
        "storage_capacity S1 = storage_capacity S" by auto
    from Cons.IH [of S1 "n + 1"] Cons.prems z(2,3) False obtain S' where
      "dsm_loop os ns (n + 1) rs S1 = Some S'" "storage_kept S1 S'" by auto
    with False z show ?thesis by (auto simp: Let_def storage_kept_def)
  qed
qed

text \<open>The range list of a Dataset Management command holds no range that wraps.\<close>

definition dsm_no_wrap :: "NVME_COMMAND \<Rightarrow> vnvme_ctx \<Rightarrow> bool" where
  "dsm_no_wrap cmd c \<longleftrightarrow> (\<forall>k<256. unat (rd64 (host c) (unat (PRP1 cmd) + 16 * k + 8))
     + unat (rd32 (host c) (unat (PRP1 cmd) + 16 * k + 4)) < 2 ^ 64)"

lemma HandleDatasetManagement_answers:
  assumes "io_queue QueueId q c" "ns_table_ok c" "file_os_ok os" "dsm_no_wrap cmd c"
  shows "io_answered QueueId (CID cmd) q (HandleDatasetManagement os QueueId cmd c)"
  unfolding HandleDatasetManagement_def
proof (rule with_namespace_answers [OF assms(1,2)], goal_cases)
  case (1 i ns)
  define nr where "nr = (let n = (CDW10 cmd AND 0xFF) + 1 in if n > 256 then 256 else n)"
  have "unat nr \<le> 256" by (auto simp: nr_def Let_def word_less_nat_alt)
  define ranges where "ranges = map (\<lambda>k. rd_NVME_DSM_RANGE (host c) (unat (PRP1 cmd) + 16 * k)) [0..<unat nr]"
  have "\<forall>r\<in>set ranges. unat (dsm_StartingLBA r) + unat (dsm_LengthInLogicalBlocks r) < 2 ^ 64"
    using assms(4) \<open>unat nr \<le> 256\<close> by (auto simp: ranges_def rd_NVME_DSM_RANGE_def dsm_no_wrap_def)
  from dsm_loop_returns [OF assms(3) this, of "ns_Storage ns" ns 3] selects_storage [OF 1 assms(2)] obtain S' where
    S': "dsm_loop os ns 3 ranges (ns_Storage ns) = Some S'" "storage_kept (ns_Storage ns) S'"
    by (auto simp: ns_backed_def)
  have c': "io_queue QueueId q (set_storage i S' c)" "ns_table_ok (set_storage i S' c)"
    using S'(2) by (auto intro!: io_queue_updates assms(1) ns_table_ok_set_storage [OF assms(2) 1] simp: storage_kept_def)
  have count: "io_answered QueueId cid q (PostIoCompletion QueueId cid sct sc (count_io c'))"
    if "c' = c \<or> c' = set_storage i S' c" for cid sct sc c'
    using that c' assms(1,2) selects_index [OF 1]
    by (auto intro!: PostIoCompletion_answers io_queue_updates(3) ns_table_ok_count(1))
  show ?case
    using S'(1) count unfolding Let_def nr_def [unfolded Let_def, symmetric] ranges_def [symmetric] by simp
qed

lemma HandleCompare_answers:
  assumes "io_queue QueueId q c" "ns_table_ok c" "file_os_ok os" "unat (cmd_slba cmd) + unat (cmd_nlb cmd) < 2 ^ 64"
  shows "io_answered QueueId (CID cmd) q (HandleCompare os QueueId cmd c)"
  unfolding HandleCompare_def
proof (rule with_blocks_answers [OF assms(1,2,4)], goal_cases)
  case (1 i ns)
  let ?off = "io_off_word cmd ns" and ?len = "io_len_word cmd ns"
  note post = PostIoCompletion_answers [OF assms(1,2)]
  show ?case
  proof (cases "?len > 2 * 1024 * 1024 \<or> \<not> os_alloc os 0 (unat ?len) \<or> \<not> os_alloc os 1 (unat ?len)")
    case True
    with post show ?thesis by auto
  next
    case False
    then have small: "io_length cmd ns \<le> 2 * 1024 * 1024"
      using io_len_word_nat [of cmd ns] by (simp add: word_less_nat_alt)
    then have len: "unat (ucast ?len :: u32) = unat ?len"
      using io_len_word_nat [of cmd ns] by (simp add: unsigned_ucast_eq unsigned_take_bit_eq take_bit_nat_eq_self)
    obtain status es where p: "VnvmeParsePrpList (os_alloc os 2) (os_map os 0) (host c) (PRP1 cmd) (PRP2 cmd) (ucast ?len) = Some (status, es)"
      using parse_limit [OF small] by blast
    obtain buf where b: "host_to_buffer (\<lambda>j. os_map os (j + 1)) (host c) 0 (unat ?len) ?len es 0 0 (\<lambda>_. 0) = Some buf"
      using host_to_buffer_returns [of 0 ?len "unat ?len" "\<lambda>j. os_map os (j + 1)" "host c" es 0 0 "\<lambda>_. 0"] by auto
    have "\<exists>rstatus m S'. compare_storage os (ns_Storage ns) ?off ?len = Some (rstatus, m, S') \<and> storage_kept (ns_Storage ns) S'"
      using selects_storage [OF 1(1) assms(2)] storage.get_law [of os "ns_Storage ns" ?off "ucast ?len"] len
        io_bytes [of ns cmd, OF _ 1(2)] assms(3)
      by (auto simp: compare_storage_def storage_kept_def ns_backed_def)
    then obtain rstatus m S' where g: "compare_storage os (ns_Storage ns) ?off ?len = Some (rstatus, m, S')"
      "storage_kept (ns_Storage ns) S'" by blast
    have c': "io_queue QueueId q (set_storage i S' c)" "ns_table_ok (set_storage i S' c)"
      using g(2) by (auto intro!: io_queue_updates assms(1) ns_table_ok_set_storage [OF assms(2) 1(1)] simp: storage_kept_def)
    have "io_answered QueueId cid q (PostIoCompletion QueueId cid sct sc (count_io (set_storage i S' c)))" for cid sct sc
      using c' selects_index [OF 1(1)] by (intro PostIoCompletion_answers io_queue_updates(3) ns_table_ok_count(1)) simp_all
    with False p b g(1) post PostIoCompletion_answers [OF c'] show ?thesis by (auto simp: Let_def)
  qed
qed

text \<open>C2: every I/O command is answered, with exactly one completion. While the queue's completion queue, at descriptor \<open>d\<close> with phase \<open>ph\<close>, accepts
  entries and every active namespace's storage holds its blocks, any command that moves at most 2 MiB and whose block ranges
  do not wrap past \<open>2 ^ 64\<close> returns \<open>STATUS_SUCCESS\<close>, whatever the system answers to allocations, mappings and file
  accesses. The entry at the old tail then carries the identifier of this command, its queue, a status and the phase of the queue; the tail has
  moved by one; no other byte of the shared memory but the tail, phase and statistics changed; and the queue and the namespaces
  can take the next command. A command with an unknown opcode gets Invalid Opcode.\<close>

theorem VnvmeProcessIoCommand_answers:
  assumes "VNVME_IO_QUEUE_ID_VALID QueueId" "cq_at QueueId c m d ph" "ns_table_ok c" "file_os_ok os"
    and "unat (cmd_slba cmd) + unat (cmd_nlb cmd) < 2 ^ 64" "dsm_no_wrap cmd c"
    and "\<forall>ns\<in>set (pdo_Namespaces (pdo c)). io_length cmd ns \<le> 2 * 1024 * 1024"
  shows "\<exists>c' sct sc. VnvmeProcessIoCommand os QueueId cmd c = Some (STATUS_SUCCESS, c')
    \<and> completed_once QueueId (CID cmd) sct sc (m, d, ph) c' \<and> ns_table_ok c'
    \<and> (OPC cmd \<notin> {0x00, 0x01, 0x02, 0x05, 0x08, 0x09} \<longrightarrow> sct = NVME_SCT_GENERIC \<and> sc = NVME_SC_INVALID_OPCODE)"
proof (cases "OPC cmd \<in> {0x00, 0x01, 0x02, 0x05, 0x08, 0x09}")
  case True
  have q: "io_queue QueueId (m, d, ph) c" using assms(1,2) by (simp add: io_queue_def)
  have "io_length cmd ns \<le> 2 * 1024 * 1024" if "selects cmd c i ns" for i ns
    using assms(7) that by (auto simp: selects_def)
  then have "io_answered QueueId (CID cmd) (m, d, ph) (VnvmeProcessIoCommand os QueueId cmd c)"
    using True HandleRead_answers [OF q assms(3-5)] HandleWrite_answers [OF q assms(3-5)] HandleFlush_answers [OF q assms(3)]
      HandleWriteZeroes_answers [OF q assms(3-5)] HandleDatasetManagement_answers [OF q assms(3,4,6)]
      HandleCompare_answers [OF q assms(3-5)]
    by (auto simp: VnvmeProcessIoCommand_def)
  with True show ?thesis by (auto simp: io_answered_def)
next
  case False
  have q: "io_queue QueueId (m, d, ph) c" using assms(1,2) by (simp add: io_queue_def)
  from PostIoCompletion_completes [OF this assms(3), of "CID cmd" NVME_SCT_GENERIC NVME_SC_INVALID_OPCODE] False
  show ?thesis by (auto simp: VnvmeProcessIoCommand_def)
qed

text \<open>The property at a Read of one block of the example namespace.\<close>

lemma example_table_ok: "ns_table_ok example_io_ctx"
proof -
  have "set (pdo_Namespaces (pdo example_io_ctx)) \<subseteq> {example_ns, zero_NAMESPACE}"
    by (auto simp: example_io_ctx_def example_io_pdo_def set_update_subset_insert
        dest!: subsetD [OF set_update_subset_insert])
  moreover have "ns_backed example_ns" "\<not> ns_Active zero_NAMESPACE"
    by (simp_all add: ns_backed_def example_ns_def storage_ok_def storage_capacity_def zero_NAMESPACE_def)
  ultimately show ?thesis by (auto simp: ns_table_ok_def)
qed

theorem VnvmeProcessIoCommand_answers_witness:
  "\<exists>c'. VnvmeProcessIoCommand os_all_ok 1 ((example_io_cmd 0x300000)\<lparr>OPC := 0x02\<rparr>) example_io_ctx = Some (STATUS_SUCCESS, c')
    \<and> (\<exists>q sct sc. completed_once 1 (CID (example_io_cmd 0x300000)) sct sc q c')"
proof -
  let ?cmd = "(example_io_cmd 0x300000)\<lparr>OPC := 0x02\<rparr>"
  obtain m d ph where queue: "VNVME_IO_QUEUE_ID_VALID 1" "cq_at 1 example_io_ctx m d ph"
    using example_io_ready by (auto simp: io_cq_ready_def)
  have cmd: "unat (cmd_slba ?cmd) + unat (cmd_nlb ?cmd) < 2 ^ 64" "unat (cmd_nlb ?cmd) = 1"
    by (simp_all add: cmd_slba_def cmd_nlb_def example_io_cmd_def zero_COMMAND_def)
  have zero: "host example_io_ctx x = 0" if "0x300000 \<le> x" for x
    using that by (simp add: example_io_ctx_def wr8_def)
  have "dsm_no_wrap ?cmd example_io_ctx"
    unfolding dsm_no_wrap_def
    by (simp add: example_io_cmd_def rd64_def rd32_def rd16_def zero)
  moreover have "set (pdo_Namespaces (pdo example_io_ctx)) \<subseteq> {example_ns, zero_NAMESPACE}"
    by (auto simp: example_io_ctx_def example_io_pdo_def dest!: subsetD [OF set_update_subset_insert])
  then have "\<forall>ns\<in>set (pdo_Namespaces (pdo example_io_ctx)). io_length ?cmd ns \<le> 2 * 1024 * 1024"
    using cmd(2) by (auto simp: io_length_def example_ns_def zero_NAMESPACE_def)
  ultimately obtain c' sct sc where "VnvmeProcessIoCommand os_all_ok 1 ?cmd example_io_ctx = Some (STATUS_SUCCESS, c')"
    "completed_once 1 (CID ?cmd) sct sc (m, d, ph) c'"
    using VnvmeProcessIoCommand_answers [OF queue example_table_ok file_os_ok_all_ok cmd(1)] by blast
  moreover have "CID ?cmd = CID (example_io_cmd 0x300000)" by simp
  ultimately show ?thesis by metis
qed

section \<open>Zeroing, and data that is not moved\<close>

text \<open>When no service of the system fails and the store is not write protected, zeroing succeeds on every back end.\<close>

lemma StorageFileWrite_succeeds:
  assumes "os_succeeds os" "st_FileHandle s" "\<not> st_ReadOnly s" "unat off + unat len \<le> unat (st_TotalBytes s)" "unat len \<le> length bs"
  shows "\<exists>status s'. StorageFileWrite os s off bs len = Some (status, s') \<and> NT_SUCCESS status
    \<and> st_FileHandle s' \<and> \<not> st_ReadOnly s' \<and> st_TotalBytes s' = st_TotalBytes s"
proof -
  obtain status f where w: "os_ZwWriteFile os (st_FileData s) off (take (unat len) bs) = (status, f)" by fastforce
  moreover have "NT_SUCCESS status" using assms(1) w unfolding os_succeeds_def by (metis fst_conv)
  ultimately show ?thesis
    using assms range_test_passes [OF assms(4)] by (simp add: StorageFileWrite_def Let_def)
qed

lemma zero_chunks_succeeds:
  assumes "os_succeeds os" "st_FileHandle s" "\<not> st_ReadOnly s" "unat off + unat len \<le> unat (st_TotalBytes s)" "NT_SUCCESS status"
  shows "\<exists>status' s'. zero_chunks (StorageFileWrite os) status s off len = Some (status', s') \<and> NT_SUCCESS status' \<and> \<not> st_ReadOnly s'"
  using assms
proof (induction "unat len" arbitrary: status s off len rule: less_induct)
  case less
  show ?case
  proof (cases "len > 0")
    case False
    with less.prems show ?thesis by (subst zero_chunks.simps) simp
  next
    case True
    define n where "n = (if len > 65536 then 65536 else len)"
    have n: "unat n \<le> 65536" "unat n \<le> unat len" "0 < unat n"
      using True by (auto simp: n_def word_less_nat_alt not_less)
    have sum: "unat (off + ucast n) = unat off + unat n"
      using less.prems(4) n unat_u64_bound [of "st_TotalBytes s"] by (simp add: unat_word_ariths)
    have rest: "unat (len - n) = unat len - unat n"
      using n by (simp add: unat_sub_if')
    from StorageFileWrite_succeeds [OF less.prems(1-3), of off n "replicate 65536 0"] less.prems(4) n
    obtain status' s' where w: "StorageFileWrite os s off (replicate 65536 0) n = Some (status', s')" "NT_SUCCESS status'"
      "st_FileHandle s'" "\<not> st_ReadOnly s'" "st_TotalBytes s' = st_TotalBytes s"
      by auto
    have "zero_chunks (StorageFileWrite os) status s off len = zero_chunks (StorageFileWrite os) status' s' (off + ucast n) (len - n)"
      using True less.prems(5) w(1) by (subst zero_chunks.simps) (simp add: Let_def n_def [symmetric])
    moreover from less.hyps [of "len - n" s' "off + ucast n" status'] less.prems(1,4) w sum rest n
    have "\<exists>status'' s''. zero_chunks (StorageFileWrite os) status' s' (off + ucast n) (len - n) = Some (status'', s'')
        \<and> NT_SUCCESS status'' \<and> \<not> st_ReadOnly s''"
      by auto
    ultimately show ?thesis by simp
  qed
qed

lemma VnvmeStorageWriteZeroes_succeeds:
  assumes "os_succeeds os" "storage_ok S" "storage_writable S" "unat off + unat len \<le> storage_capacity S"
  shows "\<exists>status S'. VnvmeStorageWriteZeroes os n S off len = Some (status, S') \<and> NT_SUCCESS status \<and> storage_writable S'"
  using assms(2)
proof (cases rule: storage_cases)
  case (memory s m)
  with assms range_test_passes [of off len "st_TotalBytes s"] show ?thesis
    by (auto simp: storage_defs StorageMemoryWriteZeroes_def storage_writable_def)
next
  case (plain s)
  with assms zero_chunks_succeeds [of os s off len STATUS_SUCCESS] show ?thesis
    by (auto simp: storage_defs storage_writable_def os_succeeds_def)
next
  case (sparse s)
  obtain status f where z: "os_ZwSetZeroData os (st_FileData s) off (off + ucast len) = (status, f)" by fastforce
  with sparse assms range_test_passes [of off len "st_TotalBytes s"]
    zero_chunks_succeeds [of os "s\<lparr>st_FileData := f\<rparr>" off len STATUS_SUCCESS] show ?thesis
    by (auto simp: storage_defs StorageSparseWriteZeroes_def storage_writable_def os_succeeds_def sparse_is_file Let_def)
qed

lemma write_zeroes_loop_succeeds:
  assumes "os_succeeds os" "storage_ok S" "storage_writable S" "unat off + unat remaining \<le> storage_capacity S"
    and "write_zeroes_loop os n S off remaining = Some (status, S')"
  shows "NT_SUCCESS status"
  using assms
proof (induction "unat remaining" arbitrary: n S off remaining rule: less_induct)
  case less
  show ?case
  proof (cases "remaining = 0")
    case True
    with less.prems(5) show ?thesis by (subst (asm) write_zeroes_loop.simps) auto
  next
    case False
    define k where "k = (if remaining > 1048576 then 1048576 else ucast remaining :: u32)"
    have "0 < unat remaining" using False by (simp add: unat_gt_0)
    then have k: "unat k \<le> unat remaining" "0 < unat k"
      using write_zeroes_chunk [of remaining] by (auto simp: k_def word_less_nat_alt)
    have sum: "unat (off + ucast k) = unat off + unat k"
      using less.prems(4) k storage_capacity_bound [of S] by (simp add: unat_word_ariths)
    have rest: "unat (remaining - ucast k) = unat remaining - unat k"
      using k by (simp add: unat_sub_if')
    have fit: "unat off + unat k \<le> storage_capacity S" using less.prems(4) k by simp
    have "file_os_ok os" using less.prems(1) by (simp add: os_succeeds_def)
    with storage.clear_law [of os S off k n] VnvmeStorageWriteZeroes_succeeds [OF less.prems(1-3) fit, of n] less.prems(2) fit
    obtain status1 S1 where z: "VnvmeStorageWriteZeroes os n S off k = Some (status1, S1)" "NT_SUCCESS status1"
      "storage_ok S1" "storage_writable S1" "storage_capacity S1 = storage_capacity S"
      by auto
    have "write_zeroes_loop os (n + 1) S1 (off + ucast k) (remaining - ucast k) = Some (status, S')"
      using less.prems(5) False z(1,2) by (subst (asm) write_zeroes_loop.simps) (simp add: Let_def k_def [symmetric] word_gt_0)
    with less.hyps [of "remaining - ucast k" S1 "off + ucast k" "n + 1"] less.prems(1,4) z(3-5) sum rest k show ?thesis
      by auto
  qed
qed

text \<open>C21: Write Zeroes clears. For blocks inside an active namespace with a consistent store on any back end, and a ready completion
  queue, Write Zeroes returns and posts one completion: success only if the addressed blocks hold nothing but zeroes afterwards,
  Write Fault otherwise. It succeeds whenever no service of the system fails and the store is writable. It never
  changes a byte of the store outside the addressed blocks or another namespace. The number of blocks is the one the code
  computes, a 16-bit sum, so that 65536 blocks count as none; and the code does not look at the read-only flag of the namespace.\<close>

theorem HandleWriteZeroes_clears:
  assumes "io_cq_ready QueueId c" "file_os_ok os" "selects cmd c i ns" "ns_backed ns" "blocks_inside cmd ns"
  shows "\<exists>c' S' success. HandleWriteZeroes os QueueId cmd c = Some (STATUS_SUCCESS, c')
    \<and> io_posted QueueId (CID cmd) (if success then NVME_SCT_GENERIC else NVME_SCT_MEDIA_ERROR)
        (if success then NVME_SC_SUCCESS else NVME_SC_WRITE_FAULT)
        (if success then count_io (set_storage i S' c) else set_storage i S' c) c'
    \<and> pdo_Namespaces (pdo c') = (pdo_Namespaces (pdo c))[i := ns\<lparr>ns_Storage := S'\<rparr>]
    \<and> same_outside {io_offset cmd ns..<io_offset cmd ns + io_length cmd ns}
        (storage_contents (ns_Storage ns)) (storage_contents S')
    \<and> (success \<longrightarrow> storage_contents S'
        = zero_range (io_offset cmd ns) (io_length cmd ns) (storage_contents (ns_Storage ns)))
    \<and> (os_succeeds os \<and> storage_writable (ns_Storage ns) \<longrightarrow> success)"
proof -
  let ?off = "io_off_word cmd ns" and ?len = "io_len_word cmd ns"
  note bytes = io_bytes [OF assms(4,5)]
  have ok: "storage_ok (ns_Storage ns)" "ns_Storage ns \<noteq> None"
    using assms(4) by (cases "ns_Storage ns"; simp add: ns_backed_def)+
  obtain status S' where z: "write_zeroes_loop os 3 (ns_Storage ns) ?off ?len = Some (status, S')"
    "same_outside {io_offset cmd ns..<io_offset cmd ns + io_length cmd ns} (storage_contents (ns_Storage ns)) (storage_contents S')"
    "NT_SUCCESS status \<longrightarrow> storage_contents S' = zero_range (io_offset cmd ns) (io_length cmd ns) (storage_contents (ns_Storage ns))"
    using write_zeroes_loop_law [OF assms(2) ok(1), of ?off ?len 3] bytes by auto
  have good: "os_succeeds os \<and> storage_writable (ns_Storage ns) \<longrightarrow> NT_SUCCESS status"
    using write_zeroes_loop_succeeds [OF _ ok(1) _ _ z(1)] bytes by auto
  define c1 where "c1 = (if NT_SUCCESS status then count_io (set_storage i S' c) else set_storage i S' c)"
  have run: "HandleWriteZeroes os QueueId cmd c = PostIoCompletion QueueId (CID cmd)
      (if NT_SUCCESS status then NVME_SCT_GENERIC else NVME_SCT_MEDIA_ERROR)
      (if NT_SUCCESS status then NVME_SC_SUCCESS else NVME_SC_WRITE_FAULT) c1"
    using z(1) ok(2) by (simp add: HandleWriteZeroes_def with_blocks_run [OF assms(3,5)] c1_def Let_def)
  have "io_cq_ready QueueId c1"
    unfolding c1_def using io_cq_ready_updates assms(1) by simp
  from PostIoCompletion_posts [OF this] obtain c' where
    c': "HandleWriteZeroes os QueueId cmd c = Some (STATUS_SUCCESS, c')"
      "io_posted QueueId (CID cmd) (if NT_SUCCESS status then NVME_SCT_GENERIC else NVME_SCT_MEDIA_ERROR)
        (if NT_SUCCESS status then NVME_SC_SUCCESS else NVME_SC_WRITE_FAULT) c1 c'"
    unfolding run by blast
  have "pdo_Namespaces (pdo c1) = (pdo_Namespaces (pdo c))[i := ns\<lparr>ns_Storage := S'\<rparr>]"
    using assms(3) by (auto simp: c1_def set_storage_def count_io_def upd_Namespace_def selects_def)
  with io_posted_keeps(2) [OF c'(2)] c' z(2,3) good show ?thesis unfolding c1_def by metis
qed

text \<open>The property at one block of the example namespace.\<close>

lemma example_selects: "selects (example_io_cmd 0x200000) example_io_ctx 0 example_ns" "ns_backed example_ns"
    "blocks_inside (example_io_cmd 0x200000) example_ns"
  using example_transfer [of "0x200000"] by (simp_all add: transfer_def)

theorem HandleWriteZeroes_clears_witness:
  "\<exists>c' S'. HandleWriteZeroes os_all_ok 1 (example_io_cmd 0x200000) example_io_ctx = Some (STATUS_SUCCESS, c')
    \<and> io_posted 1 0 NVME_SCT_GENERIC NVME_SC_SUCCESS (count_io (set_storage 0 S' example_io_ctx)) c'"
proof -
  have "CID (example_io_cmd 0x200000) = 0" by (simp add: example_io_cmd_def zero_COMMAND_def)
  moreover have "storage_writable (ns_Storage example_ns)"
    by (simp add: storage_writable_def example_ns_def zero_STORAGE_CONTEXT_def)
  moreover from HandleWriteZeroes_clears [OF example_io_ready file_os_ok_all_ok example_selects]
  obtain c' S' success where "HandleWriteZeroes os_all_ok 1 (example_io_cmd 0x200000) example_io_ctx = Some (STATUS_SUCCESS, c')"
    "io_posted 1 (CID (example_io_cmd 0x200000)) (if success then NVME_SCT_GENERIC else NVME_SCT_MEDIA_ERROR)
        (if success then NVME_SC_SUCCESS else NVME_SC_WRITE_FAULT)
        (if success then count_io (set_storage 0 S' example_io_ctx) else set_storage 0 S' example_io_ctx) c'"
    "os_succeeds os_all_ok \<and> storage_writable (ns_Storage example_ns) \<longrightarrow> success"
    by blast
  ultimately have "io_posted 1 0 NVME_SCT_GENERIC NVME_SC_SUCCESS (count_io (set_storage 0 S' example_io_ctx)) c'" "success"
    using os_succeeds_all_ok by simp_all
  with \<open>HandleWriteZeroes os_all_ok 1 (example_io_cmd 0x200000) example_io_ctx = Some (STATUS_SUCCESS, c')\<close>
  show ?thesis by blast
qed

text \<open>A page that cannot be mapped. When the first of the two pages of a Read from a memory store cannot be mapped,
  the command still completes with success: the second page receives the data of the first, the data of
  the second is lost, and the first page keeps its old contents.\<close>

theorem HandleRead_unmapped_page:
  assumes "io_cq_ready QueueId c" "file_os_ok os" "transfer os cmd c i ns [e1, e2]" "ns_Storage ns = Some s"
    and "st_Type s = VNVME_STORAGE_TYPE_MEMORY" "prp_Length e1 = 4096" "prp_Length e2 = 4096"
    and "\<not> os_map os 1 (prp_phys e1) 4096" "os_map os 2 (prp_phys e2) 4096"
  shows "\<exists>c1 c'. HandleRead os QueueId cmd c = Some (STATUS_SUCCESS, c')
    \<and> io_posted QueueId (CID cmd) NVME_SCT_GENERIC NVME_SC_SUCCESS c1 c'
    \<and> rd_bytes (host c') (unat (prp_phys e2)) 4096 = rd_bytes (storage_contents (ns_Storage ns)) (io_offset cmd ns) 4096
    \<and> same_outside (prp_range e2) (host c) (host c')"
proof -
  let ?off = "io_off_word cmd ns" and ?len = "io_len_word cmd ns"
  note t = assms(3) [unfolded transfer_def]
  have b: "selects cmd c i ns" "ns_backed ns" "blocks_inside cmd ns" and len: "io_length cmd ns = 8192"
    and ok: "storage_ok (Some s)"
    using t assms(4,6,7) by (simp_all add: ns_backed_def)
  note bytes = io_bytes [OF b(2,3)]
  have fit: "unat ?off + unat ?len \<le> storage_capacity (Some s)" "unat ?len < 2 ^ 32" and u: "unat ?len = 8192"
    using bytes len assms(4) by simp_all
  have small: "0 < ?len" "\<not> ?len < 4096"
    using u by (simp_all add: word_less_nat_alt)
  obtain m where m: "st_MemoryBuffer s = Some m" "st_MemorySize s = st_TotalBytes s" "storage_contents (Some s) = m"
    using ok assms(5) by (auto simp: storage_ok_def storage_contents_def)
  have size1: "prp_mapSize ?len 0 e1 = 4096" "prp_mapSize ?len 0 e2 = 4096"
    using small(2) assms(6,7) by (simp_all add: prp_mapSize_def)
  have map2: "os_map os (Suc (Suc 0)) (prp_phys e2) 4096"
    using assms(9) by (simp only: numeral_2_eq_2)
  define h where "h = wr_bytes (unat (prp_phys e2)) (rd_bytes m (unat ?off) 4096) (host c)"
  have copy: "buffer_to_host (\<lambda>j. os_map os (j + 1)) m (unat ?off) (unat (st_TotalBytes s)) ?len [e1, e2] 0 0 (host c) = Some h"
    using small(1) size1 assms(8) map2 fit(1) u by (simp add: check_bind h_def storage_capacity_def Let_def)
  have src: "read_source os (ns_Storage ns) ?off ?len = Some (Inr (m, unat ?off, unat (st_TotalBytes s)), ns_Storage ns)"
    using io_direct_cases [OF ok fit] m assms(4,5) by (simp add: read_source_def)
  let ?c = "count_read i ?len ((set_storage i (ns_Storage ns) c)\<lparr>host := h\<rparr>)"
  have run: "HandleRead os QueueId cmd c = PostIoCompletion QueueId (CID cmd) NVME_SCT_GENERIC NVME_SC_SUCCESS ?c"
    using src copy t by (simp add: HandleRead_def with_blocks_run [OF b(1,3)] Let_def)
  have "io_cq_ready QueueId ?c"
    by (intro io_cq_ready_updates assms(1))
  from PostIoCompletion_posts [OF this] obtain c' where
    c': "HandleRead os QueueId cmd c = Some (STATUS_SUCCESS, c')" "io_posted QueueId (CID cmd) NVME_SCT_GENERIC NVME_SC_SUCCESS ?c c'"
    unfolding run by blast
  have "host c' = h"
    using io_posted_keeps(1) [OF c'(2)] by simp
  moreover have "rd_bytes h (unat (prp_phys e2)) 4096 = rd_bytes m (unat ?off) 4096"
    unfolding h_def using rd_bytes_wr_bytes [of "unat (prp_phys e2)" "rd_bytes m (unat ?off) 4096" "host c"] by simp
  moreover have "same_outside (prp_range e2) (host c) h"
    unfolding h_def using assms(7) by (intro same_outside_wr_bytes) (simp add: prp_range_def)
  ultimately show ?thesis
    using c' m(3) assms(4) bytes(1) by auto
qed

text \<open>A namespace of 16 blocks whose first byte is 1, a Read of all of it into two pages, and a system that
  cannot map the first.\<close>

definition example_ns16 :: VNVME_NAMESPACE where
  "example_ns16 = example_ns\<lparr>ns_TotalBlocks := 16,
     ns_Storage := Some (zero_STORAGE_CONTEXT\<lparr>st_Type := VNVME_STORAGE_TYPE_MEMORY, st_TotalBytes := 8192,
       st_MemoryBuffer := Some (wr8 0 1 (\<lambda>_. 0)), st_MemorySize := 8192\<rparr>)\<rparr>"

definition example_ctx16 :: vnvme_ctx where
  "example_ctx16 = upd_pdo (upd_Namespace 0 (\<lambda>_. example_ns16)) example_io_ctx"

definition example_cmd16 :: NVME_COMMAND where
  "example_cmd16 = zero_COMMAND\<lparr>NSID := 1, CDW12 := 15, PRP1 := 0x200000, PRP2 := 0x300000\<rparr>"

definition example_os_unmapped :: os_env where
  "example_os_unmapped = os_all_ok\<lparr>os_map := \<lambda>n _ _. n \<noteq> 1\<rparr>"

definition example_page :: "u64 \<Rightarrow> VNVME_PRP_ENTRY" where
  "example_page a = \<lparr>prp_PhysicalAddress = a, prp_Offset = 0, prp_Length = 4096\<rparr>"

lemma example_ready16: "io_cq_ready 1 example_ctx16"
  using io_cq_ready_wf [OF example_io_ready]
  by (intro io_cq_ready_cong [OF example_io_ready])
    (simp_all add: example_ctx16_def upd_Namespace_def pdo_wf_def VnvmeShmGetIoQueueDescriptors_def)

lemma example_transfer16:
  "transfer example_os_unmapped example_cmd16 example_ctx16 0 example_ns16 [example_page 0x200000, example_page 0x300000]"
proof -
  have "cmd_slba example_cmd16 = 0" "cmd_nlb example_cmd16 = 16"
    by (simp_all add: example_cmd16_def cmd_slba_def cmd_nlb_def zero_COMMAND_def)
  moreover have "selects example_cmd16 example_ctx16 0 example_ns16"
    by (simp add: selects_def example_cmd16_def VNVME_NSID_VALID_def VNVME_NSID_TO_INDEX_def example_ctx16_def example_io_ctx_def
        example_io_pdo_def upd_Namespace_def zero_PDO_CONTEXT_def) (simp add: example_ns16_def example_ns_def)
  moreover have "ns_backed example_ns16" "ns_BlockSize example_ns16 = 512" "ns_TotalBlocks example_ns16 = 16"
    by (simp_all add: ns_backed_def example_ns16_def example_ns_def storage_ok_def storage_capacity_def)
  moreover have "VnvmeParsePrpList (os_alloc example_os_unmapped 2) (os_map example_os_unmapped 0) (host example_ctx16)
      (PRP1 example_cmd16) (PRP2 example_cmd16) 8192 = Some (STATUS_SUCCESS, [example_page 0x200000, example_page 0x300000])"
  proof -
    have p: "page_offset 0x200000 = 0" "page_offset 0x300000 = 0" by (simp_all add: page_offset_def)
    then have "page_base 0x200000 = 0x200000" "page_base 0x300000 = 0x300000"
      by (simp_all only: page_base_of_aligned)
    with p show ?thesis
      by (simp add: VnvmeParsePrpList_def VnvmeIsValidPhysicalAddress_def prp_numPages_def example_os_unmapped_def os_all_ok_def
          example_cmd16_def example_page_def Let_def)
  qed
  ultimately show ?thesis
    by (simp add: transfer_def blocks_inside_def io_length_def VNVME_BLOCKS_TO_BYTES_def example_page_def)
qed

theorem HandleRead_unmapped_page_witness:
  "\<exists>c'. HandleRead example_os_unmapped 1 example_cmd16 example_ctx16 = Some (STATUS_SUCCESS, c')
    \<and> rd_bytes (host c') 0x300000 4096 = rd_bytes (storage_contents (ns_Storage example_ns16)) (io_offset example_cmd16 example_ns16) 4096"
proof -
  obtain s where s: "ns_Storage example_ns16 = Some s" "st_Type s = VNVME_STORAGE_TYPE_MEMORY"
    by (simp add: example_ns16_def)
  have p: "prp_Length (example_page 0x200000) = 4096" "prp_Length (example_page 0x300000) = 4096"
    "unat (prp_phys (example_page 0x300000)) = 0x300000"
    by (simp_all add: example_page_def prp_phys_def)
  have os: "file_os_ok example_os_unmapped" "\<not> os_map example_os_unmapped 1 (prp_phys (example_page 0x200000)) 4096"
    "os_map example_os_unmapped 2 (prp_phys (example_page 0x300000)) 4096"
    using file_os_ok_all_ok by (simp_all add: example_os_unmapped_def file_os_ok_def)
  from HandleRead_unmapped_page [OF example_ready16 os(1) example_transfer16 s p(1,2) os(2,3)] show ?thesis
    unfolding p(3) by blast
qed

text \<open>The largest request. A Read of 65536 blocks (count field \<open>0xFFFF\<close>) from a memory store computes a block count
  of zero: it passes the range check wherever it starts inside the namespace, moves no data and completes
  with success.\<close>

theorem HandleRead_largest_request:
  assumes "io_cq_ready QueueId c" "selects cmd c i ns" "ns_backed ns" "ns_Storage ns = Some s"
    and "st_Type s = VNVME_STORAGE_TYPE_MEMORY" "take_bit 16 (CDW12 cmd) = 0xFFFF" "unat (cmd_slba cmd) \<le> unat (ns_TotalBlocks ns)"
  shows "\<exists>c1 c'. HandleRead os QueueId cmd c = Some (STATUS_SUCCESS, c')
    \<and> io_posted QueueId (CID cmd) NVME_SCT_GENERIC NVME_SC_SUCCESS c1 c' \<and> host c' = host c"
proof -
  let ?off = "io_off_word cmd ns"
  have nlb: "cmd_nlb cmd = 0"
    using assms(6) by (simp add: cmd_nlb_def)
  then have inside: "blocks_inside cmd ns" and len: "io_len_word cmd ns = 0"
    using assms(7) by (simp_all add: blocks_inside_def VNVME_BLOCKS_TO_BYTES_def)
  have ok: "storage_ok (Some s)" using assms(3,4) by (simp add: ns_backed_def)
  then obtain m where m: "st_MemoryBuffer s = Some m"
    using assms(5) by (auto simp: storage_ok_def)
  have fit: "unat ?off + unat (0 :: u64) \<le> storage_capacity (Some s)" "unat (0 :: u64) < 2 ^ 32"
    using io_bytes [OF assms(3) inside] assms(4) by simp_all
  let ?c = "count_read i 0 ((set_storage i (ns_Storage ns) c)\<lparr>host := host c\<rparr>)"
  have "HandleRead os QueueId cmd c = PostIoCompletion QueueId (CID cmd) NVME_SCT_GENERIC NVME_SC_SUCCESS ?c"
    using io_direct_cases [OF ok fit] m assms(4,5)
    by (simp add: HandleRead_def with_blocks_run [OF assms(2) inside] Let_def len read_source_def VnvmeParsePrpList_def)
  moreover have "io_cq_ready QueueId ?c"
    by (intro io_cq_ready_updates assms(1))
  ultimately obtain c' where c': "HandleRead os QueueId cmd c = Some (STATUS_SUCCESS, c')"
    "io_posted QueueId (CID cmd) NVME_SCT_GENERIC NVME_SC_SUCCESS ?c c'"
    using PostIoCompletion_posts by metis
  moreover have "host c' = host c"
    using io_posted_keeps(1) [OF c'(2)] by simp
  ultimately show ?thesis by blast
qed

text \<open>The property at the example namespace.\<close>

theorem HandleRead_largest_request_witness:
  "\<exists>c'. HandleRead os_all_ok 1 ((example_io_cmd 0x200000)\<lparr>CDW12 := 0xFFFF\<rparr>) example_io_ctx = Some (STATUS_SUCCESS, c')
    \<and> host c' = host example_io_ctx"
proof -
  let ?cmd = "(example_io_cmd 0x200000)\<lparr>CDW12 := 0xFFFF\<rparr>"
  obtain s where s: "ns_Storage example_ns = Some s" "st_Type s = VNVME_STORAGE_TYPE_MEMORY"
    by (simp add: example_ns_def)
  have sel: "selects ?cmd example_io_ctx 0 example_ns"
    using example_selects(1) by (simp add: selects_def)
  have cmd: "take_bit 16 (CDW12 ?cmd) = 0xFFFF" "unat (cmd_slba ?cmd) \<le> unat (ns_TotalBlocks example_ns)"
    by (simp_all add: cmd_slba_def example_io_cmd_def zero_COMMAND_def)
  show ?thesis
    using HandleRead_largest_request [OF example_io_ready sel example_selects(2) s cmd, of os_all_ok] by blast
qed

end
