(* ===== verification/Vnvme_Server_Admin.thy ===== *)
theory Vnvme_Server_Admin
  imports Vnvme_Admin
begin

text \<open>
  \<^verbatim>\<open>vnvme-server/admin_commands.h\<close> and \<^verbatim>\<open>admin_commands.c\<close>: the admin commands as the user-mode service executes them.
  The service sees the shared memory that the driver allocated, as the same byte memory; pointers into it are
  byte offsets, and a null pointer is \<open>None\<close>. A handler gets the context and the shared memory and
  returns the status word, \<open>*pResult\<close>, and both afterwards; \<open>None\<close> is an access outside the block or outside
  an array. Every call passes the addresses of existing objects, so the null checks on the parameters
  never fire and are left out; so is the debug output.
\<close>

section \<open>Data\<close>

record ADMIN_IO_QUEUE_INFO =
  qi_created :: bool
  qi_capacity :: u32
  qi_cqId :: u32
  qi_phase :: u32
  qi_sqBase :: "nat option"
  qi_cqBase :: "nat option"
  qi_descriptor :: "nat option"

record ADMIN_CONTROLLER_INFO =
  ci_serialNumber :: "u8 list"
  ci_modelNumber :: "u8 list"
  ci_firmwareRevision :: "u8 list"
  ci_vendorId :: u16
  ci_maxNamespaces :: u32
  ci_maxQueueEntries :: u32

record ADMIN_NAMESPACE_INFO =
  ni_nsid :: u32
  ni_size :: u64
  ni_capacity :: u64
  ni_blockSize :: u32
  ni_metadataSize :: u32
  ni_active :: bool

record ADMIN_CMD_CONTEXT =
  ac_shmBase :: bool \<comment> \<open>non-null\<close>
  ac_adminSqBase :: "nat option"
  ac_adminCqBase :: "nat option"
  ac_adminCqPhase :: u32
  ac_ioSq :: "ADMIN_IO_QUEUE_INFO list"
  ac_ioCq :: "ADMIN_IO_QUEUE_INFO list"
  ac_maxIoQueues :: u32
  ac_controller :: ADMIN_CONTROLLER_INFO
  ac_namespaces :: "ADMIN_NAMESPACE_INFO list"
  ac_namespaceCount :: u32
  ac_dataBuffer :: "nat option"
  ac_dataBufferSize :: u32
  ac_numQueues :: u32
  ac_arbitration :: u32
  ac_powerManagement :: u32
  ac_volatileWriteCache :: u32
  ac_commandsProcessed :: u64
  ac_errors :: u64

text \<open>Objects of zero bytes, as \<open>memset\<close> leaves them.\<close>

definition zero_IO_QUEUE_INFO :: ADMIN_IO_QUEUE_INFO where
  "zero_IO_QUEUE_INFO = \<lparr>qi_created = False, qi_capacity = 0, qi_cqId = 0, qi_phase = 0, qi_sqBase = None,
     qi_cqBase = None, qi_descriptor = None\<rparr>"

definition zero_NAMESPACE_INFO :: ADMIN_NAMESPACE_INFO where
  "zero_NAMESPACE_INFO = \<lparr>ni_nsid = 0, ni_size = 0, ni_capacity = 0, ni_blockSize = 0, ni_metadataSize = 0, ni_active = False\<rparr>"

definition zero_CONTROLLER_INFO :: ADMIN_CONTROLLER_INFO where
  "zero_CONTROLLER_INFO = \<lparr>ci_serialNumber = replicate 20 0, ci_modelNumber = replicate 40 0,
     ci_firmwareRevision = replicate 8 0, ci_vendorId = 0, ci_maxNamespaces = 0, ci_maxQueueEntries = 0\<rparr>"

definition zero_ADMIN_CMD_CONTEXT :: ADMIN_CMD_CONTEXT where
  "zero_ADMIN_CMD_CONTEXT = \<lparr>ac_shmBase = False, ac_adminSqBase = None, ac_adminCqBase = None, ac_adminCqPhase = 0,
     ac_ioSq = replicate 16 zero_IO_QUEUE_INFO, ac_ioCq = replicate 16 zero_IO_QUEUE_INFO, ac_maxIoQueues = 0,
     ac_controller = zero_CONTROLLER_INFO, ac_namespaces = replicate 16 zero_NAMESPACE_INFO, ac_namespaceCount = 0,
     ac_dataBuffer = None, ac_dataBufferSize = 0, ac_numQueues = 0, ac_arbitration = 0, ac_powerManagement = 0,
     ac_volatileWriteCache = 0, ac_commandsProcessed = 0, ac_errors = 0\<rparr>"

text \<open>\<open>strncpy\<close> into an array of \<open>n\<close> bytes: cut off or filled up with zeroes.\<close>

definition strncpy :: "nat \<Rightarrow> u8 list \<Rightarrow> u8 list" where
  "strncpy n s = take n (s @ replicate n 0)"

lemma length_strncpy [simp]: "length (strncpy n s) = n"
  by (simp add: strncpy_def)

definition Admin_MakeStatus :: "u32 \<Rightarrow> u32 \<Rightarrow> u32 \<Rightarrow> u16" where
  "Admin_MakeStatus sct sc phase =
     ucast ((phase AND 1) OR push_bit 1 (sc AND 0xFF) OR push_bit 9 (sct AND 0x7))"

text \<open>The inline accessors of \<^verbatim>\<open>include/vnvme_common.h\<close>.\<close>

definition VnvmeGetIoSQ :: "u32 \<Rightarrow> nat" where
  "VnvmeGetIoSQ QueueIndex = unat (VNVME_IO_SQ_OFFSET (ucast QueueIndex))"

definition VnvmeGetIoCQ :: "u32 \<Rightarrow> nat" where
  "VnvmeGetIoCQ QueueIndex = unat (VNVME_IO_CQ_OFFSET (ucast QueueIndex))"

section \<open>Set-up\<close>

definition AdminCmdInit ::
  "bool \<Rightarrow> nat option \<Rightarrow> nat option \<Rightarrow> nat option \<Rightarrow> u32 \<Rightarrow> bool \<times> ADMIN_CMD_CONTEXT" where
  "AdminCmdInit shmBase adminSqBase adminCqBase dataBuffer dataBufferSize =
     (True, zero_ADMIN_CMD_CONTEXT\<lparr>ac_shmBase := shmBase, ac_adminSqBase := adminSqBase, ac_adminCqBase := adminCqBase,
        ac_adminCqPhase := 1, ac_dataBuffer := dataBuffer, ac_dataBufferSize := dataBufferSize,
        ac_maxIoQueues := 16, ac_numQueues := 16 - 1, ac_arbitration := 0, ac_powerManagement := 0,
        ac_volatileWriteCache := 1,
        ac_controller := \<lparr>ci_serialNumber = strncpy 20 (ascii ''VNVME0001234567890''),
          ci_modelNumber = strncpy 40 (ascii ''Virtual NVMe Controller''),
          ci_firmwareRevision = strncpy 8 (ascii ''1.0.0''), ci_vendorId = 0x1234, ci_maxNamespaces = 16,
          ci_maxQueueEntries = 64\<rparr>\<rparr>)"

definition AdminCmdSetControllerInfo :: "ADMIN_CONTROLLER_INFO \<Rightarrow> ADMIN_CMD_CONTEXT \<Rightarrow> ADMIN_CMD_CONTEXT" where
  "AdminCmdSetControllerInfo pInfo pCtx = pCtx\<lparr>ac_controller := pInfo\<rparr>"

definition AdminCmdAddNamespace :: "ADMIN_NAMESPACE_INFO \<Rightarrow> ADMIN_CMD_CONTEXT \<Rightarrow> bool \<times> ADMIN_CMD_CONTEXT" where
  "AdminCmdAddNamespace pNsInfo pCtx =
     (if ac_namespaceCount pCtx \<ge> 16 then (False, pCtx)
      else (True, pCtx\<lparr>ac_namespaces := (ac_namespaces pCtx)[unat (ac_namespaceCount pCtx) := pNsInfo],
                       ac_namespaceCount := ac_namespaceCount pCtx + 1\<rparr>))"

text \<open>\<open>AdminCmdPostCompletion\<close> always fills the first entry of the admin completion queue.\<close>

definition AdminCmdPostCompletion ::
  "u16 \<Rightarrow> u32 \<Rightarrow> u16 \<Rightarrow> u16 \<Rightarrow> ADMIN_CMD_CONTEXT \<Rightarrow> mem \<Rightarrow> (ADMIN_CMD_CONTEXT \<times> mem) option" where
  "AdminCmdPostCompletion cid result sqHead status pCtx m =
     (case ac_adminCqBase pCtx of
        None \<Rightarrow> Some (pCtx, m)
      | Some cqe \<Rightarrow> do {
          check (cqe + 16 \<le> VNVME_SHM_SIZE);
          Some (pCtx\<lparr>ac_commandsProcessed := ac_commandsProcessed pCtx + 1\<rparr>,
            wr_NVME_COMPLETION cqe \<lparr>cqe_DW0 = result, cqe_DW1 = 0, cqe_SQHD = sqHead, cqe_SQID = 0, cqe_CID = cid,
              cqe_Status = status\<rparr> m)
        })"

section \<open>Identify\<close>

type_synonym admin_answer = "u16 \<times> u32 \<times> ADMIN_CMD_CONTEXT \<times> mem"

text \<open>The data goes into the data buffer, when there is one of at least 4096 bytes.\<close>

definition identify_controller_page :: "ADMIN_CMD_CONTEXT \<Rightarrow> nat \<Rightarrow> mem \<Rightarrow> mem" where
  "identify_controller_page pCtx data m =
     (let m = zero_range data 4096 m;
          m = wr16 (data + 0) (ci_vendorId (ac_controller pCtx)) m;
          m = wr16 (data + 2) (ci_vendorId (ac_controller pCtx)) m;
          m = wr_bytes (data + 4) (ci_serialNumber (ac_controller pCtx)) m;
          m = wr_bytes (data + 24) (ci_modelNumber (ac_controller pCtx)) m;
          m = wr_bytes (data + 64) (ci_firmwareRevision (ac_controller pCtx)) m;
          m = wr8 (data + 72) 6 m;
          m = wr16 (data + 256) 0x0006 m;
          m = wr8 (data + 258) 3 m;
          m = wr16 (data + 520) 0x0014 m
      in wr32 (data + 516) (if ac_namespaceCount pCtx > 0 then ac_namespaceCount pCtx else 1) m)"

definition AdminCmdIdentifyController :: "ADMIN_CMD_CONTEXT \<Rightarrow> NVME_COMMAND \<Rightarrow> mem \<Rightarrow> admin_answer option" where
  "AdminCmdIdentifyController pCtx pCmd m = do {
     m \<leftarrow> (case ac_dataBuffer pCtx of
        Some data \<Rightarrow>
          if ac_dataBufferSize pCtx \<ge> 4096 then do {
            check (data + 4096 \<le> VNVME_SHM_SIZE);
            Some (identify_controller_page pCtx data m)
          } else Some m
      | None \<Rightarrow> Some m);
     Some (Admin_MakeStatus 0 0 (ac_adminCqPhase pCtx), 0, pCtx, m)
   }"

definition identify_namespace_page :: "ADMIN_NAMESPACE_INFO \<Rightarrow> nat \<Rightarrow> mem \<Rightarrow> mem" where
  "identify_namespace_page nsInfo data m =
     (let m = zero_range data 4096 m;
          m = wr64 (data + 0) (ni_size nsInfo) m;
          m = wr64 (data + 8) (if ni_capacity nsInfo > 0 then ni_capacity nsInfo else ni_size nsInfo) m;
          m = wr64 (data + 16) (ni_size nsInfo) m;
          m = wr8 (data + 24) 0 m;
          m = wr8 (data + 25) 0 m;
          m = wr8 (data + 26) 0 m;
          lbads = (if ni_blockSize nsInfo \<ge> 4096 then 12 else if ni_blockSize nsInfo \<ge> 2048 then 11
                   else if ni_blockSize nsInfo \<ge> 1024 then 10 else 9);
          m = wr8 (data + 128) 0 m;
          m = wr8 (data + 129) 0 m;
          m = wr8 (data + 130) lbads m
      in wr8 (data + 131) 0 m)"

definition AdminCmdIdentifyNamespace :: "ADMIN_CMD_CONTEXT \<Rightarrow> NVME_COMMAND \<Rightarrow> mem \<Rightarrow> admin_answer option" where
  "AdminCmdIdentifyNamespace pCtx pCmd m =
     (let nsid = NSID pCmd in
      if nsid = 0 \<or> nsid > ac_namespaceCount pCtx
      then Some (Admin_MakeStatus 0 0x0B (ac_adminCqPhase pCtx), 0, pCtx, m)
      else do {
        nsInfo \<leftarrow> arr_get (ac_namespaces pCtx) (unat (nsid - 1));
        m \<leftarrow> (case ac_dataBuffer pCtx of
           Some data \<Rightarrow>
             if ac_dataBufferSize pCtx \<ge> 4096 then do {
               check (data + 4096 \<le> VNVME_SHM_SIZE);
               Some (identify_namespace_page nsInfo data m)
             } else Some m
         | None \<Rightarrow> Some m);
        Some (Admin_MakeStatus 0 0 (ac_adminCqPhase pCtx), 0, pCtx, m)
      })"

text \<open>The loop over the namespaces: \<open>i\<close> from the list of indices, \<open>count\<close> entries stored so far.\<close>

fun ns_list_loop :: "ADMIN_NAMESPACE_INFO list \<Rightarrow> u32 \<Rightarrow> nat \<Rightarrow> nat list \<Rightarrow> nat \<Rightarrow> mem \<Rightarrow> mem option" where
  "ns_list_loop namespaces startNsid data [] count m = Some m"
| "ns_list_loop namespaces startNsid data (i # is) count m =
     (if count < 1024 then do {
        let nsid = (of_nat i + 1 :: u32);
        if nsid > startNsid then do {
          nsInfo \<leftarrow> arr_get namespaces i;
          if ni_active nsInfo then ns_list_loop namespaces startNsid data is (count + 1) (wr32 (data + 4 * count) nsid m)
          else ns_list_loop namespaces startNsid data is count m
        }
        else ns_list_loop namespaces startNsid data is count m
      } else Some m)"

definition AdminCmdIdentifyNamespaceList :: "ADMIN_CMD_CONTEXT \<Rightarrow> NVME_COMMAND \<Rightarrow> mem \<Rightarrow> admin_answer option" where
  "AdminCmdIdentifyNamespaceList pCtx pCmd m = do {
     let startNsid = NSID pCmd;
     m \<leftarrow> (case ac_dataBuffer pCtx of
        Some data \<Rightarrow>
          if ac_dataBufferSize pCtx \<ge> 4096 then do {
            check (data + 4096 \<le> VNVME_SHM_SIZE);
            ns_list_loop (ac_namespaces pCtx) startNsid data [0..<unat (ac_namespaceCount pCtx)] 0 (zero_range data 4096 m)
          } else Some m
      | None \<Rightarrow> Some m);
     Some (Admin_MakeStatus 0 0 (ac_adminCqPhase pCtx), 0, pCtx, m)
   }"

definition AdminCmdIdentify :: "ADMIN_CMD_CONTEXT \<Rightarrow> NVME_COMMAND \<Rightarrow> mem \<Rightarrow> admin_answer option" where
  "AdminCmdIdentify pCtx pCmd m =
     (let cns = (ucast (CDW10 pCmd AND 0xFF) :: u8) in
      if cns = 0x00 then AdminCmdIdentifyNamespace pCtx pCmd m
      else if cns = 0x01 then AdminCmdIdentifyController pCtx pCmd m
      else if cns = 0x02 then AdminCmdIdentifyNamespaceList pCtx pCmd m
      else Some (Admin_MakeStatus 0 0x02 (ac_adminCqPhase pCtx), 0, pCtx, m))"

section \<open>Queue management\<close>

text \<open>The 16-bit queue size is the field plus one, so 0xFFFF becomes 0.\<close>

definition srv_qid :: "NVME_COMMAND \<Rightarrow> u16" where "srv_qid pCmd = ucast (CDW10 pCmd AND 0xFFFF)"
definition srv_qsize :: "NVME_COMMAND \<Rightarrow> u16" where
  "srv_qsize pCmd = ucast (drop_bit 16 (CDW10 pCmd) AND 0xFFFF) + 1"

definition AdminCmdCreateIoCq :: "ADMIN_CMD_CONTEXT \<Rightarrow> NVME_COMMAND \<Rightarrow> mem \<Rightarrow> admin_answer option" where
  "AdminCmdCreateIoCq pCtx pCmd m =
     (let qid = srv_qid pCmd; qsize = srv_qsize pCmd in
      if qid = 0 \<or> ucast qid > ac_maxIoQueues pCtx
      then Some (Admin_MakeStatus 0 0x01 (ac_adminCqPhase pCtx), 0, pCtx, m)
      else do {
        let queueIndex = (ucast qid - 1 :: u32);
        q \<leftarrow> arr_get (ac_ioCq pCtx) (unat queueIndex);
        if qi_created q then Some (Admin_MakeStatus 0 0x01 (ac_adminCqPhase pCtx), 0, pCtx, m)
        else do {
          let q = q\<lparr>qi_created := True, qi_capacity := ucast qsize, qi_phase := 1\<rparr>;
          let q = (if ac_shmBase pCtx then q\<lparr>qi_cqBase := Some (VnvmeGetIoCQ queueIndex)\<rparr> else q);
          Some (Admin_MakeStatus 0 0 (ac_adminCqPhase pCtx), 0,
            pCtx\<lparr>ac_ioCq := (ac_ioCq pCtx)[unat queueIndex := q]\<rparr>, m)
        }
      })"

text \<open>An invalid completion queue is answered with status code 0x00, which is success.\<close>

definition AdminCmdCreateIoSq :: "ADMIN_CMD_CONTEXT \<Rightarrow> NVME_COMMAND \<Rightarrow> mem \<Rightarrow> admin_answer option" where
  "AdminCmdCreateIoSq pCtx pCmd m =
     (let qid = srv_qid pCmd; qsize = srv_qsize pCmd; cqid = (ucast (CDW11 pCmd AND 0xFFFF) :: u16) in
      if qid = 0 \<or> ucast qid > ac_maxIoQueues pCtx
      then Some (Admin_MakeStatus 0 0x01 (ac_adminCqPhase pCtx), 0, pCtx, m)
      else do {
        let queueIndex = (ucast qid - 1 :: u32);
        cq_missing \<leftarrow> (if cqid = 0 \<or> ucast cqid > ac_maxIoQueues pCtx then Some True
                      else map_option (\<lambda>q. \<not> qi_created q) (arr_get (ac_ioCq pCtx) (unat (cqid - 1))));
        if cq_missing then Some (Admin_MakeStatus 0 0x00 (ac_adminCqPhase pCtx), 0, pCtx, m)
        else do {
          q \<leftarrow> arr_get (ac_ioSq pCtx) (unat queueIndex);
          if qi_created q then Some (Admin_MakeStatus 0 0x01 (ac_adminCqPhase pCtx), 0, pCtx, m)
          else do {
            let q = q\<lparr>qi_created := True, qi_capacity := ucast qsize, qi_cqId := ucast cqid\<rparr>;
            let q = (if ac_shmBase pCtx then q\<lparr>qi_sqBase := Some (VnvmeGetIoSQ queueIndex)\<rparr> else q);
            Some (Admin_MakeStatus 0 0 (ac_adminCqPhase pCtx), 0,
              pCtx\<lparr>ac_ioSq := (ac_ioSq pCtx)[unat queueIndex := q]\<rparr>, m)
          }
        }
      })"

definition AdminCmdDeleteIoCq :: "ADMIN_CMD_CONTEXT \<Rightarrow> NVME_COMMAND \<Rightarrow> mem \<Rightarrow> admin_answer option" where
  "AdminCmdDeleteIoCq pCtx pCmd m =
     (let qid = srv_qid pCmd in
      if qid = 0 \<or> ucast qid > ac_maxIoQueues pCtx
      then Some (Admin_MakeStatus 0 0x01 (ac_adminCqPhase pCtx), 0, pCtx, m)
      else do {
        let queueIndex = (ucast qid - 1 :: u32);
        q \<leftarrow> arr_get (ac_ioCq pCtx) (unat queueIndex);
        if \<not> qi_created q then Some (Admin_MakeStatus 0 0x01 (ac_adminCqPhase pCtx), 0, pCtx, m)
        else Some (Admin_MakeStatus 0 0 (ac_adminCqPhase pCtx), 0,
               pCtx\<lparr>ac_ioCq := (ac_ioCq pCtx)[unat queueIndex := zero_IO_QUEUE_INFO]\<rparr>, m)
      })"

definition AdminCmdDeleteIoSq :: "ADMIN_CMD_CONTEXT \<Rightarrow> NVME_COMMAND \<Rightarrow> mem \<Rightarrow> admin_answer option" where
  "AdminCmdDeleteIoSq pCtx pCmd m =
     (let qid = srv_qid pCmd in
      if qid = 0 \<or> ucast qid > ac_maxIoQueues pCtx
      then Some (Admin_MakeStatus 0 0x01 (ac_adminCqPhase pCtx), 0, pCtx, m)
      else do {
        let queueIndex = (ucast qid - 1 :: u32);
        q \<leftarrow> arr_get (ac_ioSq pCtx) (unat queueIndex);
        if \<not> qi_created q then Some (Admin_MakeStatus 0 0x01 (ac_adminCqPhase pCtx), 0, pCtx, m)
        else Some (Admin_MakeStatus 0 0 (ac_adminCqPhase pCtx), 0,
               pCtx\<lparr>ac_ioSq := (ac_ioSq pCtx)[unat queueIndex := zero_IO_QUEUE_INFO]\<rparr>, m)
      })"

section \<open>Features\<close>

text \<open>\<open>nsqa | ((UINT32)ncqa << 16)\<close>.\<close>

definition pack_queues :: "u16 \<Rightarrow> u16 \<Rightarrow> u32" where
  "pack_queues nsqa ncqa = ucast nsqa OR push_bit 16 (ucast ncqa)"

definition AdminCmdGetFeatures :: "ADMIN_CMD_CONTEXT \<Rightarrow> NVME_COMMAND \<Rightarrow> mem \<Rightarrow> admin_answer option" where
  "AdminCmdGetFeatures pCtx pCmd m =
     (let fid = (ucast (CDW10 pCmd AND 0xFF) :: u8);
          result = (if fid = 0x01 then ac_arbitration pCtx
                    else if fid = 0x02 then ac_powerManagement pCtx
                    else if fid = 0x06 then ac_volatileWriteCache pCtx
                    else if fid = 0x07 then pack_queues (ucast (ac_maxIoQueues pCtx - 1)) (ucast (ac_maxIoQueues pCtx - 1))
                    else 0)
      in Some (Admin_MakeStatus 0 0 (ac_adminCqPhase pCtx), result, pCtx, m))"

definition AdminCmdSetFeatures :: "ADMIN_CMD_CONTEXT \<Rightarrow> NVME_COMMAND \<Rightarrow> mem \<Rightarrow> admin_answer option" where
  "AdminCmdSetFeatures pCtx pCmd m =
     (let fid = (ucast (CDW10 pCmd AND 0xFF) :: u8);
          (result, pCtx') =
            (if fid = 0x01 then (0, pCtx\<lparr>ac_arbitration := CDW11 pCmd\<rparr>)
             else if fid = 0x02 then (0, pCtx\<lparr>ac_powerManagement := CDW11 pCmd\<rparr>)
             else if fid = 0x06 then (0, pCtx\<lparr>ac_volatileWriteCache := CDW11 pCmd AND 0x01\<rparr>)
             else if fid = 0x07 then
               let nsqr = (ucast (CDW11 pCmd AND 0xFFFF) :: u16);
                   ncqr = (ucast (drop_bit 16 (CDW11 pCmd) AND 0xFFFF) :: u16);
                   nsqa = (if ucast nsqr < ac_maxIoQueues pCtx - 1 then nsqr else ucast (ac_maxIoQueues pCtx - 1));
                   ncqa = (if ucast ncqr < ac_maxIoQueues pCtx - 1 then ncqr else ucast (ac_maxIoQueues pCtx - 1))
               in (pack_queues nsqa ncqa, pCtx)
             else (0, pCtx))
      in Some (Admin_MakeStatus 0 0 (ac_adminCqPhase pCtx'), result, pCtx', m))"

section \<open>The other commands\<close>

definition AdminCmdAbort :: "ADMIN_CMD_CONTEXT \<Rightarrow> NVME_COMMAND \<Rightarrow> mem \<Rightarrow> admin_answer option" where
  "AdminCmdAbort pCtx pCmd m = Some (Admin_MakeStatus 0 0 (ac_adminCqPhase pCtx), 0, pCtx, m)"

text \<open>The number of bytes is a 32-bit value and wraps. The health data is stored whatever the number of bytes.\<close>

definition log_bytes :: "NVME_COMMAND \<Rightarrow> u32" where
  "log_bytes pCmd =
     (let numdl = drop_bit 16 (CDW10 pCmd) AND 0xFFFF; numdu = CDW11 pCmd AND 0xFFFF
      in (push_bit 16 numdu OR numdl) * 4 + 4)"

definition AdminCmdGetLogPage :: "ADMIN_CMD_CONTEXT \<Rightarrow> NVME_COMMAND \<Rightarrow> mem \<Rightarrow> admin_answer option" where
  "AdminCmdGetLogPage pCtx pCmd m =
     (let lid = (ucast (CDW10 pCmd AND 0xFF) :: u8); bytes = log_bytes pCmd in
      case ac_dataBuffer pCtx of
        Some data \<Rightarrow>
          if bytes \<le> ac_dataBufferSize pCtx then do {
            check (data + unat bytes \<le> VNVME_SHM_SIZE);
            let m = zero_range data (unat bytes) m;
            if lid = 0x01 \<or> lid = 0x03 then Some (Admin_MakeStatus 0 0 (ac_adminCqPhase pCtx), 0, pCtx, m)
            else if lid = 0x02 then do {
              check (data + 6 \<le> VNVME_SHM_SIZE);
              Some (Admin_MakeStatus 0 0 (ac_adminCqPhase pCtx), 0, pCtx,
                wr8 (data + 5) 0 (wr8 (data + 4) 10 (wr8 (data + 3) 100 (wr16 (data + 1) 298 m))))
            }
            else Some (Admin_MakeStatus 0 0x09 (ac_adminCqPhase pCtx), 0, pCtx, m)
          }
          else Some (Admin_MakeStatus 0 0 (ac_adminCqPhase pCtx), 0, pCtx, m)
      | None \<Rightarrow> Some (Admin_MakeStatus 0 0 (ac_adminCqPhase pCtx), 0, pCtx, m))"

definition AdminCmdKeepAlive :: "ADMIN_CMD_CONTEXT \<Rightarrow> NVME_COMMAND \<Rightarrow> mem \<Rightarrow> admin_answer option" where
  "AdminCmdKeepAlive pCtx pCmd m = Some (Admin_MakeStatus 0 0 (ac_adminCqPhase pCtx), 0, pCtx, m)"

section \<open>Dispatch\<close>

text \<open>The switch over the opcodes, which \<open>AdminCmdProcess\<close> and \<open>CmdEngineProcessAdminCommand\<close> have in common; \<open>None\<close> is
  the default branch.\<close>

definition admin_handler :: "u8 \<Rightarrow> (ADMIN_CMD_CONTEXT \<Rightarrow> NVME_COMMAND \<Rightarrow> mem \<Rightarrow> admin_answer option) option" where
  "admin_handler opc =
     (if opc = 0x06 then Some AdminCmdIdentify
      else if opc = 0x05 then Some AdminCmdCreateIoCq
      else if opc = 0x01 then Some AdminCmdCreateIoSq
      else if opc = 0x04 then Some AdminCmdDeleteIoCq
      else if opc = 0x00 then Some AdminCmdDeleteIoSq
      else if opc = 0x09 then Some AdminCmdSetFeatures
      else if opc = 0x0A then Some AdminCmdGetFeatures
      else if opc = 0x08 then Some AdminCmdAbort
      else if opc = 0x02 then Some AdminCmdGetLogPage
      else if opc = 0x18 then Some AdminCmdKeepAlive
      else None)"

text \<open>The command is read where it stands in the submission queue; its identifier is read again after the handler.\<close>

definition AdminCmdProcess :: "ADMIN_CMD_CONTEXT \<Rightarrow> nat \<Rightarrow> mem \<Rightarrow> (u32 \<times> ADMIN_CMD_CONTEXT \<times> mem) option" where
  "AdminCmdProcess pCtx pCmd m = do {
     check (pCmd + 64 \<le> VNVME_SHM_SIZE);
     (status, result, pCtx, m) \<leftarrow>
       (case admin_handler (OPC (rd_NVME_COMMAND m pCmd)) of
          Some handler \<Rightarrow> handler pCtx (rd_NVME_COMMAND m pCmd) m
        | None \<Rightarrow> Some (Admin_MakeStatus 0 0x01 (ac_adminCqPhase pCtx), 0, pCtx\<lparr>ac_errors := ac_errors pCtx + 1\<rparr>, m));
     (pCtx, m) \<leftarrow> AdminCmdPostCompletion (CID (rd_NVME_COMMAND m pCmd)) result 0 status pCtx m;
     Some (1, pCtx, m)
   }"

section \<open>Queue look-up\<close>

text \<open>The pointer to an array element is its index.\<close>

definition AdminCmdGetIoSq :: "ADMIN_CMD_CONTEXT \<Rightarrow> u16 \<Rightarrow> nat option" where
  "AdminCmdGetIoSq pCtx qid =
     (if qid = 0 \<or> ucast qid > ac_maxIoQueues pCtx then None else Some (unat (qid - 1)))"

definition AdminCmdGetIoCq :: "ADMIN_CMD_CONTEXT \<Rightarrow> u16 \<Rightarrow> nat option" where
  "AdminCmdGetIoCq pCtx qid =
     (if qid = 0 \<or> ucast qid > ac_maxIoQueues pCtx then None else Some (unat (qid - 1)))"

definition AdminCmdIsIoQueueCreated :: "ADMIN_CMD_CONTEXT \<Rightarrow> u16 \<Rightarrow> bool option" where
  "AdminCmdIsIoQueueCreated pCtx sqid =
     (if sqid = 0 \<or> ucast sqid > ac_maxIoQueues pCtx then Some False
      else map_option qi_created (arr_get (ac_ioSq pCtx) (unat (sqid - 1))))"

section \<open>Every handler answers\<close>

text \<open>
  The invariant of the context: sixteen queues of each kind, at most sixteen namespaces, strings of their full
  length, and a data buffer of at least one page inside the block. No command ever sets the descriptor of a
  submission queue.
\<close>

definition adm_wf :: "ADMIN_CMD_CONTEXT \<Rightarrow> bool" where
  "adm_wf pCtx \<longleftrightarrow>
     length (ac_ioSq pCtx) = 16 \<and> length (ac_ioCq pCtx) = 16 \<and> length (ac_namespaces pCtx) = 16
     \<and> ac_maxIoQueues pCtx = 16 \<and> ac_namespaceCount pCtx \<le> 16
     \<and> (\<forall>q\<in>set (ac_ioSq pCtx). qi_descriptor q = None)
     \<and> length (ci_serialNumber (ac_controller pCtx)) = 20 \<and> length (ci_modelNumber (ac_controller pCtx)) = 40
     \<and> length (ci_firmwareRevision (ac_controller pCtx)) = 8
     \<and> (case ac_dataBuffer pCtx of None \<Rightarrow> True
        | Some data \<Rightarrow> 4096 \<le> ac_dataBufferSize pCtx \<and> data + unat (ac_dataBufferSize pCtx) \<le> VNVME_SHM_SIZE)"

definition adm_buffer :: "ADMIN_CMD_CONTEXT \<Rightarrow> nat set" where
  "adm_buffer pCtx =
     (case ac_dataBuffer pCtx of None \<Rightarrow> {} | Some data \<Rightarrow> {data..<data + unat (ac_dataBufferSize pCtx)})"

text \<open>What no command changes.\<close>

definition adm_fixed :: "ADMIN_CMD_CONTEXT \<Rightarrow> nat option \<times> u32 \<times> u32 \<times> nat option \<times> nat option \<times> bool \<times> u32" where
  "adm_fixed pCtx = (ac_dataBuffer pCtx, ac_dataBufferSize pCtx, ac_adminCqPhase pCtx, ac_adminSqBase pCtx,
     ac_adminCqBase pCtx, ac_shmBase pCtx, ac_namespaceCount pCtx)"

text \<open>
  A handler answers when it returns, keeps the invariant, writes only into the data buffer, and its status, result
  and new context do not depend on the contents of the shared memory.
\<close>

definition admin_answers :: "ADMIN_CMD_CONTEXT \<Rightarrow> NVME_COMMAND \<Rightarrow>
    (ADMIN_CMD_CONTEXT \<Rightarrow> NVME_COMMAND \<Rightarrow> mem \<Rightarrow> admin_answer option) \<Rightarrow> bool" where
  "admin_answers pCtx pCmd handler \<longleftrightarrow>
     (\<exists>status result pCtx'. adm_wf pCtx' \<and> adm_fixed pCtx' = adm_fixed pCtx
       \<and> (\<forall>m. \<exists>m'. handler pCtx pCmd m = Some (status, result, pCtx', m') \<and> same_outside (adm_buffer pCtx) m m'))"

lemma pred_index:
  fixes x :: "'a::len word"
  assumes "x \<noteq> 0" "unat x \<le> n"
  shows "unat (x - 1) < n"
  using assms by (metis One_nat_def Suc_pred less_eq_Suc_le unat_gt_0 unat_minus_one)

lemma same_outside_step:
  "same_outside S m x \<Longrightarrow> a \<in> S \<Longrightarrow> same_outside S m (wr8 a v x)"
  "same_outside S m x \<Longrightarrow> {a..<a + 2} \<subseteq> S \<Longrightarrow> same_outside S m (wr16 a w x)"
  "same_outside S m x \<Longrightarrow> {a..<a + 4} \<subseteq> S \<Longrightarrow> same_outside S m (wr32 a d x)"
  "same_outside S m x \<Longrightarrow> {a..<a + 8} \<subseteq> S \<Longrightarrow> same_outside S m (wr64 a q x)"
  "same_outside S m x \<Longrightarrow> {a..<a + length bs} \<subseteq> S \<Longrightarrow> same_outside S m (wr_bytes a bs x)"
  "same_outside S m x \<Longrightarrow> {a..<a + n} \<subseteq> S \<Longrightarrow> same_outside S m (zero_range a n x)"
  by (blast intro: same_outside_trans same_outside_wr8 same_outside_wr16 same_outside_wr32 same_outside_wr64
      same_outside_wr_bytes same_outside_zero_range)+

lemma identify_controller_page_frame:
  assumes "adm_wf pCtx"
  shows "same_outside {data..<data + 4096} m (identify_controller_page pCtx data m)"
  using assms unfolding identify_controller_page_def Let_def adm_wf_def
  by (intro same_outside_step same_outside_refl) auto

lemma identify_namespace_page_frame:
  "same_outside {data..<data + 4096} m (identify_namespace_page nsInfo data m)"
  unfolding identify_namespace_page_def Let_def
  by (intro same_outside_step same_outside_refl) auto

lemma ns_list_loop_total:
  assumes "set is \<subseteq> {..<length namespaces}" "count + length is \<le> 1024"
  shows "\<exists>m'. ns_list_loop namespaces startNsid data is count m = Some m' \<and> same_outside {data..<data + 4096} m m'"
  using assms
proof (induction "is" arbitrary: count m)
  case (Cons i "is")
  then have frame: "same_outside {data..<data + 4096} m (wr32 (data + 4 * count) v m)" for v
    by (intro same_outside_wr32) auto
  show ?case
    using Cons.IH [of count m] Cons.IH [of "count + 1" "wr32 (data + 4 * count) (of_nat i + 1) m"] Cons.prems
      same_outside_trans [OF frame]
    by (auto simp: Let_def)
qed simp

lemma admin_answersI:
  assumes "adm_wf pCtx'" "adm_fixed pCtx' = adm_fixed pCtx"
    and "\<And>m. \<exists>m'. handler pCtx pCmd m = Some (status, result, pCtx', m') \<and> same_outside (adm_buffer pCtx) m m'"
  shows "admin_answers pCtx pCmd handler"
  using assms unfolding admin_answers_def by blast

lemma buffer_page:
  assumes "adm_wf pCtx" "ac_dataBuffer pCtx = Some data"
  shows "4096 \<le> ac_dataBufferSize pCtx" "data + 4096 \<le> VNVME_SHM_SIZE" "{data..<data + 4096} \<subseteq> adm_buffer pCtx"
  using assms by (auto simp: adm_wf_def adm_buffer_def word_le_nat_alt)

lemma AdminCmdIdentifyController_answers:
  assumes "adm_wf pCtx"
  shows "admin_answers pCtx pCmd AdminCmdIdentifyController"
proof (rule admin_answersI [where status = "Admin_MakeStatus 0 0 (ac_adminCqPhase pCtx)" and result = 0, OF assms refl])
  show "\<exists>m'. AdminCmdIdentifyController pCtx pCmd m = Some (Admin_MakeStatus 0 0 (ac_adminCqPhase pCtx), 0, pCtx, m')
      \<and> same_outside (adm_buffer pCtx) m m'" for m
    using buffer_page [OF assms] identify_controller_page_frame [OF assms, THEN same_outside_mono]
    by (cases "ac_dataBuffer pCtx") (auto simp: AdminCmdIdentifyController_def)
qed

lemma AdminCmdIdentifyNamespace_answers:
  assumes "adm_wf pCtx"
  shows "admin_answers pCtx pCmd AdminCmdIdentifyNamespace"
proof -
  let ?bad = "NSID pCmd = 0 \<or> NSID pCmd > ac_namespaceCount pCtx"
  have idx: "unat (NSID pCmd - 1) < length (ac_namespaces pCtx)" if "\<not> ?bad"
    using assms that by (intro pred_index) (auto simp: adm_wf_def word_le_nat_alt word_less_nat_alt)
  show ?thesis
  proof (rule admin_answersI [where status = "Admin_MakeStatus 0 (if ?bad then 0x0B else 0) (ac_adminCqPhase pCtx)" and result = 0,
        OF assms refl])
    show "\<exists>m'. AdminCmdIdentifyNamespace pCtx pCmd m
        = Some (Admin_MakeStatus 0 (if ?bad then 0x0B else 0) (ac_adminCqPhase pCtx), 0, pCtx, m')
        \<and> same_outside (adm_buffer pCtx) m m'" for m
      using buffer_page [OF assms] identify_namespace_page_frame [THEN same_outside_mono] idx
      by (cases "ac_dataBuffer pCtx") (auto simp: AdminCmdIdentifyNamespace_def Let_def)
  qed
qed

lemma AdminCmdIdentifyNamespaceList_answers:
  assumes "adm_wf pCtx"
  shows "admin_answers pCtx pCmd AdminCmdIdentifyNamespaceList"
proof (rule admin_answersI [where status = "Admin_MakeStatus 0 0 (ac_adminCqPhase pCtx)" and result = 0, OF assms refl])
  have n: "unat (ac_namespaceCount pCtx) \<le> 16" "length (ac_namespaces pCtx) = 16"
    using assms by (simp_all add: adm_wf_def word_le_nat_alt)
  show "\<exists>m'. AdminCmdIdentifyNamespaceList pCtx pCmd m = Some (Admin_MakeStatus 0 0 (ac_adminCqPhase pCtx), 0, pCtx, m')
      \<and> same_outside (adm_buffer pCtx) m m'" for m
  proof (cases "ac_dataBuffer pCtx")
    case (Some data)
    have "same_outside {data..<data + 4096} m (zero_range data 4096 m)"
      by (rule same_outside_zero_range) simp
    with ns_list_loop_total [of "[0..<unat (ac_namespaceCount pCtx)]" "ac_namespaces pCtx" 0 "NSID pCmd" data "zero_range data 4096 m"] n
    obtain m' where "ns_list_loop (ac_namespaces pCtx) (NSID pCmd) data [0..<unat (ac_namespaceCount pCtx)] 0
        (zero_range data 4096 m) = Some m'" "same_outside {data..<data + 4096} m m'"
      by (auto intro: same_outside_trans simp: subset_iff)
    with Some buffer_page [OF assms Some] same_outside_mono show ?thesis
      by (auto simp: AdminCmdIdentifyNamespaceList_def)
  qed (simp add: AdminCmdIdentifyNamespaceList_def)
qed

lemma AdminCmdIdentify_answers:
  assumes "adm_wf pCtx"
  shows "admin_answers pCtx pCmd AdminCmdIdentify"
proof -
  let ?cns = "ucast (CDW10 pCmd AND 0xFF) :: u8"
  have eq: "AdminCmdIdentify pCtx pCmd m = (if ?cns = 0 then AdminCmdIdentifyNamespace
      else if ?cns = 1 then AdminCmdIdentifyController else if ?cns = 2 then AdminCmdIdentifyNamespaceList
      else (\<lambda>pCtx pCmd m. Some (Admin_MakeStatus 0 0x02 (ac_adminCqPhase pCtx), 0, pCtx, m))) pCtx pCmd m" for m
    by (simp add: AdminCmdIdentify_def Let_def)
  have "admin_answers pCtx pCmd (\<lambda>pCtx pCmd m. Some (Admin_MakeStatus 0 0x02 (ac_adminCqPhase pCtx), 0, pCtx, m))"
    using assms by (intro admin_answersI [OF assms refl]) auto
  then have "admin_answers pCtx pCmd (if ?cns = 0 then AdminCmdIdentifyNamespace
      else if ?cns = 1 then AdminCmdIdentifyController else if ?cns = 2 then AdminCmdIdentifyNamespaceList
      else (\<lambda>pCtx pCmd m. Some (Admin_MakeStatus 0 0x02 (ac_adminCqPhase pCtx), 0, pCtx, m)))"
    using AdminCmdIdentifyNamespace_answers [OF assms] AdminCmdIdentifyController_answers [OF assms]
      AdminCmdIdentifyNamespaceList_answers [OF assms]
    by simp
  then show ?thesis unfolding admin_answers_def eq .
qed

text \<open>The handlers that leave the shared memory alone.\<close>

lemma admin_answers_pureI:
  assumes "handler pCtx pCmd (\<lambda>_. 0) \<noteq> None"
    and "\<And>status result pCtx' m. handler pCtx pCmd (\<lambda>_. 0) = Some (status, result, pCtx', m) \<Longrightarrow>
      adm_wf pCtx' \<and> adm_fixed pCtx' = adm_fixed pCtx"
    and "\<And>m. handler pCtx pCmd m = map_option (\<lambda>(status, result, pCtx', _). (status, result, pCtx', m)) (handler pCtx pCmd (\<lambda>_. 0))"
  shows "admin_answers pCtx pCmd handler"
proof -
  from assms(1) obtain status result pCtx' m0 where h: "handler pCtx pCmd (\<lambda>_. 0) = Some (status, result, pCtx', m0)"
    by auto
  then have "handler pCtx pCmd m = Some (status, result, pCtx', m)" for m
    using assms(3) [of m] by simp
  with assms(2) [OF h] show ?thesis
    by (intro admin_answersI [of pCtx']) auto
qed

lemma adm_wf_queues [simp]:
  "length qs = 16 \<Longrightarrow> adm_wf pCtx \<Longrightarrow> adm_wf (pCtx\<lparr>ac_ioCq := qs\<rparr>)"
  "i < 16 \<Longrightarrow> qi_descriptor q = None \<Longrightarrow> adm_wf pCtx \<Longrightarrow> adm_wf (pCtx\<lparr>ac_ioSq := (ac_ioSq pCtx)[i := q]\<rparr>)"
  by (auto simp: adm_wf_def dest!: subsetD [OF set_update_subset_insert] cong: option.case_cong)

lemma queue_index:
  fixes qid :: u16
  assumes "adm_wf pCtx"
  shows "\<not> (qid = 0 \<or> ucast qid > ac_maxIoQueues pCtx) \<longrightarrow> unat (ucast qid - 1 :: u32) < 16 \<and> unat (qid - 1) < 16"
proof (rule impI)
  assume "\<not> (qid = 0 \<or> ucast qid > ac_maxIoQueues pCtx)"
  then have "unat qid \<le> 16" "qid \<noteq> 0" using assms by (auto simp: adm_wf_def word_less_nat_alt)
  moreover from this(2) have "unat (ucast qid :: u32) \<noteq> 0" by (simp add: unsigned_eq_0_iff)
  then have "(ucast qid :: u32) \<noteq> 0" by (metis unsigned_0)
  ultimately show "unat (ucast qid - 1 :: u32) < 16 \<and> unat (qid - 1) < 16"
    by (auto intro!: pred_index)
qed

lemma queue_handlers_answer:
  assumes "adm_wf pCtx"
  shows "admin_answers pCtx pCmd AdminCmdCreateIoCq" "admin_answers pCtx pCmd AdminCmdCreateIoSq"
    "admin_answers pCtx pCmd AdminCmdDeleteIoCq" "admin_answers pCtx pCmd AdminCmdDeleteIoSq"
proof -
  have len: "length (ac_ioSq pCtx) = 16" "length (ac_ioCq pCtx) = 16" "\<forall>i<16. qi_descriptor (ac_ioSq pCtx ! i) = None"
    "qi_descriptor zero_IO_QUEUE_INFO = None"
    using assms by (auto simp: adm_wf_def zero_IO_QUEUE_INFO_def)
  note q = queue_index [OF assms, of "srv_qid pCmd"] queue_index [OF assms, of "ucast (CDW11 pCmd AND 0xFFFF)"]
  show "admin_answers pCtx pCmd AdminCmdCreateIoCq"
    by (rule admin_answers_pureI)
      (use q(1) len assms in \<open>auto simp: AdminCmdCreateIoCq_def Let_def adm_fixed_def split: if_split_asm\<close>)
  show "admin_answers pCtx pCmd AdminCmdDeleteIoCq"
    by (rule admin_answers_pureI)
      (use q(1) len assms in \<open>auto simp: AdminCmdDeleteIoCq_def Let_def adm_fixed_def split: if_split_asm\<close>)
  show "admin_answers pCtx pCmd AdminCmdDeleteIoSq"
    by (rule admin_answers_pureI)
      (use q(1) len assms in \<open>auto simp: AdminCmdDeleteIoSq_def Let_def adm_fixed_def split: if_split_asm\<close>)
  show "admin_answers pCtx pCmd AdminCmdCreateIoSq"
    by (rule admin_answers_pureI)
      (use q len assms in \<open>auto simp: AdminCmdCreateIoSq_def Let_def adm_fixed_def split: if_split_asm\<close>)
qed

lemma feature_handlers_answer:
  assumes "adm_wf pCtx"
  shows "admin_answers pCtx pCmd AdminCmdGetFeatures" "admin_answers pCtx pCmd AdminCmdSetFeatures"
    "admin_answers pCtx pCmd AdminCmdAbort" "admin_answers pCtx pCmd AdminCmdKeepAlive"
proof -
  show "admin_answers pCtx pCmd AdminCmdGetFeatures"
    by (rule admin_answers_pureI) (use assms in \<open>auto simp: AdminCmdGetFeatures_def Let_def\<close>)
  have "adm_wf (pCtx\<lparr>ac_arbitration := x\<rparr>)" "adm_wf (pCtx\<lparr>ac_powerManagement := x\<rparr>)" "adm_wf (pCtx\<lparr>ac_volatileWriteCache := x\<rparr>)" for x
    using assms by (simp_all add: adm_wf_def cong: option.case_cong)
  then show "admin_answers pCtx pCmd AdminCmdSetFeatures"
    by (intro admin_answers_pureI)
      (use assms in \<open>auto simp: AdminCmdSetFeatures_def Let_def adm_fixed_def case_prod_beta split: if_split_asm\<close>)
  show "admin_answers pCtx pCmd AdminCmdAbort" "admin_answers pCtx pCmd AdminCmdKeepAlive"
    by (rule admin_answers_pureI; use assms in \<open>auto simp: AdminCmdAbort_def AdminCmdKeepAlive_def\<close>)+
qed

lemma AdminCmdGetLogPage_answers:
  assumes "adm_wf pCtx"
  shows "admin_answers pCtx pCmd AdminCmdGetLogPage"
proof -
  let ?lid = "ucast (CDW10 pCmd AND 0xFF) :: u8"
  let ?bad = "ac_dataBuffer pCtx \<noteq> None \<and> log_bytes pCmd \<le> ac_dataBufferSize pCtx \<and> ?lid \<notin> {1, 2, 3}"
  show ?thesis
  proof (rule admin_answersI [where status = "Admin_MakeStatus 0 (if ?bad then 0x09 else 0) (ac_adminCqPhase pCtx)" and result = 0,
        OF assms refl])
    fix m
    show "\<exists>m'. AdminCmdGetLogPage pCtx pCmd m
        = Some (Admin_MakeStatus 0 (if ?bad then 0x09 else 0) (ac_adminCqPhase pCtx), 0, pCtx, m')
        \<and> same_outside (adm_buffer pCtx) m m'"
    proof (cases "ac_dataBuffer pCtx")
      case (Some data)
      note page = buffer_page [OF assms Some]
      show ?thesis
      proof (cases "log_bytes pCmd \<le> ac_dataBufferSize pCtx")
        case True
        with assms Some have fits: "data + unat (log_bytes pCmd) \<le> VNVME_SHM_SIZE"
          "{data..<data + unat (log_bytes pCmd)} \<subseteq> adm_buffer pCtx"
          by (auto simp: adm_wf_def adm_buffer_def word_le_nat_alt)
        define m1 where "m1 = zero_range data (unat (log_bytes pCmd)) m"
        have f1: "same_outside (adm_buffer pCtx) m m1"
          unfolding m1_def by (rule same_outside_zero_range [OF fits(2)])
        have "{data..<data + 6} \<subseteq> adm_buffer pCtx" using page(3) by auto
        then have f2: "same_outside (adm_buffer pCtx) m
            (wr8 (data + 5) 0 (wr8 (data + 4) 10 (wr8 (data + 3) 100 (wr16 (data + 1) 298 m1))))"
          using f1 by (intro same_outside_step) auto
        show ?thesis
          using True Some fits(1) page(2) f1 f2 by (auto simp: AdminCmdGetLogPage_def Let_def m1_def)
      qed (use Some in \<open>simp add: AdminCmdGetLogPage_def Let_def\<close>)
    qed (simp add: AdminCmdGetLogPage_def Let_def)
  qed
qed

lemma admin_handler_answers:
  assumes "adm_wf pCtx" "admin_handler opc = Some handler"
  shows "admin_answers pCtx pCmd handler"
  using assms(2) AdminCmdIdentify_answers [OF assms(1)] queue_handlers_answer [OF assms(1)]
    feature_handlers_answer [OF assms(1)] AdminCmdGetLogPage_answers [OF assms(1)]
  by (auto simp: admin_handler_def split: if_split_asm)

end
