(* ===== verification/Vnvme_Backend.thy ===== *)
theory Vnvme_Backend
  imports Vnvme_Storage
begin

text \<open>
  \<^verbatim>\<open>vnvme-server/backend.h\<close>, \<^verbatim>\<open>backend_common.c\<close>, \<^verbatim>\<open>backend_memory.c\<close> and \<^verbatim>\<open>backend_file.c\<close>: the storage of the
  user-mode service. A back end is a memory block or an open file; the functions of \<^verbatim>\<open>backend_common.c\<close> dispatch on
  the type tag that both contexts start with, here the constructor. The file functions of Windows are
  arguments (\<open>win_os\<close>). A buffer that a function fills is part of its result: the bytes stored from its start.
  The critical sections serialise the calls and are not modelled; neither is logging.
\<close>

section \<open>Data\<close>

datatype BACKEND_TYPE = BACKEND_TYPE_MEMORY | BACKEND_TYPE_FILE | BACKEND_TYPE_MAX

record BACKEND_CONFIG =
  bc_Type :: BACKEND_TYPE
  bc_Size :: u64
  bc_FilePath :: "u16 list"
  bc_ReadOnly :: bool
  bc_BlockSize :: u32
  bc_DirectIO :: bool
  bc_Preallocate :: bool

record MEMORY_BACKEND_CONTEXT =
  mb_Size :: u64
  mb_BlockSize :: u32
  mb_ReadOnly :: bool
  mb_Data :: "mem option"

text \<open>An open file: its bytes and the file pointer of the handle.\<close>

record win_file =
  wf_data :: mem
  wf_pos :: u64

record FILE_BACKEND_CONTEXT =
  fb_Size :: u64
  fb_BlockSize :: u32
  fb_ReadOnly :: bool
  fb_DirectIO :: bool
  fb_Preallocate :: bool
  fb_FileHandle :: "win_file option" \<comment> \<open>\<open>None\<close> is \<open>INVALID_HANDLE_VALUE\<close>\<close>
  fb_FilePath :: "u16 list"

datatype BACKEND_CONTEXT = Memory_Backend MEMORY_BACKEND_CONTEXT | File_Backend FILE_BACKEND_CONTEXT

text \<open>
  The file services: the success flag; for \<open>ReadFile\<close> and \<open>WriteFile\<close> the count of bytes they report, for \<open>ReadFile\<close> what
  it stored in the buffer; and the file afterwards.
\<close>

record win_os =
  w_SetFilePointerEx :: "win_file \<Rightarrow> u64 \<Rightarrow> bool \<times> win_file"
  w_ReadFile :: "win_file \<Rightarrow> u32 \<Rightarrow> bool \<times> u32 \<times> u8 list \<times> win_file"
  w_WriteFile :: "win_file \<Rightarrow> u8 list \<Rightarrow> bool \<times> u32 \<times> win_file"
  w_FlushFileBuffers :: "win_file \<Rightarrow> bool"

section \<open>The memory back end\<close>

text \<open>\<open>offset + size\<close> is a 64-bit sum and wraps; a copy that leaves the block is a fault.\<close>

definition MemoryBackendRead :: "MEMORY_BACKEND_CONTEXT \<Rightarrow> u64 \<Rightarrow> u32 \<Rightarrow> (bool \<times> u8 list) option" where
  "MemoryBackendRead pMemCtx offset len =
     (case mb_Data pMemCtx of
        None \<Rightarrow> Some (False, [])
      | Some m \<Rightarrow>
          if offset + ucast len > mb_Size pMemCtx then Some (False, [])
          else do {
            check (unat offset + unat len \<le> unat (mb_Size pMemCtx));
            Some (True, rd_bytes m (unat offset) (unat len))
          })"

definition MemoryBackendWrite ::
  "MEMORY_BACKEND_CONTEXT \<Rightarrow> u64 \<Rightarrow> u8 list \<Rightarrow> u32 \<Rightarrow> (bool \<times> MEMORY_BACKEND_CONTEXT) option" where
  "MemoryBackendWrite pMemCtx offset buffer len =
     (case mb_Data pMemCtx of
        None \<Rightarrow> Some (False, pMemCtx)
      | Some m \<Rightarrow>
          if mb_ReadOnly pMemCtx then Some (False, pMemCtx)
          else if offset + ucast len > mb_Size pMemCtx then Some (False, pMemCtx)
          else do {
            check (unat len \<le> length buffer);
            check (unat offset + unat len \<le> unat (mb_Size pMemCtx));
            Some (True, pMemCtx\<lparr>mb_Data := Some (wr_bytes (unat offset) (take (unat len) buffer) m)\<rparr>)
          })"

definition MemoryBackendFlush :: "MEMORY_BACKEND_CONTEXT \<Rightarrow> bool" where
  "MemoryBackendFlush pMemCtx = True"

definition MemoryBackendWriteZeroes ::
  "MEMORY_BACKEND_CONTEXT \<Rightarrow> u64 \<Rightarrow> u64 \<Rightarrow> (bool \<times> MEMORY_BACKEND_CONTEXT) option" where
  "MemoryBackendWriteZeroes pMemCtx offset len =
     (case mb_Data pMemCtx of
        None \<Rightarrow> Some (False, pMemCtx)
      | Some m \<Rightarrow>
          if mb_ReadOnly pMemCtx then Some (False, pMemCtx)
          else if offset + len > mb_Size pMemCtx then Some (False, pMemCtx)
          else do {
            check (unat offset + unat len \<le> unat (mb_Size pMemCtx));
            Some (True, pMemCtx\<lparr>mb_Data := Some (zero_range (unat offset) (unat len) m)\<rparr>)
          })"

definition MemoryBackendGetSize :: "MEMORY_BACKEND_CONTEXT \<Rightarrow> u64" where
  "MemoryBackendGetSize pMemCtx = mb_Size pMemCtx"

definition MemoryBackendGetBlockSize :: "MEMORY_BACKEND_CONTEXT \<Rightarrow> u32" where
  "MemoryBackendGetBlockSize pMemCtx = mb_BlockSize pMemCtx"

definition MemoryBackendIsReadOnly :: "MEMORY_BACKEND_CONTEXT \<Rightarrow> bool" where
  "MemoryBackendIsReadOnly pMemCtx = mb_ReadOnly pMemCtx"

text \<open>\<open>calloc_ok\<close> and \<open>virtual_alloc\<close> are the answers of the two allocators.\<close>

definition BackendMemoryCreate ::
  "bool \<Rightarrow> (nat \<Rightarrow> bool) \<Rightarrow> BACKEND_CONFIG \<Rightarrow> BACKEND_CONTEXT option" where
  "BackendMemoryCreate calloc_ok virtual_alloc pConfig =
     (if bc_Size pConfig = 0 then None
      else
        let maxSize = 4 * 1024 * 1024 * 1024;
            actualSize = (if bc_Size pConfig > maxSize then maxSize else bc_Size pConfig)
        in if \<not> calloc_ok then None
           else if \<not> virtual_alloc (unat actualSize) then None
           else Some (Memory_Backend
             \<lparr>mb_Size = actualSize, mb_BlockSize = (if bc_BlockSize pConfig > 0 then bc_BlockSize pConfig else 512),
              mb_ReadOnly = bc_ReadOnly pConfig, mb_Data = Some (\<lambda>_. 0)\<rparr>))"

text \<open>The contexts as they are when they are freed.\<close>

definition BackendMemoryDestroy :: "MEMORY_BACKEND_CONTEXT \<Rightarrow> MEMORY_BACKEND_CONTEXT" where
  "BackendMemoryDestroy pMemCtx = (if mb_Data pMemCtx \<noteq> None then pMemCtx\<lparr>mb_Data := None\<rparr> else pMemCtx)"

section \<open>The file back end\<close>

definition FileBackendRead ::
  "win_os \<Rightarrow> FILE_BACKEND_CONTEXT \<Rightarrow> u64 \<Rightarrow> u32 \<Rightarrow> bool \<times> u8 list \<times> FILE_BACKEND_CONTEXT" where
  "FileBackendRead os pFileCtx offset len =
     (case fb_FileHandle pFileCtx of
        None \<Rightarrow> (False, [], pFileCtx)
      | Some f \<Rightarrow>
          if offset + ucast len > fb_Size pFileCtx then (False, [], pFileCtx)
          else
            let (moved, f) = w_SetFilePointerEx os f offset in
            if \<not> moved then (False, [], pFileCtx\<lparr>fb_FileHandle := Some f\<rparr>)
            else
              let (result, bytesRead, bs, f) = w_ReadFile os f len;
                  pFileCtx = pFileCtx\<lparr>fb_FileHandle := Some f\<rparr>
              in if \<not> result \<or> bytesRead \<noteq> len then (False, bs, pFileCtx) else (True, bs, pFileCtx))"

definition FileBackendWrite ::
  "win_os \<Rightarrow> FILE_BACKEND_CONTEXT \<Rightarrow> u64 \<Rightarrow> u8 list \<Rightarrow> u32 \<Rightarrow> (bool \<times> FILE_BACKEND_CONTEXT) option" where
  "FileBackendWrite os pFileCtx offset buffer len =
     (case fb_FileHandle pFileCtx of
        None \<Rightarrow> Some (False, pFileCtx)
      | Some f \<Rightarrow>
          if fb_ReadOnly pFileCtx then Some (False, pFileCtx)
          else if offset + ucast len > fb_Size pFileCtx then Some (False, pFileCtx)
          else
            let (moved, f) = w_SetFilePointerEx os f offset in
            if \<not> moved then Some (False, pFileCtx\<lparr>fb_FileHandle := Some f\<rparr>)
            else do {
              check (unat len \<le> length buffer);
              let (result, bytesWritten, f) = w_WriteFile os f (take (unat len) buffer);
              let pFileCtx = pFileCtx\<lparr>fb_FileHandle := Some f\<rparr>;
              Some (\<not> (\<not> result \<or> bytesWritten \<noteq> len), pFileCtx)
            })"

definition FileBackendFlush :: "win_os \<Rightarrow> FILE_BACKEND_CONTEXT \<Rightarrow> bool" where
  "FileBackendFlush os pFileCtx =
     (case fb_FileHandle pFileCtx of None \<Rightarrow> False | Some f \<Rightarrow> w_FlushFileBuffers os f)"

text \<open>The loop of \<open>FileBackendWriteZeroes\<close>: at most 64 KiB at a time, at the file pointer.\<close>

definition zero_chunk :: "u64 \<Rightarrow> u32" where
  "zero_chunk remaining = ucast (if remaining > 65536 then 65536 else remaining)"

lemma zero_chunk_size:
  assumes "remaining > 0"
  shows "0 < unat (zero_chunk remaining)" "unat (zero_chunk remaining) \<le> unat remaining"
    "unat (zero_chunk remaining) \<le> 65536"
    "unat (remaining - ucast (zero_chunk remaining)) = unat remaining - unat (zero_chunk remaining)"
proof -
  have "unat (zero_chunk remaining) = min 65536 (unat remaining)"
    by (simp add: zero_chunk_def word_less_nat_alt unsigned_ucast_eq take_bit_nat_eq_self min_def)
  moreover have "0 < unat remaining" using assms(1) by (simp add: word_less_nat_alt)
  ultimately show "0 < unat (zero_chunk remaining)" "unat (zero_chunk remaining) \<le> unat remaining"
    "unat (zero_chunk remaining) \<le> 65536"
    by simp_all
  then show "unat (remaining - ucast (zero_chunk remaining)) = unat remaining - unat (zero_chunk remaining)"
    by (simp add: unat_sub_if')
qed

lemma zero_chunk_decreases:
  "remaining > 0 \<Longrightarrow> unat (remaining - ucast (zero_chunk remaining)) < unat remaining"
  using zero_chunk_size [of remaining] by simp

function file_zero_loop :: "win_os \<Rightarrow> u64 \<Rightarrow> win_file \<Rightarrow> bool \<times> win_file" where
  "file_zero_loop os remaining f =
     (if remaining > 0 then
        let toWrite = zero_chunk remaining;
            (result, bytesWritten, f) = w_WriteFile os f (replicate (unat toWrite) 0)
        in if \<not> result \<or> bytesWritten \<noteq> toWrite then (False, f)
           else file_zero_loop os (remaining - ucast toWrite) f
      else (True, f))"
  by pat_completeness auto

termination file_zero_loop
proof (relation "measure (\<lambda>(_, remaining, _). unat remaining)")
  show "wf (measure (\<lambda>(_ :: win_os, remaining :: u64, _ :: win_file). unat remaining))" by simp
qed (simp add: zero_chunk_decreases)

declare file_zero_loop.simps [simp del]

definition FileBackendWriteZeroes ::
  "win_os \<Rightarrow> FILE_BACKEND_CONTEXT \<Rightarrow> u64 \<Rightarrow> u64 \<Rightarrow> bool \<times> FILE_BACKEND_CONTEXT" where
  "FileBackendWriteZeroes os pFileCtx offset len =
     (case fb_FileHandle pFileCtx of
        None \<Rightarrow> (False, pFileCtx)
      | Some f \<Rightarrow>
          if fb_ReadOnly pFileCtx then (False, pFileCtx)
          else if offset + len > fb_Size pFileCtx then (False, pFileCtx)
          else
            let (moved, f) = w_SetFilePointerEx os f offset in
            if \<not> moved then (False, pFileCtx\<lparr>fb_FileHandle := Some f\<rparr>)
            else
              let (result, f) = file_zero_loop os len f
              in (result, pFileCtx\<lparr>fb_FileHandle := Some f\<rparr>))"

definition FileBackendGetSize :: "FILE_BACKEND_CONTEXT \<Rightarrow> u64" where
  "FileBackendGetSize pFileCtx = fb_Size pFileCtx"

definition FileBackendGetBlockSize :: "FILE_BACKEND_CONTEXT \<Rightarrow> u32" where
  "FileBackendGetBlockSize pFileCtx = fb_BlockSize pFileCtx"

definition FileBackendIsReadOnly :: "FILE_BACKEND_CONTEXT \<Rightarrow> bool" where
  "FileBackendIsReadOnly pFileCtx = fb_ReadOnly pFileCtx"

text \<open>
  What the system answers while the file is opened: \<open>calloc\<close>, \<open>CreateFileW\<close> (with the access asked for),
  \<open>GetFileSizeEx\<close>, \<open>SetEndOfFile\<close> and \<open>SetFileValidData\<close>, whose failure is only logged.
\<close>

record win_open_os =
  wo_calloc :: bool
  wo_CreateFile :: "bool \<Rightarrow> bool \<Rightarrow> win_file option"
  wo_GetFileSize :: "win_file \<Rightarrow> u64 option"
  wo_SetEndOfFile :: "win_file \<Rightarrow> bool \<times> win_file"
  wo_SetFileValidData :: "win_file \<Rightarrow> u64 \<Rightarrow> win_file"

definition BackendFileCreate :: "win_os \<Rightarrow> win_open_os \<Rightarrow> BACKEND_CONFIG \<Rightarrow> BACKEND_CONTEXT option" where
  "BackendFileCreate os oo pConfig =
     (if bc_Size pConfig = 0 \<or> bc_FilePath pConfig = [] \<or> \<not> wo_calloc oo then None
      else
        let pCtx = \<lparr>fb_Size = bc_Size pConfig,
              fb_BlockSize = (if bc_BlockSize pConfig > 0 then bc_BlockSize pConfig else 512),
              fb_ReadOnly = bc_ReadOnly pConfig, fb_DirectIO = bc_DirectIO pConfig,
              fb_Preallocate = bc_Preallocate pConfig, fb_FileHandle = None, fb_FilePath = bc_FilePath pConfig\<rparr>
        in do {
          f \<leftarrow> wo_CreateFile oo (bc_ReadOnly pConfig) (bc_DirectIO pConfig);
          fileSize \<leftarrow> wo_GetFileSize oo f;
          if fileSize < bc_Size pConfig \<and> \<not> bc_ReadOnly pConfig then do {
            let (moved, f) = w_SetFilePointerEx os f (bc_Size pConfig);
            check moved;
            let (extended, f) = wo_SetEndOfFile oo f;
            check extended;
            let f = (if bc_Preallocate pConfig then wo_SetFileValidData oo f (bc_Size pConfig) else f);
            Some (File_Backend (pCtx\<lparr>fb_FileHandle := Some f\<rparr>))
          }
          else if fileSize > 0 \<and> fileSize < bc_Size pConfig
          then Some (File_Backend (pCtx\<lparr>fb_FileHandle := Some f, fb_Size := fileSize\<rparr>))
          else Some (File_Backend (pCtx\<lparr>fb_FileHandle := Some f\<rparr>))
        })"

definition BackendFileDestroy :: "FILE_BACKEND_CONTEXT \<Rightarrow> FILE_BACKEND_CONTEXT" where
  "BackendFileDestroy pFileCtx =
     (if fb_FileHandle pFileCtx \<noteq> None then pFileCtx\<lparr>fb_FileHandle := None\<rparr> else pFileCtx)"

section \<open>Dispatch\<close>

text \<open>A null pointer is \<open>None\<close>; the result of creating a back end is \<open>None\<close> for a null pointer, too.\<close>

definition BackendCreate ::
  "bool \<Rightarrow> (nat \<Rightarrow> bool) \<Rightarrow> win_os \<Rightarrow> win_open_os \<Rightarrow> BACKEND_CONFIG option \<Rightarrow> BACKEND_CONTEXT option" where
  "BackendCreate calloc_ok virtual_alloc os oo pConfig =
     (case pConfig of
        None \<Rightarrow> None
      | Some cfg \<Rightarrow>
          (case bc_Type cfg of
             BACKEND_TYPE_MEMORY \<Rightarrow> BackendMemoryCreate calloc_ok virtual_alloc cfg
           | BACKEND_TYPE_FILE \<Rightarrow> BackendFileCreate os oo cfg
           | _ \<Rightarrow> None))"

definition BackendDestroy :: "BACKEND_CONTEXT option \<Rightarrow> BACKEND_CONTEXT option" where
  "BackendDestroy pCtx =
     (case pCtx of
        None \<Rightarrow> None
      | Some (Memory_Backend b) \<Rightarrow> Some (Memory_Backend (BackendMemoryDestroy b))
      | Some (File_Backend b) \<Rightarrow> Some (File_Backend (BackendFileDestroy b)))"

definition BackendRead ::
  "win_os \<Rightarrow> BACKEND_CONTEXT option \<Rightarrow> u64 \<Rightarrow> u32 \<Rightarrow> (bool \<times> u8 list \<times> BACKEND_CONTEXT option) option" where
  "BackendRead os pCtx offset len =
     (case pCtx of
        None \<Rightarrow> Some (False, [], None)
      | Some (Memory_Backend b) \<Rightarrow> do {
          (ok, bs) \<leftarrow> MemoryBackendRead b offset len;
          Some (ok, bs, pCtx)
        }
      | Some (File_Backend b) \<Rightarrow>
          let (ok, bs, b) = FileBackendRead os b offset len in Some (ok, bs, Some (File_Backend b)))"

definition BackendWrite ::
  "win_os \<Rightarrow> BACKEND_CONTEXT option \<Rightarrow> u64 \<Rightarrow> u8 list \<Rightarrow> u32 \<Rightarrow> (bool \<times> BACKEND_CONTEXT option) option" where
  "BackendWrite os pCtx offset buffer len =
     (case pCtx of
        None \<Rightarrow> Some (False, None)
      | Some (Memory_Backend b) \<Rightarrow> do {
          (ok, b) \<leftarrow> MemoryBackendWrite b offset buffer len;
          Some (ok, Some (Memory_Backend b))
        }
      | Some (File_Backend b) \<Rightarrow> do {
          (ok, b) \<leftarrow> FileBackendWrite os b offset buffer len;
          Some (ok, Some (File_Backend b))
        })"

definition BackendFlush :: "win_os \<Rightarrow> BACKEND_CONTEXT option \<Rightarrow> bool" where
  "BackendFlush os pCtx =
     (case pCtx of
        None \<Rightarrow> False
      | Some (Memory_Backend b) \<Rightarrow> MemoryBackendFlush b
      | Some (File_Backend b) \<Rightarrow> FileBackendFlush os b)"

definition BackendWriteZeroes ::
  "win_os \<Rightarrow> BACKEND_CONTEXT option \<Rightarrow> u64 \<Rightarrow> u64 \<Rightarrow> (bool \<times> BACKEND_CONTEXT option) option" where
  "BackendWriteZeroes os pCtx offset len =
     (case pCtx of
        None \<Rightarrow> Some (False, None)
      | Some (Memory_Backend b) \<Rightarrow> do {
          (ok, b) \<leftarrow> MemoryBackendWriteZeroes b offset len;
          Some (ok, Some (Memory_Backend b))
        }
      | Some (File_Backend b) \<Rightarrow>
          let (ok, b) = FileBackendWriteZeroes os b offset len in Some (ok, Some (File_Backend b)))"

definition BackendGetSize :: "BACKEND_CONTEXT option \<Rightarrow> u64" where
  "BackendGetSize pCtx =
     (case pCtx of
        None \<Rightarrow> 0
      | Some (Memory_Backend b) \<Rightarrow> MemoryBackendGetSize b
      | Some (File_Backend b) \<Rightarrow> FileBackendGetSize b)"

definition BackendGetBlockSize :: "BACKEND_CONTEXT option \<Rightarrow> u32" where
  "BackendGetBlockSize pCtx =
     (case pCtx of
        None \<Rightarrow> 512
      | Some (Memory_Backend b) \<Rightarrow> MemoryBackendGetBlockSize b
      | Some (File_Backend b) \<Rightarrow> FileBackendGetBlockSize b)"

definition BackendIsReadOnly :: "BACKEND_CONTEXT option \<Rightarrow> bool" where
  "BackendIsReadOnly pCtx =
     (case pCtx of
        None \<Rightarrow> True
      | Some (Memory_Backend b) \<Rightarrow> MemoryBackendIsReadOnly b
      | Some (File_Backend b) \<Rightarrow> FileBackendIsReadOnly b)"

definition BackendGetTypeName :: "BACKEND_TYPE \<Rightarrow> string" where
  "BackendGetTypeName type =
     (case type of BACKEND_TYPE_MEMORY \<Rightarrow> ''memory'' | BACKEND_TYPE_FILE \<Rightarrow> ''file'' | _ \<Rightarrow> ''unknown'')"

section \<open>Both back ends are byte arrays\<close>

text \<open>
  Documented behaviour of the file services: moving the file pointer changes no data; a read that reports all the bytes
  asked for delivers the bytes at the file pointer, and never stores more than was asked for; a write that reports all
  its bytes stored them at the file pointer and moved it behind them, and no write touches other bytes.
\<close>

definition win_os_ok :: "win_os \<Rightarrow> bool" where
  "win_os_ok os \<longleftrightarrow>
     (\<forall>f off moved f'. w_SetFilePointerEx os f off = (moved, f') \<longrightarrow>
        wf_data f' = wf_data f \<and> (moved \<longrightarrow> wf_pos f' = off))
     \<and> (\<forall>f n result k bs f'. w_ReadFile os f n = (result, k, bs, f') \<longrightarrow>
        wf_data f' = wf_data f \<and> length bs \<le> unat n
        \<and> (result \<and> k = n \<longrightarrow> bs = rd_bytes (wf_data f) (unat (wf_pos f)) (unat n)))
     \<and> (\<forall>f bs result k f'. w_WriteFile os f bs = (result, k, f') \<longrightarrow>
        same_outside {unat (wf_pos f)..<unat (wf_pos f) + length bs} (wf_data f) (wf_data f')
        \<and> (result \<and> k = of_nat (length bs) \<longrightarrow>
             wf_data f' = wr_bytes (unat (wf_pos f)) bs (wf_data f) \<and> wf_pos f' = wf_pos f + of_nat (length bs)))"

text \<open>Services that always succeed.\<close>

definition win_all_ok :: win_os where
  "win_all_ok = \<lparr>w_SetFilePointerEx = (\<lambda>f off. (True, f\<lparr>wf_pos := off\<rparr>)),
     w_ReadFile = (\<lambda>f n. (True, n, rd_bytes (wf_data f) (unat (wf_pos f)) (unat n), f\<lparr>wf_pos := wf_pos f + ucast n\<rparr>)),
     w_WriteFile = (\<lambda>f bs. (True, of_nat (length bs),
       f\<lparr>wf_data := wr_bytes (unat (wf_pos f)) bs (wf_data f), wf_pos := wf_pos f + of_nat (length bs)\<rparr>)),
     w_FlushFileBuffers = (\<lambda>_. True)\<rparr>"

lemma win_os_ok_all_ok: "win_os_ok win_all_ok"
  by (auto simp: win_os_ok_def win_all_ok_def intro: same_outside_wr_bytes)

definition backend_contents :: "BACKEND_CONTEXT option \<Rightarrow> mem" where
  "backend_contents B =
     (case B of
        Some (Memory_Backend b) \<Rightarrow> (case mb_Data b of None \<Rightarrow> (\<lambda>_. 0) | Some m \<Rightarrow> m)
      | Some (File_Backend b) \<Rightarrow> (case fb_FileHandle b of None \<Rightarrow> (\<lambda>_. 0) | Some f \<Rightarrow> wf_data f)
      | None \<Rightarrow> (\<lambda>_. 0))"

definition backend_capacity :: "BACKEND_CONTEXT option \<Rightarrow> nat" where
  "backend_capacity B = unat (BackendGetSize B)"

definition backend_ok :: "BACKEND_CONTEXT option \<Rightarrow> bool" where
  "backend_ok B =
     (case B of
        Some (Memory_Backend b) \<Rightarrow> mb_Data b \<noteq> None
      | Some (File_Backend b) \<Rightarrow> fb_FileHandle b \<noteq> None
      | None \<Rightarrow> False)"

lemma backend_cases:
  assumes "backend_ok B"
  obtains (memory) b m where "B = Some (Memory_Backend b)" "mb_Data b = Some m"
    | (file_b) b f where "B = Some (File_Backend b)" "fb_FileHandle b = Some f"
  using assms by (auto simp: backend_ok_def split: option.splits BACKEND_CONTEXT.splits)

lemmas backend_defs = backend_contents_def backend_capacity_def backend_ok_def BackendGetSize_def
  MemoryBackendGetSize_def FileBackendGetSize_def BackendRead_def BackendWrite_def BackendWriteZeroes_def

lemma range_test_passes64:
  fixes off len size :: u64
  assumes "unat off + unat len \<le> unat size"
  shows "\<not> off + len > size"
  using assms unat_u64_bound [of size] by (simp add: word_less_nat_alt unat_word_ariths)

lemma WriteFile_law:
  assumes "win_os_ok os" "w_WriteFile os f bs = (result, k, f')"
  shows "same_outside {unat (wf_pos f)..<unat (wf_pos f) + length bs} (wf_data f) (wf_data f')"
    "result \<and> k = of_nat (length bs) \<Longrightarrow>
       wf_data f' = wr_bytes (unat (wf_pos f)) bs (wf_data f) \<and> wf_pos f' = wf_pos f + of_nat (length bs)"
  using assms unfolding win_os_ok_def by blast+

lemma FileBackendRead_law:
  assumes "win_os_ok os" "fb_FileHandle b = Some f" "unat off + unat len \<le> unat (fb_Size b)"
  shows "\<exists>ok bs f'. FileBackendRead os b off len = (ok, bs, b\<lparr>fb_FileHandle := Some f'\<rparr>) \<and> wf_data f' = wf_data f
    \<and> length bs \<le> unat len \<and> (ok \<longrightarrow> bs = rd_bytes (wf_data f) (unat off) (unat len))"
proof -
  obtain moved f1 where m: "w_SetFilePointerEx os f off = (moved, f1)" by fastforce
  obtain result k bs f2 where r: "w_ReadFile os f1 len = (result, k, bs, f2)" by (metis prod_cases4)
  have "wf_data f1 = wf_data f" "moved \<Longrightarrow> wf_pos f1 = off" "wf_data f2 = wf_data f1" "length bs \<le> unat len"
    "result \<and> k = len \<Longrightarrow> bs = rd_bytes (wf_data f1) (unat (wf_pos f1)) (unat len)"
    using assms(1) m r unfolding win_os_ok_def by blast+
  with m r assms(2) range_test_passes [OF assms(3)] show ?thesis
    by (auto simp: FileBackendRead_def Let_def)
qed

lemma same_handle: "fb_FileHandle b = Some f \<Longrightarrow> b\<lparr>fb_FileHandle := Some f\<rparr> = b"
  by simp

lemma FileBackendWrite_law:
  assumes "win_os_ok os" "fb_FileHandle b = Some f" "unat off + unat len \<le> unat (fb_Size b)" "length bs = unat len"
  shows "\<exists>ok f'. FileBackendWrite os b off bs len = Some (ok, b\<lparr>fb_FileHandle := Some f'\<rparr>)
    \<and> same_outside {unat off..<unat off + unat len} (wf_data f) (wf_data f')
    \<and> (ok \<longrightarrow> wf_data f' = wr_bytes (unat off) bs (wf_data f))"
proof -
  obtain moved f1 where m: "w_SetFilePointerEx os f off = (moved, f1)" by fastforce
  obtain result k f2 where r: "w_WriteFile os f1 bs = (result, k, f2)" by (metis prod_cases3)
  have os: "wf_data f1 = wf_data f" "moved \<Longrightarrow> wf_pos f1 = off"
    "same_outside {unat (wf_pos f1)..<unat (wf_pos f1) + length bs} (wf_data f1) (wf_data f2)"
    "result \<and> k = of_nat (length bs) \<Longrightarrow> wf_data f2 = wr_bytes (unat (wf_pos f1)) bs (wf_data f1)"
    using assms(1) m r unfolding win_os_ok_def by blast+
  note run = FileBackendWrite_def assms(2,4) range_test_passes [OF assms(3)] m
  consider "fb_ReadOnly b" | "\<not> fb_ReadOnly b" "\<not> moved" | "\<not> fb_ReadOnly b" "moved" by blast
  then show ?thesis
  proof cases
    case 1
    then have "FileBackendWrite os b off bs len = Some (False, b\<lparr>fb_FileHandle := Some f\<rparr>)"
      using same_handle [OF assms(2)] by (simp add: run)
    then show ?thesis by blast
  next
    case 2
    then have "FileBackendWrite os b off bs len = Some (False, b\<lparr>fb_FileHandle := Some f1\<rparr>)"
      by (simp add: run)
    then show ?thesis using os(1) by (intro exI [of _ False] exI [of _ f1]) simp
  next
    case 3
    then have "FileBackendWrite os b off bs len
        = Some (result \<and> k = len, b\<lparr>fb_FileHandle := Some f2\<rparr>)"
      by (simp add: run r)
    then show ?thesis using os 3 assms(4) by (intro exI [of _ "result \<and> k = len"] exI [of _ f2]) simp
  qed
qed

lemma file_zero_loop_law:
  assumes "win_os_ok os" "unat (wf_pos f) + unat remaining < 2 ^ 64"
  shows "\<exists>ok f'. file_zero_loop os remaining f = (ok, f')
    \<and> same_outside {unat (wf_pos f)..<unat (wf_pos f) + unat remaining} (wf_data f) (wf_data f')
    \<and> (ok \<longrightarrow> wf_data f' = zero_range (unat (wf_pos f)) (unat remaining) (wf_data f))"
  using assms(2)
proof (induction "unat remaining" arbitrary: remaining f rule: less_induct)
  case less
  show ?case
  proof (cases "remaining > 0")
    case False
    then show ?thesis by (subst file_zero_loop.simps) (auto simp: word_gt_0)
  next
    case True
    let ?n = "zero_chunk remaining"
    note n = zero_chunk_size [OF True]
    obtain result k f1 where w: "w_WriteFile os f (replicate (unat ?n) 0) = (result, k, f1)" by (metis prod_cases3)
    have os: "same_outside {unat (wf_pos f)..<unat (wf_pos f) + unat ?n} (wf_data f) (wf_data f1)"
      "result \<and> k = ?n \<Longrightarrow> wf_data f1 = wr_bytes (unat (wf_pos f)) (replicate (unat ?n) 0) (wf_data f)
         \<and> wf_pos f1 = wf_pos f + of_nat (unat ?n)"
      using WriteFile_law [OF assms(1) w] by simp_all
    show ?thesis
    proof (cases "result \<and> k = ?n")
      case False
      then have "file_zero_loop os remaining f = (False, f1)"
        using True w by (subst file_zero_loop.simps) auto
      with same_outside_mono [OF os(1)] n(2) show ?thesis by auto
    next
      case ok: True
      have pos: "unat (wf_pos f1) = unat (wf_pos f) + unat ?n"
        using os(2) [OF ok] n(2) less.prems by (simp add: unat_word_ariths)
      from less.hyps [OF zero_chunk_decreases [OF True], of f1] pos n(2,4) less.prems
      obtain ok' f' where z: "file_zero_loop os (remaining - ucast ?n) f1 = (ok', f')"
        "same_outside {unat (wf_pos f) + unat ?n..<unat (wf_pos f) + unat remaining} (wf_data f1) (wf_data f')"
        "ok' \<longrightarrow> wf_data f' = zero_range (unat (wf_pos f) + unat ?n) (unat remaining - unat ?n) (wf_data f1)"
        by auto
      have "file_zero_loop os remaining f = (ok', f')"
        using True w ok z(1) by (subst file_zero_loop.simps) (simp add: Let_def)
      moreover have "same_outside {unat (wf_pos f)..<unat (wf_pos f) + unat remaining} (wf_data f) (wf_data f')"
        using os(1) z(2) n(2) by (auto simp: same_outside_def)
      ultimately show ?thesis
        using z(3) os(2) [OF ok] n(2) by (auto simp: wr_bytes_replicate_zero zero_range_zero_range)
    qed
  qed
qed

lemma FileBackendWriteZeroes_law:
  assumes "win_os_ok os" "fb_FileHandle b = Some f" "unat off + unat len \<le> unat (fb_Size b)"
  shows "\<exists>ok f'. FileBackendWriteZeroes os b off len = (ok, b\<lparr>fb_FileHandle := Some f'\<rparr>)
    \<and> same_outside {unat off..<unat off + unat len} (wf_data f) (wf_data f')
    \<and> (ok \<longrightarrow> wf_data f' = zero_range (unat off) (unat len) (wf_data f))"
proof -
  obtain moved f1 where m: "w_SetFilePointerEx os f off = (moved, f1)" by fastforce
  have os: "wf_data f1 = wf_data f" "moved \<Longrightarrow> wf_pos f1 = off"
    using assms(1) m unfolding win_os_ok_def by blast+
  note run = FileBackendWriteZeroes_def assms(2) range_test_passes64 [OF assms(3)] m
  have "unat off + unat len < 2 ^ 64" using assms(3) unat_u64_bound [of "fb_Size b"] by simp
  with file_zero_loop_law [OF assms(1), of f1 len] os obtain ok f2 where
    z: "moved \<Longrightarrow> file_zero_loop os len f1 = (ok, f2)
      \<and> same_outside {unat off..<unat off + unat len} (wf_data f) (wf_data f2)
      \<and> (ok \<longrightarrow> wf_data f2 = zero_range (unat off) (unat len) (wf_data f))"
    by fastforce
  consider "fb_ReadOnly b" | "\<not> fb_ReadOnly b" "\<not> moved" | "\<not> fb_ReadOnly b" "moved" by blast
  then show ?thesis
  proof cases
    case 1
    then have "FileBackendWriteZeroes os b off len = (False, b\<lparr>fb_FileHandle := Some f\<rparr>)"
      using same_handle [OF assms(2)] by (simp add: run)
    then show ?thesis by blast
  next
    case 2
    then have "FileBackendWriteZeroes os b off len = (False, b\<lparr>fb_FileHandle := Some f1\<rparr>)"
      by (simp add: run)
    then show ?thesis using os(1) by (intro exI [of _ False] exI [of _ f1]) simp
  next
    case 3
    then have "FileBackendWriteZeroes os b off len = (ok, b\<lparr>fb_FileHandle := Some f2\<rparr>)"
      using z by (simp add: run)
    then show ?thesis using z 3 by (intro exI [of _ ok] exI [of _ f2]) simp
  qed
qed

lemma BackendRead_law:
  assumes "win_os_ok os" "backend_ok B" "unat off + unat len \<le> backend_capacity B"
  shows "\<exists>ok bs B'. BackendRead os B off len = Some (ok, bs, B') \<and> backend_ok B' \<and> backend_capacity B' = backend_capacity B
    \<and> backend_contents B' = backend_contents B \<and> length bs \<le> unat len \<and> BackendIsReadOnly B' = BackendIsReadOnly B
    \<and> (ok \<longrightarrow> bs = rd_bytes (backend_contents B) (unat off) (unat len))
    \<and> ((\<exists>b. B = Some (Memory_Backend b)) \<longrightarrow> ok)"
  using assms(2)
proof (cases rule: backend_cases)
  case (memory b m)
  with assms(3) range_test_passes [of off len "mb_Size b"] show ?thesis
    by (auto simp: backend_defs MemoryBackendRead_def)
next
  case (file_b b f)
  with FileBackendRead_law [OF assms(1), of b f off len] assms(3) obtain ok bs f' where
    "FileBackendRead os b off len = (ok, bs, b\<lparr>fb_FileHandle := Some f'\<rparr>)" "wf_data f' = wf_data f" "length bs \<le> unat len"
    "ok \<longrightarrow> bs = rd_bytes (wf_data f) (unat off) (unat len)"
    by (auto simp: backend_defs)
  with file_b show ?thesis
    by (simp add: backend_defs BackendIsReadOnly_def FileBackendIsReadOnly_def)
qed

lemma BackendWrite_law:
  assumes "win_os_ok os" "backend_ok B" "unat off + unat len \<le> backend_capacity B" "length bs = unat len"
  shows "\<exists>ok B'. BackendWrite os B off bs len = Some (ok, B') \<and> backend_ok B' \<and> backend_capacity B' = backend_capacity B
    \<and> same_outside {unat off..<unat off + unat len} (backend_contents B) (backend_contents B')
    \<and> BackendIsReadOnly B' = BackendIsReadOnly B
    \<and> (ok \<longrightarrow> backend_contents B' = wr_bytes (unat off) bs (backend_contents B))
    \<and> (BackendIsReadOnly B \<longrightarrow> \<not> ok \<and> B' = B)
    \<and> ((\<exists>b. B = Some (Memory_Backend b)) \<longrightarrow> ok = (\<not> BackendIsReadOnly B))
    \<and> ((\<exists>b. B = Some (Memory_Backend b)) \<longrightarrow> (\<exists>b. B' = Some (Memory_Backend b)))"
  using assms(2)
proof (cases rule: backend_cases)
  case (memory b m)
  with assms(3,4) range_test_passes [of off len "mb_Size b"] show ?thesis
    by (auto simp: backend_defs MemoryBackendWrite_def BackendIsReadOnly_def MemoryBackendIsReadOnly_def
        intro: same_outside_wr_bytes)
next
  case (file_b b f)
  with FileBackendWrite_law [OF assms(1), of b f off len bs] assms(3,4) obtain ok f' where
    "FileBackendWrite os b off bs len = Some (ok, b\<lparr>fb_FileHandle := Some f'\<rparr>)"
    "same_outside {unat off..<unat off + unat len} (wf_data f) (wf_data f')"
    "ok \<longrightarrow> wf_data f' = wr_bytes (unat off) bs (wf_data f)"
    by (auto simp: backend_defs)
  moreover have "FileBackendWrite os b off bs len = Some (False, b)" if "fb_ReadOnly b"
    using that file_b by (simp add: FileBackendWrite_def)
  ultimately show ?thesis
    using file_b by (cases "fb_ReadOnly b") (auto simp: backend_defs BackendIsReadOnly_def FileBackendIsReadOnly_def)
qed

lemma BackendWriteZeroes_law:
  assumes "win_os_ok os" "backend_ok B" "unat off + unat len \<le> backend_capacity B"
  shows "\<exists>ok B'. BackendWriteZeroes os B off len = Some (ok, B') \<and> backend_ok B' \<and> backend_capacity B' = backend_capacity B
    \<and> same_outside {unat off..<unat off + unat len} (backend_contents B) (backend_contents B')
    \<and> (ok \<longrightarrow> backend_contents B' = zero_range (unat off) (unat len) (backend_contents B))
    \<and> (BackendIsReadOnly B \<longrightarrow> \<not> ok \<and> B' = B)
    \<and> ((\<exists>b. B = Some (Memory_Backend b)) \<longrightarrow> ok = (\<not> BackendIsReadOnly B))"
  using assms(2)
proof (cases rule: backend_cases)
  case (memory b m)
  with assms(3) range_test_passes64 [of off len "mb_Size b"] show ?thesis
    by (auto simp: backend_defs MemoryBackendWriteZeroes_def BackendIsReadOnly_def MemoryBackendIsReadOnly_def
        intro: same_outside_zero_range)
next
  case (file_b b f)
  with FileBackendWriteZeroes_law [OF assms(1), of b f off len] assms(3) obtain ok f' where
    "FileBackendWriteZeroes os b off len = (ok, b\<lparr>fb_FileHandle := Some f'\<rparr>)"
    "same_outside {unat off..<unat off + unat len} (wf_data f) (wf_data f')"
    "ok \<longrightarrow> wf_data f' = zero_range (unat off) (unat len) (wf_data f)"
    by (auto simp: backend_defs)
  moreover have "FileBackendWriteZeroes os b off len = (False, b)" if "fb_ReadOnly b"
    using that file_b by (simp add: FileBackendWriteZeroes_def)
  ultimately show ?thesis
    using file_b by (cases "fb_ReadOnly b") (auto simp: backend_defs BackendIsReadOnly_def FileBackendIsReadOnly_def)
qed

text \<open>The contract of the driver's storage holds of the service's back ends, with the flag read as a status.\<close>

definition as_status :: "bool \<Rightarrow> NTSTATUS" where
  "as_status ok = (if ok then STATUS_SUCCESS else STATUS_UNSUCCESSFUL)"

lemma NT_SUCCESS_as_status [simp]: "NT_SUCCESS (as_status ok) = ok"
  by (simp add: as_status_def)

interpretation backend: block_store
  "\<lambda>B off len. map_option (map_prod as_status id) (BackendRead os B off len)"
  "\<lambda>B off bs len. map_option (map_prod as_status id) (BackendWrite os B off bs len)"
  "\<lambda>B off len. map_option (map_prod as_status id) (BackendWriteZeroes os B off (ucast len))"
  backend_contents backend_capacity "\<lambda>B. win_os_ok os \<and> backend_ok B"
  for os
proof (unfold_locales, goal_cases)
  case (1 B off len)
  with BackendRead_law [of os B off len] obtain ok bs B' where
    "BackendRead os B off len = Some (ok, bs, B')" "backend_ok B'" "backend_capacity B' = backend_capacity B"
    "backend_contents B' = backend_contents B" "ok \<longrightarrow> bs = rd_bytes (backend_contents B) (unat off) (unat len)" by blast
  with 1 show ?case by (intro exI [of _ "as_status ok"] exI [of _ bs] exI [of _ B']) simp
next
  case (2 B off len bs)
  with BackendWrite_law [of os B off len bs] obtain ok B' where
    "BackendWrite os B off bs len = Some (ok, B')" "backend_ok B'" "backend_capacity B' = backend_capacity B"
    "same_outside {unat off..<unat off + unat len} (backend_contents B) (backend_contents B')"
    "ok \<longrightarrow> backend_contents B' = wr_bytes (unat off) bs (backend_contents B)" by blast
  with 2 show ?case by (intro exI [of _ "as_status ok"] exI [of _ B']) simp
next
  case (3 B off len)
  with BackendWriteZeroes_law [of os B off "ucast len"] obtain ok B' where
    "BackendWriteZeroes os B off (ucast len) = Some (ok, B')" "backend_ok B'" "backend_capacity B' = backend_capacity B"
    "same_outside {unat off..<unat off + unat len} (backend_contents B) (backend_contents B')"
    "ok \<longrightarrow> backend_contents B' = zero_range (unat off) (unat len) (backend_contents B)" by auto
  with 3 show ?case by (intro exI [of _ "as_status ok"] exI [of _ B']) simp
qed

section \<open>Properties\<close>

text \<open>The service's storage is a byte array on either back end. Inside its size a write returns; a write that
  reports success is what every later successful read sees, at its own place and nowhere else; a read-only
  back end refuses it and stays as it was, and a writable memory back end always accepts it and always reads
  back.\<close>

theorem BackendWrite_BackendRead:
  assumes "win_os_ok os" "backend_ok B" "unat off + unat len \<le> backend_capacity B" "length bs = unat len"
  shows "\<exists>ok B'. BackendWrite os B off bs len = Some (ok, B')
    \<and> (BackendIsReadOnly B \<longrightarrow> \<not> ok \<and> B' = B)
    \<and> (ok \<longrightarrow> (\<forall>off' len'. unat off' + unat len' \<le> backend_capacity B \<longrightarrow>
         (\<exists>rok bs' B''. BackendRead os B' off' len' = Some (rok, bs', B'')
            \<and> (rok \<longrightarrow> bs' = rd_bytes (wr_bytes (unat off) bs (backend_contents B)) (unat off') (unat len'))
            \<and> ((\<exists>b. B = Some (Memory_Backend b)) \<longrightarrow> rok))))
    \<and> ((\<exists>b. B = Some (Memory_Backend b)) \<longrightarrow> ok = (\<not> BackendIsReadOnly B))"
proof -
  from BackendWrite_law [OF assms] obtain ok B' where w: "BackendWrite os B off bs len = Some (ok, B')"
    "backend_ok B'" "backend_capacity B' = backend_capacity B"
    "ok \<longrightarrow> backend_contents B' = wr_bytes (unat off) bs (backend_contents B)"
    "BackendIsReadOnly B \<longrightarrow> \<not> ok \<and> B' = B" "(\<exists>b. B = Some (Memory_Backend b)) \<longrightarrow> ok = (\<not> BackendIsReadOnly B)"
    "(\<exists>b. B = Some (Memory_Backend b)) \<longrightarrow> (\<exists>b. B' = Some (Memory_Backend b))" by blast
  have "\<exists>rok bs' B''. BackendRead os B' off' len' = Some (rok, bs', B'')
      \<and> (rok \<longrightarrow> bs' = rd_bytes (wr_bytes (unat off) bs (backend_contents B)) (unat off') (unat len'))
      \<and> ((\<exists>b. B = Some (Memory_Backend b)) \<longrightarrow> rok)"
    if "ok" "unat off' + unat len' \<le> backend_capacity B" for off' len'
    using BackendRead_law [OF assms(1) w(2), of off' len'] that w(3,4,7) by metis
  with w show ?thesis by blast
qed

text \<open>A memory back end of 1 KiB as \<open>BackendCreate\<close> makes it, and the property at a write to it.\<close>

definition example_backend :: "BACKEND_CONTEXT option" where
  "example_backend = Some (Memory_Backend
     \<lparr>mb_Size = 1024, mb_BlockSize = 512, mb_ReadOnly = False, mb_Data = Some (\<lambda>_. 0)\<rparr>)"

lemma example_backend_ok:
  "backend_ok example_backend" "backend_capacity example_backend = 1024" "backend_contents example_backend = (\<lambda>_. 0)"
  "\<not> BackendIsReadOnly example_backend" "\<exists>b. example_backend = Some (Memory_Backend b)"
  by (simp_all add: example_backend_def backend_defs BackendIsReadOnly_def MemoryBackendIsReadOnly_def)

theorem BackendWrite_BackendRead_witness:
  "\<exists>B' B''. BackendWrite win_all_ok example_backend 512 [1, 2, 3] 3 = Some (True, B')
    \<and> BackendRead win_all_ok B' 512 3 = Some (True, [1, 2, 3], B'')"
proof -
  have "rd_bytes (wr_bytes 512 [1, 2, 3] (\<lambda>_. 0)) 512 3 = [1, 2, 3]"
    using rd_bytes_wr_bytes [of 512 "[1, 2, 3]"] by (simp add: numeral_3_eq_3)
  moreover obtain ok B' where w: "BackendWrite win_all_ok example_backend 512 [1, 2, 3] 3 = Some (ok, B')" "ok"
    and r: "\<forall>off' len'. unat off' + unat len' \<le> 1024 \<longrightarrow> (\<exists>rok bs' B''. BackendRead win_all_ok B' off' len' = Some (rok, bs', B'')
      \<and> (rok \<longrightarrow> bs' = rd_bytes (wr_bytes 512 [1, 2, 3] (\<lambda>_. 0)) (unat off') (unat len')) \<and> rok)"
    using BackendWrite_BackendRead [OF win_os_ok_all_ok example_backend_ok(1), of 512 3 "[1, 2, 3]"] example_backend_ok(2-)
    by auto
  moreover from r [rule_format, of 512 3] obtain B'' where
    "BackendRead win_all_ok B' 512 3 = Some (True, rd_bytes (wr_bytes 512 [1, 2, 3] (\<lambda>_. 0)) 512 3, B'')" by auto
  ultimately show ?thesis by auto
qed

text \<open>Clearing a range of a back end. The 64 KiB chunks of the file back end follow the file pointer over the whole
  64-bit length: it returns, success means the range reads as zeroes, and bytes outside the range survive in every
  case.\<close>

theorem BackendWriteZeroes_clears:
  assumes "win_os_ok os" "backend_ok B" "unat off + unat len \<le> backend_capacity B"
  shows "\<exists>ok B'. BackendWriteZeroes os B off len = Some (ok, B') \<and> backend_ok B' \<and> backend_capacity B' = backend_capacity B
    \<and> (ok \<longrightarrow> backend_contents B' = zero_range (unat off) (unat len) (backend_contents B))
    \<and> same_outside {unat off..<unat off + unat len} (backend_contents B) (backend_contents B')
    \<and> (BackendIsReadOnly B \<longrightarrow> \<not> ok \<and> B' = B)"
  using BackendWriteZeroes_law [OF assms] by blast

text \<open>The property at 100000 bytes of a file, which take two chunks.\<close>

theorem BackendWriteZeroes_clears_witness:
  "\<exists>B'. BackendWriteZeroes win_all_ok (Some (File_Backend \<lparr>fb_Size = 200000, fb_BlockSize = 512, fb_ReadOnly = False,
       fb_DirectIO = False, fb_Preallocate = False, fb_FileHandle = Some \<lparr>wf_data = \<lambda>_. 7, wf_pos = 0\<rparr>, fb_FilePath = [65]\<rparr>))
       1000 100000 = Some (True, B')
    \<and> backend_contents B' = zero_range 1000 100000 (\<lambda>_. 7)"
proof -
  let ?b = "\<lparr>fb_Size = 200000, fb_BlockSize = 512, fb_ReadOnly = False, fb_DirectIO = False, fb_Preallocate = False,
    fb_FileHandle = Some \<lparr>wf_data = \<lambda>_. 7, wf_pos = 0\<rparr>, fb_FilePath = [65]\<rparr>"
  have ok: "backend_ok (Some (File_Backend ?b))" "backend_capacity (Some (File_Backend ?b)) = 200000"
    "backend_contents (Some (File_Backend ?b)) = (\<lambda>_. 7)"
    by (simp_all add: backend_defs)
  have loop: "fst (file_zero_loop win_all_ok n f)" for n f
  proof (induction "unat n" arbitrary: n f rule: less_induct)
    case less
    show ?case
      by (subst file_zero_loop.simps)
        (use less zero_chunk_decreases [of n] in \<open>auto simp: win_all_ok_def Let_def\<close>)
  qed
  obtain ok' B' where r: "BackendWriteZeroes win_all_ok (Some (File_Backend ?b)) 1000 100000 = Some (ok', B')"
    "ok' \<longrightarrow> backend_contents B' = zero_range 1000 100000 (\<lambda>_. 7)"
    using BackendWriteZeroes_clears [OF win_os_ok_all_ok ok(1), of 1000 100000] ok(2,3) by auto
  from r(1) loop [of 100000 "\<lparr>wf_data = \<lambda>_. 7, wf_pos = 1000\<rparr>"] have "ok'"
    by (auto simp: BackendWriteZeroes_def FileBackendWriteZeroes_def win_all_ok_def case_prod_beta)
  with r show ?thesis by simp
qed

end
