(* ===== verification/Vnvme_Server_Io.thy ===== *)
theory Vnvme_Server_Io
  imports Vnvme_Server_Admin Vnvme_Backend
begin

text \<open>
  \<^verbatim>\<open>vnvme-server/io_commands.h\<close> and \<^verbatim>\<open>io_commands.c\<close>: the I/O commands as the user-mode service executes them. Data moves
  between the back end and the data buffer of the shared memory. The admin context is an argument, since the I/O
  context only holds a pointer to it and never writes through it; the back end is the object behind the
  pointer. As in the admin commands, null parameters and debug output are left out.
\<close>

section \<open>Data\<close>

record IO_STATS =
  ios_commandsProcessed :: u64
  ios_bytesRead :: u64
  ios_bytesWritten :: u64
  ios_readCommands :: u64
  ios_writeCommands :: u64
  ios_flushCommands :: u64
  ios_writeZeroesCommands :: u64
  ios_errors :: u64

record IO_NAMESPACE_CONFIG =
  nc_nsid :: u32
  nc_size :: u64
  nc_blockSize :: u32
  nc_active :: bool
  nc_readOnly :: bool

record IO_CMD_CONTEXT =
  ic_backend :: "BACKEND_CONTEXT option"
  ic_shmBase :: bool
  ic_dataBuffer :: "nat option"
  ic_dataBufferSize :: u32
  ic_namespaces :: "IO_NAMESPACE_CONFIG list"
  ic_namespaceCount :: u32
  ic_stats :: IO_STATS
  ic_debugMode :: bool

definition zero_IO_STATS :: IO_STATS where
  "zero_IO_STATS = \<lparr>ios_commandsProcessed = 0, ios_bytesRead = 0, ios_bytesWritten = 0, ios_readCommands = 0,
     ios_writeCommands = 0, ios_flushCommands = 0, ios_writeZeroesCommands = 0, ios_errors = 0\<rparr>"

definition zero_NAMESPACE_CONFIG :: IO_NAMESPACE_CONFIG where
  "zero_NAMESPACE_CONFIG = \<lparr>nc_nsid = 0, nc_size = 0, nc_blockSize = 0, nc_active = False, nc_readOnly = False\<rparr>"

definition upd_stats :: "(IO_STATS \<Rightarrow> IO_STATS) \<Rightarrow> IO_CMD_CONTEXT \<Rightarrow> IO_CMD_CONTEXT" where
  "upd_stats f pCtx = pCtx\<lparr>ic_stats := f (ic_stats pCtx)\<rparr>"

definition count_error :: "IO_CMD_CONTEXT \<Rightarrow> IO_CMD_CONTEXT" where
  "count_error = upd_stats (\<lambda>s. s\<lparr>ios_errors := ios_errors s + 1\<rparr>)"

text \<open>\<open>phase | (sc << 1) | (sct << 9)\<close> on \<open>int\<close>, truncated to 16 bits.\<close>

definition Io_MakeStatus :: "u8 \<Rightarrow> u8 \<Rightarrow> u8 \<Rightarrow> u16" where
  "Io_MakeStatus sct sc phase = ucast ((ucast phase :: u32) OR push_bit 1 (ucast sc) OR push_bit 9 (ucast sct))"

definition GetCqPhase :: "ADMIN_CMD_CONTEXT \<Rightarrow> u16 \<Rightarrow> u32 option" where
  "GetCqPhase adminCtx queueId =
     (case AdminCmdGetIoSq adminCtx queueId of
        None \<Rightarrow> Some 1
      | Some sq \<Rightarrow> do {
          sqInfo \<leftarrow> arr_get (ac_ioSq adminCtx) sq;
          (case AdminCmdGetIoCq adminCtx (ucast (qi_cqId sqInfo)) of
             None \<Rightarrow> Some 1
           | Some cq \<Rightarrow> map_option qi_phase (arr_get (ac_ioCq adminCtx) cq))
        })"

section \<open>Set-up and statistics\<close>

definition IoCmdInit ::
  "BACKEND_CONTEXT option \<Rightarrow> bool \<Rightarrow> nat option \<Rightarrow> u32 \<Rightarrow> bool \<times> IO_CMD_CONTEXT" where
  "IoCmdInit backend shmBase dataBuffer dataBufferSize =
     (True, \<lparr>ic_backend = backend, ic_shmBase = shmBase, ic_dataBuffer = dataBuffer, ic_dataBufferSize = dataBufferSize,
        ic_namespaces = replicate 16 zero_NAMESPACE_CONFIG, ic_namespaceCount = 0, ic_stats = zero_IO_STATS,
        ic_debugMode = False\<rparr>)"

definition IoCmdAddNamespace :: "IO_NAMESPACE_CONFIG \<Rightarrow> IO_CMD_CONTEXT \<Rightarrow> bool \<times> IO_CMD_CONTEXT" where
  "IoCmdAddNamespace pNsConfig pCtx =
     (if ic_namespaceCount pCtx \<ge> 16 then (False, pCtx)
      else (True, pCtx\<lparr>ic_namespaces := (ic_namespaces pCtx)[unat (ic_namespaceCount pCtx) := pNsConfig],
                       ic_namespaceCount := ic_namespaceCount pCtx + 1\<rparr>))"

definition IoCmdSetDebugMode :: "bool \<Rightarrow> IO_CMD_CONTEXT \<Rightarrow> IO_CMD_CONTEXT" where
  "IoCmdSetDebugMode debugMode pCtx = pCtx\<lparr>ic_debugMode := debugMode\<rparr>"

definition IoCmdGetStats :: "IO_CMD_CONTEXT \<Rightarrow> IO_STATS" where
  "IoCmdGetStats pCtx = ic_stats pCtx"

definition IoCmdResetStats :: "IO_CMD_CONTEXT \<Rightarrow> IO_CMD_CONTEXT" where
  "IoCmdResetStats pCtx = pCtx\<lparr>ic_stats := zero_IO_STATS\<rparr>"

section \<open>Completions\<close>

text \<open>Every completion goes into the first entry of the completion queue, with submission queue head 0.\<close>

definition IoCmdPostCompletion ::
  "ADMIN_CMD_CONTEXT \<Rightarrow> u16 \<Rightarrow> u16 \<Rightarrow> u32 \<Rightarrow> u8 \<Rightarrow> u8 \<Rightarrow> IO_CMD_CONTEXT \<Rightarrow> mem \<Rightarrow> (IO_CMD_CONTEXT \<times> mem) option" where
  "IoCmdPostCompletion adminCtx queueId cid result sct sc pCtx m =
     (if queueId = 0 \<or> queueId > 16 then Some (pCtx, m)
      else (case AdminCmdGetIoSq adminCtx queueId of
        None \<Rightarrow> Some (pCtx, m)
      | Some sq \<Rightarrow> do {
          sqInfo \<leftarrow> arr_get (ac_ioSq adminCtx) sq;
          if \<not> qi_created sqInfo then Some (pCtx, m)
          else (case AdminCmdGetIoCq adminCtx (ucast (qi_cqId sqInfo)) of
            None \<Rightarrow> Some (pCtx, m)
          | Some cq \<Rightarrow> do {
              cqInfo \<leftarrow> arr_get (ac_ioCq adminCtx) cq;
              (case qi_cqBase cqInfo of
                 Some cqe \<Rightarrow>
                   if \<not> qi_created cqInfo then Some (pCtx, m)
                   else do {
                     check (cqe + 16 \<le> VNVME_SHM_SIZE);
                     Some (upd_stats (\<lambda>s. s\<lparr>ios_commandsProcessed := ios_commandsProcessed s + 1\<rparr>) pCtx,
                       wr_NVME_COMPLETION cqe \<lparr>cqe_DW0 = result, cqe_DW1 = 0, cqe_SQHD = 0, cqe_SQID = queueId,
                         cqe_CID = cid, cqe_Status = Io_MakeStatus sct sc (ucast (qi_phase cqInfo))\<rparr> m)
                   }
               | None \<Rightarrow> Some (pCtx, m))
            })
        }))"

section \<open>Validation\<close>

definition IoCmdIsNamespaceValid :: "IO_CMD_CONTEXT \<Rightarrow> u32 \<Rightarrow> bool option" where
  "IoCmdIsNamespaceValid pCtx nsid =
     (if nsid = 0 \<or> nsid > ic_namespaceCount pCtx then Some False
      else map_option nc_active (arr_get (ic_namespaces pCtx) (unat (nsid - 1))))"

definition IoCmdGetBlockSize :: "IO_CMD_CONTEXT \<Rightarrow> u32 \<Rightarrow> u32 option" where
  "IoCmdGetBlockSize pCtx nsid =
     (if nsid = 0 \<or> nsid > ic_namespaceCount pCtx then Some 512
      else map_option nc_blockSize (arr_get (ic_namespaces pCtx) (unat (nsid - 1))))"

definition IoCmdValidateLbaRange :: "IO_CMD_CONTEXT \<Rightarrow> u32 \<Rightarrow> u64 \<Rightarrow> u32 \<Rightarrow> bool option" where
  "IoCmdValidateLbaRange pCtx nsid slba nlb = do {
     valid \<leftarrow> IoCmdIsNamespaceValid pCtx nsid;
     if \<not> valid then Some False
     else do {
       nsConfig \<leftarrow> arr_get (ic_namespaces pCtx) (unat (nsid - 1));
       if slba + ucast nlb < slba then Some False
       else if slba + ucast nlb > nc_size nsConfig then Some False
       else Some True
     }
   }"

section \<open>Commands\<close>

type_synonym io_answer = "u16 \<times> u32 \<times> IO_CMD_CONTEXT \<times> mem"

text \<open>The starting block, and the 16-bit number of blocks: the field plus one, 0 for 0xFFFF.\<close>

definition io_slba :: "NVME_COMMAND \<Rightarrow> u64" where
  "io_slba pCmd = ucast (CDW10 pCmd) OR push_bit 32 (ucast (CDW11 pCmd))"

definition io_nlb :: "NVME_COMMAND \<Rightarrow> u16" where
  "io_nlb pCmd = ucast (CDW12 pCmd AND 0xFFFF) + 1"

text \<open>\<open>length\<close> is a 32-bit product. The transfer is skipped when there is no back end, no data buffer, or the buffer is
  too small.\<close>

definition IoCmdRead ::
  "win_os \<Rightarrow> ADMIN_CMD_CONTEXT \<Rightarrow> u16 \<Rightarrow> NVME_COMMAND \<Rightarrow> IO_CMD_CONTEXT \<Rightarrow> mem \<Rightarrow> io_answer option" where
  "IoCmdRead os adminCtx queueId pCmd pCtx m = do {
     cqPhase \<leftarrow> GetCqPhase adminCtx queueId;
     let phase = (ucast cqPhase :: u8);
     let nsid = NSID pCmd;
     let slba = io_slba pCmd;
     let nlb = io_nlb pCmd;
     valid \<leftarrow> IoCmdIsNamespaceValid pCtx nsid;
     if \<not> valid then Some (Io_MakeStatus 0 0x0B phase, 0, count_error pCtx, m)
     else do {
       blockSize \<leftarrow> IoCmdGetBlockSize pCtx nsid;
       let len = ucast nlb * blockSize;
       let byteOffset = slba * ucast blockSize;
       inRange \<leftarrow> IoCmdValidateLbaRange pCtx nsid slba (ucast nlb);
       if \<not> inRange then Some (Io_MakeStatus 0 0x80 phase, 0, count_error pCtx, m)
       else do {
         (ok, pCtx, m) \<leftarrow>
           (case (ic_backend pCtx, ic_dataBuffer pCtx) of
              (Some backend, Some data) \<Rightarrow>
                if len \<le> ic_dataBufferSize pCtx then do {
                  (ok, bs, backend) \<leftarrow> BackendRead os (Some backend) byteOffset len;
                  check (data + length bs \<le> VNVME_SHM_SIZE);
                  Some (ok, pCtx\<lparr>ic_backend := backend\<rparr>, wr_bytes data bs m)
                } else Some (True, pCtx, m)
            | _ \<Rightarrow> Some (True, pCtx, m));
         if \<not> ok then Some (Io_MakeStatus 0x02 0x81 phase, 0, count_error pCtx, m)
         else Some (Io_MakeStatus 0 0 phase, 0,
           upd_stats (\<lambda>s. s\<lparr>ios_bytesRead := ios_bytesRead s + ucast len, ios_readCommands := ios_readCommands s + 1\<rparr>) pCtx, m)
       }
     }
   }"

definition IoCmdWrite ::
  "win_os \<Rightarrow> ADMIN_CMD_CONTEXT \<Rightarrow> u16 \<Rightarrow> NVME_COMMAND \<Rightarrow> IO_CMD_CONTEXT \<Rightarrow> mem \<Rightarrow> io_answer option" where
  "IoCmdWrite os adminCtx queueId pCmd pCtx m = do {
     cqPhase \<leftarrow> GetCqPhase adminCtx queueId;
     let phase = (ucast cqPhase :: u8);
     let nsid = NSID pCmd;
     let slba = io_slba pCmd;
     let nlb = io_nlb pCmd;
     valid \<leftarrow> IoCmdIsNamespaceValid pCtx nsid;
     if \<not> valid then Some (Io_MakeStatus 0 0x0B phase, 0, count_error pCtx, m)
     else do {
       nsConfig \<leftarrow> arr_get (ic_namespaces pCtx) (unat (nsid - 1));
       if nc_readOnly nsConfig then Some (Io_MakeStatus 0 0x82 phase, 0, count_error pCtx, m)
       else do {
         let blockSize = nc_blockSize nsConfig;
         let len = ucast nlb * blockSize;
         let byteOffset = slba * ucast blockSize;
         inRange \<leftarrow> IoCmdValidateLbaRange pCtx nsid slba (ucast nlb);
         if \<not> inRange then Some (Io_MakeStatus 0 0x80 phase, 0, count_error pCtx, m)
         else do {
           (ok, pCtx) \<leftarrow>
             (case (ic_backend pCtx, ic_dataBuffer pCtx) of
                (Some backend, Some data) \<Rightarrow>
                  if len \<le> ic_dataBufferSize pCtx then do {
                    check (data + unat len \<le> VNVME_SHM_SIZE);
                    (ok, backend) \<leftarrow> BackendWrite os (Some backend) byteOffset (rd_bytes m data (unat len)) len;
                    Some (ok, pCtx\<lparr>ic_backend := backend\<rparr>)
                  } else Some (True, pCtx)
              | _ \<Rightarrow> Some (True, pCtx));
           if \<not> ok then Some (Io_MakeStatus 0x02 0x82 phase, 0, count_error pCtx, m)
           else Some (Io_MakeStatus 0 0 phase, 0,
             upd_stats (\<lambda>s. s\<lparr>ios_bytesWritten := ios_bytesWritten s + ucast len,
               ios_writeCommands := ios_writeCommands s + 1\<rparr>) pCtx, m)
         }
       }
     }
   }"

definition IoCmdFlush ::
  "win_os \<Rightarrow> ADMIN_CMD_CONTEXT \<Rightarrow> u16 \<Rightarrow> NVME_COMMAND \<Rightarrow> IO_CMD_CONTEXT \<Rightarrow> mem \<Rightarrow> io_answer option" where
  "IoCmdFlush os adminCtx queueId pCmd pCtx m = do {
     cqPhase \<leftarrow> GetCqPhase adminCtx queueId;
     let phase = (ucast cqPhase :: u8);
     if ic_backend pCtx \<noteq> None \<and> \<not> BackendFlush os (ic_backend pCtx)
     then Some (Io_MakeStatus 0x02 0x82 phase, 0, count_error pCtx, m)
     else Some (Io_MakeStatus 0 0 phase, 0,
       upd_stats (\<lambda>s. s\<lparr>ios_flushCommands := ios_flushCommands s + 1\<rparr>) pCtx, m)
   }"

definition IoCmdWriteZeroes ::
  "win_os \<Rightarrow> ADMIN_CMD_CONTEXT \<Rightarrow> u16 \<Rightarrow> NVME_COMMAND \<Rightarrow> IO_CMD_CONTEXT \<Rightarrow> mem \<Rightarrow> io_answer option" where
  "IoCmdWriteZeroes os adminCtx queueId pCmd pCtx m = do {
     cqPhase \<leftarrow> GetCqPhase adminCtx queueId;
     let phase = (ucast cqPhase :: u8);
     let nsid = NSID pCmd;
     let slba = io_slba pCmd;
     let nlb = io_nlb pCmd;
     valid \<leftarrow> IoCmdIsNamespaceValid pCtx nsid;
     if \<not> valid then Some (Io_MakeStatus 0 0x0B phase, 0, count_error pCtx, m)
     else do {
       nsConfig \<leftarrow> arr_get (ic_namespaces pCtx) (unat (nsid - 1));
       if nc_readOnly nsConfig then Some (Io_MakeStatus 0 0x82 phase, 0, count_error pCtx, m)
       else do {
         let blockSize = nc_blockSize nsConfig;
         let len = (ucast nlb * ucast blockSize :: u64);
         let byteOffset = slba * ucast blockSize;
         inRange \<leftarrow> IoCmdValidateLbaRange pCtx nsid slba (ucast nlb);
         if \<not> inRange then Some (Io_MakeStatus 0 0x80 phase, 0, count_error pCtx, m)
         else do {
           (ok, pCtx) \<leftarrow>
             (case ic_backend pCtx of
                Some backend \<Rightarrow> do {
                  (ok, backend) \<leftarrow> BackendWriteZeroes os (Some backend) byteOffset len;
                  Some (ok, pCtx\<lparr>ic_backend := backend\<rparr>)
                }
              | None \<Rightarrow> Some (True, pCtx));
           if \<not> ok then Some (Io_MakeStatus 0x02 0x82 phase, 0, count_error pCtx, m)
           else Some (Io_MakeStatus 0 0 phase, 0,
             upd_stats (\<lambda>s. s\<lparr>ios_bytesWritten := ios_bytesWritten s + len,
               ios_writeZeroesCommands := ios_writeZeroesCommands s + 1\<rparr>) pCtx, m)
         }
       }
     }
   }"

text \<open>Dataset management is accepted and does nothing.\<close>

definition IoCmdDatasetManagement ::
  "ADMIN_CMD_CONTEXT \<Rightarrow> u16 \<Rightarrow> NVME_COMMAND \<Rightarrow> IO_CMD_CONTEXT \<Rightarrow> mem \<Rightarrow> io_answer option" where
  "IoCmdDatasetManagement adminCtx queueId pCmd pCtx m = do {
     cqPhase \<leftarrow> GetCqPhase adminCtx queueId;
     Some (Io_MakeStatus 0 0 (ucast cqPhase), 0, pCtx, m)
   }"

definition io_switch ::
  "win_os \<Rightarrow> ADMIN_CMD_CONTEXT \<Rightarrow> u16 \<Rightarrow> NVME_COMMAND \<Rightarrow> IO_CMD_CONTEXT \<Rightarrow> mem \<Rightarrow> io_answer option" where
  "io_switch os adminCtx queueId pCmd pCtx m =
     (if OPC pCmd = 0x02 then IoCmdRead os adminCtx queueId pCmd pCtx m
      else if OPC pCmd = 0x01 then IoCmdWrite os adminCtx queueId pCmd pCtx m
      else if OPC pCmd = 0x00 then IoCmdFlush os adminCtx queueId pCmd pCtx m
      else if OPC pCmd = 0x08 then IoCmdWriteZeroes os adminCtx queueId pCmd pCtx m
      else if OPC pCmd = 0x09 then IoCmdDatasetManagement adminCtx queueId pCmd pCtx m
      else do {
        cqPhase \<leftarrow> GetCqPhase adminCtx queueId;
        Some (Io_MakeStatus 0 0x01 (ucast cqPhase), 0, count_error pCtx, m)
      })"

text \<open>The command is read at its place \<open>pCmd\<close> in the submission queue, its identifier after the handler ran.\<close>

definition IoCmdProcess ::
  "win_os \<Rightarrow> ADMIN_CMD_CONTEXT \<Rightarrow> IO_CMD_CONTEXT \<Rightarrow> nat \<Rightarrow> u16 \<Rightarrow> mem \<Rightarrow> (u32 \<times> IO_CMD_CONTEXT \<times> mem) option" where
  "IoCmdProcess os adminCtx pCtx pCmd queueId m = do {
     check (pCmd + 64 \<le> VNVME_SHM_SIZE);
     (status, result, pCtx, m) \<leftarrow> io_switch os adminCtx queueId (rd_NVME_COMMAND m pCmd) pCtx m;
     let sct = (ucast (drop_bit 9 status AND 0x07) :: u8);
     let sc = (ucast (drop_bit 1 status AND 0xFF) :: u8);
     (pCtx, m) \<leftarrow> IoCmdPostCompletion adminCtx queueId (CID (rd_NVME_COMMAND m pCmd)) result sct sc pCtx m;
     Some (1, pCtx, m)
   }"

end
