(* ===== verification/Vnvme_Server_Io_Props.thy ===== *)
theory Vnvme_Server_Io_Props
  imports Vnvme_Server_Io
begin

text \<open>
  What the I/O commands of the user-mode service do: the range check is exact, every command is answered, reads and
  writes see one flat array of bytes, and the cases in which a command is answered with success although it did nothing.
\<close>

section \<open>A usable context\<close>

text \<open>
  The namespaces lie inside the back end, the data buffer inside the shared memory. The block size bound keeps the 32-bit
  product of the number of blocks and the block size from wrapping.
\<close>

definition nc_fits :: "BACKEND_CONTEXT option \<Rightarrow> IO_NAMESPACE_CONFIG \<Rightarrow> bool" where
  "nc_fits B n \<longleftrightarrow> nc_blockSize n \<le> 0x10000 \<and> (B \<noteq> None \<longrightarrow> unat (nc_size n) * unat (nc_blockSize n) \<le> backend_capacity B)"

definition io_wf :: "IO_CMD_CONTEXT \<Rightarrow> bool" where
  "io_wf pCtx \<longleftrightarrow> length (ic_namespaces pCtx) = 16 \<and> ic_namespaceCount pCtx \<le> 16
     \<and> (ic_backend pCtx \<noteq> None \<longrightarrow> backend_ok (ic_backend pCtx))
     \<and> (\<forall>n\<in>set (ic_namespaces pCtx). nc_fits (ic_backend pCtx) n)
     \<and> (case ic_dataBuffer pCtx of None \<Rightarrow> True | Some data \<Rightarrow> data + unat (ic_dataBufferSize pCtx) \<le> VNVME_SHM_SIZE)"

text \<open>The namespace that an identifier selects.\<close>

definition io_namespace :: "IO_CMD_CONTEXT \<Rightarrow> u32 \<Rightarrow> IO_NAMESPACE_CONFIG option" where
  "io_namespace pCtx nsid =
     (if nsid = 0 \<or> nsid > ic_namespaceCount pCtx \<or> \<not> nc_active (ic_namespaces pCtx ! unat (nsid - 1)) then None
      else Some (ic_namespaces pCtx ! unat (nsid - 1)))"

definition io_inside :: "NVME_COMMAND \<Rightarrow> IO_NAMESPACE_CONFIG \<Rightarrow> bool" where
  "io_inside pCmd n \<longleftrightarrow> unat (io_slba pCmd) + unat (io_nlb pCmd) \<le> unat (nc_size n)"

definition io_buffer :: "IO_CMD_CONTEXT \<Rightarrow> nat set" where
  "io_buffer pCtx =
     (case ic_dataBuffer pCtx of None \<Rightarrow> {} | Some data \<Rightarrow> {data..<data + unat (ic_dataBufferSize pCtx)})"

lemma io_index: "io_wf pCtx \<Longrightarrow> nsid \<noteq> 0 \<Longrightarrow> \<not> nsid > ic_namespaceCount pCtx \<Longrightarrow> unat (nsid - 1) < 16"
  by (rule pred_index) (auto simp: io_wf_def word_le_nat_alt word_less_nat_alt)

lemma IsNamespaceValid_iff:
  assumes "io_wf pCtx"
  shows "IoCmdIsNamespaceValid pCtx nsid = Some (io_namespace pCtx nsid \<noteq> None)"
  using assms io_index [OF assms] by (auto simp: IoCmdIsNamespaceValid_def io_namespace_def io_wf_def)

lemma namespace_get:
  assumes "io_wf pCtx" "io_namespace pCtx nsid = Some n"
  shows "arr_get (ic_namespaces pCtx) (unat (nsid - 1)) = Some n" "IoCmdGetBlockSize pCtx nsid = Some (nc_blockSize n)"
    "nc_fits (ic_backend pCtx) n"
proof -
  have i: "nsid \<noteq> 0" "\<not> nsid > ic_namespaceCount pCtx" "n = ic_namespaces pCtx ! unat (nsid - 1)"
    using assms(2) by (auto simp: io_namespace_def split: if_split_asm)
  with io_index [OF assms(1)] have "unat (nsid - 1) < 16" "length (ic_namespaces pCtx) = 16"
    using assms(1) by (auto simp: io_wf_def)
  with i assms(1) show "arr_get (ic_namespaces pCtx) (unat (nsid - 1)) = Some n"
    "IoCmdGetBlockSize pCtx nsid = Some (nc_blockSize n)" "nc_fits (ic_backend pCtx) n"
    by (simp_all add: IoCmdGetBlockSize_def io_wf_def)
qed

lemma lba_range_test:
  fixes slba size :: u64 and nlb :: u32
  shows "(slba + ucast nlb < slba \<or> slba + ucast nlb > size) \<longleftrightarrow> unat slba + unat nlb > unat size"
proof (cases "unat slba + unat nlb < 2 ^ 64")
  case True
  then have "unat (slba + ucast nlb) = unat slba + unat nlb" by (simp add: unat_word_ariths)
  then show ?thesis by (auto simp: word_less_nat_alt)
next
  case False
  have "unat slba + unat nlb < 2 * 2 ^ 64" using unat_u64_bound [of slba] unat_u32_bound [of nlb] by simp
  with False have "unat (slba + ucast nlb) = unat slba + unat nlb - 2 ^ 64"
    by (simp add: unat_word_ariths mod_if)
  with False unat_u64_bound [of size] unat_u32_bound [of nlb] show ?thesis by (auto simp: word_less_nat_alt)
qed

lemma ValidateLbaRange_iff:
  assumes "io_wf pCtx"
  shows "IoCmdValidateLbaRange pCtx nsid slba nlb
    = Some (\<exists>n. io_namespace pCtx nsid = Some n \<and> unat slba + unat nlb \<le> unat (nc_size n))"
proof (cases "io_namespace pCtx nsid")
  case None
  then show ?thesis by (simp add: IoCmdValidateLbaRange_def IsNamespaceValid_iff [OF assms])
next
  case (Some n)
  then show ?thesis
    using lba_range_test [of slba nlb "nc_size n"] namespace_get(1) [OF assms Some]
    by (auto simp: IoCmdValidateLbaRange_def IsNamespaceValid_iff [OF assms])
qed

section \<open>The transfers\<close>

text \<open>The bytes a command addresses, as numbers.\<close>

definition srv_offset :: "NVME_COMMAND \<Rightarrow> IO_NAMESPACE_CONFIG \<Rightarrow> nat" where
  "srv_offset pCmd n = unat (io_slba pCmd) * unat (nc_blockSize n)"

definition srv_length :: "NVME_COMMAND \<Rightarrow> IO_NAMESPACE_CONFIG \<Rightarrow> nat" where
  "srv_length pCmd n = unat (io_nlb pCmd) * unat (nc_blockSize n)"

lemma srv_length_words:
  assumes "nc_fits B n"
  shows "unat (ucast (io_nlb pCmd) * nc_blockSize n :: u32) = srv_length pCmd n"
    "unat (ucast (io_nlb pCmd) * ucast (nc_blockSize n) :: u64) = srv_length pCmd n"
proof -
  have "unat (io_nlb pCmd) \<le> 65535" "unat (nc_blockSize n) \<le> 65536"
    using assms unat_u16_bound [of "io_nlb pCmd"] by (auto simp: nc_fits_def word_le_nat_alt)
  then have "srv_length pCmd n \<le> 65535 * 65536" unfolding srv_length_def by (rule mult_le_mono)
  then show "unat (ucast (io_nlb pCmd) * nc_blockSize n :: u32) = srv_length pCmd n"
    "unat (ucast (io_nlb pCmd) * ucast (nc_blockSize n) :: u64) = srv_length pCmd n"
    by (simp_all add: srv_length_def unat_word_ariths)
qed

lemma io_extent:
  assumes "nc_fits B n" "B \<noteq> None" "io_inside pCmd n"
  shows "unat (io_slba pCmd * ucast (nc_blockSize n)) = srv_offset pCmd n"
    "srv_offset pCmd n + srv_length pCmd n \<le> backend_capacity B"
proof -
  have "(unat (io_slba pCmd) + unat (io_nlb pCmd)) * unat (nc_blockSize n) \<le> unat (nc_size n) * unat (nc_blockSize n)"
    using assms(3) by (intro mult_le_mono1) (simp add: io_inside_def)
  also have "\<dots> \<le> backend_capacity B" using assms(1,2) by (simp add: nc_fits_def)
  finally show fits: "srv_offset pCmd n + srv_length pCmd n \<le> backend_capacity B"
    by (simp add: srv_offset_def srv_length_def add_mult_distrib)
  have "backend_capacity B < 2 ^ 64" using unat_u64_bound [of "BackendGetSize B"] by (simp add: backend_capacity_def)
  with fits show "unat (io_slba pCmd * ucast (nc_blockSize n)) = srv_offset pCmd n"
    by (simp add: srv_offset_def unat_word_ariths)
qed

text \<open>What the commands leave alone in the context.\<close>

definition io_same :: "IO_CMD_CONTEXT \<Rightarrow> IO_CMD_CONTEXT \<Rightarrow> bool" where
  "io_same pCtx pCtx' \<longleftrightarrow> ic_namespaces pCtx' = ic_namespaces pCtx \<and> ic_namespaceCount pCtx' = ic_namespaceCount pCtx
     \<and> ic_dataBuffer pCtx' = ic_dataBuffer pCtx \<and> ic_dataBufferSize pCtx' = ic_dataBufferSize pCtx
     \<and> (ic_backend pCtx' = None \<longleftrightarrow> ic_backend pCtx = None)
     \<and> (ic_backend pCtx \<noteq> None \<longrightarrow> backend_ok (ic_backend pCtx') \<and> backend_capacity (ic_backend pCtx') = backend_capacity (ic_backend pCtx))"

lemma io_same_simps [simp]:
  "io_same pCtx (upd_stats f pCtx') = io_same pCtx pCtx'" "io_same pCtx (count_error pCtx') = io_same pCtx pCtx'"
  "ic_backend (upd_stats f pCtx) = ic_backend pCtx" "ic_backend (count_error pCtx) = ic_backend pCtx"
  by (simp_all add: io_same_def upd_stats_def count_error_def)

lemma io_same_refl: "io_wf pCtx \<Longrightarrow> io_same pCtx pCtx"
  by (simp add: io_same_def io_wf_def)

lemma io_wf_same: "io_wf pCtx \<Longrightarrow> io_same pCtx pCtx' \<Longrightarrow> io_wf pCtx'"
  by (auto simp: io_wf_def io_same_def nc_fits_def cong: option.case_cong)

lemma backend_ok_present: "backend_ok B \<Longrightarrow> B \<noteq> None"
  by (cases B) (simp_all add: backend_ok_def)

lemma io_namespace_same: "io_same pCtx pCtx' \<Longrightarrow> io_namespace pCtx' nsid = io_namespace pCtx nsid"
  by (simp add: io_namespace_def io_same_def)

lemma BackendRead_memory:
  "BackendRead os (Some (Memory_Backend b)) off len = Some (ok, bs, B') \<Longrightarrow> B' = Some (Memory_Backend b)"
  by (auto simp: BackendRead_def split: option.splits if_splits Option.bind_split_asm)

lemma IoCmdRead_moves:
  assumes "win_os_ok os" "io_wf pCtx" "GetCqPhase adminCtx queueId = Some ph" "io_namespace pCtx (NSID pCmd) = Some n"
    and "io_inside pCmd n" "ic_backend pCtx \<noteq> None" "ic_dataBuffer pCtx = Some data"
    and "srv_length pCmd n \<le> unat (ic_dataBufferSize pCtx)"
  shows "\<exists>ok pCtx' m'. IoCmdRead os adminCtx queueId pCmd pCtx m
      = Some (if ok then Io_MakeStatus 0 0 (ucast ph) else Io_MakeStatus 2 0x81 (ucast ph), 0, pCtx', m')
    \<and> io_same pCtx pCtx' \<and> backend_contents (ic_backend pCtx') = backend_contents (ic_backend pCtx)
    \<and> same_outside {data..<data + srv_length pCmd n} m m'
    \<and> (ok \<longrightarrow> rd_bytes m' data (srv_length pCmd n) = rd_bytes (backend_contents (ic_backend pCtx)) (srv_offset pCmd n) (srv_length pCmd n))
    \<and> ((\<exists>b. ic_backend pCtx = Some (Memory_Backend b)) \<longrightarrow> ok \<and> (\<exists>b. ic_backend pCtx' = Some (Memory_Backend b)))"
proof -
  note n = namespace_get [OF assms(2,4)]
  note ext = io_extent [OF n(3) assms(6,5)] and len = srv_length_words(1) [OF n(3), of pCmd]
  let ?len = "ucast (io_nlb pCmd) * nc_blockSize n :: u32" and ?off = "io_slba pCmd * ucast (nc_blockSize n) :: u64"
  obtain b where b: "ic_backend pCtx = Some b" using assms(6) by blast
  have wf: "backend_ok (Some b)" "data + unat (ic_dataBufferSize pCtx) \<le> VNVME_SHM_SIZE"
    using assms(2,7) b by (simp_all add: io_wf_def)
  have valid: "IoCmdIsNamespaceValid pCtx (NSID pCmd) = Some True"
    "IoCmdValidateLbaRange pCtx (NSID pCmd) (io_slba pCmd) (ucast (io_nlb pCmd)) = Some True"
    using assms(4,5) by (simp_all add: IsNamespaceValid_iff [OF assms(2)] ValidateLbaRange_iff [OF assms(2)] io_inside_def)
  have fits: "?len \<le> ic_dataBufferSize pCtx" using assms(8) by (simp add: word_le_nat_alt len)
  from BackendRead_law [OF assms(1) wf(1), of ?off ?len] ext len b obtain ok bs B' where
    r: "BackendRead os (Some b) ?off ?len = Some (ok, bs, B')" "backend_ok B'" "backend_capacity B' = backend_capacity (Some b)"
      "backend_contents B' = backend_contents (Some b)" "length bs \<le> srv_length pCmd n"
      "ok \<longrightarrow> bs = rd_bytes (backend_contents (Some b)) (srv_offset pCmd n) (srv_length pCmd n)"
      "(\<exists>c. b = Memory_Backend c) \<longrightarrow> ok" by auto
  have mem: "(\<exists>c. b = Memory_Backend c) \<longrightarrow> (\<exists>c. B' = Some (Memory_Backend c))" using BackendRead_memory r(1) by blast
  have run: "IoCmdRead os adminCtx queueId pCmd pCtx m
      = Some (if ok then Io_MakeStatus 0 0 (ucast ph) else Io_MakeStatus 2 0x81 (ucast ph), 0,
          if ok then upd_stats (\<lambda>s. s\<lparr>ios_bytesRead := ios_bytesRead s + ucast ?len, ios_readCommands := ios_readCommands s + 1\<rparr>)
              (pCtx\<lparr>ic_backend := B'\<rparr>)
          else count_error (pCtx\<lparr>ic_backend := B'\<rparr>), wr_bytes data bs m)"
    using r(1,5) wf(2) assms(3,7,8) fits by (simp add: IoCmdRead_def Let_def valid n(2) b cong: if_cong)
  have "B' \<noteq> None" using backend_ok_present [OF r(2)] .
  then have "io_same pCtx (pCtx\<lparr>ic_backend := B'\<rparr>)" using r(2,3) b by (simp add: io_same_def)
  moreover have "same_outside {data..<data + srv_length pCmd n} m (wr_bytes data bs m)"
    by (rule same_outside_wr_bytes) (use r(5) in auto)
  moreover have "ok \<longrightarrow> rd_bytes (wr_bytes data bs m) data (srv_length pCmd n) = bs"
    using rd_bytes_wr_bytes [of data bs m] r(6) by auto
  ultimately show ?thesis
    unfolding run using r(4,6,7) mem b by - (intro exI, rule conjI, rule refl, auto)
qed

lemma IoCmdWrite_moves:
  assumes "win_os_ok os" "io_wf pCtx" "GetCqPhase adminCtx queueId = Some ph" "io_namespace pCtx (NSID pCmd) = Some n"
    and "io_inside pCmd n" "ic_backend pCtx \<noteq> None" "ic_dataBuffer pCtx = Some data"
    and "srv_length pCmd n \<le> unat (ic_dataBufferSize pCtx)" "\<not> nc_readOnly n"
  shows "\<exists>ok pCtx'. IoCmdWrite os adminCtx queueId pCmd pCtx m
      = Some (if ok then Io_MakeStatus 0 0 (ucast ph) else Io_MakeStatus 2 0x82 (ucast ph), 0, pCtx', m)
    \<and> io_same pCtx pCtx'
    \<and> same_outside {srv_offset pCmd n..<srv_offset pCmd n + srv_length pCmd n} (backend_contents (ic_backend pCtx)) (backend_contents (ic_backend pCtx'))
    \<and> (ok \<longrightarrow> backend_contents (ic_backend pCtx')
         = wr_bytes (srv_offset pCmd n) (rd_bytes m data (srv_length pCmd n)) (backend_contents (ic_backend pCtx)))
    \<and> ((\<exists>b. ic_backend pCtx = Some (Memory_Backend b)) \<longrightarrow> ok = (\<not> BackendIsReadOnly (ic_backend pCtx))
         \<and> (\<exists>b. ic_backend pCtx' = Some (Memory_Backend b)))"
proof -
  note n = namespace_get [OF assms(2,4)]
  note ext = io_extent [OF n(3) assms(6,5)] and len = srv_length_words(1) [OF n(3), of pCmd]
  let ?len = "ucast (io_nlb pCmd) * nc_blockSize n :: u32" and ?off = "io_slba pCmd * ucast (nc_blockSize n) :: u64"
  let ?bs = "rd_bytes m data (srv_length pCmd n)"
  obtain b where b: "ic_backend pCtx = Some b" using assms(6) by blast
  have wf: "backend_ok (Some b)" "data + unat (ic_dataBufferSize pCtx) \<le> VNVME_SHM_SIZE"
    using assms(2,7) b by (simp_all add: io_wf_def)
  have valid: "IoCmdIsNamespaceValid pCtx (NSID pCmd) = Some True"
    "IoCmdValidateLbaRange pCtx (NSID pCmd) (io_slba pCmd) (ucast (io_nlb pCmd)) = Some True"
    using assms(4,5) by (simp_all add: IsNamespaceValid_iff [OF assms(2)] ValidateLbaRange_iff [OF assms(2)] io_inside_def)
  have fits: "?len \<le> ic_dataBufferSize pCtx" using assms(8) by (simp add: word_le_nat_alt len)
  from BackendWrite_law [OF assms(1) wf(1), of ?off ?len ?bs] ext len b obtain ok B' where
    w: "BackendWrite os (Some b) ?off ?bs ?len = Some (ok, B')" "backend_ok B'" "backend_capacity B' = backend_capacity (Some b)"
      "same_outside {srv_offset pCmd n..<srv_offset pCmd n + srv_length pCmd n} (backend_contents (Some b)) (backend_contents B')"
      "ok \<longrightarrow> backend_contents B' = wr_bytes (srv_offset pCmd n) ?bs (backend_contents (Some b))"
      "(\<exists>c. b = Memory_Backend c) \<longrightarrow> ok = (\<not> BackendIsReadOnly (Some b))"
      "(\<exists>c. b = Memory_Backend c) \<longrightarrow> (\<exists>c. B' = Some (Memory_Backend c))" by auto
  have run: "IoCmdWrite os adminCtx queueId pCmd pCtx m
      = Some (if ok then Io_MakeStatus 0 0 (ucast ph) else Io_MakeStatus 2 0x82 (ucast ph), 0,
          if ok then upd_stats (\<lambda>s. s\<lparr>ios_bytesWritten := ios_bytesWritten s + ucast ?len, ios_writeCommands := ios_writeCommands s + 1\<rparr>)
              (pCtx\<lparr>ic_backend := B'\<rparr>)
          else count_error (pCtx\<lparr>ic_backend := B'\<rparr>), m)"
    using w(1) wf(2) assms(3,7,8,9) fits by (simp add: IoCmdWrite_def Let_def valid n(1) b len cong: if_cong)
  have "B' \<noteq> None" using backend_ok_present [OF w(2)] .
  then have "io_same pCtx (pCtx\<lparr>ic_backend := B'\<rparr>)" using w(2,3) b by (simp add: io_same_def)
  then show ?thesis
    unfolding run using w(4-) b by - (intro exI, rule conjI, rule refl, auto)
qed

lemma IoCmdWriteZeroes_moves:
  assumes "win_os_ok os" "io_wf pCtx" "GetCqPhase adminCtx queueId = Some ph" "io_namespace pCtx (NSID pCmd) = Some n"
    and "io_inside pCmd n" "ic_backend pCtx \<noteq> None" "\<not> nc_readOnly n"
  shows "\<exists>ok pCtx'. IoCmdWriteZeroes os adminCtx queueId pCmd pCtx m
      = Some (if ok then Io_MakeStatus 0 0 (ucast ph) else Io_MakeStatus 2 0x82 (ucast ph), 0, pCtx', m)
    \<and> io_same pCtx pCtx'
    \<and> same_outside {srv_offset pCmd n..<srv_offset pCmd n + srv_length pCmd n} (backend_contents (ic_backend pCtx)) (backend_contents (ic_backend pCtx'))
    \<and> (ok \<longrightarrow> backend_contents (ic_backend pCtx') = zero_range (srv_offset pCmd n) (srv_length pCmd n) (backend_contents (ic_backend pCtx)))
    \<and> ((\<exists>b. ic_backend pCtx = Some (Memory_Backend b)) \<longrightarrow> ok = (\<not> BackendIsReadOnly (ic_backend pCtx)))"
proof -
  note n = namespace_get [OF assms(2,4)]
  note ext = io_extent [OF n(3) assms(6,5)] and len = srv_length_words(2) [OF n(3), of pCmd]
  let ?len = "ucast (io_nlb pCmd) * ucast (nc_blockSize n) :: u64" and ?off = "io_slba pCmd * ucast (nc_blockSize n) :: u64"
  obtain b where b: "ic_backend pCtx = Some b" using assms(6) by blast
  have wf: "backend_ok (Some b)" using assms(2) b by (simp add: io_wf_def)
  have valid: "IoCmdIsNamespaceValid pCtx (NSID pCmd) = Some True"
    "IoCmdValidateLbaRange pCtx (NSID pCmd) (io_slba pCmd) (ucast (io_nlb pCmd)) = Some True"
    using assms(4,5) by (simp_all add: IsNamespaceValid_iff [OF assms(2)] ValidateLbaRange_iff [OF assms(2)] io_inside_def)
  from BackendWriteZeroes_law [OF assms(1) wf, of ?off ?len] ext len b obtain ok B' where
    w: "BackendWriteZeroes os (Some b) ?off ?len = Some (ok, B')" "backend_ok B'" "backend_capacity B' = backend_capacity (Some b)"
      "same_outside {srv_offset pCmd n..<srv_offset pCmd n + srv_length pCmd n} (backend_contents (Some b)) (backend_contents B')"
      "ok \<longrightarrow> backend_contents B' = zero_range (srv_offset pCmd n) (srv_length pCmd n) (backend_contents (Some b))"
      "(\<exists>c. b = Memory_Backend c) \<longrightarrow> ok = (\<not> BackendIsReadOnly (Some b))" by auto
  have run: "IoCmdWriteZeroes os adminCtx queueId pCmd pCtx m
      = Some (if ok then Io_MakeStatus 0 0 (ucast ph) else Io_MakeStatus 2 0x82 (ucast ph), 0,
          if ok then upd_stats (\<lambda>s. s\<lparr>ios_bytesWritten := ios_bytesWritten s + ?len, ios_writeZeroesCommands := ios_writeZeroesCommands s + 1\<rparr>)
              (pCtx\<lparr>ic_backend := B'\<rparr>)
          else count_error (pCtx\<lparr>ic_backend := B'\<rparr>), m)"
    using w(1) assms(3,7) by (simp add: IoCmdWriteZeroes_def Let_def valid n(1) b cong: if_cong)
  have "B' \<noteq> None" using backend_ok_present [OF w(2)] .
  then have "io_same pCtx (pCtx\<lparr>ic_backend := B'\<rparr>)" using w(2,3) b by (simp add: io_same_def)
  then show ?thesis
    unfolding run using w(4-) b by - (intro exI, rule conjI, rule refl, auto)
qed

section \<open>The commands that move nothing\<close>

text \<open>Without a namespace, outside of it, or on a read-only one, a command is answered with its error code and changes
  nothing but the count of errors.\<close>

lemma IoCmd_no_namespace:
  assumes "io_wf pCtx" "GetCqPhase adminCtx queueId = Some ph" "io_namespace pCtx (NSID pCmd) = None"
  shows "IoCmdRead os adminCtx queueId pCmd pCtx m = Some (Io_MakeStatus 0 0x0B (ucast ph), 0, count_error pCtx, m)"
    "IoCmdWrite os adminCtx queueId pCmd pCtx m = Some (Io_MakeStatus 0 0x0B (ucast ph), 0, count_error pCtx, m)"
    "IoCmdWriteZeroes os adminCtx queueId pCmd pCtx m = Some (Io_MakeStatus 0 0x0B (ucast ph), 0, count_error pCtx, m)"
  using assms by (simp_all add: IoCmdRead_def IoCmdWrite_def IoCmdWriteZeroes_def IsNamespaceValid_iff)

lemma IoCmd_read_only:
  assumes "io_wf pCtx" "GetCqPhase adminCtx queueId = Some ph" "io_namespace pCtx (NSID pCmd) = Some n" "nc_readOnly n"
  shows "IoCmdWrite os adminCtx queueId pCmd pCtx m = Some (Io_MakeStatus 0 0x82 (ucast ph), 0, count_error pCtx, m)"
    "IoCmdWriteZeroes os adminCtx queueId pCmd pCtx m = Some (Io_MakeStatus 0 0x82 (ucast ph), 0, count_error pCtx, m)"
  using assms namespace_get(1) [OF assms(1,3)]
  by (simp_all add: IoCmdWrite_def IoCmdWriteZeroes_def IsNamespaceValid_iff)

lemma IoCmd_out_of_range:
  assumes "io_wf pCtx" "GetCqPhase adminCtx queueId = Some ph" "io_namespace pCtx (NSID pCmd) = Some n" "\<not> io_inside pCmd n"
  shows "IoCmdRead os adminCtx queueId pCmd pCtx m = Some (Io_MakeStatus 0 0x80 (ucast ph), 0, count_error pCtx, m)"
    "\<not> nc_readOnly n \<Longrightarrow> IoCmdWrite os adminCtx queueId pCmd pCtx m = Some (Io_MakeStatus 0 0x80 (ucast ph), 0, count_error pCtx, m)"
    "\<not> nc_readOnly n \<Longrightarrow> IoCmdWriteZeroes os adminCtx queueId pCmd pCtx m = Some (Io_MakeStatus 0 0x80 (ucast ph), 0, count_error pCtx, m)"
  using assms namespace_get [OF assms(1,3)]
  by (simp_all add: IoCmdRead_def IoCmdWrite_def IoCmdWriteZeroes_def IsNamespaceValid_iff ValidateLbaRange_iff io_inside_def)

text \<open>A valid command with no store, no data buffer or more data than the buffer holds is answered with success and counted as
  if its data had moved.\<close>

definition io_skips :: "NVME_COMMAND \<Rightarrow> IO_NAMESPACE_CONFIG \<Rightarrow> IO_CMD_CONTEXT \<Rightarrow> bool" where
  "io_skips pCmd n pCtx \<longleftrightarrow>
     ic_backend pCtx = None \<or> ic_dataBuffer pCtx = None \<or> unat (ic_dataBufferSize pCtx) < srv_length pCmd n"

lemma IoCmd_skipped:
  assumes "io_wf pCtx" "GetCqPhase adminCtx queueId = Some ph" "io_namespace pCtx (NSID pCmd) = Some n"
    and "io_inside pCmd n" "io_skips pCmd n pCtx" "len = (ucast (io_nlb pCmd) * nc_blockSize n :: u32)"
  shows "IoCmdRead os adminCtx queueId pCmd pCtx m = Some (Io_MakeStatus 0 0 (ucast ph), 0,
      upd_stats (\<lambda>s. s\<lparr>ios_bytesRead := ios_bytesRead s + ucast len, ios_readCommands := ios_readCommands s + 1\<rparr>) pCtx, m)" (is ?r)
    "\<not> nc_readOnly n \<Longrightarrow> IoCmdWrite os adminCtx queueId pCmd pCtx m = Some (Io_MakeStatus 0 0 (ucast ph), 0,
      upd_stats (\<lambda>s. s\<lparr>ios_bytesWritten := ios_bytesWritten s + ucast len, ios_writeCommands := ios_writeCommands s + 1\<rparr>) pCtx, m)"
      (is "_ \<Longrightarrow> ?w")
proof -
  note n = namespace_get [OF assms(1,3)]
  have valid: "IoCmdIsNamespaceValid pCtx (NSID pCmd) = Some True"
    "IoCmdValidateLbaRange pCtx (NSID pCmd) (io_slba pCmd) (ucast (io_nlb pCmd)) = Some True"
    using assms(3,4) by (simp_all add: IsNamespaceValid_iff [OF assms(1)] ValidateLbaRange_iff [OF assms(1)] io_inside_def)
  have "ic_backend pCtx = None \<or> ic_dataBuffer pCtx = None \<or> \<not> len \<le> ic_dataBufferSize pCtx"
    using assms(5) srv_length_words(1) [OF n(3), of pCmd] by (auto simp: io_skips_def word_le_nat_alt assms(6))
  then show ?r "\<not> nc_readOnly n \<Longrightarrow> ?w"
    using assms(2) unfolding assms(6)
    by (auto simp: IoCmdRead_def IoCmdWrite_def Let_def valid n split: option.splits)
qed

lemma IoCmdWriteZeroes_skipped:
  assumes "io_wf pCtx" "GetCqPhase adminCtx queueId = Some ph" "io_namespace pCtx (NSID pCmd) = Some n"
    and "io_inside pCmd n" "ic_backend pCtx = None" "\<not> nc_readOnly n"
  shows "IoCmdWriteZeroes os adminCtx queueId pCmd pCtx m = Some (Io_MakeStatus 0 0 (ucast ph), 0,
      upd_stats (\<lambda>s. s\<lparr>ios_bytesWritten := ios_bytesWritten s + ucast (io_nlb pCmd) * ucast (nc_blockSize n),
        ios_writeZeroesCommands := ios_writeZeroesCommands s + 1\<rparr>) pCtx, m)"
  using assms namespace_get [OF assms(1,3)]
  by (simp add: IoCmdWriteZeroes_def Let_def IsNamespaceValid_iff ValidateLbaRange_iff io_inside_def)

section \<open>Every command is answered\<close>

text \<open>A handler returns a well-formed status and the result 0, writes only into the data buffer and keeps the context usable.\<close>

definition srv_answered :: "u32 \<Rightarrow> IO_CMD_CONTEXT \<Rightarrow> mem \<Rightarrow> io_answer option \<Rightarrow> bool" where
  "srv_answered ph pCtx m answer \<longleftrightarrow>
     (\<exists>sct sc pCtx' m'. answer = Some (Io_MakeStatus sct sc (ucast ph), 0, pCtx', m') \<and> sct \<le> 2
        \<and> io_same pCtx pCtx' \<and> same_outside (io_buffer pCtx) m m')"

lemma srv_answeredI:
  assumes "answer = Some (if ok then Io_MakeStatus 0 0 (ucast ph) else Io_MakeStatus sct sc (ucast ph), 0, pCtx', m')"
    "sct \<le> 2" "io_same pCtx pCtx'" "same_outside (io_buffer pCtx) m m'"
  shows "srv_answered ph pCtx m answer"
  unfolding srv_answered_def
  by (rule exI [of _ "if ok then 0 else sct"], rule exI [of _ "if ok then 0 else sc"]) (use assms in \<open>cases ok; auto\<close>)

lemma srv_answered_still:
  assumes "answer = Some (Io_MakeStatus sct sc (ucast ph), 0, pCtx', m)" "sct \<le> 2" "io_same pCtx pCtx'"
  shows "srv_answered ph pCtx m answer"
  using assms by (intro srv_answeredI [where ok = False]) auto

lemma io_transfer_cases:
  fixes pCtx :: IO_CMD_CONTEXT and nsid :: u32 and pCmd :: NVME_COMMAND
  obtains (none) "io_namespace pCtx nsid = None"
    | (range_error) n where "io_namespace pCtx nsid = Some n" "\<not> io_inside pCmd n"
    | (skip) n where "io_namespace pCtx nsid = Some n" "io_inside pCmd n" "io_skips pCmd n pCtx"
    | (move) n data where "io_namespace pCtx nsid = Some n" "io_inside pCmd n" "ic_backend pCtx \<noteq> None"
        "ic_dataBuffer pCtx = Some data" "srv_length pCmd n \<le> unat (ic_dataBufferSize pCtx)"
proof (cases "io_namespace pCtx nsid")
  case (Some n)
  show ?thesis
  proof (cases "io_inside pCmd n \<and> \<not> io_skips pCmd n pCtx")
    case True
    then obtain data where "ic_dataBuffer pCtx = Some data" by (auto simp: io_skips_def)
    with True Some show ?thesis by (intro move) (auto simp: io_skips_def not_less)
  qed (use Some range_error skip in blast)
qed (rule none)

lemma IoCmdRead_answered:
  assumes "win_os_ok os" "io_wf pCtx" "GetCqPhase adminCtx queueId = Some ph"
  shows "srv_answered ph pCtx m (IoCmdRead os adminCtx queueId pCmd pCtx m)"
proof (cases rule: io_transfer_cases [where pCtx = pCtx and nsid = "NSID pCmd" and pCmd = pCmd])
  case (move n data)
  obtain ok pCtx' m' where "IoCmdRead os adminCtx queueId pCmd pCtx m
      = Some (if ok then Io_MakeStatus 0 0 (ucast ph) else Io_MakeStatus 2 0x81 (ucast ph), 0, pCtx', m')"
    "io_same pCtx pCtx'" "same_outside {data..<data + srv_length pCmd n} m m'"
    using IoCmdRead_moves [OF assms move, of m] by blast
  moreover have "{data..<data + srv_length pCmd n} \<subseteq> io_buffer pCtx" using move(4,5) by (auto simp: io_buffer_def)
  ultimately show ?thesis by (intro srv_answeredI) (auto intro: same_outside_mono)
qed (use assms io_same_refl [OF assms(2)] in
    \<open>auto intro!: srv_answered_still simp: IoCmd_no_namespace IoCmd_out_of_range IoCmd_skipped\<close>)

lemma IoCmdWrite_answered:
  assumes "win_os_ok os" "io_wf pCtx" "GetCqPhase adminCtx queueId = Some ph"
  shows "srv_answered ph pCtx m (IoCmdWrite os adminCtx queueId pCmd pCtx m)"
proof (cases "\<exists>n. io_namespace pCtx (NSID pCmd) = Some n \<and> nc_readOnly n")
  case True
  then show ?thesis
    using assms io_same_refl [OF assms(2)] by (auto intro!: srv_answered_still simp: IoCmd_read_only)
next
  case writable: False
  show ?thesis
  proof (cases rule: io_transfer_cases [where pCtx = pCtx and nsid = "NSID pCmd" and pCmd = pCmd])
    case (move n data)
    with writable IoCmdWrite_moves [OF assms move, of m] show ?thesis by (auto intro!: srv_answeredI)
  qed (use writable assms io_same_refl [OF assms(2)] in
      \<open>auto intro!: srv_answered_still simp: IoCmd_no_namespace IoCmd_out_of_range IoCmd_skipped\<close>)
qed

lemma IoCmdWriteZeroes_answered:
  assumes "win_os_ok os" "io_wf pCtx" "GetCqPhase adminCtx queueId = Some ph"
  shows "srv_answered ph pCtx m (IoCmdWriteZeroes os adminCtx queueId pCmd pCtx m)"
proof (cases "io_namespace pCtx (NSID pCmd)")
  case None
  then show ?thesis using assms io_same_refl [OF assms(2)] by (auto intro!: srv_answered_still simp: IoCmd_no_namespace)
next
  case (Some n)
  consider "nc_readOnly n" | "\<not> nc_readOnly n" "\<not> io_inside pCmd n" | "\<not> nc_readOnly n" "io_inside pCmd n" "ic_backend pCtx = None"
    | "\<not> nc_readOnly n" "io_inside pCmd n" "ic_backend pCtx \<noteq> None" by blast
  then show ?thesis
  proof cases
    case 4
    with IoCmdWriteZeroes_moves [OF assms Some, of m] show ?thesis by (auto intro!: srv_answeredI)
  qed (use Some assms io_same_refl [OF assms(2)] in
      \<open>auto intro!: srv_answered_still simp: IoCmd_read_only IoCmd_out_of_range IoCmdWriteZeroes_skipped\<close>)
qed

lemma io_switch_answered:
  assumes "win_os_ok os" "io_wf pCtx" "GetCqPhase adminCtx queueId = Some ph"
  shows "srv_answered ph pCtx m (io_switch os adminCtx queueId pCmd pCtx m)"
proof -
  have "srv_answered ph pCtx m (IoCmdFlush os adminCtx queueId pCmd pCtx m)"
    "srv_answered ph pCtx m (IoCmdDatasetManagement adminCtx queueId pCmd pCtx m)"
    using assms(3) io_same_refl [OF assms(2)] unfolding IoCmdFlush_def IoCmdDatasetManagement_def Let_def
    by (auto intro!: srv_answered_still)
  moreover have "srv_answered ph pCtx m (Some (Io_MakeStatus 0 1 (ucast ph), 0, count_error pCtx, m))"
    using io_same_refl [OF assms(2)] by (auto intro!: srv_answered_still)
  ultimately show ?thesis
    using IoCmdRead_answered [OF assms] IoCmdWrite_answered [OF assms] IoCmdWriteZeroes_answered [OF assms] assms(3)
    by (simp add: io_switch_def)
qed

section \<open>Completions\<close>

text \<open>Where the completions of a submission queue go, and the phase they carry.\<close>

definition io_cq :: "ADMIN_CMD_CONTEXT \<Rightarrow> u16 \<Rightarrow> (nat \<times> u32) option" where
  "io_cq adminCtx queueId =
     (case AdminCmdGetIoSq adminCtx queueId of
        None \<Rightarrow> None
      | Some sq \<Rightarrow>
          if \<not> qi_created (ac_ioSq adminCtx ! sq) then None
          else (case AdminCmdGetIoCq adminCtx (ucast (qi_cqId (ac_ioSq adminCtx ! sq))) of
            None \<Rightarrow> None
          | Some cq \<Rightarrow>
              if \<not> qi_created (ac_ioCq adminCtx ! cq) then None
              else map_option (\<lambda>base. (base, qi_phase (ac_ioCq adminCtx ! cq))) (qi_cqBase (ac_ioCq adminCtx ! cq))))"

lemma GetIo_index:
  assumes "adm_wf adminCtx"
  shows "AdminCmdGetIoSq adminCtx q = Some i \<Longrightarrow> arr_get (ac_ioSq adminCtx) i = Some (ac_ioSq adminCtx ! i) \<and> q \<noteq> 0 \<and> q \<le> 16"
    "AdminCmdGetIoCq adminCtx q = Some i \<Longrightarrow> arr_get (ac_ioCq adminCtx) i = Some (ac_ioCq adminCtx ! i)"
  using assms queue_index [OF assms, of q]
  by (auto simp: AdminCmdGetIoSq_def AdminCmdGetIoCq_def adm_wf_def word_le_nat_alt word_less_nat_alt split: if_split_asm)

lemma io_cq_cases:
  assumes "adm_wf adminCtx" "io_cq adminCtx q = Some (base, ph)"
  obtains s c where "AdminCmdGetIoSq adminCtx q = Some s" "arr_get (ac_ioSq adminCtx) s = Some (ac_ioSq adminCtx ! s)"
    "qi_created (ac_ioSq adminCtx ! s)" "q \<noteq> 0" "q \<le> 16"
    "AdminCmdGetIoCq adminCtx (ucast (qi_cqId (ac_ioSq adminCtx ! s))) = Some c"
    "arr_get (ac_ioCq adminCtx) c = Some (ac_ioCq adminCtx ! c)" "qi_created (ac_ioCq adminCtx ! c)"
    "qi_cqBase (ac_ioCq adminCtx ! c) = Some base" "qi_phase (ac_ioCq adminCtx ! c) = ph"
  using assms GetIo_index [OF assms(1)]
  by (auto simp: io_cq_def split: option.splits if_split_asm)

lemma GetCqPhase_total:
  assumes "adm_wf adminCtx"
  shows "\<exists>ph. GetCqPhase adminCtx q = Some ph"
  using GetIo_index [OF assms] by (auto simp: GetCqPhase_def split: option.splits)

lemma io_cq_phase:
  assumes "adm_wf adminCtx" "io_cq adminCtx q = Some (base, ph)"
  shows "GetCqPhase adminCtx q = Some ph"
  using assms by (rule io_cq_cases) (simp add: GetCqPhase_def)

lemma IoCmdPostCompletion_posts:
  assumes "adm_wf adminCtx" "io_cq adminCtx q = Some (base, ph)" "base + 16 \<le> VNVME_SHM_SIZE"
  shows "IoCmdPostCompletion adminCtx q cid result sct sc pCtx m
    = Some (upd_stats (\<lambda>s. s\<lparr>ios_commandsProcessed := ios_commandsProcessed s + 1\<rparr>) pCtx,
        wr_NVME_COMPLETION base \<lparr>cqe_DW0 = result, cqe_DW1 = 0, cqe_SQHD = 0, cqe_SQID = q, cqe_CID = cid,
          cqe_Status = Io_MakeStatus sct sc (ucast ph)\<rparr> m)"
  using assms(1,2) by (rule io_cq_cases) (use assms(3) in \<open>auto simp: IoCmdPostCompletion_def\<close>)

lemma Io_MakeStatus_fields:
  assumes "ph \<le> 1" "sct \<le> 2"
  shows "(ucast (drop_bit 9 (Io_MakeStatus sct sc (ucast (ph :: u32))) AND 0x07) :: u8) = sct"
    "(ucast (drop_bit 1 (Io_MakeStatus sct sc (ucast ph)) AND 0xFF) :: u8) = sc"
proof -
  have sct: "n < 2" if "bit sct n" for n
    using bit_below [of sct 2 n] assms(2) that by (auto simp: word_le_nat_alt word_less_nat_alt)
  have ph: "n = 0" if "bit ph n" for n
    using bit_below [of ph 1 n] assms(1) that by (auto simp: word_le_nat_alt word_less_nat_alt)
  have sc: "n < 8" if "bit sc n" for n
    using bit_imp_le_length [OF that] by simp
  show "(ucast (drop_bit 9 (Io_MakeStatus sct sc (ucast ph)) AND 0x07) :: u8) = sct"
    "(ucast (drop_bit 1 (Io_MakeStatus sct sc (ucast ph)) AND 0xFF) :: u8) = sc"
    by (intro bit_word_eqI; auto simp: Io_MakeStatus_def bit_simps bit_odd_word bit_times_two dest: sct ph sc)+
qed

section \<open>Properties\<close>

text \<open>Read commands one after the other, each on its own queue and with the shared memory as it then is; each must be answered.\<close>

fun read_commands :: "win_os \<Rightarrow> ADMIN_CMD_CONTEXT \<Rightarrow> (u16 \<times> NVME_COMMAND \<times> mem) list \<Rightarrow> IO_CMD_CONTEXT \<Rightarrow> IO_CMD_CONTEXT option" where
  "read_commands os adminCtx [] pCtx = Some pCtx"
| "read_commands os adminCtx ((queueId, pCmd, m) # rs) pCtx =
     IoCmdRead os adminCtx queueId pCmd pCtx m \<bind> (\<lambda>(status, result, pCtx, m). read_commands os adminCtx rs pCtx)"

lemma IoCmdRead_keeps:
  assumes "win_os_ok os" "io_wf pCtx" "GetCqPhase adminCtx queueId = Some ph"
  shows "\<exists>status pCtx' m'. IoCmdRead os adminCtx queueId pCmd pCtx m = Some (status, 0, pCtx', m') \<and> io_same pCtx pCtx'
    \<and> backend_contents (ic_backend pCtx') = backend_contents (ic_backend pCtx)
    \<and> ((\<exists>b. ic_backend pCtx = Some (Memory_Backend b)) \<longrightarrow> (\<exists>b. ic_backend pCtx' = Some (Memory_Backend b)))"
proof (cases rule: io_transfer_cases [where pCtx = pCtx and nsid = "NSID pCmd" and pCmd = pCmd])
  case (move n data)
  from IoCmdRead_moves [OF assms move, of m] show ?thesis by blast
qed (use assms io_same_refl [OF assms(2)] in \<open>simp_all add: IoCmd_no_namespace IoCmd_out_of_range IoCmd_skipped\<close>)

lemma read_commands_keep:
  assumes "win_os_ok os" "io_wf pCtx" "\<forall>(queueId, pCmd, m)\<in>set rs. GetCqPhase adminCtx queueId \<noteq> None"
  shows "\<exists>pCtx'. read_commands os adminCtx rs pCtx = Some pCtx' \<and> io_same pCtx pCtx'
    \<and> backend_contents (ic_backend pCtx') = backend_contents (ic_backend pCtx)
    \<and> ((\<exists>b. ic_backend pCtx = Some (Memory_Backend b)) \<longrightarrow> (\<exists>b. ic_backend pCtx' = Some (Memory_Backend b)))"
  using assms(2,3)
proof (induction rs arbitrary: pCtx)
  case Nil
  then show ?case by (simp add: io_same_refl)
next
  case (Cons x rs)
  obtain queueId pCmd m where x: "x = (queueId, pCmd, m)" by (cases x)
  with Cons.prems(2) obtain ph where "GetCqPhase adminCtx queueId = Some ph" by auto
  from IoCmdRead_keeps [OF assms(1) Cons.prems(1) this, of pCmd m] obtain status p1 m1 where
    r: "IoCmdRead os adminCtx queueId pCmd pCtx m = Some (status, 0, p1, m1)" "io_same pCtx p1"
      "backend_contents (ic_backend p1) = backend_contents (ic_backend pCtx)"
      "(\<exists>b. ic_backend pCtx = Some (Memory_Backend b)) \<longrightarrow> (\<exists>b. ic_backend p1 = Some (Memory_Backend b))" by blast
  from Cons.IH [OF io_wf_same [OF Cons.prems(1) r(2)]] Cons.prems(2) obtain p2 where
    "read_commands os adminCtx rs p1 = Some p2" "io_same p1 p2" "backend_contents (ic_backend p2) = backend_contents (ic_backend p1)"
    "(\<exists>b. ic_backend p1 = Some (Memory_Backend b)) \<longrightarrow> (\<exists>b. ic_backend p2 = Some (Memory_Backend b))" by auto
  with r show ?case by (auto simp: x io_same_def)
qed

text \<open>C17: the store seen through the commands of the service is one flat array of bytes. Take a service with a back end and a data
  buffer, and a Write to a namespace that is not read-only, inside it, whose data fit the data buffer (without these the command reports
  success and moves nothing). It is answered with success or a media error. After any number of Read commands, of any kind and with
  any answers, comes a Read inside its namespace whose data fit the buffer too; it is answered with success or Unrecovered Read Error. If both report success, the
  data buffer then holds the bytes the write took from the buffer at the write's place, and the earlier contents everywhere else, for any
  two commands, namespaces and states of the shared memory. Nothing outside that part of the data buffer changes. With a memory
  back end every read succeeds, and the write fails only if the back end is read-only.\<close>

theorem IoCmdWrite_IoCmdRead:
  assumes "win_os_ok os" "io_wf pCtx" "GetCqPhase adminCtx queueId = Some ph" "ic_backend pCtx \<noteq> None" "ic_dataBuffer pCtx = Some data"
    and "io_namespace pCtx (NSID w) = Some n" "io_inside w n" "srv_length w n \<le> unat (ic_dataBufferSize pCtx)" "\<not> nc_readOnly n"
    and "io_namespace pCtx (NSID r) = Some k" "io_inside r k" "srv_length r k \<le> unat (ic_dataBufferSize pCtx)"
    and "\<forall>(q, c, m)\<in>set rs. GetCqPhase adminCtx q \<noteq> None"
  shows "\<exists>ok pCtx'. IoCmdWrite os adminCtx queueId w pCtx m
        = Some (if ok then Io_MakeStatus 0 0 (ucast ph) else Io_MakeStatus 2 0x82 (ucast ph), 0, pCtx', m) \<and> io_wf pCtx'
      \<and> (\<exists>pCtx1 rok pCtx'' m''. read_commands os adminCtx rs pCtx' = Some pCtx1 \<and> IoCmdRead os adminCtx queueId r pCtx1 m'
            = Some (if rok then Io_MakeStatus 0 0 (ucast ph) else Io_MakeStatus 2 0x81 (ucast ph), 0, pCtx'', m'')
          \<and> same_outside {data..<data + srv_length r k} m' m''
          \<and> (ok \<and> rok \<longrightarrow> rd_bytes m'' data (srv_length r k)
               = rd_bytes (wr_bytes (srv_offset w n) (rd_bytes m data (srv_length w n)) (backend_contents (ic_backend pCtx)))
                   (srv_offset r k) (srv_length r k))
          \<and> ((\<exists>b. ic_backend pCtx = Some (Memory_Backend b)) \<longrightarrow> ok = (\<not> BackendIsReadOnly (ic_backend pCtx)) \<and> rok))"
proof -
  obtain ok pCtx' where w: "IoCmdWrite os adminCtx queueId w pCtx m
      = Some (if ok then Io_MakeStatus 0 0 (ucast ph) else Io_MakeStatus 2 0x82 (ucast ph), 0, pCtx', m)" "io_same pCtx pCtx'"
    "ok \<longrightarrow> backend_contents (ic_backend pCtx')
       = wr_bytes (srv_offset w n) (rd_bytes m data (srv_length w n)) (backend_contents (ic_backend pCtx))"
    "(\<exists>b. ic_backend pCtx = Some (Memory_Backend b)) \<longrightarrow> ok = (\<not> BackendIsReadOnly (ic_backend pCtx))
       \<and> (\<exists>b. ic_backend pCtx' = Some (Memory_Backend b))"
    using IoCmdWrite_moves [OF assms(1-3,6,7,4,5,8,9), of m] by blast
  note wf = io_wf_same [OF assms(2) w(2)]
  obtain pCtx1 where rs: "read_commands os adminCtx rs pCtx' = Some pCtx1" "io_same pCtx' pCtx1"
    "backend_contents (ic_backend pCtx1) = backend_contents (ic_backend pCtx')"
    "(\<exists>b. ic_backend pCtx' = Some (Memory_Backend b)) \<longrightarrow> (\<exists>b. ic_backend pCtx1 = Some (Memory_Backend b))"
    using read_commands_keep [OF assms(1) wf assms(13)] by blast
  note wf1 = io_wf_same [OF wf rs(2)]
  have c': "ic_backend pCtx1 \<noteq> None" "ic_dataBuffer pCtx1 = Some data" "srv_length r k \<le> unat (ic_dataBufferSize pCtx1)"
    "io_namespace pCtx1 (NSID r) = Some k"
    using w(2) rs(2) assms(4,5,10,12) io_namespace_same [OF w(2)] io_namespace_same [OF rs(2)] by (auto simp: io_same_def)
  obtain rok pCtx'' m'' where r: "IoCmdRead os adminCtx queueId r pCtx1 m'
      = Some (if rok then Io_MakeStatus 0 0 (ucast ph) else Io_MakeStatus 2 0x81 (ucast ph), 0, pCtx'', m'')"
    "same_outside {data..<data + srv_length r k} m' m''"
    "rok \<longrightarrow> rd_bytes m'' data (srv_length r k) = rd_bytes (backend_contents (ic_backend pCtx1)) (srv_offset r k) (srv_length r k)"
    "(\<exists>b. ic_backend pCtx1 = Some (Memory_Backend b)) \<longrightarrow> rok"
    using IoCmdRead_moves [OF assms(1) wf1 assms(3) c'(4) assms(11) c'(1-3), of m'] by blast
  show ?thesis
    using w wf rs r by - (rule exI [of _ ok], rule exI [of _ pCtx'], intro conjI, simp, simp, rule exI [of _ pCtx1], rule exI [of _ rok],
        rule exI [of _ pCtx''], rule exI [of _ m''], auto)
qed

text \<open>C27: every command the service takes from an I/O queue is answered. With a usable context and a created queue pair
  \<open>IoCmdProcess\<close> returns one; the completion carries the identifier of the command, the
  submission queue, the queue's phase and the status of the handler; nothing but the data buffer and that
  entry changes in the shared memory, and the context can take the next command.\<close>

theorem IoCmdProcess_answers:
  assumes "win_os_ok os" "io_wf pCtx" "adm_wf adminCtx" "io_cq adminCtx queueId = Some (cqe, ph)" "ph \<le> 1"
    and "cqe + 16 \<le> VNVME_SHM_SIZE" "pCmd + 64 \<le> VNVME_SHM_SIZE"
    and "{pCmd..<pCmd + 64} \<inter> io_buffer pCtx = {}"
  shows "\<exists>pCtx' m' pCtx1 m1 sct sc. IoCmdProcess os adminCtx pCtx pCmd queueId m = Some (1, pCtx', m')
    \<and> io_switch os adminCtx queueId (rd_NVME_COMMAND m pCmd) pCtx m = Some (Io_MakeStatus sct sc (ucast ph), 0, pCtx1, m1)
    \<and> rd_NVME_COMPLETION m' cqe = \<lparr>cqe_DW0 = 0, cqe_DW1 = 0, cqe_SQHD = 0, cqe_SQID = queueId,
         cqe_CID = CID (rd_NVME_COMMAND m pCmd), cqe_Status = Io_MakeStatus sct sc (ucast ph)\<rparr>
    \<and> same_outside (io_buffer pCtx) m m1 \<and> same_outside {cqe..<cqe + 16} m1 m'
    \<and> io_wf pCtx' \<and> ic_backend pCtx' = ic_backend pCtx1
    \<and> ios_commandsProcessed (ic_stats pCtx') = ios_commandsProcessed (ic_stats pCtx1) + 1"
proof -
  let ?c = "rd_NVME_COMMAND m pCmd"
  obtain sct sc pCtx1 m1 where sw: "io_switch os adminCtx queueId ?c pCtx m = Some (Io_MakeStatus sct sc (ucast ph), 0, pCtx1, m1)"
    "sct \<le> 2" "io_same pCtx pCtx1" "same_outside (io_buffer pCtx) m m1"
    using io_switch_answered [OF assms(1,2) io_cq_phase [OF assms(3,4)], of m ?c] by (auto simp: srv_answered_def)
  have cmd: "rd_NVME_COMMAND m1 pCmd = ?c" by (rule rd_NVME_COMMAND_same_outside [OF sw(4) assms(8)])
  let ?e = "\<lparr>cqe_DW0 = 0, cqe_DW1 = 0, cqe_SQHD = 0, cqe_SQID = queueId, cqe_CID = CID ?c, cqe_Status = Io_MakeStatus sct sc (ucast ph)\<rparr>"
  let ?f = "\<lambda>s. s\<lparr>ios_commandsProcessed := ios_commandsProcessed s + 1\<rparr>"
  have run: "IoCmdProcess os adminCtx pCtx pCmd queueId m = Some (1, upd_stats ?f pCtx1, wr_NVME_COMPLETION cqe ?e m1)"
    using assms(7) sw(1) Io_MakeStatus_fields [OF assms(5) sw(2), of sc]
    by (simp add: IoCmdProcess_def Let_def cmd IoCmdPostCompletion_posts [OF assms(3,4,6)])
  have "io_wf (upd_stats ?f pCtx1)" by (rule io_wf_same [OF assms(2)]) (simp add: sw(3))
  moreover have "rd_NVME_COMPLETION (wr_NVME_COMPLETION cqe ?e m1) cqe = ?e" by (rule rd_wr_NVME_COMPLETION)
  moreover have "same_outside {cqe..<cqe + 16} m1 (wr_NVME_COMPLETION cqe ?e m1)"
    by (rule same_outside_wr_NVME_COMPLETION) simp
  moreover have "ios_commandsProcessed (ic_stats (upd_stats ?f pCtx1)) = ios_commandsProcessed (ic_stats pCtx1) + 1"
    by (simp add: upd_stats_def)
  ultimately show ?thesis using run sw(1,4) by fastforce
qed

text \<open>The service's range check is exact. A range is accepted if and only if the identifier selects an active namespace
  and the range lies inside it, read as mathematical numbers: unlike the driver's check, it does not wrap.\<close>

theorem IoCmdValidateLbaRange_exact:
  assumes "io_wf pCtx"
  shows "IoCmdValidateLbaRange pCtx nsid slba nlb = Some True \<longleftrightarrow>
    0 < nsid \<and> nsid \<le> ic_namespaceCount pCtx \<and> nc_active (ic_namespaces pCtx ! unat (nsid - 1))
    \<and> unat slba + unat nlb \<le> unat (nc_size (ic_namespaces pCtx ! unat (nsid - 1)))"
  by (auto simp: ValidateLbaRange_iff [OF assms] io_namespace_def word_gt_0)

text \<open>A transfer that moved nothing is reported as a success. When a valid read or write has no store, no data buffer or more data than
  the data buffer holds, the service answers with status 0 and counts the bytes, and neither the buffer nor the store has changed.\<close>

theorem oversized_transfer_reports_success:
  assumes "io_wf pCtx" "GetCqPhase adminCtx queueId = Some ph" "io_namespace pCtx (NSID pCmd) = Some n" "\<not> nc_readOnly n"
    and "io_inside pCmd n" "io_skips pCmd n pCtx"
  shows "(\<exists>pCtx'. IoCmdRead os adminCtx queueId pCmd pCtx m = Some (Io_MakeStatus 0 0 (ucast ph), 0, pCtx', m)
      \<and> ic_backend pCtx' = ic_backend pCtx \<and> ios_bytesRead (ic_stats pCtx') = ios_bytesRead (ic_stats pCtx) + of_nat (srv_length pCmd n))
    \<and> (\<exists>pCtx'. IoCmdWrite os adminCtx queueId pCmd pCtx m = Some (Io_MakeStatus 0 0 (ucast ph), 0, pCtx', m)
      \<and> ic_backend pCtx' = ic_backend pCtx \<and> ios_bytesWritten (ic_stats pCtx') = ios_bytesWritten (ic_stats pCtx) + of_nat (srv_length pCmd n))"
proof -
  note skip = IoCmd_skipped [OF assms(1,2,3,5,6) refl]
  have len: "ucast (ucast (io_nlb pCmd) * nc_blockSize n :: u32) = (of_nat (srv_length pCmd n) :: u64)"
    unfolding srv_length_words(1) [OF namespace_get(3) [OF assms(1,3)], of pCmd, symmetric] by (simp add: unsigned_of_nat)
  show ?thesis
    unfolding skip(1) skip(2) [OF assms(4)] by (simp add: len) (simp add: upd_stats_def)
qed

section \<open>Queue pairs\<close>

text \<open>The completion queues that the layout provides lie inside the shared memory.\<close>

lemma VnvmeGetIoCQ_inside:
  assumes "i < 16"
  shows "VnvmeGetIoCQ i + 4096 \<le> VNVME_SHM_SIZE" "0x5000 \<le> VnvmeGetIoCQ i" "VnvmeGetIoCQ i + 4096 \<le> 348160"
proof -
  have "unat i < 16" using assms by (simp add: word_less_nat_alt)
  then show "VnvmeGetIoCQ i + 4096 \<le> VNVME_SHM_SIZE" "0x5000 \<le> VnvmeGetIoCQ i" "VnvmeGetIoCQ i + 4096 \<le> 348160"
    unfolding VnvmeGetIoCQ_def VNVME_IO_CQ_OFFSET_def VNVME_IO_SQ_OFFSET_def layout_values
    by (simp_all add: unat_word_ariths)
qed

lemma unat_ucast_pred:
  assumes "q \<noteq> 0"
  shows "unat (ucast (q :: u16) - 1 :: u32) = unat (q - 1)"
proof -
  have "unat (ucast q :: u32) \<noteq> 0" using assms by (simp add: unsigned_eq_0_iff)
  then have "(ucast q :: u32) \<noteq> 0" by (metis unsigned_0)
  then show ?thesis using assms by (simp add: unat_minus_one)
qed

lemma ucast_u16_u32 [simp]: "(ucast (ucast (q :: u16) :: u32) :: u16) = q"
  by (rule bit_word_eqI) (simp add: bit_simps)

lemma create_queue_pair:
  assumes "adm_wf a" "ac_shmBase a" "srv_qid ccq = cqid" "0 < cqid" "cqid \<le> 16" "\<not> qi_created (ac_ioCq a ! unat (cqid - 1))"
    and "srv_qid csq = sqid" "0 < sqid" "sqid \<le> 16" "\<not> qi_created (ac_ioSq a ! unat (sqid - 1))" "ucast (CDW11 csq AND 0xFFFF) = cqid"
  shows "\<exists>a1 a2. AdminCmdCreateIoCq a ccq m = Some (Admin_MakeStatus 0 0 (ac_adminCqPhase a), 0, a1, m)
    \<and> AdminCmdCreateIoSq a1 csq m = Some (Admin_MakeStatus 0 0 (ac_adminCqPhase a), 0, a2, m) \<and> adm_wf a2
    \<and> io_cq a2 sqid = Some (VnvmeGetIoCQ (ucast cqid - 1), 1) \<and> VnvmeGetIoCQ (ucast cqid - 1) + 16 \<le> VNVME_SHM_SIZE"
proof -
  let ?i = "unat (cqid - 1)" and ?j = "unat (sqid - 1)"
  have wf: "length (ac_ioCq a) = 16" "length (ac_ioSq a) = 16" "ac_maxIoQueues a = 16"
    "\<forall>j<16. qi_descriptor (ac_ioSq a ! j) = None"
    using assms(1) by (auto simp: adm_wf_def)
  have nz: "cqid \<noteq> 0" "sqid \<noteq> 0" using assms(4,8) by auto
  have le: "\<not> (16 :: u32) < ucast cqid" "\<not> (16 :: u32) < ucast sqid"
    using assms(5,9) by (simp_all add: word_less_nat_alt word_le_nat_alt)
  have i: "?i < 16" "?j < 16"
    using pred_index [OF nz(1), of 16] pred_index [OF nz(2), of 16] assms(5,9) by (simp_all add: word_le_nat_alt)
  let ?cq = "(ac_ioCq a ! ?i)\<lparr>qi_created := True, qi_capacity := ucast (srv_qsize ccq), qi_phase := 1,
    qi_cqBase := Some (VnvmeGetIoCQ (ucast cqid - 1))\<rparr>"
  let ?sq = "(ac_ioSq a ! ?j)\<lparr>qi_created := True, qi_capacity := ucast (srv_qsize csq), qi_cqId := ucast cqid,
    qi_sqBase := Some (VnvmeGetIoSQ (ucast sqid - 1))\<rparr>"
  let ?a1 = "a\<lparr>ac_ioCq := (ac_ioCq a)[?i := ?cq]\<rparr>"
  let ?a2 = "?a1\<lparr>ac_ioSq := (ac_ioSq a)[?j := ?sq]\<rparr>"
  have "AdminCmdCreateIoCq a ccq m = Some (Admin_MakeStatus 0 0 (ac_adminCqPhase a), 0, ?a1, m)"
    using assms(2,6) nz le i wf by (simp add: AdminCmdCreateIoCq_def Let_def assms(3) unat_ucast_pred)
  moreover have "AdminCmdCreateIoSq ?a1 csq m = Some (Admin_MakeStatus 0 0 (ac_adminCqPhase a), 0, ?a2, m)"
    using assms(2,10) nz le i wf unfolding AdminCmdCreateIoSq_def Let_def assms(7,11)
    by (simp add: unat_ucast_pred)
  moreover have "adm_wf ?a2"
  proof -
    have "adm_wf ?a1" using assms(1) wf(1) by simp
    then show ?thesis using adm_wf_queues(2) [of ?j ?sq ?a1] i wf(4) by simp
  qed
  moreover have "io_cq ?a2 sqid = Some (VnvmeGetIoCQ (ucast cqid - 1), 1)"
    using nz le i wf by (simp add: io_cq_def AdminCmdGetIoSq_def AdminCmdGetIoCq_def)
  moreover have "VnvmeGetIoCQ (ucast cqid - 1) + 16 \<le> VNVME_SHM_SIZE"
    using VnvmeGetIoCQ_inside(1) [of "ucast cqid - 1"] i(1) nz(1) by (simp add: word_less_nat_alt unat_ucast_pred)
  ultimately show ?thesis by blast
qed

lemma create_cq:
  assumes "adm_wf a" "srv_qid ccq = cqid" "0 < cqid" "cqid \<le> 16" "\<not> qi_created (ac_ioCq a ! unat (cqid - 1))"
  shows "\<exists>a1. AdminCmdCreateIoCq a ccq m = Some (Admin_MakeStatus 0 0 (ac_adminCqPhase a), 0, a1, m) \<and> adm_wf a1
    \<and> ac_adminCqPhase a1 = ac_adminCqPhase a \<and> ac_ioSq a1 = ac_ioSq a"
proof -
  have wf: "length (ac_ioCq a) = 16" "ac_maxIoQueues a = 16" using assms(1) by (auto simp: adm_wf_def)
  have nz: "cqid \<noteq> 0" and le: "\<not> (16 :: u32) < ucast cqid"
    using assms(3,4) by (auto simp: word_less_nat_alt word_le_nat_alt)
  have "unat (cqid - 1) < 16" using pred_index [OF nz, of 16] assms(4) by (simp add: word_le_nat_alt)
  then show ?thesis
    using assms(1,5) nz le wf by (simp add: AdminCmdCreateIoCq_def Let_def assms(2) unat_ucast_pred)
qed

lemma create_sq_no_cq:
  fixes csq :: NVME_COMMAND
  defines "f \<equiv> ucast (CDW11 csq AND 0xFFFF) :: u16"
  assumes "adm_wf a" "srv_qid csq = sqid" "0 < sqid" "sqid \<le> 16" "\<not> qi_created (ac_ioSq a ! unat (sqid - 1))"
    and "f = 0 \<or> 16 < f \<or> \<not> qi_created (ac_ioCq a ! unat (f - 1))"
  shows "AdminCmdCreateIoSq a csq m = Some (Admin_MakeStatus 0 0 (ac_adminCqPhase a), 0, a, m) \<and> io_cq a sqid = None"
proof -
  have wf: "length (ac_ioCq a) = 16" "length (ac_ioSq a) = 16" "ac_maxIoQueues a = 16" using assms(2) by (auto simp: adm_wf_def)
  have nz: "sqid \<noteq> 0" and le: "\<not> (16 :: u32) < ucast sqid"
    using assms(4,5) by (auto simp: word_less_nat_alt word_le_nat_alt)
  have i: "unat (sqid - 1) < 16" using pred_index [OF nz, of 16] assms(5) by (simp add: word_le_nat_alt)
  have f: "(16 :: u32) < ucast f \<longleftrightarrow> 16 < f" by (simp add: word_less_nat_alt)
  have "unat (f - 1) < 16" if "f \<noteq> 0" "\<not> 16 < f"
    using pred_index [OF that(1), of 16] that(2) by (simp add: word_le_nat_alt not_less)
  then show ?thesis
    using assms(6,7) nz le i wf unfolding AdminCmdCreateIoSq_def Let_def assms(3) f_def [symmetric]
    by (auto simp: f io_cq_def AdminCmdGetIoSq_def)
qed

text \<open>C28: creating a queue pair, as the service understands the commands. Take identifiers that are in range and not in use. Create I/O
  Completion Queue reports success. Create I/O Submission Queue then looks for the completion queue's number in bits 15:0 of
  CDW11. If that is the number of the new queue, it reports success too, and the completions of the submission queue go to
  the place of the completion queue in the layout, inside the shared memory, with phase 1. NVMe, the documentation and the driver have the number
  in bits 31:16, and flags in 15:0: for such a command the service takes the flags for the number, and when no completion queue has it
  reports success without creating anything, so that no completion of the queue can be posted.\<close>

theorem create_queue_pair_served:
  assumes "adm_wf a" "ac_shmBase a" "srv_qid ccq = cqid" "0 < cqid" "cqid \<le> 16" "\<not> qi_created (ac_ioCq a ! unat (cqid - 1))"
    and "srv_qid csq = sqid" "0 < sqid" "sqid \<le> 16" "\<not> qi_created (ac_ioSq a ! unat (sqid - 1))"
    and "number = ucast (CDW11 csq AND 0xFFFF)" "success = Admin_MakeStatus 0 0 (ac_adminCqPhase a)"
  shows "\<exists>a1. AdminCmdCreateIoCq a ccq m = Some (success, 0, a1, m)
    \<and> (number = cqid \<longrightarrow> (\<exists>a2. AdminCmdCreateIoSq a1 csq m = Some (success, 0, a2, m) \<and> adm_wf a2
         \<and> io_cq a2 sqid = Some (VnvmeGetIoCQ (ucast cqid - 1), 1) \<and> VnvmeGetIoCQ (ucast cqid - 1) + 16 \<le> VNVME_SHM_SIZE))
    \<and> (number = 0 \<or> 16 < number \<or> \<not> qi_created (ac_ioCq a1 ! unat (number - 1)) \<longrightarrow>
         AdminCmdCreateIoSq a1 csq m = Some (success, 0, a1, m) \<and> io_cq a1 sqid = None)"
proof -
  obtain a1 where a1: "AdminCmdCreateIoCq a ccq m = Some (success, 0, a1, m)" "adm_wf a1"
    "ac_adminCqPhase a1 = ac_adminCqPhase a" "ac_ioSq a1 = ac_ioSq a"
    using create_cq [OF assms(1,3-6), of m] assms(12) by blast
  have "\<exists>a2. AdminCmdCreateIoSq a1 csq m = Some (success, 0, a2, m) \<and> adm_wf a2
      \<and> io_cq a2 sqid = Some (VnvmeGetIoCQ (ucast cqid - 1), 1) \<and> VnvmeGetIoCQ (ucast cqid - 1) + 16 \<le> VNVME_SHM_SIZE"
    if "number = cqid"
    using create_queue_pair [OF assms(1-10), of m] that assms(11,12) a1(1) by auto
  moreover have "AdminCmdCreateIoSq a1 csq m = Some (success, 0, a1, m) \<and> io_cq a1 sqid = None"
    if "number = 0 \<or> 16 < number \<or> \<not> qi_created (ac_ioCq a1 ! unat (number - 1))"
    using create_sq_no_cq [OF a1(2) assms(7-9), of m] a1(3,4) assms(10-12) that by simp
  ultimately show ?thesis using a1(1) by blast
qed

section \<open>The properties at concrete states\<close>

text \<open>A context after \<open>AdminCmdInit\<close>, with queue pair 1 created, one namespace of two blocks on a memory back end of 1 KiB, and
  the data buffer where the layout has it.\<close>

definition example_srv_admin :: ADMIN_CMD_CONTEXT where
  "example_srv_admin = snd (AdminCmdInit True (Some 0x2000) (Some 0x3000) (Some 348160) 66760704)"

definition example_srv_io :: IO_CMD_CONTEXT where
  "example_srv_io = (snd (IoCmdInit example_backend True (Some 348160) 66760704))
     \<lparr>ic_namespaces := (replicate 16 zero_NAMESPACE_CONFIG)[0 := \<lparr>nc_nsid = 1, nc_size = 2, nc_blockSize = 512, nc_active = True, nc_readOnly = False\<rparr>],
      ic_namespaceCount := 1\<rparr>"

definition example_io_command :: "u8 \<Rightarrow> u32 \<Rightarrow> NVME_COMMAND" where
  "example_io_command opc slba = zero_COMMAND\<lparr>OPC := opc, CID := 7, NSID := 1, CDW10 := slba\<rparr>"

lemma example_srv_wf:
  "adm_wf example_srv_admin" "ac_shmBase example_srv_admin" "io_wf example_srv_io"
  "GetCqPhase example_srv_admin 1 = Some 1"
proof -
  have "nc_fits example_backend n" if "n \<in> set (ic_namespaces example_srv_io)" for n
    using that
    by (auto simp: example_srv_io_def nc_fits_def example_backend_ok zero_NAMESPACE_CONFIG_def dest!: subsetD [OF set_update_subset_insert])
  then show "io_wf example_srv_io"
    by (simp add: io_wf_def example_backend_ok(1)) (simp add: example_srv_io_def IoCmdInit_def example_backend_ok(1))
qed (simp_all add: example_srv_admin_def AdminCmdInit_def adm_wf_def zero_ADMIN_CMD_CONTEXT_def zero_IO_QUEUE_INFO_def
    GetCqPhase_def AdminCmdGetIoSq_def AdminCmdGetIoCq_def)

lemma example_srv_unused:
  "\<not> qi_created (ac_ioCq example_srv_admin ! 0)" "\<not> qi_created (ac_ioSq example_srv_admin ! 0)" "ac_adminCqPhase example_srv_admin = 1"
  by (simp_all add: example_srv_admin_def AdminCmdInit_def zero_ADMIN_CMD_CONTEXT_def zero_IO_QUEUE_INFO_def)

lemma example_srv_namespace:
  "io_namespace example_srv_io 1 = Some \<lparr>nc_nsid = 1, nc_size = 2, nc_blockSize = 512, nc_active = True, nc_readOnly = False\<rparr>"
  "ic_dataBuffer example_srv_io = Some 348160" "ic_dataBufferSize example_srv_io = 66760704" "ic_backend example_srv_io = example_backend"
  by (simp_all add: io_namespace_def example_srv_io_def IoCmdInit_def)

lemma example_io_command_fields:
  "NSID (example_io_command opc slba) = 1" "io_slba (example_io_command opc slba) = ucast slba" "io_nlb (example_io_command opc slba) = 1"
  by (simp_all add: example_io_command_def zero_COMMAND_def io_slba_def io_nlb_def)

lemma example_io_command_extent:
  fixes n :: IO_NAMESPACE_CONFIG
  assumes "nc_size n = 2" "nc_blockSize n = 512"
  shows "srv_offset (example_io_command opc slba) n = unat slba * 512" "srv_length (example_io_command opc slba) n = 512"
    "io_inside (example_io_command opc slba) n = (unat slba + 1 \<le> 2)"
  using assms by (simp_all add: srv_offset_def srv_length_def io_inside_def example_io_command_fields)

theorem IoCmdWrite_IoCmdRead_witness:
  "\<exists>pCtx' pCtx1 pCtx'' m''. IoCmdWrite win_all_ok example_srv_admin 1 (example_io_command 1 1) example_srv_io (wr8 348160 42 (\<lambda>_. 0))
      = Some (1, 0, pCtx', wr8 348160 42 (\<lambda>_. 0))
    \<and> read_commands win_all_ok example_srv_admin [(1, example_io_command 2 0, \<lambda>_. 0)] pCtx' = Some pCtx1
    \<and> IoCmdRead win_all_ok example_srv_admin 1 (example_io_command 2 1) pCtx1 (\<lambda>_. 0) = Some (1, 0, pCtx'', m'') \<and> m'' 348160 = 42"
proof -
  let ?n = "\<lparr>nc_nsid = 1, nc_size = 2, nc_blockSize = 512, nc_active = True, nc_readOnly = False\<rparr>"
  let ?m = "wr8 348160 42 (\<lambda>_. 0)"
  note ns = example_srv_namespace
  have bk: "ic_backend example_srv_io \<noteq> None" "\<exists>b. ic_backend example_srv_io = Some (Memory_Backend b)"
    "\<not> BackendIsReadOnly (ic_backend example_srv_io)"
    using example_backend_ok(4,5) by (auto simp: ns)
  obtain pCtx' pCtx1 pCtx'' m'' where w: "IoCmdWrite win_all_ok example_srv_admin 1 (example_io_command 1 1) example_srv_io ?m
      = Some (Io_MakeStatus 0 0 1, 0, pCtx', ?m)"
    and rs: "read_commands win_all_ok example_srv_admin [(1, example_io_command 2 0, \<lambda>_. 0)] pCtx' = Some pCtx1"
    and r: "IoCmdRead win_all_ok example_srv_admin 1 (example_io_command 2 1) pCtx1 (\<lambda>_. 0) = Some (Io_MakeStatus 0 0 1, 0, pCtx'', m'')"
    and d: "rd_bytes m'' 348160 512 = rd_bytes (wr_bytes 512 (rd_bytes ?m 348160 512) (\<lambda>_. 0)) 512 512"
    using IoCmdWrite_IoCmdRead [OF win_os_ok_all_ok example_srv_wf(3,4) bk(1) ns(2), of "example_io_command 1 1" ?n "example_io_command 2 1" ?n
        "[(1, example_io_command 2 0, \<lambda>_. 0)]" ?m "\<lambda>_. 0"]
      ns bk(2,3) example_srv_wf(4)
    by (auto simp: example_io_command_fields example_io_command_extent example_backend_ok(3) simp del: read_commands.simps)
  have "rd_bytes m'' 348160 512 = rd_bytes ?m 348160 512"
    using d rd_bytes_wr_bytes [of 512 "rd_bytes ?m 348160 512" "\<lambda>_. 0"] by simp
  then have "rd_bytes m'' 348160 512 ! 0 = rd_bytes ?m 348160 512 ! 0" by simp
  then have "m'' 348160 = 42" by (simp add: wr8_at)
  then show ?thesis using w rs r by (auto simp: Io_MakeStatus_def simp del: read_commands.simps)
qed

theorem create_queue_pair_served_witness:
  "\<exists>a1 a2. AdminCmdCreateIoCq example_srv_admin (zero_COMMAND\<lparr>CDW10 := 0x003F0001\<rparr>) (\<lambda>_. 0) = Some (1, 0, a1, \<lambda>_. 0)
    \<and> AdminCmdCreateIoSq a1 (zero_COMMAND\<lparr>CDW10 := 0x003F0001, CDW11 := 1\<rparr>) (\<lambda>_. 0) = Some (1, 0, a2, \<lambda>_. 0)
    \<and> io_cq a2 1 = Some (0x5000 + 16384, 1)
    \<and> AdminCmdCreateIoSq a1 (zero_COMMAND\<lparr>CDW10 := 0x003F0001, CDW11 := 0x00010000\<rparr>) (\<lambda>_. 0) = Some (1, 0, a1, \<lambda>_. 0)
    \<and> io_cq a1 1 = None"
proof -
  let ?c = "zero_COMMAND\<lparr>CDW10 := 0x003F0001\<rparr>"
  have place: "VnvmeGetIoCQ 0 = 0x5000 + 16384"
    by (simp add: VnvmeGetIoCQ_def VNVME_IO_CQ_OFFSET_def VNVME_IO_SQ_OFFSET_def layout_values)
  note pair = create_queue_pair_served [OF example_srv_wf(1,2), of ?c 1 _ 1 _ 1 "\<lambda>_. 0"]
  obtain a1 a2 where a: "AdminCmdCreateIoCq example_srv_admin ?c (\<lambda>_. 0) = Some (1, 0, a1, \<lambda>_. 0)"
    "AdminCmdCreateIoSq a1 (?c\<lparr>CDW11 := 1\<rparr>) (\<lambda>_. 0) = Some (1, 0, a2, \<lambda>_. 0)" "io_cq a2 1 = Some (0x5000 + 16384, 1)"
    using pair [of "?c\<lparr>CDW11 := 1\<rparr>" 1] by (auto simp: example_srv_unused srv_qid_def Admin_MakeStatus_def place)
  moreover have "AdminCmdCreateIoSq a1 (?c\<lparr>CDW11 := 0x00010000\<rparr>) (\<lambda>_. 0) = Some (1, 0, a1, \<lambda>_. 0) \<and> io_cq a1 1 = None"
    using pair [of "?c\<lparr>CDW11 := 0x00010000\<rparr>" 0] a(1) by (auto simp: example_srv_unused srv_qid_def Admin_MakeStatus_def)
  ultimately show ?thesis by auto
qed

text \<open>A write of one block to block 0, at the first entry of the first I/O submission queue.\<close>

definition example_srv_shm :: mem where
  "example_srv_shm = wr32 0x5004 1 (wr16 0x5002 7 (wr8 0x5000 1 (\<lambda>_. 0)))"

theorem IoCmdProcess_answers_witness:
  "\<exists>a pCtx' m'. adm_wf a \<and> IoCmdProcess win_all_ok a example_srv_io 0x5000 1 example_srv_shm = Some (1, pCtx', m')
    \<and> cqe_CID (rd_NVME_COMPLETION m' (0x5000 + 16384)) = 7 \<and> cqe_SQID (rd_NVME_COMPLETION m' (0x5000 + 16384)) = 1"
proof -
  have cq: "VnvmeGetIoCQ 0 = 0x5000 + 16384"
    by (simp add: VnvmeGetIoCQ_def VNVME_IO_CQ_OFFSET_def VNVME_IO_SQ_OFFSET_def layout_values)
  then obtain a where a: "adm_wf a" "io_cq a 1 = Some (0x5000 + 16384, 1)"
    using create_queue_pair [OF example_srv_wf(1,2), of "zero_COMMAND\<lparr>CDW10 := 0x003F0001\<rparr>" 1 "zero_COMMAND\<lparr>CDW10 := 0x003F0001, CDW11 := 1\<rparr>" 1 "\<lambda>_. 0"]
    by (auto simp: example_srv_unused srv_qid_def)
  have buf: "{0x5000..<0x5000 + 64} \<inter> io_buffer example_srv_io = {}"
    by (auto simp: io_buffer_def example_srv_namespace)
  have "CID (rd_NVME_COMMAND example_srv_shm 0x5000) = 7"
    unfolding rd_NVME_COMMAND_def example_srv_shm_def by (simp add: mem_simps)
  with IoCmdProcess_answers [OF win_os_ok_all_ok example_srv_wf(3) a _ _ _ buf, of example_srv_shm] a(1) show ?thesis
    by fastforce
qed

theorem IoCmdValidateLbaRange_exact_witness:
  "IoCmdValidateLbaRange example_srv_io 1 1 1 = Some True \<and> IoCmdValidateLbaRange example_srv_io 1 0xFFFFFFFFFFFFFFFF 1 \<noteq> Some True"
  unfolding IoCmdValidateLbaRange_exact [OF example_srv_wf(3)] by (simp add: example_srv_io_def)

text \<open>The same namespace without a data buffer.\<close>

theorem oversized_transfer_reports_success_witness:
  "\<exists>pCtx'. IoCmdWrite win_all_ok example_srv_admin 1 (example_io_command 1 0) (example_srv_io\<lparr>ic_dataBuffer := None\<rparr>) (\<lambda>_. 0)
     = Some (1, 0, pCtx', \<lambda>_. 0) \<and> ic_backend pCtx' = example_backend \<and> ios_bytesWritten (ic_stats pCtx') = 512"
proof -
  let ?n = "\<lparr>nc_nsid = 1, nc_size = 2, nc_blockSize = 512, nc_active = True, nc_readOnly = False\<rparr>"
  let ?c = "example_srv_io\<lparr>ic_dataBuffer := None\<rparr>"
  have c: "io_wf ?c" "io_namespace ?c (NSID (example_io_command 1 0)) = Some ?n" "io_skips (example_io_command 1 0) ?n ?c"
    using example_srv_wf(3) example_srv_namespace(1) unfolding io_wf_def
    by (simp_all add: io_namespace_def io_skips_def example_io_command_fields split: if_split_asm)
  have "ios_bytesWritten (ic_stats ?c) = 0" by (simp add: example_srv_io_def IoCmdInit_def zero_IO_STATS_def)
  then show ?thesis
    using oversized_transfer_reports_success [OF c(1) example_srv_wf(4) c(2) _ _ c(3), of win_all_ok "\<lambda>_. 0"]
    by (auto simp: example_io_command_extent example_srv_namespace(4) Io_MakeStatus_def)
qed

end
