(* ===== verification/Vnvme_Pcie.thy ===== *)
theory Vnvme_Pcie
  imports Vnvme_Context
begin

text \<open>
  \<^verbatim>\<open>vnvme/pcie_config.c\<close>: the emulated PCIe configuration space of a controller and the bus interface through
  which the storage driver reaches it. The space is a byte memory of \<open>VNVME_PCIE_CONFIG_SIZE\<close> bytes behind
  \<open>PcieConfig\<close>; a caller's buffer is a byte memory seen from its first byte.
\<close>

section \<open>Allocation and initial contents\<close>

abbreviation (input) VNVME_PCIE_CONFIG_SIZE :: nat where "VNVME_PCIE_CONFIG_SIZE \<equiv> 4096"
abbreviation (input) PCI_COMMAND :: nat where "PCI_COMMAND \<equiv> 0x04"
abbreviation (input) PCI_BAR0 :: nat where "PCI_BAR0 \<equiv> 0x10"
abbreviation (input) PCI_BAR1 :: nat where "PCI_BAR1 \<equiv> 0x14"
abbreviation (input) PCI_CAPABILITY_PTR :: nat where "PCI_CAPABILITY_PTR \<equiv> 0x34"

text \<open>The type 0 header, and the four capabilities.\<close>

definition pcie_header :: "mem \<Rightarrow> mem" where
  "pcie_header m =
     (let m = wr16 0x00 0x1D94 m; m = wr16 0x02 0x7001 m;
          m = wr16 PCI_COMMAND 0 m; m = wr16 0x06 0x0010 m;
          m = wr8 0x08 0x01 m; m = wr8 0x09 0x02 m; m = wr8 0x0A 0x08 m; m = wr8 0x0B 0x01 m;
          m = wr8 0x0E 0 m;
          m = wr32 PCI_BAR0 0x00000004 m; m = wr32 PCI_BAR1 0 m;
          m = wr16 0x2C 0x1D94 m; m = wr16 0x2E 0x0001 m;
          m = wr8 PCI_CAPABILITY_PTR 0x40 m;
          m = wr8 0x3C 0 m; m = wr8 0x3D 0x01 m
      in m)"

definition pcie_capabilities :: "mem \<Rightarrow> mem" where
  "pcie_capabilities m =
     (let m = wr8 0x40 0x01 m; m = wr8 0x41 0x50 m; m = wr16 0x42 0x0003 m; m = wr16 0x44 0 m;
          m = wr8 0x46 0 m; m = wr8 0x47 0 m;
          m = wr8 0x50 0x05 m; m = wr8 0x51 0x60 m; m = wr16 0x52 0x0080 m; m = wr32 0x54 0 m;
          m = wr32 0x58 0 m; m = wr16 0x5C 0 m;
          m = wr8 0x60 0x11 m; m = wr8 0x61 0x70 m; m = wr16 0x62 0x001F m; m = wr32 0x64 0x00002000 m;
          m = wr32 0x68 0x00003000 m;
          m = wr8 0x70 0x10 m; m = wr8 0x71 0 m; m = wr16 0x72 0x0002 m; m = wr32 0x74 0x00008001 m;
          m = wr16 0x78 0x0010 m; m = wr16 0x7A 0 m; m = wr32 0x7C 0x00000001 m; m = wr16 0x80 0 m;
          m = wr16 0x82 0x0011 m
      in m)"

definition VnvmeInitializePcieConfig :: "VNVME_PDO_CONTEXT \<Rightarrow> VNVME_PDO_CONTEXT" where
  "VnvmeInitializePcieConfig p =
     (case pdo_PcieConfig p of
        None \<Rightarrow> p
      | Some m \<Rightarrow> p\<lparr>pdo_PcieConfig := Some (pcie_capabilities (pcie_header m))\<rparr>)"

text \<open>The allocator's answer is an argument: the block, or nothing.\<close>

definition VnvmeAllocatePcieConfig :: "mem option \<Rightarrow> VNVME_PDO_CONTEXT \<Rightarrow> NTSTATUS \<times> VNVME_PDO_CONTEXT" where
  "VnvmeAllocatePcieConfig configSpace p =
     (case configSpace of
        None \<Rightarrow> (STATUS_INSUFFICIENT_RESOURCES, p)
      | Some m \<Rightarrow>
          (STATUS_SUCCESS,
           VnvmeInitializePcieConfig
             (p\<lparr>pdo_PcieConfig := Some (zero_range 0 VNVME_PCIE_CONFIG_SIZE m),
               pdo_PcieConfigSize := of_nat VNVME_PCIE_CONFIG_SIZE\<rparr>)))"

definition VnvmeFreePcieConfig :: "VNVME_PDO_CONTEXT \<Rightarrow> VNVME_PDO_CONTEXT" where
  "VnvmeFreePcieConfig p =
     (if pdo_PcieConfig p \<noteq> None then p\<lparr>pdo_PcieConfig := None, pdo_PcieConfigSize := 0\<rparr> else p)"

section \<open>Access\<close>

text \<open>\<open>Offset + Length\<close> is computed on 32 bits before it is compared with the size. The result holds the bytes
  the call leaves in the caller's buffer.\<close>

definition VnvmeReadPcieConfig :: "VNVME_PDO_CONTEXT \<Rightarrow> u32 \<Rightarrow> u32 \<Rightarrow> (NTSTATUS \<times> u8 list) option" where
  "VnvmeReadPcieConfig p Offset Length =
     (case pdo_PcieConfig p of
        None \<Rightarrow> Some (STATUS_INVALID_DEVICE_STATE, replicate (unat Length) 0)
      | Some config \<Rightarrow>
          if ucast (Offset + Length) > pdo_PcieConfigSize p
          then Some (STATUS_INVALID_PARAMETER, replicate (unat Length) 0)
          else do {
            check (unat Offset + unat Length \<le> VNVME_PCIE_CONFIG_SIZE);
            Some (STATUS_SUCCESS, rd_bytes config (unat Offset) (unat Length))
          })"

text \<open>What a write that passed the range check does to the space.\<close>

definition pcie_write :: "u32 \<Rightarrow> u32 \<Rightarrow> mem \<Rightarrow> mem \<Rightarrow> mem option" where
  "pcie_write Offset Length Buffer config =
     (if Offset = 0x04 \<and> Length \<ge> 2 then
        Some (wr16 0x04 (rd16 Buffer 0 AND 0x0547) config)
      else if Offset = 0x44 \<and> Length \<ge> 2 then
        let value16 = rd16 Buffer 0; newState = (ucast (value16 AND 0x03) :: u8)
        in Some (if newState = 0 \<or> newState = 3 then wr16 0x44 (value16 AND 0x8103) config else config)
      else if Offset = 0x62 \<and> Length \<ge> 2 then
        Some (wr16 0x62 ((rd16 Buffer 0 AND 0xC000) OR (rd16 config 0x62 AND 0x07FF)) config)
      else if Offset = 0x52 \<and> Length \<ge> 2 then
        Some (wr16 0x52 (rd16 Buffer 0) config)
      else if Offset \<in> {0x00, 0x02, 0x08, 0x09, 0x0E, 0x34} then Some config
      else do {
        check (unat Offset + unat Length \<le> VNVME_PCIE_CONFIG_SIZE);
        Some (wr_bytes (unat Offset) (rd_bytes Buffer 0 (unat Length)) config)
      })"

definition VnvmeWritePcieConfig ::
  "VNVME_PDO_CONTEXT \<Rightarrow> u32 \<Rightarrow> u32 \<Rightarrow> mem \<Rightarrow> (NTSTATUS \<times> VNVME_PDO_CONTEXT) option" where
  "VnvmeWritePcieConfig p Offset Length Buffer =
     (case pdo_PcieConfig p of
        None \<Rightarrow> Some (STATUS_INVALID_DEVICE_STATE, p)
      | Some config \<Rightarrow>
          if ucast (Offset + Length) > pdo_PcieConfigSize p then Some (STATUS_INVALID_PARAMETER, p)
          else do {
            config' \<leftarrow> pcie_write Offset Length Buffer config;
            Some (STATUS_SUCCESS, p\<lparr>pdo_PcieConfig := Some config'\<rparr>)
          })"

section \<open>The bus interface\<close>

abbreviation (input) PCI_WHICHSPACE_CONFIG :: u32 where "PCI_WHICHSPACE_CONFIG \<equiv> 0"

text \<open>The callbacks return the number of bytes moved; a refused data type leaves the buffer alone, which \<open>None\<close> in
  the buffer's place stands for.\<close>

definition VnvmeInterfaceGetBusData ::
  "VNVME_PDO_CONTEXT \<Rightarrow> u32 \<Rightarrow> u32 \<Rightarrow> u32 \<Rightarrow> (u32 \<times> u8 list option) option" where
  "VnvmeInterfaceGetBusData p DataType Offset Length =
     (if DataType \<noteq> PCI_WHICHSPACE_CONFIG then Some (0, None)
      else do {
        (status, bytes) \<leftarrow> VnvmeReadPcieConfig p Offset Length;
        if \<not> NT_SUCCESS status then Some (0, Some bytes) else Some (Length, Some bytes)
      })"

definition VnvmeInterfaceSetBusData ::
  "VNVME_PDO_CONTEXT \<Rightarrow> u32 \<Rightarrow> mem \<Rightarrow> u32 \<Rightarrow> u32 \<Rightarrow> (u32 \<times> VNVME_PDO_CONTEXT) option" where
  "VnvmeInterfaceSetBusData p DataType Buffer Offset Length =
     (if DataType \<noteq> PCI_WHICHSPACE_CONFIG then Some (0, p)
      else do {
        (status, p) \<leftarrow> VnvmeWritePcieConfig p Offset Length Buffer;
        if \<not> NT_SUCCESS status then Some (0, p) else Some (Length, p)
      })"

definition VnvmeInterfaceTranslateBusAddress :: "u64 \<Rightarrow> u32 \<Rightarrow> u64 option" where
  "VnvmeInterfaceTranslateBusAddress BusAddress AddressSpace = (if AddressSpace = 0 then Some BusAddress else None)"

text \<open>\<open>GetDmaAdapter\<close> returns no adapter and no map registers.\<close>

definition VnvmeInterfaceGetDmaAdapter :: "unit option \<times> u32" where
  "VnvmeInterfaceGetDmaAdapter = (None, 0)"

text \<open>The fields of the interface the storage driver receives that are data; its functions are the callbacks above.
  \<open>is_bus\<close> is whether the requested type is \<open>GUID_BUS_INTERFACE_STANDARD\<close>; the structure has 64 bytes.\<close>

record BUS_INTERFACE_STANDARD =
  bi_Size :: u16
  bi_Version :: u16
  bi_Context :: u32 \<comment> \<open>the controller it is bound to, by its number\<close>

definition VnvmePdoQueryInterface ::
  "VNVME_PDO_CONTEXT \<Rightarrow> bool \<Rightarrow> u16 \<Rightarrow> u16 \<Rightarrow> BUS_INTERFACE_STANDARD \<Rightarrow> NTSTATUS \<times> BUS_INTERFACE_STANDARD" where
  "VnvmePdoQueryInterface p is_bus Size Version Interface =
     (if \<not> is_bus then (STATUS_NOT_SUPPORTED, Interface)
      else if Version \<noteq> 1 \<or> Size < 64 then (STATUS_INVALID_PARAMETER, Interface)
      else (STATUS_SUCCESS, Interface\<lparr>bi_Size := 64, bi_Version := 1, bi_Context := pdo_ControllerId p\<rparr>))"

section \<open>Invariant\<close>

text \<open>The space is allocated with its size recorded, or neither is.\<close>

definition pcie_wf :: "VNVME_PDO_CONTEXT \<Rightarrow> bool" where
  "pcie_wf p \<longleftrightarrow> pdo_PcieConfigSize p = (case pdo_PcieConfig p of None \<Rightarrow> 0 | Some _ \<Rightarrow> of_nat VNVME_PCIE_CONFIG_SIZE)"

lemma pcie_wf_life:
  "pcie_wf p \<Longrightarrow> pcie_wf (VnvmeInitializePcieConfig p)"
  "pcie_wf p \<Longrightarrow> pcie_wf (snd (VnvmeAllocatePcieConfig blk p))"
  "pcie_wf p \<Longrightarrow> pcie_wf (VnvmeFreePcieConfig p)"
  "pcie_wf p \<Longrightarrow> VnvmeWritePcieConfig p off len buf = Some (s, p') \<Longrightarrow> pcie_wf p'"
  by (auto simp: pcie_wf_def VnvmeInitializePcieConfig_def VnvmeAllocatePcieConfig_def VnvmeFreePcieConfig_def
      VnvmeWritePcieConfig_def bind_Some_iff split: option.splits if_splits)

text \<open>A range that lies in the space passes the 32-bit range check, and only wrapping sums let others through.\<close>

lemma pcie_range_ok:
  assumes "unat (Offset :: u32) + unat (Length :: u32) \<le> 4096"
  shows "\<not> (ucast (Offset + Length) :: u64) > 4096"
proof -
  have "unat (Offset + Length) = unat Offset + unat Length"
    using assms by (simp add: unat_word_ariths)
  with assms show ?thesis by (simp add: word_less_nat_alt)
qed

section \<open>The capability list\<close>

text \<open>The list a host walks: from the pointer in the header, each capability's identifier and place, up to a null
  link.\<close>

inductive capability_list :: "mem \<Rightarrow> nat \<Rightarrow> (nat \<times> u8) list \<Rightarrow> bool" where
  end_of_list: "capability_list m 0 []"
| capability: "0 < a \<Longrightarrow> capability_list m (unat (m (a + 1))) cs \<Longrightarrow> capability_list m a ((a, m a) # cs)"

inductive_simps capability_list_0 [simp]: "capability_list m 0 cs"
inductive_simps capability_list_at: "capability_list m a cs"

lemma capability_list_step:
  "0 < a \<Longrightarrow> m a = i \<Longrightarrow> unat (m (a + 1)) = b \<Longrightarrow> capability_list m b cs \<Longrightarrow> capability_list m a ((a, i) # cs)"
  using capability by blast

lemma capability_list_unique: "capability_list m a cs \<Longrightarrow> capability_list m a cs' \<Longrightarrow> cs = cs'"
proof (induction arbitrary: cs' rule: capability_list.induct)
  case (capability a m cs)
  from capability.prems capability.hyps(1) obtain ds where
    "cs' = (a, m a) # ds" "capability_list m (unat (m (a + 1))) ds"
    by (auto elim: capability_list.cases)
  with capability.IH show ?case by simp
qed simp

lemma capability_list_cong:
  "capability_list m a cs \<Longrightarrow> (\<And>b i. (b, i) \<in> set cs \<Longrightarrow> m' b = m b \<and> m' (b + 1) = m (b + 1)) \<Longrightarrow> capability_list m' a cs"
proof (induction rule: capability_list.induct)
  case (capability a m cs)
  then have "m' a = m a \<and> m' (a + 1) = m (a + 1)" "capability_list m' (unat (m (a + 1))) cs"
    by auto
  with capability.hyps(1) show ?case
    by (intro capability_list_step) auto
qed simp

text \<open>What identifies the controller: vendor and device, class code, header type, the capability pointer and list.\<close>

definition nvme_capabilities :: "(nat \<times> u8) list" where
  "nvme_capabilities = [(0x40, 0x01), (0x50, 0x05), (0x60, 0x11), (0x70, 0x10)]"

definition pcie_identity :: "mem \<Rightarrow> bool" where
  "pcie_identity m \<longleftrightarrow> rd32 m 0 = 0x70011D94 \<and> rd32 m 8 = 0x01080201 \<and> m 0x0E = 0 \<and> m PCI_CAPABILITY_PTR = 0x40
     \<and> capability_list m (unat (m PCI_CAPABILITY_PTR)) nvme_capabilities"

text \<open>The bytes it is read from, and the places a write to which the driver ignores.\<close>

definition pcie_identity_bytes :: "nat set" where
  "pcie_identity_bytes =
     {0, 1, 2, 3, 8, 9, 10, 11, 0x0E, 0x34, 0x40, 0x41, 0x50, 0x51, 0x60, 0x61, 0x70, 0x71}"

definition pcie_ignored :: "u32 set" where
  "pcie_ignored = {0x00, 0x02, 0x08, 0x09, 0x0E, 0x34}"

lemmas pcie_at = wr8_at wr16_at wr32_def

lemma rd32_bytesI:
  "m a = b0 \<Longrightarrow> m (a + 1) = b1 \<Longrightarrow> m (a + 2) = b2 \<Longrightarrow> m (a + 3) = b3
    \<Longrightarrow> ucast (ucast b0 OR push_bit 8 (ucast b1) :: u16) OR push_bit 16 (ucast (ucast b2 OR push_bit 8 (ucast b3) :: u16)) = v
    \<Longrightarrow> rd32 m a = v"
  by (simp add: rd32_def rd16_def add.assoc numeral_3_eq_3 numeral_2_eq_2)

lemma pcie_identity_initial: "pcie_identity (pcie_capabilities (pcie_header m))"
proof -
  let ?m = "pcie_capabilities (pcie_header m)"
  have at: "?m 0 = 0x94" "?m 1 = 0x1D" "?m 2 = 0x01" "?m 3 = 0x70" "?m 8 = 1" "?m 9 = 2" "?m 10 = 8"
      "?m 11 = 1" "?m 0x0E = 0" "?m 0x34 = 0x40" "?m 0x40 = 1" "?m 0x41 = 0x50" "?m 0x50 = 5"
      "?m 0x51 = 0x60" "?m 0x60 = 0x11" "?m 0x61 = 0x70" "?m 0x70 = 0x10" "?m 0x71 = 0"
    by (simp_all add: pcie_capabilities_def pcie_header_def Let_def pcie_at)
  have "capability_list ?m 0x40 nvme_capabilities"
    unfolding nvme_capabilities_def
    by (intro capability_list_step [where b = "0x50"] capability_list_step [where b = "0x60"]
        capability_list_step [where b = "0x70"] capability_list_step [where b = 0])
      (simp_all add: at)
  moreover have "rd32 ?m 0 = 0x70011D94"
    by (rule rd32_bytesI [of _ _ "0x94" "0x1D" "0x01" "0x70"]) (use at in simp_all, code_simp)
  moreover have "rd32 ?m 8 = 0x01080201"
    by (rule rd32_bytesI [of _ _ 1 2 8 1]) (use at in simp_all)
  ultimately show ?thesis
    by (simp add: pcie_identity_def at)
qed

lemma pcie_identity_cong:
  assumes "pcie_identity m" "\<And>x. x \<in> pcie_identity_bytes \<Longrightarrow> m' x = m x"
  shows "pcie_identity m'"
proof -
  have word: "rd32 m' 0 = rd32 m 0" "rd32 m' 8 = rd32 m 8"
    by (rule rd32_eqI, rule assms(2), auto simp: pcie_identity_bytes_def)+
  have head: "m' 0x0E = m 0x0E" "m' 0x34 = m 0x34"
    by (rule assms(2), simp add: pcie_identity_bytes_def)+
  have links: "b \<in> pcie_identity_bytes \<and> b + 1 \<in> pcie_identity_bytes" if "(b, i) \<in> set nvme_capabilities" for b i
    using that by (auto simp: nvme_capabilities_def pcie_identity_bytes_def)
  have "capability_list m' (unat (m 0x34)) nvme_capabilities"
    using assms(1) unfolding pcie_identity_def
    by (elim conjE capability_list_cong) (use links assms(2) in blast)
  with assms(1) show ?thesis
    by (simp add: pcie_identity_def word head)
qed

text \<open>A write touches no byte outside the range it names, and none at all at an ignored place.\<close>

lemma pcie_write_local:
  assumes "unat Offset + unat Length \<le> VNVME_PCIE_CONFIG_SIZE"
  obtains m' where "pcie_write Offset Length Buffer m = Some m'"
    "\<And>x. Offset \<in> pcie_ignored \<or> x < unat Offset \<or> unat Offset + unat Length \<le> x \<Longrightarrow> m' x = m x"
proof -
  have len: "(2 :: u32) \<le> Length \<Longrightarrow> 2 \<le> unat Length"
    by (simp add: word_le_nat_alt)
  have "\<exists>m'. pcie_write Offset Length Buffer m = Some m' \<and>
      (\<forall>x. Offset \<in> pcie_ignored \<or> x < unat Offset \<or> unat Offset + unat Length \<le> x \<longrightarrow> m' x = m x)"
    using assms len
    by (auto simp: pcie_write_def pcie_ignored_def Let_def wr16_at wr_bytes_def)
  with that show thesis by blast
qed

text \<open>A run of configuration writes through the bus interface: offset, length and buffer of each.\<close>

fun bus_writes :: "(u32 \<times> u32 \<times> mem) list \<Rightarrow> VNVME_PDO_CONTEXT \<Rightarrow> VNVME_PDO_CONTEXT option" where
  "bus_writes [] p = Some p"
| "bus_writes ((Offset, Length, Buffer) # ws) p = do {
     (n, p) \<leftarrow> VnvmeInterfaceSetBusData p PCI_WHICHSPACE_CONFIG Buffer Offset Length;
     check (n = Length);
     bus_writes ws p
   }"

definition bus_write_ok :: "u32 \<times> u32 \<times> mem \<Rightarrow> bool" where
  "bus_write_ok w = (case w of (Offset, Length, Buffer) \<Rightarrow>
     unat Offset + unat Length \<le> VNVME_PCIE_CONFIG_SIZE
     \<and> (Offset \<in> pcie_ignored \<or> {unat Offset..<unat Offset + unat Length} \<inter> pcie_identity_bytes = {}))"

lemma SetBusData_in_range:
  assumes "pdo_PcieConfig p = Some m" "pcie_wf p" "unat Offset + unat Length \<le> VNVME_PCIE_CONFIG_SIZE"
    "pcie_write Offset Length Buffer m = Some m'"
  shows "VnvmeInterfaceSetBusData p PCI_WHICHSPACE_CONFIG Buffer Offset Length
    = Some (Length, p\<lparr>pdo_PcieConfig := Some m'\<rparr>)"
proof -
  have size: "pdo_PcieConfigSize p = 4096"
    using assms(1,2) by (simp add: pcie_wf_def)
  show ?thesis
    using assms(1,4) pcie_range_ok [OF assms(3)]
    by (simp add: VnvmeInterfaceSetBusData_def VnvmeWritePcieConfig_def size)
qed

lemma GetBusData_in_range:
  assumes "pdo_PcieConfig p = Some m" "pcie_wf p" "unat Offset + unat Length \<le> VNVME_PCIE_CONFIG_SIZE"
  shows "VnvmeInterfaceGetBusData p PCI_WHICHSPACE_CONFIG Offset Length
    = Some (Length, Some (rd_bytes m (unat Offset) (unat Length)))"
proof -
  have size: "pdo_PcieConfigSize p = 4096"
    using assms(1,2) by (simp add: pcie_wf_def)
  show ?thesis
    using assms(1,3) pcie_range_ok [OF assms(3)]
    by (simp add: VnvmeInterfaceGetBusData_def VnvmeReadPcieConfig_def size check_def)
qed

lemma bus_writes_identity:
  assumes "pcie_wf p" "pdo_PcieConfig p = Some m" "pcie_identity m" "list_all bus_write_ok ws"
  shows "\<exists>p' m'. bus_writes ws p = Some p' \<and> pcie_wf p' \<and> pdo_PcieConfig p' = Some m' \<and> pcie_identity m'"
  using assms
proof (induction ws arbitrary: p m)
  case (Cons w ws)
  obtain Offset Length Buffer where w: "w = (Offset, Length, Buffer)" by (cases w)
  from Cons.prems(4) w have range: "unat Offset + unat Length \<le> 4096"
    and apart: "Offset \<in> pcie_ignored \<or> {unat Offset..<unat Offset + unat Length} \<inter> pcie_identity_bytes = {}"
    by (simp_all add: bus_write_ok_def)
  from range obtain m' where wr: "pcie_write Offset Length Buffer m = Some m'"
    and same: "\<And>x. Offset \<in> pcie_ignored \<or> x < unat Offset \<or> unat Offset + unat Length \<le> x \<Longrightarrow> m' x = m x"
    using pcie_write_local by blast
  have "pcie_identity m'"
    using Cons.prems(3)
  proof (rule pcie_identity_cong)
    fix x assume "x \<in> pcie_identity_bytes"
    with apart have "Offset \<in> pcie_ignored \<or> x \<notin> {unat Offset..<unat Offset + unat Length}" by blast
    then show "m' x = m x" by (intro same) auto
  qed
  moreover have "pcie_wf (p\<lparr>pdo_PcieConfig := Some m'\<rparr>)"
    using Cons.prems(1,2) by (simp add: pcie_wf_def)
  ultimately show ?case
    using Cons.IH [of "p\<lparr>pdo_PcieConfig := Some m'\<rparr>" m'] Cons.prems(4) w
      SetBusData_in_range [OF Cons.prems(2,1) range wr]
    by simp
qed simp

lemma pcie_ready:
  assumes "VnvmeAllocatePcieConfig (Some blk) p = (s, p')"
  shows "s = STATUS_SUCCESS \<and> pcie_wf p'
    \<and> pdo_PcieConfig p' = Some (pcie_capabilities (pcie_header (zero_range 0 VNVME_PCIE_CONFIG_SIZE blk)))"
  using assms by (auto simp: VnvmeAllocatePcieConfig_def VnvmeInitializePcieConfig_def pcie_wf_def)

section \<open>Properties\<close>

text \<open>C35: a controller whose configuration space was allocated identifies itself as the NVMe device 1D94:7001 of class
  01.08.02 with a type 0 header, and the capability list a host walks through the bus interface is power management,
  MSI, MSI-X and PCI Express and ends there, as the code and its comments have it (docs/reference/pcie/config-space.md differs:
  1B36:0010, revision 02, MSI-X only). Every run of configuration writes that lie in the space, start at a
  register the driver protects or stay off the identifying bytes, is accepted in full and leaves all of this as it
  was; other writes can change it.\<close>

theorem pcie_identity_kept:
  assumes "VnvmeAllocatePcieConfig (Some blk) p = (s, p1)" "list_all bus_write_ok ws"
  shows "\<exists>p2 m. bus_writes ws p1 = Some p2 \<and> pdo_PcieConfig p2 = Some m \<and> pcie_identity m
    \<and> VnvmeInterfaceGetBusData p2 PCI_WHICHSPACE_CONFIG 0 256 = Some (256, Some (rd_bytes m 0 256))"
proof -
  from pcie_ready [OF assms(1)] obtain p2 m where
    "bus_writes ws p1 = Some p2" "pcie_wf p2" "pdo_PcieConfig p2 = Some m" "pcie_identity m"
    using bus_writes_identity [OF _ _ pcie_identity_initial assms(2)] by blast
  with GetBusData_in_range [of p2 m 0 256] show ?thesis by auto
qed

theorem pcie_identity_kept_witness:
  "\<exists>p2 m. bus_writes [(0x04, 2, \<lambda>_. 0xFF), (0x10, 4, \<lambda>_. 0xFF), (0x00, 4, \<lambda>_. 0xFF)]
      (snd (VnvmeAllocatePcieConfig (Some (\<lambda>_. 0xCC)) zero_PDO_CONTEXT)) = Some p2
    \<and> pdo_PcieConfig p2 = Some m \<and> pcie_identity m
    \<and> VnvmeInterfaceGetBusData p2 PCI_WHICHSPACE_CONFIG 0 256 = Some (256, Some (rd_bytes m 0 256))"
  by (rule pcie_identity_kept [where s = "fst (VnvmeAllocatePcieConfig (Some (\<lambda>_. 0xCC)) zero_PDO_CONTEXT)"
        and blk = "\<lambda>_. 0xCC" and p = zero_PDO_CONTEXT])
    (auto simp: bus_write_ok_def pcie_ignored_def pcie_identity_bytes_def)

text \<open>Outside the registers with their own rule, a write through the bus interface to a range of the space is
  read back by the same range byte for byte, and every range apart from it reads as before.\<close>

theorem bus_data_roundtrip:
  assumes "pcie_wf p" "pdo_PcieConfig p = Some m" "unat Offset + unat Length \<le> VNVME_PCIE_CONFIG_SIZE"
    "Offset \<notin> pcie_ignored \<union> {0x04, 0x44, 0x52, 0x62}"
  shows "\<exists>p'. VnvmeInterfaceSetBusData p PCI_WHICHSPACE_CONFIG Buffer Offset Length = Some (Length, p')
    \<and> VnvmeInterfaceGetBusData p' PCI_WHICHSPACE_CONFIG Offset Length
        = Some (Length, Some (rd_bytes Buffer 0 (unat Length)))
    \<and> (\<forall>o' l'. unat o' + unat l' \<le> unat Offset \<or> unat Offset + unat Length \<le> unat o'
        \<longrightarrow> VnvmeInterfaceGetBusData p' PCI_WHICHSPACE_CONFIG o' l' = VnvmeInterfaceGetBusData p PCI_WHICHSPACE_CONFIG o' l')"
proof -
  let ?bs = "rd_bytes Buffer 0 (unat Length)"
  let ?m = "wr_bytes (unat Offset) ?bs m"
  let ?p = "p\<lparr>pdo_PcieConfig := Some ?m\<rparr>"
  have "pcie_write Offset Length Buffer m = Some ?m"
    using assms(3,4) by (simp add: pcie_write_def pcie_ignored_def)
  note set = SetBusData_in_range [OF assms(2,1,3) this]
  have wf: "pcie_wf ?p" using assms(1,2) by (simp add: pcie_wf_def)
  have get: "VnvmeInterfaceGetBusData ?p PCI_WHICHSPACE_CONFIG Offset Length = Some (Length, Some ?bs)"
    using GetBusData_in_range [of ?p ?m, OF _ wf assms(3)] rd_bytes_wr_bytes [of "unat Offset" ?bs m] by simp
  have "VnvmeInterfaceGetBusData ?p PCI_WHICHSPACE_CONFIG o' l' = VnvmeInterfaceGetBusData p PCI_WHICHSPACE_CONFIG o' l'"
    if "unat o' + unat l' \<le> unat Offset \<or> unat Offset + unat Length \<le> unat o'" for o' l'
    using that assms(2) rd_bytes_wr_bytes_apart [of "unat o'" "unat l'" "unat Offset" ?bs m]
    by (simp add: VnvmeInterfaceGetBusData_def VnvmeReadPcieConfig_def)
  with set get show ?thesis by blast
qed

theorem bus_data_roundtrip_witness:
  "\<exists>p'. VnvmeInterfaceSetBusData (zero_PDO_CONTEXT\<lparr>pdo_PcieConfig := Some (\<lambda>_. 0), pdo_PcieConfigSize := 4096\<rparr>)
      PCI_WHICHSPACE_CONFIG (\<lambda>x. of_nat x + 5) 0x54 4 = Some (4, p')
    \<and> VnvmeInterfaceGetBusData p' PCI_WHICHSPACE_CONFIG 0x54 4 = Some (4, Some [5, 6, 7, 8])"
  using bus_data_roundtrip [of "zero_PDO_CONTEXT\<lparr>pdo_PcieConfig := Some (\<lambda>_. 0), pdo_PcieConfigSize := 4096\<rparr>"
      "\<lambda>_. 0" "0x54" 4 "\<lambda>x. of_nat x + 5"]
  by (auto simp: pcie_wf_def pcie_ignored_def rd_bytes_def upt_rec)

text \<open>The protection of the read-only registers looks only at the offset a write starts at, and the range check
  adds offset and length on 32 bits. So on a fresh controller the four-byte write at the cache line size register
  replaces the header type, the write at offset 1 replaces the vendor's high byte, and an access of one byte at the
  last 32-bit offset passes the check and leaves the space.\<close>

theorem pcie_protection_gaps:
  assumes "VnvmeAllocatePcieConfig (Some blk) p = (s, p1)"
  shows "(\<exists>p2 m. VnvmeWritePcieConfig p1 0x0C 4 (\<lambda>_. v) = Some (STATUS_SUCCESS, p2) \<and> pdo_PcieConfig p2 = Some m \<and> m 0x0E = v)
    \<and> (\<exists>p2 m. VnvmeWritePcieConfig p1 0x01 1 (\<lambda>_. v) = Some (STATUS_SUCCESS, p2) \<and> pdo_PcieConfig p2 = Some m
         \<and> rd16 m 0 = 0x94 OR push_bit 8 (ucast v))
    \<and> VnvmeReadPcieConfig p1 0xFFFFFFFF 1 = None \<and> VnvmeWritePcieConfig p1 0xFFFFFFFF 1 (\<lambda>_. v) = None"
proof -
  let ?m = "pcie_capabilities (pcie_header (zero_range 0 VNVME_PCIE_CONFIG_SIZE blk))"
  have p1: "pdo_PcieConfig p1 = Some ?m" "pdo_PcieConfigSize p1 = 4096"
    using pcie_ready [OF assms] by (simp_all add: pcie_wf_def)
  have "?m 0 = 0x94"
    by (simp add: pcie_capabilities_def pcie_header_def Let_def pcie_at)
  with p1 show ?thesis
    by (simp add: VnvmeWritePcieConfig_def VnvmeReadPcieConfig_def pcie_write_def wr_bytes_def rd_bytes_def rd16_def
        upt_rec check_def)
qed

theorem pcie_protection_gaps_witness:
  "\<exists>p2 m. VnvmeWritePcieConfig (snd (VnvmeAllocatePcieConfig (Some (\<lambda>_. 0)) zero_PDO_CONTEXT)) 0x0C 4 (\<lambda>_. 0x80)
      = Some (STATUS_SUCCESS, p2) \<and> pdo_PcieConfig p2 = Some m \<and> m 0x0E = 0x80"
  using pcie_protection_gaps [of "\<lambda>_. 0" zero_PDO_CONTEXT STATUS_SUCCESS
      "snd (VnvmeAllocatePcieConfig (Some (\<lambda>_. 0)) zero_PDO_CONTEXT)" "0x80"]
  by (simp add: VnvmeAllocatePcieConfig_def)

end
