(* ===== verification/Vnvme_Text.thy ===== *)
theory Vnvme_Text
  imports Vnvme_Prelude
begin

text \<open>
  Texts: terminated strings and decimal numbers.
\<close>

section \<open>Terminated texts and decimal numbers\<close>

abbreviation (input) NUL :: char where "NUL \<equiv> CHR 0x00"

text \<open>The characters up to the terminator, which \<open>wcslen\<close> counts.\<close>

definition sz :: "string \<Rightarrow> string" where
  "sz buf = takeWhile (\<lambda>c. c \<noteq> NUL) buf"

text \<open>The decimal digits of a number, and the number a run of digits stands for.\<close>

fun digits :: "nat \<Rightarrow> string" where
  "digits n = (if n < 10 then [char_of (48 + n)] else digits (n div 10) @ [char_of (48 + n mod 10)])"

declare digits.simps [simp del]

definition undigits :: "string \<Rightarrow> nat" where
  "undigits txt = foldl (\<lambda>a c. 10 * a + (of_char c - 48)) 0 txt"

lemma undigits_digits: "undigits (digits n) = n"
proof (induction n rule: digits.induct)
  case (1 n)
  then show ?case
    by (subst digits.simps) (auto simp: undigits_def)
qed

lemma undigits_zeros: "undigits (replicate k CHR ''0'' @ txt) = undigits txt"
  by (induction k) (auto simp: undigits_def)

lemma length_digits: "0 < k \<Longrightarrow> n < 10 ^ k \<Longrightarrow> length (digits n) \<le> k"
proof (induction k arbitrary: n)
  case (Suc k)
  show ?case
  proof (cases "n < 10")
    case True
    then show ?thesis by (subst digits.simps) simp
  next
    case False
    with Suc.prems(2) have "0 < k" by (cases k) auto
    moreover have "n div 10 < 10 ^ k" using Suc.prems(2) by (simp add: less_mult_imp_div_less mult.commute)
    ultimately have "length (digits (n div 10)) \<le> k" by (rule Suc.IH)
    with False show ?thesis by (subst digits.simps) simp
  qed
qed simp

lemma char_of_digit:
  assumes "d < 10"
  shows "char_of (48 + d :: nat) \<noteq> NUL"
proof
  assume "char_of (48 + d) = NUL"
  then have "of_char (char_of (48 + d)) = (of_char NUL :: nat)" by (rule arg_cong)
  with assms show False by simp
qed

lemma NUL_digits: "NUL \<notin> set (digits n)"
proof (induction n rule: digits.induct)
  case (1 n)
  have "char_of (48 + n mod 10) \<noteq> NUL" "n < 10 \<Longrightarrow> char_of (48 + n) \<noteq> NUL"
    by (rule char_of_digit, simp)+
  with 1 show ?case
    by (subst digits.simps) auto
qed

lemma sz_append_NUL: "NUL \<notin> set xs \<Longrightarrow> sz (xs @ NUL # ys) = xs"
  by (induction xs) (auto simp: sz_def)

end
