(* ===== verification/Vnvme_Pdo.thy ===== *)
theory Vnvme_Pdo
  imports Vnvme_Pcie Vnvme_Bar0 Vnvme_Doorbell Vnvme_Text
begin

text \<open>
  \<^verbatim>\<open>vnvme/pdo.c\<close> and \<^verbatim>\<open>vnvme/utils.c\<close>: the life of a controller's device object (hardware prepared and released,
  power up and down) and the answers to the Plug and Play queries about it. Texts are lists of characters; every text
  of the driver is ASCII, so a character stands for one 16-bit unit. What the pool and the framework answer is an
  argument.
\<close>

section \<open>Texts\<close>

text \<open>\<open>VnvmeAllocateString\<close>: \<open>alloc_ok n\<close> is whether the pool has \<open>n\<close> bytes. The result is the new block.\<close>

definition VnvmeAllocateString :: "(nat \<Rightarrow> bool) \<Rightarrow> string option \<Rightarrow> string option" where
  "VnvmeAllocateString alloc_ok SourceString =
     (case SourceString of
        None \<Rightarrow> None
      | Some src \<Rightarrow> if alloc_ok ((length src + 1) * 2) then Some (src @ [NUL]) else None)"

definition copy_into :: "nat \<Rightarrow> string \<Rightarrow> string \<Rightarrow> string" where
  "copy_into i xs buf = take i buf @ xs @ drop (i + length xs) buf"

definition VnvmeAllocateMultiString :: "(nat \<Rightarrow> bool) \<Rightarrow> string option \<Rightarrow> string option \<Rightarrow> string option" where
  "VnvmeAllocateMultiString alloc_ok String1 String2 =
     (case String1 of
        None \<Rightarrow> None
      | Some s1 \<Rightarrow>
          let len1 = length s1 + 1; len2 = (case String2 of None \<Rightarrow> 0 | Some s2 \<Rightarrow> length s2 + 1);
              totalLen = len1 + len2 + 1
          in if \<not> alloc_ok (totalLen * 2) then None
             else
               let result = replicate totalLen NUL;
                   result = copy_into 0 (s1 @ [NUL]) result
               in Some (case String2 of None \<Rightarrow> result | Some s2 \<Rightarrow> copy_into len1 (s2 @ [NUL]) result))"

text \<open>\<open>%lu\<close> and \<open>%04lu\<close>.\<close>

definition fmt_lu :: "u32 \<Rightarrow> string" where
  "fmt_lu n = digits (unat n)"

definition fmt_04lu :: "u32 \<Rightarrow> string" where
  "fmt_04lu n = replicate (4 - length (fmt_lu n)) CHR ''0'' @ fmt_lu n"

text \<open>\<open>RtlStringCbPrintfW\<close> into a buffer of \<open>cb\<close> bytes: \<open>STATUS_BUFFER_OVERFLOW\<close> when the text and its terminator
  do not fit.\<close>

definition RtlStringCbPrintfW :: "nat \<Rightarrow> string \<Rightarrow> NTSTATUS \<times> string" where
  "RtlStringCbPrintfW cb txt =
     (if 2 * (length txt + 1) \<le> cb then (STATUS_SUCCESS, txt) else (STATUS_OTHER 0x80000005, take (cb div 2 - 1) txt))"

section \<open>Hardware\<close>

text \<open>The answers: the block for BAR0 with its address, the block for the configuration space, the timer.\<close>

definition VnvmePdoEvtDevicePrepareHardware ::
  "(mem \<times> u64) option \<Rightarrow> mem option \<Rightarrow> NTSTATUS \<Rightarrow> vnvme_ctx \<Rightarrow> NTSTATUS \<times> vnvme_ctx" where
  "VnvmePdoEvtDevicePrepareHardware bar0 configSpace timer c =
     (let (status, p) = VnvmeAllocateBar0 bar0 (pdo c); c = c\<lparr>pdo := p\<rparr> in
      if \<not> NT_SUCCESS status then (status, c)
      else
        let p = VnvmeInitializeBar0Registers (pdo c);
            (status, p) = VnvmeAllocatePcieConfig configSpace p; c = c\<lparr>pdo := p\<rparr> in
        if \<not> NT_SUCCESS status then (status, c\<lparr>pdo := VnvmeFreeBar0 (pdo c)\<rparr>)
        else
          let c = c\<lparr>pdo := VnvmeInitializePcieConfig (pdo c)\<rparr>;
              (status, c) = VnvmeInitializePollingTimer timer c in
          if \<not> NT_SUCCESS status then (status, c\<lparr>pdo := VnvmeFreeBar0 (VnvmeFreePcieConfig (pdo c))\<rparr>)
          else (STATUS_SUCCESS, c))"

definition VnvmePdoEvtDeviceReleaseHardware :: "VNVME_PDO_CONTEXT \<Rightarrow> NTSTATUS \<times> VNVME_PDO_CONTEXT" where
  "VnvmePdoEvtDeviceReleaseHardware p =
     (STATUS_SUCCESS, VnvmeFreeBar0 (VnvmeFreePcieConfig (VnvmeStopPollingTimer p)))"

text \<open>The second component is the due time of the timer that was started, if one was.\<close>

definition VnvmePdoEvtDeviceD0Entry :: "VNVME_PDO_CONTEXT \<Rightarrow> NTSTATUS \<times> u32 option \<times> VNVME_PDO_CONTEXT" where
  "VnvmePdoEvtDeviceD0Entry p = (STATUS_SUCCESS, VnvmeStartPollingTimer p)"

definition VnvmePdoEvtDeviceD0Exit :: "VNVME_PDO_CONTEXT \<Rightarrow> NTSTATUS \<times> VNVME_PDO_CONTEXT" where
  "VnvmePdoEvtDeviceD0Exit p = (STATUS_SUCCESS, VnvmeStopPollingTimer p)"

section \<open>Identification\<close>

datatype BUS_QUERY_ID_TYPE =
    BusQueryDeviceID | BusQueryHardwareIDs | BusQueryCompatibleIDs | BusQueryInstanceID | BusQueryOther

definition VNVME_DEVICE_ID :: string where "VNVME_DEVICE_ID = ''PCI'' @ [CHR 0x5C] @ ''VEN_1B36&DEV_0010''"
definition VNVME_HARDWARE_ID :: string where "VNVME_HARDWARE_ID = ''PCI'' @ [CHR 0x5C] @ ''VEN_1B36&DEV_0010&REV_01''"
definition VNVME_COMPATIBLE_ID :: string where "VNVME_COMPATIBLE_ID = ''PCI'' @ [CHR 0x5C] @ ''CC_010802''"

definition VnvmePdoQueryDeviceId ::
  "(nat \<Rightarrow> bool) \<Rightarrow> VNVME_PDO_CONTEXT \<Rightarrow> BUS_QUERY_ID_TYPE \<Rightarrow> NTSTATUS \<times> string option" where
  "VnvmePdoQueryDeviceId alloc_ok p IdType =
     (let (status, DeviceId) =
        (case IdType of
           BusQueryDeviceID \<Rightarrow> (STATUS_SUCCESS, VnvmeAllocateString alloc_ok (Some VNVME_DEVICE_ID))
         | BusQueryHardwareIDs \<Rightarrow>
             (STATUS_SUCCESS, VnvmeAllocateMultiString alloc_ok (Some VNVME_HARDWARE_ID) (Some VNVME_COMPATIBLE_ID))
         | BusQueryCompatibleIDs \<Rightarrow>
             (STATUS_SUCCESS, VnvmeAllocateMultiString alloc_ok (Some VNVME_COMPATIBLE_ID) None)
         | BusQueryInstanceID \<Rightarrow>
             (let (status, instanceId) = RtlStringCbPrintfW 32 (fmt_lu (pdo_ControllerId p))
              in (status, if NT_SUCCESS status then VnvmeAllocateString alloc_ok (Some instanceId) else None))
         | BusQueryOther \<Rightarrow> (STATUS_NOT_SUPPORTED, None))
      in (if DeviceId = None \<and> NT_SUCCESS status then STATUS_INSUFFICIENT_RESOURCES else status, DeviceId))"

datatype DEVICE_TEXT_TYPE = DeviceTextDescription | DeviceTextLocationInformation | DeviceTextOther

definition VnvmePdoQueryDeviceText ::
  "(nat \<Rightarrow> bool) \<Rightarrow> VNVME_PDO_CONTEXT \<Rightarrow> DEVICE_TEXT_TYPE \<Rightarrow> NTSTATUS \<times> string option" where
  "VnvmePdoQueryDeviceText alloc_ok p TextType =
     (let (status, DeviceText) =
        (case TextType of
           DeviceTextDescription \<Rightarrow>
             (let (status, description) =
                RtlStringCbPrintfW 256 (''Virtual NVMe Controller'' @ '' #'' @ fmt_lu (pdo_ControllerId p))
              in (status, if NT_SUCCESS status then VnvmeAllocateString alloc_ok (Some description) else None))
         | DeviceTextLocationInformation \<Rightarrow> (STATUS_SUCCESS, VnvmeAllocateString alloc_ok (Some ''Virtual Bus''))
         | DeviceTextOther \<Rightarrow> (STATUS_NOT_SUPPORTED, None))
      in (if DeviceText = None \<and> NT_SUCCESS status then STATUS_INSUFFICIENT_RESOURCES else status, DeviceText))"

section \<open>Capabilities and resources\<close>

datatype DEVICE_POWER_STATE = PowerDeviceUnspecified | PowerDeviceD0 | PowerDeviceD1 | PowerDeviceD2 | PowerDeviceD3

text \<open>The structure has 64 bytes; \<open>dc_DeviceState\<close> is indexed by the system power state (working 1, sleeping 2 to 4,
  hibernate 5, shutdown 6). Every other flag the code assigns is among those below.\<close>

record DEVICE_CAPABILITIES =
  dc_Size :: u16
  dc_Version :: u16
  dc_DeviceD1 :: bool
  dc_DeviceD2 :: bool
  dc_LockSupported :: bool
  dc_EjectSupported :: bool
  dc_Removable :: bool
  dc_DockDevice :: bool
  dc_UniqueID :: bool
  dc_SilentInstall :: bool
  dc_RawDeviceOK :: bool
  dc_SurpriseRemovalOK :: bool
  dc_WakeFromD0 :: bool
  dc_WakeFromD1 :: bool
  dc_WakeFromD2 :: bool
  dc_WakeFromD3 :: bool
  dc_HardwareDisabled :: bool
  dc_NoDisplayInUI :: bool
  dc_Address :: u32
  dc_UINumber :: u32
  dc_DeviceState :: "DEVICE_POWER_STATE list"
  dc_SystemWake :: nat
  dc_DeviceWake :: DEVICE_POWER_STATE
  dc_D1Latency :: u32
  dc_D2Latency :: u32
  dc_D3Latency :: u32

definition VnvmePdoQueryCapabilities ::
  "VNVME_PDO_CONTEXT \<Rightarrow> DEVICE_CAPABILITIES \<Rightarrow> NTSTATUS \<times> DEVICE_CAPABILITIES" where
  "VnvmePdoQueryCapabilities p Capabilities =
     (if dc_Version Capabilities < 1 \<or> dc_Size Capabilities < 64 then (STATUS_UNSUCCESSFUL, Capabilities)
      else
        (STATUS_SUCCESS,
         Capabilities\<lparr>dc_DeviceD1 := False, dc_DeviceD2 := False, dc_LockSupported := False,
           dc_EjectSupported := True, dc_Removable := True, dc_DockDevice := False, dc_UniqueID := True,
           dc_SilentInstall := True, dc_RawDeviceOK := False, dc_SurpriseRemovalOK := True,
           dc_WakeFromD0 := False, dc_WakeFromD1 := False, dc_WakeFromD2 := False, dc_WakeFromD3 := False,
           dc_HardwareDisabled := False, dc_NoDisplayInUI := False,
           dc_DeviceState := (dc_DeviceState Capabilities)[1 := PowerDeviceD0, 2 := PowerDeviceD3,
             3 := PowerDeviceD3, 4 := PowerDeviceD3, 5 := PowerDeviceD3, 6 := PowerDeviceD3],
           dc_SystemWake := 0, dc_DeviceWake := PowerDeviceUnspecified,
           dc_D1Latency := 0, dc_D2Latency := 0, dc_D3Latency := 0,
           dc_Address := pdo_ControllerId p, dc_UINumber := pdo_ControllerId p\<rparr>))"

text \<open>The bus information: the bus type is \<open>GUID_BUS_TYPE_PCI\<close>, the interface type \<open>PCIBus\<close> is 5.\<close>

record PNP_BUS_INFORMATION =
  bt_IsPci :: bool
  bt_LegacyBusType :: u32
  bt_BusNumber :: u32

definition VnvmePdoQueryBusInformation :: "bool \<Rightarrow> NTSTATUS \<times> PNP_BUS_INFORMATION option" where
  "VnvmePdoQueryBusInformation alloc_ok =
     (if \<not> alloc_ok then (STATUS_INSUFFICIENT_RESOURCES, None)
      else (STATUS_SUCCESS, Some \<lparr>bt_IsPci = True, bt_LegacyBusType = 5, bt_BusNumber = 0\<rparr>))"

text \<open>One memory descriptor of a requirements list (a range and an alignment) or of a resource list (a start).\<close>

record memory_requirement =
  mr_Type :: u8
  mr_ShareDisposition :: u8
  mr_Flags :: u16
  mr_MinimumAddress :: u64
  mr_MaximumAddress :: u64
  mr_Length :: u32
  mr_Alignment :: u32

record IO_RESOURCE_REQUIREMENTS_LIST =
  rl_ListSize :: u32
  rl_InterfaceType :: u32
  rl_BusNumber :: u32
  rl_SlotNumber :: u32
  rl_AlternativeLists :: u32
  rl_Version :: u16
  rl_Revision :: u16
  rl_Descriptors :: "memory_requirement list"

definition VnvmePdoQueryResourceRequirements ::
  "bool \<Rightarrow> VNVME_PDO_CONTEXT \<Rightarrow> NTSTATUS \<times> IO_RESOURCE_REQUIREMENTS_LIST option" where
  "VnvmePdoQueryResourceRequirements alloc_ok p =
     (if \<not> alloc_ok then (STATUS_INSUFFICIENT_RESOURCES, None)
      else (STATUS_SUCCESS, Some
        \<lparr>rl_ListSize = 72, rl_InterfaceType = 5, rl_BusNumber = 0, rl_SlotNumber = pdo_ControllerId p,
         rl_AlternativeLists = 1, rl_Version = 1, rl_Revision = 1,
         rl_Descriptors = [\<lparr>mr_Type = 3, mr_ShareDisposition = 1, mr_Flags = 0x0000 OR 0x0004,
           mr_MinimumAddress = 0, mr_MaximumAddress = - 1, mr_Length = of_nat VNVME_BAR0_SIZE,
           mr_Alignment = of_nat VNVME_BAR0_SIZE\<rparr>]\<rparr>))"

record memory_resource =
  ms_Type :: u8
  ms_ShareDisposition :: u8
  ms_Flags :: u16
  ms_Start :: u64
  ms_Length :: u32

record CM_RESOURCE_LIST =
  cm_InterfaceType :: u32
  cm_BusNumber :: u32
  cm_Version :: u16
  cm_Revision :: u16
  cm_Descriptors :: "memory_resource list"

definition VnvmePdoQueryResources :: "bool \<Rightarrow> VNVME_PDO_CONTEXT \<Rightarrow> NTSTATUS \<times> CM_RESOURCE_LIST option" where
  "VnvmePdoQueryResources alloc_ok p =
     (if pdo_Bar0 p = None then (STATUS_SUCCESS, None)
      else if \<not> alloc_ok then (STATUS_INSUFFICIENT_RESOURCES, None)
      else (STATUS_SUCCESS, Some
        \<lparr>cm_InterfaceType = 5, cm_BusNumber = 0, cm_Version = 1, cm_Revision = 1,
         cm_Descriptors = [\<lparr>ms_Type = 3, ms_ShareDisposition = 1, ms_Flags = 0x0000 OR 0x0004,
           ms_Start = pdo_Bar0PhysAddr p, ms_Length = ucast (pdo_Bar0Size p)\<rparr>]\<rparr>))"

section \<open>Texts, as a reader sees them\<close>

text \<open>The texts of a list of terminated texts, up to the first empty one.\<close>

function multi_sz :: "string \<Rightarrow> string list" where
  "multi_sz buf = (if sz buf = [] then [] else sz buf # multi_sz (drop (length (sz buf) + 1) buf))"
  by pat_completeness auto

termination
proof (relation "measure length")
  fix buf :: string
  assume "sz buf \<noteq> []"
  then have "buf \<noteq> []" by (auto simp: sz_def)
  then show "(drop (length (sz buf) + 1) buf, buf) \<in> measure length" by simp
qed simp

declare multi_sz.simps [simp del]

lemma undigits_fmt [simp]: "undigits (fmt_lu n) = unat n" "undigits (fmt_04lu n) = unat n"
  by (simp_all add: fmt_lu_def fmt_04lu_def undigits_zeros undigits_digits)

lemma length_fmt_lu: "length (fmt_lu n) \<le> 10"
  unfolding fmt_lu_def using unat_u32_bound [of n] by (intro length_digits) simp_all

lemma multi_sz_Cons: "NUL \<notin> set xs \<Longrightarrow> xs \<noteq> [] \<Longrightarrow> multi_sz (xs @ NUL # ys) = xs # multi_sz ys"
  by (subst multi_sz.simps) (simp add: sz_append_NUL)

lemma multi_sz_end [simp]: "multi_sz (NUL # ys) = []"
  by (subst multi_sz.simps) (simp add: sz_def)

lemma VnvmeAllocateMultiString_parses:
  assumes "\<forall>n. alloc_ok n" "NUL \<notin> set s1" "s1 \<noteq> []" "\<And>s. s2 = Some s \<Longrightarrow> NUL \<notin> set s \<and> s \<noteq> []"
  shows "\<exists>buf. VnvmeAllocateMultiString alloc_ok (Some s1) s2 = Some buf
    \<and> multi_sz buf = s1 # (case s2 of None \<Rightarrow> [] | Some s \<Rightarrow> [s])"
proof (cases s2)
  case None
  have "copy_into 0 (s1 @ [NUL]) (replicate (length s1 + 1 + 0 + 1) NUL) = s1 @ NUL # [NUL]"
    by (simp add: copy_into_def flip: replicate_Suc) simp
  with None assms show ?thesis
    by (simp add: VnvmeAllocateMultiString_def Let_def multi_sz_Cons)
next
  case (Some s)
  have "copy_into (length s1 + 1) (s @ [NUL]) (copy_into 0 (s1 @ [NUL]) (replicate (length s1 + 1 + (length s + 1) + 1) NUL))
      = s1 @ NUL # s @ NUL # [NUL]"
    by (simp add: copy_into_def flip: replicate_Suc) simp
  with Some assms(1) have "VnvmeAllocateMultiString alloc_ok (Some s1) s2 = Some (s1 @ NUL # s @ NUL # [NUL])"
    by (simp add: VnvmeAllocateMultiString_def Let_def)
  with Some assms(2,3) assms(4) [OF Some] show ?thesis
    by (simp add: multi_sz_Cons)
qed

section \<open>Properties\<close>

lemma RtlStringCbPrintfW_fits: "2 * (length txt + 1) \<le> cb \<Longrightarrow> RtlStringCbPrintfW cb txt = (STATUS_SUCCESS, txt)"
  by (simp add: RtlStringCbPrintfW_def)

text \<open>With memory available, the hardware identifiers reported for a controller are a list of two texts, the device with
  its revision and the NVMe class, the compatible identifiers the class alone, and the instance identifier is the
  controller's number written in decimal, so two controllers with different numbers report different instances.\<close>

theorem VnvmePdoQueryDeviceId_identifies:
  assumes "\<forall>n. alloc_ok n"
  shows "\<exists>hw cc inst. VnvmePdoQueryDeviceId alloc_ok p BusQueryHardwareIDs = (STATUS_SUCCESS, Some hw)
    \<and> multi_sz hw = [VNVME_HARDWARE_ID, VNVME_COMPATIBLE_ID]
    \<and> VnvmePdoQueryDeviceId alloc_ok p BusQueryCompatibleIDs = (STATUS_SUCCESS, Some cc) \<and> multi_sz cc = [VNVME_COMPATIBLE_ID]
    \<and> VnvmePdoQueryDeviceId alloc_ok p BusQueryInstanceID = (STATUS_SUCCESS, Some inst)
    \<and> undigits (sz inst) = unat (pdo_ControllerId p)"
proof -
  have ids: "NUL \<notin> set VNVME_HARDWARE_ID" "VNVME_HARDWARE_ID \<noteq> []" "NUL \<notin> set VNVME_COMPATIBLE_ID" "VNVME_COMPATIBLE_ID \<noteq> []"
    by (simp_all add: VNVME_HARDWARE_ID_def VNVME_COMPATIBLE_ID_def)
  obtain hw where hw: "VnvmeAllocateMultiString alloc_ok (Some VNVME_HARDWARE_ID) (Some VNVME_COMPATIBLE_ID) = Some hw"
      "multi_sz hw = [VNVME_HARDWARE_ID, VNVME_COMPATIBLE_ID]"
    using VnvmeAllocateMultiString_parses [OF assms ids(1,2), of "Some VNVME_COMPATIBLE_ID"] ids(3,4) by auto
  obtain cc where cc: "VnvmeAllocateMultiString alloc_ok (Some VNVME_COMPATIBLE_ID) None = Some cc"
      "multi_sz cc = [VNVME_COMPATIBLE_ID]"
    using VnvmeAllocateMultiString_parses [OF assms ids(3,4), of None] by auto
  let ?n = "fmt_lu (pdo_ControllerId p)"
  have inst: "VnvmePdoQueryDeviceId alloc_ok p BusQueryInstanceID = (STATUS_SUCCESS, Some (?n @ [NUL]))"
    using assms length_fmt_lu [of "pdo_ControllerId p"]
    by (simp add: VnvmePdoQueryDeviceId_def RtlStringCbPrintfW_fits VnvmeAllocateString_def)
  have "undigits (sz (?n @ [NUL])) = unat (pdo_ControllerId p)"
    using NUL_digits by (simp add: sz_append_NUL fmt_lu_def undigits_digits)
  with hw cc inst show ?thesis
    by (simp add: VnvmePdoQueryDeviceId_def)
qed

theorem VnvmePdoQueryDeviceId_identifies_witness:
  "\<exists>inst. VnvmePdoQueryDeviceId (\<lambda>_. True) (zero_PDO_CONTEXT\<lparr>pdo_ControllerId := 17\<rparr>) BusQueryInstanceID
      = (STATUS_SUCCESS, Some inst) \<and> undigits (sz inst) = 17"
  using VnvmePdoQueryDeviceId_identifies [of "\<lambda>_. True" "zero_PDO_CONTEXT\<lparr>pdo_ControllerId := 17\<rparr>"] by auto

lemma pdo_release_simps:
  "VnvmePdoEvtDeviceReleaseHardware p = (STATUS_SUCCESS, VnvmeFreeBar0 (VnvmeFreePcieConfig (VnvmeStopPollingTimer p)))"
  "pdo_Bar0 (VnvmeFreeBar0 p) = None" "pdo_PcieConfig (VnvmeFreeBar0 p) = pdo_PcieConfig p"
  "pdo_PcieConfig (VnvmeFreePcieConfig p) = None" "pdo_Bar0 (VnvmeFreePcieConfig p) = pdo_Bar0 p"
  "pdo_PollingTimer (VnvmeFreeBar0 p) = pdo_PollingTimer p" "pdo_PollingActive (VnvmeFreeBar0 p) = pdo_PollingActive p"
  "pdo_PollingTimer (VnvmeFreePcieConfig p) = pdo_PollingTimer p" "pdo_PollingActive (VnvmeFreePcieConfig p) = pdo_PollingActive p"
  "pdo_PollingActive (VnvmeStopPollingTimer p) \<longleftrightarrow> pdo_PollingActive p \<and> \<not> pdo_PollingTimer p"
  "pdo_PollingTimer (VnvmeStopPollingTimer p) = pdo_PollingTimer p"
  by (auto simp: VnvmePdoEvtDeviceReleaseHardware_def VnvmeFreeBar0_def VnvmeFreePcieConfig_def VnvmeStopPollingTimer_def)

lemma bar0_frame:
  "pdo_PcieConfig (VnvmeInitializeBar0Registers p) = pdo_PcieConfig p"
  "pdo_PcieConfigSize (VnvmeInitializeBar0Registers p) = pdo_PcieConfigSize p"
  "pdo_PcieConfig (snd (VnvmeAllocateBar0 b p)) = pdo_PcieConfig p"
  "pdo_PcieConfigSize (snd (VnvmeAllocateBar0 b p)) = pdo_PcieConfigSize p"
  by (auto simp: VnvmeInitializeBar0Registers_def VnvmeAllocateBar0_def Let_def split: option.split prod.split)

lemma wf_release:
  "bar0_wf p \<Longrightarrow> bar0_wf (VnvmeFreePcieConfig p)" "pcie_wf p \<Longrightarrow> pcie_wf (VnvmeFreeBar0 p)"
  by (auto simp: bar0_wf_def pcie_wf_def VnvmeFreePcieConfig_def VnvmeFreeBar0_def split: option.splits)

text \<open>C36: preparing the hardware of a controller without hardware either succeeds, with the register file, the
  configuration space and the timer in place (the controller not ready, its capabilities listed, the timer set to the
  configured interval), or fails with the status of the call that failed (STATUS_INSUFFICIENT_RESOURCES for either block, the
  timer's own status for the timer) and leaves neither block behind; and
  releasing the hardware afterwards leaves neither block and no running timer.\<close>

theorem prepare_hardware_all_or_nothing:
  assumes "VnvmePdoEvtDevicePrepareHardware bar0 configSpace timer c = (status, c')"
    "pdo_Bar0 (pdo c) = None" "pdo_PcieConfig (pdo c) = None" "bar0_wf (pdo c)" "pcie_wf (pdo c)"
  shows "(if bar0 \<noteq> None \<and> configSpace \<noteq> None \<and> NT_SUCCESS timer
     then status = STATUS_SUCCESS
       \<and> (\<exists>bar cfg. pdo_Bar0 (pdo c') = Some bar \<and> rd32 bar REG_CSTS = 0 \<and> rd32 bar REG_CC = 0
           \<and> pdo_PcieConfig (pdo c') = Some cfg \<and> pcie_identity cfg)
       \<and> pdo_PollingTimer (pdo c') \<and> pdo_PollingIntervalUs (pdo c') = DoorbellPollIntervalUs (g_Config c)
     else status = (if bar0 = None \<or> configSpace = None then STATUS_INSUFFICIENT_RESOURCES else timer)
       \<and> \<not> NT_SUCCESS status \<and> pdo_Bar0 (pdo c') = None \<and> pdo_PcieConfig (pdo c') = None)
    \<and> bar0_wf (pdo c') \<and> pcie_wf (pdo c')
    \<and> (\<exists>p. VnvmePdoEvtDeviceReleaseHardware (pdo c') = (STATUS_SUCCESS, p) \<and> pdo_Bar0 p = None \<and> pdo_PcieConfig p = None
        \<and> (pdo_PollingTimer p \<longrightarrow> \<not> pdo_PollingActive p))"
proof -
  have free: "\<exists>p. VnvmePdoEvtDeviceReleaseHardware q = (STATUS_SUCCESS, p) \<and> pdo_Bar0 p = None \<and> pdo_PcieConfig p = None
      \<and> (pdo_PollingTimer p \<longrightarrow> \<not> pdo_PollingActive p)" for q
    by (simp add: pdo_release_simps)
  show ?thesis
  proof (cases bar0)
    case None
    with assms free show ?thesis
      by (auto simp: VnvmePdoEvtDevicePrepareHardware_def VnvmeAllocateBar0_def)
  next
    case (Some b)
    let ?p = "VnvmeInitializeBar0Registers (snd (VnvmeAllocateBar0 bar0 (pdo c)))"
    have ok: "fst (VnvmeAllocateBar0 bar0 (pdo c)) = STATUS_SUCCESS"
      using Some by (simp add: VnvmeAllocateBar0_def split: prod.split)
    have bar: "\<exists>bar. pdo_Bar0 ?p = Some bar \<and> rd32 bar REG_CSTS = 0 \<and> rd32 bar REG_CC = 0"
      using Some by (auto simp: VnvmeAllocateBar0_def VnvmeInitializeBar0Registers_def Let_def mem_simps split: prod.split)
    have "bar0_wf ?p" using assms(4) by (intro bar0_wf_life)
    moreover have "pcie_wf ?p" "pdo_PcieConfig ?p = None"
      using assms(3,5) by (simp_all add: pcie_wf_def bar0_frame)
    ultimately have wf: "bar0_wf ?p" "pcie_wf ?p" "pdo_PcieConfig ?p = None" .
    show ?thesis
    proof (cases configSpace)
      case None
      then have "status = STATUS_INSUFFICIENT_RESOURCES" "c' = c\<lparr>pdo := VnvmeFreeBar0 ?p\<rparr>"
        using assms(1) ok
        by (simp_all add: VnvmePdoEvtDevicePrepareHardware_def VnvmeAllocatePcieConfig_def case_prod_beta Let_def)
      with None wf free show ?thesis
        by (simp add: pdo_release_simps wf_release bar0_wf_life)
    next
      case cfg: (Some m)
      let ?q = "VnvmeInitializePcieConfig (snd (VnvmeAllocatePcieConfig configSpace ?p))"
      have q: "\<exists>cfg. pdo_PcieConfig ?q = Some cfg \<and> pcie_identity cfg" "pcie_wf ?q" "bar0_wf ?q" "pdo_Bar0 ?q = pdo_Bar0 ?p"
        using wf(1) cfg
        by (auto simp: VnvmeAllocatePcieConfig_def VnvmeInitializePcieConfig_def pcie_identity_initial pcie_wf_def bar0_wf_def
            split: option.splits)
      have "(status, c') = (if NT_SUCCESS timer
          then (STATUS_SUCCESS, c\<lparr>pdo := ?q\<lparr>pdo_PollingTimer := True, pdo_PollingIntervalUs := DoorbellPollIntervalUs (g_Config c)\<rparr>\<rparr>)
          else (timer, c\<lparr>pdo := VnvmeFreeBar0 (VnvmeFreePcieConfig ?q)\<rparr>))"
        using assms(1) ok cfg
        by (cases "NT_SUCCESS timer")
          (simp_all add: VnvmePdoEvtDevicePrepareHardware_def VnvmeAllocatePcieConfig_def VnvmeInitializePollingTimer_def
            upd_pdo_def case_prod_beta Let_def)
      moreover have "bar0_wf (?q\<lparr>pdo_PollingTimer := True, pdo_PollingIntervalUs := i\<rparr>) = bar0_wf ?q"
        "pcie_wf (?q\<lparr>pdo_PollingTimer := True, pdo_PollingIntervalUs := i\<rparr>) = pcie_wf ?q" for i
        by (simp_all add: bar0_wf_def pcie_wf_def split: option.split)
      ultimately show ?thesis
        using Some cfg bar q free
        by (auto simp: pdo_release_simps wf_release bar0_wf_life pcie_wf_life split: if_splits)
    qed
  qed
qed

text \<open>The property for a fresh controller, when everything succeeds.\<close>

definition example_fresh_ctx :: vnvme_ctx where
  "example_fresh_ctx = \<lparr>g_Config = g_Config_init, g_FdoContext = None, pdo = zero_PDO_CONTEXT, host = (\<lambda>_. 0)\<rparr>"

theorem prepare_hardware_all_or_nothing_witness:
  "let (status, c') = VnvmePdoEvtDevicePrepareHardware (Some (\<lambda>_. 0, 0x1000)) (Some (\<lambda>_. 0)) STATUS_SUCCESS example_fresh_ctx in
    status = STATUS_SUCCESS \<and> pdo_PollingTimer (pdo c') \<and> pdo_PollingIntervalUs (pdo c') = 100"
proof -
  obtain status c' where run:
    "VnvmePdoEvtDevicePrepareHardware (Some (\<lambda>_. 0, 0x1000)) (Some (\<lambda>_. 0)) STATUS_SUCCESS example_fresh_ctx = (status, c')"
    by fastforce
  have "pdo_Bar0 (pdo example_fresh_ctx) = None" "pdo_PcieConfig (pdo example_fresh_ctx) = None"
      "bar0_wf (pdo example_fresh_ctx)" "pcie_wf (pdo example_fresh_ctx)"
    by (simp_all add: example_fresh_ctx_def zero_PDO_CONTEXT_def bar0_wf_def pcie_wf_def)
  from prepare_hardware_all_or_nothing [OF run this] run show ?thesis
    by (simp add: example_fresh_ctx_def g_Config_init_def)
qed

end
