(* ===== verification/Vnvme_Bus.thy ===== *)
theory Vnvme_Bus
  imports Vnvme_Pdo Vnvme_Shm
begin

text \<open>
  \<^verbatim>\<open>vnvme/bus.c\<close> and \<^verbatim>\<open>vnvme/vnvme.c\<close>: the bus device, the list of its controllers, and the life of the driver. The part of
  \<open>VNVME_FDO_CONTEXT\<close> the command path uses is \<open>VNVME_FDO_CONTEXT\<close>; \<open>VNVME_FDO_DEVICE\<close> adds the rest of the C
  structure around it. The controllers are held in a list in the order of the linked list. What the framework answers
  to each call is an argument.
\<close>

section \<open>The bus device and the driver\<close>

record VNVME_FDO_DEVICE =
  fd_Context :: VNVME_FDO_CONTEXT
  fd_ControlDevice :: bool \<comment> \<open>non-null\<close>
  fd_ControlQueue :: bool
  fd_ControlQueueStopped :: bool \<comment> \<open>the framework's queue no longer delivers requests\<close>
  fd_ChildDeviceList :: "VNVME_PDO_CONTEXT list"
  fd_ChildDeviceCount :: u32
  fd_NextControllerId :: u32
  fd_MaxControllers :: u32
  fd_UserReadyEvent :: bool \<comment> \<open>signalled\<close>
  fd_ShutdownEvent :: bool
  fd_UserPid :: u32
  fd_UserEventHandle :: u64 \<comment> \<open>0 is null\<close>
  fd_StartTime :: u64

text \<open>The globals \<open>g_Config\<close> and \<open>g_FdoContext\<close>.\<close>

record vnvme_driver =
  drv_Config :: VNVME_CONFIG
  drv_Fdo :: "VNVME_FDO_DEVICE option"

definition VnvmeGetFdoContextSafe :: "vnvme_driver \<Rightarrow> VNVME_FDO_DEVICE option" where
  "VnvmeGetFdoContextSafe d = drv_Fdo d"

text \<open>The zeroed context, with what \<open>VnvmeEvtDeviceAdd\<close> sets.\<close>

abbreviation (input) VNVME_MAX_CONTROLLERS :: u32 where "VNVME_MAX_CONTROLLERS \<equiv> 16"

definition initial_FDO :: "u64 \<Rightarrow> VNVME_FDO_DEVICE" where
  "initial_FDO now =
     \<lparr>fd_Context = \<lparr>fdo_CommandMode = VNVME_CMD_MODE_USER, fdo_ShmKernelVirtAddr = None, fdo_ShmPhysAddr = 0,
        fdo_ShmSize = 0, fdo_ShmMdl = False, fdo_ShmUserVirtAddr = None, fdo_CommandReadyEvent = False,
        fdo_UserReady = False, fdo_ShutdownRequested = False, fdo_UserCrashed = False, fdo_LastHeartbeat = 0,
        fdo_EventNotificationEnabled = False, fdo_CommandsProcessed = 0, fdo_ErrorCount = 0\<rparr>,
      fd_ControlDevice = False, fd_ControlQueue = False, fd_ControlQueueStopped = False, fd_ChildDeviceList = [],
      fd_ChildDeviceCount = 0, fd_NextControllerId = 1, fd_MaxControllers = VNVME_MAX_CONTROLLERS,
      fd_UserReadyEvent = False, fd_ShutdownEvent = False, fd_UserPid = 0, fd_UserEventHandle = 0,
      fd_StartTime = now\<rparr>"

section \<open>Controllers\<close>

fun find_controller :: "VNVME_PDO_CONTEXT list \<Rightarrow> u32 \<Rightarrow> VNVME_PDO_CONTEXT option" where
  "find_controller [] ControllerId = None"
| "find_controller (p # ps) ControllerId =
     (if pdo_ControllerId p = ControllerId then Some p else find_controller ps ControllerId)"

definition VnvmeFindController :: "VNVME_FDO_DEVICE \<Rightarrow> u32 \<Rightarrow> VNVME_PDO_CONTEXT option" where
  "VnvmeFindController f ControllerId = find_controller (fd_ChildDeviceList f) ControllerId"

text \<open>
  The answers to the framework calls of \<open>VnvmeCreateControllerPdo\<close>, in its order: the initialisation structure, the
  formatting and the assignment of each text, and the creation of the device. The texts are arguments of the calls.
\<close>

record pdo_create_os =
  pc_InitAllocate :: bool
  pc_UnicodeStringPrintf :: "string \<Rightarrow> NTSTATUS"
  pc_AssignDeviceID :: "string \<Rightarrow> NTSTATUS"
  pc_AddHardwareID :: "string \<Rightarrow> NTSTATUS"
  pc_AddCompatibleID :: "string \<Rightarrow> NTSTATUS"
  pc_AssignInstanceID :: "string \<Rightarrow> NTSTATUS"
  pc_AddDeviceText :: "string \<Rightarrow> NTSTATUS"
  pc_DeviceCreate :: NTSTATUS

definition VnvmeCreateControllerPdo :: "pdo_create_os \<Rightarrow> u32 \<Rightarrow> NTSTATUS \<times> VNVME_PDO_CONTEXT option" where
  "VnvmeCreateControllerPdo os ControllerId =
     (let deviceId = VNVME_DEVICE_ID; hardwareIds = VNVME_HARDWARE_ID; compatibleIds = VNVME_COMPATIBLE_ID;
          instanceId = ''CTRL'' @ fmt_04lu ControllerId;
          deviceText = ''Virtual NVMe Controller '' @ fmt_lu ControllerId
      in if \<not> pc_InitAllocate os then (STATUS_INSUFFICIENT_RESOURCES, None)
         else
           case find (\<lambda>status. \<not> NT_SUCCESS status)
             [pc_UnicodeStringPrintf os deviceId, pc_AssignDeviceID os deviceId,
              pc_UnicodeStringPrintf os hardwareIds, pc_AddHardwareID os hardwareIds,
              pc_UnicodeStringPrintf os compatibleIds, pc_AddCompatibleID os compatibleIds,
              pc_UnicodeStringPrintf os instanceId, pc_AssignInstanceID os instanceId,
              pc_UnicodeStringPrintf os deviceText, pc_AddDeviceText os deviceText,
              pc_DeviceCreate os] of
             Some status \<Rightarrow> (status, None)
           | None \<Rightarrow>
               (STATUS_SUCCESS,
                Some (zero_PDO_CONTEXT\<lparr>pdo_ControllerId := ControllerId,
                  pdo_MaxIoQueues := of_nat VNVME_MAX_IO_QUEUES, pdo_PollingIntervalUs := 1 * 1000\<rparr>)))"

text \<open>
  \<open>WdfObjectDelete\<close> runs the power-down callback when the device is in D0 and the release callback before the context
  is freed; the result is the context as it is when it is freed.
\<close>

definition VnvmeDeleteControllerPdo :: "bool \<Rightarrow> VNVME_PDO_CONTEXT \<Rightarrow> NTSTATUS \<times> VNVME_PDO_CONTEXT" where
  "VnvmeDeleteControllerPdo in_D0 p =
     (let p = (if in_D0 then snd (VnvmePdoEvtDeviceD0Exit p) else p)
      in (STATUS_SUCCESS, snd (VnvmePdoEvtDeviceReleaseHardware p)))"

definition VnvmeCreateVirtualController :: "pdo_create_os \<Rightarrow> VNVME_FDO_DEVICE \<Rightarrow> u32 \<Rightarrow> NTSTATUS \<times> VNVME_FDO_DEVICE" where
  "VnvmeCreateVirtualController os f ControllerId =
     (if find_controller (fd_ChildDeviceList f) ControllerId \<noteq> None then (STATUS_OBJECT_NAME_COLLISION, f)
      else if fd_ChildDeviceCount f \<ge> fd_MaxControllers f then (STATUS_INSUFFICIENT_RESOURCES, f)
      else
        let f = f\<lparr>fd_ChildDeviceCount := fd_ChildDeviceCount f + 1\<rparr>;
            (status, child) = VnvmeCreateControllerPdo os ControllerId
        in case child of
             None \<Rightarrow> (status, f\<lparr>fd_ChildDeviceCount := fd_ChildDeviceCount f - 1\<rparr>)
           | Some p \<Rightarrow> (STATUS_SUCCESS, f\<lparr>fd_ChildDeviceList := fd_ChildDeviceList f @ [p]\<rparr>))"

text \<open>The search for the controller to delete: its context and the list without it.\<close>

fun remove_controller :: "VNVME_PDO_CONTEXT list \<Rightarrow> u32 \<Rightarrow> (VNVME_PDO_CONTEXT \<times> VNVME_PDO_CONTEXT list) option" where
  "remove_controller [] ControllerId = None"
| "remove_controller (p # ps) ControllerId =
     (if pdo_ControllerId p = ControllerId then Some (p, ps)
      else map_option (\<lambda>(q, qs). (q, p # qs)) (remove_controller ps ControllerId))"

text \<open>The middle component is the freed context.\<close>

definition VnvmeDeleteVirtualController ::
  "bool \<Rightarrow> VNVME_FDO_DEVICE \<Rightarrow> u32 \<Rightarrow> NTSTATUS \<times> VNVME_PDO_CONTEXT option \<times> VNVME_FDO_DEVICE" where
  "VnvmeDeleteVirtualController in_D0 f ControllerId =
     (case remove_controller (fd_ChildDeviceList f) ControllerId of
        None \<Rightarrow> (STATUS_NOT_FOUND, None, f)
      | Some (p, ps) \<Rightarrow>
          (STATUS_SUCCESS, Some (snd (VnvmeDeleteControllerPdo in_D0 p)),
           f\<lparr>fd_ChildDeviceList := ps, fd_ChildDeviceCount := fd_ChildDeviceCount f - 1\<rparr>))"

definition VnvmeEnumerateChildren :: "VNVME_FDO_DEVICE \<Rightarrow> NTSTATUS" where
  "VnvmeEnumerateChildren f = STATUS_SUCCESS"

section \<open>The life of the driver\<close>

text \<open>The answers to the framework calls of \<open>VnvmeCreateControlDevice\<close>.\<close>

record control_create_os =
  cc_InitAllocate :: bool
  cc_AssignName :: NTSTATUS
  cc_DeviceCreate :: NTSTATUS
  cc_CreateSymbolicLink :: NTSTATUS
  cc_QueueCreate :: NTSTATUS

definition VnvmeCreateControlDevice :: "control_create_os \<Rightarrow> VNVME_FDO_DEVICE \<Rightarrow> NTSTATUS \<times> VNVME_FDO_DEVICE" where
  "VnvmeCreateControlDevice os f =
     (if \<not> cc_InitAllocate os then (STATUS_INSUFFICIENT_RESOURCES, f)
      else if \<not> NT_SUCCESS (cc_AssignName os) then (cc_AssignName os, f)
      else if \<not> NT_SUCCESS (cc_DeviceCreate os) then (cc_DeviceCreate os, f)
      else if \<not> NT_SUCCESS (cc_CreateSymbolicLink os) then (cc_CreateSymbolicLink os, f)
      else if \<not> NT_SUCCESS (cc_QueueCreate os) then (cc_QueueCreate os, f)
      else (STATUS_SUCCESS, f\<lparr>fd_ControlDevice := True, fd_ControlQueue := True\<rparr>))"

definition VnvmeDeleteControlDevice :: "VNVME_FDO_DEVICE \<Rightarrow> VNVME_FDO_DEVICE" where
  "VnvmeDeleteControlDevice f = (if fd_ControlDevice f then f\<lparr>fd_ControlDevice := False\<rparr> else f)"

text \<open>\<open>DriverEntry\<close>: the configuration is loaded before the framework's driver object is created. The counters of
  \<open>VnvmeDebugInit\<close> are not part of the state.\<close>

definition DriverEntry :: "bool \<Rightarrow> bool \<Rightarrow> registry \<Rightarrow> NTSTATUS \<Rightarrow> NTSTATUS \<times> vnvme_driver" where
  "DriverEntry path_ok open_ok reg created =
     (let d = \<lparr>drv_Config = snd (VnvmeConfigInit path_ok open_ok reg g_Config_init), drv_Fdo = None\<rparr>
      in if \<not> NT_SUCCESS created then (created, d) else (STATUS_SUCCESS, d))"

definition VnvmeEvtDeviceAdd :: "NTSTATUS \<Rightarrow> u64 \<Rightarrow> control_create_os \<Rightarrow> vnvme_driver \<Rightarrow> NTSTATUS \<times> vnvme_driver" where
  "VnvmeEvtDeviceAdd created now os d =
     (if \<not> NT_SUCCESS created then (created, d)
      else if drv_Fdo d \<noteq> None then (STATUS_DEVICE_ALREADY_ATTACHED, d)
      else
        let (status, f) = VnvmeCreateControlDevice os (initial_FDO now); d = d\<lparr>drv_Fdo := Some f\<rparr>
        in if \<not> NT_SUCCESS status then (status, d) else (STATUS_SUCCESS, d))"

definition VnvmeEvtDevicePrepareHardware :: "(mem \<times> u64) option \<Rightarrow> VNVME_FDO_DEVICE \<Rightarrow> NTSTATUS \<times> VNVME_FDO_DEVICE" where
  "VnvmeEvtDevicePrepareHardware block f =
     (let (status, c) = VnvmeAllocateShm block (fd_Context f); f = f\<lparr>fd_Context := c\<rparr>
      in if \<not> NT_SUCCESS status then (status, f) else (STATUS_SUCCESS, f))"

definition VnvmeEvtDeviceReleaseHardware :: "VNVME_FDO_DEVICE \<Rightarrow> NTSTATUS \<times> VNVME_FDO_DEVICE" where
  "VnvmeEvtDeviceReleaseHardware f =
     (let f = (if fd_UserEventHandle f \<noteq> 0
               then f\<lparr>fd_UserEventHandle := 0, fd_Context := (fd_Context f)\<lparr>fdo_EventNotificationEnabled := False\<rparr>\<rparr> else f)
      in (STATUS_SUCCESS, f\<lparr>fd_Context := VnvmeFreeShm (fd_Context f)\<rparr>))"

definition VnvmeEvtDeviceD0Entry :: "VNVME_FDO_DEVICE \<Rightarrow> NTSTATUS \<times> VNVME_FDO_DEVICE" where
  "VnvmeEvtDeviceD0Entry f = (STATUS_SUCCESS, f)"

text \<open>\<open>ShutdownRequested\<close> of the control block is the four-byte flag at offset 0xA0. The wait for the user-mode service ends by the
  event or after five seconds; which of the two is of no consequence for the state.\<close>

definition VnvmeEvtDeviceD0Exit :: "VNVME_FDO_DEVICE \<Rightarrow> NTSTATUS \<times> VNVME_FDO_DEVICE" where
  "VnvmeEvtDeviceD0Exit f =
     (let f = f\<lparr>fd_Context := (fd_Context f)\<lparr>fdo_ShutdownRequested := True\<rparr>\<rparr>;
          f = (if fd_ControlQueue f then f\<lparr>fd_ControlQueueStopped := True\<rparr> else f);
          f = f\<lparr>fd_ShutdownEvent := True\<rparr>;
          f = f\<lparr>fd_Context := (fd_Context f)\<lparr>fdo_ShmKernelVirtAddr :=
                 map_option (wr32 0xA0 1) (fdo_ShmKernelVirtAddr (fd_Context f))\<rparr>\<rparr>;
          f = (if fd_ControlQueue f then f\<lparr>fd_ControlQueueStopped := True\<rparr> else f)
      in (STATUS_SUCCESS, f))"

definition VnvmeEvtDriverContextCleanup :: "vnvme_driver \<Rightarrow> VNVME_FDO_DEVICE option \<times> vnvme_driver" where
  "VnvmeEvtDriverContextCleanup d = (map_option VnvmeDeleteControlDevice (drv_Fdo d), d\<lparr>drv_Fdo := None\<rparr>)"

section \<open>The table of controllers\<close>

text \<open>
  What the command and control paths rely on: a keyed table with a look-up, an insertion of a new key, a replacement
  under a key and a deletion, all of which change the look-up at that key only and keep the keys distinct.
\<close>

locale keyed_table =
  fixes key :: "'v \<Rightarrow> 'k" and lookup :: "'t \<Rightarrow> 'k \<Rightarrow> 'v option" and size :: "'t \<Rightarrow> nat" and invar :: "'t \<Rightarrow> bool"
    and insert :: "'t \<Rightarrow> 'v \<Rightarrow> 't" and replace :: "'t \<Rightarrow> 'v \<Rightarrow> 't" and remove :: "'t \<Rightarrow> 'k \<Rightarrow> ('v \<times> 't) option"
  assumes lookup_key: "lookup t k = Some v \<Longrightarrow> key v = k"
    and insert_lookup: "invar t \<Longrightarrow> lookup t (key v) = None \<Longrightarrow> lookup (insert t v) = (lookup t)(key v \<mapsto> v)"
    and insert_invar: "invar t \<Longrightarrow> lookup t (key v) = None \<Longrightarrow> invar (insert t v) \<and> size (insert t v) = Suc (size t)"
    and replace_lookup: "invar t \<Longrightarrow> lookup t (key v) \<noteq> None \<Longrightarrow> lookup (replace t v) = (lookup t)(key v \<mapsto> v)"
    and replace_invar: "invar t \<Longrightarrow> invar (replace t v) \<and> size (replace t v) = size t"
    and remove_lookup: "invar t \<Longrightarrow> remove t k = Some (v, t') \<Longrightarrow> lookup t k = Some v \<and> lookup t' = (lookup t)(k := None)"
    and remove_invar: "invar t \<Longrightarrow> remove t k = Some (v, t') \<Longrightarrow> invar t' \<and> Suc (size t') = size t"
    and remove_None: "remove t k = None \<longleftrightarrow> lookup t k = None"
begin

text \<open>A key that was inserted, replaced any number of times and deleted is gone, and the others are as before.\<close>

lemma insert_replace_remove:
  assumes "invar t" "lookup t (key v) = None" "key w = key v"
  shows "\<exists>t'. remove (replace (insert t v) w) (key v) = Some (w, t') \<and> invar t' \<and> lookup t' = lookup t \<and> size t' = size t"
proof -
  let ?t = "replace (insert t v) w"
  have t1: "invar (insert t v)" "lookup (insert t v) = (lookup t)(key v \<mapsto> v)" "size (insert t v) = Suc (size t)"
    using insert_lookup [OF assms(1,2)] insert_invar [OF assms(1,2)] by auto
  have t2: "invar ?t" "lookup ?t = (lookup t)(key v \<mapsto> w)" "size ?t = Suc (size t)"
    using replace_lookup [OF t1(1), of w] replace_invar [OF t1(1), of w] t1 assms(3) by auto
  then obtain w' t' where r: "remove ?t (key v) = Some (w', t')"
    using remove_None [of ?t "key v"] by fastforce
  from remove_lookup [OF t2(1) r] remove_invar [OF t2(1) r] t2 assms(2) r show ?thesis
    by (auto simp: fun_upd_idem)
qed

end

text \<open>Writing back a controller that was looked up: the first one with its number.\<close>

fun put_controller :: "VNVME_PDO_CONTEXT list \<Rightarrow> VNVME_PDO_CONTEXT \<Rightarrow> VNVME_PDO_CONTEXT list" where
  "put_controller [] q = []"
| "put_controller (p # ps) q = (if pdo_ControllerId p = pdo_ControllerId q then q # ps else p # put_controller ps q)"

abbreviation controller_ids :: "VNVME_PDO_CONTEXT list \<Rightarrow> u32 list" where
  "controller_ids ps \<equiv> map pdo_ControllerId ps"

lemma find_controller_None: "find_controller ps i = None \<longleftrightarrow> i \<notin> set (controller_ids ps)"
  by (induction ps) auto

lemma find_controller_Some: "find_controller ps i = Some p \<Longrightarrow> p \<in> set ps \<and> pdo_ControllerId p = i"
  by (induction ps) (auto split: if_splits)

lemma find_controller_append:
  "find_controller (ps @ [p]) i = (case find_controller ps i of Some q \<Rightarrow> Some q
     | None \<Rightarrow> if pdo_ControllerId p = i then Some p else None)"
  by (induction ps) auto

lemma controller_ids_put [simp]: "controller_ids (put_controller ps q) = controller_ids ps"
  by (induction ps) auto

lemma length_put [simp]: "length (put_controller ps q) = length ps"
  by (induction ps) auto

lemma find_controller_put:
  "distinct (controller_ids ps) \<Longrightarrow> find_controller ps (pdo_ControllerId q) \<noteq> None
    \<Longrightarrow> find_controller (put_controller ps q) = (find_controller ps)(pdo_ControllerId q \<mapsto> q)"
  by (rule ext, induction ps) auto

lemma remove_controller_None: "remove_controller ps i = None \<longleftrightarrow> find_controller ps i = None"
  by (induction ps) auto

lemma remove_controller_Some:
  assumes "remove_controller ps i = Some (p, qs)" "distinct (controller_ids ps)"
  shows "find_controller ps i = Some p \<and> find_controller qs = (find_controller ps)(i := None)
    \<and> distinct (controller_ids qs) \<and> Suc (length qs) = length ps \<and> set qs \<subseteq> set ps \<and> set (controller_ids qs) \<subseteq> set (controller_ids ps)"
  using assms
proof (induction ps arbitrary: qs)
  case (Cons a ps)
  show ?case
  proof (cases "pdo_ControllerId a = i")
    case True
    with Cons.prems have "p = a" "qs = ps" "i \<notin> set (controller_ids ps)" by auto
    with True Cons.prems show ?thesis
      using find_controller_None [of ps i] by (auto simp: fun_eq_iff)
  next
    case False
    with Cons.prems obtain rs where rs: "remove_controller ps i = Some (p, rs)" "qs = a # rs" by auto
    with Cons.IH [OF rs(1)] Cons.prems False show ?thesis by (auto simp: fun_eq_iff)
  qed
qed simp

interpretation controllers: keyed_table pdo_ControllerId find_controller length "\<lambda>ps. distinct (controller_ids ps)"
  "\<lambda>ps p. ps @ [p]" put_controller remove_controller
proof unfold_locales
  fix ps :: "VNVME_PDO_CONTEXT list" and p :: VNVME_PDO_CONTEXT
  assume none: "find_controller ps (pdo_ControllerId p) = None"
  show "find_controller (ps @ [p]) = (find_controller ps)(pdo_ControllerId p \<mapsto> p)"
    using none by (auto simp: fun_eq_iff find_controller_append split: option.split)
next
  fix ps :: "VNVME_PDO_CONTEXT list" and p :: VNVME_PDO_CONTEXT
  show "distinct (controller_ids (put_controller ps p)) \<and> length (put_controller ps p) = length ps"
    if "distinct (controller_ids ps)"
    using that by simp
qed (auto simp: find_controller_None remove_controller_None find_controller_put dest: find_controller_Some remove_controller_Some)

section \<open>The invariant of the bus\<close>

definition bus_ok :: "VNVME_FDO_DEVICE \<Rightarrow> bool" where
  "bus_ok f \<longleftrightarrow> distinct (controller_ids (fd_ChildDeviceList f))
     \<and> unat (fd_ChildDeviceCount f) = length (fd_ChildDeviceList f) \<and> fd_ChildDeviceCount f \<le> fd_MaxControllers f
     \<and> fd_MaxControllers f = VNVME_MAX_CONTROLLERS"

lemma bus_ok_initial: "bus_ok (initial_FDO now)"
  by (simp add: bus_ok_def initial_FDO_def)

text \<open>The context of a controller that was just created.\<close>

definition created_PDO :: "u32 \<Rightarrow> VNVME_PDO_CONTEXT" where
  "created_PDO ControllerId = zero_PDO_CONTEXT\<lparr>pdo_ControllerId := ControllerId, pdo_MaxIoQueues := of_nat VNVME_MAX_IO_QUEUES,
     pdo_PollingIntervalUs := 1 * 1000\<rparr>"

lemma VnvmeCreateControllerPdo_cases:
  obtains status where "VnvmeCreateControllerPdo os i = (status, None)" "\<not> NT_SUCCESS status"
  | "VnvmeCreateControllerPdo os i = (STATUS_SUCCESS, Some (created_PDO i))"
proof (cases "VnvmeCreateControllerPdo os i")
  case (Pair status child)
  have "(child = None \<and> \<not> NT_SUCCESS status) \<or> (status = STATUS_SUCCESS \<and> child = Some (created_PDO i))"
    using Pair by (auto simp: VnvmeCreateControllerPdo_def Let_def created_PDO_def find_Some_iff split: if_splits option.splits)
  with Pair that show thesis by blast
qed

lemma VnvmeCreateVirtualController_effect:
  assumes "bus_ok f" "VnvmeCreateVirtualController os f i = (status, f')"
  shows "(status = STATUS_SUCCESS \<and> find_controller (fd_ChildDeviceList f) i = None
      \<and> f' = f\<lparr>fd_ChildDeviceList := fd_ChildDeviceList f @ [created_PDO i], fd_ChildDeviceCount := fd_ChildDeviceCount f + 1\<rparr>
      \<and> fd_ChildDeviceCount f < fd_MaxControllers f)
    \<or> (\<not> NT_SUCCESS status \<and> f' = f)"
  using assms(2)
  by (cases rule: VnvmeCreateControllerPdo_cases [where os = os and i = i])
    (auto simp: VnvmeCreateVirtualController_def Let_def not_le split: if_splits)

lemma bus_ok_create:
  assumes "bus_ok f" "VnvmeCreateVirtualController os f i = (status, f')"
  shows "bus_ok f'"
proof (cases "f' = f")
  case False
  with VnvmeCreateVirtualController_effect [OF assms] have
    new: "find_controller (fd_ChildDeviceList f) (pdo_ControllerId (created_PDO i)) = None"
    and f': "f' = f\<lparr>fd_ChildDeviceList := fd_ChildDeviceList f @ [created_PDO i], fd_ChildDeviceCount := fd_ChildDeviceCount f + 1\<rparr>"
    and room: "fd_ChildDeviceCount f < 16"
    using assms(1) by (auto simp: created_PDO_def bus_ok_def)
  have "unat (fd_ChildDeviceCount f + 1) = Suc (unat (fd_ChildDeviceCount f))"
    using room by (simp add: unat_word_ariths word_less_nat_alt)
  with room assms(1) controllers.insert_invar [OF _ new] show ?thesis
    by (auto simp: bus_ok_def f' word_le_nat_alt word_less_nat_alt)
qed (use assms(1) in simp)

lemma bus_ok_delete:
  assumes "bus_ok f" "VnvmeDeleteVirtualController d0 f i = (status, freed, f')"
  shows "bus_ok f'"
proof (cases "remove_controller (fd_ChildDeviceList f) i")
  case (Some r)
  then obtain p ps where r: "remove_controller (fd_ChildDeviceList f) i = Some (p, ps)" by (cases r) auto
  with assms(2) have f': "f' = f\<lparr>fd_ChildDeviceList := ps, fd_ChildDeviceCount := fd_ChildDeviceCount f - 1\<rparr>"
    by (auto simp: VnvmeDeleteVirtualController_def)
  have inv: "distinct (controller_ids ps)" "Suc (length ps) = unat (fd_ChildDeviceCount f)"
    using controllers.remove_invar [OF _ r] assms(1) by (auto simp: bus_ok_def)
  then have "unat (fd_ChildDeviceCount f - 1) = length ps"
    by (metis One_nat_def diff_Suc_1 unat_1 unat_sub word_le_nat_alt le_add1 plus_1_eq_Suc)
  with inv assms(1) show ?thesis
    by (auto simp: bus_ok_def f' word_le_nat_alt)
qed (use assms in \<open>auto simp: VnvmeDeleteVirtualController_def\<close>)

section \<open>Properties\<close>

text \<open>C29: creating a controller either adds exactly one fresh controller under the requested number, leaves every other
  one as it was and counts it, or fails and changes nothing; the second creation under a number in use and the one
  past sixteen controllers fail. Deleting a number afterwards, whatever happened to the controller in between, gives
  back the table and the count of before.\<close>

theorem create_then_delete_controller:
  assumes "bus_ok f" "VnvmeCreateVirtualController os f i = (status, f')"
  shows "bus_ok f' \<and> (if NT_SUCCESS status
     then VnvmeFindController f i = None \<and> VnvmeFindController f' = (VnvmeFindController f)(i \<mapsto> created_PDO i)
       \<and> fd_ChildDeviceCount f' = fd_ChildDeviceCount f + 1
       \<and> VnvmeCreateVirtualController os2 f' i = (STATUS_OBJECT_NAME_COLLISION, f')
       \<and> (\<forall>p d0. pdo_ControllerId p = i \<longrightarrow>
            (\<exists>freed f2. VnvmeDeleteVirtualController d0 (f'\<lparr>fd_ChildDeviceList := put_controller (fd_ChildDeviceList f') p\<rparr>) i
                = (STATUS_SUCCESS, Some freed, f2) \<and> bus_ok f2 \<and> VnvmeFindController f2 = VnvmeFindController f
              \<and> fd_ChildDeviceCount f2 = fd_ChildDeviceCount f))
     else f' = f)
    \<and> (VnvmeFindController f i \<noteq> None \<or> 16 \<le> fd_ChildDeviceCount f \<longrightarrow> \<not> NT_SUCCESS status)"
proof -
  note eff = VnvmeCreateVirtualController_effect [OF assms] and ok = bus_ok_create [OF assms]
  have max: "fd_MaxControllers f = 16" and dist: "distinct (controller_ids (fd_ChildDeviceList f))"
    using assms(1) by (simp_all add: bus_ok_def)
  show ?thesis
  proof (cases "NT_SUCCESS status")
    case False
    with eff ok show ?thesis by auto
  next
    case True
    with eff have s: "status = STATUS_SUCCESS" "find_controller (fd_ChildDeviceList f) i = None" "fd_ChildDeviceCount f < 16"
      and f': "f' = f\<lparr>fd_ChildDeviceList := fd_ChildDeviceList f @ [created_PDO i], fd_ChildDeviceCount := fd_ChildDeviceCount f + 1\<rparr>"
      using max by auto
    have key: "pdo_ControllerId (created_PDO i) = i" by (simp add: created_PDO_def)
    have find: "VnvmeFindController f' = (VnvmeFindController f)(i \<mapsto> created_PDO i)"
      using controllers.insert_lookup [OF dist, of "created_PDO i"] s(2) by (simp add: VnvmeFindController_def f' key fun_eq_iff)
    have del: "\<exists>freed f2. VnvmeDeleteVirtualController d0 (f'\<lparr>fd_ChildDeviceList := put_controller (fd_ChildDeviceList f') p\<rparr>) i
          = (STATUS_SUCCESS, Some freed, f2) \<and> bus_ok f2 \<and> VnvmeFindController f2 = VnvmeFindController f
        \<and> fd_ChildDeviceCount f2 = fd_ChildDeviceCount f" if p: "pdo_ControllerId p = i" for p d0
    proof -
      obtain ps where "remove_controller (put_controller (fd_ChildDeviceList f @ [created_PDO i]) p) i = Some (p, ps)"
          "find_controller ps = find_controller (fd_ChildDeviceList f)"
        using controllers.insert_replace_remove [OF dist, of "created_PDO i" p] s(2) p key by auto
      moreover have "bus_ok (f'\<lparr>fd_ChildDeviceList := put_controller (fd_ChildDeviceList f') p\<rparr>)"
        using ok by (auto simp: bus_ok_def)
      ultimately show ?thesis
        using bus_ok_delete [of "f'\<lparr>fd_ChildDeviceList := put_controller (fd_ChildDeviceList f') p\<rparr>" d0 i]
        by (auto simp: VnvmeDeleteVirtualController_def VnvmeFindController_def f')
    qed
    have "VnvmeCreateVirtualController os2 f' i = (STATUS_OBJECT_NAME_COLLISION, f')"
      using fun_cong [OF find, of i] by (simp add: VnvmeCreateVirtualController_def VnvmeFindController_def)
    with True ok s find del show ?thesis
      by (auto simp: VnvmeFindController_def f' not_le)
  qed
qed

text \<open>The property on a fresh bus device, with a framework that accepts everything.\<close>

definition pdo_create_ok :: pdo_create_os where
  "pdo_create_ok = \<lparr>pc_InitAllocate = True, pc_UnicodeStringPrintf = (\<lambda>_. STATUS_SUCCESS), pc_AssignDeviceID = (\<lambda>_. STATUS_SUCCESS),
     pc_AddHardwareID = (\<lambda>_. STATUS_SUCCESS), pc_AddCompatibleID = (\<lambda>_. STATUS_SUCCESS),
     pc_AssignInstanceID = (\<lambda>_. STATUS_SUCCESS), pc_AddDeviceText = (\<lambda>_. STATUS_SUCCESS), pc_DeviceCreate = STATUS_SUCCESS\<rparr>"

lemma VnvmeCreateControllerPdo_ok: "VnvmeCreateControllerPdo pdo_create_ok i = (STATUS_SUCCESS, Some (created_PDO i))"
  by (simp add: VnvmeCreateControllerPdo_def pdo_create_ok_def created_PDO_def Let_def)

theorem create_then_delete_controller_witness:
  "let (status, f') = VnvmeCreateVirtualController pdo_create_ok (initial_FDO 0) 1 in
     status = STATUS_SUCCESS \<and> VnvmeFindController f' 1 = Some (created_PDO 1)
     \<and> (\<exists>freed f2. VnvmeDeleteVirtualController True (f'\<lparr>fd_ChildDeviceList := put_controller (fd_ChildDeviceList f') (created_PDO 1)\<rparr>) 1
          = (STATUS_SUCCESS, Some freed, f2) \<and> VnvmeFindController f2 = VnvmeFindController (initial_FDO 0))"
proof -
  obtain status f' where run: "VnvmeCreateVirtualController pdo_create_ok (initial_FDO 0) 1 = (status, f')" by fastforce
  then have "status = STATUS_SUCCESS"
    by (auto simp: VnvmeCreateVirtualController_def VnvmeCreateControllerPdo_ok initial_FDO_def Let_def)
  moreover have "pdo_ControllerId (created_PDO 1) = 1" by (simp add: created_PDO_def)
  ultimately show ?thesis
    using create_then_delete_controller [OF bus_ok_initial run, of pdo_create_ok] run by simp blast
qed

text \<open>Deleting a controller releases its register file and configuration space, but the namespaces are untouched: every
  storage back end the controller still has is neither cleaned up nor reachable afterwards.\<close>

theorem delete_controller_keeps_storage:
  assumes "bus_ok f" "VnvmeFindController f i = Some p"
  shows "\<exists>freed f'. VnvmeDeleteVirtualController d0 f i = (STATUS_SUCCESS, Some freed, f') \<and> bus_ok f'
    \<and> pdo_Bar0 freed = None \<and> pdo_PcieConfig freed = None \<and> pdo_Namespaces freed = pdo_Namespaces p
    \<and> VnvmeFindController f' = (VnvmeFindController f)(i := None)"
proof -
  have dist: "distinct (controller_ids (fd_ChildDeviceList f))" using assms(1) by (simp add: bus_ok_def)
  obtain q ps where r: "remove_controller (fd_ChildDeviceList f) i = Some (q, ps)"
    using assms(2) controllers.remove_None [of "fd_ChildDeviceList f" i] by (auto simp: VnvmeFindController_def)
  then have del: "VnvmeDeleteVirtualController d0 f i = (STATUS_SUCCESS, Some (snd (VnvmeDeleteControllerPdo d0 q)),
      f\<lparr>fd_ChildDeviceList := ps, fd_ChildDeviceCount := fd_ChildDeviceCount f - 1\<rparr>)"
    by (simp add: VnvmeDeleteVirtualController_def)
  have "q = p" "find_controller ps = (find_controller (fd_ChildDeviceList f))(i := None)"
    using controllers.remove_lookup [OF dist r] assms(2) by (auto simp: VnvmeFindController_def)
  moreover have "pdo_Namespaces (snd (VnvmeDeleteControllerPdo d0 q)) = pdo_Namespaces q"
    by (simp add: VnvmeDeleteControllerPdo_def VnvmePdoEvtDeviceD0Exit_def VnvmePdoEvtDeviceReleaseHardware_def VnvmeFreeBar0_def
        VnvmeFreePcieConfig_def VnvmeStopPollingTimer_def Let_def)
  moreover have "pdo_Bar0 (snd (VnvmeDeleteControllerPdo d0 q)) = None" "pdo_PcieConfig (snd (VnvmeDeleteControllerPdo d0 q)) = None"
    by (simp_all add: VnvmeDeleteControllerPdo_def Let_def pdo_release_simps)
  ultimately show ?thesis
    using del bus_ok_delete [OF assms(1) del] by (auto simp: VnvmeFindController_def fun_eq_iff)
qed

theorem delete_controller_keeps_storage_witness:
  "\<exists>freed f'. VnvmeDeleteVirtualController True
      ((initial_FDO 0)\<lparr>fd_ChildDeviceList := [upd_Namespace 0 (\<lambda>n. n\<lparr>ns_Storage := Some zero_STORAGE_CONTEXT\<rparr>) (created_PDO 1)],
         fd_ChildDeviceCount := 1\<rparr>) 1 = (STATUS_SUCCESS, Some freed, f')
    \<and> ns_Storage (pdo_Namespaces freed ! 0) \<noteq> None"
proof -
  let ?p = "upd_Namespace 0 (\<lambda>n. n\<lparr>ns_Storage := Some zero_STORAGE_CONTEXT\<rparr>) (created_PDO 1)"
  let ?f = "(initial_FDO 0)\<lparr>fd_ChildDeviceList := [?p], fd_ChildDeviceCount := 1\<rparr>"
  have "bus_ok ?f" "VnvmeFindController ?f 1 = Some ?p"
    by (simp_all add: bus_ok_def initial_FDO_def VnvmeFindController_def upd_Namespace_def created_PDO_def)
  from delete_controller_keeps_storage [OF this, of True] show ?thesis
    by (auto simp: upd_Namespace_def created_PDO_def zero_PDO_CONTEXT_def)
qed

end
