(* ===== verification/Vnvme_Control.thy ===== *)
theory Vnvme_Control
  imports Vnvme_Bus Vnvme_Storage
begin

text \<open>
  \<^verbatim>\<open>vnvme/ctrl_dev.c\<close> with the codes and layouts of \<^verbatim>\<open>include/vnvme_ioctl.h\<close>: the requests of the user-mode service and of the
  command-line tool. Every request is of \<open>METHOD_BUFFERED\<close>: one system buffer holds the input when the handler starts and
  the output when it ends, so reads and writes of the two structures go to the same bytes. The structures are packed to
  one byte; a field is its offset. What the system answers during a request is an argument.
\<close>

section \<open>Requests\<close>

record WDFREQUEST =
  rq_SystemBuffer :: mem
  rq_InputBufferLength :: nat
  rq_OutputBufferLength :: nat
  rq_RetrieveInputBuffer :: NTSTATUS
  rq_RetrieveOutputBuffer :: NTSTATUS

text \<open>What the completed request hands back, and the driver's new state.\<close>

record ioctl_result =
  res_Status :: NTSTATUS
  res_Information :: nat
  res_Buffer :: mem
  res_Driver :: vnvme_driver

record ioctl_os =
  io_now :: u64
  io_mdl_ok :: bool
  io_mapped :: map_result
  io_create :: pdo_create_os
  io_in_D0 :: bool
  io_ObOpenObjectByPointer :: "NTSTATUS \<times> u64"
  io_alloc :: "nat \<Rightarrow> nat \<Rightarrow> bool"
  io_file :: file_open_os

definition refused :: "NTSTATUS \<Rightarrow> WDFREQUEST \<Rightarrow> vnvme_driver \<Rightarrow> ioctl_result" where
  "refused status rq d = \<lparr>res_Status = status, res_Information = 0, res_Buffer = rq_SystemBuffer rq, res_Driver = d\<rparr>"

definition answered :: "nat \<Rightarrow> mem \<Rightarrow> vnvme_driver \<Rightarrow> ioctl_result" where
  "answered n buf d = \<lparr>res_Status = STATUS_SUCCESS, res_Information = n, res_Buffer = buf, res_Driver = d\<rparr>"

definition CTL_CODE :: "u32 \<Rightarrow> u32 \<Rightarrow> u32 \<Rightarrow> u32 \<Rightarrow> u32" where
  "CTL_CODE DeviceType Function Method Access =
     push_bit 16 DeviceType OR push_bit 14 Access OR push_bit 2 Function OR Method"

definition vnvme_code :: "u32 \<Rightarrow> u32 \<Rightarrow> u32" where
  "vnvme_code n Access = CTL_CODE 0x8000 (0x800 + n) 0 Access"

abbreviation (input) FILE_ANY_ACCESS :: u32 where "FILE_ANY_ACCESS \<equiv> 0"
abbreviation (input) FILE_READ_DATA :: u32 where "FILE_READ_DATA \<equiv> 1"
abbreviation (input) FILE_WRITE_DATA :: u32 where "FILE_WRITE_DATA \<equiv> 2"

definition IOCTL_VNVME_GET_VERSION :: u32 where "IOCTL_VNVME_GET_VERSION = vnvme_code 0 FILE_ANY_ACCESS"
definition IOCTL_VNVME_GET_STATUS :: u32 where "IOCTL_VNVME_GET_STATUS = vnvme_code 1 FILE_ANY_ACCESS"
definition IOCTL_VNVME_MAP_SHM :: u32 where "IOCTL_VNVME_MAP_SHM = vnvme_code 10 (FILE_READ_DATA OR FILE_WRITE_DATA)"
definition IOCTL_VNVME_UNMAP_SHM :: u32 where "IOCTL_VNVME_UNMAP_SHM = vnvme_code 11 (FILE_READ_DATA OR FILE_WRITE_DATA)"
definition IOCTL_VNVME_USER_READY :: u32 where "IOCTL_VNVME_USER_READY = vnvme_code 20 FILE_WRITE_DATA"
definition IOCTL_VNVME_USER_SHUTDOWN :: u32 where "IOCTL_VNVME_USER_SHUTDOWN = vnvme_code 21 FILE_WRITE_DATA"
definition IOCTL_VNVME_HEARTBEAT :: u32 where "IOCTL_VNVME_HEARTBEAT = vnvme_code 22 FILE_WRITE_DATA"
definition IOCTL_VNVME_GET_COMMAND_EVENT :: u32 where "IOCTL_VNVME_GET_COMMAND_EVENT = vnvme_code 30 FILE_READ_DATA"
definition IOCTL_VNVME_SUBMIT_COMPLETIONS :: u32 where "IOCTL_VNVME_SUBMIT_COMPLETIONS = vnvme_code 31 FILE_WRITE_DATA"
definition IOCTL_VNVME_CREATE_CONTROLLER :: u32 where "IOCTL_VNVME_CREATE_CONTROLLER = vnvme_code 40 FILE_WRITE_DATA"
definition IOCTL_VNVME_DELETE_CONTROLLER :: u32 where "IOCTL_VNVME_DELETE_CONTROLLER = vnvme_code 41 FILE_WRITE_DATA"
definition IOCTL_VNVME_LIST_CONTROLLERS :: u32 where "IOCTL_VNVME_LIST_CONTROLLERS = vnvme_code 42 FILE_READ_DATA"
definition IOCTL_VNVME_CREATE_NAMESPACE :: u32 where "IOCTL_VNVME_CREATE_NAMESPACE = vnvme_code 50 FILE_WRITE_DATA"
definition IOCTL_VNVME_DELETE_NAMESPACE :: u32 where "IOCTL_VNVME_DELETE_NAMESPACE = vnvme_code 51 FILE_WRITE_DATA"
definition IOCTL_VNVME_LIST_NAMESPACES :: u32 where "IOCTL_VNVME_LIST_NAMESPACES = vnvme_code 52 FILE_READ_DATA"
definition IOCTL_VNVME_GET_DEBUG_INFO :: u32 where "IOCTL_VNVME_GET_DEBUG_INFO = vnvme_code 100 FILE_READ_DATA"
definition IOCTL_VNVME_SET_DEBUG_LEVEL :: u32 where "IOCTL_VNVME_SET_DEBUG_LEVEL = vnvme_code 101 FILE_WRITE_DATA"
definition IOCTL_VNVME_GET_STATS :: u32 where "IOCTL_VNVME_GET_STATS = vnvme_code 110 FILE_READ_DATA"
definition IOCTL_VNVME_RESET_STATS :: u32 where "IOCTL_VNVME_RESET_STATS = vnvme_code 111 FILE_WRITE_DATA"
definition IOCTL_VNVME_GET_CONFIG :: u32 where "IOCTL_VNVME_GET_CONFIG = vnvme_code 120 FILE_READ_DATA"
definition IOCTL_VNVME_SET_CONFIG :: u32 where "IOCTL_VNVME_SET_CONFIG = vnvme_code 121 FILE_WRITE_DATA"

abbreviation (input) VNVME_VERSION :: u32 where "VNVME_VERSION \<equiv> 0x00010000"

section \<open>Version, status and shared memory\<close>

definition VnvmeHandleGetVersion :: "WDFREQUEST \<Rightarrow> vnvme_driver \<Rightarrow> ioctl_result" where
  "VnvmeHandleGetVersion rq d =
     (if rq_OutputBufferLength rq < 16 then refused STATUS_BUFFER_TOO_SMALL rq d
      else if \<not> NT_SUCCESS (rq_RetrieveOutputBuffer rq) then refused (rq_RetrieveOutputBuffer rq) rq d
      else
        let b = rq_SystemBuffer rq; b = wr32 0 VNVME_VERSION b; b = wr32 4 VNVME_VERSION b; b = wr32 8 1 b; b = wr32 12 0 b
        in answered 16 b d)"

text \<open>The number of active namespaces of a controller; the array has sixteen entries.\<close>

definition active_namespaces :: "VNVME_PDO_CONTEXT \<Rightarrow> VNVME_NAMESPACE list" where
  "active_namespaces p = filter ns_Active (take VNVME_MAX_NAMESPACES (pdo_Namespaces p))"

definition VnvmeHandleGetStatus :: "WDFREQUEST \<Rightarrow> vnvme_driver \<Rightarrow> ioctl_result" where
  "VnvmeHandleGetStatus rq d =
     (case drv_Fdo d of
        None \<Rightarrow> refused STATUS_DEVICE_NOT_READY rq d
      | Some f \<Rightarrow>
          if rq_OutputBufferLength rq < 88 then refused STATUS_BUFFER_TOO_SMALL rq d
          else if \<not> NT_SUCCESS (rq_RetrieveOutputBuffer rq) then refused (rq_RetrieveOutputBuffer rq) rq d
          else
            let c = fd_Context f;
                nsCount = (of_nat (\<Sum>p\<leftarrow>fd_ChildDeviceList f. length (active_namespaces p)) :: u32);
                b = rq_SystemBuffer rq;
                b = wr32 0 1 b;
                b = wr32 4 (if fdo_UserReady c then 2 else 0) b;
                b = wr32 8 (fd_ChildDeviceCount f) b;
                b = wr32 12 nsCount b;
                b = wr32 16 (if fdo_ShmUserVirtAddr c \<noteq> None then 1 else 0) b;
                b = wr32 20 (ucast (fdo_ShmSize c)) b;
                b = wr64 32 (fdo_CommandsProcessed c) b;
                b = wr64 64 (fdo_ErrorCount c) b
            in answered 88 b d)"

definition VnvmeHandleMapShm :: "ioctl_os \<Rightarrow> WDFREQUEST \<Rightarrow> vnvme_driver \<Rightarrow> ioctl_result" where
  "VnvmeHandleMapShm os rq d =
     (case drv_Fdo d of
        None \<Rightarrow> refused STATUS_DEVICE_NOT_READY rq d
      | Some f \<Rightarrow>
          if rq_OutputBufferLength rq < 24 then refused STATUS_BUFFER_TOO_SMALL rq d
          else if \<not> NT_SUCCESS (rq_RetrieveOutputBuffer rq) then refused (rq_RetrieveOutputBuffer rq) rq d
          else
            let c = (if fdo_ShmUserVirtAddr (fd_Context f) \<noteq> None then VnvmeUnmapShmFromUser (fd_Context f) else fd_Context f);
                (status, userAddress, c) = VnvmeMapShmToUser (io_mdl_ok os) (io_mapped os) c;
                d = d\<lparr>drv_Fdo := Some (f\<lparr>fd_Context := c\<rparr>)\<rparr>
            in if \<not> NT_SUCCESS status then refused status rq d
               else
                 let b = rq_SystemBuffer rq;
                     b = wr64 0 (case userAddress of None \<Rightarrow> 0 | Some a \<Rightarrow> a) b;
                     b = wr32 8 (ucast (fdo_ShmSize c)) b; b = wr32 12 0 b; b = wr64 16 0 b
                 in answered 24 b d)"

definition VnvmeHandleUnmapShm :: "WDFREQUEST \<Rightarrow> vnvme_driver \<Rightarrow> ioctl_result" where
  "VnvmeHandleUnmapShm rq d =
     (case drv_Fdo d of
        None \<Rightarrow> refused STATUS_DEVICE_NOT_READY rq d
      | Some f \<Rightarrow> answered 0 (rq_SystemBuffer rq) d)"

section \<open>The user-mode service\<close>

definition VnvmeHandleUserReady :: "ioctl_os \<Rightarrow> WDFREQUEST \<Rightarrow> vnvme_driver \<Rightarrow> ioctl_result" where
  "VnvmeHandleUserReady os rq d =
     (case drv_Fdo d of
        None \<Rightarrow> refused STATUS_DEVICE_NOT_READY rq d
      | Some f \<Rightarrow>
          if rq_InputBufferLength rq < 16 then refused STATUS_BUFFER_TOO_SMALL rq d
          else if \<not> NT_SUCCESS (rq_RetrieveInputBuffer rq) then refused (rq_RetrieveInputBuffer rq) rq d
          else
            let b = rq_SystemBuffer rq
            in if drop_bit 16 (rd32 b 4) \<noteq> drop_bit 16 VNVME_VERSION then refused STATUS_REVISION_MISMATCH rq d
               else answered 0 b (d\<lparr>drv_Fdo := Some (f\<lparr>fd_UserPid := rd32 b 0,
                 fd_Context := (fd_Context f)\<lparr>fdo_UserReady := True, fdo_LastHeartbeat := io_now os\<rparr>,
                 fd_UserReadyEvent := True\<rparr>)\<rparr>))"

text \<open>The estimate of the commands waiting: for each queue the tail minus the head where the tail is not behind.\<close>

definition queue_pending :: "VNVME_QUEUE_STATE \<Rightarrow> u32" where
  "queue_pending q = (if qs_Tail q \<ge> qs_Head q then qs_Tail q - qs_Head q else 0)"

definition controller_pending :: "VNVME_PDO_CONTEXT \<Rightarrow> u32 option" where
  "controller_pending p = do {
     check (unat (pdo_IoQueueCount p) \<le> length (pdo_IoSq p));
     Some (queue_pending (pdo_AdminSq p)
       + (\<Sum>q\<leftarrow>take (unat (pdo_IoQueueCount p)) (pdo_IoSq p). if qs_Created q then queue_pending q else 0))
   }"

fun total_pending :: "VNVME_PDO_CONTEXT list \<Rightarrow> u32 option" where
  "total_pending [] = Some 0"
| "total_pending (p # ps) = do { n \<leftarrow> controller_pending p; k \<leftarrow> total_pending ps; Some (n + k) }"

definition VnvmeHandleHeartbeat :: "ioctl_os \<Rightarrow> WDFREQUEST \<Rightarrow> vnvme_driver \<Rightarrow> ioctl_result option" where
  "VnvmeHandleHeartbeat os rq d =
     (case drv_Fdo d of
        None \<Rightarrow> Some (refused STATUS_DEVICE_NOT_READY rq d)
      | Some f \<Rightarrow>
          if \<not> fdo_UserReady (fd_Context f) then Some (refused STATUS_DEVICE_NOT_READY rq d)
          else if rq_InputBufferLength rq < 16 \<or> rq_OutputBufferLength rq < 16
          then Some (refused STATUS_BUFFER_TOO_SMALL rq d)
          else if \<not> NT_SUCCESS (rq_RetrieveInputBuffer rq) then Some (refused (rq_RetrieveInputBuffer rq) rq d)
          else if \<not> NT_SUCCESS (rq_RetrieveOutputBuffer rq) then Some (refused (rq_RetrieveOutputBuffer rq) rq d)
          else do {
            let f = f\<lparr>fd_Context := (fd_Context f)\<lparr>fdo_LastHeartbeat := io_now os\<rparr>\<rparr>;
            pending \<leftarrow> total_pending (fd_ChildDeviceList f);
            let b = rq_SystemBuffer rq;
            let b = wr32 8 pending b;
            let b = wr64 0 (fdo_LastHeartbeat (fd_Context f)) b;
            let b = wr32 12 0 b;
            Some (answered 16 b (d\<lparr>drv_Fdo := Some f\<rparr>))
          })"

definition VnvmeHandleGetCommandEvent :: "ioctl_os \<Rightarrow> WDFREQUEST \<Rightarrow> vnvme_driver \<Rightarrow> ioctl_result" where
  "VnvmeHandleGetCommandEvent os rq d =
     (case drv_Fdo d of
        None \<Rightarrow> refused STATUS_DEVICE_NOT_READY rq d
      | Some f \<Rightarrow>
          if rq_OutputBufferLength rq < 8 then refused STATUS_BUFFER_TOO_SMALL rq d
          else if \<not> NT_SUCCESS (rq_RetrieveOutputBuffer rq) then refused (rq_RetrieveOutputBuffer rq) rq d
          else if fd_UserEventHandle f = 0 then
            (let (status, userHandle) = io_ObOpenObjectByPointer os
             in if NT_SUCCESS status
                then answered 8 (wr64 0 userHandle (rq_SystemBuffer rq))
                       (d\<lparr>drv_Fdo := Some (f\<lparr>fd_UserEventHandle := userHandle,
                          fd_Context := (fd_Context f)\<lparr>fdo_EventNotificationEnabled := True\<rparr>\<rparr>)\<rparr>)
                else answered 8 (wr64 0 0 (rq_SystemBuffer rq)) d)
          else answered 8 (wr64 0 (fd_UserEventHandle f) (rq_SystemBuffer rq)) d)"

text \<open>The walk over the controllers: what is added to \<open>CommandsProcessed\<close>. A named controller ends the walk.\<close>

fun submit_loop :: "u32 \<Rightarrow> u32 \<Rightarrow> VNVME_PDO_CONTEXT list \<Rightarrow> u64 \<Rightarrow> u64" where
  "submit_loop target n [] processed = processed"
| "submit_loop target n (p # ps) processed =
     (if target \<noteq> 0 \<and> pdo_ControllerId p \<noteq> target then submit_loop target n ps processed
      else if pdo_Registers p then
        (if target \<noteq> 0 then processed + ucast n else submit_loop target n ps (processed + ucast n))
      else submit_loop target n ps processed)"

abbreviation (input) VNVME_MAX_COMPLETIONS_PER_SUBMIT :: u32 where "VNVME_MAX_COMPLETIONS_PER_SUBMIT \<equiv> 4096"

definition VnvmeHandleSubmitCompletions :: "WDFREQUEST \<Rightarrow> vnvme_driver \<Rightarrow> ioctl_result" where
  "VnvmeHandleSubmitCompletions rq d =
     (case drv_Fdo d of
        None \<Rightarrow> refused STATUS_DEVICE_NOT_READY rq d
      | Some f \<Rightarrow>
          if rq_InputBufferLength rq < 8 then refused STATUS_BUFFER_TOO_SMALL rq d
          else if \<not> NT_SUCCESS (rq_RetrieveInputBuffer rq) then refused (rq_RetrieveInputBuffer rq) rq d
          else
            let b = rq_SystemBuffer rq; completionCount = rd32 b 0; targetControllerId = rd32 b 4
            in if completionCount = 0 then answered 0 b d
               else if completionCount > VNVME_MAX_COMPLETIONS_PER_SUBMIT then refused STATUS_INVALID_PARAMETER rq d
               else answered 0 b (d\<lparr>drv_Fdo := Some (f\<lparr>fd_Context := (fd_Context f)\<lparr>fdo_CommandsProcessed :=
                      submit_loop targetControllerId completionCount (fd_ChildDeviceList f)
                        (fdo_CommandsProcessed (fd_Context f))\<rparr>\<rparr>)\<rparr>))"

section \<open>Controllers\<close>

text \<open>A text as 16-bit units.\<close>

definition wr_text :: "nat \<Rightarrow> string \<Rightarrow> mem \<Rightarrow> mem" where
  "wr_text a txt = wr_bytes a (concat (map (\<lambda>c. [of_char c, 0]) txt))"

text \<open>The requested configuration is not used. The input structure has 624 bytes.\<close>

definition VnvmeHandleCreateController :: "ioctl_os \<Rightarrow> WDFREQUEST \<Rightarrow> vnvme_driver \<Rightarrow> ioctl_result" where
  "VnvmeHandleCreateController os rq d =
     (case drv_Fdo d of
        None \<Rightarrow> refused STATUS_DEVICE_NOT_READY rq d
      | Some f \<Rightarrow>
          if rq_InputBufferLength rq < 624 then refused STATUS_BUFFER_TOO_SMALL rq d
          else if rq_OutputBufferLength rq < 404 then refused STATUS_BUFFER_TOO_SMALL rq d
          else if \<not> NT_SUCCESS (rq_RetrieveInputBuffer rq) then refused (rq_RetrieveInputBuffer rq) rq d
          else if \<not> NT_SUCCESS (rq_RetrieveOutputBuffer rq) then refused (rq_RetrieveOutputBuffer rq) rq d
          else
            let controllerId = fd_NextControllerId f;
                f = f\<lparr>fd_NextControllerId := fd_NextControllerId f + 1\<rparr>;
                (status, f) = VnvmeCreateVirtualController (io_create os) f controllerId;
                d = d\<lparr>drv_Fdo := Some f\<rparr>
            in if \<not> NT_SUCCESS status then refused status rq d
               else
                 let b = wr32 0 controllerId (rq_SystemBuffer rq);
                     b = zero_range 4 400 b;
                     b = wr_text 4 (''VNVME'' @ [CHR 0x5C] @ ''CONTROLLER'' @ [CHR 0x5C] @ fmt_lu controllerId) b
                 in answered 404 b d)"

definition VnvmeHandleDeleteController :: "ioctl_os \<Rightarrow> WDFREQUEST \<Rightarrow> vnvme_driver \<Rightarrow> ioctl_result" where
  "VnvmeHandleDeleteController os rq d =
     (case drv_Fdo d of
        None \<Rightarrow> refused STATUS_DEVICE_NOT_READY rq d
      | Some f \<Rightarrow>
          if rq_InputBufferLength rq < 8 then refused STATUS_BUFFER_TOO_SMALL rq d
          else if \<not> NT_SUCCESS (rq_RetrieveInputBuffer rq) then refused (rq_RetrieveInputBuffer rq) rq d
          else
            let (status, _, f) = VnvmeDeleteVirtualController (io_in_D0 os) f (rd32 (rq_SystemBuffer rq) 0);
                d = d\<lparr>drv_Fdo := Some f\<rparr>
            in if \<not> NT_SUCCESS status then refused status rq d else answered 0 (rq_SystemBuffer rq) d)"

text \<open>One entry of the list, 80 bytes.\<close>

definition controller_info :: "nat \<Rightarrow> VNVME_PDO_CONTEXT \<Rightarrow> mem \<Rightarrow> mem" where
  "controller_info a p b =
     (let capacity = (\<Sum>n\<leftarrow>active_namespaces p. ns_TotalBlocks n * ucast (ns_BlockSize n));
          b = wr32 a (pdo_ControllerId p) b;
          b = wr32 (a + 4) (if bit (pdo_CachedCC p) 0 then 1 else 0) b;
          b = wr32 (a + 68) (ucast (pdo_NamespaceCount p)) b;
          b = wr64 (a + 72) capacity b;
          b = wr_bytes (a + 8) (map of_char ''VNVME000        '') b;
          b = wr_bytes (a + 28) (map of_char ''Virtual NVMe Controller         '') b
      in b)"

fun list_controllers :: "nat \<Rightarrow> VNVME_PDO_CONTEXT list \<Rightarrow> mem \<Rightarrow> nat \<times> mem" where
  "list_controllers index [] b = (index, b)"
| "list_controllers index (p # ps) b =
     (if index < 16 then list_controllers (index + 1) ps (controller_info (8 + 80 * index) p b) else (index, b))"

definition VnvmeHandleListControllers :: "WDFREQUEST \<Rightarrow> vnvme_driver \<Rightarrow> ioctl_result" where
  "VnvmeHandleListControllers rq d =
     (case drv_Fdo d of
        None \<Rightarrow> refused STATUS_DEVICE_NOT_READY rq d
      | Some f \<Rightarrow>
          if rq_OutputBufferLength rq < 1288 then refused STATUS_BUFFER_TOO_SMALL rq d
          else if \<not> NT_SUCCESS (rq_RetrieveOutputBuffer rq) then refused (rq_RetrieveOutputBuffer rq) rq d
          else
            let b = zero_range 0 1288 (rq_SystemBuffer rq);
                (index, b) = list_controllers 0 (fd_ChildDeviceList f) b
            in answered 1288 (wr32 0 (of_nat index) b) d)"

section \<open>Statistics and debug level\<close>

definition controller_stats :: "nat \<Rightarrow> VNVME_PDO_CONTEXT \<Rightarrow> mem \<Rightarrow> mem" where
  "controller_stats a p b =
     (let b = wr32 a (pdo_ControllerId p) b;
          b = wr32 (a + 4) (ucast (pdo_NamespaceCount p)) b;
          b = wr64 (a + 8) (pdo_AdminCommandsProcessed p) b;
          b = wr64 (a + 16) (pdo_IoCommandsProcessed p) b;
          b = wr64 (a + 24) (pdo_BytesRead p) b;
          b = wr64 (a + 32) (pdo_BytesWritten p) b;
          b = wr32 (a + 40) (ucast (pdo_IoQueueCount p)) b;
          b = wr32 (a + 44) (pdo_PollingIntervalUs p) b
      in b)"

definition namespace_stats :: "nat \<Rightarrow> VNVME_NAMESPACE \<Rightarrow> mem \<Rightarrow> mem" where
  "namespace_stats a n b =
     (let b = wr32 a (ns_NsId n) b;
          b = wr32 (a + 4) 1 b;
          b = wr64 (a + 8) (ns_TotalBlocks n) b;
          b = wr32 (a + 16) (ns_BlockSize n) b;
          b = wr64 (a + 20) (ns_ReadCommands n) b;
          b = wr64 (a + 28) (ns_WriteCommands n) b;
          b = wr64 (a + 36) (ns_FlushCommands n) b;
          b = wr64 (a + 44) (ns_ReadBytes n) b;
          b = wr64 (a + 52) (ns_WriteBytes n) b
      in b)"

text \<open>The namespaces of one controller: at most sixteen over all controllers; \<open>TotalNamespaceCount\<close> is at offset 4.\<close>

fun namespace_stats_loop :: "nat \<Rightarrow> VNVME_NAMESPACE list \<Rightarrow> mem \<Rightarrow> nat \<times> mem" where
  "namespace_stats_loop nsIdx [] b = (nsIdx, b)"
| "namespace_stats_loop nsIdx (n # ns) b =
     (if nsIdx < 16 then
        (if ns_Active n
         then let b = namespace_stats (408 + 60 * nsIdx) n b; b = wr32 4 (rd32 b 4 + 1) b in namespace_stats_loop (nsIdx + 1) ns b
         else namespace_stats_loop nsIdx ns b)
      else (nsIdx, b))"

fun stats_loop :: "u32 \<Rightarrow> nat \<Rightarrow> nat \<Rightarrow> VNVME_PDO_CONTEXT list \<Rightarrow> mem \<Rightarrow> nat \<times> mem" where
  "stats_loop target ctrlIdx nsIdx [] b = (ctrlIdx, b)"
| "stats_loop target ctrlIdx nsIdx (p # ps) b =
     (if ctrlIdx < 8 then
        (if target \<noteq> 0 \<and> pdo_ControllerId p \<noteq> target then stats_loop target ctrlIdx nsIdx ps b
         else
           let b = controller_stats (24 + 48 * ctrlIdx) p b;
               (nsIdx, b) = namespace_stats_loop nsIdx (take VNVME_MAX_NAMESPACES (pdo_Namespaces p)) b
           in stats_loop target (ctrlIdx + 1) nsIdx ps b)
      else (ctrlIdx, b))"

text \<open>The division of two \<open>LONGLONG\<close> truncates towards zero.\<close>

definition ticks_to_ms :: "u64 \<Rightarrow> u64" where
  "ticks_to_ms t = (if bit t 63 then - ((- t) div 10000) else t div 10000)"

definition VnvmeHandleGetStats :: "ioctl_os \<Rightarrow> WDFREQUEST \<Rightarrow> vnvme_driver \<Rightarrow> ioctl_result" where
  "VnvmeHandleGetStats os rq d =
     (case drv_Fdo d of
        None \<Rightarrow> refused STATUS_DEVICE_NOT_READY rq d
      | Some f \<Rightarrow>
          if rq_OutputBufferLength rq < 1368 then refused STATUS_BUFFER_TOO_SMALL rq d
          else
            let targetControllerId = (if rq_InputBufferLength rq \<ge> 8 \<and> NT_SUCCESS (rq_RetrieveInputBuffer rq)
                                      then rd32 (rq_SystemBuffer rq) 0 else 0)
            in if \<not> NT_SUCCESS (rq_RetrieveOutputBuffer rq) then refused (rq_RetrieveOutputBuffer rq) rq d
               else
                 let b = zero_range 0 1368 (rq_SystemBuffer rq);
                     b = wr64 8 (ticks_to_ms (io_now os - fd_StartTime f)) b;
                     b = wr64 16 (fdo_CommandsProcessed (fd_Context f)) b;
                     (ctrlIdx, b) = stats_loop targetControllerId 0 0 (fd_ChildDeviceList f) b
                 in answered 1368 (wr32 0 (of_nat ctrlIdx) b) d)"

abbreviation (input) VNVME_MAX_DEBUG_LEVEL :: u32 where "VNVME_MAX_DEBUG_LEVEL \<equiv> 5"

definition VnvmeHandleSetDebugLevel :: "WDFREQUEST \<Rightarrow> vnvme_driver \<Rightarrow> ioctl_result" where
  "VnvmeHandleSetDebugLevel rq d =
     (if rq_InputBufferLength rq < 8 then refused STATUS_BUFFER_TOO_SMALL rq d
      else if \<not> NT_SUCCESS (rq_RetrieveInputBuffer rq) then refused (rq_RetrieveInputBuffer rq) rq d
      else
        let b = rq_SystemBuffer rq;
            level = (if rd32 b 0 > VNVME_MAX_DEBUG_LEVEL then VNVME_MAX_DEBUG_LEVEL else rd32 b 0)
        in answered 0 b (d\<lparr>drv_Config := (drv_Config d)\<lparr>DebugLevel := level, DebugFlags := rd32 b 4\<rparr>\<rparr>))"

section \<open>Namespaces\<close>

definition CtrlDevFindController :: "VNVME_FDO_DEVICE \<Rightarrow> u32 \<Rightarrow> VNVME_PDO_CONTEXT option" where
  "CtrlDevFindController f ControllerId = find_controller (fd_ChildDeviceList f) ControllerId"

text \<open>Writing the controller that was found back into the list.\<close>

definition put_pdo :: "VNVME_PDO_CONTEXT \<Rightarrow> VNVME_FDO_DEVICE \<Rightarrow> vnvme_driver \<Rightarrow> vnvme_driver" where
  "put_pdo p f d = d\<lparr>drv_Fdo := Some (f\<lparr>fd_ChildDeviceList := put_controller (fd_ChildDeviceList f) p\<rparr>)\<rparr>"

abbreviation (input) VNVME_MAX_NAMESPACE_CAPACITY :: u64 where "VNVME_MAX_NAMESPACE_CAPACITY \<equiv> 17592186044416"

text \<open>The checks on the requested geometry.\<close>

definition check_geometry :: "u32 \<Rightarrow> u64 \<Rightarrow> NTSTATUS" where
  "check_geometry BlockSize TotalBlocks =
     (if BlockSize \<noteq> 0 \<and> BlockSize \<noteq> 512 \<and> BlockSize \<noteq> 4096 then STATUS_INVALID_PARAMETER
      else if TotalBlocks = 0 then STATUS_INVALID_PARAMETER
      else
        let blockSize = (if BlockSize \<noteq> 0 then ucast BlockSize else 512 :: u64); totalCapacity = TotalBlocks * blockSize
        in if totalCapacity div blockSize \<noteq> TotalBlocks then STATUS_INTEGER_OVERFLOW
           else if totalCapacity > VNVME_MAX_NAMESPACE_CAPACITY then STATUS_INVALID_PARAMETER
           else STATUS_SUCCESS)"

text \<open>The first slot that is not active.\<close>

fun free_slot :: "nat \<Rightarrow> VNVME_NAMESPACE list \<Rightarrow> nat option" where
  "free_slot i [] = None"
| "free_slot i (n # ns) = (if \<not> ns_Active n then Some i else free_slot (i + 1) ns)"

text \<open>The namespace before its storage exists, and the kind of storage it gets.\<close>

definition new_namespace :: "u32 \<Rightarrow> u64 \<Rightarrow> u32 \<Rightarrow> u32 \<Rightarrow> VNVME_NAMESPACE" where
  "new_namespace nsid TotalBlocks BlockSize Flags =
     (let n = zero_NAMESPACE\<lparr>ns_NsId := nsid, ns_TotalBlocks := TotalBlocks,
                ns_BlockSize := (if BlockSize \<noteq> 0 then BlockSize else 512)\<rparr>
      in n\<lparr>ns_TotalBytes := ns_TotalBlocks n * ucast (ns_BlockSize n),
           ns_ReadOnly := (Flags AND 0x0002 \<noteq> 0), ns_ThinProvisioned := (Flags AND 0x0004 \<noteq> 0)\<rparr>)"

definition storage_choice :: "VNVME_CONFIG \<Rightarrow> VNVME_NAMESPACE \<Rightarrow> VNVME_STORAGE_TYPE \<times> u16 list option" where
  "storage_choice g n =
     (let storageType = (if ns_ThinProvisioned n then VNVME_STORAGE_TYPE_SPARSE else StorageType g)
      in if storageType = VNVME_STORAGE_TYPE_FILE \<or> storageType = VNVME_STORAGE_TYPE_SPARSE then
           (if StoragePath g ! 0 \<noteq> 0 then (storageType, Some (takeWhile (\<lambda>u. u \<noteq> 0) (StoragePath g)))
            else (VNVME_STORAGE_TYPE_MEMORY, None))
         else (storageType, None))"

definition VnvmeHandleCreateNamespace :: "ioctl_os \<Rightarrow> WDFREQUEST \<Rightarrow> vnvme_driver \<Rightarrow> ioctl_result option" where
  "VnvmeHandleCreateNamespace os rq d =
     (case drv_Fdo d of
        None \<Rightarrow> Some (refused STATUS_DEVICE_NOT_READY rq d)
      | Some f \<Rightarrow>
          if rq_InputBufferLength rq < 284 then Some (refused STATUS_BUFFER_TOO_SMALL rq d)
          else if rq_OutputBufferLength rq < 8 then Some (refused STATUS_BUFFER_TOO_SMALL rq d)
          else if \<not> NT_SUCCESS (rq_RetrieveInputBuffer rq) then Some (refused (rq_RetrieveInputBuffer rq) rq d)
          else if \<not> NT_SUCCESS (rq_RetrieveOutputBuffer rq) then Some (refused (rq_RetrieveOutputBuffer rq) rq d)
          else
            let b = rq_SystemBuffer rq; ControllerId = rd32 b 0; TotalBlocks = rd64 b 8; BlockSize = rd32 b 16; Flags = rd32 b 20
            in case CtrlDevFindController f ControllerId of
                 None \<Rightarrow> Some (refused STATUS_NOT_FOUND rq d)
               | Some p \<Rightarrow>
                   if check_geometry BlockSize TotalBlocks \<noteq> STATUS_SUCCESS
                   then Some (refused (check_geometry BlockSize TotalBlocks) rq d)
                   else if pdo_NamespaceCount p \<ge> of_nat VNVME_MAX_NAMESPACES then Some (refused STATUS_QUOTA_EXCEEDED rq d)
                   else
                     case free_slot 0 (take VNVME_MAX_NAMESPACES (pdo_Namespaces p)) of
                       None \<Rightarrow> Some (refused STATUS_QUOTA_EXCEEDED rq d)
                     | Some i \<Rightarrow> do {
                         let nsid = (of_nat i + 1 :: u32);
                         let n = new_namespace nsid TotalBlocks BlockSize Flags;
                         let (storageType, storagePath) = storage_choice (drv_Config d) n;
                         (status, storage) \<leftarrow> VnvmeStorageCreate (io_alloc os) (io_file os) storageType (ns_TotalBytes n)
                                                (ns_BlockSize n) storagePath;
                         if \<not> NT_SUCCESS status
                         then Some (refused status rq (put_pdo (upd_Namespace i (\<lambda>_. n) p) f d))
                         else do {
                           let n = n\<lparr>ns_Storage := storage, ns_Active := True\<rparr>;
                           let p = (upd_Namespace i (\<lambda>_. n) p)\<lparr>pdo_NamespaceCount := pdo_NamespaceCount p + 1\<rparr>;
                           Some (answered 8 (wr32 4 0 (wr32 0 nsid b)) (put_pdo p f d))
                         }
                       })"

definition VnvmeHandleDeleteNamespace :: "WDFREQUEST \<Rightarrow> vnvme_driver \<Rightarrow> ioctl_result" where
  "VnvmeHandleDeleteNamespace rq d =
     (case drv_Fdo d of
        None \<Rightarrow> refused STATUS_DEVICE_NOT_READY rq d
      | Some f \<Rightarrow>
          if rq_InputBufferLength rq < 8 then refused STATUS_BUFFER_TOO_SMALL rq d
          else if \<not> NT_SUCCESS (rq_RetrieveInputBuffer rq) then refused (rq_RetrieveInputBuffer rq) rq d
          else
            let b = rq_SystemBuffer rq; ControllerId = rd32 b 0; NSID = rd32 b 4
            in case CtrlDevFindController f ControllerId of
                 None \<Rightarrow> refused STATUS_NOT_FOUND rq d
               | Some p \<Rightarrow>
                   if NSID = 0 \<or> NSID > of_nat VNVME_MAX_NAMESPACES then refused STATUS_INVALID_PARAMETER rq d
                   else
                     let i = unat (NSID - 1)
                     in if \<not> ns_Active (pdo_Namespaces p ! i) then refused STATUS_NOT_FOUND rq d
                        else
                          let p = upd_Namespace i (\<lambda>n. n\<lparr>ns_Storage := None, ns_Active := False\<rparr>) p;
                              p = p\<lparr>pdo_NamespaceCount := pdo_NamespaceCount p - 1\<rparr>
                          in answered 0 b (put_pdo p f d))"

text \<open>One entry of the list, 24 bytes.\<close>

definition namespace_info :: "nat \<Rightarrow> VNVME_NAMESPACE \<Rightarrow> mem \<Rightarrow> mem" where
  "namespace_info a n b =
     (let b = wr32 a (ns_NsId n) b;
          flags = (0 :: u32);
          flags = (if ns_Active n then flags OR 0x0001 else flags);
          flags = (if ns_ReadOnly n then flags OR 0x0002 else flags);
          flags = (if ns_ThinProvisioned n then flags OR 0x0004 else flags);
          b = wr32 (a + 4) flags b;
          b = wr64 (a + 8) (ns_TotalBlocks n) b;
          b = wr32 (a + 16) (ns_BlockSize n) b;
          b = wr32 (a + 20) 0 b
      in b)"

fun list_namespaces :: "nat \<Rightarrow> VNVME_NAMESPACE list \<Rightarrow> mem \<Rightarrow> nat \<times> mem" where
  "list_namespaces count [] b = (count, b)"
| "list_namespaces count (n # ns) b =
     (if count < VNVME_MAX_NAMESPACES then
        (if ns_Active n then list_namespaces (count + 1) ns (namespace_info (8 + 24 * count) n b)
         else list_namespaces count ns b)
      else (count, b))"

text \<open>The output is cleared before the controller number is read from the input, which lies in the same buffer.\<close>

definition VnvmeHandleListNamespaces :: "WDFREQUEST \<Rightarrow> vnvme_driver \<Rightarrow> ioctl_result" where
  "VnvmeHandleListNamespaces rq d =
     (case drv_Fdo d of
        None \<Rightarrow> refused STATUS_DEVICE_NOT_READY rq d
      | Some f \<Rightarrow>
          if rq_InputBufferLength rq < 8 then refused STATUS_BUFFER_TOO_SMALL rq d
          else if rq_OutputBufferLength rq < 392 then refused STATUS_BUFFER_TOO_SMALL rq d
          else if \<not> NT_SUCCESS (rq_RetrieveInputBuffer rq) then refused (rq_RetrieveInputBuffer rq) rq d
          else if \<not> NT_SUCCESS (rq_RetrieveOutputBuffer rq) then refused (rq_RetrieveOutputBuffer rq) rq d
          else
            let b = zero_range 0 392 (rq_SystemBuffer rq); rq = rq\<lparr>rq_SystemBuffer := b\<rparr>
            in case CtrlDevFindController f (rd32 b 0) of
                 None \<Rightarrow> refused STATUS_NOT_FOUND rq d
               | Some p \<Rightarrow>
                   let (count, b) = list_namespaces 0 (take VNVME_MAX_NAMESPACES (pdo_Namespaces p)) b
                   in answered 392 (wr32 0 (of_nat count) b) d)"

section \<open>Configuration\<close>

definition storage_type_code :: "VNVME_STORAGE_TYPE \<Rightarrow> u32" where
  "storage_type_code t =
     (case t of VNVME_STORAGE_TYPE_NONE \<Rightarrow> 0 | VNVME_STORAGE_TYPE_MEMORY \<Rightarrow> 1 | VNVME_STORAGE_TYPE_FILE \<Rightarrow> 2
      | VNVME_STORAGE_TYPE_SPARSE \<Rightarrow> 3)"

definition wr_units :: "nat \<Rightarrow> u16 list \<Rightarrow> mem \<Rightarrow> mem" where
  "wr_units a us = wr_bytes a (concat (map (\<lambda>u. [ucast u, ucast (drop_bit 8 u)]) us))"

abbreviation (input) VNVME_CONFIG_FIELD_ALL_DYNAMIC :: u32 where "VNVME_CONFIG_FIELD_ALL_DYNAMIC \<equiv> 0x001F"

definition VnvmeHandleGetConfig :: "WDFREQUEST \<Rightarrow> vnvme_driver \<Rightarrow> ioctl_result" where
  "VnvmeHandleGetConfig rq d =
     (if rq_OutputBufferLength rq < 584 then refused STATUS_BUFFER_TOO_SMALL rq d
      else if \<not> NT_SUCCESS (rq_RetrieveOutputBuffer rq) then refused (rq_RetrieveOutputBuffer rq) rq d
      else
        let config = drv_Config d;
            b = zero_range 0 584 (rq_SystemBuffer rq);
            b = wr32 0 (DebugLevel config) b;
            b = wr32 4 (DebugFlags config) b;
            b = wr32 8 (ucast (ticks_to_ms (HeartbeatTimeout100ns config))) b;
            b = wr32 16 (storage_type_code (StorageType config)) b;
            b = wr32 20 (StorageSizeGB config) b;
            b = wr_units 24 (StoragePath config) b;
            b = wr32 544 (MaxIOQueues config) b;
            b = wr32 548 (AdminQueueDepth config) b;
            b = wr32 552 (IOQueueDepth config) b;
            b = wr32 560 (DoorbellPollIntervalUs config) b;
            b = wr32 564 (BatchSize config) b;
            b = wr32 568 (if AllowUserModeAccess config then 1 else 0) b;
            b = wr32 572 (if RequireAdminPrivilege config then 1 else 0) b;
            b = wr32 576 VNVME_CONFIG_FIELD_ALL_DYNAMIC b
        in answered 584 b d)"

text \<open>The configuration starts at offset 8 of the input; a field is taken when its bit is set in the mask.\<close>

definition requested_config :: "u32 \<Rightarrow> mem \<Rightarrow> VNVME_CONFIG \<Rightarrow> VNVME_CONFIG" where
  "requested_config fieldMask b newConfig =
     (let newConfig = (if bit fieldMask 0 then newConfig\<lparr>DebugLevel := rd32 b 8\<rparr> else newConfig);
          newConfig = (if bit fieldMask 1 then newConfig\<lparr>DebugFlags := rd32 b 12\<rparr> else newConfig);
          newConfig = (if bit fieldMask 2 then newConfig\<lparr>HeartbeatTimeout100ns := ucast (rd32 b 16) * 10000\<rparr> else newConfig);
          newConfig = (if bit fieldMask 3 then newConfig\<lparr>DoorbellPollIntervalUs := rd32 b 568\<rparr> else newConfig);
          newConfig = (if bit fieldMask 4 then newConfig\<lparr>BatchSize := rd32 b 572\<rparr> else newConfig)
      in newConfig)"

definition VnvmeHandleSetConfig :: "WDFREQUEST \<Rightarrow> vnvme_driver \<Rightarrow> ioctl_result" where
  "VnvmeHandleSetConfig rq d =
     (if rq_InputBufferLength rq < 584 then refused STATUS_BUFFER_TOO_SMALL rq d
      else if \<not> NT_SUCCESS (rq_RetrieveInputBuffer rq) then refused (rq_RetrieveInputBuffer rq) rq d
      else
        let b = rq_SystemBuffer rq; fieldMask = rd32 b 0
        in if fieldMask AND NOT VNVME_CONFIG_FIELD_ALL_DYNAMIC \<noteq> 0 then refused STATUS_ACCESS_DENIED rq d
           else
             let newConfig = requested_config fieldMask b (drv_Config d);
                 (status, g) = VnvmeConfigUpdate (Some newConfig) (drv_Config d); d = d\<lparr>drv_Config := g\<rparr>
             in if \<not> NT_SUCCESS status then refused status rq d else answered 0 b d)"

section \<open>Dispatch\<close>

definition VnvmeEvtIoDeviceControl :: "ioctl_os \<Rightarrow> u32 \<Rightarrow> WDFREQUEST \<Rightarrow> vnvme_driver \<Rightarrow> ioctl_result option" where
  "VnvmeEvtIoDeviceControl os IoControlCode rq d =
     (if IoControlCode = IOCTL_VNVME_GET_VERSION then Some (VnvmeHandleGetVersion rq d)
      else if IoControlCode = IOCTL_VNVME_GET_STATUS then Some (VnvmeHandleGetStatus rq d)
      else if IoControlCode = IOCTL_VNVME_MAP_SHM then Some (VnvmeHandleMapShm os rq d)
      else if IoControlCode = IOCTL_VNVME_USER_READY then Some (VnvmeHandleUserReady os rq d)
      else if IoControlCode = IOCTL_VNVME_HEARTBEAT then VnvmeHandleHeartbeat os rq d
      else if IoControlCode = IOCTL_VNVME_CREATE_CONTROLLER then Some (VnvmeHandleCreateController os rq d)
      else if IoControlCode = IOCTL_VNVME_DELETE_CONTROLLER then Some (VnvmeHandleDeleteController os rq d)
      else if IoControlCode = IOCTL_VNVME_LIST_CONTROLLERS then Some (VnvmeHandleListControllers rq d)
      else if IoControlCode = IOCTL_VNVME_GET_COMMAND_EVENT then Some (VnvmeHandleGetCommandEvent os rq d)
      else if IoControlCode = IOCTL_VNVME_SUBMIT_COMPLETIONS then Some (VnvmeHandleSubmitCompletions rq d)
      else if IoControlCode = IOCTL_VNVME_GET_STATS then Some (VnvmeHandleGetStats os rq d)
      else if IoControlCode = IOCTL_VNVME_SET_DEBUG_LEVEL then Some (VnvmeHandleSetDebugLevel rq d)
      else if IoControlCode = IOCTL_VNVME_UNMAP_SHM then Some (VnvmeHandleUnmapShm rq d)
      else if IoControlCode = IOCTL_VNVME_CREATE_NAMESPACE then VnvmeHandleCreateNamespace os rq d
      else if IoControlCode = IOCTL_VNVME_DELETE_NAMESPACE then Some (VnvmeHandleDeleteNamespace rq d)
      else if IoControlCode = IOCTL_VNVME_LIST_NAMESPACES then Some (VnvmeHandleListNamespaces rq d)
      else if IoControlCode = IOCTL_VNVME_GET_CONFIG then Some (VnvmeHandleGetConfig rq d)
      else if IoControlCode = IOCTL_VNVME_SET_CONFIG then Some (VnvmeHandleSetConfig rq d)
      else Some (refused STATUS_INVALID_DEVICE_REQUEST rq d))"

end
