(* ===== verification/Vnvme_Control_Props.thy ===== *)
theory Vnvme_Control_Props
  imports Vnvme_Control Vnvme_Registers Vnvme_Io_Props
begin

text \<open>
  The control device: the invariant of the driver's tables, kept by every request and reached from loading the driver;
  what creating and deleting namespaces and controllers achieves for the command path; the configuration requests.
\<close>

section \<open>Slots of a table\<close>

lemma length_filter_update:
  "i < length xs \<Longrightarrow> length (filter P (xs[i := x])) + (if P (xs ! i) then 1 else 0) = length (filter P xs) + (if P x then 1 else 0)"
proof (induction xs arbitrary: i)
  case (Cons a xs)
  then show ?case by (cases i) auto
qed simp

lemma free_slot_Some:
  "free_slot k ns = Some i \<Longrightarrow> k \<le> i \<and> i - k < length ns \<and> \<not> ns_Active (ns ! (i - k))"
proof (induction ns arbitrary: k)
  case (Cons n ns)
  show ?case
  proof (cases "ns_Active n")
    case True
    with Cons.IH [of "k + 1"] Cons.prems show ?thesis by (auto simp: nth_Cons' Suc_diff_le)
  next
    case False
    with Cons.prems show ?thesis by simp
  qed
qed simp

lemma free_slot_None: "free_slot k ns = None \<longleftrightarrow> (\<forall>n\<in>set ns. ns_Active n)"
  by (induction ns arbitrary: k) auto

section \<open>The invariant\<close>

definition namespace_ok :: "nat \<Rightarrow> VNVME_NAMESPACE \<Rightarrow> bool" where
  "namespace_ok i n \<longleftrightarrow> (ns_Active n \<longrightarrow>
     ns_NsId n = of_nat i + 1 \<and> (ns_BlockSize n = 512 \<or> ns_BlockSize n = 4096)
     \<and> unat (ns_TotalBytes n) = unat (ns_TotalBlocks n) * unat (ns_BlockSize n)
     \<and> 0 < ns_TotalBlocks n \<and> ns_TotalBytes n \<le> VNVME_MAX_NAMESPACE_CAPACITY
     \<and> storage_ok (ns_Storage n) \<and> storage_capacity (ns_Storage n) = unat (ns_TotalBytes n))"

definition controller_ok :: "VNVME_PDO_CONTEXT \<Rightarrow> bool" where
  "controller_ok p \<longleftrightarrow> pdo_wf p \<and> unat (pdo_IoQueueCount p) \<le> VNVME_MAX_IO_QUEUES
     \<and> unat (pdo_NamespaceCount p) = length (filter ns_Active (pdo_Namespaces p))
     \<and> (\<forall>i<VNVME_MAX_NAMESPACES. namespace_ok i (pdo_Namespaces p ! i))"

definition driver_ok :: "vnvme_driver \<Rightarrow> bool" where
  "driver_ok d \<longleftrightarrow> config_ok (drv_Config d)
     \<and> (\<forall>f. drv_Fdo d = Some f \<longrightarrow> bus_ok f \<and> (\<forall>p\<in>set (fd_ChildDeviceList f). controller_ok p))"

lemma driver_okI:
  "config_ok (drv_Config d) \<Longrightarrow> (\<And>f. drv_Fdo d = Some f \<Longrightarrow> bus_ok f) \<Longrightarrow>
    (\<And>f p. drv_Fdo d = Some f \<Longrightarrow> p \<in> set (fd_ChildDeviceList f) \<Longrightarrow> controller_ok p) \<Longrightarrow> driver_ok d"
  by (simp add: driver_ok_def)

lemma driver_okD:
  assumes "driver_ok d" "drv_Fdo d = Some f"
  shows "bus_ok f" "p \<in> set (fd_ChildDeviceList f) \<Longrightarrow> controller_ok p"
    "find_controller (fd_ChildDeviceList f) i = Some q \<Longrightarrow> controller_ok q \<and> pdo_ControllerId q = i"
  using assms by (auto simp: driver_ok_def dest: find_controller_Some)

lemma controller_ok_created: "controller_ok (created_PDO i)"
  by (simp add: controller_ok_def created_PDO_def zero_PDO_CONTEXT_def pdo_wf_def namespace_ok_def zero_NAMESPACE_def)

text \<open>Requests that leave the configuration, the controllers and their number alone.\<close>

lemma driver_ok_same_tables:
  assumes "driver_ok d" "drv_Fdo d = Some f" "drv_Fdo d' = Some f'" "config_ok (drv_Config d')"
    "fd_ChildDeviceList f' = fd_ChildDeviceList f" "fd_ChildDeviceCount f' = fd_ChildDeviceCount f"
    "fd_MaxControllers f' = fd_MaxControllers f"
  shows "driver_ok d'"
  using assms by (auto simp: driver_ok_def bus_ok_def)

lemma set_put_controller: "set (put_controller ps q) \<subseteq> insert q (set ps)"
  by (induction ps) auto

lemma driver_ok_put_pdo:
  assumes "driver_ok d" "drv_Fdo d = Some f" "controller_ok p"
  shows "driver_ok (put_pdo p f d)"
proof (rule driver_okI)
  show "config_ok (drv_Config (put_pdo p f d))"
    using assms(1) by (simp add: put_pdo_def driver_ok_def)
next
  fix f'
  assume "drv_Fdo (put_pdo p f d) = Some f'"
  then have f': "f' = f\<lparr>fd_ChildDeviceList := put_controller (fd_ChildDeviceList f) p\<rparr>"
    by (simp add: put_pdo_def)
  show "bus_ok f'"
    using driver_okD(1) [OF assms(1,2)] by (auto simp: f' bus_ok_def)
  fix q
  assume "q \<in> set (fd_ChildDeviceList f')"
  then show "controller_ok q"
    using set_put_controller [of "fd_ChildDeviceList f" p] driver_okD(2) [OF assms(1,2)] assms(3) by (auto simp: f')
qed

section \<open>Namespaces\<close>

lemma VnvmeStorageCreate_result:
  assumes "VnvmeStorageCreate alloc fo t tot bs path = Some (status, S)"
  shows "(status = STATUS_SUCCESS \<and> storage_ok S \<and> storage_capacity S = unat tot) \<or> (\<not> NT_SUCCESS status \<and> S = None)"
  using assms
  by (auto simp: VnvmeStorageCreate_def StorageMemoryInit_def StorageFileInit_def StorageSparseInit_def copy_FilePath_def Let_def
      storage_ok_def storage_capacity_def bind_Some_iff
      split: if_splits VNVME_STORAGE_TYPE.splits option.splits prod.splits)

lemma VnvmeStorageCreate_returns:
  assumes "\<And>us. path = Some us \<Longrightarrow> length us < 32767"
  shows "\<exists>status S. VnvmeStorageCreate alloc fo t tot bs path = Some (status, S)"
proof -
  have copy: "\<exists>st s'. copy_FilePath a us s = Some (st, s')" if "length us < 32767" for a us s
  proof -
    have "unat (of_nat (2 * length us) + 2 :: u16) = 2 * length us + 2"
      using that by (simp add: unat_word_ariths unat_of_nat)
    then show ?thesis by (simp add: copy_FilePath_def Let_def)
  qed
  have init: "\<exists>st s'. StorageFileInit a fo us tot True s = Some (st, s')" "\<exists>st s'. StorageSparseInit a fo us tot True s = Some (st, s')"
    if us: "length us < 32767" for a us s
    using copy [OF us, of a s] by (auto simp: StorageFileInit_def StorageSparseInit_def Let_def split: prod.split)
  let ?c = "zero_STORAGE_CONTEXT\<lparr>st_BlockSize := bs\<rparr>"
  have "\<exists>st s'. (case t of
             VNVME_STORAGE_TYPE_MEMORY \<Rightarrow> Some (StorageMemoryInit (alloc 1) tot ?c)
           | VNVME_STORAGE_TYPE_FILE \<Rightarrow>
               (case path of None \<Rightarrow> Some (STATUS_INVALID_PARAMETER, ?c) | Some us \<Rightarrow> StorageFileInit (alloc 1) fo us tot True ?c)
           | VNVME_STORAGE_TYPE_SPARSE \<Rightarrow>
               (case path of None \<Rightarrow> Some (STATUS_INVALID_PARAMETER, ?c) | Some us \<Rightarrow> StorageSparseInit (alloc 1) fo us tot True ?c)
           | VNVME_STORAGE_TYPE_NONE \<Rightarrow> Some (STATUS_NOT_SUPPORTED, ?c)) = Some (st, s')"
    using assms init
    by (cases "StorageMemoryInit (alloc 1) tot ?c") (auto split: VNVME_STORAGE_TYPE.split option.split)
  then show ?thesis
    unfolding VnvmeStorageCreate_def Let_def by (elim exE) simp
qed

lemma check_geometry_ok:
  assumes "check_geometry BlockSize TotalBlocks = STATUS_SUCCESS"
  shows "let n = new_namespace nsid TotalBlocks BlockSize Flags in
    (ns_BlockSize n = 512 \<or> ns_BlockSize n = 4096) \<and> ns_TotalBlocks n = TotalBlocks \<and> 0 < TotalBlocks
    \<and> unat (ns_TotalBytes n) = unat (ns_TotalBlocks n) * unat (ns_BlockSize n) \<and> ns_TotalBytes n \<le> VNVME_MAX_NAMESPACE_CAPACITY"
proof -
  define bs :: u32 where "bs = (if BlockSize \<noteq> 0 then BlockSize else 512)"
  have bs: "bs = 512 \<or> bs = 4096" "0 < TotalBlocks"
    and cap: "TotalBlocks * ucast bs div ucast bs = TotalBlocks" "TotalBlocks * ucast bs \<le> 17592186044416"
    using assms by (auto simp: check_geometry_def bs_def Let_def not_less word_neq_0_conv split: if_splits)
  have pos: "0 < unat bs" using bs(1) by auto
  have "unat TotalBlocks * unat bs < 2 ^ 64"
  proof (rule ccontr)
    assume "\<not> unat TotalBlocks * unat bs < 2 ^ 64"
    moreover have "unat (TotalBlocks * ucast bs :: u64) = unat TotalBlocks * unat bs mod 2 ^ 64"
      by (simp add: unat_word_ariths)
    moreover have "unat (TotalBlocks * ucast bs :: u64) div unat bs = unat TotalBlocks"
      using arg_cong [OF cap(1), of unat] by (simp add: unat_div)
    ultimately have "unat TotalBlocks * unat bs \<le> unat TotalBlocks * unat bs mod 2 ^ 64"
      by (metis div_times_less_eq_dividend)
    moreover have "unat TotalBlocks * unat bs mod 2 ^ 64 < 2 ^ 64" by simp
    ultimately show False using \<open>\<not> unat TotalBlocks * unat bs < 2 ^ 64\<close> by linarith
  qed
  then have "unat (TotalBlocks * ucast bs :: u64) = unat TotalBlocks * unat bs"
    by (simp add: unat_word_ariths)
  with bs cap show ?thesis
    by (simp add: new_namespace_def Let_def bs_def [symmetric])
qed

text \<open>The namespace a request asks for, in slot \<open>i\<close> and with its storage, and the controller that has it.\<close>

definition requested_namespace :: "mem \<Rightarrow> nat \<Rightarrow> VNVME_NAMESPACE" where
  "requested_namespace b i = new_namespace (of_nat i + 1) (rd64 b 8) (rd32 b 16) (rd32 b 20)"

definition with_new_namespace :: "mem \<Rightarrow> nat \<Rightarrow> VNVME_STORAGE_CONTEXT option \<Rightarrow> VNVME_PDO_CONTEXT \<Rightarrow> VNVME_PDO_CONTEXT" where
  "with_new_namespace b i S p =
     (upd_Namespace i (\<lambda>_. (requested_namespace b i)\<lparr>ns_Storage := S, ns_Active := True\<rparr>) p)\<lparr>pdo_NamespaceCount := pdo_NamespaceCount p + 1\<rparr>"

definition namespace_added :: "WDFREQUEST \<Rightarrow> vnvme_driver \<Rightarrow> VNVME_FDO_DEVICE \<Rightarrow> VNVME_PDO_CONTEXT \<Rightarrow> nat \<Rightarrow> VNVME_STORAGE_CONTEXT option \<Rightarrow> ioctl_result \<Rightarrow> bool" where
  "namespace_added rq d f p i S r \<longleftrightarrow> (let b = rq_SystemBuffer rq in
     drv_Fdo d = Some f \<and> CtrlDevFindController f (rd32 b 0) = Some p \<and> pdo_NamespaceCount p < of_nat VNVME_MAX_NAMESPACES
     \<and> i < VNVME_MAX_NAMESPACES \<and> \<not> ns_Active (pdo_Namespaces p ! i) \<and> check_geometry (rd32 b 16) (rd64 b 8) = STATUS_SUCCESS
     \<and> storage_ok S \<and> storage_capacity S = unat (ns_TotalBytes (requested_namespace b i))
     \<and> r = answered 8 (wr32 4 0 (wr32 0 (of_nat i + 1) b)) (put_pdo (with_new_namespace b i S p) f d))"

lemma free_slot_controller:
  assumes "controller_ok p" "free_slot 0 (take VNVME_MAX_NAMESPACES (pdo_Namespaces p)) = Some i"
  shows "i < VNVME_MAX_NAMESPACES" "\<not> ns_Active (pdo_Namespaces p ! i)"
  using free_slot_Some [OF assms(2)] assms(1) by (auto simp: controller_ok_def pdo_wf_def)

lemma VnvmeHandleCreateNamespace_cases:
  assumes "driver_ok d" "VnvmeHandleCreateNamespace os rq d = Some r"
  obtains (bad) status where "\<not> NT_SUCCESS status" "r = refused status rq d"
  | (failed) status f p i where "\<not> NT_SUCCESS status" "drv_Fdo d = Some f" "CtrlDevFindController f (rd32 (rq_SystemBuffer rq) 0) = Some p"
      "i < VNVME_MAX_NAMESPACES" "\<not> ns_Active (pdo_Namespaces p ! i)"
      "r = refused status rq (put_pdo (upd_Namespace i (\<lambda>_. requested_namespace (rq_SystemBuffer rq) i) p) f d)"
  | (added) f p i S where "namespace_added rq d f p i S r"
proof (cases "drv_Fdo d")
  case None
  with assms(2) show thesis by (intro bad [of STATUS_DEVICE_NOT_READY]) (simp_all add: VnvmeHandleCreateNamespace_def)
next
  case (Some f)
  let ?b = "rq_SystemBuffer rq"
  show thesis
  proof (cases "rq_InputBufferLength rq < 284 \<or> rq_OutputBufferLength rq < 8 \<or> \<not> NT_SUCCESS (rq_RetrieveInputBuffer rq)
      \<or> \<not> NT_SUCCESS (rq_RetrieveOutputBuffer rq) \<or> CtrlDevFindController f (rd32 ?b 0) = None
      \<or> check_geometry (rd32 ?b 16) (rd64 ?b 8) \<noteq> STATUS_SUCCESS")
    case True
    have "\<not> NT_SUCCESS (check_geometry (rd32 ?b 16) (rd64 ?b 8))" if "check_geometry (rd32 ?b 16) (rd64 ?b 8) \<noteq> STATUS_SUCCESS"
      using that by (auto simp: check_geometry_def Let_def split: if_splits)
    with True Some assms(2) show thesis
      by (auto simp: VnvmeHandleCreateNamespace_def Let_def split: if_split_asm option.split_asm intro: bad [of STATUS_BUFFER_TOO_SMALL]
          bad [of STATUS_NOT_FOUND] bad [of STATUS_QUOTA_EXCEEDED] bad)
  next
    case False
    then obtain p where p: "CtrlDevFindController f (rd32 ?b 0) = Some p" by auto
    have ok: "controller_ok p" using driver_okD(3) [OF assms(1) Some] p by (simp add: CtrlDevFindController_def)
    show thesis
    proof (cases "pdo_NamespaceCount p \<ge> of_nat VNVME_MAX_NAMESPACES \<or> free_slot 0 (take VNVME_MAX_NAMESPACES (pdo_Namespaces p)) = None")
      case True
      with False p Some assms(2) show thesis
        by (intro bad [of STATUS_QUOTA_EXCEEDED]) (auto simp: VnvmeHandleCreateNamespace_def Let_def split: if_split_asm)
    next
      case room: False
      then obtain i where i: "free_slot 0 (take VNVME_MAX_NAMESPACES (pdo_Namespaces p)) = Some i" by auto
      let ?n = "requested_namespace ?b i" and ?c = "storage_choice (drv_Config d) (requested_namespace ?b i)"
      obtain status S where st: "VnvmeStorageCreate (io_alloc os) (io_file os) (fst ?c) (ns_TotalBytes ?n) (ns_BlockSize ?n) (snd ?c) = Some (status, S)"
        and r: "r = (if \<not> NT_SUCCESS status then refused status rq (put_pdo (upd_Namespace i (\<lambda>_. ?n) p) f d)
          else answered 8 (wr32 4 0 (wr32 0 (of_nat i + 1) ?b)) (put_pdo (with_new_namespace ?b i S p) f d))"
        using assms(2) Some False p room i
        by (auto simp: VnvmeHandleCreateNamespace_def Let_def with_new_namespace_def requested_namespace_def case_prod_beta
            split: if_split_asm Option.bind_split_asm)
      from VnvmeStorageCreate_result [OF st] show thesis
      proof
        assume "status = STATUS_SUCCESS \<and> storage_ok S \<and> storage_capacity S = unat (ns_TotalBytes ?n)"
        with Some False p room r free_slot_controller [OF ok i] show thesis
          by (intro added [of f p i S]) (auto simp: namespace_added_def Let_def)
      next
        assume "\<not> NT_SUCCESS status \<and> S = None"
        with Some p r free_slot_controller [OF ok i] show thesis
          by (intro failed [of status f p i]) auto
      qed
    qed
  qed
qed

section \<open>Every request keeps the invariant\<close>

lemma controller_ok_set_namespace:
  assumes "controller_ok p" "i < VNVME_MAX_NAMESPACES" "namespace_ok i (g (pdo_Namespaces p ! i))"
    "unat k + (if ns_Active (pdo_Namespaces p ! i) then 1 else 0)
      = unat (pdo_NamespaceCount p) + (if ns_Active (g (pdo_Namespaces p ! i)) then 1 else 0)"
  shows "controller_ok ((upd_Namespace i g p)\<lparr>pdo_NamespaceCount := k\<rparr>)"
proof -
  have "i < length (pdo_Namespaces p)" using assms(1,2) by (simp add: controller_ok_def pdo_wf_def)
  with length_filter_update [of i "pdo_Namespaces p" ns_Active "g (pdo_Namespaces p ! i)"] assms show ?thesis
    by (auto simp: controller_ok_def upd_Namespace_def pdo_wf_def nth_list_update split: if_splits)
qed

lemma namespace_ok_requested:
  assumes "check_geometry (rd32 b 16) (rd64 b 8) = STATUS_SUCCESS" "storage_ok S"
    "storage_capacity S = unat (ns_TotalBytes (requested_namespace b i))"
  shows "namespace_ok i ((requested_namespace b i)\<lparr>ns_Storage := S, ns_Active := True\<rparr>)"
  using check_geometry_ok [OF assms(1), of "of_nat i + 1" "rd32 b 20"] assms(2,3)
  by (simp add: namespace_ok_def requested_namespace_def Let_def) (simp add: new_namespace_def Let_def)

lemma controller_ok_added:
  assumes "driver_ok d" "namespace_added rq d f p i S r"
  shows "controller_ok (with_new_namespace (rq_SystemBuffer rq) i S p)"
proof -
  note a = assms(2) [unfolded namespace_added_def Let_def]
  have ok: "controller_ok p" using driver_okD(3) [OF assms(1)] a by (auto simp: CtrlDevFindController_def)
  have "pdo_NamespaceCount p < 16" using a by simp
  then have "unat (pdo_NamespaceCount p + 1) = unat (pdo_NamespaceCount p) + 1"
    by (simp add: unat_word_ariths word_less_nat_alt)
  then show ?thesis
    unfolding with_new_namespace_def
    using a ok namespace_ok_requested [of "rq_SystemBuffer rq" S i]
    by (intro controller_ok_set_namespace) auto
qed

lemma refused_eq [simp]: "refused s rq d = refused s' rq d \<longleftrightarrow> s = s'"
  by (simp add: refused_def)

lemma driver_ok_refused: "driver_ok d \<Longrightarrow> driver_ok (res_Driver (refused st rq d))"
  by (simp add: refused_def)

lemma driver_ok_answered: "driver_ok d \<Longrightarrow> driver_ok (res_Driver (answered n b d))"
  by (simp add: answered_def)

lemma driver_ok_CreateNamespace:
  assumes "driver_ok d" "VnvmeHandleCreateNamespace os rq d = Some r"
  shows "driver_ok (res_Driver r)"
  using assms
proof (cases rule: VnvmeHandleCreateNamespace_cases)
  case (bad status)
  with assms(1) show ?thesis by (simp add: driver_ok_refused)
next
  case (failed status f p i)
  have ok: "controller_ok p" using driver_okD(3) [OF assms(1)] failed by (auto simp: CtrlDevFindController_def)
  have "controller_ok ((upd_Namespace i (\<lambda>_. requested_namespace (rq_SystemBuffer rq) i) p)\<lparr>pdo_NamespaceCount := pdo_NamespaceCount p\<rparr>)"
    by (rule controller_ok_set_namespace)
      (use ok failed in \<open>auto simp: requested_namespace_def new_namespace_def zero_NAMESPACE_def namespace_ok_def Let_def\<close>)
  then have "controller_ok (upd_Namespace i (\<lambda>_. requested_namespace (rq_SystemBuffer rq) i) p)"
    by (simp add: upd_Namespace_def)
  with failed assms(1) show ?thesis by (simp add: driver_ok_refused driver_ok_put_pdo)
next
  case (added f p i S)
  with assms(1) controller_ok_added [OF assms(1) added] show ?thesis
    by (auto simp: namespace_added_def Let_def intro!: driver_ok_answered driver_ok_put_pdo)
qed

lemma VnvmeHandleDeleteNamespace_cases:
  assumes "driver_ok d"
  obtains (bad) status where "\<not> NT_SUCCESS status" "VnvmeHandleDeleteNamespace rq d = refused status rq d"
  | (deleted) f p i where "drv_Fdo d = Some f" "CtrlDevFindController f (rd32 (rq_SystemBuffer rq) 0) = Some p"
      "i < VNVME_MAX_NAMESPACES" "rd32 (rq_SystemBuffer rq) 4 = of_nat i + 1" "ns_Active (pdo_Namespaces p ! i)"
      "VnvmeHandleDeleteNamespace rq d = answered 0 (rq_SystemBuffer rq) (put_pdo
         ((upd_Namespace i (\<lambda>n. n\<lparr>ns_Storage := None, ns_Active := False\<rparr>) p)\<lparr>pdo_NamespaceCount := pdo_NamespaceCount p - 1\<rparr>) f d)"
proof -
  let ?b = "rq_SystemBuffer rq"
  have "(\<exists>status. \<not> NT_SUCCESS status \<and> VnvmeHandleDeleteNamespace rq d = refused status rq d)
    \<or> (\<exists>f p. drv_Fdo d = Some f \<and> CtrlDevFindController f (rd32 ?b 0) = Some p \<and> rd32 ?b 4 \<noteq> 0 \<and> rd32 ?b 4 \<le> 16
        \<and> ns_Active (pdo_Namespaces p ! unat (rd32 ?b 4 - 1))
        \<and> VnvmeHandleDeleteNamespace rq d = answered 0 ?b (put_pdo
         ((upd_Namespace (unat (rd32 ?b 4 - 1)) (\<lambda>n. n\<lparr>ns_Storage := None, ns_Active := False\<rparr>) p)\<lparr>pdo_NamespaceCount := pdo_NamespaceCount p - 1\<rparr>) f d))"
    by (auto simp: VnvmeHandleDeleteNamespace_def Let_def upd_Namespace_def not_less split: option.split)
  then show thesis
  proof (elim disjE exE conjE)
    fix f p
    assume r: "rd32 ?b 4 \<noteq> 0" "rd32 ?b 4 \<le> 16"
      and *: "drv_Fdo d = Some f" "CtrlDevFindController f (rd32 ?b 0) = Some p" "ns_Active (pdo_Namespaces p ! unat (rd32 ?b 4 - 1))"
        "VnvmeHandleDeleteNamespace rq d = answered 0 ?b (put_pdo
         ((upd_Namespace (unat (rd32 ?b 4 - 1)) (\<lambda>n. n\<lparr>ns_Storage := None, ns_Active := False\<rparr>) p)\<lparr>pdo_NamespaceCount := pdo_NamespaceCount p - 1\<rparr>) f d)"
    have "1 \<le> rd32 ?b 4" using r(1) by (simp add: word_le_nat_alt unat_gt_0 Suc_le_eq)
    then have "unat (rd32 ?b 4 - 1) < 16"
      using r by (simp add: unat_sub word_le_nat_alt)
    moreover have "rd32 ?b 4 = of_nat (unat (rd32 ?b 4 - 1)) + 1" by simp
    ultimately show thesis by (rule deleted [OF *(1,2) _ _ *(3,4)])
  qed (rule bad)
qed

lemma driver_ok_DeleteNamespace:
  assumes "driver_ok d"
  shows "driver_ok (res_Driver (VnvmeHandleDeleteNamespace rq d))"
  using assms
proof (cases rule: VnvmeHandleDeleteNamespace_cases [where rq = rq])
  case (bad status)
  with assms show ?thesis by (simp add: driver_ok_refused)
next
  case (deleted f p i)
  have ok: "controller_ok p" using driver_okD(3) [OF assms] deleted by (auto simp: CtrlDevFindController_def)
  have "0 < length (filter ns_Active (pdo_Namespaces p))"
    using deleted(3,5) ok nth_mem [of i "pdo_Namespaces p"] by (auto simp: controller_ok_def pdo_wf_def filter_empty_conv)
  then have "0 < unat (pdo_NamespaceCount p)" using ok by (simp add: controller_ok_def)
  then have "(1 :: u16) \<le> pdo_NamespaceCount p" by (simp add: word_le_nat_alt)
  then have "unat (pdo_NamespaceCount p - 1) + 1 = unat (pdo_NamespaceCount p)"
    by (simp add: unat_sub word_le_nat_alt)
  then have "controller_ok ((upd_Namespace i (\<lambda>n. n\<lparr>ns_Storage := None, ns_Active := False\<rparr>) p)\<lparr>pdo_NamespaceCount := pdo_NamespaceCount p - 1\<rparr>)"
    using ok deleted by (intro controller_ok_set_namespace) (auto simp: namespace_ok_def)
  with deleted assms show ?thesis
    by (auto intro!: driver_ok_answered driver_ok_put_pdo)
qed

lemma total_pending_returns: "(\<And>p. p \<in> set ps \<Longrightarrow> controller_ok p) \<Longrightarrow> \<exists>k. total_pending ps = Some k"
  by (induction ps) (auto simp: controller_pending_def controller_ok_def pdo_wf_def check_bind)

lemma driver_ok_Heartbeat:
  assumes "driver_ok d"
  shows "\<exists>r. VnvmeHandleHeartbeat os rq d = Some r \<and> driver_ok (res_Driver r)"
proof (cases "drv_Fdo d")
  case None
  with assms show ?thesis by (simp add: VnvmeHandleHeartbeat_def driver_ok_refused)
next
  case (Some f)
  obtain k where "total_pending (fd_ChildDeviceList f) = Some k"
    using total_pending_returns [of "fd_ChildDeviceList f"] driver_okD(2) [OF assms Some] by blast
  with assms Some show ?thesis
    by (auto simp: VnvmeHandleHeartbeat_def Let_def answered_def refused_def driver_ok_def bus_ok_def)
qed

lemma config_ok_dynamic:
  "config_ok g \<Longrightarrow> config_ok (g\<lparr>DebugLevel := l, DebugFlags := fl\<rparr>)"
  "config_ok g \<Longrightarrow> config_ok (snd (VnvmeConfigUpdate (Some c) g))"
  by (auto simp: config_ok_def VnvmeConfigUpdate_def Let_def)

lemma driver_ok_SetConfig:
  assumes "driver_ok d"
  shows "driver_ok (res_Driver (VnvmeHandleSetConfig rq d))"
  using assms config_ok_dynamic(2) [of "drv_Config d"]
  by (auto simp: VnvmeHandleSetConfig_def Let_def answered_def refused_def driver_ok_def case_prod_beta)

lemma driver_ok_CreateController:
  assumes "driver_ok d"
  shows "driver_ok (res_Driver (VnvmeHandleCreateController os rq d))"
proof (cases "drv_Fdo d")
  case None
  with assms show ?thesis by (simp add: VnvmeHandleCreateController_def driver_ok_refused)
next
  case (Some f)
  let ?f = "f\<lparr>fd_NextControllerId := fd_NextControllerId f + 1\<rparr>"
  obtain status f' where c: "VnvmeCreateVirtualController (io_create os) ?f (fd_NextControllerId f) = (status, f')" by fastforce
  have ok: "bus_ok ?f" using driver_okD(1) [OF assms Some] by (auto simp: bus_ok_def)
  have "bus_ok f'" "set (fd_ChildDeviceList f') \<subseteq> insert (created_PDO (fd_NextControllerId f)) (set (fd_ChildDeviceList f))"
    using bus_ok_create [OF ok c] VnvmeCreateVirtualController_effect [OF ok c] by auto
  then have "driver_ok (d\<lparr>drv_Fdo := Some f'\<rparr>)"
    using assms driver_okD(2) [OF assms Some] controller_ok_created by (auto simp: driver_ok_def)
  with assms Some c show ?thesis
    by (auto simp: VnvmeHandleCreateController_def Let_def intro: driver_ok_refused driver_ok_answered)
qed

lemma driver_ok_DeleteController:
  assumes "driver_ok d"
  shows "driver_ok (res_Driver (VnvmeHandleDeleteController os rq d))"
proof (cases "drv_Fdo d")
  case None
  with assms show ?thesis by (simp add: VnvmeHandleDeleteController_def driver_ok_refused)
next
  case (Some f)
  obtain status freed f' where c: "VnvmeDeleteVirtualController (io_in_D0 os) f (rd32 (rq_SystemBuffer rq) 0) = (status, freed, f')"
    by (cases "VnvmeDeleteVirtualController (io_in_D0 os) f (rd32 (rq_SystemBuffer rq) 0)") auto
  have dist: "distinct (controller_ids (fd_ChildDeviceList f))" using driver_okD(1) [OF assms Some] by (simp add: bus_ok_def)
  have "set (fd_ChildDeviceList f') \<subseteq> set (fd_ChildDeviceList f)"
    using c remove_controller_Some [OF _ dist] by (auto simp: VnvmeDeleteVirtualController_def split: option.splits) blast
  then have "driver_ok (d\<lparr>drv_Fdo := Some f'\<rparr>)"
    using assms bus_ok_delete [OF driver_okD(1) [OF assms Some] c] driver_okD(2) [OF assms Some] by (auto simp: driver_ok_def)
  with assms Some c show ?thesis
    by (auto simp: VnvmeHandleDeleteController_def Let_def intro: driver_ok_refused driver_ok_answered)
qed

lemma driver_ok_others:
  assumes "driver_ok d"
  shows "driver_ok (res_Driver (VnvmeHandleGetVersion rq d))" "driver_ok (res_Driver (VnvmeHandleGetStatus rq d))"
    "driver_ok (res_Driver (VnvmeHandleMapShm os rq d))" "driver_ok (res_Driver (VnvmeHandleUnmapShm rq d))"
    "driver_ok (res_Driver (VnvmeHandleUserReady os rq d))" "driver_ok (res_Driver (VnvmeHandleGetCommandEvent os rq d))"
    "driver_ok (res_Driver (VnvmeHandleSubmitCompletions rq d))" "driver_ok (res_Driver (VnvmeHandleListControllers rq d))"
    "driver_ok (res_Driver (VnvmeHandleGetStats os rq d))" "driver_ok (res_Driver (VnvmeHandleSetDebugLevel rq d))"
    "driver_ok (res_Driver (VnvmeHandleListNamespaces rq d))" "driver_ok (res_Driver (VnvmeHandleGetConfig rq d))"
proof -
  note same = driver_ok_refused [OF assms] driver_ok_answered [OF assms]
  have tables: "driver_ok (d\<lparr>drv_Fdo := Some f'\<rparr>)" if "drv_Fdo d = Some f" "fd_ChildDeviceList f' = fd_ChildDeviceList f"
      "fd_ChildDeviceCount f' = fd_ChildDeviceCount f" "fd_MaxControllers f' = fd_MaxControllers f" for f f'
    using assms that by (auto simp: driver_ok_def bus_ok_def)
  show "driver_ok (res_Driver (VnvmeHandleGetVersion rq d))" "driver_ok (res_Driver (VnvmeHandleGetStatus rq d))"
    "driver_ok (res_Driver (VnvmeHandleUnmapShm rq d))" "driver_ok (res_Driver (VnvmeHandleListControllers rq d))"
    "driver_ok (res_Driver (VnvmeHandleGetStats os rq d))" "driver_ok (res_Driver (VnvmeHandleGetConfig rq d))"
    "driver_ok (res_Driver (VnvmeHandleListNamespaces rq d))"
    unfolding VnvmeHandleGetVersion_def VnvmeHandleGetStatus_def VnvmeHandleUnmapShm_def VnvmeHandleListControllers_def
      VnvmeHandleGetStats_def VnvmeHandleGetConfig_def VnvmeHandleListNamespaces_def Let_def
    using same by (auto simp: case_prod_beta refused_def split: option.split)
  show "driver_ok (res_Driver (VnvmeHandleSetDebugLevel rq d))"
    using assms config_ok_dynamic(1) [of "drv_Config d"] same
    by (auto simp: VnvmeHandleSetDebugLevel_def Let_def answered_def driver_ok_def)
  show "driver_ok (res_Driver (VnvmeHandleMapShm os rq d))" "driver_ok (res_Driver (VnvmeHandleUserReady os rq d))"
    "driver_ok (res_Driver (VnvmeHandleGetCommandEvent os rq d))" "driver_ok (res_Driver (VnvmeHandleSubmitCompletions rq d))"
    unfolding VnvmeHandleMapShm_def VnvmeHandleUserReady_def VnvmeHandleGetCommandEvent_def VnvmeHandleSubmitCompletions_def Let_def
    using same by (auto simp: case_prod_beta split: option.split intro!: tables driver_ok_answered driver_ok_refused)
qed

lemmas driver_ok_handlers = driver_ok_others driver_ok_CreateController driver_ok_DeleteController driver_ok_SetConfig
  driver_ok_DeleteNamespace

lemma VnvmeHandleCreateNamespace_returns:
  assumes "driver_ok d"
  shows "\<exists>r. VnvmeHandleCreateNamespace os rq d = Some r"
proof -
  have "length (StoragePath (drv_Config d)) = 260" using assms by (simp add: driver_ok_def config_ok_def)
  then have "\<exists>status S. VnvmeStorageCreate (io_alloc os) (io_file os) (fst (storage_choice (drv_Config d) n)) tot bs
      (snd (storage_choice (drv_Config d) n)) = Some (status, S)" for n tot bs
    by (intro VnvmeStorageCreate_returns)
      (auto simp: storage_choice_def Let_def split: if_splits intro: order_le_less_trans [OF length_takeWhile_le])
  then have create: "VnvmeStorageCreate (io_alloc os) (io_file os) (fst (storage_choice (drv_Config d) n)) tot bs
      (snd (storage_choice (drv_Config d) n)) = None \<longleftrightarrow> False" for n tot bs
    by (metis option.distinct(1))
  have "VnvmeHandleCreateNamespace os rq d \<noteq> None"
    unfolding VnvmeHandleCreateNamespace_def Let_def case_prod_beta
    by (simp add: create del: not_None_eq split: option.split Option.bind_split)
  then show ?thesis by blast
qed

lemma VnvmeEvtIoDeviceControl_ok:
  assumes "driver_ok d"
  shows "\<exists>r. VnvmeEvtIoDeviceControl os code rq d = Some r \<and> driver_ok (res_Driver r)"
  using driver_ok_handlers [OF assms] driver_ok_Heartbeat [OF assms] VnvmeHandleCreateNamespace_returns [OF assms, of os rq]
    driver_ok_CreateNamespace [OF assms, of os rq] driver_ok_refused [OF assms]
  by (auto simp: VnvmeEvtIoDeviceControl_def)

section \<open>Properties\<close>

text \<open>The driver is loaded, the bus device is added, and then requests arrive with whatever the system answers.\<close>

inductive control_step :: "vnvme_driver \<Rightarrow> vnvme_driver \<Rightarrow> bool" where
  request: "VnvmeEvtIoDeviceControl os code rq d = Some r \<Longrightarrow> control_step d (res_Driver r)"

inductive_cases control_stepE: "control_step d d'"

interpretation control: step_invariant control_step driver_ok
proof
  fix d d'
  assume ok: "driver_ok d" and "control_step d d'"
  then obtain os code rq r where "VnvmeEvtIoDeviceControl os code rq d = Some r" "d' = res_Driver r"
    by (auto elim: control_stepE)
  with VnvmeEvtIoDeviceControl_ok [OF ok, of os code rq] show "driver_ok d'" by auto
qed

lemma driver_ok_DriverEntry: "driver_ok (snd (DriverEntry path_ok open_ok reg created))"
  using config_ok_VnvmeConfigInit [OF config_ok_init] by (simp add: DriverEntry_def driver_ok_def Let_def)

lemma driver_ok_VnvmeEvtDeviceAdd:
  assumes "driver_ok d"
  shows "driver_ok (snd (VnvmeEvtDeviceAdd created now os d))"
proof -
  have "bus_ok (snd (VnvmeCreateControlDevice os (initial_FDO now)))" "fd_ChildDeviceList (snd (VnvmeCreateControlDevice os (initial_FDO now))) = []"
    by (auto simp: VnvmeCreateControlDevice_def bus_ok_def initial_FDO_def)
  with assms show ?thesis
    by (auto simp: VnvmeEvtDeviceAdd_def driver_ok_def Let_def case_prod_beta)
qed

text \<open>C8: from loading the driver on, whatever the registry holds and whatever the system answers, after any sequence of requests
  to the control device: every further request is answered without leaving defined behaviour, the configuration is in
  range, the controllers have distinct numbers, their count is exact and at most sixteen, and on every controller the
  number of namespaces is the number of active slots and each active namespace carries the number of its slot, blocks
  of 512 or 4096 bytes, at most 16 TiB, and a storage of exactly its size.\<close>

theorem control_requests_keep_tables:
  assumes "DriverEntry path_ok open_ok reg created = (s0, d0)" "VnvmeEvtDeviceAdd added now cos d0 = (s1, d1)" "control_step\<^sup>*\<^sup>* d1 d"
  shows "(\<exists>r. VnvmeEvtIoDeviceControl os code rq d = Some r) \<and> config_ok (drv_Config d)
    \<and> (\<forall>f. drv_Fdo d = Some f \<longrightarrow> distinct (controller_ids (fd_ChildDeviceList f))
        \<and> unat (fd_ChildDeviceCount f) = length (fd_ChildDeviceList f) \<and> length (fd_ChildDeviceList f) \<le> 16
        \<and> (\<forall>p\<in>set (fd_ChildDeviceList f). unat (pdo_NamespaceCount p) = length (filter ns_Active (pdo_Namespaces p))
             \<and> (\<forall>i<VNVME_MAX_NAMESPACES. namespace_ok i (pdo_Namespaces p ! i))))"
proof -
  have "driver_ok d1"
    using driver_ok_VnvmeEvtDeviceAdd [OF driver_ok_DriverEntry, of added now cos path_ok open_ok reg created] assms(1,2) by simp
  then have ok: "driver_ok d" using control.reachable [OF assms(3)] by blast
  have "length (fd_ChildDeviceList f) \<le> 16" if "bus_ok f" for f
    using that by (auto simp: bus_ok_def word_le_nat_alt)
  with ok VnvmeEvtIoDeviceControl_ok [OF ok, of os code rq] show ?thesis
    by (auto simp: driver_ok_def bus_ok_def controller_ok_def)
qed

text \<open>The property on a freshly loaded driver whose bus device was added.\<close>

definition control_create_ok :: control_create_os where
  "control_create_ok = \<lparr>cc_InitAllocate = True, cc_AssignName = STATUS_SUCCESS, cc_DeviceCreate = STATUS_SUCCESS,
     cc_CreateSymbolicLink = STATUS_SUCCESS, cc_QueueCreate = STATUS_SUCCESS\<rparr>"

definition example_ios :: ioctl_os where
  "example_ios = \<lparr>io_now = 0, io_mdl_ok = True, io_mapped = MapNull, io_create = pdo_create_ok, io_in_D0 = True,
     io_ObOpenObjectByPointer = (STATUS_SUCCESS, 8), io_alloc = (\<lambda>_ _. True),
     io_file = \<lparr>fo_create = (STATUS_SUCCESS, \<lambda>_. 0), fo_created = True, fo_sparse = STATUS_SUCCESS,
       fo_set_eof = (\<lambda>m _. (STATUS_SUCCESS, m))\<rparr>\<rparr>"

definition example_request :: "mem \<Rightarrow> WDFREQUEST" where
  "example_request b = \<lparr>rq_SystemBuffer = b, rq_InputBufferLength = 4096, rq_OutputBufferLength = 4096,
     rq_RetrieveInputBuffer = STATUS_SUCCESS, rq_RetrieveOutputBuffer = STATUS_SUCCESS\<rparr>"

definition example_driver :: vnvme_driver where
  "example_driver = \<lparr>drv_Config = g_Config_init,
     drv_Fdo = Some ((initial_FDO 0)\<lparr>fd_ControlDevice := True, fd_ControlQueue := True\<rparr>)\<rparr>"

definition example_driver1 :: vnvme_driver where
  "example_driver1 = res_Driver (VnvmeHandleCreateController example_ios (example_request (\<lambda>_. 0)) example_driver)"

lemma example_driver_loaded:
  "DriverEntry False False (\<lambda>_. None) STATUS_SUCCESS = (STATUS_SUCCESS, \<lparr>drv_Config = g_Config_init, drv_Fdo = None\<rparr>)"
  "VnvmeEvtDeviceAdd STATUS_SUCCESS 0 control_create_ok \<lparr>drv_Config = g_Config_init, drv_Fdo = None\<rparr> = (STATUS_SUCCESS, example_driver)"
  by (simp_all add: DriverEntry_def VnvmeConfigInit_def VnvmeEvtDeviceAdd_def VnvmeCreateControlDevice_def control_create_ok_def example_driver_def)

lemma example_driver1_step: "control_step example_driver example_driver1"
  unfolding example_driver1_def
  by (rule control_step.request [where os = example_ios and code = IOCTL_VNVME_CREATE_CONTROLLER and rq = "example_request (\<lambda>_. 0)"])
    (simp add: VnvmeEvtIoDeviceControl_def vnvme_code_def CTL_CODE_def IOCTL_VNVME_GET_VERSION_def IOCTL_VNVME_GET_STATUS_def
      IOCTL_VNVME_MAP_SHM_def IOCTL_VNVME_USER_READY_def IOCTL_VNVME_HEARTBEAT_def IOCTL_VNVME_CREATE_CONTROLLER_def)

lemma example_driver1_eq: "\<exists>f. drv_Fdo example_driver1 = Some f \<and> fd_ChildDeviceList f = [created_PDO 1]"
  by (simp add: example_driver1_def VnvmeHandleCreateController_def example_driver_def example_request_def example_ios_def
      initial_FDO_def VnvmeCreateVirtualController_def VnvmeCreateControllerPdo_ok Let_def answered_def)

theorem control_requests_keep_tables_witness:
  "\<exists>f. drv_Fdo example_driver1 = Some f \<and> fd_ChildDeviceList f = [created_PDO 1] \<and> unat (fd_ChildDeviceCount f) = 1"
proof -
  obtain f where f: "drv_Fdo example_driver1 = Some f" "fd_ChildDeviceList f = [created_PDO 1]"
    using example_driver1_eq by blast
  with control_requests_keep_tables [OF example_driver_loaded r_into_rtranclp [where r = control_step, OF example_driver1_step], of example_ios 0
      "example_request (\<lambda>_. 0)"] show ?thesis by simp
qed

lemma created_namespace:
  assumes "driver_ok d" "VnvmeHandleCreateNamespace os rq d = Some r" "NT_SUCCESS (res_Status r)"
  shows "\<exists>f f' p p' i n. drv_Fdo d = Some f \<and> drv_Fdo (res_Driver r) = Some f'
    \<and> CtrlDevFindController f (rd32 (rq_SystemBuffer rq) 0) = Some p
    \<and> CtrlDevFindController f' = (CtrlDevFindController f)(rd32 (rq_SystemBuffer rq) 0 \<mapsto> p')
    \<and> i < VNVME_MAX_NAMESPACES \<and> rd32 (res_Buffer r) 0 = of_nat i + 1 \<and> \<not> ns_Active (pdo_Namespaces p ! i)
    \<and> pdo_Namespaces p' = (pdo_Namespaces p)[i := n] \<and> pdo_NamespaceCount p' = pdo_NamespaceCount p + 1
    \<and> ns_NsId n = rd32 (res_Buffer r) 0 \<and> ns_TotalBlocks n = rd64 (rq_SystemBuffer rq) 8
    \<and> ns_BlockSize n = (if rd32 (rq_SystemBuffer rq) 16 = 0 then 512 else rd32 (rq_SystemBuffer rq) 16)
    \<and> ns_backed n \<and> (\<forall>cmd c. NSID cmd = rd32 (res_Buffer r) 0 \<and> pdo c = p' \<longrightarrow> selects cmd c i n)
    \<and> (\<exists>S. n = (requested_namespace (rq_SystemBuffer rq) i)\<lparr>ns_Storage := S, ns_Active := True\<rparr>)"
  using assms(1,2)
proof (cases rule: VnvmeHandleCreateNamespace_cases)
  case (bad status)
  with assms(3) show ?thesis by (simp add: refused_def)
next
  case (failed status f p i)
  with assms(3) show ?thesis by (simp add: refused_def)
next
  case (added f p i S)
  let ?b = "rq_SystemBuffer rq" and ?n = "(requested_namespace (rq_SystemBuffer rq) i)\<lparr>ns_Storage := S, ns_Active := True\<rparr>"
  let ?p = "with_new_namespace (rq_SystemBuffer rq) i S p"
  note a = added [unfolded namespace_added_def Let_def]
  have p: "controller_ok p" "pdo_ControllerId p = rd32 ?b 0"
    using driver_okD(3) [OF assms(1), of f "rd32 ?b 0" p] a by (auto simp: CtrlDevFindController_def)
  have len: "i < length (pdo_Namespaces p)" "i < 16" using a p(1) by (simp_all add: controller_ok_def pdo_wf_def)
  have p': "pdo_Namespaces ?p = (pdo_Namespaces p)[i := ?n]" "pdo_NamespaceCount ?p = pdo_NamespaceCount p + 1" "pdo_ControllerId ?p = rd32 ?b 0"
    by (simp_all add: with_new_namespace_def upd_Namespace_def p(2))
  have geometry: "ns_NsId ?n = of_nat i + 1" "ns_TotalBlocks ?n = rd64 ?b 8" "ns_BlockSize ?n = (if rd32 ?b 16 = 0 then 512 else rd32 ?b 16)"
    by (simp_all add: requested_namespace_def new_namespace_def Let_def)
  have "namespace_ok i ?n" using a by (intro namespace_ok_requested) auto
  then have backed: "ns_backed ?n" by (simp add: namespace_ok_def ns_backed_def)
  have sel: "selects cmd c i ?n" if "NSID cmd = of_nat i + 1" "pdo c = ?p" for cmd c
  proof -
    have "unat (of_nat i + 1 :: u32) = i + 1" using len(2) by (simp add: unat_word_ariths unat_of_nat)
    then have nsid: "(0 :: u32) < of_nat i + 1" "(of_nat i + 1 :: u32) \<le> 16"
      using len(2) by (simp_all add: word_le_nat_alt word_less_nat_alt)
    show ?thesis
      using that len nsid by (simp add: selects_def p' VNVME_NSID_VALID_def VNVME_NSID_TO_INDEX_def unat_of_nat)
  qed
  have "distinct (controller_ids (fd_ChildDeviceList f))"
    using driver_okD(1) [OF assms(1)] a by (auto simp: bus_ok_def)
  then have find: "find_controller (put_controller (fd_ChildDeviceList f) ?p) = (find_controller (fd_ChildDeviceList f))(rd32 ?b 0 \<mapsto> ?p)"
    using controllers.replace_lookup [of "fd_ChildDeviceList f" ?p] a p' by (simp add: CtrlDevFindController_def)
  have out: "drv_Fdo (res_Driver r) = Some (f\<lparr>fd_ChildDeviceList := put_controller (fd_ChildDeviceList f) ?p\<rparr>)"
      "rd32 (res_Buffer r) 0 = of_nat i + 1"
    using a by (simp_all add: answered_def put_pdo_def mem_simps)
  show ?thesis
    by (rule exI [of _ f], rule exI [of _ "f\<lparr>fd_ChildDeviceList := put_controller (fd_ChildDeviceList f) ?p\<rparr>"],
        rule exI [of _ p], rule exI [of _ ?p], rule exI [of _ i], rule exI [of _ ?n])
      (use a out find p' geometry backed sel in \<open>auto simp: CtrlDevFindController_def fun_eq_iff\<close>)
qed

text \<open>C9: a namespace the control device reports as created is there for commands. Exactly one slot of exactly that controller changed,
  from inactive to a namespace of the requested geometry; its number is the one in the answer; every command that names it on the
  controller finds it, and its storage holds all its blocks. (What a command then does is the subject of the I/O
  properties, which are limited to transfers of 2 MiB.)\<close>

theorem created_namespace_usable:
  assumes "driver_ok d" "VnvmeHandleCreateNamespace os rq d = Some r" "NT_SUCCESS (res_Status r)"
  shows "\<exists>f f' p p' i n. drv_Fdo d = Some f \<and> drv_Fdo (res_Driver r) = Some f'
    \<and> CtrlDevFindController f (rd32 (rq_SystemBuffer rq) 0) = Some p
    \<and> CtrlDevFindController f' = (CtrlDevFindController f)(rd32 (rq_SystemBuffer rq) 0 \<mapsto> p')
    \<and> i < VNVME_MAX_NAMESPACES \<and> rd32 (res_Buffer r) 0 = of_nat i + 1 \<and> \<not> ns_Active (pdo_Namespaces p ! i)
    \<and> pdo_Namespaces p' = (pdo_Namespaces p)[i := n] \<and> pdo_NamespaceCount p' = pdo_NamespaceCount p + 1
    \<and> ns_NsId n = rd32 (res_Buffer r) 0 \<and> ns_TotalBlocks n = rd64 (rq_SystemBuffer rq) 8
    \<and> ns_BlockSize n = (if rd32 (rq_SystemBuffer rq) 16 = 0 then 512 else rd32 (rq_SystemBuffer rq) 16)
    \<and> ns_backed n \<and> (\<forall>cmd c. NSID cmd = rd32 (res_Buffer r) 0 \<and> pdo c = p' \<longrightarrow> selects cmd c i n)"
  using created_namespace [OF assms] by blast

text \<open>The property for a namespace of eight blocks on the controller of the example.\<close>

definition example_namespace_request :: WDFREQUEST where
  "example_namespace_request = example_request (wr32 16 512 (wr64 8 8 (wr32 0 1 (\<lambda>_. 0))))"

lemma driver_ok_example1: "driver_ok example_driver1"
proof -
  have "driver_ok example_driver"
    using driver_ok_VnvmeEvtDeviceAdd [OF driver_ok_DriverEntry, of STATUS_SUCCESS 0 control_create_ok False False "\<lambda>_. None" STATUS_SUCCESS]
    by (simp add: example_driver_loaded)
  then show ?thesis using control.preserved [OF _ example_driver1_step] by blast
qed

lemma example_namespace_created:
  "\<exists>r. VnvmeHandleCreateNamespace example_ios example_namespace_request example_driver1 = Some r \<and> NT_SUCCESS (res_Status r)"
proof -
  obtain f where f: "drv_Fdo example_driver1 = Some f" "fd_ChildDeviceList f = [created_PDO 1]"
    using example_driver1_eq by blast
  have cfg: "drv_Config example_driver1 = g_Config_init"
    by (simp add: example_driver1_def VnvmeHandleCreateController_def example_driver_def example_request_def example_ios_def
        initial_FDO_def VnvmeCreateVirtualController_def VnvmeCreateControllerPdo_ok Let_def answered_def)
  have fields: "rd32 (wr32 16 512 (wr64 8 8 (wr32 0 1 (\<lambda>_. 0)))) 0 = 1" "rd32 (wr32 16 512 (wr64 8 8 (wr32 0 1 (\<lambda>_. 0)))) 16 = 512"
      "rd32 (wr32 16 512 (wr64 8 8 (wr32 0 1 (\<lambda>_. 0)))) 20 = 0" "rd64 (wr32 16 512 (wr64 8 8 (wr32 0 1 (\<lambda>_. 0)))) 8 = 8"
    by (simp_all add: mem_simps)
  have slot: "free_slot 0 (take 16 (pdo_Namespaces (created_PDO 1))) = Some 0" "pdo_NamespaceCount (created_PDO 1) = 0"
      "pdo_ControllerId (created_PDO 1) = 1"
    by (simp_all add: created_PDO_def zero_PDO_CONTEXT_def zero_NAMESPACE_def numeral_eq_Suc)
  show ?thesis
    by (simp add: VnvmeHandleCreateNamespace_def example_namespace_request_def example_request_def f cfg fields slot Let_def
        CtrlDevFindController_def check_geometry_def new_namespace_def zero_NAMESPACE_def storage_choice_def g_Config_init_def
        VnvmeStorageCreate_def StorageMemoryInit_def example_ios_def answered_def)
qed

theorem created_namespace_usable_witness:
  "\<exists>r f' p' n. VnvmeHandleCreateNamespace example_ios example_namespace_request example_driver1 = Some r
    \<and> drv_Fdo (res_Driver r) = Some f' \<and> CtrlDevFindController f' 1 = Some p' \<and> ns_backed n \<and> ns_TotalBlocks n = 8
    \<and> (\<exists>i. pdo_Namespaces p' ! i = n \<and> i < 16)"
proof -
  obtain r where r: "VnvmeHandleCreateNamespace example_ios example_namespace_request example_driver1 = Some r" "NT_SUCCESS (res_Status r)"
    using example_namespace_created by blast
  have fields: "rd32 (rq_SystemBuffer example_namespace_request) 0 = 1" "rd64 (rq_SystemBuffer example_namespace_request) 8 = 8"
    by (simp_all add: example_namespace_request_def example_request_def mem_simps)
  from created_namespace_usable [OF driver_ok_example1 r] obtain f f' p p' i n where
    n: "drv_Fdo (res_Driver r) = Some f'" "CtrlDevFindController f 1 = Some p" "CtrlDevFindController f' = (CtrlDevFindController f)(1 \<mapsto> p')"
      "i < 16" "pdo_Namespaces p' = (pdo_Namespaces p)[i := n]" "ns_TotalBlocks n = 8" "ns_backed n" "drv_Fdo example_driver1 = Some f"
    unfolding fields by blast
  have "length (pdo_Namespaces p) = 16"
    using driver_okD(3) [OF driver_ok_example1 n(8)] n(2) by (auto simp: CtrlDevFindController_def controller_ok_def pdo_wf_def)
  then have "pdo_Namespaces p' ! i = n" using n(4,5) by simp
  with r(1) n show ?thesis by auto
qed

section \<open>Configuration requests\<close>

lemma length_units: "length (concat (map (\<lambda>u :: u16. [ucast u, ucast (drop_bit 8 u) :: u8]) us)) = 2 * length us"
  by (induction us) auto

lemma rd32_wr_units_apart: "b + 4 \<le> a \<or> a + 2 * length us \<le> b \<Longrightarrow> rd32 (wr_units a us m) b = rd32 m b"
  unfolding wr_units_def by (rule rd_wr_bytes_apart) (simp add: length_units)

lemma heartbeat_ms:
  fixes ms :: u32
  shows "1000 * 10000 \<le> sint (ucast ms * 10000 :: u64) \<and> sint (ucast ms * 10000 :: u64) \<le> 60000 * 10000 \<longleftrightarrow> 1000 \<le> ms \<and> ms \<le> 60000"
    and "ucast (ticks_to_ms (ucast ms * 10000)) = ms"
proof -
  have t: "unat (ucast ms * 10000 :: u64) = unat ms * 10000"
    using unat_u32_bound [of ms] by (simp add: unat_word_ariths)
  then have s: "sint (ucast ms * 10000 :: u64) = int (unat ms * 10000)"
    using unat_u32_bound [of ms] sint_small [of "ucast ms * 10000"] by simp
  have i: "1000 \<le> ms \<longleftrightarrow> 1000 \<le> unat ms" "ms \<le> 60000 \<longleftrightarrow> unat ms \<le> 60000"
    by (simp_all add: word_le_nat_alt)
  have "1000 * 10000 \<le> int (k * 10000) \<and> int (k * 10000) \<le> 60000 * 10000 \<longleftrightarrow> 1000 \<le> k \<and> k \<le> 60000" for k
    by auto
  then show "1000 * 10000 \<le> sint (ucast ms * 10000 :: u64) \<and> sint (ucast ms * 10000 :: u64) \<le> 60000 * 10000 \<longleftrightarrow> 1000 \<le> ms \<and> ms \<le> 60000"
    unfolding s i .
  have "\<not> bit (ucast ms * 10000 :: u64) 63"
  proof
    assume "bit (ucast ms * 10000 :: u64) 63"
    moreover have "(ucast ms * 10000 :: u64) < 2 ^ 63"
      using t unat_u32_bound [of ms] by (simp add: word_less_nat_alt)
    ultimately show False using bit_below by blast
  qed
  moreover have "(ucast ms * 10000 :: u64) div 10000 = ucast ms"
    by (rule word_unat_eq_iff [THEN iffD2]) (simp add: unat_div t)
  moreover have "ucast (ucast ms :: u64) = ms"
    by (rule bit_word_eqI) (simp add: bit_simps)
  ultimately show "ucast (ticks_to_ms (ucast ms * 10000)) = ms"
    by (simp add: ticks_to_ms_def)
qed

text \<open>What the dynamic fields are after a request: the requested value where the mask has the field and the value is in range.\<close>

definition dynamic_fields :: "VNVME_CONFIG \<Rightarrow> u32 list" where
  "dynamic_fields g = [DebugLevel g, DebugFlags g, ucast (ticks_to_ms (HeartbeatTimeout100ns g)), DoorbellPollIntervalUs g, BatchSize g]"

lemma config_update_fields:
  "DebugLevel (snd (VnvmeConfigUpdate (Some c) g)) = DebugLevel c" "DebugFlags (snd (VnvmeConfigUpdate (Some c) g)) = DebugFlags c"
  "HeartbeatTimeout100ns (snd (VnvmeConfigUpdate (Some c) g)) =
     (if 1000 * 10000 \<le> sint (HeartbeatTimeout100ns c) \<and> sint (HeartbeatTimeout100ns c) \<le> 60000 * 10000
      then HeartbeatTimeout100ns c else HeartbeatTimeout100ns g)"
  "DoorbellPollIntervalUs (snd (VnvmeConfigUpdate (Some c) g)) =
     (if 1 \<le> DoorbellPollIntervalUs c \<and> DoorbellPollIntervalUs c \<le> 10000 then DoorbellPollIntervalUs c else DoorbellPollIntervalUs g)"
  "BatchSize (snd (VnvmeConfigUpdate (Some c) g)) = (if 1 \<le> BatchSize c \<and> BatchSize c \<le> 256 then BatchSize c else BatchSize g)"
  by (simp_all add: VnvmeConfigUpdate_def Let_def)

lemma requested_fields:
  "DebugLevel (requested_config fieldMask b g) = (if bit fieldMask 0 then rd32 b 8 else DebugLevel g)"
  "DebugFlags (requested_config fieldMask b g) = (if bit fieldMask 1 then rd32 b 12 else DebugFlags g)"
  "HeartbeatTimeout100ns (requested_config fieldMask b g) = (if bit fieldMask 2 then ucast (rd32 b 16) * 10000 else HeartbeatTimeout100ns g)"
  "DoorbellPollIntervalUs (requested_config fieldMask b g) = (if bit fieldMask 3 then rd32 b 568 else DoorbellPollIntervalUs g)"
  "BatchSize (requested_config fieldMask b g) = (if bit fieldMask 4 then rd32 b 572 else BatchSize g)"
  by (simp_all add: requested_config_def Let_def)

lemma dynamic_fields_update:
  "dynamic_fields (snd (VnvmeConfigUpdate (Some (requested_config fieldMask b g)) g)) =
    [if bit fieldMask 0 then rd32 b 8 else DebugLevel g, if bit fieldMask 1 then rd32 b 12 else DebugFlags g,
     if bit fieldMask 2 \<and> 1000 \<le> rd32 b 16 \<and> rd32 b 16 \<le> 60000 then rd32 b 16 else ucast (ticks_to_ms (HeartbeatTimeout100ns g)),
     if bit fieldMask 3 \<and> 1 \<le> rd32 b 568 \<and> rd32 b 568 \<le> 10000 then rd32 b 568 else DoorbellPollIntervalUs g,
     if bit fieldMask 4 \<and> 1 \<le> rd32 b 572 \<and> rd32 b 572 \<le> 256 then rd32 b 572 else BatchSize g]"
  unfolding dynamic_fields_def config_update_fields requested_fields
  using heartbeat_ms [of "rd32 b 16"] by simp

lemma VnvmeHandleGetConfig_fields:
  assumes "length (StoragePath (drv_Config d)) = 260" "584 \<le> rq_OutputBufferLength rq" "NT_SUCCESS (rq_RetrieveOutputBuffer rq)"
  shows "\<exists>b. VnvmeHandleGetConfig rq d = answered 584 b d
    \<and> map (rd32 b) [0, 4, 8, 560, 564] = dynamic_fields (drv_Config d) \<and> rd32 b 576 = VNVME_CONFIG_FIELD_ALL_DYNAMIC
    \<and> map (rd32 b) [16, 20, 544, 548, 552] = [storage_type_code (StorageType (drv_Config d)), StorageSizeGB (drv_Config d),
        MaxIOQueues (drv_Config d), AdminQueueDepth (drv_Config d), IOQueueDepth (drv_Config d)]"
  using assms
  by (intro exI [of _ "res_Buffer (VnvmeHandleGetConfig rq d)"])
    (simp add: VnvmeHandleGetConfig_def Let_def dynamic_fields_def answered_def mem_simps rd32_wr_units_apart)

text \<open>C34: the configuration requests. A SET_CONFIG whose mask names dynamic fields only is answered with success, changes
  none of the settings fixed at start-up and keeps the settings the driver checks in range. A GET_CONFIG afterwards reports the heartbeat timeout,
  the polling interval and the batch size with the requested value where the mask named it and the value is in range, and as before
  otherwise; and DebugLevel and DebugFlags with the requested value where the mask named them, whatever it is: the driver does not
  check DebugLevel, for which the header gives the range 1 to 5.\<close>

theorem set_config_then_get_config:
  assumes "config_ok (drv_Config d)" "584 \<le> rq_InputBufferLength rq" "NT_SUCCESS (rq_RetrieveInputBuffer rq)"
    "rd32 (rq_SystemBuffer rq) 0 AND NOT VNVME_CONFIG_FIELD_ALL_DYNAMIC = 0"
    "584 \<le> rq_OutputBufferLength rq2" "NT_SUCCESS (rq_RetrieveOutputBuffer rq2)"
  shows "\<exists>d' b'. VnvmeHandleSetConfig rq d = answered 0 (rq_SystemBuffer rq) d' \<and> drv_Fdo d' = drv_Fdo d
    \<and> config_ok (drv_Config d') \<and> config_fixed_part (drv_Config d') = config_fixed_part (drv_Config d)
    \<and> VnvmeHandleGetConfig rq2 d' = answered 584 b' d'
    \<and> (let b = rq_SystemBuffer rq; fieldMask = rd32 b 0; g = drv_Config d in map (rd32 b') [0, 4, 8, 560, 564] =
      [if bit fieldMask 0 then rd32 b 8 else DebugLevel g, if bit fieldMask 1 then rd32 b 12 else DebugFlags g,
       if bit fieldMask 2 \<and> 1000 \<le> rd32 b 16 \<and> rd32 b 16 \<le> 60000 then rd32 b 16 else ucast (ticks_to_ms (HeartbeatTimeout100ns g)),
       if bit fieldMask 3 \<and> 1 \<le> rd32 b 568 \<and> rd32 b 568 \<le> 10000 then rd32 b 568 else DoorbellPollIntervalUs g,
       if bit fieldMask 4 \<and> 1 \<le> rd32 b 572 \<and> rd32 b 572 \<le> 256 then rd32 b 572 else BatchSize g])"
proof -
  let ?b = "rq_SystemBuffer rq"
  let ?g = "snd (VnvmeConfigUpdate (Some (requested_config (rd32 ?b 0) ?b (drv_Config d))) (drv_Config d))"
  let ?d = "d\<lparr>drv_Config := ?g\<rparr>"
  have set: "VnvmeHandleSetConfig rq d = answered 0 ?b ?d"
    using assms(2-4) by (simp add: VnvmeHandleSetConfig_def Let_def case_prod_beta) (simp add: VnvmeConfigUpdate_def Let_def)
  have g: "config_ok ?g" "config_fixed_part ?g = config_fixed_part (drv_Config d)"
    using config_ok_dynamic(2) [OF assms(1)] by (simp_all add: config_fixed_part_def VnvmeConfigUpdate_def Let_def)
  then have "length (StoragePath (drv_Config ?d)) = 260" by (simp add: config_ok_def)
  from VnvmeHandleGetConfig_fields [OF this assms(5,6)] obtain b' where
    "VnvmeHandleGetConfig rq2 ?d = answered 584 b' ?d" "map (rd32 b') [0, 4, 8, 560, 564] = dynamic_fields ?g"
    by auto
  with set g show ?thesis
    unfolding Let_def dynamic_fields_update by (intro exI [of _ ?d] exI [of _ b'] conjI) simp_all
qed

theorem set_config_then_get_config_witness:
  "\<exists>d' b'. VnvmeHandleSetConfig (example_request (wr32 572 64 (wr32 568 0 (wr32 0 0x18 (\<lambda>_. 0))))) example_driver = answered 0
      (wr32 572 64 (wr32 568 0 (wr32 0 0x18 (\<lambda>_. 0)))) d'
    \<and> VnvmeHandleGetConfig (example_request (\<lambda>_. 0)) d' = answered 584 b' d' \<and> rd32 b' 560 = 100 \<and> rd32 b' 564 = 64"
proof -
  let ?rq = "example_request (wr32 572 64 (wr32 568 0 (wr32 0 0x18 (\<lambda>_. 0))))"
  have b: "rd32 (rq_SystemBuffer ?rq) 0 = 0x18" "rd32 (rq_SystemBuffer ?rq) 568 = 0" "rd32 (rq_SystemBuffer ?rq) 572 = 64"
    by (simp_all add: example_request_def mem_simps)
  have bits: "bit (0x18 :: u32) 3" "bit (0x18 :: u32) 4" by simp_all
  have "config_ok (drv_Config example_driver)" "584 \<le> rq_InputBufferLength ?rq" "NT_SUCCESS (rq_RetrieveInputBuffer ?rq)"
      "rd32 (rq_SystemBuffer ?rq) 0 AND NOT VNVME_CONFIG_FIELD_ALL_DYNAMIC = 0"
      "584 \<le> rq_OutputBufferLength (example_request (\<lambda>_. 0))" "NT_SUCCESS (rq_RetrieveOutputBuffer (example_request (\<lambda>_. 0)))"
    by (simp_all add: config_ok_init example_driver_def example_request_def mem_simps)
  from set_config_then_get_config [OF this] obtain d' b' where
    "VnvmeHandleSetConfig ?rq example_driver = answered 0 (rq_SystemBuffer ?rq) d'"
    "VnvmeHandleGetConfig (example_request (\<lambda>_. 0)) d' = answered 584 b' d'"
    "rd32 b' 560 = DoorbellPollIntervalUs (drv_Config example_driver)" "rd32 b' 564 = 64"
    unfolding b Let_def by (auto simp: bits)
  moreover have "rq_SystemBuffer ?rq = wr32 572 64 (wr32 568 0 (wr32 0 0x18 (\<lambda>_. 0)))"
      "DoorbellPollIntervalUs (drv_Config example_driver) = 100"
    by (simp_all add: example_request_def example_driver_def g_Config_init_def)
  ultimately show ?thesis by metis
qed

section \<open>Gaps of the control device\<close>

text \<open>The namespaces of a controller cannot be listed. The handler clears the output structure, which lies in the same
  buffer as the input, before it reads the number of the controller, so it always looks for number 0; numbers are given
  out from 1 on, and the request fails whatever controller was asked for.\<close>

theorem list_namespaces_never_finds:
  assumes "drv_Fdo d = Some f" "\<forall>p\<in>set (fd_ChildDeviceList f). pdo_ControllerId p \<noteq> 0"
    "8 \<le> rq_InputBufferLength rq" "392 \<le> rq_OutputBufferLength rq"
    "NT_SUCCESS (rq_RetrieveInputBuffer rq)" "NT_SUCCESS (rq_RetrieveOutputBuffer rq)"
  shows "res_Status (VnvmeHandleListNamespaces rq d) = STATUS_NOT_FOUND \<and> res_Information (VnvmeHandleListNamespaces rq d) = 0"
proof -
  have zero: "rd32 (zero_range 0 392 (rq_SystemBuffer rq)) 0 = 0"
    by (simp add: rd32_def rd16_def zero_range_def)
  have "find_controller (fd_ChildDeviceList f) 0 = None"
    using assms(2) by (auto simp: find_controller_None)
  with assms zero show ?thesis
    by (simp add: VnvmeHandleListNamespaces_def CtrlDevFindController_def Let_def refused_def)
qed

theorem list_namespaces_never_finds_witness:
  "res_Status (VnvmeHandleListNamespaces (example_request (wr32 0 1 (\<lambda>_. 0))) example_driver1) = STATUS_NOT_FOUND"
proof -
  obtain f where f: "drv_Fdo example_driver1 = Some f" "fd_ChildDeviceList f = [created_PDO 1]"
    using example_driver1_eq by blast
  have "\<forall>p\<in>set (fd_ChildDeviceList f). pdo_ControllerId p \<noteq> 0"
    by (simp add: f created_PDO_def)
  with list_namespaces_never_finds [OF f(1), of "example_request (wr32 0 1 (\<lambda>_. 0))"] show ?thesis
    by (simp add: example_request_def)
qed

text \<open>GET_STATUS hands out memory it never wrote. The answer has 88 bytes, of which the handler sets 40; the rest, the fields
  for the service's readiness and process, completions, bytes moved and times, still holds what the system buffer held before.\<close>

theorem get_status_leaks_buffer:
  assumes "drv_Fdo d = Some f" "88 \<le> rq_OutputBufferLength rq" "NT_SUCCESS (rq_RetrieveOutputBuffer rq)"
  shows "res_Status (VnvmeHandleGetStatus rq d) = STATUS_SUCCESS \<and> res_Information (VnvmeHandleGetStatus rq d) = 88
    \<and> (\<forall>x\<in>{24..<32} \<union> {40..<64} \<union> {72..<88}. res_Buffer (VnvmeHandleGetStatus rq d) x = rq_SystemBuffer rq x)"
  using assms
  by (auto simp: VnvmeHandleGetStatus_def Let_def answered_def wr32_outside wr64_outside)

theorem get_status_leaks_buffer_witness:
  "res_Information (VnvmeHandleGetStatus (example_request (\<lambda>_. 0xAB)) example_driver) = 88
    \<and> res_Buffer (VnvmeHandleGetStatus (example_request (\<lambda>_. 0xAB)) example_driver) 80 = 0xAB"
  using get_status_leaks_buffer [of example_driver "(initial_FDO 0)\<lparr>fd_ControlDevice := True, fd_ControlQueue := True\<rparr>"
      "example_request (\<lambda>_. 0xAB)"]
  by (simp add: example_driver_def example_request_def)

text \<open>A service that was declared dead cannot come back. After the heartbeat ran out, a new service may report itself
  ready, but the crash mark and the kernel command mode stay: the timer never checks the new service's heartbeat, and no command
  is handed to it.\<close>

theorem reconnected_service_ignored:
  assumes "drv_Fdo d = Some f" "fdo_UserCrashed (fd_Context f)" "fdo_CommandMode (fd_Context f) = VNVME_CMD_MODE_KERNEL"
    "16 \<le> rq_InputBufferLength rq" "NT_SUCCESS (rq_RetrieveInputBuffer rq)" "drop_bit 16 (rd32 (rq_SystemBuffer rq) 4) = 1"
  shows "\<exists>f'. VnvmeHandleUserReady os rq d = answered 0 (rq_SystemBuffer rq) (d\<lparr>drv_Fdo := Some f'\<rparr>)
    \<and> fdo_UserReady (fd_Context f') \<and> fd_UserPid f' = rd32 (rq_SystemBuffer rq) 0
    \<and> (\<forall>c now others. g_FdoContext c = Some (fd_Context f') \<longrightarrow>
         CheckUserModeHeartbeat now others c = Some (others, c) \<and> fdo_CommandMode (fd_Context f') = VNVME_CMD_MODE_KERNEL)"
proof -
  let ?f = "f\<lparr>fd_UserPid := rd32 (rq_SystemBuffer rq) 0,
      fd_Context := (fd_Context f)\<lparr>fdo_UserReady := True, fdo_LastHeartbeat := io_now os\<rparr>, fd_UserReadyEvent := True\<rparr>"
  have "VnvmeHandleUserReady os rq d = answered 0 (rq_SystemBuffer rq) (d\<lparr>drv_Fdo := Some ?f\<rparr>)"
    using assms by (simp add: VnvmeHandleUserReady_def Let_def)
  with assms(2,3) show ?thesis
    by (intro exI [of _ ?f]) (simp add: CheckUserModeHeartbeat_def)
qed

theorem reconnected_service_ignored_witness:
  "\<exists>f'. VnvmeHandleUserReady example_ios (example_request (wr32 4 0x00010000 (wr32 0 1234 (\<lambda>_. 0))))
      (example_driver\<lparr>drv_Fdo := Some ((initial_FDO 0)\<lparr>fd_Context := (fd_Context (initial_FDO 0))\<lparr>fdo_UserCrashed := True,
         fdo_CommandMode := VNVME_CMD_MODE_KERNEL\<rparr>\<rparr>)\<rparr>)
    = answered 0 (wr32 4 0x00010000 (wr32 0 1234 (\<lambda>_. 0))) (example_driver\<lparr>drv_Fdo := Some f'\<rparr>) \<and> fd_UserPid f' = 1234"
proof -
  let ?f = "(initial_FDO 0)\<lparr>fd_Context := (fd_Context (initial_FDO 0))\<lparr>fdo_UserCrashed := True, fdo_CommandMode := VNVME_CMD_MODE_KERNEL\<rparr>\<rparr>"
  let ?rq = "example_request (wr32 4 0x00010000 (wr32 0 1234 (\<lambda>_. 0)))"
  have "rd32 (rq_SystemBuffer ?rq) 4 = 0x00010000" "rd32 (rq_SystemBuffer ?rq) 0 = 1234" "rq_SystemBuffer ?rq = wr32 4 0x00010000 (wr32 0 1234 (\<lambda>_. 0))"
    by (simp_all add: example_request_def mem_simps)
  with reconnected_service_ignored [of "example_driver\<lparr>drv_Fdo := Some ?f\<rparr>" ?f ?rq example_ios] show ?thesis
    by (auto simp: example_request_def)
qed

end
