(* ===== verification/Vnvme_Driver_Comm.thy ===== *)
theory Vnvme_Driver_Comm
  imports Vnvme_Control_Props
begin

text \<open>
  \<^verbatim>\<open>vnvme-server/driver_comm.h\<close> and \<^verbatim>\<open>driver_comm.c\<close>: how the service talks to the driver. A request goes through the system's
  \<open>DeviceIoControl\<close>, which is an argument; \<open>buffered_device\<close> is what is known about it, and \<open>io_manager\<close> a function that
  satisfies it. The shared memory is reached through the address the driver mapped it at: the service reads and writes
  the driver's own bytes.
\<close>

section \<open>Requests to the driver\<close>

type_synonym HANDLE = u64

abbreviation (input) INVALID_HANDLE_VALUE :: HANDLE where "INVALID_HANDLE_VALUE \<equiv> - 1"

text \<open>Handle, code, input bytes and output buffer; the success flag and the output buffer afterwards.\<close>

type_synonym device_io = "HANDLE \<Rightarrow> u32 \<Rightarrow> u8 list \<Rightarrow> u8 list \<Rightarrow> vnvme_driver \<Rightarrow> (bool \<times> u8 list \<times> vnvme_driver) option"

text \<open>The request the driver gets: the lengths the caller gave, and a system buffer that begins with the input.\<close>

definition request_for :: "u8 list \<Rightarrow> u8 list \<Rightarrow> WDFREQUEST \<Rightarrow> bool" where
  "request_for inp out rq \<longleftrightarrow> rq_InputBufferLength rq = length inp \<and> rq_OutputBufferLength rq = length out
     \<and> (\<forall>i<length inp. rq_SystemBuffer rq i = inp ! i)"

text \<open>What the caller sees of the completed request.\<close>

definition completed :: "u8 list \<Rightarrow> ioctl_result \<Rightarrow> bool \<times> u8 list \<times> vnvme_driver" where
  "completed out r =
     (if NT_SUCCESS (res_Status r)
      then (True, let n = min (res_Information r) (length out) in rd_bytes (res_Buffer r) 0 n @ drop n out, res_Driver r)
      else (False, out, res_Driver r))"

locale buffered_device =
  fixes DeviceIoControl :: device_io
  assumes device_io: "DeviceIoControl h code inp out d = Some (False, out, d)
    \<or> (\<exists>os rq. request_for inp out rq
        \<and> DeviceIoControl h code inp out d = map_option (completed out) (VnvmeEvtIoDeviceControl os code rq d))"

text \<open>A system that passes every request of an open handle on.\<close>

definition buffered_request :: "u8 list \<Rightarrow> u8 list \<Rightarrow> WDFREQUEST" where
  "buffered_request inp out =
     \<lparr>rq_SystemBuffer = (\<lambda>i. if i < length inp then inp ! i else 0), rq_InputBufferLength = length inp,
      rq_OutputBufferLength = length out, rq_RetrieveInputBuffer = STATUS_SUCCESS, rq_RetrieveOutputBuffer = STATUS_SUCCESS\<rparr>"

definition io_manager :: "ioctl_os \<Rightarrow> device_io" where
  "io_manager os h code inp out d =
     (if h = 0 \<or> h = INVALID_HANDLE_VALUE then Some (False, out, d)
      else map_option (completed out) (VnvmeEvtIoDeviceControl os code (buffered_request inp out) d))"

lemma request_for_buffered: "request_for inp out (buffered_request inp out)"
  by (simp add: request_for_def buffered_request_def)

interpretation io_manager: buffered_device "io_manager os"
proof
  fix h code inp out d
  show "io_manager os h code inp out d = Some (False, out, d)
    \<or> (\<exists>os' rq. request_for inp out rq
        \<and> io_manager os h code inp out d = map_option (completed out) (VnvmeEvtIoDeviceControl os' code rq d))"
    using request_for_buffered [of inp out] by (auto simp: io_manager_def)
qed

text \<open>The bytes behind the address the service got, and the driver after the service changed them.\<close>

definition user_view :: "vnvme_driver \<Rightarrow> u64 \<Rightarrow> mem option" where
  "user_view d a =
     (case drv_Fdo d of
        None \<Rightarrow> None
      | Some f \<Rightarrow> if fdo_ShmUserVirtAddr (fd_Context f) = Some a then fdo_ShmKernelVirtAddr (fd_Context f) else None)"

definition user_store :: "mem \<Rightarrow> vnvme_driver \<Rightarrow> vnvme_driver" where
  "user_store m d = d\<lparr>drv_Fdo := map_option (\<lambda>f. f\<lparr>fd_Context := (fd_Context f)\<lparr>fdo_ShmKernelVirtAddr := Some m\<rparr>\<rparr>) (drv_Fdo d)\<rparr>"

definition bytes_mem :: "u8 list \<Rightarrow> mem" where
  "bytes_mem bs = (\<lambda>i. if i < length bs then bs ! i else 0)"

section \<open>Contexts\<close>

record SHM_CONTEXT =
  sc_userAddress :: u64
  sc_size :: u64
  sc_controlBlock :: u64
  sc_notifyRing :: u64
  sc_dataBuffer :: u64
  sc_dataBufferSize :: u64

record DRIVER_COMM_CONTEXT =
  dc_deviceHandle :: HANDLE
  dc_driverVersion :: u32
  dc_shm :: SHM_CONTEXT
  dc_heartbeatThread :: HANDLE
  dc_running :: bool
  dc_heartbeatIntervalMs :: u32
  dc_commandsProcessed :: u64
  dc_commandEvent :: HANDLE
  dc_eventModeEnabled :: bool

definition zero_SHM_CONTEXT :: SHM_CONTEXT where
  "zero_SHM_CONTEXT = \<lparr>sc_userAddress = 0, sc_size = 0, sc_controlBlock = 0, sc_notifyRing = 0, sc_dataBuffer = 0, sc_dataBufferSize = 0\<rparr>"

definition zero_DRIVER_COMM_CONTEXT :: DRIVER_COMM_CONTEXT where
  "zero_DRIVER_COMM_CONTEXT = \<lparr>dc_deviceHandle = 0, dc_driverVersion = 0, dc_shm = zero_SHM_CONTEXT, dc_heartbeatThread = 0,
     dc_running = False, dc_heartbeatIntervalMs = 0, dc_commandsProcessed = 0, dc_commandEvent = 0, dc_eventModeEnabled = False\<rparr>"

section \<open>Connection and shared memory\<close>

text \<open>\<open>opened\<close> is what \<open>CreateFileW\<close> answers.\<close>

definition DriverConnect :: "HANDLE \<Rightarrow> DRIVER_COMM_CONTEXT \<Rightarrow> bool \<times> DRIVER_COMM_CONTEXT" where
  "DriverConnect opened pCtx =
     (let pCtx = pCtx\<lparr>dc_deviceHandle := opened\<rparr> in (dc_deviceHandle pCtx \<noteq> INVALID_HANDLE_VALUE, pCtx))"

definition DriverUnmapShm :: "device_io \<Rightarrow> DRIVER_COMM_CONTEXT \<Rightarrow> vnvme_driver \<Rightarrow> (DRIVER_COMM_CONTEXT \<times> vnvme_driver) option" where
  "DriverUnmapShm dio pCtx d =
     (if sc_userAddress (dc_shm pCtx) = 0 then Some (pCtx, d)
      else do {
        d \<leftarrow> (if dc_deviceHandle pCtx \<noteq> INVALID_HANDLE_VALUE
              then map_option (\<lambda>(result, out, d). d) (dio (dc_deviceHandle pCtx) IOCTL_VNVME_UNMAP_SHM [] [] d)
              else Some d);
        Some (pCtx\<lparr>dc_shm := zero_SHM_CONTEXT\<rparr>, d)
      })"

definition DriverMapShm :: "device_io \<Rightarrow> DRIVER_COMM_CONTEXT \<Rightarrow> vnvme_driver \<Rightarrow> (bool \<times> DRIVER_COMM_CONTEXT \<times> vnvme_driver) option" where
  "DriverMapShm dio pCtx d =
     (if dc_deviceHandle pCtx = INVALID_HANDLE_VALUE then Some (False, pCtx, d)
      else do {
        (result, response, d) \<leftarrow> dio (dc_deviceHandle pCtx) IOCTL_VNVME_MAP_SHM (replicate 8 0) (replicate 24 0) d;
        if \<not> result then Some (False, pCtx, d)
        else do {
          let UserAddress = rd64 (bytes_mem response) 0;
          let ActualSize = rd32 (bytes_mem response) 8;
          if UserAddress = 0 \<or> ActualSize = 0 then Some (False, pCtx, d)
          else do {
            let pCtx = pCtx\<lparr>dc_shm := (dc_shm pCtx)\<lparr>sc_userAddress := UserAddress, sc_size := ucast ActualSize,
                         sc_controlBlock := UserAddress\<rparr>\<rparr>;
            m \<leftarrow> user_view d UserAddress;
            if rd32 m 0x00 \<noteq> 0x454D564E then do {
              (pCtx, d) \<leftarrow> DriverUnmapShm dio pCtx d;
              Some (False, pCtx, d)
            }
            else
              Some (True, pCtx\<lparr>dc_shm := (dc_shm pCtx)\<lparr>sc_notifyRing := UserAddress + ucast (rd32 m cb_NotifyRingOffset),
                sc_dataBuffer := UserAddress + ucast (rd32 m 0x80), sc_dataBufferSize := ucast (rd32 m 0x84)\<rparr>\<rparr>, d)
          }
        }
      })"

section \<open>Readiness and heartbeat\<close>

definition DriverSendUserReady :: "device_io \<Rightarrow> DRIVER_COMM_CONTEXT \<Rightarrow> vnvme_driver \<Rightarrow> (bool \<times> vnvme_driver) option" where
  "DriverSendUserReady dio pCtx d =
     (if dc_deviceHandle pCtx = INVALID_HANDLE_VALUE then Some (False, d)
      else do {
        (result, out, d) \<leftarrow> dio (dc_deviceHandle pCtx) IOCTL_VNVME_USER_READY [] [] d;
        Some (result, d)
      })"

definition DriverSendHeartbeat :: "device_io \<Rightarrow> DRIVER_COMM_CONTEXT \<Rightarrow> vnvme_driver \<Rightarrow> (bool \<times> vnvme_driver) option" where
  "DriverSendHeartbeat dio pCtx d =
     (if dc_deviceHandle pCtx = INVALID_HANDLE_VALUE then Some (False, d)
      else do {
        (result, out, d) \<leftarrow> dio (dc_deviceHandle pCtx) IOCTL_VNVME_HEARTBEAT [] [] d;
        Some (result, d)
      })"

text \<open>
  The heartbeat thread: \<open>running k\<close> is what \<open>pCtx->running\<close> reads before round \<open>k\<close>, \<open>others k\<close> what happens to the driver
  between two rounds.
\<close>

partial_function (option) heartbeat_loop ::
  "(nat \<Rightarrow> bool) \<Rightarrow> (nat \<Rightarrow> device_io) \<Rightarrow> (nat \<Rightarrow> vnvme_driver \<Rightarrow> vnvme_driver) \<Rightarrow> DRIVER_COMM_CONTEXT \<Rightarrow> nat \<Rightarrow> vnvme_driver \<Rightarrow> vnvme_driver option" where
  "heartbeat_loop running dio others pCtx k d =
     (if \<not> running k then Some d
      else DriverSendHeartbeat (dio k) pCtx (others k d) \<bind> (\<lambda>(sent, d). heartbeat_loop running dio others pCtx (Suc k) d))"

definition HeartbeatThreadProc ::
  "(nat \<Rightarrow> bool) \<Rightarrow> (nat \<Rightarrow> device_io) \<Rightarrow> (nat \<Rightarrow> vnvme_driver \<Rightarrow> vnvme_driver) \<Rightarrow> DRIVER_COMM_CONTEXT \<Rightarrow> vnvme_driver \<Rightarrow> vnvme_driver option" where
  "HeartbeatThreadProc running dio others pCtx d = heartbeat_loop running dio others pCtx 0 d"

definition DriverStartHeartbeat :: "HANDLE \<Rightarrow> u32 \<Rightarrow> DRIVER_COMM_CONTEXT \<Rightarrow> bool \<times> DRIVER_COMM_CONTEXT" where
  "DriverStartHeartbeat thread intervalMs pCtx =
     (thread \<noteq> 0, pCtx\<lparr>dc_heartbeatIntervalMs := (if intervalMs > 0 then intervalMs else 1000), dc_running := True,
        dc_heartbeatThread := thread\<rparr>)"

definition DriverStopHeartbeat :: "DRIVER_COMM_CONTEXT \<Rightarrow> DRIVER_COMM_CONTEXT" where
  "DriverStopHeartbeat pCtx =
     (if dc_heartbeatThread pCtx = 0 then pCtx else pCtx\<lparr>dc_running := False, dc_heartbeatThread := 0\<rparr>)"

definition DriverDisconnect :: "device_io \<Rightarrow> DRIVER_COMM_CONTEXT \<Rightarrow> vnvme_driver \<Rightarrow> (DRIVER_COMM_CONTEXT \<times> vnvme_driver) option" where
  "DriverDisconnect dio pCtx d = do {
     let pCtx = DriverStopHeartbeat pCtx;
     (pCtx, d) \<leftarrow> DriverUnmapShm dio pCtx d;
     Some (if dc_deviceHandle pCtx \<noteq> 0 \<and> dc_deviceHandle pCtx \<noteq> INVALID_HANDLE_VALUE
           then pCtx\<lparr>dc_deviceHandle := 0\<rparr> else pCtx, d)
   }"

section \<open>Shutdown and queries\<close>

definition DriverIsShutdownRequested :: "DRIVER_COMM_CONTEXT \<Rightarrow> vnvme_driver \<Rightarrow> bool option" where
  "DriverIsShutdownRequested pCtx d =
     (if sc_controlBlock (dc_shm pCtx) = 0 then Some False
      else do { m \<leftarrow> user_view d (sc_controlBlock (dc_shm pCtx)); Some (rd32 m 0xA0 \<noteq> 0) })"

definition DriverNotifyShutdownComplete :: "DRIVER_COMM_CONTEXT \<Rightarrow> vnvme_driver \<Rightarrow> vnvme_driver option" where
  "DriverNotifyShutdownComplete pCtx d =
     (if sc_controlBlock (dc_shm pCtx) = 0 then Some d
      else do { m \<leftarrow> user_view d (sc_controlBlock (dc_shm pCtx)); Some (user_store (wr32 0x94 0 m) d) })"

definition DriverGetVersion :: "device_io \<Rightarrow> DRIVER_COMM_CONTEXT \<Rightarrow> u32 \<Rightarrow> vnvme_driver \<Rightarrow> (bool \<times> u32 \<times> vnvme_driver) option" where
  "DriverGetVersion dio pCtx Version d =
     (if dc_deviceHandle pCtx = INVALID_HANDLE_VALUE then Some (False, Version, d)
      else do {
        (result, versionInfo, d) \<leftarrow> dio (dc_deviceHandle pCtx) IOCTL_VNVME_GET_VERSION [] (replicate 16 0) d;
        Some (if \<not> result then (False, Version, d) else (True, rd32 (bytes_mem versionInfo) 0, d))
      })"

text \<open>The caller's structure is its 88 bytes.\<close>

definition DriverGetStatus :: "device_io \<Rightarrow> DRIVER_COMM_CONTEXT \<Rightarrow> u8 list \<Rightarrow> vnvme_driver \<Rightarrow> (bool \<times> u8 list \<times> vnvme_driver) option" where
  "DriverGetStatus dio pCtx Status d =
     (if dc_deviceHandle pCtx = INVALID_HANDLE_VALUE then Some (False, Status, d)
      else dio (dc_deviceHandle pCtx) IOCTL_VNVME_GET_STATUS [] Status d)"

definition DriverGetCommandEvent :: "device_io \<Rightarrow> DRIVER_COMM_CONTEXT \<Rightarrow> vnvme_driver \<Rightarrow> (bool \<times> DRIVER_COMM_CONTEXT \<times> vnvme_driver) option" where
  "DriverGetCommandEvent dio pCtx d =
     (if dc_deviceHandle pCtx = INVALID_HANDLE_VALUE then Some (False, pCtx, d)
      else if dc_commandEvent pCtx \<noteq> 0 then Some (True, pCtx, d)
      else do {
        (result, out, d) \<leftarrow> dio (dc_deviceHandle pCtx) IOCTL_VNVME_GET_COMMAND_EVENT [] (replicate 8 0) d;
        let EventHandle = rd64 (bytes_mem out) 0;
        Some (if \<not> result then (False, pCtx\<lparr>dc_eventModeEnabled := False\<rparr>, d)
              else if EventHandle = 0 then (False, pCtx\<lparr>dc_eventModeEnabled := False\<rparr>, d)
              else (True, pCtx\<lparr>dc_commandEvent := EventHandle, dc_eventModeEnabled := True\<rparr>, d))
      })"

datatype wait_result = WAIT_OBJECT_0 | WAIT_TIMEOUT | WAIT_FAILED | WAIT_OTHER

definition DriverWaitForCommand :: "wait_result \<Rightarrow> DRIVER_COMM_CONTEXT \<Rightarrow> bool \<times> DRIVER_COMM_CONTEXT" where
  "DriverWaitForCommand waitResult pCtx =
     (if \<not> dc_eventModeEnabled pCtx \<or> dc_commandEvent pCtx = 0 then (True, pCtx)
      else case waitResult of
             WAIT_OBJECT_0 \<Rightarrow> (True, pCtx)
           | WAIT_TIMEOUT \<Rightarrow> (False, pCtx)
           | WAIT_FAILED \<Rightarrow> (False, pCtx\<lparr>dc_eventModeEnabled := False\<rparr>)
           | WAIT_OTHER \<Rightarrow> (False, pCtx))"

section \<open>Which handler a code reaches\<close>

lemma ioctl_codes:
  "IOCTL_VNVME_GET_VERSION = 0x80002000" "IOCTL_VNVME_GET_STATUS = 0x80002004" "IOCTL_VNVME_MAP_SHM = 0x8000E028"
  "IOCTL_VNVME_UNMAP_SHM = 0x8000E02C" "IOCTL_VNVME_USER_READY = 0x8000A050" "IOCTL_VNVME_HEARTBEAT = 0x8000A058"
  "IOCTL_VNVME_GET_COMMAND_EVENT = 0x80006078" "IOCTL_VNVME_SUBMIT_COMPLETIONS = 0x8000A07C"
  "IOCTL_VNVME_CREATE_CONTROLLER = 0x8000A0A0" "IOCTL_VNVME_DELETE_CONTROLLER = 0x8000A0A4"
  "IOCTL_VNVME_LIST_CONTROLLERS = 0x800060A8" "IOCTL_VNVME_CREATE_NAMESPACE = 0x8000A0C8"
  "IOCTL_VNVME_DELETE_NAMESPACE = 0x8000A0CC" "IOCTL_VNVME_LIST_NAMESPACES = 0x800060D0"
  "IOCTL_VNVME_SET_DEBUG_LEVEL = 0x8000A194" "IOCTL_VNVME_GET_STATS = 0x800061B8"
  "IOCTL_VNVME_GET_CONFIG = 0x800061E0" "IOCTL_VNVME_SET_CONFIG = 0x8000A1E4"
  by code_simp+

lemma dispatch:
  "VnvmeEvtIoDeviceControl os IOCTL_VNVME_GET_VERSION rq d = Some (VnvmeHandleGetVersion rq d)"
  "VnvmeEvtIoDeviceControl os IOCTL_VNVME_GET_STATUS rq d = Some (VnvmeHandleGetStatus rq d)"
  "VnvmeEvtIoDeviceControl os IOCTL_VNVME_MAP_SHM rq d = Some (VnvmeHandleMapShm os rq d)"
  "VnvmeEvtIoDeviceControl os IOCTL_VNVME_UNMAP_SHM rq d = Some (VnvmeHandleUnmapShm rq d)"
  "VnvmeEvtIoDeviceControl os IOCTL_VNVME_USER_READY rq d = Some (VnvmeHandleUserReady os rq d)"
  "VnvmeEvtIoDeviceControl os IOCTL_VNVME_HEARTBEAT rq d = VnvmeHandleHeartbeat os rq d"
  "VnvmeEvtIoDeviceControl os IOCTL_VNVME_GET_COMMAND_EVENT rq d = Some (VnvmeHandleGetCommandEvent os rq d)"
  "VnvmeEvtIoDeviceControl os IOCTL_VNVME_CREATE_CONTROLLER rq d = Some (VnvmeHandleCreateController os rq d)"
  "VnvmeEvtIoDeviceControl os IOCTL_VNVME_DELETE_CONTROLLER rq d = Some (VnvmeHandleDeleteController os rq d)"
  "VnvmeEvtIoDeviceControl os IOCTL_VNVME_LIST_CONTROLLERS rq d = Some (VnvmeHandleListControllers rq d)"
  "VnvmeEvtIoDeviceControl os IOCTL_VNVME_CREATE_NAMESPACE rq d = VnvmeHandleCreateNamespace os rq d"
  "VnvmeEvtIoDeviceControl os IOCTL_VNVME_DELETE_NAMESPACE rq d = Some (VnvmeHandleDeleteNamespace rq d)"
  "VnvmeEvtIoDeviceControl os IOCTL_VNVME_GET_STATS rq d = Some (VnvmeHandleGetStats os rq d)"
  "VnvmeEvtIoDeviceControl os IOCTL_VNVME_SET_DEBUG_LEVEL rq d = Some (VnvmeHandleSetDebugLevel rq d)"
  by (simp_all add: VnvmeEvtIoDeviceControl_def ioctl_codes)

section \<open>What the service gets from the driver\<close>

text \<open>A request the driver refuses reads as a failure and changes nothing.\<close>

lemma completed_refused: "\<not> NT_SUCCESS status \<Longrightarrow> completed out (refused status rq d) = (False, out, d)"
  by (simp add: completed_def refused_def)

text \<open>What the service reads in its output buffer is what the driver wrote.\<close>

lemma rd64_bytes_mem: "a + 8 \<le> n \<Longrightarrow> rd64 (bytes_mem (rd_bytes b 0 n @ bs)) a = rd64 b a"
  by (rule rd64_eqI) (simp add: bytes_mem_def nth_append)

lemma rd32_bytes_mem: "a + 4 \<le> n \<Longrightarrow> rd32 (bytes_mem (rd_bytes b 0 n @ bs)) a = rd32 b a"
  by (rule rd32_eqI) (simp add: bytes_mem_def nth_append)

definition driver_user_ready :: "vnvme_driver \<Rightarrow> bool" where
  "driver_user_ready d = (case drv_Fdo d of None \<Rightarrow> False | Some f \<Rightarrow> fdo_UserReady (fd_Context f))"

lemma MapShm_user_ready: "driver_user_ready (res_Driver (VnvmeHandleMapShm os rq d)) = driver_user_ready d"
  by (auto simp: driver_user_ready_def VnvmeHandleMapShm_def Let_def VnvmeMapShmToUser_def VnvmeUnmapShmFromUser_def
      refused_def answered_def split: option.splits map_result.splits prod.splits if_splits)

lemma MapShmToUser_result:
  "VnvmeMapShmToUser mdl_ok mapped c = (status, a, c') \<Longrightarrow> NT_SUCCESS status \<Longrightarrow>
     \<exists>x m. a = Some x \<and> fdo_ShmUserVirtAddr c' = Some x \<and> fdo_ShmKernelVirtAddr c' = Some m"
  by (auto simp: VnvmeMapShmToUser_def Let_def split: if_splits map_result.splits)

lemma MapShm_answer:
  assumes "NT_SUCCESS (res_Status (VnvmeHandleMapShm os rq d))"
  shows "\<exists>m. res_Information (VnvmeHandleMapShm os rq d) = 24
    \<and> user_view (res_Driver (VnvmeHandleMapShm os rq d)) (rd64 (res_Buffer (VnvmeHandleMapShm os rq d)) 0) = Some m"
proof -
  obtain f where f: "drv_Fdo d = Some f" "\<not> rq_OutputBufferLength rq < 24" "NT_SUCCESS (rq_RetrieveOutputBuffer rq)"
    using assms by (auto simp: VnvmeHandleMapShm_def refused_def split: option.splits if_splits)
  let ?c = "if fdo_ShmUserVirtAddr (fd_Context f) \<noteq> None then VnvmeUnmapShmFromUser (fd_Context f) else fd_Context f"
  obtain status a c where map: "VnvmeMapShmToUser (io_mdl_ok os) (io_mapped os) ?c = (status, a, c)" by (cases rule: prod_cases3)
  have ok: "NT_SUCCESS status"
    using assms f map by (auto simp: VnvmeHandleMapShm_def Let_def refused_def split: if_splits)
  from MapShmToUser_result [OF map ok] f map ok show ?thesis
    by (auto simp: VnvmeHandleMapShm_def Let_def answered_def user_view_def mem_simps)
qed

context buffered_device
begin

lemma refused_request:
  assumes "\<And>os rq. request_for inp out rq \<Longrightarrow> \<exists>status. \<not> NT_SUCCESS status \<and> VnvmeEvtIoDeviceControl os code rq d = Some (refused status rq d)"
  shows "DeviceIoControl h code inp out d = Some (False, out, d)"
  using device_io [of h code inp out d] assms completed_refused by fastforce

lemma user_ready_refused: "DriverSendUserReady DeviceIoControl pCtx d = Some (False, d)"
proof -
  have "DeviceIoControl h IOCTL_VNVME_USER_READY [] [] d = Some (False, [], d)" for h
    by (rule refused_request)
      (auto simp: dispatch VnvmeHandleUserReady_def request_for_def split: option.splits intro: exI [of _ STATUS_DEVICE_NOT_READY]
        exI [of _ STATUS_BUFFER_TOO_SMALL])
  then show ?thesis by (simp add: DriverSendUserReady_def)
qed

lemma heartbeat_refused: "DriverSendHeartbeat DeviceIoControl pCtx d = Some (False, d)"
proof -
  have "DeviceIoControl h IOCTL_VNVME_HEARTBEAT [] [] d = Some (False, [], d)" for h
    by (rule refused_request)
      (auto simp: dispatch VnvmeHandleHeartbeat_def request_for_def split: option.splits intro: exI [of _ STATUS_DEVICE_NOT_READY]
        exI [of _ STATUS_BUFFER_TOO_SMALL])
  then show ?thesis by (simp add: DriverSendHeartbeat_def)
qed

text \<open>Giving the shared memory back changes nothing in the driver.\<close>

lemma unmap_request: "\<exists>ok. DeviceIoControl h IOCTL_VNVME_UNMAP_SHM [] [] d = Some (ok, [], d)"
  using device_io [of h IOCTL_VNVME_UNMAP_SHM "[]" "[]" d]
  by (auto simp: dispatch VnvmeHandleUnmapShm_def completed_def refused_def answered_def rd_bytes_def split: option.splits)

lemma unmap_runs: "\<exists>pCtx'. DriverUnmapShm DeviceIoControl pCtx d = Some (pCtx', d)"
  using unmap_request [of "dc_deviceHandle pCtx" d] by (auto simp: DriverUnmapShm_def)

lemma disconnect_runs: "\<exists>pCtx'. DriverDisconnect DeviceIoControl pCtx d = Some (pCtx', d)"
  using unmap_runs [of "DriverStopHeartbeat pCtx" d] by (auto simp: DriverDisconnect_def Let_def)

lemma map_request:
  obtains (fails) d' where "DeviceIoControl h IOCTL_VNVME_MAP_SHM inp (replicate 24 0) d = Some (False, replicate 24 0, d')"
    "driver_user_ready d' = driver_user_ready d"
  | (maps) b d' m where "DeviceIoControl h IOCTL_VNVME_MAP_SHM inp (replicate 24 0) d = Some (True, rd_bytes b 0 24, d')"
    "user_view d' (rd64 b 0) = Some m" "driver_user_ready d' = driver_user_ready d"
proof (cases "DeviceIoControl h IOCTL_VNVME_MAP_SHM inp (replicate 24 0) d = Some (False, replicate 24 0, d)")
  case True
  then show ?thesis by (rule fails) simp
next
  case False
  then obtain os rq where rq: "DeviceIoControl h IOCTL_VNVME_MAP_SHM inp (replicate 24 0) d = Some (completed (replicate 24 0) (VnvmeHandleMapShm os rq d))"
    using device_io [of h IOCTL_VNVME_MAP_SHM inp "replicate 24 0" d] by (auto simp: dispatch)
  let ?r = "VnvmeHandleMapShm os rq d"
  show ?thesis
  proof (cases "NT_SUCCESS (res_Status ?r)")
    case True
    from MapShm_answer [OF this] rq True show ?thesis
      by (auto simp: completed_def intro!: maps [of "res_Buffer ?r" "res_Driver ?r"] MapShm_user_ready)
  next
    case False
    with rq show ?thesis by (auto simp: completed_def intro!: fails [of "res_Driver ?r"] MapShm_user_ready)
  qed
qed

lemma map_runs:
  obtains ok pCtx' d' where "DriverMapShm DeviceIoControl pCtx d = Some (ok, pCtx', d')" "driver_user_ready d' = driver_user_ready d"
    "ok \<Longrightarrow> \<exists>m. user_view d' (sc_userAddress (dc_shm pCtx')) = Some m \<and> rd32 m 0 = 0x454D564E"
proof (cases "dc_deviceHandle pCtx = INVALID_HANDLE_VALUE")
  case True
  then show ?thesis by (intro that [of False pCtx d]) (simp_all add: DriverMapShm_def)
next
  case open_handle: False
  show ?thesis
  proof (cases rule: map_request [of "dc_deviceHandle pCtx" "replicate 8 0" d])
    case (fails d')
    with open_handle show ?thesis by (intro that [of False pCtx d']) (simp_all add: DriverMapShm_def)
  next
    case (maps b d' m)
    have read: "rd64 (bytes_mem (rd_bytes b 0 24)) 0 = rd64 b 0" "rd32 (bytes_mem (rd_bytes b 0 24)) 8 = rd32 b 8"
      using rd64_bytes_mem [of 0 24 b "[]"] rd32_bytes_mem [of 8 24 b "[]"] by simp_all
    let ?shm = "(dc_shm pCtx)\<lparr>sc_userAddress := rd64 b 0, sc_size := ucast (rd32 b 8), sc_controlBlock := rd64 b 0\<rparr>"
    obtain pCtx' where unmap: "DriverUnmapShm DeviceIoControl (pCtx\<lparr>dc_shm := ?shm\<rparr>) d' = Some (pCtx', d')"
      using unmap_runs by blast
    let ?ready = "pCtx\<lparr>dc_shm := ?shm\<lparr>sc_notifyRing := rd64 b 0 + ucast (rd32 m cb_NotifyRingOffset),
        sc_dataBuffer := rd64 b 0 + ucast (rd32 m 0x80), sc_dataBufferSize := ucast (rd32 m 0x84)\<rparr>\<rparr>"
    consider "rd64 b 0 = 0 \<or> rd32 b 8 = 0" | "\<not> (rd64 b 0 = 0 \<or> rd32 b 8 = 0)" "rd32 m 0 \<noteq> 0x454D564E"
      | "\<not> (rd64 b 0 = 0 \<or> rd32 b 8 = 0)" "rd32 m 0 = 0x454D564E" by blast
    then show ?thesis
    proof cases
      case 1
      with maps open_handle read show ?thesis
        by (intro that [of False pCtx d']) (auto simp: DriverMapShm_def Let_def)
    next
      case 2
      with maps open_handle read unmap show ?thesis
        by (intro that [of False pCtx' d']) (simp_all add: DriverMapShm_def Let_def)
    next
      case 3
      with maps open_handle read show ?thesis
        by (intro that [of True ?ready d']) (simp_all add: DriverMapShm_def Let_def)
    qed
  qed
qed

end

end
