(* ===== verification/Vnvme_Clib.thy ===== *)
theory Vnvme_Clib
  imports Vnvme_Text
begin

text \<open>
  The functions of the C library with which the service and the command-line tool read words and numbers
  (\<open>isspace\<close>, \<open>toupper\<close>, \<open>_stricmp\<close>, \<open>atoi\<close>, \<open>_atoi64\<close>, \<open>strtoul\<close>, \<open>strtod\<close>), in the C locale. A C string is the list of its
  characters without the terminator. The lemmas say what the number readers make of a decimal numeral.
\<close>

section \<open>Characters and words\<close>

text \<open>
  \<open>char\<close> is signed, so \<open>isspace\<close> and \<open>toupper\<close> get a negative argument for a byte of 128 or more; that is defined for \<open>EOF\<close>,
  byte 255, only. \<open>c_toupper\<close> is the result converted back; \<open>EOF\<close> is no letter.
\<close>

definition white :: "char \<Rightarrow> bool" where
  "white c \<longleftrightarrow> c = CHR '' '' \<or> (9 \<le> (of_char c :: nat) \<and> (of_char c :: nat) \<le> 13)"

definition c_isspace :: "char \<Rightarrow> bool option" where
  "c_isspace c = (if (of_char c :: nat) < 128 then Some (white c) else if (of_char c :: nat) = 255 then Some False else None)"

definition lower :: "char \<Rightarrow> char" where
  "lower c = (if 65 \<le> (of_char c :: nat) \<and> (of_char c :: nat) \<le> 90 then char_of (of_char c + 32 :: nat) else c)"

definition upper :: "char \<Rightarrow> char" where
  "upper c = (if 97 \<le> (of_char c :: nat) \<and> (of_char c :: nat) \<le> 122 then char_of (of_char c - 32 :: nat) else c)"

definition c_toupper :: "char \<Rightarrow> char option" where
  "c_toupper c = (if (of_char c :: nat) < 128 \<or> (of_char c :: nat) = 255 then Some (upper c) else None)"

text \<open>\<open>_stricmp(s, t) == 0\<close>.\<close>

definition stricmp :: "string \<Rightarrow> string \<Rightarrow> bool" where
  "stricmp s t \<longleftrightarrow> map lower s = map lower t"

section \<open>Reading integers\<close>

definition digit_value :: "char \<Rightarrow> nat" where
  "digit_value c =
     (let n = of_char (lower c) in
      if 48 \<le> n \<and> n \<le> 57 then n - 48 else if 97 \<le> n \<and> n \<le> 122 then n - 87 else 36)"

definition digit_in :: "nat \<Rightarrow> char \<Rightarrow> bool" where
  "digit_in b c \<longleftrightarrow> digit_value c < b"

definition value_in :: "nat \<Rightarrow> string \<Rightarrow> nat" where
  "value_in b txt = foldl (\<lambda>a c. b * a + digit_value c) 0 txt"

definition scan_sign :: "string \<Rightarrow> bool \<times> string" where
  "scan_sign s = (case s of c # s' \<Rightarrow> if c = CHR ''-'' then (True, s') else if c = CHR ''+'' then (False, s') else (False, s)
     | [] \<Rightarrow> (False, s))"

definition scan_int :: "string \<Rightarrow> int" where
  "scan_int s = (let (neg, s) = scan_sign (dropWhile white s); n = int (value_in 10 (takeWhile (digit_in 10) s))
     in if neg then - n else n)"

text \<open>\<open>atoi\<close> and \<open>_atoi64\<close> saturate; their callers convert the result to an unsigned type of the same width.\<close>

definition atoi :: "string \<Rightarrow> u32" where
  "atoi s = word_of_int (max (- (2 ^ 31)) (min (2 ^ 31 - 1) (scan_int s)))"

definition atoi64 :: "string \<Rightarrow> u64" where
  "atoi64 s = word_of_int (max (- (2 ^ 63)) (min (2 ^ 63 - 1) (scan_int s)))"

text \<open>\<open>strtoul(s, NULL, 0)\<close>; \<open>unsigned long\<close> has 32 bits.\<close>

definition scan_radix :: "string \<Rightarrow> nat \<times> string" where
  "scan_radix s =
     (case s of
        c # x # h # s' \<Rightarrow>
          if c = CHR ''0'' \<and> lower x = CHR ''x'' \<and> digit_in 16 h then (16, h # s')
          else if c = CHR ''0'' then (8, s) else (10, s)
      | c # s' \<Rightarrow> if c = CHR ''0'' then (8, s) else (10, s)
      | [] \<Rightarrow> (10, s))"

definition strtoul :: "string \<Rightarrow> u32" where
  "strtoul s =
     (let (neg, s) = scan_sign (dropWhile white s); (b, s) = scan_radix s; n = value_in b (takeWhile (digit_in b) s)
      in if n \<ge> 2 ^ 32 then - 1 else if neg then - of_nat n else of_nat n)"

section \<open>Reading floating-point numbers\<close>

text \<open>A \<open>double\<close>: \<open>Finite neg m e\<close> is \<open>m * 2 ^ e\<close> with its sign.\<close>

datatype dbl = Finite bool nat int | Infinite bool | NaN

fun bit_length :: "nat \<Rightarrow> nat" where
  "bit_length n = (if n = 0 then 0 else Suc (bit_length (n div 2)))"

declare bit_length.simps [simp del]

text \<open>\<open>n / d\<close> scaled by \<open>2 ^ - e\<close>, as a fraction; the exponent of the last place of a value of 53 bits; rounding to the
  nearest, ties to even.\<close>

definition scaled :: "nat \<Rightarrow> nat \<Rightarrow> int \<Rightarrow> nat \<times> nat" where
  "scaled n d e = (if e \<ge> 0 then (n, d * 2 ^ nat e) else (n * 2 ^ nat (- e), d))"

definition last_place :: "nat \<Rightarrow> nat \<Rightarrow> int" where
  "last_place n d =
     (let e = int (bit_length n) - int (bit_length d) - 53; (N, D) = scaled n d e
      in max (- 1074) (if N < 2 ^ 53 * D then e else e + 1))"

definition round_even :: "nat \<Rightarrow> nat \<Rightarrow> nat" where
  "round_even N D = (let q = N div D; r = N mod D in if 2 * r > D \<or> (2 * r = D \<and> odd q) then q + 1 else q)"

definition to_double :: "bool \<Rightarrow> nat \<Rightarrow> nat \<Rightarrow> dbl" where
  "to_double neg n d =
     (if n = 0 then Finite neg 0 0
      else let e = last_place n d; (N, D) = scaled n d e; m = round_even N D
           in if e > 971 \<or> (e = 971 \<and> m \<ge> 2 ^ 53) then Infinite neg else Finite neg m e)"

text \<open>An optional exponent: a letter, an optional sign and digits.\<close>

definition scan_exponent :: "char \<Rightarrow> string \<Rightarrow> int \<times> string" where
  "scan_exponent letter s =
     (case s of
        c # s' \<Rightarrow>
          let (neg, s'') = scan_sign s'; ds = takeWhile (digit_in 10) s'' in
          if lower c = letter \<and> ds \<noteq> [] then ((if neg then - 1 else 1) * int (value_in 10 ds), drop (length ds) s'')
          else (0, s)
      | [] \<Rightarrow> (0, s))"

text \<open>The digits before and after an optional point, and what follows.\<close>

definition scan_point :: "nat \<Rightarrow> string \<Rightarrow> string \<times> string \<times> string" where
  "scan_point b s =
     (let whole = takeWhile (digit_in b) s; s' = drop (length whole) s in
      case s' of
        c # s'' \<Rightarrow>
          let frac = takeWhile (digit_in b) s'' in
          if c = CHR ''.'' \<and> whole @ frac \<noteq> [] then (whole, frac, drop (length frac) s'') else (whole, [], s')
      | [] \<Rightarrow> (whole, [], s'))"

definition power_ratio :: "bool \<Rightarrow> nat \<Rightarrow> nat \<Rightarrow> int \<Rightarrow> dbl" where
  "power_ratio neg n b x = (if x \<ge> 0 then to_double neg (n * b ^ nat x) 1 else to_double neg n (b ^ nat (- x)))"

definition scan_hex :: "bool \<Rightarrow> string \<Rightarrow> (dbl \<times> string) option" where
  "scan_hex neg s =
     (case s of
        c # x # s' \<Rightarrow>
          let (whole, frac, rest) = scan_point 16 s'; (p, rest) = scan_exponent CHR ''p'' rest in
          if c = CHR ''0'' \<and> lower x = CHR ''x'' \<and> whole @ frac \<noteq> []
          then Some (power_ratio neg (value_in 16 (whole @ frac)) 2 (p - 4 * int (length frac)), rest)
          else None
      | _ \<Rightarrow> None)"

definition scan_decimal :: "bool \<Rightarrow> string \<Rightarrow> (dbl \<times> string) option" where
  "scan_decimal neg s =
     (let (whole, frac, rest) = scan_point 10 s; (p, rest) = scan_exponent CHR ''e'' rest in
      if whole @ frac \<noteq> [] then Some (power_ratio neg (value_in 10 (whole @ frac)) 10 (p - int (length frac)), rest)
      else None)"

text \<open>\<open>inf\<close>, \<open>infinity\<close>, \<open>nan\<close> and \<open>nan(...)\<close> in any case.\<close>

definition starts :: "string \<Rightarrow> string \<Rightarrow> bool" where
  "starts w s \<longleftrightarrow> map lower (take (length w) s) = w"

definition nan_tail :: "string \<Rightarrow> string" where
  "nan_tail s =
     (case s of
        c # s' \<Rightarrow>
          let inner = takeWhile (\<lambda>c. digit_in 36 c \<or> c = CHR ''_'') s' in
          if c = CHR ''('' \<and> drop (length inner) s' \<noteq> [] \<and> hd (drop (length inner) s') = CHR '')''
          then drop (length inner + 1) s' else s
      | [] \<Rightarrow> [])"

definition scan_special :: "bool \<Rightarrow> string \<Rightarrow> (dbl \<times> string) option" where
  "scan_special neg s =
     (if starts ''infinity'' s then Some (Infinite neg, drop 8 s)
      else if starts ''inf'' s then Some (Infinite neg, drop 3 s)
      else if starts ''nan'' s then Some (NaN, nan_tail (drop 3 s))
      else None)"

text \<open>\<open>strtod\<close>: the value and the characters from \<open>*endptr\<close> on; without a number, zero and the whole string.\<close>

definition strtod :: "string \<Rightarrow> dbl \<times> string" where
  "strtod str =
     (let (neg, s) = scan_sign (dropWhile white str) in
      case scan_hex neg s of Some r \<Rightarrow> r
      | None \<Rightarrow> (case scan_decimal neg s of Some r \<Rightarrow> r
        | None \<Rightarrow> (case scan_special neg s of Some r \<Rightarrow> r | None \<Rightarrow> (Finite False 0 0, str))))"

definition dbl_negative :: "dbl \<Rightarrow> bool" where
  "dbl_negative x = (case x of Finite neg m e \<Rightarrow> neg \<and> m > 0 | Infinite neg \<Rightarrow> neg | NaN \<Rightarrow> False)"

text \<open>\<open>(UINT64)(x * 2 ^ k)\<close>: the product is exact, and the conversion of a value that does not fit, an infinity or a NaN
  is undefined.\<close>

definition scale_to_u64 :: "dbl \<Rightarrow> nat \<Rightarrow> u64 option" where
  "scale_to_u64 x k =
     (case x of
        Finite neg m e \<Rightarrow>
          let t = (if e + int k \<ge> 0 then m * 2 ^ nat (e + int k) else m div 2 ^ nat (- (e + int k))) in
          if t = 0 then Some 0 else if neg then None else if t < 2 ^ 64 then Some (of_nat t) else None
      | _ \<Rightarrow> None)"

section \<open>Decimal numerals\<close>

lemma digit_value_digit: "d < 10 \<Longrightarrow> digit_value (char_of (48 + d :: nat)) = d"
  by (simp add: digit_value_def lower_def)

lemma digit_in_digit: "d < 10 \<Longrightarrow> digit_in 10 (char_of (48 + d :: nat))"
  by (simp add: digit_in_def digit_value_digit)

lemma digits_nonempty [simp]: "digits n \<noteq> []"
  by (subst digits.simps) simp

lemma value_in_snoc: "value_in b (xs @ [c]) = b * value_in b xs + digit_value c"
  by (simp add: value_in_def)

lemma value_in_digits [simp]: "value_in 10 (digits n) = n"
proof (induction n rule: digits.induct)
  case (1 n)
  then show ?case
    by (subst digits.simps) (simp add: value_in_snoc digit_value_digit value_in_def [of 10 "[_]"])
qed

lemma digit_in_digits: "c \<in> set (digits n) \<Longrightarrow> digit_in 10 c"
proof (induction n rule: digits.induct)
  case (1 n)
  then show ?case
    by (subst (asm) (2) digits.simps) (auto simp: digit_in_digit split: if_splits)
qed

lemma digit_code: "digit_in 10 c \<longleftrightarrow> 48 \<le> (of_char c :: nat) \<and> (of_char c :: nat) \<le> 57"
proof -
  have "(of_char c :: nat) < 256" by simp
  then show ?thesis
    by (auto simp: digit_in_def digit_value_def lower_def Let_def)
qed

lemma digit_not_white: "digit_in 10 c \<Longrightarrow> \<not> white c"
  by (auto simp: digit_code white_def)

lemma digit_not_sign: "digit_in 10 c \<Longrightarrow> c \<noteq> CHR ''-'' \<and> c \<noteq> CHR ''+''"
  by (auto simp: digit_code)

text \<open>A text that begins with no digit, and what the readers see of a numeral before it.\<close>

definition no_digit :: "string \<Rightarrow> bool" where
  "no_digit s \<longleftrightarrow> (s = [] \<or> \<not> digit_in 10 (hd s))"

lemma take_digits [simp]: "no_digit s \<Longrightarrow> takeWhile (digit_in 10) (digits n @ s) = digits n"
  by (cases s) (auto simp: no_digit_def digit_in_digits takeWhile_eq_Nil_iff)

lemma take_digits_only [simp]: "takeWhile (digit_in 10) (digits n) = digits n"
  using take_digits [of "[]" n] by (simp add: no_digit_def)

lemma hd_digits: "\<exists>c s'. digits n = c # s' \<and> digit_in 10 c"
  using digit_in_digits [of _ n] by (cases "digits n") auto

lemma skip_digits [simp]: "dropWhile white (digits n @ s) = digits n @ s"
  using hd_digits [of n] digit_not_white by auto

lemma sign_digits [simp]: "scan_sign (digits n @ s) = (False, digits n @ s)"
  using hd_digits [of n] digit_not_sign by (auto simp: scan_sign_def)

lemma scan_int_digits: "no_digit s \<Longrightarrow> scan_int (digits n @ s) = int n"
  by (simp add: scan_int_def)

lemma atoi_digits: "n < 2 ^ 31 \<Longrightarrow> unat (atoi (digits n)) = n"
  using scan_int_digits [of "[]" n] by (simp add: atoi_def no_digit_def unat_of_nat)

lemma atoi64_digits: "n < 2 ^ 63 \<Longrightarrow> unat (atoi64 (digits n)) = n"
  using scan_int_digits [of "[]" n] by (simp add: atoi64_def no_digit_def unat_of_nat)

section \<open>Exact doubles\<close>

lemma bit_length_bounds: "0 < n \<Longrightarrow> 2 ^ bit_length n \<le> 2 * n \<and> n < 2 ^ bit_length n"
proof (induction n rule: bit_length.induct)
  case (1 n)
  show ?case
  proof (cases "n div 2 = 0")
    case True
    with 1(2) have "n = 1" by (simp add: div_eq_0_iff)
    then show ?thesis by (simp add: bit_length.simps)
  next
    case False
    with 1 have "2 ^ bit_length (n div 2) \<le> 2 * (n div 2)" "n div 2 < 2 ^ bit_length (n div 2)" by simp_all
    with 1(2) show ?thesis by (subst (1 2) bit_length.simps) auto
  qed
qed

lemma bit_length_le: "0 < n \<Longrightarrow> n < 2 ^ k \<Longrightarrow> bit_length n \<le> k"
proof (rule ccontr)
  assume n: "0 < n" "n < 2 ^ k" "\<not> bit_length n \<le> k"
  then have "2 ^ Suc k \<le> (2 :: nat) ^ bit_length n" by (intro power_increasing) auto
  with n bit_length_bounds [of n] show False by simp
qed

lemma bit_length_1 [simp]: "bit_length (Suc 0) = 1"
  by (simp add: bit_length.simps)

text \<open>An integer of at most 53 bits is its own double.\<close>

lemma to_double_exact:
  assumes "0 < n" "n < 2 ^ 53"
  shows "to_double False n 1 = Finite False (n * 2 ^ (53 - bit_length n)) (int (bit_length n) - 53)"
proof -
  let ?b = "bit_length n"
  have b: "?b \<le> 53" "2 ^ ?b \<le> 2 * n" using assms bit_length_le bit_length_bounds by auto
  have "(2 :: nat) ^ 54 = 2 ^ ?b * 2 ^ (54 - ?b)" using b by (simp flip: power_add)
  also have "\<dots> \<le> 2 * n * 2 ^ (54 - ?b)" using b by (intro mult_right_mono) auto
  finally have big: "2 ^ 53 \<le> n * 2 ^ (54 - ?b)" by simp
  have sc: "scaled n 1 (int ?b - int k) = (n * 2 ^ (k - ?b), 1)" if "?b \<le> k" for k
  proof -
    have "nat (int k - int ?b) = k - ?b" by arith
    with that show ?thesis by (cases "?b = k") (auto simp: scaled_def)
  qed
  have "\<not> n * 2 ^ (54 - ?b) < 2 ^ 53 * 1" using big by simp
  with sc [of 54] b have lp: "last_place n 1 = int ?b - 53"
    by (simp add: last_place_def Let_def)
  show ?thesis
    using assms b sc [of 53] by (simp add: to_double_def lp Let_def round_even_def del: One_nat_def)
qed

lemma scale_exact:
  assumes "n < 2 ^ 53" "n * 2 ^ k < 2 ^ 64"
  shows "scale_to_u64 (to_double False n 1) k = Some (of_nat (n * 2 ^ k))"
proof (cases "n = 0")
  case True
  then show ?thesis by (simp add: to_double_def scale_to_u64_def)
next
  case False
  let ?b = "bit_length n"
  have b: "?b \<le> 53" using False assms bit_length_le by auto
  have "(if int ?b - 53 + int k \<ge> 0 then n * 2 ^ (53 - ?b) * 2 ^ nat (int ?b - 53 + int k)
      else n * 2 ^ (53 - ?b) div 2 ^ nat (- (int ?b - 53 + int k))) = n * 2 ^ k"
  proof (cases "53 - ?b \<le> k")
    case True
    then have "nat (int ?b - 53 + int k) = k - (53 - ?b)" "int ?b - 53 + int k \<ge> 0" using b by auto
    with True show ?thesis by (simp flip: power_add)
  next
    case False
    then have e: "nat (- (int ?b - 53 + int k)) = 53 - ?b - k" "\<not> int ?b - 53 + int k \<ge> 0" using b by auto
    have "n * 2 ^ (53 - ?b) = n * 2 ^ k * 2 ^ (53 - ?b - k)" using False by (simp flip: power_add)
    then have "n * 2 ^ (53 - ?b) div 2 ^ (53 - ?b - k) = n * 2 ^ k" by (metis nonzero_mult_div_cancel_right power_not_zero zero_neq_numeral)
    with e show ?thesis by simp
  qed
  with False assms b show ?thesis
    by (simp add: scale_to_u64_def to_double_exact Let_def del: One_nat_def)
qed

text \<open>A text that does not continue a decimal numeral, and \<open>strtod\<close> on a numeral before it.\<close>

definition number_end :: "string \<Rightarrow> bool" where
  "number_end s \<longleftrightarrow> (s = [] \<or> \<not> digit_in 10 (hd s) \<and> hd s \<noteq> CHR ''.'' \<and> lower (hd s) \<noteq> CHR ''e'' \<and> lower (hd s) \<noteq> CHR ''x'')"

lemma number_end_no_digit: "number_end s \<Longrightarrow> no_digit s"
  by (auto simp: number_end_def no_digit_def)

lemma digit_lower: "digit_in 10 c \<Longrightarrow> lower c = c"
  by (simp add: digit_code lower_def)

lemma scan_hex_digits: "number_end s \<Longrightarrow> scan_hex neg (digits n @ s) = None"
proof -
  assume s: "number_end s"
  obtain c ds where d: "digits n = c # ds" "digit_in 10 c" using hd_digits by blast
  have "lower x \<noteq> CHR ''x''" if "ds @ s = x # r" for x r
  proof (cases ds)
    case Nil
    with that s show ?thesis by (auto simp: number_end_def)
  next
    case (Cons y ys)
    with that d digit_in_digits [of y n] have "digit_in 10 x" by simp
    then show ?thesis by (auto simp: digit_lower digit_code)
  qed
  with d show ?thesis by (auto simp: scan_hex_def Let_def split: list.splits prod.splits)
qed

lemma strtod_digits:
  assumes "number_end s"
  shows "strtod (digits n @ s) = (to_double False n 1, s)"
proof -
  have "scan_point 10 (digits n @ s) = (digits n, [], s)"
    using assms number_end_no_digit [OF assms] by (auto simp: scan_point_def Let_def number_end_def split: list.splits)
  moreover have "scan_exponent CHR ''e'' s = (0, s)"
    using assms by (auto simp: scan_exponent_def number_end_def Let_def split: list.splits prod.splits)
  ultimately have "scan_decimal False (digits n @ s) = Some (to_double False n 1, s)"
    by (simp add: scan_decimal_def power_ratio_def)
  then show ?thesis
    by (simp add: strtod_def scan_hex_digits [OF assms])
qed

lemma to_double_nonnegative: "\<not> dbl_negative (to_double False n d)"
  by (simp add: to_double_def dbl_negative_def Let_def split: prod.splits)

section \<open>Unsigned numbers with a radix prefix\<close>

lemma char_of_digit_zero: "d < 10 \<Longrightarrow> char_of (48 + d :: nat) = CHR ''0'' \<longleftrightarrow> d = 0"
  by (auto simp: char_of_eq_iff take_bit_nat_eq_self)

lemma hd_digits_zero: "hd (digits n) = CHR ''0'' \<longleftrightarrow> n = 0"
proof (induction n rule: digits.induct)
  case (1 n)
  show ?case
  proof (cases "n < 10")
    case True
    then show ?thesis by (subst digits.simps) (simp add: char_of_digit_zero)
  next
    case False
    with 1 show ?thesis by (subst digits.simps) (simp add: div_eq_0_iff)
  qed
qed

lemma digits_0: "digits 0 = ''0''"
  by (simp add: digits.simps char_of_eq_iff)

lemma strtoul_digits:
  assumes "n < 2 ^ 32"
  shows "strtoul (digits n) = of_nat n"
proof (cases "n = 0")
  case True
  then show ?thesis
    by (simp add: strtoul_def digits_0 white_def scan_sign_def scan_radix_def value_in_def digit_in_def digit_value_def lower_def)
next
  case False
  obtain c s where d: "digits n = c # s" using digits_nonempty by (cases "digits n") blast+
  with False hd_digits_zero [of n] have "c \<noteq> CHR ''0''" by simp
  with d have "scan_radix (digits n) = (10, digits n)" by (auto simp: scan_radix_def split: list.splits)
  with assms skip_digits [of n "[]"] sign_digits [of n "[]"] show ?thesis by (simp add: strtoul_def)
qed

end
