(* ===== verification/Vnvme_Logger.thy ===== *)
theory Vnvme_Logger
  imports Vnvme_Text
begin

text \<open>
  \<^verbatim>\<open>vnvme-server/logger.h\<close> and \<^verbatim>\<open>logger.c\<close>: the log of the service. The variable arguments of a message are already merged into
  its text. The state is what the globals hold together with what was written: the console as a list of texts with
  the colour they were printed in, the log file as its contents.
\<close>

section \<open>Data\<close>

datatype LOG_LEVEL =
  LOG_LEVEL_NONE | LOG_LEVEL_ERROR | LOG_LEVEL_WARNING | LOG_LEVEL_INFO | LOG_LEVEL_DEBUG | LOG_LEVEL_VERBOSE

primrec level_number :: "LOG_LEVEL \<Rightarrow> nat" where
  "level_number LOG_LEVEL_NONE = 0"
| "level_number LOG_LEVEL_ERROR = 1"
| "level_number LOG_LEVEL_WARNING = 2"
| "level_number LOG_LEVEL_INFO = 3"
| "level_number LOG_LEVEL_DEBUG = 4"
| "level_number LOG_LEVEL_VERBOSE = 5"

instantiation LOG_LEVEL :: linorder
begin

definition less_eq_LOG_LEVEL :: "LOG_LEVEL \<Rightarrow> LOG_LEVEL \<Rightarrow> bool" where
  "less_eq_LOG_LEVEL a b \<longleftrightarrow> level_number a \<le> level_number b"

definition less_LOG_LEVEL :: "LOG_LEVEL \<Rightarrow> LOG_LEVEL \<Rightarrow> bool" where
  "less_LOG_LEVEL a b \<longleftrightarrow> level_number a < level_number b"

instance
proof
  fix a b :: LOG_LEVEL
  show "a \<le> b \<Longrightarrow> b \<le> a \<Longrightarrow> a = b"
    by (cases a; cases b) (simp_all add: less_eq_LOG_LEVEL_def)
qed (auto simp: less_eq_LOG_LEVEL_def less_LOG_LEVEL_def)

end

record LOGGER_CONFIG =
  lc_level :: LOG_LEVEL
  lc_enableConsole :: bool
  lc_enableFile :: bool
  lc_enableColor :: bool
  lc_enableTimestamp :: bool
  lc_enableModule :: bool
  lc_filePath :: "u16 list"

record LOGGER =
  lg_Config :: LOGGER_CONFIG
  lg_File :: "string option" \<comment> \<open>\<open>None\<close> is \<open>INVALID_HANDLE_VALUE\<close>\<close>
  lg_Initialized :: bool
  lg_Console :: "(u16 option \<times> string) list"

definition logger_initial :: LOGGER where
  "logger_initial =
     \<lparr>lg_Config = \<lparr>lc_level = LOG_LEVEL_INFO, lc_enableConsole = True, lc_enableFile = False, lc_enableColor = True,
        lc_enableTimestamp = True, lc_enableModule = True, lc_filePath = []\<rparr>,
      lg_File = None, lg_Initialized = False, lg_Console = []\<rparr>"

section \<open>Initialisation\<close>

definition GetLevelString :: "LOG_LEVEL \<Rightarrow> string" where
  "GetLevelString level =
     (case level of
        LOG_LEVEL_ERROR \<Rightarrow> ''ERROR'' | LOG_LEVEL_WARNING \<Rightarrow> ''WARN '' | LOG_LEVEL_INFO \<Rightarrow> ''INFO ''
      | LOG_LEVEL_DEBUG \<Rightarrow> ''DEBUG'' | LOG_LEVEL_VERBOSE \<Rightarrow> ''VERB '' | _ \<Rightarrow> ''?????'')"

definition GetLevelColor :: "LOG_LEVEL \<Rightarrow> u16" where
  "GetLevelColor level =
     (case level of
        LOG_LEVEL_ERROR \<Rightarrow> 12 | LOG_LEVEL_WARNING \<Rightarrow> 14 | LOG_LEVEL_INFO \<Rightarrow> 10
      | LOG_LEVEL_DEBUG \<Rightarrow> 11 | LOG_LEVEL_VERBOSE \<Rightarrow> 8 | _ \<Rightarrow> 7)"

text \<open>\<open>opened\<close> is whether \<open>CreateFileW\<close> opened the file, which is empty then.\<close>

definition LoggerInit :: "bool \<Rightarrow> LOGGER_CONFIG option \<Rightarrow> LOGGER \<Rightarrow> bool \<times> LOGGER" where
  "LoggerInit opened pConfig g =
     (if lg_Initialized g then (True, g)
      else
        let g = (case pConfig of None \<Rightarrow> g | Some c \<Rightarrow> g\<lparr>lg_Config := c\<rparr>);
            g = (if lc_enableFile (lg_Config g) \<and> lc_filePath (lg_Config g) \<noteq> [] \<and> hd (lc_filePath (lg_Config g)) \<noteq> 0 then
                   (if \<not> opened then g\<lparr>lg_Config := (lg_Config g)\<lparr>lc_enableFile := False\<rparr>, lg_File := None\<rparr>
                    else g\<lparr>lg_File := Some [CHR 0xEF, CHR 0xBB, CHR 0xBF]\<rparr>)
                 else g)
        in (True, g\<lparr>lg_Initialized := True\<rparr>))"

definition LoggerShutdown :: "LOGGER \<Rightarrow> LOGGER" where
  "LoggerShutdown g = (if \<not> lg_Initialized g then g else g\<lparr>lg_File := None, lg_Initialized := False\<rparr>)"

definition LoggerSetLevel :: "LOG_LEVEL \<Rightarrow> LOGGER \<Rightarrow> LOGGER" where
  "LoggerSetLevel level g = g\<lparr>lg_Config := (lg_Config g)\<lparr>lc_level := level\<rparr>\<rparr>"

definition LoggerGetLevel :: "LOGGER \<Rightarrow> LOG_LEVEL" where
  "LoggerGetLevel g = lc_level (lg_Config g)"

section \<open>Messages\<close>

text \<open>\<open>snprintf\<close> into \<open>n\<close> bytes keeps \<open>n - 1\<close> characters; \<open>%-8s\<close> fills up with blanks on the right.\<close>

definition pad_right :: "nat \<Rightarrow> string \<Rightarrow> string" where
  "pad_right n s = s @ replicate (n - length s) CHR '' ''"

definition final_line :: "LOGGER_CONFIG \<Rightarrow> string \<Rightarrow> LOG_LEVEL \<Rightarrow> string option \<Rightarrow> string \<Rightarrow> string" where
  "final_line c now level module txt =
     (let message = take 4095 txt; timestamp = (if lc_enableTimestamp c then take 31 now else []) in
      take 4199
        (case (if lc_enableModule c then module else None) of
           Some name \<Rightarrow> timestamp @ '' ['' @ GetLevelString level @ ''] ['' @ pad_right 8 name @ ''] '' @ message @ [CHR 0x0A]
         | None \<Rightarrow> timestamp @ '' ['' @ GetLevelString level @ ''] '' @ message @ [CHR 0x0A]))"

text \<open>\<open>now\<close> is the formatted local time, \<open>console\<close> whether there is a console.\<close>

definition LogMessage :: "string \<Rightarrow> bool \<Rightarrow> LOG_LEVEL \<Rightarrow> string option \<Rightarrow> string \<Rightarrow> LOGGER \<Rightarrow> LOGGER" where
  "LogMessage now console level module txt g =
     (if \<not> lg_Initialized g then g\<lparr>lg_Console := lg_Console g @ [(None, txt @ [CHR 0x0A])]\<rparr>
      else if level > lc_level (lg_Config g) then g
      else
        let finalLine = final_line (lg_Config g) now level module txt;
            g = (if lc_enableConsole (lg_Config g)
                 then g\<lparr>lg_Console := lg_Console g
                        @ [(if lc_enableColor (lg_Config g) \<and> console then Some (GetLevelColor level) else None, finalLine)]\<rparr>
                 else g)
        in if lc_enableFile (lg_Config g) then g\<lparr>lg_File := map_option (\<lambda>s. s @ finalLine) (lg_File g)\<rparr> else g)"

text \<open>The part of a path after its last separator.\<close>

fun base_name :: "string \<Rightarrow> string \<Rightarrow> string" where
  "base_name filename [] = filename"
| "base_name filename (c # p) = base_name (if c = CHR 0x5C \<or> c = CHR ''/'' then p else filename) p"

definition LogMessageEx :: "string \<Rightarrow> bool \<Rightarrow> LOG_LEVEL \<Rightarrow> string option \<Rightarrow> string \<Rightarrow> nat \<Rightarrow> string \<Rightarrow> LOGGER \<Rightarrow> LOGGER" where
  "LogMessageEx now console level module path line txt g =
     (if \<not> lg_Initialized g \<or> level > lc_level (lg_Config g) then g
      else LogMessage now console level module ([CHR ''[''] @ base_name path path @ '':'' @ digits line @ ''] '' @ take 4095 txt) g)"

section \<open>Hexadecimal dumps\<close>

definition hex_digit :: "nat \<Rightarrow> char" where
  "hex_digit n = char_of (if n < 10 then 48 + n else 87 + n)"

fun hex_digits :: "nat \<Rightarrow> string" where
  "hex_digits n = (if n < 16 then [hex_digit n] else hex_digits (n div 16) @ [hex_digit (n mod 16)])"

declare hex_digits.simps [simp del]

definition hex_offset :: "nat \<Rightarrow> string" where
  "hex_offset i = replicate (4 - length (hex_digits i)) CHR ''0'' @ hex_digits i"

definition hex_cell :: "u8 list \<Rightarrow> nat \<Rightarrow> string" where
  "hex_cell bytes j =
     (if j < length bytes then [hex_digit (unat (bytes ! j) div 16), hex_digit (unat (bytes ! j) mod 16), CHR '' ''] else ''   '')
     @ (if j = 7 then '' '' else [])"

definition ascii_cell :: "u8 list \<Rightarrow> nat \<Rightarrow> char" where
  "ascii_cell bytes j =
     (if j < length bytes then if bytes ! j \<ge> 32 \<and> bytes ! j < 127 then char_of (unat (bytes ! j)) else CHR ''.'' else CHR '' '')"

text \<open>One line, of the sixteen or fewer bytes from offset \<open>i\<close> on, in a buffer of 80 bytes.\<close>

definition dump_line :: "nat \<Rightarrow> u8 list \<Rightarrow> string" where
  "dump_line i bytes =
     take 79 (''  '' @ hex_offset i @ '': '' @ concat (map (hex_cell bytes) [0..<16]) @ '' |'' @ map (ascii_cell bytes) [0..<16] @ ''|'')"

function dump_lines :: "nat \<Rightarrow> u8 list \<Rightarrow> string list" where
  "dump_lines i bytes = (if bytes = [] then [] else dump_line i (take 16 bytes) # dump_lines (i + 16) (drop 16 bytes))"
  by pat_completeness auto

termination by (relation "measure (length \<circ> snd)") auto

declare dump_lines.simps [simp del]

definition LogHexDump :: "string \<Rightarrow> bool \<Rightarrow> LOG_LEVEL \<Rightarrow> string option \<Rightarrow> string \<Rightarrow> u8 list \<Rightarrow> LOGGER \<Rightarrow> LOGGER" where
  "LogHexDump now console level module prefix bytes g =
     (if \<not> lg_Initialized g \<or> level > lc_level (lg_Config g) then g
      else fold (LogMessage now console level module)
             ((prefix @ '': '' @ digits (length bytes) @ '' bytes'') # dump_lines 0 bytes) g)"

section \<open>What a reader of the dump sees\<close>

definition hex_value :: "char \<Rightarrow> nat" where
  "hex_value c = (if (of_char c :: nat) \<le> 57 then of_char c - 48 else of_char c - 87)"

lemma hex_value_digit: "n < 16 \<Longrightarrow> hex_value (hex_digit n) = n"
  by (simp add: hex_value_def hex_digit_def)

text \<open>The bytes of a line with four digits of offset: the cells stand three characters apart, after the eighth one more.\<close>

definition read_cell :: "string \<Rightarrow> nat \<Rightarrow> u8" where
  "read_cell l j = (let p = 8 + 3 * j + (if j > 7 then 1 else 0) in of_nat (16 * hex_value (l ! p) + hex_value (l ! (p + 1))))"

lemma hex_digits_length: "0 < k \<Longrightarrow> n < 16 ^ k \<Longrightarrow> length (hex_digits n) \<le> k"
proof (induction k arbitrary: n)
  case (Suc k)
  show ?case
  proof (cases "n < 16")
    case True
    then show ?thesis by (subst hex_digits.simps) simp
  next
    case False
    with Suc.prems(2) have "0 < k" by (cases k) auto
    moreover have "n div 16 < 16 ^ k" using Suc.prems(2) by (simp add: less_mult_imp_div_less mult.commute)
    ultimately have "length (hex_digits (n div 16)) \<le> k" by (rule Suc.IH)
    with False show ?thesis by (subst hex_digits.simps) simp
  qed
qed simp

lemma hex_offset_length: "i < 65536 \<Longrightarrow> length (hex_offset i) = 4"
  using hex_digits_length [of 4 i] by (simp add: hex_offset_def)

lemma hex_cell_length: "length (hex_cell bytes j) = (if j = 7 then 4 else 3)"
  by (simp add: hex_cell_def)

lemma cells_length: "length (concat (map (hex_cell bytes) [0..<j])) = 3 * j + (if j > 7 then 1 else 0)"
  by (induction j) (auto simp: hex_cell_length)

lemma cells_nth:
  assumes "j < 16" "k < 2"
  shows "concat (map (hex_cell bytes) [0..<16]) ! (3 * j + (if j > 7 then 1 else 0) + k) = hex_cell bytes j ! k"
proof -
  have "[0..<16] = [0..<j] @ j # [Suc j..<16]" using assms upt_add_eq_append [of 0 j "16 - j"] upt_conv_Cons [of j 16] by simp
  then have "concat (map (hex_cell bytes) [0..<16]) = concat (map (hex_cell bytes) [0..<j]) @ hex_cell bytes j @ concat (map (hex_cell bytes) [Suc j..<16])"
    by simp
  then show ?thesis using assms by (simp add: nth_append cells_length hex_cell_length)
qed

lemma dump_line_whole:
  assumes "i < 65536"
  shows "dump_line i bytes = ''  '' @ hex_offset i @ '': '' @ concat (map (hex_cell bytes) [0..<16]) @ '' |'' @ map (ascii_cell bytes) [0..<16] @ ''|''"
  using assms cells_length [of bytes 16] unfolding dump_line_def
  by (intro take_all) (simp add: hex_offset_length del: upt_Suc)

lemma dump_line_length: "i < 65536 \<Longrightarrow> length (dump_line i bytes) = 76"
  using cells_length [of bytes 16] by (simp add: dump_line_whole hex_offset_length del: upt_Suc)

lemma read_cell_dump:
  assumes "i < 65536" "j < length bytes" "length bytes \<le> 16"
  shows "read_cell (dump_line i bytes) j = bytes ! j"
proof -
  let ?cells = "concat (map (hex_cell bytes) [0..<16])" and ?p = "3 * j + (if j > 7 then 1 else 0)"
  have at: "dump_line i bytes ! (8 + ?p + k) = hex_cell bytes j ! k" if "k < 2" for k
  proof -
    have "?p + k < length ?cells" using that assms cells_length [of bytes 16] by (auto simp del: upt_Suc)
    then have "dump_line i bytes ! (8 + ?p + k) = ?cells ! (?p + k)"
      using assms(1) by (simp add: dump_line_whole nth_append hex_offset_length del: upt_Suc)
    with that assms cells_nth [of j k bytes] show ?thesis by simp
  qed
  let ?x = "unat (bytes ! j)"
  have "?x < 256" by (rule less_le_trans [OF unsigned_less]) simp
  then have "?x div 16 < 16" by simp
  with at [of 0] at [of 1] assms(2) have "read_cell (dump_line i bytes) j = of_nat (16 * (?x div 16) + ?x mod 16)"
    unfolding read_cell_def Let_def by (simp add: hex_cell_def hex_value_digit add.assoc [symmetric] del: of_nat_add of_nat_mult)
  then show ?thesis by (simp del: of_nat_add of_nat_mult)
qed

text \<open>A hexadecimal dump of up to 64 KiB is complete. Every line fits its buffer, there is one for every sixteen bytes, and
  reading the cells of the lines back gives the bytes that were dumped, in order.\<close>

theorem LogHexDump_lossless:
  assumes "i + length bytes \<le> 65536"
  shows "length (dump_lines i bytes) = (length bytes + 15) div 16 \<and> (\<forall>l\<in>set (dump_lines i bytes). length l = 76)
    \<and> (\<forall>k<length bytes. read_cell (dump_lines i bytes ! (k div 16)) (k mod 16) = bytes ! k)"
  using assms
proof (induction i bytes rule: dump_lines.induct)
  case (1 i bytes)
  show ?case
  proof (cases "bytes = []")
    case True
    then show ?thesis by (simp add: dump_lines.simps)
  next
    case False
    let ?ls = "dump_lines (i + 16) (drop 16 bytes)" and ?l = "dump_line i (take 16 bytes)"
    have ls: "dump_lines i bytes = ?l # ?ls" using False by (subst dump_lines.simps) simp
    have i: "i < 65536" using False 1(2) by (cases bytes) auto
    show ?thesis
    proof (cases "length bytes \<le> 16")
      case True
      then have "?ls = []" by (simp add: dump_lines.simps)
      moreover have "(length bytes + 15) div 16 = 1" using True False by (cases bytes) auto
      ultimately show ?thesis
        using True i ls by (auto simp: dump_line_length read_cell_dump less_le_trans)
    next
      case long: False
      then have IH: "length ?ls = (length (drop 16 bytes) + 15) div 16" "\<forall>l\<in>set ?ls. length l = 76"
          "\<forall>k<length (drop 16 bytes). read_cell (?ls ! (k div 16)) (k mod 16) = drop 16 bytes ! k"
        using 1(1) [OF False] 1(2) by simp_all
      have "read_cell ((?l # ?ls) ! (k div 16)) (k mod 16) = bytes ! k" if "k < length bytes" for k
      proof (cases "k < 16")
        case True
        with i long show ?thesis by (simp add: read_cell_dump)
      next
        case False
        then obtain k' where "k = 16 + k'" by (metis le_iff_add not_less)
        moreover have "(16 + k') div 16 = Suc (k' div 16)" by simp
        ultimately show ?thesis using IH(3) that by simp
      qed
      with IH long i ls show ?thesis by (auto simp: dump_line_length)
    qed
  qed
qed

theorem LogHexDump_lossless_witness:
  "length (dump_lines 0 [0x41, 0xFF, 7]) = 1 \<and> read_cell (dump_lines 0 [0x41, 0xFF, 7] ! 0) 1 = 0xFF"
proof -
  note * = LogHexDump_lossless [of 0 "[0x41, 0xFF, 7]"]
  have "\<forall>k<3. read_cell (dump_lines 0 [0x41, 0xFF, 7] ! (k div 16)) (k mod 16) = [0x41, 0xFF, 7] ! k"
    using * by simp
  from this [rule_format, of 1] * show ?thesis by simp
qed

section \<open>Time stamps\<close>

record SYSTEMTIME =
  wYear :: u16
  wMonth :: u16
  wDay :: u16
  wHour :: u16
  wMinute :: u16
  wSecond :: u16
  wMilliseconds :: u16

text \<open>\<open>%0nd\<close>: at least \<open>n\<close> digits.\<close>

definition zero_padded :: "nat \<Rightarrow> nat \<Rightarrow> string" where
  "zero_padded n k = replicate (n - length (digits k)) CHR ''0'' @ digits k"

definition GetTimestamp :: "SYSTEMTIME \<Rightarrow> nat \<Rightarrow> string" where
  "GetTimestamp st n = take (n - 1)
     (zero_padded 4 (unat (wYear st)) @ ''-'' @ zero_padded 2 (unat (wMonth st)) @ ''-'' @ zero_padded 2 (unat (wDay st)) @ '' ''
      @ zero_padded 2 (unat (wHour st)) @ '':'' @ zero_padded 2 (unat (wMinute st)) @ '':'' @ zero_padded 2 (unat (wSecond st)) @ ''.''
      @ zero_padded 3 (unat (wMilliseconds st)))"

text \<open>What a reader of the log makes of a time stamp, by its columns, and the times that \<open>GetLocalTime\<close> can give.\<close>

definition column :: "nat \<Rightarrow> nat \<Rightarrow> string \<Rightarrow> nat" where
  "column i n txt = undigits (take n (drop i txt))"

definition read_timestamp :: "string \<Rightarrow> SYSTEMTIME" where
  "read_timestamp txt = \<lparr>wYear = of_nat (column 0 4 txt), wMonth = of_nat (column 5 2 txt), wDay = of_nat (column 8 2 txt), wHour = of_nat (column 11 2 txt),
     wMinute = of_nat (column 14 2 txt), wSecond = of_nat (column 17 2 txt), wMilliseconds = of_nat (column 20 3 txt)\<rparr>"

definition time_ok :: "SYSTEMTIME \<Rightarrow> bool" where
  "time_ok st \<longleftrightarrow> unat (wYear st) < 10000 \<and> unat (wMonth st) \<le> 12 \<and> unat (wDay st) \<le> 31 \<and> unat (wHour st) < 24 \<and> unat (wMinute st) < 60
     \<and> unat (wSecond st) < 60 \<and> unat (wMilliseconds st) < 1000"

lemma zero_padded: "0 < n \<Longrightarrow> k < 10 ^ n \<Longrightarrow> length (zero_padded n k) = n" "undigits (zero_padded n k) = k"
  using length_digits [of n k] by (auto simp: zero_padded_def undigits_zeros undigits_digits)

text \<open>A time stamp fits its buffer of 32 bytes, has 23 characters, and the time can be read from it again.\<close>

lemma read_GetTimestamp:
  assumes "time_ok st"
  shows "length (GetTimestamp st 32) = 23" "read_timestamp (GetTimestamp st 32) = st"
proof -
  note z = zero_padded(1) [of 4 "unat (wYear st)"] zero_padded(1) [of 2 "unat (wMonth st)"] zero_padded(1) [of 2 "unat (wDay st)"]
    zero_padded(1) [of 2 "unat (wHour st)"] zero_padded(1) [of 2 "unat (wMinute st)"] zero_padded(1) [of 2 "unat (wSecond st)"]
    zero_padded(1) [of 3 "unat (wMilliseconds st)"]
  have l: "length (zero_padded 4 (unat (wYear st))) = 4" "length (zero_padded 2 (unat (wMonth st))) = 2" "length (zero_padded 2 (unat (wDay st))) = 2"
    "length (zero_padded 2 (unat (wHour st))) = 2" "length (zero_padded 2 (unat (wMinute st))) = 2" "length (zero_padded 2 (unat (wSecond st))) = 2"
    "length (zero_padded 3 (unat (wMilliseconds st))) = 3"
    using z assms by (simp_all add: time_ok_def)
  then show "length (GetTimestamp st 32) = 23" by (simp add: GetTimestamp_def)
  show "read_timestamp (GetTimestamp st 32) = st"
    by (simp add: GetTimestamp_def read_timestamp_def column_def l zero_padded(2))
qed

end
