(* ===== verification/Vnvme_Server_Config.thy ===== *)
theory Vnvme_Server_Config
  imports Vnvme_Clib Vnvme_Logger Vnvme_Backend
begin

text \<open>
  \<^verbatim>\<open>vnvme-server/config.h\<close> and \<^verbatim>\<open>config.c\<close>: the configuration of the service, from its command line and from a file of
  sections. A character array of \<open>n\<close> bytes that starts out as zeros and is only written by \<open>strncpy\<close> with \<open>n - 1\<close> is the text
  it holds. Converting a path to UTF-16 is the system's: \<open>wide old txt\<close> is the buffer after converting \<open>txt\<close> into a
  buffer that held \<open>old\<close>. Printing has no effect on the state and is left out.
\<close>

section \<open>Data\<close>

record STORAGE_CONFIG =
  sg_backendType :: BACKEND_TYPE
  sg_size :: u64
  sg_blockSize :: u32
  sg_filePath :: "u16 list"
  sg_readOnly :: bool
  sg_directIO :: bool
  sg_preallocate :: bool

record CONTROLLER_CONFIG =
  cc_modelNumber :: string
  cc_serialNumber :: string
  cc_vendorId :: u16
  cc_deviceId :: u16

record SERVER_CONFIG =
  sv_log_level :: LOG_LEVEL
  sv_log_enableConsole :: bool
  sv_log_enableFile :: bool
  sv_log_filePath :: "u16 list"
  sv_storage :: STORAGE_CONFIG
  sv_controller :: CONTROLLER_CONFIG
  sv_heartbeatIntervalMs :: u32
  sv_pollIntervalUs :: u32
  sv_daemonMode :: bool
  sv_configFilePath :: "u16 list"

definition upd_storage :: "(STORAGE_CONFIG \<Rightarrow> STORAGE_CONFIG) \<Rightarrow> SERVER_CONFIG \<Rightarrow> SERVER_CONFIG" where
  "upd_storage f c = c\<lparr>sv_storage := f (sv_storage c)\<rparr>"

definition upd_controller :: "(CONTROLLER_CONFIG \<Rightarrow> CONTROLLER_CONFIG) \<Rightarrow> SERVER_CONFIG \<Rightarrow> SERVER_CONFIG" where
  "upd_controller f c = c\<lparr>sv_controller := f (sv_controller c)\<rparr>"

type_synonym wide = "u16 list \<Rightarrow> string \<Rightarrow> u16 list"

definition ConfigSetDefaults :: SERVER_CONFIG where
  "ConfigSetDefaults =
     \<lparr>sv_log_level = LOG_LEVEL_INFO, sv_log_enableConsole = True, sv_log_enableFile = False, sv_log_filePath = [],
      sv_storage = \<lparr>sg_backendType = BACKEND_TYPE_MEMORY, sg_size = 100 * 1024 * 1024 * 1024, sg_blockSize = 512,
        sg_filePath = [], sg_readOnly = False, sg_directIO = False, sg_preallocate = False\<rparr>,
      sv_controller = \<lparr>cc_modelNumber = take 39 ''Virtual NVMe SSD'', cc_serialNumber = take 19 ''VNVME00000001'',
        cc_vendorId = 0x1B36, cc_deviceId = 0x0010\<rparr>,
      sv_heartbeatIntervalMs = 1000, sv_pollIntervalUs = 100, sv_daemonMode = False, sv_configFilePath = []\<rparr>"

section \<open>Sizes\<close>

text \<open>The exponent of the multiplier a suffix stands for; an unknown suffix has none. The terminator counts as a character.\<close>

definition size_shift :: "char \<Rightarrow> nat option" where
  "size_shift c =
     (if c = CHR ''K'' then Some 10 else if c = CHR ''M'' then Some 20 else if c = CHR ''G'' then Some 30
      else if c = CHR ''T'' then Some 40 else if c = NUL \<or> c = CHR ''B'' then Some 0 else None)"

definition ConfigParseSize :: "string option \<Rightarrow> u64 option" where
  "ConfigParseSize str =
     (case str of
        None \<Rightarrow> Some 0
      | Some s \<Rightarrow>
          if s = [] then Some 0
          else
            let (v, endptr) = strtod s in
            if dbl_negative v then Some 0
            else do {
              c \<leftarrow> c_toupper (case endptr of [] \<Rightarrow> NUL | c # _ \<Rightarrow> c);
              case size_shift c of None \<Rightarrow> Some 0 | Some k \<Rightarrow> scale_to_u64 v k
            })"

section \<open>The command line\<close>

definition ParseLogLevel :: "string option \<Rightarrow> LOG_LEVEL" where
  "ParseLogLevel str =
     (case str of
        None \<Rightarrow> LOG_LEVEL_INFO
      | Some s \<Rightarrow>
          if stricmp s ''error'' then LOG_LEVEL_ERROR
          else if stricmp s ''warn'' \<or> stricmp s ''warning'' then LOG_LEVEL_WARNING
          else if stricmp s ''info'' then LOG_LEVEL_INFO
          else if stricmp s ''debug'' then LOG_LEVEL_DEBUG
          else if stricmp s ''verbose'' then LOG_LEVEL_VERBOSE
          else if stricmp s ''none'' then LOG_LEVEL_NONE
          else LOG_LEVEL_INFO)"

text \<open>\<open>Exits\<close> is \<open>exit(0)\<close> after the usage or the version is printed.\<close>

datatype args_result = Exits | Parsed bool SERVER_CONFIG

text \<open>One round of the loop: it ends with a result or goes on with the remaining arguments.\<close>

datatype args_step = Finish args_result | Next "string list" SERVER_CONFIG

definition config_arg :: "wide \<Rightarrow> string \<Rightarrow> string list \<Rightarrow> SERVER_CONFIG \<Rightarrow> args_step option" where
  "config_arg wide arg rest c =
     (if arg = ''-h'' \<or> arg = ''--help'' then Some (Finish Exits)
      else if arg = ''-v'' \<or> arg = ''--version'' then Some (Finish Exits)
      else if (arg = ''-c'' \<or> arg = ''--config'') \<and> rest \<noteq> [] then
        Some (Next (tl rest) (c\<lparr>sv_configFilePath := wide (sv_configFilePath c) (hd rest)\<rparr>))
      else if (arg = ''-s'' \<or> arg = ''--size'') \<and> rest \<noteq> [] then do {
        n \<leftarrow> ConfigParseSize (Some (hd rest));
        let c = upd_storage (sg_size_update (\<lambda>_. n)) c;
        Some (if n = 0 then Finish (Parsed False c) else Next (tl rest) c)
      }
      else if (arg = ''-b'' \<or> arg = ''--backend'') \<and> rest \<noteq> [] then
        Some (if stricmp (hd rest) ''memory'' \<or> stricmp (hd rest) ''mem''
              then Next (tl rest) (upd_storage (sg_backendType_update (\<lambda>_. BACKEND_TYPE_MEMORY)) c)
              else if stricmp (hd rest) ''file''
              then Next (tl rest) (upd_storage (sg_backendType_update (\<lambda>_. BACKEND_TYPE_FILE)) c)
              else Finish (Parsed False c))
      else if (arg = ''-f'' \<or> arg = ''--file'') \<and> rest \<noteq> [] then
        Some (Next (tl rest) (upd_storage (\<lambda>s. s\<lparr>sg_filePath := wide (sg_filePath s) (hd rest)\<rparr>) c))
      else if arg = ''--direct-io'' then Some (Next rest (upd_storage (sg_directIO_update (\<lambda>_. True)) c))
      else if arg = ''--preallocate'' then Some (Next rest (upd_storage (sg_preallocate_update (\<lambda>_. True)) c))
      else if (arg = ''-m'' \<or> arg = ''--model'') \<and> rest \<noteq> [] then
        Some (Next (tl rest) (upd_controller (cc_modelNumber_update (\<lambda>_. take 39 (hd rest))) c))
      else if (arg = ''-n'' \<or> arg = ''--serial'') \<and> rest \<noteq> [] then
        Some (Next (tl rest) (upd_controller (cc_serialNumber_update (\<lambda>_. take 19 (hd rest))) c))
      else if arg = ''--log-level'' \<and> rest \<noteq> [] then
        Some (Next (tl rest) (c\<lparr>sv_log_level := ParseLogLevel (Some (hd rest))\<rparr>))
      else if arg = ''--log-file'' \<and> rest \<noteq> [] then
        Some (Next (tl rest) (c\<lparr>sv_log_filePath := wide (sv_log_filePath c) (hd rest), sv_log_enableFile := True\<rparr>))
      else if arg = ''--daemon'' then Some (Next rest (c\<lparr>sv_daemonMode := True\<rparr>))
      else Some (Finish (Parsed False c)))"

text \<open>A round of the loop that goes on, branch by branch.\<close>

lemma if_elim: "(if b then x else y) = z \<Longrightarrow> (x = z \<Longrightarrow> P) \<Longrightarrow> (y = z \<Longrightarrow> P) \<Longrightarrow> P"
  by (cases b) auto

lemma if_map: "(b \<Longrightarrow> f x = x') \<Longrightarrow> (\<not> b \<Longrightarrow> f y = y') \<Longrightarrow> f (if b then x else y) = (if b then x' else y')"
  by simp

lemma config_arg_shorter:
  assumes "config_arg wide arg rest c = Some (Next rest' c')"
  shows "length rest' \<le> length rest"
  using assms unfolding config_arg_def
  by (elim if_elim) (auto simp: Let_def split: if_split_asm bind_splits)

function (sequential) config_args :: "wide \<Rightarrow> string list \<Rightarrow> SERVER_CONFIG \<Rightarrow> args_result option" where
  "config_args wide [] c = Some (Parsed True c)"
| "config_args wide (arg # rest) c =
     (case config_arg wide arg rest c of
        None \<Rightarrow> None
      | Some (Finish r) \<Rightarrow> Some r
      | Some (Next rest c) \<Rightarrow> config_args wide rest c)"
  by pat_completeness auto

termination by (relation "measure (\<lambda>(_, args, _). length args)") (auto dest: config_arg_shorter)

definition ConfigParseArgs :: "wide \<Rightarrow> string list \<Rightarrow> args_result option" where
  "ConfigParseArgs wide argv = config_args wide (tl argv) ConfigSetDefaults"

section \<open>The configuration file\<close>

fun trim_left :: "string \<Rightarrow> string option" where
  "trim_left [] = Some []"
| "trim_left (c # s) = do { sp \<leftarrow> c_isspace c; if sp then trim_left s else Some (c # s) }"

text \<open>From the last character back, down to the first, which is not looked at.\<close>

fun trim_last :: "string \<Rightarrow> string option" where
  "trim_last (c # d # s) = do { sp \<leftarrow> c_isspace c; if sp then trim_last (d # s) else Some (c # d # s) }"
| "trim_last s = Some s"

definition TrimString :: "string \<Rightarrow> string option" where
  "TrimString str = do {
     s \<leftarrow> trim_left str;
     if s = [] then Some [] else map_option rev (trim_last (rev s))
   }"

text \<open>The pieces \<open>fgets\<close> delivers into 1024 bytes: to the end of a line, or 1023 characters.\<close>

abbreviation (input) LF :: char where "LF \<equiv> CHR 0x0A"

function fgets_pieces :: "string \<Rightarrow> string list" where
  "fgets_pieces s =
     (if s = [] then []
      else
        let l = takeWhile (\<lambda>c. c \<noteq> LF) s; p = take 1023 (if length l < length s then l @ [LF] else l)
        in p # fgets_pieces (drop (length p) s))"
  by pat_completeness auto

termination
proof (relation "measure length")
  fix s l p :: string
  assume "s \<noteq> []" "l = takeWhile (\<lambda>c. c \<noteq> LF) s" "p = take 1023 (if length l < length s then l @ [LF] else l)"
  then have "0 < length p" by (cases s) auto
  with \<open>s \<noteq> []\<close> show "(drop (length p) s, s) \<in> measure length" by simp
qed simp

declare fgets_pieces.simps [simp del]

definition config_bool :: "string \<Rightarrow> bool" where
  "config_bool v \<longleftrightarrow> stricmp v ''true'' \<or> stricmp v ''1''"

definition config_storage :: "wide \<Rightarrow> string \<Rightarrow> string \<Rightarrow> SERVER_CONFIG \<Rightarrow> SERVER_CONFIG option" where
  "config_storage wide key v c =
     (if stricmp key ''Size'' \<or> stricmp key ''NamespaceSize''
      then do { n \<leftarrow> ConfigParseSize (Some v); Some (upd_storage (sg_size_update (\<lambda>_. n)) c) }
      else if stricmp key ''Type'' \<or> stricmp key ''BackendType'' then
        Some (if stricmp v ''memory'' then upd_storage (sg_backendType_update (\<lambda>_. BACKEND_TYPE_MEMORY)) c
              else if stricmp v ''file'' then upd_storage (sg_backendType_update (\<lambda>_. BACKEND_TYPE_FILE)) c
              else c)
      else if stricmp key ''File'' \<or> stricmp key ''BackendFile''
      then Some (upd_storage (\<lambda>s. s\<lparr>sg_filePath := wide (sg_filePath s) v\<rparr>) c)
      else if stricmp key ''ReadOnly'' then Some (upd_storage (sg_readOnly_update (\<lambda>_. config_bool v)) c)
      else if stricmp key ''DirectIO'' then Some (upd_storage (sg_directIO_update (\<lambda>_. config_bool v)) c)
      else Some c)"

definition config_controller :: "string \<Rightarrow> string \<Rightarrow> SERVER_CONFIG \<Rightarrow> SERVER_CONFIG" where
  "config_controller key v c =
     (if stricmp key ''Model'' \<or> stricmp key ''ModelNumber''
      then upd_controller (cc_modelNumber_update (\<lambda>_. take 39 v)) c
      else if stricmp key ''Serial'' \<or> stricmp key ''SerialNumber''
      then upd_controller (cc_serialNumber_update (\<lambda>_. take 19 v)) c
      else if stricmp key ''VendorId'' then upd_controller (cc_vendorId_update (\<lambda>_. ucast (strtoul v))) c
      else if stricmp key ''DeviceId'' then upd_controller (cc_deviceId_update (\<lambda>_. ucast (strtoul v))) c
      else c)"

definition config_log :: "wide \<Rightarrow> string \<Rightarrow> string \<Rightarrow> SERVER_CONFIG \<Rightarrow> SERVER_CONFIG" where
  "config_log wide key v c =
     (if stricmp key ''Level'' then c\<lparr>sv_log_level := ParseLogLevel (Some v)\<rparr>
      else if stricmp key ''File'' then c\<lparr>sv_log_filePath := wide (sv_log_filePath c) v, sv_log_enableFile := True\<rparr>
      else if stricmp key ''Console'' then c\<lparr>sv_log_enableConsole := config_bool v\<rparr>
      else c)"

definition config_runtime :: "string \<Rightarrow> string \<Rightarrow> SERVER_CONFIG \<Rightarrow> SERVER_CONFIG" where
  "config_runtime key v c =
     (if stricmp key ''HeartbeatInterval'' then c\<lparr>sv_heartbeatIntervalMs := strtoul v\<rparr>
      else if stricmp key ''PollInterval'' then c\<lparr>sv_pollIntervalUs := strtoul v\<rparr>
      else if stricmp key ''Daemon'' then c\<lparr>sv_daemonMode := config_bool v\<rparr>
      else c)"

definition config_entry :: "wide \<Rightarrow> string \<Rightarrow> string \<Rightarrow> string \<Rightarrow> SERVER_CONFIG \<Rightarrow> SERVER_CONFIG option" where
  "config_entry wide section key v c =
     (if stricmp section ''storage'' \<or> stricmp section ''namespace'' then config_storage wide key v c
      else if stricmp section ''controller'' then Some (config_controller key v c)
      else if stricmp section ''log'' \<or> stricmp section ''logging'' then Some (config_log wide key v c)
      else if stricmp section ''runtime'' \<or> stricmp section ''server'' then Some (config_runtime key v c)
      else Some c)"

definition config_line :: "wide \<Rightarrow> string \<Rightarrow> string \<times> SERVER_CONFIG \<Rightarrow> (string \<times> SERVER_CONFIG) option" where
  "config_line wide line = (\<lambda>(currentSection, c). do {
     trimmed \<leftarrow> TrimString (sz line);
     if trimmed = [] \<or> hd trimmed = CHR '';'' \<or> hd trimmed = CHR ''#'' then Some (currentSection, c)
     else if hd trimmed = CHR ''['' then
       Some (if CHR '']'' \<in> set trimmed then take 63 (takeWhile (\<lambda>x. x \<noteq> CHR '']'') (tl trimmed)) else currentSection, c)
     else if CHR ''='' \<notin> set trimmed then Some (currentSection, c)
     else do {
       key \<leftarrow> TrimString (takeWhile (\<lambda>x. x \<noteq> CHR ''='') trimmed);
       v \<leftarrow> TrimString (tl (dropWhile (\<lambda>x. x \<noteq> CHR ''='') trimmed));
       c \<leftarrow> config_entry wide currentSection key v c;
       Some (currentSection, c)
     }
   })"

fun config_lines :: "wide \<Rightarrow> string list \<Rightarrow> string \<times> SERVER_CONFIG \<Rightarrow> (string \<times> SERVER_CONFIG) option" where
  "config_lines wide [] s = Some s"
| "config_lines wide (l # ls) s = do { s \<leftarrow> config_line wide l s; config_lines wide ls s }"

text \<open>\<open>contents\<close> is what the stream delivers, \<open>None\<close> when the file cannot be opened.\<close>

definition ConfigLoadFile :: "wide \<Rightarrow> string option \<Rightarrow> SERVER_CONFIG \<Rightarrow> (bool \<times> SERVER_CONFIG) option" where
  "ConfigLoadFile wide contents c =
     (case contents of
        None \<Rightarrow> Some (False, c)
      | Some s \<Rightarrow> do { (currentSection, c) \<leftarrow> config_lines wide (fgets_pieces s) ([], c); Some (True, c) })"

section \<open>Validation\<close>

definition ConfigValidate :: "SERVER_CONFIG \<Rightarrow> bool" where
  "ConfigValidate c \<longleftrightarrow>
     \<not> (sg_size (sv_storage c) = 0)
     \<and> \<not> (sg_backendType (sv_storage c) = BACKEND_TYPE_FILE
          \<and> (sg_filePath (sv_storage c) = [] \<or> hd (sg_filePath (sv_storage c)) = 0))
     \<and> \<not> (length (cc_serialNumber (sv_controller c)) = 0)"

section \<open>Sizes, as the user writes them\<close>

lemma size_shift_chars:
  "size_shift (upper c) = Some k \<Longrightarrow> c \<in> (\<lambda>n :: nat. char_of n) ` {0, 66, 71, 75, 77, 84, 98, 103, 107, 109, 116}"
proof -
  assume k: "size_shift (upper c) = Some k"
  have "c = char_of (of_char c :: nat)" by simp
  moreover have "(of_char c :: nat) \<in> {0, 66, 71, 75, 77, 84, 98, 103, 107, 109, 116}"
  proof -
    have u: "upper c \<in> {NUL, CHR ''B'', CHR ''G'', CHR ''K'', CHR ''M'', CHR ''T''}"
      using k by (auto simp: size_shift_def split: if_splits)
    then have "(of_char (upper c) :: nat) \<in> {0, 66, 71, 75, 77, 84}" by auto
    moreover have "(of_char (upper c) :: nat) = of_char c \<or> (of_char c :: nat) = of_char (upper c) + 32"
      by (auto simp: upper_def)
    ultimately show ?thesis by (auto simp: upper_def split: if_splits)
  qed
  ultimately show ?thesis by blast
qed

lemma size_shift_number_end: "size_shift (upper c) = Some k \<Longrightarrow> number_end [c]"
  by (drule size_shift_chars, elim imageE insertE emptyE) (simp_all add: number_end_def digit_in_def digit_value_def lower_def char_of_eq_iff)

lemma c_toupper_shift: "size_shift (upper c) = Some k \<Longrightarrow> c_toupper c = Some (upper c)"
proof -
  assume k: "size_shift (upper c) = Some k"
  have "(of_char c :: nat) < 128"
  proof (rule ccontr)
    assume "\<not> (of_char c :: nat) < 128"
    then have "upper c = c" "(of_char c :: nat) \<ge> 128" by (auto simp: upper_def)
    with k show False by (auto simp: size_shift_def split: if_splits)
  qed
  then show ?thesis by (simp add: c_toupper_def)
qed

lemma ConfigParseSize_suffix:
  assumes "n < 2 ^ 53" "size_shift (upper c) = Some k" "n * 2 ^ k < 2 ^ 64"
  shows "ConfigParseSize (Some (digits n @ [c])) = Some (of_nat (n * 2 ^ k))"
  using scale_exact [OF assms(1,3)] assms(2)
  by (simp add: ConfigParseSize_def strtod_digits size_shift_number_end to_double_nonnegative c_toupper_shift)

lemma ConfigParseSize_plain:
  assumes "n < 2 ^ 53"
  shows "ConfigParseSize (Some (digits n)) = Some (of_nat n)"
  using scale_exact [of n 0] assms strtod_digits [of "[]" n]
  by (simp add: ConfigParseSize_def number_end_def to_double_nonnegative c_toupper_def size_shift_def upper_def)

text \<open>A size is read exactly. A whole number below \<open>2 ^ 53\<close> with one of the suffixes K, M, G, T in either case is that many
  binary kilo-, mega-, giga- or terabytes, with B or no suffix that many bytes, as long as the result fits into 64
  bits: the detour over floating point loses nothing.\<close>

theorem ConfigParseSize_exact:
  assumes "n < 2 ^ 53" "n * 2 ^ k < 2 ^ 64" "size_shift (upper c) = Some k"
  shows "ConfigParseSize (Some (digits n @ [c])) = Some (of_nat (n * 2 ^ k)) \<and> ConfigParseSize (Some (digits n)) = Some (of_nat n)"
  using assms by (simp only: ConfigParseSize_suffix ConfigParseSize_plain simp_thms)

theorem ConfigParseSize_exact_witness:
  "ConfigParseSize (Some (digits 100 @ ''g'')) = Some 107374182400"
  using ConfigParseSize_exact [of 100 30 "CHR ''g''"] by (simp add: size_shift_def upper_def char_of_eq_iff)

section \<open>The command line, as a whole\<close>

lemma config_arg_unfinished: "config_arg wide arg rest c \<noteq> Some (Finish (Parsed True c'))"
proof
  assume "config_arg wide arg rest c = Some (Finish (Parsed True c'))"
  then show False
    unfolding config_arg_def by (elim if_elim) (auto simp: Let_def split: if_split_asm bind_splits)
qed

primrec more_args :: "string list \<Rightarrow> args_step \<Rightarrow> args_step" where
  "more_args ys (Finish r) = Finish r"
| "more_args ys (Next rest c) = Next (rest @ ys) c"

lemma config_arg_more:
  assumes "rest \<noteq> []"
  shows "config_arg wide arg (rest @ ys) c = map_option (more_args ys) (config_arg wide arg rest c)"
proof -
  have "hd (rest @ ys) = hd rest" "tl (rest @ ys) = tl rest @ ys" "rest @ ys \<noteq> []" using assms by simp_all
  then show ?thesis
    unfolding config_arg_def
    by (intro if_map [symmetric]) (simp_all add: assms Let_def map_option_bind comp_def if_distrib [of "more_args ys"] cong: if_cong)
qed

lemma if_branch: "(if b then x else y) = z \<Longrightarrow> (b \<Longrightarrow> x = z \<Longrightarrow> P) \<Longrightarrow> (y = z \<Longrightarrow> P) \<Longrightarrow> P"
  by (cases b) auto

lemma config_arg_last:
  assumes "config_arg wide arg [] c = Some (Next rest' c')"
  shows "rest' = [] \<and> config_arg wide arg ys c = Some (Next ys c')"
proof -
  have "arg = ''--direct-io'' \<or> arg = ''--preallocate'' \<or> arg = ''--daemon''"
    using assms unfolding config_arg_def by (elim if_branch) simp_all
  with assms show ?thesis
    by (elim disjE) (simp_all add: config_arg_def)
qed

lemma config_args_append:
  "config_args wide xs c = Some (Parsed True c') \<Longrightarrow> config_args wide (xs @ ys) c = config_args wide ys c'"
proof (induction wide xs c rule: config_args.induct)
  case (2 wide arg rest c)
  from 2(2) obtain rest' c'' where step: "config_arg wide arg rest c = Some (Next rest' c'')"
    using config_arg_unfinished by (auto split: option.splits args_step.splits)
  with 2 have "config_args wide (rest' @ ys) c'' = config_args wide ys c'" by simp
  moreover have "config_arg wide arg (rest @ ys) c = Some (Next (rest' @ ys) c'')"
    using step config_arg_more [of rest wide arg ys c] config_arg_last [of wide arg c rest' c'' ys] by (cases "rest = []") auto
  ultimately show ?case by simp
qed simp

lemma stricmp_words:
  "stricmp ''file'' ''memory'' = False" "stricmp ''file'' ''mem'' = False" "stricmp ''file'' ''file'' = True"
  "stricmp ''memory'' ''memory'' = True"
  by (simp_all add: stricmp_def lower_def)

text \<open>What a command line that is accepted leaves behind.\<close>

definition server_config_ok :: "SERVER_CONFIG \<Rightarrow> bool" where
  "server_config_ok c \<longleftrightarrow> sg_size (sv_storage c) \<noteq> 0 \<and> sg_blockSize (sv_storage c) = 512
     \<and> sg_backendType (sv_storage c) \<in> {BACKEND_TYPE_MEMORY, BACKEND_TYPE_FILE} \<and> \<not> sg_readOnly (sv_storage c)
     \<and> length (cc_modelNumber (sv_controller c)) \<le> 39 \<and> length (cc_serialNumber (sv_controller c)) \<le> 19
     \<and> sv_log_enableConsole c \<and> sv_heartbeatIntervalMs c = 1000"

lemma config_arg_ok:
  assumes "config_arg wide arg rest c = Some (Next rest' c')" "server_config_ok c"
  shows "server_config_ok c'"
  using assms unfolding config_arg_def
  by (elim if_elim) (auto simp: Let_def server_config_ok_def upd_storage_def upd_controller_def split: if_split_asm bind_splits)

lemma config_args_ok:
  "config_args wide args c = Some (Parsed True c') \<Longrightarrow> server_config_ok c \<Longrightarrow> server_config_ok c'"
proof (induction wide args c rule: config_args.induct)
  case (2 wide arg rest c)
  from 2(2) obtain rest' c'' where "config_arg wide arg rest c = Some (Next rest' c'')"
    using config_arg_unfinished by (auto split: option.splits args_step.splits)
  with 2 config_arg_ok [of wide arg rest c rest' c''] show ?case by simp
qed simp

text \<open>C32: what the service knows of a command line it accepted, whatever the options and their order: the size is not zero, blocks have 512
  bytes, the back end is one of the two kinds and writable, model and serial number fit their fields with a terminator, the
  console log is on and the heartbeat interval is 1000. That is not all the service needs: \<open>ConfigValidate\<close>, which no code calls, would
  accept the configuration exactly if a file back end has a path and the serial number is not empty, and neither is
  sure: \<^verbatim>\<open>--backend file\<close> and an empty \<^verbatim>\<open>--serial\<close> are accepted after any accepted options, without a \<^verbatim>\<open>--file\<close>.\<close>

theorem ConfigParseArgs_well_formed:
  assumes "ConfigParseArgs wide argv = Some (Parsed True c)" "argv \<noteq> []"
  shows "server_config_ok c
    \<and> (ConfigValidate c \<longleftrightarrow> (sg_backendType (sv_storage c) = BACKEND_TYPE_FILE
           \<longrightarrow> sg_filePath (sv_storage c) \<noteq> [] \<and> hd (sg_filePath (sv_storage c)) \<noteq> 0)
         \<and> cc_serialNumber (sv_controller c) \<noteq> [])
    \<and> ConfigParseArgs wide (argv @ [''--backend'', ''file'', ''--serial'', '''']) = Some (Parsed True
        (upd_controller (cc_serialNumber_update (\<lambda>_. [])) (upd_storage (sg_backendType_update (\<lambda>_. BACKEND_TYPE_FILE)) c)))"
proof -
  have "server_config_ok ConfigSetDefaults" by (simp add: server_config_ok_def ConfigSetDefaults_def)
  with assms(1) have "server_config_ok c" unfolding ConfigParseArgs_def by (rule config_args_ok)
  moreover from this have "sg_size (sv_storage c) \<noteq> 0" by (simp add: server_config_ok_def)
  moreover have "config_args wide [''--backend'', ''file'', ''--serial'', ''''] c = Some (Parsed True
      (upd_controller (cc_serialNumber_update (\<lambda>_. [])) (upd_storage (sg_backendType_update (\<lambda>_. BACKEND_TYPE_FILE)) c)))"
    by (simp add: config_arg_def stricmp_words)
  then have "ConfigParseArgs wide (argv @ [''--backend'', ''file'', ''--serial'', '''']) = Some (Parsed True
      (upd_controller (cc_serialNumber_update (\<lambda>_. [])) (upd_storage (sg_backendType_update (\<lambda>_. BACKEND_TYPE_FILE)) c)))"
    using assms config_args_append [of wide "tl argv" ConfigSetDefaults c "[''--backend'', ''file'', ''--serial'', '''']"]
    by (simp add: ConfigParseArgs_def)
  ultimately show ?thesis by (auto simp: ConfigValidate_def)
qed

theorem ConfigParseArgs_well_formed_witness:
  "\<exists>c. ConfigParseArgs (\<lambda>_ _. []) [''vnvme-server'', ''--daemon'', ''-m'', ''Disk''] = Some (Parsed True c)
     \<and> server_config_ok c \<and> ConfigValidate c \<and> cc_modelNumber (sv_controller c) = ''Disk''"
  using ConfigParseArgs_well_formed [of "\<lambda>_ _. []" "[''vnvme-server'', ''--daemon'', ''-m'', ''Disk'']"]
  by (simp add: ConfigParseArgs_def config_arg_def upd_controller_def ConfigSetDefaults_def)

text \<open>The options that describe a storage of \<open>n\<close> units named by the suffix \<open>u\<close>.\<close>

definition storage_args :: "nat \<Rightarrow> char \<Rightarrow> BACKEND_TYPE \<Rightarrow> string \<Rightarrow> string list" where
  "storage_args n u t path =
     [''--size'', digits n @ [u], ''--backend'', if t = BACKEND_TYPE_FILE then ''file'' else ''memory'', ''--file'', path]"

text \<open>The options for the storage are read back as they were written, whatever accepted options stand before them: size,
  back end and path are those of the new options, and nothing else changes.\<close>

theorem ConfigParseArgs_storage:
  assumes "ConfigParseArgs wide argv = Some (Parsed True c)" "argv \<noteq> []"
    and "0 < n" "n < 2 ^ 53" "size_shift (upper u) = Some k" "n * 2 ^ k < 2 ^ 64" "t \<in> {BACKEND_TYPE_MEMORY, BACKEND_TYPE_FILE}"
  shows "ConfigParseArgs wide (argv @ storage_args n u t path) = Some (Parsed True
    (upd_storage (\<lambda>s. s\<lparr>sg_size := of_nat (n * 2 ^ k), sg_backendType := t, sg_filePath := wide (sg_filePath s) path\<rparr>) c))"
proof -
  have pos: "(of_nat (n * 2 ^ k) :: u64) \<noteq> 0"
  proof
    assume "(of_nat (n * 2 ^ k) :: u64) = 0"
    then have "unat (of_nat (n * 2 ^ k) :: u64) = 0" by (simp only: unat_0)
    with assms(3,6) show False by (simp only: unat_of_nat) simp
  qed
  have "config_args wide (storage_args n u t path) c = Some (Parsed True
    (upd_storage (\<lambda>s. s\<lparr>sg_size := of_nat (n * 2 ^ k), sg_backendType := t, sg_filePath := wide (sg_filePath s) path\<rparr>) c))"
    using assms(7) pos ConfigParseSize_suffix [OF assms(4-6)]
    by (auto simp: storage_args_def config_arg_def stricmp_words upd_storage_def simp del: of_nat_mult)
  then show ?thesis
    using assms(1,2) config_args_append [of wide "tl argv" ConfigSetDefaults c "storage_args n u t path"]
    by (simp add: ConfigParseArgs_def)
qed

theorem ConfigParseArgs_storage_witness:
  "ConfigParseArgs (\<lambda>_ _. [0x64]) [''vnvme-server'', ''--size'', digits 2 @ ''T'', ''--backend'', ''file'', ''--file'', ''d'']
     = Some (Parsed True (upd_storage (\<lambda>s. s\<lparr>sg_size := 2199023255552, sg_backendType := BACKEND_TYPE_FILE,
         sg_filePath := [0x64]\<rparr>) ConfigSetDefaults))"
proof -
  have "ConfigParseArgs (\<lambda>_ _. [0x64]) [''vnvme-server''] = Some (Parsed True ConfigSetDefaults)"
    by (simp add: ConfigParseArgs_def)
  from ConfigParseArgs_storage [OF this, of 2 "CHR ''T''" 40 BACKEND_TYPE_FILE "''d''"] show ?thesis
    by (simp add: storage_args_def size_shift_def upper_def)
qed

section \<open>The configuration file, as a whole\<close>

text \<open>A text without blanks at its ends, and what is left of it when blanks are put around it.\<close>

definition plain :: "string \<Rightarrow> bool" where
  "plain s \<longleftrightarrow> s \<noteq> [] \<and> c_isspace (hd s) = Some False \<and> c_isspace (last s) = Some False"

definition blank :: "string \<Rightarrow> bool" where
  "blank s \<longleftrightarrow> (\<forall>c\<in>set s. c_isspace c = Some True)"

lemma trim_left_blank: "blank ws \<Longrightarrow> plain s \<Longrightarrow> trim_left (ws @ s @ s') = Some (s @ s')"
proof (induction ws)
  case Nil
  then show ?case by (cases s) (simp_all add: plain_def)
qed (simp add: blank_def)

lemma trim_last_blank: "blank ws \<Longrightarrow> s \<noteq> [] \<Longrightarrow> c_isspace (hd s) = Some False \<Longrightarrow> trim_last (ws @ s) = Some s"
proof (induction ws)
  case Nil
  then show ?case by (cases s rule: trim_last.cases) simp_all
next
  case (Cons w ws)
  then show ?case by (cases "ws @ s") (auto simp: blank_def)
qed

lemma TrimString_plain:
  assumes "blank ws" "blank ws'" "plain s"
  shows "TrimString (ws @ s @ ws') = Some s"
proof -
  have "trim_last (rev ws' @ rev s) = Some (rev s)"
    using assms by (intro trim_last_blank) (auto simp: blank_def plain_def hd_rev)
  with assms trim_left_blank [of ws s ws'] show ?thesis
    by (simp add: TrimString_def plain_def)
qed

text \<open>A line that assigns a value, and a line that opens a sec.\<close>

definition entry_line :: "string \<times> string \<Rightarrow> string" where
  "entry_line kv = fst kv @ ''='' @ snd kv"

definition entry_ok :: "string \<times> string \<Rightarrow> bool" where
  "entry_ok kv \<longleftrightarrow> plain (fst kv) \<and> plain (snd kv) \<and> CHR ''='' \<notin> set (fst kv) \<and> hd (fst kv) \<notin> {CHR '';'', CHR ''#'', CHR ''[''}
     \<and> NUL \<notin> set (entry_line kv) \<and> LF \<notin> set (entry_line kv) \<and> length (entry_line kv) < 1023"

lemma blank_LF: "blank [LF]" "blank []"
  by (simp_all add: blank_def c_isspace_def white_def)

lemma sz_line: "NUL \<notin> set l \<Longrightarrow> sz (l @ [LF]) = l @ [LF]"
  by (induction l) (auto simp: sz_def)

lemma before_sep: "x \<notin> set k \<Longrightarrow> takeWhile (\<lambda>y. y \<noteq> x) (k @ x # v) = k \<and> dropWhile (\<lambda>y. y \<noteq> x) (k @ x # v) = x # v"
  by (induction k) auto

lemma config_line_entry:
  assumes "entry_ok kv"
  shows "config_line wide (entry_line kv @ [LF]) (sec, c) = map_option (Pair sec) (config_entry wide sec (fst kv) (snd kv) c)"
proof -
  obtain k v where kv: "kv = (k, v)" by (cases kv)
  note ok = assms [unfolded entry_ok_def kv entry_line_def fst_conv snd_conv]
  have "plain (k @ ''='' @ v)" using ok by (simp add: plain_def)
  from TrimString_plain [OF blank_LF(2,1) this] have "TrimString ((k @ ''='' @ v) @ [LF]) = Some (k @ ''='' @ v)"
    by (simp only: append_Nil)
  then have line: "TrimString (sz ((k @ ''='' @ v) @ [LF])) = Some (k @ CHR ''='' # v)"
    using sz_line [of "k @ ''='' @ v"] ok by simp
  have parts: "TrimString k = Some k" "TrimString v = Some v"
    using TrimString_plain [OF blank_LF(2,2)] ok by (metis append_Nil append_Nil2)+
  have "k \<noteq> []" "hd (k @ CHR ''='' # v) = hd k" using ok by (simp_all add: plain_def)
  with ok line parts before_sep [of "CHR ''=''" k v] show ?thesis
    unfolding config_line_def kv entry_line_def by (cases "config_entry wide sec k v c") simp_all
qed

lemma config_line_section:
  assumes "CHR '']'' \<notin> set name" "NUL \<notin> set name" "length name < 64"
  shows "config_line wide ((''['' @ name @ '']'') @ [LF]) (sec, c) = Some (name, c)"
proof -
  have "plain (''['' @ name @ '']'')" by (simp add: plain_def c_isspace_def white_def)
  from TrimString_plain [OF blank_LF(2,1) this] have "TrimString ((''['' @ name @ '']'') @ [LF]) = Some (''['' @ name @ '']'')"
    by (simp only: append_Nil)
  then have "TrimString (sz ((''['' @ name @ '']'') @ [LF])) = Some (CHR ''['' # name @ '']'')"
    using sz_line [of "''['' @ name @ '']''"] assms by simp
  with assms before_sep [of "CHR '']''" name "[]"] show ?thesis by (simp add: config_line_def)
qed

lemma fgets_pieces_lines:
  assumes "\<forall>l\<in>set ls. LF \<notin> set l \<and> length l < 1023"
  shows "fgets_pieces (concat (map (\<lambda>l. l @ [LF]) ls)) = map (\<lambda>l. l @ [LF]) ls"
  using assms
proof (induction ls)
  case Nil
  then show ?case by (simp add: fgets_pieces.simps)
next
  case (Cons l ls)
  then have "takeWhile (\<lambda>c. c \<noteq> LF) (l @ LF # concat (map (\<lambda>l. l @ [LF]) ls)) = l" using before_sep [of LF l] by simp
  with Cons show ?case by (subst fgets_pieces.simps) (auto simp: Let_def)
qed

text \<open>A file of sections, and the assignments of one sec after the other.\<close>

definition section_lines :: "string \<times> (string \<times> string) list \<Rightarrow> string list" where
  "section_lines s = (''['' @ fst s @ '']'') # map entry_line (snd s)"

definition config_text :: "(string \<times> (string \<times> string) list) list \<Rightarrow> string" where
  "config_text ss = concat (map (\<lambda>l. l @ [LF]) (concat (map section_lines ss)))"

definition section_ok :: "string \<times> (string \<times> string) list \<Rightarrow> bool" where
  "section_ok s \<longleftrightarrow> CHR '']'' \<notin> set (fst s) \<and> NUL \<notin> set (fst s) \<and> LF \<notin> set (fst s) \<and> length (fst s) < 64 \<and> (\<forall>kv\<in>set (snd s). entry_ok kv)"

fun apply_entries :: "wide \<Rightarrow> string \<Rightarrow> (string \<times> string) list \<Rightarrow> SERVER_CONFIG \<Rightarrow> SERVER_CONFIG option" where
  "apply_entries wide sec [] c = Some c"
| "apply_entries wide sec (kv # kvs) c = do { c \<leftarrow> config_entry wide sec (fst kv) (snd kv) c; apply_entries wide sec kvs c }"

fun apply_sections :: "wide \<Rightarrow> (string \<times> (string \<times> string) list) list \<Rightarrow> SERVER_CONFIG \<Rightarrow> SERVER_CONFIG option" where
  "apply_sections wide [] c = Some c"
| "apply_sections wide (s # ss) c = do { c \<leftarrow> apply_entries wide (fst s) (snd s) c; apply_sections wide ss c }"

lemma config_lines_append: "config_lines wide (xs @ ys) s = do { s \<leftarrow> config_lines wide xs s; config_lines wide ys s }"
  by (induction xs arbitrary: s) (simp_all split: bind_splits)

lemma config_lines_entries:
  "\<forall>kv\<in>set kvs. entry_ok kv \<Longrightarrow>
    config_lines wide (map (\<lambda>l. l @ [LF]) (map entry_line kvs)) (sec, c) = map_option (Pair sec) (apply_entries wide sec kvs c)"
proof (induction kvs arbitrary: c)
  case (Cons kv kvs)
  then show ?case
    by (cases "config_entry wide sec (fst kv) (snd kv) c") (simp_all add: config_line_entry)
qed simp

lemma config_lines_sections:
  assumes "\<forall>s\<in>set ss. section_ok s"
  shows "map_option snd (config_lines wide (map (\<lambda>l. l @ [LF]) (concat (map section_lines ss))) (sec, c)) = apply_sections wide ss c"
  using assms
proof (induction ss arbitrary: sec c)
  case (Cons s ss)
  then have "section_ok s" by simp
  then have "config_lines wide (map (\<lambda>l. l @ [LF]) (section_lines s)) (sec, c) = map_option (Pair (fst s)) (apply_entries wide (fst s) (snd s) c)"
    using config_line_section [of "fst s" wide sec c] config_lines_entries [of "snd s" wide "fst s" c]
    by (simp add: section_lines_def section_ok_def)
  with Cons show ?case
    by (cases "apply_entries wide (fst s) (snd s) c") (simp_all add: config_lines_append)
qed simp

lemma section_lines_short:
  "section_ok s \<Longrightarrow> l \<in> set (section_lines s) \<Longrightarrow> LF \<notin> set l \<and> length l < 1023"
  by (auto simp: section_lines_def section_ok_def entry_ok_def)

lemma ConfigLoadFile_text:
  assumes "\<forall>s\<in>set ss. section_ok s"
  shows "ConfigLoadFile wide (Some (config_text ss)) c = map_option (Pair True) (apply_sections wide ss c)"
proof -
  have "fgets_pieces (config_text ss) = map (\<lambda>l. l @ [LF]) (concat (map section_lines ss))"
    unfolding config_text_def by (rule fgets_pieces_lines) (use assms section_lines_short in fastforce)
  then show ?thesis
    by (cases "config_lines wide (map (\<lambda>l. l @ [LF]) (concat (map section_lines ss))) ([], c)")
      (auto simp: ConfigLoadFile_def simp flip: config_lines_sections [OF assms, of wide "[]" c])
qed

text \<open>A configuration as a file: every setting that has a text, in the section the reader expects it in.\<close>

definition bool_text :: "bool \<Rightarrow> string" where
  "bool_text b = (if b then ''true'' else ''false'')"

primrec level_text :: "LOG_LEVEL \<Rightarrow> string" where
  "level_text LOG_LEVEL_NONE = ''none''"
| "level_text LOG_LEVEL_ERROR = ''error''"
| "level_text LOG_LEVEL_WARNING = ''warn''"
| "level_text LOG_LEVEL_INFO = ''info''"
| "level_text LOG_LEVEL_DEBUG = ''debug''"
| "level_text LOG_LEVEL_VERBOSE = ''verbose''"

definition type_text :: "BACKEND_TYPE \<Rightarrow> string" where
  "type_text t = (if t = BACKEND_TYPE_FILE then ''file'' else ''memory'')"

definition config_file :: "SERVER_CONFIG \<Rightarrow> (string \<times> (string \<times> string) list) list" where
  "config_file c =
     [(''storage'',
       [(''Size'', digits (unat (sg_size (sv_storage c)))), (''Type'', type_text (sg_backendType (sv_storage c))),
        (''ReadOnly'', bool_text (sg_readOnly (sv_storage c))), (''DirectIO'', bool_text (sg_directIO (sv_storage c)))]),
      (''controller'',
       [(''Model'', cc_modelNumber (sv_controller c)), (''Serial'', cc_serialNumber (sv_controller c)),
        (''VendorId'', digits (unat (cc_vendorId (sv_controller c)))), (''DeviceId'', digits (unat (cc_deviceId (sv_controller c))))]),
      (''log'', [(''Level'', level_text (sv_log_level c)), (''Console'', bool_text (sv_log_enableConsole c))]),
      (''runtime'',
       [(''HeartbeatInterval'', digits (unat (sv_heartbeatIntervalMs c))), (''PollInterval'', digits (unat (sv_pollIntervalUs c))),
        (''Daemon'', bool_text (sv_daemonMode c))])]"

definition name_ok :: "nat \<Rightarrow> string \<Rightarrow> bool" where
  "name_ok n s \<longleftrightarrow> plain s \<and> NUL \<notin> set s \<and> LF \<notin> set s \<and> length s \<le> n"

definition savable :: "SERVER_CONFIG \<Rightarrow> bool" where
  "savable c \<longleftrightarrow> unat (sg_size (sv_storage c)) < 2 ^ 53 \<and> sg_backendType (sv_storage c) \<in> {BACKEND_TYPE_MEMORY, BACKEND_TYPE_FILE}
     \<and> name_ok 39 (cc_modelNumber (sv_controller c)) \<and> name_ok 19 (cc_serialNumber (sv_controller c))"

text \<open>The settings the file does not carry.\<close>

definition same_unsaved :: "SERVER_CONFIG \<Rightarrow> SERVER_CONFIG \<Rightarrow> bool" where
  "same_unsaved c c' \<longleftrightarrow> sg_blockSize (sv_storage c) = sg_blockSize (sv_storage c') \<and> sg_filePath (sv_storage c) = sg_filePath (sv_storage c')
     \<and> sg_preallocate (sv_storage c) = sg_preallocate (sv_storage c') \<and> sv_log_filePath c = sv_log_filePath c'
     \<and> sv_log_enableFile c = sv_log_enableFile c' \<and> sv_configFilePath c = sv_configFilePath c'"

lemma digit_isspace: "digit_in 10 c \<Longrightarrow> c_isspace c = Some False"
  by (auto simp: c_isspace_def digit_not_white digit_code)

lemma plain_digits: "plain (digits n)"
  using digit_in_digits [of _ n] by (simp add: plain_def digit_isspace)

lemma LF_digits: "LF \<notin> set (digits n)"
  using digit_in_digits [of LF n] by (auto simp: digit_in_def digit_value_def lower_def)

lemma name_ok_digits: "n < 10 ^ k \<Longrightarrow> 0 < k \<Longrightarrow> name_ok k (digits n)"
  by (simp add: name_ok_def plain_digits NUL_digits LF_digits length_digits)

lemma name_ok_mono: "name_ok n s \<Longrightarrow> n \<le> m \<Longrightarrow> name_ok m s"
  by (auto simp: name_ok_def)

lemma name_ok_bool: "name_ok 10 (bool_text b)"
  by (simp add: name_ok_def bool_text_def plain_def c_isspace_def white_def)

lemma name_ok_type: "name_ok 10 (type_text t)"
  by (simp add: name_ok_def type_text_def plain_def c_isspace_def white_def)

lemma name_ok_level: "name_ok 10 (level_text l)"
  by (cases l) (simp_all add: name_ok_def plain_def c_isspace_def white_def)

lemmas name_ok_words = name_ok_bool name_ok_type name_ok_level

lemma entry_ok_name:
  "name_ok 900 v \<Longrightarrow> name_ok 100 k \<Longrightarrow> CHR ''='' \<notin> set k \<Longrightarrow> hd k \<notin> {CHR '';'', CHR ''#'', CHR ''[''} \<Longrightarrow> entry_ok (k, v)"
  by (simp add: entry_ok_def name_ok_def entry_line_def)

lemma config_file_ok:
  assumes "savable c"
  shows "\<forall>s\<in>set (config_file c). section_ok s"
proof -
  have names: "name_ok 900 (cc_modelNumber (sv_controller c))" "name_ok 900 (cc_serialNumber (sv_controller c))"
    using assms name_ok_mono by (auto simp: savable_def)
  have num: "name_ok 900 (digits k)" if "k < 10 ^ 20" for k
    using name_ok_digits [OF that] name_ok_mono [of 20 "digits k" 900] by simp
  have nums: "name_ok 900 (digits (unat x))" "name_ok 900 (digits (unat y))" "name_ok 900 (digits (unat z))"
    for x :: u64 and y :: u32 and z :: u16
    by (rule num, rule less_trans [OF unsigned_less], simp)+
  have words: "name_ok 900 (bool_text b)" "name_ok 900 (level_text l)" "name_ok 900 (type_text t)" for b l t
    using name_ok_mono [of 10 _ 900] name_ok_words by auto
  show ?thesis
    by (simp add: config_file_def section_ok_def)
      (intro conjI entry_ok_name names nums words; simp add: name_ok_def plain_def c_isspace_def white_def)
qed

lemmas text_eval = stricmp_def lower_def char_of_eq_iff

lemma config_storage_keys:
  "config_storage wide ''Size'' v c = map_option (\<lambda>n. upd_storage (sg_size_update (\<lambda>_. n)) c) (ConfigParseSize (Some v))"
  "config_storage wide ''ReadOnly'' v c = Some (upd_storage (sg_readOnly_update (\<lambda>_. config_bool v)) c)"
  "config_storage wide ''DirectIO'' v c = Some (upd_storage (sg_directIO_update (\<lambda>_. config_bool v)) c)"
  by (simp_all add: config_storage_def text_eval split: option.splits bind_splits)

lemma config_storage_type:
  "t \<in> {BACKEND_TYPE_MEMORY, BACKEND_TYPE_FILE} \<Longrightarrow>
    config_storage wide ''Type'' (type_text t) c = Some (upd_storage (sg_backendType_update (\<lambda>_. t)) c)"
  by (auto simp: config_storage_def text_eval type_text_def)

lemma config_controller_keys:
  "config_controller ''Model'' v c = upd_controller (cc_modelNumber_update (\<lambda>_. take 39 v)) c"
  "config_controller ''Serial'' v c = upd_controller (cc_serialNumber_update (\<lambda>_. take 19 v)) c"
  "config_controller ''VendorId'' v c = upd_controller (cc_vendorId_update (\<lambda>_. ucast (strtoul v))) c"
  "config_controller ''DeviceId'' v c = upd_controller (cc_deviceId_update (\<lambda>_. ucast (strtoul v))) c"
  by (simp_all add: config_controller_def text_eval)

lemma ParseLogLevel_text: "ParseLogLevel (Some (level_text l)) = l"
  by (cases l) (simp_all add: ParseLogLevel_def text_eval)

lemma config_log_keys:
  "config_log wide ''Level'' (level_text l) c = c\<lparr>sv_log_level := l\<rparr>"
  "config_log wide ''Console'' v c = c\<lparr>sv_log_enableConsole := config_bool v\<rparr>"
  by (simp_all add: config_log_def ParseLogLevel_text text_eval)

lemma config_runtime_keys:
  "config_runtime ''HeartbeatInterval'' v c = c\<lparr>sv_heartbeatIntervalMs := strtoul v\<rparr>"
  "config_runtime ''PollInterval'' v c = c\<lparr>sv_pollIntervalUs := strtoul v\<rparr>"
  "config_runtime ''Daemon'' v c = c\<lparr>sv_daemonMode := config_bool v\<rparr>"
  by (simp_all add: config_runtime_def text_eval)

lemma config_entry_sections:
  "config_entry wide ''storage'' = config_storage wide"
  "config_entry wide ''controller'' k v c = Some (config_controller k v c)"
  "config_entry wide ''log'' k v c = Some (config_log wide k v c)"
  "config_entry wide ''runtime'' k v c = Some (config_runtime k v c)"
  by (simp_all add: config_entry_def text_eval fun_eq_iff)

lemma config_bool_text: "config_bool (bool_text b) = b"
  by (simp add: config_bool_def bool_text_def text_eval)

text \<open>C30: a configuration file that states a configuration is read as that configuration. The program only reads such files; the text here is
  the development's own listing of \<open>c\<close>, with a line for every setting that \<open>ConfigLoadFile\<close> has a key for, except the two paths, under the
  sections storage, controller, log and runtime. \<open>c\<close> must have a size below \<open>2 ^ 53\<close> bytes, a known back end, and a model and a serial
  number of 1 to 39 and 1 to 19 characters, without NUL and line feed, whose first and last characters are neither blank nor one of the
  codes 128 to 254, for which isspace is
  undefined. The file is loaded over any configuration that agrees with \<open>c\<close> in the settings the file does not state: back-end path,
  block size, preallocation, log path, whether there is a log file, and the path of the configuration file. The result is exactly \<open>c\<close>.\<close>

theorem ConfigLoadFile_roundtrip:
  assumes "savable c" "same_unsaved c' c"
  shows "ConfigLoadFile wide (Some (config_text (config_file c))) c' = Some (True, c)"
proof -
  let ?s = "sv_storage c" and ?k = "sv_controller c"
  have size: "ConfigParseSize (Some (digits (unat (sg_size ?s)))) = Some (sg_size ?s)"
    using ConfigParseSize_plain [of "unat (sg_size ?s)"] assms(1) by (simp add: savable_def)
  have u32: "strtoul (digits (unat x)) = x" for x :: u32
    using strtoul_digits [of "unat x"] unsigned_less [of x] by simp
  have u16: "(ucast (strtoul (digits (unat x))) :: u16) = x" for x :: u16
  proof -
    have "unat x < 2 ^ 32" by (rule less_trans [OF unsigned_less]) simp
    moreover have "(ucast (ucast x :: u32) :: u16) = x" by (rule bit_word_eqI) (simp add: bit_simps)
    ultimately show ?thesis by (simp add: strtoul_digits)
  qed
  have names: "take 39 (cc_modelNumber ?k) = cc_modelNumber ?k" "take 19 (cc_serialNumber ?k) = cc_serialNumber ?k"
    and t: "sg_backendType ?s \<in> {BACKEND_TYPE_MEMORY, BACKEND_TYPE_FILE}"
    using assms(1) by (simp_all add: savable_def name_ok_def)
  have "apply_sections wide (config_file c) c' = Some c"
    using assms(2)
    by (simp add: config_file_def config_entry_sections config_storage_keys config_storage_type [OF t] config_controller_keys config_log_keys
        config_runtime_keys config_bool_text size u32 u16 names upd_storage_def upd_controller_def same_unsaved_def)
  with ConfigLoadFile_text [OF config_file_ok [OF assms(1)], of wide c'] show ?thesis by simp
qed

theorem ConfigLoadFile_roundtrip_witness:
  "ConfigLoadFile (\<lambda>_ _. []) (Some (config_text (config_file (ConfigSetDefaults\<lparr>sv_daemonMode := True\<rparr>)))) ConfigSetDefaults
     = Some (True, ConfigSetDefaults\<lparr>sv_daemonMode := True\<rparr>)"
  by (rule ConfigLoadFile_roundtrip)
    (simp_all add: savable_def name_ok_def plain_def c_isspace_def white_def same_unsaved_def ConfigSetDefaults_def)

section \<open>A file without sections\<close>

text \<open>Characters for which isspace is defined.\<close>

abbreviation (input) chars_ok :: "string \<Rightarrow> bool" where
  "chars_ok s \<equiv> \<forall>x\<in>set s. c_isspace x \<noteq> None"

lemma trim_left_total: "chars_ok s \<Longrightarrow> \<exists>t. trim_left s = Some t \<and> set t \<subseteq> set s"
  by (induction s) auto

lemma trim_last_total: "chars_ok s \<Longrightarrow> \<exists>t. trim_last s = Some t \<and> set t \<subseteq> set s"
proof (induction s rule: trim_last.induct)
  case (1 c d s)
  consider "c_isspace c = Some True" | "c_isspace c = Some False" using "1.prems" by (cases "the (c_isspace c)") auto
  then show ?case
  proof cases
    case 1
    with "1.IH" [of True] "1.prems" show ?thesis by auto
  qed auto
qed auto

lemma TrimString_total:
  assumes "chars_ok s"
  shows "\<exists>t. TrimString s = Some t \<and> set t \<subseteq> set s"
proof -
  obtain l where l: "trim_left s = Some l" "set l \<subseteq> set s" using trim_left_total [OF assms] by blast
  then have "chars_ok (rev l)" using assms by auto
  from trim_last_total [OF this] l show ?thesis by (auto simp: TrimString_def)
qed

lemma config_line_no_section:
  assumes "chars_ok line" "CHR ''['' \<notin> set line"
  shows "config_line wide line ([], c) = Some ([], c)"
proof -
  have sub: "set (sz line) \<subseteq> set line" by (auto simp: sz_def dest: set_takeWhileD)
  with assms(1) have "chars_ok (sz line)" by blast
  from TrimString_total [OF this] sub obtain t where t: "TrimString (sz line) = Some t" "set t \<subseteq> set line" by blast
  let ?k = "takeWhile (\<lambda>x. x \<noteq> CHR ''='') t" and ?v = "tl (dropWhile (\<lambda>x. x \<noteq> CHR ''='') t)"
  have "set ?k \<subseteq> set t" by (auto dest: set_takeWhileD)
  moreover have tail: "set (tl xs) \<subseteq> set xs" for xs :: string by (cases xs) auto
  have "set (dropWhile (\<lambda>x. x \<noteq> CHR ''='') t) \<subseteq> set t" by (auto dest: set_dropWhileD)
  with tail have "set ?v \<subseteq> set t" by (rule order_trans)
  ultimately have "set ?k \<subseteq> set t" "set ?v \<subseteq> set t" by blast+
  with t(2) assms(1) have ok: "chars_ok ?k" "chars_ok ?v" by blast+
  obtain k v where kv: "TrimString ?k = Some k" "TrimString ?v = Some v"
    using TrimString_total [OF ok(1)] TrimString_total [OF ok(2)] by blast
  have "config_entry wide [] k v c = Some c" by (simp add: config_entry_def stricmp_def)
  moreover have "hd t \<noteq> CHR ''[''" if "t \<noteq> []"
    using list.set_sel(1) [OF that] t(2) assms(2) by auto
  ultimately show ?thesis using t(1) kv by (simp add: config_line_def)
qed

lemma fgets_pieces_chars: "p \<in> set (fgets_pieces s) \<Longrightarrow> set p \<subseteq> set s"
proof (induction s rule: fgets_pieces.induct)
  case (1 s)
  show ?case
  proof (cases "s = []")
    case False
    define l where "l = takeWhile (\<lambda>c. c \<noteq> LF) s"
    define q where "q = take 1023 (if length l < length s then l @ [LF] else l)"
    have "LF \<in> set s" if "length l < length s"
    proof (rule ccontr)
      assume "LF \<notin> set s"
      then have "takeWhile (\<lambda>c. c \<noteq> LF) s = s" by (auto simp: takeWhile_eq_all_conv)
      with that show False by (simp add: l_def)
    qed
    then have "set q \<subseteq> set s" by (auto simp: q_def l_def dest!: in_set_takeD dest: set_takeWhileD split: if_splits)
    moreover have "set (drop (length q) s) \<subseteq> set s" by (rule set_drop_subset)
    moreover have "p = q \<or> p \<in> set (fgets_pieces (drop (length q) s))"
      using 1(2) False by (subst (asm) fgets_pieces.simps) (auto simp: Let_def q_def l_def)
    ultimately show ?thesis using 1(1) [OF False l_def q_def] by blast
  qed (use 1(2) in \<open>simp add: fgets_pieces.simps\<close>)
qed

text \<open>C31: a configuration file without a section changes nothing. Whatever lines it has, with any keys, a file that contains no opening bracket
  is read to its end and reported as loaded, and leaves every setting as it was. The example file of the repository,
  \<^verbatim>\<open>vnvme.conf.example\<close>, is of this kind. Assumed: no character has a code from 128 to 254, for which isspace is undefined.\<close>

theorem ConfigLoadFile_needs_sections:
  assumes "\<forall>x\<in>set text. c_isspace x \<noteq> None" "CHR ''['' \<notin> set text"
  shows "ConfigLoadFile wide (Some text) c = Some (True, c)"
proof -
  have "config_lines wide ls ([], c) = Some ([], c)" if "\<forall>l\<in>set ls. set l \<subseteq> set text" for ls
    using that
  proof (induction ls)
    case (Cons l ls)
    then have "chars_ok l" "CHR ''['' \<notin> set l" using assms by auto
    with Cons show ?case by (simp add: config_line_no_section)
  qed simp
  then have "config_lines wide (fgets_pieces text) ([], c) = Some ([], c)" using fgets_pieces_chars by blast
  then show ?thesis by (simp add: ConfigLoadFile_def)
qed

text \<open>Two settings of the example file.\<close>

theorem ConfigLoadFile_needs_sections_witness:
  "ConfigLoadFile (\<lambda>_ _. []) (Some (''backend=memory'' @ [LF] @ ''size=64M'' @ [LF])) ConfigSetDefaults = Some (True, ConfigSetDefaults)"
  by (rule ConfigLoadFile_needs_sections) (simp_all add: c_isspace_def)

end
