(* ===== verification/Vnvme_Engine.thy ===== *)
theory Vnvme_Engine
  imports Vnvme_Server_Io Vnvme_Forward
begin

text \<open>
  \<^verbatim>\<open>vnvme-server/command_engine.h\<close> and \<^verbatim>\<open>command_engine.c\<close>: the loop of the user-mode service that takes the
  notifications of the driver from the ring in shared memory, executes the commands they announce, and
  writes the completions. The engine state is the context record together with the shared memory, the same bytes that the
  driver's model holds; the engine's own copy of the back end pointer is never followed, so the object lives in
  the I/O context.
\<close>

section \<open>Data\<close>

record ENGINE_NAMESPACE =
  en_size :: u64
  en_blockSize :: u32
  en_active :: bool
  en_readOnly :: bool

record CMD_ENGINE_CONFIG =
  cfg_shmAddress :: bool \<comment> \<open>non-null\<close>
  cfg_backend :: "BACKEND_CONTEXT option"
  cfg_serialNumber :: "u8 list"
  cfg_modelNumber :: "u8 list"
  cfg_firmwareRevision :: "u8 list"
  cfg_vendorId :: u16
  cfg_namespaces :: "ENGINE_NAMESPACE list"
  cfg_namespaceCount :: u32
  cfg_maxIoQueues :: u32
  cfg_debugMode :: bool

record CMD_ENGINE_STATS =
  es_adminCommandsProcessed :: u64
  es_ioCommandsProcessed :: u64
  es_bytesRead :: u64
  es_bytesWritten :: u64
  es_errors :: u64
  es_pollCount :: u64
  es_eventWakeups :: u64
  es_lastPollTimestamp :: u64

record CMD_ENGINE_CONTEXT =
  e_initialized :: bool
  e_running :: bool
  e_shm :: bool \<comment> \<open>non-null\<close>
  e_adminSqBase :: nat
  e_adminCqBase :: nat
  e_dataBuffer :: "nat option"
  e_dataBufferSize :: u32
  e_adminCtx :: ADMIN_CMD_CONTEXT
  e_ioCtx :: IO_CMD_CONTEXT
  e_ioQueueDescriptors :: "nat option"
  e_adminCqPhase :: u32
  e_maxIoQueues :: u32
  e_debugMode :: bool
  e_commandEvent :: bool \<comment> \<open>non-null\<close>
  e_useEventWait :: bool
  e_stats :: CMD_ENGINE_STATS

definition zero_ENGINE_STATS :: CMD_ENGINE_STATS where
  "zero_ENGINE_STATS = \<lparr>es_adminCommandsProcessed = 0, es_ioCommandsProcessed = 0, es_bytesRead = 0, es_bytesWritten = 0,
     es_errors = 0, es_pollCount = 0, es_eventWakeups = 0, es_lastPollTimestamp = 0\<rparr>"

definition upd_estats :: "(CMD_ENGINE_STATS \<Rightarrow> CMD_ENGINE_STATS) \<Rightarrow> CMD_ENGINE_CONTEXT \<Rightarrow> CMD_ENGINE_CONTEXT" where
  "upd_estats f pCtx = pCtx\<lparr>e_stats := f (e_stats pCtx)\<rparr>"

definition Engine_MakeStatus :: "u8 \<Rightarrow> u8 \<Rightarrow> u8 \<Rightarrow> u16" where
  "Engine_MakeStatus sct sc phase = ucast ((ucast phase :: u32) OR push_bit 1 (ucast sc) OR push_bit 9 (ucast sct))"

section \<open>Creation and initialisation\<close>

definition CmdEngineCreate :: "bool \<Rightarrow> CMD_ENGINE_CONTEXT option" where
  "CmdEngineCreate malloc_ok =
     (if \<not> malloc_ok then None
      else Some \<lparr>e_initialized = False, e_running = False, e_shm = False, e_adminSqBase = 0, e_adminCqBase = 0,
        e_dataBuffer = None, e_dataBufferSize = 0, e_adminCtx = zero_ADMIN_CMD_CONTEXT,
        e_ioCtx = snd (IoCmdInit None False None 0), e_ioQueueDescriptors = None, e_adminCqPhase = 0, e_maxIoQueues = 0,
        e_debugMode = False, e_commandEvent = False, e_useEventWait = False, e_stats = zero_ENGINE_STATS\<rparr>)"

text \<open>The two loops that add the configured namespaces; the results of the calls are not used.\<close>

fun add_admin_namespaces :: "ENGINE_NAMESPACE list \<Rightarrow> nat list \<Rightarrow> ADMIN_CMD_CONTEXT \<Rightarrow> ADMIN_CMD_CONTEXT option" where
  "add_admin_namespaces namespaces [] a = Some a"
| "add_admin_namespaces namespaces (i # is) a = do {
     ns \<leftarrow> arr_get namespaces i;
     add_admin_namespaces namespaces is (snd (AdminCmdAddNamespace
       \<lparr>ni_nsid = of_nat i + 1, ni_size = en_size ns, ni_capacity = en_size ns, ni_blockSize = en_blockSize ns,
        ni_metadataSize = 0, ni_active = en_active ns\<rparr> a))
   }"

fun add_io_namespaces :: "ENGINE_NAMESPACE list \<Rightarrow> nat list \<Rightarrow> IO_CMD_CONTEXT \<Rightarrow> IO_CMD_CONTEXT option" where
  "add_io_namespaces namespaces [] c = Some c"
| "add_io_namespaces namespaces (i # is) c = do {
     ns \<leftarrow> arr_get namespaces i;
     add_io_namespaces namespaces is (snd (IoCmdAddNamespace
       \<lparr>nc_nsid = of_nat i + 1, nc_size = en_size ns, nc_blockSize = en_blockSize ns, nc_active = en_active ns,
        nc_readOnly = en_readOnly ns\<rparr> c))
   }"

definition namespace_indices :: "CMD_ENGINE_CONFIG \<Rightarrow> nat list" where
  "namespace_indices pConfig = [0..<min (unat (cfg_namespaceCount pConfig)) 16]"

definition CmdEngineInit :: "CMD_ENGINE_CONTEXT \<Rightarrow> CMD_ENGINE_CONFIG \<Rightarrow> mem \<Rightarrow> (bool \<times> CMD_ENGINE_CONTEXT) option" where
  "CmdEngineInit pCtx pConfig m =
     (if \<not> cfg_shmAddress pConfig then Some (False, pCtx)
      else if rd32 m 0x00 \<noteq> 0x454D564E then Some (False, pCtx)
      else do {
        let pCtx = pCtx\<lparr>e_shm := True,
              e_maxIoQueues := (if cfg_maxIoQueues pConfig > 0 then cfg_maxIoQueues pConfig else 16),
              e_debugMode := cfg_debugMode pConfig,
              e_adminSqBase := unat (qd_Offset m cb_AdminSQ), e_adminCqBase := unat (qd_Offset m cb_AdminCQ),
              e_adminCqPhase := 1\<rparr>;
        let pCtx = (if rd32 m cb_IoQueueDescriptorOffset \<noteq> 0
                    then pCtx\<lparr>e_ioQueueDescriptors := Some (unat (rd32 m cb_IoQueueDescriptorOffset))\<rparr> else pCtx);
        let pCtx = (if rd32 m 0x80 \<noteq> 0 \<and> rd32 m 0x84 \<noteq> 0
                    then pCtx\<lparr>e_dataBuffer := Some (unat (rd32 m 0x80)), e_dataBufferSize := rd32 m 0x84\<rparr> else pCtx);
        let (ok, adminCtx) = AdminCmdInit True (Some (e_adminSqBase pCtx)) (Some (e_adminCqBase pCtx))
              (e_dataBuffer pCtx) (e_dataBufferSize pCtx);
        let adminCtx = AdminCmdSetControllerInfo
              \<lparr>ci_serialNumber = strncpy 20 (cfg_serialNumber pConfig), ci_modelNumber = strncpy 40 (cfg_modelNumber pConfig),
               ci_firmwareRevision = strncpy 8 (cfg_firmwareRevision pConfig), ci_vendorId = cfg_vendorId pConfig,
               ci_maxNamespaces = 16, ci_maxQueueEntries = 64\<rparr> adminCtx;
        adminCtx \<leftarrow> add_admin_namespaces (cfg_namespaces pConfig) (namespace_indices pConfig) adminCtx;
        let (ok, ioCtx) = IoCmdInit (cfg_backend pConfig) True (e_dataBuffer pCtx) (e_dataBufferSize pCtx);
        ioCtx \<leftarrow> add_io_namespaces (cfg_namespaces pConfig) (namespace_indices pConfig) ioCtx;
        let ioCtx = IoCmdSetDebugMode (cfg_debugMode pConfig) ioCtx;
        Some (True, pCtx\<lparr>e_adminCtx := adminCtx, e_ioCtx := ioCtx, e_initialized := True\<rparr>)
      })"

definition CmdEngineInitSimple ::
  "bool \<Rightarrow> CMD_ENGINE_CONTEXT \<Rightarrow> bool \<Rightarrow> BACKEND_CONTEXT option \<Rightarrow> mem \<Rightarrow> (bool \<times> CMD_ENGINE_CONTEXT) option" where
  "CmdEngineInitSimple g_DebugMode pCtx shmAddress backend m =
     CmdEngineInit pCtx
       \<lparr>cfg_shmAddress = shmAddress, cfg_backend = backend,
        cfg_serialNumber = strncpy 20 (ascii ''VNVME0001234567890''),
        cfg_modelNumber = strncpy 40 (ascii ''Virtual NVMe Controller''),
        cfg_firmwareRevision = strncpy 8 (ascii ''1.0.0''), cfg_vendorId = 0x1234,
        cfg_namespaces = \<lparr>en_size = (if backend \<noteq> None then BackendGetSize backend div 512 else 128 * 1024),
            en_blockSize = 512, en_active = True, en_readOnly = False\<rparr>
          # replicate 15 \<lparr>en_size = 0, en_blockSize = 0, en_active = False, en_readOnly = False\<rparr>,
        cfg_namespaceCount = 1, cfg_maxIoQueues = 16, cfg_debugMode = g_DebugMode\<rparr> m"

definition CmdEngineSetDebugMode :: "bool \<Rightarrow> CMD_ENGINE_CONTEXT \<Rightarrow> CMD_ENGINE_CONTEXT" where
  "CmdEngineSetDebugMode debugMode pCtx =
     pCtx\<lparr>e_debugMode := debugMode, e_ioCtx := IoCmdSetDebugMode debugMode (e_ioCtx pCtx)\<rparr>"

section \<open>Completions\<close>

text \<open>
  The fields are stored one after the other, so \<open>AdminSQ.Head\<close> is read when the first two are stored and the capacity
  when all are. The phase of the engine lives in its context; \<open>AdminCQ.Phase\<close> is never written.
\<close>

definition CmdEnginePostAdminCompletion ::
  "u16 \<Rightarrow> u32 \<Rightarrow> u8 \<Rightarrow> u8 \<Rightarrow> CMD_ENGINE_CONTEXT \<Rightarrow> mem \<Rightarrow> (CMD_ENGINE_CONTEXT \<times> mem) option" where
  "CmdEnginePostAdminCompletion cid dw0 sct sc pCtx m =
     (if \<not> e_shm pCtx then Some (pCtx, m)
      else do {
        let tail = qd_Tail m cb_AdminCQ;
        let cqe = e_adminCqBase pCtx + 16 * unat tail;
        check (cqe + 16 \<le> VNVME_SHM_SIZE);
        let m = wr32 cqe dw0 m;
        let m = wr32 (cqe + 4) 0 m;
        let m = wr16 (cqe + 8) (ucast (qd_Head m cb_AdminSQ)) m;
        let m = wr16 (cqe + 10) 0 m;
        let m = wr16 (cqe + 12) cid m;
        let m = wr16 (cqe + 14) (Engine_MakeStatus sct sc (ucast (e_adminCqPhase pCtx))) m;
        check (qd_Capacity m cb_AdminCQ \<noteq> 0);
        let tail = (tail + 1) mod qd_Capacity m cb_AdminCQ;
        let pCtx = (if tail = 0 then pCtx\<lparr>e_adminCqPhase := (if e_adminCqPhase pCtx = 0 then 1 else 0)\<rparr> else pCtx);
        let m = qd_set_Tail cb_AdminCQ tail m;
        Some (upd_estats (\<lambda>s. s\<lparr>es_adminCommandsProcessed := es_adminCommandsProcessed s + 1\<rparr>) pCtx, m)
      })"

section \<open>Commands\<close>

text \<open>The switch of \<open>CmdEngineProcessAdminCommand\<close>.\<close>

definition engine_admin_switch ::
  "CMD_ENGINE_CONTEXT \<Rightarrow> NVME_COMMAND \<Rightarrow> mem \<Rightarrow> (u16 \<times> u32 \<times> CMD_ENGINE_CONTEXT \<times> mem) option" where
  "engine_admin_switch pCtx pCmd m =
     (case admin_handler (OPC pCmd) of
        Some handler \<Rightarrow> do {
          (status, result, adminCtx, m) \<leftarrow> handler (e_adminCtx pCtx) pCmd m;
          Some (status, result, pCtx\<lparr>e_adminCtx := adminCtx\<rparr>, m)
        }
      | None \<Rightarrow> Some (Engine_MakeStatus 0 0x01 (ucast (e_adminCqPhase pCtx)), 0,
                   upd_estats (\<lambda>s. s\<lparr>es_errors := es_errors s + 1\<rparr>) pCtx, m))"

definition CmdEngineProcessAdminCommand :: "CMD_ENGINE_CONTEXT \<Rightarrow> nat \<Rightarrow> mem \<Rightarrow> (u32 \<times> CMD_ENGINE_CONTEXT \<times> mem) option" where
  "CmdEngineProcessAdminCommand pCtx pCmd m = do {
     check (pCmd + 64 \<le> VNVME_SHM_SIZE);
     (status, result, pCtx, m) \<leftarrow> engine_admin_switch pCtx (rd_NVME_COMMAND m pCmd) m;
     let sct = (ucast (drop_bit 9 status AND 0x07) :: u8);
     let sc = (ucast (drop_bit 1 status AND 0xFF) :: u8);
     (pCtx, m) \<leftarrow> CmdEnginePostAdminCompletion (CID (rd_NVME_COMMAND m pCmd)) result sct sc pCtx m;
     Some (1, pCtx, m)
   }"

definition CmdEngineProcessIoCommand ::
  "win_os \<Rightarrow> CMD_ENGINE_CONTEXT \<Rightarrow> nat \<Rightarrow> u16 \<Rightarrow> mem \<Rightarrow> (u32 \<times> CMD_ENGINE_CONTEXT \<times> mem) option" where
  "CmdEngineProcessIoCommand os pCtx pCmd queueId m = do {
     (n, ioCtx, m) \<leftarrow> IoCmdProcess os (e_adminCtx pCtx) (e_ioCtx pCtx) pCmd queueId m;
     Some (n, pCtx\<lparr>e_ioCtx := ioCtx\<rparr>, m)
   }"

section \<open>Polling\<close>

text \<open>The loop over the commands of one notification, for the admin queue and for an I/O queue; neither ends when
  \<open>sqHead\<close> never reaches \<open>sqTail\<close>.\<close>

partial_function (option) poll_admin_loop ::
  "u32 \<Rightarrow> u32 \<Rightarrow> u32 \<Rightarrow> u64 \<Rightarrow> CMD_ENGINE_CONTEXT \<Rightarrow> mem \<Rightarrow> (u32 \<times> u64 \<times> CMD_ENGINE_CONTEXT \<times> mem) option" where
  "poll_admin_loop sqTail sqCap sqHead processed pCtx m =
     (if sqHead = sqTail then Some (sqHead, processed, pCtx, m)
      else CmdEngineProcessAdminCommand pCtx (e_adminSqBase pCtx + 64 * unat sqHead) m \<bind> (\<lambda>(_, pCtx, m).
        check (sqCap \<noteq> 0) \<bind> (\<lambda>_.
          poll_admin_loop sqTail sqCap ((sqHead + 1) mod sqCap) (processed + 1) pCtx m)))"

partial_function (option) poll_io_loop ::
  "win_os \<Rightarrow> u16 \<Rightarrow> nat \<Rightarrow> u32 \<Rightarrow> u32 \<Rightarrow> u32 \<Rightarrow> u64 \<Rightarrow> CMD_ENGINE_CONTEXT \<Rightarrow> mem
    \<Rightarrow> (u32 \<times> u64 \<times> CMD_ENGINE_CONTEXT \<times> mem) option" where
  "poll_io_loop os queueId sqBase sqTail sqCap sqHead processed pCtx m =
     (if sqHead = sqTail then Some (sqHead, processed, pCtx, m)
      else CmdEngineProcessIoCommand os pCtx (sqBase + 64 * unat sqHead) queueId m \<bind> (\<lambda>(_, pCtx, m).
        check (sqCap \<noteq> 0) \<bind> (\<lambda>_.
          poll_io_loop os queueId sqBase sqTail sqCap ((sqHead + 1) mod sqCap) (processed + 1) pCtx m)))"

text \<open>What one entry of the ring makes the engine do.\<close>

definition poll_entry ::
  "win_os \<Rightarrow> VNVME_NOTIFY_ENTRY \<Rightarrow> u64 \<Rightarrow> CMD_ENGINE_CONTEXT \<Rightarrow> mem \<Rightarrow> (u64 \<times> CMD_ENGINE_CONTEXT \<times> mem) option" where
  "poll_entry os entry processed pCtx m =
     (if ne_Type entry \<noteq> 0 then Some (processed, pCtx, m)
      else if ne_QueueId entry = 0 then do {
        (sqHead, processed, pCtx, m) \<leftarrow>
          poll_admin_loop (ne_Index entry) (qd_Capacity m cb_AdminSQ) (qd_Head m cb_AdminSQ) processed pCtx m;
        Some (processed, pCtx, qd_set_Head cb_AdminSQ sqHead m)
      }
      else (case AdminCmdGetIoSq (e_adminCtx pCtx) (ne_QueueId entry) of
        None \<Rightarrow> Some (processed, pCtx, m)
      | Some sq \<Rightarrow> do {
          sqInfo \<leftarrow> arr_get (ac_ioSq (e_adminCtx pCtx)) sq;
          (case (qi_created sqInfo, qi_sqBase sqInfo, qi_descriptor sqInfo) of
             (True, Some sqBase, Some sqDesc) \<Rightarrow> do {
               check (sqDesc + 32 \<le> VNVME_SHM_SIZE);
               (sqHead, processed, pCtx, m) \<leftarrow>
                 poll_io_loop os (ne_QueueId entry) sqBase (ne_Index entry) (qi_capacity sqInfo) (qd_Head m sqDesc)
                   processed pCtx m;
               Some (processed, pCtx, qd_set_Head sqDesc sqHead m)
             }
           | _ \<Rightarrow> Some (processed, pCtx, m))
        }))"

partial_function (option) poll_ring_loop ::
  "win_os \<Rightarrow> nat \<Rightarrow> u32 \<Rightarrow> u32 \<Rightarrow> u64 \<Rightarrow> CMD_ENGINE_CONTEXT \<Rightarrow> mem \<Rightarrow> (u32 \<times> u64 \<times> CMD_ENGINE_CONTEXT \<times> mem) option" where
  "poll_ring_loop os ring tail head processed pCtx m =
     (if head = tail then Some (head, processed, pCtx, m)
      else check (nr_Entry ring head + 8 \<le> VNVME_SHM_SIZE) \<bind> (\<lambda>_.
        poll_entry os (rd_NOTIFY_ENTRY m (nr_Entry ring head)) processed pCtx m \<bind> (\<lambda>(processed, pCtx, m).
          check (rd32 m (ring + nr_Size) \<noteq> 0) \<bind> (\<lambda>_.
            poll_ring_loop os ring tail ((head + 1) mod rd32 m (ring + nr_Size)) processed pCtx m))))"

definition CmdEnginePoll :: "win_os \<Rightarrow> CMD_ENGINE_CONTEXT \<Rightarrow> mem \<Rightarrow> (u64 \<times> CMD_ENGINE_CONTEXT \<times> mem) option" where
  "CmdEnginePoll os pCtx m =
     (if \<not> e_initialized pCtx then Some (0, pCtx, m)
      else if rd32 m cb_NotifyRingOffset = 0 then Some (0, pCtx, m)
      else do {
        let ring = unat (rd32 m cb_NotifyRingOffset);
        check (ring + 128 \<le> VNVME_SHM_SIZE);
        (head, processed, pCtx, m) \<leftarrow>
          poll_ring_loop os ring (rd32 m (ring + nr_Tail)) (rd32 m (ring + nr_Head)) 0 pCtx m;
        let m = wr32 (ring + nr_Head) head m;
        let (pCtx, m) =
          (if processed > 0 then
             let ioStats = IoCmdGetStats (e_ioCtx pCtx);
                 m = wr64 cb_CommandsProcessed (es_adminCommandsProcessed (e_stats pCtx) + ios_commandsProcessed ioStats) m;
                 m = wr64 0xC0 (ios_bytesRead ioStats) m;
                 m = wr64 0xC8 (ios_bytesWritten ioStats) m
             in (upd_estats (\<lambda>s. s\<lparr>es_ioCommandsProcessed := ios_commandsProcessed ioStats,
                   es_bytesRead := ios_bytesRead ioStats, es_bytesWritten := ios_bytesWritten ioStats\<rparr>) pCtx, m)
           else (pCtx, m));
        Some (processed, upd_estats (\<lambda>s. s\<lparr>es_pollCount := es_pollCount s + 1\<rparr>) pCtx, m)
      })"

text \<open>
  \<open>CmdEngineRun\<close>: \<open>running k\<close> is what \<open>*pRunning\<close> reads before round \<open>k\<close>, \<open>signalled k\<close> whether the wait of round \<open>k\<close>
  ended because the event was set, \<open>driver k\<close> what the driver did to the shared memory before round \<open>k\<close>.
\<close>

partial_function (option) engine_run_loop ::
  "(nat \<Rightarrow> bool) \<Rightarrow> (nat \<Rightarrow> bool) \<Rightarrow> (nat \<Rightarrow> win_os) \<Rightarrow> (nat \<Rightarrow> mem \<Rightarrow> mem) \<Rightarrow> nat \<Rightarrow> CMD_ENGINE_CONTEXT \<Rightarrow> mem
    \<Rightarrow> (CMD_ENGINE_CONTEXT \<times> mem) option" where
  "engine_run_loop running signalled os driver k pCtx m =
     (if \<not> running k then Some (pCtx, m)
      else CmdEnginePoll (os k) pCtx (driver k m) \<bind> (\<lambda>(processed, pCtx, m).
        engine_run_loop running signalled os driver (Suc k)
          (if processed = 0 \<and> e_useEventWait pCtx \<and> e_commandEvent pCtx \<and> signalled k
           then upd_estats (\<lambda>s. s\<lparr>es_eventWakeups := es_eventWakeups s + 1\<rparr>) pCtx else pCtx) m))"

definition CmdEngineRun ::
  "(nat \<Rightarrow> bool) \<Rightarrow> (nat \<Rightarrow> bool) \<Rightarrow> (nat \<Rightarrow> win_os) \<Rightarrow> (nat \<Rightarrow> mem \<Rightarrow> mem) \<Rightarrow> CMD_ENGINE_CONTEXT \<Rightarrow> mem
    \<Rightarrow> (bool \<times> CMD_ENGINE_CONTEXT \<times> mem) option" where
  "CmdEngineRun running signalled os driver pCtx m =
     (if \<not> e_initialized pCtx then Some (False, pCtx, m)
      else do {
        (pCtx, m) \<leftarrow> engine_run_loop running signalled os driver 0 (pCtx\<lparr>e_running := True\<rparr>) m;
        Some (True, pCtx\<lparr>e_running := False\<rparr>, m)
      })"

section \<open>Statistics and events\<close>

definition CmdEngineGetStats :: "CMD_ENGINE_CONTEXT \<Rightarrow> CMD_ENGINE_STATS" where
  "CmdEngineGetStats pCtx = e_stats pCtx"

definition CmdEngineResetStats :: "CMD_ENGINE_CONTEXT \<Rightarrow> CMD_ENGINE_CONTEXT" where
  "CmdEngineResetStats pCtx = pCtx\<lparr>e_stats := zero_ENGINE_STATS, e_ioCtx := IoCmdResetStats (e_ioCtx pCtx)\<rparr>"

definition CmdEngineSetCommandEvent :: "bool \<Rightarrow> CMD_ENGINE_CONTEXT \<Rightarrow> CMD_ENGINE_CONTEXT" where
  "CmdEngineSetCommandEvent hEvent pCtx = pCtx\<lparr>e_commandEvent := hEvent, e_useEventWait := hEvent\<rparr>"

end
