(* ===== verification/Vnvme_Engine_Props.thy ===== *)
theory Vnvme_Engine_Props
  imports Vnvme_Engine
begin

text \<open>
  What a poll of the user-mode service does: it executes the announced admin commands once each and in order, answers
  each in the completion queue with the phase the driver's host expects, and empties the notify ring.
\<close>

section \<open>The answer to a command\<close>

text \<open>An answer, and the completion entry that carries it.\<close>

record reply =
  rp_cid :: u16
  rp_sct :: u8
  rp_sc :: u8
  rp_result :: u32
  rp_sqhd :: u16

definition reply_cqe :: "reply \<Rightarrow> u32 \<Rightarrow> NVME_COMPLETION" where
  "reply_cqe r phase = \<lparr>cqe_DW0 = rp_result r, cqe_DW1 = 0, cqe_SQHD = rp_sqhd r, cqe_SQID = 0, cqe_CID = rp_cid r,
     cqe_Status = Engine_MakeStatus (rp_sct r) (rp_sc r) (ucast phase)\<rparr>"

text \<open>The answer as a function of the context and the command alone: the handlers do not look at the shared memory.\<close>

definition status_sct :: "u16 \<Rightarrow> u8" where "status_sct status = ucast (drop_bit 9 status AND 0x07)"
definition status_sc :: "u16 \<Rightarrow> u8" where "status_sc status = ucast (drop_bit 1 status AND 0xFF)"

definition admin_reply :: "u16 \<Rightarrow> ADMIN_CMD_CONTEXT \<Rightarrow> NVME_COMMAND \<Rightarrow> reply \<times> ADMIN_CMD_CONTEXT" where
  "admin_reply sqhd a c =
     (case admin_handler (OPC c) of
        None \<Rightarrow> (\<lparr>rp_cid = CID c, rp_sct = 0, rp_sc = 0x01, rp_result = 0, rp_sqhd = sqhd\<rparr>, a)
      | Some handler \<Rightarrow>
          (case handler a c (\<lambda>_. 0) of
             Some (status, result, a', _) \<Rightarrow>
               (\<lparr>rp_cid = CID c, rp_sct = status_sct status, rp_sc = status_sc status, rp_result = result, rp_sqhd = sqhd\<rparr>, a')
           | None \<Rightarrow> (\<lparr>rp_cid = CID c, rp_sct = 0, rp_sc = 0, rp_result = 0, rp_sqhd = sqhd\<rparr>, a)))"

fun admin_replies :: "ADMIN_CMD_CONTEXT \<Rightarrow> (u16 \<times> NVME_COMMAND) list \<Rightarrow> reply list \<times> ADMIN_CMD_CONTEXT" where
  "admin_replies a [] = ([], a)"
| "admin_replies a ((sqhd, c) # cs) =
     (let (r, a1) = admin_reply sqhd a c; (rs, a2) = admin_replies a1 cs in (r # rs, a2))"

lemma admin_replies_append:
  "admin_replies a (cs @ ds) =
     (let (rs, a1) = admin_replies a cs; (rs', a2) = admin_replies a1 ds in (rs @ rs', a2))"
  by (induction a cs rule: admin_replies.induct) (auto simp: Let_def split: prod.splits)

lemma length_admin_replies: "length (fst (admin_replies a cs)) = length cs"
  by (induction a cs rule: admin_replies.induct) (auto simp: Let_def split: prod.splits)

section \<open>Entries of the completion queue\<close>

text \<open>The phase after \<open>k\<close> entries, and the entries of a list of answers: the phase is inverted when the index wraps.\<close>

definition flip :: "u32 \<Rightarrow> u32" where "flip ph = (if ph = 0 then 1 else 0)"

fun phase_after :: "nat \<Rightarrow> nat \<Rightarrow> u32 \<Rightarrow> nat \<Rightarrow> u32" where
  "phase_after N t ph 0 = ph"
| "phase_after N t ph (Suc k) = phase_after N (Suc t mod N) (if Suc t mod N = 0 then flip ph else ph) k"

fun phased :: "nat \<Rightarrow> nat \<Rightarrow> u32 \<Rightarrow> reply list \<Rightarrow> NVME_COMPLETION list" where
  "phased N t ph [] = []"
| "phased N t ph (r # rs) = reply_cqe r ph # phased N (Suc t mod N) (if Suc t mod N = 0 then flip ph else ph) rs"

definition cq_entries :: "mem \<Rightarrow> nat \<Rightarrow> nat \<Rightarrow> nat \<Rightarrow> nat \<Rightarrow> NVME_COMPLETION list" where
  "cq_entries m base N t n = map (\<lambda>i. rd_NVME_COMPLETION m (base + 16 * ((t + i) mod N))) [0..<n]"

definition cq_slots :: "nat \<Rightarrow> nat \<Rightarrow> nat \<Rightarrow> nat \<Rightarrow> nat set" where
  "cq_slots base N t n = (\<Union>i<n. {base + 16 * ((t + i) mod N)..<base + 16 * ((t + i) mod N) + 16})"

lemma phase_after_add:
  "t < N \<Longrightarrow> phase_after N t ph (a + b) = phase_after N ((t + a) mod N) (phase_after N t ph a) b"
  by (induction N t ph a rule: phase_after.induct) (simp_all add: mod_add_left_eq)

lemma phased_append:
  "t < N \<Longrightarrow> phased N t ph (rs @ rs') = phased N t ph rs @ phased N ((t + length rs) mod N) (phase_after N t ph (length rs)) rs'"
  by (induction N t ph rs rule: phased.induct) (simp_all add: mod_add_left_eq)

lemma phase_after_bit: "ph = 0 \<or> ph = 1 \<Longrightarrow> phase_after N t ph k = 0 \<or> phase_after N t ph k = 1"
  by (induction N t ph k rule: phase_after.induct) (auto simp: flip_def)

lemma cq_entries_add: "cq_entries m base N t (a + b) = cq_entries m base N t a @ cq_entries m base N ((t + a) mod N) b"
proof -
  have "[a..<a + b] = map (\<lambda>i. a + i) [0..<b]" by (rule nth_equalityI) simp_all
  moreover have "[0..<a + b] = [0..<a] @ [a..<a + b]" by (rule upt_add_eq_append) simp
  ultimately show ?thesis
    by (simp add: cq_entries_def mod_add_left_eq add.assoc comp_def)
qed

lemma cq_slots_add: "cq_slots base N t (a + b) = cq_slots base N t a \<union> cq_slots base N ((t + a) mod N) b"
proof -
  have "{..<a + b} = {..<a} \<union> (\<lambda>i. a + i) ` {..<b}"
  proof (rule set_eqI)
    show "x \<in> {..<a + b} \<longleftrightarrow> x \<in> {..<a} \<union> (\<lambda>i. a + i) ` {..<b}" for x
      by (cases "x < a") (auto intro: image_eqI [of _ _ "x - a"])
  qed
  then show ?thesis by (simp add: cq_slots_def UN_Un mod_add_left_eq add.assoc)
qed

lemma cq_slots_region:
  assumes "0 < N"
  shows "cq_slots base N t n \<subseteq> {base..<base + 16 * N}"
proof
  fix x assume "x \<in> cq_slots base N t n"
  then obtain i where "base + 16 * ((t + i) mod N) \<le> x" "x < base + 16 * ((t + i) mod N) + 16"
    by (auto simp: cq_slots_def)
  moreover have "(t + i) mod N < N" using assms by simp
  ultimately show "x \<in> {base..<base + 16 * N}" unfolding atLeastLessThan_iff by linarith
qed

lemma cq_slots_disjoint:
  assumes "a + b \<le> N"
  shows "cq_slots base N t a \<inter> cq_slots base N ((t + a) mod N) b = {}"
proof -
  have "(t + i) mod N \<noteq> (t + (a + j)) mod N" if "i < a" "j < b" for i j
    using mod_eq_dvd_iff_nat [of "t + i" "t + (a + j)" N] assms that nat_dvd_not_less [of "a + j - i" N] by auto
  then have "\<forall>i<a. \<forall>j<b. (t + i) mod N < ((t + a) mod N + j) mod N \<or> ((t + a) mod N + j) mod N < (t + i) mod N"
    by (simp add: mod_add_left_eq add.assoc nat_neq_iff [symmetric])
  then show ?thesis by (fastforce simp: cq_slots_def)
qed

lemma cq_entries_frame:
  assumes "same_outside S m m'" "S \<inter> cq_slots base N t n = {}"
  shows "cq_entries m' base N t n = cq_entries m base N t n"
proof -
  have "rd_NVME_COMPLETION m' (base + 16 * ((t + i) mod N)) = rd_NVME_COMPLETION m (base + 16 * ((t + i) mod N))" if "i < n" for i
    by (rule rd_NVME_COMPLETION_same_outside [OF assms(1)]) (use assms(2) that in \<open>auto simp: cq_slots_def\<close>)
  then show ?thesis by (simp add: cq_entries_def)
qed

section \<open>A usable engine\<close>

text \<open>The regions of the shared memory that the engine uses, and what \<open>n\<close> answers may change.\<close>

definition eng_sq :: "CMD_ENGINE_CONTEXT \<Rightarrow> mem \<Rightarrow> nat set" where
  "eng_sq pCtx m = {e_adminSqBase pCtx..<e_adminSqBase pCtx + 64 * unat (qd_Capacity m cb_AdminSQ)}"

definition eng_cq :: "CMD_ENGINE_CONTEXT \<Rightarrow> mem \<Rightarrow> nat set" where
  "eng_cq pCtx m = {e_adminCqBase pCtx..<e_adminCqBase pCtx + 16 * unat (qd_Capacity m cb_AdminCQ)}"

definition eng_ring :: "mem \<Rightarrow> nat" where
  "eng_ring m = unat (rd32 m cb_NotifyRingOffset)"

definition eng_writes :: "CMD_ENGINE_CONTEXT \<Rightarrow> mem \<Rightarrow> nat \<Rightarrow> nat set" where
  "eng_writes pCtx m n = adm_buffer (e_adminCtx pCtx) \<union> {0x30..<0x34} \<union> {0x54..<0x58}
     \<union> cq_slots (e_adminCqBase pCtx) (unat (qd_Capacity m cb_AdminCQ)) (unat (qd_Tail m cb_AdminCQ)) n"

definition engine_ok :: "CMD_ENGINE_CONTEXT \<Rightarrow> mem \<Rightarrow> bool" where
  "engine_ok pCtx m \<longleftrightarrow>
     e_initialized pCtx \<and> e_shm pCtx \<and> (e_adminCqPhase pCtx = 0 \<or> e_adminCqPhase pCtx = 1)
     \<and> adm_wf (e_adminCtx pCtx)
     \<and> qd_Head m cb_AdminSQ < qd_Capacity m cb_AdminSQ \<and> qd_Tail m cb_AdminCQ < qd_Capacity m cb_AdminCQ
     \<and> 0x100 \<le> e_adminSqBase pCtx \<and> e_adminSqBase pCtx + 64 * unat (qd_Capacity m cb_AdminSQ) \<le> VNVME_SHM_SIZE
     \<and> 0x100 \<le> e_adminCqBase pCtx \<and> e_adminCqBase pCtx + 16 * unat (qd_Capacity m cb_AdminCQ) \<le> VNVME_SHM_SIZE
     \<and> 0x100 \<le> eng_ring m \<and> eng_ring m + 2176 \<le> VNVME_SHM_SIZE
     \<and> rd32 m (eng_ring m + nr_Size) = 256 \<and> rd32 m (eng_ring m + nr_Head) < 256 \<and> rd32 m (eng_ring m + nr_Tail) < 256
     \<and> eng_cq pCtx m \<inter> eng_sq pCtx m = {} \<and> eng_sq pCtx m \<inter> {eng_ring m..<eng_ring m + 2176} = {} \<and> eng_cq pCtx m \<inter> {eng_ring m..<eng_ring m + 2176} = {}
     \<and> adm_buffer (e_adminCtx pCtx) \<inter> ({..<0x100} \<union> eng_sq pCtx m \<union> eng_cq pCtx m \<union> {eng_ring m..<eng_ring m + 2176}) = {}"

text \<open>What the engine reads and the answers leave alone.\<close>

definition eng_fixed :: "CMD_ENGINE_CONTEXT \<Rightarrow> bool \<times> bool \<times> nat \<times> nat \<times> nat set" where
  "eng_fixed pCtx = (e_initialized pCtx, e_shm pCtx, e_adminSqBase pCtx, e_adminCqBase pCtx, adm_buffer (e_adminCtx pCtx))"

lemma eng_writes_outside:
  assumes "engine_ok pCtx m"
  shows "eng_writes pCtx m n \<inter> {..<0x100} \<subseteq> {0x30..<0x34} \<union> {0x54..<0x58}"
    "eng_writes pCtx m n \<inter> eng_sq pCtx m = {}" "eng_writes pCtx m n \<inter> {eng_ring m..<eng_ring m + 2176} = {}"
proof -
  have N: "0 < unat (qd_Capacity m cb_AdminCQ)"
    using assms by (auto simp: engine_ok_def word_less_nat_alt)
  have slots: "cq_slots (e_adminCqBase pCtx) (unat (qd_Capacity m cb_AdminCQ)) (unat (qd_Tail m cb_AdminCQ)) n \<subseteq> eng_cq pCtx m"
    using cq_slots_region [OF N] by (auto simp: eng_cq_def)
  have low: "eng_cq pCtx m \<inter> {..<0x100} = {}" "eng_sq pCtx m \<inter> {..<0x100} = {}"
    "{eng_ring m..<eng_ring m + 2176} \<inter> {..<0x100} = {}"
  proof -
    have "0x100 \<le> e_adminSqBase pCtx" "0x100 \<le> e_adminCqBase pCtx" "0x100 \<le> eng_ring m"
      using assms by (simp_all add: engine_ok_def)
    then show "eng_cq pCtx m \<inter> {..<0x100} = {}" "eng_sq pCtx m \<inter> {..<0x100} = {}"
      "{eng_ring m..<eng_ring m + 2176} \<inter> {..<0x100} = {}"
      by (auto simp: eng_cq_def eng_sq_def)
  qed
  have apart: "eng_cq pCtx m \<inter> eng_sq pCtx m = {}" "eng_cq pCtx m \<inter> {eng_ring m..<eng_ring m + 2176} = {}"
    "adm_buffer (e_adminCtx pCtx) \<inter> ({..<0x100} \<union> eng_sq pCtx m \<union> eng_cq pCtx m \<union> {eng_ring m..<eng_ring m + 2176}) = {}"
    using assms by (simp_all add: engine_ok_def)
  show "eng_writes pCtx m n \<inter> {..<0x100} \<subseteq> {0x30..<0x34} \<union> {0x54..<0x58}"
    using slots low(1) apart(3) unfolding eng_writes_def by blast
  have "{0x30..<0x34} \<subseteq> {..<0x100 :: nat}" "{0x54..<0x58} \<subseteq> {..<0x100 :: nat}" by auto
  then have sub: "eng_writes pCtx m n \<subseteq> adm_buffer (e_adminCtx pCtx) \<union> ({..<0x100} \<union> eng_cq pCtx m)"
    using slots unfolding eng_writes_def by (intro Un_least) blast+
  have "(adm_buffer (e_adminCtx pCtx) \<union> ({..<0x100} \<union> eng_cq pCtx m)) \<inter> eng_sq pCtx m = {}"
    "(adm_buffer (e_adminCtx pCtx) \<union> ({..<0x100} \<union> eng_cq pCtx m)) \<inter> {eng_ring m..<eng_ring m + 2176} = {}"
    using low apart by (simp_all only: Int_Un_distrib Int_Un_distrib2 Un_empty Int_commute [of _ "{..<0x100}"])
  with sub show "eng_writes pCtx m n \<inter> eng_sq pCtx m = {}" "eng_writes pCtx m n \<inter> {eng_ring m..<eng_ring m + 2176} = {}"
    by (metis (no_types, lifting) Int_mono order_refl subset_empty)+
qed

lemma eng_reads:
  assumes "engine_ok pCtx m" "same_outside (eng_writes pCtx m n) m m'"
  shows "qd_Capacity m' cb_AdminSQ = qd_Capacity m cb_AdminSQ" "qd_Capacity m' cb_AdminCQ = qd_Capacity m cb_AdminCQ"
    "eng_ring m' = eng_ring m" "rd32 m' (eng_ring m + nr_Size) = rd32 m (eng_ring m + nr_Size)"
    "rd32 m' (eng_ring m + nr_Head) = rd32 m (eng_ring m + nr_Head)"
    "rd32 m' (eng_ring m + nr_Tail) = rd32 m (eng_ring m + nr_Tail)"
    "i < unat (qd_Capacity m cb_AdminSQ) \<Longrightarrow>
       rd_NVME_COMMAND m' (e_adminSqBase pCtx + 64 * i) = rd_NVME_COMMAND m (e_adminSqBase pCtx + 64 * i)"
    "j < 256 \<Longrightarrow> rd_NOTIFY_ENTRY m' (eng_ring m + 128 + 8 * j) = rd_NOTIFY_ENTRY m (eng_ring m + 128 + 8 * j)"
    "qd_Phase m' cb_AdminCQ = qd_Phase m cb_AdminCQ" "qd_Tail m' cb_AdminSQ = qd_Tail m cb_AdminSQ"
proof -
  note w = eng_writes_outside [OF assms(1), of n]
  have low: "rd32 m' a = rd32 m a" if "a + 4 \<le> 0x100" "{a..<a + 4} \<inter> ({0x30..<0x34} \<union> {0x54..<0x58}) = {}" for a
  proof (rule rd32_same_outside [OF assms(2)])
    have "{a..<a + 4} \<subseteq> {..<0x100}" using that(1) by auto
    then show "{a..<a + 4} \<inter> eng_writes pCtx m n = {}" using w(1) that(2) by blast
  qed
  show "qd_Capacity m' cb_AdminSQ = qd_Capacity m cb_AdminSQ" "qd_Capacity m' cb_AdminCQ = qd_Capacity m cb_AdminCQ"
    unfolding qd_Capacity_def by (rule low; force)+
  show "qd_Phase m' cb_AdminCQ = qd_Phase m cb_AdminCQ" unfolding qd_Phase_def by (rule low; force)
  show "qd_Tail m' cb_AdminSQ = qd_Tail m cb_AdminSQ" unfolding qd_Tail_def by (rule low; force)
  have "rd32 m' 0x70 = rd32 m 0x70" by (rule low) force+
  then show "eng_ring m' = eng_ring m" by (simp add: eng_ring_def)
  have ring: "rd32 m' (eng_ring m + a) = rd32 m (eng_ring m + a)" if "a + 4 \<le> 2176" for a
  proof (rule rd32_same_outside [OF assms(2)])
    have "{eng_ring m + a..<eng_ring m + a + 4} \<subseteq> {eng_ring m..<eng_ring m + 2176}" using that by auto
    then show "{eng_ring m + a..<eng_ring m + a + 4} \<inter> eng_writes pCtx m n = {}" using w(3) by blast
  qed
  show "rd32 m' (eng_ring m + nr_Size) = rd32 m (eng_ring m + nr_Size)"
    "rd32 m' (eng_ring m + nr_Head) = rd32 m (eng_ring m + nr_Head)"
    "rd32 m' (eng_ring m + nr_Tail) = rd32 m (eng_ring m + nr_Tail)"
    by (rule ring, simp)+
  show "rd_NVME_COMMAND m' (e_adminSqBase pCtx + 64 * i) = rd_NVME_COMMAND m (e_adminSqBase pCtx + 64 * i)"
    if "i < unat (qd_Capacity m cb_AdminSQ)"
  proof (rule rd_NVME_COMMAND_same_outside [OF assms(2)])
    have "{e_adminSqBase pCtx + 64 * i..<e_adminSqBase pCtx + 64 * i + 64} \<subseteq> eng_sq pCtx m"
      using that by (auto simp: eng_sq_def)
    then show "{e_adminSqBase pCtx + 64 * i..<e_adminSqBase pCtx + 64 * i + 64} \<inter> eng_writes pCtx m n = {}" using w(2) by blast
  qed
  show "rd_NOTIFY_ENTRY m' (eng_ring m + 128 + 8 * j) = rd_NOTIFY_ENTRY m (eng_ring m + 128 + 8 * j)" if "j < 256"
  proof (rule rd_NOTIFY_ENTRY_eqI)
    fix x assume "eng_ring m + 128 + 8 * j \<le> x" "x < eng_ring m + 128 + 8 * j + 8"
    then have "x \<in> {eng_ring m..<eng_ring m + 2176}" using that by auto
    then show "m' x = m x" using w(3) same_outsideD [OF assms(2)] by blast
  qed
qed

lemma engine_ok_frame:
  assumes "engine_ok pCtx m" "same_outside (eng_writes pCtx m n) m m'" "eng_fixed pCtx' = eng_fixed pCtx"
    and "adm_wf (e_adminCtx pCtx')"
    and "e_adminCqPhase pCtx' = 0 \<or> e_adminCqPhase pCtx' = 1"
    and "qd_Head m' cb_AdminSQ < qd_Capacity m cb_AdminSQ" "qd_Tail m' cb_AdminCQ < qd_Capacity m cb_AdminCQ"
  shows "engine_ok pCtx' m'"
  using assms(1,3-) eng_reads [OF assms(1,2)]
  unfolding engine_ok_def eng_sq_def eng_cq_def eng_fixed_def by simp

section \<open>Answering\<close>

text \<open>
  \<open>eng_answered pCtx m rs pCtx' m'\<close>: from the first state the answers \<open>rs\<close> were posted, and nothing else happened that
  matters to the queues.
\<close>

definition eng_answered :: "CMD_ENGINE_CONTEXT \<Rightarrow> mem \<Rightarrow> reply list \<Rightarrow> CMD_ENGINE_CONTEXT \<Rightarrow> mem \<Rightarrow> bool" where
  "eng_answered pCtx m rs pCtx' m' \<longleftrightarrow>
     (let N = unat (qd_Capacity m cb_AdminCQ); t = unat (qd_Tail m cb_AdminCQ) in
      engine_ok pCtx' m' \<and> eng_fixed pCtx' = eng_fixed pCtx
      \<and> same_outside (eng_writes pCtx m (length rs)) m m'
      \<and> unat (qd_Tail m' cb_AdminCQ) = (t + length rs) mod N
      \<and> e_adminCqPhase pCtx' = phase_after N t (e_adminCqPhase pCtx) (length rs)
      \<and> es_adminCommandsProcessed (e_stats pCtx') = es_adminCommandsProcessed (e_stats pCtx) + of_nat (length rs)
      \<and> e_ioCtx pCtx' = e_ioCtx pCtx
      \<and> (length rs \<le> N \<longrightarrow> cq_entries m' (e_adminCqBase pCtx) N t (length rs) = phased N t (e_adminCqPhase pCtx) rs))"

lemma eng_answered_Nil: "engine_ok pCtx m \<Longrightarrow> eng_answered pCtx m [] pCtx m"
  by (simp add: eng_answered_def Let_def cq_entries_def engine_ok_def word_less_nat_alt)

lemma eng_answered_append:
  assumes "engine_ok pCtx m" "eng_answered pCtx m rs pCtx1 m1" "eng_answered pCtx1 m1 rs' pCtx2 m2"
  shows "eng_answered pCtx m (rs @ rs') pCtx2 m2"
proof -
  define N where "N = unat (qd_Capacity m cb_AdminCQ)"
  define t where "t = unat (qd_Tail m cb_AdminCQ)"
  let ?B = "e_adminCqBase pCtx" and ?a = "length rs" and ?b = "length rs'"
  note first = assms(2) [unfolded eng_answered_def Let_def, folded N_def t_def]
  have N1: "unat (qd_Capacity m1 cb_AdminCQ) = N" "unat (qd_Tail m1 cb_AdminCQ) = (t + ?a) mod N"
    using first eng_reads(2) [OF assms(1), of ?a m1] by (simp_all add: N_def)
  have B: "e_adminCqBase pCtx1 = ?B" "adm_buffer (e_adminCtx pCtx1) = adm_buffer (e_adminCtx pCtx)"
    using first by (simp_all add: eng_fixed_def)
  note second = assms(3) [unfolded eng_answered_def Let_def N1 B]
  have t: "t < N" using assms(1) by (simp add: engine_ok_def N_def t_def word_less_nat_alt)
  have w: "eng_writes pCtx m (?a + ?b) = eng_writes pCtx m ?a \<union> eng_writes pCtx1 m1 ?b"
    by (auto simp: eng_writes_def N1 B N_def [symmetric] t_def [symmetric] cq_slots_add)
  have frame: "same_outside (eng_writes pCtx m (?a + ?b)) m m2"
    using first second unfolding w
    by (meson same_outside_mono same_outside_trans sup_ge1 sup_ge2)
  have entries: "cq_entries m2 ?B N t (?a + ?b) = phased N t (e_adminCqPhase pCtx) (rs @ rs')" if "?a + ?b \<le> N"
  proof -
    have buffer: "adm_buffer (e_adminCtx pCtx) \<inter> eng_cq pCtx m = {}" "{0x30..<0x34} \<inter> eng_cq pCtx m = {}"
      "{0x54..<0x58} \<inter> eng_cq pCtx m = {}"
    proof -
      have "adm_buffer (e_adminCtx pCtx) \<inter> ({..<0x100} \<union> eng_sq pCtx m \<union> eng_cq pCtx m \<union> {eng_ring m..<eng_ring m + 2176}) = {}"
        using assms(1) by (simp add: engine_ok_def)
      then show "adm_buffer (e_adminCtx pCtx) \<inter> eng_cq pCtx m = {}" by blast
      have "0x100 \<le> e_adminCqBase pCtx" using assms(1) by (simp add: engine_ok_def)
      then show "{0x30..<0x34} \<inter> eng_cq pCtx m = {}" "{0x54..<0x58} \<inter> eng_cq pCtx m = {}"
        by (auto simp: eng_cq_def)
    qed
    have region: "cq_slots ?B N t ?a \<subseteq> eng_cq pCtx m" using cq_slots_region [of N] t by (auto simp: eng_cq_def N_def)
    have "eng_writes pCtx1 m1 ?b \<inter> cq_slots ?B N t ?a = {}"
      using buffer region cq_slots_disjoint [OF that, of ?B t] unfolding eng_writes_def N1 B by blast
    then have "cq_entries m2 ?B N t ?a = cq_entries m1 ?B N t ?a"
      using second by (intro cq_entries_frame) auto
    then show ?thesis
      using first second that t by (simp add: cq_entries_add phased_append)
  qed
  show ?thesis
    unfolding eng_answered_def Let_def N_def [symmetric] t_def [symmetric]
    using first second frame entries t B by (simp add: phase_after_add mod_add_left_eq eng_fixed_def add.assoc)
qed

lemma post_admin_state:
  fixes cid :: u16 and dw0 :: u32 and sct sc :: u8
  assumes "engine_ok pCtx m"
  defines "r \<equiv> \<lparr>rp_cid = cid, rp_sct = sct, rp_sc = sc, rp_result = dw0, rp_sqhd = ucast (qd_Head m cb_AdminSQ)\<rparr>"
    and "tail' \<equiv> (qd_Tail m cb_AdminCQ + 1) mod qd_Capacity m cb_AdminCQ"
  shows "CmdEnginePostAdminCompletion cid dw0 sct sc pCtx m = Some
    (upd_estats (\<lambda>s. s\<lparr>es_adminCommandsProcessed := es_adminCommandsProcessed s + 1\<rparr>)
       (if tail' = 0 then pCtx\<lparr>e_adminCqPhase := flip (e_adminCqPhase pCtx)\<rparr> else pCtx),
     qd_set_Tail cb_AdminCQ tail' (wr_NVME_COMPLETION (e_adminCqBase pCtx + 16 * unat (qd_Tail m cb_AdminCQ))
       (reply_cqe r (e_adminCqPhase pCtx)) m))"
proof -
  let ?a = "e_adminCqBase pCtx + 16 * unat (qd_Tail m cb_AdminCQ)"
  have less: "unat (qd_Tail m cb_AdminCQ) < unat (qd_Capacity m cb_AdminCQ)" "0x100 \<le> e_adminCqBase pCtx" "e_shm pCtx"
    "e_adminCqBase pCtx + 16 * unat (qd_Capacity m cb_AdminCQ) \<le> VNVME_SHM_SIZE"
    using assms(1) by (simp_all add: engine_ok_def word_less_nat_alt)
  then have a: "0x100 \<le> ?a" "?a + 16 \<le> VNVME_SHM_SIZE" by auto
  have head: "qd_Head (wr32 (?a + 4) 0 (wr32 ?a dw0 m)) cb_AdminSQ = qd_Head m cb_AdminSQ"
    using a(1) unfolding qd_Head_def by (simp add: rd32_wr32_apart)
  have cqe: "wr16 (?a + 14) (Engine_MakeStatus sct sc (ucast (e_adminCqPhase pCtx))) (wr16 (?a + 12) cid
      (wr16 (?a + 10) 0 (wr16 (?a + 8) (ucast (qd_Head m cb_AdminSQ)) (wr32 (?a + 4) 0 (wr32 ?a dw0 m)))))
    = wr_NVME_COMPLETION ?a (reply_cqe r (e_adminCqPhase pCtx)) m"
    by (simp add: wr_NVME_COMPLETION_def reply_cqe_def r_def)
  have cap: "qd_Capacity (wr_NVME_COMPLETION ?a (reply_cqe r (e_adminCqPhase pCtx)) m) cb_AdminCQ = qd_Capacity m cb_AdminCQ"
    using a(1) unfolding qd_Capacity_def by (simp add: rd32_wr_NVME_COMPLETION_apart)
  have "qd_Capacity m cb_AdminCQ \<noteq> 0" using less(1) by auto
  with a less(3) show ?thesis
    unfolding CmdEnginePostAdminCompletion_def Let_def head cqe cap tail'_def
    by (simp add: flip_def)
qed

lemma post_admin_answers:
  fixes cid :: u16 and dw0 :: u32 and sct sc :: u8
  assumes "engine_ok pCtx m"
  defines "r \<equiv> \<lparr>rp_cid = cid, rp_sct = sct, rp_sc = sc, rp_result = dw0, rp_sqhd = ucast (qd_Head m cb_AdminSQ)\<rparr>"
  shows "\<exists>pCtx' m'. CmdEnginePostAdminCompletion cid dw0 sct sc pCtx m = Some (pCtx', m') \<and> eng_answered pCtx m [r] pCtx' m'
    \<and> e_adminCtx pCtx' = e_adminCtx pCtx \<and> qd_Head m' cb_AdminSQ = qd_Head m cb_AdminSQ"
proof -
  define t where "t = qd_Tail m cb_AdminCQ"
  define N where "N = qd_Capacity m cb_AdminCQ"
  define a where "a = e_adminCqBase pCtx + 16 * unat t"
  define tail' where "tail' = (t + 1) mod N"
  define p' where "p' = upd_estats (\<lambda>s. s\<lparr>es_adminCommandsProcessed := es_adminCommandsProcessed s + 1\<rparr>)
       (if tail' = 0 then pCtx\<lparr>e_adminCqPhase := flip (e_adminCqPhase pCtx)\<rparr> else pCtx)"
  define m1 where "m1 = wr_NVME_COMPLETION a (reply_cqe r (e_adminCqPhase pCtx)) m"
  define m' where "m' = qd_set_Tail cb_AdminCQ tail' m1"
  have run: "CmdEnginePostAdminCompletion cid dw0 sct sc pCtx m = Some (p', m')"
    unfolding post_admin_state [OF assms(1)] p'_def m'_def m1_def tail'_def a_def t_def N_def r_def ..
  have tN: "t < N" "0x100 \<le> e_adminCqBase pCtx" "e_adminCqPhase pCtx = 0 \<or> e_adminCqPhase pCtx = 1" "adm_wf (e_adminCtx pCtx)"
    "qd_Head m cb_AdminSQ < qd_Capacity m cb_AdminSQ"
    using assms(1) by (simp_all add: engine_ok_def t_def N_def)
  have a: "0x100 \<le> a" using tN(2) by (simp add: a_def)
  have tail: "unat tail' = Suc (unat t) mod unat N" "tail' < N"
    using unat_word_suc_mod [OF tN(1)] word_suc_mod_less [of N t] tN(1) by (simp_all add: tail'_def word_less_nat_alt)
  have slots: "cq_slots (e_adminCqBase pCtx) (unat N) (unat t) 1 = {a..<a + 16}"
    using tN(1) by (simp add: cq_slots_def a_def word_less_nat_alt lessThan_Suc)
  have W: "{a..<a + 16} \<subseteq> eng_writes pCtx m 1" "{0x54..<0x58} \<subseteq> eng_writes pCtx m 1"
    using slots by (auto simp: eng_writes_def t_def N_def)
  have "same_outside (eng_writes pCtx m 1) m m1"
    unfolding m1_def by (rule same_outside_wr_NVME_COMPLETION [OF W(1)])
  moreover have "same_outside (eng_writes pCtx m 1) m1 m'"
    unfolding m'_def qd_set_Tail_def by (rule same_outside_wr32) (use W(2) in simp)
  ultimately have frame: "same_outside (eng_writes pCtx m 1) m m'" by (rule same_outside_trans)
  have head: "qd_Head m' cb_AdminSQ = qd_Head m cb_AdminSQ"
    unfolding m'_def m1_def qd_Head_def qd_set_Tail_def using a by (simp add: rd32_wr32_apart rd32_wr_NVME_COMPLETION_apart)
  have t': "qd_Tail m' cb_AdminCQ = tail'"
    unfolding m'_def qd_Tail_def qd_set_Tail_def by (rule rd32_wr32)
  have fields: "eng_fixed p' = eng_fixed pCtx" "e_adminCtx p' = e_adminCtx pCtx" "e_ioCtx p' = e_ioCtx pCtx"
    "es_adminCommandsProcessed (e_stats p') = es_adminCommandsProcessed (e_stats pCtx) + 1"
    by (simp_all add: p'_def upd_estats_def eng_fixed_def)
  have wrap: "tail' = 0 \<longleftrightarrow> Suc (unat t) mod unat N = 0"
    using tail(1) by (metis unat_eq_zero)
  then have phase: "e_adminCqPhase p' = phase_after (unat N) (unat t) (e_adminCqPhase pCtx) 1"
    by (simp add: p'_def upd_estats_def)
  have bit: "e_adminCqPhase p' = 0 \<or> e_adminCqPhase p' = 1"
    unfolding phase by (rule phase_after_bit [OF tN(3)])
  have ok: "engine_ok p' m'"
    by (rule engine_ok_frame [OF assms(1) frame fields(1)])
      (use fields(2) tN(4,5) bit head t' tail(2) in \<open>simp_all add: N_def\<close>)
  have "rd_NVME_COMPLETION m' a = rd_NVME_COMPLETION m1 a"
    unfolding m'_def qd_set_Tail_def using a by (intro rd_NVME_COMPLETION_eqI) (simp add: wr32_outside)
  also have "\<dots> = reply_cqe r (e_adminCqPhase pCtx)" unfolding m1_def by (rule rd_wr_NVME_COMPLETION)
  finally have entry: "cq_entries m' (e_adminCqBase pCtx) (unat N) (unat t) 1 = phased (unat N) (unat t) (e_adminCqPhase pCtx) [r]"
    using tN(1) by (simp add: cq_entries_def a_def word_less_nat_alt)
  have "eng_answered pCtx m [r] p' m'"
    unfolding eng_answered_def Let_def t_def [symmetric] N_def [symmetric]
    using ok fields frame phase entry t' tail(1) by simp
  with run head fields(2) show ?thesis by blast
qed

text \<open>Decoding a status word that the engine made itself.\<close>

lemma Engine_MakeStatus_invalid_opcode:
  assumes "ph = 0 \<or> ph = (1 :: u32)"
  shows "status_sct (Engine_MakeStatus 0 0x01 (ucast ph)) = 0" "status_sc (Engine_MakeStatus 0 0x01 (ucast ph)) = 1"
  using assms by (auto simp: status_sct_def status_sc_def Engine_MakeStatus_def)

text \<open>The handler's part of a command: no entry is posted, and the answer is determined.\<close>

lemma engine_admin_switch_answers:
  assumes "adm_wf (e_adminCtx pCtx)" "e_adminCqPhase pCtx = 0 \<or> e_adminCqPhase pCtx = 1"
  shows "\<exists>status result pCtx1 m1. engine_admin_switch pCtx c m = Some (status, result, pCtx1, m1)
      \<and> admin_reply h (e_adminCtx pCtx) c = (\<lparr>rp_cid = CID c, rp_sct = status_sct status, rp_sc = status_sc status,
          rp_result = result, rp_sqhd = h\<rparr>, e_adminCtx pCtx1)
      \<and> adm_wf (e_adminCtx pCtx1) \<and> eng_fixed pCtx1 = eng_fixed pCtx \<and> e_adminCqPhase pCtx1 = e_adminCqPhase pCtx
      \<and> es_adminCommandsProcessed (e_stats pCtx1) = es_adminCommandsProcessed (e_stats pCtx) \<and> e_ioCtx pCtx1 = e_ioCtx pCtx
      \<and> same_outside (adm_buffer (e_adminCtx pCtx)) m m1"
proof (cases "admin_handler (OPC c)")
  case None
  then show ?thesis
    using assms Engine_MakeStatus_invalid_opcode [OF assms(2)]
    by (intro exI [of _ "Engine_MakeStatus 0 0x01 (ucast (e_adminCqPhase pCtx))"] exI [of _ 0]
        exI [of _ "upd_estats (\<lambda>s. s\<lparr>es_errors := es_errors s + 1\<rparr>) pCtx"] exI [of _ m])
      (simp add: engine_admin_switch_def admin_reply_def upd_estats_def eng_fixed_def)
next
  case (Some handler)
  from admin_handler_answers [OF assms(1) Some, of c] obtain status result a' where
    h: "adm_wf a'" "adm_fixed a' = adm_fixed (e_adminCtx pCtx)"
      "\<forall>m. \<exists>m'. handler (e_adminCtx pCtx) c m = Some (status, result, a', m') \<and> same_outside (adm_buffer (e_adminCtx pCtx)) m m'"
    unfolding admin_answers_def by blast
  from h(3) obtain m0 m1 where "handler (e_adminCtx pCtx) c (\<lambda>_. 0) = Some (status, result, a', m0)"
    "handler (e_adminCtx pCtx) c m = Some (status, result, a', m1)" "same_outside (adm_buffer (e_adminCtx pCtx)) m m1"
    by metis
  moreover have "adm_buffer a' = adm_buffer (e_adminCtx pCtx)"
    using h(2) by (simp add: adm_fixed_def adm_buffer_def cong: option.case_cong)
  ultimately show ?thesis
    using Some h(1)
    by (intro exI [of _ status] exI [of _ result] exI [of _ "pCtx\<lparr>e_adminCtx := a'\<rparr>"] exI [of _ m1])
      (simp add: engine_admin_switch_def admin_reply_def eng_fixed_def)
qed

lemma eng_answered_buffer:
  assumes "engine_ok pCtx m" "adm_wf (e_adminCtx pCtx1)" "eng_fixed pCtx1 = eng_fixed pCtx"
    "e_adminCqPhase pCtx1 = e_adminCqPhase pCtx" "es_adminCommandsProcessed (e_stats pCtx1) = es_adminCommandsProcessed (e_stats pCtx)"
    "e_ioCtx pCtx1 = e_ioCtx pCtx" "same_outside (adm_buffer (e_adminCtx pCtx)) m m1"
  shows "eng_answered pCtx m [] pCtx1 m1" "qd_Head m1 cb_AdminSQ = qd_Head m cb_AdminSQ"
proof -
  have frame: "same_outside (eng_writes pCtx m 0) m m1"
    by (rule same_outside_mono [OF assms(7)]) (auto simp: eng_writes_def)
  have low: "adm_buffer (e_adminCtx pCtx) \<inter> {..<0x100} = {}"
    using assms(1) unfolding engine_ok_def by blast
  have "{0x30..<0x34} \<subseteq> {..<0x100 :: nat}" "{0x54..<0x58} \<subseteq> {..<0x100 :: nat}" by auto
  with low have "{0x30..<0x34} \<inter> adm_buffer (e_adminCtx pCtx) = {}" "{0x54..<0x58} \<inter> adm_buffer (e_adminCtx pCtx) = {}"
    by blast+
  then have ht: "qd_Head m1 cb_AdminSQ = qd_Head m cb_AdminSQ" "qd_Tail m1 cb_AdminCQ = qd_Tail m cb_AdminCQ"
    unfolding qd_Head_def qd_Tail_def by (intro rd32_same_outside [OF assms(7)]; simp)+
  have ok: "e_adminCqPhase pCtx = 0 \<or> e_adminCqPhase pCtx = 1" "qd_Head m cb_AdminSQ < qd_Capacity m cb_AdminSQ"
    "qd_Tail m cb_AdminCQ < qd_Capacity m cb_AdminCQ"
    using assms(1) by (simp_all add: engine_ok_def)
  have "engine_ok pCtx1 m1"
    by (rule engine_ok_frame [OF assms(1) frame assms(3,2)]) (use assms(4) ok ht in simp_all)
  with assms frame ht ok(3) show "eng_answered pCtx m [] pCtx1 m1"
    by (simp add: eng_answered_def Let_def cq_entries_def word_less_nat_alt)
  show "qd_Head m1 cb_AdminSQ = qd_Head m cb_AdminSQ" by (rule ht(1))
qed

lemma process_admin_answers:
  fixes i :: nat
  assumes "engine_ok pCtx m" "i < unat (qd_Capacity m cb_AdminSQ)"
  defines "c \<equiv> rd_NVME_COMMAND m (e_adminSqBase pCtx + 64 * i)" and "h \<equiv> ucast (qd_Head m cb_AdminSQ) :: u16"
  shows "\<exists>pCtx' m'. CmdEngineProcessAdminCommand pCtx (e_adminSqBase pCtx + 64 * i) m = Some (1, pCtx', m')
    \<and> eng_answered pCtx m [fst (admin_reply h (e_adminCtx pCtx) c)] pCtx' m'
    \<and> e_adminCtx pCtx' = snd (admin_reply h (e_adminCtx pCtx) c)
    \<and> qd_Head m' cb_AdminSQ = qd_Head m cb_AdminSQ"
proof -
  let ?a = "e_adminSqBase pCtx + 64 * i"
  have wf: "adm_wf (e_adminCtx pCtx)" "e_adminCqPhase pCtx = 0 \<or> e_adminCqPhase pCtx = 1" "?a + 64 \<le> VNVME_SHM_SIZE"
    using assms(1,2) by (simp_all add: engine_ok_def)
  from engine_admin_switch_answers [OF wf(1,2), of c m h] obtain status result pCtx1 m1 where
    switch: "engine_admin_switch pCtx c m = Some (status, result, pCtx1, m1)"
    and reply: "admin_reply h (e_adminCtx pCtx) c = (\<lparr>rp_cid = CID c, rp_sct = status_sct status, rp_sc = status_sc status,
          rp_result = result, rp_sqhd = h\<rparr>, e_adminCtx pCtx1)"
    and p1: "adm_wf (e_adminCtx pCtx1)" "eng_fixed pCtx1 = eng_fixed pCtx" "e_adminCqPhase pCtx1 = e_adminCqPhase pCtx"
      "es_adminCommandsProcessed (e_stats pCtx1) = es_adminCommandsProcessed (e_stats pCtx)" "e_ioCtx pCtx1 = e_ioCtx pCtx"
      "same_outside (adm_buffer (e_adminCtx pCtx)) m m1"
    by blast
  note step1 = eng_answered_buffer [OF assms(1) p1]
  have ok1: "engine_ok pCtx1 m1" and frame: "same_outside (eng_writes pCtx m 0) m m1"
    using step1(1) by (simp_all add: eng_answered_def Let_def)
  have cid: "rd_NVME_COMMAND m1 ?a = c"
    unfolding c_def by (rule eng_reads(7) [OF assms(1) frame assms(2)])
  obtain pCtx' m' where post: "CmdEnginePostAdminCompletion (CID c) result (status_sct status) (status_sc status) pCtx1 m1 = Some (pCtx', m')"
    "eng_answered pCtx1 m1 [\<lparr>rp_cid = CID c, rp_sct = status_sct status, rp_sc = status_sc status, rp_result = result, rp_sqhd = h\<rparr>] pCtx' m'"
    "e_adminCtx pCtx' = e_adminCtx pCtx1" "qd_Head m' cb_AdminSQ = qd_Head m cb_AdminSQ"
    using post_admin_answers [OF ok1, of "CID c" result "status_sct status" "status_sc status"] unfolding step1(2) h_def by blast
  have "CmdEngineProcessAdminCommand pCtx ?a m = Some (1, pCtx', m')"
    unfolding CmdEngineProcessAdminCommand_def c_def [symmetric] switch
    using wf(3) post(1) by (simp add: cid status_sct_def status_sc_def)
  moreover have "eng_answered pCtx m [fst (admin_reply h (e_adminCtx pCtx) c)] pCtx' m'"
    using eng_answered_append [OF assms(1) step1(1) post(2)] by (simp add: reply)
  ultimately show ?thesis using post(3,4) by (simp add: reply)
qed

section \<open>The loops\<close>

text \<open>The commands of the submission queue at the given indices.\<close>

definition sq_commands :: "CMD_ENGINE_CONTEXT \<Rightarrow> mem \<Rightarrow> nat list \<Rightarrow> NVME_COMMAND list" where
  "sq_commands pCtx m is = map (\<lambda>i. rd_NVME_COMMAND m (e_adminSqBase pCtx + 64 * i)) is"

lemma eng_answered_sq_commands:
  assumes "engine_ok pCtx m" "eng_answered pCtx m rs pCtx' m'" "\<forall>i\<in>set is. i < unat (qd_Capacity m cb_AdminSQ)"
  shows "sq_commands pCtx' m' is = sq_commands pCtx m is"
proof -
  have frame: "same_outside (eng_writes pCtx m (length rs)) m m'" and base: "e_adminSqBase pCtx' = e_adminSqBase pCtx"
    using assms(2) by (simp_all add: eng_answered_def Let_def eng_fixed_def)
  show ?thesis
    unfolding sq_commands_def base by (rule map_cong [OF refl]) (rule eng_reads(7) [OF assms(1) frame], use assms(3) in blast)
qed

lemma eng_answered_capacity:
  assumes "engine_ok pCtx m" "eng_answered pCtx m rs pCtx' m'"
  shows "qd_Capacity m' cb_AdminSQ = qd_Capacity m cb_AdminSQ" "eng_ring m' = eng_ring m" "engine_ok pCtx' m'"
    "same_outside (eng_writes pCtx m (length rs)) m m'"
proof -
  show frame: "same_outside (eng_writes pCtx m (length rs)) m m'" and "engine_ok pCtx' m'"
    using assms(2) by (simp_all add: eng_answered_def Let_def)
  show "qd_Capacity m' cb_AdminSQ = qd_Capacity m cb_AdminSQ" "eng_ring m' = eng_ring m"
    by (rule eng_reads(1,3) [OF assms(1) frame])+
qed

lemma ring_list_less: "0 < n \<Longrightarrow> i \<in> set (ring_list id h t n) \<Longrightarrow> i < n"
  by (auto simp: ring_list_def)

lemma poll_admin_loop_answers:
  assumes "engine_ok pCtx m" "h < qd_Capacity m cb_AdminSQ" "t < qd_Capacity m cb_AdminSQ"
    and "sqhd = ucast (qd_Head m cb_AdminSQ)" "n = qd_Capacity m cb_AdminSQ"
  shows "\<exists>pCtx' m'. poll_admin_loop t n h processed pCtx m = Some (t, processed + of_nat (ring_dist (unat h) (unat t) (unat n)), pCtx', m')
    \<and> eng_answered pCtx m (fst (admin_replies (e_adminCtx pCtx) (map (Pair sqhd) (sq_commands pCtx m (ring_list id (unat h) (unat t) (unat n)))))) pCtx' m'
    \<and> e_adminCtx pCtx' = snd (admin_replies (e_adminCtx pCtx) (map (Pair sqhd) (sq_commands pCtx m (ring_list id (unat h) (unat t) (unat n)))))
    \<and> qd_Head m' cb_AdminSQ = qd_Head m cb_AdminSQ"
  using assms
proof (induction "ring_dist (unat h) (unat t) (unat n)" arbitrary: h processed pCtx m)
  case 0
  then have "h = t"
    using ring_dist_zero_iff [of "unat h" "unat n" "unat t"] by (simp add: word_less_nat_alt word_unat_eq_iff)
  with 0 show ?case
    by (subst poll_admin_loop.simps) (auto simp: ring_list_def ring_dist_def sq_commands_def eng_answered_Nil)
next
  case (Suc k)
  note prems = Suc.prems
  have ht: "unat h < unat n" "unat t < unat n" "h < n" "0 < n" using prems by (auto simp: word_less_nat_alt)
  have neq: "h \<noteq> t" "unat h \<noteq> unat t"
    using Suc.hyps(2) by (auto simp: ring_dist_def)
  have next_h: "unat ((h + 1) mod n) = Suc (unat h) mod unat n" "(h + 1) mod n < n"
    using unat_word_suc_mod [OF ht(3)] word_suc_mod_less [OF ht(4)] by simp_all
  let ?c = "rd_NVME_COMMAND m (e_adminSqBase pCtx + 64 * unat h)"
  obtain p1 m1 where step: "CmdEngineProcessAdminCommand pCtx (e_adminSqBase pCtx + 64 * unat h) m = Some (1, p1, m1)"
    "eng_answered pCtx m [fst (admin_reply sqhd (e_adminCtx pCtx) ?c)] p1 m1"
    "e_adminCtx p1 = snd (admin_reply sqhd (e_adminCtx pCtx) ?c)" "qd_Head m1 cb_AdminSQ = qd_Head m cb_AdminSQ"
    using process_admin_answers [OF prems(1), of "unat h"] ht(1) prems(4,5) by auto
  note cap1 = eng_answered_capacity [OF prems(1) step(2)]
  let ?is = "ring_list id (Suc (unat h) mod unat n) (unat t) (unat n)"
  have "k = ring_dist (unat ((h + 1) mod n)) (unat t) (unat n)"
    using Suc.hyps(2) ring_dist_step [OF ht(1,2) neq(2)] next_h(1) by simp
  note IH = Suc.hyps(1) [OF this cap1(3), of "processed + 1"]
  have same: "sq_commands p1 m1 ?is = sq_commands pCtx m ?is"
    using ring_list_less [of "unat n"] ht(1) prems(5) by (intro eng_answered_sq_commands [OF prems(1) step(2)]) auto
  obtain p2 m2 where rest: "poll_admin_loop t n ((h + 1) mod n) (processed + 1) p1 m1 = Some (t, processed + 1 + of_nat k, p2, m2)"
    "eng_answered p1 m1 (fst (admin_replies (e_adminCtx p1) (map (Pair sqhd) (sq_commands pCtx m ?is)))) p2 m2"
    "e_adminCtx p2 = snd (admin_replies (e_adminCtx p1) (map (Pair sqhd) (sq_commands pCtx m ?is)))"
    "qd_Head m2 cb_AdminSQ = qd_Head m1 cb_AdminSQ"
    using IH cap1(1) next_h prems(3-5) step(4) \<open>k = _\<close> same by auto
  have list: "ring_list id (unat h) (unat t) (unat n) = unat h # ?is"
    using ring_list_pop [OF ht(1,2) neq(2), of id] by simp
  have "poll_admin_loop t n h processed pCtx m = Some (t, processed + of_nat (Suc k), p2, m2)"
    using neq step(1) rest(1) ht(4) by (subst poll_admin_loop.simps) (simp add: check_bind word_gt_0 add.assoc)
  moreover have "eng_answered pCtx m (fst (admin_replies (e_adminCtx pCtx) (map (Pair sqhd) (sq_commands pCtx m (unat h # ?is))))) p2 m2"
    using eng_answered_append [OF prems(1) step(2) rest(2)] step(3)
    by (simp add: sq_commands_def case_prod_beta Let_def)
  moreover have "e_adminCtx p2 = snd (admin_replies (e_adminCtx pCtx) (map (Pair sqhd) (sq_commands pCtx m (unat h # ?is))))"
    using rest(3) step(3) by (simp add: sq_commands_def case_prod_beta Let_def)
  ultimately show ?case using rest(4) step(4) Suc.hyps(2) unfolding list by metis
qed

text \<open>
  The commands that a list of notifications announces: for each notification of the admin queue the entries from the
  current head up to its index, paired with the head before that notification; and the head at the end.
\<close>

definition admin_entry :: "VNVME_NOTIFY_ENTRY \<Rightarrow> bool" where
  "admin_entry e \<longleftrightarrow> ne_Type e = 0 \<and> ne_QueueId e = 0"

fun announced :: "nat \<Rightarrow> nat \<Rightarrow> VNVME_NOTIFY_ENTRY list \<Rightarrow> (nat \<times> nat) list" where
  "announced n h [] = []"
| "announced n h (e # es) =
     (if admin_entry e then map (Pair h) (ring_list id h (unat (ne_Index e)) n) @ announced n (unat (ne_Index e)) es
      else announced n h es)"

fun announced_head :: "nat \<Rightarrow> VNVME_NOTIFY_ENTRY list \<Rightarrow> nat" where
  "announced_head h [] = h"
| "announced_head h (e # es) = announced_head (if admin_entry e then unat (ne_Index e) else h) es"

definition announced_commands :: "CMD_ENGINE_CONTEXT \<Rightarrow> mem \<Rightarrow> (nat \<times> nat) list \<Rightarrow> (u16 \<times> NVME_COMMAND) list" where
  "announced_commands pCtx m ann = map (\<lambda>(h, i). (of_nat h, rd_NVME_COMMAND m (e_adminSqBase pCtx + 64 * i))) ann"

lemma announced_append: "announced n h (es @ es') = announced n h es @ announced n (announced_head h es) es'"
  by (induction n h es rule: announced.induct) auto

lemma announced_less: "0 < n \<Longrightarrow> (g, i) \<in> set (announced n h es) \<Longrightarrow> i < n"
  by (induction n h es rule: announced.induct) (auto simp: ring_list_less split: if_splits)

lemma length_announced_commands [simp]: "length (announced_commands pCtx m ann) = length ann"
  by (simp add: announced_commands_def)

lemma eng_answered_announced_commands:
  assumes "engine_ok pCtx m" "eng_answered pCtx m rs pCtx' m'" "\<forall>(g, i)\<in>set ann. i < unat (qd_Capacity m cb_AdminSQ)"
  shows "announced_commands pCtx' m' ann = announced_commands pCtx m ann"
proof -
  have frame: "same_outside (eng_writes pCtx m (length rs)) m m'" and base: "e_adminSqBase pCtx' = e_adminSqBase pCtx"
    using assms(2) by (simp_all add: eng_answered_def Let_def eng_fixed_def)
  show ?thesis
    unfolding announced_commands_def base
    by (rule map_cong [OF refl]) (use eng_reads(7) [OF assms(1) frame] assms(3) in fastforce)
qed

lemma eng_answered_set_head:
  assumes "engine_ok pCtx m" "v < qd_Capacity m cb_AdminSQ"
  shows "eng_answered pCtx m [] pCtx (qd_set_Head cb_AdminSQ v m)" "qd_Head (qd_set_Head cb_AdminSQ v m) cb_AdminSQ = v"
proof -
  let ?m = "qd_set_Head cb_AdminSQ v m"
  have frame: "same_outside (eng_writes pCtx m 0) m ?m"
    unfolding qd_set_Head_def by (rule same_outside_wr32) (auto simp: eng_writes_def)
  show head: "qd_Head ?m cb_AdminSQ = v"
    unfolding qd_set_Head_def qd_Head_def by (rule rd32_wr32)
  have tail: "qd_Tail ?m cb_AdminCQ = qd_Tail m cb_AdminCQ"
    unfolding qd_set_Head_def qd_Tail_def by (simp add: rd32_wr32_apart)
  have ok: "adm_wf (e_adminCtx pCtx)" "e_adminCqPhase pCtx = 0 \<or> e_adminCqPhase pCtx = 1"
    "qd_Tail m cb_AdminCQ < qd_Capacity m cb_AdminCQ"
    using assms(1) by (simp_all add: engine_ok_def)
  have "engine_ok pCtx ?m"
    by (rule engine_ok_frame [OF assms(1) frame refl]) (use ok head tail assms(2) in simp_all)
  with frame tail ok(3) show "eng_answered pCtx m [] pCtx ?m"
    by (simp add: eng_answered_def Let_def cq_entries_def word_less_nat_alt)
qed

lemma poll_entry_other:
  assumes "engine_ok pCtx m" "\<not> admin_entry e"
  shows "poll_entry os e processed pCtx m = Some (processed, pCtx, m)"
proof (cases "ne_Type e = 0 \<and> AdminCmdGetIoSq (e_adminCtx pCtx) (ne_QueueId e) \<noteq> None")
  case True
  have wf: "adm_wf (e_adminCtx pCtx)" using assms(1) by (simp add: engine_ok_def)
  from True obtain sq where sq: "AdminCmdGetIoSq (e_adminCtx pCtx) (ne_QueueId e) = Some sq" by auto
  then have "sq < 16"
    using queue_index [OF wf, of "ne_QueueId e"] by (auto simp: AdminCmdGetIoSq_def split: if_splits)
  then have "arr_get (ac_ioSq (e_adminCtx pCtx)) sq = Some (ac_ioSq (e_adminCtx pCtx) ! sq)"
    "qi_descriptor (ac_ioSq (e_adminCtx pCtx) ! sq) = None"
    using wf by (simp_all add: adm_wf_def)
  with True assms(2) sq show ?thesis
    by (simp add: poll_entry_def admin_entry_def split: bool.split option.split)
qed (use assms(2) in \<open>auto simp: poll_entry_def admin_entry_def\<close>)

lemma poll_entry_answers:
  assumes "engine_ok pCtx m" "admin_entry e \<longrightarrow> ne_Index e < qd_Capacity m cb_AdminSQ"
    and "ann = announced (unat (qd_Capacity m cb_AdminSQ)) (unat (qd_Head m cb_AdminSQ)) [e]"
  shows "\<exists>pCtx' m'. poll_entry os e processed pCtx m = Some (processed + of_nat (length ann), pCtx', m')
    \<and> eng_answered pCtx m (fst (admin_replies (e_adminCtx pCtx) (announced_commands pCtx m ann))) pCtx' m'
    \<and> e_adminCtx pCtx' = snd (admin_replies (e_adminCtx pCtx) (announced_commands pCtx m ann))
    \<and> unat (qd_Head m' cb_AdminSQ) = announced_head (unat (qd_Head m cb_AdminSQ)) [e]"
proof (cases "admin_entry e")
  case True
  let ?n = "qd_Capacity m cb_AdminSQ" and ?h = "qd_Head m cb_AdminSQ"
  have h: "?h < ?n" "ne_Index e < ?n" using assms(1,2) True by (simp_all add: engine_ok_def)
  let ?is = "ring_list id (unat ?h) (unat (ne_Index e)) (unat ?n)"
  have cmds: "announced_commands pCtx m ann = map (Pair (ucast ?h)) (sq_commands pCtx m ?is)"
    using True by (simp add: assms(3) announced_commands_def sq_commands_def comp_def)
  have len: "length ann = ring_dist (unat ?h) (unat (ne_Index e)) (unat ?n)"
    using True by (simp add: assms(3))
  obtain p1 m1 where loop: "poll_admin_loop (ne_Index e) ?n ?h processed pCtx m = Some (ne_Index e, processed + of_nat (length ann), p1, m1)"
    "eng_answered pCtx m (fst (admin_replies (e_adminCtx pCtx) (announced_commands pCtx m ann))) p1 m1"
    "e_adminCtx p1 = snd (admin_replies (e_adminCtx pCtx) (announced_commands pCtx m ann))"
    using poll_admin_loop_answers [OF assms(1) h refl refl, of processed] unfolding cmds len by blast
  note cap = eng_answered_capacity [OF assms(1) loop(2)]
  note set_head = eng_answered_set_head [OF cap(3), of "ne_Index e", unfolded cap(1), OF h(2)]
  have "eng_answered pCtx m (fst (admin_replies (e_adminCtx pCtx) (announced_commands pCtx m ann))) p1 (qd_set_Head cb_AdminSQ (ne_Index e) m1)"
    using eng_answered_append [OF assms(1) loop(2) set_head(1)] by simp
  moreover have "poll_entry os e processed pCtx m = Some (processed + of_nat (length ann), p1, qd_set_Head cb_AdminSQ (ne_Index e) m1)"
    using True loop(1) by (simp add: poll_entry_def admin_entry_def)
  ultimately show ?thesis using loop(3) set_head(2) True by auto
next
  case False
  with poll_entry_other [OF assms(1)] show ?thesis using eng_answered_Nil [OF assms(1)] by (simp add: assms(3) announced_commands_def)
qed

text \<open>The entries of the ring from \<open>head\<close> on.\<close>

definition ring_entries :: "mem \<Rightarrow> u32 \<Rightarrow> u32 \<Rightarrow> VNVME_NOTIFY_ENTRY list" where
  "ring_entries m head tail = ring_list (\<lambda>i. rd_NOTIFY_ENTRY m (eng_ring m + 128 + 8 * i)) (unat head) (unat tail) 256"

lemma eng_answered_ring_entries:
  assumes "engine_ok pCtx m" "eng_answered pCtx m rs pCtx' m'"
  shows "ring_entries m' head tail = ring_entries m head tail"
proof -
  note cap = eng_answered_capacity [OF assms]
  show ?thesis
    unfolding ring_entries_def cap(2) by (rule ring_list_cong) (simp_all add: eng_reads(8) [OF assms(1) cap(4)])
qed

lemma poll_ring_loop_answers:
  assumes "engine_ok pCtx m" "head < 256" "tail < 256" "ring = eng_ring m"
    and "\<forall>e\<in>set (ring_entries m head tail). admin_entry e \<longrightarrow> ne_Index e < qd_Capacity m cb_AdminSQ"
    and "ann = announced (unat (qd_Capacity m cb_AdminSQ)) (unat (qd_Head m cb_AdminSQ)) (ring_entries m head tail)"
  shows "\<exists>pCtx' m'. poll_ring_loop os ring tail head processed pCtx m = Some (tail, processed + of_nat (length ann), pCtx', m')
    \<and> eng_answered pCtx m (fst (admin_replies (e_adminCtx pCtx) (announced_commands pCtx m ann))) pCtx' m'
    \<and> e_adminCtx pCtx' = snd (admin_replies (e_adminCtx pCtx) (announced_commands pCtx m ann))
    \<and> unat (qd_Head m' cb_AdminSQ) = announced_head (unat (qd_Head m cb_AdminSQ)) (ring_entries m head tail)"
  using assms
proof (induction "ring_dist (unat head) (unat tail) 256" arbitrary: head processed pCtx m ann)
  case 0
  then have "head = tail"
    using ring_dist_zero_iff [of "unat head" 256 "unat tail"] by (simp add: word_less_nat_alt word_unat_eq_iff)
  with 0 show ?case
    by (subst poll_ring_loop.simps) (auto simp: ring_entries_def ring_list_def ring_dist_def announced_commands_def eng_answered_Nil)
next
  case (Suc k)
  note prems = Suc.prems
  have ht: "unat head < 256" "unat tail < 256" using prems(2,3) by (simp_all add: word_less_nat_alt)
  have neq: "head \<noteq> tail" "unat head \<noteq> unat tail" using Suc.hyps(2) by (auto simp: ring_dist_def)
  have next_h: "unat ((head + 1) mod 256) = Suc (unat head) mod 256" "(head + 1) mod 256 < 256"
    using unat_word_suc_mod [OF prems(2)] word_suc_mod_less [of 256 head] by simp_all
  let ?n = "unat (qd_Capacity m cb_AdminSQ)" and ?h = "unat (qd_Head m cb_AdminSQ)"
  define e where "e = rd_NOTIFY_ENTRY m (nr_Entry ring head)"
  define es where "es = ring_entries m ((head + 1) mod 256) tail"
  have list: "ring_entries m head tail = e # es"
    using ring_list_pop [OF ht neq(2)] by (simp add: ring_entries_def e_def es_def nr_Entry_def prems(4) next_h(1))
  define ann1 where "ann1 = announced ?n ?h [e]"
  have e: "admin_entry e \<longrightarrow> ne_Index e < qd_Capacity m cb_AdminSQ" using prems(5) list by simp
  obtain p1 m1 where step: "poll_entry os e processed pCtx m = Some (processed + of_nat (length ann1), p1, m1)"
    "eng_answered pCtx m (fst (admin_replies (e_adminCtx pCtx) (announced_commands pCtx m ann1))) p1 m1"
    "e_adminCtx p1 = snd (admin_replies (e_adminCtx pCtx) (announced_commands pCtx m ann1))"
    "unat (qd_Head m1 cb_AdminSQ) = announced_head ?h [e]"
    using poll_entry_answers [OF prems(1) e ann1_def] by blast
  note cap = eng_answered_capacity [OF prems(1) step(2)]
  have es: "ring_entries m1 ((head + 1) mod 256) tail = es"
    unfolding es_def by (rule eng_answered_ring_entries [OF prems(1) step(2)])
  define ann2 where "ann2 = announced ?n (announced_head ?h [e]) es"
  have ann: "ann = ann1 @ ann2"
    unfolding prems(6) list ann1_def ann2_def using announced_append [of ?n ?h "[e]" es] by simp
  have n: "0 < ?n" using prems(1) by (auto simp: engine_ok_def word_less_nat_alt)
  have cmds: "announced_commands p1 m1 ann2 = announced_commands pCtx m ann2"
    using announced_less [OF n] by (intro eng_answered_announced_commands [OF prems(1) step(2)]) (auto simp: ann2_def)
  have "k = ring_dist (unat ((head + 1) mod 256)) (unat tail) 256"
    using Suc.hyps(2) ring_dist_step [OF ht neq(2)] next_h(1) by simp
  from Suc.hyps(1) [OF this cap(3) next_h(2) prems(3), of ann2 "processed + of_nat (length ann1)"]
  obtain p2 m2 where rest: "poll_ring_loop os ring tail ((head + 1) mod 256) (processed + of_nat (length ann1)) p1 m1
      = Some (tail, processed + of_nat (length ann1) + of_nat (length ann2), p2, m2)"
    "eng_answered p1 m1 (fst (admin_replies (e_adminCtx p1) (announced_commands pCtx m ann2))) p2 m2"
    "e_adminCtx p2 = snd (admin_replies (e_adminCtx p1) (announced_commands pCtx m ann2))"
    "unat (qd_Head m2 cb_AdminSQ) = announced_head (announced_head ?h [e]) es"
    using prems(4,5) cap(1,2) step(4) cmds es list ann2_def by auto
  have ok: "rd32 m (ring + nr_Size) = 256" "ring + 2176 \<le> VNVME_SHM_SIZE"
    using prems(1,4) by (simp_all add: engine_ok_def)
  have entry_in: "nr_Entry ring head + 8 \<le> VNVME_SHM_SIZE" using ok(2) ht(1) by (simp add: nr_Entry_def)
  have sz: "rd32 m1 (ring + nr_Size) = 256"
    using eng_reads(4) [OF prems(1) cap(4)] ok(1) prems(4) by simp
  have "poll_ring_loop os ring tail head processed pCtx m = Some (tail, processed + of_nat (length ann), p2, m2)"
    using neq step(1) rest(1) entry_in sz
    by (subst poll_ring_loop.simps) (simp add: e_def [symmetric] check_bind ann add.assoc)
  moreover have "admin_replies (e_adminCtx pCtx) (announced_commands pCtx m ann) =
     (fst (admin_replies (e_adminCtx pCtx) (announced_commands pCtx m ann1)) @ fst (admin_replies (e_adminCtx p1) (announced_commands pCtx m ann2)),
      snd (admin_replies (e_adminCtx p1) (announced_commands pCtx m ann2)))"
    unfolding ann announced_commands_def map_append admin_replies_append step(3) by (simp add: case_prod_beta Let_def)
  ultimately show ?case
    using eng_answered_append [OF prems(1) step(2) rest(2)] rest(3,4) list by auto
qed

text \<open>Notifications that are not for the admin queue are skipped, and the memory stays as it was.\<close>

lemma poll_ring_loop_skips:
  assumes "engine_ok pCtx m" "head < 256" "tail < 256" "ring = eng_ring m" "\<forall>e\<in>set (ring_entries m head tail). \<not> admin_entry e"
  shows "poll_ring_loop os ring tail head processed pCtx m = Some (tail, processed, pCtx, m)"
  using assms(2,5)
proof (induction "ring_dist (unat head) (unat tail) 256" arbitrary: head)
  case 0
  then have "head = tail"
    using ring_dist_zero_iff [of "unat head" 256 "unat tail"] assms(3) by (simp add: word_less_nat_alt word_unat_eq_iff)
  then show ?case by (subst poll_ring_loop.simps) simp
next
  case (Suc k)
  have ht: "unat head < 256" "unat tail < 256" using Suc.prems(1) assms(3) by (simp_all add: word_less_nat_alt)
  have neq: "head \<noteq> tail" "unat head \<noteq> unat tail" using Suc.hyps(2) by (auto simp: ring_dist_def)
  have next_h: "unat ((head + 1) mod 256) = Suc (unat head) mod 256" "(head + 1) mod 256 < 256"
    using unat_word_suc_mod [OF Suc.prems(1)] word_suc_mod_less [of 256 head] by simp_all
  have list: "ring_entries m head tail = rd_NOTIFY_ENTRY m (nr_Entry ring head) # ring_entries m ((head + 1) mod 256) tail"
    using ring_list_pop [OF ht neq(2)] by (simp add: ring_entries_def nr_Entry_def assms(4) next_h(1))
  have "k = ring_dist (unat ((head + 1) mod 256)) (unat tail) 256"
    using Suc.hyps(2) ring_dist_step [OF ht neq(2)] next_h(1) by simp
  with Suc.hyps(1) next_h(2) Suc.prems(2) list
  have rest: "poll_ring_loop os ring tail ((head + 1) mod 256) processed pCtx m = Some (tail, processed, pCtx, m)" by simp
  have "rd32 m (ring + nr_Size) = 256" "ring + 2176 \<le> VNVME_SHM_SIZE" using assms(1,4) by (simp_all add: engine_ok_def)
  moreover from this have "nr_Entry ring head + 8 \<le> VNVME_SHM_SIZE" using ht(1) by (simp add: nr_Entry_def)
  ultimately show ?case
    using neq rest Suc.prems(2) list poll_entry_other [OF assms(1)] by (subst poll_ring_loop.simps) (simp add: check_bind)
qed

section \<open>A poll\<close>

lemma phased_CID: "map cqe_CID (phased N t ph rs) = map rp_cid rs"
  by (induction N t ph rs rule: phased.induct) (simp_all add: reply_cqe_def)

lemma admin_replies_cid: "map rp_cid (fst (admin_replies a cs)) = map (CID \<circ> snd) cs"
proof (induction a cs rule: admin_replies.induct)
  case (2 a sqhd c cs)
  have "rp_cid (fst (admin_reply sqhd a c)) = CID c"
    by (auto simp: admin_reply_def split: option.splits prod.splits)
  with 2 show ?case by (auto simp: Let_def split: prod.splits)
qed simp

text \<open>What the end of a poll writes: the consumer's index of the ring and the statistics.\<close>

definition poll_epilogue :: "nat \<Rightarrow> u32 \<Rightarrow> (u64 \<times> u64 \<times> u64) option \<Rightarrow> mem \<Rightarrow> mem" where
  "poll_epilogue ring head stats m =
     (let m = wr32 (ring + nr_Head) head m in
      case stats of None \<Rightarrow> m
      | Some (n, r, w) \<Rightarrow> wr64 0xC8 w (wr64 0xC0 r (wr64 cb_CommandsProcessed n m)))"

lemma poll_epilogue_frame: "same_outside ({ring..<ring + 4} \<union> {0xB0..<0xB8} \<union> {0xC0..<0xD0}) m (poll_epilogue ring head stats m)"
  unfolding poll_epilogue_def Let_def
  by (cases stats) (auto intro!: same_outside_step)

lemma poll_epilogue_ok:
  fixes stats :: "(u64 \<times> u64 \<times> u64) option"
  assumes "engine_ok pCtx m" "head < 256"
  defines "m' \<equiv> poll_epilogue (eng_ring m) head stats m"
  shows "engine_ok pCtx m'" "qd_Head m' cb_AdminSQ = qd_Head m cb_AdminSQ" "qd_Tail m' cb_AdminCQ = qd_Tail m cb_AdminCQ"
    "qd_Capacity m' cb_AdminCQ = qd_Capacity m cb_AdminCQ" "eng_ring m' = eng_ring m"
    "rd32 m' (eng_ring m + nr_Head) = head" "rd32 m' (eng_ring m + nr_Tail) = rd32 m (eng_ring m + nr_Tail)"
    "cq_entries m' (e_adminCqBase pCtx) (unat (qd_Capacity m cb_AdminCQ)) t n
       = cq_entries m (e_adminCqBase pCtx) (unat (qd_Capacity m cb_AdminCQ)) t n"
    "qd_Phase m' cb_AdminCQ = qd_Phase m cb_AdminCQ" "qd_Tail m' cb_AdminSQ = qd_Tail m cb_AdminSQ"
proof -
  let ?r = "eng_ring m"
  note frame = poll_epilogue_frame [of ?r m head stats, folded m'_def]
  have r: "0x100 \<le> ?r" using assms(1) by (simp add: engine_ok_def)
  have other: "rd32 m' a = rd32 m a" if "a + 4 \<le> 0xB0 \<or> (?r + 4 \<le> a)" for a
    by (rule rd32_same_outside [OF frame]) (use that r in auto)
  show caps: "qd_Head m' cb_AdminSQ = qd_Head m cb_AdminSQ" "qd_Tail m' cb_AdminCQ = qd_Tail m cb_AdminCQ"
    "qd_Capacity m' cb_AdminCQ = qd_Capacity m cb_AdminCQ"
    unfolding qd_Head_def qd_Tail_def qd_Capacity_def by (rule other; simp)+
  show "qd_Phase m' cb_AdminCQ = qd_Phase m cb_AdminCQ" unfolding qd_Phase_def by (rule other) simp
  show "qd_Tail m' cb_AdminSQ = qd_Tail m cb_AdminSQ" unfolding qd_Tail_def by (rule other) simp
  have "rd32 m' 0x70 = rd32 m 0x70" by (rule other) simp
  then show ring: "eng_ring m' = ?r" by (simp add: eng_ring_def)
  show tail: "rd32 m' (?r + nr_Tail) = rd32 m (?r + nr_Tail)" by (rule other) simp
  show head: "rd32 m' (?r + nr_Head) = head"
    unfolding m'_def poll_epilogue_def Let_def
    using r by (cases stats) (auto simp: rd32_wr32 rd32_wr64_apart)
  have sz: "rd32 m' (?r + nr_Size) = rd32 m (?r + nr_Size)" by (rule other) simp
  have sq: "qd_Capacity m' cb_AdminSQ = qd_Capacity m cb_AdminSQ"
    unfolding qd_Capacity_def by (rule other) simp
  have regions: "eng_sq pCtx m' = eng_sq pCtx m" "eng_cq pCtx m' = eng_cq pCtx m"
    by (simp_all add: eng_sq_def eng_cq_def sq caps)
  show "engine_ok pCtx m'"
    using assms(1,2) unfolding engine_ok_def ring regions sq caps tail head sz by simp
  have N: "0 < unat (qd_Capacity m cb_AdminCQ)" and base: "0x100 \<le> e_adminCqBase pCtx"
    and cq: "eng_cq pCtx m \<inter> {?r..<?r + 2176} = {}"
    using assms(1) by (auto simp: engine_ok_def word_less_nat_alt)
  show "cq_entries m' (e_adminCqBase pCtx) (unat (qd_Capacity m cb_AdminCQ)) t n
      = cq_entries m (e_adminCqBase pCtx) (unat (qd_Capacity m cb_AdminCQ)) t n"
  proof (rule cq_entries_frame [OF frame])
    have "{?r..<?r + 4} \<subseteq> {?r..<?r + 2176}" "{0xB0..<0xB8} \<subseteq> {..<0x100 :: nat}" "{0xC0..<0xD0} \<subseteq> {..<0x100 :: nat}" by auto
    moreover have "eng_cq pCtx m \<inter> {..<0x100} = {}" using base by (auto simp: eng_cq_def)
    ultimately show "({?r..<?r + 4} \<union> {0xB0..<0xB8} \<union> {0xC0..<0xD0})
        \<inter> cq_slots (e_adminCqBase pCtx) (unat (qd_Capacity m cb_AdminCQ)) t n = {}"
      using cq cq_slots_region [OF N, of "e_adminCqBase pCtx" t n] unfolding eng_cq_def by blast
  qed
qed

lemma upd_estats_fields [simp]:
  "engine_ok (upd_estats f pCtx) m = engine_ok pCtx m" "e_adminCtx (upd_estats f pCtx) = e_adminCtx pCtx"
  "e_ioCtx (upd_estats f pCtx) = e_ioCtx pCtx" "e_adminCqPhase (upd_estats f pCtx) = e_adminCqPhase pCtx"
  "e_adminCqBase (upd_estats f pCtx) = e_adminCqBase pCtx" "e_adminSqBase (upd_estats f pCtx) = e_adminSqBase pCtx"
  by (simp_all add: upd_estats_def engine_ok_def eng_sq_def eng_cq_def)

lemma CmdEnginePoll_epilogue:
  assumes "engine_ok pCtx m"
    and "poll_ring_loop os (eng_ring m) (rd32 m (eng_ring m + nr_Tail)) (rd32 m (eng_ring m + nr_Head)) 0 pCtx m
      = Some (head, processed, pCtx1, m1)"
  shows "\<exists>f stats. CmdEnginePoll os pCtx m = Some (processed, upd_estats f pCtx1, poll_epilogue (eng_ring m) head stats m1)
    \<and> (\<forall>s. es_adminCommandsProcessed (f s) = es_adminCommandsProcessed s)"
proof -
  define stats where "stats = (if processed > 0 then Some (es_adminCommandsProcessed (e_stats pCtx1)
      + ios_commandsProcessed (ic_stats (e_ioCtx pCtx1)), ios_bytesRead (ic_stats (e_ioCtx pCtx1)),
      ios_bytesWritten (ic_stats (e_ioCtx pCtx1))) else None)"
  define f where "f = (if processed > 0 then (\<lambda>s. s\<lparr>es_ioCommandsProcessed := ios_commandsProcessed (ic_stats (e_ioCtx pCtx1)),
      es_bytesRead := ios_bytesRead (ic_stats (e_ioCtx pCtx1)), es_bytesWritten := ios_bytesWritten (ic_stats (e_ioCtx pCtx1)),
      es_pollCount := es_pollCount s + 1\<rparr>) else (\<lambda>s :: CMD_ENGINE_STATS. s\<lparr>es_pollCount := es_pollCount s + 1\<rparr>))"
  have ok: "e_initialized pCtx" "0x100 \<le> eng_ring m" "eng_ring m + 2176 \<le> VNVME_SHM_SIZE"
    using assms(1) by (simp_all add: engine_ok_def)
  then have nz: "rd32 m cb_NotifyRingOffset \<noteq> 0" "eng_ring m + 128 \<le> VNVME_SHM_SIZE" by (auto simp: eng_ring_def)
  have "CmdEnginePoll os pCtx m = Some (processed, upd_estats f pCtx1, poll_epilogue (eng_ring m) head stats m1)"
    using ok(1) nz assms(2) unfolding CmdEnginePoll_def eng_ring_def [symmetric] f_def stats_def poll_epilogue_def
    by (simp add: Let_def IoCmdGetStats_def upd_estats_def)
  then show ?thesis by (auto simp: f_def)
qed

text \<open>
  The correctness of a poll, for the proofs that build on it. \<open>es\<close> are the waiting notifications and \<open>cmds\<close> the commands they
  announce.
\<close>

lemma CmdEnginePoll_run:
  assumes "engine_ok pCtx m" "es = notify_items m (eng_ring m)"
    and "\<forall>e\<in>set es. admin_entry e \<longrightarrow> ne_Index e < qd_Capacity m cb_AdminSQ"
    and "cmds = announced_commands pCtx m (announced (unat (qd_Capacity m cb_AdminSQ)) (unat (qd_Head m cb_AdminSQ)) es)"
    and "N = unat (qd_Capacity m cb_AdminCQ)" "t = unat (qd_Tail m cb_AdminCQ)" "length cmds \<le> N"
  shows "\<exists>pCtx' m'. CmdEnginePoll os pCtx m = Some (of_nat (length cmds), pCtx', m') \<and> engine_ok pCtx' m'
    \<and> eng_ring m' = eng_ring m \<and> notify_items m' (eng_ring m) = []
    \<and> unat (qd_Head m' cb_AdminSQ) = announced_head (unat (qd_Head m cb_AdminSQ)) es
    \<and> unat (qd_Tail m' cb_AdminCQ) = (t + length cmds) mod N
    \<and> e_adminCqPhase pCtx' = phase_after N t (e_adminCqPhase pCtx) (length cmds)
    \<and> cq_entries m' (e_adminCqBase pCtx) N t (length cmds) = phased N t (e_adminCqPhase pCtx) (fst (admin_replies (e_adminCtx pCtx) cmds))
    \<and> e_adminCtx pCtx' = snd (admin_replies (e_adminCtx pCtx) cmds)
    \<and> es_adminCommandsProcessed (e_stats pCtx') = es_adminCommandsProcessed (e_stats pCtx) + of_nat (length cmds)
    \<and> e_ioCtx pCtx' = e_ioCtx pCtx \<and> qd_Phase m' cb_AdminCQ = qd_Phase m cb_AdminCQ
    \<and> qd_Tail m' cb_AdminSQ = qd_Tail m cb_AdminSQ"
proof -
  let ?r = "eng_ring m"
  let ?hd = "rd32 m (?r + nr_Head)" and ?tl = "rd32 m (?r + nr_Tail)"
  have idx: "?hd < 256" "?tl < 256" using assms(1) by (simp_all add: engine_ok_def)
  have es: "es = ring_entries m ?hd ?tl" by (simp add: assms(2) notify_items_def ring_entries_def)
  obtain p1 m1 where loop: "poll_ring_loop os ?r ?tl ?hd 0 pCtx m = Some (?tl, of_nat (length cmds), p1, m1)"
    "eng_answered pCtx m (fst (admin_replies (e_adminCtx pCtx) cmds)) p1 m1"
    "e_adminCtx p1 = snd (admin_replies (e_adminCtx pCtx) cmds)"
    "unat (qd_Head m1 cb_AdminSQ) = announced_head (unat (qd_Head m cb_AdminSQ)) es"
    using poll_ring_loop_answers [OF assms(1) idx refl _ refl, of os 0] assms(3,4) es by auto
  note cap = eng_answered_capacity [OF assms(1) loop(2)]
  note post = loop(2) [unfolded eng_answered_def Let_def length_admin_replies, folded assms(5,6)]
  have base: "e_adminCqBase p1 = e_adminCqBase pCtx" and N: "unat (qd_Capacity m1 cb_AdminCQ) = N"
    using post eng_reads(2) [OF assms(1) cap(4)] by (simp_all add: eng_fixed_def assms(5))
  obtain f stats where run: "CmdEnginePoll os pCtx m = Some (of_nat (length cmds), upd_estats f p1, poll_epilogue ?r ?tl stats m1)"
    "\<forall>s. es_adminCommandsProcessed (f s) = es_adminCommandsProcessed s"
    using CmdEnginePoll_epilogue [OF assms(1) loop(1)] by blast
  note fin = poll_epilogue_ok [OF cap(3) idx(2), of stats, unfolded cap(2)]
  let ?m = "poll_epilogue ?r ?tl stats m1"
  have "rd32 ?m (?r + nr_Tail) = ?tl"
    unfolding fin(7) by (rule eng_reads(6) [OF assms(1) cap(4)])
  then have "notify_items ?m ?r = []"
    by (simp add: notify_items_def fin(6) [simplified] ring_list_def ring_dist_def)
  moreover have "es_adminCommandsProcessed (e_stats (upd_estats f p1)) = es_adminCommandsProcessed (e_stats p1)"
    using run(2) by (simp add: upd_estats_def)
  moreover have "qd_Phase ?m cb_AdminCQ = qd_Phase m cb_AdminCQ"
    using fin(9) eng_reads(9) [OF assms(1) cap(4)] by simp
  moreover have "qd_Tail ?m cb_AdminSQ = qd_Tail m cb_AdminSQ"
    using fin(10) eng_reads(10) [OF assms(1) cap(4)] by simp
  ultimately show ?thesis
    using run(1) fin(1-5) fin(8) [of t "length cmds", unfolded base N] post loop(3,4) assms(7)
    by (intro exI [of _ "upd_estats f p1"] exI [of _ ?m]) simp
qed

end
