(* ===== verification/Vnvme_Service.thy ===== *)
theory Vnvme_Service
  imports Vnvme_Engine_Props Vnvme_Shm
begin

text \<open>
  The driver and the user-mode service together: the shared memory that the driver allocates is one the engine can use,
  commands that the driver forwards are answered by the next poll, and the places where the two sides disagree.
\<close>

section \<open>The service starts on the driver's shared memory\<close>

lemma shm_initial_fields:
  "rd32 (shm_initial m0) 0x00 = 0x454D564E" "rd32 (shm_initial m0) 0x20 = 0x2000" "rd32 (shm_initial m0) 0x28 = 64"
  "rd32 (shm_initial m0) 0x30 = 0" "rd32 (shm_initial m0) 0x34 = 0" "rd32 (shm_initial m0) 0x40 = 0x3000"
  "rd32 (shm_initial m0) 0x48 = 64" "rd32 (shm_initial m0) 0x54 = 0" "rd32 (shm_initial m0) 0x58 = 1"
  "rd32 (shm_initial m0) 0x68 = 0x4000"
  "rd32 (shm_initial m0) 0x70 = 0x1000" "rd32 (shm_initial m0) 0x80 = 348160" "rd32 (shm_initial m0) 0x84 = 66760704"
  "rd32 (shm_initial m0) 0x1000 = 0" "rd32 (shm_initial m0) 0x1040 = 0" "rd32 (shm_initial m0) 0x107C = 256"
  unfolding shm_initial_def Let_def qd_set_defs layout_values by (simp_all add: mem_simps)

definition started_engine :: "bool \<Rightarrow> BACKEND_CONTEXT option \<Rightarrow> mem \<Rightarrow> (bool \<times> CMD_ENGINE_CONTEXT) option" where
  "started_engine debug B m = (case CmdEngineCreate True of None \<Rightarrow> None | Some e \<Rightarrow> CmdEngineInitSimple debug e True B m)"

lemmas init_defs = started_engine_def CmdEngineCreate_def CmdEngineInitSimple_def CmdEngineInit_def AdminCmdInit_def
  AdminCmdSetControllerInfo_def AdminCmdAddNamespace_def IoCmdInit_def IoCmdAddNamespace_def IoCmdSetDebugMode_def
  namespace_indices_def zero_ADMIN_CMD_CONTEXT_def

lemma started_engine_initial:
  assumes "started_engine debug B (shm_initial m0) = Some (ok, e)"
  shows "ok" "e_initialized e" "e_shm e" "e_adminCqPhase e = 1" "e_adminSqBase e = 0x2000" "e_adminCqBase e = 0x3000"
    "adm_wf (e_adminCtx e)" "adm_buffer (e_adminCtx e) = {348160..<67108864}"
    "ic_backend (e_ioCtx e) = B" "ic_namespaceCount (e_ioCtx e) = 1" "length (ic_namespaces (e_ioCtx e)) = 16"
    "ic_namespaces (e_ioCtx e) ! 0 = \<lparr>nc_nsid = 1, nc_size = (if B \<noteq> None then BackendGetSize B div 512 else 131072),
       nc_blockSize = 512, nc_active = True, nc_readOnly = False\<rparr>"
    "ic_dataBuffer (e_ioCtx e) = Some 348160" "ic_dataBufferSize (e_ioCtx e) = 66760704"
  using assms
  by (auto simp: init_defs shm_initial_fields qd_Offset_def zero_IO_QUEUE_INFO_def adm_wf_def adm_buffer_def)

lemma started_engine_runs: "\<exists>e. started_engine debug B (shm_initial m0) = Some (True, e)"
  by (simp add: init_defs shm_initial_fields qd_Offset_def)

lemma started_engine_ok:
  assumes "started_engine debug B (shm_initial m0) = Some (ok, e)"
  shows "engine_ok e (shm_initial m0)"
proof -
  note e = started_engine_initial [OF assms]
  have ring: "eng_ring (shm_initial m0) = 0x1000" by (simp add: eng_ring_def shm_initial_fields)
  have regions: "eng_sq e (shm_initial m0) = {0x2000..<0x3000}" "eng_cq e (shm_initial m0) = {0x3000..<0x3400}"
    by (simp_all add: eng_sq_def eng_cq_def e qd_Capacity_def shm_initial_fields)
  show ?thesis
    unfolding engine_ok_def ring regions
    using e by (auto simp: qd_Head_def qd_Tail_def qd_Capacity_def shm_initial_fields)
qed

text \<open>C26: the service starts on the shared memory that the driver allocates. Creating the engine and initialising it with a
  back end succeeds on a freshly allocated block, whatever the memory held before, and leaves an engine that can be
  polled: its queues, the ring and the data buffer lie apart inside the block, the ring is empty, its phase agrees with
  the one the driver wrote, and its one namespace fits the back end (64 MiB where there is none).\<close>

theorem CmdEngineInit_ready:
  "\<exists>e. started_engine debug B (shm_initial m0) = Some (True, e) \<and> engine_ok e (shm_initial m0)
    \<and> notify_items (shm_initial m0) (eng_ring (shm_initial m0)) = []
    \<and> e_adminCqPhase e = qd_Phase (shm_initial m0) cb_AdminCQ
    \<and> ic_backend (e_ioCtx e) = B \<and> ic_namespaceCount (e_ioCtx e) = 1
    \<and> unat (nc_size (ic_namespaces (e_ioCtx e) ! 0)) * unat (nc_blockSize (ic_namespaces (e_ioCtx e) ! 0))
        \<le> (if B = None then 67108864 else unat (BackendGetSize B))"
proof -
  obtain e where e: "started_engine debug B (shm_initial m0) = Some (True, e)"
    using started_engine_runs [of debug B m0] by blast
  note init = started_engine_initial [OF e]
  have "notify_items (shm_initial m0) (eng_ring (shm_initial m0)) = []"
    by (simp add: notify_items_def eng_ring_def shm_initial_fields ring_list_def ring_dist_def)
  moreover have "unat (BackendGetSize B div 512) * 512 \<le> unat (BackendGetSize B)"
    by (simp add: unat_div)
  ultimately show ?thesis
    using e started_engine_ok [OF e] init by (auto simp: qd_Phase_def shm_initial_fields)
qed

section \<open>What the driver and the host change\<close>

text \<open>The host stores commands, the driver moves the tail and appends notifications; the engine stays usable.\<close>

lemma engine_ok_driver:
  assumes "engine_ok e m" "same_outside ({0x34..<0x38} \<union> {eng_ring m..<eng_ring m + 2176} \<union> eng_sq e m) m m'"
    and "rd32 m' (eng_ring m + nr_Size) = 256" "rd32 m' (eng_ring m + nr_Head) < 256" "rd32 m' (eng_ring m + nr_Tail) < 256"
  shows "engine_ok e m'" "eng_ring m' = eng_ring m" "qd_Head m' cb_AdminSQ = qd_Head m cb_AdminSQ"
    "qd_Capacity m' cb_AdminSQ = qd_Capacity m cb_AdminSQ" "qd_Capacity m' cb_AdminCQ = qd_Capacity m cb_AdminCQ"
    "qd_Tail m' cb_AdminCQ = qd_Tail m cb_AdminCQ"
proof -
  have base: "0x100 \<le> eng_ring m" "0x100 \<le> e_adminSqBase e" using assms(1) by (simp_all add: engine_ok_def)
  have low: "rd32 m' a = rd32 m a" if "a + 4 \<le> 0x34 \<or> 0x38 \<le> a \<and> a + 4 \<le> 0x100" for a
    by (rule rd32_same_outside [OF assms(2)]) (use that base in \<open>auto simp: eng_sq_def\<close>)
  have "rd32 m' 0x70 = rd32 m 0x70" by (rule low) simp
  then show ring: "eng_ring m' = eng_ring m" by (simp add: eng_ring_def)
  show fields: "qd_Head m' cb_AdminSQ = qd_Head m cb_AdminSQ"
    "qd_Capacity m' cb_AdminSQ = qd_Capacity m cb_AdminSQ" "qd_Capacity m' cb_AdminCQ = qd_Capacity m cb_AdminCQ"
    "qd_Tail m' cb_AdminCQ = qd_Tail m cb_AdminCQ"
    unfolding qd_Head_def qd_Capacity_def qd_Tail_def by (rule low; simp)+
  have regions: "eng_sq e m' = eng_sq e m" "eng_cq e m' = eng_cq e m"
    by (simp_all add: eng_sq_def eng_cq_def fields)
  show "engine_ok e m'"
    using assms(1,3-) unfolding engine_ok_def ring regions fields by simp
qed

section \<open>A poll answers what was announced\<close>

text \<open>C11: a poll of the service, for the admin queue. It returns; it executes the commands that the waiting notifications of
  the admin queue announce, each exactly
  once and in order, with the context as the earlier ones left it; the answers stand in the
  next entries of the admin completion queue in the same order, under the phase that is inverted at each wrap; the admin submission queue
  head has caught up with those notifications, the notify ring is empty, and the engine can be polled again. Assumed: each notification of the
  admin queue carries an index inside the queue, and the answers fit the completion queue. Notifications of I/O queues
  announce nothing here: the poll takes them out of the ring without executing a command and without an answer.\<close>

theorem CmdEnginePoll_answers:
  assumes "engine_ok pCtx m" "es = notify_items m (eng_ring m)"
    and "\<forall>e\<in>set es. admin_entry e \<longrightarrow> ne_Index e < qd_Capacity m cb_AdminSQ"
    and "cmds = announced_commands pCtx m (announced (unat (qd_Capacity m cb_AdminSQ)) (unat (qd_Head m cb_AdminSQ)) es)"
    and "N = unat (qd_Capacity m cb_AdminCQ)" "t = unat (qd_Tail m cb_AdminCQ)" "length cmds \<le> N"
  shows "\<exists>pCtx' m'. CmdEnginePoll os pCtx m = Some (of_nat (length cmds), pCtx', m') \<and> engine_ok pCtx' m'
    \<and> notify_items m' (eng_ring m) = []
    \<and> unat (qd_Head m' cb_AdminSQ) = announced_head (unat (qd_Head m cb_AdminSQ)) es
    \<and> unat (qd_Tail m' cb_AdminCQ) = (t + length cmds) mod N
    \<and> map cqe_CID (cq_entries m' (e_adminCqBase pCtx) N t (length cmds)) = map (CID \<circ> snd) cmds
    \<and> cq_entries m' (e_adminCqBase pCtx) N t (length cmds) = phased N t (e_adminCqPhase pCtx) (fst (admin_replies (e_adminCtx pCtx) cmds))
    \<and> e_adminCtx pCtx' = snd (admin_replies (e_adminCtx pCtx) cmds)"
  using CmdEnginePoll_run [OF assms, of os] by (fastforce simp: phased_CID admin_replies_cid)

text \<open>A freshly started service, and a Keep Alive (identifier 7) and an unknown command (opcode 0x7F, identifier 8) that one
  notification announces.\<close>

definition example_service_shm :: mem where
  "example_service_shm = wr16 0x2042 8 (wr8 0x2040 0x7F (wr16 0x2002 7 (wr8 0x2000 0x18
     (wr32 0x1040 1 (wr_NOTIFY_ENTRY 0x1080 \<lparr>ne_QueueId = 0, ne_Type = 0, ne_Index = 2\<rparr> (shm_initial (\<lambda>_. 0)))))))"

definition example_engine :: CMD_ENGINE_CONTEXT where
  "example_engine = snd (the (started_engine False None (shm_initial (\<lambda>_. 0))))"

lemma example_engine_started: "started_engine False None (shm_initial (\<lambda>_. 0)) = Some (True, example_engine)"
  using started_engine_runs [of False None "\<lambda>_. 0"] by (auto simp: example_engine_def)

text \<open>The parts of the block that the examples change.\<close>

abbreviation example_changes :: "nat set" where
  "example_changes \<equiv> {0x34..<0x38} \<union> {0x54..<0x58} \<union> {0x1000..<0x1000 + 2176} \<union> {0x2000..<0x3000}"

lemma example_state_ok:
  assumes "same_outside example_changes (shm_initial (\<lambda>_. 0)) m"
    and "rd32 m 0x107C = 256" "rd32 m 0x1000 < 256" "rd32 m 0x1040 < 256" "rd32 m 0x54 < 64"
  shows "engine_ok example_engine m" "eng_ring m = 0x1000"
    "rd32 m 0x28 = 64" "rd32 m 0x30 = 0" "rd32 m 0x48 = 64" "rd32 m 0x58 = 1"
proof -
  note e = started_engine_initial [OF example_engine_started]
  have low: "rd32 m a = rd32 (shm_initial (\<lambda>_. 0)) a" if "a + 4 \<le> 0x34 \<or> 0x38 \<le> a \<and> a + 4 \<le> 0x54 \<or> 0x58 \<le> a \<and> a + 4 \<le> 0x100" for a
    by (rule rd32_same_outside [OF assms(1)]) (use that in auto)
  show fields: "rd32 m 0x28 = 64" "rd32 m 0x30 = 0" "rd32 m 0x48 = 64" "rd32 m 0x58 = 1"
    using low [of "0x28"] low [of "0x30"] low [of "0x48"] low [of "0x58"] by (simp_all add: shm_initial_fields)
  show ring: "eng_ring m = 0x1000" using low [of "0x70"] by (simp add: eng_ring_def shm_initial_fields)
  have regions: "eng_sq example_engine m = {0x2000..<0x3000}" "eng_cq example_engine m = {0x3000..<0x3400}"
    by (simp_all add: eng_sq_def eng_cq_def e qd_Capacity_def fields)
  show "engine_ok example_engine m"
    unfolding engine_ok_def ring regions using e assms(2-) fields
    by (auto simp: qd_Head_def qd_Tail_def qd_Capacity_def)
qed

lemma rd32_wr_NOTIFY_ENTRY_apart: "b + 4 \<le> a \<or> a + 8 \<le> b \<Longrightarrow> rd32 (wr_NOTIFY_ENTRY a e m) b = rd32 m b"
  by (rule rd32_eqI) (auto simp: wr_NOTIFY_ENTRY_outside)

lemma example_entry_changes: "same_outside example_changes m (wr_NOTIFY_ENTRY 0x1080 e m)"
  unfolding same_outside_def by (auto intro!: wr_NOTIFY_ENTRY_outside)

lemma example_service_fields:
  "rd32 example_service_shm 0x28 = 64" "rd32 example_service_shm 0x30 = 0" "rd32 example_service_shm 0x48 = 64"
  "rd32 example_service_shm 0x54 = 0" "rd32 example_service_shm 0x70 = 0x1000" "rd32 example_service_shm 0x107C = 256"
  "rd32 example_service_shm 0x1000 = 0" "rd32 example_service_shm 0x1040 = 1"
  "rd_NOTIFY_ENTRY example_service_shm 0x1080 = \<lparr>ne_QueueId = 0, ne_Type = 0, ne_Index = 2\<rparr>"
  unfolding example_service_shm_def
  by (simp_all add: mem_simps rd32_wr_NOTIFY_ENTRY_apart shm_initial_fields)
    (simp add: rd_NOTIFY_ENTRY_def wr_NOTIFY_ENTRY_def mem_simps)

lemma example_service_ok: "engine_ok example_engine example_service_shm" "eng_ring example_service_shm = 0x1000"
proof -
  have "same_outside example_changes (shm_initial (\<lambda>_. 0)) example_service_shm"
    unfolding example_service_shm_def by (intro same_outside_step example_entry_changes) auto
  from example_state_ok [OF this] show "engine_ok example_engine example_service_shm" "eng_ring example_service_shm = 0x1000"
    by (simp_all add: example_service_fields)
qed

lemma example_service_commands:
  "OPC (rd_NVME_COMMAND example_service_shm 0x2000) = 0x18" "CID (rd_NVME_COMMAND example_service_shm 0x2000) = 7"
  "OPC (rd_NVME_COMMAND example_service_shm 0x2040) = 0x7F" "CID (rd_NVME_COMMAND example_service_shm 0x2040) = 8"
  unfolding rd_NVME_COMMAND_def example_service_shm_def
  by (simp_all add: mem_simps wr16_at wr8_at)

theorem CmdEnginePoll_answers_witness:
  "\<exists>pCtx' m'. CmdEnginePoll win_all_ok example_engine example_service_shm = Some (2, pCtx', m')
    \<and> map cqe_CID (cq_entries m' 0x3000 64 0 2) = [7, 8] \<and> unat (qd_Head m' cb_AdminSQ) = 2"
proof -
  note init = started_engine_initial [OF example_engine_started]
  have items: "notify_items example_service_shm 0x1000 = [\<lparr>ne_QueueId = 0, ne_Type = 0, ne_Index = 2\<rparr>]"
    by (simp add: notify_items_def example_service_fields ring_list_def ring_dist_def)
  have two: "[0..<2] = [0, Suc 0]" by (simp add: numeral_2_eq_2)
  have cmds: "announced_commands example_engine example_service_shm
      (announced (unat (qd_Capacity example_service_shm cb_AdminSQ)) (unat (qd_Head example_service_shm cb_AdminSQ))
        [\<lparr>ne_QueueId = 0, ne_Type = 0, ne_Index = 2\<rparr>])
    = [(0, rd_NVME_COMMAND example_service_shm 0x2000), (0, rd_NVME_COMMAND example_service_shm 0x2040)]"
    by (simp add: announced_commands_def admin_entry_def ring_list_def ring_dist_def qd_Capacity_def qd_Head_def
        example_service_fields init two)
  have fields: "unat (qd_Capacity example_service_shm cb_AdminCQ) = 64" "unat (qd_Tail example_service_shm cb_AdminCQ) = 0"
    "unat (qd_Head example_service_shm cb_AdminSQ) = 0"
    by (simp_all add: qd_Capacity_def qd_Tail_def qd_Head_def example_service_fields)
  have index: "\<forall>e\<in>set [\<lparr>ne_QueueId = 0, ne_Type = 0, ne_Index = 2\<rparr>]. admin_entry e \<longrightarrow> ne_Index e < qd_Capacity example_service_shm cb_AdminSQ"
    by (simp add: qd_Capacity_def example_service_fields)
  note poll = CmdEnginePoll_answers [OF example_service_ok(1) items [folded example_service_ok(2), symmetric] index cmds [symmetric]
        fields(1,2) [symmetric], of win_all_ok]
  have "map (CID \<circ> snd) [(0 :: u16, rd_NVME_COMMAND example_service_shm 0x2000), (0, rd_NVME_COMMAND example_service_shm 0x2040)] = [7, 8]"
    by (simp add: example_service_commands)
  with poll obtain pCtx' m' where "CmdEnginePoll win_all_ok example_engine example_service_shm = Some (of_nat 2, pCtx', m')"
    "map cqe_CID (cq_entries m' (e_adminCqBase example_engine) 64 0 2) = [7, 8]"
    "unat (qd_Head m' cb_AdminSQ) = announced_head 0 [\<lparr>ne_QueueId = 0, ne_Type = 0, ne_Index = 2\<rparr>]"
    unfolding fields(3) by (metis length_Cons list.size(3) numeral_2_eq_2 numeral_le_iff semiring_norm(68,69,71,72,73) verit_comp_simplify1(2))
  then show ?thesis by (auto simp: init admin_entry_def simp del: map_eq_Cons_conv)
qed

section \<open>From the driver to the service and back\<close>

lemma forward_admin_mem:
  assumes "notify_ok c m ring" "g_FdoContext c = Some f" "fdo_UserReady f" "notify_items m ring = []"
  shows "\<exists>c' m'. VnvmeForwardAdminCommandsToUser NewTail c = Some c' \<and> VnvmeShmGetControlBlock c' = Some m'
    \<and> notify_ok c' m' ring \<and> same_outside ({0x34..<0x38} \<union> {ring..<ring + 2176}) m m'
    \<and> notify_items m' ring = [\<lparr>ne_QueueId = 0, ne_Type = 0, ne_Index = NewTail\<rparr>] \<and> pdo c' = pdo c
    \<and> qd_Tail m' cb_AdminSQ = NewTail"
proof -
  let ?m = "qd_set_Tail cb_AdminSQ NewTail m" and ?c = "upd_shm (qd_set_Tail cb_AdminSQ NewTail) c"
  have m: "VnvmeShmGetControlBlock c = Some m" "0x100 \<le> ring" using assms(1) by (simp_all add: notify_ok_def)
  have "desc_apart ring cb_AdminSQ" by (simp add: desc_apart_def)
  note ok = notify_ok_set_Tail [OF assms(1) this, of NewTail]
  from push_appends [OF ok(1), of 0 0 NewTail] assms(4) ok(2) obtain c2 m' where
    p: "NotifyRingPush 0 0 NewTail ?c = Some (True, c2)" "notify_ok c2 m' ring"
      "notify_items m' ring = [\<lparr>ne_QueueId = 0, ne_Type = 0, ne_Index = NewTail\<rparr>]"
      "same_outside {ring..<ring + 2176} ?m m'" "pdo c2 = pdo ?c"
    by auto
  have "same_outside ({0x34..<0x38} \<union> {ring..<ring + 2176}) m ?m"
    unfolding qd_set_Tail_def by (rule same_outside_wr32) simp
  then have frame: "same_outside ({0x34..<0x38} \<union> {ring..<ring + 2176}) m m'"
    by (rule same_outside_trans) (rule same_outside_mono [OF p(4)], simp)
  have "qd_Tail m' cb_AdminSQ = qd_Tail ?m cb_AdminSQ"
    unfolding qd_Tail_def by (rule rd32_same_outside [OF p(4)]) (use m(2) in auto)
  then have tail: "qd_Tail m' cb_AdminSQ = NewTail" by (simp add: qd_defs mem_simps)
  have "VnvmeForwardAdminCommandsToUser NewTail c = Some (SignalUserMode c2)"
    using m assms(2,3) p(1) by (simp add: VnvmeForwardAdminCommandsToUser_def)
  moreover have "notify_ok (SignalUserMode c2) m' ring" "VnvmeShmGetControlBlock (SignalUserMode c2) = Some m'"
    using p(2) by (auto simp: notify_ok_def VnvmeShmGetNotifyRing_def SignalUserMode_view split: if_splits)
  ultimately show ?thesis using frame tail p(3,5) by (auto simp: SignalUserMode_view)
qed

text \<open>C12: forwarding followed by a poll. The driver forwards a new tail of the admin queue, below its capacity, to a ready service
  whose ring is empty and whose completion queue is at least as long as the distance from the old head to that tail.
  The next poll of the service on the shared memory returns, executes exactly the commands between the
  old head and that tail, in order, and leaves their answers in the completion queue. Afterwards head and tail of the
  submission queue are both the new tail, so that it is empty for the driver and for the service, and the ring is empty.\<close>

theorem forward_then_poll:
  assumes "notify_ok c m ring" "g_FdoContext c = Some f" "fdo_UserReady f" "notify_items m ring = []" "engine_ok e m"
    and "NewTail < qd_Capacity m cb_AdminSQ" "h = unat (qd_Head m cb_AdminSQ)" "n = unat (qd_Capacity m cb_AdminSQ)"
    and "N = unat (qd_Capacity m cb_AdminCQ)" "t = unat (qd_Tail m cb_AdminCQ)" "ring_dist h (unat NewTail) n \<le> N"
  shows "\<exists>c' m' e' m''. VnvmeForwardAdminCommandsToUser NewTail c = Some c' \<and> VnvmeShmGetControlBlock c' = Some m'
    \<and> CmdEnginePoll os e m' = Some (of_nat (ring_dist h (unat NewTail) n), e', m'') \<and> engine_ok e' m''
    \<and> qd_Head m'' cb_AdminSQ = NewTail \<and> qd_Tail m'' cb_AdminSQ = NewTail \<and> notify_items m'' ring = []
    \<and> cq_entries m'' (e_adminCqBase e) N t (ring_dist h (unat NewTail) n)
      = phased N t (e_adminCqPhase e) (fst (admin_replies (e_adminCtx e)
          (map (Pair (of_nat h)) (sq_commands e m (ring_list id h (unat NewTail) n)))))"
proof -
  obtain c' m' where fwd: "VnvmeForwardAdminCommandsToUser NewTail c = Some c'" "VnvmeShmGetControlBlock c' = Some m'"
    "notify_ok c' m' ring" "same_outside ({0x34..<0x38} \<union> {ring..<ring + 2176}) m m'"
    "notify_items m' ring = [\<lparr>ne_QueueId = 0, ne_Type = 0, ne_Index = NewTail\<rparr>]" "qd_Tail m' cb_AdminSQ = NewTail"
    using forward_admin_mem [OF assms(1-4), of NewTail] by blast
  have ring: "eng_ring m = ring"
    using assms(1) by (auto simp: notify_ok_def VnvmeShmGetNotifyRing_def eng_ring_def split: if_splits)
  have frame: "same_outside ({0x34..<0x38} \<union> {eng_ring m..<eng_ring m + 2176} \<union> eng_sq e m) m m'"
    by (rule same_outside_mono [OF fwd(4)]) (simp add: ring le_supI1)
  note drv = engine_ok_driver [OF assms(5) frame, unfolded ring]
  have d: "engine_ok e m'" "eng_ring m' = ring" "qd_Head m' cb_AdminSQ = qd_Head m cb_AdminSQ"
    "qd_Capacity m' cb_AdminSQ = qd_Capacity m cb_AdminSQ" "qd_Capacity m' cb_AdminCQ = qd_Capacity m cb_AdminCQ"
    "qd_Tail m' cb_AdminCQ = qd_Tail m cb_AdminCQ"
    using fwd(3) by (auto simp: notify_ok_def intro!: drv)
  let ?is = "ring_list id h (unat NewTail) n"
  have "0 < n" using assms(6,8) by (simp add: word_less_nat_alt)
  then have inside: "{e_adminSqBase e + 64 * i..<e_adminSqBase e + 64 * i + 64} \<subseteq> eng_sq e m" if "i \<in> set ?is" for i
    using ring_list_less [of n i h "unat NewTail"] that by (auto simp: eng_sq_def assms(8) [symmetric])
  have apart: "eng_sq e m \<inter> ({0x34..<0x38} \<union> {ring..<ring + 2176}) = {}"
  proof -
    have "eng_sq e m \<inter> {ring..<ring + 2176} = {}" "0x100 \<le> e_adminSqBase e"
      using assms(5) by (simp_all add: engine_ok_def ring)
    then show ?thesis by (auto simp: eng_sq_def)
  qed
  have cmds: "sq_commands e m' ?is = sq_commands e m ?is"
    unfolding sq_commands_def
    by (rule map_cong [OF refl]) (rule rd_NVME_COMMAND_same_outside [OF fwd(4)], use inside apart in blast)
  have ann: "announced_commands e m' (announced (unat (qd_Capacity m' cb_AdminSQ)) (unat (qd_Head m' cb_AdminSQ)) (notify_items m' ring))
      = map (Pair (of_nat h)) (sq_commands e m ?is)"
    by (simp add: fwd(5) d(3,4) assms(7,8) [symmetric] announced_commands_def admin_entry_def cmds [symmetric])
      (simp add: sq_commands_def)
  have len: "length (map (Pair (of_nat h :: u16)) (sq_commands e m ?is)) = ring_dist h (unat NewTail) n"
    by (simp add: sq_commands_def)
  have "\<forall>x\<in>set (notify_items m' ring). admin_entry x \<longrightarrow> ne_Index x < qd_Capacity m' cb_AdminSQ"
    using assms(6) by (simp add: fwd(5) d(4))
  from CmdEnginePoll_run [OF d(1) refl this [folded d(2)] ann [folded d(2), symmetric], of N t os, unfolded d len] assms(9-11) fwd(5)
  obtain e' m'' where "CmdEnginePoll os e m' = Some (of_nat (ring_dist h (unat NewTail) n), e', m'')" "engine_ok e' m''"
    "notify_items m'' ring = []" "unat (qd_Head m'' cb_AdminSQ) = unat NewTail" "qd_Tail m'' cb_AdminSQ = qd_Tail m' cb_AdminSQ"
    "cq_entries m'' (e_adminCqBase e) N t (ring_dist h (unat NewTail) n)
      = phased N t (e_adminCqPhase e) (fst (admin_replies (e_adminCtx e) (map (Pair (of_nat h)) (sq_commands e m ?is))))"
    by (auto simp: admin_entry_def)
  with fwd(1,2,6) show ?thesis by (auto simp: word_unat_eq_iff)
qed

text \<open>The same two commands, stored by the host and not announced yet.\<close>

definition example_unannounced_shm :: mem where
  "example_unannounced_shm = wr16 0x2042 8 (wr8 0x2040 0x7F (wr16 0x2002 7 (wr8 0x2000 0x18 (shm_initial (\<lambda>_. 0)))))"

lemma example_unannounced_fields:
  "rd32 example_unannounced_shm 0x28 = 64" "rd32 example_unannounced_shm 0x30 = 0" "rd32 example_unannounced_shm 0x48 = 64"
  "rd32 example_unannounced_shm 0x54 = 0" "rd32 example_unannounced_shm 0x70 = 0x1000" "rd32 example_unannounced_shm 0x107C = 256"
  "rd32 example_unannounced_shm 0x1000 = 0" "rd32 example_unannounced_shm 0x1040 = 0"
  unfolding example_unannounced_shm_def by (simp_all add: mem_simps shm_initial_fields)

lemma example_unannounced_ok: "engine_ok example_engine example_unannounced_shm"
proof -
  have "same_outside example_changes (shm_initial (\<lambda>_. 0)) example_unannounced_shm"
    unfolding example_unannounced_shm_def by (intro same_outside_step same_outside_refl) auto
  from example_state_ok(1) [OF this] show ?thesis by (simp add: example_unannounced_fields)
qed

theorem forward_then_poll_witness:
  "\<exists>c' m' e' m''. VnvmeForwardAdminCommandsToUser 2 (example_ctx example_unannounced_shm) = Some c'
    \<and> VnvmeShmGetControlBlock c' = Some m' \<and> CmdEnginePoll win_all_ok example_engine m' = Some (2, e', m'')
    \<and> qd_Head m'' cb_AdminSQ = 2 \<and> qd_Tail m'' cb_AdminSQ = 2 \<and> notify_items m'' 0x1000 = []"
proof -
  let ?m = example_unannounced_shm
  have n: "notify_ok (example_ctx ?m) ?m 0x1000" "notify_items ?m 0x1000 = []"
    by (simp_all add: notify_ok_def notify_items_def VnvmeShmGetNotifyRing_def example_unannounced_fields ring_list_def ring_dist_def)
  have f: "g_FdoContext (example_ctx ?m) = Some (example_fdo ?m)" "fdo_UserReady (example_fdo ?m)"
    by (simp_all add: example_ctx_def example_fdo_def)
  have q: "2 < qd_Capacity ?m cb_AdminSQ" "0 = unat (qd_Head ?m cb_AdminSQ)" "64 = unat (qd_Capacity ?m cb_AdminSQ)"
    "64 = unat (qd_Capacity ?m cb_AdminCQ)" "0 = unat (qd_Tail ?m cb_AdminCQ)" "ring_dist 0 (unat (2 :: u32)) 64 \<le> 64"
    by (simp_all add: qd_defs example_unannounced_fields ring_dist_def)
  have "ring_dist 0 (unat (2 :: u32)) 64 = 2" by (simp add: ring_dist_def)
  then show ?thesis
    using forward_then_poll [OF n(1) f n(2) example_unannounced_ok q, of win_all_ok] by fastforce
qed

section \<open>Where the two sides disagree\<close>

lemma phase_after_wrap:
  assumes "t < N" "k \<le> N"
  shows "phase_after N t ph k = (if t + k < N then ph else flip ph)"
proof -
  have early: "phase_after N t ph k = ph" if "t + k < N" for t k and ph :: u32
    using that by (induction k arbitrary: t) simp_all
  show ?thesis
  proof (cases "t + k < N")
    case False
    obtain j where j: "N = t + Suc j" using assms(1) less_iff_Suc_add by auto
    have "phase_after N t ph (j + 1) = flip ph"
      unfolding phase_after_add [OF assms(1)] using early [of t j ph] by (simp add: j)
    then have "phase_after N t ph (N - t) = flip ph" by (simp add: j)
    then have "phase_after N t ph k = phase_after N 0 (flip ph) (k - (N - t))"
      using phase_after_add [OF assms(1), of ph "N - t" "k - (N - t)"] False assms(1) by simp
    moreover have "0 + (k - (N - t)) < N" using assms by linarith
    ultimately show ?thesis using early [of 0 "k - (N - t)" "flip ph"] False by simp
  qed (simp add: early)
qed

text \<open>The phase in the shared memory goes stale. The engine keeps the phase of the admin completion queue in its own context and a
  poll never writes \<open>AdminCQ.Phase\<close>: when the answers of a poll wrap around the queue, the two
  phases agree before and differ afterwards. The driver reads the stale one when it completes the commands of a service
  that has died.\<close>

theorem engine_phase_diverges:
  assumes "engine_ok pCtx m" "es = notify_items m (eng_ring m)"
    and "\<forall>e\<in>set es. admin_entry e \<longrightarrow> ne_Index e < qd_Capacity m cb_AdminSQ"
    and "cmds = announced_commands pCtx m (announced (unat (qd_Capacity m cb_AdminSQ)) (unat (qd_Head m cb_AdminSQ)) es)"
    and "N = unat (qd_Capacity m cb_AdminCQ)" "t = unat (qd_Tail m cb_AdminCQ)" "length cmds \<le> N" "N \<le> t + length cmds"
    and "e_adminCqPhase pCtx = qd_Phase m cb_AdminCQ"
  shows "\<exists>pCtx' m'. CmdEnginePoll os pCtx m = Some (of_nat (length cmds), pCtx', m')
    \<and> qd_Phase m' cb_AdminCQ = qd_Phase m cb_AdminCQ \<and> e_adminCqPhase pCtx' \<noteq> qd_Phase m' cb_AdminCQ"
proof -
  have "t < N" using assms(1,5,6) by (simp add: engine_ok_def word_less_nat_alt)
  then have "phase_after N t (e_adminCqPhase pCtx) (length cmds) = flip (e_adminCqPhase pCtx)"
    using phase_after_wrap [of t N "length cmds"] assms(7,8) by simp
  then show ?thesis
    using CmdEnginePoll_run [OF assms(1-7), of os] assms(9) by (force simp: flip_def split: if_split_asm)
qed

text \<open>C40: the commands of the I/O queues are never taken (a defect of the service: no command sets the descriptor of a submission
  queue, which the poll asks for). A poll in a consistent state whose waiting notifications are all for I/O queues consumes them
  all and counts itself; it takes no command, writes no completion to any queue and changes nothing else of the engine or of the
  shared memory: only the head of the ring moves up to its tail.\<close>

theorem io_notifications_dropped:
  assumes "engine_ok pCtx m" "\<forall>e\<in>set (notify_items m (eng_ring m)). \<not> admin_entry e"
  shows "CmdEnginePoll os pCtx m = Some (0, upd_estats (\<lambda>s. s\<lparr>es_pollCount := es_pollCount s + 1\<rparr>) pCtx,
      wr32 (eng_ring m + nr_Head) (rd32 m (eng_ring m + nr_Tail)) m)
    \<and> notify_items (wr32 (eng_ring m + nr_Head) (rd32 m (eng_ring m + nr_Tail)) m) (eng_ring m) = []"
proof -
  have ok: "e_initialized pCtx" "0x100 \<le> eng_ring m" "eng_ring m + 2176 \<le> VNVME_SHM_SIZE"
    "rd32 m (eng_ring m + nr_Head) < 256" "rd32 m (eng_ring m + nr_Tail) < 256"
    using assms(1) by (simp_all add: engine_ok_def)
  then have nz: "rd32 m cb_NotifyRingOffset \<noteq> 0" "eng_ring m + 128 \<le> VNVME_SHM_SIZE" by (auto simp: eng_ring_def)
  have "\<forall>e\<in>set (ring_entries m (rd32 m (eng_ring m + nr_Head)) (rd32 m (eng_ring m + nr_Tail))). \<not> admin_entry e"
    using assms(2) by (simp add: notify_items_def ring_entries_def)
  from poll_ring_loop_skips [OF assms(1) ok(4,5) refl this, of os 0]
  have "CmdEnginePoll os pCtx m = Some (0, upd_estats (\<lambda>s. s\<lparr>es_pollCount := es_pollCount s + 1\<rparr>) pCtx,
      wr32 (eng_ring m + nr_Head) (rd32 m (eng_ring m + nr_Tail)) m)"
    using ok(1) nz unfolding CmdEnginePoll_def eng_ring_def [symmetric] by (simp add: Let_def)
  moreover have "notify_items (wr32 (eng_ring m + nr_Head) (rd32 m (eng_ring m + nr_Tail)) m) (eng_ring m) = []"
    by (simp add: notify_items_def ring_list_def ring_dist_def mem_simps)
  ultimately show ?thesis by blast
qed

text \<open>The same service with 63 entries of the completion queue used, so that two answers wrap; and a service with one waiting
  notification of I/O queue 1.\<close>

definition example_wrap_shm :: mem where
  "example_wrap_shm = wr32 0x54 63 example_service_shm"

definition example_io_notify_shm :: mem where
  "example_io_notify_shm = wr32 0x1040 1 (wr_NOTIFY_ENTRY 0x1080 \<lparr>ne_QueueId = 1, ne_Type = 0, ne_Index = 2\<rparr> (shm_initial (\<lambda>_. 0)))"

lemma example_wrap_fields:
  "rd32 example_wrap_shm 0x54 = 63" "rd32 example_wrap_shm 0x107C = 256" "rd32 example_wrap_shm 0x1000 = 0" "rd32 example_wrap_shm 0x1040 = 1"
  "rd_NOTIFY_ENTRY example_wrap_shm 0x1080 = \<lparr>ne_QueueId = 0, ne_Type = 0, ne_Index = 2\<rparr>"
  unfolding example_wrap_shm_def using example_service_fields(9)
  by (simp_all add: mem_simps example_service_fields(1-8)) (simp add: rd_NOTIFY_ENTRY_def mem_simps)

lemma example_wrap_ok:
  "engine_ok example_engine example_wrap_shm" "eng_ring example_wrap_shm = 0x1000" "rd32 example_wrap_shm 0x28 = 64"
  "rd32 example_wrap_shm 0x30 = 0" "rd32 example_wrap_shm 0x48 = 64" "rd32 example_wrap_shm 0x58 = 1"
proof -
  have "same_outside example_changes (shm_initial (\<lambda>_. 0)) example_wrap_shm"
    unfolding example_wrap_shm_def example_service_shm_def by (intro same_outside_step example_entry_changes) auto
  from example_state_ok [OF this] show "engine_ok example_engine example_wrap_shm" "eng_ring example_wrap_shm = 0x1000"
    "rd32 example_wrap_shm 0x28 = 64" "rd32 example_wrap_shm 0x30 = 0" "rd32 example_wrap_shm 0x48 = 64" "rd32 example_wrap_shm 0x58 = 1"
    by (simp_all add: example_wrap_fields)
qed

theorem engine_phase_diverges_witness:
  "\<exists>pCtx' m'. CmdEnginePoll win_all_ok example_engine example_wrap_shm = Some (2, pCtx', m')
    \<and> qd_Phase m' cb_AdminCQ = 1 \<and> e_adminCqPhase pCtx' \<noteq> 1"
proof -
  note init = started_engine_initial [OF example_engine_started]
  have items: "notify_items example_wrap_shm 0x1000 = [\<lparr>ne_QueueId = 0, ne_Type = 0, ne_Index = 2\<rparr>]"
    by (simp add: notify_items_def example_wrap_fields ring_list_def ring_dist_def)
  define cmds where "cmds = announced_commands example_engine example_wrap_shm
      (announced (unat (qd_Capacity example_wrap_shm cb_AdminSQ)) (unat (qd_Head example_wrap_shm cb_AdminSQ))
        [\<lparr>ne_QueueId = 0, ne_Type = 0, ne_Index = 2\<rparr>])"
  have len: "length cmds = 2"
    by (simp add: cmds_def admin_entry_def ring_dist_def qd_Capacity_def qd_Head_def example_wrap_ok)
  have fields: "unat (qd_Capacity example_wrap_shm cb_AdminCQ) = 64" "unat (qd_Tail example_wrap_shm cb_AdminCQ) = 63"
    "qd_Phase example_wrap_shm cb_AdminCQ = 1"
    by (simp_all add: qd_Capacity_def qd_Tail_def qd_Phase_def example_wrap_ok example_wrap_fields)
  have index: "\<forall>e\<in>set [\<lparr>ne_QueueId = 0, ne_Type = 0, ne_Index = 2\<rparr>]. admin_entry e \<longrightarrow> ne_Index e < qd_Capacity example_wrap_shm cb_AdminSQ"
    by (simp add: qd_Capacity_def example_wrap_ok)
  show ?thesis
    using engine_phase_diverges [OF example_wrap_ok(1) items [folded example_wrap_ok(2), symmetric] index cmds_def
        fields(1,2) [symmetric], of win_all_ok]
    by (auto simp: len fields init)
qed

theorem io_notifications_dropped_witness:
  "\<exists>pCtx'. CmdEnginePoll win_all_ok example_engine example_io_notify_shm = Some (0, pCtx', wr32 0x1000 1 example_io_notify_shm)
    \<and> notify_items (wr32 0x1000 1 example_io_notify_shm) 0x1000 = []"
proof -
  have f: "rd32 example_io_notify_shm 0x54 = 0" "rd32 example_io_notify_shm 0x107C = 256" "rd32 example_io_notify_shm 0x1000 = 0"
    "rd32 example_io_notify_shm 0x1040 = 1" "rd_NOTIFY_ENTRY example_io_notify_shm 0x1080 = \<lparr>ne_QueueId = 1, ne_Type = 0, ne_Index = 2\<rparr>"
    unfolding example_io_notify_shm_def
    by (simp_all add: mem_simps rd32_wr_NOTIFY_ENTRY_apart shm_initial_fields)
      (simp add: rd_NOTIFY_ENTRY_def wr_NOTIFY_ENTRY_def mem_simps)
  have "same_outside example_changes (shm_initial (\<lambda>_. 0)) example_io_notify_shm"
    unfolding example_io_notify_shm_def by (intro same_outside_step example_entry_changes) auto
  from example_state_ok(1,2) [OF this] have ok: "engine_ok example_engine example_io_notify_shm" "eng_ring example_io_notify_shm = 0x1000"
    by (simp_all add: f)
  have "notify_items example_io_notify_shm 0x1000 = [\<lparr>ne_QueueId = 1, ne_Type = 0, ne_Index = 2\<rparr>]"
    by (simp add: notify_items_def f ring_list_def ring_dist_def)
  with io_notifications_dropped [OF ok(1), of win_all_ok] show ?thesis by (simp add: ok(2) admin_entry_def f)
qed

end
