(* ===== verification/Vnvme_Main.thy ===== *)
theory Vnvme_Main
  imports Vnvme_Driver_Comm Vnvme_Server_Config Vnvme_Service
begin

text \<open>
  \<^verbatim>\<open>vnvme-server/main_v2.c\<close>: the service as a whole. Its globals and the driver it talks to are one record; the system's answers
  are arguments, those of a round of the main loop one record per round. The engine and the globals share the back end: its
  contents are those in the engine's context while there is an engine. Messages for the log are left out.
\<close>

section \<open>Globals\<close>

record SERVICE =
  s_Running :: bool
  s_DebugMode :: bool
  s_Config :: SERVER_CONFIG
  s_DriverCtx :: DRIVER_COMM_CONTEXT
  s_Backend :: "BACKEND_CONTEXT option"
  s_CmdEngine :: "CMD_ENGINE_CONTEXT option"
  s_Logger :: LOGGER
  s_Driver :: vnvme_driver

definition zero_SERVER_CONFIG :: SERVER_CONFIG where
  "zero_SERVER_CONFIG =
     \<lparr>sv_log_level = LOG_LEVEL_NONE, sv_log_enableConsole = False, sv_log_enableFile = False, sv_log_filePath = [],
      sv_storage = \<lparr>sg_backendType = BACKEND_TYPE_MEMORY, sg_size = 0, sg_blockSize = 0, sg_filePath = [], sg_readOnly = False,
        sg_directIO = False, sg_preallocate = False\<rparr>,
      sv_controller = \<lparr>cc_modelNumber = [], cc_serialNumber = [], cc_vendorId = 0, cc_deviceId = 0\<rparr>,
      sv_heartbeatIntervalMs = 0, sv_pollIntervalUs = 0, sv_daemonMode = False, sv_configFilePath = []\<rparr>"

definition service_initial :: "vnvme_driver \<Rightarrow> SERVICE" where
  "service_initial d = \<lparr>s_Running = True, s_DebugMode = False, s_Config = zero_SERVER_CONFIG,
     s_DriverCtx = zero_DRIVER_COMM_CONTEXT, s_Backend = None, s_CmdEngine = None, s_Logger = logger_initial, s_Driver = d\<rparr>"

abbreviation (input) CTRL_C_EVENT :: u32 where "CTRL_C_EVENT \<equiv> 0"
abbreviation (input) CTRL_BREAK_EVENT :: u32 where "CTRL_BREAK_EVENT \<equiv> 1"
abbreviation (input) CTRL_CLOSE_EVENT :: u32 where "CTRL_CLOSE_EVENT \<equiv> 2"

definition ConsoleCtrlHandler :: "u32 \<Rightarrow> SERVICE \<Rightarrow> bool \<times> SERVICE" where
  "ConsoleCtrlHandler dwCtrlType s =
     (if dwCtrlType = CTRL_C_EVENT \<or> dwCtrlType = CTRL_BREAK_EVENT \<or> dwCtrlType = CTRL_CLOSE_EVENT
      then (True, s\<lparr>s_Running := False\<rparr>) else (False, s))"

section \<open>The main loop\<close>

text \<open>
  What happens around one round: the console event and the driver's own work before it, the clock, and the answers of
  the system to the calls in it.
\<close>

record round_os =
  ro_ctrl :: "u32 option"
  ro_driver :: "vnvme_driver \<Rightarrow> vnvme_driver"
  ro_tick :: u32
  ro_DeviceIoControl :: device_io
  ro_wait :: wait_result
  ro_win :: win_os

definition before_round :: "round_os \<Rightarrow> SERVICE \<Rightarrow> SERVICE" where
  "before_round os s =
     (let s = s\<lparr>s_Driver := ro_driver os (s_Driver s)\<rparr>
      in case ro_ctrl os of None \<Rightarrow> s | Some t \<Rightarrow> snd (ConsoleCtrlHandler t s))"

text \<open>The poll works on the bytes the driver mapped; the engine and the globals see the same back end.\<close>

definition poll_engine :: "win_os \<Rightarrow> SERVICE \<Rightarrow> (u64 \<times> SERVICE) option" where
  "poll_engine os s =
     (case s_CmdEngine s of
        None \<Rightarrow> Some (0, s)
      | Some e \<Rightarrow> do {
          m \<leftarrow> user_view (s_Driver s) (sc_userAddress (dc_shm (s_DriverCtx s)));
          (processed, e, m) \<leftarrow> CmdEnginePoll os e m;
          Some (processed, s\<lparr>s_CmdEngine := Some e, s_Backend := ic_backend (e_ioCtx e), s_Driver := user_store m (s_Driver s)\<rparr>)
        })"

definition main_round :: "round_os \<Rightarrow> u32 \<Rightarrow> SERVICE \<Rightarrow> (u64 \<times> u32 \<times> SERVICE) option" where
  "main_round os lastHeartbeat s = do {
     (processed, s) \<leftarrow> poll_engine (ro_win os) s;
     (lastHeartbeat, s) \<leftarrow>
       (if ro_tick os - lastHeartbeat \<ge> 1000 then do {
          (sent, d) \<leftarrow> DriverSendHeartbeat (ro_DeviceIoControl os) (s_DriverCtx s) (s_Driver s);
          Some (ro_tick os, s\<lparr>s_Driver := d\<rparr>)
        }
        else Some (lastHeartbeat, s));
     Some (processed, lastHeartbeat,
       if processed = 0 then s\<lparr>s_DriverCtx := snd (DriverWaitForCommand (ro_wait os) (s_DriverCtx s))\<rparr> else s)
   }"

partial_function (option) main_loop :: "(nat \<Rightarrow> round_os) \<Rightarrow> nat \<Rightarrow> u32 \<Rightarrow> u64 \<Rightarrow> SERVICE \<Rightarrow> (u64 \<times> SERVICE) option" where
  "main_loop os k lastHeartbeat totalCommands s =
     (let s = before_round (os k) s
      in if \<not> s_Running s then Some (totalCommands, s)
         else DriverIsShutdownRequested (s_DriverCtx s) (s_Driver s) \<bind> (\<lambda>requested.
           if requested then Some (totalCommands, s\<lparr>s_Running := False\<rparr>)
           else main_round (os k) lastHeartbeat s \<bind> (\<lambda>(processed, lastHeartbeat, s).
             main_loop os (Suc k) lastHeartbeat (totalCommands + processed) s)))"

text \<open>The result tells also whether the back end was flushed.\<close>

definition MainLoop :: "device_io \<Rightarrow> u32 \<Rightarrow> win_os \<Rightarrow> (nat \<Rightarrow> round_os) \<Rightarrow> SERVICE \<Rightarrow> (u64 \<times> bool \<times> SERVICE) option" where
  "MainLoop dio tick win os s = do {
     (enabled, pCtx, d) \<leftarrow> DriverGetCommandEvent dio (s_DriverCtx s) (s_Driver s);
     (totalCommands, s) \<leftarrow> main_loop os 0 tick 0 (s\<lparr>s_DriverCtx := pCtx, s_Driver := d\<rparr>);
     Some (totalCommands, s_Backend s \<noteq> None \<and> BackendFlush win (s_Backend s), s)
   }"

section \<open>Start and end\<close>

record service_os =
  so_wide :: wide
  so_log_opened :: bool
  so_CreateFile :: HANDLE
  so_DeviceIoControl :: device_io
  so_calloc :: bool
  so_VirtualAlloc :: "nat \<Rightarrow> bool"
  so_win :: win_os
  so_open :: win_open_os
  so_malloc :: bool
  so_tick :: u32
  so_round :: "nat \<Rightarrow> round_os"

definition log_config :: "SERVER_CONFIG \<Rightarrow> LOGGER_CONFIG" where
  "log_config c = \<lparr>lc_level = sv_log_level c, lc_enableConsole = sv_log_enableConsole c, lc_enableFile = sv_log_enableFile c,
     lc_enableColor = False, lc_enableTimestamp = True, lc_enableModule = False, lc_filePath = sv_log_filePath c\<rparr>"

definition backend_config :: "STORAGE_CONFIG \<Rightarrow> BACKEND_CONFIG" where
  "backend_config st = \<lparr>bc_Type = sg_backendType st, bc_Size = sg_size st, bc_FilePath = sg_filePath st,
     bc_ReadOnly = sg_readOnly st, bc_BlockSize = sg_blockSize st, bc_DirectIO = sg_directIO st, bc_Preallocate = sg_preallocate st\<rparr>"

text \<open>The labels at the end, each falling through to the next.\<close>

definition cleanup_log :: "nat \<Rightarrow> SERVICE \<Rightarrow> nat \<times> SERVICE" where
  "cleanup_log result s = (result, s\<lparr>s_Logger := LoggerShutdown (s_Logger s)\<rparr>)"

definition cleanup_driver :: "device_io \<Rightarrow> nat \<Rightarrow> SERVICE \<Rightarrow> (nat \<times> SERVICE) option" where
  "cleanup_driver dio result s = do {
     (pCtx, d) \<leftarrow> DriverDisconnect dio (s_DriverCtx s) (s_Driver s);
     Some (cleanup_log result (s\<lparr>s_DriverCtx := pCtx, s_Driver := d\<rparr>))
   }"

definition cleanup_backend :: "device_io \<Rightarrow> nat \<Rightarrow> SERVICE \<Rightarrow> (nat \<times> SERVICE) option" where
  "cleanup_backend dio result s = cleanup_driver dio result (if s_Backend s \<noteq> None then s\<lparr>s_Backend := None\<rparr> else s)"

definition cleanup_cmdengine :: "device_io \<Rightarrow> nat \<Rightarrow> SERVICE \<Rightarrow> (nat \<times> SERVICE) option" where
  "cleanup_cmdengine dio result s = cleanup_backend dio result (if s_CmdEngine s \<noteq> None then s\<lparr>s_CmdEngine := None\<rparr> else s)"

text \<open>From the mapped shared memory on: the back end, the engine, and the announcement to the driver.\<close>

definition start_engine :: "service_os \<Rightarrow> SERVICE \<Rightarrow> (nat \<times> SERVICE) option" where
  "start_engine os s =
     (let dio = so_DeviceIoControl os; e = CmdEngineCreate (so_malloc os); s = s\<lparr>s_CmdEngine := e\<rparr>
      in case e of
           None \<Rightarrow> cleanup_backend dio 1 s
         | Some e \<Rightarrow> do {
             m \<leftarrow> user_view (s_Driver s) (sc_userAddress (dc_shm (s_DriverCtx s)));
             (ok, e) \<leftarrow> CmdEngineInitSimple (s_DebugMode s) e (sc_userAddress (dc_shm (s_DriverCtx s)) \<noteq> 0) (s_Backend s) m;
             let s = s\<lparr>s_CmdEngine := Some e\<rparr>;
             if \<not> ok then cleanup_cmdengine dio 1 s
             else do {
               let s = s\<lparr>s_CmdEngine := Some (CmdEngineSetDebugMode (s_DebugMode s) e)\<rparr>;
               (ready, d) \<leftarrow> DriverSendUserReady dio (s_DriverCtx s) (s_Driver s);
               let s = s\<lparr>s_Driver := d\<rparr>;
               if \<not> ready then cleanup_backend dio 1 s
               else do {
                 (totalCommands, flushed, s) \<leftarrow> MainLoop dio (so_tick os) (so_win os) (so_round os) s;
                 cleanup_cmdengine dio 0 s
               }
             }
           })"

definition start_backend :: "service_os \<Rightarrow> SERVICE \<Rightarrow> (nat \<times> SERVICE) option" where
  "start_backend os s =
     (let b = BackendCreate (so_calloc os) (so_VirtualAlloc os) (so_win os) (so_open os) (Some (backend_config (sv_storage (s_Config s))));
          s = s\<lparr>s_Backend := b\<rparr>
      in if b = None then cleanup_driver (so_DeviceIoControl os) 1 s else start_engine os s)"

definition start_driver :: "service_os \<Rightarrow> SERVICE \<Rightarrow> (nat \<times> SERVICE) option" where
  "start_driver os s =
     (let (connected, pCtx) = DriverConnect (so_CreateFile os) (s_DriverCtx s); s = s\<lparr>s_DriverCtx := pCtx\<rparr>
      in if \<not> connected then Some (cleanup_log 1 s)
         else do {
           (mapped, pCtx, d) \<leftarrow> DriverMapShm (so_DeviceIoControl os) (s_DriverCtx s) (s_Driver s);
           let s = s\<lparr>s_DriverCtx := pCtx, s_Driver := d\<rparr>;
           if \<not> mapped then cleanup_driver (so_DeviceIoControl os) 1 s else start_backend os s
         })"

definition main_v2 :: "service_os \<Rightarrow> string list \<Rightarrow> SERVICE \<Rightarrow> (nat \<times> SERVICE) option" where
  "main_v2 os argv s = do {
     r \<leftarrow> ConfigParseArgs (so_wide os) argv;
     case r of
       Exits \<Rightarrow> Some (0, s)
     | Parsed accepted c \<Rightarrow>
         (let s = s\<lparr>s_Config := c\<rparr>
          in if \<not> accepted then Some (1, s)
             else
               let (ok, g) = LoggerInit (so_log_opened os) (Some (log_config c)) (s_Logger s); s = s\<lparr>s_Logger := g\<rparr>
               in if \<not> ok then Some (1, s)
                  else start_driver os (s\<lparr>s_DebugMode := (sv_log_level c \<ge> LOG_LEVEL_DEBUG)\<rparr>))
   }"

section \<open>The service never starts\<close>

lemma engine_init_runs: "\<exists>ok e'. CmdEngineInitSimple debug e shm B m = Some (ok, e')"
proof -
  have "CmdEngineInitSimple debug e shm B m \<noteq> None" by (auto simp: init_defs Let_def)
  then show ?thesis by auto
qed

lemma LoggerInit_true: "fst (LoggerInit opened c g)"
  by (simp add: LoggerInit_def Let_def)

context buffered_device
begin

text \<open>Every way out ends with the exit code that was set and leaves the driver's readiness alone.\<close>

lemma cleanup_driver_runs: "\<exists>s'. cleanup_driver DeviceIoControl r s = Some (r, s') \<and> s_Driver s' = s_Driver s \<and> s_CmdEngine s' = s_CmdEngine s"
  using disconnect_runs [of "s_DriverCtx s" "s_Driver s"] by (auto simp: cleanup_driver_def cleanup_log_def)

lemma cleanup_backend_runs: "\<exists>s'. cleanup_backend DeviceIoControl r s = Some (r, s') \<and> s_Driver s' = s_Driver s \<and> s_CmdEngine s' = s_CmdEngine s"
  using cleanup_driver_runs [of r "if s_Backend s \<noteq> None then s\<lparr>s_Backend := None\<rparr> else s"] by (auto simp: cleanup_backend_def)

lemma cleanup_cmdengine_runs: "\<exists>s'. cleanup_cmdengine DeviceIoControl r s = Some (r, s') \<and> s_Driver s' = s_Driver s \<and> s_CmdEngine s' = None"
  using cleanup_backend_runs [of r "if s_CmdEngine s \<noteq> None then s\<lparr>s_CmdEngine := None\<rparr> else s"]
  by (auto simp: cleanup_cmdengine_def)

lemma start_engine_fails:
  assumes "so_DeviceIoControl os = DeviceIoControl" "user_view (s_Driver s) (sc_userAddress (dc_shm (s_DriverCtx s))) = Some m"
  shows "\<exists>s'. start_engine os s = Some (1, s') \<and> s_Driver s' = s_Driver s"
proof (cases "CmdEngineCreate (so_malloc os)")
  case None
  then show ?thesis
    using cleanup_backend_runs [of 1 "s\<lparr>s_CmdEngine := None\<rparr>"] assms by (auto simp: start_engine_def Let_def)
next
  case (Some e)
  obtain ok e' where init: "CmdEngineInitSimple (s_DebugMode s) e (sc_userAddress (dc_shm (s_DriverCtx s)) \<noteq> 0) (s_Backend s) m = Some (ok, e')"
    using engine_init_runs by blast
  show ?thesis
  proof (cases ok)
    case True
    let ?s = "s\<lparr>s_CmdEngine := Some (CmdEngineSetDebugMode (s_DebugMode s) e'), s_Driver := s_Driver s\<rparr>"
    from cleanup_backend_runs [of 1 ?s] Some init True assms show ?thesis
      by (auto simp: start_engine_def Let_def user_ready_refused)
  next
    case False
    from cleanup_cmdengine_runs [of 1 "s\<lparr>s_CmdEngine := Some e'\<rparr>"] Some init False assms show ?thesis
      by (auto simp: start_engine_def Let_def)
  qed
qed

lemma start_backend_fails:
  assumes "so_DeviceIoControl os = DeviceIoControl" "user_view (s_Driver s) (sc_userAddress (dc_shm (s_DriverCtx s))) = Some m"
  shows "\<exists>s'. start_backend os s = Some (1, s') \<and> s_Driver s' = s_Driver s"
  using cleanup_driver_runs [of 1 "s\<lparr>s_Backend := None\<rparr>"] start_engine_fails [of os "s\<lparr>s_Backend := b\<rparr>" m for b] assms
  unfolding start_backend_def Let_def by auto

lemma start_driver_fails:
  assumes "so_DeviceIoControl os = DeviceIoControl"
  shows "\<exists>s'. start_driver os s = Some (1, s') \<and> driver_user_ready (s_Driver s') = driver_user_ready (s_Driver s)"
proof (cases "so_CreateFile os = INVALID_HANDLE_VALUE")
  case True
  then show ?thesis by (simp add: start_driver_def DriverConnect_def Let_def cleanup_log_def)
next
  case False
  let ?s = "s\<lparr>s_DriverCtx := (s_DriverCtx s)\<lparr>dc_deviceHandle := so_CreateFile os\<rparr>\<rparr>"
  obtain ok pCtx d where map: "DriverMapShm DeviceIoControl (s_DriverCtx ?s) (s_Driver ?s) = Some (ok, pCtx, d)"
      "driver_user_ready d = driver_user_ready (s_Driver s)"
      "ok \<Longrightarrow> \<exists>m. user_view d (sc_userAddress (dc_shm pCtx)) = Some m \<and> rd32 m 0 = 0x454D564E"
    by (rule map_runs [of "s_DriverCtx ?s" "s_Driver ?s"]) simp
  let ?t = "s\<lparr>s_DriverCtx := pCtx, s_Driver := d\<rparr>"
  have "\<exists>s'. (if \<not> ok then cleanup_driver DeviceIoControl 1 ?t else start_backend os ?t) = Some (1, s')
      \<and> driver_user_ready (s_Driver s') = driver_user_ready (s_Driver s)"
    using cleanup_driver_runs [of 1 ?t] start_backend_fails [of os ?t] map(2,3) assms by auto
  with False map(1) assms show ?thesis by (cases ok) (simp_all add: start_driver_def DriverConnect_def Let_def)
qed

lemma service_fails:
  assumes "so_DeviceIoControl os = DeviceIoControl" "ConfigParseArgs (so_wide os) argv = Some (Parsed accepted c)"
  shows "\<exists>s'. main_v2 os argv s = Some (1, s') \<and> driver_user_ready (s_Driver s') = driver_user_ready (s_Driver s)"
  using LoggerInit_true [of "so_log_opened os" "Some (log_config c)" "s_Logger s"]
    start_driver_fails [OF assms(1), of "s\<lparr>s_Config := c, s_Logger := g, s_DebugMode := b\<rparr>" for g b] assms(2)
  by (cases accepted) (auto simp: main_v2_def Let_def split: prod.splits)

end


text \<open>C13: with the driver as it is, the service never starts. Whatever the system answers, as long as requests reach the driver as
  they were made or fail, a command line that asks for more than the usage or the version leads to exit code 1, and the
  driver's notion of a ready service stays as it was: the request that announces the service carries no data, and the
  driver asks for 16 bytes.\<close>

theorem service_never_starts:
  assumes "buffered_device (so_DeviceIoControl os)" "ConfigParseArgs (so_wide os) argv = Some (Parsed accepted c)"
  shows "\<exists>s'. main_v2 os argv s = Some (1, s') \<and> driver_user_ready (s_Driver s') = driver_user_ready (s_Driver s)"
  by (rule buffered_device.service_fails [OF assms(1) refl assms(2)])

text \<open>A system on which everything succeeds, and the driver with its shared memory allocated.\<close>

definition example_shm_driver :: vnvme_driver where
  "example_shm_driver = \<lparr>drv_Config = g_Config_init, drv_Fdo = Some ((initial_FDO 0)\<lparr>fd_Context :=
     (fd_Context (initial_FDO 0))\<lparr>fdo_ShmKernelVirtAddr := Some (shm_initial (\<lambda>_. 0)), fdo_ShmSize := of_nat VNVME_SHM_SIZE\<rparr>\<rparr>)\<rparr>"

definition example_open :: win_open_os where
  "example_open = \<lparr>wo_calloc = True, wo_CreateFile = (\<lambda>_ _. None), wo_GetFileSize = (\<lambda>_. None), wo_SetEndOfFile = (\<lambda>f. (True, f)),
     wo_SetFileValidData = (\<lambda>f _. f)\<rparr>"

definition example_round :: "u32 option \<Rightarrow> round_os" where
  "example_round ctrl = \<lparr>ro_ctrl = ctrl, ro_driver = (\<lambda>d. d), ro_tick = 5000, ro_DeviceIoControl = io_manager example_ios,
     ro_wait = WAIT_TIMEOUT, ro_win = win_all_ok\<rparr>"

definition example_service_os :: service_os where
  "example_service_os = \<lparr>so_wide = (\<lambda>old txt. map (\<lambda>c. of_nat (of_char c)) txt), so_log_opened = True, so_CreateFile = 4,
     so_DeviceIoControl = io_manager example_ios, so_calloc = True, so_VirtualAlloc = (\<lambda>_. True), so_win = win_all_ok,
     so_open = example_open, so_malloc = True, so_tick = 0, so_round = (\<lambda>_. example_round None)\<rparr>"

theorem service_never_starts_witness:
  "\<exists>s'. main_v2 example_service_os [''vnvme-server'', ''--direct-io''] (service_initial example_shm_driver) = Some (1, s')
    \<and> \<not> driver_user_ready (s_Driver s')"
proof -
  have "\<exists>c. ConfigParseArgs (so_wide example_service_os) [''vnvme-server'', ''--direct-io''] = Some (Parsed True c)"
    by (simp add: ConfigParseArgs_def config_arg_def)
  then obtain c where "ConfigParseArgs (so_wide example_service_os) [''vnvme-server'', ''--direct-io''] = Some (Parsed True c)" ..
  from service_never_starts [OF _ this, of "service_initial example_shm_driver"] show ?thesis
    by (simp add: example_service_os_def io_manager.buffered_device_axioms service_initial_def driver_user_ready_def
        example_shm_driver_def initial_FDO_def)
qed

section \<open>The main loop ends\<close>

text \<open>The shared memory at the mapped address is one that a poll can work on.\<close>

definition pollable :: "u64 \<Rightarrow> CMD_ENGINE_CONTEXT \<Rightarrow> vnvme_driver \<Rightarrow> bool" where
  "pollable a e d \<longleftrightarrow> (\<exists>m. user_view d a = Some m \<and> engine_ok e m
     \<and> (\<forall>n\<in>set (notify_items m (eng_ring m)). admin_entry n \<longrightarrow> ne_Index n < qd_Capacity m cb_AdminSQ))"

definition serving :: "u64 \<Rightarrow> SERVICE \<Rightarrow> bool" where
  "serving a s \<longleftrightarrow> (\<exists>e. s_CmdEngine s = Some e \<and> pollable a e (s_Driver s))
     \<and> sc_userAddress (dc_shm (s_DriverCtx s)) = a \<and> sc_controlBlock (dc_shm (s_DriverCtx s)) = a"

lemma user_view_store: "user_view d a = Some m \<Longrightarrow> user_view (user_store m' d) a = Some m'"
  by (auto simp: user_view_def user_store_def split: option.splits if_splits)

lemma wait_keeps_shm: "dc_shm (snd (DriverWaitForCommand w pCtx)) = dc_shm pCtx"
  by (simp add: DriverWaitForCommand_def split: wait_result.split)

text \<open>A poll on such a memory returns, and leaves such a memory with nothing left to do.\<close>

lemma poll_returns:
  assumes "engine_ok e m" "\<forall>n\<in>set (notify_items m (eng_ring m)). admin_entry n \<longrightarrow> ne_Index n < qd_Capacity m cb_AdminSQ"
  shows "\<exists>processed e' m'. CmdEnginePoll os e m = Some (processed, e', m') \<and> engine_ok e' m' \<and> notify_items m' (eng_ring m') = []"
proof -
  let ?r = "eng_ring m"
  let ?hd = "rd32 m (?r + nr_Head)" and ?tl = "rd32 m (?r + nr_Tail)"
  have idx: "?hd < 256" "?tl < 256" using assms(1) by (simp_all add: engine_ok_def)
  obtain n p1 m1 rs where loop: "poll_ring_loop os ?r ?tl ?hd 0 e m = Some (?tl, n, p1, m1)" "eng_answered e m rs p1 m1"
    using poll_ring_loop_answers [OF assms(1) idx refl _ refl, of os 0] assms(2)
    unfolding notify_items_def ring_entries_def by blast
  note cap = eng_answered_capacity [OF assms(1) loop(2)]
  obtain f stats where run: "CmdEnginePoll os e m = Some (n, upd_estats f p1, poll_epilogue ?r ?tl stats m1)"
    using CmdEnginePoll_epilogue [OF assms(1) loop(1)] by blast
  note fin = poll_epilogue_ok [OF cap(3) idx(2), of stats, unfolded cap(2)]
  have "rd32 (poll_epilogue ?r ?tl stats m1) (?r + nr_Tail) = ?tl"
    unfolding fin(7) by (rule eng_reads(6) [OF assms(1) cap(4)])
  then have "notify_items (poll_epilogue ?r ?tl stats m1) ?r = []"
    by (simp add: notify_items_def fin(6) [simplified] ring_list_def ring_dist_def)
  with run fin(1,5) cap(2) show ?thesis by simp
qed

lemma poll_engine_serves:
  assumes "serving a s"
  shows "\<exists>processed s'. poll_engine os s = Some (processed, s') \<and> serving a s' \<and> s_Running s' = s_Running s
    \<and> s_DriverCtx s' = s_DriverCtx s"
proof -
  obtain e m where e: "s_CmdEngine s = Some e" "user_view (s_Driver s) a = Some m" "engine_ok e m"
      "\<forall>n\<in>set (notify_items m (eng_ring m)). admin_entry n \<longrightarrow> ne_Index n < qd_Capacity m cb_AdminSQ"
      "sc_userAddress (dc_shm (s_DriverCtx s)) = a" "sc_controlBlock (dc_shm (s_DriverCtx s)) = a"
    using assms by (auto simp: serving_def pollable_def)
  obtain processed e' m' where poll: "CmdEnginePoll os e m = Some (processed, e', m')" "engine_ok e' m'" "notify_items m' (eng_ring m') = []"
    using poll_returns [OF e(3,4)] by blast
  then have "pollable a e' (user_store m' (s_Driver s))"
    using user_view_store [OF e(2)] by (auto simp: pollable_def)
  with e poll(1) show ?thesis by (simp add: poll_engine_def serving_def)
qed

lemma main_round_serves:
  assumes "buffered_device (ro_DeviceIoControl os)" "serving a s"
  shows "\<exists>processed lh' s'. main_round os lh s = Some (processed, lh', s') \<and> serving a s' \<and> s_Running s' = s_Running s"
proof -
  obtain processed s1 where poll: "poll_engine (ro_win os) s = Some (processed, s1)" "serving a s1" "s_Running s1 = s_Running s"
    using poll_engine_serves [OF assms(2)] by blast
  let ?s = "if processed = 0 then s1\<lparr>s_DriverCtx := snd (DriverWaitForCommand (ro_wait os) (s_DriverCtx s1))\<rparr> else s1"
  have "\<exists>lh'. main_round os lh s = Some (processed, lh', ?s)"
    using poll(1) by (simp add: main_round_def buffered_device.heartbeat_refused [OF assms(1)])
  moreover have "serving a ?s" using poll(2) by (simp add: serving_def wait_keeps_shm)
  ultimately show ?thesis using poll(3) by auto
qed

lemma GetCommandEvent_view: "user_view (res_Driver (VnvmeHandleGetCommandEvent os rq d)) = user_view d"
  by (auto simp: VnvmeHandleGetCommandEvent_def refused_def answered_def user_view_def split: option.splits if_splits prod.splits)

lemma completed_driver: "\<exists>ok out'. completed out r = (ok, out', res_Driver r)"
  by (auto simp: completed_def Let_def)

lemma command_event_keeps_view:
  assumes "buffered_device dio"
  shows "\<exists>ok pCtx' d'. DriverGetCommandEvent dio pCtx d = Some (ok, pCtx', d') \<and> dc_shm pCtx' = dc_shm pCtx
    \<and> user_view d' = user_view d"
proof -
  have "\<exists>ok out d'. dio h IOCTL_VNVME_GET_COMMAND_EVENT [] (replicate 8 0) d = Some (ok, out, d') \<and> user_view d' = user_view d" for h
  proof -
    consider "dio h IOCTL_VNVME_GET_COMMAND_EVENT [] (replicate 8 0) d = Some (False, replicate 8 0, d)"
      | os rq where "dio h IOCTL_VNVME_GET_COMMAND_EVENT [] (replicate 8 0) d
          = Some (completed (replicate 8 0) (VnvmeHandleGetCommandEvent os rq d))"
      using buffered_device.device_io [OF assms, of h IOCTL_VNVME_GET_COMMAND_EVENT "[]" "replicate 8 0" d] by (auto simp: dispatch)
    then show ?thesis
    proof cases
      case (2 os rq)
      with completed_driver [of "replicate 8 0" "VnvmeHandleGetCommandEvent os rq d"] show ?thesis by (auto simp: GetCommandEvent_view)
    qed auto
  qed
  from this [of "dc_deviceHandle pCtx"] show ?thesis by (auto simp: DriverGetCommandEvent_def Let_def)
qed

text \<open>One complete round, and \<open>j\<close> complete rounds from the round \<open>k\<close> on. A round is complete when the service is still running before
  it, no shutdown is requested, and its work is done.\<close>

definition loop_round :: "round_os \<Rightarrow> u32 \<times> u64 \<times> SERVICE \<Rightarrow> (u32 \<times> u64 \<times> SERVICE) option" where
  "loop_round os = (\<lambda>(lh, total, s).
     let s = before_round os s
     in if s_Running s \<and> DriverIsShutdownRequested (s_DriverCtx s) (s_Driver s) = Some False
        then main_round os lh s \<bind> (\<lambda>(processed, lh, s). Some (lh, total + processed, s)) else None)"

fun rounds_from :: "(nat \<Rightarrow> round_os) \<Rightarrow> nat \<Rightarrow> nat \<Rightarrow> u32 \<times> u64 \<times> SERVICE \<Rightarrow> (u32 \<times> u64 \<times> SERVICE) option" where
  "rounds_from os k 0 x = Some x"
| "rounds_from os k (Suc j) x = loop_round (os k) x \<bind> rounds_from os (Suc k) j"

text \<open>Before this round the service is told to stop.\<close>

definition stops_before :: "round_os \<Rightarrow> SERVICE \<Rightarrow> bool" where
  "stops_before os s \<longleftrightarrow> (let s = before_round os s
     in \<not> s_Running s \<or> DriverIsShutdownRequested (s_DriverCtx s) (s_Driver s) = Some True)"

abbreviation (input) console_stop :: "u32 option \<Rightarrow> bool" where
  "console_stop e \<equiv> e \<in> {Some CTRL_C_EVENT, Some CTRL_BREAK_EVENT, Some CTRL_CLOSE_EVENT}"

lemma not_running_eq: "\<not> s_Running s \<Longrightarrow> s\<lparr>s_Running := False\<rparr> = s"
  by (cases s) simp

lemma main_loop_stops:
  assumes "\<forall>k. buffered_device (ro_DeviceIoControl (os k))" "\<forall>k e d. pollable a e d \<longrightarrow> pollable a e (ro_driver (os k) d)"
    and "console_stop (ro_ctrl (os n))" "k \<le> n" "serving a s"
  shows "\<exists>j lh' total s'. k + j \<le> n \<and> rounds_from os k j (lh, tot, s) = Some (lh', total, s') \<and> stops_before (os (k + j)) s'
    \<and> main_loop os k lh tot s = Some (total, (before_round (os (k + j)) s')\<lparr>s_Running := False\<rparr>)"
  using assms(4,5)
proof (induction "n - k" arbitrary: k lh tot s)
  case 0
  then have "\<not> s_Running (before_round (os k) s)"
    using assms(3) by (auto simp: before_round_def ConsoleCtrlHandler_def Let_def)
  then show ?case
    using 0 by (subst main_loop.simps) (auto simp: Let_def stops_before_def not_running_eq intro!: exI [of _ "0 :: nat"])
next
  case (Suc i)
  let ?s = "before_round (os k) s"
  have s: "serving a ?s"
    using Suc.prems(2) assms(2) by (auto simp: serving_def before_round_def ConsoleCtrlHandler_def Let_def split: option.split)
  then obtain requested where flag: "DriverIsShutdownRequested (s_DriverCtx ?s) (s_Driver ?s) = Some requested"
    by (cases "sc_controlBlock (dc_shm (s_DriverCtx ?s)) = 0") (auto simp: serving_def pollable_def DriverIsShutdownRequested_def)
  show ?case
  proof (cases "s_Running ?s \<and> \<not> requested")
    case False
    with flag Suc.prems(1) show ?thesis
      by (subst main_loop.simps) (auto simp: Let_def stops_before_def not_running_eq intro!: exI [of _ "0 :: nat"])
  next
    case True
    obtain processed lh1 s1 where round: "main_round (os k) lh ?s = Some (processed, lh1, s1)" "serving a s1"
      using main_round_serves [OF spec [OF assms(1)] s] by blast
    have less: "i = n - Suc k" "Suc k \<le> n" "serving a s1" using Suc.hyps(2) round(2) by auto
    obtain j lh' total s' where rest: "Suc k + j \<le> n" "rounds_from os (Suc k) j (lh1, tot + processed, s1) = Some (lh', total, s')"
      "stops_before (os (Suc k + j)) s'"
      "main_loop os (Suc k) lh1 (tot + processed) s1 = Some (total, (before_round (os (Suc k + j)) s')\<lparr>s_Running := False\<rparr>)"
      using Suc.hyps(1) [of "Suc k" s1 lh1 "tot + processed", OF less] by blast
    have "main_loop os k lh tot s = Some (total, (before_round (os (Suc k + j)) s')\<lparr>s_Running := False\<rparr>)"
      by (subst main_loop.simps) (use True flag round(1) rest(4) in \<open>simp add: Let_def\<close>)
    moreover have "rounds_from os k (Suc j) (lh, tot, s) = Some (lh', total, s')"
      using True flag round(1) rest(2) by (simp add: loop_round_def Let_def)
    ultimately show ?thesis
      using rest(1,3) by (intro exI [of _ "Suc j"]) auto
  qed
qed

text \<open>C14: the main loop of a started service returns, in the right round. A console event (Ctrl-C, Ctrl-Break or close) arrives before round
  \<open>n\<close>, counted from 0; whatever the driver does between the rounds keeps the shared memory in
  order. Then \<open>k\<close> rounds with \<open>k \<le> n\<close> are done completely, none of them stuck, and before the next one the service is told to stop, by a console
  event or by the driver's shutdown flag. The loop ends there: no part of that round is done, the state is the one before
  it with the service no longer running, the total is that of the \<open>k\<close> rounds, and the back end is flushed once.\<close>

theorem MainLoop_stops:
  assumes "buffered_device dio" "\<forall>k. buffered_device (ro_DeviceIoControl (os k))"
    and "\<forall>k e d. pollable a e d \<longrightarrow> pollable a e (ro_driver (os k) d)"
    and "serving a s" "ro_ctrl (os n) \<in> {Some CTRL_C_EVENT, Some CTRL_BREAK_EVENT, Some CTRL_CLOSE_EVENT}"
  shows "\<exists>ok pCtx d k lh total s1 s'. DriverGetCommandEvent dio (s_DriverCtx s) (s_Driver s) = Some (ok, pCtx, d)
    \<and> k \<le> n \<and> rounds_from os 0 k (tick, 0, s\<lparr>s_DriverCtx := pCtx, s_Driver := d\<rparr>) = Some (lh, total, s1)
    \<and> stops_before (os k) s1 \<and> s' = (before_round (os k) s1)\<lparr>s_Running := False\<rparr>
    \<and> MainLoop dio tick win os s = Some (total, s_Backend s' \<noteq> None \<and> BackendFlush win (s_Backend s'), s')"
proof -
  obtain ok pCtx d where event: "DriverGetCommandEvent dio (s_DriverCtx s) (s_Driver s) = Some (ok, pCtx, d)"
      "dc_shm pCtx = dc_shm (s_DriverCtx s)" "user_view d = user_view (s_Driver s)"
    using command_event_keeps_view [OF assms(1)] by blast
  have "serving a (s\<lparr>s_DriverCtx := pCtx, s_Driver := d\<rparr>)"
    using assms(4) event(2,3) by (simp add: serving_def pollable_def)
  from main_loop_stops [OF assms(2,3,5) le0 this, of tick 0] obtain k lh total s1 where
    "k \<le> n" "rounds_from os 0 k (tick, 0, s\<lparr>s_DriverCtx := pCtx, s_Driver := d\<rparr>) = Some (lh, total, s1)" "stops_before (os k) s1"
    "main_loop os 0 tick 0 (s\<lparr>s_DriverCtx := pCtx, s_Driver := d\<rparr>) = Some (total, (before_round (os k) s1)\<lparr>s_Running := False\<rparr>)"
    by auto
  moreover from this(4) event(1) have "MainLoop dio tick win os s = Some (total,
      s_Backend ((before_round (os k) s1)\<lparr>s_Running := False\<rparr>) \<noteq> None
        \<and> BackendFlush win (s_Backend ((before_round (os k) s1)\<lparr>s_Running := False\<rparr>)), (before_round (os k) s1)\<lparr>s_Running := False\<rparr>)"
    by (simp add: MainLoop_def)
  ultimately show ?thesis using event(1) by blast
qed

text \<open>A service on freshly allocated shared memory that is mapped at address 4096, stopped before the fourth round.\<close>

definition example_started :: SERVICE where
  "example_started = (service_initial (example_shm_driver\<lparr>drv_Fdo := Some ((initial_FDO 0)\<lparr>fd_Context :=
       (fd_Context (initial_FDO 0))\<lparr>fdo_ShmKernelVirtAddr := Some (shm_initial (\<lambda>_. 0)), fdo_ShmUserVirtAddr := Some 4096\<rparr>\<rparr>)\<rparr>))
     \<lparr>s_CmdEngine := Some example_engine, s_DriverCtx := zero_DRIVER_COMM_CONTEXT\<lparr>dc_deviceHandle := 4,
       dc_shm := zero_SHM_CONTEXT\<lparr>sc_userAddress := 4096, sc_controlBlock := 4096\<rparr>\<rparr>\<rparr>"

lemma example_started_serving: "serving 4096 example_started"
proof -
  have "notify_items (shm_initial (\<lambda>_. 0)) (eng_ring (shm_initial (\<lambda>_. 0))) = []"
    by (simp add: notify_items_def eng_ring_def shm_initial_fields ring_list_def ring_dist_def)
  then show ?thesis
    using started_engine_ok [OF example_engine_started]
    by (simp add: serving_def pollable_def example_started_def service_initial_def user_view_def)
qed

theorem MainLoop_stops_witness:
  "\<exists>k total flushed s'. k \<le> (3 :: nat) \<and> \<not> s_Running s'
     \<and> MainLoop (io_manager example_ios) 0 win_all_ok (\<lambda>k. example_round (if k = 3 then Some 0 else None)) example_started
         = Some (total, flushed, s')"
proof -
  let ?os = "\<lambda>k. example_round (if k = (3 :: nat) then Some 0 else None)"
  have "\<forall>k. buffered_device (ro_DeviceIoControl (?os k))" "\<forall>k e d. pollable 4096 e d \<longrightarrow> pollable 4096 e (ro_driver (?os k) d)"
    "ro_ctrl (?os 3) \<in> {Some CTRL_C_EVENT, Some CTRL_BREAK_EVENT, Some CTRL_CLOSE_EVENT}"
    by (simp_all add: example_round_def io_manager.buffered_device_axioms)
  from MainLoop_stops [OF io_manager.buffered_device_axioms this(1,2) example_started_serving this(3), of example_ios 0 win_all_ok]
  show ?thesis by fastforce
qed

end
