(* ===== verification/Vnvme_Layout.thy ===== *)
theory Vnvme_Layout
  imports Vnvme_Prelude
begin

text \<open>
  How a C compiler lays out the structures of \<^verbatim>\<open>src/include\<close>. A type is described by its members in the order of the
  declaration; size, alignment and the position of every member follow from the description by the rules of the compiler the project
  is built with (\<^verbatim>\<open>#pragma pack\<close> bounds the alignment; consecutive bit-fields of one declared size share a
  storage unit, from its low bits on). Positions are in bits, so that bit-fields and plain members are treated alike. The
  lemmas hold for every described type: members stay inside their structure, and a member can be read back after it is written.
\<close>

section \<open>Types\<close>

text \<open>A scalar of \<open>n\<close> bytes, an array, a structure or a union. \<open>Bits f u w\<close> is a bit-field of \<open>w\<close> bits declared with a type of
  \<open>u\<close> bytes. A nameless structure inside a union has the empty name.\<close>

datatype ctype =
    Scalar nat
  | Arr nat ctype
  | Struct "cmember list"
  | Union "cmember list"
and cmember =
    Member string ctype
  | Bits string nat nat

abbreviation (input) UINT8 :: ctype where "UINT8 \<equiv> Scalar 1"
abbreviation (input) UINT16 :: ctype where "UINT16 \<equiv> Scalar 2"
abbreviation (input) UINT32 :: ctype where "UINT32 \<equiv> Scalar 4"
abbreviation (input) UINT64 :: ctype where "UINT64 \<equiv> Scalar 8"
abbreviation (input) CHAR8 :: ctype where "CHAR8 \<equiv> Scalar 1"
abbreviation (input) WCHAR :: ctype where "WCHAR \<equiv> Scalar 2"
abbreviation (input) PVOID :: ctype where "PVOID \<equiv> Scalar 8"

fun member_name :: "cmember \<Rightarrow> string" where
  "member_name (Member f t) = f"
| "member_name (Bits f u w) = f"

text \<open>\<open>p\<close> is the value of \<^verbatim>\<open>#pragma pack\<close>.\<close>

definition align_up :: "nat \<Rightarrow> nat \<Rightarrow> nat" where
  "align_up n a = (n + (a - 1)) div a * a"

fun alignof :: "nat \<Rightarrow> ctype \<Rightarrow> nat" and members_align :: "nat \<Rightarrow> cmember list \<Rightarrow> nat" where
  "alignof p (Scalar n) = min p n"
| "alignof p (Arr n t) = alignof p t"
| "alignof p (Struct ms) = members_align p ms"
| "alignof p (Union ms) = members_align p ms"
| "members_align p [] = 1"
| "members_align p (Member f t # ms) = max (alignof p t) (members_align p ms)"
| "members_align p (Bits f u w # ms) = max (min p u) (members_align p ms)"

text \<open>While the members of a structure are placed, \<open>(pos, unit, used)\<close> is the next free byte and, when \<open>unit\<close> is not zero, the size of the
  storage unit that ends at \<open>pos\<close> and still takes bit-fields after its first \<open>used\<close> bits.\<close>

type_synonym cursor = "nat \<times> nat \<times> nat"

fun shares_unit :: "nat \<Rightarrow> nat \<Rightarrow> cursor \<Rightarrow> bool" where
  "shares_unit u w (pos, unit, used) \<longleftrightarrow> unit = u \<and> used + w \<le> 8 * u"

fun bits_at :: "nat \<Rightarrow> nat \<Rightarrow> nat \<Rightarrow> cursor \<Rightarrow> nat" where
  "bits_at p u w (pos, unit, used) =
     (if shares_unit u w (pos, unit, used) then 8 * (pos - u) + used else 8 * align_up pos (min p u))"

fun after_bits :: "nat \<Rightarrow> nat \<Rightarrow> nat \<Rightarrow> cursor \<Rightarrow> cursor" where
  "after_bits p u w (pos, unit, used) =
     (if shares_unit u w (pos, unit, used) then (pos, u, used + w) else (align_up pos (min p u) + u, u, w))"

fun sizeof :: "nat \<Rightarrow> ctype \<Rightarrow> nat"
  and extent :: "nat \<Rightarrow> cmember list \<Rightarrow> cursor \<Rightarrow> nat"
  and widest :: "nat \<Rightarrow> cmember list \<Rightarrow> nat"
where
  "sizeof p (Scalar n) = n"
| "sizeof p (Arr n t) = n * sizeof p t"
| "sizeof p (Struct ms) = align_up (extent p ms (0, 0, 0)) (members_align p ms)"
| "sizeof p (Union ms) = align_up (widest p ms) (members_align p ms)"
| "extent p [] (pos, unit, used) = pos"
| "extent p (Member f t # ms) (pos, unit, used) = extent p ms (align_up pos (alignof p t) + sizeof p t, 0, 0)"
| "extent p (Bits f u w # ms) c = extent p ms (after_bits p u w c)"
| "widest p [] = 0"
| "widest p (Member f t # ms) = max (sizeof p t) (widest p ms)"
| "widest p (Bits f u w # ms) = max u (widest p ms)"

text \<open>A designator selects members and elements one after the other; \<open>lookup\<close> gives the position and the width in bits of what it
  designates, counted from the start of the object.\<close>

datatype selector = Fld string | Idx nat

definition moved :: "nat \<Rightarrow> (nat \<times> nat) option \<Rightarrow> (nat \<times> nat) option" where
  "moved d = map_option (\<lambda>(a, w). (8 * d + a, w))"

fun lookup :: "nat \<Rightarrow> ctype \<Rightarrow> selector list \<Rightarrow> (nat \<times> nat) option"
  and lookup_struct :: "nat \<Rightarrow> cmember list \<Rightarrow> cursor \<Rightarrow> string \<Rightarrow> selector list \<Rightarrow> (nat \<times> nat) option"
  and lookup_union :: "nat \<Rightarrow> cmember list \<Rightarrow> string \<Rightarrow> selector list \<Rightarrow> (nat \<times> nat) option"
where
  "lookup p t [] = Some (0, 8 * sizeof p t)"
| "lookup p (Scalar n) (s # xs) = None"
| "lookup p (Arr n t) (Idx i # xs) = (if i < n then moved (i * sizeof p t) (lookup p t xs) else None)"
| "lookup p (Arr n t) (Fld f # xs) = None"
| "lookup p (Struct ms) (Fld f # xs) = lookup_struct p ms (0, 0, 0) f xs"
| "lookup p (Struct ms) (Idx i # xs) = None"
| "lookup p (Union ms) (Fld f # xs) = lookup_union p ms f xs"
| "lookup p (Union ms) (Idx i # xs) = None"
| "lookup_struct p [] c f xs = None"
| "lookup_struct p (Member g t # ms) (pos, unit, used) f xs =
     (let a = align_up pos (alignof p t)
      in if f = g then moved a (lookup p t xs) else lookup_struct p ms (a + sizeof p t, 0, 0) f xs)"
| "lookup_struct p (Bits g u w # ms) c f xs =
     (if f = g then (if xs = [] then Some (bits_at p u w c, w) else None)
      else lookup_struct p ms (after_bits p u w c) f xs)"
| "lookup_union p [] f xs = None"
| "lookup_union p (Member g t # ms) f xs = (if f = g then lookup p t xs else lookup_union p ms f xs)"
| "lookup_union p (Bits g u w # ms) f xs =
     (if f = g then (if xs = [] then Some (0, w) else None) else lookup_union p ms f xs)"

section \<open>Members stay inside\<close>

text \<open>What a declaration has to satisfy: no empty scalar, bit-fields that fit their type, names used once.\<close>

fun wf_type :: "ctype \<Rightarrow> bool" and wf_members :: "cmember list \<Rightarrow> bool" where
  "wf_type (Scalar n) \<longleftrightarrow> 0 < n"
| "wf_type (Arr n t) \<longleftrightarrow> wf_type t"
| "wf_type (Struct ms) \<longleftrightarrow> distinct (map member_name ms) \<and> wf_members ms"
| "wf_type (Union ms) \<longleftrightarrow> distinct (map member_name ms) \<and> wf_members ms"
| "wf_members [] \<longleftrightarrow> True"
| "wf_members (Member f t # ms) \<longleftrightarrow> wf_type t \<and> wf_members ms"
| "wf_members (Bits f u w # ms) \<longleftrightarrow> 0 < w \<and> w \<le> 8 * u \<and> wf_members ms"

fun cursor_ok :: "cursor \<Rightarrow> bool" where
  "cursor_ok (pos, unit, used) \<longleftrightarrow> unit \<le> pos \<and> used \<le> 8 * unit"

fun first_free :: "cursor \<Rightarrow> nat" where
  "first_free (pos, unit, used) = 8 * (pos - unit) + used"

lemma align_up_ge: "0 < a \<Longrightarrow> n \<le> align_up n a"
proof -
  assume "0 < a"
  then have "(n + (a - 1)) mod a < a" by (rule mod_less_divisor)
  with \<open>0 < a\<close> show ?thesis
    unfolding align_up_def
    using div_mult_mod_eq [of "n + (a - 1)" a] by linarith
qed

lemma align_up_1 [simp]: "align_up n (Suc 0) = n"
  by (simp add: align_up_def)

lemma align_up_0 [simp]: "align_up 0 a = 0"
  by (cases "a = 0") (simp_all add: align_up_def)

lemma alignof_pos:
  "0 < p \<Longrightarrow> wf_type t \<Longrightarrow> 0 < alignof p t"
  "0 < p \<Longrightarrow> wf_members ms \<Longrightarrow> 0 < members_align p ms"
  by (induction p t and p ms rule: alignof_members_align.induct) auto

lemma after_bits_cursor:
  assumes "0 < p" "0 < w" "w \<le> 8 * u" "cursor_ok c"
  shows "cursor_ok (after_bits p u w c)"
    and "first_free c \<le> bits_at p u w c"
    and "bits_at p u w c + w \<le> first_free (after_bits p u w c)"
proof -
  obtain pos unit used where c: "c = (pos, unit, used)" by (cases c)
  have "pos \<le> align_up pos (min p u)"
    using assms by (intro align_up_ge) auto
  then show "cursor_ok (after_bits p u w c)" "first_free c \<le> bits_at p u w c"
    "bits_at p u w c + w \<le> first_free (after_bits p u w c)"
    using assms by (auto simp: c)
qed

lemma after_member_cursor:
  assumes "0 < p" "wf_type t" "cursor_ok (pos, unit, used)"
  shows "first_free (pos, unit, used) \<le> 8 * align_up pos (alignof p t)"
proof -
  have "pos \<le> align_up pos (alignof p t)"
    using assms by (intro align_up_ge alignof_pos)
  with assms(3) show ?thesis by auto
qed

lemma first_free_extent:
  "0 < p \<Longrightarrow> wf_members ms \<Longrightarrow> cursor_ok c \<Longrightarrow> first_free c \<le> 8 * extent p ms c"
proof (induction ms arbitrary: c)
  case Nil
  then show ?case by (cases c) auto
next
  case (Cons m ms)
  show ?case
  proof (cases m)
    case (Member f t)
    obtain pos unit used where c: "c = (pos, unit, used)" by (cases c)
    have "first_free c \<le> 8 * align_up pos (alignof p t)"
      using Cons.prems Member unfolding c by (intro after_member_cursor) simp_all
    also have "\<dots> \<le> first_free (align_up pos (alignof p t) + sizeof p t, 0, 0)" by simp
    also have "\<dots> \<le> 8 * extent p ms (align_up pos (alignof p t) + sizeof p t, 0, 0)"
      using Cons.prems Member by (intro Cons.IH) simp_all
    finally show ?thesis by (simp add: Member c)
  next
    case (Bits f u w)
    then have w: "0 < w" "w \<le> 8 * u" "wf_members ms" using Cons.prems by auto
    note step = after_bits_cursor [OF Cons.prems(1) w(1,2) Cons.prems(3)]
    have "first_free c \<le> first_free (after_bits p u w c)"
      using step(2,3) by linarith
    also have "\<dots> \<le> 8 * extent p ms (after_bits p u w c)"
      by (rule Cons.IH [OF Cons.prems(1) w(3) step(1)])
    finally show ?thesis by (simp add: Bits)
  qed
qed

lemma moved_Some: "moved d r = Some (a, w) \<longleftrightarrow> (\<exists>b. r = Some (b, w) \<and> a = 8 * d + b)"
  by (auto simp: moved_def)

lemma lookup_inside:
  "lookup p t xs = Some (a, w) \<Longrightarrow> 0 < p \<Longrightarrow> wf_type t \<Longrightarrow> a + w \<le> 8 * sizeof p t"
  "lookup_struct p ms c f xs = Some (a, w) \<Longrightarrow> 0 < p \<Longrightarrow> wf_members ms \<Longrightarrow> cursor_ok c
     \<Longrightarrow> first_free c \<le> a \<and> a + w \<le> 8 * extent p ms c"
  "lookup_union p ms f xs = Some (a, w) \<Longrightarrow> 0 < p \<Longrightarrow> wf_members ms \<Longrightarrow> a + w \<le> 8 * widest p ms"
proof (induction p t xs and p ms c f xs and p ms f xs arbitrary: a w and a w and a w
    rule: lookup_lookup_struct_lookup_union.induct)
  case (3 p n t i xs)
  then obtain b where b: "i < n" "a = 8 * (i * sizeof p t) + b" "b + w \<le> 8 * sizeof p t"
    by (auto simp: moved_Some split: if_splits)
  have "Suc i * sizeof p t \<le> n * sizeof p t"
    using b(1) by (intro mult_le_mono1) simp
  with b show ?case by simp
next
  case (5 p ms f xs)
  then have "a + w \<le> 8 * extent p ms (0, 0, 0)" by auto
  also have "\<dots> \<le> 8 * sizeof p (Struct ms)"
    using 5 by (simp add: align_up_ge alignof_pos)
  finally show ?case .
next
  case (7 p ms f xs)
  then have "a + w \<le> 8 * widest p ms" by auto
  also have "\<dots> \<le> 8 * sizeof p (Union ms)"
    using 7 by (simp add: align_up_ge alignof_pos)
  finally show ?case .
next
  case (10 p g t ms pos unit used f xs)
  let ?a = "align_up pos (alignof p t)" and ?c = "(align_up pos (alignof p t) + sizeof p t, 0, 0)"
  have le: "first_free (pos, unit, used) \<le> 8 * ?a"
    using 10 by (intro after_member_cursor) simp_all
  have ext: "first_free ?c \<le> 8 * extent p ms ?c"
    using 10 by (intro first_free_extent) simp_all
  show ?case
  proof (cases "f = g")
    case True
    then obtain b where "a = 8 * ?a + b" "b + w \<le> 8 * sizeof p t"
      using 10 by (auto simp: moved_Some Let_def)
    with le ext True show ?thesis by simp
  next
    case False
    then have "first_free ?c \<le> a \<and> a + w \<le> 8 * extent p ms ?c"
      using 10 by (simp add: Let_def)
    with le show ?thesis by simp
  qed
next
  case (11 p g u k ms c f xs)
  note step = after_bits_cursor [of p k u c]
  have ext: "first_free (after_bits p u k c) \<le> 8 * extent p ms (after_bits p u k c)"
    using 11 step by (intro first_free_extent) simp_all
  show ?case
  proof (cases "f = g")
    case True
    then have "a = bits_at p u k c" "w = k" using 11 by (auto split: if_splits)
    then show ?thesis using 11 step ext by (simp add: le_trans)
  next
    case False
    then have "first_free (after_bits p u k c) \<le> a \<and> a + w \<le> 8 * extent p ms (after_bits p u k c)"
      using 11 step by simp
    then show ?thesis using 11 step by (simp add: le_trans)
  qed
next
  case (13 p g t ms f xs)
  then show ?case by (fastforce split: if_splits)
next
  case (14 p g u k ms f xs)
  then show ?case by (fastforce split: if_splits)
qed auto

section \<open>Access\<close>

text \<open>The \<open>w\<close> bits from bit \<open>a\<close> of a little-endian memory, as a number, and storing the low \<open>w\<close> bits of a number there.\<close>

definition mem_bit :: "mem \<Rightarrow> nat \<Rightarrow> bool" where
  "mem_bit m i = bit (m (i div 8)) (i mod 8)"

definition rd_bits :: "mem \<Rightarrow> nat \<Rightarrow> nat \<Rightarrow> nat" where
  "rd_bits m a w = horner_sum of_bool 2 (map (\<lambda>i. mem_bit m (a + i)) [0..<w])"

definition wr_bits :: "nat \<Rightarrow> nat \<Rightarrow> nat \<Rightarrow> mem \<Rightarrow> mem" where
  "wr_bits a w v m = (\<lambda>x. horner_sum of_bool 2
     (map (\<lambda>k. if a \<le> 8 * x + k \<and> 8 * x + k < a + w then bit v (8 * x + k - a) else bit (m x) k) [0..<8]))"

lemma bit_rd_bits: "bit (rd_bits m a w) i \<longleftrightarrow> i < w \<and> mem_bit m (a + i)"
  unfolding rd_bits_def bit_horner_sum_bit_iff by auto

lemma rd_bits_eqI: "(\<And>i. i < w \<Longrightarrow> mem_bit m (a + i) = bit (v :: nat) i) \<Longrightarrow> (\<And>i. bit v i \<Longrightarrow> i < w) \<Longrightarrow> rd_bits m a w = v"
  by (rule bit_eqI) (auto simp: bit_rd_bits)

lemma bit_wr_bits:
  "bit (wr_bits a w v m x) k \<longleftrightarrow> k < 8 \<and>
     (if a \<le> 8 * x + k \<and> 8 * x + k < a + w then bit v (8 * x + k - a) else bit (m x) k)"
  unfolding wr_bits_def bit_horner_sum_bit_iff by auto

lemma mem_bit_wr_bits: "mem_bit (wr_bits a w v m) i = (if a \<le> i \<and> i < a + w then bit v (i - a) else mem_bit m i)"
  by (simp add: mem_bit_def bit_wr_bits)

lemma rd_wr_bits: "rd_bits (wr_bits a w v m) a w = take_bit w v"
  by (rule rd_bits_eqI) (auto simp: mem_bit_wr_bits bit_take_bit_iff)

lemma wr_bits_outside: "8 * x + 8 \<le> a \<or> a + w \<le> 8 * x \<Longrightarrow> wr_bits a w v m x = m x"
  by (rule bit_word_eqI) (auto simp: bit_wr_bits)

subsection \<open>Bit positions and the little-endian readers\<close>

lemma bit_byte_at: "bit (m a) i \<longleftrightarrow> i < 8 \<and> mem_bit m (8 * a + i)" for m :: mem
proof (cases "i < 8")
  case True
  then show ?thesis by (simp add: mem_bit_def)
next
  case False
  then show ?thesis using bit_imp_le_length [of "m a" i] by auto
qed

lemma bit_rd16: "bit (rd16 m a) i \<longleftrightarrow> i < 16 \<and> mem_bit m (8 * a + i)"
proof -
  have "bit (rd16 m a) i \<longleftrightarrow> i < 16 \<and> (bit (m a) i \<or> 8 \<le> i \<and> bit (m (a + 1)) (i - 8))"
    by (auto simp: rd16_def bit_or_iff bit_push_bit_iff bit_ucast_iff)
  then show ?thesis
    unfolding bit_byte_at [of m a] bit_byte_at [of m "a + 1"] by (auto simp: add.commute)
qed

lemma bit_rd32: "bit (rd32 m a) i \<longleftrightarrow> i < 32 \<and> mem_bit m (8 * a + i)"
  unfolding rd32_def
  by (auto simp: bit_or_iff bit_push_bit_iff bit_ucast_iff bit_rd16 add.commute)

lemma bit_rd64: "bit (rd64 m a) i \<longleftrightarrow> i < 64 \<and> mem_bit m (8 * a + i)"
  unfolding rd64_def
  by (auto simp: bit_or_iff bit_push_bit_iff bit_ucast_iff bit_rd32 add.commute)

lemma rd_bits_plain:
  "rd_bits m (8 * a) 8 = unat (m a)" "rd_bits m (8 * a) 16 = unat (rd16 m a)"
  "rd_bits m (8 * a) 32 = unat (rd32 m a)" "rd_bits m (8 * a) 64 = unat (rd64 m a)"
  by (rule rd_bits_eqI; simp add: bit_unsigned_iff bit_rd16 bit_rd32 bit_rd64 bit_byte_at [of m a])+

lemma rd_bits_field:
  "k + w \<le> 8 \<Longrightarrow> rd_bits m (8 * a + k) w = unat (take_bit w (drop_bit k (m a)))"
  "k + w \<le> 32 \<Longrightarrow> rd_bits m (8 * a + k) w = unat (take_bit w (drop_bit k (rd32 m a)))"
  "k + w \<le> 64 \<Longrightarrow> rd_bits m (8 * a + k) w = unat (take_bit w (drop_bit k (rd64 m a)))"
  by (rule rd_bits_eqI;
      auto simp: bit_unsigned_iff bit_take_bit_iff bit_drop_bit_eq bit_rd32 bit_rd64 bit_byte_at [of m a] add.assoc)+

section \<open>Typed access\<close>

text \<open>The headers are compiled with \<^verbatim>\<open>#pragma pack(push, 1)\<close>.\<close>

definition fetch :: "ctype \<Rightarrow> selector list \<Rightarrow> mem \<Rightarrow> nat \<Rightarrow> nat option" where
  "fetch t xs m base = map_option (\<lambda>(a, w). rd_bits m (8 * base + a) w) (lookup 1 t xs)"

definition store :: "ctype \<Rightarrow> selector list \<Rightarrow> nat \<Rightarrow> nat \<Rightarrow> mem \<Rightarrow> mem" where
  "store t xs v base m = (case lookup 1 t xs of None \<Rightarrow> m | Some (a, w) \<Rightarrow> wr_bits (8 * base + a) w v m)"

lemma fetch_store:
  "lookup 1 t xs = Some (a, w) \<Longrightarrow> fetch t xs (store t xs v base m) base = Some (take_bit w v)"
  by (simp add: fetch_def store_def rd_wr_bits)

lemma store_outside:
  assumes "wf_type t" "x < base \<or> base + sizeof 1 t \<le> x"
  shows "store t xs v base m x = m x"
proof (cases "lookup 1 t xs")
  case (Some r)
  then obtain a w where aw: "lookup 1 t xs = Some (a, w)" by (cases r) auto
  have "a + w \<le> 8 * sizeof 1 t"
    by (rule lookup_inside(1) [OF aw zero_less_one assms(1)])
  then show ?thesis
    using assms(2) aw by (auto simp: store_def intro!: wr_bits_outside)
qed (simp add: store_def)

text \<open>The direct members of a structure with their positions, in one pass.\<close>

fun placed :: "nat \<Rightarrow> cmember list \<Rightarrow> cursor \<Rightarrow> (string \<times> nat \<times> nat) list" where
  "placed p [] c = []"
| "placed p (Member f t # ms) (pos, unit, used) =
     (let a = align_up pos (alignof p t) in (f, 8 * a, 8 * sizeof p t) # placed p ms (a + sizeof p t, 0, 0))"
| "placed p (Bits f u w # ms) c = (f, bits_at p u w c, w) # placed p ms (after_bits p u w c)"

lemma lookup_placed: "lookup_struct p ms c f [] = map_of (placed p ms c) f"
  by (induction p ms c rule: placed.induct) (auto simp: moved_def Let_def)

text \<open>A structure whose comments give the offset of each member: the offsets the comments state and the members.\<close>

definition documented :: "(nat \<times> cmember) list \<Rightarrow> bool" where
  "documented ds \<longleftrightarrow> map (\<lambda>(d, m). (member_name m, 8 * d)) ds = map (\<lambda>(f, a, w). (f, a)) (placed 1 (map snd ds) (0, 0, 0))"

lemma rd_bits_at:
  assumes "k mod 8 = 0"
  shows "rd_bits m (8 * a + k) 8 = unat (m (a + k div 8))" "rd_bits m (8 * a + k) 16 = unat (rd16 m (a + k div 8))"
    "rd_bits m (8 * a + k) 32 = unat (rd32 m (a + k div 8))" "rd_bits m (8 * a + k) 64 = unat (rd64 m (a + k div 8))"
proof -
  have "8 * a + k = 8 * (a + k div 8)"
    using assms by presburger
  then show "rd_bits m (8 * a + k) 8 = unat (m (a + k div 8))" "rd_bits m (8 * a + k) 16 = unat (rd16 m (a + k div 8))"
    "rd_bits m (8 * a + k) 32 = unat (rd32 m (a + k div 8))" "rd_bits m (8 * a + k) 64 = unat (rd64 m (a + k div 8))"
    by (simp_all only: rd_bits_plain)
qed

lemma rd_bits_in_byte:
  "k mod 8 + w \<le> 8 \<Longrightarrow> rd_bits m (8 * a + k) w = unat (take_bit w (drop_bit (k mod 8) (m (a + k div 8))))"
  using rd_bits_field(1) [of "k mod 8" w m "a + k div 8"] by (simp add: algebra_simps)

lemma mem_bit_at: "r < 8 \<Longrightarrow> mem_bit m (8 * q + r) = bit (m q) r"
  by (simp add: mem_bit_def)

lemma mem_bit_wr16: "mem_bit (wr16 a v m) i = (if 8 * a \<le> i \<and> i < 8 * a + 16 then bit v (i - 8 * a) else mem_bit m i)"
proof -
  define q r where "q = i div 8" and "r = i mod 8"
  then have i: "i = 8 * q + r" and r: "r < 8" by simp_all
  consider "q = a" | "q = a + 1" | "q < a" | "a + 1 < q" by linarith
  then show ?thesis
    unfolding i mem_bit_at [OF r] wr16_at by cases (use r in \<open>simp_all add: bit_ucast_iff bit_drop_bit_eq\<close>)
qed

lemma mem_bit_wr32: "mem_bit (wr32 a v m) i = (if 8 * a \<le> i \<and> i < 8 * a + 32 then bit v (i - 8 * a) else mem_bit m i)"
proof -
  consider "i < 8 * a + 16" | "8 * a + 16 \<le> i" by linarith
  then show ?thesis
    by cases (auto simp: wr32_def mem_bit_wr16 bit_ucast_iff bit_drop_bit_eq)
qed

lemma mem_bit_wr64: "mem_bit (wr64 a v m) i = (if 8 * a \<le> i \<and> i < 8 * a + 64 then bit v (i - 8 * a) else mem_bit m i)"
proof -
  consider "i < 8 * a + 32" | "8 * a + 32 \<le> i" by linarith
  then show ?thesis
    by cases (auto simp: wr64_def mem_bit_wr32 bit_ucast_iff bit_drop_bit_eq)
qed

lemma mem_eqI: "(\<And>i. mem_bit m i = mem_bit m' i) \<Longrightarrow> m = m'"
  by (rule ext, rule bit_word_eqI) (simp add: bit_byte_at [of m] bit_byte_at [of m'])

lemma wr_bits_at:
  assumes "k mod 8 = 0"
  shows "wr_bits (8 * a + k) 16 (unat v16) m = wr16 (a + k div 8) v16 m"
    "wr_bits (8 * a + k) 32 (unat v32) m = wr32 (a + k div 8) v32 m"
    "wr_bits (8 * a + k) 64 (unat v64) m = wr64 (a + k div 8) v64 m"
proof -
  have k: "8 * a + k = 8 * (a + k div 8)"
    using assms by presburger
  show "wr_bits (8 * a + k) 16 (unat v16) m = wr16 (a + k div 8) v16 m"
    "wr_bits (8 * a + k) 32 (unat v32) m = wr32 (a + k div 8) v32 m"
    "wr_bits (8 * a + k) 64 (unat v64) m = wr64 (a + k div 8) v64 m"
    unfolding k
    by (rule mem_eqI; simp add: mem_bit_wr_bits mem_bit_wr16 mem_bit_wr32 mem_bit_wr64 bit_unsigned_iff)+
qed

lemma fetch_at:
  "lookup 1 t xs = Some (k, n) \<Longrightarrow> fetch t xs m a = Some (rd_bits m (8 * a + k) n)"
  "lookup 1 t xs = Some (k, n) \<Longrightarrow> store t xs v a m = wr_bits (8 * a + k) n v m"
  by (simp_all add: fetch_def store_def)

lemma fetch_view:
  assumes "wf_type t" "\<And>x. x < sizeof 1 t \<Longrightarrow> h (a + x) = m x"
  shows "fetch t xs h a = fetch t xs m 0"
proof (cases "lookup 1 t xs")
  case (Some r)
  then obtain k w where kw: "lookup 1 t xs = Some (k, w)" by (cases r) auto
  have inside: "k + w \<le> 8 * sizeof 1 t"
    by (rule lookup_inside(1) [OF kw zero_less_one assms(1)])
  have "mem_bit h (8 * a + k + i) = mem_bit m (k + i)" if "i < w" for i
  proof -
    have "(k + i) div 8 < sizeof 1 t" using inside that by auto
    moreover have "(8 * a + k + i) div 8 = a + (k + i) div 8" "(8 * a + k + i) mod 8 = (k + i) mod 8"
      by (simp_all add: add.assoc)
    ultimately show ?thesis by (simp add: mem_bit_def assms(2))
  qed
  then show ?thesis
    unfolding fetch_at(1) [OF kw] rd_bits_def by (auto intro!: arg_cong [where f = "horner_sum _ _"])
qed (simp add: fetch_def)

end
