(* ===== verification/Vnvme_Structs.thy ===== *)
theory Vnvme_Structs
  imports Vnvme_Layout
begin

text \<open>
  Every structure and union that the driver, the service, the tool and the host share, as the headers declare it:
  \<^verbatim>\<open>include/nvme_spec.h\<close>, \<^verbatim>\<open>include/vnvme_common.h\<close> and \<^verbatim>\<open>include/vnvme_ioctl.h\<close>. Where the comments of a header give
  the offset of each member, the offset stands before the member. The lemmas at the end show that the static assertions
  and the offsets of the comments hold and that the structures are well-formed. The theory on the wire format relates them to the byte
  offsets that the other theories use. (docs/reference/api/api-reference.md gives other offsets for the control block; the header decides.)
\<close>

section \<open>The NVMe specification (nvme\_spec.h)\<close>

definition struct_NVME_CAP :: ctype where
  "struct_NVME_CAP = Union [
     Member '''' (Struct [
          Bits ''MQES'' 8 16, Bits ''CQR'' 8 1, Bits ''AMS'' 8 2, Bits ''Reserved1'' 8 5, Bits ''TO'' 8 8,
          Bits ''DSTRD'' 8 4, Bits ''NSSRS'' 8 1, Bits ''CSS'' 8 8, Bits ''BPS'' 8 1, Bits ''Reserved2'' 8 2,
          Bits ''MPSMIN'' 8 4, Bits ''MPSMAX'' 8 4, Bits ''PMRS'' 8 1, Bits ''CMBS'' 8 1, Bits ''Reserved3'' 8 6]),
     Member ''AsUint64'' UINT64]"

definition struct_NVME_VS :: ctype where
  "struct_NVME_VS = Union [
     Member '''' (Struct [
          Bits ''TER'' 4 8, Bits ''MNR'' 4 8, Bits ''MJR'' 4 16]),
     Member ''AsUint32'' UINT32]"

definition struct_NVME_CC :: ctype where
  "struct_NVME_CC = Union [
     Member '''' (Struct [
          Bits ''EN'' 4 1, Bits ''Reserved1'' 4 3, Bits ''CSS'' 4 3, Bits ''MPS'' 4 4, Bits ''AMS'' 4 3,
          Bits ''SHN'' 4 2, Bits ''IOSQES'' 4 4, Bits ''IOCQES'' 4 4, Bits ''Reserved2'' 4 8]),
     Member ''AsUint32'' UINT32]"

definition struct_NVME_CSTS :: ctype where
  "struct_NVME_CSTS = Union [
     Member '''' (Struct [
          Bits ''RDY'' 4 1, Bits ''CFS'' 4 1, Bits ''SHST'' 4 2, Bits ''NSSRO'' 4 1, Bits ''PP'' 4 1,
          Bits ''Reserved'' 4 26]),
     Member ''AsUint32'' UINT32]"

definition struct_NVME_AQA :: ctype where
  "struct_NVME_AQA = Union [
     Member '''' (Struct [
          Bits ''ASQS'' 4 12, Bits ''Reserved1'' 4 4, Bits ''ACQS'' 4 12, Bits ''Reserved2'' 4 4]),
     Member ''AsUint32'' UINT32]"

definition NVME_CONTROLLER_REGISTERS_members :: "(nat \<times> cmember) list" where
  "NVME_CONTROLLER_REGISTERS_members = [
     (0, Member ''CAP'' struct_NVME_CAP), (8, Member ''VS'' struct_NVME_VS), (0xc, Member ''INTMS'' UINT32),
     (0x10, Member ''INTMC'' UINT32), (0x14, Member ''CC'' struct_NVME_CC), (0x18, Member ''Reserved1'' UINT32),
     (0x1c, Member ''CSTS'' struct_NVME_CSTS), (0x20, Member ''NSSR'' UINT32),
     (0x24, Member ''AQA'' struct_NVME_AQA), (0x28, Member ''ASQ'' UINT64), (0x30, Member ''ACQ'' UINT64),
     (0x38, Member ''CMBLOC'' UINT32), (0x3c, Member ''CMBSZ'' UINT32), (0x40, Member ''BPINFO'' UINT32),
     (0x44, Member ''BPRSEL'' UINT32), (0x48, Member ''BPMBL'' UINT64), (0x50, Member ''CMBMSC'' UINT64),
     (0x58, Member ''CMBSTS'' UINT32)]"

definition struct_NVME_CONTROLLER_REGISTERS :: ctype where
  "struct_NVME_CONTROLLER_REGISTERS = Struct (map snd NVME_CONTROLLER_REGISTERS_members @ [Member ''Reserved2'' (Arr 4004 UINT8)])"

definition struct_NVME_DOORBELL :: ctype where
  "struct_NVME_DOORBELL = Struct [
     Member ''SQTail'' UINT32, Member ''CQHead'' UINT32]"

definition struct_NVME_COMMAND :: ctype where
  "struct_NVME_COMMAND = Struct [
     Member ''OPC'' UINT8, Bits ''FUSE'' 1 2, Bits ''Reserved1'' 1 4, Bits ''PSDT'' 1 2, Member ''CID'' UINT16,
     Member ''NSID'' UINT32, Member ''Reserved2'' UINT32, Member ''Reserved3'' UINT32, Member ''MPTR'' UINT64,
     Member ''PRP1'' UINT64, Member ''PRP2'' UINT64, Member ''CDW10'' UINT32, Member ''CDW11'' UINT32,
     Member ''CDW12'' UINT32, Member ''CDW13'' UINT32, Member ''CDW14'' UINT32, Member ''CDW15'' UINT32]"

definition struct_NVME_COMPLETION :: ctype where
  "struct_NVME_COMPLETION = Struct [
     Member ''DW0'' UINT32, Member ''DW1'' UINT32, Member ''SQHD'' UINT16, Member ''SQID'' UINT16,
     Member ''CID'' UINT16, Member ''Status'' UINT16]"

definition NVME_IDENTIFY_CONTROLLER_DATA_members :: "(nat \<times> cmember) list" where
  "NVME_IDENTIFY_CONTROLLER_DATA_members = [
     (0, Member ''VID'' UINT16), (2, Member ''SSVID'' UINT16), (4, Member ''SN'' (Arr 20 CHAR8)),
     (0x18, Member ''MN'' (Arr 40 CHAR8)), (0x40, Member ''FR'' (Arr 8 CHAR8)), (0x48, Member ''RAB'' UINT8),
     (0x49, Member ''IEEE'' (Arr 3 UINT8)), (0x4c, Member ''CMIC'' UINT8), (0x4d, Member ''MDTS'' UINT8),
     (0x4e, Member ''CNTLID'' UINT16), (0x50, Member ''VER'' UINT32), (0x54, Member ''RTD3R'' UINT32),
     (0x58, Member ''RTD3E'' UINT32), (0x5c, Member ''OAES'' UINT32), (0x60, Member ''CTRATT'' UINT32),
     (0x64, Member ''RRLS'' UINT16), (0x66, Member ''Reserved1'' (Arr 9 UINT8)), (0x6f, Member ''CNTRLTYPE'' UINT8),
     (0x70, Member ''FGUID'' (Arr 16 UINT8)), (0x80, Member ''CRDT1'' UINT16), (0x82, Member ''CRDT2'' UINT16),
     (0x84, Member ''CRDT3'' UINT16), (0x86, Member ''Reserved2'' (Arr 106 UINT8)),
     (0xf0, Member ''Reserved3'' (Arr 16 UINT8)), (0x100, Member ''OACS'' UINT16), (0x102, Member ''ACL'' UINT8),
     (0x103, Member ''AERL'' UINT8), (0x104, Member ''FRMW'' UINT8), (0x105, Member ''LPA'' UINT8),
     (0x106, Member ''ELPE'' UINT8), (0x107, Member ''NPSS'' UINT8), (0x108, Member ''AVSCC'' UINT8),
     (0x109, Member ''APSTA'' UINT8), (0x10a, Member ''WCTEMP'' UINT16), (0x10c, Member ''CCTEMP'' UINT16),
     (0x10e, Member ''MTFA'' UINT16), (0x110, Member ''HMPRE'' UINT32), (0x114, Member ''HMMIN'' UINT32),
     (0x118, Member ''TNVMCAP'' (Arr 16 UINT8)), (0x128, Member ''UNVMCAP'' (Arr 16 UINT8)),
     (0x138, Member ''RPMBS'' UINT32), (0x13c, Member ''EDSTT'' UINT16), (0x13e, Member ''DSTO'' UINT8),
     (0x13f, Member ''FWUG'' UINT8), (0x140, Member ''KAS'' UINT16), (0x142, Member ''HCTMA'' UINT16),
     (0x144, Member ''MNTMT'' UINT16), (0x146, Member ''MXTMT'' UINT16), (0x148, Member ''SANICAP'' UINT32),
     (0x14c, Member ''HMMINDS'' UINT32), (0x150, Member ''HMMAXD'' UINT16), (0x152, Member ''NSETIDMAX'' UINT16),
     (0x154, Member ''ENDGIDMAX'' UINT16), (0x156, Member ''ANATT'' UINT8), (0x157, Member ''ANACAP'' UINT8),
     (0x158, Member ''ANAGRPMAX'' UINT32), (0x15c, Member ''NANAGRPID'' UINT32), (0x160, Member ''PELS'' UINT32),
     (0x164, Member ''Reserved4'' (Arr 156 UINT8)), (0x200, Member ''SQES'' UINT8), (0x201, Member ''CQES'' UINT8),
     (0x202, Member ''MAXCMD'' UINT16), (0x204, Member ''NN'' UINT32), (0x208, Member ''ONCS'' UINT16),
     (0x20a, Member ''FUSES'' UINT16), (0x20c, Member ''FNA'' UINT8), (0x20d, Member ''VWC'' UINT8),
     (0x20e, Member ''AWUN'' UINT16), (0x210, Member ''AWUPF'' UINT16), (0x212, Member ''NVSCC'' UINT8),
     (0x213, Member ''NWPC'' UINT8), (0x214, Member ''ACWU'' UINT16), (0x216, Member ''Reserved5'' UINT16),
     (0x218, Member ''SGLS'' UINT32), (0x21c, Member ''MNAN'' UINT32), (0x220, Member ''Reserved6'' (Arr 224 UINT8)),
     (0x300, Member ''SUBNQN'' (Arr 256 UINT8)), (0x400, Member ''Reserved7'' (Arr 768 UINT8)),
     (0x700, Member ''Reserved8'' (Arr 256 UINT8)),
     (0x800, Member ''PSD'' (Arr 32 (Struct [
          Member ''MP'' UINT16, Member ''Reserved1'' UINT8, Bits ''MXPS'' 1 1, Bits ''NOPS'' 1 1,
          Bits ''Reserved2'' 1 6, Member ''ENLAT'' UINT32, Member ''EXLAT'' UINT32, Bits ''RRT'' 1 5,
          Bits ''Reserved3'' 1 3, Bits ''RRL'' 1 5, Bits ''Reserved4'' 1 3, Bits ''RWT'' 1 5, Bits ''Reserved5'' 1 3,
          Bits ''RWL'' 1 5, Bits ''Reserved6'' 1 3, Member ''IDLP'' UINT16, Bits ''Reserved7'' 1 6, Bits ''IPS'' 1 2,
          Member ''Reserved8'' UINT8, Member ''ACTP'' UINT16, Bits ''APW'' 1 3, Bits ''Reserved9'' 1 3,
          Bits ''APS'' 1 2, Member ''Reserved10'' (Arr 9 UINT8)]))),
     (0xc00, Member ''VendorSpecific'' (Arr 1024 UINT8))]"

definition struct_NVME_IDENTIFY_CONTROLLER_DATA :: ctype where
  "struct_NVME_IDENTIFY_CONTROLLER_DATA = Struct (map snd NVME_IDENTIFY_CONTROLLER_DATA_members)"

definition NVME_IDENTIFY_NAMESPACE_DATA_members :: "(nat \<times> cmember) list" where
  "NVME_IDENTIFY_NAMESPACE_DATA_members = [
     (0, Member ''NSZE'' UINT64), (8, Member ''NCAP'' UINT64), (0x10, Member ''NUSE'' UINT64),
     (0x18, Member ''NSFEAT'' UINT8), (0x19, Member ''NLBAF'' UINT8), (0x1a, Member ''FLBAS'' UINT8),
     (0x1b, Member ''MC'' UINT8), (0x1c, Member ''DPC'' UINT8), (0x1d, Member ''DPS'' UINT8),
     (0x1e, Member ''NMIC'' UINT8), (0x1f, Member ''RESCAP'' UINT8), (0x20, Member ''FPI'' UINT8),
     (0x21, Member ''DLFEAT'' UINT8), (0x22, Member ''NAWUN'' UINT16), (0x24, Member ''NAWUPF'' UINT16),
     (0x26, Member ''NACWU'' UINT16), (0x28, Member ''NABSN'' UINT16), (0x2a, Member ''NABO'' UINT16),
     (0x2c, Member ''NABSPF'' UINT16), (0x2e, Member ''NOIOB'' UINT16), (0x30, Member ''NVMCAP'' (Arr 16 UINT8)),
     (0x40, Member ''NPWG'' UINT16), (0x42, Member ''NPWA'' UINT16), (0x44, Member ''NPDG'' UINT16),
     (0x46, Member ''NPDA'' UINT16), (0x48, Member ''NOWS'' UINT16), (0x4a, Member ''Reserved1'' (Arr 18 UINT8)),
     (0x5c, Member ''ANAGRPID'' UINT32), (0x60, Member ''Reserved2'' (Arr 3 UINT8)), (0x63, Member ''NSATTR'' UINT8),
     (0x64, Member ''NVMSETID'' UINT16), (0x66, Member ''ENDGID'' UINT16), (0x68, Member ''NGUID'' (Arr 16 UINT8)),
     (0x78, Member ''EUI64'' (Arr 8 UINT8)),
     (0x80, Member ''LBAF'' (Arr 16 (Struct [
          Bits ''MS'' 4 16, Bits ''LBADS'' 4 8, Bits ''RP'' 4 2, Bits ''Reserved'' 4 6]))),
     (0xc0, Member ''Reserved3'' (Arr 192 UINT8)), (0x180, Member ''VendorSpecific'' (Arr 3712 UINT8))]"

definition struct_NVME_IDENTIFY_NAMESPACE_DATA :: ctype where
  "struct_NVME_IDENTIFY_NAMESPACE_DATA = Struct (map snd NVME_IDENTIFY_NAMESPACE_DATA_members)"

definition PCIE_CONFIG_HEADER_members :: "(nat \<times> cmember) list" where
  "PCIE_CONFIG_HEADER_members = [
     (0, Member ''VendorId'' UINT16), (2, Member ''DeviceId'' UINT16), (4, Member ''Command'' UINT16),
     (6, Member ''Status'' UINT16), (8, Member ''RevisionId'' UINT8), (9, Member ''ProgIf'' UINT8),
     (0xa, Member ''SubClass'' UINT8), (0xb, Member ''ClassCode'' UINT8), (0xc, Member ''CacheLineSize'' UINT8),
     (0xd, Member ''LatencyTimer'' UINT8), (0xe, Member ''HeaderType'' UINT8), (0xf, Member ''BIST'' UINT8),
     (0x10, Member ''BAR0'' UINT32), (0x14, Member ''BAR1'' UINT32), (0x18, Member ''BAR2'' UINT32),
     (0x1c, Member ''BAR3'' UINT32), (0x20, Member ''BAR4'' UINT32), (0x24, Member ''BAR5'' UINT32),
     (0x28, Member ''CardbusCISPtr'' UINT32), (0x2c, Member ''SubsystemVendorId'' UINT16),
     (0x2e, Member ''SubsystemId'' UINT16), (0x30, Member ''ExpROMBaseAddr'' UINT32),
     (0x34, Member ''CapabilitiesPtr'' UINT8), (0x35, Member ''Reserved1'' (Arr 3 UINT8)),
     (0x38, Member ''Reserved2'' UINT32), (0x3c, Member ''InterruptLine'' UINT8),
     (0x3d, Member ''InterruptPin'' UINT8), (0x3e, Member ''MinGrant'' UINT8), (0x3f, Member ''MaxLatency'' UINT8)]"

definition struct_PCIE_CONFIG_HEADER :: ctype where
  "struct_PCIE_CONFIG_HEADER = Struct (map snd PCIE_CONFIG_HEADER_members)"

definition struct_NVME_DSM_RANGE :: ctype where
  "struct_NVME_DSM_RANGE = Struct [
     Member ''ContextAttributes'' UINT32, Member ''LengthInLogicalBlocks'' UINT32, Member ''StartingLBA'' UINT64]"

section \<open>The shared memory and the configurations (vnvme\_common.h)\<close>

definition struct_VNVME_QUEUE_DESCRIPTOR :: ctype where
  "struct_VNVME_QUEUE_DESCRIPTOR = Struct [
     Member ''Offset'' UINT32, Member ''EntrySize'' UINT32, Member ''Capacity'' UINT32, Member ''Valid'' UINT32,
     Member ''Head'' UINT32, Member ''Tail'' UINT32, Member ''Phase'' UINT32, Member ''Reserved'' UINT32]"

definition struct_VNVME_NOTIFY_ENTRY :: ctype where
  "struct_VNVME_NOTIFY_ENTRY = Struct [
     Member ''QueueId'' UINT16, Member ''Type'' UINT16, Member ''Index'' UINT32]"

definition struct_VNVME_NOTIFY_RING :: ctype where
  "struct_VNVME_NOTIFY_RING = Struct [
     Member ''Head'' UINT32, Member ''HeadPad'' (Arr 15 UINT32), Member ''Tail'' UINT32,
     Member ''TailPad'' (Arr 14 UINT32), Member ''Size'' UINT32,
     Member ''Entries'' (Arr 256 struct_VNVME_NOTIFY_ENTRY)]"

definition VNVME_SHM_CONTROL_BLOCK_members :: "(nat \<times> cmember) list" where
  "VNVME_SHM_CONTROL_BLOCK_members = [
     (0, Member ''Magic'' UINT32), (4, Member ''Version'' UINT32), (8, Member ''TotalSize'' UINT32),
     (0xc, Member ''ControlBlockSize'' UINT32), (0x10, Member ''Flags'' UINT32), (0x14, Member ''Reserved1'' UINT32),
     (0x18, Member ''Reserved2'' UINT64), (0x20, Member ''AdminSQ'' struct_VNVME_QUEUE_DESCRIPTOR),
     (0x40, Member ''AdminCQ'' struct_VNVME_QUEUE_DESCRIPTOR), (0x60, Member ''IoQueueCount'' UINT32),
     (0x64, Member ''MaxIoQueues'' UINT32), (0x68, Member ''IoQueueDescriptorOffset'' UINT32),
     (0x6c, Member ''Reserved3'' UINT32), (0x70, Member ''NotifyRingOffset'' UINT32),
     (0x74, Member ''NotifyRingSize'' UINT32), (0x78, Member ''Reserved4'' UINT64),
     (0x80, Member ''DataBufferOffset'' UINT32), (0x84, Member ''DataBufferSize'' UINT32),
     (0x88, Member ''Reserved5'' UINT64), (0x90, Member ''KernelReady'' UINT32), (0x94, Member ''UserReady'' UINT32),
     (0x98, Member ''ErrorCode'' UINT32), (0x9c, Member ''ControllerState'' UINT32),
     (0xa0, Member ''ShutdownRequested'' UINT32), (0xa4, Member ''Reserved6'' UINT32),
     (0xa8, Member ''Reserved7'' UINT64), (0xb0, Member ''CommandsProcessed'' UINT64),
     (0xb8, Member ''CompletionsPosted'' UINT64), (0xc0, Member ''BytesRead'' UINT64),
     (0xc8, Member ''BytesWritten'' UINT64)]"

definition struct_VNVME_SHM_CONTROL_BLOCK :: ctype where
  "struct_VNVME_SHM_CONTROL_BLOCK = Struct (map snd VNVME_SHM_CONTROL_BLOCK_members @ [Member ''Reserved'' (Arr 3888 UINT8)])"

definition struct_VNVME_CONTROLLER_CONFIG :: ctype where
  "struct_VNVME_CONTROLLER_CONFIG = Struct [
     Member ''SerialNumber'' (Arr 20 CHAR8), Member ''ModelNumber'' (Arr 40 CHAR8),
     Member ''FirmwareRevision'' (Arr 8 CHAR8), Member ''MaxNamespaces'' UINT32, Member ''MaxQueuePairs'' UINT32,
     Member ''MaxQueueDepth'' UINT32, Member ''MaxTransferSize'' UINT32, Member ''StorageType'' UINT32,
     Member ''NamespaceSize'' UINT64, Member ''BlockSize'' UINT32, Member ''Reserved'' UINT32,
     Member ''FilePath'' (Arr 260 WCHAR)]"

definition struct_VNVME_NAMESPACE_CONFIG :: ctype where
  "struct_VNVME_NAMESPACE_CONFIG = Struct [
     Member ''NSID'' UINT32, Member ''TotalBlocks'' UINT64, Member ''BlockSize'' UINT32, Member ''Flags'' UINT32,
     Member ''BackendPath'' (Arr 260 CHAR8)]"

section \<open>Requests to the control device (vnvme\_ioctl.h)\<close>

definition struct_VNVME_GET_VERSION_OUTPUT :: ctype where
  "struct_VNVME_GET_VERSION_OUTPUT = Struct [
     Member ''DriverVersion'' UINT32, Member ''ApiVersion'' UINT32, Member ''BuildNumber'' UINT32,
     Member ''Reserved'' UINT32]"

definition struct_VNVME_GET_STATUS_OUTPUT :: ctype where
  "struct_VNVME_GET_STATUS_OUTPUT = Struct [
     Member ''DriverStatus'' UINT32, Member ''UserServiceStatus'' UINT32, Member ''ControllerCount'' UINT32,
     Member ''NamespaceCount'' UINT32, Member ''ShmMapped'' UINT32, Member ''ShmSize'' UINT32,
     Member ''UserReady'' UINT32, Member ''UserPid'' UINT32, Member ''CommandsProcessed'' UINT64,
     Member ''CompletionsPosted'' UINT64, Member ''BytesRead'' UINT64, Member ''BytesWritten'' UINT64,
     Member ''ErrorCount'' UINT64, Member ''UptimeMs'' UINT64, Member ''LastHeartbeatMs'' UINT64]"

definition struct_VNVME_MAP_SHM_INPUT :: ctype where
  "struct_VNVME_MAP_SHM_INPUT = Struct [
     Member ''RequestedSize'' UINT32, Member ''Reserved'' UINT32]"

definition struct_VNVME_MAP_SHM_OUTPUT :: ctype where
  "struct_VNVME_MAP_SHM_OUTPUT = Struct [
     Member ''UserAddress'' PVOID, Member ''ActualSize'' UINT32, Member ''Reserved'' UINT32,
     Member ''CommandEventHandle'' PVOID]"

definition struct_VNVME_USER_READY_INPUT :: ctype where
  "struct_VNVME_USER_READY_INPUT = Struct [
     Member ''UserPid'' UINT32, Member ''UserVersion'' UINT32, Member ''Capabilities'' UINT32,
     Member ''Reserved'' UINT32]"

definition struct_VNVME_HEARTBEAT_INPUT :: ctype where
  "struct_VNVME_HEARTBEAT_INPUT = Struct [
     Member ''Timestamp'' UINT64, Member ''CommandsProcessed'' UINT64]"

definition struct_VNVME_HEARTBEAT_OUTPUT :: ctype where
  "struct_VNVME_HEARTBEAT_OUTPUT = Struct [
     Member ''KernelTimestamp'' UINT64, Member ''PendingCommands'' UINT32, Member ''Reserved'' UINT32]"

definition struct_VNVME_GET_COMMAND_EVENT_OUTPUT :: ctype where
  "struct_VNVME_GET_COMMAND_EVENT_OUTPUT = Struct [
     Member ''EventHandle'' PVOID]"

definition struct_VNVME_SUBMIT_COMPLETIONS_INPUT :: ctype where
  "struct_VNVME_SUBMIT_COMPLETIONS_INPUT = Struct [
     Member ''CompletionCount'' UINT32, Member ''ControllerId'' UINT32]"

definition struct_VNVME_CREATE_CONTROLLER_INPUT :: ctype where
  "struct_VNVME_CREATE_CONTROLLER_INPUT = Struct [
     Member ''Config'' struct_VNVME_CONTROLLER_CONFIG]"

definition struct_VNVME_CREATE_CONTROLLER_OUTPUT :: ctype where
  "struct_VNVME_CREATE_CONTROLLER_OUTPUT = Struct [
     Member ''ControllerId'' UINT32, Member ''DeviceInstanceId'' (Arr 200 WCHAR)]"

definition struct_VNVME_DELETE_CONTROLLER_INPUT :: ctype where
  "struct_VNVME_DELETE_CONTROLLER_INPUT = Struct [
     Member ''ControllerId'' UINT32, Member ''Force'' UINT32]"

definition struct_VNVME_CONTROLLER_INFO :: ctype where
  "struct_VNVME_CONTROLLER_INFO = Struct [
     Member ''ControllerId'' UINT32, Member ''Status'' UINT32, Member ''SerialNumber'' (Arr 20 CHAR8),
     Member ''ModelNumber'' (Arr 40 CHAR8), Member ''NamespaceCount'' UINT32, Member ''TotalCapacity'' UINT64]"

definition struct_VNVME_LIST_CONTROLLERS_OUTPUT :: ctype where
  "struct_VNVME_LIST_CONTROLLERS_OUTPUT = Struct [
     Member ''ControllerCount'' UINT32, Member ''Reserved'' UINT32,
     Member ''Controllers'' (Arr 16 struct_VNVME_CONTROLLER_INFO)]"

definition struct_VNVME_CREATE_NAMESPACE_INPUT :: ctype where
  "struct_VNVME_CREATE_NAMESPACE_INPUT = Struct [
     Member ''ControllerId'' UINT32, Member ''Config'' struct_VNVME_NAMESPACE_CONFIG]"

definition struct_VNVME_CREATE_NAMESPACE_OUTPUT :: ctype where
  "struct_VNVME_CREATE_NAMESPACE_OUTPUT = Struct [
     Member ''NSID'' UINT32, Member ''Reserved'' UINT32]"

definition struct_VNVME_DELETE_NAMESPACE_INPUT :: ctype where
  "struct_VNVME_DELETE_NAMESPACE_INPUT = Struct [
     Member ''ControllerId'' UINT32, Member ''NSID'' UINT32]"

definition struct_VNVME_LIST_NAMESPACES_INPUT :: ctype where
  "struct_VNVME_LIST_NAMESPACES_INPUT = Struct [
     Member ''ControllerId'' UINT32, Member ''Reserved'' UINT32]"

definition struct_VNVME_NAMESPACE_INFO :: ctype where
  "struct_VNVME_NAMESPACE_INFO = Struct [
     Member ''NSID'' UINT32, Member ''Flags'' UINT32, Member ''TotalBlocks'' UINT64, Member ''BlockSize'' UINT32,
     Member ''Reserved'' UINT32]"

definition struct_VNVME_LIST_NAMESPACES_OUTPUT :: ctype where
  "struct_VNVME_LIST_NAMESPACES_OUTPUT = Struct [
     Member ''Count'' UINT32, Member ''Reserved'' UINT32, Member ''Namespaces'' (Arr 16 struct_VNVME_NAMESPACE_INFO)]"

definition struct_VNVME_DEBUG_INFO_OUTPUT :: ctype where
  "struct_VNVME_DEBUG_INFO_OUTPUT = Struct [
     Member ''Uptime'' UINT64, Member ''AdminCommandsProcessed'' UINT64, Member ''IoCommandsProcessed'' UINT64,
     Member ''ReadBytes'' UINT64, Member ''WriteBytes'' UINT64, Member ''ErrorCount'' UINT64,
     Member ''CurrentPollingInterval'' UINT32, Member ''QueueDepth'' UINT32, Member ''LastHeartbeat'' UINT64,
     Member ''HeartbeatCount'' UINT64]"

definition struct_VNVME_SET_DEBUG_LEVEL_INPUT :: ctype where
  "struct_VNVME_SET_DEBUG_LEVEL_INPUT = Struct [
     Member ''DebugLevel'' UINT32, Member ''DebugFlags'' UINT32]"

definition struct_VNVME_NAMESPACE_STATS :: ctype where
  "struct_VNVME_NAMESPACE_STATS = Struct [
     Member ''NSID'' UINT32, Member ''Active'' UINT32, Member ''TotalBlocks'' UINT64, Member ''BlockSize'' UINT32,
     Member ''ReadCommands'' UINT64, Member ''WriteCommands'' UINT64, Member ''FlushCommands'' UINT64,
     Member ''ReadBytes'' UINT64, Member ''WriteBytes'' UINT64]"

definition struct_VNVME_CONTROLLER_STATS :: ctype where
  "struct_VNVME_CONTROLLER_STATS = Struct [
     Member ''ControllerId'' UINT32, Member ''NamespaceCount'' UINT32, Member ''AdminCommandsProcessed'' UINT64,
     Member ''IoCommandsProcessed'' UINT64, Member ''TotalReadBytes'' UINT64, Member ''TotalWriteBytes'' UINT64,
     Member ''IoQueueCount'' UINT32, Member ''PollingIntervalUs'' UINT32]"

definition struct_VNVME_GET_STATS_INPUT :: ctype where
  "struct_VNVME_GET_STATS_INPUT = Struct [
     Member ''ControllerId'' UINT32, Member ''Flags'' UINT32]"

definition struct_VNVME_GET_STATS_OUTPUT :: ctype where
  "struct_VNVME_GET_STATS_OUTPUT = Struct [
     Member ''ControllerCount'' UINT32, Member ''TotalNamespaceCount'' UINT32, Member ''Uptime'' UINT64,
     Member ''TotalCommandsProcessed'' UINT64, Member ''Controllers'' (Arr 8 struct_VNVME_CONTROLLER_STATS),
     Member ''Namespaces'' (Arr 16 struct_VNVME_NAMESPACE_STATS)]"

definition struct_VNVME_RESET_STATS_INPUT :: ctype where
  "struct_VNVME_RESET_STATS_INPUT = Struct [
     Member ''ControllerId'' UINT32, Member ''Flags'' UINT32]"

definition struct_VNVME_IOCTL_CONFIG :: ctype where
  "struct_VNVME_IOCTL_CONFIG = Struct [
     Member ''DebugLevel'' UINT32, Member ''DebugFlags'' UINT32, Member ''HeartbeatTimeoutMs'' UINT32,
     Member ''Reserved1'' UINT32, Member ''StorageType'' UINT32, Member ''StorageSizeGB'' UINT32,
     Member ''StoragePath'' (Arr 260 WCHAR), Member ''MaxIOQueues'' UINT32, Member ''AdminQueueDepth'' UINT32,
     Member ''IOQueueDepth'' UINT32, Member ''Reserved2'' UINT32, Member ''DoorbellPollIntervalUs'' UINT32,
     Member ''BatchSize'' UINT32, Member ''AllowUserModeAccess'' UINT32, Member ''RequireAdminPrivilege'' UINT32]"

definition struct_VNVME_SET_CONFIG_INPUT :: ctype where
  "struct_VNVME_SET_CONFIG_INPUT = Struct [
     Member ''FieldMask'' UINT32, Member ''Reserved'' UINT32, Member ''Config'' struct_VNVME_IOCTL_CONFIG]"

definition struct_VNVME_GET_CONFIG_OUTPUT :: ctype where
  "struct_VNVME_GET_CONFIG_OUTPUT = Struct [
     Member ''Config'' struct_VNVME_IOCTL_CONFIG, Member ''DynamicFieldMask'' UINT32, Member ''Reserved'' UINT32]"

section \<open>Static assertions and documented offsets\<close>

lemmas nvme_structs = struct_NVME_CAP_def struct_NVME_VS_def struct_NVME_CC_def struct_NVME_CSTS_def struct_NVME_AQA_def
  struct_NVME_CONTROLLER_REGISTERS_def NVME_CONTROLLER_REGISTERS_members_def struct_NVME_DOORBELL_def
  struct_NVME_COMMAND_def struct_NVME_COMPLETION_def struct_NVME_DSM_RANGE_def
  struct_PCIE_CONFIG_HEADER_def PCIE_CONFIG_HEADER_members_def

lemmas identify_structs = struct_NVME_IDENTIFY_CONTROLLER_DATA_def NVME_IDENTIFY_CONTROLLER_DATA_members_def
  struct_NVME_IDENTIFY_NAMESPACE_DATA_def NVME_IDENTIFY_NAMESPACE_DATA_members_def

lemmas shm_structs = struct_VNVME_QUEUE_DESCRIPTOR_def struct_VNVME_NOTIFY_ENTRY_def struct_VNVME_NOTIFY_RING_def
  struct_VNVME_SHM_CONTROL_BLOCK_def VNVME_SHM_CONTROL_BLOCK_members_def

text \<open>The arguments of \<open>C_ASSERT\<close> and \<open>VNVME_STATIC_ASSERT\<close>.\<close>

definition static_assertions :: "(ctype \<times> nat) list" where
  "static_assertions =
     [(struct_NVME_CAP, 8), (struct_NVME_VS, 4), (struct_NVME_CC, 4), (struct_NVME_CSTS, 4), (struct_NVME_AQA, 4),
      (struct_NVME_COMMAND, 64), (struct_NVME_COMPLETION, 16), (struct_NVME_IDENTIFY_CONTROLLER_DATA, 4096),
      (struct_NVME_IDENTIFY_NAMESPACE_DATA, 4096), (struct_PCIE_CONFIG_HEADER, 64), (struct_NVME_DSM_RANGE, 16),
      (struct_VNVME_QUEUE_DESCRIPTOR, 32), (struct_VNVME_NOTIFY_ENTRY, 8), (struct_VNVME_SHM_CONTROL_BLOCK, 4096)]"

lemma assertions_hold: "list_all (\<lambda>(t, n). sizeof 1 t = n) static_assertions"
  unfolding static_assertions_def list.pred_inject prod.case
  by (intro conjI; simp add: nvme_structs identify_structs shm_structs)

lemma offsets_hold:
  "documented NVME_CONTROLLER_REGISTERS_members" "documented PCIE_CONFIG_HEADER_members"
  "documented VNVME_SHM_CONTROL_BLOCK_members"
  by (simp_all add: documented_def nvme_structs shm_structs Let_def)

lemma identify_offsets_hold:
  "documented NVME_IDENTIFY_CONTROLLER_DATA_members" "documented NVME_IDENTIFY_NAMESPACE_DATA_members"
  by (simp_all add: documented_def identify_structs Let_def)

section \<open>Well-formedness\<close>

text \<open>The structures without unions that cross a boundary between the parties.\<close>

definition shared_structs :: "ctype list" where
  "shared_structs =
     [struct_NVME_DOORBELL, struct_NVME_COMMAND, struct_NVME_COMPLETION, struct_NVME_IDENTIFY_CONTROLLER_DATA,
      struct_NVME_IDENTIFY_NAMESPACE_DATA, struct_PCIE_CONFIG_HEADER, struct_NVME_DSM_RANGE, struct_VNVME_QUEUE_DESCRIPTOR,
      struct_VNVME_NOTIFY_ENTRY, struct_VNVME_NOTIFY_RING, struct_VNVME_SHM_CONTROL_BLOCK, struct_VNVME_CONTROLLER_CONFIG,
      struct_VNVME_NAMESPACE_CONFIG, struct_VNVME_GET_VERSION_OUTPUT, struct_VNVME_GET_STATUS_OUTPUT,
      struct_VNVME_MAP_SHM_INPUT, struct_VNVME_MAP_SHM_OUTPUT, struct_VNVME_USER_READY_INPUT,
      struct_VNVME_HEARTBEAT_INPUT, struct_VNVME_HEARTBEAT_OUTPUT, struct_VNVME_GET_COMMAND_EVENT_OUTPUT,
      struct_VNVME_SUBMIT_COMPLETIONS_INPUT, struct_VNVME_CREATE_CONTROLLER_INPUT, struct_VNVME_CREATE_CONTROLLER_OUTPUT,
      struct_VNVME_DELETE_CONTROLLER_INPUT, struct_VNVME_CONTROLLER_INFO, struct_VNVME_LIST_CONTROLLERS_OUTPUT,
      struct_VNVME_CREATE_NAMESPACE_INPUT, struct_VNVME_CREATE_NAMESPACE_OUTPUT, struct_VNVME_DELETE_NAMESPACE_INPUT,
      struct_VNVME_LIST_NAMESPACES_INPUT, struct_VNVME_NAMESPACE_INFO, struct_VNVME_LIST_NAMESPACES_OUTPUT,
      struct_VNVME_DEBUG_INFO_OUTPUT, struct_VNVME_SET_DEBUG_LEVEL_INPUT, struct_VNVME_NAMESPACE_STATS,
      struct_VNVME_CONTROLLER_STATS, struct_VNVME_GET_STATS_INPUT, struct_VNVME_GET_STATS_OUTPUT,
      struct_VNVME_RESET_STATS_INPUT, struct_VNVME_IOCTL_CONFIG, struct_VNVME_SET_CONFIG_INPUT,
      struct_VNVME_GET_CONFIG_OUTPUT]"

lemmas ioctl_structs = struct_VNVME_CONTROLLER_CONFIG_def
  struct_VNVME_NAMESPACE_CONFIG_def struct_VNVME_GET_VERSION_OUTPUT_def struct_VNVME_GET_STATUS_OUTPUT_def
  struct_VNVME_MAP_SHM_INPUT_def struct_VNVME_MAP_SHM_OUTPUT_def struct_VNVME_USER_READY_INPUT_def
  struct_VNVME_HEARTBEAT_INPUT_def struct_VNVME_HEARTBEAT_OUTPUT_def struct_VNVME_GET_COMMAND_EVENT_OUTPUT_def
  struct_VNVME_SUBMIT_COMPLETIONS_INPUT_def struct_VNVME_CREATE_CONTROLLER_INPUT_def struct_VNVME_CREATE_CONTROLLER_OUTPUT_def
  struct_VNVME_DELETE_CONTROLLER_INPUT_def struct_VNVME_CONTROLLER_INFO_def struct_VNVME_LIST_CONTROLLERS_OUTPUT_def
  struct_VNVME_CREATE_NAMESPACE_INPUT_def struct_VNVME_CREATE_NAMESPACE_OUTPUT_def struct_VNVME_DELETE_NAMESPACE_INPUT_def
  struct_VNVME_LIST_NAMESPACES_INPUT_def struct_VNVME_NAMESPACE_INFO_def struct_VNVME_LIST_NAMESPACES_OUTPUT_def
  struct_VNVME_DEBUG_INFO_OUTPUT_def struct_VNVME_SET_DEBUG_LEVEL_INPUT_def struct_VNVME_NAMESPACE_STATS_def
  struct_VNVME_CONTROLLER_STATS_def struct_VNVME_GET_STATS_INPUT_def struct_VNVME_GET_STATS_OUTPUT_def
  struct_VNVME_RESET_STATS_INPUT_def struct_VNVME_IOCTL_CONFIG_def struct_VNVME_SET_CONFIG_INPUT_def
  struct_VNVME_GET_CONFIG_OUTPUT_def

lemma identify_controller_wf: "wf_type struct_NVME_IDENTIFY_CONTROLLER_DATA"
  by (simp add: identify_structs)

lemma shared_structs_wf: "list_all wf_type shared_structs"
  unfolding shared_structs_def list.pred_inject
  by (intro conjI TrueI; (rule identify_controller_wf)?;
      simp add: nvme_structs shm_structs ioctl_structs struct_NVME_IDENTIFY_NAMESPACE_DATA_def NVME_IDENTIFY_NAMESPACE_DATA_members_def)


end
