(* ===== verification/Vnvme_Ctl.thy ===== *)
theory Vnvme_Ctl
  imports Vnvme_Driver_Comm Vnvme_Server_Config
begin

text \<open>
  \<^verbatim>\<open>vnvmectl/main.c\<close>: the command-line tool. A command returns its exit code, what it reports, and the driver afterwards. The
  report holds the values that are printed, not their layout. The structures that are sent and received are bytes;
  the system's answers are arguments.
\<close>

section \<open>Opening and asking the device\<close>

text \<open>\<open>CreateFileW\<close>, \<open>DeviceIoControl\<close>, whether \<open>_strdup\<close> gets memory, and what \<open>MultiByteToWideChar\<close> stores (\<open>None\<close>: it fails).\<close>

record ctl_os =
  co_CreateFile :: HANDLE
  co_DeviceIoControl :: device_io
  co_strdup :: bool
  co_wide :: "string \<Rightarrow> u16 list option"

datatype ctl_error =
  NotOpened | RequestFailed u32 | InvalidSize string | UnknownBackend string | InvalidPath string | UnknownOption string
| PathMissing | InvalidId string | UnknownCommand string

definition OpenVnvmeDevice :: "ctl_os \<Rightarrow> ctl_error + HANDLE" where
  "OpenVnvmeDevice os = (if co_CreateFile os = INVALID_HANDLE_VALUE then Inl NotOpened else Inr (co_CreateFile os))"

text \<open>What every command does: open, ask with a zeroed output structure of \<open>n\<close> bytes, close.\<close>

definition ctl_request :: "ctl_os \<Rightarrow> u32 \<Rightarrow> u8 list \<Rightarrow> nat \<Rightarrow> vnvme_driver \<Rightarrow> ((ctl_error + mem) \<times> vnvme_driver) option" where
  "ctl_request os code inp n d =
     (case OpenVnvmeDevice os of
        Inl e \<Rightarrow> Some (Inl e, d)
      | Inr h \<Rightarrow> do {
          (result, out, d) \<leftarrow> co_DeviceIoControl os h code inp (replicate n 0) d;
          Some (if result then Inr (bytes_mem out) else Inl (RequestFailed code), d)
        })"

section \<open>Reports\<close>

type_synonym controller_line = "u32 \<times> u32 \<times> string \<times> string"

record controller_report =
  cr_ControllerId :: u32
  cr_NamespaceCount :: u32
  cr_IoQueueCount :: u32
  cr_AdminCommandsProcessed :: u64
  cr_IoCommandsProcessed :: u64
  cr_TotalReadBytes :: u64
  cr_TotalWriteBytes :: u64
  cr_PollingIntervalUs :: u32

record namespace_report =
  nsr_NSID :: u32
  nsr_Active :: bool
  nsr_TotalBlocks :: u64
  nsr_BlockSize :: u32
  nsr_ReadCommands :: u64
  nsr_ReadBytes :: u64
  nsr_WriteCommands :: u64
  nsr_WriteBytes :: u64
  nsr_FlushCommands :: u64

record status_report =
  st_DriverStatus :: "u32 \<times> string"
  st_UserServiceStatus :: "u32 \<times> string"
  st_UserReady :: bool
  st_UserPid :: u32
  st_ShmMapped :: bool
  st_ShmSize :: u32
  st_ControllerCount :: u32
  st_NamespaceCount :: u32
  st_CommandsProcessed :: u64
  st_CompletionsPosted :: u64
  st_BytesRead :: u64
  st_BytesWritten :: u64
  st_ErrorCount :: u64
  st_UptimeMs :: u64
  st_LastHeartbeatMs :: u64

datatype ctl_report =
  Usage | Failed ctl_error | Version u32 u32 u32 | Status status_report | Controllers u32 "controller_line list"
| Created u32 | Deleted u32 | Namespaces u32 "namespace_report list" | NamespaceCreated u32 | NamespaceDeleted u32
| Statistics u64 u32 u32 u64 "controller_report list" "namespace_report list" | DebugLevelSet | Tests "ctl_report list"

type_synonym ctl_result = "nat \<times> ctl_report \<times> vnvme_driver"

text \<open>The end of a command: a failure is reported with exit code 1.\<close>

definition reported :: "(mem \<Rightarrow> ctl_report) \<Rightarrow> (ctl_error + mem) \<times> vnvme_driver \<Rightarrow> ctl_result" where
  "reported f = (\<lambda>(r, d). case r of Inl e \<Rightarrow> (1, Failed e, d) | Inr out \<Rightarrow> (0, f out, d))"

section \<open>Queries\<close>

definition CmdVersion :: "ctl_os \<Rightarrow> vnvme_driver \<Rightarrow> ctl_result option" where
  "CmdVersion os d =
     map_option (reported (\<lambda>version. Version (rd32 version 0) (rd32 version 4) (rd32 version 8)))
       (ctl_request os IOCTL_VNVME_GET_VERSION [] 16 d)"

definition driver_state_name :: "u32 \<Rightarrow> string" where
  "driver_state_name s =
     (if s = 0 then ''Initializing'' else if s = 1 then ''Ready'' else if s = 2 then ''Running'' else if s = 3 then ''Error''
      else if s = 4 then ''Stopping'' else ''Unknown'')"

definition service_state_name :: "u32 \<Rightarrow> string" where
  "service_state_name s =
     (if s = 0 then ''Not Connected'' else if s = 1 then ''Connected'' else if s = 2 then ''Ready'' else if s = 3 then ''Error''
      else ''Unknown'')"

definition CmdStatus :: "ctl_os \<Rightarrow> vnvme_driver \<Rightarrow> ctl_result option" where
  "CmdStatus os d =
     map_option (reported (\<lambda>s. Status
         \<lparr>st_DriverStatus = (rd32 s 0, driver_state_name (rd32 s 0)), st_UserServiceStatus = (rd32 s 4, service_state_name (rd32 s 4)),
          st_UserReady = (rd32 s 24 \<noteq> 0), st_UserPid = rd32 s 28, st_ShmMapped = (rd32 s 16 \<noteq> 0), st_ShmSize = rd32 s 20,
          st_ControllerCount = rd32 s 8, st_NamespaceCount = rd32 s 12, st_CommandsProcessed = rd64 s 32,
          st_CompletionsPosted = rd64 s 40, st_BytesRead = rd64 s 48, st_BytesWritten = rd64 s 56, st_ErrorCount = rd64 s 64,
          st_UptimeMs = rd64 s 72, st_LastHeartbeatMs = rd64 s 80\<rparr>))
       (ctl_request os IOCTL_VNVME_GET_STATUS [] 88 d)"

text \<open>The characters at \<open>a\<close> up to the terminator, of at most \<open>n\<close>.\<close>

definition rd_string :: "nat \<Rightarrow> nat \<Rightarrow> mem \<Rightarrow> string" where
  "rd_string a n b = map (\<lambda>c. char_of (unat c)) (takeWhile (\<lambda>c. c \<noteq> 0) (rd_bytes b a n))"

text \<open>The loop prints at most sixteen entries. \<open>%s\<close> reads to the terminator, at most to the end of the structure.\<close>

definition CmdListControllers :: "ctl_os \<Rightarrow> vnvme_driver \<Rightarrow> ctl_result option" where
  "CmdListControllers os d =
     map_option (reported (\<lambda>b. Controllers (rd32 b 0)
         (map (\<lambda>i. let a = 8 + 80 * i in (rd32 b a, rd32 b (a + 4), rd_string (a + 28) (1260 - 80 * i) b, rd_string (a + 8) (1280 - 80 * i) b))
           [0..<min (unat (rd32 b 0)) 16])))
       (ctl_request os IOCTL_VNVME_LIST_CONTROLLERS [] 1288 d)"

section \<open>Creating and deleting controllers\<close>

definition size_suffix :: "char \<Rightarrow> nat option" where
  "size_suffix c =
     (if c = CHR ''K'' \<or> c = CHR ''k'' then Some 10 else if c = CHR ''M'' \<or> c = CHR ''m'' then Some 20
      else if c = CHR ''G'' \<or> c = CHR ''g'' then Some 30 else if c = CHR ''T'' \<or> c = CHR ''t'' then Some 40 else None)"

definition ParseSizeString :: "bool \<Rightarrow> string \<Rightarrow> u64" where
  "ParseSizeString strdup str =
     (if str = [] then 0
      else case size_suffix (last str) of
             Some k \<Rightarrow> (if strdup then atoi64 (butlast str) else 0) * 2 ^ k
           | None \<Rightarrow> atoi64 str)"

text \<open>\<open>strcpy_s\<close> and \<open>strncpy_s\<close> with truncation: the characters and a terminator, in \<open>n\<close> bytes.\<close>

definition put_string :: "nat \<Rightarrow> nat \<Rightarrow> string \<Rightarrow> mem \<Rightarrow> mem" where
  "put_string a n txt = wr_bytes a (map of_char (take (n - 1) txt) @ [0])"

text \<open>The zeroed input with the defaults: the serial number at 0, the model at 20, the firmware at 60, and the numbers after it.\<close>

definition create_defaults :: mem where
  "create_defaults =
     (let b = (\<lambda>_. 0); b = wr64 88 (64 * 1024 * 1024) b; b = wr32 96 512 b; b = wr32 84 1 b; b = wr32 68 1 b; b = wr32 72 16 b;
          b = wr32 76 256 b; b = wr32 80 (1024 * 1024) b; b = put_string 20 40 ''Virtual NVMe'' b;
          b = put_string 0 20 ''VNVME00001'' b
      in put_string 60 8 ''1.0.0'' b)"

definition option_text :: "string \<Rightarrow> string \<Rightarrow> string option" where
  "option_text name arg = (if take (length name) arg = name then Some (drop (length name) arg) else None)"

definition create_option :: "ctl_os \<Rightarrow> string \<Rightarrow> mem \<Rightarrow> ctl_error + mem" where
  "create_option os arg b =
     (case option_text ''--size='' arg of
        Some txt \<Rightarrow>
          (let n = ParseSizeString (co_strdup os) txt in if n = 0 then Inl (InvalidSize txt) else Inr (wr64 88 n b))
      | None \<Rightarrow>
     (case option_text ''--backend='' arg of
        Some txt \<Rightarrow>
          if txt = ''memory'' then Inr (wr32 84 1 b) else if txt = ''file'' then Inr (wr32 84 2 b) else Inl (UnknownBackend txt)
      | None \<Rightarrow>
     (case option_text ''--file='' arg of
        Some txt \<Rightarrow> (case co_wide os txt of None \<Rightarrow> Inl (InvalidPath txt) | Some us \<Rightarrow> Inr (wr_units 104 us b))
      | None \<Rightarrow>
     (case option_text ''--model='' arg of
        Some txt \<Rightarrow> Inr (put_string 20 40 txt b)
      | None \<Rightarrow>
     (case option_text ''--serial='' arg of
        Some txt \<Rightarrow> Inr (put_string 0 20 txt b)
      | None \<Rightarrow> Inl (UnknownOption arg))))))"

fun create_options :: "ctl_os \<Rightarrow> string list \<Rightarrow> mem \<Rightarrow> ctl_error + mem" where
  "create_options os [] b = Inr b"
| "create_options os (arg # args) b =
     (case create_option os arg b of Inl e \<Rightarrow> Inl e | Inr b \<Rightarrow> create_options os args b)"

definition CmdCreate :: "ctl_os \<Rightarrow> string list \<Rightarrow> vnvme_driver \<Rightarrow> ctl_result option" where
  "CmdCreate os argv d =
     (case create_options os (drop 2 argv) create_defaults of
        Inl e \<Rightarrow> Some (1, Failed e, d)
      | Inr b \<Rightarrow>
          if rd32 b 84 = 2 \<and> rd16 b 104 = 0 then Some (1, Failed PathMissing, d)
          else map_option (reported (\<lambda>out. Created (rd32 out 0)))
                 (ctl_request os IOCTL_VNVME_CREATE_CONTROLLER (rd_bytes b 0 624) 404 d))"

definition CmdDelete :: "ctl_os \<Rightarrow> string list \<Rightarrow> vnvme_driver \<Rightarrow> ctl_result option" where
  "CmdDelete os argv d =
     (if length argv < 3 then Some (1, Usage, d)
      else
        let ControllerId = atoi (argv ! 2)
        in if ControllerId = 0 \<and> argv ! 2 \<noteq> ''0'' then Some (1, Failed (InvalidId (argv ! 2)), d)
           else map_option (reported (\<lambda>_. Deleted ControllerId))
                  (ctl_request os IOCTL_VNVME_DELETE_CONTROLLER (rd_bytes (wr32 0 ControllerId (\<lambda>_. 0)) 0 8) 0 d))"

section \<open>Namespaces\<close>

definition namespace_reports :: "mem \<Rightarrow> namespace_report list" where
  "namespace_reports b =
     map (\<lambda>i. let a = 408 + 60 * i in
         \<lparr>nsr_NSID = rd32 b a, nsr_Active = (rd32 b (a + 4) \<noteq> 0), nsr_TotalBlocks = rd64 b (a + 8), nsr_BlockSize = rd32 b (a + 16),
          nsr_ReadCommands = rd64 b (a + 20), nsr_ReadBytes = rd64 b (a + 44), nsr_WriteCommands = rd64 b (a + 28),
          nsr_WriteBytes = rd64 b (a + 52), nsr_FlushCommands = rd64 b (a + 36)\<rparr>)
       [0..<min (unat (rd32 b 4)) 16]"

text \<open>The input of the statistics request: an optional controller.\<close>

definition stats_input :: "string list \<Rightarrow> u8 list" where
  "stats_input argv = rd_bytes (if length argv \<ge> 3 then wr32 0 (atoi (argv ! 2)) (\<lambda>_. 0) else (\<lambda>_. 0)) 0 8"

definition CmdListNamespaces :: "ctl_os \<Rightarrow> string list \<Rightarrow> vnvme_driver \<Rightarrow> ctl_result option" where
  "CmdListNamespaces os argv d =
     map_option (reported (\<lambda>stats. Namespaces (rd32 stats 4) (namespace_reports stats)))
       (ctl_request os IOCTL_VNVME_GET_STATS (stats_input argv) 1368 d)"

abbreviation (input) VNVME_NS_FLAG_ENABLED :: u32 where "VNVME_NS_FLAG_ENABLED \<equiv> 1"

text \<open>The last size counts; other arguments are ignored.\<close>

fun namespace_options :: "ctl_os \<Rightarrow> string list \<Rightarrow> u64 \<Rightarrow> u64" where
  "namespace_options os [] TotalBlocks = TotalBlocks"
| "namespace_options os (arg # args) TotalBlocks =
     namespace_options os args
       (case option_text ''--size='' arg of Some txt \<Rightarrow> ParseSizeString (co_strdup os) txt div 512 | None \<Rightarrow> TotalBlocks)"

definition CmdCreateNamespace :: "ctl_os \<Rightarrow> string list \<Rightarrow> vnvme_driver \<Rightarrow> ctl_result option" where
  "CmdCreateNamespace os argv d =
     (if length argv < 3 then Some (1, Usage, d)
      else
        let b = wr32 0 (atoi (argv ! 2)) (\<lambda>_. 0); b = wr32 16 512 b;
            b = wr64 8 (namespace_options os (drop 3 argv) (64 * 1024 * 1024 div 512)) b; b = wr32 20 VNVME_NS_FLAG_ENABLED b
        in map_option (reported (\<lambda>out. NamespaceCreated (rd32 out 0)))
             (ctl_request os IOCTL_VNVME_CREATE_NAMESPACE (rd_bytes b 0 284) 8 d))"

definition CmdDeleteNamespace :: "ctl_os \<Rightarrow> string list \<Rightarrow> vnvme_driver \<Rightarrow> ctl_result option" where
  "CmdDeleteNamespace os argv d =
     (if length argv < 4 then Some (1, Usage, d)
      else
        map_option (reported (\<lambda>_. NamespaceDeleted (atoi (argv ! 3))))
          (ctl_request os IOCTL_VNVME_DELETE_NAMESPACE
            (rd_bytes (wr32 4 (atoi (argv ! 3)) (wr32 0 (atoi (argv ! 2)) (\<lambda>_. 0))) 0 8) 0 d))"

section \<open>Statistics, debugging and the test\<close>

definition controller_reports :: "mem \<Rightarrow> controller_report list" where
  "controller_reports b =
     map (\<lambda>i. let a = 24 + 48 * i in
         \<lparr>cr_ControllerId = rd32 b a, cr_NamespaceCount = rd32 b (a + 4), cr_IoQueueCount = rd32 b (a + 40),
          cr_AdminCommandsProcessed = rd64 b (a + 8), cr_IoCommandsProcessed = rd64 b (a + 16),
          cr_TotalReadBytes = rd64 b (a + 24), cr_TotalWriteBytes = rd64 b (a + 32), cr_PollingIntervalUs = rd32 b (a + 44)\<rparr>)
       [0..<min (unat (rd32 b 0)) 8]"

definition CmdStats :: "ctl_os \<Rightarrow> string list \<Rightarrow> vnvme_driver \<Rightarrow> ctl_result option" where
  "CmdStats os argv d =
     map_option (reported (\<lambda>stats. Statistics (rd64 stats 8) (rd32 stats 0) (rd32 stats 4) (rd64 stats 16)
         (controller_reports stats) (namespace_reports stats)))
       (ctl_request os IOCTL_VNVME_GET_STATS (stats_input argv) 1368 d)"

definition CmdDebug :: "ctl_os \<Rightarrow> string list \<Rightarrow> vnvme_driver \<Rightarrow> ctl_result option" where
  "CmdDebug os argv d =
     (if length argv < 3 then Some (0, Usage, d)
      else
        let b = wr32 0 (atoi (argv ! 2)) (\<lambda>_. 0); b = (if length argv \<ge> 4 then wr32 4 (strtoul (argv ! 3)) b else b)
        in map_option (reported (\<lambda>_. DebugLevelSet)) (ctl_request os IOCTL_VNVME_SET_DEBUG_LEVEL (rd_bytes b 0 8) 0 d))"

definition CmdTest :: "ctl_os \<Rightarrow> vnvme_driver \<Rightarrow> ctl_result option" where
  "CmdTest os d = do {
     (r1, o1, d) \<leftarrow> CmdVersion os d;
     (r2, o2, d) \<leftarrow> CmdStatus os d;
     (r3, o3, d) \<leftarrow> CmdListControllers os d;
     Some (if r1 \<noteq> 0 \<or> r2 \<noteq> 0 \<or> r3 \<noteq> 0 then 1 else 0, Tests [o1, o2, o3], d)
   }"

definition vnvmectl_main :: "ctl_os \<Rightarrow> string list \<Rightarrow> vnvme_driver \<Rightarrow> ctl_result option" where
  "vnvmectl_main os argv d =
     (if length argv < 2 then Some (0, Usage, d)
      else if stricmp (argv ! 1) ''version'' then CmdVersion os d
      else if stricmp (argv ! 1) ''status'' then CmdStatus os d
      else if stricmp (argv ! 1) ''list'' then CmdListControllers os d
      else if stricmp (argv ! 1) ''create'' then CmdCreate os argv d
      else if stricmp (argv ! 1) ''delete'' then CmdDelete os argv d
      else if stricmp (argv ! 1) ''ns-list'' then CmdListNamespaces os argv d
      else if stricmp (argv ! 1) ''ns-create'' then CmdCreateNamespace os argv d
      else if stricmp (argv ! 1) ''ns-delete'' then CmdDeleteNamespace os argv d
      else if stricmp (argv ! 1) ''stats'' then CmdStats os argv d
      else if stricmp (argv ! 1) ''debug'' then CmdDebug os argv d
      else if stricmp (argv ! 1) ''test'' then CmdTest os d
      else if stricmp (argv ! 1) ''help'' \<or> stricmp (argv ! 1) ''-h'' \<or> stricmp (argv ! 1) ''--help'' then Some (0, Usage, d)
      else Some (1, Failed (UnknownCommand (argv ! 1)), d))"

section \<open>Sizes\<close>

lemma last_digit_plain: "size_suffix (last (digits n)) = None"
proof -
  have "digit_in 10 (last (digits n))" by (rule digit_in_digits [of _ n]) simp
  then show ?thesis by (auto simp: size_suffix_def digit_in_def digit_value_def lower_def Let_def split: if_splits)
qed

lemma ParseSizeString_suffix:
  assumes "n < 2 ^ 63" "size_suffix c = Some k"
  shows "ParseSizeString True (digits n @ [c]) = of_nat (n * 2 ^ k)"
proof -
  have "atoi64 (digits n) = of_nat n" using atoi64_digits [OF assms(1)] by (metis of_nat_unat ucast_id)
  with assms(2) show ?thesis by (simp add: ParseSizeString_def)
qed

lemma ParseSizeString_plain:
  assumes "n < 2 ^ 63" "no_digit s" "size_suffix (last (digits n @ s)) = None"
  shows "ParseSizeString strdup (digits n @ s) = of_nat n"
proof -
  have "scan_int (digits n @ s) = int n" by (rule scan_int_digits [OF assms(2)])
  then have "atoi64 (digits n @ s) = of_nat n" using assms(1) by (simp add: atoi64_def)
  with assms(3) show ?thesis by (simp add: ParseSizeString_def)
qed

lemma size_suffix_shift: "size_shift (upper c) = Some k \<Longrightarrow> size_suffix c = Some k \<or> size_suffix c = None \<and> k = 0"
  by (frule size_shift_chars, elim imageE insertE emptyE)
    (auto simp: size_suffix_def size_shift_def upper_def char_of_eq_iff split: if_splits)

text \<open>C33: the tool and the service mean the same by a size. For every whole number below \<open>2 ^ 53\<close>, followed by a suffix that
  the service knows or by none, as long as the size fits into 64 bits, the integer arithmetic of the tool and the floating-point
  arithmetic of the service give the same number of bytes.\<close>

theorem ParseSizeString_agrees:
  assumes "n < 2 ^ 53" "size_shift (upper c) = Some k" "n * 2 ^ k < 2 ^ 64" "s = [] \<or> s = [c]"
  shows "ConfigParseSize (Some (digits n @ s)) = Some (ParseSizeString True (digits n @ s))"
proof (cases "s = []")
  case True
  with ParseSizeString_plain [of n "[]"] assms(1) show ?thesis
    by (simp add: ConfigParseSize_plain no_digit_def last_digit_plain)
next
  case False
  then have s: "s = [c]" using assms(4) by simp
  have "ParseSizeString True (digits n @ [c]) = of_nat (n * 2 ^ k)"
    using size_suffix_shift [OF assms(2)]
  proof
    assume "size_suffix c = Some k"
    with assms(1) show ?thesis by (intro ParseSizeString_suffix) auto
  next
    assume "size_suffix c = None \<and> k = 0"
    with ParseSizeString_plain [of n "[c]"] assms(1) number_end_no_digit [OF size_shift_number_end [OF assms(2)]] show ?thesis by simp
  qed
  with assms s show ?thesis by (simp only: ConfigParseSize_suffix)
qed

theorem ParseSizeString_agrees_witness:
  "ConfigParseSize (Some (digits 64 @ ''m'')) = Some (ParseSizeString True (digits 64 @ ''m''))"
  by (rule ParseSizeString_agrees [of 64 "CHR ''m''" 20]) (simp_all add: size_shift_def upper_def char_of_eq_iff)


section \<open>Creating a namespace from the command line\<close>

lemma dispatch_ns_create: "vnvmectl_main os (prog # ''ns-create'' # args) d = CmdCreateNamespace os (prog # ''ns-create'' # args) d"
proof -
  have "\<not> stricmp ''ns-create'' ''version''" "\<not> stricmp ''ns-create'' ''status''" "\<not> stricmp ''ns-create'' ''list''"
    "\<not> stricmp ''ns-create'' ''create''" "\<not> stricmp ''ns-create'' ''delete''" "\<not> stricmp ''ns-create'' ''ns-list''"
    "stricmp ''ns-create'' ''ns-create''"
    by code_simp+
  then show ?thesis by (simp add: vnvmectl_main_def)
qed

text \<open>Exit code 0 means that the request succeeded.\<close>

lemma reported_success:
  assumes "map_option (reported f) (ctl_request os code inp n d) = Some (0, report, d')"
  obtains h out where "co_DeviceIoControl os h code inp (replicate n 0) d = Some (True, out, d')" "report = f (bytes_mem out)"
proof -
  obtain r where r: "ctl_request os code inp n d = Some r" "reported f r = (0, report, d')" using assms by blast
  from r(2) obtain m where m: "r = (Inr m, d')" "report = f m"
    by (cases r) (auto simp: reported_def split: sum.splits)
  with r(1) that show ?thesis
    by (auto simp: ctl_request_def OpenVnvmeDevice_def split: if_splits bind_splits)
qed

lemma created_namespace_information:
  assumes "driver_ok d" "VnvmeHandleCreateNamespace os rq d = Some r" "NT_SUCCESS (res_Status r)"
  shows "res_Information r = 8"
  using assms(1,2)
  by (cases rule: VnvmeHandleCreateNamespace_cases) (use assms(3) in \<open>auto simp: refused_def answered_def namespace_added_def Let_def\<close>)

context buffered_device
begin

lemma namespace_request:
  assumes "driver_ok d" "DeviceIoControl h IOCTL_VNVME_CREATE_NAMESPACE inp (replicate 8 0) d = Some (True, out, d')"
  obtains os rq r where "request_for inp (replicate 8 0) rq" "VnvmeHandleCreateNamespace os rq d = Some r" "NT_SUCCESS (res_Status r)"
    "d' = res_Driver r" "rd32 (bytes_mem out) 0 = rd32 (res_Buffer r) 0"
proof -
  obtain os rq where io: "request_for inp (replicate 8 0) rq"
      "map_option (completed (replicate 8 0)) (VnvmeHandleCreateNamespace os rq d) = Some (True, out, d')"
    using device_io [of h IOCTL_VNVME_CREATE_NAMESPACE inp "replicate 8 0" d] unfolding assms(2) dispatch by fastforce
  then obtain r where rq: "request_for inp (replicate 8 0) rq" "VnvmeHandleCreateNamespace os rq d = Some r"
      "completed (replicate 8 0) r = (True, out, d')" by blast
  then have ok: "NT_SUCCESS (res_Status r)" by (auto simp: completed_def split: if_splits)
  then have "out = rd_bytes (res_Buffer r) 0 8" "d' = res_Driver r"
    using rq(3) created_namespace_information [OF assms(1) rq(2)] by (auto simp: completed_def)
  with rq ok rd32_bytes_mem [of 0 8 "res_Buffer r" "[]"] that show ?thesis by simp
qed

end

lemma request_fields:
  assumes "request_for (rd_bytes b 0 n) out rq"
  shows "a + 4 \<le> n \<Longrightarrow> rd32 (rq_SystemBuffer rq) a = rd32 b a" "a + 8 \<le> n \<Longrightarrow> rd64 (rq_SystemBuffer rq) a = rd64 b a"
  using assms by (auto simp: request_for_def intro!: rd32_eqI rd64_eqI)

text \<open>C15: \<open>vnvmectl ns-create\<close> does what it is asked for, when the size is one it can compute. Take a controller number \<open>cid\<close> below
  \<open>2 ^ 31\<close> and a size of \<open>n\<close> with one of the suffixes K, M, G and T, which stands for \<open>2 ^ k\<close>, where \<open>n < 2 ^ 63\<close> and
  \<open>n * 2 ^ k < 2 ^ 64\<close>; the tool multiplies without a check, so that a larger product wraps and another size is
  created. When the command ends
  with exit code 0, the controller existed, exactly one slot of its table went from inactive to a namespace of \<open>n * 2 ^ k\<close>
  bytes in blocks of 512 whose storage holds all of them, no other controller changed, and the number that is
  reported is the one in the namespace, its place in the table counted from 1.\<close>

theorem ns_create_creates:
  assumes "buffered_device (co_DeviceIoControl os)" "co_strdup os" "driver_ok d"
    and "cid < 2 ^ 31" "n < 2 ^ 63" "size_suffix c = Some k" "n * 2 ^ k < 2 ^ 64"
    and "vnvmectl_main os [prog, ''ns-create'', digits cid, ''--size='' @ digits n @ [c]] d = Some (0, report, d')"
  shows "\<exists>f f' p p' i ns. drv_Fdo d = Some f \<and> drv_Fdo d' = Some f'
    \<and> CtrlDevFindController f (of_nat cid) = Some p \<and> CtrlDevFindController f' = (CtrlDevFindController f)(of_nat cid \<mapsto> p')
    \<and> i < VNVME_MAX_NAMESPACES \<and> \<not> ns_Active (pdo_Namespaces p ! i) \<and> pdo_Namespaces p' = (pdo_Namespaces p)[i := ns]
    \<and> unat (ns_TotalBlocks ns) = n * 2 ^ k div 512 \<and> ns_BlockSize ns = 512 \<and> ns_backed ns
    \<and> ns_NsId ns = of_nat i + 1 \<and> report = NamespaceCreated (ns_NsId ns)"
proof -
  have cid: "atoi (digits cid) = of_nat cid" using atoi_digits [OF assms(4)] by (metis of_nat_unat ucast_id)
  have size: "namespace_options os [''--size='' @ digits n @ [c]] x = of_nat (n * 2 ^ k) div 512" for x
    using ParseSizeString_suffix [OF assms(5,6)] assms(2) by (simp add: option_text_def)
  define b where "b = wr32 20 1 (wr64 8 (of_nat (n * 2 ^ k) div 512) (wr32 16 512 (wr32 0 (of_nat cid) (\<lambda>_. 0))))"
  have b: "rd32 b 0 = of_nat cid" "rd64 b 8 = of_nat (n * 2 ^ k) div 512" "rd32 b 16 = 512"
    unfolding b_def by (simp_all add: mem_simps)
  obtain h out where io: "co_DeviceIoControl os h IOCTL_VNVME_CREATE_NAMESPACE (rd_bytes b 0 284) (replicate 8 0) d = Some (True, out, d')"
      "report = NamespaceCreated (rd32 (bytes_mem out) 0)"
  proof -
    have "map_option (reported (\<lambda>out. NamespaceCreated (rd32 out 0))) (ctl_request os IOCTL_VNVME_CREATE_NAMESPACE (rd_bytes b 0 284) 8 d)
        = Some (0, report, d')"
      using assms(8) size unfolding dispatch_ns_create CmdCreateNamespace_def b_def by (simp add: cid Let_def del: namespace_options.simps)
    then show ?thesis using that by (elim reported_success) blast
  qed
  obtain ios rq r where rq: "request_for (rd_bytes b 0 284) (replicate 8 0) rq" "VnvmeHandleCreateNamespace ios rq d = Some r"
      "NT_SUCCESS (res_Status r)" "d' = res_Driver r" "rd32 (bytes_mem out) 0 = rd32 (res_Buffer r) 0"
    by (rule buffered_device.namespace_request [OF assms(1,3) io(1)])
  have fields: "rd32 (rq_SystemBuffer rq) 0 = of_nat cid" "rd64 (rq_SystemBuffer rq) 8 = of_nat (n * 2 ^ k) div 512"
      "rd32 (rq_SystemBuffer rq) 16 = 512"
    using request_fields [OF rq(1)] b by simp_all
  have blocks: "unat (of_nat (n * 2 ^ k) div 512 :: u64) = n * 2 ^ k div 512" using assms(7) by (simp add: unat_div unat_of_nat del: of_nat_mult of_nat_power)
  obtain f f' p p' i ns where ns: "drv_Fdo d = Some f" "drv_Fdo (res_Driver r) = Some f'"
      "CtrlDevFindController f (rd32 (rq_SystemBuffer rq) 0) = Some p"
      "CtrlDevFindController f' = (CtrlDevFindController f)(rd32 (rq_SystemBuffer rq) 0 \<mapsto> p')" "i < VNVME_MAX_NAMESPACES"
      "rd32 (res_Buffer r) 0 = of_nat i + 1" "\<not> ns_Active (pdo_Namespaces p ! i)" "pdo_Namespaces p' = (pdo_Namespaces p)[i := ns]"
      "ns_NsId ns = rd32 (res_Buffer r) 0" "ns_TotalBlocks ns = rd64 (rq_SystemBuffer rq) 8"
      "ns_BlockSize ns = (if rd32 (rq_SystemBuffer rq) 16 = 0 then 512 else rd32 (rq_SystemBuffer rq) 16)" "ns_backed ns"
    using created_namespace [OF assms(3) rq(2,3)] by (elim exE conjE) (rule that)
  show ?thesis
    using ns blocks io(2) rq(4,5) unfolding fields
    by (intro exI [of _ f] exI [of _ f'] exI [of _ p] exI [of _ p'] exI [of _ i] exI [of _ ns]) (simp del: of_nat_mult of_nat_power)
qed


text \<open>The tool on the controller of the example, asked for four kilobytes.\<close>

definition example_ctl :: ctl_os where
  "example_ctl = \<lparr>co_CreateFile = 4, co_DeviceIoControl = io_manager example_ios, co_strdup = True,
     co_wide = (\<lambda>txt. Some (map (\<lambda>c. of_nat (of_char c)) txt @ [0]))\<rparr>"

lemma example_ns_create:
  "\<exists>report d'. vnvmectl_main example_ctl [''vnvmectl'', ''ns-create'', digits 1, ''--size='' @ digits 4 @ ''K''] example_driver1 = Some (0, report, d')"
proof -
  obtain f where f: "drv_Fdo example_driver1 = Some f" "fd_ChildDeviceList f = [created_PDO 1]"
    using example_driver1_eq by blast
  have cfg: "drv_Config example_driver1 = g_Config_init"
    by (simp add: example_driver1_def VnvmeHandleCreateController_def example_driver_def example_request_def example_ios_def
        initial_FDO_def VnvmeCreateVirtualController_def VnvmeCreateControllerPdo_ok Let_def answered_def)
  define b where "b = wr32 20 1 (wr64 8 8 (wr32 16 512 (wr32 0 1 (\<lambda>_. 0))))"
  have b: "rd32 b 0 = 1" "rd64 b 8 = 8" "rd32 b 16 = 512" "rd32 b 20 = 1" unfolding b_def by (simp_all add: mem_simps)
  let ?rq = "buffered_request (rd_bytes b 0 284) (replicate 8 0)"
  have fields: "rd32 (rq_SystemBuffer ?rq) 0 = 1" "rd64 (rq_SystemBuffer ?rq) 8 = 8" "rd32 (rq_SystemBuffer ?rq) 16 = 512"
      "rd32 (rq_SystemBuffer ?rq) 20 = 1"
    using request_fields [OF request_for_buffered [of "rd_bytes b 0 284" "replicate 8 0"]] b by simp_all
  have lengths: "rq_InputBufferLength ?rq = 284" "rq_OutputBufferLength ?rq = 8" "rq_RetrieveInputBuffer ?rq = STATUS_SUCCESS"
      "rq_RetrieveOutputBuffer ?rq = STATUS_SUCCESS" by (simp_all add: buffered_request_def)
  have slot: "free_slot 0 (take 16 (pdo_Namespaces (created_PDO 1))) = Some 0" "pdo_NamespaceCount (created_PDO 1) = 0"
      "pdo_ControllerId (created_PDO 1) = 1"
    by (simp_all add: created_PDO_def zero_PDO_CONTEXT_def zero_NAMESPACE_def numeral_eq_Suc)
  have "\<exists>r. VnvmeHandleCreateNamespace example_ios ?rq example_driver1 = Some r \<and> NT_SUCCESS (res_Status r)"
    by (simp add: VnvmeHandleCreateNamespace_def f cfg fields lengths slot Let_def
        CtrlDevFindController_def check_geometry_def new_namespace_def zero_NAMESPACE_def storage_choice_def g_Config_init_def
        VnvmeStorageCreate_def StorageMemoryInit_def example_ios_def answered_def)
  then obtain r where r: "VnvmeHandleCreateNamespace example_ios ?rq example_driver1 = Some r" "NT_SUCCESS (res_Status r)" by blast
  have "\<exists>report d'. map_option (reported (\<lambda>out. NamespaceCreated (rd32 out 0)))
      (ctl_request example_ctl IOCTL_VNVME_CREATE_NAMESPACE (rd_bytes b 0 284) 8 example_driver1) = Some (0, report, d')"
    using r by (simp add: ctl_request_def OpenVnvmeDevice_def example_ctl_def io_manager_def dispatch completed_def reported_def)
  moreover have "atoi (digits 1) = 1" using atoi_digits [of 1] by (simp add: word_unat_eq_iff)
  moreover have "namespace_options example_ctl [''--size='' @ digits 4 @ ''K''] 131072 = 8"
    using ParseSizeString_suffix [of 4 "CHR ''K''" 10] by (simp add: option_text_def example_ctl_def size_suffix_def)
  ultimately show ?thesis
    unfolding dispatch_ns_create CmdCreateNamespace_def b_def by (simp add: Let_def del: namespace_options.simps)
qed

theorem ns_create_creates_witness:
  "\<exists>d' f' p' ns i. vnvmectl_main example_ctl [''vnvmectl'', ''ns-create'', digits 1, ''--size='' @ digits 4 @ ''K''] example_driver1
      = Some (0, NamespaceCreated (of_nat i + 1), d')
    \<and> drv_Fdo d' = Some f' \<and> CtrlDevFindController f' 1 = Some p' \<and> ns_backed ns \<and> unat (ns_TotalBlocks ns) = 8"
proof -
  obtain report d' where run: "vnvmectl_main example_ctl [''vnvmectl'', ''ns-create'', digits 1, ''--size='' @ digits 4 @ ''K''] example_driver1
      = Some (0, report, d')" using example_ns_create by blast
  have "buffered_device (co_DeviceIoControl example_ctl)" "co_strdup example_ctl"
    by (simp_all add: example_ctl_def io_manager.buffered_device_axioms)
  from ns_create_creates [OF this driver_ok_example1 _ _ _ _ run, of 10] show ?thesis
    using run by (fastforce simp: size_suffix_def)
qed

section \<open>Creating a controller from the command line\<close>

text \<open>The first 404 bytes of the answer do not depend on what the buffer held.\<close>

lemma create_answer_bytes:
  "rd_bytes (wr_text 4 txt (zero_range 4 400 (wr32 0 x b))) 0 404 = rd_bytes (wr_text 4 txt (zero_range 4 400 (wr32 0 x b'))) 0 404"
proof (rule nth_equalityI)
  fix i assume "i < length (rd_bytes (wr_text 4 txt (zero_range 4 400 (wr32 0 x b))) 0 404)"
  then have i: "i < 404" by simp
  have same: "zero_range 4 400 (wr32 0 x b) j = zero_range 4 400 (wr32 0 x b') j" if "j < 404" for j
    using that by (cases "j < 4") (auto simp: zero_range_def wr32_def wr16_def wr8_def)
  from i show "rd_bytes (wr_text 4 txt (zero_range 4 400 (wr32 0 x b))) 0 404 ! i = rd_bytes (wr_text 4 txt (zero_range 4 400 (wr32 0 x b'))) 0 404 ! i"
    using same [OF i] by (simp add: wr_text_def wr_bytes_def)
qed simp

lemma create_request_same:
  assumes "length inp = length inp'"
  shows "io_manager ios h IOCTL_VNVME_CREATE_CONTROLLER inp (replicate 404 0) d = io_manager ios h IOCTL_VNVME_CREATE_CONTROLLER inp' (replicate 404 0) d"
proof -
  have "completed (replicate 404 0) (VnvmeHandleCreateController ios (buffered_request inp (replicate 404 0)) d)
      = completed (replicate 404 0) (VnvmeHandleCreateController ios (buffered_request inp' (replicate 404 0)) d)"
    using assms
    by (cases "drv_Fdo d") (simp_all add: VnvmeHandleCreateController_def buffered_request_def completed_def refused_def answered_def Let_def
        create_answer_bytes [of _ _ "\<lambda>i. if i < length inp' then inp ! i else 0"] split: prod.split)
  then show ?thesis by (simp add: io_manager_def dispatch)
qed

lemma dispatch_create: "vnvmectl_main os (prog # ''create'' # args) d = CmdCreate os (prog # ''create'' # args) d"
proof -
  have "\<not> stricmp ''create'' ''version''" "\<not> stricmp ''create'' ''status''" "\<not> stricmp ''create'' ''list''" "stricmp ''create'' ''create''"
    by code_simp+
  then show ?thesis by (simp add: vnvmectl_main_def)
qed

text \<open>The options of \<open>vnvmectl create\<close> have no effect. Every accepted list of options, whatever size, back end, path, model or serial
  number it names, gives the same exit code, the same report and the same driver as none: the driver never looks at the
  configuration it is sent.\<close>

theorem create_options_ignored:
  assumes "co_DeviceIoControl os = io_manager ios" "create_options os args create_defaults = Inr b" "rd32 b 84 = 2 \<longrightarrow> rd16 b 104 \<noteq> 0"
  shows "vnvmectl_main os (prog # ''create'' # args) d = vnvmectl_main os [prog, ''create''] d"
proof -
  have "ctl_request os IOCTL_VNVME_CREATE_CONTROLLER (rd_bytes b 0 624) 404 d
      = ctl_request os IOCTL_VNVME_CREATE_CONTROLLER (rd_bytes create_defaults 0 624) 404 d"
    using create_request_same [of "rd_bytes b 0 624" "rd_bytes create_defaults 0 624" ios _ d] assms(1)
    by (simp add: ctl_request_def split: sum.split)
  moreover have "rd32 create_defaults 84 = 1"
    by (simp add: create_defaults_def Let_def put_string_def rd_wr_bytes_apart mem_simps)
  ultimately show ?thesis using assms(2,3) by (auto simp: dispatch_create CmdCreate_def)
qed

theorem create_options_ignored_witness:
  "vnvmectl_main example_ctl [''vnvmectl'', ''create'', ''--size='' @ digits 1 @ ''G'', ''--model=X''] example_driver
    = vnvmectl_main example_ctl [''vnvmectl'', ''create''] example_driver"
proof -
  have "create_options example_ctl [''--size='' @ digits 1 @ ''G'', ''--model=X''] create_defaults
      = Inr (put_string 20 40 ''X'' (wr64 88 1073741824 create_defaults))"
    using ParseSizeString_suffix [of 1 "CHR ''G''" 30]
    by (simp add: create_option_def option_text_def example_ctl_def size_suffix_def)
  moreover have "rd32 (put_string 20 40 ''X'' (wr64 88 1073741824 create_defaults)) 84 = 1"
    by (simp add: create_defaults_def Let_def put_string_def rd_wr_bytes_apart mem_simps)
  moreover have "co_DeviceIoControl example_ctl = io_manager example_ios" by (simp add: example_ctl_def)
  ultimately show ?thesis using create_options_ignored by simp
qed

end
