(* ===== verification/Vnvme_Reports.thy ===== *)
theory Vnvme_Reports
  imports Vnvme_Ctl
begin

text \<open>
  What \<^verbatim>\<open>vnvmectl stats\<close> prints: the handler of \<^verbatim>\<open>IOCTL_VNVME_GET_STATS\<close> (\<^verbatim>\<open>ctrl_dev.c\<close>) fills two arrays of one structure in
  nested loops, the tool (\<^verbatim>\<open>vnvmectl/main.c\<close>) reads them back. The theorem composes the two: the lines of the report are those of
  the driver's controllers and namespaces.
\<close>

section \<open>Lines of the report\<close>

definition reported_controller :: "VNVME_PDO_CONTEXT \<Rightarrow> controller_report" where
  "reported_controller p =
     \<lparr>cr_ControllerId = pdo_ControllerId p, cr_NamespaceCount = ucast (pdo_NamespaceCount p),
      cr_IoQueueCount = ucast (pdo_IoQueueCount p), cr_AdminCommandsProcessed = pdo_AdminCommandsProcessed p,
      cr_IoCommandsProcessed = pdo_IoCommandsProcessed p, cr_TotalReadBytes = pdo_BytesRead p,
      cr_TotalWriteBytes = pdo_BytesWritten p, cr_PollingIntervalUs = pdo_PollingIntervalUs p\<rparr>"

definition reported_namespace :: "VNVME_NAMESPACE \<Rightarrow> namespace_report" where
  "reported_namespace n =
     \<lparr>nsr_NSID = ns_NsId n, nsr_Active = True, nsr_TotalBlocks = ns_TotalBlocks n, nsr_BlockSize = ns_BlockSize n,
      nsr_ReadCommands = ns_ReadCommands n, nsr_ReadBytes = ns_ReadBytes n, nsr_WriteCommands = ns_WriteCommands n,
      nsr_WriteBytes = ns_WriteBytes n, nsr_FlushCommands = ns_FlushCommands n\<rparr>"

text \<open>The two arrays as the tool reads them, up to the given number of entries.\<close>

definition controller_at :: "mem \<Rightarrow> nat \<Rightarrow> controller_report" where
  "controller_at b i = (let a = 24 + 48 * i in
     \<lparr>cr_ControllerId = rd32 b a, cr_NamespaceCount = rd32 b (a + 4), cr_IoQueueCount = rd32 b (a + 40),
      cr_AdminCommandsProcessed = rd64 b (a + 8), cr_IoCommandsProcessed = rd64 b (a + 16),
      cr_TotalReadBytes = rd64 b (a + 24), cr_TotalWriteBytes = rd64 b (a + 32), cr_PollingIntervalUs = rd32 b (a + 44)\<rparr>)"

definition namespace_at :: "mem \<Rightarrow> nat \<Rightarrow> namespace_report" where
  "namespace_at b i = (let a = 408 + 60 * i in
     \<lparr>nsr_NSID = rd32 b a, nsr_Active = (rd32 b (a + 4) \<noteq> 0), nsr_TotalBlocks = rd64 b (a + 8), nsr_BlockSize = rd32 b (a + 16),
      nsr_ReadCommands = rd64 b (a + 20), nsr_ReadBytes = rd64 b (a + 44), nsr_WriteCommands = rd64 b (a + 28),
      nsr_WriteBytes = rd64 b (a + 52), nsr_FlushCommands = rd64 b (a + 36)\<rparr>)"

definition controllers_in :: "mem \<Rightarrow> nat \<Rightarrow> controller_report list" where
  "controllers_in b k = map (controller_at b) [0..<k]"

definition namespaces_in :: "mem \<Rightarrow> nat \<Rightarrow> namespace_report list" where
  "namespaces_in b k = map (namespace_at b) [0..<k]"

lemma reports_of_arrays:
  "controller_reports b = controllers_in b (min (unat (rd32 b 0)) 8)" "namespace_reports b = namespaces_in b (min (unat (rd32 b 4)) 16)"
  by (simp_all add: controller_reports_def namespace_reports_def controllers_in_def namespaces_in_def controller_at_def
      namespace_at_def Let_def)

text \<open>An entry depends on its own bytes only.\<close>

lemma controller_at_same_outside:
  "same_outside S m m' \<Longrightarrow> {24 + 48 * i..<24 + 48 * i + 48} \<inter> S = {} \<Longrightarrow> controller_at m' i = controller_at m i"
  unfolding controller_at_def Let_def
  by (intro controller_report.equality; simp)
    (auto intro!: rd32_same_outside rd64_same_outside simp: disjoint_iff)

lemma namespace_at_same_outside:
  assumes "same_outside S m m'" "{408 + 60 * i..<408 + 60 * i + 60} \<inter> S = {}"
  shows "namespace_at m' i = namespace_at m i"
proof -
  have r32: "rd32 m' (408 + 60 * i + k) = rd32 m (408 + 60 * i + k)" if "k + 4 \<le> 60" for k
    using assms that by (intro rd32_same_outside [OF assms(1)]) (auto simp: disjoint_iff)
  have r64: "rd64 m' (408 + 60 * i + k) = rd64 m (408 + 60 * i + k)" if "k + 8 \<le> 60" for k
    using assms that by (intro rd64_same_outside [OF assms(1)]) (auto simp: disjoint_iff)
  show ?thesis
    using r32 [of 0] r32 [of 4] r32 [of 16] r64 [of 8] r64 [of 20] r64 [of 28] r64 [of 36] r64 [of 44] r64 [of 52]
    by (simp add: namespace_at_def Let_def)
qed

lemma same_outside_controller_stats: "same_outside {a..<a + 48} b (controller_stats a p b)"
  unfolding controller_stats_def Let_def
  by (intro same_outside_trans [OF _ same_outside_wr32] same_outside_trans [OF _ same_outside_wr64] same_outside_wr32) auto

lemma same_outside_namespace_stats: "same_outside {a..<a + 60} b (namespace_stats a n b)"
  unfolding namespace_stats_def Let_def
  by (intro same_outside_trans [OF _ same_outside_wr32] same_outside_trans [OF _ same_outside_wr64] same_outside_wr32) auto

lemma controller_stats_entry: "controller_at (controller_stats (24 + 48 * i) p b) i = reported_controller p"
  by (simp add: controller_at_def controller_stats_def reported_controller_def Let_def mem_simps)

lemma namespace_stats_entry: "namespace_at (namespace_stats (408 + 60 * i) n b) i = reported_namespace n"
  by (simp add: namespace_at_def namespace_stats_def reported_namespace_def Let_def mem_simps)

section \<open>The loops\<close>

lemma arrays_Suc:
  "controllers_in b (Suc k) = controllers_in b k @ [controller_at b k]" "namespaces_in b (Suc k) = namespaces_in b k @ [namespace_at b k]"
  by (simp_all add: controllers_in_def namespaces_in_def)

lemma arrays_same_outside:
  "same_outside S m m' \<Longrightarrow> {24..<24 + 48 * k} \<inter> S = {} \<Longrightarrow> controllers_in m' k = controllers_in m k"
  "same_outside S m m' \<Longrightarrow> {408..<408 + 60 * k} \<inter> S = {} \<Longrightarrow> namespaces_in m' k = namespaces_in m k"
  unfolding controllers_in_def namespaces_in_def
  by (auto intro!: controller_at_same_outside namespace_at_same_outside simp: disjoint_iff)

definition namespaces_added :: "VNVME_NAMESPACE list \<Rightarrow> nat \<Rightarrow> mem \<Rightarrow> nat \<Rightarrow> mem \<Rightarrow> bool" where
  "namespaces_added ns i b k b' \<longleftrightarrow> k = min 16 (i + length ns)
     \<and> namespaces_in b' k = namespaces_in b i @ map reported_namespace (take (16 - i) ns)
     \<and> same_outside ({4..<8} \<union> {408 + 60 * i..<1368}) b b' \<and> rd32 b' 4 = rd32 b 4 + of_nat (k - i)"

lemma namespace_added_first:
  assumes "i < 16" "b1 = wr32 4 (rd32 (namespace_stats (408 + 60 * i) n b) 4 + 1) (namespace_stats (408 + 60 * i) n b)"
    and "namespaces_added ns (Suc i) b1 k b'"
  shows "namespaces_added (n # ns) i b k b'"
proof -
  let ?s = "namespace_stats (408 + 60 * i) n b" and ?S = "{4..<8} \<union> {408 + 60 * i..<408 + 60 * i + 60}"
  note IH = assms(3) [unfolded namespaces_added_def]
  have s: "same_outside {408 + 60 * i..<408 + 60 * i + 60} b ?s" by (rule same_outside_namespace_stats)
  then have b: "same_outside ?S b b1"
    unfolding assms(2) by (intro same_outside_trans [OF same_outside_mono [OF s] same_outside_wr32]) auto
  have "namespace_at b1 i = namespace_at ?s i"
    unfolding assms(2) by (rule namespace_at_same_outside [OF same_outside_wr32 [OF order_refl]]) auto
  moreover have "namespaces_in b1 i = namespaces_in b i"
    by (rule arrays_same_outside(2) [OF b]) auto
  ultimately have "namespaces_in b1 (Suc i) = namespaces_in b i @ [reported_namespace n]"
    by (simp add: arrays_Suc namespace_stats_entry)
  moreover have "rd32 b1 4 = rd32 b 4 + 1"
    using rd32_same_outside [OF s, of 4] by (simp add: assms(2) mem_simps)
  moreover have "same_outside ({4..<8} \<union> {408 + 60 * i..<1368}) b b'"
    using assms(1) IH by (intro same_outside_trans [OF same_outside_mono [OF b] same_outside_mono]) auto
  moreover have "16 - i = Suc (16 - Suc i)" "k - i = Suc (k - Suc i)" using assms(1) IH by auto
  ultimately show ?thesis using IH by (auto simp: namespaces_added_def)
qed

lemma namespace_stats_loop_result:
  "namespace_stats_loop i ns b = (k, b') \<Longrightarrow> i \<le> 16 \<Longrightarrow> namespaces_added (filter ns_Active ns) i b k b'"
proof (induction ns arbitrary: i b)
  case Nil
  then show ?case by (simp add: namespaces_added_def)
next
  case (Cons n ns)
  consider "i = 16" | "i < 16" "\<not> ns_Active n" | "i < 16" "ns_Active n" using Cons.prems by linarith
  then show ?case
  proof cases
    case 1
    then show ?thesis using Cons.prems by (simp add: namespaces_added_def)
  next
    case 2
    then show ?thesis using Cons by simp
  next
    case 3
    then show ?thesis
      using Cons.prems Cons.IH [of "Suc i"] by (simp add: Let_def namespace_added_first [OF _ refl])
  qed
qed

text \<open>The controllers that are shown: all, or the one with the requested number; at most eight.\<close>

definition shown :: "u32 \<Rightarrow> VNVME_PDO_CONTEXT list \<Rightarrow> VNVME_PDO_CONTEXT list" where
  "shown target ps = filter (\<lambda>p. target = 0 \<or> pdo_ControllerId p = target) ps"

lemma stats_loop_result:
  assumes "stats_loop target c i ps b = (k, b')" "c \<le> 8" "i \<le> 16"
  shows "let ps' = take (8 - c) (shown target ps); j = min 16 (i + length (concat (map active_namespaces ps')))
    in k = c + length ps' \<and> controllers_in b' k = controllers_in b c @ map reported_controller ps'
      \<and> namespaces_in b' j = namespaces_in b i @ map reported_namespace (take (16 - i) (concat (map active_namespaces ps')))
      \<and> rd32 b' 4 = rd32 b 4 + of_nat (j - i) \<and> same_outside ({4..<8} \<union> {24 + 48 * c..<1368}) b b'"
  using assms
proof (induction ps arbitrary: c i b)
  case Nil
  then show ?case by (simp add: shown_def)
next
  case (Cons p ps)
  consider "c = 8" | "c < 8" "target \<noteq> 0" "pdo_ControllerId p \<noteq> target" | "c < 8" "target = 0 \<or> pdo_ControllerId p = target"
    using Cons.prems by linarith
  then show ?case
  proof cases
    case 1
    then show ?thesis using Cons.prems by simp
  next
    case 2
    then show ?thesis using Cons by (simp add: shown_def)
  next
    case 3
    let ?b = "controller_stats (24 + 48 * c) p b"
    obtain j b2 where ns: "namespace_stats_loop i (take VNVME_MAX_NAMESPACES (pdo_Namespaces p)) ?b = (j, b2)" by fastforce
    have run: "stats_loop target (Suc c) j ps b2 = (k, b')" using 3 Cons.prems ns by auto
    have added: "namespaces_added (active_namespaces p) i ?b j b2"
      using namespace_stats_loop_result [OF ns Cons.prems(3)] by (simp add: active_namespaces_def)
    let ?ps = "take (8 - Suc c) (shown target ps)"
    have "j \<le> 16" "Suc c \<le> 8" using added 3 by (auto simp: namespaces_added_def)
    note IH = Cons.IH [OF run this(2,1), unfolded Let_def]
    have b: "same_outside {24 + 48 * c..<24 + 48 * c + 48} b ?b" by (rule same_outside_controller_stats)
    have b2: "same_outside ({4..<8} \<union> {408 + 60 * i..<1368}) ?b b2" using added by (simp add: namespaces_added_def)
    have "controllers_in b2 (Suc c) = controllers_in ?b (Suc c)"
      using 3(1) by (intro arrays_same_outside(1) [OF b2]) auto
    also have "controllers_in ?b c = controllers_in b c"
      by (rule arrays_same_outside(1) [OF b]) auto
    then have "controllers_in ?b (Suc c) = controllers_in b c @ [reported_controller p]"
      by (simp add: arrays_Suc controller_stats_entry)
    finally have ctrl: "controllers_in b2 (Suc c) = controllers_in b c @ [reported_controller p]" .
    have "namespaces_in ?b i = namespaces_in b i"
      using 3(1) by (intro arrays_same_outside(2) [OF b]) auto
    then have nsp: "namespaces_in b2 j = namespaces_in b i @ map reported_namespace (take (16 - i) (active_namespaces p))"
      using added unfolding namespaces_added_def by metis
    have "rd32 ?b 4 = rd32 b 4" by (rule rd32_same_outside [OF b]) auto
    then have cnt: "rd32 b2 4 = rd32 b 4 + of_nat (j - i)" using added unfolding namespaces_added_def by metis
    have frame: "same_outside ({4..<8} \<union> {24 + 48 * c..<1368}) b b'"
      using 3(1) IH by (intro same_outside_trans [OF same_outside_mono [OF b]
        same_outside_trans [OF same_outside_mono [OF b2] same_outside_mono]]) auto
    have j: "j = min 16 (i + length (active_namespaces p))" using added by (simp add: namespaces_added_def)
    have take: "take (8 - c) (shown target (p # ps)) = p # ?ps"
      using 3 by (simp add: shown_def Suc_diff_Suc take_Cons')
    have cut: "take (16 - i) (active_namespaces p @ xs) = take (16 - i) (active_namespaces p) @ take (16 - j) xs" for xs
      using Cons.prems(3) by (simp add: j min_def)
    have total: "min 16 (i + length (active_namespaces p @ xs)) = min 16 (j + length xs)"
      "of_nat (j - i) + of_nat (min 16 (j + length xs) - j) = (of_nat (min 16 (j + length xs) - i) :: u32)" for xs
      using Cons.prems(3) by (auto simp: j of_nat_add [symmetric] simp del: of_nat_add)
    show ?thesis
      unfolding Let_def take list.map concat.simps cut total(1)
      using IH ctrl nsp cnt frame total(2) [of "concat (map active_namespaces ?ps)"] by (auto simp: add.assoc)
  qed
qed

section \<open>From the driver to the report\<close>

text \<open>The report of a driver: at most eight controllers, at most sixteen of their active namespaces, the time since the start in milliseconds and
  the number of commands.\<close>

definition driver_report :: "u64 \<Rightarrow> VNVME_FDO_DEVICE \<Rightarrow> ctl_report" where
  "driver_report now f =
     (let ps = take 8 (fd_ChildDeviceList f); ns = take 16 (concat (map active_namespaces ps))
      in Statistics (ticks_to_ms (now - fd_StartTime f)) (of_nat (length ps)) (of_nat (length ns)) (fdo_CommandsProcessed (fd_Context f))
           (map reported_controller ps) (map reported_namespace ns))"

definition read_report :: "mem \<Rightarrow> ctl_report" where
  "read_report stats = Statistics (rd64 stats 8) (rd32 stats 0) (rd32 stats 4) (rd64 stats 16)
     (controller_reports stats) (namespace_reports stats)"

lemma GetStats_report:
  assumes "drv_Fdo d = Some f" "rd32 (rq_SystemBuffer rq) 0 = 0" "NT_SUCCESS (res_Status (VnvmeHandleGetStats os rq d))"
  shows "read_report (res_Buffer (VnvmeHandleGetStats os rq d)) = driver_report (io_now os) f"
    and "res_Information (VnvmeHandleGetStats os rq d) = 1368" and "res_Driver (VnvmeHandleGetStats os rq d) = d"
proof -
  define b0 where "b0 = wr64 16 (fdo_CommandsProcessed (fd_Context f)) (wr64 8 (ticks_to_ms (io_now os - fd_StartTime f)) (zero_range 0 1368 (rq_SystemBuffer rq)))"
  obtain k b where loop: "stats_loop 0 0 0 (fd_ChildDeviceList f) b0 = (k, b)" by fastforce
  have r: "VnvmeHandleGetStats os rq d = answered 1368 (wr32 0 (of_nat k) b) d"
    using assms loop by (auto simp: VnvmeHandleGetStats_def b0_def refused_def split: if_splits)
  then show "res_Information (VnvmeHandleGetStats os rq d) = 1368" "res_Driver (VnvmeHandleGetStats os rq d) = d"
    by (simp_all add: answered_def)
  let ?ps = "take 8 (fd_ChildDeviceList f)"
  let ?ns = "concat (map active_namespaces ?ps)"
  have "rd32 (zero_range 0 1368 (rq_SystemBuffer rq)) 4 = rd32 (\<lambda>_. 0) 4"
    by (rule rd32_eqI) (simp add: zero_range_def)
  then have zero: "rd32 b0 4 = 0" by (simp add: b0_def mem_frame)
  have "shown 0 ps = ps" for ps by (simp add: shown_def)
  then have res: "k = length ?ps" "controllers_in b k = map reported_controller ?ps" "rd32 b 4 = of_nat (min 16 (length ?ns))"
      "namespaces_in b (min 16 (length ?ns)) = map reported_namespace (take 16 ?ns)" "same_outside ({4..<8} \<union> {24..<1368}) b0 b"
    using stats_loop_result [OF loop] by (auto simp: zero controllers_in_def namespaces_in_def Let_def)
  let ?b = "wr32 0 (of_nat k) b"
  have w: "same_outside {0..<4} b ?b" by (rule same_outside_wr32) auto
  have "controllers_in ?b k = controllers_in b k" "namespaces_in ?b j = namespaces_in b j" for j
    by (auto intro!: arrays_same_outside [OF w])
  moreover have "rd64 b 8 = rd64 b0 8" "rd64 b 16 = rd64 b0 16"
    by (rule rd64_same_outside [OF res(5)]; auto)+
  then have "rd64 ?b 8 = rd64 b0 8" "rd64 ?b 16 = rd64 b0 16" by (simp_all add: mem_simps)
  moreover have "rd32 ?b 0 = of_nat k" "rd32 ?b 4 = rd32 b 4" by (simp_all add: mem_simps)
  moreover have "min (unat (of_nat k :: u32)) 8 = k" "min (unat (rd32 b 4)) 16 = min 16 (length ?ns)"
    using res(1) by (auto simp: res(3) unat_of_nat)
  ultimately show "read_report (res_Buffer (VnvmeHandleGetStats os rq d)) = driver_report (io_now os) f"
    unfolding r using res by (simp add: answered_def read_report_def driver_report_def reports_of_arrays b0_def mem_simps Let_def min.commute)
qed

text \<open>The report depends on the bytes of the structure only.\<close>

lemma read_report_cong:
  assumes "\<And>x. x < 1368 \<Longrightarrow> b' x = b x"
  shows "read_report b' = read_report b"
proof -
  have s: "same_outside {1368..} b b'" using assms by (auto simp: same_outside_def)
  have "rd64 b' 8 = rd64 b 8" "rd64 b' 16 = rd64 b 16" "rd32 b' 0 = rd32 b 0" "rd32 b' 4 = rd32 b 4"
    by (rule rd64_same_outside [OF s] rd32_same_outside [OF s]; auto)+
  moreover have "controllers_in b' (min k 8) = controllers_in b (min k 8)" "namespaces_in b' (min k 16) = namespaces_in b (min k 16)" for k
    by (auto intro!: arrays_same_outside [OF s])
  ultimately show ?thesis by (simp add: read_report_def reports_of_arrays)
qed

lemma stats_request:
  assumes "io_manager os h IOCTL_VNVME_GET_STATS (rd_bytes (\<lambda>_. 0) 0 8) (replicate 1368 0) d = Some (True, out, d')"
  shows "\<exists>f. drv_Fdo d = Some f \<and> d' = d \<and> read_report (bytes_mem out) = driver_report (io_now os) f"
proof -
  let ?inp = "rd_bytes (\<lambda>_. 0) 0 8" and ?rq = "buffered_request (rd_bytes (\<lambda>_. 0) 0 8) (replicate 1368 0)"
  have rq: "request_for ?inp (replicate 1368 0) ?rq"
      "completed (replicate 1368 0) (VnvmeHandleGetStats os ?rq d) = (True, out, d')"
    using request_for_buffered [of ?inp "replicate 1368 0"] assms by (auto simp: io_manager_def dispatch split: if_splits)
  let ?r = "VnvmeHandleGetStats os ?rq d"
  have ok: "NT_SUCCESS (res_Status ?r)" using rq(2) by (auto simp: completed_def split: if_splits)
  then obtain f where f: "drv_Fdo d = Some f" by (auto simp: VnvmeHandleGetStats_def refused_def split: option.splits)
  have zero: "rd32 (rq_SystemBuffer ?rq) 0 = 0"
    using rq(1) rd32_eqI [of 0 "rq_SystemBuffer ?rq" "\<lambda>_. 0"] by (simp add: request_for_def)
  note report = GetStats_report [OF f zero ok]
  have "out = rd_bytes (res_Buffer ?r) 0 1368" "d' = d"
    using rq(2) ok report(2,3) by (auto simp: completed_def)
  moreover have "read_report (bytes_mem (rd_bytes (res_Buffer ?r) 0 1368)) = read_report (res_Buffer ?r)"
    by (rule read_report_cong) (simp add: bytes_mem_def)
  ultimately show ?thesis using f report(1) by auto
qed

lemma dispatch_stats: "vnvmectl_main os [prog, ''stats''] d = map_option (reported read_report) (ctl_request os IOCTL_VNVME_GET_STATS (rd_bytes (\<lambda>_. 0) 0 8) 1368 d)"
proof -
  have "\<not> stricmp ''stats'' ''version''" "\<not> stricmp ''stats'' ''status''" "\<not> stricmp ''stats'' ''list''"
    "\<not> stricmp ''stats'' ''create''" "\<not> stricmp ''stats'' ''delete''" "\<not> stricmp ''stats'' ''ns-list''"
    "\<not> stricmp ''stats'' ''ns-create''" "\<not> stricmp ''stats'' ''ns-delete''" "stricmp ''stats'' ''stats''"
    by code_simp+
  moreover have "read_report = (\<lambda>stats. Statistics (rd64 stats 8) (rd32 stats 0) (rd32 stats 4) (rd64 stats 16)
      (controller_reports stats) (namespace_reports stats))"
    by (rule ext) (simp add: read_report_def)
  ultimately show ?thesis by (simp add: vnvmectl_main_def CmdStats_def stats_input_def)
qed

text \<open>C16: \<open>vnvmectl stats\<close> reports the driver's state. When the command ends with exit code 0, the driver is unchanged and the report is that of
  its state: one line per controller, up to eight, with its number, queues and counters; one line per active namespace
  of these controllers, up to sixteen, with its geometry and counters; the numbers of lines; the time from the driver's start to the
  system time at the request, in milliseconds; and the driver's counter of commands. The request reaches the driver through an I/O manager
  that buffers it.\<close>

theorem stats_prints_driver:
  assumes "co_DeviceIoControl os = io_manager ios" "vnvmectl_main os [prog, ''stats''] d = Some (0, report, d')"
  shows "\<exists>f. drv_Fdo d = Some f \<and> d' = d \<and> report = driver_report (io_now ios) f"
proof -
  obtain h out where "co_DeviceIoControl os h IOCTL_VNVME_GET_STATS (rd_bytes (\<lambda>_. 0) 0 8) (replicate 1368 0) d = Some (True, out, d')"
      "report = read_report (bytes_mem out)"
    using assms(2) unfolding dispatch_stats by (elim reported_success) blast
  then show ?thesis using stats_request [of ios] by (fastforce simp: assms(1))
qed

text \<open>The tool on the driver of the example, which has one controller and no namespace.\<close>

theorem stats_prints_driver_witness:
  "\<exists>f cmds. drv_Fdo example_driver1 = Some f \<and> vnvmectl_main example_ctl [''vnvmectl'', ''stats''] example_driver1
    = Some (0, Statistics (ticks_to_ms (0 - fd_StartTime f)) 1 0 cmds [reported_controller (created_PDO 1)] [], example_driver1)"
proof -
  obtain f where f: "drv_Fdo example_driver1 = Some f" "fd_ChildDeviceList f = [created_PDO 1]"
    using example_driver1_eq by blast
  let ?rq = "buffered_request (rd_bytes (\<lambda>_. 0) 0 8) (replicate 1368 0)"
  have "NT_SUCCESS (res_Status (VnvmeHandleGetStats example_ios ?rq example_driver1))"
    by (auto simp: VnvmeHandleGetStats_def f buffered_request_def answered_def Let_def split: prod.splits)
  then have "\<exists>report d'. vnvmectl_main example_ctl [''vnvmectl'', ''stats''] example_driver1 = Some (0, report, d')"
    unfolding dispatch_stats
    by (simp add: ctl_request_def OpenVnvmeDevice_def example_ctl_def io_manager_def dispatch completed_def reported_def)
  moreover have "co_DeviceIoControl example_ctl = io_manager example_ios" "io_now example_ios = 0"
    by (simp_all add: example_ctl_def example_ios_def)
  moreover have "active_namespaces (created_PDO 1) = []"
    by (simp add: active_namespaces_def created_PDO_def zero_PDO_CONTEXT_def zero_NAMESPACE_def)
  ultimately show ?thesis
    using stats_prints_driver [of example_ctl example_ios "''vnvmectl''" example_driver1] f by (auto simp: driver_report_def)
qed

end
