(* ===== verification/Vnvme_Wire.thy ===== *)
theory Vnvme_Wire
  imports Vnvme_Structs Vnvme_Reports Vnvme_Service
begin

text \<open>
  The byte offsets of the other theories are those of the headers. Commands, completions, queue descriptors, notifications and
  the control block are accessed at the places the compiler gives their members; the pages that Identify returns are
  read through the declared structures, as a host reads them.
\<close>

section \<open>Queue entries and the shared memory\<close>

text \<open>All direct members of a structure at \<open>a\<close>, by name, in the order of the declaration.\<close>

fun members_at :: "ctype \<Rightarrow> mem \<Rightarrow> nat \<Rightarrow> (string \<times> nat) list" where
  "members_at (Struct ms) m a = map (\<lambda>(f, k, w). (f, rd_bits m (8 * a + k) w)) (placed 1 ms (0, 0, 0))"
| "members_at _ m a = []"

lemma members_at_fetch: "fetch (Struct ms) [Fld f] m a = map_of (members_at (Struct ms) m a) f"
proof -
  have "map_of (map (\<lambda>(f, k, w). (f, rd_bits m (8 * a + k) w)) xs) f
    = map_option (\<lambda>(k, w). rd_bits m (8 * a + k) w) (map_of xs f)" for xs :: "(string \<times> nat \<times> nat) list"
    by (induction xs) auto
  then show ?thesis by (simp add: fetch_def lookup_placed)
qed

text \<open>The values of the members in the model.\<close>

definition command_values :: "NVME_COMMAND \<Rightarrow> (string \<times> nat) list" where
  "command_values c =
     [(''OPC'', unat (OPC c)), (''FUSE'', unat (FUSE c)), (''Reserved1'', unat (Reserved1 c)), (''PSDT'', unat (PSDT c)),
      (''CID'', unat (CID c)), (''NSID'', unat (NSID c)), (''Reserved2'', unat (Reserved2 c)), (''Reserved3'', unat (Reserved3 c)),
      (''MPTR'', unat (MPTR c)), (''PRP1'', unat (PRP1 c)), (''PRP2'', unat (PRP2 c)), (''CDW10'', unat (CDW10 c)),
      (''CDW11'', unat (CDW11 c)), (''CDW12'', unat (CDW12 c)), (''CDW13'', unat (CDW13 c)), (''CDW14'', unat (CDW14 c)),
      (''CDW15'', unat (CDW15 c))]"

definition completion_values :: "NVME_COMPLETION \<Rightarrow> (string \<times> nat) list" where
  "completion_values c =
     [(''DW0'', unat (cqe_DW0 c)), (''DW1'', unat (cqe_DW1 c)), (''SQHD'', unat (cqe_SQHD c)), (''SQID'', unat (cqe_SQID c)),
      (''CID'', unat (cqe_CID c)), (''Status'', unat (cqe_Status c))]"

definition descriptor_values :: "mem \<Rightarrow> nat \<Rightarrow> (string \<times> nat) list" where
  "descriptor_values m d =
     [(''Offset'', unat (qd_Offset m d)), (''EntrySize'', unat (qd_EntrySize m d)), (''Capacity'', unat (qd_Capacity m d)),
      (''Valid'', unat (qd_Valid m d)), (''Head'', unat (qd_Head m d)), (''Tail'', unat (qd_Tail m d)),
      (''Phase'', unat (qd_Phase m d)), (''Reserved'', unat (rd32 m (d + 28)))]"

definition notification_values :: "VNVME_NOTIFY_ENTRY \<Rightarrow> (string \<times> nat) list" where
  "notification_values e = [(''QueueId'', unat (ne_QueueId e)), (''Type'', unat (ne_Type e)), (''Index'', unat (ne_Index e))]"

definition dsm_values :: "NVME_DSM_RANGE \<Rightarrow> (string \<times> nat) list" where
  "dsm_values r = [(''ContextAttributes'', unat (dsm_ContextAttributes r)),
     (''LengthInLogicalBlocks'', unat (dsm_LengthInLogicalBlocks r)), (''StartingLBA'', unat (dsm_StartingLBA r))]"

lemma drop_bit_high: "take_bit 2 (drop_bit 6 x) = drop_bit 6 x" for x :: u8
  by (rule bit_word_eqI) (auto simp: bit_take_bit_iff bit_drop_bit_eq dest: bit_imp_le_length)

lemmas rd_bits_here = rd_bits_at [where a = 0, simplified]

lemmas at_bits = rd_bits_plain rd_bits_at rd_bits_in_byte drop_bit_high

lemma command_members: "members_at struct_NVME_COMMAND m a = command_values (rd_NVME_COMMAND m a)"
  by (simp add: struct_NVME_COMMAND_def command_values_def rd_NVME_COMMAND_def Let_def at_bits)

lemma completion_members: "members_at struct_NVME_COMPLETION m a = completion_values (rd_NVME_COMPLETION m a)"
  by (simp add: struct_NVME_COMPLETION_def completion_values_def rd_NVME_COMPLETION_def Let_def at_bits)

lemma descriptor_members: "members_at struct_VNVME_QUEUE_DESCRIPTOR m d = descriptor_values m d"
  by (simp add: struct_VNVME_QUEUE_DESCRIPTOR_def descriptor_values_def qd_defs Let_def at_bits)

lemma notification_members: "members_at struct_VNVME_NOTIFY_ENTRY m a = notification_values (rd_NOTIFY_ENTRY m a)"
  by (simp add: struct_VNVME_NOTIFY_ENTRY_def notification_values_def rd_NOTIFY_ENTRY_def Let_def at_bits)

lemma dsm_members: "members_at struct_NVME_DSM_RANGE m a = dsm_values (rd_NVME_DSM_RANGE m a)"
  by (simp add: struct_NVME_DSM_RANGE_def dsm_values_def rd_NVME_DSM_RANGE_def Let_def at_bits)

lemma descriptor_stores:
  "store struct_VNVME_QUEUE_DESCRIPTOR [Fld ''Offset''] (unat v) d m = qd_set_Offset d v m"
  "store struct_VNVME_QUEUE_DESCRIPTOR [Fld ''EntrySize''] (unat v) d m = qd_set_EntrySize d v m"
  "store struct_VNVME_QUEUE_DESCRIPTOR [Fld ''Capacity''] (unat v) d m = qd_set_Capacity d v m"
  "store struct_VNVME_QUEUE_DESCRIPTOR [Fld ''Valid''] (unat v) d m = qd_set_Valid d v m"
  "store struct_VNVME_QUEUE_DESCRIPTOR [Fld ''Head''] (unat v) d m = qd_set_Head d v m"
  "store struct_VNVME_QUEUE_DESCRIPTOR [Fld ''Tail''] (unat v) d m = qd_set_Tail d v m"
  "store struct_VNVME_QUEUE_DESCRIPTOR [Fld ''Phase''] (unat v) d m = qd_set_Phase d v m"
  using wr_bits_at [of 0 d] by (simp_all add: store_def struct_VNVME_QUEUE_DESCRIPTOR_def moved_def qd_defs wr_bits_at)

lemma ring_places:
  "lookup 1 struct_VNVME_NOTIFY_RING [Fld ''Head''] = Some (8 * nr_Head, 32)"
  "lookup 1 struct_VNVME_NOTIFY_RING [Fld ''Tail''] = Some (8 * nr_Tail, 32)"
  "lookup 1 struct_VNVME_NOTIFY_RING [Fld ''Size''] = Some (8 * nr_Size, 32)"
  "i < 256 \<Longrightarrow> lookup 1 struct_VNVME_NOTIFY_RING [Fld ''Entries'', Idx (unat i)] = Some (8 * nr_Entry 0 i, 64)"
  by (simp_all add: struct_VNVME_NOTIFY_RING_def struct_VNVME_NOTIFY_ENTRY_def moved_def nr_Entry_def word_less_nat_alt)

section \<open>From the request for a namespace to the page the host reads\<close>

abbreviation (input) namespace_request :: ctype where "namespace_request \<equiv> struct_VNVME_CREATE_NAMESPACE_INPUT"
abbreviation (input) namespace_page :: ctype where "namespace_page \<equiv> struct_NVME_IDENTIFY_NAMESPACE_DATA"

lemma request_members:
  "fetch namespace_request [Fld ''ControllerId''] b 0 = Some (unat (rd32 b 0))"
  "fetch namespace_request [Fld ''Config'', Fld ''TotalBlocks''] b 0 = Some (unat (rd64 b 8))"
  "fetch namespace_request [Fld ''Config'', Fld ''BlockSize''] b 0 = Some (unat (rd32 b 16))"
  "fetch namespace_request [Fld ''Config'', Fld ''Flags''] b 0 = Some (unat (rd32 b 20))"
  "fetch struct_VNVME_CREATE_NAMESPACE_OUTPUT [Fld ''NSID''] b 0 = Some (unat (rd32 b 0))"
  by (simp_all add: rd_bits_here fetch_def struct_VNVME_CREATE_NAMESPACE_INPUT_def struct_VNVME_NAMESPACE_CONFIG_def
      struct_VNVME_CREATE_NAMESPACE_OUTPUT_def moved_def)

lemma page_places:
  "lookup 1 namespace_page [Fld ''NSZE''] = Some (0, 64)" "lookup 1 namespace_page [Fld ''NCAP''] = Some (64, 64)"
  "lookup 1 namespace_page [Fld ''NUSE''] = Some (128, 64)"
  "lookup 1 namespace_page [Fld ''NLBAF''] = Some (200, 8)" "lookup 1 namespace_page [Fld ''FLBAS''] = Some (208, 8)"
  "lookup 1 namespace_page [Fld ''LBAF'', Idx 0, Fld ''MS''] = Some (1024, 16)"
  "lookup 1 namespace_page [Fld ''LBAF'', Idx 0, Fld ''LBADS''] = Some (1040, 8)"
  by (simp_all add: struct_NVME_IDENTIFY_NAMESPACE_DATA_def NVME_IDENTIFY_NAMESPACE_DATA_members_def moved_def)

lemma page_members:
  assumes "length (ns_Nguid ns) = 16" "length (ns_Eui64 ns) = 8"
  shows "fetch namespace_page [Fld ''NSZE''] (identify_namespace_data ns) 0 = Some (unat (ns_TotalBlocks ns))"
    "fetch namespace_page [Fld ''NCAP''] (identify_namespace_data ns) 0 = Some (unat (ns_TotalBlocks ns))"
    "fetch namespace_page [Fld ''NUSE''] (identify_namespace_data ns) 0 = Some (unat (ns_TotalBlocks ns))"
    "fetch namespace_page [Fld ''FLBAS''] (identify_namespace_data ns) 0 = Some (unat (ns_FormattedLbaSize ns))"
    "fetch namespace_page [Fld ''LBAF'', Idx 0, Fld ''MS''] (identify_namespace_data ns) 0 = Some 0"
    "fetch namespace_page [Fld ''LBAF'', Idx 0, Fld ''LBADS''] (identify_namespace_data ns) 0 = Some (if ns_BlockSize ns = 4096 then 12 else 9)"
proof -
  let ?m = "identify_namespace_data ns"
  have "rd64 ?m 0 = ns_TotalBlocks ns" "rd64 ?m 8 = ns_TotalBlocks ns" "rd64 ?m 16 = ns_TotalBlocks ns"
    using assms by (simp_all add: identify_namespace_data_def Let_def mem_simps)
  moreover have "?m 26 = ns_FormattedLbaSize ns" "?m 130 = (if ns_BlockSize ns = 4096 then 12 else 9)"
    using assms by (simp_all add: identify_namespace_data_def Let_def wr32_def wr16_at wr8_at wr_bytes_def)
  moreover have "?m 128 = 0" "?m 129 = 0"
    using assms by (simp_all add: identify_namespace_data_def Let_def wr32_def wr16_at wr8_at wr_bytes_def)
  then have "rd16 ?m 128 = 0" by (simp add: rd16_def)
  ultimately show "fetch namespace_page [Fld ''NSZE''] ?m 0 = Some (unat (ns_TotalBlocks ns))"
    "fetch namespace_page [Fld ''NCAP''] ?m 0 = Some (unat (ns_TotalBlocks ns))"
    "fetch namespace_page [Fld ''NUSE''] ?m 0 = Some (unat (ns_TotalBlocks ns))"
    "fetch namespace_page [Fld ''FLBAS''] ?m 0 = Some (unat (ns_FormattedLbaSize ns))"
    "fetch namespace_page [Fld ''LBAF'', Idx 0, Fld ''MS''] ?m 0 = Some 0"
    "fetch namespace_page [Fld ''LBAF'', Idx 0, Fld ''LBADS''] ?m 0 = Some (if ns_BlockSize ns = 4096 then 12 else 9)"
    unfolding page_places [THEN fetch_at(1)] by (simp_all add: rd_bits_here)
qed

lemma identify_namespace_page:
  assumes "selects cmd c i ns" "os_alloc os 0 4096" "VnvmeIsValidPhysicalAddress (PRP1 cmd) 4096" "os_map os 0 (PRP1 cmd) 4096"
  obtains h where "HandleIdentifyNamespace os cmd c = PostSuccessCompletion (CID cmd) 0 (c\<lparr>host := h\<rparr>)"
    "\<forall>xs. fetch namespace_page xs h (unat (PRP1 cmd)) = fetch namespace_page xs (identify_namespace_data ns) 0"
    "same_outside {unat (PRP1 cmd)..<unat (PRP1 cmd) + 4096} (host c) h"
proof -
  define h where "h = wr_bytes (unat (PRP1 cmd)) (rd_bytes (identify_namespace_data ns) 0 4096) (host c)"
  have "take 4096 (rd_bytes (identify_namespace_data ns) 0 4096) = rd_bytes (identify_namespace_data ns) 0 4096" by simp
  then have "HandleIdentifyNamespace os cmd c = PostSuccessCompletion (CID cmd) 0 (c\<lparr>host := h\<rparr>)"
    using assms by (auto simp: HandleIdentifyNamespace_def send_data_def VnvmeWriteToHostMemory_def h_def selects_def arr_get_def)
  moreover have page: "wf_type namespace_page" "sizeof 1 namespace_page = 4096"
    using shared_structs_wf assertions_hold by (simp_all add: shared_structs_def static_assertions_def)
  then have "\<forall>xs. fetch namespace_page xs h (unat (PRP1 cmd)) = fetch namespace_page xs (identify_namespace_data ns) 0"
    by (intro allI fetch_view) (simp_all add: h_def wr_bytes_def)
  moreover have "same_outside {unat (PRP1 cmd)..<unat (PRP1 cmd) + 4096} (host c) h"
    unfolding h_def by (rule same_outside_wr_bytes) simp
  ultimately show ?thesis by (rule that)
qed

text \<open>C10: What is asked for is what the host is told. A request to create a namespace, read through the structure of the request, asks for
  a number of blocks and a block size (none means 512). When the request succeeds, Identify Namespace for the number in the
  answer sends the host a page that, read through the structure of NVMe, has exactly this number of blocks as size, capacity
  and use, no metadata, and as the format in use one whose data size is the logarithm of the block size; no other byte of the host
  changes.\<close>

theorem created_namespace_identified:
  assumes "driver_ok d" "VnvmeHandleCreateNamespace ios rq d = Some r" "NT_SUCCESS (res_Status r)"
    and "fetch struct_VNVME_CREATE_NAMESPACE_INPUT [Fld ''ControllerId''] (rq_SystemBuffer rq) 0 = Some (unat cid)"
    and "fetch struct_VNVME_CREATE_NAMESPACE_INPUT [Fld ''Config'', Fld ''TotalBlocks''] (rq_SystemBuffer rq) 0 = Some blocks"
    and "fetch struct_VNVME_CREATE_NAMESPACE_INPUT [Fld ''Config'', Fld ''BlockSize''] (rq_SystemBuffer rq) 0 = Some bs"
    and "drv_Fdo (res_Driver r) = Some f'" "CtrlDevFindController f' cid = Some (pdo c)"
    and "fetch struct_VNVME_CREATE_NAMESPACE_OUTPUT [Fld ''NSID''] (res_Buffer r) 0 = Some (unat (NSID cmd))"
    and "os_alloc os 0 4096" "VnvmeIsValidPhysicalAddress (PRP1 cmd) 4096" "os_map os 0 (PRP1 cmd) 4096"
  shows "\<exists>h k. HandleIdentifyNamespace os cmd c = PostSuccessCompletion (CID cmd) 0 (c\<lparr>host := h\<rparr>)
    \<and> fetch struct_NVME_IDENTIFY_NAMESPACE_DATA [Fld ''NSZE''] h (unat (PRP1 cmd)) = Some blocks
    \<and> fetch struct_NVME_IDENTIFY_NAMESPACE_DATA [Fld ''NCAP''] h (unat (PRP1 cmd)) = Some blocks
    \<and> fetch struct_NVME_IDENTIFY_NAMESPACE_DATA [Fld ''NUSE''] h (unat (PRP1 cmd)) = Some blocks
    \<and> fetch struct_NVME_IDENTIFY_NAMESPACE_DATA [Fld ''FLBAS''] h (unat (PRP1 cmd)) = Some 0
    \<and> fetch struct_NVME_IDENTIFY_NAMESPACE_DATA [Fld ''LBAF'', Idx 0, Fld ''MS''] h (unat (PRP1 cmd)) = Some 0
    \<and> fetch struct_NVME_IDENTIFY_NAMESPACE_DATA [Fld ''LBAF'', Idx 0, Fld ''LBADS''] h (unat (PRP1 cmd)) = Some k
    \<and> 2 ^ k = (if bs = 0 then 512 else bs)
    \<and> same_outside {unat (PRP1 cmd)..<unat (PRP1 cmd) + 4096} (host c) h"
proof -
  let ?b = "rq_SystemBuffer rq"
  have rq: "rd32 ?b 0 = cid" "unat (rd64 ?b 8) = blocks" "unat (rd32 ?b 16) = bs" "rd32 (res_Buffer r) 0 = NSID cmd"
    using assms(4-6,9) by (simp_all add: request_members word_unat_eq_iff)
  obtain f0 f1 p' i n S where cr: "drv_Fdo (res_Driver r) = Some f1" "CtrlDevFindController f1 = (CtrlDevFindController f0)(rd32 ?b 0 \<mapsto> p')"
      "\<forall>cmd c. NSID cmd = rd32 (res_Buffer r) 0 \<and> pdo c = p' \<longrightarrow> selects cmd c i n"
    and n: "ns_TotalBlocks n = rd64 ?b 8" "ns_BlockSize n = (if rd32 ?b 16 = 0 then 512 else rd32 ?b 16)"
      "n = (requested_namespace ?b i)\<lparr>ns_Storage := S, ns_Active := True\<rparr>"
    using created_namespace [OF assms(1-3)] by (elim exE conjE) (rule that)
  have "p' = pdo c" using cr(1,2) assms(7,8) rq(1) by simp
  then have sel: "selects cmd c i n" using cr(3) rq(4) by simp
  have fresh: "length (ns_Nguid n) = 16" "length (ns_Eui64 n) = 8" "ns_FormattedLbaSize n = 0"
    by (simp_all add: n(3) requested_namespace_def new_namespace_def Let_def zero_NAMESPACE_def)
  have "check_geometry (rd32 ?b 16) (rd64 ?b 8) = STATUS_SUCCESS"
    using assms(1,2)
    by (cases rule: VnvmeHandleCreateNamespace_cases) (use assms(3) in \<open>auto simp: refused_def namespace_added_def Let_def\<close>)
  then have "rd32 ?b 16 \<in> {0, 512, 4096}" by (auto simp: check_geometry_def split: if_splits)
  then have size: "2 ^ (if ns_BlockSize n = 4096 then 12 else 9 :: nat) = (if bs = 0 then 512 else bs)"
    using rq(3) by (auto simp: n(2))
  obtain h where h: "HandleIdentifyNamespace os cmd c = PostSuccessCompletion (CID cmd) 0 (c\<lparr>host := h\<rparr>)"
    "\<forall>xs. fetch namespace_page xs h (unat (PRP1 cmd)) = fetch namespace_page xs (identify_namespace_data n) 0"
    "same_outside {unat (PRP1 cmd)..<unat (PRP1 cmd) + 4096} (host c) h"
    using identify_namespace_page [OF sel assms(10-12)] by blast
  show ?thesis
    by (rule exI [of _ h], rule exI [of _ "if ns_BlockSize n = 4096 then 12 else 9"])
      (use h size in \<open>simp add: page_members [OF fresh(1,2)] n(1) rq(2) fresh(3)\<close>)
qed

text \<open>The property for the namespace of eight blocks of 512 bytes of the example, with a data page at 2 MiB.\<close>

theorem created_namespace_identified_witness:
  "\<exists>c h. HandleIdentifyNamespace os_all_ok (zero_COMMAND\<lparr>NSID := 1, PRP1 := 0x200000\<rparr>) c = PostSuccessCompletion 0 0 (c\<lparr>host := h\<rparr>)
    \<and> fetch struct_NVME_IDENTIFY_NAMESPACE_DATA [Fld ''NSZE''] h 0x200000 = Some 8
    \<and> fetch struct_NVME_IDENTIFY_NAMESPACE_DATA [Fld ''LBAF'', Idx 0, Fld ''LBADS''] h 0x200000 = Some 9"
proof -
  let ?cmd = "zero_COMMAND\<lparr>NSID := 1, PRP1 := 0x200000\<rparr>" and ?rq = example_namespace_request
  obtain r where r: "VnvmeHandleCreateNamespace example_ios ?rq example_driver1 = Some r" "NT_SUCCESS (res_Status r)"
    using example_namespace_created by blast
  have b: "rd32 (rq_SystemBuffer ?rq) 0 = 1" "rd64 (rq_SystemBuffer ?rq) 8 = 8" "rd32 (rq_SystemBuffer ?rq) 16 = 512"
    by (simp_all add: example_namespace_request_def example_request_def mem_simps)
  obtain f1 f0 p' i where cr: "drv_Fdo (res_Driver r) = Some f1"
      "CtrlDevFindController f1 = (CtrlDevFindController f0)(rd32 (rq_SystemBuffer ?rq) 0 \<mapsto> p')" "rd32 (res_Buffer r) 0 = of_nat i + 1"
    using created_namespace [OF driver_ok_example1 r] by (elim exE conjE) (rule that)
  define c where "c = (example_ctx example_cq_shm)\<lparr>pdo := p'\<rparr>"
  have nsid: "rd32 (res_Buffer r) 0 = 1"
  proof -
    obtain f where f: "drv_Fdo example_driver1 = Some f" "fd_ChildDeviceList f = [created_PDO 1]"
      using example_driver1_eq by blast
    have "free_slot 0 (take 16 (pdo_Namespaces (created_PDO 1))) = Some 0" "pdo_ControllerId (created_PDO 1) = 1"
      by (simp_all add: created_PDO_def zero_PDO_CONTEXT_def zero_NAMESPACE_def numeral_eq_Suc)
    with r f b show ?thesis
      by (auto simp: VnvmeHandleCreateNamespace_def CtrlDevFindController_def Let_def case_prod_beta answered_def refused_def mem_simps
          split: if_split_asm Option.bind_split_asm)
  qed
  have cmd: "NSID ?cmd = 1" "PRP1 ?cmd = 0x200000" "CID ?cmd = 0" by (simp_all add: zero_COMMAND_def)
  have os: "os_alloc os_all_ok 0 4096" "VnvmeIsValidPhysicalAddress (PRP1 ?cmd) 4096" "os_map os_all_ok 0 (PRP1 ?cmd) 4096"
    by (simp_all add: os_all_ok_def VnvmeIsValidPhysicalAddress_def)
  from created_namespace_identified [OF driver_ok_example1 r, of 1 8 512 f1 c ?cmd os_all_ok] b nsid cr(1,2) os cmd
  obtain h k where "HandleIdentifyNamespace os_all_ok ?cmd c = PostSuccessCompletion 0 0 (c\<lparr>host := h\<rparr>)"
      "fetch struct_NVME_IDENTIFY_NAMESPACE_DATA [Fld ''NSZE''] h 0x200000 = Some 8"
      "fetch struct_NVME_IDENTIFY_NAMESPACE_DATA [Fld ''LBAF'', Idx 0, Fld ''LBADS''] h 0x200000 = Some k" "(2 :: nat) ^ k = 512"
    by (auto simp: request_members c_def)
  moreover from this(4) have "k = 9" using power_inject_exp [of "2 :: nat" k 9] by simp
  ultimately show ?thesis by blast
qed

section \<open>What Identify Controller announces\<close>

abbreviation (input) controller_page :: ctype where "controller_page \<equiv> struct_NVME_IDENTIFY_CONTROLLER_DATA"

lemma controller_places:
  "lookup 1 controller_page [Fld ''VID''] = Some (0, 16)" "lookup 1 controller_page [Fld ''MDTS''] = Some (616, 8)"
  "lookup 1 controller_page [Fld ''VER''] = Some (640, 32)" "lookup 1 controller_page [Fld ''OACS''] = Some (2048, 16)"
  "lookup 1 controller_page [Fld ''AERL''] = Some (2072, 8)"
  "lookup 1 controller_page [Fld ''SQES''] = Some (4096, 8)" "lookup 1 controller_page [Fld ''CQES''] = Some (4104, 8)"
  "lookup 1 controller_page [Fld ''NN''] = Some (4128, 32)" "lookup 1 controller_page [Fld ''ONCS''] = Some (4160, 16)"
  by (simp_all add: struct_NVME_IDENTIFY_CONTROLLER_DATA_def NVME_IDENTIFY_CONTROLLER_DATA_members_def moved_def)

lemma controller_members:
  "fetch controller_page [Fld ''VID''] (identify_controller_data p) 0 = Some 0x1B36"
  "fetch controller_page [Fld ''MDTS''] (identify_controller_data p) 0 = Some 5"
  "fetch controller_page [Fld ''VER''] (identify_controller_data p) 0 = Some 0x10400"
  "fetch controller_page [Fld ''OACS''] (identify_controller_data p) 0 = Some 6"
  "fetch controller_page [Fld ''AERL''] (identify_controller_data p) 0 = Some 3"
  "fetch controller_page [Fld ''SQES''] (identify_controller_data p) 0 = Some 0x66"
  "fetch controller_page [Fld ''CQES''] (identify_controller_data p) 0 = Some 0x44"
  "fetch controller_page [Fld ''NN''] (identify_controller_data p) 0 = Some (max 1 (unat (pdo_NamespaceCount p)))"
  "fetch controller_page [Fld ''ONCS''] (identify_controller_data p) 0 = Some 0x1F"
proof -
  let ?m = "identify_controller_data p"
  have "rd16 ?m 0 = 0x1B36" "rd32 ?m 80 = 0x10400" "rd16 ?m 256 = 6" "rd16 ?m 520 = 0x1F"
    "rd32 ?m 516 = (if pdo_NamespaceCount p > 0 then ucast (pdo_NamespaceCount p) else 1)"
    by (simp_all add: identify_controller_data_def Let_def ascii_def mem_simps)
  moreover have "?m 77 = 5" "?m 259 = 3" "?m 512 = 0x66" "?m 513 = 0x44"
    by (simp_all add: identify_controller_data_def Let_def ascii_def wr32_def wr16_at wr8_at wr_bytes_def)
  moreover have "unat (if pdo_NamespaceCount p > 0 then ucast (pdo_NamespaceCount p) else 1 :: u32) = max 1 (unat (pdo_NamespaceCount p))"
    by (cases "pdo_NamespaceCount p = 0") (auto simp: word_gt_0 unat_gt_0 max_def Suc_le_eq)
  ultimately show "fetch controller_page [Fld ''VID''] ?m 0 = Some 0x1B36" "fetch controller_page [Fld ''MDTS''] ?m 0 = Some 5"
    "fetch controller_page [Fld ''VER''] ?m 0 = Some 0x10400" "fetch controller_page [Fld ''OACS''] ?m 0 = Some 6"
    "fetch controller_page [Fld ''AERL''] ?m 0 = Some 3" "fetch controller_page [Fld ''SQES''] ?m 0 = Some 0x66"
    "fetch controller_page [Fld ''CQES''] ?m 0 = Some 0x44"
    "fetch controller_page [Fld ''NN''] ?m 0 = Some (max 1 (unat (pdo_NamespaceCount p)))"
    "fetch controller_page [Fld ''ONCS''] ?m 0 = Some 0x1F"
    unfolding controller_places [THEN fetch_at(1)] by (simp_all add: rd_bits_here)
qed

text \<open>Three announcements are not kept: the bit of Write Uncorrectable is set in ONCS, those of Format NVM and of the firmware commands in OACS, and the
  commands are answered with Invalid Opcode.\<close>

lemma announced_commands_refused:
  "bit (0x1F :: nat) 1 \<and> VnvmeProcessIoCommand os q (cmd\<lparr>OPC := 0x04\<rparr>) c = PostIoCompletion q (CID cmd) NVME_SCT_GENERIC NVME_SC_INVALID_OPCODE c"
  "bit (6 :: nat) 1 \<and> admin_dispatch os (cmd\<lparr>OPC := 0x80\<rparr>) c = PostErrorCompletion (CID cmd) NVME_SCT_GENERIC NVME_SC_INVALID_OPCODE c"
  "bit (6 :: nat) 2 \<and> admin_dispatch os (cmd\<lparr>OPC := 0x10\<rparr>) c = PostErrorCompletion (CID cmd) NVME_SCT_GENERIC NVME_SC_INVALID_OPCODE c"
  "admin_dispatch os (cmd\<lparr>OPC := 0x11\<rparr>) c = PostErrorCompletion (CID cmd) NVME_SCT_GENERIC NVME_SC_INVALID_OPCODE c"
  by (simp_all add: VnvmeProcessIoCommand_def admin_dispatch_def bit_nat_def)

section \<open>The regions of the shared memory\<close>

text \<open>The accessors of \<^verbatim>\<open>vnvme_common.h\<close>, as offsets from the start of the mapping.\<close>

definition VnvmeGetAdminSQ :: nat where
  "VnvmeGetAdminSQ = unat VNVME_OFFSET_ADMIN_SQ"

definition VnvmeGetAdminCQ :: nat where
  "VnvmeGetAdminCQ = unat VNVME_OFFSET_ADMIN_CQ"

definition VnvmeGetControlBlock :: nat where
  "VnvmeGetControlBlock = 0"

definition VnvmeGetNotifyRing :: nat where
  "VnvmeGetNotifyRing = unat VNVME_OFFSET_NOTIFY_RING"

definition VnvmeGetDataBuffer :: nat where
  "VnvmeGetDataBuffer = unat VNVME_OFFSET_DATA_BUFFER"

lemma region_places:
  "VnvmeGetControlBlock = 0" "VnvmeGetNotifyRing = 0x1000" "VnvmeGetAdminSQ = 0x2000" "VnvmeGetAdminCQ = 0x3000"
  "unat VNVME_OFFSET_IO_QUEUE_DESC = 0x4000" "VnvmeGetDataBuffer = 348160"
  "i < 16 \<Longrightarrow> VnvmeGetIoSQ (of_nat i) = 0x5000 + i * 20480" "i < 16 \<Longrightarrow> VnvmeGetIoCQ (of_nat i) = 0x9000 + i * 20480"
  unfolding VnvmeGetControlBlock_def VnvmeGetNotifyRing_def VnvmeGetAdminSQ_def VnvmeGetAdminCQ_def VnvmeGetDataBuffer_def VnvmeGetIoSQ_def
    VnvmeGetIoCQ_def VNVME_IO_CQ_OFFSET_def VNVME_IO_SQ_OFFSET_def layout_values
  by (simp_all add: unat_word_ariths unat_of_nat)


end
