(* ===== verification/Vnvme_Debug.thy ===== *)
theory Vnvme_Debug
  imports Vnvme_Prelude
begin

text \<open>
  \<^verbatim>\<open>vnvme/debug.h\<close> and \<^verbatim>\<open>debug.c\<close>: the performance counters. A latency may be recorded on several processors at once, so besides
  the operation on its own there is the step relation of threads that run it together, one interlocked operation or
  one read at a time. The counters are \<open>LONG64\<close>: words read as signed numbers.
\<close>

section \<open>Counters\<close>

record VNVME_DEBUG_STATS =
  ds_AdminCmdsSubmitted :: u64
  ds_AdminCmdsCompleted :: u64
  ds_AdminCmdsErrors :: u64
  ds_IoCmdsSubmitted :: u64
  ds_IoCmdsCompleted :: u64
  ds_IoCmdsErrors :: u64
  ds_BytesRead :: u64
  ds_BytesWritten :: u64
  ds_DoorbellPolls :: u64
  ds_DoorbellHits :: u64
  ds_TotalLatency :: u64
  ds_MinLatency :: u64
  ds_MaxLatency :: u64
  ds_LatencySamples :: u64

abbreviation (input) MAXLONGLONG :: u64 where "MAXLONGLONG \<equiv> 0x7FFFFFFFFFFFFFFF"

definition VnvmeDebugResetStats :: VNVME_DEBUG_STATS where
  "VnvmeDebugResetStats =
     \<lparr>ds_AdminCmdsSubmitted = 0, ds_AdminCmdsCompleted = 0, ds_AdminCmdsErrors = 0, ds_IoCmdsSubmitted = 0,
      ds_IoCmdsCompleted = 0, ds_IoCmdsErrors = 0, ds_BytesRead = 0, ds_BytesWritten = 0, ds_DoorbellPolls = 0,
      ds_DoorbellHits = 0, ds_TotalLatency = 0, ds_MinLatency = MAXLONGLONG, ds_MaxLatency = 0, ds_LatencySamples = 0\<rparr>"

definition VnvmeDebugInit :: "VNVME_DEBUG_STATS \<Rightarrow> VNVME_DEBUG_STATS" where
  "VnvmeDebugInit g_DebugStats = VnvmeDebugResetStats"

text \<open>With nobody else changing the counters, the copy is the original.\<close>

definition VnvmeDebugGetStats :: "VNVME_DEBUG_STATS \<Rightarrow> VNVME_DEBUG_STATS" where
  "VnvmeDebugGetStats g =
     \<lparr>ds_AdminCmdsSubmitted = ds_AdminCmdsSubmitted g, ds_AdminCmdsCompleted = ds_AdminCmdsCompleted g,
      ds_AdminCmdsErrors = ds_AdminCmdsErrors g, ds_IoCmdsSubmitted = ds_IoCmdsSubmitted g,
      ds_IoCmdsCompleted = ds_IoCmdsCompleted g, ds_IoCmdsErrors = ds_IoCmdsErrors g, ds_BytesRead = ds_BytesRead g,
      ds_BytesWritten = ds_BytesWritten g, ds_DoorbellPolls = ds_DoorbellPolls g, ds_DoorbellHits = ds_DoorbellHits g,
      ds_TotalLatency = ds_TotalLatency g, ds_MinLatency = ds_MinLatency g, ds_MaxLatency = ds_MaxLatency g,
      ds_LatencySamples = ds_LatencySamples g\<rparr>"

section \<open>Recording a latency\<close>

text \<open>A thread: what it does next, with its argument and, before an exchange, the value it read.\<close>

datatype record_pc =
  AddTotal u64 | CountSample u64 | ReadMin u64 | SwapMin u64 u64 | ReadMax u64 | SwapMax u64 u64 | Recorded u64

fun record_step :: "record_pc \<Rightarrow> VNVME_DEBUG_STATS \<Rightarrow> (record_pc \<times> VNVME_DEBUG_STATS) option" where
  "record_step (AddTotal l) g = Some (CountSample l, g\<lparr>ds_TotalLatency := ds_TotalLatency g + l\<rparr>)"
| "record_step (CountSample l) g = Some (ReadMin l, g\<lparr>ds_LatencySamples := ds_LatencySamples g + 1\<rparr>)"
| "record_step (ReadMin l) g =
     (let oldMin = ds_MinLatency g in Some (if sint l \<ge> sint oldMin then ReadMax l else SwapMin l oldMin, g))"
| "record_step (SwapMin l oldMin) g =
     Some (if ds_MinLatency g = oldMin then (ReadMax l, g\<lparr>ds_MinLatency := l\<rparr>) else (ReadMin l, g))"
| "record_step (ReadMax l) g =
     (let oldMax = ds_MaxLatency g in Some (if sint l \<le> sint oldMax then Recorded l else SwapMax l oldMax, g))"
| "record_step (SwapMax l oldMax) g =
     Some (if ds_MaxLatency g = oldMax then (Recorded l, g\<lparr>ds_MaxLatency := l\<rparr>) else (ReadMax l, g))"
| "record_step (Recorded l) g = None"

inductive threads_step :: "record_pc list \<times> VNVME_DEBUG_STATS \<Rightarrow> record_pc list \<times> VNVME_DEBUG_STATS \<Rightarrow> bool" where
  step: "i < length ts \<Longrightarrow> record_step (ts ! i) g = Some (t, g') \<Longrightarrow> threads_step (ts, g) (ts[i := t], g')"

inductive_cases threads_stepE: "threads_step (ts, g) c'"

text \<open>The operation on its own: each exchange succeeds at once.\<close>

definition VnvmeDebugRecordLatency :: "u64 \<Rightarrow> VNVME_DEBUG_STATS \<Rightarrow> VNVME_DEBUG_STATS" where
  "VnvmeDebugRecordLatency l g =
     (let g = g\<lparr>ds_TotalLatency := ds_TotalLatency g + l\<rparr>; g = g\<lparr>ds_LatencySamples := ds_LatencySamples g + 1\<rparr>;
          g = (if sint l \<ge> sint (ds_MinLatency g) then g else g\<lparr>ds_MinLatency := l\<rparr>)
      in if sint l \<le> sint (ds_MaxLatency g) then g else g\<lparr>ds_MaxLatency := l\<rparr>)"

section \<open>Printing\<close>

text \<open>Division of two \<open>LONG64\<close>, towards zero.\<close>

definition ldiv :: "u64 \<Rightarrow> u64 \<Rightarrow> u64" where
  "ldiv a b = word_of_int (sgn (sint a) * sgn (sint b) * (\<bar>sint a\<bar> div \<bar>sint b\<bar>))"

record printed_stats =
  pr_Admin :: "u64 \<times> u64 \<times> u64"
  pr_Io :: "u64 \<times> u64 \<times> u64"
  pr_Megabytes :: "u64 \<times> u64"
  pr_Doorbell :: "u64 \<times> u64 \<times> u32"
  pr_Min :: u64
  pr_Max :: u64
  pr_Avg :: u64

definition VnvmeDebugPrintStats :: "VNVME_DEBUG_STATS \<Rightarrow> printed_stats" where
  "VnvmeDebugPrintStats g =
     (let stats = VnvmeDebugGetStats g;
          avgLatency = (if sint (ds_LatencySamples stats) > 0 then ldiv (ds_TotalLatency stats) (ds_LatencySamples stats) else 0);
          hitRatePercent = (if sint (ds_DoorbellPolls stats) > 0
                            then ucast (ldiv (ds_DoorbellHits stats * 100) (ds_DoorbellPolls stats)) else 0)
      in \<lparr>pr_Admin = (ds_AdminCmdsSubmitted stats, ds_AdminCmdsCompleted stats, ds_AdminCmdsErrors stats),
          pr_Io = (ds_IoCmdsSubmitted stats, ds_IoCmdsCompleted stats, ds_IoCmdsErrors stats),
          pr_Megabytes = (ldiv (ds_BytesRead stats) (1024 * 1024), ldiv (ds_BytesWritten stats) (1024 * 1024)),
          pr_Doorbell = (ds_DoorbellPolls stats, ds_DoorbellHits stats, hitRatePercent),
          pr_Min = (if ds_MinLatency stats = MAXLONGLONG then 0 else ldiv (ds_MinLatency stats) 10),
          pr_Max = ldiv (ds_MaxLatency stats) 10, pr_Avg = ldiv avgLatency 10\<rparr>)"

section \<open>One after the other\<close>

definition latency_stats :: "VNVME_DEBUG_STATS \<Rightarrow> u64 \<Rightarrow> u64 \<Rightarrow> u64 \<Rightarrow> u64 \<Rightarrow> VNVME_DEBUG_STATS" where
  "latency_stats g tot lo hi n = g\<lparr>ds_TotalLatency := tot, ds_MinLatency := lo, ds_MaxLatency := hi, ds_LatencySamples := n\<rparr>"

lemma latency_stats_fields [simp]:
  "ds_TotalLatency (latency_stats g tot lo hi n) = tot" "ds_MinLatency (latency_stats g tot lo hi n) = lo"
  "ds_MaxLatency (latency_stats g tot lo hi n) = hi" "ds_LatencySamples (latency_stats g tot lo hi n) = n"
  "latency_stats g tot lo hi n\<lparr>ds_TotalLatency := tot'\<rparr> = latency_stats g tot' lo hi n"
  "latency_stats g tot lo hi n\<lparr>ds_MinLatency := lo'\<rparr> = latency_stats g tot lo' hi n"
  "latency_stats g tot lo hi n\<lparr>ds_MaxLatency := hi'\<rparr> = latency_stats g tot lo hi' n"
  "latency_stats g tot lo hi n\<lparr>ds_LatencySamples := n'\<rparr> = latency_stats g tot lo hi n'"
  by (simp_all add: latency_stats_def)

definition smallest :: "u64 \<Rightarrow> u64 set \<Rightarrow> bool" where
  "smallest x S \<longleftrightarrow> x \<in> S \<and> (\<forall>y\<in>S. sint x \<le> sint y)"

definition largest :: "u64 \<Rightarrow> u64 set \<Rightarrow> bool" where
  "largest x S \<longleftrightarrow> x \<in> S \<and> (\<forall>y\<in>S. sint y \<le> sint x)"

lemma smallest_unique: "smallest x S \<Longrightarrow> smallest y S \<Longrightarrow> x = y"
  by (auto simp: smallest_def intro!: signed_word_eqI antisym)

lemma largest_unique: "largest x S \<Longrightarrow> largest y S \<Longrightarrow> x = y"
  by (auto simp: largest_def intro!: signed_word_eqI antisym)

text \<open>What a sequence of recordings leaves, whatever the counters were before.\<close>

lemma recorded_fold:
  obtains lo hi where "fold VnvmeDebugRecordLatency ls g = latency_stats g (ds_TotalLatency g + sum_list ls) lo hi (ds_LatencySamples g + of_nat (length ls))"
    "smallest lo (insert (ds_MinLatency g) (set ls))" "largest hi (insert (ds_MaxLatency g) (set ls))"
proof (induction ls arbitrary: thesis rule: rev_induct)
  case Nil
  show ?case by (rule Nil [of "ds_MinLatency g" "ds_MaxLatency g"]) (simp_all add: latency_stats_def smallest_def largest_def)
next
  case (snoc l ls)
  obtain lo hi where *: "fold VnvmeDebugRecordLatency ls g = latency_stats g (ds_TotalLatency g + sum_list ls) lo hi (ds_LatencySamples g + of_nat (length ls))"
    "smallest lo (insert (ds_MinLatency g) (set ls))" "largest hi (insert (ds_MaxLatency g) (set ls))"
    by (rule snoc.IH)
  show ?case
  proof (rule snoc.prems)
    show "fold VnvmeDebugRecordLatency (ls @ [l]) g = latency_stats g (ds_TotalLatency g + sum_list (ls @ [l]))
        (if sint l \<ge> sint lo then lo else l) (if sint l \<le> sint hi then hi else l) (ds_LatencySamples g + of_nat (length (ls @ [l])))"
      by (simp add: * VnvmeDebugRecordLatency_def Let_def add_ac)
    show "smallest (if sint l \<ge> sint lo then lo else l) (insert (ds_MinLatency g) (set (ls @ [l])))"
      using *(2) by (auto simp: smallest_def)
    show "largest (if sint l \<le> sint hi then hi else l) (insert (ds_MaxLatency g) (set (ls @ [l])))"
      using *(3) by (auto simp: largest_def)
  qed
qed

section \<open>All at once\<close>

primrec latency :: "record_pc \<Rightarrow> u64" where
  "latency (AddTotal l) = l" | "latency (CountSample l) = l" | "latency (ReadMin l) = l" | "latency (SwapMin l old) = l"
| "latency (ReadMax l) = l" | "latency (SwapMax l old) = l" | "latency (Recorded l) = l"

text \<open>What is left of the operation: the addition, the count, the minimum, the maximum.\<close>

primrec phase :: "record_pc \<Rightarrow> nat" where
  "phase (AddTotal l) = 4" | "phase (CountSample l) = 3" | "phase (ReadMin l) = 2" | "phase (SwapMin l old) = 2"
| "phase (ReadMax l) = 1" | "phase (SwapMax l old) = 1" | "phase (Recorded l) = 0"

definition added :: "record_pc \<Rightarrow> u64" where "added t = (if phase t < 4 then latency t else 0)"
definition counted :: "record_pc \<Rightarrow> u64" where "counted t = (if phase t < 3 then 1 else 0)"

text \<open>An exchange is only tried where the value read was worse.\<close>

fun sensible :: "record_pc \<Rightarrow> bool" where
  "sensible (SwapMin l old) \<longleftrightarrow> sint l < sint old"
| "sensible (SwapMax l old) \<longleftrightarrow> sint old < sint l"
| "sensible t \<longleftrightarrow> True"

lemma sum_list_replaced:
  fixes f :: "'a \<Rightarrow> 'b :: comm_monoid_add"
  shows "i < length xs \<Longrightarrow> sum_list (map f (xs[i := x])) + f (xs ! i) = sum_list (map f xs) + f x"
  by (induction xs arbitrary: i) (auto split: nat.split simp: add_ac)

lemma sum_list_map_update:
  fixes f :: "'a \<Rightarrow> 'b :: ab_group_add"
  shows "i < length xs \<Longrightarrow> sum_list (map f (xs[i := x])) = sum_list (map f xs) + f x - f (xs ! i)"
  using sum_list_replaced [of i xs f x] by (simp add: eq_diff_eq)

text \<open>
  The invariant of threads that record \<open>ls\<close> from the counters \<open>g0\<close> on: the sums hold what was added, the extremes are among
  the candidates and bound what the threads that are past them brought.
\<close>

definition recording_at :: "u64 list \<Rightarrow> VNVME_DEBUG_STATS \<Rightarrow> u64 \<Rightarrow> u64 \<Rightarrow> record_pc list \<Rightarrow> bool" where
  "recording_at ls g0 lo hi ts \<longleftrightarrow> map latency ts = ls \<and> (\<forall>t\<in>set ts. sensible t)
     \<and> lo \<in> insert (ds_MinLatency g0) (set ls) \<and> sint lo \<le> sint (ds_MinLatency g0) \<and> (\<forall>t\<in>set ts. phase t < 2 \<longrightarrow> sint lo \<le> sint (latency t))
     \<and> hi \<in> insert (ds_MaxLatency g0) (set ls) \<and> sint (ds_MaxLatency g0) \<le> sint hi \<and> (\<forall>t\<in>set ts. phase t < 1 \<longrightarrow> sint (latency t) \<le> sint hi)"

definition recording_sums :: "VNVME_DEBUG_STATS \<Rightarrow> u64 \<Rightarrow> u64 \<Rightarrow> record_pc list \<Rightarrow> VNVME_DEBUG_STATS" where
  "recording_sums g0 lo hi ts =
     latency_stats g0 (ds_TotalLatency g0 + sum_list (map added ts)) lo hi (ds_LatencySamples g0 + sum_list (map counted ts))"

definition recording :: "u64 list \<Rightarrow> VNVME_DEBUG_STATS \<Rightarrow> record_pc list \<times> VNVME_DEBUG_STATS \<Rightarrow> bool" where
  "recording ls g0 = (\<lambda>(ts, g). \<exists>lo hi. recording_at ls g0 lo hi ts \<and> g = recording_sums g0 lo hi ts)"

lemma recordingI: "recording_at ls g0 lo hi ts \<Longrightarrow> g = recording_sums g0 lo hi ts \<Longrightarrow> recording ls g0 (ts, g)"
  by (auto simp: recording_def)

lemma recording_initial: "recording ls g (map AddTotal ls, g)"
proof (rule recordingI [of _ _ "ds_MinLatency g" "ds_MaxLatency g"])
  have "sum_list (map added (map AddTotal ls)) = 0" "sum_list (map counted (map AddTotal ls)) = 0"
    by (simp_all add: added_def counted_def o_def)
  then show "g = recording_sums g (ds_MinLatency g) (ds_MaxLatency g) (map AddTotal ls)"
    by (simp add: recording_sums_def latency_stats_def)
qed (auto simp: recording_at_def o_def)

text \<open>A step of one thread that keeps its latency and leaves better extremes, good enough for the phase it is in now.\<close>

lemma recording_at_update:
  assumes "recording_at ls g0 lo hi ts" "i < length ts" "latency t = latency (ts ! i)" "sensible t"
    and "lo' = lo \<or> lo' = latency t \<and> sint lo' \<le> sint lo" "phase t < 2 \<longrightarrow> sint lo' \<le> sint (latency t)"
    and "hi' = hi \<or> hi' = latency t \<and> sint hi \<le> sint hi'" "phase t < 1 \<longrightarrow> sint (latency t) \<le> sint hi'"
  shows "recording_at ls g0 lo' hi' (ts[i := t])"
proof -
  have "latency t \<in> set ls" using assms(1-3) by (auto simp: recording_at_def)
  moreover have "map latency (ts[i := t]) = map latency ts" using assms(2,3) by (simp add: map_update list_update_same_conv)
  moreover have "set (ts[i := t]) \<subseteq> insert t (set ts)" by (rule set_update_subset_insert)
  ultimately show ?thesis using assms unfolding recording_at_def by (smt (verit, best) insert_iff subset_iff)
qed

lemma recording_sums_update:
  "i < length ts \<Longrightarrow> recording_sums g0 lo hi (ts[i := t])
     = latency_stats g0 (ds_TotalLatency g0 + sum_list (map added ts) + added t - added (ts ! i)) lo hi
         (ds_LatencySamples g0 + sum_list (map counted ts) + counted t - counted (ts ! i))"
  by (simp add: recording_sums_def sum_list_map_update add_diff_eq add.assoc)

lemma recording_step:
  assumes "recording ls g0 c" "threads_step c c'"
  shows "recording ls g0 c'"
proof -
  obtain ts lo hi where c: "c = (ts, recording_sums g0 lo hi ts)" "recording_at ls g0 lo hi ts"
    using assms(1) by (auto simp: recording_def)
  obtain i t g' where i: "i < length ts" "record_step (ts ! i) (recording_sums g0 lo hi ts) = Some (t, g')" "c' = (ts[i := t], g')"
    using assms(2) unfolding c(1) by (auto elim: threads_stepE)
  have sen: "sensible (ts ! i)" using c(2) i(1) by (simp add: recording_at_def)
  have old: "phase (ts ! i) < 2 \<longrightarrow> sint lo \<le> sint (latency (ts ! i))" using c(2) i(1) by (simp add: recording_at_def)
  note up = recording_at_update [OF c(2) i(1)] and sums = recording_sums_update [OF i(1)]
  have fields: "ds_MinLatency (recording_sums g0 lo hi ts) = lo" "ds_MaxLatency (recording_sums g0 lo hi ts) = hi"
    by (simp_all add: recording_sums_def)
  note simps = added_def counted_def sums fields Let_def recording_sums_def [of g0 lo hi ts]
  show ?thesis
    unfolding i(3)
  proof (cases "ts ! i")
    case (AddTotal l)
    with i(2) show "recording ls g0 (ts[i := t], g')"
      by (intro recordingI [of _ _ lo hi] up) (auto simp: simps add_ac)
  next
    case (CountSample l)
    with i(2) show "recording ls g0 (ts[i := t], g')"
      by (intro recordingI [of _ _ lo hi] up) (auto simp: simps add_ac)
  next
    case (ReadMin l)
    with i(2) show "recording ls g0 (ts[i := t], g')"
      by (intro recordingI [of _ _ lo hi] up) (auto simp: simps split: if_splits)
  next
    case (SwapMin l x)
    with i(2) sen show "recording ls g0 (ts[i := t], g')"
      by (intro recordingI [of _ _ "if lo = x then l else lo" hi] up) (auto simp: simps split: if_splits)
  next
    case (ReadMax l)
    with i(2) old show "recording ls g0 (ts[i := t], g')"
      by (intro recordingI [of _ _ lo hi] up) (auto simp: simps split: if_splits)
  next
    case (SwapMax l x)
    with i(2) sen old show "recording ls g0 (ts[i := t], g')"
      by (intro recordingI [of _ _ lo "if hi = x then l else hi"] up) (auto simp: simps split: if_splits)
  next
    case (Recorded l)
    with i(2) show "recording ls g0 (ts[i := t], g')" by simp
  qed
qed

lemma stopped_threads: "(\<nexists>c'. threads_step (ts, g) c') \<Longrightarrow> t \<in> set ts \<Longrightarrow> \<exists>l. t = Recorded l"
proof -
  assume stop: "\<nexists>c'. threads_step (ts, g) c'" and "t \<in> set ts"
  then obtain i where i: "i < length ts" "t = ts ! i" by (auto simp: in_set_conv_nth)
  then have "record_step t g = None" using stop threads_step.step [of i ts g] by (cases "record_step t g") auto
  then show ?thesis by (cases t) (simp_all add: Let_def)
qed

text \<open>C24: recording latencies on several processors at once loses nothing. However the steps of the threads are interleaved,
  when none can go on the counters are those of recording the same latencies one after the other: the sum and the
  number of samples are complete, and the minimum and the maximum are those of all of them.\<close>

theorem concurrent_recording_linearizes:
  assumes "threads_step\<^sup>*\<^sup>* (map AddTotal ls, g) (ts, g')" "\<nexists>c'. threads_step (ts, g') c'"
  shows "g' = fold VnvmeDebugRecordLatency ls g"
proof -
  have "recording ls g (ts, g')" using assms(1)
    by (induction rule: rtranclp_induct) (auto intro: recording_initial recording_step)
  then obtain lo hi where at: "recording_at ls g lo hi ts" and g': "g' = recording_sums g lo hi ts"
    by (auto simp: recording_def)
  have rec: "\<exists>l. t = Recorded l" if "t \<in> set ts" for t using stopped_threads [OF assms(2) that] .
  then have ph: "phase t = 0" if "t \<in> set ts" for t using that by fastforce
  have ls: "ls = map latency ts" using at by (simp add: recording_at_def)
  have sums: "map added ts = ls" "map counted ts = map (\<lambda>_. 1) ts" using ph by (simp_all add: added_def counted_def ls)
  have g': "g' = latency_stats g (ds_TotalLatency g + sum_list ls) lo hi (ds_LatencySamples g + of_nat (length ls))"
    unfolding g' recording_sums_def sums by (simp add: ls sum_list_triv)
  from ph have "smallest lo (insert (ds_MinLatency g) (set ls))" "largest hi (insert (ds_MaxLatency g) (set ls))"
    using at by (auto simp: recording_at_def smallest_def largest_def)
  moreover obtain lo' hi' where "fold VnvmeDebugRecordLatency ls g
      = latency_stats g (ds_TotalLatency g + sum_list ls) lo' hi' (ds_LatencySamples g + of_nat (length ls))"
    "smallest lo' (insert (ds_MinLatency g) (set ls))" "largest hi' (insert (ds_MaxLatency g) (set ls))"
    by (rule recorded_fold [of ls g])
  ultimately show ?thesis using g' by (metis smallest_unique largest_unique)
qed

theorem concurrent_recording_linearizes_witness:
  "fold VnvmeDebugRecordLatency [7] VnvmeDebugResetStats
    = VnvmeDebugResetStats\<lparr>ds_TotalLatency := 7, ds_MinLatency := 7, ds_MaxLatency := 7, ds_LatencySamples := 1\<rparr>"
proof -
  let ?g = "VnvmeDebugResetStats"
  let ?g1 = "?g\<lparr>ds_TotalLatency := 7\<rparr>" and ?g2 = "?g\<lparr>ds_TotalLatency := 7, ds_LatencySamples := 1\<rparr>"
  let ?g3 = "?g\<lparr>ds_TotalLatency := 7, ds_LatencySamples := 1, ds_MinLatency := 7\<rparr>"
  let ?g4 = "?g\<lparr>ds_TotalLatency := 7, ds_LatencySamples := 1, ds_MinLatency := 7, ds_MaxLatency := 7\<rparr>"
  have one: "threads_step ([t], g) ([t'], g')" if "record_step t g = Some (t', g')" for t t' g g'
    using threads_step.step [of 0 "[t]" g t' g'] that by simp
  have s: "threads_step ([AddTotal 7], ?g) ([CountSample 7], ?g1)" "threads_step ([CountSample 7], ?g1) ([ReadMin 7], ?g2)"
    "threads_step ([ReadMin 7], ?g2) ([SwapMin 7 MAXLONGLONG], ?g2)" "threads_step ([SwapMin 7 MAXLONGLONG], ?g2) ([ReadMax 7], ?g3)"
    "threads_step ([ReadMax 7], ?g3) ([SwapMax 7 0], ?g3)" "threads_step ([SwapMax 7 0], ?g3) ([Recorded 7], ?g4)"
    by (rule one, simp add: VnvmeDebugResetStats_def)+
  note into = converse_rtranclp_into_rtranclp [where r = threads_step]
  have "threads_step\<^sup>*\<^sup>* (map AddTotal [7], ?g) ([Recorded 7], ?g4)"
    unfolding list.map by (rule into [OF s(1) into [OF s(2) into [OF s(3) into [OF s(4) into [OF s(5) r_into_rtranclp [where r = threads_step, OF s(6)]]]]]])
  moreover have "\<nexists>c'. threads_step ([Recorded 7], ?g4) c'" by (auto elim: threads_stepE)
  ultimately have "?g4 = fold VnvmeDebugRecordLatency [7] ?g" by (rule concurrent_recording_linearizes)
  then have "fold VnvmeDebugRecordLatency [7] ?g = ?g4" by (rule sym)
  then show ?thesis by (simp add: VnvmeDebugResetStats_def)
qed

text \<open>Another exchange makes a value that was read stale; a thread with a stale value has to read again.\<close>

primrec weight :: "VNVME_DEBUG_STATS \<Rightarrow> record_pc \<Rightarrow> nat" where
  "weight g (AddTotal l) = 0" | "weight g (CountSample l) = 0" | "weight g (ReadMin l) = 2"
| "weight g (SwapMin l old) = (if ds_MinLatency g = old then 1 else 3)" | "weight g (ReadMax l) = 2"
| "weight g (SwapMax l old) = (if ds_MaxLatency g = old then 1 else 3)" | "weight g (Recorded l) = 0"

lemma record_step_decreases:
  assumes "record_step t g = Some (t', g')"
  shows "phase t' < phase t \<or> phase t' = phase t \<and> g' = g \<and> weight g t' < weight g t"
  using assms by (cases t) (auto simp: Let_def split: if_splits)

text \<open>C25: no schedule runs forever. Whatever order the threads are scheduled in, and however often their exchanges fail, every run
  of the recording threads ends: a failed exchange means that another thread has finished its phase.\<close>

theorem concurrent_recording_terminates: "wfp (\<lambda>c' c. threads_step c c')"
proof (rule wfp_subset)
  let ?m = "measures [\<lambda>(ts, g). sum_list (map phase ts), \<lambda>(ts, g). sum_list (map (weight g) ts)]"
  show "wfp (\<lambda>c' c. (c', c) \<in> ?m)" by (simp only: wfp_wf_eq wf_measures)
  show "(\<lambda>c' c. threads_step c c') \<le> (\<lambda>c' c. (c', c) \<in> ?m)"
  proof (clarify elim!: threads_step.cases)
    fix i ts g t g'
    assume i: "i < length ts" "record_step (ts ! i) g = Some (t, g')"
    show "((ts[i := t], g'), ts, g) \<in> ?m"
      using record_step_decreases [OF i(2)] sum_list_replaced [OF i(1), of phase t] sum_list_replaced [OF i(1), of "weight g" t]
      by auto
  qed
qed

section \<open>What is printed\<close>

lemma sint_nonneg: "unat (w :: u64) < 2 ^ 63 \<Longrightarrow> sint w = int (unat w)"
  by (rule sint_small) simp

lemma unat_ldiv:
  assumes "unat a < 2 ^ 63" "unat b < 2 ^ 63" "0 < unat b"
  shows "unat (ldiv a b) = unat a div unat b"
proof -
  have "sgn (int n) * sgn (int m) * (\<bar>int n\<bar> div \<bar>int m\<bar>) = int (n div m)" if "0 < m" for n m
    using that by (cases "n = 0") (simp_all add: zdiv_int)
  from this [OF assms(3), of "unat a"] have "ldiv a b = of_int (int (unat a div unat b))"
    unfolding ldiv_def sint_nonneg [OF assms(1)] sint_nonneg [OF assms(2)] by (rule arg_cong)
  then have "ldiv a b = of_nat (unat a div unat b)" by (simp only: of_int_of_nat_eq)
  moreover have "unat a div unat b < 2 ^ 64" by (rule le_less_trans [OF div_le_dividend]) (use assms(1) in simp)
  ultimately show ?thesis by (simp add: unat_of_nat)
qed

lemma unat_sum_list: "(\<Sum>l\<leftarrow>ls. unat (l :: u64)) < 2 ^ 64 \<Longrightarrow> unat (sum_list ls) = (\<Sum>l\<leftarrow>ls. unat l)"
  by (induction ls) (simp_all add: unat_word_ariths)

lemma average_bounds:
  fixes ns :: "nat list"
  assumes "ns \<noteq> []"
  shows "Min (set ns) \<le> sum_list ns div length ns" "sum_list ns div length ns \<le> Max (set ns)"
proof -
  have "(\<Sum>x\<leftarrow>ns. Min (set ns)) \<le> (\<Sum>x\<leftarrow>ns. x)" by (rule sum_list_mono) simp
  then have "Min (set ns) * length ns \<le> sum_list ns" by (simp add: sum_list_triv mult.commute)
  with assms show "Min (set ns) \<le> sum_list ns div length ns" by (simp add: less_eq_div_iff_mult_less_eq)
  have "(\<Sum>x\<leftarrow>ns. x) \<le> (\<Sum>x\<leftarrow>ns. Max (set ns))" by (rule sum_list_mono) simp
  then have "sum_list ns \<le> Max (set ns) * length ns" by (simp add: sum_list_triv mult.commute)
  then have "sum_list ns div length ns \<le> Max (set ns) * length ns div length ns" by (rule div_le_mono)
  with assms show "sum_list ns div length ns \<le> Max (set ns)" by simp
qed

lemma sample_values:
  assumes "(\<Sum>l\<leftarrow>ls. unat (l :: u64)) < 2 ^ 63 - 1" "l \<in> set ls"
  shows "unat l < 2 ^ 63 - 1" "sint l = int (unat l)"
proof -
  show "unat l < 2 ^ 63 - 1" using member_le_sum_list [of "unat l" "map unat ls"] assms by simp
  then show "sint l = int (unat l)" by (intro sint_nonneg) simp
qed

text \<open>The start values do not hide a sample.\<close>

lemma smallest_sample:
  assumes "ls \<noteq> []" "\<And>l. l \<in> set ls \<Longrightarrow> unat l < 2 ^ 63 - 1" "\<And>l. l \<in> set ls \<Longrightarrow> sint l = int (unat l)"
    and "smallest lo (insert MAXLONGLONG (set ls))"
  shows "lo \<in> set ls" "\<forall>l\<in>set ls. unat lo \<le> unat l"
proof -
  obtain l where l: "l \<in> set ls" using assms(1) by (cases ls) auto
  have "sint lo \<le> sint l" using assms(4) l by (simp add: smallest_def)
  moreover have "sint l < int (2 ^ 63 - 1)" unfolding assms(3) [OF l] of_nat_less_iff by (rule assms(2) [OF l])
  ultimately show "lo \<in> set ls" using assms(4) by (auto simp: smallest_def)
  then show "\<forall>l\<in>set ls. unat lo \<le> unat l"
    using assms(3,4) by (auto simp: smallest_def word_le_def [symmetric] word_le_nat_alt)
qed

lemma largest_sample:
  assumes "ls \<noteq> []" "\<And>l. l \<in> set ls \<Longrightarrow> unat l < 2 ^ 63 - 1" "\<And>l. l \<in> set ls \<Longrightarrow> sint l = int (unat l)"
    and "largest hi (insert 0 (set ls))"
  shows "hi \<in> set ls" "\<forall>l\<in>set ls. unat l \<le> unat hi"
proof -
  obtain l where l: "l \<in> set ls" using assms(1) by (cases ls) auto
  have up: "\<forall>l\<in>set ls. sint l \<le> sint hi" using assms(4) by (simp add: largest_def)
  show "hi \<in> set ls"
  proof (cases "hi = 0")
    case True
    with up l have "sint l \<le> 0" by auto
    then have "int (unat l) \<le> 0" unfolding assms(3) [OF l] .
    then have "l = 0" by (simp only: of_nat_le_0_iff unat_eq_0)
    with l True show ?thesis by simp
  qed (use assms(4) in \<open>auto simp: largest_def\<close>)
  then show "\<forall>l\<in>set ls. unat l \<le> unat hi" using up assms(3) by (auto simp: word_le_def [symmetric] word_le_nat_alt)
qed

text \<open>The printed latencies are exact and in order. After any number of samples, counted from a reset, whose sum and number
  stay below the signed range, the smallest, the largest and the average that are printed are those of the samples,
  in microseconds, and the average lies between the other two.\<close>

theorem printed_latencies_bounds:
  assumes "ls \<noteq> []" "(\<Sum>l\<leftarrow>ls. unat l) < 2 ^ 63 - 1" "length ls < 2 ^ 63"
    and "p = VnvmeDebugPrintStats (fold VnvmeDebugRecordLatency ls VnvmeDebugResetStats)"
  shows "unat (pr_Min p) = Min (unat ` set ls) div 10 \<and> unat (pr_Max p) = Max (unat ` set ls) div 10
    \<and> unat (pr_Avg p) = (\<Sum>l\<leftarrow>ls. unat l) div length ls div 10 \<and> pr_Min p \<le> pr_Avg p \<and> pr_Avg p \<le> pr_Max p"
proof -
  let ?g = "VnvmeDebugResetStats" and ?ns = "map unat ls"
  obtain lo hi where f: "fold VnvmeDebugRecordLatency ls ?g = latency_stats ?g (sum_list ls) lo hi (of_nat (length ls))"
    "smallest lo (insert MAXLONGLONG (set ls))" "largest hi (insert 0 (set ls))"
    by (rule recorded_fold [of ls ?g]) (simp add: VnvmeDebugResetStats_def)
  note samples = sample_values [OF assms(2)]
  note lo = smallest_sample [OF assms(1) samples f(2)] and hi = largest_sample [OF assms(1) samples f(3)]
  note each = samples(1)
  have mm: "Min (set ?ns) = unat lo" "Max (set ?ns) = unat hi"
    using lo hi by (auto intro!: Min_eqI Max_eqI)
  have ten: "unat (ldiv x 10) = unat x div 10" if "unat x < 2 ^ 63" for x using unat_ldiv [of x 10] that by simp
  have avg: "unat (ldiv (sum_list ls) (of_nat (length ls))) = sum_list ?ns div length ls"
    using unat_ldiv [of "sum_list ls" "of_nat (length ls)"] assms(1-3) unat_sum_list [of ls] by (simp add: unat_of_nat)
  have some: "0 < sint (of_nat (length ls) :: u64)" using assms(1,3) by (simp add: sint_nonneg unat_of_nat)
  have small: "sum_list ?ns div length ls < 2 ^ 63" by (rule le_less_trans [OF div_le_dividend]) (use assms(2) in simp)
  have p: "pr_Min p = ldiv lo 10" "pr_Max p = ldiv hi 10" "pr_Avg p = ldiv (ldiv (sum_list ls) (of_nat (length ls))) 10"
    using some each [OF lo(1)] by (auto simp: assms(4) f(1) VnvmeDebugPrintStats_def VnvmeDebugGetStats_def Let_def)
  have vals: "unat (pr_Min p) = unat lo div 10" "unat (pr_Max p) = unat hi div 10"
      "unat (pr_Avg p) = sum_list ?ns div length ls div 10"
    using each [OF lo(1)] each [OF hi(1)] small unfolding p by (simp_all add: ten avg)
  have "unat lo \<le> sum_list ?ns div length ls" "sum_list ?ns div length ls \<le> unat hi"
    using average_bounds [of ?ns] assms(1) mm by simp_all
  with vals mm show ?thesis by (simp add: word_le_nat_alt div_le_mono)
qed

theorem printed_latencies_bounds_witness:
  "unat (pr_Avg (VnvmeDebugPrintStats (fold VnvmeDebugRecordLatency [100, 300] VnvmeDebugResetStats))) = 20"
  using printed_latencies_bounds [of "[100, 300]"] by (simp add: numeral_2_eq_2 [symmetric])

end
