(* ===== verification/Vnvme_Trace.thy ===== *)
theory Vnvme_Trace
  imports Vnvme_Debug Vnvme_Text "HOL-Library.Multiset"
begin

text \<open>
  \<^verbatim>\<open>vnvme/trace.h\<close> and the macros of \<^verbatim>\<open>debug.h\<close>: tracing without WPP, which is what the build uses, assertions, and the macros that count. What is printed
  goes to \<open>DbgPrintEx\<close>, with a component and a level; the state is the list of these calls. The variable arguments of a message are
  already merged into its text.
\<close>

section \<open>Trace messages\<close>

record dbg_call =
  dbg_ComponentId :: nat
  dbg_Level :: nat
  dbg_Text :: string

abbreviation (input) DPFLTR_IHVDRIVER_ID :: nat where "DPFLTR_IHVDRIVER_ID \<equiv> 77"
abbreviation (input) DPFLTR_ERROR_LEVEL :: nat where "DPFLTR_ERROR_LEVEL \<equiv> 0"
abbreviation (input) DPFLTR_INFO_LEVEL :: nat where "DPFLTR_INFO_LEVEL \<equiv> 3"

abbreviation (input) TRACE_LEVEL_ERROR :: nat where "TRACE_LEVEL_ERROR \<equiv> 2"
abbreviation (input) TRACE_LEVEL_WARNING :: nat where "TRACE_LEVEL_WARNING \<equiv> 3"
abbreviation (input) TRACE_LEVEL_INFORMATION :: nat where "TRACE_LEVEL_INFORMATION \<equiv> 4"
abbreviation (input) TRACE_LEVEL_VERBOSE :: nat where "TRACE_LEVEL_VERBOSE \<equiv> 5"

text \<open>The modules that a message can name.\<close>

datatype trace_flag = TRACE_DRIVER | TRACE_DEVICE | TRACE_QUEUE | TRACE_IOCTL | TRACE_PNP | TRACE_POLL

definition DbgPrintEx :: "nat \<Rightarrow> nat \<Rightarrow> string \<Rightarrow> dbg_call list \<Rightarrow> dbg_call list" where
  "DbgPrintEx component level txt out = out @ [\<lparr>dbg_ComponentId = component, dbg_Level = level, dbg_Text = txt\<rparr>]"

definition TraceEvents :: "nat \<Rightarrow> trace_flag \<Rightarrow> string \<Rightarrow> dbg_call list \<Rightarrow> dbg_call list" where
  "TraceEvents level flags msg out = DbgPrintEx DPFLTR_IHVDRIVER_ID DPFLTR_INFO_LEVEL (''VNVME: '' @ msg @ [CHR 0x0A]) out"

definition TRACE_MOD_ERROR :: "trace_flag \<Rightarrow> string \<Rightarrow> dbg_call list \<Rightarrow> dbg_call list" where
  "TRACE_MOD_ERROR flag msg = TraceEvents TRACE_LEVEL_ERROR flag msg"

definition TRACE_MOD_WARN :: "trace_flag \<Rightarrow> string \<Rightarrow> dbg_call list \<Rightarrow> dbg_call list" where
  "TRACE_MOD_WARN flag msg = TraceEvents TRACE_LEVEL_WARNING flag msg"

definition TRACE_MOD_INFO :: "trace_flag \<Rightarrow> string \<Rightarrow> dbg_call list \<Rightarrow> dbg_call list" where
  "TRACE_MOD_INFO flag msg = TraceEvents TRACE_LEVEL_INFORMATION flag msg"

definition TRACE_MOD_DEBUG :: "trace_flag \<Rightarrow> string \<Rightarrow> dbg_call list \<Rightarrow> dbg_call list" where
  "TRACE_MOD_DEBUG flag msg = TraceEvents TRACE_LEVEL_VERBOSE flag msg"

definition TRACE_MOD_VERBOSE :: "trace_flag \<Rightarrow> string \<Rightarrow> dbg_call list \<Rightarrow> dbg_call list" where
  "TRACE_MOD_VERBOSE flag msg = TraceEvents TRACE_LEVEL_VERBOSE flag msg"

definition TRACE_ERROR :: "string \<Rightarrow> dbg_call list \<Rightarrow> dbg_call list" where
  "TRACE_ERROR msg = TRACE_MOD_ERROR TRACE_DRIVER msg"

definition TRACE_WARN :: "string \<Rightarrow> dbg_call list \<Rightarrow> dbg_call list" where
  "TRACE_WARN msg = TRACE_MOD_WARN TRACE_DRIVER msg"

definition TRACE_INFO :: "string \<Rightarrow> dbg_call list \<Rightarrow> dbg_call list" where
  "TRACE_INFO msg = TRACE_MOD_INFO TRACE_DRIVER msg"

definition TRACE_DEBUG :: "string \<Rightarrow> dbg_call list \<Rightarrow> dbg_call list" where
  "TRACE_DEBUG msg = TRACE_MOD_DEBUG TRACE_DRIVER msg"

definition TRACE_VERBOSE :: "string \<Rightarrow> dbg_call list \<Rightarrow> dbg_call list" where
  "TRACE_VERBOSE msg = TRACE_MOD_VERBOSE TRACE_DRIVER msg"

section \<open>Function traces and assertions\<close>

text \<open>\<open>%08X\<close>, for 32 bits: the eight digits from the highest on.\<close>

definition upper_digit :: "nat \<Rightarrow> char" where
  "upper_digit n = char_of (if n < 10 then 48 + n else 55 + n)"

definition hex08 :: "u32 \<Rightarrow> string" where
  "hex08 w = map (\<lambda>k. upper_digit (unat w div 16 ^ k mod 16)) [7, 6, 5, 4, 3, 2, 1, 0]"

text \<open>\<open>dbg\<close> is whether \<open>DBG\<close> is set, so whether it is a checked build, and \<open>fn\<close> the name of the enclosing function. A status is the 32-bit
  number here, which counts as success when it is not negative as a \<open>LONG\<close>.\<close>

definition TRACE_FUNC_ENTER :: "bool \<Rightarrow> string \<Rightarrow> dbg_call list \<Rightarrow> dbg_call list" where
  "TRACE_FUNC_ENTER dbg fn out = (if dbg then TraceEvents TRACE_LEVEL_VERBOSE TRACE_DRIVER (''>>> '' @ fn) out else out)"

definition TRACE_FUNC_EXIT :: "bool \<Rightarrow> string \<Rightarrow> dbg_call list \<Rightarrow> dbg_call list" where
  "TRACE_FUNC_EXIT dbg fn out = (if dbg then TraceEvents TRACE_LEVEL_VERBOSE TRACE_DRIVER (''<<< '' @ fn) out else out)"

definition TRACE_FUNC_EXIT_STATUS :: "bool \<Rightarrow> string \<Rightarrow> u32 \<Rightarrow> dbg_call list \<Rightarrow> dbg_call list" where
  "TRACE_FUNC_EXIT_STATUS dbg fn status out =
     (if dbg then TraceEvents TRACE_LEVEL_VERBOSE TRACE_DRIVER (''<<< '' @ fn @ '' (0x'' @ hex08 status @ '')'') out else out)"

definition TRACE_FUNC_EXIT_NTSTATUS :: "bool \<Rightarrow> string \<Rightarrow> u32 \<Rightarrow> dbg_call list \<Rightarrow> dbg_call list" where
  "TRACE_FUNC_EXIT_NTSTATUS dbg fn status out =
     (if \<not> dbg then out
      else if sint status \<ge> 0 then TraceEvents TRACE_LEVEL_VERBOSE TRACE_DRIVER (''<<< '' @ fn @ '' SUCCESS'') out
      else TraceEvents TRACE_LEVEL_INFORMATION TRACE_DRIVER (''<<< '' @ fn @ '' FAILED (0x'' @ hex08 status @ '')'') out)"

text \<open>An assertion also tells whether it stops in the debugger; \<open>VNVME_VERIFY\<close> is the assertion in a checked build and evaluates its
  expression, without a test, in the other.\<close>

definition VNVME_ASSERT :: "bool \<Rightarrow> string \<Rightarrow> nat \<Rightarrow> string \<Rightarrow> bool \<Rightarrow> dbg_call list \<Rightarrow> bool \<times> dbg_call list" where
  "VNVME_ASSERT dbg file line txt expr out =
     (if dbg \<and> \<not> expr
      then (True, DbgPrintEx DPFLTR_IHVDRIVER_ID DPFLTR_ERROR_LEVEL
              (''[VNVME:ASSERT] '' @ file @ '':'' @ digits line @ '': '' @ txt @ [CHR 0x0A]) out)
      else (False, out))"

definition VNVME_VERIFY :: "bool \<Rightarrow> string \<Rightarrow> nat \<Rightarrow> string \<Rightarrow> bool \<Rightarrow> dbg_call list \<Rightarrow> bool \<times> dbg_call list" where
  "VNVME_VERIFY dbg file line txt expr out = (if dbg then VNVME_ASSERT dbg file line txt expr out else (False, out))"

text \<open>Neither the level nor the module of a message reaches \<open>DbgPrintEx\<close>, so no setting of the driver filters: errors and verbose messages
  are printed at the same level.\<close>

lemma TraceEvents_unfiltered:
  "dbg_Level (last (TraceEvents level flags msg out)) = DPFLTR_INFO_LEVEL"
  "TRACE_MOD_ERROR flag msg = TRACE_MOD_VERBOSE flag' msg" "TRACE_ERROR msg = TRACE_VERBOSE msg"
  by (simp_all add: TraceEvents_def DbgPrintEx_def fun_eq_iff TRACE_MOD_ERROR_def TRACE_MOD_VERBOSE_def TRACE_ERROR_def TRACE_VERBOSE_def)

lemma upper_digit_inj: "a < 16 \<Longrightarrow> b < 16 \<Longrightarrow> upper_digit a = upper_digit b \<Longrightarrow> a = b"
proof -
  assume ab: "a < 16" "b < 16" and "upper_digit a = upper_digit b"
  then have "of_char (upper_digit a) = (of_char (upper_digit b) :: nat)" by simp
  with ab show "a = b" by (simp add: upper_digit_def split: if_splits)
qed

lemma nibbles: "n < 16 ^ k \<Longrightarrow> n = (\<Sum>i<k. n div 16 ^ i mod 16 * 16 ^ i)" for n :: nat
proof (induction k arbitrary: n)
  case (Suc k)
  then have "n div 16 = (\<Sum>i<k. n div 16 div 16 ^ i mod 16 * 16 ^ i)" by (intro Suc.IH) simp
  also have "\<dots> = (\<Sum>i<k. n div 16 ^ Suc i mod 16 * 16 ^ i)" by (simp add: div_mult2_eq)
  finally have "16 * (n div 16) = (\<Sum>i<k. n div 16 ^ Suc i mod 16 * 16 ^ Suc i)"
    by (simp only: sum_distrib_left) (simp add: mult.assoc mult.left_commute)
  moreover have "(\<Sum>i<Suc k. n div 16 ^ i mod 16 * 16 ^ i) = n mod 16 + (\<Sum>i<k. n div 16 ^ Suc i mod 16 * 16 ^ Suc i)"
    by (subst sum.lessThan_Suc_shift) simp
  ultimately show ?case using mult_div_mod_eq [of 16 n] by (simp only: add.commute)
qed simp

lemma hex08_inj: "hex08 v = hex08 w \<longleftrightarrow> v = w"
proof
  assume eq: "hex08 v = hex08 w"
  have "unat v div 16 ^ k mod 16 = unat w div 16 ^ k mod 16" if "k < 8" for k
  proof -
    have k: "k \<in> set [7, 6, 5, 4, 3, 2, 1, 0]" using that by (auto simp: less_Suc_eq eval_nat_numeral)
    have "upper_digit (unat v div 16 ^ k mod 16) = upper_digit (unat w div 16 ^ k mod 16)"
      using bspec [OF eq [unfolded hex08_def map_eq_conv] k] .
    then show ?thesis by (rule upper_digit_inj [rotated -1]) simp_all
  qed
  then have "(\<Sum>i<8. unat v div 16 ^ i mod 16 * 16 ^ i) = (\<Sum>i<8. unat w div 16 ^ i mod 16 * 16 ^ i)" by simp
  moreover have "unat x = (\<Sum>i<8. unat x div 16 ^ i mod 16 * 16 ^ i)" for x :: u32
    using unsigned_less [of x, where ?'a = nat] by (intro nibbles) simp
  ultimately show "v = w" by (metis word_unat_eq_iff)
qed simp

text \<open>The trace of an exit tells the failures apart.\<close>

lemma exit_trace_tells:
  "TRACE_FUNC_EXIT_NTSTATUS True fn v out = TRACE_FUNC_EXIT_NTSTATUS True fn w out
    \<longleftrightarrow> v = w \<or> sint v \<ge> 0 \<and> sint w \<ge> 0"
  by (auto simp: TRACE_FUNC_EXIT_NTSTATUS_def TraceEvents_def DbgPrintEx_def hex08_inj)

section \<open>Counting\<close>

definition VNVME_STATS_ADMIN_SUBMIT :: "VNVME_DEBUG_STATS \<Rightarrow> VNVME_DEBUG_STATS" where
  "VNVME_STATS_ADMIN_SUBMIT g = g\<lparr>ds_AdminCmdsSubmitted := ds_AdminCmdsSubmitted g + 1\<rparr>"

definition VNVME_STATS_ADMIN_COMPLETE :: "VNVME_DEBUG_STATS \<Rightarrow> VNVME_DEBUG_STATS" where
  "VNVME_STATS_ADMIN_COMPLETE g = g\<lparr>ds_AdminCmdsCompleted := ds_AdminCmdsCompleted g + 1\<rparr>"

definition VNVME_STATS_ADMIN_ERROR :: "VNVME_DEBUG_STATS \<Rightarrow> VNVME_DEBUG_STATS" where
  "VNVME_STATS_ADMIN_ERROR g = g\<lparr>ds_AdminCmdsErrors := ds_AdminCmdsErrors g + 1\<rparr>"

definition VNVME_STATS_IO_SUBMIT :: "VNVME_DEBUG_STATS \<Rightarrow> VNVME_DEBUG_STATS" where
  "VNVME_STATS_IO_SUBMIT g = g\<lparr>ds_IoCmdsSubmitted := ds_IoCmdsSubmitted g + 1\<rparr>"

definition VNVME_STATS_IO_COMPLETE :: "VNVME_DEBUG_STATS \<Rightarrow> VNVME_DEBUG_STATS" where
  "VNVME_STATS_IO_COMPLETE g = g\<lparr>ds_IoCmdsCompleted := ds_IoCmdsCompleted g + 1\<rparr>"

definition VNVME_STATS_IO_ERROR :: "VNVME_DEBUG_STATS \<Rightarrow> VNVME_DEBUG_STATS" where
  "VNVME_STATS_IO_ERROR g = g\<lparr>ds_IoCmdsErrors := ds_IoCmdsErrors g + 1\<rparr>"

definition VNVME_STATS_READ :: "u64 \<Rightarrow> VNVME_DEBUG_STATS \<Rightarrow> VNVME_DEBUG_STATS" where
  "VNVME_STATS_READ n g = g\<lparr>ds_BytesRead := ds_BytesRead g + n\<rparr>"

definition VNVME_STATS_WRITE :: "u64 \<Rightarrow> VNVME_DEBUG_STATS \<Rightarrow> VNVME_DEBUG_STATS" where
  "VNVME_STATS_WRITE n g = g\<lparr>ds_BytesWritten := ds_BytesWritten g + n\<rparr>"

definition VNVME_STATS_DBELL_POLL :: "VNVME_DEBUG_STATS \<Rightarrow> VNVME_DEBUG_STATS" where
  "VNVME_STATS_DBELL_POLL g = g\<lparr>ds_DoorbellPolls := ds_DoorbellPolls g + 1\<rparr>"

definition VNVME_STATS_DBELL_HIT :: "VNVME_DEBUG_STATS \<Rightarrow> VNVME_DEBUG_STATS" where
  "VNVME_STATS_DBELL_HIT g = g\<lparr>ds_DoorbellHits := ds_DoorbellHits g + 1\<rparr>"

lemmas stats_macros = VNVME_STATS_ADMIN_SUBMIT_def VNVME_STATS_ADMIN_COMPLETE_def VNVME_STATS_ADMIN_ERROR_def
  VNVME_STATS_IO_SUBMIT_def VNVME_STATS_IO_COMPLETE_def VNVME_STATS_IO_ERROR_def VNVME_STATS_READ_def VNVME_STATS_WRITE_def
  VNVME_STATS_DBELL_POLL_def VNVME_STATS_DBELL_HIT_def

text \<open>Each use of a macro is one interlocked operation, so what several processors count is some sequence of them.\<close>

datatype stats_event =
  AdminSubmit | AdminComplete | AdminError | IoSubmit | IoComplete | IoError | BytesIn u64 | BytesOut u64 | DoorbellPoll | DoorbellHit

primrec stats_count :: "stats_event \<Rightarrow> VNVME_DEBUG_STATS \<Rightarrow> VNVME_DEBUG_STATS" where
  "stats_count AdminSubmit g = VNVME_STATS_ADMIN_SUBMIT g"
| "stats_count AdminComplete g = VNVME_STATS_ADMIN_COMPLETE g"
| "stats_count AdminError g = VNVME_STATS_ADMIN_ERROR g"
| "stats_count IoSubmit g = VNVME_STATS_IO_SUBMIT g"
| "stats_count IoComplete g = VNVME_STATS_IO_COMPLETE g"
| "stats_count IoError g = VNVME_STATS_IO_ERROR g"
| "stats_count (BytesIn n) g = VNVME_STATS_READ n g"
| "stats_count (BytesOut n) g = VNVME_STATS_WRITE n g"
| "stats_count DoorbellPoll g = VNVME_STATS_DBELL_POLL g"
| "stats_count DoorbellHit g = VNVME_STATS_DBELL_HIT g"

lemma stats_count_commute: "stats_count e (stats_count f g) = stats_count f (stats_count e g)"
  by (cases e; cases f) (simp_all add: stats_macros add_ac)

text \<open>The order in which processors count does not matter, and nothing is lost: the counters of \<open>LONG64\<close> advance by the number of the uses, or by
  the sum of the bytes, modulo 64 bits.\<close>

lemma stats_order_irrelevant:
  assumes "mset es = mset fs"
  shows "fold stats_count es = fold stats_count fs"
  by (rule fold_multiset_equiv) (simp_all add: assms fun_eq_iff stats_count_commute)

lemma stats_totals:
  "ds_IoCmdsSubmitted (fold stats_count es g) = ds_IoCmdsSubmitted g + of_nat (count (mset es) IoSubmit)"
  "ds_AdminCmdsErrors (fold stats_count es g) = ds_AdminCmdsErrors g + of_nat (count (mset es) AdminError)"
  "ds_BytesRead (fold stats_count es g) = ds_BytesRead g + sum_list (map (\<lambda>e. case e of BytesIn n \<Rightarrow> n | _ \<Rightarrow> 0) es)"
  "ds_TotalLatency (fold stats_count es g) = ds_TotalLatency g"
  by (induction es arbitrary: g; simp; case_tac a; simp add: stats_macros add_ac)+

end
